(* ===== verification/Js_Prelude.thy ===== *)
theory Js_Prelude
  imports Complex_Main "HOL-Library.Multiset" "HOL-Library.List_Lexorder" "HOL-Library.Sublist"
begin

text \<open>
  The JavaScript values the modelled modules compute with, and the generic lemmas the
  component theories share.

  Numbers: a \<open>number\<close> is \<open>Fin r\<close> for an exact rational \<open>r\<close>, an infinity or \<open>NaN\<close>; the
  comparison operators are the partial ones of the language (every comparison with \<open>NaN\<close>
  is false).  Rounding of double arithmetic and the sign of zero are not modelled.
  Strings: a string is the list of its UTF-16 code units, as natural numbers; \<open>u ''abc''\<close>
  is the string with the given ASCII text.
  Values of static type \<open>unknown\<close> are \<open>jval\<close>; typed values are records and datatypes in
  the theory of their module.
  The collections \<open>js\<close> (evaluation of primitives) and \<open>jsdefs\<close> (validators to unfold) are
  filled here and by the component theories.
\<close>

named_theorems js \<open>evaluation rules of the JavaScript primitives\<close>
named_theorems jsdefs \<open>definitions of the payload validators\<close>

section \<open>Numbers\<close>

datatype jnum = Fin rat | PInf | NInf | NaN

instantiation jnum :: "{zero, one, uminus, times, ord}"
begin
definition zero_jnum :: jnum where "zero_jnum = Fin 0"
definition one_jnum :: jnum where "one_jnum = Fin 1"
fun uminus_jnum :: "jnum \<Rightarrow> jnum" where
  "uminus_jnum (Fin a) = Fin (- a)"
| "uminus_jnum PInf = NInf"
| "uminus_jnum NInf = PInf"
| "uminus_jnum NaN = NaN"
fun times_jnum :: "jnum \<Rightarrow> jnum \<Rightarrow> jnum" where
  "times_jnum (Fin a) (Fin b) = Fin (a * b)"
| "times_jnum NaN y = NaN"
| "times_jnum x NaN = NaN"
| "times_jnum (Fin a) y = (if a = 0 then NaN else if 0 < a then y else - y)"
| "times_jnum x (Fin b) = (if b = 0 then NaN else if 0 < b then x else - x)"
| "times_jnum x y = (if x = y then PInf else NInf)"
fun less_jnum :: "jnum \<Rightarrow> jnum \<Rightarrow> bool" where
  "less_jnum (Fin a) (Fin b) = (a < b)"
| "less_jnum (Fin a) y = (y = PInf)"
| "less_jnum NInf y = (y \<noteq> NInf \<and> y \<noteq> NaN)"
| "less_jnum x y = False"
definition less_eq_jnum :: "jnum \<Rightarrow> jnum \<Rightarrow> bool" where
  "less_eq_jnum x y \<longleftrightarrow> x < y \<or> (x = y \<and> x \<noteq> NaN)"
instance ..
end

instantiation jnum :: "{semigroup_add, numeral}"
begin
fun plus_jnum :: "jnum \<Rightarrow> jnum \<Rightarrow> jnum" where
  "plus_jnum (Fin a) (Fin b) = Fin (a + b)"
| "plus_jnum NaN y = NaN"
| "plus_jnum x NaN = NaN"
| "plus_jnum (Fin a) y = y"
| "plus_jnum x (Fin b) = x"
| "plus_jnum x y = (if x = y then x else NaN)"
instance
proof
  fix a b c :: jnum
  show "a + b + c = a + (b + c)"
    by (cases a; cases b; cases c) simp_all
qed
end

instantiation jnum :: minus
begin
definition minus_jnum :: "jnum \<Rightarrow> jnum \<Rightarrow> jnum" where "minus_jnum x y = x + - y"
instance ..
end

lemma jnum_numeral [simp]: "(numeral k :: jnum) = Fin (numeral k)"
proof (induction k)
  case One
  show ?case by (simp add: numeral_One one_jnum_def)
next
  case (Bit0 k)
  then show ?case by (simp only: numeral_Bit0 plus_jnum.simps)
next
  case (Bit1 k)
  then show ?case by (simp only: numeral_Bit1 plus_jnum.simps one_jnum_def)
qed

lemma jnum_consts [simp]: "(0 :: jnum) = Fin 0" "(1 :: jnum) = Fin 1"
  by (simp_all add: zero_jnum_def one_jnum_def)

lemma jnum_minus_Fin [simp]: "Fin a - Fin b = Fin (a - b)"
  by (simp add: minus_jnum_def)

lemma jnum_le_simps [simp]:
  "Fin a \<le> Fin b \<longleftrightarrow> a \<le> b" "\<not> NaN \<le> x" "\<not> x \<le> NaN" "\<not> NaN < x" "\<not> x < NaN"
  "Fin a \<le> PInf" "\<not> PInf \<le> Fin a" "NInf \<le> Fin a" "\<not> Fin a \<le> NInf" "NInf \<le> PInf" "\<not> PInf \<le> NInf"
  by (cases x; auto simp: less_eq_jnum_def)+

lemma jnum_less_simps [simp]: "Fin a < PInf" "\<not> PInf < x" "NInf < Fin a" "\<not> Fin a < NInf"
  by (cases x; simp)+

text \<open>Division, rounding and the \<open>Math\<close> and \<open>Number\<close> functions.\<close>

fun jdiv :: "jnum \<Rightarrow> jnum \<Rightarrow> jnum" where
  "jdiv (Fin a) (Fin b) =
     (if b \<noteq> 0 then Fin (a / b) else if a = 0 then NaN else if 0 < a then PInf else NInf)"
| "jdiv NaN y = NaN"
| "jdiv x NaN = NaN"
| "jdiv (Fin a) y = Fin 0"
| "jdiv x (Fin b) = (if 0 \<le> b then x else - x)"
| "jdiv x y = NaN"

definition jmax :: "jnum \<Rightarrow> jnum \<Rightarrow> jnum" where
  "jmax x y = (if x = NaN \<or> y = NaN then NaN else if x < y then y else x)"

definition jmin :: "jnum \<Rightarrow> jnum \<Rightarrow> jnum" where
  "jmin x y = (if x = NaN \<or> y = NaN then NaN else if y < x then y else x)"

text \<open>\<open>Math.round\<close> takes halves towards plus infinity.\<close>

fun jround :: "jnum \<Rightarrow> jnum" where
  "jround (Fin a) = Fin (of_int \<lfloor>a + 1/2\<rfloor>)" | "jround x = x"

fun jfloor :: "jnum \<Rightarrow> jnum" where
  "jfloor (Fin a) = Fin (of_int \<lfloor>a\<rfloor>)" | "jfloor x = x"

fun jceil :: "jnum \<Rightarrow> jnum" where
  "jceil (Fin a) = Fin (of_int \<lceil>a\<rceil>)" | "jceil x = x"

fun jabs :: "jnum \<Rightarrow> jnum" where
  "jabs (Fin a) = Fin \<bar>a\<bar>" | "jabs NaN = NaN" | "jabs x = PInf"

fun isFinite :: "jnum \<Rightarrow> bool" where
  "isFinite (Fin a) = True" | "isFinite x = False"

definition is_int :: "rat \<Rightarrow> bool" where
  "is_int a \<longleftrightarrow> of_int \<lfloor>a\<rfloor> = a"

fun isInteger :: "jnum \<Rightarrow> bool" where
  "isInteger (Fin a) = is_int a" | "isInteger x = False"

definition isSafeInteger :: "jnum \<Rightarrow> bool" where
  "isSafeInteger x \<longleftrightarrow> isInteger x \<and> Fin (- 9007199254740991) \<le> x \<and> x \<le> Fin 9007199254740991"

text \<open>\<open>===\<close> on numbers: \<open>NaN\<close> is not equal to itself.\<close>

definition jeq :: "jnum \<Rightarrow> jnum \<Rightarrow> bool" where
  "jeq x y \<longleftrightarrow> x = y \<and> x \<noteq> NaN"

abbreviation jint :: "int \<Rightarrow> jnum" where "jint n \<equiv> Fin (of_int n)"
abbreviation jnat :: "nat \<Rightarrow> jnum" where "jnat n \<equiv> Fin (of_nat n)"

lemma isFinite_iff: "isFinite x \<longleftrightarrow> (\<exists>a. x = Fin a)"
  by (cases x) auto

lemma is_int_iff: "is_int a \<longleftrightarrow> (\<exists>n. a = of_int n)"
  unfolding is_int_def by (metis floor_of_int)

lemma is_int_of_int [simp]: "is_int (of_int n)" "is_int (of_nat m)"
  by (auto simp: is_int_def)

lemma is_int_numeral [simp]:
  "is_int 0" "is_int 1" "is_int (numeral k)" "is_int (- numeral k)" "is_int (- 1)"
  by (auto simp: is_int_def)

lemma isInteger_iff: "isInteger x \<longleftrightarrow> (\<exists>n. x = jint n)"
  by (cases x) (auto simp: is_int_iff)

lemma isSafeInteger_jint [simp]:
  "isSafeInteger (Fin a) \<longleftrightarrow> is_int a \<and> \<bar>a\<bar> \<le> 9007199254740991"
  by (auto simp: isSafeInteger_def)

lemma isSafeInteger_isInteger: "isSafeInteger x \<Longrightarrow> isInteger x"
  by (simp add: isSafeInteger_def)

lemma jeq_Fin [simp]: "jeq (Fin a) (Fin b) \<longleftrightarrow> a = b"
  by (simp add: jeq_def)

lemma jmax_Fin [simp]: "jmax (Fin a) (Fin b) = Fin (max a b)"
  by (simp add: jmax_def max_def)

lemma jmin_Fin [simp]: "jmin (Fin a) (Fin b) = Fin (min a b)"
  by (simp add: jmin_def min_def)

lemma of_int_jnum_nonneg: "0 \<le> Fin a \<longleftrightarrow> 0 \<le> a"
  by simp

section \<open>Strings\<close>

type_synonym jstr = "nat list"

definition u :: "string \<Rightarrow> jstr" where
  "u s = map of_char s"

lemma u_eq_iff [simp]: "u s = u t \<longleftrightarrow> s = t"
  unfolding u_def by (rule inj_map_eq_map) (simp add: inj_def)

lemma u_Nil [simp]: "u [] = []" and u_eq_Nil [simp]: "u s = [] \<longleftrightarrow> s = []" "[] = u s \<longleftrightarrow> s = []"
  by (auto simp: u_def)

lemma length_u [simp]: "length (u s) = length s"
  by (simp add: u_def)

text \<open>White space and line terminators, as \<open>String.prototype.trim\<close> removes them.\<close>

definition js_ws :: "nat \<Rightarrow> bool" where
  "js_ws c \<longleftrightarrow> c = 32 \<or> (9 \<le> c \<and> c \<le> 13) \<or> c = 160 \<or> c = 5760 \<or> (8192 \<le> c \<and> c \<le> 8202)
     \<or> c = 8232 \<or> c = 8233 \<or> c = 8239 \<or> c = 8287 \<or> c = 12288 \<or> c = 65279"

definition trim :: "jstr \<Rightarrow> jstr" where
  "trim s = rev (dropWhile js_ws (rev (dropWhile js_ws s)))"

text \<open>The shape of a trimmed string: neither end is white space.\<close>

definition trimmed :: "jstr \<Rightarrow> bool" where
  "trimmed s \<longleftrightarrow> (s \<noteq> [] \<longrightarrow> \<not> js_ws (hd s) \<and> \<not> js_ws (last s))"

lemma dropWhile_last: "dropWhile P xs \<noteq> [] \<Longrightarrow> last (dropWhile P xs) = last xs"
  by (metis last_appendR takeWhile_dropWhile_id)

lemma hd_rev_dropWhile_rev:
  "rev (dropWhile P (rev xs)) \<noteq> [] \<Longrightarrow> hd (rev (dropWhile P (rev xs))) = hd xs"
  using dropWhile_last [of P "rev xs"] by (simp add: hd_rev last_rev)

lemma trim_trimmed [simp]: "trimmed (trim s)"
proof (cases "trim s = []")
  case True
  then show ?thesis by (simp add: trimmed_def)
next
  case False
  let ?d = "dropWhile js_ws s"
  have nonempty: "rev (dropWhile js_ws (rev ?d)) \<noteq> []" using False by (simp add: trim_def)
  then have "?d \<noteq> []" by (metis dropWhile.simps(1) rev.simps(1))
  then have "\<not> js_ws (hd ?d)" by (rule hd_dropWhile)
  moreover have "\<not> js_ws (hd (dropWhile js_ws (rev ?d)))"
    by (rule hd_dropWhile) (use nonempty in simp)
  ultimately show ?thesis
    using hd_rev_dropWhile_rev [OF nonempty] nonempty
    by (simp add: trimmed_def trim_def last_rev)
qed

lemma trim_trimmed_id: "trimmed s \<Longrightarrow> trim s = s"
proof (cases s)
  case (Cons c t)
  assume "trimmed s"
  with Cons have "\<not> js_ws c" "\<not> js_ws (last s)" by (auto simp: trimmed_def)
  then have "dropWhile js_ws s = s" using Cons by simp
  moreover have "dropWhile js_ws (rev s) = rev s"
    using \<open>\<not> js_ws (last s)\<close> by (metis dropWhile_eq_self_iff hd_rev)
  ultimately show ?thesis by (simp add: trim_def)
qed (simp add: trim_def)

lemma trim_trim [simp]: "trim (trim s) = trim s"
  by (rule trim_trimmed_id) simp

lemma trim_Nil [simp]: "trim [] = []"
  by (simp add: trim_def)

lemma trim_eq_Nil: "trim s = [] \<longleftrightarrow> (\<forall>c\<in>set s. js_ws c)"
proof -
  have "trim s = [] \<longleftrightarrow> (\<forall>c\<in>set (dropWhile js_ws s). js_ws c)"
    by (simp add: trim_def del: dropWhile_eq_self_iff)
  also have "\<dots> \<longleftrightarrow> dropWhile js_ws s = []"
    by (metis hd_dropWhile hd_in_set list.set_cases list.distinct(1))
  finally show ?thesis by simp
qed

lemma set_trim: "set (trim s) \<subseteq> set s"
  unfolding trim_def by (metis set_dropWhileD set_rev subsetI)

lemma length_trim: "length (trim s) \<le> length s"
  unfolding trim_def by (metis length_dropWhile_le le_trans length_rev)

text \<open>\<open>split\<close> at a one-unit separator and \<open>join\<close>.\<close>

fun split_on :: "nat \<Rightarrow> jstr \<Rightarrow> jstr list" where
  "split_on c [] = [[]]"
| "split_on c (x # xs) =
     (if x = c then [] # split_on c xs
      else case split_on c xs of [] \<Rightarrow> [[x]] | y # ys \<Rightarrow> (x # y) # ys)"

fun join :: "jstr \<Rightarrow> jstr list \<Rightarrow> jstr" where
  "join sep [] = []"
| "join sep [x] = x"
| "join sep (x # y # ys) = x @ sep @ join sep (y # ys)"

lemma split_on_nonempty [simp]: "split_on c s \<noteq> []"
  by (cases s) (auto split: list.splits)

lemma split_on_no_sep: "c \<notin> set s \<Longrightarrow> split_on c s = [s]"
  by (induction s) auto

lemma split_on_append: "c \<notin> set s \<Longrightarrow> split_on c (s @ c # t) = s # split_on c t"
  by (induction s) auto

lemma split_on_join:
  "xs \<noteq> [] \<Longrightarrow> \<forall>x\<in>set xs. c \<notin> set x \<Longrightarrow> split_on c (join [c] xs) = xs"
proof (induction xs rule: induct_list012)
  case (3 x y zs)
  then show ?case by (simp add: split_on_append)
qed (auto simp: split_on_no_sep)

lemma join_split_on: "join [c] (split_on c s) = s"
proof (induction s)
  case (Cons x xs)
  obtain y ys where "split_on c xs = y # ys"
    by (metis neq_Nil_conv split_on_nonempty)
  with Cons show ?case by (cases ys) auto
qed simp

lemma split_on_parts: "y \<in> set (split_on c s) \<Longrightarrow> c \<notin> set y \<and> set y \<subseteq> set s"
proof (induction s arbitrary: y)
  case (Cons x xs)
  obtain z zs where z: "split_on c xs = z # zs"
    by (metis neq_Nil_conv split_on_nonempty)
  show ?case
  proof (cases "x = c")
    case False
    with Cons.prems z have "y = x # z \<or> y \<in> set zs" by auto
    with Cons.IH [of z] Cons.IH [of y] z False show ?thesis by auto
  qed (use Cons in auto)
qed simp

text \<open>Decimal digits.\<close>

definition is_digit :: "nat \<Rightarrow> bool" where
  "is_digit c \<longleftrightarrow> 48 \<le> c \<and> c \<le> 57"

fun nat_str :: "nat \<Rightarrow> jstr" where
  "nat_str n = (if n < 10 then [48 + n] else nat_str (n div 10) @ [48 + n mod 10])"

declare nat_str.simps [simp del]

definition digits_val :: "jstr \<Rightarrow> nat" where
  "digits_val s = foldl (\<lambda>a c. 10 * a + (c - 48)) 0 s"

definition int_str :: "int \<Rightarrow> jstr" where
  "int_str n = (if n < 0 then 45 # nat_str (nat (- n)) else nat_str (nat n))"

lemma nat_str_nonempty [simp]: "nat_str n \<noteq> []"
  by (subst nat_str.simps) simp

lemma nat_str_digits: "c \<in> set (nat_str n) \<Longrightarrow> is_digit c"
proof (induction n rule: nat_str.induct)
  case (1 n)
  show ?case
  proof (cases "n < 10")
    case True
    with "1.prems" show ?thesis by (simp add: nat_str.simps [of n] is_digit_def)
  next
    case False
    then have "c \<in> set (nat_str (n div 10)) \<or> c = 48 + n mod 10"
      using "1.prems" by (subst (asm) nat_str.simps) auto
    with False "1.IH" show ?thesis
      by (auto simp: is_digit_def intro: Suc_leI order_trans [of "n mod 10"])
  qed
qed

lemma digits_val_snoc: "digits_val (s @ [c]) = 10 * digits_val s + (c - 48)"
  by (simp add: digits_val_def)

lemma digits_val_nat_str [simp]: "digits_val (nat_str n) = n"
proof (induction n rule: nat_str.induct)
  case (1 n)
  show ?case
  proof (cases "n < 10")
    case True
    then show ?thesis by (subst nat_str.simps) (simp add: digits_val_def)
  next
    case False
    with "1.IH" show ?thesis by (subst nat_str.simps) (simp add: digits_val_snoc)
  qed
qed

lemma nat_str_inject [simp]: "nat_str m = nat_str n \<longleftrightarrow> m = n"
  by (metis digits_val_nat_str)

lemma hd_nat_str: "0 < n \<Longrightarrow> hd (nat_str n) \<noteq> 48"
proof (induction n rule: nat_str.induct)
  case (1 n)
  show ?case
  proof (cases "n < 10")
    case True
    with "1.prems" show ?thesis by (subst nat_str.simps) simp
  next
    case False
    then have "0 < n div 10" by (simp add: div_greater_zero_iff)
    with False "1.IH" show ?thesis by (subst nat_str.simps) (simp add: hd_append)
  qed
qed

lemma nat_str_0 [simp]: "nat_str 0 = [48]"
  by (subst nat_str.simps) simp

lemma not_digit_nat_str: "\<not> is_digit c \<Longrightarrow> c \<notin> set (nat_str n)"
  using nat_str_digits by blast

lemma int_str_nat [simp]: "0 \<le> n \<Longrightarrow> int_str n = nat_str (nat n)"
  by (simp add: int_str_def)

text \<open>
  \<open>Number.prototype.toString\<close>: integers below \<open>10 ^ 21\<close> in decimal; a fraction by its decimal
  expansion, cut after twenty digits.
\<close>

fun frac_digits :: "nat \<Rightarrow> rat \<Rightarrow> jstr" where
  "frac_digits 0 r = []"
| "frac_digits (Suc k) r =
     (if r = 0 then []
      else (48 + nat \<lfloor>10 * r\<rfloor>) # frac_digits k (10 * r - of_int \<lfloor>10 * r\<rfloor>))"

fun num_str :: "jnum \<Rightarrow> jstr" where
  "num_str (Fin r) =
     (if is_int r then int_str \<lfloor>r\<rfloor>
      else (if r < 0 then [45] else []) @ nat_str (nat \<lfloor>\<bar>r\<bar>\<rfloor>) @ [46] @ frac_digits 20 (\<bar>r\<bar> - of_int \<lfloor>\<bar>r\<bar>\<rfloor>))"
| "num_str PInf = u ''Infinity''"
| "num_str NInf = u ''-Infinity''"
| "num_str NaN = u ''NaN''"

lemma num_str_nat [simp]: "num_str (jnat n) = nat_str n"
  by simp

text \<open>The last separator splits a text in one way.\<close>

lemma append_sep_unique:
  assumes "x \<notin> set b" "x \<notin> set b'"
  shows "a @ x # b = a' @ x # b' \<longleftrightarrow> a = a' \<and> b = b'"
proof -
  have t: "takeWhile (\<lambda>y. y \<noteq> x) (rev (c @ x # d)) = rev d" if "x \<notin> set d" for c d
  proof -
    have "takeWhile (\<lambda>y. y \<noteq> x) (rev d @ x # rev c) = rev d"
      using that by (subst takeWhile_append2) auto
    then show ?thesis by simp
  qed
  show ?thesis using t [OF assms(1), of a] t [OF assms(2), of a'] by fastforce
qed

lemma num_str_no_colon: "58 \<notin> set (num_str (jnat n))"
  using nat_str_digits [of 58 n] by (auto simp: is_digit_def)

text \<open>
  The characters (code points) a string iterates over: a surrogate pair is one character,
  a lone surrogate is one by itself.
\<close>

definition is_high :: "nat \<Rightarrow> bool" where "is_high c \<longleftrightarrow> 55296 \<le> c \<and> c < 56320"
definition is_low :: "nat \<Rightarrow> bool" where "is_low c \<longleftrightarrow> 56320 \<le> c \<and> c < 57344"

fun chars_of :: "jstr \<Rightarrow> jstr list" where
  "chars_of [] = []"
| "chars_of [c] = [[c]]"
| "chars_of (c # d # s) =
     (if is_high c \<and> is_low d then [c, d] # chars_of s else [c] # chars_of (d # s))"

lemma concat_chars_of [simp]: "concat (chars_of s) = s"
  by (induction s rule: chars_of.induct) auto

lemma length_chars_of: "length (chars_of s) \<le> length s"
  by (induction s rule: chars_of.induct) auto

text \<open>Two texts whose concatenation does not join the halves of a surrogate pair.\<close>

definition apart :: "jstr \<Rightarrow> jstr \<Rightarrow> bool" where
  "apart a b \<longleftrightarrow> \<not> (a \<noteq> [] \<and> b \<noteq> [] \<and> is_high (last a) \<and> is_low (hd b))"

lemma chars_of_apart: "apart a b \<Longrightarrow> chars_of (a @ b) = chars_of a @ chars_of b"
proof (induction a rule: chars_of.induct)
  case (2 c)
  then show ?case by (cases b) (auto simp: apart_def)
next
  case (3 c d s)
  show ?case
  proof (cases "is_high c \<and> is_low d")
    case True
    then have "apart s b" using 3(3) by (auto simp: apart_def is_high_def is_low_def split: if_splits)
    with 3(1) True show ?thesis by simp
  next
    case False
    have "apart (d # s) b" using 3(3) by (simp add: apart_def)
    with 3(2) False show ?thesis by auto
  qed
qed simp

lemma low_not_high: "is_low c \<Longrightarrow> \<not> is_high c"
  by (simp add: is_high_def is_low_def)

lemma chars_apart: "successively apart (chars_of s)"
proof (induction s rule: chars_of.induct)
  case (3 c d s)
  have h: "chars_of t \<noteq> [] \<Longrightarrow> hd (hd (chars_of t)) = hd t \<and> hd (chars_of t) \<noteq> [] \<and> t \<noteq> []" for t
    by (induction t rule: chars_of.induct) auto
  show ?case
  proof (cases "is_high c \<and> is_low d")
    case True
    with 3 h [of s] show ?thesis
      by (cases "chars_of s") (auto simp: apart_def dest: low_not_high)
  next
    case False
    with 3 h [of "d # s"] show ?thesis
      by (cases "chars_of (d # s)") (auto simp: apart_def)
  qed
qed simp_all

lemma char_alone: "ch \<in> set (chars_of s) \<Longrightarrow> ch \<noteq> [] \<and> chars_of ch = [ch]"
proof (induction s rule: chars_of.induct)
  case (3 c d s)
  then show ?case by (cases "is_high c \<and> is_low d") auto
qed auto

section \<open>Values of type \<open>unknown\<close>\<close>

datatype jval =
    JUndef | JNull | JBool bool | JNum jnum | JStr jstr
  | JArr "jval list" | JObj "(jstr \<times> jval) list"

definition isRecord :: "jval \<Rightarrow> bool" where
  "isRecord v = (case v of JObj kvs \<Rightarrow> True | _ \<Rightarrow> False)"

fun jget :: "jval \<Rightarrow> string \<Rightarrow> jval" where
  "jget (JObj kvs) k = (case map_of kvs (u k) of Some v \<Rightarrow> v | None \<Rightarrow> JUndef)"
| "jget v k = JUndef"

definition is_string :: "jval \<Rightarrow> bool" where
  "is_string v = (case v of JStr s \<Rightarrow> True | _ \<Rightarrow> False)"
definition is_boolean :: "jval \<Rightarrow> bool" where
  "is_boolean v = (case v of JBool b \<Rightarrow> True | _ \<Rightarrow> False)"
definition is_array :: "jval \<Rightarrow> bool" where
  "is_array v = (case v of JArr xs \<Rightarrow> True | _ \<Rightarrow> False)"
definition num_of :: "jval \<Rightarrow> jnum" where
  "num_of v = (case v of JNum n \<Rightarrow> n | _ \<Rightarrow> NaN)"
definition str_of :: "jval \<Rightarrow> jstr" where
  "str_of v = (case v of JStr s \<Rightarrow> s | _ \<Rightarrow> [])"
definition arr_of :: "jval \<Rightarrow> jval list" where
  "arr_of v = (case v of JArr xs \<Rightarrow> xs | _ \<Rightarrow> [])"
definition is_lit :: "jval \<Rightarrow> string \<Rightarrow> bool" where
  "is_lit v k \<longleftrightarrow> v = JStr (u k)"

text \<open>\<open>Number.isInteger\<close>, \<open>Number.isSafeInteger\<close>, \<open>Number.isFinite\<close> on any value.\<close>

definition v_isInteger :: "jval \<Rightarrow> bool" where
  "v_isInteger v = (case v of JNum n \<Rightarrow> isInteger n | _ \<Rightarrow> False)"
definition v_isSafeInteger :: "jval \<Rightarrow> bool" where
  "v_isSafeInteger v = (case v of JNum n \<Rightarrow> isSafeInteger n | _ \<Rightarrow> False)"
definition v_isFinite :: "jval \<Rightarrow> bool" where
  "v_isFinite v = (case v of JNum n \<Rightarrow> isFinite n | _ \<Rightarrow> False)"

fun truthy :: "jval \<Rightarrow> bool" where
  "truthy JUndef = False" | "truthy JNull = False" | "truthy (JBool b) = b"
| "truthy (JNum n) = (n \<noteq> Fin 0 \<and> n \<noteq> NaN)" | "truthy (JStr s) = (s \<noteq> [])"
| "truthy (JArr xs) = True" | "truthy (JObj kvs) = True"

text \<open>A property of an object literal that is present only when the option holds a value.\<close>

definition opt_prop :: "string \<Rightarrow> ('a \<Rightarrow> jval) \<Rightarrow> 'a option \<Rightarrow> (jstr \<times> jval) list" where
  "opt_prop k f x = (case x of None \<Rightarrow> [] | Some y \<Rightarrow> [(u k, f y)])"

text \<open>A value that is \<open>null\<close> when the option is empty.\<close>

definition nullable :: "('a \<Rightarrow> jval) \<Rightarrow> 'a option \<Rightarrow> jval" where
  "nullable f x = (case x of None \<Rightarrow> JNull | Some y \<Rightarrow> f y)"

lemma isRecord_simps [simp]:
  "isRecord (JObj kvs)" "\<not> isRecord JUndef" "\<not> isRecord JNull" "\<not> isRecord (JBool b)"
  "\<not> isRecord (JNum n)" "\<not> isRecord (JStr s)" "\<not> isRecord (JArr xs)"
  by (simp_all add: isRecord_def)

lemma isRecord_iff: "isRecord v \<longleftrightarrow> (\<exists>kvs. v = JObj kvs)"
  by (cases v) auto

lemma is_string_iff: "is_string v \<longleftrightarrow> (\<exists>s. v = JStr s)"
  by (cases v) (auto simp: is_string_def)

lemma is_boolean_iff: "is_boolean v \<longleftrightarrow> (\<exists>b. v = JBool b)"
  by (cases v) (auto simp: is_boolean_def)

lemma is_array_iff: "is_array v \<longleftrightarrow> (\<exists>xs. v = JArr xs)"
  by (cases v) (auto simp: is_array_def)

lemma jval_class_simps [simp]:
  "is_string (JStr s)" "\<not> is_string JUndef" "\<not> is_string JNull" "\<not> is_string (JBool b)"
  "\<not> is_string (JNum n)" "\<not> is_string (JArr xs)" "\<not> is_string (JObj kvs)"
  "is_boolean (JBool b)" "\<not> is_boolean JUndef" "\<not> is_boolean JNull" "\<not> is_boolean (JStr s)"
  "\<not> is_boolean (JNum n)" "\<not> is_boolean (JArr xs)" "\<not> is_boolean (JObj kvs)"
  "is_array (JArr xs)" "\<not> is_array JUndef" "\<not> is_array JNull" "\<not> is_array (JBool b)"
  "\<not> is_array (JNum n)" "\<not> is_array (JStr s)" "\<not> is_array (JObj kvs)"
  by (simp_all add: is_string_def is_boolean_def is_array_def)

lemma jval_sel_simps [simp]:
  "num_of (JNum n) = n" "str_of (JStr s) = s" "arr_of (JArr xs) = xs"
  "v_isInteger (JNum n) = isInteger n" "v_isSafeInteger (JNum n) = isSafeInteger n"
  "v_isFinite (JNum n) = isFinite n" "is_lit (JStr s) k \<longleftrightarrow> s = u k"
  "\<not> is_lit JUndef k" "\<not> is_lit JNull k" "\<not> is_lit (JNum n) k" "\<not> is_lit (JBool b) k"
  "\<not> is_lit (JArr xs) k" "\<not> is_lit (JObj kvs) k"
  by (simp_all add: num_of_def str_of_def arr_of_def v_isInteger_def v_isSafeInteger_def
      v_isFinite_def is_lit_def)

lemma v_class_iff:
  "v_isInteger v \<longleftrightarrow> (\<exists>n. v = JNum n \<and> isInteger n)"
  "v_isSafeInteger v \<longleftrightarrow> (\<exists>n. v = JNum n \<and> isSafeInteger n)"
  "v_isFinite v \<longleftrightarrow> (\<exists>n. v = JNum n \<and> isFinite n)"
  by (cases v; auto simp: v_isInteger_def v_isSafeInteger_def v_isFinite_def)+

lemma v_class_not [simp]:
  "\<not> v_isInteger JUndef" "\<not> v_isSafeInteger JUndef" "\<not> v_isFinite JUndef"
  "\<not> v_isInteger JNull" "\<not> v_isSafeInteger JNull" "\<not> v_isFinite JNull"
  "\<not> v_isInteger (JStr s)" "\<not> v_isSafeInteger (JStr s)" "\<not> v_isFinite (JStr s)"
  by (simp_all add: v_class_iff)

text \<open>Reading a property of an object literal, one property at a time.\<close>

lemma jget_lit [simp]:
  "jget (JObj []) k = JUndef"
  "jget (JObj ((u k', v) # kvs)) k = (if k' = k then v else jget (JObj kvs) k)"
  by auto

lemma jget_opt [simp]:
  "jget (JObj (opt_prop k' f x @ kvs)) k =
     (if k' = k \<and> x \<noteq> None then f (the x) else jget (JObj kvs) k)"
  by (auto simp: opt_prop_def split: option.splits)

declare jget.simps(1) [simp del]

text \<open>Exceptions a modelled operation throws.\<close>

datatype js_exn = TypeError | RangeError | SyntaxError | URIError | SecurityError | QuotaError
  | AbortError
  | ErrorMessage string

text \<open>The spread \<open>{...v, ...changes}\<close>: each change replaces the property or is appended.\<close>

fun obj_put :: "(jstr \<times> jval) list \<Rightarrow> jstr \<Rightarrow> jval \<Rightarrow> (jstr \<times> jval) list" where
  "obj_put [] k v = [(k, v)]"
| "obj_put (p # ps) k v = (if fst p = k then (k, v) # ps else p # obj_put ps k v)"

definition spread :: "jval \<Rightarrow> (jstr \<times> jval) list \<Rightarrow> jval" where
  "spread v changes =
     JObj (fold (\<lambda>(k, x) o'. obj_put o' k x) changes (case v of JObj kvs \<Rightarrow> kvs | _ \<Rightarrow> []))"

lemma map_of_obj_put: "map_of (obj_put kvs k v) = (map_of kvs)(k \<mapsto> v)"
  by (induction kvs) auto

lemma jget_spread:
  "jget (spread v changes) k =
     (case map_of (rev changes) (u k) of Some x \<Rightarrow> x | None \<Rightarrow> jget v k)"
proof -
  have f: "map_of (fold (\<lambda>(k, x) o'. obj_put o' k x) cs kvs) = map_of kvs ++ map_of (rev cs)" for cs kvs
    by (induction cs arbitrary: kvs) (auto simp: map_of_obj_put)
  show ?thesis
    by (cases v) (auto simp: spread_def jget.simps(1) f map_add_def split: option.splits)
qed

lemma isRecord_spread [simp]: "isRecord (spread v changes)"
  by (simp add: spread_def)

section \<open>\<open>Array.prototype.sort\<close>\<close>

text \<open>A stable sort by a comparator; the order of equal elements is kept.\<close>

fun insort_cmp :: "('a \<Rightarrow> 'a \<Rightarrow> int) \<Rightarrow> 'a \<Rightarrow> 'a list \<Rightarrow> 'a list" where
  "insort_cmp cmp x [] = [x]"
| "insort_cmp cmp x (y # ys) = (if cmp x y \<le> 0 then x # y # ys else y # insort_cmp cmp x ys)"

definition js_sort :: "('a \<Rightarrow> 'a \<Rightarrow> int) \<Rightarrow> 'a list \<Rightarrow> 'a list" where
  "js_sort cmp xs = foldr (insort_cmp cmp) xs []"

lemma mset_insort_cmp [simp]: "mset (insort_cmp cmp x xs) = add_mset x (mset xs)"
  by (induction xs) auto

lemma mset_js_sort [simp]: "mset (js_sort cmp xs) = mset xs"
  by (induction xs) (auto simp: js_sort_def)

lemma set_js_sort [simp]: "set (js_sort cmp xs) = set xs"
  by (metis mset_js_sort set_mset_mset)

lemma length_js_sort [simp]: "length (js_sort cmp xs) = length xs"
  by (metis mset_js_sort size_mset)

text \<open>What the language asks of a comparator for the result to be defined.\<close>

locale comparator =
  fixes cmp :: "'a \<Rightarrow> 'a \<Rightarrow> int"
  assumes total: "cmp x y \<le> 0 \<or> cmp y x \<le> 0"
    and trans: "cmp x y \<le> 0 \<Longrightarrow> cmp y z \<le> 0 \<Longrightarrow> cmp x z \<le> 0"
begin

lemma sorted_insort: "sorted_wrt (\<lambda>x y. cmp x y \<le> 0) xs \<Longrightarrow> sorted_wrt (\<lambda>x y. cmp x y \<le> 0) (insort_cmp cmp x xs)"
proof (induction xs)
  case (Cons y ys)
  have s: "set (insort_cmp cmp x ys) = insert x (set ys)"
    by (metis mset_insort_cmp set_mset_add_mset_insert set_mset_mset)
  show ?case
  proof (cases "cmp x y \<le> 0")
    case True
    with Cons.prems show ?thesis by (auto intro: trans)
  next
    case False
    then have "cmp y x \<le> 0" using total by blast
    with False Cons show ?thesis by (auto simp: s)
  qed
qed simp

lemma sorted_js_sort: "sorted_wrt (\<lambda>x y. cmp x y \<le> 0) (js_sort cmp xs)"
  by (induction xs) (simp_all add: js_sort_def sorted_insort)

lemma filter_insort:
  "sorted_wrt (\<lambda>x y. cmp x y \<le> 0) ys \<Longrightarrow> (\<And>y. P y \<Longrightarrow> cmp x y \<le> 0) \<Longrightarrow> P x \<Longrightarrow>
     filter P (insort_cmp cmp x ys) = x # filter P ys"
  by (induction ys) auto

lemma filter_insort_not: "\<not> P x \<Longrightarrow> filter P (insort_cmp cmp x ys) = filter P ys"
  by (induction ys) auto

text \<open>Stability: elements the comparator calls equal stay in their order.\<close>

lemma js_sort_stable:
  "filter (\<lambda>y. cmp a y \<le> 0 \<and> cmp y a \<le> 0) (js_sort cmp xs) = filter (\<lambda>y. cmp a y \<le> 0 \<and> cmp y a \<le> 0) xs"
proof (induction xs)
  case (Cons x xs)
  let ?P = "\<lambda>y. cmp a y \<le> 0 \<and> cmp y a \<le> 0"
  have e: "js_sort cmp (x # xs) = insort_cmp cmp x (js_sort cmp xs)" by (simp add: js_sort_def)
  show ?case
  proof (cases "?P x")
    case True
    then have "filter ?P (insort_cmp cmp x (js_sort cmp xs)) = x # filter ?P (js_sort cmp xs)"
      by (intro filter_insort) (auto intro: trans simp: sorted_js_sort)
    with True Cons e show ?thesis by simp
  next
    case False
    with Cons e show ?thesis by (simp add: filter_insort_not)
  qed
qed (simp add: js_sort_def)

end

text \<open>Comparing by a key in a linear order, as the sorts of the code do.\<close>

definition by_key :: "('a \<Rightarrow> 'b::linorder) \<Rightarrow> 'a \<Rightarrow> 'a \<Rightarrow> int" where
  "by_key f x y = (if f x < f y then - 1 else if f x = f y then 0 else 1)"

lemma by_key_le: "by_key f x y \<le> 0 \<longleftrightarrow> f x \<le> f y"
  by (auto simp: by_key_def)

interpretation key_order: comparator "by_key f"
  by unfold_locales (auto simp: by_key_le)

section \<open>Interfaces\<close>

text \<open>
  A codec: text that a decoder reads back.  Its providers are the JSON and the URI theories;
  its clients are the persisted snapshots and the URL builders.
\<close>

locale codec =
  fixes enc :: "'a \<Rightarrow> jstr" and dec :: "jstr \<Rightarrow> 'a option" and ok :: "'a \<Rightarrow> bool"
  assumes dec_enc: "ok x \<Longrightarrow> dec (enc x) = Some x"
begin

lemma enc_inject: "ok x \<Longrightarrow> ok y \<Longrightarrow> enc x = enc y \<longleftrightarrow> x = y"
  by (metis dec_enc option.inject)

lemma dec_enc_bind: "ok x \<Longrightarrow> Option.bind (dec (enc x)) f = f x"
  by (simp add: dec_enc)

end

end
