(* ===== verification/Js_Json.thy ===== *)
theory Js_Json
  imports Js_Prelude "HOL-Library.AList"
begin

text \<open>
  \<open>JSON.stringify\<close> and \<open>JSON.parse\<close> over \<open>jval\<close>: the modules persist their state as JSON
  text, and what they read back is what these two functions make of it.  A value is \<open>clean\<close>
  when JSON can carry it unchanged (no \<open>undefined\<close>, whole numbers below \<open>10 ^ 21\<close>, distinct
  property names); on clean values parsing inverts printing, which makes the pair an instance
  of the codec interface.
\<close>

section \<open>Printing\<close>

definition hex_digit :: "nat \<Rightarrow> nat" where
  "hex_digit n = (if n < 10 then 48 + n else 87 + n)"

definition u_escape :: "nat \<Rightarrow> jstr" where
  "u_escape c = [92, 117, hex_digit (c div 4096), hex_digit (c div 256 mod 16),
     hex_digit (c div 16 mod 16), hex_digit (c mod 16)]"

definition esc_unit :: "nat \<Rightarrow> jstr" where
  "esc_unit c =
     (if c = 34 then [92, 34] else if c = 92 then [92, 92] else if c = 8 then [92, 98]
      else if c = 9 then [92, 116] else if c = 10 then [92, 110] else if c = 12 then [92, 102]
      else if c = 13 then [92, 114] else if c < 32 \<or> is_high c \<or> is_low c then u_escape c else [c])"

fun quote_char :: "jstr \<Rightarrow> jstr" where
  "quote_char [c] = esc_unit c" | "quote_char cs = cs"

definition quote_body :: "jstr \<Rightarrow> jstr" where
  "quote_body s = concat (map quote_char (chars_of s))"

definition json_quote :: "jstr \<Rightarrow> jstr" where
  "json_quote s = [34] @ quote_body s @ [34]"

definition ser_members :: "(jstr \<times> jstr option) list \<Rightarrow> jstr list" where
  "ser_members ms = concat (map (\<lambda>(k, t). case t of None \<Rightarrow> [] | Some s \<Rightarrow> [json_quote k @ [58] @ s]) ms)"

primrec json_ser :: "jval \<Rightarrow> jstr option" where
  "json_ser JUndef = None"
| "json_ser JNull = Some (u ''null'')"
| "json_ser (JBool b) = Some (if b then u ''true'' else u ''false'')"
| "json_ser (JNum n) = Some (if isFinite n then num_str n else u ''null'')"
| "json_ser (JStr s) = Some (json_quote s)"
| "json_ser (JArr xs) =
     Some ([91] @ join [44] (map (\<lambda>t. case t of None \<Rightarrow> u ''null'' | Some s \<Rightarrow> s) (map json_ser xs)) @ [93])"
| "json_ser (JObj kvs) = Some ([123] @ join [44] (ser_members (map (map_prod id json_ser) kvs)) @ [125])"

text \<open>The text \<open>JSON.stringify\<close> hands to a consumer that converts its argument to a string.\<close>

definition json_stringify :: "jval \<Rightarrow> jstr" where
  "json_stringify v = (case json_ser v of Some s \<Rightarrow> s | None \<Rightarrow> u ''undefined'')"

section \<open>Parsing\<close>

definition json_ws :: "nat \<Rightarrow> bool" where
  "json_ws c \<longleftrightarrow> c = 32 \<or> c = 9 \<or> c = 10 \<or> c = 13"

definition skip_ws :: "jstr \<Rightarrow> jstr" where
  "skip_ws s = dropWhile json_ws s"

definition hex_val :: "nat \<Rightarrow> nat option" where
  "hex_val c = (if is_digit c then Some (c - 48) else if 97 \<le> c \<and> c \<le> 102 then Some (c - 87)
     else if 65 \<le> c \<and> c \<le> 70 then Some (c - 55) else None)"

definition hex4 :: "nat \<Rightarrow> nat \<Rightarrow> nat \<Rightarrow> nat \<Rightarrow> nat option" where
  "hex4 a b c d = (case (hex_val a, hex_val b, hex_val c, hex_val d) of
     (Some w, Some x, Some y, Some z) \<Rightarrow> Some (((w * 16 + x) * 16 + y) * 16 + z) | _ \<Rightarrow> None)"

definition unesc :: "nat \<Rightarrow> nat option" where
  "unesc e = (if e = 34 \<or> e = 92 \<or> e = 47 then Some e else if e = 98 then Some 8 else if e = 116 then Some 9
     else if e = 110 then Some 10 else if e = 102 then Some 12 else if e = 114 then Some 13 else None)"

fun unquote :: "jstr \<Rightarrow> (jstr \<times> jstr) option" where
  "unquote [] = None"
| "unquote (c # s) =
     (if c = 34 then Some ([], s) else if c < 32 then None
      else if c \<noteq> 92 then map_option (apfst (Cons c)) (unquote s)
      else (case s of [] \<Rightarrow> None
        | e # t \<Rightarrow>
            if e = 117 then
              (case t of a # b # d # f # r \<Rightarrow>
                 (case hex4 a b d f of None \<Rightarrow> None | Some n \<Rightarrow> map_option (apfst (Cons n)) (unquote r))
               | _ \<Rightarrow> None)
            else (case unesc e of None \<Rightarrow> None | Some n \<Rightarrow> map_option (apfst (Cons n)) (unquote t))))"

definition p_frac :: "jstr \<Rightarrow> (jstr \<times> jstr) option" where
  "p_frac s = (case s of [] \<Rightarrow> Some ([], s)
     | c # t \<Rightarrow> if c \<noteq> 46 then Some ([], s)
         else if takeWhile is_digit t = [] then None else Some (takeWhile is_digit t, dropWhile is_digit t))"

definition p_sign :: "jstr \<Rightarrow> bool \<times> jstr" where
  "p_sign s = (case s of [] \<Rightarrow> (False, s)
     | c # t \<Rightarrow> if c = 45 then (True, t) else if c = 43 then (False, t) else (False, s))"

definition p_exp :: "jstr \<Rightarrow> (int \<times> jstr) option" where
  "p_exp s = (case s of [] \<Rightarrow> Some (0, s)
     | c # t \<Rightarrow> if c \<noteq> 101 \<and> c \<noteq> 69 then Some (0, s)
         else let (neg, r) = p_sign t; ds = takeWhile is_digit r in
           if ds = [] then None
           else Some ((if neg then - 1 else 1) * int (digits_val ds), dropWhile is_digit r))"

definition p_num :: "jstr \<Rightarrow> (jval \<times> jstr) option" where
  "p_num s = (let neg = (s \<noteq> [] \<and> hd s = 45); r = (if neg then tl s else s); ds = takeWhile is_digit r in
     if ds = [] \<or> (hd ds = 48 \<and> 1 < length ds) then None
     else case p_frac (dropWhile is_digit r) of None \<Rightarrow> None
       | Some (fs, r') \<Rightarrow> (case p_exp r' of None \<Rightarrow> None
           | Some (e, r'') \<Rightarrow>
               Some (JNum (Fin ((if neg then - 1 else 1) * of_nat (digits_val (ds @ fs))
                 * (10 powi (e - int (length fs))))), r'')))"

text \<open>A repeated property name keeps its first position and its last value.\<close>

definition merge_props :: "(jstr \<times> jval) list \<Rightarrow> (jstr \<times> jval) list" where
  "merge_props kvs = foldl (\<lambda>acc (k, v). AList.update k v acc) [] kvs"

fun p_val :: "nat \<Rightarrow> jstr \<Rightarrow> (jval \<times> jstr) option"
  and p_elems :: "nat \<Rightarrow> jstr \<Rightarrow> (jval list \<times> jstr) option"
  and p_members :: "nat \<Rightarrow> jstr \<Rightarrow> ((jstr \<times> jval) list \<times> jstr) option" where
  "p_val 0 s = None"
| "p_val (Suc n) s =
     (case skip_ws s of [] \<Rightarrow> None
      | c # t \<Rightarrow>
          if c = 34 then map_option (apfst JStr) (unquote t)
          else if c = 91 then
            (if skip_ws t \<noteq> [] \<and> hd (skip_ws t) = 93 then Some (JArr [], tl (skip_ws t))
             else map_option (apfst JArr) (p_elems n t))
          else if c = 123 then
            (if skip_ws t \<noteq> [] \<and> hd (skip_ws t) = 125 then Some (JObj [], tl (skip_ws t))
             else map_option (apfst (JObj \<circ> merge_props)) (p_members n t))
          else if take 4 (c # t) = u ''null'' then Some (JNull, drop 4 (c # t))
          else if take 4 (c # t) = u ''true'' then Some (JBool True, drop 4 (c # t))
          else if take 5 (c # t) = u ''false'' then Some (JBool False, drop 5 (c # t))
          else p_num (c # t))"
| "p_elems 0 s = None"
| "p_elems (Suc n) s =
     (case p_val n s of None \<Rightarrow> None
      | Some (v, t) \<Rightarrow>
          (case skip_ws t of [] \<Rightarrow> None
           | c # r \<Rightarrow> if c = 44 then map_option (apfst (Cons v)) (p_elems n r)
                      else if c = 93 then Some ([v], r) else None))"
| "p_members 0 s = None"
| "p_members (Suc n) s =
     (case skip_ws s of [] \<Rightarrow> None
      | q # s1 \<Rightarrow> if q \<noteq> 34 then None
          else (case unquote s1 of None \<Rightarrow> None
            | Some (k, s2) \<Rightarrow>
                (case skip_ws s2 of [] \<Rightarrow> None
                 | c # s3 \<Rightarrow> if c \<noteq> 58 then None
                     else (case p_val n s3 of None \<Rightarrow> None
                       | Some (v, s4) \<Rightarrow>
                           (case skip_ws s4 of [] \<Rightarrow> None
                            | d # r \<Rightarrow> if d = 44 then map_option (apfst (Cons (k, v))) (p_members n r)
                                       else if d = 125 then Some ([(k, v)], r) else None)))))"

text \<open>\<open>None\<close> is the \<open>SyntaxError\<close> the parser throws.\<close>

definition json_parse :: "jstr \<Rightarrow> jval option" where
  "json_parse s = (case p_val (2 * length s + 2) s of None \<Rightarrow> None
     | Some (v, t) \<Rightarrow> if skip_ws t = [] then Some v else None)"

section \<open>Strings read back\<close>

definition units_ok :: "jstr \<Rightarrow> bool" where
  "units_ok s \<longleftrightarrow> (\<forall>c\<in>set s. c < 65536)"

lemma units_ok_u [simp]: "units_ok (u s)"
  by (auto simp: units_ok_def u_def intro: less_trans [OF nat_of_char_less_256])

lemma units_ok_simps [simp]:
  "units_ok []" "units_ok (c # s) \<longleftrightarrow> c < 65536 \<and> units_ok s"
  "units_ok (s @ t) \<longleftrightarrow> units_ok s \<and> units_ok t"
  by (auto simp: units_ok_def)

lemma units_ok_nat_str [simp]: "units_ok (nat_str n)"
  unfolding units_ok_def using nat_str_digits by (fastforce simp: is_digit_def)

lemma units_ok_trim [simp]: "units_ok s \<Longrightarrow> units_ok (trim s)"
  using set_trim by (auto simp: units_ok_def)

lemma chars_of_shape:
  "ch \<in> set (chars_of s) \<Longrightarrow> (\<exists>c. ch = [c] \<and> c \<in> set s) \<or> (\<exists>c d. ch = [c, d] \<and> is_high c \<and> is_low d)"
  by (induction s rule: chars_of.induct) (auto split: if_splits)

lemma hex_val_digit: "n < 16 \<Longrightarrow> hex_val (hex_digit n) = Some n"
  by (auto simp: hex_val_def hex_digit_def is_digit_def)

lemma hex4_escape:
  assumes "c < 65536"
  shows "hex4 (hex_digit (c div 4096)) (hex_digit (c div 256 mod 16)) (hex_digit (c div 16 mod 16))
    (hex_digit (c mod 16)) = Some c"
proof -
  have "c div 4096 < 16" using assms by (simp add: less_mult_imp_div_less)
  moreover have "((c div 4096 * 16 + c div 256 mod 16) * 16 + c div 16 mod 16) * 16 + c mod 16 = c"
  proof -
    have "c div 256 = c div 16 div 16" "c div 4096 = c div 256 div 16"
      by (simp_all add: div_mult2_eq [symmetric])
    then show ?thesis by (simp only: div_mult_mod_eq)
  qed
  ultimately show ?thesis by (simp add: hex4_def hex_val_digit)
qed

lemma unquote_u_escape:
  "c < 65536 \<Longrightarrow> unquote (u_escape c @ t) = map_option (apfst (Cons c)) (unquote t)"
  by (simp add: u_escape_def hex4_escape)

lemma unquote_esc_unit:
  assumes "c < 65536"
  shows "unquote (esc_unit c @ t) = map_option (apfst (Cons c)) (unquote t)"
proof -
  consider "c \<in> {34, 92, 8, 9, 10, 12, 13}" | "esc_unit c = u_escape c"
    | "esc_unit c = [c]" "c \<noteq> 34" "c \<noteq> 92" "\<not> c < 32"
    by (cases "c \<in> {34, 92, 8, 9, 10, 12, 13}"; cases "c < 32 \<or> is_high c \<or> is_low c")
      (simp_all add: esc_unit_def)
  then show ?thesis
  proof cases
    case 1
    then show ?thesis by (auto simp: esc_unit_def unesc_def)
  next
    case 2
    with assms show ?thesis by (simp add: unquote_u_escape)
  next
    case 3
    then show ?thesis by simp
  qed
qed

lemma unquote_quote_char:
  assumes "ch \<in> set (chars_of s)" "units_ok s"
  shows "unquote (quote_char ch @ t) = map_option (apfst ((@) ch)) (unquote t)"
  using chars_of_shape [OF assms(1)]
proof (elim disjE exE conjE)
  fix c assume "ch = [c]" "c \<in> set s"
  with assms show ?thesis
    by (simp add: unquote_esc_unit units_ok_def)
      (cases "unquote t"; auto simp: apfst_def map_prod_def)
next
  fix c d assume "ch = [c, d]" "is_high c" "is_low d"
  then show ?thesis by (cases "unquote t") (auto simp: is_high_def is_low_def)
qed

lemma unquote_quote_body: "units_ok s \<Longrightarrow> unquote (quote_body s @ 34 # t) = Some (s, t)"
proof -
  assume ok: "units_ok s"
  have "set chs \<subseteq> set (chars_of s) \<Longrightarrow>
    unquote (concat (map quote_char chs) @ 34 # t) = Some (concat chs, t)" for chs
  proof (induction chs)
    case (Cons ch chs)
    then have "ch \<in> set (chars_of s)" by simp
    from unquote_quote_char [OF this ok] Cons show ?case by simp
  qed simp
  from this [of "chars_of s"] show ?thesis by (simp add: quote_body_def)
qed

section \<open>Numbers read back\<close>

definition num_end :: "jstr \<Rightarrow> bool" where
  "num_end t \<longleftrightarrow> (t = [] \<or> (\<not> is_digit (hd t) \<and> hd t \<notin> {46, 101, 69}))"

lemma span_digits:
  "(\<And>c. c \<in> set ds \<Longrightarrow> is_digit c) \<Longrightarrow> t = [] \<or> \<not> is_digit (hd t) \<Longrightarrow>
   takeWhile is_digit (ds @ t) = ds \<and> dropWhile is_digit (ds @ t) = t"
  by (induction ds) (cases t; auto)+

lemma p_num_nat_str:
  assumes "num_end t"
  shows "p_num (nat_str n @ t) = Some (JNum (jnat n), t)"
    and "p_num (45 # nat_str n @ t) = Some (JNum (jint (- int n)), t)"
proof -
  have span: "takeWhile is_digit (nat_str n @ t) = nat_str n" "dropWhile is_digit (nat_str n @ t) = t"
    using span_digits [of "nat_str n" t, OF nat_str_digits] assms by (auto simp: num_end_def)
  have rest: "p_frac t = Some ([], t)" "p_exp t = Some (0, t)"
    using assms by (auto simp: p_frac_def p_exp_def num_end_def split: list.splits)
  have lead: "\<not> (hd (nat_str n) = 48 \<and> 1 < length (nat_str n))"
    using hd_nat_str [of n] by (cases "n = 0") auto
  have "is_digit (hd (nat_str n))" using nat_str_digits hd_in_set nat_str_nonempty by blast
  then have sign: "hd (nat_str n) \<noteq> 45" by (auto simp: is_digit_def)
  show "p_num (nat_str n @ t) = Some (JNum (jnat n), t)"
    using span rest lead sign by (simp add: p_num_def Let_def del: One_nat_def)
  show "p_num (45 # nat_str n @ t) = Some (JNum (jint (- int n)), t)"
    using span rest lead by (simp add: p_num_def Let_def del: One_nat_def)
qed

lemma p_num_int:
  assumes "num_end t" "is_int r"
  shows "p_num (num_str (Fin r) @ t) = Some (JNum (Fin r), t)"
proof -
  obtain n where r: "r = of_int n" using assms(2) by (auto simp: is_int_iff)
  show ?thesis
  proof (cases "n < 0")
    case True
    then show ?thesis using p_num_nat_str(2) [OF assms(1), of "nat (- n)"] r
      by (simp add: int_str_def)
  next
    case False
    then show ?thesis using p_num_nat_str(1) [OF assms(1), of "nat n"] r
      by (simp add: int_str_def)
  qed
qed

section \<open>Round trip\<close>

definition num_clean :: "jnum \<Rightarrow> bool" where
  "num_clean n = (case n of Fin r \<Rightarrow> is_int r \<and> \<bar>r\<bar> < 10 ^ 21 | _ \<Rightarrow> False)"

primrec clean :: "jval \<Rightarrow> bool" where
  "clean JUndef = False"
| "clean JNull = True"
| "clean (JBool b) = True"
| "clean (JNum n) = num_clean n"
| "clean (JStr s) = units_ok s"
| "clean (JArr xs) = list_all id (map clean xs)"
| "clean (JObj kvs) = (distinct (map fst kvs) \<and>
     list_all (\<lambda>(k, b). units_ok k \<and> b) (map (map_prod id clean) kvs))"

definition json_text :: "jval \<Rightarrow> jstr" where
  "json_text v = (case json_ser v of Some s \<Rightarrow> s | None \<Rightarrow> u ''null'')"

lemma skip_ws_nonws: "s \<noteq> [] \<Longrightarrow> \<not> json_ws (hd s) \<Longrightarrow> skip_ws s = s"
  by (cases s) (auto simp: skip_ws_def)

lemma skip_ws_id [simp]: "\<not> json_ws c \<Longrightarrow> skip_ws (c # s) = c # s"
  by (simp add: skip_ws_def)

lemma json_ws_sep [simp]:
  "\<not> json_ws 44" "\<not> json_ws 93" "\<not> json_ws 125" "\<not> json_ws 58" "\<not> json_ws 34" "\<not> json_ws 91" "\<not> json_ws 123"
  by (simp_all add: json_ws_def)

lemma num_end_sep [simp]: "num_end (44 # t)" "num_end (93 # t)" "num_end (125 # t)" "num_end []"
  by (simp_all add: num_end_def is_digit_def)

text \<open>No value starts with white space or with a closing bracket.\<close>

lemma num_str_head:
  assumes "is_int r"
  shows "num_str (Fin r) \<noteq> [] \<and> (is_digit (hd (num_str (Fin r))) \<or> hd (num_str (Fin r)) = 45)"
proof -
  have "is_digit (hd (nat_str n))" for n using nat_str_digits hd_in_set nat_str_nonempty by blast
  with assms show ?thesis by (simp add: int_str_def)
qed

lemma json_text_head:
  assumes "clean v"
  shows "json_text v \<noteq> []"
    and "hd (json_text v) = 34 \<or> hd (json_text v) = 91 \<or> hd (json_text v) = 123 \<or> hd (json_text v) = 45
      \<or> is_digit (hd (json_text v)) \<or> hd (json_text v) \<in> {110, 116, 102}"
  using assms num_str_head
  by (cases v; auto simp: json_text_def json_quote_def u_def num_clean_def split: jnum.splits)+

lemma json_text_skip:
  assumes "clean v"
  shows "skip_ws (json_text v @ t) = json_text v @ t"
    and "hd (json_text v @ t) \<noteq> 93" "hd (json_text v @ t) \<noteq> 125"
  using json_text_head [OF assms]
  by (auto intro!: skip_ws_nonws simp: json_ws_def is_digit_def hd_append)

lemma merge_props_distinct: "distinct (map fst kvs) \<Longrightarrow> merge_props kvs = kvs"
proof -
  have upd: "k \<notin> fst ` set acc \<Longrightarrow> AList.update k v acc = acc @ [(k, v)]" for k v and acc :: "(jstr \<times> jval) list"
    by (induction acc) auto
  have "distinct (map fst (acc @ kvs)) \<Longrightarrow>
    foldl (\<lambda>acc (k, v). AList.update k v acc) acc kvs = acc @ kvs" for acc
  proof (induction kvs arbitrary: acc)
    case (Cons kv kvs)
    then show ?case by (cases kv) (simp add: upd)
  qed simp
  from this [of "[]"] show "distinct (map fst kvs) \<Longrightarrow> merge_props kvs = kvs"
    by (simp add: merge_props_def)
qed

definition member_text :: "jstr \<times> jval \<Rightarrow> jstr" where
  "member_text kv = json_quote (fst kv) @ 58 # json_text (snd kv)"

lemma json_ser_clean: "clean v \<Longrightarrow> json_ser v = Some (json_text v)"
  by (cases v) (auto simp: json_text_def)

lemma json_text_arr: "json_text (JArr xs) = 91 # join [44] (map json_text xs) @ [93]"
proof -
  have "case_option (u ''null'') (\<lambda>s. s) \<circ> json_ser = json_text"
    by (rule ext) (simp add: json_text_def)
  then show ?thesis by (subst json_text_def) simp
qed

lemma ser_members_Cons:
  "ser_members ((k, Some s) # ms) = (json_quote k @ 58 # s) # ser_members ms"
  by (simp add: ser_members_def)

lemma ser_members_clean:
  "(\<And>k v. (k, v) \<in> set kvs \<Longrightarrow> clean v) \<Longrightarrow>
   ser_members (map (map_prod id json_ser) kvs) = map member_text kvs"
proof (induction kvs)
  case (Cons kv kvs)
  obtain k v where kv: "kv = (k, v)" by (cases kv)
  have "json_ser v = Some (json_text v)" using Cons.prems [of k v] kv by (simp add: json_ser_clean)
  moreover have "ser_members (map (map_prod id json_ser) kvs) = map member_text kvs"
    by (rule Cons.IH) (use Cons.prems in auto)
  ultimately show ?case using kv by (simp add: ser_members_Cons member_text_def [of "(k, v)"] id_def)
qed (simp add: ser_members_def)

lemma clean_obj_iff:
  "clean (JObj kvs) \<longleftrightarrow> distinct (map fst kvs) \<and> (\<forall>(k, v)\<in>set kvs. units_ok k \<and> clean v)"
  by (auto simp: list_all_iff)

lemma json_text_obj:
  "clean (JObj kvs) \<Longrightarrow> json_text (JObj kvs) = 123 # join [44] (map member_text kvs) @ [125]"
  unfolding clean_obj_iff by (subst json_text_def, subst json_ser.simps, subst ser_members_clean) auto

definition reads_back :: "jval \<Rightarrow> bool" where
  "reads_back v \<longleftrightarrow> (\<forall>n t. length (json_text v) < n \<longrightarrow> num_end t \<longrightarrow> p_val n (json_text v @ t) = Some (v, t))"

lemma p_elems_reads:
  assumes "xs \<noteq> []" "\<forall>x\<in>set xs. clean x \<and> reads_back x"
    "length (join [44] (map json_text xs)) + 1 < n"
  shows "p_elems n (join [44] (map json_text xs) @ 93 # t) = Some (xs, t)"
  using assms
proof (induction xs arbitrary: n rule: induct_list012)
  case (2 x)
  then obtain m where n: "n = Suc m" by (cases n) auto
  with 2 have "p_val m (json_text x @ 93 # t) = Some (x, 93 # t)" by (simp add: reads_back_def)
  with n show ?case by simp
next
  case (3 x y zs)
  let ?r = "join [44] (map json_text (y # zs)) @ 93 # t"
  obtain m where n: "n = Suc m" using 3 by (cases n) auto
  have "json_text x \<noteq> []" using "3.prems" json_text_head by simp
  then have len: "length (json_text x) < m" "length (join [44] (map json_text (y # zs))) + 1 < m"
    using "3.prems"(3) n by (cases "json_text x"; simp)+
  have "p_val m (json_text x @ 44 # ?r) = Some (x, 44 # ?r)"
    using "3.prems" len by (simp add: reads_back_def)
  moreover have "p_elems m ?r = Some (y # zs, t)"
    by (rule "3.IH"(2)) (use "3.prems" len in auto)
  ultimately show ?case using n by simp
qed simp

lemma p_members_reads:
  assumes "kvs \<noteq> []" "\<forall>(k, v)\<in>set kvs. units_ok k \<and> clean v \<and> reads_back v"
    "length (join [44] (map member_text kvs)) + 1 < n"
  shows "p_members n (join [44] (map member_text kvs) @ 125 # t) = Some (kvs, t)"
  using assms
proof (induction kvs arbitrary: n rule: induct_list012)
  case (2 kv)
  obtain k v where kv: "kv = (k, v)" by (cases kv)
  obtain m where n: "n = Suc m" using 2 by (cases n) auto
  have "p_val m (json_text v @ 125 # t) = Some (v, 125 # t)"
    using 2 n kv by (simp add: reads_back_def member_text_def)
  with 2 n kv show ?case by (simp add: member_text_def json_quote_def unquote_quote_body)
next
  case (3 kv kw kvs)
  let ?r = "join [44] (map member_text (kw # kvs)) @ 125 # t"
  obtain k v where kv: "kv = (k, v)" by (cases kv)
  obtain m where n: "n = Suc m" using 3 by (cases n) auto
  have len: "length (json_text v) < m" "length (join [44] (map member_text (kw # kvs))) + 1 < m"
    using "3.prems"(3) n kv by (simp_all add: member_text_def [of "(k, v)"])
  have "p_val m (json_text v @ 44 # ?r) = Some (v, 44 # ?r)"
    using "3.prems" len kv by (simp add: reads_back_def)
  moreover have "p_members m ?r = Some (kw # kvs, t)"
    by (rule "3.IH"(2)) (use "3.prems" len in auto)
  ultimately show ?case using "3.prems" n kv
    by (simp add: member_text_def [of "(k, v)"] json_quote_def unquote_quote_body)
qed simp

lemma reads_back_num: "clean (JNum n) \<Longrightarrow> reads_back (JNum n)"
proof -
  assume c: "clean (JNum n)"
  then obtain r where n: "n = Fin r" "is_int r" by (auto simp: num_clean_def split: jnum.splits)
  have txt_eq: "json_text (JNum n) = num_str (Fin r)" using n by (simp add: json_text_def)
  show ?thesis unfolding reads_back_def txt_eq
  proof (intro allI impI)
    fix m t assume "length (num_str (Fin r)) < m" and t: "num_end t"
    then obtain k where m: "m = Suc k" by (cases m) auto
    obtain c s where cs: "num_str (Fin r) = c # s" "is_digit c \<or> c = 45"
      using num_str_head [OF n(2)] by (metis list.collapse list.sel(1))
    have "skip_ws (c # s @ t) = c # s @ t"
      using cs(2) by (intro skip_ws_nonws) (auto simp: json_ws_def is_digit_def)
    moreover have "c \<notin> {34, 91, 123, 110, 116, 102}" using cs(2) by (auto simp: is_digit_def)
    moreover have "take (Suc k') (c # s @ t) \<noteq> u (h # w)" if "c \<noteq> of_char h" for k' h w
      using that by (simp add: u_def)
    ultimately have "p_val m (num_str (Fin r) @ t) = p_num (num_str (Fin r) @ t)"
      using cs m by (simp add: u_def numeral_eq_Suc)
    with p_num_int [OF t n(2)] n show "p_val m (num_str (Fin r) @ t) = Some (JNum n, t)" by simp
  qed
qed

lemma clean_reads_back: "clean v \<Longrightarrow> reads_back v"
proof (induction v)
  case (JArr xs)
  have el: "\<forall>x\<in>set xs. clean x \<and> reads_back x" using JArr by (auto simp: list_all_iff)
  show ?case unfolding reads_back_def json_text_arr
  proof (intro allI impI)
    fix n t
    assume len: "length (91 # join [44] (map json_text xs) @ [93]) < n"
    then obtain m where n: "n = Suc m" by (cases n) auto
    show "p_val n ((91 # join [44] (map json_text xs) @ [93]) @ t) = Some (JArr xs, t)"
    proof (cases xs)
      case Nil
      with n show ?thesis by simp
    next
      case (Cons y ys)
      let ?b = "join [44] (map json_text xs) @ 93 # t"
      have head: "\<exists>r. ?b = json_text y @ r" using Cons by (cases ys) auto
      have "clean y" using el Cons by simp
      with head have "skip_ws ?b = ?b" "hd ?b \<noteq> 93" by (metis json_text_skip)+
      moreover have "p_elems m ?b = Some (xs, t)"
        by (rule p_elems_reads) (use el len n Cons in auto)
      ultimately show ?thesis using n by simp
    qed
  qed
next
  case (JObj kvs)
  have el: "\<forall>(k, v)\<in>set kvs. units_ok k \<and> clean v \<and> reads_back v"
  proof (clarify)
    fix k v assume kv: "(k, v) \<in> set kvs"
    then have "units_ok k \<and> clean v" using JObj.prems unfolding clean_obj_iff by blast
    moreover have "clean v \<Longrightarrow> reads_back v" by (rule JObj.IH [OF kv]) simp_all
    ultimately show "units_ok k \<and> clean v \<and> reads_back v" by blast
  qed
  have dist: "distinct (map fst kvs)" using JObj.prems by simp
  show ?case unfolding reads_back_def json_text_obj [OF JObj.prems]
  proof (intro allI impI)
    fix n t
    assume len: "length (123 # join [44] (map member_text kvs) @ [125]) < n"
    then obtain m where n: "n = Suc m" by (cases n) auto
    show "p_val n ((123 # join [44] (map member_text kvs) @ [125]) @ t) = Some (JObj kvs, t)"
    proof (cases kvs)
      case Nil
      with n show ?thesis by simp
    next
      case (Cons kv kws)
      let ?b = "join [44] (map member_text kvs) @ 125 # t"
      have "\<exists>r. ?b = 34 # r" using Cons by (cases kws) (auto simp: member_text_def json_quote_def)
      then have "skip_ws ?b = ?b" "hd ?b \<noteq> 125" by auto
      moreover have "p_members m ?b = Some (kvs, t)"
        by (rule p_members_reads) (use el len n Cons in auto)
      ultimately show ?thesis using n by (simp add: merge_props_distinct dist)
    qed
  qed
next
  case (JNum n)
  then show ?case by (rule reads_back_num)
next
  case (JStr s)
  show ?case unfolding reads_back_def
  proof (intro allI impI)
    fix n t assume "length (json_text (JStr s)) < n"
    then obtain m where "n = Suc m" by (cases n) auto
    with JStr show "p_val n (json_text (JStr s) @ t) = Some (JStr s, t)"
      by (simp add: json_text_def json_quote_def unquote_quote_body)
  qed
next
  case JNull
  show ?case unfolding reads_back_def
  proof (intro allI impI)
    fix n t assume "length (json_text JNull) < n"
    then obtain m where "n = Suc m" by (cases n) auto
    then show "p_val n (json_text JNull @ t) = Some (JNull, t)"
      by (simp add: json_text_def u_def json_ws_def)
  qed
next
  case (JBool b)
  show ?case unfolding reads_back_def
  proof (intro allI impI)
    fix n t assume "length (json_text (JBool b)) < n"
    then obtain m where "n = Suc m" by (cases n) auto
    then show "p_val n (json_text (JBool b) @ t) = Some (JBool b, t)"
      by (cases b) (simp_all add: json_text_def u_def json_ws_def)
  qed
qed simp

text \<open>Parsing inverts printing on clean values.\<close>

theorem json_roundtrip: "clean v \<Longrightarrow> json_parse (json_stringify v) = Some v"
proof -
  assume c: "clean v"
  have s: "json_stringify v = json_text v" using json_ser_clean [OF c] by (simp add: json_stringify_def)
  have "p_val (2 * length (json_text v) + 2) (json_text v @ []) = Some (v, [])"
    using clean_reads_back [OF c, unfolded reads_back_def, rule_format, of "2 * length (json_text v) + 2" "[]"]
    by (simp del: p_val.simps)
  then show ?thesis by (simp add: json_parse_def s skip_ws_def del: p_val.simps)
qed

interpretation json: codec json_stringify json_parse clean
  by unfold_locales (rule json_roundtrip)

end
