(* ===== verification/Js_Storage.thy ===== *)
theory Js_Storage
  imports Js_Json
begin

text \<open>
  Web storage (\<open>localStorage\<close>, \<open>sessionStorage\<close>): a map from keys to text whose operations may
  throw when the browser denies them.  The interface \<open>web_storage\<close> is what the modules that
  persist state rely on; \<open>text_slot\<close> combines it with a codec into the law every
  write-then-read property rests on.
\<close>

record storage =
  items :: "jstr \<rightharpoonup> jstr"
  get_denied :: bool
  set_denied :: bool
  remove_denied :: bool

definition getItem :: "storage \<Rightarrow> jstr \<Rightarrow> js_exn + jstr option" where
  "getItem st k = (if get_denied st then Inl SecurityError else Inr (items st k))"

definition setItem :: "storage \<Rightarrow> jstr \<Rightarrow> jstr \<Rightarrow> js_exn + storage" where
  "setItem st k v = (if set_denied st then Inl QuotaError else Inr (st\<lparr>items := (items st)(k \<mapsto> v)\<rparr>))"

definition removeItem :: "storage \<Rightarrow> jstr \<Rightarrow> js_exn + storage" where
  "removeItem st k = (if remove_denied st then Inl SecurityError else Inr (st\<lparr>items := (items st)(k := None)\<rparr>))"

definition empty_storage :: storage where
  "empty_storage = \<lparr>items = Map.empty, get_denied = False, set_denied = False, remove_denied = False\<rparr>"

locale web_storage =
  fixes get :: "'s \<Rightarrow> jstr \<Rightarrow> js_exn + jstr option"
    and put :: "'s \<Rightarrow> jstr \<Rightarrow> jstr \<Rightarrow> js_exn + 's"
    and remove :: "'s \<Rightarrow> jstr \<Rightarrow> js_exn + 's"
    and view :: "'s \<Rightarrow> jstr \<Rightarrow> jstr option"
  assumes get_view: "get s k = Inr r \<Longrightarrow> r = view s k"
    and put_view: "put s k v = Inr t \<Longrightarrow> view t = (view s)(k \<mapsto> v)"
    and remove_view: "remove s k = Inr t \<Longrightarrow> view t = (view s)(k := None)"
    and put_readable: "put s k v = Inr t \<Longrightarrow> get s k' = Inr r \<Longrightarrow> get t k' = Inr (view t k')"
begin

lemma get_after_put: "put s k v = Inr t \<Longrightarrow> get s k = Inr r \<Longrightarrow> get t k = Inr (Some v)"
  using put_readable put_view by fastforce

lemma put_other: "put s k v = Inr t \<Longrightarrow> k' \<noteq> k \<Longrightarrow> view t k' = view s k'"
  by (drule put_view) simp

lemma remove_gone: "remove s k = Inr t \<Longrightarrow> view t k = None"
  by (drule remove_view) simp

end

locale text_slot = web_storage get put remove view + codec enc dec ok
  for get :: "'s \<Rightarrow> jstr \<Rightarrow> js_exn + jstr option" and put remove and view :: "'s \<Rightarrow> jstr \<Rightarrow> jstr option"
    and enc :: "'a \<Rightarrow> jstr" and dec ok
begin

lemma load_saved:
  "ok x \<Longrightarrow> put s k (enc x) = Inr t \<Longrightarrow> get s k = Inr r \<Longrightarrow>
   get t k = Inr (Some (enc x)) \<and> dec (enc x) = Some x"
  by (simp add: get_after_put dec_enc)

end

interpretation store: web_storage getItem setItem removeItem items
  by unfold_locales (auto simp: getItem_def setItem_def removeItem_def split: if_splits)

interpretation jslot: text_slot getItem setItem removeItem items json_stringify json_parse clean
  by unfold_locales

lemma json_text_nonempty: "clean v \<Longrightarrow> json_stringify v \<noteq> []"
  using json_text_head(1) json_ser_clean by (fastforce simp: json_stringify_def)

end
