(* ===== verification/Js_Uri.thy ===== *)
theory Js_Uri
  imports Js_Prelude
begin

text \<open>
  \<open>encodeURIComponent\<close>, \<open>decodeURIComponent\<close> and \<open>URLSearchParams\<close>, down to the UTF-8 bytes:
  routes, cookies and the query string are built and read with them.  The round trips proved
  here make them instances of the codec interface.
\<close>

section \<open>Code points, UTF-16 and UTF-8\<close>

definition is_surrogate :: "nat \<Rightarrow> bool" where
  "is_surrogate c \<longleftrightarrow> is_high c \<or> is_low c"

text \<open>The code point of one character; \<open>None\<close> for a lone surrogate.\<close>

fun code_point :: "jstr \<Rightarrow> nat option" where
  "code_point [c] = (if is_surrogate c then None else Some c)"
| "code_point [h, l] = Some (65536 + (h - 55296) * 1024 + (l - 56320))"
| "code_point ch = None"

definition utf16_of :: "nat \<Rightarrow> jstr" where
  "utf16_of p = (if p < 65536 then [p] else [55296 + (p - 65536) div 1024, 56320 + (p - 65536) mod 1024])"

definition utf8_of :: "nat \<Rightarrow> nat list" where
  "utf8_of p =
     (if p < 128 then [p]
      else if p < 2048 then [192 + p div 64, 128 + p mod 64]
      else if p < 65536 then [224 + p div 4096, 128 + p div 64 mod 64, 128 + p mod 64]
      else [240 + p div 262144, 128 + p div 4096 mod 64, 128 + p div 64 mod 64, 128 + p mod 64])"

definition scalar :: "nat \<Rightarrow> bool" where
  "scalar p \<longleftrightarrow> p < 1114112 \<and> \<not> is_surrogate p"

text \<open>A decoding error is one \<open>None\<close>, where the decoder puts a replacement character.\<close>

fun utf8_dec :: "nat list \<Rightarrow> nat option list"
  and utf8_tail :: "nat \<Rightarrow> nat \<Rightarrow> nat \<Rightarrow> nat \<Rightarrow> nat list \<Rightarrow> nat option list" where
  "utf8_dec [] = []"
| "utf8_dec (b # bs) =
     (if b < 128 then Some b # utf8_dec bs
      else if 194 \<le> b \<and> b \<le> 223 then utf8_tail 0 (b - 192) 128 191 bs
      else if 224 \<le> b \<and> b \<le> 239 then
        utf8_tail 1 (b - 224) (if b = 224 then 160 else 128) (if b = 237 then 159 else 191) bs
      else if 240 \<le> b \<and> b \<le> 244 then
        utf8_tail 2 (b - 240) (if b = 240 then 144 else 128) (if b = 244 then 143 else 191) bs
      else None # utf8_dec bs)"
| "utf8_tail k p lo hi [] = [None]"
| "utf8_tail k p lo hi (b # bs) =
     (if lo \<le> b \<and> b \<le> hi then
        (if k = 0 then Some (p * 64 + (b - 128)) # utf8_dec bs
         else utf8_tail (k - 1) (p * 64 + (b - 128)) 128 191 bs)
      else None # utf8_dec (b # bs))"

lemma utf8_bounds3:
  fixes h m r p :: nat
  assumes "(h * 64 + m) * 64 + r = p" "m < 64" "r < 64"
  shows "h = 0 \<Longrightarrow> 2048 \<le> p \<Longrightarrow> 32 \<le> m"
    and "h = 13 \<Longrightarrow> \<not> (55296 \<le> p \<and> p < 57344) \<Longrightarrow> m < 32"
  using assms by (simp_all add: algebra_simps)

lemma utf8_bounds4:
  fixes h m n r p :: nat
  assumes "((h * 64 + m) * 64 + n) * 64 + r = p" "m < 64" "n < 64" "r < 64"
  shows "h = 0 \<Longrightarrow> 65536 \<le> p \<Longrightarrow> 16 \<le> m"
    and "h = 4 \<Longrightarrow> p < 1114112 \<Longrightarrow> m < 16"
  using assms by (simp_all add: algebra_simps)

lemma utf8_dec_utf8_of:
  assumes "scalar p"
  shows "utf8_dec (utf8_of p @ bs) = Some p # utf8_dec bs"
proof -
  have s: "p < 1114112" "\<not> (55296 \<le> p \<and> p < 57344)"
    using assms by (auto simp: scalar_def is_surrogate_def is_high_def is_low_def)
  consider "p < 128" | "128 \<le> p" "p < 2048" | "2048 \<le> p" "p < 65536" | "65536 \<le> p" by linarith
  then show ?thesis
  proof cases
    case 1
    then show ?thesis by (simp add: utf8_of_def)
  next
    case 2
    then have "2 \<le> p div 64" "p div 64 < 32" by linarith+
    with 2 show ?thesis by (simp add: utf8_of_def)
  next
    case 3
    define h m r where "h = p div 4096" and "m = p div 64 mod 64" and "r = p mod 64"
    have u: "utf8_of p = [224 + h, 128 + m, 128 + r]"
      using 3 by (simp add: utf8_of_def h_def m_def r_def)
    have eq: "(h * 64 + m) * 64 + r = p"
    proof -
      have "h = p div 64 div 64" by (simp add: h_def div_mult2_eq [symmetric])
      then show ?thesis by (simp only: m_def r_def div_mult_mod_eq)
    qed
    have b: "m < 64" "r < 64" by (simp_all add: m_def r_def)
    have h: "h < 16" using 3 by (simp add: h_def less_mult_imp_div_less)
    have lo: "h = 0 \<Longrightarrow> 32 \<le> m" using utf8_bounds3(1) [OF eq b] 3 by blast
    have hi: "h = 13 \<Longrightarrow> m < 32" using utf8_bounds3(2) [OF eq b] s by blast
    from b eq h lo hi show ?thesis by (cases "h = 13") (simp_all add: u)
  next
    case 4
    define h m n r where "h = p div 262144" and "m = p div 4096 mod 64"
      and "n = p div 64 mod 64" and "r = p mod 64"
    have u: "utf8_of p = [240 + h, 128 + m, 128 + n, 128 + r]"
      using 4 by (simp add: utf8_of_def h_def m_def n_def r_def)
    have eq: "((h * 64 + m) * 64 + n) * 64 + r = p"
    proof -
      have "p div 4096 = p div 64 div 64" "h = p div 4096 div 64"
        by (simp_all add: h_def div_mult2_eq [symmetric])
      then show ?thesis by (simp only: m_def n_def r_def div_mult_mod_eq)
    qed
    have b: "m < 64" "n < 64" "r < 64" by (simp_all add: m_def n_def r_def)
    have h: "h < 5" using s by (simp add: h_def less_mult_imp_div_less)
    have lo: "h = 0 \<Longrightarrow> 16 \<le> m" using utf8_bounds4(1) [OF eq b] 4 by blast
    have hi: "h = 4 \<Longrightarrow> m < 16" using utf8_bounds4(2) [OF eq b] s by blast
    from b eq h lo hi show ?thesis by (cases "h = 4") (simp_all add: u)
  qed
qed

lemma utf8_roundtrip: "\<forall>p\<in>set ps. scalar p \<Longrightarrow> utf8_dec (concat (map utf8_of ps)) = map Some ps"
proof (induction ps)
  case (Cons p ps)
  have "utf8_dec (utf8_of p @ concat (map utf8_of ps)) = Some p # utf8_dec (concat (map utf8_of ps))"
    by (rule utf8_dec_utf8_of) (use Cons.prems in auto)
  moreover have "utf8_dec (concat (map utf8_of ps)) = map Some ps"
    by (rule Cons.IH) (use Cons.prems in auto)
  ultimately show ?case by (simp only: list.map concat.simps)
qed simp

text \<open>Well-formed UTF-16: every unit has sixteen bits and every surrogate is paired.\<close>

definition wf16 :: "jstr \<Rightarrow> bool" where
  "wf16 s \<longleftrightarrow> (\<forall>c\<in>set s. c < 65536) \<and> (\<forall>ch\<in>set (chars_of s). code_point ch \<noteq> None)"

definition points :: "jstr \<Rightarrow> nat list" where
  "points s = map (\<lambda>ch. the (code_point ch)) (chars_of s)"

definition char_ok :: "jstr \<Rightarrow> jstr \<Rightarrow> bool" where
  "char_ok s ch \<longleftrightarrow>
     (case ch of [c] \<Rightarrow> c \<in> set s
      | [h, l] \<Rightarrow> h \<in> set s \<and> l \<in> set s \<and> is_high h \<and> is_low l
      | _ \<Rightarrow> False)"

lemma char_ok_mono: "char_ok s ch \<Longrightarrow> set s \<subseteq> set t \<Longrightarrow> char_ok t ch"
  by (auto simp: char_ok_def split: list.splits)

lemma char_shape: "ch \<in> set (chars_of s) \<Longrightarrow> char_ok s ch"
proof (induction s rule: chars_of.induct)
  case (3 c d s)
  show ?case
  proof (cases "is_high c \<and> is_low d")
    case True
    with 3 show ?thesis by (auto simp: char_ok_def [of _ "[c, d]"] intro: char_ok_mono)
  next
    case False
    with 3 show ?thesis by (auto simp: char_ok_def [of _ "[c]"] intro: char_ok_mono)
  qed
qed (simp_all add: char_ok_def)

lemma char_cases:
  assumes "ch \<in> set (chars_of s)"
  obtains (one) c where "c \<in> set s" "ch = [c]"
    | (pair) h l where "h \<in> set s" "l \<in> set s" "ch = [h, l]" "is_high h" "is_low l"
  using char_shape [OF assms] by (auto simp: char_ok_def split: list.splits)

lemma point_of_char:
  assumes "ch \<in> set (chars_of s)" "wf16 s"
  obtains p where "code_point ch = Some p" "scalar p" "utf16_of p = ch"
proof -
  have cp: "code_point ch \<noteq> None" using assms by (auto simp: wf16_def)
  from assms(1) show thesis
  proof (cases rule: char_cases)
    case (one c)
    with assms cp that show thesis
      by (auto simp: wf16_def scalar_def utf16_of_def split: if_splits)
  next
    case (pair h l)
    then have ch: "ch = [h, l]" "is_high h" "is_low l" by simp_all
    let ?p = "65536 + (h - 55296) * 1024 + (l - 56320)"
    from ch obtain a b where ab: "h = 55296 + a" "l = 56320 + b" "a < 1024" "b < 1024"
      by (auto simp: is_high_def is_low_def le_iff_add)
    then have "scalar ?p" by (auto simp: scalar_def is_surrogate_def is_high_def is_low_def)
    moreover have "utf16_of ?p = ch" using ch(1) ab by (simp add: utf16_of_def)
    ultimately have "scalar ?p" "utf16_of ?p = ch" by simp_all
    with that ch show thesis by simp
  qed
qed

lemma points_ok:
  assumes "wf16 s"
  shows "\<forall>p\<in>set (points s). scalar p" "concat (map utf16_of (points s)) = s"
proof -
  have "\<forall>ch\<in>set (chars_of s). scalar (the (code_point ch)) \<and> utf16_of (the (code_point ch)) = ch"
    using point_of_char assms by (metis option.sel)
  then show "\<forall>p\<in>set (points s). scalar p" "concat (map utf16_of (points s)) = s"
    by (auto simp: points_def comp_def map_idI)
qed

section \<open>Percent encoding\<close>

definition hex_up :: "nat \<Rightarrow> nat" where "hex_up d = (if d < 10 then 48 + d else 55 + d)"

definition hex_val :: "nat \<Rightarrow> nat option" where
  "hex_val c =
     (if 48 \<le> c \<and> c \<le> 57 then Some (c - 48)
      else if 65 \<le> c \<and> c \<le> 70 then Some (c - 55)
      else if 97 \<le> c \<and> c \<le> 102 then Some (c - 87) else None)"

lemma hex_val_up [simp]: "d < 16 \<Longrightarrow> hex_val (hex_up d) = Some d"
  by (simp add: hex_val_def hex_up_def)

definition pct :: "nat \<Rightarrow> jstr" where "pct b = [37, hex_up (b div 16), hex_up (b mod 16)]"

definition is_alnum :: "nat \<Rightarrow> bool" where
  "is_alnum c \<longleftrightarrow> 48 \<le> c \<and> c \<le> 57 \<or> 65 \<le> c \<and> c \<le> 90 \<or> 97 \<le> c \<and> c \<le> 122"

text \<open>What \<open>encodeURIComponent\<close> leaves alone: letters, digits and \<open>-_.!~*'()\<close>.\<close>

definition uri_unreserved :: "nat \<Rightarrow> bool" where
  "uri_unreserved c \<longleftrightarrow> is_alnum c \<or> c \<in> {45, 95, 46, 33, 126, 42, 39, 40, 41}"

definition uri_char :: "jstr \<Rightarrow> jstr option" where
  "uri_char ch =
     (if length ch = 1 \<and> uri_unreserved (hd ch) then Some ch
      else map_option (\<lambda>p. concat (map pct (utf8_of p))) (code_point ch))"

fun uri_chars :: "jstr list \<Rightarrow> jstr option" where
  "uri_chars [] = Some []"
| "uri_chars (ch # chs) =
     (case uri_char ch of None \<Rightarrow> None | Some a \<Rightarrow> map_option ((@) a) (uri_chars chs))"

definition encodeURIComponent :: "jstr \<Rightarrow> js_exn + jstr" where
  "encodeURIComponent s =
     (case uri_chars (chars_of s) of None \<Rightarrow> Inl URIError | Some t \<Rightarrow> Inr t)"

text \<open>A token is a unit standing for itself (\<open>Inl\<close>) or an escaped byte (\<open>Inr\<close>).\<close>

fun pct_tokens :: "jstr \<Rightarrow> (nat + nat) list option" where
  "pct_tokens [] = Some []"
| "pct_tokens (c # s) =
     (if c \<noteq> 37 then map_option ((#) (Inl c)) (pct_tokens s)
      else (case s of
          a # b # r \<Rightarrow>
            (case (hex_val a, hex_val b) of
               (Some x, Some y) \<Rightarrow> map_option ((#) (Inr (x * 16 + y))) (pct_tokens r)
             | _ \<Rightarrow> None)
        | _ \<Rightarrow> None))"

definition strict_utf8 :: "nat list \<Rightarrow> jstr option" where
  "strict_utf8 bs =
     (if None \<in> set (utf8_dec bs) then None
      else Some (concat (map (utf16_of \<circ> the) (utf8_dec bs))))"

fun uri_runs :: "nat list \<Rightarrow> (nat + nat) list \<Rightarrow> jstr option" where
  "uri_runs acc [] = strict_utf8 acc"
| "uri_runs acc (Inr b # ts) = uri_runs (acc @ [b]) ts"
| "uri_runs acc (Inl c # ts) =
     (case strict_utf8 acc of None \<Rightarrow> None | Some s \<Rightarrow> map_option (\<lambda>r. s @ c # r) (uri_runs [] ts))"

definition decodeURIComponent :: "jstr \<Rightarrow> js_exn + jstr" where
  "decodeURIComponent s =
     (case Option.bind (pct_tokens s) (uri_runs []) of None \<Rightarrow> Inl URIError | Some t \<Rightarrow> Inr t)"

lemma utf8_of_bytes: "scalar p \<Longrightarrow> b \<in> set (utf8_of p) \<Longrightarrow> b < 256"
  by (auto simp: utf8_of_def scalar_def split: if_splits)

lemma pct_tokens_bytes:
  "\<forall>b\<in>set bs. b < 256 \<Longrightarrow>
     pct_tokens (concat (map pct bs) @ s) = map_option ((@) (map Inr bs)) (pct_tokens s)"
proof (induction bs)
  case (Cons b bs)
  then have "b div 16 < 16" "b mod 16 < 16" by auto
  moreover have "b div 16 * 16 + b mod 16 = b" by simp
  ultimately show ?case using Cons by (simp add: pct_def option.map_comp comp_def)
qed (cases "pct_tokens s"; simp)

lemma uri_runs_bytes: "uri_runs acc (map Inr bs @ ts) = uri_runs (acc @ bs) ts"
  by (induction bs arbitrary: acc) simp_all

lemma strict_utf8_points:
  "\<forall>p\<in>set ps. scalar p \<Longrightarrow>
     strict_utf8 (concat (map utf8_of ps)) = Some (concat (map utf16_of ps))"
  by (simp add: strict_utf8_def utf8_roundtrip comp_def image_iff)

definition good_char :: "jstr \<Rightarrow> nat \<Rightarrow> bool" where
  "good_char ch p \<longleftrightarrow> code_point ch = Some p \<and> scalar p \<and> utf16_of p = ch"

lemma good_char_unit: "good_char [c] p \<Longrightarrow> p = c"
  by (auto simp: good_char_def split: if_splits)

definition uri_toks :: "jstr \<Rightarrow> nat \<Rightarrow> (nat + nat) list" where
  "uri_toks ch p = (if length ch = 1 \<and> uri_unreserved (hd ch) then [Inl p] else map Inr (utf8_of p))"

lemma uri_chars_tokens:
  assumes "list_all2 good_char chs ps"
  shows "\<exists>t. uri_chars chs = Some t \<and> pct_tokens t = Some (concat (map2 uri_toks chs ps))"
  using assms
proof (induction rule: list_all2_induct)
  case (Cons ch chs p ps)
  then obtain t where t: "uri_chars chs = Some t" "pct_tokens t = Some (concat (map2 uri_toks chs ps))" by blast
  show ?case
  proof (cases "length ch = 1 \<and> uri_unreserved (hd ch)")
    case True
    then obtain c where c: "ch = [c]" "uri_unreserved c" by (auto simp: length_Suc_conv)
    then have "c \<noteq> 37" by (auto simp: uri_unreserved_def is_alnum_def)
    moreover have "p = c" using Cons(1) c by (simp add: good_char_unit)
    ultimately show ?thesis using t c by (simp add: uri_char_def uri_toks_def)
  next
    case False
    have "\<forall>b\<in>set (utf8_of p). b < 256" using Cons(1) utf8_of_bytes by (auto simp: good_char_def)
    with t False Cons(1) show ?thesis
      by (auto simp: uri_char_def uri_toks_def good_char_def pct_tokens_bytes)
  qed
qed simp

lemma uri_runs_tokens:
  assumes "list_all2 good_char chs ps" "\<forall>q\<in>set qs. scalar q"
  shows "uri_runs (concat (map utf8_of qs)) (concat (map2 uri_toks chs ps)) =
           Some (concat (map utf16_of qs) @ concat chs)"
  using assms
proof (induction arbitrary: qs rule: list_all2_induct)
  case Nil
  then show ?case by (simp add: strict_utf8_points)
next
  case (Cons ch chs p ps)
  show ?case
  proof (cases "length ch = 1 \<and> uri_unreserved (hd ch)")
    case True
    then obtain c where c: "ch = [c]" by (auto simp: length_Suc_conv)
    with Cons(1) have "p = c" by (simp add: good_char_unit)
    with True c Cons(3) [of "[]"] Cons(4) show ?thesis by (simp add: uri_toks_def strict_utf8_points)
  next
    case False
    have "uri_runs (concat (map utf8_of (qs @ [p]))) (concat (map2 uri_toks chs ps)) =
        Some (concat (map utf16_of (qs @ [p])) @ concat chs)"
      by (rule Cons(3)) (use Cons(1,4) in \<open>auto simp: good_char_def\<close>)
    with False Cons(1) show ?thesis by (auto simp: uri_toks_def uri_runs_bytes good_char_def)
  qed
qed

lemma wf16_chars: "wf16 s \<Longrightarrow> list_all2 good_char (chars_of s) (points s)"
  using point_of_char [where s = s] by (auto simp: points_def list_all2_conv_all_nth good_char_def) (metis nth_mem option.sel)+

theorem uri_roundtrip:
  assumes "wf16 s"
  shows "\<exists>t. encodeURIComponent s = Inr t \<and> decodeURIComponent t = Inr s"
proof -
  note g = wf16_chars [OF assms]
  obtain t where "uri_chars (chars_of s) = Some t"
      "pct_tokens t = Some (concat (map2 uri_toks (chars_of s) (points s)))"
    using uri_chars_tokens [OF g] by blast
  with uri_runs_tokens [OF g, of "[]"] show ?thesis
    by (simp add: encodeURIComponent_def decodeURIComponent_def)
qed

section \<open>\<open>URLSearchParams\<close>\<close>

text \<open>The form encoding: a space is \<open>+\<close>, letters, digits and \<open>*-._\<close> stand for themselves, and
  every other character is its escaped bytes; a lone surrogate becomes U+FFFD.\<close>

definition point_or_fffd :: "jstr \<Rightarrow> nat" where
  "point_or_fffd ch = (case code_point ch of Some p \<Rightarrow> p | None \<Rightarrow> 65533)"

definition utf8_bytes :: "jstr \<Rightarrow> nat list" where
  "utf8_bytes s = concat (map (utf8_of \<circ> point_or_fffd) (chars_of s))"

definition form_byte :: "nat \<Rightarrow> jstr" where
  "form_byte b =
     (if b = 32 then [43] else if is_alnum b \<or> b \<in> {42, 45, 46, 95} then [b] else pct b)"

definition form_enc :: "jstr \<Rightarrow> jstr" where
  "form_enc s = concat (map form_byte (utf8_bytes s))"

type_synonym params = "(jstr \<times> jstr) list"

definition params_text :: "params \<Rightarrow> jstr" where
  "params_text ps = join [38] (map (\<lambda>(k, v). form_enc k @ 61 # form_enc v) ps)"

fun form_unpct :: "nat list \<Rightarrow> nat list" where
  "form_unpct [] = []"
| "form_unpct (c # s) =
     (if c = 43 then 32 # form_unpct s
      else if c \<noteq> 37 then c # form_unpct s
      else (case s of
          a # b # r \<Rightarrow>
            (case (hex_val a, hex_val b) of
               (Some x, Some y) \<Rightarrow> (x * 16 + y) # form_unpct r
             | _ \<Rightarrow> c # form_unpct s)
        | _ \<Rightarrow> c # form_unpct s))"

definition lossy_utf8 :: "nat list \<Rightarrow> jstr" where
  "lossy_utf8 bs = concat (map (\<lambda>d. utf16_of (case d of Some p \<Rightarrow> p | None \<Rightarrow> 65533)) (utf8_dec bs))"

fun break_at :: "nat \<Rightarrow> nat list \<Rightarrow> nat list \<times> nat list" where
  "break_at x [] = ([], [])"
| "break_at x (c # s) = (if c = x then ([], s) else (let (a, b) = break_at x s in (c # a, b)))"

definition form_pair :: "nat list \<Rightarrow> jstr \<times> jstr" where
  "form_pair s = (let (k, v) = break_at 61 s in (lossy_utf8 (form_unpct k), lossy_utf8 (form_unpct v)))"

text \<open>\<open>new URLSearchParams(s)\<close>: one leading question mark is dropped.\<close>

definition params_parse :: "jstr \<Rightarrow> params" where
  "params_parse s =
     (let t = (case s of c # r \<Rightarrow> if c = 63 then r else s | [] \<Rightarrow> []) in
      map form_pair (filter (\<lambda>x. x \<noteq> []) (split_on 38 (utf8_bytes t))))"

definition params_get :: "params \<Rightarrow> jstr \<Rightarrow> jstr option" where
  "params_get ps k = map_of ps k"

definition params_has :: "params \<Rightarrow> jstr \<Rightarrow> bool" where
  "params_has ps k \<longleftrightarrow> k \<in> fst ` set ps"

definition params_delete :: "params \<Rightarrow> jstr \<Rightarrow> params" where
  "params_delete ps k = filter (\<lambda>p. fst p \<noteq> k) ps"

text \<open>\<open>set\<close> changes the first entry of the name and drops the others, or appends one.\<close>

fun params_set :: "params \<Rightarrow> jstr \<Rightarrow> jstr \<Rightarrow> params" where
  "params_set [] k v = [(k, v)]"
| "params_set (p # ps) k v = (if fst p = k then (k, v) # params_delete ps k else p # params_set ps k v)"

lemma params_get_set: "params_get (params_set ps k v) k' = (if k' = k then Some v else params_get ps k')"
proof -
  have d: "map_of (params_delete qs k) k' = (if k' = k then None else map_of qs k')" for qs
    by (induction qs) (auto simp: params_delete_def)
  show ?thesis by (induction ps) (auto simp: params_get_def d)
qed

lemma params_get_delete: "params_get (params_delete ps k) k' = (if k' = k then None else params_get ps k')"
  by (induction ps) (auto simp: params_get_def params_delete_def)

definition ascii :: "jstr \<Rightarrow> bool" where "ascii s \<longleftrightarrow> (\<forall>c\<in>set s. c < 128)"

lemma chars_of_Cons: "\<not> is_high c \<Longrightarrow> chars_of (c # s) = [c] # chars_of s"
  by (cases s) auto

lemma chars_ascii: "ascii s \<Longrightarrow> chars_of s = map (\<lambda>c. [c]) s"
  by (induction s) (simp_all add: ascii_def is_high_def chars_of_Cons)

lemma utf8_bytes_ascii: "ascii s \<Longrightarrow> utf8_bytes s = s"
proof -
  assume a: "ascii s"
  have u: "utf8_of (point_or_fffd [c]) = [c]" if "c < 128" for c
    using that by (simp add: point_or_fffd_def utf8_of_def is_surrogate_def is_high_def is_low_def)
  have "map (utf8_of \<circ> point_or_fffd) (chars_of s) = map (\<lambda>c. [c]) s"
    using a u by (simp add: chars_ascii ascii_def)
  then show ?thesis by (simp add: utf8_bytes_def)
qed

lemma wf16_ascii: "ascii s \<Longrightarrow> wf16 s"
  by (auto simp: wf16_def chars_ascii ascii_def is_surrogate_def is_high_def is_low_def)

lemma is_alnum_hex_up: "d < 16 \<Longrightarrow> is_alnum (hex_up d)"
  by (simp add: is_alnum_def hex_up_def)

lemma form_byte_set:
  assumes "b < 256" "c \<in> set (form_byte b)"
  shows "is_alnum c \<or> c \<in> {37, 42, 43, 45, 46, 95}"
proof -
  have "b div 16 < 16" "b mod 16 < 16" using assms by auto
  with assms show ?thesis by (auto simp: form_byte_def pct_def is_alnum_hex_up split: if_splits)
qed

lemma form_byte_chars: "b < 256 \<Longrightarrow> c \<in> set (form_byte b) \<Longrightarrow> c < 128 \<and> c \<noteq> 38 \<and> c \<noteq> 61"
  and form_byte_no_question: "b < 256 \<Longrightarrow> 63 \<notin> set (form_byte b)"
  using form_byte_set [of b c] form_byte_set [of b 63] by (auto simp: is_alnum_def)

lemma form_unpct_byte: "b < 256 \<Longrightarrow> form_unpct (form_byte b @ s) = b # form_unpct s"
proof -
  assume "b < 256"
  then have "b div 16 < 16" "b mod 16 < 16" "b div 16 * 16 + b mod 16 = b" by auto
  then show ?thesis by (auto simp: form_byte_def pct_def is_alnum_def)
qed

lemma form_unpct_bytes: "\<forall>b\<in>set bs. b < 256 \<Longrightarrow> form_unpct (concat (map form_byte bs)) = bs"
  by (induction bs) (simp_all add: form_unpct_byte del: form_unpct.simps(2))

lemma utf8_bytes_points:
  assumes "wf16 s"
  shows "utf8_bytes s = concat (map utf8_of (points s))"
proof -
  have "point_or_fffd ch = the (code_point ch)" if "ch \<in> set (chars_of s)" for ch
    using that assms by (auto simp: point_or_fffd_def wf16_def split: option.splits)
  then have "map (utf8_of \<circ> point_or_fffd) (chars_of s) = map utf8_of (points s)"
    by (simp add: points_def)
  then show ?thesis by (simp add: utf8_bytes_def)
qed

lemma utf8_bytes_small: "wf16 s \<Longrightarrow> \<forall>b\<in>set (utf8_bytes s). b < 256"
  using points_ok(1) [of s] utf8_of_bytes by (auto simp: utf8_bytes_points)

lemma form_enc_decodes: "wf16 s \<Longrightarrow> lossy_utf8 (form_unpct (form_enc s)) = s"
proof -
  assume w: "wf16 s"
  have "lossy_utf8 (concat (map utf8_of (points s))) = concat (map utf16_of (points s))"
    using points_ok(1) [OF w] by (simp add: lossy_utf8_def utf8_roundtrip comp_def)
  with w show ?thesis
    by (simp add: form_enc_def form_unpct_bytes utf8_bytes_small utf8_bytes_points [OF w] points_ok(2)
        form_unpct_bytes [OF utf8_bytes_small [OF w], unfolded utf8_bytes_points [OF w]])
qed

lemma form_enc_chars: "wf16 s \<Longrightarrow> c \<in> set (form_enc s) \<Longrightarrow> c < 128 \<and> c \<noteq> 38 \<and> c \<noteq> 61"
  using utf8_bytes_small [of s] form_byte_chars by (auto simp: form_enc_def)

lemma break_at_app: "x \<notin> set a \<Longrightarrow> break_at x (a @ x # b) = (a, b)"
  by (induction a) auto

lemma form_pair_enc: "wf16 k \<Longrightarrow> wf16 v \<Longrightarrow> form_pair (form_enc k @ 61 # form_enc v) = (k, v)"
proof -
  assume w: "wf16 k" "wf16 v"
  then have "61 \<notin> set (form_enc k)" using form_enc_chars by blast
  with w show ?thesis by (simp add: form_pair_def break_at_app form_enc_decodes)
qed

theorem params_roundtrip:
  assumes "\<forall>(k, v)\<in>set ps. wf16 k \<and> wf16 v"
  shows "params_parse (params_text ps) = ps"
proof (cases "ps = []")
  case True
  then show ?thesis by (simp add: params_text_def params_parse_def utf8_bytes_def)
next
  case False
  let ?es = "map (\<lambda>(k, v). form_enc k @ 61 # form_enc v) ps"
  have no: "\<forall>e\<in>set ?es. (\<forall>c\<in>set e. c < 128 \<and> c \<noteq> 38) \<and> e \<noteq> []"
    using assms form_enc_chars by fastforce
  have sub: "c \<in> set (join [38] es) \<Longrightarrow> c = 38 \<or> (\<exists>e\<in>set es. c \<in> set e)" for c es
    by (induction es rule: induct_list012) auto
  have asc: "ascii (params_text ps)"
    unfolding ascii_def params_text_def
  proof
    fix c assume "c \<in> set (join [38] ?es)"
    with sub [of c ?es] no show "c < 128" by auto
  qed
  have hd: "hd (params_text ps) \<noteq> 63 \<or> params_text ps = []"
  proof -
    obtain k v qs where ps: "ps = (k, v) # qs" using False by (cases ps) auto
    have "63 \<notin> set (form_enc k)"
    proof
      assume "63 \<in> set (form_enc k)"
      then obtain b where "b \<in> set (utf8_bytes k)" "63 \<in> set (form_byte b)"
        by (auto simp: form_enc_def)
      with assms ps utf8_bytes_small [of k] show False
        using form_byte_no_question [of b] by auto
    qed
    then show ?thesis using ps
      by (cases qs; cases "form_enc k") (auto simp: params_text_def)
  qed
  have "params_parse (params_text ps) = map form_pair (filter (\<lambda>x. x \<noteq> []) (split_on 38 (params_text ps)))"
    using hd asc by (cases "params_text ps") (auto simp: params_parse_def utf8_bytes_ascii)
  also have "split_on 38 (params_text ps) = ?es"
    unfolding params_text_def by (rule split_on_join) (use no False in auto)
  also have "filter (\<lambda>x. x \<noteq> []) ?es = ?es" using no by (simp add: filter_id_conv)
  also have "map form_pair ?es = ps"
    using assms by (auto simp: form_pair_enc intro!: map_idI)
  finally show ?thesis .
qed

section \<open>Decoded text is well formed\<close>

primrec tail_ok :: "nat \<Rightarrow> nat \<Rightarrow> nat \<Rightarrow> nat \<Rightarrow> bool" where
  "tail_ok 0 p lo hi = (\<forall>b. lo \<le> b \<and> b \<le> hi \<longrightarrow> scalar (p * 64 + (b - 128)))"
| "tail_ok (Suc k) p lo hi = (\<forall>b. lo \<le> b \<and> b \<le> hi \<longrightarrow> tail_ok k (p * 64 + (b - 128)) 128 191)"

lemma tail_ok_two: "194 \<le> b \<Longrightarrow> b \<le> 223 \<Longrightarrow> tail_ok 0 (b - 192) 128 191"
  by (auto simp: scalar_def is_surrogate_def is_high_def is_low_def)

lemma tail_ok_three:
  assumes "224 \<le> b" "b \<le> 239"
  shows "tail_ok (Suc 0) (b - 224) (if b = 224 then 160 else 128) (if b = 237 then 159 else 191)"
proof -
  define a where "a = b - 224"
  then have a: "b = 224 + a" "a \<le> 15" using assms by auto
  have "scalar ((a * 64 + (c - 128)) * 64 + (d - 128))"
    if "128 \<le> c" "c \<le> (if a = 13 then 159 else 191)" "128 \<le> d" "d \<le> 191" for c d
  proof -
    define x y where "x = c - 128" and "y = d - 128"
    then have xy: "c = 128 + x" "d = 128 + y" "x \<le> (if a = 13 then 31 else 63)" "y \<le> 63"
      using that by (auto split: if_splits)
    consider "a \<le> 12" | "a = 13" | "14 \<le> a" by linarith
    then show ?thesis
      by cases (use xy a(2) in \<open>auto simp: scalar_def is_surrogate_def is_high_def is_low_def\<close>)
  qed
  note fact = this
  have h: "b - 224 = a" using a by simp
  show ?thesis unfolding tail_ok.simps h
    by (intro allI impI, rule fact) (use a in \<open>auto split: if_splits\<close>)
qed

lemma tail_ok_four:
  assumes "240 \<le> b" "b \<le> 244"
  shows "tail_ok (Suc (Suc 0)) (b - 240) (if b = 240 then 144 else 128) (if b = 244 then 143 else 191)"
proof -
  define a where "a = b - 240"
  then have a: "b = 240 + a" "a \<le> 4" using assms by auto
  have "scalar (((a * 64 + (c - 128)) * 64 + (d - 128)) * 64 + (e - 128))"
    if "(if a = 0 then 144 else 128) \<le> c" "c \<le> (if a = 4 then 143 else 191)" "128 \<le> d" "d \<le> 191" "128 \<le> e" "e \<le> 191" for c d e
  proof -
    define x y z where "x = c - 128" and "y = d - 128" and "z = e - 128"
    then have xyz: "c = 128 + x" "d = 128 + y" "e = 128 + z" "y \<le> 63" "z \<le> 63"
      using that by (auto split: if_splits)
    have x: "(if a = 0 then 16 else 0) \<le> x" "x \<le> (if a = 4 then 15 else 63)" using that xyz(1) by (auto split: if_splits)
    have "65536 \<le> ((a * 64 + x) * 64 + y) * 64 + z" using x(1) by (cases "a = 0") auto
    moreover have "((a * 64 + x) * 64 + y) * 64 + z < 1114112" using x(2) xyz(4,5) a(2) by (cases "a = 4") auto
    ultimately show ?thesis by (auto simp: xyz scalar_def is_surrogate_def is_high_def is_low_def)
  qed
  note fact = this
  have h: "b - 240 = a" using a by simp
  show ?thesis unfolding tail_ok.simps h
    by (intro allI impI, rule fact) (use a in \<open>auto split: if_splits\<close>)
qed

lemma utf8_dec_scalar:
  "Some p \<in> set (utf8_dec bs) \<Longrightarrow> scalar p"
  "tail_ok k q lo hi \<Longrightarrow> Some p \<in> set (utf8_tail k q lo hi bs) \<Longrightarrow> scalar p"
proof (induction bs and k q lo hi bs rule: utf8_dec_utf8_tail.induct)
  case (2 b bs)
  have small: "b < 128 \<Longrightarrow> scalar b" by (simp add: scalar_def is_surrogate_def is_high_def is_low_def)
  show ?case
    using 2 small tail_ok_two [of b] tail_ok_three [of b] tail_ok_four [of b]
    by (auto simp del: tail_ok.simps simp: numeral_2_eq_2 split: if_splits)
next
  case (4 k q lo hi b bs)
  then show ?case by (cases k) (auto split: if_splits)
qed auto

lemma wf16_points: "\<forall>p\<in>set ps. scalar p \<Longrightarrow> wf16 (concat (map utf16_of ps))"
proof (induction ps)
  case (Cons p ps)
  let ?s = "concat (map utf16_of ps)"
  have s: "wf16 ?s" "scalar p" using Cons by auto
  show ?case
  proof (cases "p < 65536")
    case True
    with s(2) have "chars_of (p # ?s) = [p] # chars_of ?s" by (intro chars_of_Cons) (simp add: scalar_def is_surrogate_def)
    then have "wf16 (p # ?s)" using s True unfolding wf16_def by (simp add: scalar_def)
    with True show ?thesis by (simp add: utf16_of_def [of p])
  next
    case False
    define h l where hl: "h = 55296 + (p - 65536) div 1024" "l = 56320 + (p - 65536) mod 1024"
    have "p < 1114112" using s(2) by (simp add: scalar_def)
    then have "p - 65536 < 1024 * 1024" by linarith
    then have "(p - 65536) div 1024 < 1024" by (rule less_mult_imp_div_less)
    moreover have "(p - 65536) mod 1024 < 1024" by simp
    ultimately have "h < 55296 + 1024" "l < 56320 + 1024" "55296 \<le> h" "56320 \<le> l" unfolding hl by linarith+
    then have "is_high h" "is_low l" "h < 65536" "l < 65536" by (simp_all add: is_high_def is_low_def)
    have e: "utf16_of p = [h, l]" using False by (simp add: utf16_of_def hl)
    have "chars_of ([h, l] @ ?s) = [h, l] # chars_of ?s" using \<open>is_high h\<close> \<open>is_low l\<close> by simp
    then have "wf16 ([h, l] @ ?s)" using s(1) \<open>h < 65536\<close> \<open>l < 65536\<close> unfolding wf16_def by simp
    then show ?thesis by (simp add: e)
  qed
qed (simp add: wf16_def)

lemma wf16_lossy: "wf16 (lossy_utf8 bs)"
proof -
  define point where "point = (\<lambda>d. case d of Some p \<Rightarrow> p | None \<Rightarrow> (65533 :: nat))"
  have "scalar 65533" by (simp add: scalar_def is_surrogate_def is_high_def is_low_def)
  then have "\<forall>p\<in>set (map point (utf8_dec bs)). scalar p"
    using utf8_dec_scalar(1) by (auto simp: point_def split: option.split)
  then have "wf16 (concat (map utf16_of (map point (utf8_dec bs))))" by (rule wf16_points)
  then show ?thesis by (simp add: lossy_utf8_def point_def comp_def)
qed

lemma params_parse_wf: "(k, v) \<in> set (params_parse s) \<Longrightarrow> wf16 k \<and> wf16 v"
  by (auto simp: params_parse_def Let_def form_pair_def wf16_lossy split: prod.splits)


section \<open>The characters of an encoded text\<close>

definition encoded_char :: "nat \<Rightarrow> bool" where
  "encoded_char c \<longleftrightarrow> is_alnum c \<or> c \<in> {37, 45, 95, 46, 33, 126, 42, 39, 40, 41}"

lemma uri_char_set: "uri_char ch = Some a \<Longrightarrow> c \<in> set a \<Longrightarrow> (\<And>p. code_point ch = Some p \<Longrightarrow> scalar p) \<Longrightarrow> is_alnum c \<or> c \<in> {37, 45, 95, 46, 33, 126, 42, 39, 40, 41}"
proof -
  assume a: "uri_char ch = Some a" "c \<in> set a" and sc: "\<And>p. code_point ch = Some p \<Longrightarrow> scalar p"
  show ?thesis
  proof (cases "length ch = 1 \<and> uri_unreserved (hd ch)")
    case True
    with a show ?thesis by (auto simp: uri_char_def length_Suc_conv uri_unreserved_def)
  next
    case False
    with a obtain p b where "code_point ch = Some p" "b \<in> set (utf8_of p)" "c \<in> set (pct b)"
      by (auto simp: uri_char_def)
    moreover from this sc utf8_of_bytes have "b < 256" by blast
    moreover from this have "b div 16 < 16" "b mod 16 < 16" by auto
    ultimately show ?thesis by (auto simp: pct_def is_alnum_hex_up)
  qed
qed

lemma uri_chars_set:
  "uri_chars chs = Some t \<Longrightarrow> \<forall>ch\<in>set chs. \<forall>p. code_point ch = Some p \<longrightarrow> scalar p \<Longrightarrow> c \<in> set t \<Longrightarrow>
     is_alnum c \<or> c \<in> {37, 45, 95, 46, 33, 126, 42, 39, 40, 41}"
proof (induction chs arbitrary: t)
  case (Cons ch chs)
  then obtain a r where ar: "uri_char ch = Some a" "uri_chars chs = Some r" "t = a @ r"
    by (auto split: option.splits)
  from Cons.prems(3) ar(3) have "c \<in> set a \<or> c \<in> set r" by auto
  then show ?case
  proof
    assume "c \<in> set a"
    with uri_char_set [OF ar(1)] Cons.prems(2) show ?thesis by simp
  next
    assume "c \<in> set r"
    with Cons.IH [OF ar(2)] Cons.prems(2) show ?thesis by simp
  qed
qed simp

lemma encode_decode:
  assumes "wf16 s"
  shows "\<exists>t. encodeURIComponent s = Inr t \<and> decodeURIComponent t = Inr s \<and> (\<forall>c\<in>set t. encoded_char c)"
proof -
  from uri_roundtrip [OF assms] obtain t where t: "encodeURIComponent s = Inr t" "decodeURIComponent t = Inr s" by blast
  have "\<forall>ch\<in>set (chars_of s). \<forall>p. code_point ch = Some p \<longrightarrow> scalar p"
    using point_of_char [OF _ assms] by (metis option.inject)
  moreover have "uri_chars (chars_of s) = Some t" using t(1) by (auto simp: encodeURIComponent_def split: option.splits)
  ultimately have "\<forall>c\<in>set t. encoded_char c" using uri_chars_set unfolding encoded_char_def by blast
  with t show ?thesis by blast
qed

interpretation query: codec params_text "\<lambda>s. Some (params_parse s)" "\<lambda>ps. \<forall>(k, v)\<in>set ps. wf16 k \<and> wf16 v"
  by unfold_locales (simp add: params_roundtrip)

end
