(* ===== verification/Js_Idb.thy ===== *)
theory Js_Idb
  imports Js_Prelude
begin

text \<open>
  An IndexedDB object store whose keys are strings: the rows, kept in the order of their
  keys, with \<open>get\<close>, \<open>put\<close>, \<open>delete\<close> and \<open>getAll\<close>, and the ways a request or a transaction can
  end.  The interface \<open>row_store\<close> is what a client may rely on; the outbox is its client.
\<close>

type_synonym idb = "(jstr \<times> jval) list"

definition idb_get :: "idb \<Rightarrow> jstr \<Rightarrow> jval" where
  "idb_get st k = (case map_of st k of Some v \<Rightarrow> v | None \<Rightarrow> JUndef)"

fun idb_put :: "idb \<Rightarrow> jstr \<Rightarrow> jval \<Rightarrow> idb" where
  "idb_put [] k v = [(k, v)]"
| "idb_put ((k', v') # st) k v =
     (if k < k' then (k, v) # (k', v') # st
      else if k = k' then (k, v) # st else (k', v') # idb_put st k v)"

definition idb_delete :: "idb \<Rightarrow> jstr \<Rightarrow> idb" where
  "idb_delete st k = filter (\<lambda>r. fst r \<noteq> k) st"

definition idb_all :: "idb \<Rightarrow> jval list" where "idb_all st = map snd st"

text \<open>How a request ends (an error may be \<open>null\<close>), and how a transaction ends.\<close>

datatype outcome = Succeeds | Fails "js_exn option"
datatype tx_end = Commits | TxError "js_exn option" | TxAborts "js_exn option"

definition idb_ok :: "idb \<Rightarrow> bool" where "idb_ok st \<longleftrightarrow> sorted_wrt (<) (map fst st)"

definition idb_view :: "idb \<Rightarrow> jstr \<Rightarrow> jval option" where "idb_view st = map_of st"

lemma keys_put: "fst ` set (idb_put st k v) = insert k (fst ` set st)"
  by (induction st k v rule: idb_put.induct) (simp_all add: insert_commute)

lemma idb_put_ok: "idb_ok st \<Longrightarrow> idb_ok (idb_put st k v)"
proof (induction st)
  case (Cons r st)
  obtain k' v' where r: "r = (k', v')" by (cases r)
  have "set (map fst (idb_put st k v)) = insert k (set (map fst st))" using keys_put by simp
  with Cons r show ?case by (auto simp: idb_ok_def)
qed (simp add: idb_ok_def)

lemma idb_view_put: "idb_view (idb_put st k v) = (idb_view st)(k \<mapsto> v)"
  by (induction st) (auto simp: idb_view_def)

lemma idb_delete_ok: "idb_ok st \<Longrightarrow> idb_ok (idb_delete st k)"
  by (induction st) (auto simp: idb_ok_def idb_delete_def)

lemma idb_view_delete: "idb_view (idb_delete st k) = (idb_view st)(k := None)"
  by (induction st) (auto simp: idb_view_def idb_delete_def)

lemma idb_ok_distinct: "idb_ok st \<Longrightarrow> distinct (map fst st)"
  unfolding idb_ok_def by (rule strict_sorted_iff [THEN iffD1, THEN conjunct2])

locale row_store =
  fixes ok :: "'s \<Rightarrow> bool"
    and view :: "'s \<Rightarrow> jstr \<Rightarrow> jval option"
    and get :: "'s \<Rightarrow> jstr \<Rightarrow> jval"
    and put :: "'s \<Rightarrow> jstr \<Rightarrow> jval \<Rightarrow> 's"
    and del :: "'s \<Rightarrow> jstr \<Rightarrow> 's"
    and all :: "'s \<Rightarrow> jval list"
  assumes get_view: "get s k = (case view s k of Some v \<Rightarrow> v | None \<Rightarrow> JUndef)"
    and put_ok: "ok s \<Longrightarrow> ok (put s k v)"
    and view_put: "view (put s k v) = (view s)(k \<mapsto> v)"
    and del_ok: "ok s \<Longrightarrow> ok (del s k)"
    and view_del: "view (del s k) = (view s)(k := None)"
    and all_view: "ok s \<Longrightarrow> set (all s) = ran (view s)"
begin

lemma get_put: "get (put s k v) k' = (if k' = k then v else get s k')"
  by (simp add: get_view view_put)

lemma view_foldl_del: "view (foldl del s ks) k = (if k \<in> set ks then None else view s k)"
  by (induction ks arbitrary: s) (auto simp: view_del)

lemma foldl_del_ok: "ok s \<Longrightarrow> ok (foldl del s ks)"
  by (induction ks arbitrary: s) (auto simp: del_ok)

lemma get_isRecord: "isRecord (get s k) \<Longrightarrow> view s k = Some (get s k)"
  by (auto simp: get_view split: option.splits)

end

interpretation idb: row_store idb_ok idb_view idb_get idb_put idb_delete idb_all
proof
  fix s k v
  show "idb_get s k = (case idb_view s k of None \<Rightarrow> JUndef | Some v \<Rightarrow> v)"
    by (simp add: idb_get_def idb_view_def)
  show "idb_ok s \<Longrightarrow> set (idb_all s) = ran (idb_view s)"
    by (simp add: idb_all_def idb_view_def ran_distinct idb_ok_distinct)
qed (simp_all add: idb_put_ok idb_view_put idb_delete_ok idb_view_delete)

end
