(* ===== verification/Review_Outbox.thy ===== *)
theory Review_Outbox
  imports Js_Idb Js_Json "HOL-Library.Word"
begin

text \<open>
  \<open>src/frontend/lib/review-outbox.ts\<close>: the durable queue of lesson reviews.  A review is parsed
  and validated, gets an operation key, and is kept as a row of an IndexedDB store until it
  has been sent; every operation is one transaction that may fail in each of its requests.
  The rows are values of type \<open>unknown\<close>, checked when they are read, as in the code.
\<close>

section \<open>Data\<close>

datatype ReviewOutboxState = Pending | Failed | Synced
datatype LessonReviewRating = Again | Almost | Known
datatype LessonReviewAnswerMode = Study | Recall | Choice

record LessonReviewPayload =
  pl_lessonVersion :: jnum
  pl_rating :: LessonReviewRating
  pl_responseMs :: "jnum option"
  pl_answerMode :: LessonReviewAnswerMode
  pl_submittedAnswer :: "jstr option"
  pl_correct :: "bool option"
  pl_answerRevealed :: "bool option"
  pl_timezoneOffsetMinutes :: jnum

record ReviewEndpoint =
  ep_lessonId :: jstr
  ep_wordId :: jnum

record ReviewOutboxRecord =
  operationKey :: jstr
  idempotencyKey :: jstr
  rv_userId :: jstr
  rv_endpoint :: jstr
  rv_lessonId :: jstr
  rv_wordId :: jnum
  rv_lessonVersion :: jnum
  requestBody :: jstr
  rv_status :: ReviewOutboxState
  attempts :: jnum
  rv_createdAt :: jstr
  rv_updatedAt :: jstr
  lastErrorCode :: jstr
  lastErrorMessage :: jstr

record ReviewOutboxSummary =
  sm_pending :: nat
  sm_failed :: nat
  sm_synced :: nat
  latestSyncedAt :: jstr

datatype ReviewResponseDisposition = DSynced | DRetry | DFailed | DRefreshSession

definition SYNCED_RETENTION_MS :: jnum where "SYNCED_RETENTION_MS = 24 * 60 * 60 * 1000"
definition MAX_SUBMITTED_ANSWER_CHARACTERS :: nat where "MAX_SUBMITTED_ANSWER_CHARACTERS = 500"

section \<open>The payload\<close>

definition isFiniteInteger :: "jval \<Rightarrow> bool" where
  "isFiniteInteger v \<longleftrightarrow> v_isSafeInteger v"

definition isRating :: "jval \<Rightarrow> bool" where
  "isRating v \<longleftrightarrow> is_lit v ''again'' \<or> is_lit v ''almost'' \<or> is_lit v ''known''"

definition isAnswerMode :: "jval \<Rightarrow> bool" where
  "isAnswerMode v \<longleftrightarrow> is_lit v ''study'' \<or> is_lit v ''recall'' \<or> is_lit v ''choice''"

definition submittedAnswerLength :: "jstr \<Rightarrow> nat" where
  "submittedAnswerLength s = length (chars_of s)"

text \<open>A checked literal as a value of its type, and back.\<close>

definition rating_of :: "jval \<Rightarrow> LessonReviewRating" where
  "rating_of v = (if is_lit v ''again'' then Again else if is_lit v ''almost'' then Almost else Known)"

fun rating_text :: "LessonReviewRating \<Rightarrow> jstr" where
  "rating_text Again = u ''again''" | "rating_text Almost = u ''almost''" | "rating_text Known = u ''known''"

definition answer_mode_of :: "jval \<Rightarrow> LessonReviewAnswerMode" where
  "answer_mode_of v = (if is_lit v ''study'' then Study else if is_lit v ''recall'' then Recall else Choice)"

fun answer_mode_text :: "LessonReviewAnswerMode \<Rightarrow> jstr" where
  "answer_mode_text Study = u ''study''" | "answer_mode_text Recall = u ''recall''"
| "answer_mode_text Choice = u ''choice''"

definition bool_of :: "jval \<Rightarrow> bool" where "bool_of v \<longleftrightarrow> v = JBool True"

definition when_defined :: "(jval \<Rightarrow> 'a) \<Rightarrow> jval \<Rightarrow> 'a option" where
  "when_defined f v = (if v = JUndef then None else Some (f v))"

definition payload_of_value :: "jval \<Rightarrow> LessonReviewPayload" where
  "payload_of_value value = \<lparr>
     pl_lessonVersion = num_of (jget value ''lessonVersion''),
     pl_rating = rating_of (jget value ''rating''),
     pl_responseMs = when_defined num_of (jget value ''responseMs''),
     pl_answerMode = answer_mode_of (jget value ''answerMode''),
     pl_submittedAnswer = when_defined str_of (jget value ''submittedAnswer''),
     pl_correct = when_defined bool_of (jget value ''correct''),
     pl_answerRevealed = when_defined bool_of (jget value ''answerRevealed''),
     pl_timezoneOffsetMinutes = num_of (jget value ''timezoneOffsetMinutes'')\<rparr>"

definition parseLessonReviewPayload :: "jval \<Rightarrow> LessonReviewPayload option" where
  "parseLessonReviewPayload value =
     (if \<not> isRecord value then None
      else if \<not> isFiniteInteger (jget value ''lessonVersion'') \<or> num_of (jget value ''lessonVersion'') \<le> 0 then None
      else if \<not> isRating (jget value ''rating'') \<or> \<not> isAnswerMode (jget value ''answerMode'') then None
      else if \<not> isFiniteInteger (jget value ''timezoneOffsetMinutes'') then None
      else if jget value ''responseMs'' \<noteq> JUndef
        \<and> (\<not> isFiniteInteger (jget value ''responseMs'') \<or> num_of (jget value ''responseMs'') < 0) then None
      else if jget value ''submittedAnswer'' \<noteq> JUndef
        \<and> (\<not> is_string (jget value ''submittedAnswer'')
           \<or> submittedAnswerLength (str_of (jget value ''submittedAnswer'')) > MAX_SUBMITTED_ANSWER_CHARACTERS) then None
      else if jget value ''correct'' \<noteq> JUndef \<and> \<not> is_boolean (jget value ''correct'') then None
      else if jget value ''answerRevealed'' \<noteq> JUndef \<and> \<not> is_boolean (jget value ''answerRevealed'') then None
      else if is_lit (jget value ''answerMode'') ''study''
        \<and> (jget value ''submittedAnswer'' \<noteq> JUndef \<or> jget value ''correct'' \<noteq> JUndef) then None
      else if jget value ''submittedAnswer'' \<noteq> JUndef \<and> jget value ''correct'' \<noteq> JUndef then None
      else Some (payload_of_value value))"

text \<open>The object the parser builds, with a property only where the payload has a value.\<close>

definition payload_json :: "LessonReviewPayload \<Rightarrow> jval" where
  "payload_json p = JObj (
     [(u ''lessonVersion'', JNum (pl_lessonVersion p)), (u ''rating'', JStr (rating_text (pl_rating p)))]
     @ opt_prop ''responseMs'' JNum (pl_responseMs p)
     @ [(u ''answerMode'', JStr (answer_mode_text (pl_answerMode p)))]
     @ opt_prop ''submittedAnswer'' JStr (pl_submittedAnswer p)
     @ opt_prop ''correct'' JBool (pl_correct p)
     @ opt_prop ''answerRevealed'' JBool (pl_answerRevealed p)
     @ [(u ''timezoneOffsetMinutes'', JNum (pl_timezoneOffsetMinutes p))])"

definition payload_valid :: "LessonReviewPayload \<Rightarrow> bool" where
  "payload_valid p \<longleftrightarrow>
     isSafeInteger (pl_lessonVersion p) \<and> 0 < pl_lessonVersion p
     \<and> isSafeInteger (pl_timezoneOffsetMinutes p)
     \<and> (case pl_responseMs p of None \<Rightarrow> True | Some ms \<Rightarrow> isSafeInteger ms \<and> 0 \<le> ms)
     \<and> (case pl_submittedAnswer p of None \<Rightarrow> True | Some a \<Rightarrow> submittedAnswerLength a \<le> 500)
     \<and> (pl_submittedAnswer p = None \<or> pl_correct p = None)
     \<and> (pl_answerMode p = Study \<longrightarrow> pl_submittedAnswer p = None \<and> pl_correct p = None)"

lemma rating_roundtrip [simp]: "rating_of (JStr (rating_text r)) = r" "isRating (JStr (rating_text r))"
  by (cases r; simp add: rating_of_def isRating_def)+

lemma answer_mode_roundtrip [simp]:
  "answer_mode_of (JStr (answer_mode_text m)) = m" "isAnswerMode (JStr (answer_mode_text m))"
  "answer_mode_text m = u ''study'' \<longleftrightarrow> m = Study"
  by (cases m; simp add: answer_mode_of_def isAnswerMode_def)+

lemma isSafeInteger_cmp:
  "isSafeInteger x \<Longrightarrow> x \<le> Fin 0 \<longleftrightarrow> \<not> Fin 0 < x" "isSafeInteger x \<Longrightarrow> x < Fin 0 \<longleftrightarrow> \<not> Fin 0 \<le> x"
  by (cases x; auto simp: isSafeInteger_def)+

lemma payload_json_props [simp]:
  "isRecord (payload_json p)"
  "jget (payload_json p) ''lessonVersion'' = JNum (pl_lessonVersion p)"
  "jget (payload_json p) ''rating'' = JStr (rating_text (pl_rating p))"
  "jget (payload_json p) ''responseMs'' = case_option JUndef JNum (pl_responseMs p)"
  "jget (payload_json p) ''answerMode'' = JStr (answer_mode_text (pl_answerMode p))"
  "jget (payload_json p) ''submittedAnswer'' = case_option JUndef JStr (pl_submittedAnswer p)"
  "jget (payload_json p) ''correct'' = case_option JUndef JBool (pl_correct p)"
  "jget (payload_json p) ''answerRevealed'' = case_option JUndef JBool (pl_answerRevealed p)"
  "jget (payload_json p) ''timezoneOffsetMinutes'' = JNum (pl_timezoneOffsetMinutes p)"
  by (simp_all add: payload_json_def split: option.split)

lemma when_defined_case [simp]:
  "when_defined num_of (case_option JUndef JNum x) = x" "when_defined str_of (case_option JUndef JStr y) = y"
  "when_defined bool_of (case_option JUndef JBool z) = z"
  by (simp_all add: when_defined_def bool_of_def split: option.split)

lemma payload_of_json [simp]: "payload_of_value (payload_json p) = p"
  by (simp add: payload_of_value_def)

lemma payload_parse_json:
  assumes "payload_valid p"
  shows "parseLessonReviewPayload (payload_json p) = Some p"
proof -
  note v = assms [unfolded payload_valid_def]
  have "\<not> (jget (payload_json p) ''responseMs'' \<noteq> JUndef
      \<and> (\<not> isFiniteInteger (jget (payload_json p) ''responseMs'') \<or> num_of (jget (payload_json p) ''responseMs'') < 0))"
    using v by (auto simp: isFiniteInteger_def isSafeInteger_cmp split: option.splits)
  moreover have "\<not> (jget (payload_json p) ''submittedAnswer'' \<noteq> JUndef
      \<and> (\<not> is_string (jget (payload_json p) ''submittedAnswer'')
        \<or> submittedAnswerLength (str_of (jget (payload_json p) ''submittedAnswer'')) > MAX_SUBMITTED_ANSWER_CHARACTERS))"
    using v by (auto simp: MAX_SUBMITTED_ANSWER_CHARACTERS_def split: option.splits)
  moreover have "is_boolean (case_option JUndef JBool x) \<longleftrightarrow> x \<noteq> None" "case_option JUndef JBool x = JUndef \<longleftrightarrow> x = None"
    "case_option JUndef JStr y = JUndef \<longleftrightarrow> y = None" for x y
    by (simp_all split: option.split)
  ultimately show ?thesis
    using v by (cases "pl_submittedAnswer p"; cases "pl_correct p"; cases "pl_answerRevealed p")
      (simp_all add: parseLessonReviewPayload_def isFiniteInteger_def isSafeInteger_cmp)
qed

lemma if_None_Some: "(if c then None else e) = Some x \<longleftrightarrow> \<not> c \<and> e = Some x"
  by simp

lemma payload_parse_valid:
  assumes "parseLessonReviewPayload v = Some p"
  shows "payload_valid p"
proof -
  note g = assms [unfolded parseLessonReviewPayload_def if_None_Some]
  let ?a = "jget v ''submittedAnswer''" and ?c = "jget v ''correct''" and ?m = "jget v ''answerMode''"
    and ?r = "jget v ''responseMs''"
  have p: "p = payload_of_value v" using g by simp
  have ints: "isFiniteInteger (jget v ''lessonVersion'')" "\<not> num_of (jget v ''lessonVersion'') \<le> 0"
    "isFiniteInteger (jget v ''timezoneOffsetMinutes'')"
    and r: "?r = JUndef \<or> isFiniteInteger ?r \<and> \<not> num_of ?r < 0"
    and a: "?a = JUndef \<or> submittedAnswerLength (str_of ?a) \<le> 500"
    and ac: "?a = JUndef \<or> ?c = JUndef"
    and m: "is_lit ?m ''study'' \<Longrightarrow> ?a = JUndef \<and> ?c = JUndef" "isAnswerMode ?m"
    using g by (simp_all add: MAX_SUBMITTED_ANSWER_CHARACTERS_def not_less) blast+
  have "isSafeInteger (pl_lessonVersion p)" "0 < pl_lessonVersion p" "isSafeInteger (pl_timezoneOffsetMinutes p)"
    using ints by (auto simp: p payload_of_value_def isFiniteInteger_def v_class_iff isSafeInteger_cmp)
  moreover have "case pl_responseMs p of None \<Rightarrow> True | Some ms \<Rightarrow> isSafeInteger ms \<and> 0 \<le> ms"
    using r by (auto simp: p payload_of_value_def when_defined_def isFiniteInteger_def v_class_iff isSafeInteger_cmp)
  moreover have "case pl_submittedAnswer p of None \<Rightarrow> True | Some a \<Rightarrow> submittedAnswerLength a \<le> 500"
    using a by (auto simp: p payload_of_value_def when_defined_def)
  moreover have "pl_submittedAnswer p = None \<or> pl_correct p = None"
    using ac by (auto simp: p payload_of_value_def when_defined_def)
  moreover have "pl_answerMode p = Study \<longrightarrow> pl_submittedAnswer p = None \<and> pl_correct p = None"
    using m by (auto simp: p payload_of_value_def when_defined_def answer_mode_of_def split: if_splits)
  ultimately show ?thesis by (simp add: payload_valid_def)
qed

section \<open>The endpoint and the operation key\<close>

text \<open>
  \<open>REVIEW_ENDPOINT_PATTERN\<close> on the path of the URL.  The pattern ends at the end of the path
  and its groups hold no slash, so it matches exactly when the last segments of the path, after
  one optional trailing slash, are \<open>api/v1/lessons/ID/words/N/review\<close>, compared without case.
\<close>

definition lower_unit :: "nat \<Rightarrow> nat" where
  "lower_unit c = (if 65 \<le> c \<and> c \<le> 90 then c + 32 else c)"

definition ieq :: "jstr \<Rightarrow> string \<Rightarrow> bool" where
  "ieq s lit \<longleftrightarrow> map lower_unit s = u lit"

definition hex_or_dash :: "nat \<Rightarrow> bool" where
  "hex_or_dash c \<longleftrightarrow> 48 \<le> c \<and> c \<le> 57 \<or> 97 \<le> lower_unit c \<and> lower_unit c \<le> 102 \<or> c = 45"

definition review_endpoint_match :: "jstr \<Rightarrow> (jstr \<times> jstr) option" where
  "review_endpoint_match pathname =
     (let segs = split_on 47 pathname;
          tail = (if last segs = [] then butlast segs else segs) in
      case rev tail of
        r # w # ws # l # ls # v # a # before # rest \<Rightarrow>
          if ieq r ''review'' \<and> w \<noteq> [] \<and> (\<forall>c\<in>set w. is_digit c) \<and> ieq ws ''words''
            \<and> length l = 36 \<and> (\<forall>c\<in>set l. hex_or_dash c) \<and> ieq ls ''lessons'' \<and> ieq v ''v1'' \<and> ieq a ''api''
          then Some (l, w) else None
      | _ \<Rightarrow> None)"

text \<open>\<open>url_path\<close> is the path of \<open>new URL(value, origin)\<close>, \<open>None\<close> where the constructor throws.\<close>

definition parseLessonReviewEndpoint :: "(jstr \<Rightarrow> jstr option) \<Rightarrow> jstr \<Rightarrow> ReviewEndpoint option" where
  "parseLessonReviewEndpoint url_path value =
     (case url_path value of None \<Rightarrow> None
      | Some pathname \<Rightarrow>
          (case review_endpoint_match pathname of None \<Rightarrow> None
           | Some (m1, m2) \<Rightarrow>
               let wordId = jnat (digits_val m2) in
               if \<not> isSafeInteger wordId \<or> wordId \<le> 0 then None
               else Some \<lparr>ep_lessonId = map lower_unit m1, ep_wordId = wordId\<rparr>))"

definition reviewOperationKey :: "jstr \<Rightarrow> ReviewEndpoint \<Rightarrow> jnum \<Rightarrow> jstr" where
  "reviewOperationKey userId endpoint lessonVersion =
     userId @ u '':'' @ ep_lessonId endpoint @ u '':'' @ num_str (ep_wordId endpoint) @ u '':'' @ num_str lessonVersion"

definition reviewResponseDisposition :: "jnum \<Rightarrow> ReviewResponseDisposition" where
  "reviewResponseDisposition status =
     (if status \<ge> 200 \<and> status < 300 then DSynced
      else if status = 401 then DRefreshSession
      else if status = 408 \<or> status = 425 \<or> status = 429 \<or> status \<ge> 500 then DRetry
      else DFailed)"

definition endpoint_ok :: "ReviewEndpoint \<Rightarrow> bool" where
  "endpoint_ok ep \<longleftrightarrow>
     length (ep_lessonId ep) = 36 \<and> (\<forall>c\<in>set (ep_lessonId ep). hex_or_dash c \<and> lower_unit c = c)
     \<and> isSafeInteger (ep_wordId ep) \<and> 0 < ep_wordId ep"

lemma review_match_shape:
  "review_endpoint_match pathname = Some (l, w) \<Longrightarrow>
     length l = 36 \<and> (\<forall>c\<in>set l. hex_or_dash c) \<and> w \<noteq> [] \<and> (\<forall>c\<in>set w. is_digit c)"
  by (auto simp: review_endpoint_match_def Let_def split: list.splits if_splits)

lemma lower_unit_hex: "hex_or_dash c \<Longrightarrow> hex_or_dash (lower_unit c) \<and> lower_unit (lower_unit c) = lower_unit c"
  by (auto simp: hex_or_dash_def lower_unit_def split: if_splits)

lemma endpoint_parse_ok: "parseLessonReviewEndpoint url_path value = Some ep \<Longrightarrow> endpoint_ok ep"
  using review_match_shape lower_unit_hex
  by (fastforce simp: parseLessonReviewEndpoint_def endpoint_ok_def Let_def isSafeInteger_cmp
      split: option.splits prod.splits if_splits)

lemma safe_positive_nat:
  assumes "isSafeInteger x" "0 < x"
  obtains n where "x = jnat n"
proof (cases x)
  case (Fin r)
  with assms have "is_int r" "0 < r" by (auto simp: isSafeInteger_def)
  then obtain i where "r = of_int i" by (auto simp: is_int_iff)
  with \<open>0 < r\<close> Fin have "x = jnat (nat i)" by simp
  then show ?thesis by (rule that)
qed (use assms in \<open>auto simp: isSafeInteger_def\<close>)

text \<open>two reviews have the same operation key only when they are the same user's review of the same
  word of the same lesson at the same version, whatever characters the user id holds.\<close>

theorem reviewOperationKey_injective:
  assumes "endpoint_ok e1" "endpoint_ok e2" "isSafeInteger v1" "0 < v1" "isSafeInteger v2" "0 < v2"
  shows "reviewOperationKey u1 e1 v1 = reviewOperationKey u2 e2 v2 \<longleftrightarrow> u1 = u2 \<and> e1 = e2 \<and> v1 = v2"
proof -
  obtain n1 n2 where n: "v1 = jnat n1" "v2 = jnat n2" using assms safe_positive_nat by metis
  obtain w1 w2 where w: "ep_wordId e1 = jnat w1" "ep_wordId e2 = jnat w2"
    using assms safe_positive_nat by (metis endpoint_ok_def)
  have l: "58 \<notin> set (ep_lessonId e1)" "58 \<notin> set (ep_lessonId e2)"
    using assms by (auto simp: endpoint_ok_def hex_or_dash_def lower_unit_def)
  have k: "reviewOperationKey us ep (jnat m) =
      ((us @ 58 # ep_lessonId ep) @ 58 # num_str (ep_wordId ep)) @ 58 # num_str (jnat m)" for us ep m
    by (simp add: reviewOperationKey_def u_def)
  have inj: "num_str (jnat a) = num_str (jnat b) \<longleftrightarrow> a = b" for a b by simp
  show ?thesis
    unfolding n k w
    by (subst append_sep_unique, use num_str_no_colon in blast, use num_str_no_colon in blast)+
       (use l w inj append_sep_unique [of 58 "ep_lessonId e1" "ep_lessonId e2"] in \<open>cases e1; cases e2; auto\<close>)
qed

lemma reviewOperationKey_injective_witness:
  "reviewOperationKey (u ''a:b'') \<lparr>ep_lessonId = u ''0123456789abcdef-0123456789abcdef-01'', ep_wordId = 7\<rparr> 3
     \<noteq> reviewOperationKey (u ''a'') \<lparr>ep_lessonId = u ''0123456789abcdef-0123456789abcdef-01'', ep_wordId = 7\<rparr> 3"
  using reviewOperationKey_injective
    [of "\<lparr>ep_lessonId = u ''0123456789abcdef-0123456789abcdef-01'', ep_wordId = 7\<rparr>"
        "\<lparr>ep_lessonId = u ''0123456789abcdef-0123456789abcdef-01'', ep_wordId = 7\<rparr>" 3 3 "u ''a:b''" "u ''a''"]
  by (simp add: endpoint_ok_def u_def hex_or_dash_def lower_unit_def isSafeInteger_def)

section \<open>Identifiers\<close>

text \<open>The Web Crypto object: absent, with \<open>randomUUID\<close>, or with \<open>getRandomValues\<close> only.\<close>

datatype crypto = NoCrypto | RandomUUID jstr | RandomValues "8 word list"

unbundle bit_operations_syntax

definition hex_lo :: "nat \<Rightarrow> nat" where "hex_lo d = (if d < 10 then 48 + d else 87 + d)"

definition byte_hex :: "8 word \<Rightarrow> jstr" where
  "byte_hex b = [hex_lo (unat b div 16), hex_lo (unat b mod 16)]"

definition slice :: "nat \<Rightarrow> nat \<Rightarrow> jstr \<Rightarrow> jstr" where
  "slice i j s = take (j - i) (drop i s)"

definition createUUID :: "crypto \<Rightarrow> js_exn + jstr" where
  "createUUID cryptography =
     (case cryptography of
        NoCrypto \<Rightarrow> Inl (ErrorMessage ''Secure random generation is unavailable'')
      | RandomUUID uuid \<Rightarrow> Inr uuid
      | RandomValues values \<Rightarrow>
          let bytes = values[6 := (values ! 6 AND 0x0f) OR 0x40];
              bytes = bytes[8 := (bytes ! 8 AND 0x3f) OR 0x80];
              hex = concat (map byte_hex bytes) in
          Inr (slice 0 8 hex @ u ''-'' @ slice 8 12 hex @ u ''-'' @ slice 12 16 hex @ u ''-''
               @ slice 16 20 hex @ u ''-'' @ drop 20 hex))"


lemma low_bits_or:
  fixes m :: nat
  assumes "m < 2 ^ k"
  shows "m OR 2 ^ k * c = m + 2 ^ k * c"
proof -
  have "take_bit k m = m" using assms by (simp add: take_bit_eq_mod)
  moreover have "take_bit k m AND push_bit k c = 0" by (rule bit_eqI) (auto simp: bit_simps)
  ultimately have "m + push_bit k c = m OR push_bit k c" by (simp add: disjunctive_add_eq_or)
  then show ?thesis by (simp add: push_bit_eq_mult mult.commute)
qed

lemma version_byte: "unat ((b AND 0x0f) OR 0x40) = 64 + unat b mod 16" for b :: "8 word"
proof -
  have "unat (b AND 0x0f) = unat b mod 16"
    by (simp add: unsigned_and_eq take_bit_eq_mod [of 4, simplified, symmetric] take_bit_eq_mask mask_eq_exp_minus_1)
  then show ?thesis using low_bits_or [of "unat b mod 16" 4 4] by (simp add: unsigned_or_eq)
qed

lemma variant_byte: "unat ((b AND 0x3f) OR 0x80) = 128 + unat b mod 64" for b :: "8 word"
proof -
  have "unat (b AND 0x3f) = unat b mod 64"
    by (simp add: unsigned_and_eq take_bit_eq_mod [of 6, simplified, symmetric] take_bit_eq_mask mask_eq_exp_minus_1)
  then show ?thesis using low_bits_or [of "unat b mod 64" 6 2] by (simp add: unsigned_or_eq)
qed

definition lower_hex :: "nat \<Rightarrow> bool" where
  "lower_hex c \<longleftrightarrow> 48 \<le> c \<and> c \<le> 57 \<or> 97 \<le> c \<and> c \<le> 102"

lemma lower_hex_lo: "d < 16 \<Longrightarrow> lower_hex (hex_lo d)"
  by (auto simp: lower_hex_def hex_lo_def)

lemma byte_hex_lower: "c \<in> set (byte_hex b) \<Longrightarrow> lower_hex c"
proof -
  have "unat b div 16 < 16" using unsigned_less [of b, where 'a = nat] by (simp add: less_mult_imp_div_less)
  then show "c \<in> set (byte_hex b) \<Longrightarrow> lower_hex c" by (auto simp: byte_hex_def lower_hex_lo)
qed

lemma version_hex: "byte_hex ((b AND 0x0f) OR 0x40) = [52, hex_lo (unat b mod 16)]"
proof -
  have "(64 + n mod 16) div 16 = 4" "(64 + n mod 16) mod 16 = n mod 16" for n :: nat
    using div_mult_self4 [of 16 4 "n mod 16"] mod_mult_self4 [of 16 4 "n mod 16"] by simp_all
  then show ?thesis using version_byte [of b] by (simp add: byte_hex_def) (simp add: hex_lo_def)
qed

lemma variant_hex: "byte_hex ((b AND 0x3f) OR 0x80) = [hex_lo (8 + unat b mod 64 div 16), hex_lo (unat b mod 64 mod 16)]"
proof -
  have "(128 + n) div 16 = 8 + n div 16" "(128 + n) mod 16 = n mod 16" for n :: nat
    using div_mult_self4 [of 16 8 n] mod_mult_self4 [of 16 8 n] by simp_all
  then show ?thesis using variant_byte [of b] by (simp add: byte_hex_def)
qed

text \<open>The layout of a version 4 identifier.\<close>

definition uuid_v4 :: "jstr \<Rightarrow> bool" where
  "uuid_v4 s \<longleftrightarrow> length s = 36 \<and> s ! 8 = 45 \<and> s ! 13 = 45 \<and> s ! 18 = 45 \<and> s ! 23 = 45
     \<and> s ! 14 = 52 \<and> s ! 19 \<in> {56, 57, 97, 98} \<and> (\<forall>c\<in>set s. lower_hex c \<or> c = 45)"

lemma variant_digit: "n < 4 \<Longrightarrow> hex_lo (8 + n) \<in> {56, 57, 97, 98}"
  by (auto simp: hex_lo_def)

text \<open>from any sixteen random bytes the fallback generator builds a version 4, RFC variant
  identifier: 36 lower-case characters with the dashes, the version and the variant in place.\<close>

theorem createUUID_version4:
  assumes "length values = 16"
  shows "\<exists>s. createUUID (RandomValues values) = Inr s \<and> uuid_v4 s"
proof -
  obtain b0 b1 b2 b3 b4 b5 b6 b7 b8 b9 b10 b11 b12 b13 b14 b15
    where v: "values = [b0, b1, b2, b3, b4, b5, b6, b7, b8, b9, b10, b11, b12, b13, b14, b15]"
    using assms by (auto simp: numeral_eq_Suc length_Suc_conv)
  have two: "byte_hex b = [byte_hex b ! 0, byte_hex b ! 1]" for b by (simp add: byte_hex_def)
  have lo: "lower_hex (byte_hex b ! 0)" "lower_hex (byte_hex b ! 1)" for b
    using byte_hex_lower [of _ b] by (auto simp: byte_hex_def)
  have m: "unat b8 mod 64 div 16 < 4" by (simp add: less_mult_imp_div_less)
  have n: "lower_hex (hex_lo (unat b mod 16))" "lower_hex (hex_lo (unat b mod 64 mod 16))" for b :: "8 word"
    by (simp_all add: lower_hex_lo)
  have d: "lower_hex (hex_lo (8 + unat b8 mod 64 div 16))" using m by (intro lower_hex_lo) simp
  let ?x = "\<lambda>b. byte_hex b ! 0" and ?y = "\<lambda>b. byte_hex b ! 1"
  let ?s = "[?x b0, ?y b0, ?x b1, ?y b1, ?x b2, ?y b2, ?x b3, ?y b3, 45, ?x b4, ?y b4, ?x b5, ?y b5, 45,
      52, hex_lo (unat b6 mod 16), ?x b7, ?y b7, 45, hex_lo (8 + unat b8 mod 64 div 16), hex_lo (unat b8 mod 64 mod 16),
      ?x b9, ?y b9, 45, ?x b10, ?y b10, ?x b11, ?y b11, ?x b12, ?y b12, ?x b13, ?y b13, ?x b14, ?y b14, ?x b15, ?y b15]"
  have "createUUID (RandomValues values) = Inr ?s"
    unfolding createUUID_def v
    by (simp add: Let_def version_hex variant_hex slice_def u_def) (simp add: byte_hex_def)
  moreover have "uuid_v4 ?s"
    using lo n d variant_digit [OF m] by (simp add: uuid_v4_def lower_hex_def [of 52])
  ultimately show ?thesis by blast
qed

lemma createUUID_version4_witness:
  "\<exists>s. createUUID (RandomValues [0, 255, 1, 2, 3, 4, 250, 6, 255, 8, 9, 10, 11, 12, 13, 14]) = Inr s \<and> uuid_v4 s"
  by (rule createUUID_version4) simp

section \<open>The store\<close>

text \<open>The status literal of a row.\<close>

definition isStatus :: "jval \<Rightarrow> bool" where
  "isStatus v \<longleftrightarrow> is_lit v ''pending'' \<or> is_lit v ''failed'' \<or> is_lit v ''synced''"

definition status_of :: "jval \<Rightarrow> ReviewOutboxState" where
  "status_of v = (if is_lit v ''pending'' then Pending else if is_lit v ''failed'' then Failed else Synced)"

fun status_text :: "ReviewOutboxState \<Rightarrow> jstr" where
  "status_text Pending = u ''pending''" | "status_text Failed = u ''failed''" | "status_text Synced = u ''synced''"

definition isReviewOutboxRecord :: "jval \<Rightarrow> bool" where
  "isReviewOutboxRecord value \<longleftrightarrow>
     isRecord value
     \<and> is_string (jget value ''operationKey'')
     \<and> is_string (jget value ''idempotencyKey'')
     \<and> is_string (jget value ''userId'')
     \<and> is_string (jget value ''endpoint'')
     \<and> is_string (jget value ''lessonId'')
     \<and> isFiniteInteger (jget value ''wordId'')
     \<and> isFiniteInteger (jget value ''lessonVersion'')
     \<and> is_string (jget value ''requestBody'')
     \<and> isStatus (jget value ''status'')
     \<and> isFiniteInteger (jget value ''attempts'')
     \<and> is_string (jget value ''createdAt'')
     \<and> is_string (jget value ''updatedAt'')
     \<and> is_string (jget value ''lastErrorCode'')
     \<and> is_string (jget value ''lastErrorMessage'')"

definition record_of :: "jval \<Rightarrow> ReviewOutboxRecord" where
  "record_of value = \<lparr>
     operationKey = str_of (jget value ''operationKey''),
     idempotencyKey = str_of (jget value ''idempotencyKey''),
     rv_userId = str_of (jget value ''userId''),
     rv_endpoint = str_of (jget value ''endpoint''),
     rv_lessonId = str_of (jget value ''lessonId''),
     rv_wordId = num_of (jget value ''wordId''),
     rv_lessonVersion = num_of (jget value ''lessonVersion''),
     requestBody = str_of (jget value ''requestBody''),
     rv_status = status_of (jget value ''status''),
     attempts = num_of (jget value ''attempts''),
     rv_createdAt = str_of (jget value ''createdAt''),
     rv_updatedAt = str_of (jget value ''updatedAt''),
     lastErrorCode = str_of (jget value ''lastErrorCode''),
     lastErrorMessage = str_of (jget value ''lastErrorMessage'')\<rparr>"

definition record_json :: "ReviewOutboxRecord \<Rightarrow> jval" where
  "record_json r = JObj [
     (u ''operationKey'', JStr (operationKey r)), (u ''idempotencyKey'', JStr (idempotencyKey r)),
     (u ''userId'', JStr (rv_userId r)), (u ''endpoint'', JStr (rv_endpoint r)),
     (u ''lessonId'', JStr (rv_lessonId r)), (u ''wordId'', JNum (rv_wordId r)),
     (u ''lessonVersion'', JNum (rv_lessonVersion r)), (u ''requestBody'', JStr (requestBody r)),
     (u ''status'', JStr (status_text (rv_status r))), (u ''attempts'', JNum (attempts r)),
     (u ''createdAt'', JStr (rv_createdAt r)), (u ''updatedAt'', JStr (rv_updatedAt r)),
     (u ''lastErrorCode'', JStr (lastErrorCode r)), (u ''lastErrorMessage'', JStr (lastErrorMessage r))]"

text \<open>
  What the browser decides about one transaction: whether IndexedDB exists, how opening the
  database ends, how each request ends and how the transaction ends.
\<close>

datatype open_end = Opened | OpenError "js_exn option" | OpenBlocked

record idb_env =
  has_indexedDB :: bool
  open_result :: open_end
  read_result :: outcome
  write_result :: outcome
  delete_result :: "jstr \<Rightarrow> outcome"
  tx_result :: tx_end

definition or_message :: "js_exn option \<Rightarrow> string \<Rightarrow> js_exn" where
  "or_message e m = (case e of Some x \<Rightarrow> x | None \<Rightarrow> ErrorMessage m)"

definition openReviewDatabase :: "idb_env \<Rightarrow> js_exn option" where
  "openReviewDatabase env =
     (if \<not> has_indexedDB env then Some (ErrorMessage ''IndexedDB is unavailable'')
      else (case open_result env of
          Opened \<Rightarrow> None
        | OpenError e \<Rightarrow> Some (or_message e ''Unable to open review outbox'')
        | OpenBlocked \<Rightarrow> Some (ErrorMessage ''Review outbox upgrade is blocked by another tab'')))"

text \<open>
  One transaction.  The operation either rejects, which aborts the transaction, or leaves the
  rows it wrote and the result it captured; nothing is kept unless the transaction commits.
\<close>

definition transactionResult :: "idb_env \<Rightarrow> (idb \<Rightarrow> js_exn + idb \<times> 'a option) \<Rightarrow> idb \<Rightarrow> (js_exn + 'a) \<times> idb" where
  "transactionResult env operation st =
     (case openReviewDatabase env of
        Some e \<Rightarrow> (Inl e, st)
      | None \<Rightarrow>
          (case operation st of
             Inl reason \<Rightarrow> (Inl reason, st)
           | Inr (st', captured) \<Rightarrow>
               (case tx_result env of
                  Commits \<Rightarrow>
                    (case captured of
                       None \<Rightarrow> (Inl (ErrorMessage ''Review outbox transaction completed without a result''), st')
                     | Some r \<Rightarrow> (Inr r, st'))
                | TxError e \<Rightarrow> (Inl (or_message e ''Review outbox transaction failed''), st)
                | TxAborts e \<Rightarrow> (Inl (or_message e ''Review outbox transaction was aborted''), st))))"

definition requested :: "outcome \<Rightarrow> string \<Rightarrow> js_exn + 'a \<Rightarrow> js_exn + 'a" where
  "requested out m next_step =
     (case out of Fails e \<Rightarrow> Inl (or_message e m) | Succeeds \<Rightarrow> next_step)"

record enqueue_input =
  in_userId :: jstr
  in_endpoint :: jstr
  in_reviewEndpoint :: ReviewEndpoint
  in_payload :: LessonReviewPayload
  in_requestBody :: jstr

definition input_key :: "enqueue_input \<Rightarrow> jstr" where
  "input_key input = reviewOperationKey (in_userId input) (in_reviewEndpoint input) (pl_lessonVersion (in_payload input))"

definition new_record :: "enqueue_input \<Rightarrow> jstr \<Rightarrow> jstr \<Rightarrow> ReviewOutboxRecord" where
  "new_record input uuid now = \<lparr>
     operationKey = input_key input,
     idempotencyKey = uuid,
     rv_userId = in_userId input,
     rv_endpoint = in_endpoint input,
     rv_lessonId = ep_lessonId (in_reviewEndpoint input),
     rv_wordId = ep_wordId (in_reviewEndpoint input),
     rv_lessonVersion = pl_lessonVersion (in_payload input),
     requestBody = in_requestBody input,
     rv_status = Pending,
     attempts = 0,
     rv_createdAt = now,
     rv_updatedAt = now,
     lastErrorCode = [],
     lastErrorMessage = []\<rparr>"

text \<open>
  An exception in the callback of a request (here: no source of random numbers) aborts the
  transaction, whose error is then an \<open>AbortError\<close>.
\<close>

definition enqueueLessonReview ::
  "idb_env \<Rightarrow> crypto \<Rightarrow> jstr \<Rightarrow> enqueue_input \<Rightarrow> idb \<Rightarrow> (js_exn + ReviewOutboxRecord) \<times> idb" where
  "enqueueLessonReview env cryptography now input =
     transactionResult env (\<lambda>st.
       requested (read_result env) ''Unable to read queued review''
         (let existing = idb_get st (input_key input) in
          if isReviewOutboxRecord existing then Inr (st, Some (record_of existing))
          else (case createUUID cryptography of
                  Inl e \<Rightarrow> Inl AbortError
                | Inr uuid \<Rightarrow>
                    let rec = new_record input uuid now in
                    requested (write_result env) ''Unable to queue review''
                      (Inr (idb_put st (operationKey rec) (record_json rec), Some rec)))))"

record review_changes =
  ch_status :: "ReviewOutboxState option"
  ch_attempts :: "jnum option"
  ch_lastErrorCode :: "jstr option"
  ch_lastErrorMessage :: "jstr option"

definition change_props :: "review_changes \<Rightarrow> (jstr \<times> jval) list" where
  "change_props ch =
     opt_prop ''status'' (JStr \<circ> status_text) (ch_status ch)
     @ opt_prop ''attempts'' JNum (ch_attempts ch)
     @ opt_prop ''lastErrorCode'' JStr (ch_lastErrorCode ch)
     @ opt_prop ''lastErrorMessage'' JStr (ch_lastErrorMessage ch)"

definition updateLessonReview ::
  "idb_env \<Rightarrow> jstr \<Rightarrow> jstr \<Rightarrow> review_changes \<Rightarrow> idb \<Rightarrow> (js_exn + ReviewOutboxRecord option) \<times> idb" where
  "updateLessonReview env now key changes =
     transactionResult env (\<lambda>st.
       requested (read_result env) ''Unable to read queued review''
         (let row = idb_get st key in
          if \<not> isReviewOutboxRecord row then Inr (st, Some None)
          else let next_row = spread (spread row (change_props changes)) [(u ''updatedAt'', JStr now)] in
               requested (write_result env) ''Unable to update queued review''
                 (Inr (idb_put st (str_of (jget next_row ''operationKey'')) next_row,
                       Some (Some (record_of next_row))))))"

text \<open>\<open>cmp\<close> is \<open>localeCompare\<close> on the creation times.\<close>

definition listLessonReviews ::
  "(jstr \<Rightarrow> jstr \<Rightarrow> int) \<Rightarrow> idb_env \<Rightarrow> jstr \<Rightarrow> idb \<Rightarrow> (js_exn + ReviewOutboxRecord list) \<times> idb" where
  "listLessonReviews cmp env userId =
     transactionResult env (\<lambda>st.
       requested (read_result env) ''Unable to list queued reviews''
         (let rows = filter (\<lambda>v. jget v ''userId'' = JStr userId) (idb_all st) in
          Inr (st, Some (js_sort (\<lambda>l r. cmp (rv_createdAt l) (rv_createdAt r))
                           (map record_of (filter isReviewOutboxRecord rows))))))"

fun count_status :: "ReviewOutboxSummary \<Rightarrow> ReviewOutboxState \<Rightarrow> ReviewOutboxSummary" where
  "count_status sm Pending = sm\<lparr>sm_pending := sm_pending sm + 1\<rparr>"
| "count_status sm Failed = sm\<lparr>sm_failed := sm_failed sm + 1\<rparr>"
| "count_status sm Synced = sm\<lparr>sm_synced := sm_synced sm + 1\<rparr>"

definition summarize :: "ReviewOutboxRecord list \<Rightarrow> ReviewOutboxSummary" where
  "summarize records =
     (let (sm, latest) = foldl (\<lambda>(current, latest) r.
              (count_status current (rv_status r),
               if rv_status r = Synced \<and> rv_updatedAt r > latest then rv_updatedAt r else latest))
            (\<lparr>sm_pending = 0, sm_failed = 0, sm_synced = 0, latestSyncedAt = []\<rparr>, []) records
      in sm\<lparr>latestSyncedAt := latest\<rparr>)"

definition reviewOutboxSummary ::
  "(jstr \<Rightarrow> jstr \<Rightarrow> int) \<Rightarrow> idb_env \<Rightarrow> jstr \<Rightarrow> idb \<Rightarrow> (js_exn + ReviewOutboxSummary) \<times> idb" where
  "reviewOutboxSummary cmp env userId st =
     (case listLessonReviews cmp env userId st of
        (Inl e, st') \<Rightarrow> (Inl e, st')
      | (Inr records, st') \<Rightarrow> (Inr (summarize records), st'))"

text \<open>\<open>parse_date\<close> is \<open>Date.parse\<close>.\<close>

definition prunable :: "(jstr \<Rightarrow> jnum) \<Rightarrow> jnum \<Rightarrow> jval \<Rightarrow> bool" where
  "prunable parse_date now row \<longleftrightarrow>
     isReviewOutboxRecord row \<and> rv_status (record_of row) = Synced
     \<and> now - parse_date (rv_updatedAt (record_of row)) \<ge> SYNCED_RETENTION_MS"

fun delete_all :: "idb_env \<Rightarrow> jstr list \<Rightarrow> idb \<Rightarrow> js_exn + idb" where
  "delete_all env [] st = Inr st"
| "delete_all env (k # ks) st =
     requested (delete_result env k) ''Unable to delete synced review'' (delete_all env ks (idb_delete st k))"

definition pruneSyncedLessonReviews ::
  "(jstr \<Rightarrow> jnum) \<Rightarrow> idb_env \<Rightarrow> jnum \<Rightarrow> idb \<Rightarrow> (js_exn + nat) \<times> idb" where
  "pruneSyncedLessonReviews parse_date env now =
     transactionResult env (\<lambda>st.
       requested (read_result env) ''Unable to prune synced reviews''
         (let expired = filter (prunable parse_date now) (idb_all st) in
          if expired = [] then Inr (st, Some 0)
          else (case delete_all env (map (operationKey \<circ> record_of) expired) st of
                  Inl e \<Rightarrow> Inl e
                | Inr st' \<Rightarrow> Inr (st', Some (length expired)))))"

section \<open>What the store promises\<close>

text \<open>The rows lie under their key path, which the store enforces.\<close>

definition store_ok :: "idb \<Rightarrow> bool" where
  "store_ok st \<longleftrightarrow> idb_ok st \<and> (\<forall>k v. idb_view st k = Some v \<longrightarrow> jget v ''operationKey'' = JStr k)"

definition record_at :: "idb \<Rightarrow> jstr \<Rightarrow> ReviewOutboxRecord option" where
  "record_at st k = (let v = idb_get st k in if isReviewOutboxRecord v then Some (record_of v) else None)"

definition same_review :: "ReviewOutboxRecord \<Rightarrow> ReviewOutboxRecord \<Rightarrow> bool" where
  "same_review r r' \<longleftrightarrow>
     operationKey r' = operationKey r \<and> idempotencyKey r' = idempotencyKey r \<and> rv_userId r' = rv_userId r
     \<and> rv_endpoint r' = rv_endpoint r \<and> rv_lessonId r' = rv_lessonId r \<and> rv_wordId r' = rv_wordId r
     \<and> rv_lessonVersion r' = rv_lessonVersion r \<and> requestBody r' = requestBody r \<and> rv_createdAt r' = rv_createdAt r"

definition input_ok :: "enqueue_input \<Rightarrow> bool" where
  "input_ok input \<longleftrightarrow> endpoint_ok (in_reviewEndpoint input) \<and> payload_valid (in_payload input)"

definition changes_ok :: "review_changes \<Rightarrow> bool" where
  "changes_ok ch \<longleftrightarrow> (case ch_attempts ch of None \<Rightarrow> True | Some a \<Rightarrow> isSafeInteger a)"

lemma status_roundtrip [simp]: "status_of (JStr (status_text x)) = x" "isStatus (JStr (status_text x))"
  by (cases x; simp add: status_of_def isStatus_def)+

lemma record_of_json [simp]: "record_of (record_json r) = r"
  by (simp add: record_of_def record_json_def)

lemma record_json_key [simp]: "jget (record_json r) ''operationKey'' = JStr (operationKey r)"
  by (simp add: record_json_def)

lemma record_json_ok: "isReviewOutboxRecord (record_json r) \<longleftrightarrow>
    isSafeInteger (rv_wordId r) \<and> isSafeInteger (rv_lessonVersion r) \<and> isSafeInteger (attempts r)"
  by (auto simp: isReviewOutboxRecord_def record_json_def isFiniteInteger_def)

lemma new_record_ok: "input_ok input \<Longrightarrow> isReviewOutboxRecord (record_json (new_record input uuid now))"
  by (auto simp: record_json_ok new_record_def input_ok_def endpoint_ok_def payload_valid_def isSafeInteger_def)

lemma record_key: "isReviewOutboxRecord v \<Longrightarrow> jget v ''operationKey'' = JStr (operationKey (record_of v))"
  by (auto simp: isReviewOutboxRecord_def record_of_def is_string_iff)

lemma record_at_view: "record_at st k = Some r \<longleftrightarrow>
    (\<exists>v. idb_view st k = Some v \<and> isReviewOutboxRecord v \<and> record_of v = r)"
  by (auto simp: record_at_def Let_def idb.get_view isReviewOutboxRecord_def split: option.splits if_splits)

lemma record_at_put:
  "record_at (idb_put st k v) k' =
     (if k' = k then if isReviewOutboxRecord v then Some (record_of v) else None else record_at st k')"
  by (simp add: record_at_def Let_def idb.get_put)

lemma store_ok_put: "store_ok st \<Longrightarrow> jget v ''operationKey'' = JStr k \<Longrightarrow> store_ok (idb_put st k v)"
  by (auto simp: store_ok_def idb.put_ok idb.view_put)

text \<open>Every way a transaction can end, once for all operations.\<close>

lemma transaction_cases:
  assumes "transactionResult env operation st = (res, st')"
  obtains (rolled_back) e where "res = Inl e" "st' = st"
    | (no_result) e where "res = Inl e" "operation st = Inr (st', None)"
    | (committed) r where "res = Inr r" "operation st = Inr (st', Some r)"
  using assms
  by (auto simp: transactionResult_def split: option.splits sum.splits prod.splits tx_end.splits)

lemma requested_Inr: "requested out m next_step = Inr x \<longleftrightarrow> out = Succeeds \<and> next_step = Inr x"
  by (auto simp: requested_def split: outcome.splits)

text \<open>The row an update writes.\<close>

definition updated_row :: "jstr \<Rightarrow> review_changes \<Rightarrow> jval \<Rightarrow> jval" where
  "updated_row now ch row = spread (spread row (change_props ch)) [(u ''updatedAt'', JStr now)]"

lemma map_of_change_props:
  "map_of (rev (change_props ch)) (u k) =
     (if k = ''status'' then map_option (JStr \<circ> status_text) (ch_status ch)
      else if k = ''attempts'' then map_option JNum (ch_attempts ch)
      else if k = ''lastErrorCode'' then map_option JStr (ch_lastErrorCode ch)
      else if k = ''lastErrorMessage'' then map_option JStr (ch_lastErrorMessage ch) else None)"
  by (auto simp: change_props_def opt_prop_def map_add_def split: option.splits)

lemma updated_row_props:
  "jget (updated_row now ch row) k =
     (if k = ''updatedAt'' then JStr now
      else case map_of (rev (change_props ch)) (u k) of Some x \<Rightarrow> x | None \<Rightarrow> jget row k)"
  by (simp add: updated_row_def jget_spread [of _ "[_]"] jget_spread [of row])

lemma updated_row_record [simp]: "isRecord (updated_row now ch row)"
  by (simp add: updated_row_def)

lemma updated_row_ok:
  assumes "isReviewOutboxRecord row" "changes_ok ch"
  shows "isReviewOutboxRecord (updated_row now ch row)" "same_review (record_of row) (record_of (updated_row now ch row))"
proof -
  note p = updated_row_props map_of_change_props
  show "isReviewOutboxRecord (updated_row now ch row)"
    using assms by (cases "ch_attempts ch")
      (simp_all add: isReviewOutboxRecord_def p changes_ok_def isFiniteInteger_def split: option.split)
  show "same_review (record_of row) (record_of (updated_row now ch row))"
    by (simp add: same_review_def record_of_def p)
qed

text \<open>What each operation can do to the store.\<close>

lemma enqueue_cases:
  assumes "enqueueLessonReview env cr now input st = (res, st')"
  obtains (failed) e where "res = Inl e" "st' = st"
    | (existing) "isReviewOutboxRecord (idb_get st (input_key input))"
        "res = Inr (record_of (idb_get st (input_key input)))" "st' = st"
    | (stored) uuid where "\<not> isReviewOutboxRecord (idb_get st (input_key input))" "createUUID cr = Inr uuid"
        "res = Inr (new_record input uuid now)"
        "st' = idb_put st (input_key input) (record_json (new_record input uuid now))"
proof -
  have k: "operationKey (new_record input uuid now) = input_key input" for uuid by (simp add: new_record_def)
  from assms [unfolded enqueueLessonReview_def] show thesis
  proof (cases rule: transaction_cases)
    case (committed r)
    show thesis
    proof (cases "isReviewOutboxRecord (idb_get st (input_key input))")
      case True
      with committed show thesis by (intro that(2)) (auto simp: requested_Inr)
    next
      case False
      with committed obtain uuid where "createUUID cr = Inr uuid"
        by (auto simp: requested_Inr Let_def split: sum.splits)
      with False committed k show thesis by (intro that(3) [of uuid]) (auto simp: requested_Inr Let_def)
    qed
  qed (use that(1) in \<open>auto simp: requested_Inr Let_def split: if_splits sum.splits\<close>)
qed

lemma update_cases:
  assumes "updateLessonReview env now key ch st = (res, st')"
  obtains (failed) e where "res = Inl e" "st' = st"
    | (missing) "\<not> isReviewOutboxRecord (idb_get st key)" "res = Inr None" "st' = st"
    | (written) "isReviewOutboxRecord (idb_get st key)"
        "res = Inr (Some (record_of (updated_row now ch (idb_get st key))))"
        "st' = idb_put st (str_of (jget (idb_get st key) ''operationKey'')) (updated_row now ch (idb_get st key))"
proof -
  have k: "jget (updated_row now ch row) ''operationKey'' = jget row ''operationKey''" for row
    by (simp add: updated_row_props map_of_change_props)
  from assms [unfolded updateLessonReview_def] show thesis
  proof (cases rule: transaction_cases)
    case (committed r)
    show thesis
    proof (cases "isReviewOutboxRecord (idb_get st key)")
      case True
      with committed k show thesis
        by (intro that(3)) (auto simp: requested_Inr Let_def updated_row_def)
    next
      case False
      with committed show thesis by (intro that(2)) (auto simp: requested_Inr)
    qed
  qed (use that(1) in \<open>auto simp: requested_Inr Let_def split: if_splits\<close>)
qed

lemma delete_all_Inr: "delete_all env ks st = Inr st' \<Longrightarrow> st' = foldl idb_delete st ks"
  by (induction ks arbitrary: st) (auto simp: requested_Inr)

lemma prune_cases:
  assumes "pruneSyncedLessonReviews dp env now st = (res, st')"
  obtains (failed) e where "res = Inl e" "st' = st"
    | (pruned) "res = Inr (length (filter (prunable dp now) (idb_all st)))"
        "st' = foldl idb_delete st (map (operationKey \<circ> record_of) (filter (prunable dp now) (idb_all st)))"
  using assms unfolding pruneSyncedLessonReviews_def
  by (cases rule: transaction_cases)
     (use that in \<open>auto simp: requested_Inr Let_def delete_all_Inr split: if_splits sum.splits\<close>)

lemma list_store: "listLessonReviews cmp env userId st = (res, st') \<Longrightarrow> st' = st"
  unfolding listLessonReviews_def by (cases rule: transaction_cases) (auto simp: requested_Inr)

lemma store_key: "store_ok st \<Longrightarrow> isReviewOutboxRecord (idb_get st k) \<Longrightarrow>
    operationKey (record_of (idb_get st k)) = k \<and> jget (idb_get st k) ''operationKey'' = JStr k"
  by (fastforce simp: store_ok_def isReviewOutboxRecord_def record_of_def dest: idb.get_isRecord)

lemma prune_view:
  assumes "store_ok st"
  shows "idb_view (foldl idb_delete st (map (operationKey \<circ> record_of) (filter (prunable dp now) (idb_all st)))) k =
           (case idb_view st k of None \<Rightarrow> None | Some v \<Rightarrow> if prunable dp now v then None else Some v)"
proof -
  have a: "set (idb_all st) = ran (idb_view st)" using assms by (simp add: store_ok_def idb.all_view)
  have key: "operationKey (record_of v) = k'" if "idb_view st k' = Some v" "prunable dp now v" for k' v
    using that assms by (auto simp: store_ok_def prunable_def record_of_def)
  have "k \<in> set (map (operationKey \<circ> record_of) (filter (prunable dp now) (idb_all st)))
      \<longleftrightarrow> (\<exists>v. idb_view st k = Some v \<and> prunable dp now v)"
    using key by (auto simp: a ran_def image_iff)
  then show ?thesis by (auto simp: idb.view_foldl_del split: option.split)
qed

lemma store_ok_ops:
  assumes "store_ok st"
  shows "enqueueLessonReview env cr now input st = (res1, st1) \<Longrightarrow> store_ok st1"
    and "updateLessonReview env now key ch st = (res2, st2) \<Longrightarrow> store_ok st2"
    and "pruneSyncedLessonReviews dp env n st = (res3, st3) \<Longrightarrow> store_ok st3"
proof -
  show "enqueueLessonReview env cr now input st = (res1, st1) \<Longrightarrow> store_ok st1"
    by (erule enqueue_cases) (use assms in \<open>auto simp: new_record_def intro!: store_ok_put\<close>)
  show "updateLessonReview env now key ch st = (res2, st2) \<Longrightarrow> store_ok st2"
    by (erule update_cases)
       (use assms store_key [OF assms] in \<open>auto simp: updated_row_props map_of_change_props intro!: store_ok_put\<close>)
  show "pruneSyncedLessonReviews dp env n st = (res3, st3) \<Longrightarrow> store_ok st3"
  proof (erule prune_cases)
    assume st3: "st3 = foldl idb_delete st (map (operationKey \<circ> record_of) (filter (prunable dp n) (idb_all st)))"
    have "idb_ok st3" using assms by (simp add: st3 store_ok_def idb.foldl_del_ok)
    moreover have "jget v ''operationKey'' = JStr k" if "idb_view st3 k = Some v" for k v
      using that assms prune_view [OF assms, of dp n k] by (auto simp: st3 store_ok_def split: option.splits if_splits)
    ultimately show ?thesis by (simp add: store_ok_def)
  qed (use assms in simp)
qed

text \<open>The operations as steps of the store; updates keep the attempt counter a safe integer.\<close>

inductive outbox_step :: "(jstr \<Rightarrow> jnum) \<Rightarrow> idb \<Rightarrow> idb \<Rightarrow> bool" for dp where
  step_enqueue: "input_ok input \<Longrightarrow> enqueueLessonReview env cr now input st = (res, st') \<Longrightarrow> outbox_step dp st st'"
| step_update: "changes_ok ch \<Longrightarrow> updateLessonReview env now key ch st = (res', st') \<Longrightarrow> outbox_step dp st st'"
| step_prune: "pruneSyncedLessonReviews dp env time st = (res'', st') \<Longrightarrow> outbox_step dp st st'"

inductive_cases outbox_stepE: "outbox_step dp st st'"

lemma step_store_ok: "outbox_step dp st st' \<Longrightarrow> store_ok st \<Longrightarrow> store_ok st'"
  by (erule outbox_stepE) (auto dest: store_ok_ops)

lemma steps_store_ok: "(outbox_step dp)\<^sup>*\<^sup>* st st' \<Longrightarrow> store_ok st \<Longrightarrow> store_ok st'"
  by (induction rule: rtranclp_induct) (auto intro: step_store_ok)

lemma same_review_refl [simp]: "same_review r r" and same_review_trans: "same_review r s \<Longrightarrow> same_review s t \<Longrightarrow> same_review r t"
  by (simp_all add: same_review_def)

lemma step_keeps_unsynced:
  assumes "outbox_step dp st st'" "store_ok st" "record_at st k = Some r" "rv_status r \<noteq> Synced"
  shows "\<exists>r'. record_at st' k = Some r' \<and> same_review r r'"
  using assms(1)
proof (cases rule: outbox_step.cases)
  case (step_enqueue input env cr now res)
  from step_enqueue(2) show ?thesis
  proof (cases rule: enqueue_cases)
    case (stored uuid)
    with assms(3) have "k \<noteq> input_key input" by (auto simp: record_at_def)
    with stored assms(3) show ?thesis by (simp add: record_at_put)
  qed (use assms(3) in auto)
next
  case (step_update ch env now key res)
  from step_update(2) show ?thesis
  proof (cases rule: update_cases)
    case written
    with store_key [OF assms(2)] have st': "st' = idb_put st key (updated_row now ch (idb_get st key))" by simp
    from updated_row_ok [OF written(1) step_update(1), of now] assms(3) show ?thesis
      by (auto simp: st' record_at_def Let_def idb.get_put split: if_splits)
  qed (use assms(3) in auto)
next
  case (step_prune env time res)
  from step_prune show ?thesis
  proof (cases rule: prune_cases)
    case pruned
    from assms(3) obtain v where v: "idb_view st k = Some v" "isReviewOutboxRecord v" "record_of v = r"
      by (auto simp: record_at_view)
    with assms(4) have "\<not> prunable dp time v" by (simp add: prunable_def)
    with v prune_view [OF assms(2), of dp time k] pruned(2) show ?thesis by (auto simp: record_at_view)
  qed (use assms(3) in auto)
qed

text \<open>C1: whatever sequence of queueing, updating and pruning runs, failed transactions included, a queued
  review keeps its identity and its body, and disappears only after it has been marked synced.\<close>

theorem queued_review_lost_only_after_sync:
  assumes "store_ok st" "(outbox_step dp)\<^sup>*\<^sup>* st st'" "record_at st k = Some r"
  shows "(\<exists>r'. record_at st' k = Some r' \<and> same_review r r')
    \<or> (\<exists>s r'. (outbox_step dp)\<^sup>*\<^sup>* st s \<and> (outbox_step dp)\<^sup>*\<^sup>* s st'
         \<and> record_at s k = Some r' \<and> same_review r r' \<and> rv_status r' = Synced)"
  using assms(2)
proof (induction rule: rtranclp_induct)
  case base
  then show ?case using assms(3) by auto
next
  case (step y z)
  then have "store_ok y" using assms(1) steps_store_ok by blast
  with step show ?case
    by (meson rtranclp.rtrancl_into_rtrancl rtranclp.rtrancl_refl same_review_trans step_keeps_unsynced)
qed

text \<open>C2: the first queueing of an operation wins: queueing the same operation again, with any other body and
  in any environment, returns the record already stored, idempotency key included, and changes nothing.\<close>

theorem enqueue_first_write_wins:
  assumes "input_ok input" "enqueueLessonReview env cr now input st = (Inr r, st1)"
    and "input_key again = input_key input" "enqueueLessonReview env' cr' now' again st1 = (res, st2)"
  shows "st2 = st1 \<and> record_at st1 (input_key input) = Some r \<and> (\<forall>r'. res = Inr r' \<longrightarrow> r' = r)"
proof -
  have r: "record_at st1 (input_key input) = Some r"
    using assms(2) by (cases rule: enqueue_cases)
      (use new_record_ok [OF assms(1)] in \<open>auto simp: record_at_put\<close>, simp add: record_at_def)
  from assms(4) show ?thesis
    by (cases rule: enqueue_cases) (use r assms(3) in \<open>auto simp: record_at_def Let_def split: if_splits\<close>)
qed

text \<open>pruning removes exactly the reviews synced at least a day before, counts them, and keeps every other
  row, pending and failed reviews and rows it cannot read alike.\<close>

theorem prune_removes_exactly_expired:
  assumes "store_ok st" "pruneSyncedLessonReviews dp env now st = (Inr n, st')"
  shows "n = length (filter (prunable dp now) (idb_all st))
    \<and> idb_view st' k = (case idb_view st k of None \<Rightarrow> None | Some v \<Rightarrow> if prunable dp now v then None else Some v)"
  using assms(2) by (cases rule: prune_cases) (simp_all add: prune_view [OF assms(1)])

text \<open>an operation that rejects leaves the store as it was, whichever request or transaction failed, and
  listing never changes it.\<close>

theorem rejected_operation_changes_nothing:
  "(enqueueLessonReview env cr now input st = (Inl e, st1) \<longrightarrow> st1 = st)
   \<and> (updateLessonReview env now key ch st = (Inl e, st2) \<longrightarrow> st2 = st)
   \<and> (pruneSyncedLessonReviews dp env n st = (Inl e, st3) \<longrightarrow> st3 = st)
   \<and> snd (listLessonReviews cmp env userId st) = st"
proof -
  have "snd (listLessonReviews cmp env userId st) = st" by (metis prod.collapse list_store)
  then show ?thesis by (auto elim: enqueue_cases update_cases prune_cases)
qed

section \<open>The summary and the request body\<close>

lemma summarize_fold:
  assumes "foldl (\<lambda>(current, latest) r. (count_status current (rv_status r),
       if rv_status r = Synced \<and> rv_updatedAt r > latest then rv_updatedAt r else latest)) (sm, l) rs = (sm', l')"
  shows "sm_pending sm' = sm_pending sm + length (filter (\<lambda>r. rv_status r = Pending) rs)
    \<and> sm_failed sm' = sm_failed sm + length (filter (\<lambda>r. rv_status r = Failed) rs)
    \<and> sm_synced sm' = sm_synced sm + length (filter (\<lambda>r. rv_status r = Synced) rs)
    \<and> l' = fold max (map rv_updatedAt (filter (\<lambda>r. rv_status r = Synced) rs)) l"
  using assms
proof (induction rs arbitrary: sm l)
  case (Cons r rs)
  show ?case
    using Cons.IH [OF Cons.prems [unfolded foldl.simps prod.case]]
    by (cases "rv_status r") (auto simp: max_def not_less intro!: arg_cong [where f = "fold max _"])
qed simp

lemma fold_max_Max: "fold max xs (l::'a::linorder) = Max (insert l (set xs))"
  by (metis Max.set_eq_fold list.simps(15))

definition rows_of_user :: "jstr \<Rightarrow> idb \<Rightarrow> ReviewOutboxRecord list" where
  "rows_of_user userId st = map record_of (filter isReviewOutboxRecord (filter (\<lambda>v. jget v ''userId'' = JStr userId) (idb_all st)))"

lemma list_committed:
  assumes "listLessonReviews cmp env userId st = (Inr records, st')"
  shows "records = js_sort (\<lambda>l r. cmp (rv_createdAt l) (rv_createdAt r)) (rows_of_user userId st)"
  using assms unfolding listLessonReviews_def
  by (cases rule: transaction_cases) (auto simp: requested_Inr rows_of_user_def)

text \<open>the summary partitions the user's readable reviews into pending, failed and synced, whatever order they
  are listed in, and reports the time of the latest synced one.\<close>

theorem summary_partitions_reviews:
  assumes "reviewOutboxSummary cmp env userId st = (Inr sm, st')"
  shows "sm_pending sm + sm_failed sm + sm_synced sm = length (rows_of_user userId st)
    \<and> sm_synced sm = length (filter (\<lambda>r. rv_status r = Synced) (rows_of_user userId st))
    \<and> (\<forall>r\<in>set (rows_of_user userId st). rv_status r = Synced \<longrightarrow> rv_updatedAt r \<le> latestSyncedAt sm)
    \<and> (latestSyncedAt sm = [] \<or>
         (\<exists>r\<in>set (rows_of_user userId st). rv_status r = Synced \<and> rv_updatedAt r = latestSyncedAt sm))"
proof -
  from assms obtain records where rec: "listLessonReviews cmp env userId st = (Inr records, st')"
      "sm = summarize records"
    by (auto simp: reviewOutboxSummary_def split: prod.splits sum.splits)
  have m: "mset records = mset (rows_of_user userId st)" using list_committed [OF rec(1)] by simp
  then have set: "set records = set (rows_of_user userId st)" by (metis set_mset_mset)
  have len: "length (filter P records) = length (filter P (rows_of_user userId st))" for P
    using m by (metis mset_filter size_mset)
  obtain sm0 l where f: "foldl (\<lambda>(current, latest) r. (count_status current (rv_status r),
       if rv_status r = Synced \<and> rv_updatedAt r > latest then rv_updatedAt r else latest))
       (\<lparr>sm_pending = 0, sm_failed = 0, sm_synced = 0, latestSyncedAt = []\<rparr>, []) records = (sm0, l)"
    by (cases "foldl (\<lambda>(current, latest) r. (count_status current (rv_status r),
       if rv_status r = Synced \<and> rv_updatedAt r > latest then rv_updatedAt r else latest))
       (\<lparr>sm_pending = 0, sm_failed = 0, sm_synced = 0, latestSyncedAt = []\<rparr>, []) records")
  let ?ts = "map rv_updatedAt (filter (\<lambda>r. rv_status r = Synced) records)"
  note c = summarize_fold [OF f]
  have sm: "sm = sm0\<lparr>latestSyncedAt := l\<rparr>" using f rec(2) by (simp add: summarize_def)
  have part: "length (filter (\<lambda>r. rv_status r = Pending) rs) + length (filter (\<lambda>r. rv_status r = Failed) rs)
      + length (filter (\<lambda>r. rv_status r = Synced) rs) = length rs" for rs :: "ReviewOutboxRecord list"
  proof (induction rs)
    case (Cons r rs)
    then show ?case by (cases "rv_status r") auto
  qed simp
  have l: "l = fold max ?ts []" using c by simp
  have "l = [] \<or> l \<in> set ?ts" using Max_in [of "insert [] (set ?ts)"] l by (auto simp: fold_max_Max)
  moreover have "t \<le> l" if "t \<in> set ?ts" for t using Max_ge [of "insert [] (set ?ts)" t] that l by (simp add: fold_max_Max)
  moreover have "length records = length (rows_of_user userId st)" using m by (metis size_mset)
  ultimately show ?thesis using c sm part [of records] len set by auto
qed

text \<open>What a browser that fails nothing does, and one review, for the examples below.\<close>

definition calm_env :: idb_env where
  "calm_env = \<lparr>has_indexedDB = True, open_result = Opened, read_result = Succeeds, write_result = Succeeds,
     delete_result = (\<lambda>k. Succeeds), tx_result = Commits\<rparr>"

definition sample_input :: enqueue_input where
  "sample_input = \<lparr>in_userId = u ''user-1'', in_endpoint = u ''/api/v1/lessons'',
     in_reviewEndpoint = \<lparr>ep_lessonId = u ''0123456789abcdef-0123456789abcdef-01'', ep_wordId = 7\<rparr>,
     in_payload = \<lparr>pl_lessonVersion = 3, pl_rating = Known, pl_responseMs = Some 1500, pl_answerMode = Recall,
       pl_submittedAnswer = Some (u ''house''), pl_correct = None, pl_answerRevealed = Some False,
       pl_timezoneOffsetMinutes = - 180\<rparr>,
     in_requestBody = u ''body''\<rparr>"

definition sample_store :: idb where
  "sample_store = snd (enqueueLessonReview calm_env (RandomUUID (u ''k1'')) (u ''t1'') sample_input [])"

lemma sample_payload_ok: "payload_valid (in_payload sample_input)"
  by (simp add: sample_input_def payload_valid_def isSafeInteger_def submittedAnswerLength_def u_def chars_of.simps is_high_def)

lemma sample_ok: "input_ok sample_input"
  using sample_payload_ok
  by (simp add: input_ok_def, simp add: sample_input_def endpoint_ok_def u_def hex_or_dash_def lower_unit_def isSafeInteger_def)

lemma calm_transaction:
  "transactionResult calm_env operation st =
     (case operation st of Inl reason \<Rightarrow> (Inl reason, st)
      | Inr (st', Some r) \<Rightarrow> (Inr r, st')
      | Inr (st', None) \<Rightarrow> (Inl (ErrorMessage ''Review outbox transaction completed without a result''), st'))"
  by (simp add: transactionResult_def openReviewDatabase_def calm_env_def split: sum.split prod.split option.split)

lemma calm_requests [simp]:
  "requested (read_result calm_env) m x = x" "requested (write_result calm_env) m x = x"
  by (simp_all add: calm_env_def requested_def)

lemma enqueue_fresh:
  "enqueueLessonReview calm_env (RandomUUID uuid) now input [] =
     (Inr (new_record input uuid now), [(input_key input, record_json (new_record input uuid now))])"
  by (simp add: enqueueLessonReview_def calm_transaction Let_def idb_get_def isReviewOutboxRecord_def createUUID_def
      new_record_def)

lemma sample_store_row:
  "sample_store = [(input_key sample_input, record_json (new_record sample_input (u ''k1'') (u ''t1'')))]"
  by (simp add: sample_store_def enqueue_fresh)

lemma sample_store_ok: "store_ok sample_store"
  by (simp add: sample_store_row store_ok_def idb_ok_def idb_view_def new_record_def)

lemma sample_record: "record_at sample_store (input_key sample_input) = Some (new_record sample_input (u ''k1'') (u ''t1''))"
  by (simp add: sample_store_row record_at_def idb_get_def new_record_ok [OF sample_ok])

lemma queued_review_lost_only_after_sync_witness:
  "\<exists>r. record_at sample_store (input_key sample_input) = Some r \<and> rv_status r = Pending
     \<and> (let st' = snd (updateLessonReview calm_env (u ''t2'') (input_key sample_input)
            \<lparr>ch_status = Some Synced, ch_attempts = Some 1, ch_lastErrorCode = None, ch_lastErrorMessage = None\<rparr> sample_store) in
         (\<exists>r'. record_at st' (input_key sample_input) = Some r' \<and> same_review r r')
         \<or> (\<exists>s r'. record_at s (input_key sample_input) = Some r' \<and> rv_status r' = Synced))"
proof -
  let ?ch = "\<lparr>ch_status = Some Synced, ch_attempts = Some 1, ch_lastErrorCode = None, ch_lastErrorMessage = None\<rparr>"
  let ?res = "updateLessonReview calm_env (u ''t2'') (input_key sample_input) ?ch sample_store"
  have "outbox_step (\<lambda>d. 0) sample_store (snd ?res)"
    by (rule step_update [where ch = ?ch]) (auto simp: changes_ok_def isSafeInteger_def intro: prod.collapse [symmetric])
  with queued_review_lost_only_after_sync [OF sample_store_ok _ sample_record] show ?thesis
    by (simp add: Let_def sample_record) (metis r_into_rtranclp new_record_def ReviewOutboxRecord.select_convs(9))
qed

lemma enqueue_first_write_wins_witness:
  "snd (enqueueLessonReview calm_env (RandomUUID (u ''k2'')) (u ''t2'') (sample_input\<lparr>in_requestBody := u ''other''\<rparr>) sample_store)
     = sample_store"
proof -
  let ?again = "sample_input\<lparr>in_requestBody := u ''other''\<rparr>"
  have "input_key ?again = input_key sample_input" by (simp add: input_key_def)
  from enqueue_first_write_wins [OF sample_ok enqueue_fresh this, of calm_env "RandomUUID (u ''k2'')" "u ''t2''"]
  show ?thesis unfolding sample_store_row by (metis prod.collapse)
qed

lemma prune_removes_exactly_expired_witness:
  "idb_view (snd (pruneSyncedLessonReviews (\<lambda>d. 0) calm_env 86400000 sample_store)) (input_key sample_input) \<noteq> None"
proof -
  let ?row = "record_json (new_record sample_input (u ''k1'') (u ''t1''))"
  have n: "\<not> prunable (\<lambda>d. 0) 86400000 ?row" by (simp add: prunable_def new_record_def)
  have "pruneSyncedLessonReviews (\<lambda>d. 0) calm_env 86400000 sample_store = (Inr 0, sample_store)"
    using n by (simp add: pruneSyncedLessonReviews_def calm_transaction Let_def sample_store_row idb_all_def)
  from prune_removes_exactly_expired [OF sample_store_ok this, of "input_key sample_input"] this n show ?thesis
    by (simp add: sample_store_row idb_view_def)
qed

lemma rejected_operation_changes_nothing_witness:
  "snd (enqueueLessonReview calm_env NoCrypto (u ''t1'') sample_input []) = []"
proof -
  have "enqueueLessonReview calm_env NoCrypto (u ''t1'') sample_input [] = (Inl AbortError, [])"
    by (simp add: enqueueLessonReview_def calm_transaction Let_def idb_get_def isReviewOutboxRecord_def createUUID_def)
  then show ?thesis
    using rejected_operation_changes_nothing [where env = calm_env and cr = NoCrypto and now = "u ''t1''"
        and input = sample_input and st = "[]" and e = AbortError and ?st1.0 = "[]", THEN conjunct1] by simp
qed

lemma list_sample:
  "listLessonReviews (by_key id) calm_env (u ''user-1'') sample_store =
     (Inr [new_record sample_input (u ''k1'') (u ''t1'')], sample_store)"
proof -
  have "jget (record_json (new_record sample_input (u ''k1'') (u ''t1''))) ''userId'' = JStr (u ''user-1'')"
    by (simp add: record_json_def new_record_def sample_input_def)
  then show ?thesis
    by (simp add: listLessonReviews_def calm_transaction Let_def sample_store_row idb_all_def js_sort_def
        new_record_ok [OF sample_ok])
qed

lemma summary_partitions_reviews_witness:
  "\<exists>sm st'. reviewOutboxSummary (by_key id) calm_env (u ''user-1'') sample_store = (Inr sm, st')
     \<and> sm_pending sm + sm_failed sm + sm_synced sm = length (rows_of_user (u ''user-1'') sample_store)"
proof -
  obtain sm where s: "reviewOutboxSummary (by_key id) calm_env (u ''user-1'') sample_store = (Inr sm, sample_store)"
    by (simp add: reviewOutboxSummary_def list_sample)
  with summary_partitions_reviews [OF s] show ?thesis by blast
qed

text \<open>what the parser accepts is a valid payload, and a valid payload survives being written as the JSON text
  of the queued request and parsed again when the queue is sent.\<close>

theorem payload_survives_request_body:
  "(parseLessonReviewPayload v = Some p \<longrightarrow> payload_valid p)
   \<and> (payload_valid p \<and> (\<forall>a. pl_submittedAnswer p = Some a \<longrightarrow> units_ok a) \<longrightarrow>
        Option.bind (json_parse (json_stringify (payload_json p))) parseLessonReviewPayload = Some p)"
proof -
  have safe: "isSafeInteger n \<Longrightarrow> num_clean n" for n
    by (cases n) (auto simp: isSafeInteger_def num_clean_def)
  have units: "units_ok (rating_text r)" "units_ok (answer_mode_text m)" for r m
    by (cases r; simp) (cases m; simp)
  have "clean (payload_json p)" if "payload_valid p" "\<forall>a. pl_submittedAnswer p = Some a \<longrightarrow> units_ok a"
    using that by (auto simp: payload_json_def opt_prop_def payload_valid_def safe units split: option.splits)
  then show ?thesis by (auto simp: payload_parse_valid payload_parse_json json.dec_enc_bind)
qed

lemma payload_survives_request_body_witness:
  "Option.bind (json_parse (json_stringify (payload_json (in_payload sample_input)))) parseLessonReviewPayload
     = Some (in_payload sample_input)"
  using payload_survives_request_body [of JNull "in_payload sample_input"] sample_payload_ok
  by (simp add: sample_input_def)

end
