(* ===== verification/Request_Failure.thy ===== *)
theory Request_Failure
  imports Js_Json
begin

text \<open>
  \<open>src/frontend/lib/request-failure.ts\<close>: the classification of failed requests, the timed fetch
  with its short-lived client cache, and the decoding of responses.  What the network, the
  clock, the caller's signal and the URL parser do is given as arguments.  The \<open>cause\<close> an error
  carries for the console is not kept.
\<close>

section \<open>Failures\<close>

datatype RequestFailureKind = Unauthorized | Forbidden | Offline | Timeout | Malformed | ServerFault | ClientFault | UnknownFault

text \<open>\<open>rf_session\<close> tells the subclass \<open>SessionRefreshError\<close> of \<open>auth-session.ts\<close>.\<close>

record RequestFailure =
  rf_kind :: RequestFailureKind
  rf_message :: jstr
  rf_status :: jnum
  rf_code :: jstr
  rf_field :: jstr
  rf_correlationId :: jstr
  rf_session :: bool

datatype thrown =
  Failure RequestFailure | AbortException | TypeException jstr | ErrorException jstr | OtherThrown

record RequestProblem =
  pb_kind :: RequestFailureKind
  pb_title :: jstr
  pb_message :: jstr
  pb_retryable :: bool
  pb_status :: jnum
  pb_code :: jstr
  pb_correlationId :: jstr

record failure_options =
  fo_status :: "jnum option"
  fo_code :: "jstr option"
  fo_field :: "jstr option"
  fo_correlationId :: "jstr option"

definition no_options :: failure_options where
  "no_options = \<lparr>fo_status = None, fo_code = None, fo_field = None, fo_correlationId = None\<rparr>"

definition newRequestFailure :: "RequestFailureKind \<Rightarrow> jstr \<Rightarrow> failure_options \<Rightarrow> RequestFailure" where
  "newRequestFailure kind message options =
     \<lparr>rf_kind = kind, rf_message = message,
      rf_status = (case fo_status options of Some s \<Rightarrow> s | None \<Rightarrow> 0),
      rf_code = (case fo_code options of Some c \<Rightarrow> c | None \<Rightarrow> u ''request_failed''),
      rf_field = (case fo_field options of Some f \<Rightarrow> f | None \<Rightarrow> []),
      rf_correlationId = (case fo_correlationId options of Some c \<Rightarrow> c | None \<Rightarrow> []),
      rf_session = False\<rparr>"

definition failureKindForStatus :: "jnum \<Rightarrow> RequestFailureKind" where
  "failureKindForStatus status =
     (if jeq status 401 then Unauthorized
      else if jeq status 403 then Forbidden
      else if status \<ge> 500 then ServerFault
      else if status \<ge> 400 then ClientFault
      else UnknownFault)"

record error_details =
  ed_code :: jstr
  ed_message :: jstr
  ed_field :: jstr

definition errorDetails :: "jval \<Rightarrow> error_details" where
  "errorDetails value =
     (if \<not> isRecord value then \<lparr>ed_code = u ''request_failed'', ed_message = [], ed_field = []\<rparr>
      else
        let nested = (if isRecord (jget value ''error'') then jget value ''error'' else value) in
        \<lparr>ed_code = (if is_string (jget nested ''code'') \<and> trim (str_of (jget nested ''code'')) \<noteq> []
                   then str_of (jget nested ''code'') else u ''request_failed''),
         ed_message = (if is_string (jget nested ''message'') then trim (str_of (jget nested ''message'')) else []),
         ed_field = (if is_string (jget nested ''field'') then trim (str_of (jget nested ''field'')) else [])\<rparr>)"

section \<open>Responses\<close>

text \<open>Header names are lower case; the body is \<open>None\<close> where reading it fails.\<close>

record Response =
  rs_status :: jnum
  rs_headers :: "(jstr \<times> jstr) list"
  rs_body :: "jstr option"

definition response_ok :: "Response \<Rightarrow> bool" where
  "response_ok r \<longleftrightarrow> rs_status r \<ge> 200 \<and> rs_status r \<le> 299"

definition header_get :: "(jstr \<times> jstr) list \<Rightarrow> string \<Rightarrow> jstr option" where
  "header_get hs name = map_of hs (u name)"

definition or_else :: "'a option \<Rightarrow> 'a option \<Rightarrow> 'a option" where
  "or_else a b = (case a of Some x \<Rightarrow> Some x | None \<Rightarrow> b)"

definition failureFromResponse :: "Response \<Rightarrow> RequestFailure" where
  "failureFromResponse response =
     (let details = (case Option.bind (rs_body response) json_parse of
            Some v \<Rightarrow> errorDetails v
          | None \<Rightarrow> \<lparr>ed_code = u ''request_failed'', ed_message = [], ed_field = []\<rparr>);
          h = rs_headers response;
          correlation = (case or_else (header_get h ''x-request-id'')
              (or_else (header_get h ''x-correlation-id'') (header_get h ''traceparent'')) of
            Some c \<Rightarrow> c | None \<Rightarrow> []) in
      newRequestFailure (failureKindForStatus (rs_status response))
        (if ed_message details \<noteq> [] then ed_message details
         else u ''Request failed with status '' @ num_str (rs_status response))
        \<lparr>fo_status = Some (rs_status response), fo_code = Some (ed_code details), fo_field = Some (ed_field details),
         fo_correlationId = Some correlation\<rparr>)"

definition decodeJSON :: "Response \<Rightarrow> (jval \<Rightarrow> bool) \<Rightarrow> jstr \<Rightarrow> RequestFailure + jval" where
  "decodeJSON response validator payloadName =
     (case Option.bind (rs_body response) (\<lambda>body. if trim body = [] then None else json_parse body) of
        None \<Rightarrow> Inl (newRequestFailure Malformed (payloadName @ u '' contains malformed JSON'')
                  (no_options\<lparr>fo_status := Some (rs_status response), fo_code := Some (u ''malformed_json'')\<rparr>))
      | Some value \<Rightarrow>
          if \<not> validator value
          then Inl (newRequestFailure Malformed (payloadName @ u '' has an incompatible schema'')
                  (no_options\<lparr>fo_status := Some (rs_status response), fo_code := Some (u ''invalid_response_schema'')\<rparr>))
          else Inr value)"

fun toRequestFailure :: "thrown \<Rightarrow> RequestFailure" where
  "toRequestFailure (Failure f) = f"
| "toRequestFailure AbortException =
     newRequestFailure UnknownFault (u ''Request was cancelled'') (no_options\<lparr>fo_code := Some (u ''request_cancelled'')\<rparr>)"
| "toRequestFailure (TypeException m) = newRequestFailure UnknownFault m no_options"
| "toRequestFailure (ErrorException m) = newRequestFailure UnknownFault m no_options"
| "toRequestFailure OtherThrown = newRequestFailure UnknownFault (u ''Request failed'') no_options"

definition problem :: "RequestFailure \<Rightarrow> jstr \<Rightarrow> jstr \<Rightarrow> bool \<Rightarrow> RequestProblem" where
  "problem failure title message retryable =
     \<lparr>pb_kind = rf_kind failure, pb_title = title, pb_message = message, pb_retryable = retryable,
      pb_status = rf_status failure, pb_code = rf_code failure, pb_correlationId = rf_correlationId failure\<rparr>"

definition describeRequestFailure :: "thrown \<Rightarrow> jstr \<Rightarrow> RequestProblem" where
  "describeRequestFailure error resource =
     (let failure = toRequestFailure error in
      case rf_kind failure of
        Unauthorized \<Rightarrow> problem failure ([1057, 1077, 1089, 1089, 1080, 1103, 32, 1080, 1089, 1090, 1077, 1082, 1083, 1072])
          ([1042, 1086, 1081, 1076, 1080, 1090, 1077, 32, 1089, 1085, 1086, 1074, 1072, 44, 32, 1095, 1090, 1086, 1073, 1099, 32, 1079, 1072, 1075, 1088, 1091, 1079, 1080, 1090, 1100, 32] @ resource @ u ''.'') False
      | Forbidden \<Rightarrow> problem failure ([1044, 1086, 1089, 1090, 1091, 1087, 32, 1086, 1075, 1088, 1072, 1085, 1080, 1095, 1077, 1085])
          ([1059, 32, 1090, 1077, 1082, 1091, 1097, 1077, 1081, 32, 1089, 1077, 1089, 1089, 1080, 1080, 32, 1085, 1077, 1090, 32, 1076, 1086, 1089, 1090, 1091, 1087, 1072, 32, 1082, 32, 1088, 1077, 1089, 1091, 1088, 1089, 1091, 32, 171] @ resource @ [187, 46]) False
      | Offline \<Rightarrow> problem failure ([1053, 1077, 1090, 32, 1087, 1086, 1076, 1082, 1083, 1102, 1095, 1077, 1085, 1080, 1103, 32, 1082, 32, 1089, 1077, 1090, 1080])
          ([1053, 1077, 32, 1091, 1076, 1072, 1083, 1086, 1089, 1100, 32, 1079, 1072, 1075, 1088, 1091, 1079, 1080, 1090, 1100, 32] @ resource @ [46, 32, 1055, 1088, 1086, 1074, 1077, 1088, 1100, 1090, 1077, 32, 1089, 1086, 1077, 1076, 1080, 1085, 1077, 1085, 1080, 1077, 32, 1080, 32, 1087, 1086, 1074, 1090, 1086, 1088, 1080, 1090, 1077, 32, 1079, 1072, 1087, 1088, 1086, 1089, 46]) True
      | Timeout \<Rightarrow> problem failure ([1057, 1077, 1088, 1074, 1077, 1088, 32, 1086, 1090, 1074, 1077, 1095, 1072, 1077, 1090, 32, 1089, 1083, 1080, 1096, 1082, 1086, 1084, 32, 1076, 1086, 1083, 1075, 1086])
          ([1047, 1072, 1075, 1088, 1091, 1079, 1082, 1072, 32, 1088, 1077, 1089, 1091, 1088, 1089, 1072, 32, 171] @ resource @ [187, 32, 1087, 1088, 1077, 1074, 1099, 1089, 1080, 1083, 1072, 32, 1076, 1086, 1087, 1091, 1089, 1090, 1080, 1084, 1086, 1077, 32, 1074, 1088, 1077, 1084, 1103, 46]) True
      | Malformed \<Rightarrow> problem failure ([1055, 1086, 1083, 1091, 1095, 1077, 1085, 1099, 32, 1085, 1077, 1089, 1086, 1074, 1084, 1077, 1089, 1090, 1080, 1084, 1099, 1077, 32, 1076, 1072, 1085, 1085, 1099, 1077])
          ([1057, 1077, 1088, 1074, 1077, 1088, 32, 1074, 1077, 1088, 1085, 1091, 1083, 32, 1087, 1086, 1074, 1088, 1077, 1078, 1076, 1105, 1085, 1085, 1099, 1081, 32, 1080, 1083, 1080, 32, 1091, 1089, 1090, 1072, 1088, 1077, 1074, 1096, 1080, 1081, 32, 1092, 1086, 1088, 1084, 1072, 1090, 32, 1088, 1077, 1089, 1091, 1088, 1089, 1072, 32, 171] @ resource @ [187, 46]) True
      | ServerFault \<Rightarrow> problem failure ([1057, 1077, 1088, 1074, 1080, 1089, 32, 1074, 1088, 1077, 1084, 1077, 1085, 1085, 1086, 32, 1085, 1077, 1076, 1086, 1089, 1090, 1091, 1087, 1077, 1085])
          ([1053, 1077, 32, 1091, 1076, 1072, 1083, 1086, 1089, 1100, 32, 1079, 1072, 1075, 1088, 1091, 1079, 1080, 1090, 1100, 32] @ resource @ [32, 1080, 1079, 45, 1079, 1072, 32, 1086, 1096, 1080, 1073, 1082, 1080, 32, 1089, 1077, 1088, 1074, 1077, 1088, 1072, 46]) True
      | ClientFault \<Rightarrow> problem failure ([1047, 1072, 1087, 1088, 1086, 1089, 32, 1086, 1090, 1082, 1083, 1086, 1085, 1105, 1085])
          ([1057, 1077, 1088, 1074, 1080, 1089, 32, 1085, 1077, 32, 1089, 1084, 1086, 1075, 32, 1086, 1073, 1088, 1072, 1073, 1086, 1090, 1072, 1090, 1100, 32, 1079, 1072, 1087, 1088, 1086, 1089, 32, 1088, 1077, 1089, 1091, 1088, 1089, 1072, 32, 171] @ resource @ [187, 46]) False
      | UnknownFault \<Rightarrow> problem failure ([1053, 1077, 32, 1091, 1076, 1072, 1083, 1086, 1089, 1100, 32, 1079, 1072, 1075, 1088, 1091, 1079, 1080, 1090, 1100, 32, 1076, 1072, 1085, 1085, 1099, 1077])
          ([1055, 1088, 1080, 32, 1079, 1072, 1075, 1088, 1091, 1079, 1082, 1077, 32, 1088, 1077, 1089, 1091, 1088, 1089, 1072, 32, 171] @ resource @ [187, 32, 1087, 1088, 1086, 1080, 1079, 1086, 1096, 1083, 1072, 32, 1085, 1077, 1080, 1079, 1074, 1077, 1089, 1090, 1085, 1072, 1103, 32, 1086, 1096, 1080, 1073, 1082, 1072, 46]) True)"

section \<open>The timed fetch and its cache\<close>

definition DEFAULT_TIMEOUT_MS :: jnum where "DEFAULT_TIMEOUT_MS = 12000"
definition CLIENT_RESOURCE_CACHE_TTL_MS :: jnum where "CLIENT_RESOURCE_CACHE_TTL_MS = 15000"

definition progress_path :: jstr where "progress_path = u ''/api/v1/progress''"
definition active_lesson_path :: jstr where "active_lesson_path = u ''/api/v1/lessons/active''"

record URL =
  url_href :: jstr
  url_pathname :: jstr
  url_search :: jstr

record ClientRequestDetails =
  rd_method :: jstr
  rd_url :: URL
  rd_authorization :: jstr

record cache_entry =
  ce_expiresAt :: jnum
  ce_response :: Response

type_synonym client_cache = "jstr \<rightharpoonup> cache_entry"

text \<open>The input is a string (or URL) or a \<open>Request\<close> with its method and headers.\<close>

datatype request_input = UrlInput jstr | RequestInput jstr jstr "(jstr \<times> jstr) list"

definition upper_ascii :: "nat \<Rightarrow> nat" where
  "upper_ascii c = (if 97 \<le> c \<and> c \<le> 122 then c - 32 else c)"

definition clientRequestDetails ::
  "bool \<Rightarrow> (jstr \<Rightarrow> URL option) \<Rightarrow> request_input \<Rightarrow> jstr option \<Rightarrow> (jstr \<times> jstr) list \<Rightarrow> ClientRequestDetails option" where
  "clientRequestDetails has_window new_URL input init_method init_headers =
     (if \<not> has_window then None
      else
        let (text_url, request_method, request_headers) =
              (case input of UrlInput s \<Rightarrow> (s, None, []) | RequestInput m s hs \<Rightarrow> (s, Some m, hs)) in
        (case new_URL text_url of None \<Rightarrow> None
         | Some url \<Rightarrow> Some
             \<lparr>rd_method = map upper_ascii (case or_else init_method request_method of Some m \<Rightarrow> m | None \<Rightarrow> u ''GET''),
              rd_url = url,
              rd_authorization = (case or_else (header_get init_headers ''authorization'')
                  (header_get request_headers ''authorization'') of Some a \<Rightarrow> a | None \<Rightarrow> [])\<rparr>))"

definition clientResourceCacheKey :: "ClientRequestDetails \<Rightarrow> jstr option" where
  "clientResourceCacheKey details =
     (if rd_method details \<noteq> u ''GET'' \<or> url_pathname (rd_url details) \<notin> {progress_path, active_lesson_path} then None
      else Some (rd_authorization details @ [10] @ url_href (rd_url details)))"

definition cachedClientResource :: "jnum \<Rightarrow> client_cache \<Rightarrow> jstr \<Rightarrow> Response option \<times> client_cache" where
  "cachedClientResource now cache key =
     (case cache key of None \<Rightarrow> (None, cache)
      | Some e \<Rightarrow> if ce_expiresAt e \<le> now then (None, cache(key := None)) else (Some (ce_response e), cache))"

definition shouldCacheClientResource :: "jstr \<Rightarrow> Response \<Rightarrow> bool" where
  "shouldCacheClientResource pathname response =
     (if pathname = progress_path then response_ok response
      else pathname = active_lesson_path \<and> jeq (rs_status response) 404)"

definition starts_with :: "jstr \<Rightarrow> jstr \<Rightarrow> bool" where
  "starts_with s p \<longleftrightarrow> take (length p) s = p"

definition invalidateClientResources :: "ClientRequestDetails option \<Rightarrow> client_cache \<Rightarrow> client_cache" where
  "invalidateClientResources details cache =
     (case details of None \<Rightarrow> cache
      | Some d \<Rightarrow>
          if rd_method d = u ''GET'' \<or> \<not> starts_with (url_pathname (rd_url d)) (u ''/api/v1/'') then cache else Map.empty)"

text \<open>
  A fetch has two parts with other code running between them: up to the call of \<open>fetch\<close>, and
  what follows its end.  \<open>abort_reason\<close> is what the caller's aborted signal throws.
\<close>

datatype fetch_start = Answered Response | Rejected thrown | InFlight "jstr option" "ClientRequestDetails option"

definition fetch_begin ::
  "jnum \<Rightarrow> thrown option \<Rightarrow> ClientRequestDetails option \<Rightarrow> client_cache \<Rightarrow> fetch_start \<times> client_cache" where
  "fetch_begin now abort_reason details cache0 =
     (let cache = invalidateClientResources details cache0;
          cacheKey = Option.bind details clientResourceCacheKey in
      case cacheKey of
        None \<Rightarrow> (InFlight None details, cache)
      | Some key \<Rightarrow>
          (case cachedClientResource now cache key of
             (Some response, cache') \<Rightarrow>
               (case abort_reason of Some e \<Rightarrow> (Rejected e, cache') | None \<Rightarrow> (Answered response, cache'))
           | (None, cache') \<Rightarrow> (InFlight (Some key) details, cache')))"

record fetch_env =
  fe_timed_out :: bool
  fe_aborted :: bool
  fe_navigator_offline :: bool

definition fetch_error :: "fetch_env \<Rightarrow> thrown \<Rightarrow> thrown" where
  "fetch_error env e =
     (if fe_timed_out env then Failure (newRequestFailure Timeout (u ''Request timed out'')
        (no_options\<lparr>fo_code := Some (u ''request_timeout'')\<rparr>))
      else if fe_aborted env then e
      else if fe_navigator_offline env \<or> (case e of TypeException m \<Rightarrow> True | _ \<Rightarrow> False) then
        Failure (newRequestFailure Offline (u ''Network connection is unavailable'')
          (no_options\<lparr>fo_code := Some (u ''network_offline'')\<rparr>))
      else Failure (newRequestFailure UnknownFault (u ''Request failed'') no_options))"

definition fetch_finish ::
  "jnum \<Rightarrow> fetch_env \<Rightarrow> jstr option \<Rightarrow> ClientRequestDetails option \<Rightarrow> thrown + Response \<Rightarrow> client_cache \<Rightarrow>
     (thrown + Response) \<times> client_cache" where
  "fetch_finish now env cacheKey details outcome cache =
     (case outcome of
        Inr response \<Rightarrow>
          (Inr response,
           (case (cacheKey, details) of
              (Some key, Some d) \<Rightarrow>
                if shouldCacheClientResource (url_pathname (rd_url d)) response
                then cache(key \<mapsto> \<lparr>ce_expiresAt = now + CLIENT_RESOURCE_CACHE_TTL_MS, ce_response = response\<rparr>)
                else cache
            | _ \<Rightarrow> cache))
      | Inl e \<Rightarrow> (Inl (fetch_error env e), cache))"

text \<open>The whole call, where nothing else runs in between.\<close>

definition fetchWithTimeout ::
  "jnum \<Rightarrow> jnum \<Rightarrow> fetch_env \<Rightarrow> thrown option \<Rightarrow> ClientRequestDetails option \<Rightarrow> thrown + Response \<Rightarrow> client_cache \<Rightarrow>
     (thrown + Response) \<times> client_cache" where
  "fetchWithTimeout now later env abort_reason details outcome cache =
     (case fetch_begin now abort_reason details cache of
        (Answered r, cache') \<Rightarrow> (Inr r, cache')
      | (Rejected e, cache') \<Rightarrow> (Inl e, cache')
      | (InFlight key d, cache') \<Rightarrow> fetch_finish later env key d outcome cache')"

section \<open>What the classification promises\<close>

lemma retry_describe: "pb_retryable (describeRequestFailure e resource)
    \<longleftrightarrow> rf_kind (toRequestFailure e) \<in> {Offline, Timeout, Malformed, ServerFault, UnknownFault}"
  by (cases "rf_kind (toRequestFailure e)") (simp_all add: describeRequestFailure_def problem_def Let_def)

text \<open>whatever the body of an error response holds, its failure has the kind its status stands for, a message and a
  code that are not empty, and its own status; a server error is offered for retry, a client error is not.\<close>

theorem failure_of_error_response:
  assumes "rs_status r = jnat n"
  shows "rf_kind (failureFromResponse r) = failureKindForStatus (jnat n)
    \<and> rf_message (failureFromResponse r) \<noteq> [] \<and> rf_code (failureFromResponse r) \<noteq> []
    \<and> rf_status (failureFromResponse r) = jnat n
    \<and> (500 \<le> n \<longrightarrow> pb_retryable (describeRequestFailure (Failure (failureFromResponse r)) resource))
    \<and> (400 \<le> n \<and> n < 500 \<longrightarrow> \<not> pb_retryable (describeRequestFailure (Failure (failureFromResponse r)) resource))"
proof -
  have kind: "rf_kind (failureFromResponse r) = failureKindForStatus (jnat n)"
    using assms by (simp add: failureFromResponse_def newRequestFailure_def Let_def)
  have code: "ed_code (errorDetails v) \<noteq> []" for v
  proof -
    have "trim (str_of x) \<noteq> [] \<Longrightarrow> str_of x \<noteq> []" for x by auto
    then show ?thesis by (simp add: errorDetails_def Let_def)
  qed
  have "rf_message (failureFromResponse r) \<noteq> []" "rf_code (failureFromResponse r) \<noteq> []" "rf_status (failureFromResponse r) = jnat n"
    using assms code by (auto simp: failureFromResponse_def newRequestFailure_def Let_def split: option.split)
  moreover have "500 \<le> n \<Longrightarrow> failureKindForStatus (jnat n) = ServerFault"
    "400 \<le> n \<Longrightarrow> n < 500 \<Longrightarrow> failureKindForStatus (jnat n) \<in> {Unauthorized, Forbidden, ClientFault}"
    by (auto simp: failureKindForStatus_def jeq_def)
  ultimately show ?thesis using kind by (auto simp: retry_describe)
qed

lemma failure_of_error_response_witness:
  "\<not> pb_retryable (describeRequestFailure (Failure (failureFromResponse
       \<lparr>rs_status = 404, rs_headers = [], rs_body = Some (u ''nonsense'')\<rparr>)) (u ''progress''))"
  using failure_of_error_response [of "\<lparr>rs_status = 404, rs_headers = [], rs_body = Some (u ''nonsense'')\<rparr>" 404] by simp

section \<open>What the cache promises\<close>

text \<open>
  Fetches that interleave: each begins, and while it is in flight others may begin and end.
  Times are milliseconds that do not go back.  The log records which request was answered with
  which response, and when.
\<close>

record client_state =
  cs_cache :: client_cache
  cs_flights :: "(jstr option \<times> ClientRequestDetails option) list"
  cs_now :: nat
  cs_log :: "(ClientRequestDetails \<times> Response \<times> nat) list"

definition details_ok :: "(jstr \<Rightarrow> URL option) \<Rightarrow> ClientRequestDetails \<Rightarrow> bool" where
  "details_ok new_URL d \<longleftrightarrow> 10 \<notin> set (rd_authorization d) \<and> new_URL (url_href (rd_url d)) = Some (rd_url d)"

inductive client_step :: "(jstr \<Rightarrow> URL option) \<Rightarrow> client_state \<Rightarrow> client_state \<Rightarrow> bool" for new_URL where
  step_begin: "details_ok new_URL d \<Longrightarrow> cs_now s \<le> t \<Longrightarrow> fetch_begin (jnat t) reason (Some d) (cs_cache s) = (r, cache') \<Longrightarrow>
     client_step new_URL s (s\<lparr>cs_cache := cache',
       cs_flights := (case r of InFlight k d' \<Rightarrow> (k, d') # cs_flights s | _ \<Rightarrow> cs_flights s), cs_now := t\<rparr>)"
| step_finish: "(k, Some d) \<in> set (cs_flights s) \<Longrightarrow> cs_now s \<le> t \<Longrightarrow>
     fetch_finish (jnat t) env k (Some d) outcome (cs_cache s) = (res, cache') \<Longrightarrow>
     client_step new_URL s (s\<lparr>cs_cache := cache', cs_flights := remove1 (k, Some d) (cs_flights s), cs_now := t,
       cs_log := (case outcome of Inr response \<Rightarrow> (d, response, t) # cs_log s | Inl e \<Rightarrow> cs_log s)\<rparr>)"

definition client_start :: client_state where
  "client_start = \<lparr>cs_cache = Map.empty, cs_flights = [], cs_now = 0, cs_log = []\<rparr>"

definition flight_ok :: "(jstr \<Rightarrow> URL option) \<Rightarrow> jstr option \<times> ClientRequestDetails option \<Rightarrow> bool" where
  "flight_ok new_URL f \<longleftrightarrow> (\<exists>d. snd f = Some d \<and> details_ok new_URL d \<and> (fst f = None \<or> fst f = clientResourceCacheKey d))"

definition entry_ok :: "(jstr \<Rightarrow> URL option) \<Rightarrow> client_state \<Rightarrow> jstr \<Rightarrow> cache_entry \<Rightarrow> bool" where
  "entry_ok new_URL s key e \<longleftrightarrow>
     (\<exists>d t. details_ok new_URL d \<and> clientResourceCacheKey d = Some key
        \<and> shouldCacheClientResource (url_pathname (rd_url d)) (ce_response e)
        \<and> (d, ce_response e, t) \<in> set (cs_log s) \<and> t \<le> cs_now s \<and> ce_expiresAt e = jnat (t + 15000))"

definition client_ok :: "(jstr \<Rightarrow> URL option) \<Rightarrow> client_state \<Rightarrow> bool" where
  "client_ok new_URL s \<longleftrightarrow>
     (\<forall>f\<in>set (cs_flights s). flight_ok new_URL f)
     \<and> (\<forall>key e. cs_cache s key = Some e \<longrightarrow> entry_ok new_URL s key e)"

lemma begin_cases:
  assumes "fetch_begin now reason (Some d) cache = (r, cache')"
  shows "cache' \<subseteq>\<^sub>m cache \<and> (case r of InFlight k d' \<Rightarrow> d' = Some d \<and> (k = None \<or> k = clientResourceCacheKey d) | _ \<Rightarrow> True)"
  using assms
  by (auto simp: fetch_begin_def invalidateClientResources_def cachedClientResource_def Let_def map_le_def
      split: option.splits if_splits prod.splits)

lemma entry_ok_later:
  "entry_ok new_URL s key e \<Longrightarrow> cs_now s \<le> cs_now s' \<Longrightarrow> set (cs_log s) \<subseteq> set (cs_log s') \<Longrightarrow> entry_ok new_URL s' key e"
  unfolding entry_ok_def by (meson order_trans subsetD)

lemma client_step_ok:
  assumes "client_step new_URL s s'" "client_ok new_URL s"
  shows "client_ok new_URL s'"
  using assms(1)
proof (cases rule: client_step.cases)
  case (step_begin d t reason r cache')
  note b = begin_cases [OF step_begin(4)]
  have "entry_ok new_URL s' key e" if "cache' key = Some e" for key e
  proof -
    have "cs_cache s key = Some e" using that b by (auto simp: map_le_def dom_def)
    with assms(2) have "entry_ok new_URL s key e" by (simp add: client_ok_def)
    then show ?thesis by (rule entry_ok_later) (simp_all add: step_begin)
  qed
  with step_begin b assms(2) show ?thesis
    by (auto simp: client_ok_def flight_ok_def split: fetch_start.splits)
next
  case (step_finish k d t env outcome res cache')
  have f: "flight_ok new_URL (k, Some d)" using step_finish(2) assms(2) by (simp add: client_ok_def)
  have "entry_ok new_URL s' key e" if "cache' key = Some e" for key e
  proof (cases "cs_cache s key = Some e")
    case True
    with assms(2) have "entry_ok new_URL s key e" by (simp add: client_ok_def)
    then show ?thesis by (rule entry_ok_later) (auto simp: step_finish split: sum.split)
  next
    case False
    with that step_finish(4) obtain response where
      r: "k = Some key" "outcome = Inr response" "shouldCacheClientResource (url_pathname (rd_url d)) response"
      "e = \<lparr>ce_expiresAt = jnat t + CLIENT_RESOURCE_CACHE_TTL_MS, ce_response = response\<rparr>"
      by (auto simp: fetch_finish_def split: sum.splits option.splits if_splits)
    with f have "details_ok new_URL d" "clientResourceCacheKey d = Some key" by (auto simp: flight_ok_def)
    with r step_finish(1) show ?thesis
      unfolding entry_ok_def by (intro exI [of _ d] exI [of _ t]) (simp add: CLIENT_RESOURCE_CACHE_TTL_MS_def)
  qed
  with step_finish assms(2) show ?thesis
    by (auto simp: client_ok_def dest: set_remove1_subset [THEN subsetD])
qed

lemma client_reachable_ok:
  "(client_step new_URL)\<^sup>*\<^sup>* client_start s \<Longrightarrow> client_ok new_URL s"
  by (induction rule: rtranclp_induct) (auto simp: client_start_def intro: client_step_ok, simp add: client_ok_def)

lemma append_newline_unique: "x \<notin> set a \<Longrightarrow> x \<notin> set a' \<Longrightarrow> a @ x # b = a' @ x # b' \<longleftrightarrow> a = a' \<and> b = b'"
  by (induction a arbitrary: a'; case_tac a'; auto)

lemma cache_key_inject:
  assumes "details_ok new_URL d" "details_ok new_URL d'" "clientResourceCacheKey d = Some k" "clientResourceCacheKey d' = Some k"
  shows "rd_authorization d = rd_authorization d' \<and> rd_url d = rd_url d' \<and> rd_method d = u ''GET'' \<and> rd_method d' = u ''GET''"
proof -
  have "rd_authorization d @ 10 # url_href (rd_url d) = rd_authorization d' @ 10 # url_href (rd_url d')"
    "rd_method d = u ''GET''" "rd_method d' = u ''GET''"
    using assms(3,4) by (auto simp: clientResourceCacheKey_def split: if_splits)
  moreover from this(1) have "rd_authorization d = rd_authorization d' \<and> url_href (rd_url d) = url_href (rd_url d')"
    by (rule append_newline_unique [THEN iffD1, rotated 2]) (use assms(1,2) in \<open>simp_all add: details_ok_def\<close>)
  ultimately show ?thesis using assms(1,2) by (simp add: details_ok_def)
qed

text \<open>C22: however fetches interleave, a cached answer is given only to a GET of one of the two cached resources; it is
  the response to an earlier request for the very same URL with the very same authorization, a success (or the
  missing active lesson), received less than fifteen seconds before.\<close>

theorem cached_answer_is_own_and_fresh:
  assumes "(client_step new_URL)\<^sup>*\<^sup>* client_start s" "details_ok new_URL d" "cs_now s \<le> t"
    and "fetch_begin (jnat t) reason (Some d) (cs_cache s) = (Answered response, cache')"
  shows "rd_method d = u ''GET'' \<and> shouldCacheClientResource (url_pathname (rd_url d)) response
    \<and> (\<exists>d' t0. (d', response, t0) \<in> set (cs_log s) \<and> rd_authorization d' = rd_authorization d \<and> rd_url d' = rd_url d
         \<and> rd_method d' = u ''GET'' \<and> t0 \<le> t \<and> t < t0 + 15000)"
proof -
  from assms(4) obtain key e where hit: "clientResourceCacheKey d = Some key" "\<not> ce_expiresAt e \<le> jnat t"
      "ce_response e = response" "invalidateClientResources (Some d) (cs_cache s) key = Some e"
    by (auto simp: fetch_begin_def cachedClientResource_def Let_def split: option.splits if_splits prod.splits)
  then have "cs_cache s key = Some e"
    by (auto simp: invalidateClientResources_def split: if_splits)
  with client_reachable_ok [OF assms(1)] have "entry_ok new_URL s key e" by (simp add: client_ok_def)
  then obtain d' t0 where d': "details_ok new_URL d'" "clientResourceCacheKey d' = Some key"
      "shouldCacheClientResource (url_pathname (rd_url d')) (ce_response e)"
      "(d', ce_response e, t0) \<in> set (cs_log s)" "t0 \<le> cs_now s" "ce_expiresAt e = jnat (t0 + 15000)"
    by (auto simp: entry_ok_def)
  have "t < t0 + 15000" using hit(2) unfolding d'(6) jnum_le_simps(1) of_nat_le_iff by simp
  moreover have "t0 \<le> t" using d'(5) assms(3) by simp
  ultimately show ?thesis
    using cache_key_inject [OF assms(2) d'(1) hit(1) d'(2)] d'(3,4) hit(3)
    by (intro conjI exI [of _ d'] exI [of _ t0]) simp_all
qed

text \<open>C30: a change of the learner's data does not reach a read that is already under way: a GET of the progress that was
  sent before a review and answered after it is cached, and the next GET is answered with the progress from
  before the review.\<close>

theorem stale_progress_after_review:
  assumes "rd_method get = u ''GET''" "url_pathname (rd_url get) = progress_path" "response_ok old"
    and "rd_method post \<noteq> u ''GET''" "starts_with (url_pathname (rd_url post)) (u ''/api/v1/'')"
    and "fetch_begin 0 None (Some get) Map.empty = (InFlight k1 d1, c1)"
    and "fetch_begin 1 None (Some post) c1 = (InFlight k2 d2, c2)"
    and "fetch_finish 2 env k2 d2 (Inr posted) c2 = (r2, c3)"
    and "fetch_finish 3 env k1 d1 (Inr old) c3 = (r1, c4)"
  shows "fst (fetch_begin 4 None (Some get) c4) = Answered old"
proof -
  obtain key where key: "clientResourceCacheKey get = Some key" using assms(1,2) by (simp add: clientResourceCacheKey_def)
  have k1: "k1 = Some key \<and> d1 = Some get"
    using assms(6) key assms(1) by (auto simp: fetch_begin_def Let_def cachedClientResource_def invalidateClientResources_def)
  have "c4 key = Some \<lparr>ce_expiresAt = 3 + CLIENT_RESOURCE_CACHE_TTL_MS, ce_response = old\<rparr>"
    using assms(9) k1 assms(2,3) by (auto simp: fetch_finish_def shouldCacheClientResource_def)
  then show ?thesis
    using key assms(1) by (simp add: fetch_begin_def Let_def cachedClientResource_def invalidateClientResources_def
        CLIENT_RESOURCE_CACHE_TTL_MS_def)
qed

definition sample_get :: ClientRequestDetails where
  "sample_get = \<lparr>rd_method = u ''GET'',
     rd_url = \<lparr>url_href = u ''https://lexigo.app/api/v1/progress'', url_pathname = progress_path, url_search = []\<rparr>,
     rd_authorization = u ''Bearer a''\<rparr>"

definition sample_ok_response :: Response where
  "sample_ok_response = \<lparr>rs_status = 200, rs_headers = [], rs_body = Some (u ''{}'')\<rparr>"

lemma sample_get_key: "\<exists>key. clientResourceCacheKey sample_get = Some key"
  by (simp add: sample_get_def clientResourceCacheKey_def)

lemma cached_answer_is_own_and_fresh_witness:
  "\<exists>(s :: client_state) cache'. fetch_begin 10 None (Some sample_get) (cs_cache s) = (Answered sample_ok_response, cache')
     \<and> (\<exists>d' t0. (d', sample_ok_response, t0) \<in> set (cs_log s) \<and> rd_authorization d' = u ''Bearer a'')"
proof -
  let ?new = "\<lambda>h. Some (rd_url sample_get)"
  obtain key where key: "clientResourceCacheKey sample_get = Some key" using sample_get_key by blast
  have ok: "details_ok ?new sample_get" by (simp add: details_ok_def sample_get_def u_def)
  have get: "rd_method sample_get = u ''GET''" by (simp add: sample_get_def)
  have b: "fetch_begin (jnat 0) None (Some sample_get) Map.empty = (InFlight (Some key) (Some sample_get), Map.empty)"
    using key get by (simp add: fetch_begin_def Let_def cachedClientResource_def invalidateClientResources_def)
  let ?s1 = "client_start\<lparr>cs_flights := [(Some key, Some sample_get)]\<rparr>"
  have "client_step ?new client_start ?s1"
    using step_begin [of ?new sample_get client_start 0 None "InFlight (Some key) (Some sample_get)" Map.empty] ok b
    by (simp add: client_start_def)
  moreover
  let ?env = "\<lparr>fe_timed_out = False, fe_aborted = False, fe_navigator_offline = False\<rparr>"
  let ?e = "\<lparr>ce_expiresAt = jnat 5 + CLIENT_RESOURCE_CACHE_TTL_MS, ce_response = sample_ok_response\<rparr>"
  have "fetch_finish (jnat 5) ?env (Some key) (Some sample_get) (Inr sample_ok_response) Map.empty
      = (Inr sample_ok_response, Map.empty(key \<mapsto> ?e))"
    by (simp add: fetch_finish_def shouldCacheClientResource_def sample_get_def sample_ok_response_def response_ok_def)
  let ?s2 = "\<lparr>cs_cache = Map.empty(key \<mapsto> ?e), cs_flights = [], cs_now = 5, cs_log = [(sample_get, sample_ok_response, 5)]\<rparr>"
  have "client_step ?new ?s1 ?s2"
    using step_finish [of "Some key" sample_get ?s1 5 ?env "Inr sample_ok_response" "Inr sample_ok_response" "Map.empty(key \<mapsto> ?e)" ?new]
      \<open>fetch_finish (jnat 5) ?env (Some key) (Some sample_get) (Inr sample_ok_response) Map.empty = _\<close>
    by (simp add: client_start_def)
  ultimately have r: "(client_step ?new)\<^sup>*\<^sup>* client_start ?s2"
    by (meson rtranclp.rtrancl_into_rtrancl rtranclp.rtrancl_refl)
  have a: "fetch_begin (jnat 10) None (Some sample_get) (cs_cache ?s2) = (Answered sample_ok_response, cs_cache ?s2)"
    using key get by (simp add: fetch_begin_def Let_def cachedClientResource_def invalidateClientResources_def
        CLIENT_RESOURCE_CACHE_TTL_MS_def)
  have "cs_now ?s2 \<le> 10" by simp
  from cached_answer_is_own_and_fresh [OF r ok this a] obtain d' t0 where
    "(d', sample_ok_response, t0) \<in> set (cs_log ?s2)" "rd_authorization d' = u ''Bearer a''"
    by (auto simp: sample_get_def)
  with a show ?thesis by (intro exI [of _ ?s2] exI [of _ "cs_cache ?s2"]) auto
qed

lemma stale_progress_after_review_witness:
  "\<exists>k1 d1 c1. fetch_begin 0 None (Some sample_get) Map.empty = (InFlight k1 d1, c1)
     \<and> fst (fetch_begin 4 None (Some sample_get)
         (snd (fetch_finish 3 \<lparr>fe_timed_out = False, fe_aborted = False, fe_navigator_offline = False\<rparr> k1 d1 (Inr sample_ok_response)
           (snd (fetch_begin 1 None (Some (sample_get\<lparr>rd_method := u ''POST''\<rparr>)) c1))))) = Answered sample_ok_response"
proof -
  let ?env = "\<lparr>fe_timed_out = False, fe_aborted = False, fe_navigator_offline = False\<rparr>"
  let ?post = "sample_get\<lparr>rd_method := u ''POST''\<rparr>"
  obtain key where key: "clientResourceCacheKey sample_get = Some key" using sample_get_key by blast
  have g: "rd_method sample_get = u ''GET''" "url_pathname (rd_url sample_get) = progress_path" by (simp_all add: sample_get_def)
  have b1: "fetch_begin 0 None (Some sample_get) Map.empty = (InFlight (Some key) (Some sample_get), Map.empty)"
    using key g by (simp add: fetch_begin_def Let_def cachedClientResource_def invalidateClientResources_def)
  have b2: "fetch_begin 1 None (Some ?post) Map.empty = (InFlight None (Some ?post), Map.empty)"
    by (simp add: fetch_begin_def Let_def clientResourceCacheKey_def invalidateClientResources_def)
  have f2: "fetch_finish 2 ?env None (Some ?post) (Inr sample_ok_response) Map.empty = (Inr sample_ok_response, Map.empty)"
    by (simp add: fetch_finish_def)
  obtain c4 where f1: "fetch_finish 3 ?env (Some key) (Some sample_get) (Inr sample_ok_response) Map.empty = (Inr sample_ok_response, c4)"
    by (simp add: fetch_finish_def)
  have ok: "response_ok sample_ok_response" by (simp add: response_ok_def sample_ok_response_def)
  have sw: "rd_method ?post \<noteq> u ''GET''" "starts_with (url_pathname (rd_url ?post)) (u ''/api/v1/'')"
    by (simp_all add: sample_get_def progress_path_def starts_with_def u_def)
  from stale_progress_after_review [OF g ok sw b1 b2 f2 f1] f1 b1 b2 show ?thesis by simp
qed

end
