(* ===== verification/Auth_Session.thy ===== *)
theory Auth_Session
  imports Request_Failure Js_Uri Js_Storage
begin

text \<open>
  \<open>src/frontend/lib/auth-session.ts\<close> with \<open>authorized-json.ts\<close> and \<open>api.ts\<close>: reading the cookie,
  checking a session, refreshing it with bounded retries and one refresh at a time, and the
  requests made with it.  The network answers, the cookie and the parser of dates are arguments.
\<close>

section \<open>Data\<close>

record User =
  us_id :: jstr
  us_email :: jstr
  us_displayName :: jstr
  us_createdAt :: jstr

record AccessTokens =
  accessToken :: jstr
  tokenType :: jstr
  expiresIn :: jnum

record Session =
  ss_user :: User
  ss_tokens :: AccessTokens

definition CSRF_COOKIE_NAME :: jstr where "CSRF_COOKIE_NAME = u ''lexigo_csrf''"
definition LEGACY_SESSION_KEY :: jstr where "LEGACY_SESSION_KEY = u ''lexigo.session.v1''"
definition CONFLICT_RETRY_DELAYS_MS :: "jnum list" where "CONFLICT_RETRY_DELAYS_MS = [100, 300]"
definition RESTORE_RETRY_DELAYS_MS :: "jnum list" where "RESTORE_RETRY_DELAYS_MS = [150, 500, 1500]"

definition isNonEmptyString :: "jval \<Rightarrow> bool" where
  "isNonEmptyString v \<longleftrightarrow> is_string v \<and> length (trim (str_of v)) > 0"

definition isSessionPayload :: "(jstr \<Rightarrow> jnum) \<Rightarrow> jval \<Rightarrow> bool" where
  "isSessionPayload parse_date value \<longleftrightarrow>
     isRecord value \<and> isRecord (jget value ''user'') \<and> isRecord (jget value ''tokens'')
     \<and> (let usr = jget value ''user''; tokens = jget value ''tokens'' in
        isNonEmptyString (jget usr ''id'')
        \<and> isNonEmptyString (jget usr ''email'')
        \<and> is_string (jget usr ''displayName'')
        \<and> isNonEmptyString (jget usr ''createdAt'')
        \<and> isFinite (parse_date (str_of (jget usr ''createdAt'')))
        \<and> isNonEmptyString (jget tokens ''accessToken'')
        \<and> isNonEmptyString (jget tokens ''tokenType'')
        \<and> v_isFinite (jget tokens ''expiresIn'')
        \<and> num_of (jget tokens ''expiresIn'') > 0)"

definition session_of :: "jval \<Rightarrow> Session" where
  "session_of v = \<lparr>
     ss_user = \<lparr>us_id = str_of (jget (jget v ''user'') ''id''), us_email = str_of (jget (jget v ''user'') ''email''),
       us_displayName = str_of (jget (jget v ''user'') ''displayName''), us_createdAt = str_of (jget (jget v ''user'') ''createdAt'')\<rparr>,
     ss_tokens = \<lparr>accessToken = str_of (jget (jget v ''tokens'') ''accessToken''), tokenType = str_of (jget (jget v ''tokens'') ''tokenType''),
       expiresIn = num_of (jget (jget v ''tokens'') ''expiresIn'')\<rparr>\<rparr>"

definition kindForStatus :: "jnum \<Rightarrow> RequestFailureKind" where
  "kindForStatus status =
     (if jeq status 401 then Unauthorized
      else if jeq status 403 then Forbidden
      else if status \<ge> 500 then ServerFault
      else if status \<ge> 400 then ClientFault
      else UnknownFault)"

definition newSessionRefreshError :: "jnum \<Rightarrow> jstr \<Rightarrow> RequestFailureKind \<Rightarrow> jstr option \<Rightarrow> RequestFailure" where
  "newSessionRefreshError status message kind code =
     (newRequestFailure kind message
        (no_options\<lparr>fo_status := Some status,
           fo_code := Some (case code of Some c \<Rightarrow> c | None \<Rightarrow> u ''session_refresh_failed'')\<rparr>))\<lparr>rf_session := True\<rparr>"

definition isRetryableSessionRefreshError :: "thrown \<Rightarrow> bool" where
  "isRetryableSessionRefreshError error =
     (case error of
        Failure f \<Rightarrow> rf_session f \<and> (rf_code f = u ''refresh_conflict'' \<or> rf_kind f = Offline \<or> rf_kind f = Timeout
          \<or> rf_kind f = ServerFault \<or> rf_kind f = UnknownFault)
      | _ \<Rightarrow> False)"

definition isDefinitiveSessionRefreshError :: "thrown \<Rightarrow> bool" where
  "isDefinitiveSessionRefreshError error =
     (case error of Failure f \<Rightarrow> rf_session f \<and> (rf_kind f = Unauthorized \<or> rf_kind f = Forbidden) | _ \<Rightarrow> False)"

section \<open>Cookies and addresses\<close>

fun cookie_scan :: "jstr list \<Rightarrow> jstr \<Rightarrow> jstr" where
  "cookie_scan [] name = []"
| "cookie_scan (part # parts) name =
     (case split_on 61 (trim part) of
        rawName # rawValue \<Rightarrow>
          if rawName \<noteq> name then cookie_scan parts name
          else (case decodeURIComponent (join [61] rawValue) of Inr v \<Rightarrow> v | Inl e \<Rightarrow> [])
      | [] \<Rightarrow> [])"

definition cookieValue :: "jstr \<Rightarrow> jstr \<Rightarrow> jstr" where
  "cookieValue cookieHeader name = cookie_scan (split_on 59 cookieHeader) name"

definition csrfTokenFromCookie :: "jstr \<Rightarrow> jstr" where
  "csrfTokenFromCookie cookieHeader = cookieValue cookieHeader CSRF_COOKIE_NAME"

text \<open>A storage that throws is left as it is.\<close>

definition remove_quietly :: "storage \<Rightarrow> jstr \<Rightarrow> storage" where
  "remove_quietly st k = (case removeItem st k of Inr st' \<Rightarrow> st' | Inl e \<Rightarrow> st)"

definition clearLegacyAuthStorage :: "bool \<Rightarrow> storage \<times> storage \<Rightarrow> storage \<times> storage" where
  "clearLegacyAuthStorage has_window stores =
     (if \<not> has_window then stores
      else (remove_quietly (fst stores) LEGACY_SESSION_KEY, remove_quietly (snd stores) LEGACY_SESSION_KEY))"

definition isFocusedAuthenticatedPath :: "jstr \<Rightarrow> bool" where
  "isFocusedAuthenticatedPath pathname \<longleftrightarrow> starts_with pathname (u ''/lesson/'') \<or> starts_with pathname (u ''/scenarios/'')"

text \<open>\<open>current\<close> is \<open>new URL(currentURL)\<close>.\<close>

definition expiredSessionURL :: "URL \<Rightarrow> jstr \<Rightarrow> jstr" where
  "expiredSessionURL current reason =
     (let params = [(u ''session'', reason)];
          params = (if isFocusedAuthenticatedPath (url_pathname current)
                    then params_set params (u ''return_to'') (url_pathname current @ url_search current) else params) in
      u ''/profile?'' @ params_text params)"

text \<open>\<open>base\<close> is the configured address of the API, empty when there is none.\<close>

definition apiBaseUrl :: "jstr \<Rightarrow> jstr" where
  "apiBaseUrl base = (if base \<noteq> [] \<and> last base = 47 then butlast base else base)"

definition apiUrl :: "jstr \<Rightarrow> jstr \<Rightarrow> jstr" where
  "apiUrl base path = apiBaseUrl base @ (if starts_with path (u ''/'') then path else u ''/'' @ path)"

section \<open>Refreshing\<close>

text \<open>One attempt: the cookie header it sees and what the network answers.\<close>

definition performRefreshAttempt :: "(jstr \<Rightarrow> jnum) \<Rightarrow> jstr \<Rightarrow> thrown + Response \<Rightarrow> thrown + Session" where
  "performRefreshAttempt parse_date cookieHeader answer =
     (if csrfTokenFromCookie cookieHeader = [] then
        Inl (Failure (newSessionRefreshError 401 (u ''Session marker is missing'') Unauthorized None))
      else (case answer of
          Inl error \<Rightarrow>
            let failure = toRequestFailure error in
            Inl (Failure (newSessionRefreshError (rf_status failure) (rf_message failure) (rf_kind failure) (Some (rf_code failure))))
        | Inr response \<Rightarrow>
            if \<not> response_ok response then
              let failure = failureFromResponse response in
              Inl (Failure (newSessionRefreshError (rs_status response) (rf_message failure) (rf_kind failure) (Some (rf_code failure))))
            else
              (case decodeJSON response (isSessionPayload parse_date) (u ''Session response'') of
                 Inl failure \<Rightarrow> Inl (Failure (newSessionRefreshError (rs_status response) (rf_message failure) (rf_kind failure) None))
               | Inr v \<Rightarrow> Inr (session_of v))))"

definition should_retry :: "bool \<Rightarrow> thrown \<Rightarrow> bool" where
  "should_retry retryTransient error \<longleftrightarrow>
     isRetryableSessionRefreshError error
     \<and> ((case error of Failure f \<Rightarrow> rf_code f = u ''refresh_conflict'' | _ \<Rightarrow> False) \<or> retryTransient)"

text \<open>
  The loop over the attempts: \<open>attempt i\<close> is the outcome of the \<open>i\<close>-th one, the list holds the
  configured delays that are left.  The result comes with the number of attempts and the delays waited.
\<close>

fun performRefresh :: "(nat \<Rightarrow> thrown + Session) \<Rightarrow> jnum list \<Rightarrow> bool \<Rightarrow> nat \<Rightarrow> (thrown + Session) \<times> nat \<times> jnum list" where
  "performRefresh attempt [] retryTransient i = (attempt i, i + 1, [])"
| "performRefresh attempt (d # ds) retryTransient i =
     (case attempt i of
        Inr s \<Rightarrow> (Inr s, i + 1, [])
      | Inl error \<Rightarrow>
          if \<not> should_retry retryTransient error then (Inl error, i + 1, [])
          else (let (res, n, waited) = performRefresh attempt ds retryTransient (i + 1) in (res, n, jmax 0 d # waited)))"

record RefreshOptions =
  redirectOnInvalid :: "bool option"
  retryDelaysMs :: "jnum list option"
  retryTransient :: "bool option"

definition refresh_run :: "(nat \<Rightarrow> thrown + Session) \<Rightarrow> RefreshOptions \<Rightarrow> (thrown + Session) \<times> nat \<times> jnum list" where
  "refresh_run attempt options =
     performRefresh attempt (case retryDelaysMs options of Some ds \<Rightarrow> ds | None \<Rightarrow> CONFLICT_RETRY_DELAYS_MS)
       (retryTransient options = Some True) 0"

text \<open>Where a caller of \<open>refreshSession\<close> is sent when its refresh fails.\<close>

definition redirect_reason :: "RefreshOptions \<Rightarrow> thrown \<Rightarrow> jstr option" where
  "redirect_reason options error =
     (if redirectOnInvalid options = Some False then None
      else (case error of
          Failure f \<Rightarrow>
            if rf_session f \<and> (rf_kind f = Unauthorized \<or> rf_kind f = Forbidden)
            then Some (if rf_kind f = Forbidden then u ''forbidden'' else u ''expired'') else None
        | _ \<Rightarrow> None))"

definition restore_options :: "jnum list option \<Rightarrow> RefreshOptions" where
  "restore_options delays = \<lparr>redirectOnInvalid = Some False,
     retryDelaysMs = Some (case delays of Some ds \<Rightarrow> ds | None \<Rightarrow> RESTORE_RETRY_DELAYS_MS), retryTransient = Some True\<rparr>"

definition restoreSession :: "jstr \<Rightarrow> (nat \<Rightarrow> thrown + Session) \<Rightarrow> jnum list option \<Rightarrow> (thrown + Session option) \<times> nat" where
  "restoreSession cookieHeader attempt delays =
     (if csrfTokenFromCookie cookieHeader = [] then (Inr None, 0)
      else (case refresh_run attempt (restore_options delays) of
          (Inr s, n, w) \<Rightarrow> (Inr (Some s), n) | (Inl e, n, w) \<Rightarrow> (Inl e, n)))"

text \<open>
  \<open>activeRefresh\<close>: the refresh that is running, as the number of its promise, and how many
  have been started.
\<close>

record refresh_state =
  activeRefresh :: "nat option"
  started_refreshes :: nat

definition refresh_call :: "refresh_state \<Rightarrow> nat \<times> refresh_state" where
  "refresh_call s =
     (case activeRefresh s of
        Some p \<Rightarrow> (p, s)
      | None \<Rightarrow> (started_refreshes s, \<lparr>activeRefresh = Some (started_refreshes s), started_refreshes = started_refreshes s + 1\<rparr>))"

definition refresh_settled :: "refresh_state \<Rightarrow> refresh_state" where
  "refresh_settled s = s\<lparr>activeRefresh := None\<rparr>"

section \<open>Authorized requests\<close>

definition header_set :: "(jstr \<times> jstr) list \<Rightarrow> string \<Rightarrow> jstr \<Rightarrow> (jstr \<times> jstr) list" where
  "header_set hs name v = filter (\<lambda>h. fst h \<noteq> u name) hs @ [(u name, v)]"

record request_init =
  ri_method :: "jstr option"
  ri_headers :: "(jstr \<times> jstr) list"
  ri_body :: "jstr option"

definition request_method :: "request_init \<Rightarrow> jstr" where
  "request_method init = map upper_ascii (case ri_method init of Some m \<Rightarrow> m | None \<Rightarrow> u ''GET'')"

definition request_headers :: "request_init \<Rightarrow> jstr option \<Rightarrow> jstr \<Rightarrow> (jstr \<times> jstr) list" where
  "request_headers init token cookieHeader =
     (let hs = header_set (ri_headers init) ''accept'' (u ''application/json'');
          hs = (case ri_body init of Some b \<Rightarrow> if b \<noteq> [] then header_set hs ''content-type'' (u ''application/json'') else hs | None \<Rightarrow> hs);
          hs = (case token of Some t \<Rightarrow> if t \<noteq> [] then header_set hs ''authorization'' (u ''Bearer '' @ t) else hs | None \<Rightarrow> hs) in
      if request_method init \<in> {u ''GET'', u ''HEAD'', u ''OPTIONS''} then hs
      else (let csrf = csrfTokenFromCookie cookieHeader in if csrf \<noteq> [] then header_set hs ''x-csrf-token'' csrf else hs))"

text \<open>What \<open>requestJSON\<close> makes of the answer of the network; \<open>None\<close> is the \<open>undefined\<close> of an empty response.\<close>

definition requestJSON :: "jstr \<Rightarrow> (jval \<Rightarrow> bool) \<Rightarrow> thrown + Response \<Rightarrow> thrown + jval option" where
  "requestJSON path validator answer =
     (case answer of
        Inl e \<Rightarrow> Inl e
      | Inr response \<Rightarrow>
          if \<not> response_ok response then Inl (Failure (failureFromResponse response))
          else if jeq (rs_status response) 204 then Inr None
          else (case decodeJSON response validator (path @ u '' response'') of
              Inl f \<Rightarrow> Inl (Failure f) | Inr v \<Rightarrow> Inr (Some v)))"

text \<open>
  \<open>request token\<close> is the outcome of \<open>requestJSON\<close> with a token; the second component counts
  the requests made.
\<close>

definition authorizedJSON ::
  "Session \<Rightarrow> (nat \<Rightarrow> jstr \<Rightarrow> thrown + 'a) \<Rightarrow> thrown + Session \<Rightarrow> (thrown + Session \<times> 'a) \<times> nat" where
  "authorizedJSON current request refresh =
     (case request 0 (accessToken (ss_tokens current)) of
        Inr v \<Rightarrow> (Inr (current, v), 1)
      | Inl error \<Rightarrow>
          if \<not> (case error of Failure f \<Rightarrow> jeq (rf_status f) 401 | _ \<Rightarrow> False) then (Inl error, 1)
          else (case refresh of
              Inl e \<Rightarrow> (Inl e, 1)
            | Inr refreshed \<Rightarrow>
                (case request 1 (accessToken (ss_tokens refreshed)) of
                   Inr v \<Rightarrow> (Inr (refreshed, v), 2)
                 | Inl e \<Rightarrow> (Inl e, 2))))"

section \<open>The refresh ends\<close>

lemma performRefresh_spec:
  assumes "performRefresh attempt ds tr i = (res, n, waited)"
  shows "i < n \<and> n \<le> i + length ds + 1 \<and> res = attempt (n - 1) \<and> length waited = n - i - 1
    \<and> (\<forall>j. i \<le> j \<and> j < n - 1 \<longrightarrow> (\<exists>e. attempt j = Inl e \<and> should_retry tr e))
    \<and> (n \<le> i + length ds \<longrightarrow> (\<forall>e. res = Inl e \<longrightarrow> \<not> should_retry tr e))"
  using assms
proof (induction attempt ds tr i arbitrary: res n waited rule: performRefresh.induct)
  case (2 attempt d ds tr i)
  show ?case
  proof (cases "\<exists>e. attempt i = Inl e \<and> should_retry tr e")
    case True
    then obtain e where e: "attempt i = Inl e" "should_retry tr e" by blast
    obtain res' n' w' where r: "performRefresh attempt ds tr (i + 1) = (res', n', w')" by (cases "performRefresh attempt ds tr (i + 1)")
    from "2.prems" e r have eq: "res = res'" "n = n'" "waited = jmax 0 d # w'" by auto
    from "2.IH" [OF e(1) _ r] e(2) have ih: "i + 1 < n' \<and> n' \<le> i + 1 + length ds + 1 \<and> res' = attempt (n' - 1) \<and> length w' = n' - (i + 1) - 1
      \<and> (\<forall>j. i + 1 \<le> j \<and> j < n' - 1 \<longrightarrow> (\<exists>e. attempt j = Inl e \<and> should_retry tr e))
      \<and> (n' \<le> i + 1 + length ds \<longrightarrow> (\<forall>e. res' = Inl e \<longrightarrow> \<not> should_retry tr e))" by simp
    have "\<exists>e. attempt j = Inl e \<and> should_retry tr e" if "i \<le> j" "j < n - 1" for j
      using that ih e eq by (cases "j = i") auto
    with ih eq show ?thesis by auto
  next
    case False
    with "2.prems" show ?thesis by (auto split: sum.splits)
  qed
qed auto

text \<open>C23: a refresh ends after at most one attempt more than there are configured delays, with the outcome of its last
  attempt; every attempt before it failed in a way that may be retried, and it gives up early only for an error
  that may not.\<close>

theorem refresh_attempts_bounded:
  assumes "refresh_run attempt options = (res, n, waited)"
  shows "1 \<le> n \<and> n \<le> length (case retryDelaysMs options of Some ds \<Rightarrow> ds | None \<Rightarrow> CONFLICT_RETRY_DELAYS_MS) + 1
    \<and> res = attempt (n - 1)
    \<and> (\<forall>j<n - 1. \<exists>e. attempt j = Inl e \<and> should_retry (retryTransient options = Some True) e)
    \<and> (n \<le> length (case retryDelaysMs options of Some ds \<Rightarrow> ds | None \<Rightarrow> CONFLICT_RETRY_DELAYS_MS) \<longrightarrow>
         (\<forall>e. res = Inl e \<longrightarrow> \<not> should_retry (retryTransient options = Some True) e))"
  using performRefresh_spec [OF assms [unfolded refresh_run_def]] by auto

definition conflict :: thrown where
  "conflict = Failure (newSessionRefreshError 409 (u ''busy'') ClientFault (Some (u ''refresh_conflict'')))"

lemma refresh_attempts_bounded_witness:
  "fst (snd (refresh_run (\<lambda>i. Inl conflict) (restore_options None))) = 4
   \<and> fst (refresh_run (\<lambda>i. Inl conflict) (restore_options None)) = Inl conflict"
proof -
  have "should_retry True conflict"
    by (simp add: should_retry_def conflict_def isRetryableSessionRefreshError_def newSessionRefreshError_def newRequestFailure_def no_options_def)
  then have "\<exists>w. refresh_run (\<lambda>i. Inl conflict) (restore_options None) = (Inl conflict, 4, w)"
    by (simp add: refresh_run_def restore_options_def RESTORE_RETRY_DELAYS_MS_def)
  then obtain w where "refresh_run (\<lambda>i. Inl conflict) (restore_options None) = (Inl conflict, 4, w)" by blast
  with refresh_attempts_bounded [OF this] show ?thesis by simp
qed

section \<open>Cookies\<close>

definition encoded :: "jstr \<Rightarrow> jstr" where
  "encoded v = (case encodeURIComponent v of Inr t \<Rightarrow> t | Inl e \<Rightarrow> [])"

definition cookie_pair :: "jstr \<times> jstr \<Rightarrow> jstr" where
  "cookie_pair p = fst p @ 61 # encoded (snd p)"

definition cookie_header :: "(jstr \<times> jstr) list \<Rightarrow> jstr" where
  "cookie_header ps = join (u ''; '') (map cookie_pair ps)"

definition cookie_name :: "jstr \<Rightarrow> bool" where
  "cookie_name n \<longleftrightarrow> n \<noteq> [] \<and> (\<forall>c\<in>set n. c \<noteq> 59 \<and> c \<noteq> 61 \<and> \<not> js_ws c)"

lemma encoded_ok:
  assumes "wf16 v"
  shows "decodeURIComponent (encoded v) = Inr v" "c \<in> set (encoded v) \<Longrightarrow> c \<noteq> 59 \<and> \<not> js_ws c"
proof -
  from encode_decode [OF assms] obtain t where t: "encodeURIComponent v = Inr t" "decodeURIComponent t = Inr v"
    "\<And>c. c \<in> set t \<Longrightarrow> encoded_char c" by blast
  then show "decodeURIComponent (encoded v) = Inr v" by (simp add: encoded_def)
  assume "c \<in> set (encoded v)"
  with t have "encoded_char c" by (simp add: encoded_def)
  then show "c \<noteq> 59 \<and> \<not> js_ws c" by (auto simp: encoded_char_def is_alnum_def js_ws_def)
qed

lemma split_header:
  "\<forall>x\<in>set (x0 # xs). 59 \<notin> set x \<Longrightarrow> split_on 59 (join [59, 32] (x0 # xs)) = x0 # map ((#) 32) xs"
proof (induction xs arbitrary: x0)
  case Nil
  then show ?case by (simp add: split_on_no_sep)
next
  case (Cons y ys)
  have "split_on 59 (32 # join [59, 32] (y # ys)) = (32 # y) # map ((#) 32) ys"
    using Cons.IH [of y] Cons.prems by simp
  with Cons.prems show ?case by (simp add: split_on_append)
qed

lemma trim_cons_space: "trim (32 # s) = trim s"
  by (simp add: trim_def js_ws_def)

lemma pair_trimmed:
  assumes "cookie_name n" "wf16 v"
  shows "trim (cookie_pair (n, v)) = cookie_pair (n, v)" "59 \<notin> set (cookie_pair (n, v))"
proof -
  have "\<not> js_ws c" if "c \<in> set (cookie_pair (n, v))" for c
    using that assms encoded_ok(2) [OF assms(2)] by (auto simp: cookie_pair_def cookie_name_def js_ws_def [of 61])
  moreover have "cookie_pair (n, v) \<noteq> []" by (simp add: cookie_pair_def)
  ultimately show "trim (cookie_pair (n, v)) = cookie_pair (n, v)"
    by (intro trim_trimmed_id) (simp add: trimmed_def)
  show "59 \<notin> set (cookie_pair (n, v))"
    using assms encoded_ok(2) [OF assms(2)] by (auto simp: cookie_pair_def cookie_name_def)
qed

lemma cookie_scan_pairs:
  assumes "\<forall>(n, v)\<in>set ps. cookie_name n \<and> wf16 v" "list_all2 (\<lambda>x p. trim x = cookie_pair p) xs ps"
  shows "cookie_scan xs name = (case map_of ps name of Some v \<Rightarrow> v | None \<Rightarrow> [])"
  using assms(2,1)
proof (induction rule: list_all2_induct)
  case (Cons x xs p ps)
  obtain n v where p: "p = (n, v)" by (cases p)
  with Cons.prems have nv: "61 \<notin> set n" "wf16 v" by (auto simp: cookie_name_def)
  have "split_on 61 (trim x) = n # split_on 61 (encoded v)"
    using Cons(1) nv(1) by (simp add: p cookie_pair_def split_on_append)
  then show ?case using Cons nv p by (simp add: join_split_on encoded_ok(1))
qed simp

text \<open>a value written as an encoded cookie is read back exactly, whatever characters it holds and whatever other
  cookies stand around it; an absent cookie reads as the empty string.\<close>

theorem cookie_roundtrip:
  assumes "\<forall>(n, v)\<in>set ps. cookie_name n \<and> wf16 v"
  shows "cookieValue (cookie_header ps) name = (case map_of ps name of Some v \<Rightarrow> v | None \<Rightarrow> [])"
proof (cases ps)
  case Nil
  have "split_on 61 (trim []) = [[]]" by simp
  then show ?thesis using Nil by (simp add: cookieValue_def cookie_header_def decodeURIComponent_def strict_utf8_def)
next
  case (Cons p qs)
  have no: "\<forall>x\<in>set (map cookie_pair ps). 59 \<notin> set x" using assms pair_trimmed(2) by fastforce
  have tr: "trim (cookie_pair q) = cookie_pair q" if "q \<in> set ps" for q
    using that assms pair_trimmed(1) by (cases q) auto
  have "split_on 59 (cookie_header ps) = cookie_pair p # map ((#) 32) (map cookie_pair qs)"
    using split_header [of "cookie_pair p" "map cookie_pair qs"] no
    by (simp add: Cons cookie_header_def u_def del: join.simps)
  moreover have "list_all2 (\<lambda>x p. trim x = cookie_pair p) (cookie_pair p # map ((#) 32) (map cookie_pair qs)) ps"
    using tr by (auto simp: Cons list_all2_conv_all_nth trim_cons_space nth_Cons split: nat.split)
  ultimately show ?thesis using cookie_scan_pairs [OF assms] unfolding cookieValue_def by (simp only:)
qed

lemma cookie_roundtrip_witness:
  "cookieValue (cookie_header [(u ''theme'', u ''a=b; c''), (CSRF_COOKIE_NAME, [1078, 61, 59, 32])]) CSRF_COOKIE_NAME = [1078, 61, 59, 32]"
proof -
  have w: "wf16 (u ''a=b; c'')" "wf16 [1078, 61, 59, 32]"
    by (simp_all add: wf16_def u_def is_high_def is_surrogate_def is_low_def)
  have "cookie_name (u ''theme'')" "cookie_name CSRF_COOKIE_NAME"
    by (simp_all add: cookie_name_def CSRF_COOKIE_NAME_def u_def js_ws_def)
  with w cookie_roundtrip [of "[(u ''theme'', u ''a=b; c''), (CSRF_COOKIE_NAME, [1078, 61, 59, 32])]" CSRF_COOKIE_NAME]
  show ?thesis by (simp add: CSRF_COOKIE_NAME_def)
qed

end
