(* ===== verification/Review_Runtime.thy ===== *)
theory Review_Runtime
  imports Auth_Session Review_Outbox
begin

text \<open>
  \<open>src/frontend/components/review-outbox-runtime.tsx\<close>: the component that puts itself between
  the page and the network.  A review is written to the outbox before it is sent, the queue is
  sent again when the connection returns, and the banner tells the state.  React state and
  refs are fields of one record; the \<open>Response\<close> of the network, the clock, the ends of the
  IndexedDB requests and the result of a session refresh are the environment of each call.
  The field \<open>rt_log\<close> records what was sent for which review, and the answer.
\<close>

section \<open>Data\<close>

record SyncResponse = Response +
  rs_statusText :: jstr

text \<open>A request; \<open>rq_pathname\<close> is the path of its URL, \<open>rq_text\<close> what reading its body gives.\<close>

record SyncRequest =
  rq_url :: jstr
  rq_pathname :: jstr
  rq_method :: jstr
  rq_headers :: "(jstr \<times> jstr) list"
  rq_text :: "thrown + jstr"

record ErrorPayload =
  er_code :: jstr
  er_message :: jstr

datatype AuthSessionAction = Adopt | ClearSession
datatype ConnectivityTone = ToneOffline | TonePending | ToneFailed | ToneSynced
datatype runtime_event = SyncRequested | SessionRestoredEvent | ReviewsSyncedEvent | ReviewQueuedEvent jstr jnum jnum | ReloadTimer jnum

record ConnectivityCopy =
  cc_title :: jstr
  cc_message :: jstr
  cc_tone :: ConnectivityTone

definition EMPTY_SUMMARY :: ReviewOutboxSummary where
  "EMPTY_SUMMARY = \<lparr>sm_pending = 0, sm_failed = 0, sm_synced = 0, latestSyncedAt = []\<rparr>"

definition BACKGROUND_RELOAD_DELAY_MS :: jnum where "BACKGROUND_RELOAD_DELAY_MS = 1500"

record runtime =
  rt_online :: bool
  rt_summary :: ReviewOutboxSummary
  rt_syncing :: bool
  rt_recoverySynced :: bool
  rt_connectionRestored :: bool
  rt_detailsOpen :: bool
  rt_connectionMessage :: jstr
  rt_activeUserID :: jstr
  rt_session :: "Session option"
  rt_syncInFlight :: bool
  rt_reloadScheduled :: bool
  rt_store :: idb
  rt_events :: "runtime_event list"
  rt_log :: "(ReviewOutboxRecord \<times> SyncRequest \<times> (thrown + SyncResponse)) list"

definition runtime_initial :: "bool \<Rightarrow> Session option \<Rightarrow> idb \<Rightarrow> runtime" where
  "runtime_initial online initialSession st =
     \<lparr>rt_online = online, rt_summary = EMPTY_SUMMARY, rt_syncing = False, rt_recoverySynced = False,
      rt_connectionRestored = False, rt_detailsOpen = False, rt_connectionMessage = [],
      rt_activeUserID = (case initialSession of Some s \<Rightarrow> us_id (ss_user s) | None \<Rightarrow> []),
      rt_session = initialSession, rt_syncInFlight = False, rt_reloadScheduled = False,
      rt_store = st, rt_events = [], rt_log = []\<rparr>"

text \<open>What does not change between calls: date parsing, \<open>localeCompare\<close>, the text of a \<open>DOMException\<close>.\<close>

record browser =
  br_parse_date :: "jstr \<Rightarrow> jnum"
  br_compare :: "jstr \<Rightarrow> jstr \<Rightarrow> int"
  br_dom_message :: jstr

section \<open>Requests and responses\<close>

definition responseError :: "SyncResponse \<Rightarrow> ErrorPayload" where
  "responseError response =
     (let http = u ''http_'' @ num_str (rs_status response);
          plain = \<lparr>er_code = http, er_message = rs_statusText response\<rparr> in
      case Option.bind (rs_body response) json_parse of
        None \<Rightarrow> plain
      | Some value \<Rightarrow>
          if \<not> isRecord value then plain
          else
            let source = (if isRecord (jget value ''error'') then jget value ''error'' else value) in
            \<lparr>er_code = (if is_string (jget source ''code'') then str_of (jget source ''code'') else http),
             er_message = (if is_string (jget source ''message'') then str_of (jget source ''message'') else rs_statusText response)\<rparr>)"

definition error_body :: "jstr \<Rightarrow> jstr \<Rightarrow> jstr" where
  "error_body code message =
     json_stringify (JObj [(u ''error'', JObj [(u ''code'', JStr code), (u ''message'', JStr message)])])"

definition queuedResponse :: "jstr \<Rightarrow> jstr \<Rightarrow> SyncResponse" where
  "queuedResponse message code = \<lparr>rs_status = 503,
     rs_headers = [(u ''content-type'', u ''application/json''), (u ''x-lexigo-review-queued'', u ''true'')],
     rs_body = Some (error_body code message), rs_statusText = []\<rparr>"

definition offlineLessonStartResponse :: SyncResponse where
  "offlineLessonStartResponse = \<lparr>rs_status = 503, rs_headers = [(u ''content-type'', u ''application/json'')],
     rs_body = Some (error_body (u ''lesson_start_offline'')
       [1053, 1077, 1090, 32, 1087, 1086, 1076, 1082, 1083, 1102, 1095, 1077, 1085, 1080, 1103, 32, 1082, 32, 1089, 1077, 1090, 1080, 46, 32, 1053, 1072, 1095, 1085, 1080, 1090, 1077, 32, 1085, 1086, 1074, 1099, 1081, 32, 1091, 1088, 1086, 1082, 32, 1087, 1086, 1089, 1083, 1077, 32, 1074, 1086, 1089, 1089, 1090, 1072, 1085, 1086, 1074, 1083, 1077, 1085, 1080, 1103, 32, 1089, 1086, 1077, 1076, 1080, 1085, 1077, 1085, 1080, 1103, 46]), rs_statusText = []\<rparr>"

definition conflictResponse :: "jstr \<Rightarrow> SyncResponse" where
  "conflictResponse message = \<lparr>rs_status = 409, rs_headers = [(u ''content-type'', u ''application/json'')],
     rs_body = Some (error_body (u ''lesson_review_already_queued'') message), rs_statusText = []\<rparr>"

definition requestWithIdempotency :: "SyncRequest \<Rightarrow> jstr \<Rightarrow> SyncRequest" where
  "requestWithIdempotency request key = request\<lparr>rq_headers := header_set (rq_headers request) ''idempotency-key'' key\<rparr>"

definition authorizationToken :: "SyncRequest \<Rightarrow> jstr" where
  "authorizationToken request =
     (let authorization = (case header_get (rq_headers request) ''authorization'' of Some a \<Rightarrow> trim a | None \<Rightarrow> []) in
      if starts_with (map lower_unit authorization) (u ''bearer '') then trim (drop 7 authorization) else [])"

definition is_post :: "SyncRequest \<Rightarrow> bool" where
  "is_post request \<longleftrightarrow> map upper_ascii (rq_method request) = u ''POST''"

definition authSessionAction :: "SyncRequest \<Rightarrow> AuthSessionAction option" where
  "authSessionAction request =
     (if \<not> is_post request then None
      else if rq_pathname request = u ''/api/v1/auth/logout'' then Some ClearSession
      else if rq_pathname request \<in> {u ''/api/v1/auth/login'', u ''/api/v1/auth/register'', u ''/api/v1/auth/refresh''} then Some Adopt
      else None)"

definition isNetworkLessonStart :: "SyncRequest \<Rightarrow> bool" where
  "isNetworkLessonStart request \<longleftrightarrow> is_post request \<and> rq_pathname request = u ''/api/v1/lessons''"

definition currentNetworkFailureCode :: "bool \<Rightarrow> jstr" where
  "currentNetworkFailureCode online = (if \<not> online then u ''network_offline'' else u ''network_request_failed'')"

section \<open>The banner\<close>

definition pluralized :: "nat \<Rightarrow> jstr \<Rightarrow> jstr \<Rightarrow> jstr \<Rightarrow> jstr" where
  "pluralized n one few many =
     (let lastTwo = n mod 100; last_digit = n mod 10 in
      if 11 \<le> lastTwo \<and> lastTwo \<le> 14 then many
      else if last_digit = 1 then one
      else if 2 \<le> last_digit \<and> last_digit \<le> 4 then few
      else many)"

definition saved_answers :: "nat \<Rightarrow> jstr" where
  "saved_answers n = nat_str n @ u '' '' @ pluralized n [1086, 1090, 1074, 1077, 1090, 32, 1089, 1086, 1093, 1088, 1072, 1085, 1105, 1085] [1086, 1090, 1074, 1077, 1090, 1072, 32, 1089, 1086, 1093, 1088, 1072, 1085, 1077, 1085, 1099] [1086, 1090, 1074, 1077, 1090, 1086, 1074, 32, 1089, 1086, 1093, 1088, 1072, 1085, 1077, 1085, 1099]"

definition bannerCopy :: "bool \<Rightarrow> ReviewOutboxSummary \<Rightarrow> bool \<Rightarrow> bool \<Rightarrow> bool \<Rightarrow> ConnectivityCopy option" where
  "bannerCopy online summary syncing recoverySynced connectionRestored =
     (if sm_failed summary > 0 then Some
        \<lparr>cc_title = [1058, 1088, 1077, 1073, 1091, 1077, 1090, 1089, 1103, 32, 1089, 1080, 1085, 1093, 1088, 1086, 1085, 1080, 1079, 1072, 1094, 1080, 1103, 32, 1091, 1088, 1086, 1082, 1072],
         cc_message = nat_str (sm_failed summary) @ u '' ''
           @ pluralized (sm_failed summary) [1086, 1090, 1074, 1077, 1090, 32, 1082, 1086, 1085, 1092, 1083, 1080, 1082, 1090, 1091, 1077, 1090] [1086, 1090, 1074, 1077, 1090, 1072, 32, 1082, 1086, 1085, 1092, 1083, 1080, 1082, 1090, 1091, 1102, 1090] [1086, 1090, 1074, 1077, 1090, 1086, 1074, 32, 1082, 1086, 1085, 1092, 1083, 1080, 1082, 1090, 1091, 1102, 1090]
           @ [32, 1089, 32, 1089, 1077, 1088, 1074, 1077, 1088, 1085, 1099, 1084, 32, 1089, 1086, 1089, 1090, 1086, 1103, 1085, 1080, 1077, 1084, 46, 32, 1040, 1074, 1090, 1086, 1084, 1072, 1090, 1080, 1095, 1077, 1089, 1082, 1072, 1103, 32, 1087, 1086, 1074, 1090, 1086, 1088, 1085, 1072, 1103, 32, 1086, 1090, 1087, 1088, 1072, 1074, 1082, 1072, 32, 1086, 1089, 1090, 1072, 1085, 1086, 1074, 1083, 1077, 1085, 1072, 46],
         cc_tone = ToneFailed\<rparr>
      else if \<not> online then Some
        \<lparr>cc_title = [1053, 1077, 1090, 32, 1087, 1086, 1076, 1082, 1083, 1102, 1095, 1077, 1085, 1080, 1103, 32, 1082, 32, 1089, 1077, 1090, 1080],
         cc_message = (if sm_pending summary > 0
           then saved_answers (sm_pending summary) @ [32, 1085, 1072, 32, 1091, 1089, 1090, 1088, 1086, 1081, 1089, 1090, 1074, 1077, 32, 1080, 32, 1073, 1091, 1076, 1077, 1090, 32, 1086, 1090, 1087, 1088, 1072, 1074, 1083, 1077, 1085, 32, 1087, 1086, 1089, 1083, 1077, 32, 1074, 1086, 1089, 1089, 1090, 1072, 1085, 1086, 1074, 1083, 1077, 1085, 1080, 1103, 32, 1089, 1077, 1090, 1080, 46]
           else [1053, 1086, 1074, 1099, 1081, 32, 1089, 1077, 1090, 1077, 1074, 1086, 1081, 32, 1091, 1088, 1086, 1082, 32, 1085, 1077, 32, 1079, 1072, 1087, 1091, 1089, 1082, 1072, 1077, 1090, 1089, 1103, 46, 32, 1054, 1094, 1077, 1085, 1082, 1091, 32, 1086, 1090, 1082, 1088, 1099, 1090, 1086, 1081, 32, 1082, 1072, 1088, 1090, 1086, 1095, 1082, 1080, 32, 1084, 1086, 1078, 1085, 1086, 32, 1073, 1077, 1079, 1086, 1087, 1072, 1089, 1085, 1086, 32, 1089, 1086, 1093, 1088, 1072, 1085, 1080, 1090, 1100, 32, 1085, 1072, 32, 1091, 1089, 1090, 1088, 1086, 1081, 1089, 1090, 1074, 1077, 46]),
         cc_tone = ToneOffline\<rparr>
      else if syncing \<or> sm_pending summary > 0 then Some
        \<lparr>cc_title = (if syncing then [1057, 1080, 1085, 1093, 1088, 1086, 1085, 1080, 1079, 1080, 1088, 1091, 1077, 1084, 32, 1086, 1090, 1074, 1077, 1090, 1099, 8230] else [1054, 1090, 1074, 1077, 1090, 32, 1086, 1078, 1080, 1076, 1072, 1077, 1090, 32, 1089, 1080, 1085, 1093, 1088, 1086, 1085, 1080, 1079, 1072, 1094, 1080, 1080]),
         cc_message = saved_answers (sm_pending summary) @ [32, 1074, 32, 1083, 1086, 1082, 1072, 1083, 1100, 1085, 1086, 1081, 32, 1086, 1095, 1077, 1088, 1077, 1076, 1080, 32, 1101, 1090, 1086, 1075, 1086, 32, 1091, 1089, 1090, 1088, 1086, 1081, 1089, 1090, 1074, 1072, 46],
         cc_tone = TonePending\<rparr>
      else if recoverySynced then Some
        \<lparr>cc_title = [1054, 1090, 1074, 1077, 1090, 32, 1089, 1080, 1085, 1093, 1088, 1086, 1085, 1080, 1079, 1080, 1088, 1086, 1074, 1072, 1085],
         cc_message = [1055, 1088, 1086, 1075, 1088, 1077, 1089, 1089, 32, 1080, 32, 1087, 1086, 1079, 1080, 1094, 1080, 1103, 32, 1091, 1088, 1086, 1082, 1072, 32, 1087, 1086, 1076, 1090, 1074, 1077, 1088, 1078, 1076, 1077, 1085, 1099, 32, 1089, 1077, 1088, 1074, 1077, 1088, 1086, 1084, 46], cc_tone = ToneSynced\<rparr>
      else if connectionRestored then Some
        \<lparr>cc_title = [1055, 1086, 1076, 1082, 1083, 1102, 1095, 1077, 1085, 1080, 1077, 32, 1074, 1086, 1089, 1089, 1090, 1072, 1085, 1086, 1074, 1083, 1077, 1085, 1086],
         cc_message = [76, 101, 120, 105, 71, 111, 32, 1089, 1085, 1086, 1074, 1072, 32, 1084, 1086, 1078, 1077, 1090, 32, 1079, 1072, 1075, 1088, 1091, 1078, 1072, 1090, 1100, 32, 1084, 1072, 1090, 1077, 1088, 1080, 1072, 1083, 1099, 32, 1080, 32, 1089, 1080, 1085, 1093, 1088, 1086, 1085, 1080, 1079, 1080, 1088, 1086, 1074, 1072, 1090, 1100, 32, 1083, 1086, 1082, 1072, 1083, 1100, 1085, 1091, 1102, 32, 1086, 1095, 1077, 1088, 1077, 1076, 1100, 46], cc_tone = ToneSynced\<rparr>
      else None)"

text \<open>\<open>format\<close> is the \<open>Intl.DateTimeFormat\<close> of the Russian locale.\<close>

definition formattedSyncTime :: "browser \<Rightarrow> (jnum \<Rightarrow> jstr) \<Rightarrow> jstr \<Rightarrow> jstr" where
  "formattedSyncTime b format value =
     (if value = [] then [1057, 1080, 1085, 1093, 1088, 1086, 1085, 1080, 1079, 1072, 1094, 1080, 1080, 32, 1077, 1097, 1105, 32, 1085, 1077, 32, 1073, 1099, 1083, 1086]
      else if br_parse_date b value = NaN then [1042, 1088, 1077, 1084, 1103, 32, 1089, 1080, 1085, 1093, 1088, 1086, 1085, 1080, 1079, 1072, 1094, 1080, 1080, 32, 1085, 1077, 1076, 1086, 1089, 1090, 1091, 1087, 1085, 1086]
      else [1055, 1086, 1089, 1083, 1077, 1076, 1085, 1103, 1103, 32, 1089, 1080, 1085, 1093, 1088, 1086, 1085, 1080, 1079, 1072, 1094, 1080, 1103, 58, 32] @ format (br_parse_date b value))"

definition runtime_copy :: "runtime \<Rightarrow> ConnectivityCopy option" where
  "runtime_copy s =
     (let copy = bannerCopy (rt_online s) (rt_summary s) (rt_syncing s) (rt_recoverySynced s) (rt_connectionRestored s) in
      if rt_activeUserID s = [] then None else copy)"

section \<open>The queue is sent again\<close>

text \<open>How the store behaves in a refresh of the summary.\<close>

record summary_env =
  se_prune :: idb_env
  se_now :: jnum
  se_list :: idb_env

definition refreshSummary :: "browser \<Rightarrow> summary_env \<Rightarrow> runtime \<Rightarrow> runtime" where
  "refreshSummary b e s =
     (let userId = (case rt_session s of Some x \<Rightarrow> us_id (ss_user x) | None \<Rightarrow> []) in
      if userId = [] then s\<lparr>rt_summary := EMPTY_SUMMARY\<rparr>
      else
        (case pruneSyncedLessonReviews (br_parse_date b) (se_prune e) (se_now e) (rt_store s) of
           (Inl x, st) \<Rightarrow> s\<lparr>rt_store := st\<rparr>
         | (Inr n, st) \<Rightarrow>
             (case reviewOutboxSummary (br_compare b) (se_list e) userId st of
                (Inl x, st) \<Rightarrow> s\<lparr>rt_store := st\<rparr>
              | (Inr sm, st) \<Rightarrow> s\<lparr>rt_store := st, rt_summary := sm\<rparr>)))"

definition scheduleStateReload :: "runtime \<Rightarrow> runtime" where
  "scheduleStateReload s =
     (if rt_reloadScheduled s then s
      else s\<lparr>rt_reloadScheduled := True,
             rt_events := rt_events s @ [ReviewsSyncedEvent, ReloadTimer BACKGROUND_RELOAD_DELAY_MS]\<rparr>)"

definition sendQueuedReview :: "jstr \<Rightarrow> ReviewOutboxRecord \<Rightarrow> Session \<Rightarrow> SyncRequest" where
  "sendQueuedReview cookieHeader rec session =
     (let headers = [(u ''accept'', u ''application/json''),
            (u ''authorization'', u ''Bearer '' @ accessToken (ss_tokens session)),
            (u ''content-type'', u ''application/json''),
            (u ''idempotency-key'', idempotencyKey rec)];
          csrfToken = csrfTokenFromCookie cookieHeader in
      \<lparr>rq_url = rv_endpoint rec, rq_pathname = [], rq_method = u ''POST'',
       rq_headers = (if csrfToken \<noteq> [] then header_set headers ''x-csrf-token'' csrfToken else headers),
       rq_text = Inr (requestBody rec)\<rparr>)"

text \<open>\<open>error instanceof Error ? error.message : default\<close>; a failed transaction throws a \<open>DOMException\<close> or an \<open>Error\<close>.\<close>

fun error_message :: "browser \<Rightarrow> jstr \<Rightarrow> thrown \<Rightarrow> jstr" where
  "error_message b fallback (Failure f) = rf_message f"
| "error_message b fallback AbortException = br_dom_message b"
| "error_message b fallback (TypeException m) = m"
| "error_message b fallback (ErrorException m) = m"
| "error_message b fallback OtherThrown = fallback"

definition store_error :: "js_exn \<Rightarrow> thrown" where
  "store_error e = (case e of ErrorMessage m \<Rightarrow> ErrorException (u m) | _ \<Rightarrow> AbortException)"

definition attempt_changes :: "ReviewOutboxRecord \<Rightarrow> ReviewOutboxState \<Rightarrow> jstr \<Rightarrow> jstr \<Rightarrow> review_changes" where
  "attempt_changes rec status code message =
     \<lparr>ch_status = Some status, ch_attempts = Some (attempts rec + 1), ch_lastErrorCode = Some code, ch_lastErrorMessage = Some message\<rparr>"

text \<open>\<open>await updateLessonReview\<close>: the exception it throws, if any.\<close>

definition update_review :: "idb_env \<Rightarrow> jstr \<Rightarrow> jstr \<Rightarrow> review_changes \<Rightarrow> runtime \<Rightarrow> js_exn option \<times> runtime" where
  "update_review env now key ch s =
     (case updateLessonReview env now key ch (rt_store s) of
        (Inl e, st) \<Rightarrow> (Some e, s\<lparr>rt_store := st\<rparr>) | (Inr x, st) \<Rightarrow> (None, s\<lparr>rt_store := st\<rparr>))"

text \<open>What happens to one record of the queue.\<close>

record attempt_env =
  ae_cookie :: jstr
  ae_send :: "thrown + SyncResponse"
  ae_refresh :: "thrown + Session"
  ae_resend :: "thrown + SyncResponse"
  ae_update :: idb_env
  ae_now :: jstr

datatype pass_end = Completed | Stopped | PassThrew

definition logged :: "ReviewOutboxRecord \<Rightarrow> SyncRequest \<Rightarrow> thrown + SyncResponse \<Rightarrow> runtime \<Rightarrow> runtime" where
  "logged rec request answer s = s\<lparr>rt_log := rt_log s @ [(rec, request, answer)]\<rparr>"

definition refresh_failed :: "browser \<Rightarrow> attempt_env \<Rightarrow> ReviewOutboxRecord \<Rightarrow> thrown \<Rightarrow> runtime \<Rightarrow> pass_end \<times> runtime" where
  "refresh_failed b e rec error s =
     (case update_review (ae_update e) (ae_now e) (operationKey rec)
         (attempt_changes rec Pending (u ''session_refresh_failed'') (error_message b (u ''Session refresh failed'') error)) s of
        (Some x, s) \<Rightarrow> (PassThrew, s) | (None, s) \<Rightarrow> (Stopped, s))"

text \<open>The response to go on with and the session then active, or how the pass ends here.\<close>

definition send_record ::
  "browser \<Rightarrow> attempt_env \<Rightarrow> Session \<Rightarrow> ReviewOutboxRecord \<Rightarrow> runtime \<Rightarrow> (pass_end + SyncResponse \<times> Session) \<times> runtime" where
  "send_record b e session rec s =
     (let request = sendQueuedReview (ae_cookie e) rec session;
          s = logged rec request (ae_send e) s in
      case ae_send e of
        Inl x \<Rightarrow> (Inl PassThrew, s)
      | Inr response \<Rightarrow>
          if \<not> jeq (rs_status response) 401 then (Inr (response, session), s)
          else
            (case ae_refresh e of
               Inl error \<Rightarrow> (let (r, s) = refresh_failed b e rec error s in (Inl r, s))
             | Inr refreshed \<Rightarrow>
                 let s = s\<lparr>rt_session := Some refreshed, rt_activeUserID := us_id (ss_user refreshed),
                           rt_events := rt_events s @ [SessionRestoredEvent]\<rparr> in
                 if us_id (ss_user refreshed) \<noteq> rv_userId rec then (Inl Stopped, s)
                 else
                   let request = sendQueuedReview (ae_cookie e) rec refreshed;
                       s = logged rec request (ae_resend e) s in
                   (case ae_resend e of
                      Inl error \<Rightarrow> (let (r, s) = refresh_failed b e rec error s in (Inl r, s))
                    | Inr response \<Rightarrow> (Inr (response, refreshed), s))))"

fun sync_records ::
  "browser \<Rightarrow> Session \<Rightarrow> (ReviewOutboxRecord \<times> attempt_env) list \<Rightarrow> nat \<Rightarrow> runtime \<Rightarrow> pass_end \<times> nat \<times> runtime" where
  "sync_records b session [] n s = (Completed, n, s)"
| "sync_records b session ((rec, e) # rest) n s =
     (case send_record b e session rec s of
        (Inl r, s) \<Rightarrow> (r, n, s)
      | (Inr (response, session), s) \<Rightarrow>
          let failure = responseError response in
          (case reviewResponseDisposition (rs_status response) of
             DSynced \<Rightarrow>
               (case update_review (ae_update e) (ae_now e) (operationKey rec) (attempt_changes rec Synced [] []) s of
                  (Some x, s) \<Rightarrow> (PassThrew, n, s) | (None, s) \<Rightarrow> sync_records b session rest (n + 1) s)
           | DFailed \<Rightarrow>
               (case update_review (ae_update e) (ae_now e) (operationKey rec)
                   (attempt_changes rec Failed (er_code failure) (er_message failure)) s of
                  (Some x, s) \<Rightarrow> (PassThrew, n, s) | (None, s) \<Rightarrow> (Stopped, n, s))
           | _ \<Rightarrow>
               (case update_review (ae_update e) (ae_now e) (operationKey rec)
                   (attempt_changes rec Pending (er_code failure) (er_message failure)) s of
                  (Some x, s) \<Rightarrow> (PassThrew, n, s) | (None, s) \<Rightarrow> (Stopped, n, s))))"


record pass_env =
  pe_online :: bool
  pe_fetch :: bool
  pe_list :: idb_env
  pe_attempt :: "nat \<Rightarrow> attempt_env"
  pe_empty_summary :: summary_env
  pe_summary :: summary_env

definition with_env :: "(nat \<Rightarrow> attempt_env) \<Rightarrow> ReviewOutboxRecord list \<Rightarrow> (ReviewOutboxRecord \<times> attempt_env) list" where
  "with_env f records = zip records (map f [0..<length records])"

text \<open>The body of the pass, and how many reviews it got confirmed.\<close>

definition sync_pass :: "browser \<Rightarrow> pass_env \<Rightarrow> Session \<Rightarrow> runtime \<Rightarrow> nat \<times> runtime" where
  "sync_pass b e session s =
     (case listLessonReviews (br_compare b) (pe_list e) (us_id (ss_user session)) (rt_store s) of
        (Inl x, st) \<Rightarrow> (0, s\<lparr>rt_store := st\<rparr>)
      | (Inr all, st) \<Rightarrow>
          let s = s\<lparr>rt_store := st\<rparr>; records = filter (\<lambda>r. rv_status r = Pending) all in
          if records = [] then (0, refreshSummary b (pe_empty_summary e) s)
          else
            let s = s\<lparr>rt_recoverySynced := False, rt_connectionRestored := False, rt_syncing := True\<rparr>;
                (r, n, s) = sync_records b session (with_env (pe_attempt e) records) 0 s in
            (n, s))"

definition syncPendingReviews :: "browser \<Rightarrow> pass_env \<Rightarrow> runtime \<Rightarrow> runtime" where
  "syncPendingReviews b e s =
     (if rt_syncInFlight s then s
      else case rt_session s of
        None \<Rightarrow> s
      | Some currentSession \<Rightarrow>
          if \<not> pe_fetch e \<or> \<not> pe_online e then s
          else
            let (synchronized, s) = sync_pass b e currentSession (s\<lparr>rt_syncInFlight := True\<rparr>);
                s = refreshSummary b (pe_summary e) (s\<lparr>rt_syncing := False\<rparr>);
                s = (if synchronized > 0
                  then scheduleStateReload (s\<lparr>rt_recoverySynced := True,
                    rt_connectionMessage := [1051, 1086, 1082, 1072, 1083, 1100, 1085, 1086, 32, 1089, 1086, 1093, 1088, 1072, 1085, 1105, 1085, 1085, 1099, 1081, 32, 1086, 1090, 1074, 1077, 1090, 32, 1087, 1088, 1080, 1085, 1103, 1090, 32, 1089, 1077, 1088, 1074, 1077, 1088, 1086, 1084, 46, 32, 1054, 1073, 1085, 1086, 1074, 1083, 1103, 1077, 1084, 32, 1087, 1086, 1079, 1080, 1094, 1080, 1102, 32, 1091, 1088, 1086, 1082, 1072, 46]\<rparr>)
                  else s) in
            s\<lparr>rt_syncInFlight := False\<rparr>)"

section \<open>The intercepted fetch\<close>

definition exposeQueuedReview :: "ReviewOutboxRecord \<Rightarrow> jstr \<Rightarrow> runtime \<Rightarrow> runtime" where
  "exposeQueuedReview rec message s =
     s\<lparr>rt_detailsOpen := True, rt_connectionMessage := message,
       rt_events := rt_events s @ [ReviewQueuedEvent (rv_lessonId rec) (rv_wordId rec) (rv_lessonVersion rec)]\<rparr>"

definition storage_failed_message :: jstr where
  "storage_failed_message = [1053, 1077, 32, 1091, 1076, 1072, 1083, 1086, 1089, 1100, 32, 1073, 1077, 1079, 1086, 1087, 1072, 1089, 1085, 1086, 32, 1089, 1086, 1093, 1088, 1072, 1085, 1080, 1090, 1100, 32, 1086, 1090, 1074, 1077, 1090, 32, 1085, 1072, 32, 1091, 1089, 1090, 1088, 1086, 1081, 1089, 1090, 1074, 1077, 46, 32, 1054, 1089, 1074, 1086, 1073, 1086, 1076, 1080, 1090, 1077, 32, 1084, 1077, 1089, 1090, 1086, 32, 1074, 32, 1073, 1088, 1072, 1091, 1079, 1077, 1088, 1077, 32, 1080, 32, 1087, 1086, 1074, 1090, 1086, 1088, 1080, 1090, 1077, 32, 1087, 1086, 1087, 1099, 1090, 1082, 1091, 46]"

definition offline_message :: jstr where
  "offline_message = [1054, 1090, 1074, 1077, 1090, 32, 1089, 1086, 1093, 1088, 1072, 1085, 1105, 1085, 32, 1085, 1072, 32, 1091, 1089, 1090, 1088, 1086, 1081, 1089, 1090, 1074, 1077, 46, 32, 1055, 1077, 1088, 1077, 1093, 1086, 1076, 32, 1082, 32, 1089, 1083, 1077, 1076, 1091, 1102, 1097, 1077, 1081, 32, 1082, 1072, 1088, 1090, 1086, 1095, 1082, 1077, 32, 1089, 1090, 1072, 1085, 1077, 1090, 32, 1076, 1086, 1089, 1090, 1091, 1087, 1077, 1085, 32, 1087, 1086, 1089, 1083, 1077, 32, 1074, 1086, 1089, 1089, 1090, 1072, 1085, 1086, 1074, 1083, 1077, 1085, 1080, 1103, 32, 1089, 1077, 1090, 1080, 46]"

definition retry_message :: jstr where
  "retry_message = [1054, 1090, 1074, 1077, 1090, 32, 1089, 1086, 1093, 1088, 1072, 1085, 1105, 1085, 32, 1085, 1072, 32, 1091, 1089, 1090, 1088, 1086, 1081, 1089, 1090, 1074, 1077, 46, 32, 76, 101, 120, 105, 71, 111, 32, 1087, 1086, 1074, 1090, 1086, 1088, 1080, 1090, 32, 1086, 1090, 1087, 1088, 1072, 1074, 1082, 1091, 32, 1087, 1086, 1089, 1083, 1077, 32, 1074, 1086, 1089, 1089, 1090, 1072, 1085, 1086, 1074, 1083, 1077, 1085, 1080, 1103, 32, 1089, 1077, 1088, 1074, 1080, 1089, 1072, 46]"

definition failure_message :: jstr where
  "failure_message = [1054, 1090, 1074, 1077, 1090, 32, 1089, 1086, 1093, 1088, 1072, 1085, 1105, 1085, 32, 1085, 1072, 32, 1091, 1089, 1090, 1088, 1086, 1081, 1089, 1090, 1074, 1077, 46, 32, 76, 101, 120, 105, 71, 111, 32, 1086, 1090, 1087, 1088, 1072, 1074, 1080, 1090, 32, 1077, 1075, 1086, 32, 1072, 1074, 1090, 1086, 1084, 1072, 1090, 1080, 1095, 1077, 1089, 1082, 1080, 32, 1087, 1086, 1089, 1083, 1077, 32, 1074, 1086, 1089, 1089, 1090, 1072, 1085, 1086, 1074, 1083, 1077, 1085, 1080, 1103, 32, 1089, 1086, 1077, 1076, 1080, 1085, 1077, 1085, 1080, 1103, 46]"

text \<open>
  The environment of one intercepted request: \<open>navigator.onLine\<close> where it is read, the answer of
  the original fetch, and the store in each transaction.
\<close>

record live_env =
  le_online_start :: bool
  le_online_stored :: bool
  le_online_catch :: bool
  le_answer :: "thrown + SyncResponse"
  le_crypto :: crypto
  le_enqueue :: idb_env
  le_enqueue_now :: jstr
  le_stored_summary :: summary_env
  le_update :: idb_env
  le_update_now :: jstr
  le_catch :: idb_env
  le_catch_now :: jstr
  le_summary :: summary_env

definition queued :: "browser \<Rightarrow> live_env \<Rightarrow> ReviewOutboxRecord \<Rightarrow> jstr \<Rightarrow> runtime \<Rightarrow> (thrown + SyncResponse) \<times> runtime" where
  "queued b e rec message s =
     (Inr (queuedResponse message (u ''lesson_review_queued'')), exposeQueuedReview rec message (refreshSummary b (le_summary e) s))"

definition live_failed :: "browser \<Rightarrow> live_env \<Rightarrow> ReviewOutboxRecord \<Rightarrow> thrown \<Rightarrow> runtime \<Rightarrow> (thrown + SyncResponse) \<times> runtime" where
  "live_failed b e rec error s =
     (case update_review (le_catch e) (le_catch_now e) (operationKey rec)
         (attempt_changes rec Pending (currentNetworkFailureCode (le_online_catch e))
           (error_message b (u ''Network request failed'') error)) s of
        (Some x, s) \<Rightarrow> (Inl (store_error x), s)
      | (None, s) \<Rightarrow> queued b e rec failure_message s)"

definition send_live :: "browser \<Rightarrow> live_env \<Rightarrow> SyncRequest \<Rightarrow> ReviewOutboxRecord \<Rightarrow> runtime \<Rightarrow> (thrown + SyncResponse) \<times> runtime" where
  "send_live b e request rec s =
     (let s = logged rec (requestWithIdempotency request (idempotencyKey rec)) (le_answer e) s;
          update = (\<lambda>status code message. update_review (le_update e) (le_update_now e) (operationKey rec)
                      (attempt_changes rec status code message)) in
      case le_answer e of
        Inl error \<Rightarrow> live_failed b e rec error s
      | Inr response \<Rightarrow>
          let failure = responseError response in
          (case reviewResponseDisposition (rs_status response) of
             DSynced \<Rightarrow>
               (case update Synced [] [] s of
                  (Some x, s) \<Rightarrow> live_failed b e rec (store_error x) s
                | (None, s) \<Rightarrow> (Inr response, refreshSummary b (le_summary e) s))
           | DFailed \<Rightarrow>
               (case update Failed (er_code failure) (er_message failure) s of
                  (Some x, s) \<Rightarrow> live_failed b e rec (store_error x) s
                | (None, s) \<Rightarrow> (Inr response, refreshSummary b (le_summary e) s))
           | DRetry \<Rightarrow>
               (case update Pending (er_code failure) (er_message failure) s of
                  (Some x, s) \<Rightarrow> live_failed b e rec (store_error x) s
                | (None, s) \<Rightarrow> queued b e rec retry_message s)
           | DRefreshSession \<Rightarrow> (Inr response, refreshSummary b (le_summary e) s)))"

definition review_post ::
  "browser \<Rightarrow> live_env \<Rightarrow> SyncRequest \<Rightarrow> ReviewEndpoint \<Rightarrow> Session \<Rightarrow> LessonReviewPayload \<Rightarrow> runtime \<Rightarrow> (thrown + SyncResponse) \<times> runtime" where
  "review_post b e request endpoint activeSession payload s =
     (let durable = json_stringify (payload_json payload);
          s = s\<lparr>rt_recoverySynced := False, rt_connectionRestored := False\<rparr> in
      case enqueueLessonReview (le_enqueue e) (le_crypto e) (le_enqueue_now e)
          \<lparr>in_userId = us_id (ss_user activeSession), in_endpoint = rq_url request, in_reviewEndpoint = endpoint,
           in_payload = payload, in_requestBody = durable\<rparr> (rt_store s) of
        (Inl x, st) \<Rightarrow> (Inr (queuedResponse storage_failed_message (u ''lesson_review_storage_failed'')), s\<lparr>rt_store := st\<rparr>)
      | (Inr rec, st) \<Rightarrow>
          let s = refreshSummary b (le_stored_summary e) (s\<lparr>rt_store := st\<rparr>) in
          if requestBody rec \<noteq> durable then
            (Inr (conflictResponse [1044, 1083, 1103, 32, 1101, 1090, 1086, 1081, 32, 1082, 1072, 1088, 1090, 1086, 1095, 1082, 1080, 32, 1091, 1078, 1077, 32, 1089, 1086, 1093, 1088, 1072, 1085, 1077, 1085, 1072, 32, 1076, 1088, 1091, 1075, 1072, 1103, 32, 1086, 1094, 1077, 1085, 1082, 1072, 46, 32, 1044, 1086, 1078, 1076, 1080, 1090, 1077, 1089, 1100, 32, 1089, 1080, 1085, 1093, 1088, 1086, 1085, 1080, 1079, 1072, 1094, 1080, 1080, 32, 1080, 1089, 1093, 1086, 1076, 1085, 1086, 1075, 1086, 32, 1086, 1090, 1074, 1077, 1090, 1072, 46]), s)
          else if \<not> le_online_stored e then
            (Inr (queuedResponse offline_message (u ''lesson_review_queued'')), exposeQueuedReview rec offline_message s)
          else send_live b e request rec s)"

definition adopt_session :: "Session \<Rightarrow> runtime \<Rightarrow> runtime" where
  "adopt_session session s =
     s\<lparr>rt_session := Some session, rt_activeUserID := us_id (ss_user session),
       rt_events := rt_events s @ [SessionRestoredEvent, SyncRequested]\<rparr>"

definition clear_session :: "runtime \<Rightarrow> runtime" where
  "clear_session s =
     s\<lparr>rt_session := None, rt_activeUserID := [], rt_recoverySynced := False, rt_connectionRestored := False,
       rt_detailsOpen := False, rt_summary := EMPTY_SUMMARY\<rparr>"

definition auth_fetch :: "browser \<Rightarrow> AuthSessionAction \<Rightarrow> thrown + SyncResponse \<Rightarrow> runtime \<Rightarrow> (thrown + SyncResponse) \<times> runtime" where
  "auth_fetch b action answer s =
     (case answer of
        Inl x \<Rightarrow> (answer, s)
      | Inr response \<Rightarrow>
          if \<not> (rs_status response \<ge> 200 \<and> rs_status response \<le> 299) then (answer, s)
          else (case action of
              ClearSession \<Rightarrow> (answer, clear_session s)
            | Adopt \<Rightarrow>
                (case Option.bind (rs_body response) json_parse of
                   None \<Rightarrow> (answer, s)
                 | Some payload \<Rightarrow>
                     (answer, if isSessionPayload (br_parse_date b) payload then adopt_session (session_of payload) s else s))))"

definition payload_of_request :: "SyncRequest \<Rightarrow> LessonReviewPayload option" where
  "payload_of_request request =
     (case rq_text request of Inl x \<Rightarrow> None
      | Inr body \<Rightarrow> Option.bind (json_parse body) parseLessonReviewPayload)"

definition use_token :: "jstr \<Rightarrow> Session \<Rightarrow> runtime \<Rightarrow> runtime" where
  "use_token token activeSession s =
     (if token \<noteq> [] \<and> token \<noteq> accessToken (ss_tokens activeSession)
      then s\<lparr>rt_session := Some (activeSession\<lparr>ss_tokens := (ss_tokens activeSession)\<lparr>accessToken := token\<rparr>\<rparr>)\<rparr> else s)"

definition interceptedFetch :: "browser \<Rightarrow> live_env \<Rightarrow> SyncRequest \<Rightarrow> runtime \<Rightarrow> (thrown + SyncResponse) \<times> runtime" where
  "interceptedFetch b e request s =
     (case authSessionAction request of
        Some action \<Rightarrow> auth_fetch b action (le_answer e) s
      | None \<Rightarrow>
          if \<not> le_online_start e \<and> isNetworkLessonStart request then (Inr offlineLessonStartResponse, s)
          else if \<not> is_post request then (le_answer e, s)
          else (case parseLessonReviewEndpoint (\<lambda>v. Some (rq_pathname request)) (rq_url request) of
              None \<Rightarrow> (le_answer e, s)
            | Some endpoint \<Rightarrow>
                (case rt_session s of
                   None \<Rightarrow> (le_answer e, s)
                 | Some activeSession \<Rightarrow>
                     let s = use_token (authorizationToken request) activeSession s in
                     (case payload_of_request request of
                        None \<Rightarrow> (le_answer e, s)
                      | Some payload \<Rightarrow> review_post b e request endpoint activeSession payload s))))"

section \<open>The page\<close>

definition handleOnline :: "browser \<Rightarrow> pass_env \<Rightarrow> runtime \<Rightarrow> runtime" where
  "handleOnline b e s =
     syncPendingReviews b e (s\<lparr>rt_online := True, rt_connectionRestored := True,
       rt_connectionMessage := [1055, 1086, 1076, 1082, 1083, 1102, 1095, 1077, 1085, 1080, 1077, 32, 1074, 1086, 1089, 1089, 1090, 1072, 1085, 1086, 1074, 1083, 1077, 1085, 1086, 46, 32, 1055, 1088, 1086, 1074, 1077, 1088, 1103, 1077, 1084, 32, 1083, 1086, 1082, 1072, 1083, 1100, 1085, 1091, 1102, 32, 1086, 1095, 1077, 1088, 1077, 1076, 1100, 32, 1086, 1090, 1074, 1077, 1090, 1086, 1074, 46]\<rparr>)"

definition handleOffline :: "browser \<Rightarrow> summary_env \<Rightarrow> runtime \<Rightarrow> runtime" where
  "handleOffline b e s =
     refreshSummary b e (s\<lparr>rt_online := False, rt_recoverySynced := False, rt_connectionRestored := False,
       rt_connectionMessage := [1057, 1086, 1077, 1076, 1080, 1085, 1077, 1085, 1080, 1077, 32, 1085, 1077, 1076, 1086, 1089, 1090, 1091, 1087, 1085, 1086, 46, 32, 1057, 1077, 1090, 1077, 1074, 1099, 1077, 32, 1076, 1077, 1081, 1089, 1090, 1074, 1080, 1103, 32, 1074, 1088, 1077, 1084, 1077, 1085, 1085, 1086, 32, 1087, 1088, 1080, 1086, 1089, 1090, 1072, 1085, 1086, 1074, 1083, 1077, 1085, 1099, 46]\<rparr>)"

definition handleVisibility :: "browser \<Rightarrow> pass_env \<Rightarrow> bool \<Rightarrow> runtime \<Rightarrow> runtime" where
  "handleVisibility b e visible s = (if visible then syncPendingReviews b e (s\<lparr>rt_online := pe_online e\<rparr>) else s)"

definition verifyConnection :: "browser \<Rightarrow> pass_env \<Rightarrow> runtime \<Rightarrow> runtime" where
  "verifyConnection b e s =
     (if \<not> pe_online e then
        s\<lparr>rt_online := False,
          rt_connectionMessage := [1057, 1086, 1077, 1076, 1080, 1085, 1077, 1085, 1080, 1077, 32, 1087, 1086, 1082, 1072, 32, 1085, 1077, 32, 1074, 1086, 1089, 1089, 1090, 1072, 1085, 1086, 1074, 1083, 1077, 1085, 1086, 46, 32, 1051, 1086, 1082, 1072, 1083, 1100, 1085, 1086, 32, 1089, 1086, 1093, 1088, 1072, 1085, 1105, 1085, 1085, 1099, 1077, 32, 1086, 1090, 1074, 1077, 1090, 1099, 32, 1086, 1089, 1090, 1072, 1102, 1090, 1089, 1103, 32, 1085, 1072, 32, 1091, 1089, 1090, 1088, 1086, 1081, 1089, 1090, 1074, 1077, 46]\<rparr>
      else
        syncPendingReviews b e (s\<lparr>rt_online := True, rt_connectionRestored := True,
          rt_connectionMessage := [1055, 1086, 1076, 1082, 1083, 1102, 1095, 1077, 1085, 1080, 1077, 32, 1086, 1073, 1085, 1072, 1088, 1091, 1078, 1077, 1085, 1086, 46, 32, 1055, 1088, 1086, 1074, 1077, 1088, 1103, 1077, 1084, 32, 1086, 1095, 1077, 1088, 1077, 1076, 1100, 32, 1086, 1090, 1074, 1077, 1090, 1086, 1074, 46]\<rparr>))"

definition dismissRecoveredStatus :: "runtime \<Rightarrow> runtime" where
  "dismissRecoveredStatus s =
     s\<lparr>rt_recoverySynced := False, rt_connectionRestored := False, rt_connectionMessage := [], rt_detailsOpen := False\<rparr>"

text \<open>Everything that can happen to the component.\<close>

inductive runtime_step :: "browser \<Rightarrow> runtime \<Rightarrow> runtime \<Rightarrow> bool" for b where
  step_sync: "runtime_step b s (syncPendingReviews b e s)"
| step_fetch: "interceptedFetch b le request s = (res, s') \<Longrightarrow> runtime_step b s s'"
| step_summary: "runtime_step b s (refreshSummary b se s)"
| step_online: "runtime_step b s (handleOnline b e s)"
| step_offline: "runtime_step b s (handleOffline b se s)"
| step_visibility: "runtime_step b s (handleVisibility b e visible s)"
| step_verify: "runtime_step b s (verifyConnection b e s)"
| step_dismiss: "runtime_step b s (dismissRecoveredStatus s)"
| step_details: "runtime_step b s (s\<lparr>rt_detailsOpen := opened\<rparr>)"


section \<open>A review counts as synced only when the server confirmed it\<close>

lemma header_get_set: "header_get (header_set hs n v) m = (if m = n then Some v else header_get hs m)"
proof (induction hs)
  case (Cons h hs)
  then show ?case by (cases h) (auto simp: header_get_def header_set_def)
qed (simp add: header_get_def header_set_def)

text \<open>The request carries the key and the answer of the record.\<close>

definition request_for :: "ReviewOutboxRecord \<Rightarrow> SyncRequest \<Rightarrow> bool" where
  "request_for rec q \<longleftrightarrow>
     header_get (rq_headers q) ''idempotency-key'' = Some (idempotencyKey rec)
     \<and> (rq_text q = Inr (requestBody rec)
        \<or> (\<exists>p. payload_of_request q = Some p \<and> requestBody rec = json_stringify (payload_json p)))"

type_synonym sync_log = "(ReviewOutboxRecord \<times> SyncRequest \<times> (thrown + SyncResponse)) list"

definition accepted :: "sync_log \<Rightarrow> ReviewOutboxRecord \<Rightarrow> bool" where
  "accepted sent rec \<longleftrightarrow>
     (\<exists>q resp. (rec, q, Inr resp) \<in> set sent \<and> request_for rec q \<and> reviewResponseDisposition (rs_status resp) = DSynced)"

definition confirmed :: "sync_log \<Rightarrow> ReviewOutboxRecord \<Rightarrow> bool" where
  "confirmed sent r \<longleftrightarrow> (\<exists>rec. accepted sent rec \<and> same_review rec r)"

definition synced_ok :: "idb \<Rightarrow> sync_log \<Rightarrow> bool" where
  "synced_ok st sent \<longleftrightarrow> store_ok st \<and> (\<forall>k r. record_at st k = Some r \<longrightarrow> rv_status r = Synced \<longrightarrow> confirmed sent r)"

definition kept :: "idb \<Rightarrow> ReviewOutboxRecord \<Rightarrow> bool" where
  "kept st rec \<longleftrightarrow> (\<forall>r. record_at st (operationKey rec) = Some r \<longrightarrow> same_review rec r)"

lemma accepted_append: "accepted sent rec \<Longrightarrow> accepted (sent @ new) rec"
  by (auto simp: accepted_def)

lemma accepted_prepend: "accepted new rec \<Longrightarrow> accepted (sent @ new) rec"
  by (auto simp: accepted_def)

lemma confirmed_append: "confirmed sent r \<Longrightarrow> confirmed (sent @ new) r"
  by (auto simp: confirmed_def dest: accepted_append)

lemma synced_ok_append: "synced_ok st sent \<Longrightarrow> synced_ok st (sent @ new)"
  by (auto simp: synced_ok_def dest: confirmed_append)

lemma updated_same: "same_review (record_of row) (record_of (updated_row now ch row))"
  by (simp add: same_review_def record_of_def updated_row_props map_of_change_props)

lemma updated_status: "ch_status ch = Some x \<Longrightarrow> rv_status (record_of (updated_row now ch row)) = x"
  by (simp add: record_of_def updated_row_props map_of_change_props)

lemma update_record_at:
  assumes "store_ok st" "updateLessonReview env now key ch st = (res, st')" "record_at st' k = Some r'"
  shows "record_at st k = Some r' \<or> (\<exists>r. record_at st k = Some r \<and> same_review r r' \<and> k = key
    \<and> (\<forall>x. ch_status ch = Some x \<longrightarrow> rv_status r' = x))"
  using assms(2)
proof (cases rule: update_cases)
  case written
  with store_key [OF assms(1)] have st': "st' = idb_put st key (updated_row now ch (idb_get st key))" by simp
  from written(1) have "record_at st key = Some (record_of (idb_get st key))" by (simp add: record_at_def Let_def)
  with assms(3) show ?thesis
    by (auto simp: st' record_at_put updated_same updated_status split: if_splits)
qed (use assms(3) in auto)

lemma update_ok:
  assumes "synced_ok st sent" "updateLessonReview env now key ch st = (res, st')" "ch_status ch = Some x"
    and "\<And>r. x = Synced \<Longrightarrow> record_at st key = Some r \<Longrightarrow> confirmed sent r"
  shows "synced_ok st' sent"
proof -
  have st: "store_ok st" using assms(1) by (simp add: synced_ok_def)
  have "confirmed sent r'" if r': "record_at st' k = Some r'" "rv_status r' = Synced" for k r'
    using update_record_at [OF st assms(2) r'(1)]
  proof (elim disjE exE conjE)
    assume "record_at st k = Some r'"
    with assms(1) r'(2) show ?thesis by (simp add: synced_ok_def)
  next
    fix r assume "record_at st k = Some r" "same_review r r'" "k = key" "\<forall>x. ch_status ch = Some x \<longrightarrow> rv_status r' = x"
    then have "confirmed sent r" using assms(3,4) r'(2) by blast
    with \<open>same_review r r'\<close> show ?thesis by (auto simp: confirmed_def intro: same_review_trans)
  qed
  with store_ok_ops(2) [OF st assms(2)] show ?thesis by (simp add: synced_ok_def)
qed

lemma update_kept:
  assumes "store_ok st" "updateLessonReview env now key ch st = (res, st')" "kept st rec"
  shows "kept st' rec"
  using assms(3) update_record_at [OF assms(1,2)] unfolding kept_def by (meson same_review_trans)

lemma prune_record_at:
  assumes "store_ok st" "pruneSyncedLessonReviews dp env n st = (res, st')" "record_at st' k = Some r"
  shows "record_at st k = Some r"
  using assms(2)
proof (cases rule: prune_cases)
  case pruned
  then show ?thesis
    using assms(3) prune_view [OF assms(1), of dp n k] by (auto simp: record_at_view split: option.splits if_splits)
qed (use assms(3) in simp)

text \<open>Refreshing the summary touches the store only by pruning.\<close>

lemma summary_store: "reviewOutboxSummary cmp env userId st = (res, st') \<Longrightarrow> st' = st"
  by (auto simp: reviewOutboxSummary_def dest: list_store split: prod.splits sum.splits)


definition runtime_ok :: "runtime \<Rightarrow> bool" where
  "runtime_ok s \<longleftrightarrow> synced_ok (rt_store s) (rt_log s)"

text \<open>A part of a run: the invariant holds after it, records keep their identity, the log grows.\<close>

definition runs_to :: "runtime \<Rightarrow> runtime \<Rightarrow> bool" where
  "runs_to s s' \<longleftrightarrow> runtime_ok s' \<and> (\<forall>rec. kept (rt_store s) rec \<longrightarrow> kept (rt_store s') rec) \<and> (\<exists>new. rt_log s' = rt_log s @ new)"

lemma runs_to_refl: "runtime_ok s \<Longrightarrow> runs_to s s"
  by (simp add: runs_to_def)

lemma runs_to_trans: "runs_to s s' \<Longrightarrow> runs_to s' s'' \<Longrightarrow> runs_to s s''"
  unfolding runs_to_def by (metis append.assoc)

lemma runs_to_ok: "runs_to s s' \<Longrightarrow> runtime_ok s'"
  by (simp add: runs_to_def)

lemma runs_to_same: "runtime_ok s \<Longrightarrow> rt_store s' = rt_store s \<Longrightarrow> rt_log s' = rt_log s @ new \<Longrightarrow> runs_to s s'"
  by (auto simp: runs_to_def runtime_ok_def synced_ok_append)

lemma refresh_runs:
  assumes "runtime_ok s"
  shows "runs_to s (refreshSummary b e s) \<and> rt_log (refreshSummary b e s) = rt_log s"
proof -
  let ?s' = "refreshSummary b e s"
  have st: "store_ok (rt_store s)" using assms by (simp add: runtime_ok_def synced_ok_def)
  obtain res st' where p: "pruneSyncedLessonReviews (br_parse_date b) (se_prune e) (se_now e) (rt_store s) = (res, st')"
    by (cases "pruneSyncedLessonReviews (br_parse_date b) (se_prune e) (se_now e) (rt_store s)")
  have l: "rt_log ?s' = rt_log s" by (simp add: refreshSummary_def Let_def split: sum.split prod.split)
  have "rt_store ?s' = rt_store s \<or> rt_store ?s' = st'"
    by (auto simp: refreshSummary_def Let_def p dest: summary_store split: sum.split prod.split)
  then show ?thesis
  proof
    assume "rt_store ?s' = rt_store s"
    then show ?thesis using assms l by (simp add: runs_to_same [where new = "[]"])
  next
    assume s': "rt_store ?s' = st'"
    have "synced_ok st' (rt_log s)"
      using assms prune_record_at [OF st p] store_ok_ops(3) [OF st p] by (auto simp: runtime_ok_def synced_ok_def)
    moreover have "kept st' rec" if "kept (rt_store s) rec" for rec
      using that prune_record_at [OF st p] by (auto simp: kept_def)
    ultimately show ?thesis by (simp add: runs_to_def runtime_ok_def s' l)
  qed
qed

lemma update_review_runs:
  assumes "runtime_ok s" "update_review env now key ch s = (x, s')" "ch_status ch = Some y"
    and "\<And>r. y = Synced \<Longrightarrow> record_at (rt_store s) key = Some r \<Longrightarrow> confirmed (rt_log s) r"
  shows "runs_to s s' \<and> rt_log s' = rt_log s"
proof -
  obtain res st where u: "updateLessonReview env now key ch (rt_store s) = (res, st)"
    by (cases "updateLessonReview env now key ch (rt_store s)")
  then have s': "s' = s\<lparr>rt_store := st\<rparr>" using assms(2) by (auto simp: update_review_def split: sum.splits)
  have st: "store_ok (rt_store s)" using assms(1) by (simp add: runtime_ok_def synced_ok_def)
  have "synced_ok st (rt_log s)"
    by (rule update_ok [OF _ u assms(3)]) (use assms(1,4) in \<open>auto simp: runtime_ok_def\<close>)
  then show ?thesis using update_kept [OF st u] by (simp add: runs_to_def runtime_ok_def s')
qed

lemma attempt_changes_status [simp]: "ch_status (attempt_changes rec x code message) = Some x"
  by (simp add: attempt_changes_def)

text \<open>Not synced: no condition.\<close>

lemma update_open_runs:
  assumes "runtime_ok s" "update_review env now key (attempt_changes rec y code message) s = (x, s')" "y \<noteq> Synced"
  shows "runs_to s s' \<and> rt_log s' = rt_log s"
  using update_review_runs [OF assms(1,2)] assms(3) by simp

lemma update_synced_runs:
  assumes "runtime_ok s" "update_review env now (operationKey rec) (attempt_changes rec Synced code message) s = (x, s')"
    and "kept (rt_store s) rec" "accepted (rt_log s) rec"
  shows "runs_to s s' \<and> rt_log s' = rt_log s"
  using update_review_runs [OF assms(1,2)] assms(3,4) by (auto simp: kept_def confirmed_def)

lemma refresh_failed_runs:
  assumes "runtime_ok s" "refresh_failed b e rec error s = (r, s')"
  shows "runs_to s s' \<and> rt_log s' = rt_log s"
  using assms(2) update_open_runs [OF assms(1)] by (auto simp: refresh_failed_def split: option.splits prod.splits)

lemma sendQueuedReview_for: "request_for rec (sendQueuedReview cookie rec session)"
  by (simp add: request_for_def sendQueuedReview_def Let_def header_get_set) (simp add: header_get_def)

text \<open>One record: what is logged, and the answer the pass goes on with.\<close>

lemma send_record_runs:
  assumes "runtime_ok s" "send_record b e session rec s = (r, s')"
  shows "runs_to s s' \<and> (\<exists>new. rt_log s' = rt_log s @ new \<and> fst ` set new \<subseteq> {rec}
      \<and> (\<forall>response session'. r = Inr (response, session') \<longrightarrow>
           (\<exists>q. (rec, q, Inr response) \<in> set new \<and> request_for rec q)))"
proof -
  let ?q = "sendQueuedReview (ae_cookie e) rec session"
  let ?s1 = "logged rec ?q (ae_send e) s"
  have s1: "runtime_ok ?s1" "runs_to s ?s1"
    using runs_to_same [OF assms(1), of ?s1] by (auto simp: logged_def dest: runs_to_ok)
  show ?thesis
  proof (cases "ae_send e")
    case (Inl x)
    with assms(2) have "s' = ?s1" "r = Inl PassThrew" by (simp_all add: send_record_def Let_def)
    with s1 show ?thesis by (simp add: logged_def)
  next
    case (Inr response)
    show ?thesis
    proof (cases "jeq (rs_status response) 401")
      case False
      with Inr assms(2) have "s' = ?s1" "r = Inr (response, session)" by (simp_all add: send_record_def Let_def)
      with s1 Inr sendQueuedReview_for show ?thesis by (auto simp: logged_def)
    next
      case unauthorized: True
      show ?thesis
      proof (cases "ae_refresh e")
        case (Inl error)
        with Inr unauthorized assms(2) obtain p where p: "refresh_failed b e rec error ?s1 = (p, s')" "r = Inl p"
          by (auto simp: send_record_def Let_def split: prod.splits)
        with refresh_failed_runs [OF s1(1) p(1)] s1(2) show ?thesis by (auto simp: logged_def intro: runs_to_trans)
      next
        case refreshed: (Inr refreshed)
        let ?s2 = "?s1\<lparr>rt_session := Some refreshed, rt_activeUserID := us_id (ss_user refreshed),
                       rt_events := rt_events ?s1 @ [SessionRestoredEvent]\<rparr>"
        have s2: "runs_to s ?s2" using runs_to_same [OF s1(1), of ?s2 "[]"] s1(2) by (auto intro: runs_to_trans)
        show ?thesis
        proof (cases "us_id (ss_user refreshed) = rv_userId rec")
          case False
          with Inr unauthorized refreshed assms(2) have "s' = ?s2" "r = Inl Stopped" by (simp_all add: send_record_def Let_def)
          with s2 show ?thesis by (simp add: logged_def)
        next
          case True
          let ?q2 = "sendQueuedReview (ae_cookie e) rec refreshed"
          let ?s3 = "logged rec ?q2 (ae_resend e) ?s2"
          have s3: "runs_to s ?s3"
            using runs_to_same [OF runs_to_ok [OF s2], of ?s3] s2 by (auto simp: logged_def intro: runs_to_trans)
          have l3: "rt_log ?s3 = rt_log s @ [(rec, ?q, ae_send e), (rec, ?q2, ae_resend e)]" by (simp add: logged_def)
          show ?thesis
          proof (cases "ae_resend e")
            case (Inl error)
            with Inr unauthorized refreshed True assms(2) obtain p where p: "refresh_failed b e rec error ?s3 = (p, s')" "r = Inl p"
              by (auto simp: send_record_def Let_def split: prod.splits)
            with refresh_failed_runs [OF runs_to_ok [OF s3] p(1)] s3 l3 show ?thesis by (auto intro: runs_to_trans)
          next
            case resent: (Inr response')
            with Inr unauthorized refreshed True assms(2) have "s' = ?s3" "r = Inr (response', refreshed)"
              by (simp_all add: send_record_def Let_def)
            with s3 l3 resent sendQueuedReview_for show ?thesis by auto
          qed
        qed
      qed
    qed
  qed
qed


text \<open>The rest of a pass is reached only through a confirmed record.\<close>

lemma sync_records_Cons:
  assumes "sync_records b session ((rec, e) # rest) n s = (r, n', s')" "runtime_ok s" "kept (rt_store s) rec"
  obtains (ends) new where "n' = n" "runs_to s s'" "rt_log s' = rt_log s @ new" "fst ` set new \<subseteq> {rec}" "r \<noteq> Completed"
    | (goes_on) new session1 s1 where "runs_to s s1" "rt_log s1 = rt_log s @ new" "fst ` set new \<subseteq> {rec}" "accepted new rec"
        "sync_records b session1 rest (n + 1) s1 = (r, n', s')"
proof -
  obtain r1 s1 where snd1: "send_record b e session rec s = (r1, s1)" by (cases "send_record b e session rec s")
  from send_record_runs [OF assms(2) snd1] obtain new where run1: "runs_to s s1"
    and new: "rt_log s1 = rt_log s @ new" "fst ` set new \<subseteq> {rec}"
    and got: "\<And>response session'. r1 = Inr (response, session') \<Longrightarrow> \<exists>q. (rec, q, Inr response) \<in> set new \<and> request_for rec q"
    by blast
  have k1: "kept (rt_store s1) rec" using run1 assms(3) by (simp add: runs_to_def)
  note ok1 = runs_to_ok [OF run1]
  show thesis
  proof (cases r1)
    case (Inl p)
    have "p \<noteq> Completed"
      using snd1 Inl by (auto simp: send_record_def refresh_failed_def Let_def split: sum.splits if_splits prod.splits option.splits)
    with Inl snd1 assms(1) run1 new show thesis by (intro ends) auto
  next
    case (Inr rs)
    then obtain response session1 where r1: "r1 = Inr (response, session1)" by (cases rs) auto
    from got [OF r1] obtain q where q: "(rec, q, Inr response) \<in> set new" "request_for rec q" by blast
    define d where "d = reviewResponseDisposition (rs_status response)"
    show thesis
    proof (cases "d = DSynced")
      case True
      obtain x s2 where up: "update_review (ae_update e) (ae_now e) (operationKey rec) (attempt_changes rec Synced [] []) s1 = (x, s2)"
        by (cases "update_review (ae_update e) (ae_now e) (operationKey rec) (attempt_changes rec Synced [] []) s1")
      have acc: "accepted new rec" using q True by (auto simp: accepted_def d_def)
      then have "accepted (rt_log s1) rec" using new(1) by (auto simp: accepted_def)
      from update_synced_runs [OF ok1 up k1 this] have run2: "runs_to s s2" "rt_log s2 = rt_log s @ new"
        using run1 new(1) by (auto intro: runs_to_trans)
      show thesis
      proof (cases x)
        case None
        with snd1 r1 True up assms(1) have "sync_records b session1 rest (n + 1) s2 = (r, n', s')"
          by (simp add: d_def Let_def)
        with run2 new(2) acc show thesis by (intro goes_on)
      next
        case (Some y)
        with snd1 r1 True up assms(1) have "r = PassThrew" "n' = n" "s' = s2" by (simp_all add: d_def Let_def)
        with run2 new(2) show thesis by (intro ends) auto
      qed
    next
      case False
      define st where "st = (if d = DFailed then Failed else Pending)"
      let ?ch = "attempt_changes rec st (er_code (responseError response)) (er_message (responseError response))"
      obtain x s2 where up: "update_review (ae_update e) (ae_now e) (operationKey rec) ?ch s1 = (x, s2)"
        by (cases "update_review (ae_update e) (ae_now e) (operationKey rec) ?ch s1")
      have "st \<noteq> Synced" by (simp add: st_def)
      from update_open_runs [OF ok1 up this] have run2: "runs_to s s2" "rt_log s2 = rt_log s @ new"
        using run1 new(1) by (auto intro: runs_to_trans)
      have "s' = s2" "n' = n" "r \<noteq> Completed"
        using snd1 r1 False up assms(1) by (cases d; cases x; simp add: d_def st_def Let_def)+
      with run2 new(2) show thesis by (intro ends [where new = new]) simp_all
    qed
  qed
qed

lemma sync_records_runs:
  assumes "sync_records b session rs n s = (r, n', s')" "runtime_ok s" "\<forall>x\<in>set rs. kept (rt_store s) (fst x)"
  shows "runs_to s s' \<and> n \<le> n' \<and> n' - n \<le> length rs \<and> (r = Completed \<longrightarrow> n' - n = length rs)
    \<and> (\<exists>new. rt_log s' = rt_log s @ new \<and> fst ` set new \<subseteq> set (take (Suc (n' - n)) (map fst rs))
          \<and> (\<forall>rec\<in>set (take (n' - n) (map fst rs)). accepted new rec))"
  using assms
proof (induction rs arbitrary: session n s)
  case Nil
  then show ?case by (simp add: runs_to_refl)
next
  case (Cons x rest)
  obtain rec e where x: "x = (rec, e)" by (cases x)
  from Cons.prems(3) have k: "kept (rt_store s) rec" by (simp add: x)
  from Cons.prems(1) [unfolded x] Cons.prems(2) k show ?case
  proof (cases rule: sync_records_Cons)
    case (ends new)
    then show ?thesis by (simp add: x)
  next
    case (goes_on new session1 s1)
    have "\<forall>y\<in>set rest. kept (rt_store s1) (fst y)" using Cons.prems(3) goes_on(1) by (simp add: runs_to_def)
    from Cons.IH [OF goes_on(5) runs_to_ok [OF goes_on(1)] this] obtain new'
      where ih: "runs_to s1 s'" "n + 1 \<le> n'" "n' - (n + 1) \<le> length rest" "r = Completed \<longrightarrow> n' - (n + 1) = length rest"
        "rt_log s' = rt_log s1 @ new'" "fst ` set new' \<subseteq> set (take (Suc (n' - (n + 1))) (map fst rest))"
        "\<forall>rec\<in>set (take (n' - (n + 1)) (map fst rest)). accepted new' rec" by blast
    have n': "n' - n = Suc (n' - (n + 1))" using ih(2) by simp
    have "rt_log s' = rt_log s @ new @ new'" using ih(5) goes_on(2) by simp
    moreover have "fst ` set (new @ new') \<subseteq> set (take (Suc (n' - n)) (map fst (x # rest)))"
      using goes_on(3) ih(6) unfolding n' by (auto simp: x)
    moreover have "\<forall>rc\<in>set (take (n' - n) (map fst (x # rest))). accepted (new @ new') rc"
      using accepted_append [OF goes_on(4)] ih(7) unfolding n' by (auto simp: x intro: accepted_prepend)
    moreover have "runs_to s s'" using goes_on(1) ih(1) by (rule runs_to_trans)
    ultimately show ?thesis using ih(2-4) n' by (intro conjI exI [of _ "new @ new'"]) auto
  qed
qed

lemma listed_kept:
  assumes "store_ok st" "listLessonReviews cmp env userId st = (Inr all, st')" "rec \<in> set all"
  shows "record_at st (operationKey rec) = Some rec" "kept st rec"
proof -
  have "rec \<in> set (rows_of_user userId st)" using assms(3) list_committed [OF assms(2)] by simp
  then obtain v where v: "v \<in> set (idb_all st)" "isReviewOutboxRecord v" "rec = record_of v" by (auto simp: rows_of_user_def)
  have "set (idb_all st) = ran (idb_view st)" using assms(1) by (simp add: store_ok_def idb.all_view)
  with v(1) obtain k where k: "idb_view st k = Some v" by (auto simp: ran_def)
  with assms(1) have "jget v ''operationKey'' = JStr k" by (simp add: store_ok_def)
  with record_key [OF v(2)] v(3) have "operationKey rec = k" by simp
  with k v show r: "record_at st (operationKey rec) = Some rec" by (auto simp: record_at_view)
  then show "kept st rec" by (simp add: kept_def)
qed

lemma with_env_records: "map fst (with_env f rs) = rs"
  by (simp add: with_env_def)

lemma sync_pass_runs:
  assumes "sync_pass b e session s = (n, s')" "runtime_ok s"
  shows "runs_to s s'
    \<and> (\<forall>all st. listLessonReviews (br_compare b) (pe_list e) (us_id (ss_user session)) (rt_store s) = (Inr all, st) \<longrightarrow>
        (let queue = filter (\<lambda>r. rv_status r = Pending) all in
         n \<le> length queue
         \<and> (\<exists>new. rt_log s' = rt_log s @ new \<and> fst ` set new \<subseteq> set (take (Suc n) queue)
              \<and> (\<forall>rec\<in>set (take n queue). accepted new rec))))"
proof -
  obtain res st where l: "listLessonReviews (br_compare b) (pe_list e) (us_id (ss_user session)) (rt_store s) = (res, st)"
    by (cases "listLessonReviews (br_compare b) (pe_list e) (us_id (ss_user session)) (rt_store s)")
  have st: "st = rt_store s" using list_store [OF l] .
  have st_ok: "store_ok (rt_store s)" using assms(2) by (simp add: runtime_ok_def synced_ok_def)
  show ?thesis
  proof (cases res)
    case (Inl x)
    with l assms(1) have "s' = s\<lparr>rt_store := st\<rparr>" by (simp add: sync_pass_def)
    with l Inl st assms(2) show ?thesis by (simp add: runs_to_refl)
  next
    case (Inr all)
    define queue where "queue = filter (\<lambda>r. rv_status r = Pending) all"
    show ?thesis
    proof (cases "queue = []")
      case True
      with l Inr assms(1) st have "n = 0" "s' = refreshSummary b (pe_empty_summary e) s"
        by (simp_all add: sync_pass_def Let_def queue_def)
      with refresh_runs [OF assms(2)] l Inr True show ?thesis by (simp add: queue_def Let_def)
    next
      case False
      let ?s = "s\<lparr>rt_recoverySynced := False, rt_connectionRestored := False, rt_syncing := True\<rparr>"
      obtain r where sr: "sync_records b session (with_env (pe_attempt e) queue) 0 ?s = (r, n, s')"
        using False l Inr assms(1) st by (auto simp: sync_pass_def Let_def queue_def split: prod.splits)
      have ok: "runtime_ok ?s" using assms(2) by (simp add: runtime_ok_def)
      have "\<forall>x\<in>set (with_env (pe_attempt e) queue). kept (rt_store ?s) (fst x)"
        using listed_kept(2) [OF st_ok l [unfolded Inr]] with_env_records [of "pe_attempt e" queue]
        by (auto simp: queue_def with_env_def dest!: set_zip_leftD)
      from sync_records_runs [OF sr ok this] have "runs_to ?s s'" "n \<le> length queue"
        "\<exists>new. rt_log s' = rt_log s @ new \<and> fst ` set new \<subseteq> set (take (Suc n) queue) \<and> (\<forall>rec\<in>set (take n queue). accepted new rec)"
        by (simp_all add: with_env_records) (simp add: with_env_def)
      moreover have "runs_to s ?s" using assms(2) by (intro runs_to_same [where new = "[]"]) simp_all
      ultimately show ?thesis using l Inr by (auto simp: queue_def Let_def intro: runs_to_trans)
    qed
  qed
qed


lemma syncPendingReviews_runs:
  assumes "runtime_ok s"
  shows "runs_to s (syncPendingReviews b e s)"
proof (cases "rt_syncInFlight s \<or> rt_session s = None \<or> \<not> pe_fetch e \<or> \<not> pe_online e")
  case True
  then show ?thesis using assms by (auto simp: syncPendingReviews_def runs_to_refl split: option.split)
next
  case False
  then obtain session where session: "rt_session s = Some session" by auto
  obtain n s1 where p: "sync_pass b e session (s\<lparr>rt_syncInFlight := True\<rparr>) = (n, s1)"
    by (cases "sync_pass b e session (s\<lparr>rt_syncInFlight := True\<rparr>)")
  have s0: "runs_to s (s\<lparr>rt_syncInFlight := True\<rparr>)" using assms by (intro runs_to_same [where new = "[]"]) simp_all
  have "runs_to s s1" using runs_to_trans [OF s0] sync_pass_runs [OF p runs_to_ok [OF s0]] by blast
  moreover have "runs_to s1 (s1\<lparr>rt_syncing := False\<rparr>)"
    using runs_to_ok [OF calculation] by (intro runs_to_same [where new = "[]"]) simp_all
  ultimately have s2: "runs_to s (s1\<lparr>rt_syncing := False\<rparr>)" by (rule runs_to_trans)
  let ?s3 = "refreshSummary b (pe_summary e) (s1\<lparr>rt_syncing := False\<rparr>)"
  have s3: "runs_to s ?s3" using runs_to_trans [OF s2] refresh_runs [OF runs_to_ok [OF s2]] by blast
  have "rt_store (syncPendingReviews b e s) = rt_store ?s3" "rt_log (syncPendingReviews b e s) = rt_log ?s3"
    using False session p by (simp_all add: syncPendingReviews_def Let_def scheduleStateReload_def)
  then have "runs_to ?s3 (syncPendingReviews b e s)"
    using runs_to_ok [OF s3] by (intro runs_to_same [where new = "[]"]) simp_all
  with s3 show ?thesis by (rule runs_to_trans)
qed

lemma queued_runs:
  assumes "runtime_ok s" "queued b e rec message s = (res, s')"
  shows "runs_to s s' \<and> rt_log s' = rt_log s"
proof -
  have f: "rt_store s' = rt_store (refreshSummary b (le_summary e) s)" "rt_log s' = rt_log (refreshSummary b (le_summary e) s)"
    using assms(2) by (auto simp: queued_def exposeQueuedReview_def)
  note r = refresh_runs [OF assms(1), of b "le_summary e"]
  have "runs_to (refreshSummary b (le_summary e) s) s'"
    using r runs_to_ok f by (intro runs_to_same [where new = "[]"]) auto
  with r f show ?thesis by (auto intro: runs_to_trans)
qed

lemma live_failed_runs:
  assumes "runtime_ok s" "live_failed b e rec error s = (res, s')"
  shows "runs_to s s' \<and> rt_log s' = rt_log s"
proof -
  obtain x s1 where up: "update_review (le_catch e) (le_catch_now e) (operationKey rec)
       (attempt_changes rec Pending (currentNetworkFailureCode (le_online_catch e))
         (error_message b (u ''Network request failed'') error)) s = (x, s1)"
    by (meson surj_pair)
  from update_open_runs [OF assms(1) up] have u: "runs_to s s1" "rt_log s1 = rt_log s" by simp_all
  show ?thesis
  proof (cases x)
    case None
    with assms(2) up have "queued b e rec failure_message s1 = (res, s')" by (simp add: live_failed_def)
    from queued_runs [OF runs_to_ok [OF u(1)] this] u show ?thesis by (auto intro: runs_to_trans)
  next
    case (Some y)
    with assms(2) up u show ?thesis by (simp add: live_failed_def)
  qed
qed

lemma answered_runs:
  assumes "runtime_ok s" "s' = refreshSummary b e s"
  shows "runs_to s s' \<and> rt_log s' = rt_log s"
  using refresh_runs [OF assms(1)] assms(2) by simp

lemma send_live_runs:
  assumes "runtime_ok s" "send_live b e request rec s = (res, s')" "kept (rt_store s) rec"
    and "payload_of_request request = Some p" "requestBody rec = json_stringify (payload_json p)"
  shows "runs_to s s' \<and> rt_log s' = rt_log s @ [(rec, requestWithIdempotency request (idempotencyKey rec), le_answer e)]"
proof -
  let ?q = "requestWithIdempotency request (idempotencyKey rec)"
  let ?s1 = "logged rec ?q (le_answer e) s"
  have r1: "runs_to s ?s1" using runs_to_same [OF assms(1), of ?s1] by (simp add: logged_def)
  note ok1 = runs_to_ok [OF r1]
  have l1: "rt_log ?s1 = rt_log s @ [(rec, ?q, le_answer e)]" by (simp add: logged_def)
  have k1: "kept (rt_store ?s1) rec" using assms(3) by (simp add: logged_def)
  have q: "request_for rec ?q"
    using assms(4,5) by (auto simp: request_for_def requestWithIdempotency_def header_get_set payload_of_request_def)
  have fin: "runs_to s s'' \<and> rt_log s'' = rt_log s @ [(rec, ?q, le_answer e)]"
    if "runs_to ?s1 s'' \<and> rt_log s'' = rt_log ?s1" for s''
    using that r1 l1 by (auto intro: runs_to_trans)
  show ?thesis
  proof (cases "le_answer e")
    case (Inl error)
    with assms(2) have "live_failed b e rec error ?s1 = (res, s')" by (simp add: send_live_def Let_def)
    from live_failed_runs [OF ok1 this] show ?thesis by (rule fin)
  next
    case (Inr response)
    define d where "d = reviewResponseDisposition (rs_status response)"
    define ch where "ch = (if d = DSynced then attempt_changes rec Synced [] []
      else attempt_changes rec (if d = DFailed then Failed else Pending) (er_code (responseError response)) (er_message (responseError response)))"
    show ?thesis
    proof (cases "d = DRefreshSession")
      case True
      with Inr assms(2) have "s' = refreshSummary b (le_summary e) ?s1" by (auto simp: send_live_def Let_def d_def)
      from answered_runs [OF ok1 this] show ?thesis by (rule fin)
    next
      case False
      obtain x s2 where up: "update_review (le_update e) (le_update_now e) (operationKey rec) ch ?s1 = (x, s2)" by (meson surj_pair)
      have u: "runs_to ?s1 s2 \<and> rt_log s2 = rt_log ?s1"
      proof (cases "d = DSynced")
        case True
        then have "accepted (rt_log ?s1) rec" using q Inr l1 by (auto simp: accepted_def d_def)
        with True up show ?thesis using update_synced_runs [OF ok1 _ k1] by (simp add: ch_def)
      next
        case False
        with up show ?thesis using update_open_runs [OF ok1] by (simp add: ch_def)
      qed
      note ok2 = runs_to_ok [OF conjunct1 [OF u]]
      have "runs_to s2 s' \<and> rt_log s' = rt_log s2"
      proof (cases x)
        case (Some y)
        with Inr assms(2) up False have "live_failed b e rec (store_error y) s2 = (res, s')"
          by (cases d) (simp_all add: send_live_def Let_def d_def ch_def)
        from live_failed_runs [OF ok2 this] show ?thesis .
      next
        case None
        with Inr assms(2) up False have "s' = refreshSummary b (le_summary e) s2 \<or> queued b e rec retry_message s2 = (res, s')"
          by (cases d) (simp_all add: send_live_def Let_def d_def ch_def)
        then show ?thesis using answered_runs [OF ok2] queued_runs [OF ok2] by blast
      qed
      with u have "runs_to ?s1 s' \<and> rt_log s' = rt_log ?s1" by (auto intro: runs_to_trans)
      then show ?thesis by (rule fin)
    qed
  qed
qed


text \<open>Queueing a valid review stores it, or finds it stored, as what is returned.\<close>

lemma enqueue_stores:
  assumes "input_ok input" "enqueueLessonReview env cr now input st = (Inr rec, st')" "store_ok st"
  shows "record_at st' (operationKey rec) = Some rec" "kept st' rec"
proof -
  show r: "record_at st' (operationKey rec) = Some rec"
    using assms(2)
  proof (cases rule: enqueue_cases)
    case existing
    with store_key [OF assms(3) existing(1)] show ?thesis by (simp add: record_at_def)
  next
    case (stored uuid)
    have "operationKey (new_record input uuid now) = input_key input" by (simp add: new_record_def)
    with stored new_record_ok [OF assms(1)] show ?thesis by (auto simp: record_at_put)
  qed simp
  then show "kept st' rec" by (simp add: kept_def)
qed

lemma enqueue_ok:
  assumes "input_ok input" "enqueueLessonReview env cr now input st = (res, st')" "synced_ok st sent"
  shows "synced_ok st' sent"
proof -
  have st: "store_ok st" using assms(3) by (simp add: synced_ok_def)
  have "confirmed sent r" if "record_at st' k = Some r" "rv_status r = Synced" for k r
    using assms(2)
  proof (cases rule: enqueue_cases)
    case (stored uuid)
    have "rv_status (new_record input uuid now) = Pending" by (simp add: new_record_def)
    with stored that new_record_ok [OF assms(1)] assms(3) show ?thesis
      by (auto simp: record_at_put synced_ok_def split: if_splits)
  qed (use that assms(3) in \<open>auto simp: synced_ok_def\<close>)
  with store_ok_ops(1) [OF st assms(2)] show ?thesis by (simp add: synced_ok_def)
qed

text \<open>A review request: it is in the store before it is sent, or it is not sent.\<close>

lemma review_post_runs:
  assumes "runtime_ok s" "review_post b e request endpoint activeSession payload s = (res, s')"
    and "endpoint_ok endpoint" "payload_of_request request = Some payload"
  shows "runtime_ok s' \<and> (rt_log s' = rt_log s
    \<or> (le_online_stored e \<and> (\<exists>rec st. rt_log s' = rt_log s @ [(rec, requestWithIdempotency request (idempotencyKey rec), le_answer e)]
        \<and> requestBody rec = json_stringify (payload_json payload)
        \<and> enqueueLessonReview (le_enqueue e) (le_crypto e) (le_enqueue_now e)
            \<lparr>in_userId = us_id (ss_user activeSession), in_endpoint = rq_url request, in_reviewEndpoint = endpoint,
             in_payload = payload, in_requestBody = json_stringify (payload_json payload)\<rparr> (rt_store s) = (Inr rec, st)
        \<and> record_at st (operationKey rec) = Some rec)))"
proof -
  let ?in = "\<lparr>in_userId = us_id (ss_user activeSession), in_endpoint = rq_url request, in_reviewEndpoint = endpoint,
     in_payload = payload, in_requestBody = json_stringify (payload_json payload)\<rparr>"
  obtain r st where en: "enqueueLessonReview (le_enqueue e) (le_crypto e) (le_enqueue_now e) ?in (rt_store s) = (r, st)"
    by (meson surj_pair)
  have st_ok: "store_ok (rt_store s)" using assms(1) by (simp add: runtime_ok_def synced_ok_def)
  have "payload_valid payload"
    using assms(4) by (auto simp: payload_of_request_def bind_eq_Some_conv payload_parse_valid split: sum.splits)
  then have inp: "input_ok ?in" using assms(3) by (simp add: input_ok_def)
  have so: "synced_ok st (rt_log s)" using enqueue_ok [OF inp en] assms(1) by (simp add: runtime_ok_def)
  let ?s1 = "s\<lparr>rt_recoverySynced := False, rt_connectionRestored := False, rt_store := st\<rparr>"
  have ok1: "runtime_ok ?s1" using so by (simp add: runtime_ok_def)
  show ?thesis
  proof (cases r)
    case (Inl x)
    with assms(2) en have "s' = ?s1" by (simp add: review_post_def Let_def)
    with ok1 show ?thesis by simp
  next
    case (Inr rec)
    let ?s2 = "refreshSummary b (le_stored_summary e) ?s1"
    note r2 = refresh_runs [OF ok1, of b "le_stored_summary e"]
    note ok2 = runs_to_ok [OF conjunct1 [OF r2]]
    have kept2: "kept (rt_store ?s2) rec" using r2 enqueue_stores(2) [OF inp en [unfolded Inr] st_ok] by (simp add: runs_to_def)
    show ?thesis
    proof (cases "requestBody rec = json_stringify (payload_json payload) \<and> le_online_stored e")
      case True
      with assms(2) en Inr have "send_live b e request rec ?s2 = (res, s')" by (simp add: review_post_def Let_def)
      from send_live_runs [OF ok2 this kept2 assms(4)] True
      have "runs_to ?s2 s'" "rt_log s' = rt_log s @ [(rec, requestWithIdempotency request (idempotencyKey rec), le_answer e)]"
        using r2 by simp_all
      with True en Inr enqueue_stores(1) [OF inp en [unfolded Inr] st_ok] show ?thesis by (auto dest: runs_to_ok)
    next
      case False
      with assms(2) en Inr have "s' = ?s2 \<or> s' = exposeQueuedReview rec offline_message ?s2"
        by (auto simp: review_post_def Let_def split: if_splits)
      with ok2 r2 show ?thesis by (auto simp: exposeQueuedReview_def runtime_ok_def)
    qed
  qed
qed

lemma interceptedFetch_cases:
  assumes "interceptedFetch b e request s = (res, s')"
  obtains (other) "rt_store s' = rt_store s" "rt_log s' = rt_log s"
    | (review) activeSession endpoint payload where
        "rt_session s = Some activeSession" "endpoint_ok endpoint" "payload_of_request request = Some payload"
        "review_post b e request endpoint activeSession payload (use_token (authorizationToken request) activeSession s) = (res, s')"
proof -
  have auth: "rt_store s1 = rt_store s \<and> rt_log s1 = rt_log s" if "auth_fetch b action answer s = (r, s1)" for action answer r s1
    using that by (auto simp: auth_fetch_def clear_session_def adopt_session_def
        split: sum.splits if_splits AuthSessionAction.splits option.splits)
  have tok: "rt_store (use_token t a s) = rt_store s" "rt_log (use_token t a s) = rt_log s" for t a
    by (simp_all add: use_token_def)
  show thesis
  proof (cases "\<exists>endpoint activeSession payload. parseLessonReviewEndpoint (\<lambda>v. Some (rq_pathname request)) (rq_url request) = Some endpoint
      \<and> rt_session s = Some activeSession \<and> payload_of_request request = Some payload \<and> authSessionAction request = None
      \<and> (le_online_start e \<or> \<not> isNetworkLessonStart request) \<and> is_post request")
    case True
    then obtain endpoint activeSession payload
      where p: "parseLessonReviewEndpoint (\<lambda>v. Some (rq_pathname request)) (rq_url request) = Some endpoint"
      "rt_session s = Some activeSession" "payload_of_request request = Some payload" "authSessionAction request = None"
      "le_online_start e \<or> \<not> isNetworkLessonStart request" "is_post request" by blast
    with assms show thesis
      by (intro review [OF p(2) endpoint_parse_ok [OF p(1)] p(3)]) (auto simp: interceptedFetch_def Let_def)
  next
    case False
    with assms auth tok show thesis
      by (intro other) (auto simp: interceptedFetch_def Let_def split: option.splits if_splits)
  qed
qed

lemma use_token_ok: "runtime_ok s \<Longrightarrow> runtime_ok (use_token t a s)"
  by (simp add: use_token_def runtime_ok_def)

lemma fetch_ok:
  assumes "runtime_ok s" "interceptedFetch b e request s = (res, s')"
  shows "runtime_ok s'"
  using assms(2)
proof (cases rule: interceptedFetch_cases)
  case other
  with assms(1) show ?thesis by (simp add: runtime_ok_def)
next
  case (review activeSession endpoint payload)
  from review_post_runs [OF use_token_ok [OF assms(1)] review(4) review(2,3)] show ?thesis by blast
qed

lemma runtime_step_ok:
  assumes "runtime_step b s s'" "runtime_ok s"
  shows "runtime_ok s'"
  using assms
proof (cases rule: runtime_step.cases)
  case (step_sync e)
  then show ?thesis using runs_to_ok [OF syncPendingReviews_runs [OF assms(2)]] by simp
next
  case (step_fetch le request res)
  then show ?thesis using fetch_ok [OF assms(2)] by simp
next
  case (step_summary se)
  then show ?thesis using refresh_runs [OF assms(2)] runs_to_ok by blast
next
  case (step_online e)
  show ?thesis unfolding step_online handleOnline_def
    by (rule runs_to_ok, rule syncPendingReviews_runs) (use assms(2) in \<open>simp add: runtime_ok_def\<close>)
next
  case (step_offline se)
  have "runtime_ok (s\<lparr>rt_online := False, rt_recoverySynced := False, rt_connectionRestored := False, rt_connectionMessage := m\<rparr>)" for m
    using assms(2) by (simp add: runtime_ok_def)
  then show ?thesis unfolding step_offline handleOffline_def using refresh_runs runs_to_ok by blast
next
  case (step_visibility e visible)
  have "runtime_ok (s\<lparr>rt_online := pe_online e\<rparr>)" using assms(2) by (simp add: runtime_ok_def)
  then show ?thesis unfolding step_visibility handleVisibility_def
    using assms(2) runs_to_ok [OF syncPendingReviews_runs] by simp
next
  case (step_verify e)
  have "runtime_ok (s\<lparr>rt_online := True, rt_connectionRestored := True, rt_connectionMessage := m\<rparr>)"
    "runtime_ok (s\<lparr>rt_online := False, rt_connectionMessage := m\<rparr>)" for m
    using assms(2) by (simp_all add: runtime_ok_def)
  then show ?thesis unfolding step_verify verifyConnection_def using runs_to_ok [OF syncPendingReviews_runs] by simp
next
  case step_dismiss
  then show ?thesis using assms(2) by (simp add: dismissRecoveredStatus_def runtime_ok_def)
next
  case (step_details opened)
  then show ?thesis using assms(2) by (simp add: runtime_ok_def)
qed


text \<open>The states the component can be in when it starts on a queue in which nothing is synced yet.\<close>

definition from_clean_queue :: "browser \<Rightarrow> runtime \<Rightarrow> bool" where
  "from_clean_queue b s \<longleftrightarrow>
     (\<exists>online session st. store_ok st \<and> (\<forall>k r. record_at st k = Some r \<longrightarrow> rv_status r \<noteq> Synced)
        \<and> (runtime_step b)\<^sup>*\<^sup>* (runtime_initial online session st) s)"

lemma clean_queue_ok:
  assumes "from_clean_queue b s"
  shows "runtime_ok s"
proof -
  from assms obtain online session st where st: "store_ok st" "\<forall>k r. record_at st k = Some r \<longrightarrow> rv_status r \<noteq> Synced"
    and run: "(runtime_step b)\<^sup>*\<^sup>* (runtime_initial online session st) s" by (auto simp: from_clean_queue_def)
  from run show ?thesis
  proof (induction rule: rtranclp_induct)
    case base
    show ?case using st by (simp add: runtime_ok_def synced_ok_def runtime_initial_def)
  qed (rule runtime_step_ok)
qed

lemma disposition_synced: "reviewResponseDisposition status = DSynced \<longleftrightarrow> status \<ge> 200 \<and> status < 300"
  by (auto simp: reviewResponseDisposition_def)


text \<open>C32: a pass sends the pending reviews in the order of the queue and never sends one before every earlier one was
  accepted: what it sent belongs to the first n + 1 reviews, and the first n were all answered with success.\<close>

theorem queue_sent_in_order:
  assumes "from_clean_queue b s" "sync_pass b e session s = (n, s')"
    and "listLessonReviews (br_compare b) (pe_list e) (us_id (ss_user session)) (rt_store s) = (Inr all, st)"
  shows "let queue = filter (\<lambda>r. rv_status r = Pending) all in
    n \<le> length queue
    \<and> (\<exists>new. rt_log s' = rt_log s @ new \<and> fst ` set new \<subseteq> set (take (Suc n) queue)
         \<and> (\<forall>rec\<in>set (take n queue). \<exists>q resp. (rec, q, Inr resp) \<in> set new \<and> request_for rec q
              \<and> rs_status resp \<ge> 200 \<and> rs_status resp < 300))"
  using sync_pass_runs [OF assms(2) clean_queue_ok [OF assms(1)]] assms(3)
  unfolding accepted_def disposition_synced by blast


section \<open>Examples\<close>

definition plain_browser :: browser where
  "plain_browser = \<lparr>br_parse_date = (\<lambda>d. 0), br_compare = by_key id, br_dom_message = u ''aborted''\<rparr>"

definition sample_user :: Session where
  "sample_user = \<lparr>ss_user = \<lparr>us_id = u ''user-1'', us_email = u ''a@b.c'', us_displayName = u ''A'', us_createdAt = u ''2026''\<rparr>,
     ss_tokens = \<lparr>accessToken = u ''t'', tokenType = u ''Bearer'', expiresIn = 900\<rparr>\<rparr>"

definition accepting :: SyncResponse where
  "accepting = \<lparr>rs_status = 200, rs_headers = [], rs_body = Some [], rs_statusText = []\<rparr>"

definition calm_summary :: summary_env where
  "calm_summary = \<lparr>se_prune = calm_env, se_now = 0, se_list = calm_env\<rparr>"

definition calm_attempt :: attempt_env where
  "calm_attempt = \<lparr>ae_cookie = [], ae_send = Inr accepting, ae_refresh = Inl OtherThrown, ae_resend = Inl OtherThrown,
     ae_update = calm_env, ae_now = u ''t2''\<rparr>"

definition calm_pass :: pass_env where
  "calm_pass = \<lparr>pe_online = True, pe_fetch = True, pe_list = calm_env, pe_attempt = (\<lambda>i. calm_attempt),
     pe_empty_summary = calm_summary, pe_summary = calm_summary\<rparr>"

definition sample_start :: runtime where
  "sample_start = runtime_initial True (Some sample_user) sample_store"

lemma sample_not_synced: "record_at sample_store k = Some r \<Longrightarrow> rv_status r \<noteq> Synced"
  by (auto simp: sample_store_row record_at_def idb_get_def Let_def new_record_def isReviewOutboxRecord_def split: if_splits)

lemma sample_start_clean: "from_clean_queue b sample_start"
  unfolding from_clean_queue_def sample_start_def using sample_store_ok sample_not_synced by blast


definition sample_review :: ReviewOutboxRecord where
  "sample_review = new_record sample_input (u ''k1'') (u ''t1'')"

lemma sample_list: "listLessonReviews (by_key id) calm_env (u ''user-1'') sample_store = (Inr [sample_review], sample_store)"
  by (simp add: list_sample sample_review_def)

text \<open>The environment of the examples keeps every row: nothing is old enough to be pruned.\<close>

lemma calm_refresh_store: "rt_store (refreshSummary plain_browser calm_summary s) = rt_store s"
proof -
  have "prunable (\<lambda>d. 0) 0 row = False" for row by (simp add: prunable_def SYNCED_RETENTION_MS_def)
  then have "pruneSyncedLessonReviews (\<lambda>d. 0) calm_env 0 st = (Inr 0, st)" for st
    by (simp add: pruneSyncedLessonReviews_def calm_transaction Let_def)
  then show ?thesis
    by (auto simp: refreshSummary_def plain_browser_def calm_summary_def Let_def dest: summary_store
        split: sum.splits prod.splits)
qed

lemma sample_update:
  "\<exists>st r. updateLessonReview calm_env now (operationKey sample_review) (attempt_changes sample_review Synced [] []) sample_store = (Inr (Some r), st)
     \<and> record_at st (operationKey sample_review) = Some r \<and> rv_status r = Synced"
proof -
  let ?k = "operationKey sample_review"
  let ?ch = "attempt_changes sample_review Synced [] []"
  have k: "?k = input_key sample_input" by (simp add: sample_review_def new_record_def)
  have row: "isReviewOutboxRecord (idb_get sample_store ?k)"
    using sample_record by (auto simp: record_at_def Let_def k split: if_splits)
  obtain res st where u: "updateLessonReview calm_env now ?k ?ch sample_store = (res, st)" by (meson surj_pair)
  have "res \<noteq> Inl e" for e using u row by (auto simp: updateLessonReview_def calm_transaction Let_def)
  with u obtain "res = Inr (Some (record_of (updated_row now ?ch (idb_get sample_store ?k))))"
      "st = idb_put sample_store ?k (updated_row now ?ch (idb_get sample_store ?k))"
    by (cases rule: update_cases) (use row store_key [OF sample_store_ok row] in auto)
  moreover have "isReviewOutboxRecord (updated_row now ?ch (idb_get sample_store ?k))"
    by (rule updated_row_ok [OF row])
       (simp add: changes_ok_def attempt_changes_def sample_review_def new_record_def isSafeInteger_def)
  ultimately show ?thesis using u by (simp add: record_at_put updated_status)
qed

lemma sample_pass:
  "\<exists>s' r. sync_pass plain_browser calm_pass sample_user (sample_start\<lparr>rt_syncInFlight := f\<rparr>) = (1, s')
     \<and> record_at (rt_store s') (operationKey sample_review) = Some r \<and> rv_status r = Synced"
proof -
  obtain st r where u: "updateLessonReview calm_env (u ''t2'') (operationKey sample_review) (attempt_changes sample_review Synced [] []) sample_store
      = (Inr (Some r), st)" "record_at st (operationKey sample_review) = Some r" "rv_status r = Synced"
    using sample_update by blast
  have pend: "rv_status sample_review = Pending" by (simp add: sample_review_def new_record_def)
  have ok: "reviewResponseDisposition (Fin 200) = DSynced" by (simp add: disposition_synced)
  have "\<exists>s'. sync_pass plain_browser calm_pass sample_user (sample_start\<lparr>rt_syncInFlight := f\<rparr>) = (1, s') \<and> rt_store s' = st"
    using u(1) sample_list ok
    by (simp add: sync_pass_def sample_start_def runtime_initial_def plain_browser_def calm_pass_def sample_user_def pend
        with_env_def send_record_def calm_attempt_def accepting_def logged_def update_review_def Let_def)
  with u(2,3) show ?thesis by blast
qed


lemma queue_sent_in_order_witness:
  "\<exists>(s' :: runtime) q resp. (sample_review, q, Inr resp) \<in> set (rt_log s') \<and> request_for sample_review q \<and> rs_status resp \<ge> 200"
proof -
  obtain s1 where p: "sync_pass plain_browser calm_pass sample_user (sample_start\<lparr>rt_syncInFlight := False\<rparr>) = (1, s1)"
    using sample_pass by blast
  have "sample_start\<lparr>rt_syncInFlight := False\<rparr> = sample_start" by (simp add: sample_start_def runtime_initial_def)
  with p have p: "sync_pass plain_browser calm_pass sample_user sample_start = (1, s1)" by simp
  have l: "listLessonReviews (br_compare plain_browser) (pe_list calm_pass) (us_id (ss_user sample_user)) (rt_store sample_start)
      = (Inr [sample_review], sample_store)"
    using sample_list by (simp add: plain_browser_def calm_pass_def sample_user_def sample_start_def runtime_initial_def)
  have "rv_status sample_review = Pending" by (simp add: sample_review_def new_record_def)
  with queue_sent_in_order [OF sample_start_clean p l] have "\<exists>q resp. (sample_review, q, Inr resp) \<in> set (rt_log s1)
      \<and> request_for sample_review q \<and> rs_status resp \<ge> 200" by (auto simp: Let_def) blast
  then show ?thesis by blast
qed

definition online_env :: live_env where
  "online_env = \<lparr>le_online_start = True, le_online_stored = True, le_online_catch = True, le_answer = Inr accepting,
     le_crypto = RandomUUID (u ''k1''), le_enqueue = calm_env, le_enqueue_now = u ''t1'', le_stored_summary = calm_summary,
     le_update = calm_env, le_update_now = u ''t2'', le_catch = calm_env, le_catch_now = u ''t2'', le_summary = calm_summary\<rparr>"

definition sample_request :: SyncRequest where
  "sample_request = \<lparr>rq_url = u ''https://x/api/v1/lessons/0123456789abcdef-0123456789abcdef-01/words/7/review'',
     rq_pathname = u ''/api/v1/lessons/0123456789abcdef-0123456789abcdef-01/words/7/review'',
     rq_method = u ''POST'', rq_headers = [], rq_text = Inr (json_stringify (payload_json (in_payload sample_input)))\<rparr>"


end
