(* ===== verification/Session_Bootstrap.thy ===== *)
theory Session_Bootstrap
  imports Auth_Session
begin

text \<open>
  \<open>src/frontend/lib/session-bootstrap.ts\<close>: the session cache of one browser document.  Restores
  are asynchronous: each starts with the generation it saw and settles later, while the session
  may have been adopted or invalidated and the cookie changed.
\<close>

text \<open>\<open>activeRestore\<close> is the number of the promise of the running restore.\<close>

record SessionBootstrapState =
  cachedSession :: "Session option"
  cachedCSRFToken :: jstr
  activeRestore :: "nat option"
  generation :: nat

definition bootstrap_initial :: SessionBootstrapState where
  "bootstrap_initial = \<lparr>cachedSession = None, cachedCSRFToken = [], activeRestore = None, generation = 0\<rparr>"

definition clearCachedSession :: "SessionBootstrapState \<Rightarrow> SessionBootstrapState" where
  "clearCachedSession s = s\<lparr>cachedSession := None, cachedCSRFToken := []\<rparr>"

text \<open>\<open>csrf\<close> is the token in the cookie at that time.\<close>

definition cacheSession :: "jstr \<Rightarrow> Session \<Rightarrow> SessionBootstrapState \<Rightarrow> SessionBootstrapState" where
  "cacheSession csrf session s = s\<lparr>cachedSession := Some session, cachedCSRFToken := csrf\<rparr>"

text \<open>A call answers at once, joins the running restore, or starts one of its own.\<close>

datatype restore_reply = Resolved "Session option" | Joined nat | Started nat

definition restoreBootstrappedSession :: "jstr \<Rightarrow> nat \<Rightarrow> SessionBootstrapState \<Rightarrow> restore_reply \<times> SessionBootstrapState" where
  "restoreBootstrappedSession csrf promise s =
     (if csrf = [] then (Resolved None, if cachedSession s \<noteq> None then clearCachedSession s else s)
      else if cachedSession s \<noteq> None \<and> cachedCSRFToken s = csrf then (Resolved (cachedSession s), s)
      else
        let s = (if cachedSession s \<noteq> None then clearCachedSession s else s) in
        (case activeRestore s of
           Some p \<Rightarrow> (Joined p, s)
         | None \<Rightarrow> (Started (generation s), s\<lparr>activeRestore := Some promise\<rparr>)))"

text \<open>The restore that started at \<open>restoreGeneration\<close> ends; \<open>None\<close> is a rejection.\<close>

definition restore_settled ::
  "jstr \<Rightarrow> nat \<Rightarrow> nat \<Rightarrow> Session option option \<Rightarrow> SessionBootstrapState \<Rightarrow> SessionBootstrapState" where
  "restore_settled csrf promise restoreGeneration outcome s =
     (let s = (case outcome of
            Some (Some session) \<Rightarrow> if generation s = restoreGeneration then cacheSession csrf session s else s
          | _ \<Rightarrow> s) in
      if activeRestore s = Some promise then s\<lparr>activeRestore := None\<rparr> else s)"

definition adoptBootstrappedSession :: "jstr \<Rightarrow> Session \<Rightarrow> SessionBootstrapState \<Rightarrow> SessionBootstrapState" where
  "adoptBootstrappedSession csrf session s =
     cacheSession csrf session (s\<lparr>generation := generation s + 1, activeRestore := None\<rparr>)"

definition invalidateBootstrappedSession :: "SessionBootstrapState \<Rightarrow> SessionBootstrapState" where
  "invalidateBootstrappedSession s = clearCachedSession (s\<lparr>generation := generation s + 1, activeRestore := None\<rparr>)"

section \<open>The document\<close>

text \<open>
  The state with the cookie, the restores in flight (promise and generation) and the sessions
  that may legitimately be in the cache: those put there since the last adoption or invalidation.
\<close>

record document =
  doc_state :: SessionBootstrapState
  doc_csrf :: jstr
  doc_flights :: "(nat \<times> nat) list"
  doc_next :: nat
  doc_fresh :: "Session set"

inductive doc_step :: "document \<Rightarrow> document \<Rightarrow> bool" where
  step_restore: "restoreBootstrappedSession (doc_csrf d) (doc_next d) (doc_state d) = (r, s') \<Longrightarrow>
     doc_step d (d\<lparr>doc_state := s', doc_next := doc_next d + 1,
       doc_flights := (case r of Started g \<Rightarrow> (doc_next d, g) # doc_flights d | _ \<Rightarrow> doc_flights d)\<rparr>)"
| step_settle: "(p, g) \<in> set (doc_flights d) \<Longrightarrow>
     doc_step d (d\<lparr>doc_state := restore_settled (doc_csrf d) p g outcome (doc_state d),
       doc_flights := remove1 (p, g) (doc_flights d),
       doc_fresh := (case outcome of Some (Some s) \<Rightarrow> if g = generation (doc_state d) then insert s (doc_fresh d) else doc_fresh d
                     | _ \<Rightarrow> doc_fresh d)\<rparr>)"
| step_adopt: "doc_step d (d\<lparr>doc_state := adoptBootstrappedSession (doc_csrf d) session (doc_state d), doc_fresh := {session}\<rparr>)"
| step_invalidate: "doc_step d (d\<lparr>doc_state := invalidateBootstrappedSession (doc_state d), doc_fresh := {}\<rparr>)"
| step_cookie: "doc_step d (d\<lparr>doc_csrf := token\<rparr>)"

definition doc_initial :: document where
  "doc_initial = \<lparr>doc_state = bootstrap_initial, doc_csrf = [], doc_flights = [], doc_next = 0, doc_fresh = {}\<rparr>"

text \<open>A restore of the current generation is in flight exactly when it is the active one.\<close>

definition flights_ok :: "nat option \<Rightarrow> nat \<Rightarrow> nat \<Rightarrow> (nat \<times> nat) list \<Rightarrow> bool" where
  "flights_ok active gen next_promise fl \<longleftrightarrow>
     (\<forall>p g. (p, g) \<in> set fl \<longrightarrow> g \<le> gen \<and> p < next_promise)
     \<and> distinct (map fst fl)
     \<and> (\<forall>p. (p, gen) \<in> set fl \<longleftrightarrow> active = Some p)"

definition doc_ok :: "document \<Rightarrow> bool" where
  "doc_ok d \<longleftrightarrow>
     flights_ok (activeRestore (doc_state d)) (generation (doc_state d)) (doc_next d) (doc_flights d)
     \<and> (\<forall>s. cachedSession (doc_state d) = Some s \<longrightarrow> s \<in> doc_fresh d)"

lemma flights_start: "flights_ok None gen n fl \<Longrightarrow> flights_ok (Some n) gen (Suc n) ((n, gen) # fl)"
  by (fastforce simp: flights_ok_def less_Suc_eq)

lemma flights_later: "flights_ok active gen n fl \<Longrightarrow> flights_ok active gen (Suc n) fl"
  by (fastforce simp: flights_ok_def)

lemma flights_bump: "flights_ok active gen n fl \<Longrightarrow> flights_ok None (Suc gen) n fl"
  by (fastforce simp: flights_ok_def)

lemma flights_settle:
  assumes "flights_ok active gen n fl" "(p, g) \<in> set fl"
  shows "flights_ok (if active = Some p then None else active) gen n (remove1 (p, g) fl)"
proof -
  have d: "distinct (map fst fl)" and act: "\<And>q. (q, gen) \<in> set fl \<longleftrightarrow> active = Some q"
    using assms(1) by (auto simp: flights_ok_def)
  have dfl: "distinct fl" using d by (simp add: distinct_map)
  have s: "set (remove1 (p, g) fl) = set fl - {(p, g)}" using dfl by simp
  have uniq: "h = g" if "(p, h) \<in> set fl" for h using that assms(2) d by (meson eq_key_imp_eq_value)
  have "distinct (map fst (remove1 (p, g) fl))"
    using d by (auto simp: distinct_map distinct_remove1 dfl intro: inj_on_subset)
  moreover have "(q, gen) \<in> set fl - {(p, g)} \<longleftrightarrow> (if active = Some p then None else active) = Some q" for q
    using act [of q] act [of p] uniq [of gen] by auto
  ultimately show ?thesis using assms(1) by (auto simp: flights_ok_def s)
qed

lemmas bootstrap_ops = restore_settled_def cacheSession_def clearCachedSession_def adoptBootstrappedSession_def
  invalidateBootstrappedSession_def Let_def

lemma restore_cases:
  assumes "restoreBootstrappedSession csrf p s = (r, s')"
  shows "generation s' = generation s \<and> (cachedSession s' = None \<or> cachedSession s' = cachedSession s)
    \<and> (case r of Started g \<Rightarrow> g = generation s \<and> activeRestore s = None \<and> activeRestore s' = Some p
        | _ \<Rightarrow> activeRestore s' = activeRestore s)"
  using assms
  by (auto simp: restoreBootstrappedSession_def clearCachedSession_def Let_def split: if_splits option.splits)

lemma doc_step_ok:
  assumes "doc_step d d'" "doc_ok d"
  shows "doc_ok d'"
proof -
  have fl: "flights_ok (activeRestore (doc_state d)) (generation (doc_state d)) (doc_next d) (doc_flights d)"
    and fresh: "\<And>s. cachedSession (doc_state d) = Some s \<Longrightarrow> s \<in> doc_fresh d"
    using assms(2) by (simp_all add: doc_ok_def)
  from assms(1) show ?thesis
  proof (cases rule: doc_step.cases)
    case (step_restore r s')
    note c = restore_cases [OF step_restore(2)]
    have "flights_ok (activeRestore s') (generation s') (doc_next d + 1)
        (case r of Started g \<Rightarrow> (doc_next d, g) # doc_flights d | _ \<Rightarrow> doc_flights d)"
      using c fl by (cases r) (auto intro: flights_start flights_later)
    moreover have "s \<in> doc_fresh d" if "cachedSession s' = Some s" for s
      using that c fresh by auto
    ultimately show ?thesis by (simp add: doc_ok_def step_restore(1))
  next
    case (step_settle p g outcome)
    note f = flights_settle [OF fl step_settle(2)]
    let ?s' = "restore_settled (doc_csrf d) p g outcome (doc_state d)"
    have a: "activeRestore ?s' = (if activeRestore (doc_state d) = Some p then None else activeRestore (doc_state d))"
      "generation ?s' = generation (doc_state d)"
      by (auto simp: bootstrap_ops split: option.split)
    have "s \<in> (case outcome of Some (Some s) \<Rightarrow> if g = generation (doc_state d) then insert s (doc_fresh d) else doc_fresh d
        | _ \<Rightarrow> doc_fresh d)" if "cachedSession ?s' = Some s" for s
      using that fresh by (auto simp: bootstrap_ops split: option.splits if_splits)
    with f show ?thesis by (simp add: doc_ok_def step_settle(1) a)
  next
    case (step_adopt session)
    with flights_bump [OF fl] show ?thesis by (simp add: doc_ok_def bootstrap_ops)
  next
    case step_invalidate
    with flights_bump [OF fl] show ?thesis by (simp add: doc_ok_def bootstrap_ops)
  next
    case (step_cookie token)
    with assms(2) show ?thesis by (simp add: doc_ok_def)
  qed
qed

lemma doc_reachable_ok: "doc_step\<^sup>*\<^sup>* doc_initial d \<Longrightarrow> doc_ok d"
proof (induction rule: rtranclp_induct)
  case base
  show ?case by (simp add: doc_ok_def doc_initial_def bootstrap_initial_def flights_ok_def)
qed (rule doc_step_ok)

text \<open>C24: in every history of restores, adoptions, invalidations and cookie changes, the cached session is one that was
  restored or adopted since the last adoption or invalidation: a restore begun before does not bring a session
  back.  At most one restore of the current generation is in flight, and it is the one later calls join.\<close>

theorem cached_session_is_current:
  assumes "doc_step\<^sup>*\<^sup>* doc_initial d"
  shows "(\<forall>s. cachedSession (doc_state d) = Some s \<longrightarrow> s \<in> doc_fresh d)
    \<and> (\<forall>p. (p, generation (doc_state d)) \<in> set (doc_flights d) \<longleftrightarrow> activeRestore (doc_state d) = Some p)
    \<and> (\<forall>p r s'. restoreBootstrappedSession (doc_csrf d) (doc_next d) (doc_state d) = (Joined p, s') \<longrightarrow>
         (p, generation (doc_state d)) \<in> set (doc_flights d))
    \<and> (\<forall>s s'. restoreBootstrappedSession (doc_csrf d) (doc_next d) (doc_state d) = (Resolved (Some s), s') \<longrightarrow>
         s \<in> doc_fresh d \<and> cachedCSRFToken (doc_state d) = doc_csrf d \<and> doc_csrf d \<noteq> [])"
proof -
  have ok: "flights_ok (activeRestore (doc_state d)) (generation (doc_state d)) (doc_next d) (doc_flights d)"
    and fresh: "\<forall>s. cachedSession (doc_state d) = Some s \<longrightarrow> s \<in> doc_fresh d"
    using doc_reachable_ok [OF assms] by (simp_all add: doc_ok_def)
  have act: "(p, generation (doc_state d)) \<in> set (doc_flights d) \<longleftrightarrow> activeRestore (doc_state d) = Some p" for p
    using ok by (simp add: flights_ok_def)
  have joined: "activeRestore (doc_state d) = Some p"
    if "restoreBootstrappedSession (doc_csrf d) (doc_next d) (doc_state d) = (Joined p, s')" for p s'
    using that by (auto simp: restoreBootstrappedSession_def clearCachedSession_def Let_def split: if_splits option.splits)
  have resolved: "cachedSession (doc_state d) = Some s \<and> cachedCSRFToken (doc_state d) = doc_csrf d \<and> doc_csrf d \<noteq> []"
    if "restoreBootstrappedSession (doc_csrf d) (doc_next d) (doc_state d) = (Resolved (Some s), s')" for s s'
    using that by (auto simp: restoreBootstrappedSession_def Let_def split: if_splits option.splits)
  show ?thesis using fresh act joined resolved by blast
qed

definition sample_session :: Session where
  "sample_session = \<lparr>ss_user = \<lparr>us_id = u ''u1'', us_email = u ''a@b.c'', us_displayName = u ''A'', us_createdAt = u ''2026''\<rparr>,
     ss_tokens = \<lparr>accessToken = u ''t'', tokenType = u ''Bearer'', expiresIn = 900\<rparr>\<rparr>"

lemma cached_session_is_current_witness:
  "\<exists>d. doc_step\<^sup>*\<^sup>* doc_initial d \<and> cachedSession (doc_state d) = Some sample_session \<and> sample_session \<in> doc_fresh d"
proof -
  let ?d = "doc_initial\<lparr>doc_state := adoptBootstrappedSession (doc_csrf doc_initial) sample_session (doc_state doc_initial),
      doc_fresh := {sample_session}\<rparr>"
  have r: "doc_step\<^sup>*\<^sup>* doc_initial ?d" by (rule r_into_rtranclp) (rule step_adopt)
  have c: "cachedSession (doc_state ?d) = Some sample_session" by (simp add: bootstrap_ops)
  from cached_session_is_current [OF r] c have "sample_session \<in> doc_fresh ?d" by simp
  with r c show ?thesis by blast
qed

end
