(* ===== verification/Feedback.thy ===== *)
theory Feedback
  imports Js_Prelude
begin

text \<open>
  \<open>src/frontend/lib/feedback.ts\<close>: the policy of each kind of feedback and the reducer that keeps
  the banners, the visible toast and the queue behind it.  The callback of an action is named by
  its label only.
\<close>

datatype FeedbackCategory = BlockingError | ErrorFeedback | SuccessFeedback | InfoFeedback
datatype FeedbackPresentation = Banner | Toast
datatype FeedbackLiveMode = Assertive | Polite
datatype FeedbackRole = Alert | StatusRole

record FeedbackInput =
  fi_category :: FeedbackCategory
  fi_title :: "jstr option"
  fi_message :: jstr
  fi_key :: "jstr option"
  fi_action :: "jstr option"

record FeedbackPolicy =
  presentation :: FeedbackPresentation
  fp_role :: FeedbackRole
  live :: FeedbackLiveMode
  dismissible :: bool
  autoDismiss :: bool

record FeedbackItem =
  fb_input :: FeedbackInput
  fb_policy :: FeedbackPolicy
  fb_id :: jstr
  durationMs :: "jnum option"

record FeedbackState =
  banners :: "FeedbackItem list"
  activeToast :: "FeedbackItem option"
  toastQueue :: "FeedbackItem list"

datatype FeedbackActionState = Publish FeedbackItem | Dismiss jstr | ClearKey jstr

definition INITIAL_FEEDBACK_STATE :: FeedbackState where
  "INITIAL_FEEDBACK_STATE = \<lparr>banners = [], activeToast = None, toastQueue = []\<rparr>"

definition MIN_TOAST_DURATION_MS :: jnum where "MIN_TOAST_DURATION_MS = 5000"
definition MAX_TOAST_DURATION_MS :: jnum where "MAX_TOAST_DURATION_MS = 12000"
definition CHARACTER_READING_TIME_MS :: jnum where "CHARACTER_READING_TIME_MS = 45"

fun feedbackPolicy :: "FeedbackCategory \<Rightarrow> FeedbackPolicy" where
  "feedbackPolicy BlockingError =
     \<lparr>presentation = Banner, fp_role = Alert, live = Assertive, dismissible = False, autoDismiss = False\<rparr>"
| "feedbackPolicy ErrorFeedback =
     \<lparr>presentation = Toast, fp_role = StatusRole, live = Polite, dismissible = True, autoDismiss = True\<rparr>"
| "feedbackPolicy SuccessFeedback =
     \<lparr>presentation = Toast, fp_role = StatusRole, live = Polite, dismissible = True, autoDismiss = True\<rparr>"
| "feedbackPolicy InfoFeedback =
     \<lparr>presentation = Toast, fp_role = StatusRole, live = Polite, dismissible = True, autoDismiss = True\<rparr>"

definition feedbackDurationMs :: "FeedbackInput \<Rightarrow> jnum option" where
  "feedbackDurationMs input =
     (if \<not> autoDismiss (feedbackPolicy (fi_category input)) then None
      else
        let textLength = length (trim ((case fi_title input of Some t \<Rightarrow> t | None \<Rightarrow> []) @ u '' '' @ fi_message input)) in
        Some (jmin MAX_TOAST_DURATION_MS
          (jmax MIN_TOAST_DURATION_MS (MIN_TOAST_DURATION_MS + jnat textLength * CHARACTER_READING_TIME_MS))))"

definition createFeedbackItem :: "jstr \<Rightarrow> FeedbackInput \<Rightarrow> FeedbackItem" where
  "createFeedbackItem i input =
     \<lparr>fb_input = input, fb_policy = feedbackPolicy (fi_category input), fb_id = i, durationMs = feedbackDurationMs input\<rparr>"

definition fb_key :: "FeedbackItem \<Rightarrow> jstr option" where "fb_key item = fi_key (fb_input item)"

definition advanceToast :: "FeedbackState \<Rightarrow> FeedbackItem option \<times> FeedbackItem list" where
  "advanceToast s = (case toastQueue s of [] \<Rightarrow> (None, []) | t # ts \<Rightarrow> (Some t, ts))"

text \<open>The first banner of the key is replaced in its place.\<close>

fun replace_banner :: "jstr \<Rightarrow> FeedbackItem \<Rightarrow> FeedbackItem list \<Rightarrow> FeedbackItem list" where
  "replace_banner k item [] = [item]"
| "replace_banner k item (b # bs) = (if fb_key b = Some k then item # bs else b # replace_banner k item bs)"

definition publishBanner :: "FeedbackState \<Rightarrow> FeedbackItem \<Rightarrow> FeedbackState" where
  "publishBanner s item =
     (case fb_key item of
        None \<Rightarrow> s\<lparr>banners := banners s @ [item]\<rparr>
      | Some k \<Rightarrow> if k = [] then s\<lparr>banners := banners s @ [item]\<rparr>
                  else s\<lparr>banners := replace_banner k item (banners s)\<rparr>)"

definition dismissToast :: "FeedbackState \<Rightarrow> jstr \<Rightarrow> FeedbackState" where
  "dismissToast s i =
     (if (case activeToast s of Some t \<Rightarrow> fb_id t = i | None \<Rightarrow> False)
      then (let (t, q) = advanceToast s in s\<lparr>activeToast := t, toastQueue := q\<rparr>)
      else s\<lparr>toastQueue := filter (\<lambda>t. fb_id t \<noteq> i) (toastQueue s)\<rparr>)"

fun feedbackReducer :: "FeedbackState \<Rightarrow> FeedbackActionState \<Rightarrow> FeedbackState" where
  "feedbackReducer s (Publish item) =
     (if presentation (fb_policy item) = Banner then publishBanner s item
      else if activeToast s = None then s\<lparr>activeToast := Some item\<rparr>
      else s\<lparr>toastQueue := toastQueue s @ [item]\<rparr>)"
| "feedbackReducer s (Dismiss i) =
     (if list_ex (\<lambda>b. fb_id b = i) (banners s) then s\<lparr>banners := filter (\<lambda>b. fb_id b \<noteq> i) (banners s)\<rparr>
      else dismissToast s i)"
| "feedbackReducer s (ClearKey k) =
     (let bs = filter (\<lambda>b. fb_key b \<noteq> Some k) (banners s);
          queued = filter (\<lambda>t. fb_key t \<noteq> Some k) (toastQueue s) in
      if \<not> (case activeToast s of Some t \<Rightarrow> fb_key t = Some k | None \<Rightarrow> False)
      then s\<lparr>banners := bs, toastQueue := queued\<rparr>
      else (case queued of [] \<Rightarrow> \<lparr>banners = bs, activeToast = None, toastQueue = []\<rparr>
                         | t # ts \<Rightarrow> \<lparr>banners = bs, activeToast = Some t, toastQueue = ts\<rparr>))"

section \<open>The abstract state\<close>

text \<open>What the learner is owed: all toasts in the order they are to be shown, and the banners.\<close>

definition toasts :: "FeedbackState \<Rightarrow> FeedbackItem list" where
  "toasts s = (case activeToast s of None \<Rightarrow> [] | Some t \<Rightarrow> [t]) @ toastQueue s"

definition all_items :: "FeedbackState \<Rightarrow> FeedbackItem list" where
  "all_items s = banners s @ toasts s"

text \<open>The keys of the banners that have one.\<close>

fun named_keys :: "FeedbackItem list \<Rightarrow> jstr list" where
  "named_keys [] = []"
| "named_keys (b # bs) =
     (case fb_key b of None \<Rightarrow> named_keys bs | Some k \<Rightarrow> if k = [] then named_keys bs else k # named_keys bs)"

definition feedback_ok :: "FeedbackState \<Rightarrow> bool" where
  "feedback_ok s \<longleftrightarrow>
     (toastQueue s \<noteq> [] \<longrightarrow> activeToast s \<noteq> None)
     \<and> distinct (map fb_id (all_items s))
     \<and> distinct (named_keys (banners s))
     \<and> (\<forall>b\<in>set (banners s). presentation (fb_policy b) = Banner)
     \<and> (\<forall>t\<in>set (toasts s). presentation (fb_policy t) = Toast)"

text \<open>Ids are not reused while their item is shown or queued.\<close>

fun fresh_action :: "FeedbackState \<Rightarrow> FeedbackActionState \<Rightarrow> bool" where
  "fresh_action s (Publish item) = (fb_id item \<notin> fb_id ` set (all_items s))"
| "fresh_action s a = True"

fun spec_toasts :: "FeedbackState \<Rightarrow> FeedbackActionState \<Rightarrow> FeedbackItem list" where
  "spec_toasts s (Publish item) = (if presentation (fb_policy item) = Banner then toasts s else toasts s @ [item])"
| "spec_toasts s (Dismiss i) = filter (\<lambda>t. fb_id t \<noteq> i) (toasts s)"
| "spec_toasts s (ClearKey k) = filter (\<lambda>t. fb_key t \<noteq> Some k) (toasts s)"

lemma replace_banner_set: "set (replace_banner k item bs) \<subseteq> insert item (set bs)"
  by (induction bs) auto

lemma replace_banner_ids:
  "distinct (map fb_id bs) \<Longrightarrow> fb_id item \<notin> fb_id ` set bs \<Longrightarrow> distinct (map fb_id (replace_banner k item bs))"
proof (induction bs)
  case (Cons b bs)
  then show ?case using replace_banner_set [of k item bs] by auto
qed simp

lemma named_keys_iff: "k \<in> set (named_keys bs) \<longleftrightarrow> k \<noteq> [] \<and> Some k \<in> fb_key ` set bs"
  by (induction bs) (auto split: option.splits)

lemma named_keys_append: "named_keys (bs @ cs) = named_keys bs @ named_keys cs"
  by (induction bs) (auto split: option.split)

lemma named_keys_filter: "distinct (named_keys bs) \<Longrightarrow> distinct (named_keys (filter P bs))"
proof (induction bs)
  case (Cons b bs)
  have sub: "x \<in> set (named_keys (filter P bs)) \<Longrightarrow> x \<in> set (named_keys bs)" for x by (auto simp: named_keys_iff)
  with Cons show ?case by (auto split: option.splits if_splits)
qed simp

lemma replace_banner_keys:
  assumes "fb_key item = Some k" "k \<noteq> []" "distinct (named_keys bs)"
  shows "distinct (named_keys (replace_banner k item bs))"
  using assms(3)
proof (induction bs)
  case Nil
  then show ?case using assms(1,2) by simp
next
  case (Cons b bs)
  show ?case
  proof (cases "fb_key b = Some k")
    case True
    with Cons.prems assms(1,2) show ?thesis by simp
  next
    case False
    have "x \<in> set (named_keys (replace_banner k item bs)) \<Longrightarrow> x = k \<or> x \<in> set (named_keys bs)" for x
      using replace_banner_set [of k item bs] assms(1) by (fastforce simp: named_keys_iff)
    with Cons False show ?thesis by (auto split: option.splits if_splits)
  qed
qed

lemma feedback_publish_ok:
  assumes "feedback_ok s" "fresh_action s (Publish item)"
  shows "feedback_ok (feedbackReducer s (Publish item)) \<and> toasts (feedbackReducer s (Publish item)) = spec_toasts s (Publish item)"
proof (cases "presentation (fb_policy item) = Banner")
  case True
  have ids: "distinct (map fb_id (replace_banner k item (banners s) @ toasts s))" for k
    using assms replace_banner_ids [of "banners s" item k] replace_banner_set [of k item "banners s"]
    by (auto simp: feedback_ok_def all_items_def)
  have t: "toasts (s\<lparr>banners := bs\<rparr>) = toasts s" for bs by (simp add: toasts_def)
  have pres: "\<forall>b\<in>set (replace_banner k item (banners s)). presentation (fb_policy b) = Banner" for k
    using replace_banner_set [of k item "banners s"] True assms(1) by (auto simp: feedback_ok_def)
  show ?thesis
  proof (cases "\<exists>k. fb_key item = Some k \<and> k \<noteq> []")
    case named: True
    then obtain k where k: "fb_key item = Some k" "k \<noteq> []" by blast
    with True replace_banner_keys [OF k] ids [of k] pres [of k] assms(1) show ?thesis
      by (simp add: publishBanner_def feedback_ok_def all_items_def t)
  next
    case False
    then have "publishBanner s item = s\<lparr>banners := banners s @ [item]\<rparr>"
      by (auto simp: publishBanner_def split: option.split)
    moreover have "named_keys [item] = []" using False by (auto split: option.split)
    ultimately show ?thesis
      using True assms by (auto simp: feedback_ok_def all_items_def t named_keys_append)
  qed
next
  case False
  then have "presentation (fb_policy item) = Toast" by (cases "presentation (fb_policy item)") auto
  with False assms show ?thesis
    by (cases "activeToast s") (auto simp: feedback_ok_def all_items_def toasts_def)
qed

lemma feedback_dismiss_ok:
  assumes "feedback_ok s"
  shows "feedback_ok (feedbackReducer s (Dismiss i)) \<and> toasts (feedbackReducer s (Dismiss i)) = spec_toasts s (Dismiss i)"
proof (cases "list_ex (\<lambda>b. fb_id b = i) (banners s)")
  case True
  then have "i \<in> fb_id ` set (banners s)" by (auto simp: list_ex_iff)
  with assms have "filter (\<lambda>t. fb_id t \<noteq> i) (toasts s) = toasts s"
    by (auto simp: feedback_ok_def all_items_def filter_id_conv)
  with True assms show ?thesis
    by (auto simp: feedback_ok_def all_items_def toasts_def distinct_map_filter named_keys_filter)
next
  case False
  show ?thesis
  proof (cases "activeToast s")
    case None
    with False assms show ?thesis by (auto simp: feedback_ok_def dismissToast_def toasts_def all_items_def)
  next
    case (Some t)
    have rest: "fb_id t \<notin> fb_id ` set (toastQueue s)" using assms Some by (auto simp: feedback_ok_def all_items_def toasts_def)
    show ?thesis
    proof (cases "fb_id t = i")
      case True
      have "fb_id x \<noteq> i" if "x \<in> set (toastQueue s)" for x using rest True that by (metis imageI)
      then have "filter (\<lambda>x. fb_id x \<noteq> i) (toastQueue s) = toastQueue s" by (simp add: filter_id_conv)
      with True False Some assms show ?thesis
        by (cases "toastQueue s") (auto simp: feedback_ok_def dismissToast_def advanceToast_def toasts_def all_items_def)
    next
      case neq: False
      with False Some assms show ?thesis
        by (auto simp: feedback_ok_def dismissToast_def toasts_def all_items_def distinct_map_filter)
    qed
  qed
qed

lemma feedback_clear_ok:
  assumes "feedback_ok s"
  shows "feedback_ok (feedbackReducer s (ClearKey k)) \<and> toasts (feedbackReducer s (ClearKey k)) = spec_toasts s (ClearKey k)"
proof -
  let ?s' = "feedbackReducer s (ClearKey k)"
  have b: "banners ?s' = filter (\<lambda>b. fb_key b \<noteq> Some k) (banners s)" by (simp add: Let_def split: option.split list.split)
  have t: "toasts ?s' = filter (\<lambda>t. fb_key t \<noteq> Some k) (toasts s)"
    by (auto simp: Let_def toasts_def split: option.splits list.splits)
  have q: "toastQueue ?s' \<noteq> [] \<longrightarrow> activeToast ?s' \<noteq> None"
    using assms by (auto simp: Let_def feedback_ok_def split: option.splits list.splits)
  have "distinct (map fb_id (filter (\<lambda>x. fb_key x \<noteq> Some k) (all_items s)))"
    using assms by (simp add: feedback_ok_def distinct_map_filter)
  then have "distinct (map fb_id (banners ?s' @ toasts ?s'))" unfolding b t by (simp add: all_items_def)
  then show ?thesis
    using assms q b t named_keys_filter [of "banners s"] by (auto simp: feedback_ok_def all_items_def)
qed

text \<open>C27: for items with ids of their own the reducer is a queue: toasts are shown one at a time in the order they were
  published and leave only when dismissed or cleared, the visible one being replaced by the next; banners with
  the same key replace one another and never become toasts.\<close>

theorem feedback_reducer_is_queue:
  assumes "feedback_ok s" "fresh_action s a"
  shows "feedback_ok (feedbackReducer s a) \<and> toasts (feedbackReducer s a) = spec_toasts s a"
  using assms feedback_publish_ok feedback_dismiss_ok feedback_clear_ok by (cases a) blast+

definition sample_toast :: "jstr \<Rightarrow> FeedbackItem" where
  "sample_toast i = createFeedbackItem i \<lparr>fi_category = InfoFeedback, fi_title = None, fi_message = u ''saved'', fi_key = None, fi_action = None\<rparr>"

lemma feedback_reducer_is_queue_witness:
  "toasts (feedbackReducer (feedbackReducer INITIAL_FEEDBACK_STATE (Publish (sample_toast (u ''a'')))) (Publish (sample_toast (u ''b''))))
     = [sample_toast (u ''a''), sample_toast (u ''b'')]"
proof -
  have i: "feedback_ok INITIAL_FEEDBACK_STATE" by (simp add: feedback_ok_def INITIAL_FEEDBACK_STATE_def all_items_def toasts_def)
  let ?s1 = "feedbackReducer INITIAL_FEEDBACK_STATE (Publish (sample_toast (u ''a'')))"
  have "feedback_ok ?s1"
    using feedback_reducer_is_queue [OF i, of "Publish (sample_toast (u ''a''))"]
    by (simp add: INITIAL_FEEDBACK_STATE_def all_items_def toasts_def)
  moreover have "fresh_action ?s1 (Publish (sample_toast (u ''b'')))"
    by (simp add: INITIAL_FEEDBACK_STATE_def sample_toast_def createFeedbackItem_def all_items_def toasts_def publishBanner_def)
  ultimately show ?thesis
    using feedback_reducer_is_queue [of ?s1 "Publish (sample_toast (u ''b''))"]
    by (simp add: INITIAL_FEEDBACK_STATE_def sample_toast_def createFeedbackItem_def toasts_def)
qed

end
