(* ===== verification/Learning.thy ===== *)
theory Learning
  imports Js_Prelude "HOL-Library.Word"
begin

text \<open>
  \<open>src/frontend/lib/learning.ts\<close>: choosing and ordering the items of a lesson, the options of a
  multiple choice, and judging a typed answer.  The Unicode tables of the browser are arguments:
  \<open>lower\<close> is \<open>toLowerCase\<close> (or \<open>toLocaleLowerCase("ru-RU")\<close>) and \<open>is_LN\<close> tells a character that
  is a letter or a number.
\<close>

section \<open>Data\<close>

datatype PartOfSpeechSection = SecNoun | SecVerb | SecAdjective | SecOther
datatype WordCollection = DailyLife | Travel | DataEngineering | Backend | AcademicTechnicalEnglish
datatype WordSection = Mixed | OfSection PartOfSpeechSection | OfCollection WordCollection
datatype LessonSize = Size nat | SizeAll
datatype LessonSelectionReason = RecentFailure | DueReason | Overdue | RelearningDue | RepeatedAgain | RepeatedAlmost
  | WeakTopic | NewItem | Scheduled | Manual
datatype ItemKind = WordItem | PhraseItem
datatype ItemSection = PartSection PartOfSpeechSection | PhraseSection

fun WORD_COLLECTION_TOPICS :: "WordCollection \<Rightarrow> jstr" where
  "WORD_COLLECTION_TOPICS DailyLife = u ''Daily Life''"
| "WORD_COLLECTION_TOPICS Travel = u ''Travel''"
| "WORD_COLLECTION_TOPICS DataEngineering = u ''Data Engineering''"
| "WORD_COLLECTION_TOPICS Backend = u ''Backend Development''"
| "WORD_COLLECTION_TOPICS AcademicTechnicalEnglish = u ''academic-technical-english''"

record LearningItem =
  it_id :: jstr
  it_wordId :: "jnum option"
  it_kind :: ItemKind
  it_slug :: "jstr option"
  it_prompt :: jstr
  it_answer :: jstr
  it_phonetic :: jstr
  it_partOfSpeech :: jstr
  it_section :: ItemSection
  it_topic :: jstr
  it_aliases :: "jstr list option"
  it_acceptedAnswers :: "jstr list option"
  it_examples :: "jstr list"
  it_note :: jstr
  it_status :: jstr
  it_selectionReason :: "LessonSelectionReason option"
  it_cloze :: "jstr option"
  it_clozeAnswer :: "jstr option"

datatype AnswerJudgementReason = AcceptedExact | AcceptedNormalized | RejectedNoAnswer | RejectedNoMatch

record AnswerJudgement =
  aj_correct :: bool
  aj_reason :: AnswerJudgementReason
  aj_matchedAnswer :: jstr

section \<open>Parts of speech and blocks\<close>

text \<open>The non-empty pieces between the characters of a class.\<close>

fun pieces :: "(nat \<Rightarrow> bool) \<Rightarrow> jstr \<Rightarrow> jstr list" where
  "pieces sep [] = [[]]"
| "pieces sep (c # s) =
     (if sep c then [] # pieces sep s
      else (case pieces sep s of [] \<Rightarrow> [[c]] | p # ps \<Rightarrow> (c # p) # ps))"

fun has_substring :: "jstr \<Rightarrow> jstr \<Rightarrow> bool" where
  "has_substring [] t = (t = [])"
| "has_substring (c # s) t = (take (length t) (c # s) = t \<or> has_substring s t)"

definition pos_separator :: "nat \<Rightarrow> bool" where
  "pos_separator c \<longleftrightarrow> js_ws c \<or> c \<in> {44, 59, 47, 40, 41, 45}"

definition normalizePartOfSpeech :: "(jstr \<Rightarrow> jstr) \<Rightarrow> jstr \<Rightarrow> PartOfSpeechSection" where
  "normalizePartOfSpeech lower value =
     (let normalized = lower (trim value);
          tokens = filter (\<lambda>t. t \<noteq> []) (pieces pos_separator normalized);
          some_token = (\<lambda>a b. list_ex (\<lambda>t. t = u a \<or> t = u b) tokens) in
      if some_token ''noun'' ''n'' \<or> has_substring normalized ([1089, 1091, 1097, 1077, 1089, 1090, 1074]) then SecNoun
      else if some_token ''verb'' ''v'' \<or> has_substring normalized ([1075, 1083, 1072, 1075, 1086, 1083]) then SecVerb
      else if some_token ''adjective'' ''adj'' \<or> has_substring normalized ([1087, 1088, 1080, 1083, 1072, 1075]) then SecAdjective
      else SecOther)"

lemma turn_shrinks:
  "concat (map (\<lambda>g. case g of [] \<Rightarrow> [] | x # xs \<Rightarrow> [x]) groups) \<noteq> [] \<Longrightarrow>
     sum_list (map length (map tl groups)) < sum_list (map length groups)"
proof -
  assume "concat (map (\<lambda>g. case g of [] \<Rightarrow> [] | x # xs \<Rightarrow> [x]) groups) \<noteq> []"
  then obtain g where g: "g \<in> set groups" "g \<noteq> []" by (auto split: list.splits)
  have le: "sum_list (map (\<lambda>g. length (tl g)) gs) \<le> sum_list (map length gs)" for gs :: "'b list list"
    by (rule sum_list_mono) simp
  obtain as bs where ab: "groups = as @ g # bs" using g(1) by (meson split_list)
  have "sum_list (map (\<lambda>g. length (tl g)) groups) < sum_list (map length groups)"
    using le [of as] le [of bs] g(2) by (cases g) (simp_all add: ab)
  then show ?thesis by (simp add: comp_def)
qed

text \<open>One turn takes the next item of every group that has one; the turns end when none has.\<close>

function roundRobin :: "'a list list \<Rightarrow> 'a list" where
  "roundRobin groups =
     (let turn = concat (map (\<lambda>g. case g of [] \<Rightarrow> [] | x # xs \<Rightarrow> [x]) groups) in
      if turn = [] then [] else turn @ roundRobin (map tl groups))"
  by auto
termination
  by (relation "measure (\<lambda>groups. sum_list (map length groups))") (use turn_shrinks in force)+

declare roundRobin.simps [simp del]

definition part_items :: "LearningItem list \<Rightarrow> PartOfSpeechSection \<Rightarrow> LearningItem list" where
  "part_items items part = filter (\<lambda>i. it_kind i = WordItem \<and> it_section i = PartSection part) items"

definition prepareWordItems :: "LearningItem list \<Rightarrow> WordSection \<Rightarrow> LearningItem list" where
  "prepareWordItems items section =
     (case section of
        OfCollection c \<Rightarrow> filter (\<lambda>i. it_kind i = WordItem \<and> it_topic i = WORD_COLLECTION_TOPICS c) items
      | OfSection part \<Rightarrow> part_items items part
      | Mixed \<Rightarrow> roundRobin (map (part_items items) [SecNoun, SecVerb, SecAdjective, SecOther]))"

definition takeLessonBlock :: "LearningItem list \<Rightarrow> LessonSize \<Rightarrow> LearningItem list" where
  "takeLessonBlock items block = (case block of SizeAll \<Rightarrow> items | Size n \<Rightarrow> take n items)"

section \<open>Exercises\<close>

text \<open>The text before the first and after the last blank.\<close>

definition before_blank :: "jstr \<Rightarrow> jstr" where "before_blank s = takeWhile (\<lambda>c. c \<noteq> 95) s"
definition after_blank :: "jstr \<Rightarrow> jstr" where "after_blank s = rev (takeWhile (\<lambda>c. c \<noteq> 95) (rev s))"

definition has_prefix :: "jstr \<Rightarrow> jstr \<Rightarrow> bool" where "has_prefix s p \<longleftrightarrow> take (length p) s = p"
definition has_suffix :: "jstr \<Rightarrow> jstr \<Rightarrow> bool" where
  "has_suffix s p \<longleftrightarrow> length p \<le> length s \<and> drop (length s - length p) s = p"

definition inferClozeAnswer :: "jstr \<Rightarrow> jstr option \<Rightarrow> jstr" where
  "inferClozeAnswer prompt cloze =
     (case cloze of None \<Rightarrow> []
      | Some c \<Rightarrow>
          if c = [] \<or> 95 \<notin> set c then []
          else
            let prefix_part = before_blank c; suffix_part = after_blank c in
            if \<not> has_prefix prompt prefix_part \<or> \<not> has_suffix prompt suffix_part then []
            else trim (take (length prompt - length suffix_part - length prefix_part) (drop (length prefix_part) prompt)))"

definition first_nonempty :: "jstr \<Rightarrow> jstr \<Rightarrow> jstr" where
  "first_nonempty a b = (if a \<noteq> [] then a else b)"

definition has_cloze :: "LearningItem \<Rightarrow> bool" where
  "has_cloze item \<longleftrightarrow> it_kind item = PhraseItem \<and> it_cloze item \<noteq> None \<and> it_cloze item \<noteq> Some []"

definition exerciseAnswer :: "LearningItem \<Rightarrow> jstr" where
  "exerciseAnswer item =
     (if has_cloze item then
        first_nonempty (case it_clozeAnswer item of Some a \<Rightarrow> trim a | None \<Rightarrow> [])
          (first_nonempty (inferClozeAnswer (it_prompt item) (it_cloze item)) (trim (it_answer item)))
      else trim (it_answer item))"

definition exercisePromptLabel :: "LearningItem \<Rightarrow> jstr" where
  "exercisePromptLabel item =
     (if has_cloze item then [1042, 1074, 1077, 1076, 1080, 1090, 1077, 32, 1087, 1088, 1086, 1087, 1091, 1097, 1077, 1085, 1085, 1086, 1077, 32, 1072, 1085, 1075, 1083, 1080, 1081, 1089, 1082, 1086, 1077, 32, 1089, 1083, 1086, 1074, 1086, 32, 1080, 1083, 1080, 32, 1092, 1088, 1072, 1075, 1084, 1077, 1085, 1090]
      else [1042, 1074, 1077, 1076, 1080, 1090, 1077, 32, 1087, 1077, 1088, 1077, 1074, 1086, 1076, 32, 1080, 1083, 1080, 32, 1089, 1084, 1099, 1089, 1083, 32, 1089, 1074, 1086, 1080, 1084, 1080, 32, 1089, 1083, 1086, 1074, 1072, 1084, 1080])"

unbundle bit_operations_syntax

definition hash :: "jstr \<Rightarrow> nat" where
  "hash value = unat (foldl (\<lambda>result c. (result XOR of_nat c) * 16777619) (2166136261 :: 32 word) value)"

fun distinct_first :: "'a list \<Rightarrow> 'a list" where
  "distinct_first [] = []"
| "distinct_first (x # xs) = x # filter (\<lambda>y. y \<noteq> x) (distinct_first xs)"

text \<open>The sorts compare the hashes, which are numbers below \<open>2^32\<close>.\<close>

definition buildAnswerOptions :: "LearningItem \<Rightarrow> LearningItem list \<Rightarrow> nat \<Rightarrow> jstr list" where
  "buildAnswerOptions current pool n =
     (let correctAnswer = exerciseAnswer current;
          alternatives = distinct_first (filter (\<lambda>a. a \<noteq> [] \<and> a \<noteq> correctAnswer) (map exerciseAnswer pool));
          alternatives = js_sort (by_key (\<lambda>a. hash (it_id current @ u '':'' @ a))) alternatives;
          options = correctAnswer # take (n - 1) alternatives in
      js_sort (by_key (\<lambda>a. hash (it_id current @ u '':option:'' @ a))) options)"

section \<open>Judging an answer\<close>

text \<open>The loop over the characters: the text so far and whether a space is pending.\<close>

fun normalize_chars :: "(jstr \<Rightarrow> jstr) \<Rightarrow> (jstr \<Rightarrow> bool) \<Rightarrow> jstr \<times> bool \<Rightarrow> jstr list \<Rightarrow> jstr" where
  "normalize_chars lower is_LN (normalized, spacePending) [] = normalized"
| "normalize_chars lower is_LN (normalized, spacePending) (ch # chs) =
     (let character = (if lower ch = [1105] then [1077] else lower ch) in
      if is_LN character then
        normalize_chars lower is_LN
          ((if spacePending \<and> normalized \<noteq> [] then normalized @ [32] else normalized) @ character, False) chs
      else if character \<in> {[39], [8217], [700]} then normalize_chars lower is_LN (normalized, spacePending) chs
      else normalize_chars lower is_LN (normalized, normalized \<noteq> []) chs)"

definition normalizeAnswer :: "(jstr \<Rightarrow> jstr) \<Rightarrow> (jstr \<Rightarrow> bool) \<Rightarrow> jstr \<Rightarrow> jstr" where
  "normalizeAnswer lower is_LN value = trim (normalize_chars lower is_LN ([], False) (chars_of (trim value)))"

definition canonicalTranslationCandidates :: "jstr \<Rightarrow> jstr list" where
  "canonicalTranslationCandidates value =
     (let trimmed_value = trim value in
      if trimmed_value = [] then []
      else
        let alternatives = filter (\<lambda>a. a \<noteq> []) (map trim (pieces (\<lambda>c. c \<in> {44, 59, 47}) trimmed_value)) in
        if length alternatives > 1 then trimmed_value # alternatives else [trimmed_value])"

text \<open>The filter keeps the first candidate of each non-empty normal form.\<close>

fun first_by :: "(jstr \<Rightarrow> jstr) \<Rightarrow> jstr list \<Rightarrow> jstr list \<Rightarrow> jstr list" where
  "first_by nf seen [] = []"
| "first_by nf seen (c # cs) =
     (if nf c = [] \<or> nf c \<in> set seen then first_by nf seen cs else c # first_by nf (nf c # seen) cs)"

definition answer_candidates :: "LearningItem \<Rightarrow> jstr list" where
  "answer_candidates item =
     (case it_kind item of WordItem \<Rightarrow> canonicalTranslationCandidates (exerciseAnswer item) | PhraseItem \<Rightarrow> [exerciseAnswer item])
     @ (case it_acceptedAnswers item of Some as \<Rightarrow> as | None \<Rightarrow> [])"

definition acceptedAnswersForItem :: "(jstr \<Rightarrow> jstr) \<Rightarrow> (jstr \<Rightarrow> bool) \<Rightarrow> LearningItem \<Rightarrow> jstr list" where
  "acceptedAnswersForItem lower is_LN item = first_by (normalizeAnswer lower is_LN) [] (answer_candidates item)"

fun judge_against :: "(jstr \<Rightarrow> jstr) \<Rightarrow> (jstr \<Rightarrow> bool) \<Rightarrow> jstr \<Rightarrow> jstr \<Rightarrow> jstr list \<Rightarrow> AnswerJudgement" where
  "judge_against lower is_LN trimmed_answer normalized [] =
     \<lparr>aj_correct = False, aj_reason = RejectedNoMatch, aj_matchedAnswer = []\<rparr>"
| "judge_against lower is_LN trimmed_answer normalized (c # cs) =
     (if lower trimmed_answer = lower (trim c) then \<lparr>aj_correct = True, aj_reason = AcceptedExact, aj_matchedAnswer = c\<rparr>
      else if normalized = normalizeAnswer lower is_LN c
      then \<lparr>aj_correct = True, aj_reason = AcceptedNormalized, aj_matchedAnswer = c\<rparr>
      else judge_against lower is_LN trimmed_answer normalized cs)"

definition judgeLearningAnswer :: "(jstr \<Rightarrow> jstr) \<Rightarrow> (jstr \<Rightarrow> bool) \<Rightarrow> LearningItem \<Rightarrow> jstr \<Rightarrow> AnswerJudgement" where
  "judgeLearningAnswer lower is_LN item submittedAnswer =
     (let trimmed_answer = trim submittedAnswer; normalized = normalizeAnswer lower is_LN trimmed_answer in
      if normalized = [] then \<lparr>aj_correct = False, aj_reason = RejectedNoAnswer, aj_matchedAnswer = []\<rparr>
      else judge_against lower is_LN trimmed_answer normalized (acceptedAnswersForItem lower is_LN item))"

section \<open>The mixed lesson\<close>

lemma turn_filter:
  "filter P (concat (map (\<lambda>g. case g of [] \<Rightarrow> [] | x # xs \<Rightarrow> [x]) groups)) =
     concat (map (\<lambda>g. case g of [] \<Rightarrow> [] | x # xs \<Rightarrow> if P x then [x] else []) groups)"
  by (induction groups) (auto split: list.split)

lemma mset_roundRobin: "mset (roundRobin groups) = mset (concat groups)"
proof (induction groups rule: roundRobin.induct)
  case (1 groups)
  let ?turn = "concat (map (\<lambda>g. case g of [] \<Rightarrow> [] | x # xs \<Rightarrow> [x]) groups)"
  have split: "mset (concat gs) = mset (concat (map (\<lambda>g. case g of [] \<Rightarrow> [] | x # xs \<Rightarrow> [x]) gs)) + mset (concat (map tl gs))" for gs :: "'a list list"
    by (induction gs) (auto split: list.splits)
  show ?case
  proof (cases "?turn = []")
    case True
    have "g = []" if "g \<in> set groups" for g
      using True that by (cases g) (auto split: list.splits)
    then have "concat groups = []" by simp
    with True show ?thesis by (simp add: roundRobin.simps [of groups])
  next
    case False
    then have "roundRobin groups = ?turn @ roundRobin (map tl groups)"
      by (subst roundRobin.simps) (simp only: Let_def if_False)
    with 1 [OF refl False] split [of groups] show ?thesis by (simp only: mset_append)
  qed
qed

text \<open>A group all of whose items satisfy \<open>P\<close>, among groups none of whose items does, keeps its order.\<close>

lemma filter_roundRobin:
  assumes "\<forall>i<length groups. i \<noteq> k \<longrightarrow> (\<forall>x\<in>set (groups ! i). \<not> P x)" "k < length groups" "\<forall>x\<in>set (groups ! k). P x"
  shows "filter P (roundRobin groups) = groups ! k"
  using assms
proof (induction groups rule: roundRobin.induct)
  case (1 groups)
  let ?turn = "concat (map (\<lambda>g. case g of [] \<Rightarrow> [] | x # xs \<Rightarrow> [x]) groups)"
  have f: "filter P (concat (map (\<lambda>g. case g of [] \<Rightarrow> [] | x # xs \<Rightarrow> [x]) gs)) = (case gs ! j of [] \<Rightarrow> [] | x # xs \<Rightarrow> [x])"
    if "\<forall>i<length gs. i \<noteq> j \<longrightarrow> (\<forall>x\<in>set (gs ! i). \<not> P x)" "j < length gs" "\<forall>x\<in>set (gs ! j). P x" for gs :: "'a list list" and j
    using that
  proof (induction gs arbitrary: j)
    case (Cons g gs)
    show ?case
    proof (cases j)
      case 0
      have no: "\<forall>x\<in>set h. \<not> P x" if hs: "h \<in> set gs" for h
      proof -
        obtain i where "i < length gs" "gs ! i = h" using hs in_set_conv_nth [of h gs] by blast
        with Cons.prems(1) [rule_format, of "Suc i"] 0 show ?thesis by simp
      qed
      have "filter P (concat (map (\<lambda>g. case g of [] \<Rightarrow> [] | x # xs \<Rightarrow> [x]) gs)) = []"
        using no by (auto simp: filter_empty_conv split: list.splits)
      with 0 Cons.prems show ?thesis by (auto split: list.split)
    next
      case (Suc m)
      with Cons.prems have "\<forall>x\<in>set g. \<not> P x" by force
      moreover have "filter P (concat (map (\<lambda>g. case g of [] \<Rightarrow> [] | x # xs \<Rightarrow> [x]) gs)) = (case gs ! m of [] \<Rightarrow> [] | x # xs \<Rightarrow> [x])"
        using Cons.prems Suc by (intro Cons.IH) auto
      ultimately show ?thesis using Suc by (auto split: list.split)
    qed
  qed simp
  show ?case
  proof (cases "?turn = []")
    case True
    moreover have "groups ! k \<in> set groups" using "1.prems"(2) by simp
    ultimately have "groups ! k = []" by (cases "groups ! k") (force split: list.splits)+
    with True show ?thesis by (simp add: roundRobin.simps [of groups])
  next
    case False
    have tl_sub: "x \<in> set (tl g) \<Longrightarrow> x \<in> set g" for x and g :: "'a list" by (cases g) auto
    have "filter P (roundRobin (map tl groups)) = map tl groups ! k"
    proof (rule "1.IH" [OF refl False])
      show "\<forall>i<length (map tl groups). i \<noteq> k \<longrightarrow> (\<forall>x\<in>set (map tl groups ! i). \<not> P x)"
        using "1.prems"(1) tl_sub by simp
    qed (use "1.prems" tl_sub in simp_all)
    then have r: "filter P (roundRobin (map tl groups)) = tl (groups ! k)" using "1.prems"(2) by simp
    have "roundRobin groups = ?turn @ roundRobin (map tl groups)"
      using False by (subst roundRobin.simps) (simp only: Let_def if_False)
    then show ?thesis using f [OF "1.prems"] r by (cases "groups ! k") (simp_all only: filter_append list.case, simp_all)
  qed
qed

text \<open>C25: a mixed lesson holds every word exactly as often as it was given, and no phrase; the words of each part of
  speech keep the order they had.\<close>

theorem mixed_lesson_is_fair_permutation:
  assumes "\<forall>i\<in>set items. it_kind i = WordItem \<longrightarrow> (\<exists>part. it_section i = PartSection part)"
  shows "mset (prepareWordItems items Mixed) = mset (filter (\<lambda>i. it_kind i = WordItem) items)
    \<and> (\<forall>part. filter (\<lambda>i. it_section i = PartSection part) (prepareWordItems items Mixed) = part_items items part)"
proof -
  let ?parts = "[SecNoun, SecVerb, SecAdjective, SecOther]"
  have "mset (concat (map (part_items items) ?parts)) = mset (filter (\<lambda>i. it_kind i = WordItem) items)"
    using assms
  proof (induction items)
    case (Cons i items)
    then have ih: "mset (concat (map (part_items items) ?parts)) = mset (filter (\<lambda>i. it_kind i = WordItem) items)" by simp
    show ?case
    proof (cases "it_kind i = WordItem")
      case True
      with Cons.prems obtain part where "it_section i = PartSection part" by auto
      with ih True show ?thesis by (cases part) (simp_all add: part_items_def)
    next
      case False
      with ih show ?thesis by (simp add: part_items_def)
    qed
  qed (simp add: part_items_def)
  moreover have "filter (\<lambda>i. it_section i = PartSection part) (roundRobin (map (part_items items) ?parts)) = part_items items part" for part
  proof -
    obtain k where k: "k < 4" "?parts ! k = part"
      by (cases part) (auto simp: numeral_eq_Suc intro: that [of 0] that [of 1] that [of 2] that [of 3])
    have d: "distinct ?parts" by simp
    have pk: "map (part_items items) ?parts ! k = part_items items part"
      using k nth_map [of k ?parts "part_items items"] by (simp only: list.size One_nat_def)
    have "filter (\<lambda>i. it_section i = PartSection part) (roundRobin (map (part_items items) ?parts)) = map (part_items items) ?parts ! k"
    proof (rule filter_roundRobin)
      show "\<forall>i<length (map (part_items items) ?parts). i \<noteq> k \<longrightarrow>
          (\<forall>x\<in>set (map (part_items items) ?parts ! i). it_section x \<noteq> PartSection part)"
      proof (intro allI impI ballI)
        fix i x assume i: "i < length (map (part_items items) ?parts)" "i \<noteq> k" and x: "x \<in> set (map (part_items items) ?parts ! i)"
        then have len: "i < length ?parts" by simp
        from x have "x \<in> set (part_items items (?parts ! i))" by (simp only: nth_map [OF len])
        then have "it_section x = PartSection (?parts ! i)" by (simp add: part_items_def)
        moreover have "?parts ! i \<noteq> ?parts ! k"
          using nth_eq_iff_index_eq [OF d len, of k] k(1) i(2) by simp
        ultimately show "it_section x \<noteq> PartSection part" using k(2) by simp
      qed
    next
      show "k < length (map (part_items items) ?parts)" using k(1) by simp
      show "\<forall>x\<in>set (map (part_items items) ?parts ! k). it_section x = PartSection part"
        unfolding pk by (simp add: part_items_def)
    qed
    with pk show ?thesis by (simp only:)
  qed
  ultimately show ?thesis by (simp add: prepareWordItems_def mset_roundRobin)
qed

definition sample_word :: "jstr \<Rightarrow> PartOfSpeechSection \<Rightarrow> jstr \<Rightarrow> LearningItem" where
  "sample_word i part answer = \<lparr>it_id = i, it_wordId = None, it_kind = WordItem, it_slug = None, it_prompt = u ''word'',
     it_answer = answer, it_phonetic = [], it_partOfSpeech = [], it_section = PartSection part, it_topic = u ''Travel'',
     it_aliases = None, it_acceptedAnswers = None, it_examples = [], it_note = [], it_status = u ''new'',
     it_selectionReason = None, it_cloze = None, it_clozeAnswer = None\<rparr>"

lemma mixed_lesson_is_fair_permutation_witness:
  "mset (prepareWordItems [sample_word (u ''1'') SecVerb (u ''go''), sample_word (u ''2'') SecNoun (u ''house'')] Mixed)
     = {#sample_word (u ''1'') SecVerb (u ''go''), sample_word (u ''2'') SecNoun (u ''house'')#}"
  using mixed_lesson_is_fair_permutation [of "[sample_word (u ''1'') SecVerb (u ''go''), sample_word (u ''2'') SecNoun (u ''house'')]"]
  by (simp add: sample_word_def)

section \<open>The options of a choice\<close>

lemma distinct_first_props: "set (distinct_first xs) = set xs" "distinct (distinct_first xs)"
  by (induction xs) auto

text \<open>the options of a multiple choice are distinct and not more than asked for, hold the correct answer exactly
  once and otherwise only answers of other items of the pool; there are as many as the pool allows.\<close>

theorem answer_options_sound:
  fixes current pool n
  defines "options \<equiv> buildAnswerOptions current pool n"
    and "wrong \<equiv> {a \<in> exerciseAnswer ` set pool. a \<noteq> [] \<and> a \<noteq> exerciseAnswer current}"
  shows "distinct options \<and> exerciseAnswer current \<in> set options \<and> set options - {exerciseAnswer current} \<subseteq> wrong
    \<and> length options = 1 + min (n - 1) (card wrong)"
proof -
  let ?c = "exerciseAnswer current"
  let ?alts = "distinct_first (filter (\<lambda>a. a \<noteq> [] \<and> a \<noteq> ?c) (map exerciseAnswer pool))"
  let ?s = "js_sort (by_key (\<lambda>a. hash (it_id current @ u '':'' @ a))) ?alts"
  have set: "set ?s = wrong" by (auto simp: wrong_def distinct_first_props)
  have d: "distinct ?s" using mset_eq_imp_distinct_iff [OF mset_js_sort] distinct_first_props(2) by blast
  have len: "length ?s = card wrong" using distinct_card [OF d] unfolding set by simp
  have sub: "set (take (n - 1) ?s) \<subseteq> wrong" using set_take_subset [of "n - 1" ?s] set by simp
  have o': "options = js_sort (by_key (\<lambda>a. hash (it_id current @ u '':option:'' @ a))) (?c # take (n - 1) ?s)"
    by (simp add: options_def buildAnswerOptions_def Let_def)
  have "?c \<notin> set (take (n - 1) ?s)" using sub by (auto simp: wrong_def)
  then have "distinct (?c # take (n - 1) ?s)" using d by simp
  then have "distinct options" unfolding o' using mset_eq_imp_distinct_iff [OF mset_js_sort] by blast
  moreover have "set options = insert ?c (set (take (n - 1) ?s))" unfolding o' by simp
  moreover have "length options = 1 + min (n - 1) (card wrong)" unfolding o' using len by (simp add: min.commute)
  ultimately show ?thesis using sub by auto
qed

section \<open>Judging\<close>

lemma first_by_sub: "set (first_by nf seen cs) \<subseteq> set cs"
  by (induction cs arbitrary: seen) (auto dest: subsetD)

lemma first_by_new: "c \<in> set (first_by nf seen cs) \<Longrightarrow> nf c \<noteq> [] \<and> nf c \<notin> set seen"
proof (induction cs arbitrary: seen)
  case (Cons x cs)
  show ?case
  proof (cases "nf x = [] \<or> nf x \<in> set seen")
    case True
    with Cons show ?thesis by simp
  next
    case False
    with Cons.prems have "c = x \<or> c \<in> set (first_by nf (nf x # seen) cs)" by simp
    with Cons.IH [of "nf x # seen"] False show ?thesis by auto
  qed
qed simp

lemma first_by_distinct: "distinct (map nf (first_by nf seen cs))"
proof (induction cs arbitrary: seen)
  case (Cons x cs)
  have "nf x \<noteq> nf c" if "c \<in> set (first_by nf (nf x # seen) cs)" for c
    using first_by_new [OF that] by auto
  with Cons show ?case by auto
qed simp

lemma first_by_complete: "c \<in> set cs \<Longrightarrow> nf c \<noteq> [] \<Longrightarrow> nf c \<in> set seen \<or> nf c \<in> nf ` set (first_by nf seen cs)"
proof (induction cs arbitrary: seen)
  case (Cons x cs)
  show ?case
  proof (cases "c = x")
    case True
    with Cons.prems(2) show ?thesis by auto
  next
    case False
    with Cons.prems have "c \<in> set cs" by simp
    from Cons.IH [OF this Cons.prems(2), of seen] Cons.IH [OF this Cons.prems(2), of "nf x # seen"]
    show ?thesis by auto
  qed
qed simp

lemma judge_against_spec:
  fixes lower is_LN t n
  defines "matches \<equiv> \<lambda>c. lower t = lower (trim c) \<or> n = normalizeAnswer lower is_LN c"
  shows "(aj_correct (judge_against lower is_LN t n cs) \<longleftrightarrow> (\<exists>c\<in>set cs. matches c))
    \<and> (aj_correct (judge_against lower is_LN t n cs) \<longrightarrow>
         aj_matchedAnswer (judge_against lower is_LN t n cs) \<in> set cs
         \<and> matches (aj_matchedAnswer (judge_against lower is_LN t n cs)))"
  by (induction cs) (auto simp: matches_def)

lemma normalize_trim [simp]: "normalizeAnswer lower is_LN (trim v) = normalizeAnswer lower is_LN v"
  by (simp add: normalizeAnswer_def)

text \<open>C26: an answer is judged correct exactly when it has a normal form and matches, by that form or by its lower-case
  text, an accepted answer; the match reported is one.  Every answer the item offers that has a normal form is
  itself judged correct, and no two accepted answers have the same normal form.\<close>

theorem answer_judgement_sound_and_complete:
  fixes lower is_LN item submitted
  defines "nf \<equiv> normalizeAnswer lower is_LN" and "accepted \<equiv> acceptedAnswersForItem lower is_LN item"
    and "j \<equiv> judgeLearningAnswer lower is_LN item submitted"
  shows "(aj_correct j \<longleftrightarrow> nf submitted \<noteq> []
      \<and> (\<exists>c\<in>set accepted. lower (trim submitted) = lower (trim c) \<or> nf submitted = nf c))
    \<and> (aj_correct j \<longrightarrow> aj_matchedAnswer j \<in> set accepted)
    \<and> (submitted \<in> set (answer_candidates item) \<and> nf submitted \<noteq> [] \<longrightarrow> aj_correct j)
    \<and> distinct (map nf accepted)"
proof -
  have acc: "accepted = first_by nf [] (answer_candidates item)" by (simp add: accepted_def acceptedAnswersForItem_def nf_def)
  note spec = judge_against_spec [of lower is_LN "trim submitted" "nf submitted" accepted, folded nf_def]
  have j: "j = (if nf submitted = [] then \<lparr>aj_correct = False, aj_reason = RejectedNoAnswer, aj_matchedAnswer = []\<rparr>
      else judge_against lower is_LN (trim submitted) (nf submitted) accepted)"
    by (simp add: j_def judgeLearningAnswer_def Let_def nf_def accepted_def)
  have corr: "aj_correct j \<longleftrightarrow> nf submitted \<noteq> []
      \<and> (\<exists>c\<in>set accepted. lower (trim submitted) = lower (trim c) \<or> nf submitted = nf c)"
    unfolding j using spec by simp
  moreover have "aj_correct j \<longrightarrow> aj_matchedAnswer j \<in> set accepted" unfolding j using spec by simp
  moreover have "aj_correct j" if "submitted \<in> set (answer_candidates item)" "nf submitted \<noteq> []"
    using first_by_complete [OF that(1), of nf "[]"] that(2) corr by (auto simp: acc)
  moreover have "distinct (map nf accepted)" unfolding acc by (rule first_by_distinct)
  ultimately show ?thesis by blast
qed

lemma answer_judgement_sound_and_complete_witness:
  "aj_correct (judgeLearningAnswer (map (\<lambda>c. if 65 \<le> c \<and> c \<le> 90 then c + 32 else c)) (\<lambda>ch. ch \<noteq> [] \<and> (97 \<le> hd ch \<and> hd ch \<le> 122))
     (sample_word (u ''1'') SecNoun (u ''house; home'')) (u ''home''))"
proof -
  let ?lower = "map (\<lambda>c. if 65 \<le> c \<and> c \<le> 90 then c + 32 else c)"
  let ?LN = "\<lambda>ch. ch \<noteq> [] \<and> (97 \<le> hd ch \<and> hd ch \<le> (122::nat))"
  let ?item = "sample_word (u ''1'') SecNoun (u ''house; home'')"
  have "u ''home'' \<in> set (answer_candidates ?item)"
    by (simp add: answer_candidates_def canonicalTranslationCandidates_def exerciseAnswer_def has_cloze_def sample_word_def
        u_def trim_def js_ws_def)
  moreover have "normalizeAnswer ?lower ?LN (u ''home'') \<noteq> []"
    by (simp add: normalizeAnswer_def u_def trim_def js_ws_def is_high_def)
  ultimately show ?thesis
    using answer_judgement_sound_and_complete [of ?lower ?LN ?item "u ''home''"] by blast
qed

end
