(* ===== verification/Progress.thy ===== *)
theory Progress
  imports Js_Prelude
begin

text \<open>
  \<open>src/frontend/lib/progress.ts\<close>: the progress evidence the server sends and the normal forms
  the screens show.  Optional fields are options; the labels are the Russian texts of the code,
  as UTF-16 units.
\<close>

section \<open>Data\<close>

record ModeProgress =
  attemptsToday :: jnum
  mode_successfulToday :: jnum
  attemptsTotal :: jnum
  successfulTotal :: jnum

record ProgressModes =
  md_study :: "ModeProgress option"
  md_recall :: "ModeProgress option"
  md_choice :: "ModeProgress option"
  md_listening :: "ModeProgress option"
  md_legacy :: "ModeProgress option"

record NormalizedProgressModes =
  nm_study :: ModeProgress
  nm_recall :: ModeProgress
  nm_choice :: ModeProgress
  nm_listening :: ModeProgress
  nm_legacy :: ModeProgress

record DailyRecallEvidence =
  de_date :: jstr
  de_attempts :: jnum
  de_successful :: jnum
  de_rate :: jnum

record TopicEvidence =
  te_topic :: jstr
  te_attempts :: jnum
  te_successful :: jnum
  te_errors :: jnum
  te_rate :: jnum

record PartOfSpeechEvidence =
  pe_partOfSpeech :: jstr
  pe_attempts :: jnum
  pe_successful :: jnum
  pe_errors :: jnum
  pe_rate :: jnum

text \<open>The two lists of weak spots may be missing in what an older server sends.\<close>

record WeeklyProgressEvidence =
  wk_weekStart :: jstr
  wk_weekEnd :: jstr
  recallAttempts :: jnum
  recallSuccessful :: jnum
  recallRate :: jnum
  previousRecallAttempts :: jnum
  previousRecallSuccessful :: jnum
  previousRecallRate :: jnum
  choiceAttempts :: jnum
  choiceSuccessful :: jnum
  choiceRate :: jnum
  wk_reviews :: jnum
  wk_lessons :: jnum
  activeMinutes :: jnum
  trend :: "DailyRecallEvidence list"
  weakTopics :: "TopicEvidence list option"
  weakPartsOfSpeech :: "PartOfSpeechEvidence list option"
  strongTopic :: "TopicEvidence option"

record ProcessRetentionEvidence =
  rt_attempts :: jnum
  rt_successful :: jnum
  rt_rate :: jnum

record LearningProcessEvidence =
  lp_weekStart :: jstr
  lp_weekEnd :: jstr
  newLearned :: jnum
  dueReviewed :: jnum
  remediationReviewed :: jnum
  reviewBacklog :: jnum
  lapses :: jnum
  retention :: ProcessRetentionEvidence

datatype ScenarioRecommendationReason = ResumeInProgress | FirstUncompleted | LeastRecentlyCompleted
datatype ScenarioRecommendationAction = ActStart | ActResume
datatype ScenarioRecommendationType = ScIncident | ScTroubleshooting | ScArchitectureReview | ScDataPipeline
  | ScRelease | ScStatusUpdate

record ScenarioRecommendation =
  sr_slug :: jstr
  sr_type :: ScenarioRecommendationType
  sr_title :: jstr
  sr_estimatedMinutes :: jnum
  sr_reason :: ScenarioRecommendationReason
  sr_action :: ScenarioRecommendationAction
  sr_completedCount :: jnum
  sr_lastCompletedAt :: "jstr option"

record ScenarioProgressEvidence =
  completedThisWeek :: jnum
  completedTotal :: jnum
  recommendation :: "ScenarioRecommendation option"

record ProgressSummary =
  pg_dueNow :: jnum
  dueWords :: jnum
  duePhrases :: jnum
  totalWords :: jnum
  totalPhrases :: jnum
  newWords :: jnum
  learningWords :: jnum
  reviewWords :: jnum
  masteredWords :: jnum
  masteredPhrases :: jnum
  reviewsToday :: jnum
  successfulToday :: jnum
  pg_objectiveReviewsToday :: "jnum option"
  pg_objectiveSuccessfulToday :: "jnum option"
  reviewsTotal :: jnum
  pg_dailyGoal :: jnum
  pg_currentStreak :: jnum
  longestStreak :: jnum
  retainedItemsWeek :: jnum
  retainedWordsWeek :: jnum
  retainedPhrasesWeek :: jnum
  eventSchemaVersion :: "jnum option"
  modes :: "ProgressModes option"
  weekly :: "WeeklyProgressEvidence option"
  processes :: "LearningProcessEvidence option"
  scenarios :: "ScenarioProgressEvidence option"
  pg_nextDueAt :: "jstr option"

datatype ReviewRating = RateAgain | RateAlmost | RateKnown
datatype AnswerMode = ModeStudy | ModeRecall | ModeChoice | ModeListening

record ReviewResult =
  rr_wordId :: jnum
  rr_status :: jstr
  easiness :: jnum
  intervalDays :: jnum
  repetitions :: jnum
  dueAt :: jstr
  lastReviewedAt :: jstr

definition MAX_DUE_REVIEW_LESSON_ITEMS :: jnum where "MAX_DUE_REVIEW_LESSON_ITEMS = 60"

definition EMPTY_MODE :: ModeProgress where
  "EMPTY_MODE = \<lparr>attemptsToday = 0, mode_successfulToday = 0, attemptsTotal = 0, successfulTotal = 0\<rparr>"

definition EMPTY_TREND :: "DailyRecallEvidence list" where
  "EMPTY_TREND = replicate 7 \<lparr>de_date = [], de_attempts = 0, de_successful = 0, de_rate = 0\<rparr>"

section \<open>Normal forms\<close>

definition percentage :: "jnum \<Rightarrow> jnum \<Rightarrow> jnum" where
  "percentage successful attempts = (if attempts > 0 then jround (jdiv successful attempts * 100) else 0)"

definition or_default :: "'a option \<Rightarrow> 'a \<Rightarrow> 'a" where
  "or_default x d = (case x of Some y \<Rightarrow> y | None \<Rightarrow> d)"

definition normalizedProgressModes :: "ProgressSummary option \<Rightarrow> NormalizedProgressModes" where
  "normalizedProgressModes progress =
     (let ms = Option.bind progress modes;
          pick = (\<lambda>f. or_default (Option.bind ms f) EMPTY_MODE) in
      \<lparr>nm_study = pick md_study, nm_recall = pick md_recall, nm_choice = pick md_choice,
       nm_listening = pick md_listening, nm_legacy = pick md_legacy\<rparr>)"

definition normalizedWeeklyEvidence :: "ProgressSummary \<Rightarrow> WeeklyProgressEvidence" where
  "normalizedWeeklyEvidence progress =
     (case weekly progress of
        Some w \<Rightarrow> w\<lparr>trend := (if length (trend w) = 7 then trend w else take 7 (trend w @ EMPTY_TREND)),
                    weakTopics := Some (or_default (weakTopics w) []),
                    weakPartsOfSpeech := Some (or_default (weakPartsOfSpeech w) [])\<rparr>
      | None \<Rightarrow>
          let ms = normalizedProgressModes (Some progress);
              ra = attemptsToday (nm_recall ms); rs = mode_successfulToday (nm_recall ms);
              ca = attemptsToday (nm_choice ms); cs = mode_successfulToday (nm_choice ms) in
          \<lparr>wk_weekStart = [], wk_weekEnd = [],
           recallAttempts = ra, recallSuccessful = rs, recallRate = percentage rs ra,
           previousRecallAttempts = 0, previousRecallSuccessful = 0, previousRecallRate = 0,
           choiceAttempts = ca, choiceSuccessful = cs, choiceRate = percentage cs ca,
           wk_reviews = reviewsToday progress, wk_lessons = 0, activeMinutes = 0,
           trend = EMPTY_TREND, weakTopics = Some [], weakPartsOfSpeech = Some [], strongTopic = None\<rparr>)"

definition normalizedLearningProcessEvidence :: "ProgressSummary \<Rightarrow> LearningProcessEvidence" where
  "normalizedLearningProcessEvidence progress =
     (case processes progress of
        Some p \<Rightarrow> p
      | None \<Rightarrow>
          let w = normalizedWeeklyEvidence progress in
          \<lparr>lp_weekStart = wk_weekStart w, lp_weekEnd = wk_weekEnd w, newLearned = 0, dueReviewed = 0,
           remediationReviewed = 0, reviewBacklog = 0, lapses = 0,
           retention = \<lparr>rt_attempts = 0, rt_successful = 0, rt_rate = 0\<rparr>\<rparr>)"

definition dueReviewLessonCount :: "jnum \<Rightarrow> jnum" where
  "dueReviewLessonCount dueNow =
     (if \<not> isFinite dueNow \<or> dueNow \<le> 0 then 0 else jmin MAX_DUE_REVIEW_LESSON_ITEMS (jfloor dueNow))"

definition objectiveSuccessRate :: "ProgressSummary option \<Rightarrow> jnum" where
  "objectiveSuccessRate progress =
     (case progress of None \<Rightarrow> 0
      | Some p \<Rightarrow> percentage (or_default (pg_objectiveSuccessfulToday p) (successfulToday p))
                             (or_default (pg_objectiveReviewsToday p) (reviewsToday p)))"

definition goalPercent :: "ProgressSummary option \<Rightarrow> jnum" where
  "goalPercent progress =
     (case progress of None \<Rightarrow> 0
      | Some p \<Rightarrow> if pg_dailyGoal p \<le> 0 then 0
                  else jmin 100 (jround (jdiv (reviewsToday p) (pg_dailyGoal p) * 100)))"

fun ratingLabel :: "ReviewRating \<Rightarrow> jstr" where
  "ratingLabel RateKnown = [1047, 1085, 1072, 1083]"
| "ratingLabel RateAlmost = [1055, 1086, 1095, 1090, 1080]"
| "ratingLabel RateAgain = [1053, 1077, 32, 1079, 1085, 1072, 1083]"

section \<open>Bounds\<close>

text \<open>A counter: a finite number that is not negative.\<close>

definition counter :: "jnum \<Rightarrow> bool" where "counter x \<longleftrightarrow> isFinite x \<and> 0 \<le> x"

definition percent_ok :: "jnum \<Rightarrow> bool" where
  "percent_ok x \<longleftrightarrow> isInteger x \<and> 0 \<le> x \<and> x \<le> 100"

lemma round_percent:
  fixes q :: rat
  assumes "0 \<le> q" "q \<le> 1"
  shows "0 \<le> \<lfloor>q * 100 + 1/2\<rfloor>" "\<lfloor>q * 100 + 1/2\<rfloor> \<le> 100"
proof -
  have "0 \<le> q * 100 + 1/2" "q * 100 + 1/2 < 101" using assms by simp_all
  then show "0 \<le> \<lfloor>q * 100 + 1/2\<rfloor>" "\<lfloor>q * 100 + 1/2\<rfloor> \<le> 100" by linarith+
qed

lemma percentage_ok:
  assumes "counter s" "counter a" "s \<le> a"
  shows "percent_ok (percentage s a)"
proof -
  obtain x y where xy: "s = Fin x" "a = Fin y" "0 \<le> x" "x \<le> y"
    using assms by (auto simp: counter_def isFinite_iff)
  show ?thesis
  proof (cases "0 < y")
    case True
    with xy have "0 \<le> x / y" "x / y \<le> 1" by simp_all
    from round_percent [OF this] xy True show ?thesis
      by (simp add: percentage_def percent_ok_def)
  next
    case False
    then show ?thesis by (simp add: percentage_def percent_ok_def xy)
  qed
qed

definition mode_ok :: "ModeProgress \<Rightarrow> bool" where
  "mode_ok m \<longleftrightarrow> counter (attemptsToday m) \<and> counter (mode_successfulToday m)
     \<and> mode_successfulToday m \<le> attemptsToday m"

definition modes_ok :: "ProgressModes \<Rightarrow> bool" where
  "modes_ok m \<longleftrightarrow> (\<forall>x\<in>{md_study m, md_recall m, md_choice m, md_listening m, md_legacy m}.
     case x of None \<Rightarrow> True | Some y \<Rightarrow> mode_ok y)"

lemma EMPTY_MODE_ok: "mode_ok EMPTY_MODE"
  by (simp add: mode_ok_def EMPTY_MODE_def counter_def)

lemma normalized_modes_ok:
  assumes "case modes p of None \<Rightarrow> True | Some m \<Rightarrow> modes_ok m"
  shows "mode_ok (nm_recall (normalizedProgressModes (Some p)))" "mode_ok (nm_choice (normalizedProgressModes (Some p)))"
  using assms EMPTY_MODE_ok
  by (auto simp: normalizedProgressModes_def Let_def or_default_def modes_ok_def split: option.splits)

text \<open>the weekly evidence always has a trend of exactly seven days and both lists of weak spots; when the server
  sends none, the rates made up from the counters of the day are whole percentages.\<close>

theorem weekly_evidence_complete:
  "length (trend (normalizedWeeklyEvidence p)) = 7
   \<and> weakTopics (normalizedWeeklyEvidence p) \<noteq> None \<and> weakPartsOfSpeech (normalizedWeeklyEvidence p) \<noteq> None
   \<and> (weekly p = None \<and> (case modes p of None \<Rightarrow> True | Some m \<Rightarrow> modes_ok m) \<longrightarrow>
        percent_ok (recallRate (normalizedWeeklyEvidence p)) \<and> percent_ok (choiceRate (normalizedWeeklyEvidence p)))"
proof (cases "weekly p")
  case None
  have "mode_ok m \<Longrightarrow> percent_ok (percentage (mode_successfulToday m) (attemptsToday m))" for m
    by (rule percentage_ok) (auto simp: mode_ok_def)
  with None normalized_modes_ok [of p] show ?thesis
    by (auto simp: normalizedWeeklyEvidence_def Let_def EMPTY_TREND_def)
next
  case (Some w)
  then show ?thesis by (simp add: normalizedWeeklyEvidence_def EMPTY_TREND_def min_def)
qed

text \<open>the number of items of a review lesson is a whole number from 0 to 60, never more than are due, and for
  at least one due item at least one; a count that is not finite gives an empty lesson.\<close>

theorem due_lesson_count_bounds:
  "\<exists>n. dueReviewLessonCount due = jnat n \<and> n \<le> 60
     \<and> (0 < n \<longleftrightarrow> isFinite due \<and> 1 \<le> due) \<and> (isFinite due \<and> 0 \<le> due \<longrightarrow> jnat n \<le> due)"
proof (cases due)
  case (Fin x)
  show ?thesis
  proof (cases "x \<le> 0")
    case True
    with Fin show ?thesis by (intro exI [of _ 0]) (simp add: dueReviewLessonCount_def)
  next
    case False
    let ?n = "nat (min 60 \<lfloor>x\<rfloor>)"
    have f: "0 \<le> \<lfloor>x\<rfloor>" "of_int \<lfloor>x\<rfloor> \<le> x" using False by simp_all
    then have n: "(of_nat ?n :: rat) = min 60 (of_int \<lfloor>x\<rfloor>)" by (simp add: min_def)
    then have "dueReviewLessonCount due = jnat ?n"
      using Fin False by (simp add: dueReviewLessonCount_def MAX_DUE_REVIEW_LESSON_ITEMS_def)
    moreover have "0 < ?n \<longleftrightarrow> 1 \<le> x" using f by (simp add: le_floor_iff zero_less_nat_eq)
    moreover have "of_nat ?n \<le> x" unfolding n using f by (simp add: min_le_iff_disj)
    ultimately show ?thesis using Fin by (intro exI [of _ ?n]) (auto simp: nat_le_iff)
  qed
qed (auto simp: dueReviewLessonCount_def intro: exI [of _ 0])

definition sample_progress :: ProgressSummary where
  "sample_progress = \<lparr>pg_dueNow = 75, dueWords = 60, duePhrases = 15, totalWords = 900, totalPhrases = 100, newWords = 10,
     learningWords = 40, reviewWords = 20, masteredWords = 5, masteredPhrases = 1, reviewsToday = 7, successfulToday = 5,
     pg_objectiveReviewsToday = Some 3, pg_objectiveSuccessfulToday = Some 2, reviewsTotal = 400, pg_dailyGoal = 20,
     pg_currentStreak = 3, longestStreak = 9, retainedItemsWeek = 12, retainedWordsWeek = 10, retainedPhrasesWeek = 2,
     eventSchemaVersion = None,
     modes = Some \<lparr>md_study = None,
       md_recall = Some \<lparr>attemptsToday = 3, mode_successfulToday = 2, attemptsTotal = 9, successfulTotal = 8\<rparr>,
       md_choice = None, md_listening = None, md_legacy = None\<rparr>,
     weekly = None, processes = None, scenarios = None, pg_nextDueAt = None\<rparr>"

lemma weekly_evidence_complete_witness:
  "percent_ok (recallRate (normalizedWeeklyEvidence sample_progress)) \<and> length (trend (normalizedWeeklyEvidence sample_progress)) = 7"
  using weekly_evidence_complete [of sample_progress]
  by (simp add: sample_progress_def modes_ok_def mode_ok_def counter_def)

lemma due_lesson_count_bounds_witness:
  "\<exists>n. dueReviewLessonCount 75 = jnat n \<and> 0 < n \<and> n \<le> 60"
proof -
  from due_lesson_count_bounds [of 75] obtain n where
    "dueReviewLessonCount 75 = jnat n" "n \<le> 60" "0 < n \<longleftrightarrow> isFinite 75 \<and> (1::jnum) \<le> 75" by blast
  then show ?thesis by auto
qed

end
