(* ===== verification/Lesson_Flow.thy ===== *)
theory Lesson_Flow
  imports Progress
begin

text \<open>
  \<open>src/frontend/lib/lesson-flow.ts\<close>: which transition an active lesson may take, and the summary
  of a finished one.  A lesson run by this decision is the step relation \<open>lesson_step\<close> below.
\<close>

datatype BlockReason = Saving | ReviewRequired | CompletionNotConfirmed | ServerPositionMissing | ServerPositionInvalid

text \<open>A decision with its label.\<close>

datatype LessonAdvanceDecision = Blocked jstr BlockReason | Next jstr jnum | Results jstr

text \<open>\<open>serverNextIndex\<close> is \<open>None\<close> where the code has \<open>null\<close> or \<open>undefined\<close>.\<close>

record LessonAdvanceInput =
  currentIndex :: jnum
  li_itemCount :: jnum
  reviewPersisted :: bool
  reviewSaving :: bool
  serverCompleted :: bool
  serverNextIndex :: "jnum option"

record LessonResultSummary =
  ls_known :: nat
  ls_almost :: nat
  ls_again :: nat
  ls_reviewed :: nat
  ls_skipped :: jnum

definition resolveActiveLessonIndex :: "jnum \<Rightarrow> jnum \<Rightarrow> bool \<Rightarrow> jnum option" where
  "resolveActiveLessonIndex index itemCount currentItemReviewed =
     (if \<not> isInteger index \<or> index < 0 \<or> index \<ge> itemCount then None
      else if currentItemReviewed then None
      else Some index)"

definition decideLessonAdvance :: "LessonAdvanceInput \<Rightarrow> LessonAdvanceDecision" where
  "decideLessonAdvance input =
     (if reviewSaving input then Blocked ([1057, 1086, 1093, 1088, 1072, 1085, 1103, 1077, 1084, 32, 1086, 1094, 1077, 1085, 1082, 1091, 8230]) Saving
      else if \<not> reviewPersisted input then Blocked ([1057, 1085, 1072, 1095, 1072, 1083, 1072, 32, 1089, 1086, 1093, 1088, 1072, 1085, 1080, 1090, 1077, 32, 1086, 1094, 1077, 1085, 1082, 1091]) ReviewRequired
      else
        let lastIndex = jmax 0 (li_itemCount input - 1) in
        if currentIndex input \<ge> lastIndex then
          (if \<not> serverCompleted input then Blocked ([1055, 1088, 1086, 1074, 1077, 1088, 1103, 1077, 1084, 32, 1079, 1072, 1074, 1077, 1088, 1096, 1077, 1085, 1080, 1077, 8230]) CompletionNotConfirmed
           else Results ([1050, 32, 1088, 1077, 1079, 1091, 1083, 1100, 1090, 1072, 1090, 1072, 1084]))
        else
          (case serverNextIndex input of
             None \<Rightarrow> Blocked ([1057, 1080, 1085, 1093, 1088, 1086, 1085, 1080, 1079, 1080, 1088, 1091, 1077, 1084, 32, 1087, 1086, 1079, 1080, 1094, 1080, 1102, 8230]) ServerPositionMissing
           | Some n \<Rightarrow>
               if \<not> isInteger n \<or> \<not> jeq n (currentIndex input + 1) \<or> n < 0 \<or> n \<ge> li_itemCount input
               then Blocked ([1054, 1073, 1085, 1086, 1074, 1080, 1090, 1077, 32, 1091, 1088, 1086, 1082]) ServerPositionInvalid
               else Next ([1044, 1072, 1083, 1100, 1096, 1077]) n))"

text \<open>The ratings are the values of a record by item.\<close>

definition summarizePersistedLesson :: "(jstr \<times> ReviewRating) list \<Rightarrow> jnum \<Rightarrow> LessonResultSummary" where
  "summarizePersistedLesson ratings itemCount =
     (let values = map snd ratings;
          known = length (filter (\<lambda>r. r = RateKnown) values);
          almost = length (filter (\<lambda>r. r = RateAlmost) values);
          again = length (filter (\<lambda>r. r = RateAgain) values);
          reviewed = known + almost + again in
      \<lparr>ls_known = known, ls_almost = almost, ls_again = again, ls_reviewed = reviewed,
       ls_skipped = jmax 0 (itemCount - jnat reviewed)\<rparr>)"

section \<open>The decision\<close>

text \<open>a lesson advances to another card exactly when the review is saved, the card is not the last one and the
  server has confirmed the very next position; it ends exactly when the review of the last card is saved and
  the server has confirmed completion; in every other case it is blocked.\<close>

theorem lesson_advance_decision:
  assumes "currentIndex input = jnat i" "li_itemCount input = jnat n"
  shows "((\<exists>l m. decideLessonAdvance input = Next l m) \<longleftrightarrow>
            \<not> reviewSaving input \<and> reviewPersisted input \<and> i + 1 < n \<and> serverNextIndex input = Some (jnat (i + 1)))
    \<and> ((\<exists>l. decideLessonAdvance input = Results l) \<longleftrightarrow>
            \<not> reviewSaving input \<and> reviewPersisted input \<and> n \<le> i + 1 \<and> serverCompleted input)
    \<and> (\<forall>l m. decideLessonAdvance input = Next l m \<longrightarrow> m = jnat (i + 1))"
proof -
  have last_card: "currentIndex input \<ge> jmax 0 (li_itemCount input - 1) \<longleftrightarrow> n \<le> i + 1"
    using assms by (auto simp: max_def)
  have pos: "(\<not> isInteger m \<or> \<not> jeq m (currentIndex input + 1) \<or> m < 0 \<or> m \<ge> li_itemCount input)
      \<longleftrightarrow> \<not> (m = jnat (i + 1) \<and> i + 1 < n)" for m
  proof -
    have "is_int (1 + rat_of_nat i)" using is_int_of_int(2) [of "Suc i"] by simp
    then show ?thesis using assms by (cases m) (auto simp: jeq_def add.commute)
  qed
  show ?thesis
    unfolding decideLessonAdvance_def Let_def last_card pos
    by (auto split: option.split)
qed

lemma lesson_advance_decision_witness:
  "\<exists>l. decideLessonAdvance \<lparr>currentIndex = 2, li_itemCount = 5, reviewPersisted = True, reviewSaving = False,
       serverCompleted = False, serverNextIndex = Some 3\<rparr> = Next l 3"
proof -
  let ?in = "\<lparr>currentIndex = 2, li_itemCount = 5, reviewPersisted = True, reviewSaving = False,
       serverCompleted = False, serverNextIndex = Some (3::jnum)\<rparr>"
  have "(\<exists>l m. decideLessonAdvance ?in = Next l m)"
    "(\<forall>l m. decideLessonAdvance ?in = Next l m \<longrightarrow> m = jnat 3)"
    using lesson_advance_decision [of ?in 2 5] by simp_all
  then show ?thesis by fastforce
qed

section \<open>A lesson run by the decision\<close>

text \<open>
  The client's position and the reviews it holds as saved.  A card is reviewed, or the client
  asks for the decision and follows it; what the server answers is arbitrary.
\<close>

record lesson_run =
  at_index :: nat
  saved :: "nat set"
  finished :: bool

definition advance_input :: "nat \<Rightarrow> lesson_run \<Rightarrow> bool \<Rightarrow> bool \<Rightarrow> jnum option \<Rightarrow> LessonAdvanceInput" where
  "advance_input n r saving completed next_index =
     \<lparr>currentIndex = jnat (at_index r), li_itemCount = jnat n, reviewPersisted = (at_index r \<in> saved r),
      reviewSaving = saving, serverCompleted = completed, serverNextIndex = next_index\<rparr>"

inductive lesson_step :: "nat \<Rightarrow> lesson_run \<Rightarrow> lesson_run \<Rightarrow> bool" for n where
  step_review: "\<not> finished r \<Longrightarrow> resolveActiveLessonIndex (jnat (at_index r)) (jnat n) (at_index r \<in> saved r) \<noteq> None \<Longrightarrow>
     lesson_step n r (r\<lparr>saved := insert (at_index r) (saved r)\<rparr>)"
| step_next: "\<not> finished r \<Longrightarrow>
     decideLessonAdvance (advance_input n r saving completed next_index) = Next l (jnat m) \<Longrightarrow>
     lesson_step n r (r\<lparr>at_index := m\<rparr>)"
| step_results: "\<not> finished r \<Longrightarrow>
     decideLessonAdvance (advance_input n r saving completed next_index) = Results l \<Longrightarrow>
     lesson_step n r (r\<lparr>finished := True\<rparr>)"

inductive_cases lesson_stepE: "lesson_step n r r'"

definition run_ok :: "nat \<Rightarrow> lesson_run \<Rightarrow> bool" where
  "run_ok n r \<longleftrightarrow> at_index r < n \<and> {..<at_index r} \<subseteq> saved r \<and> saved r \<subseteq> {..at_index r}
     \<and> (finished r \<longrightarrow> saved r = {..<n})"

lemma next_decision: "decideLessonAdvance (advance_input n r saving completed next_index) = Next l (jnat m) \<Longrightarrow>
    m = at_index r + 1 \<and> m < n \<and> at_index r \<in> saved r"
  using lesson_advance_decision [of "advance_input n r saving completed next_index" "at_index r" n]
  by (auto simp: advance_input_def)

lemma results_decision: "decideLessonAdvance (advance_input n r saving completed next_index) = Results l \<Longrightarrow>
    n \<le> at_index r + 1 \<and> at_index r \<in> saved r"
  using lesson_advance_decision [of "advance_input n r saving completed next_index" "at_index r" n]
  by (auto simp: advance_input_def)

lemma covered:
  "{..<i} \<subseteq> S \<Longrightarrow> i \<in> S \<Longrightarrow> S \<subseteq> {..i} \<Longrightarrow> i < n \<Longrightarrow> n \<le> i + 1 \<Longrightarrow> S = {..<n}" for i n :: nat
proof -
  assume a: "{..<i} \<subseteq> S" "i \<in> S" "S \<subseteq> {..i}" "i < n" "n \<le> i + 1"
  then have "S = {..i}" by (auto simp: le_less)
  with a(4,5) show "S = {..<n}" by auto
qed

lemma lesson_step_ok:
  assumes "lesson_step n r r'" "run_ok n r"
  shows "run_ok n r'"
  using assms(1)
proof (cases rule: lesson_step.cases)
  case step_review
  with assms(2) show ?thesis by (auto simp: run_ok_def)
next
  case (step_next saving completed next_index l m)
  from next_decision [OF step_next(3)] assms(2) step_next show ?thesis
    by (auto simp: run_ok_def less_Suc_eq subset_iff)
next
  case (step_results saving completed next_index l)
  from results_decision [OF step_results(3)] assms(2) step_results covered [of "at_index r" "saved r" n] show ?thesis
    by (auto simp: run_ok_def)
qed

text \<open>C10: whatever the server answers, a lesson run by these decisions reviews its cards in order, skips none, and is
  finished only when every card has a saved review.\<close>

theorem lesson_finishes_only_fully_reviewed:
  assumes "0 < n" "(lesson_step n)\<^sup>*\<^sup>* \<lparr>at_index = 0, saved = {}, finished = False\<rparr> r"
  shows "at_index r < n \<and> {..<at_index r} \<subseteq> saved r \<and> saved r \<subseteq> {..at_index r} \<and> (finished r \<longrightarrow> saved r = {..<n})"
proof -
  from assms(2) have "run_ok n r"
    by (induction rule: rtranclp_induct) (use assms(1) lesson_step_ok in \<open>auto simp: run_ok_def\<close>)
  then show ?thesis by (simp add: run_ok_def)
qed

lemma lesson_finishes_only_fully_reviewed_witness:
  "\<exists>r. (lesson_step 1)\<^sup>*\<^sup>* \<lparr>at_index = 0, saved = {}, finished = False\<rparr> r \<and> finished r \<and> saved r = {..<1}"
proof -
  let ?r0 = "\<lparr>at_index = 0, saved = {}, finished = False\<rparr>"
  let ?r1 = "\<lparr>at_index = 0, saved = {0}, finished = False\<rparr>"
  let ?r2 = "\<lparr>at_index = 0, saved = {0}, finished = True\<rparr>"
  have "lesson_step 1 ?r0 ?r1"
    using step_review [of ?r0 1] by (simp add: resolveActiveLessonIndex_def)
  moreover have "lesson_step 1 ?r1 ?r2"
    using step_results [of ?r1 1 False True None] by (simp add: decideLessonAdvance_def advance_input_def Let_def)
  ultimately have "(lesson_step 1)\<^sup>*\<^sup>* ?r0 ?r2" by (meson rtranclp.rtrancl_into_rtrancl rtranclp.rtrancl_refl)
  from this lesson_finishes_only_fully_reviewed [OF _ this] show ?thesis by (intro exI [of _ ?r2]) simp
qed

section \<open>The summary\<close>

text \<open>the summary counts every rated item exactly once, and with no more ratings than items the rated and the
  skipped ones make up the lesson.\<close>

theorem lesson_summary_partitions:
  "ls_reviewed (summarizePersistedLesson ratings (jnat n)) = length ratings
   \<and> ls_known (summarizePersistedLesson ratings (jnat n)) + ls_almost (summarizePersistedLesson ratings (jnat n))
       + ls_again (summarizePersistedLesson ratings (jnat n)) = length ratings
   \<and> ls_skipped (summarizePersistedLesson ratings (jnat n)) = jnat (n - length ratings)"
proof -
  have part: "length (filter (\<lambda>r. r = RateKnown) rs) + length (filter (\<lambda>r. r = RateAlmost) rs)
      + length (filter (\<lambda>r. r = RateAgain) rs) = length rs" for rs
  proof (induction rs)
    case (Cons r rs)
    then show ?case by (cases r) auto
  qed simp
  from part [of "map snd ratings"] have "ls_reviewed (summarizePersistedLesson ratings (jnat n)) = length ratings"
    by (simp add: summarizePersistedLesson_def Let_def)
  moreover have "max 0 (rat_of_nat n - rat_of_nat m) = rat_of_nat (n - m)" for m
    by (simp add: max_def of_nat_diff)
  ultimately show ?thesis by (simp add: summarizePersistedLesson_def Let_def)
qed

end
