(* ===== verification/Lesson_Result.thy ===== *)
theory Lesson_Result
  imports Progress Js_Storage
begin

text \<open>
  \<open>src/frontend/lib/lesson-result.ts\<close>: the snapshot of a finished lesson, built from what the
  lesson knows, kept in web storage for a day, validated when it is read back, and the
  decisions taken on it.  \<open>parse_date\<close> stands for \<open>Date.parse\<close> throughout.
\<close>

section \<open>Data\<close>

definition LESSON_RESULT_VERSION :: jnum where "LESSON_RESULT_VERSION = 2"
definition LESSON_RESULT_MAX_AGE_MS :: jnum where "LESSON_RESULT_MAX_AGE_MS = 24 * 60 * 60 * 1000"

text \<open>\<open>correct\<close> is \<open>None\<close> where the code has \<open>null\<close>.\<close>

record LessonResultJudgement =
  jd_mode :: AnswerMode
  jd_correct :: "bool option"

record LessonResultObjectiveEvidence =
  oe_attempted :: jnum
  oe_correct :: jnum
  oe_unavailable :: jnum

record LessonResultEvidence =
  ev_recall :: LessonResultObjectiveEvidence
  ev_recognition :: LessonResultObjectiveEvidence
  ev_reviewed :: jnum
  ev_total :: jnum

record LessonResultConfidence =
  cf_known :: jnum
  cf_almost :: jnum
  cf_again :: jnum

datatype LessonResultSessionKind = KindStudy | KindReview | KindRemediation
datatype LessonResultOutcomeState = OutEmpty | OutStudy | OutPartial | OutSkipped | OutComplete

record LessonResultSnapshot =
  sn_version :: jnum
  sn_userId :: jstr
  sn_lessonId :: jstr
  sn_source :: jstr
  studyMode :: AnswerMode
  sessionKind :: "LessonResultSessionKind option"
  lessonSize :: jstr
  sn_topic :: jstr
  completedAt :: jstr
  itemIds :: "jnum list"
  itemCount :: jnum
  evidence :: LessonResultEvidence
  confidence :: LessonResultConfidence
  skipped :: jnum
  sn_dueNow :: jnum
  sn_nextDueAt :: "jstr option"
  dailyGoal :: jnum
  reviewsBefore :: "jnum option"
  reviewsAfter :: "jnum option"
  objectiveReviewsToday :: "jnum option"
  objectiveSuccessfulToday :: "jnum option"
  currentStreak :: "jnum option"
  dailyGoalReached :: bool
  dailyGoalJustReached :: bool
  syncPending :: bool

datatype LessonResultContinuation =
  Checking | DailyGoal | NextLesson jstr jnum jnum | Due jnum | Home | SyncPending

datatype LessonResultRecommendedAction = RecNextLesson | RecDueReview | RecHome | RecNone

record LessonResultCandidate =
  cd_id :: jstr
  cd_itemIds :: "jnum list"

text \<open>Optional inputs are options; \<open>null\<close> and \<open>undefined\<close> are both \<open>None\<close>.\<close>

record BuildLessonResultSnapshotInput =
  bi_userId :: jstr
  bi_lessonId :: jstr
  bi_source :: jstr
  bi_studyMode :: AnswerMode
  bi_sessionKind :: "LessonResultSessionKind option"
  bi_lessonSize :: jstr
  bi_topic :: "jstr option"
  bi_completedAt :: "jstr option"
  bi_itemIds :: "jnum list"
  judgements :: "(jstr \<times> LessonResultJudgement) list"
  ratings :: "(jstr \<times> ReviewRating) list"
  bi_skipped :: jnum
  bi_dueNow :: jnum
  bi_nextDueAt :: "jstr option"
  bi_dailyGoal :: jnum
  bi_reviewsBefore :: "jnum option"
  bi_reviewsAfter :: "jnum option"
  bi_objectiveReviewsToday :: "jnum option"
  bi_objectiveSuccessfulToday :: "jnum option"
  bi_currentStreak :: "jnum option"
  bi_syncPending :: bool

section \<open>Building a snapshot\<close>

definition normalizeNullableCounter :: "jnum option \<Rightarrow> jnum option" where
  "normalizeNullableCounter value =
     (case value of Some x \<Rightarrow> if isFinite x then Some (jmax 0 x) else None | None \<Rightarrow> None)"

definition normalizeNextDueAt :: "(jstr \<Rightarrow> jnum) \<Rightarrow> jstr option \<Rightarrow> jstr option" where
  "normalizeNextDueAt parse_date value =
     (case value of None \<Rightarrow> None
      | Some v \<Rightarrow>
          let normalized = trim v in
          if normalized = [] \<or> \<not> isFinite (parse_date normalized) then None else Some normalized)"

definition objectiveEvidence :: "LessonResultJudgement list \<Rightarrow> AnswerMode \<Rightarrow> LessonResultObjectiveEvidence" where
  "objectiveEvidence values mode =
     (let relevant = filter (\<lambda>e. jd_mode e = mode) values;
          objective = filter (\<lambda>e. jd_correct e \<noteq> None) relevant in
      \<lparr>oe_attempted = jnat (length objective),
       oe_correct = jnat (length (filter (\<lambda>e. jd_correct e = Some True) objective)),
       oe_unavailable = jnat (length relevant) - jnat (length objective)\<rparr>)"

definition buildLessonResultEvidence :: "(jstr \<times> LessonResultJudgement) list \<Rightarrow> jnum \<Rightarrow> LessonResultEvidence" where
  "buildLessonResultEvidence js n_items =
     (let values = map snd js in
      \<lparr>ev_recall = objectiveEvidence values ModeRecall, ev_recognition = objectiveEvidence values ModeChoice,
       ev_reviewed = jnat (length values), ev_total = jmax 0 n_items\<rparr>)"

definition lessonResultOutcomeState :: "LessonResultSnapshot \<Rightarrow> LessonResultOutcomeState" where
  "lessonResultOutcomeState s =
     (let e = evidence s in
      if jeq (ev_reviewed e) 0 then OutEmpty
      else if skipped s > 0 then OutSkipped
      else if oe_unavailable (ev_recall e) + oe_unavailable (ev_recognition e) > 0 then OutPartial
      else if studyMode s = ModeStudy \<or> jeq (oe_attempted (ev_recall e) + oe_attempted (ev_recognition e)) 0 then OutStudy
      else OutComplete)"

definition count_rating :: "ReviewRating \<Rightarrow> (jstr \<times> ReviewRating) list \<Rightarrow> jnum" where
  "count_rating r rs = jnat (length (filter (\<lambda>x. x = r) (map snd rs)))"

text \<open>\<open>[...new Set(xs)]\<close>: the first occurrence of each value.\<close>

fun first_occurrences :: "'a list \<Rightarrow> 'a list" where
  "first_occurrences [] = []"
| "first_occurrences (x # xs) = x # filter (\<lambda>y. y \<noteq> x) (first_occurrences xs)"

definition buildLessonResultSnapshot ::
  "(jstr \<Rightarrow> jnum) \<Rightarrow> jstr \<Rightarrow> BuildLessonResultSnapshotInput \<Rightarrow> LessonResultSnapshot" where
  "buildLessonResultSnapshot parse_date now input =
     (let completed = or_default (bi_completedAt input) now;
          before = normalizeNullableCounter (bi_reviewsBefore input);
          after = normalizeNullableCounter (bi_reviewsAfter input);
          objective_reviews = normalizeNullableCounter (bi_objectiveReviewsToday input);
          objective_successful = normalizeNullableCounter (bi_objectiveSuccessfulToday input);
          streak = normalizeNullableCounter (bi_currentStreak input);
          goal = jmax 0 (bi_dailyGoal input);
          reached = (case after of None \<Rightarrow> False | Some a \<Rightarrow> goal > 0 \<and> a \<ge> goal);
          just_reached = (reached \<and> (case before of None \<Rightarrow> False | Some b \<Rightarrow> b < goal)) in
      \<lparr>sn_version = LESSON_RESULT_VERSION,
       sn_userId = bi_userId input,
       sn_lessonId = bi_lessonId input,
       sn_source = bi_source input,
       studyMode = bi_studyMode input,
       sessionKind = bi_sessionKind input,
       lessonSize = bi_lessonSize input,
       sn_topic = or_default (map_option trim (bi_topic input)) [],
       completedAt = completed,
       itemIds = first_occurrences (filter (\<lambda>v. isInteger v \<and> v > 0) (bi_itemIds input)),
       itemCount = jmax 0 (jnat (length (bi_itemIds input))),
       evidence = buildLessonResultEvidence (judgements input) (jnat (length (bi_itemIds input))),
       confidence = \<lparr>cf_known = count_rating RateKnown (ratings input),
         cf_almost = count_rating RateAlmost (ratings input), cf_again = count_rating RateAgain (ratings input)\<rparr>,
       skipped = jmax 0 (bi_skipped input),
       sn_dueNow = jmax 0 (bi_dueNow input),
       sn_nextDueAt = normalizeNextDueAt parse_date (bi_nextDueAt input),
       dailyGoal = goal,
       reviewsBefore = before,
       reviewsAfter = after,
       objectiveReviewsToday = objective_reviews,
       objectiveSuccessfulToday = objective_successful,
       currentStreak = streak,
       dailyGoalReached = reached,
       dailyGoalJustReached = just_reached,
       syncPending = bi_syncPending input\<rparr>)"

section \<open>Decisions\<close>

definition resolveLessonResultContinuation ::
  "LessonResultSnapshot \<Rightarrow> jnum option \<Rightarrow> jstr option \<Rightarrow> jnum option \<Rightarrow> LessonResultContinuation" where
  "resolveLessonResultContinuation s previewTotal nextTitle estimatedMinutes =
     (if syncPending s then SyncPending
      else if dailyGoalJustReached s then DailyGoal
      else if sn_dueNow s > 0 then Due (sn_dueNow s)
      else (case previewTotal of
          None \<Rightarrow> Checking
        | Some preview \<Rightarrow>
            if preview > 0 then
              NextLesson
                (let t = or_default (map_option trim nextTitle) [] in if t = [] then [1057, 1083, 1077, 1076, 1091, 1102, 1097, 1080, 1081, 32, 1091, 1095, 1077, 1073, 1085, 1099, 1081, 32, 1073, 1083, 1086, 1082] else t)
                preview
                (jmax 1 (jround (or_default estimatedMinutes (jdiv preview 2))))
            else Home))"

fun lessonResultRecommendedAction :: "LessonResultContinuation \<Rightarrow> LessonResultRecommendedAction" where
  "lessonResultRecommendedAction (NextLesson t n m) = RecNextLesson"
| "lessonResultRecommendedAction (Due n) = RecDueReview"
| "lessonResultRecommendedAction Checking = RecNone"
| "lessonResultRecommendedAction DailyGoal = RecHome"
| "lessonResultRecommendedAction Home = RecHome"
| "lessonResultRecommendedAction SyncPending = RecHome"

text \<open>The comparator \<open>(left, right) => left - right\<close>; a difference that is \<open>NaN\<close> counts as zero.\<close>

definition num_cmp :: "jnum \<Rightarrow> jnum \<Rightarrow> int" where
  "num_cmp l r = (if l - r < 0 then - 1 else if l - r > 0 then 1 else 0)"

definition isDistinctLessonResultCandidate :: "jstr \<Rightarrow> jnum list \<Rightarrow> LessonResultCandidate \<Rightarrow> bool" where
  "isDistinctLessonResultCandidate lessonId ids candidate =
     (if cd_id candidate = [] \<or> cd_id candidate = lessonId then False
      else
        let previous = js_sort num_cmp ids; next_ids = js_sort num_cmp (cd_itemIds candidate) in
        if length previous \<noteq> length next_ids then True
        else list_ex (\<lambda>(a, b). \<not> jeq a b) (zip previous next_ids))"

section \<open>The stored snapshot\<close>

fun mode_json :: "AnswerMode \<Rightarrow> jval" where
  "mode_json ModeStudy = JStr (u ''study'')" | "mode_json ModeRecall = JStr (u ''recall'')"
| "mode_json ModeChoice = JStr (u ''choice'')" | "mode_json ModeListening = JStr (u ''listening'')"

fun kind_json :: "LessonResultSessionKind \<Rightarrow> jval" where
  "kind_json KindStudy = JStr (u ''study'')" | "kind_json KindReview = JStr (u ''review'')"
| "kind_json KindRemediation = JStr (u ''remediation'')"

definition objective_json :: "LessonResultObjectiveEvidence \<Rightarrow> jval" where
  "objective_json e = JObj [(u ''attempted'', JNum (oe_attempted e)), (u ''correct'', JNum (oe_correct e)),
     (u ''unavailable'', JNum (oe_unavailable e))]"

definition evidence_json :: "LessonResultEvidence \<Rightarrow> jval" where
  "evidence_json e = JObj [(u ''recall'', objective_json (ev_recall e)),
     (u ''recognition'', objective_json (ev_recognition e)),
     (u ''activity'', JObj [(u ''reviewed'', JNum (ev_reviewed e)), (u ''total'', JNum (ev_total e))])]"

definition confidence_json :: "LessonResultConfidence \<Rightarrow> jval" where
  "confidence_json c = JObj [(u ''known'', JNum (cf_known c)), (u ''almost'', JNum (cf_almost c)), (u ''again'', JNum (cf_again c))]"

definition snapshot_json :: "LessonResultSnapshot \<Rightarrow> jval" where
  "snapshot_json s = JObj (
     [(u ''version'', JNum (sn_version s)), (u ''userId'', JStr (sn_userId s)), (u ''lessonId'', JStr (sn_lessonId s)),
      (u ''source'', JStr (sn_source s)), (u ''studyMode'', mode_json (studyMode s))]
     @ opt_prop ''sessionKind'' kind_json (sessionKind s)
     @ [(u ''lessonSize'', JStr (lessonSize s)), (u ''topic'', JStr (sn_topic s)), (u ''completedAt'', JStr (completedAt s)),
        (u ''itemIds'', JArr (map JNum (itemIds s))), (u ''itemCount'', JNum (itemCount s)),
        (u ''evidence'', evidence_json (evidence s)), (u ''confidence'', confidence_json (confidence s)),
        (u ''skipped'', JNum (skipped s)), (u ''dueNow'', JNum (sn_dueNow s)),
        (u ''nextDueAt'', nullable JStr (sn_nextDueAt s)), (u ''dailyGoal'', JNum (dailyGoal s)),
        (u ''reviewsBefore'', nullable JNum (reviewsBefore s)), (u ''reviewsAfter'', nullable JNum (reviewsAfter s)),
        (u ''objectiveReviewsToday'', nullable JNum (objectiveReviewsToday s)),
        (u ''objectiveSuccessfulToday'', nullable JNum (objectiveSuccessfulToday s)),
        (u ''currentStreak'', nullable JNum (currentStreak s)),
        (u ''dailyGoalReached'', JBool (dailyGoalReached s)), (u ''dailyGoalJustReached'', JBool (dailyGoalJustReached s)),
        (u ''syncPending'', JBool (syncPending s))])"

definition isFiniteNonNegative :: "jval \<Rightarrow> bool" where
  "isFiniteNonNegative v \<longleftrightarrow> v_isFinite v \<and> num_of v \<ge> 0"

definition isNullableFiniteNonNegative :: "jval \<Rightarrow> bool" where
  "isNullableFiniteNonNegative v \<longleftrightarrow> v = JNull \<or> isFiniteNonNegative v"

definition isStoredAnswerMode :: "jval \<Rightarrow> bool" where
  "isStoredAnswerMode v \<longleftrightarrow> is_lit v ''study'' \<or> is_lit v ''recall'' \<or> is_lit v ''choice''"

definition isLessonResultSessionKind :: "jval \<Rightarrow> bool" where
  "isLessonResultSessionKind v \<longleftrightarrow> is_lit v ''study'' \<or> is_lit v ''review'' \<or> is_lit v ''remediation''"

definition isNullableTimestamp :: "(jstr \<Rightarrow> jnum) \<Rightarrow> jval \<Rightarrow> bool" where
  "isNullableTimestamp parse_date v \<longleftrightarrow>
     v = JNull \<or> (is_string v \<and> length (trim (str_of v)) > 0 \<and> isFinite (parse_date (str_of v)))"

definition objective_readable :: "jval \<Rightarrow> bool" where
  "objective_readable e \<longleftrightarrow>
     isFiniteNonNegative (jget e ''attempted'') \<and> isFiniteNonNegative (jget e ''correct'')
     \<and> isFiniteNonNegative (jget e ''unavailable'') \<and> \<not> num_of (jget e ''correct'') > num_of (jget e ''attempted'')"

text \<open>The negation of the long condition of the code.\<close>

definition snapshot_readable :: "(jstr \<Rightarrow> jnum) \<Rightarrow> jstr \<Rightarrow> jval \<Rightarrow> bool" where
  "snapshot_readable parse_date userId parsed \<longleftrightarrow>
     (let ev = jget parsed ''evidence''; cf = jget parsed ''confidence'' in
      jget parsed ''version'' = JNum LESSON_RESULT_VERSION
      \<and> jget parsed ''userId'' = JStr userId
      \<and> is_string (jget parsed ''lessonId'')
      \<and> is_string (jget parsed ''source'')
      \<and> isStoredAnswerMode (jget parsed ''studyMode'')
      \<and> (jget parsed ''sessionKind'' = JUndef \<or> isLessonResultSessionKind (jget parsed ''sessionKind''))
      \<and> is_string (jget parsed ''lessonSize'')
      \<and> is_string (jget parsed ''topic'')
      \<and> is_string (jget parsed ''completedAt'')
      \<and> is_array (jget parsed ''itemIds'')
      \<and> list_all (\<lambda>v. v_isInteger v \<and> num_of v > 0) (arr_of (jget parsed ''itemIds''))
      \<and> isFiniteNonNegative (jget parsed ''itemCount'')
      \<and> isRecord ev \<and> isRecord (jget ev ''recall'') \<and> isRecord (jget ev ''recognition'') \<and> isRecord (jget ev ''activity'')
      \<and> objective_readable (jget ev ''recall'')
      \<and> objective_readable (jget ev ''recognition'')
      \<and> isFiniteNonNegative (jget (jget ev ''activity'') ''reviewed'')
      \<and> isFiniteNonNegative (jget (jget ev ''activity'') ''total'')
      \<and> \<not> num_of (jget (jget ev ''activity'') ''reviewed'') > num_of (jget (jget ev ''activity'') ''total'')
      \<and> isRecord cf
      \<and> isFiniteNonNegative (jget cf ''known'') \<and> isFiniteNonNegative (jget cf ''almost'') \<and> isFiniteNonNegative (jget cf ''again'')
      \<and> isFiniteNonNegative (jget parsed ''skipped'')
      \<and> isFiniteNonNegative (jget parsed ''dueNow'')
      \<and> isNullableTimestamp parse_date (jget parsed ''nextDueAt'')
      \<and> isFiniteNonNegative (jget parsed ''dailyGoal'')
      \<and> isNullableFiniteNonNegative (jget parsed ''reviewsBefore'')
      \<and> isNullableFiniteNonNegative (jget parsed ''reviewsAfter'')
      \<and> isNullableFiniteNonNegative (jget parsed ''objectiveReviewsToday'')
      \<and> isNullableFiniteNonNegative (jget parsed ''objectiveSuccessfulToday'')
      \<and> isNullableFiniteNonNegative (jget parsed ''currentStreak'')
      \<and> \<not> (jget parsed ''objectiveReviewsToday'' \<noteq> JNull \<and> jget parsed ''objectiveSuccessfulToday'' \<noteq> JNull
           \<and> num_of (jget parsed ''objectiveSuccessfulToday'') > num_of (jget parsed ''objectiveReviewsToday''))
      \<and> is_boolean (jget parsed ''dailyGoalReached'')
      \<and> is_boolean (jget parsed ''dailyGoalJustReached'')
      \<and> is_boolean (jget parsed ''syncPending''))"

definition snapshot_fresh :: "(jstr \<Rightarrow> jnum) \<Rightarrow> jnum \<Rightarrow> jstr \<Rightarrow> bool" where
  "snapshot_fresh parse_date now completed \<longleftrightarrow>
     (let c = parse_date completed in
      isFinite c \<and> \<not> now - c > LESSON_RESULT_MAX_AGE_MS \<and> \<not> c - now > 60000)"

definition lessonResultStorageKey :: "jstr \<Rightarrow> jstr" where
  "lessonResultStorageKey userId = u ''lexigo.lesson-result.v2.'' @ userId"

definition dailyGoalCelebrationKey :: "LessonResultSnapshot \<Rightarrow> jstr" where
  "dailyGoalCelebrationKey s = u ''lexigo.lesson-result.daily-goal.v2.'' @ sn_userId s @ u ''.'' @ take 10 (completedAt s)"

definition writeLessonResultSnapshot :: "storage \<Rightarrow> LessonResultSnapshot \<Rightarrow> js_exn + storage" where
  "writeLessonResultSnapshot st s =
     setItem st (lessonResultStorageKey (sn_userId s)) (json_stringify (snapshot_json s))"

text \<open>
  The value read back is the parsed object itself.  A snapshot that does not parse, is not
  readable or is stale is removed; what the storage throws is passed on.
\<close>

definition readLessonResultSnapshot ::
  "(jstr \<Rightarrow> jnum) \<Rightarrow> storage \<Rightarrow> jstr \<Rightarrow> jnum \<Rightarrow> js_exn + jval option \<times> storage" where
  "readLessonResultSnapshot parse_date st userId now =
     (case getItem st (lessonResultStorageKey userId) of
        Inl e \<Rightarrow> Inl e
      | Inr None \<Rightarrow> Inr (None, st)
      | Inr (Some raw) \<Rightarrow>
          if raw = [] then Inr (None, st)
          else
            let rejected = (case removeItem st (lessonResultStorageKey userId) of Inl e \<Rightarrow> Inl e | Inr st' \<Rightarrow> Inr (None, st')) in
            (case json_parse raw of
               None \<Rightarrow> rejected
             | Some parsed \<Rightarrow>
                 if isRecord parsed \<and> snapshot_readable parse_date userId parsed
                   \<and> snapshot_fresh parse_date now (str_of (jget parsed ''completedAt''))
                 then Inr (Some parsed, st) else rejected))"

definition clearLessonResultSnapshot :: "storage \<Rightarrow> jstr \<Rightarrow> js_exn + storage" where
  "clearLessonResultSnapshot st userId = removeItem st (lessonResultStorageKey userId)"

definition claimDailyGoalCelebration :: "storage \<Rightarrow> LessonResultSnapshot \<Rightarrow> js_exn + bool \<times> storage" where
  "claimDailyGoalCelebration st s =
     (if \<not> dailyGoalJustReached s then Inr (False, st)
      else (case getItem st (dailyGoalCelebrationKey s) of
          Inl e \<Rightarrow> Inl e
        | Inr found \<Rightarrow>
            if found \<noteq> None \<and> found \<noteq> Some [] then Inr (False, st)
            else (case setItem st (dailyGoalCelebrationKey s) (sn_lessonId s) of
                Inl e \<Rightarrow> Inl e
              | Inr st' \<Rightarrow> Inr (True, st'))))"

section \<open>A built snapshot survives the storage\<close>

lemma snapshot_json_props [simp]:
  "isRecord (snapshot_json s)"
  "jget (snapshot_json s) ''version'' = JNum (sn_version s)" "jget (snapshot_json s) ''userId'' = JStr (sn_userId s)"
  "jget (snapshot_json s) ''lessonId'' = JStr (sn_lessonId s)" "jget (snapshot_json s) ''source'' = JStr (sn_source s)"
  "jget (snapshot_json s) ''studyMode'' = mode_json (studyMode s)"
  "jget (snapshot_json s) ''sessionKind'' = case_option JUndef kind_json (sessionKind s)"
  "jget (snapshot_json s) ''lessonSize'' = JStr (lessonSize s)" "jget (snapshot_json s) ''topic'' = JStr (sn_topic s)"
  "jget (snapshot_json s) ''completedAt'' = JStr (completedAt s)"
  "jget (snapshot_json s) ''itemIds'' = JArr (map JNum (itemIds s))"
  "jget (snapshot_json s) ''itemCount'' = JNum (itemCount s)"
  "jget (snapshot_json s) ''evidence'' = evidence_json (evidence s)"
  "jget (snapshot_json s) ''confidence'' = confidence_json (confidence s)"
  "jget (snapshot_json s) ''skipped'' = JNum (skipped s)" "jget (snapshot_json s) ''dueNow'' = JNum (sn_dueNow s)"
  "jget (snapshot_json s) ''nextDueAt'' = nullable JStr (sn_nextDueAt s)"
  "jget (snapshot_json s) ''dailyGoal'' = JNum (dailyGoal s)"
  "jget (snapshot_json s) ''reviewsBefore'' = nullable JNum (reviewsBefore s)"
  "jget (snapshot_json s) ''reviewsAfter'' = nullable JNum (reviewsAfter s)"
  "jget (snapshot_json s) ''objectiveReviewsToday'' = nullable JNum (objectiveReviewsToday s)"
  "jget (snapshot_json s) ''objectiveSuccessfulToday'' = nullable JNum (objectiveSuccessfulToday s)"
  "jget (snapshot_json s) ''currentStreak'' = nullable JNum (currentStreak s)"
  "jget (snapshot_json s) ''dailyGoalReached'' = JBool (dailyGoalReached s)"
  "jget (snapshot_json s) ''dailyGoalJustReached'' = JBool (dailyGoalJustReached s)"
  "jget (snapshot_json s) ''syncPending'' = JBool (syncPending s)"
  by (simp_all add: snapshot_json_def split: option.split)

definition whole :: "jnum \<Rightarrow> bool" where
  "whole x \<longleftrightarrow> (\<exists>n. x = jnat n \<and> n \<le> 9007199254740991)"

definition whole_opt :: "jnum option \<Rightarrow> bool" where
  "whole_opt x \<longleftrightarrow> (case x of None \<Rightarrow> True | Some y \<Rightarrow> whole y)"

definition objective_ok :: "LessonResultObjectiveEvidence \<Rightarrow> bool" where
  "objective_ok e \<longleftrightarrow> whole (oe_attempted e) \<and> whole (oe_correct e) \<and> whole (oe_unavailable e)
     \<and> oe_correct e \<le> oe_attempted e"

definition snapshot_ok :: "(jstr \<Rightarrow> jnum) \<Rightarrow> LessonResultSnapshot \<Rightarrow> bool" where
  "snapshot_ok parse_date s \<longleftrightarrow>
     sn_version s = LESSON_RESULT_VERSION \<and> studyMode s \<noteq> ModeListening
     \<and> units_ok (sn_userId s) \<and> units_ok (sn_lessonId s) \<and> units_ok (sn_source s) \<and> units_ok (lessonSize s)
     \<and> units_ok (sn_topic s) \<and> units_ok (completedAt s)
     \<and> (\<forall>v\<in>set (itemIds s). whole v \<and> 0 < v) \<and> whole (itemCount s)
     \<and> objective_ok (ev_recall (evidence s)) \<and> objective_ok (ev_recognition (evidence s))
     \<and> whole (ev_reviewed (evidence s)) \<and> whole (ev_total (evidence s))
     \<and> ev_reviewed (evidence s) \<le> ev_total (evidence s)
     \<and> whole (cf_known (confidence s)) \<and> whole (cf_almost (confidence s)) \<and> whole (cf_again (confidence s))
     \<and> whole (skipped s) \<and> whole (sn_dueNow s) \<and> whole (dailyGoal s)
     \<and> (case sn_nextDueAt s of None \<Rightarrow> True | Some d \<Rightarrow> units_ok d \<and> trim d \<noteq> [] \<and> isFinite (parse_date d))
     \<and> whole_opt (reviewsBefore s) \<and> whole_opt (reviewsAfter s) \<and> whole_opt (objectiveReviewsToday s)
     \<and> whole_opt (objectiveSuccessfulToday s) \<and> whole_opt (currentStreak s)
     \<and> (\<forall>a b. objectiveReviewsToday s = Some a \<and> objectiveSuccessfulToday s = Some b \<longrightarrow> b \<le> a)"

lemma whole_counter: "whole x \<Longrightarrow> isFiniteNonNegative (JNum x)"
  by (auto simp: whole_def isFiniteNonNegative_def)

lemma whole_clean: "whole x \<Longrightarrow> num_clean x"
  by (auto simp: whole_def num_clean_def)

lemma whole_integer: "whole x \<Longrightarrow> isInteger x"
  by (auto simp: whole_def)

lemma whole_le: "whole x \<Longrightarrow> whole y \<Longrightarrow> x \<le> y \<Longrightarrow> \<not> y < x"
  by (auto simp: whole_def)

lemma nullable_eq [simp]: "nullable JNum x = JNull \<longleftrightarrow> x = None" "nullable JStr y = JNull \<longleftrightarrow> y = None"
  by (simp_all add: nullable_def split: option.split)

lemma whole_opt_counter: "whole_opt x \<Longrightarrow> isNullableFiniteNonNegative (nullable JNum x)"
  by (auto simp: whole_opt_def isNullableFiniteNonNegative_def nullable_def whole_counter split: option.splits)

lemma objective_ok_readable:
  "objective_ok e \<Longrightarrow> isRecord (objective_json e) \<and> objective_readable (objective_json e)"
  by (auto simp: objective_ok_def objective_readable_def objective_json_def whole_counter dest: whole_le)

lemma snapshot_ok_readable:
  assumes "snapshot_ok parse_date s"
  shows "snapshot_readable parse_date (sn_userId s) (snapshot_json s)"
proof -
  note ok = assms [unfolded snapshot_ok_def]
  have r: "objective_ok (ev_recall (evidence s))" "objective_ok (ev_recognition (evidence s))"
    and m: "studyMode s \<noteq> ModeListening" and ids: "\<forall>v\<in>set (itemIds s). whole v \<and> 0 < v"
    and due: "case sn_nextDueAt s of None \<Rightarrow> True | Some d \<Rightarrow> units_ok d \<and> trim d \<noteq> [] \<and> isFinite (parse_date d)"
    and obj: "whole_opt (objectiveReviewsToday s)" "whole_opt (objectiveSuccessfulToday s)"
      "\<forall>a b. objectiveReviewsToday s = Some a \<and> objectiveSuccessfulToday s = Some b \<longrightarrow> b \<le> a"
    and act: "whole (ev_reviewed (evidence s))" "whole (ev_total (evidence s))" "ev_reviewed (evidence s) \<le> ev_total (evidence s)"
    using ok by simp_all
  have o': "objective_readable (objective_json (ev_recall (evidence s)))" "isRecord (objective_json (ev_recall (evidence s)))"
    "objective_readable (objective_json (ev_recognition (evidence s)))" "isRecord (objective_json (ev_recognition (evidence s)))"
    using r objective_ok_readable by simp_all
  have "isStoredAnswerMode (mode_json (studyMode s))"
    using m by (cases "studyMode s") (auto simp: isStoredAnswerMode_def)
  moreover have "case_option JUndef kind_json (sessionKind s) = JUndef \<or> isLessonResultSessionKind (case_option JUndef kind_json (sessionKind s))"
    by (cases "sessionKind s"; simp; cases "the (sessionKind s)"; simp add: isLessonResultSessionKind_def)
  moreover have "list_all (\<lambda>v. v_isInteger v \<and> num_of v > 0) (map JNum (itemIds s))"
    using ids by (auto simp: list_all_iff whole_integer)
  moreover have "isNullableTimestamp parse_date (nullable JStr (sn_nextDueAt s))"
    using due by (auto simp: isNullableTimestamp_def nullable_def split: option.splits)
  moreover have "\<not> (nullable JNum (objectiveReviewsToday s) \<noteq> JNull \<and> nullable JNum (objectiveSuccessfulToday s) \<noteq> JNull
      \<and> num_of (nullable JNum (objectiveSuccessfulToday s)) > num_of (nullable JNum (objectiveReviewsToday s)))"
    using obj by (auto simp: nullable_def whole_opt_def dest: whole_le split: option.splits)
  moreover have "\<not> ev_total (evidence s) < ev_reviewed (evidence s)" using act whole_le by simp
  ultimately show ?thesis
    using ok o' by (simp add: snapshot_readable_def Let_def evidence_json_def confidence_json_def whole_counter whole_opt_counter)
qed

lemma snapshot_ok_clean:
  assumes "snapshot_ok parse_date s"
  shows "clean (snapshot_json s)"
proof -
  note ok = assms [unfolded snapshot_ok_def]
  have "clean (mode_json m)" "clean (kind_json k)" for m k by (cases m; simp) (cases k; simp)
  moreover have "clean (nullable JNum x)" if "whole_opt x" for x
    using that by (auto simp: nullable_def whole_opt_def whole_clean split: option.splits)
  moreover have "clean (nullable JStr (sn_nextDueAt s))" using ok by (auto simp: nullable_def split: option.splits)
  moreover have "clean (objective_json e)" if "objective_ok e" for e
    using that by (simp add: objective_json_def objective_ok_def whole_clean)
  moreover have "clean (JArr (map JNum (itemIds s)))" using ok by (auto simp: list_all_iff whole_clean)
  moreover have "num_clean LESSON_RESULT_VERSION" by (simp add: LESSON_RESULT_VERSION_def num_clean_def)
  ultimately show ?thesis
    using ok by (cases "sessionKind s")
      (simp_all add: snapshot_json_def evidence_json_def confidence_json_def opt_prop_def whole_clean)
qed

text \<open>Inputs as the lesson has them: safe counters, at most one judgement per item, no listening mode.\<close>

definition safe_opt :: "jnum option \<Rightarrow> bool" where
  "safe_opt x \<longleftrightarrow> (case x of None \<Rightarrow> True | Some y \<Rightarrow> isSafeInteger y)"

definition build_input_ok :: "BuildLessonResultSnapshotInput \<Rightarrow> jstr \<Rightarrow> bool" where
  "build_input_ok input now \<longleftrightarrow>
     bi_studyMode input \<noteq> ModeListening
     \<and> units_ok (bi_userId input) \<and> units_ok (bi_lessonId input) \<and> units_ok (bi_source input) \<and> units_ok (bi_lessonSize input)
     \<and> units_ok (or_default (bi_topic input) []) \<and> units_ok (or_default (bi_completedAt input) now)
     \<and> (\<forall>v\<in>set (bi_itemIds input). isSafeInteger v)
     \<and> length (bi_itemIds input) \<le> 9007199254740991 \<and> length (ratings input) \<le> 9007199254740991
     \<and> length (judgements input) \<le> length (bi_itemIds input)
     \<and> isSafeInteger (bi_skipped input) \<and> isSafeInteger (bi_dueNow input) \<and> isSafeInteger (bi_dailyGoal input)
     \<and> units_ok (or_default (bi_nextDueAt input) [])
     \<and> safe_opt (bi_reviewsBefore input) \<and> safe_opt (bi_reviewsAfter input) \<and> safe_opt (bi_objectiveReviewsToday input)
     \<and> safe_opt (bi_objectiveSuccessfulToday input) \<and> safe_opt (bi_currentStreak input)
     \<and> (\<forall>a b. bi_objectiveReviewsToday input = Some a \<and> bi_objectiveSuccessfulToday input = Some b \<longrightarrow> b \<le> a)"

lemma safe_int: "isSafeInteger x \<Longrightarrow> \<exists>i. x = jint i \<and> \<bar>i\<bar> \<le> 9007199254740991"
proof -
  assume s: "isSafeInteger x"
  then obtain i where i: "x = jint i" by (auto simp: isInteger_iff isSafeInteger_def)
  with s have "\<bar>rat_of_int i\<bar> \<le> 9007199254740991" by simp
  then have "\<bar>i\<bar> \<le> 9007199254740991" by linarith
  with i show ?thesis by blast
qed

lemma whole_int: "0 \<le> i \<Longrightarrow> i \<le> 9007199254740991 \<Longrightarrow> whole (jint i)"
  by (auto simp: whole_def intro!: exI [of _ "nat i"])

lemma whole_max: "isSafeInteger x \<Longrightarrow> whole (jmax (Fin 0) x)"
proof -
  assume "isSafeInteger x"
  then obtain i where i: "x = jint i" "\<bar>i\<bar> \<le> 9007199254740991" using safe_int by blast
  then have "jmax (Fin 0) x = jint (max 0 i)" by (simp add: max_def)
  with i whole_int [of "max 0 i"] show ?thesis by simp
qed

lemma whole_nat [simp]: "n \<le> 9007199254740991 \<Longrightarrow> whole (jnat n)"
  by (auto simp: whole_def)

lemma normalized_counter: "safe_opt x \<Longrightarrow> whole_opt (normalizeNullableCounter x)"
  by (auto simp: safe_opt_def whole_opt_def normalizeNullableCounter_def whole_max split: option.splits)

lemma normalized_counter_mono:
  assumes "normalizeNullableCounter x = Some a" "normalizeNullableCounter y = Some b"
    and "\<forall>a b. x = Some a \<and> y = Some b \<longrightarrow> b \<le> a"
  shows "b \<le> a"
  using assms by (auto simp: normalizeNullableCounter_def isFinite_iff split: option.splits if_splits)

lemma objective_evidence_ok:
  assumes "length values \<le> 9007199254740991"
  shows "objective_ok (objectiveEvidence values mode)"
proof -
  let ?r = "filter (\<lambda>e. jd_mode e = mode) values"
  let ?o = "filter (\<lambda>e. jd_correct e \<noteq> None) ?r"
  let ?c = "filter (\<lambda>e. jd_correct e = Some True) ?o"
  have l: "length ?r \<le> length values" "length ?o \<le> length ?r" "length ?c \<le> length ?o" by (simp_all only: length_filter_le)
  then have w: "whole (jnat (length ?o))" "whole (jnat (length ?c))" "whole (jnat (length ?r - length ?o))"
    using assms by (intro whole_nat; linarith)+
  have "jnat (length ?r) - jnat (length ?o) = jnat (length ?r - length ?o)"
    using l(2) by (simp add: of_nat_diff)
  then have "objectiveEvidence values mode = \<lparr>oe_attempted = jnat (length ?o), oe_correct = jnat (length ?c),
      oe_unavailable = jnat (length ?r - length ?o)\<rparr>"
    by (simp only: objectiveEvidence_def Let_def)
  moreover have "jnat (length ?c) \<le> jnat (length ?o)" using l(3) by simp
  ultimately show ?thesis
    unfolding objective_ok_def using w by (simp only: LessonResultObjectiveEvidence.select_convs)
qed

lemma set_first_occurrences [simp]: "set (first_occurrences xs) = set xs"
  by (induction xs) auto

lemma distinct_first_occurrences: "distinct (first_occurrences xs)"
  by (induction xs) auto

lemma normalized_due:
  "normalizeNextDueAt parse_date x = Some d \<Longrightarrow> units_ok (or_default x []) \<Longrightarrow>
     units_ok d \<and> trim d \<noteq> [] \<and> isFinite (parse_date d)"
  by (auto simp: normalizeNextDueAt_def Let_def or_default_def split: option.splits if_splits)

lemma built_snapshot_ok:
  assumes "build_input_ok input now"
  shows "snapshot_ok parse_date (buildLessonResultSnapshot parse_date now input)"
proof -
  note ok = assms [unfolded build_input_ok_def]
  let ?n = "length (bi_itemIds input)"
  have n: "?n \<le> 9007199254740991" "length (judgements input) \<le> ?n" "length (ratings input) \<le> 9007199254740991" using ok by simp_all
  have ids: "whole v" if "v \<in> set (bi_itemIds input)" "0 < v" for v
  proof -
    have "isSafeInteger v" using ok that(1) by simp
    then obtain i where "v = jint i" "\<bar>i\<bar> \<le> 9007199254740991" using safe_int by blast
    with that whole_int [of i] show ?thesis by simp
  qed
  have cnt: "whole (count_rating r (ratings input))" for r
    using n(3) le_trans [OF length_filter_le [of _ "map snd (ratings input)"]] by (simp add: count_rating_def)
  have ev: "objective_ok (objectiveEvidence (map snd (judgements input)) m)" for m
    using n by (intro objective_evidence_ok) simp
  have topic: "units_ok (or_default (map_option trim (bi_topic input)) [])"
    using ok by (auto simp: or_default_def split: option.splits)
  have due: "case normalizeNextDueAt parse_date (bi_nextDueAt input) of None \<Rightarrow> True
      | Some d \<Rightarrow> units_ok d \<and> trim d \<noteq> [] \<and> isFinite (parse_date d)"
    using normalized_due [of parse_date "bi_nextDueAt input"] ok by (simp split: option.split)
  have obj: "b \<le> a" if "normalizeNullableCounter (bi_objectiveReviewsToday input) = Some a"
      "normalizeNullableCounter (bi_objectiveSuccessfulToday input) = Some b" for a b
    using normalized_counter_mono [OF that] ok by simp
  have tot: "jmax (Fin 0) (jnat ?n) = jnat ?n" by simp
  show ?thesis
    unfolding snapshot_ok_def buildLessonResultSnapshot_def buildLessonResultEvidence_def Let_def
    using ok n ids cnt ev topic due obj tot by (simp add: whole_max normalized_counter del: jmax_Fin)
qed


text \<open>what is read back belongs to the user, passes every check of the validator and is fresh; a snapshot that
  fails any of them is removed, and every other entry of the storage stays.\<close>

theorem read_snapshot_is_valid_or_removed:
  assumes "readLessonResultSnapshot parse_date st userId now = Inr (res, st')"
  shows "case res of
      Some v \<Rightarrow> st' = st \<and> snapshot_readable parse_date userId v
        \<and> snapshot_fresh parse_date now (str_of (jget v ''completedAt''))
    | None \<Rightarrow> (\<forall>k. k \<noteq> lessonResultStorageKey userId \<longrightarrow> items st' k = items st k)
        \<and> (items st' (lessonResultStorageKey userId) = None \<or> items st' (lessonResultStorageKey userId) = Some [])"
proof -
  let ?k = "lessonResultStorageKey userId"
  have gone: "res = None \<and> items st' = (items st)(?k := None)"
    if "(case removeItem st ?k of Inl e \<Rightarrow> Inl e | Inr t \<Rightarrow> Inr (None, t)) = Inr (res, st')"
    using that store.remove_view [of st ?k st'] by (auto split: sum.splits)
  show ?thesis
  proof (cases "getItem st ?k")
    case (Inr entry)
    then have view: "items st ?k = entry" using store.get_view by blast
    show ?thesis
    proof (cases "entry = None \<or> entry = Some []")
      case True
      with assms Inr view show ?thesis by (auto simp: readLessonResultSnapshot_def)
    next
      case False
      then obtain raw where raw: "entry = Some raw" "raw \<noteq> []" by auto
      show ?thesis
      proof (cases "\<exists>v. json_parse raw = Some v \<and> isRecord v \<and> snapshot_readable parse_date userId v
          \<and> snapshot_fresh parse_date now (str_of (jget v ''completedAt''))")
        case True
        then obtain v where v: "json_parse raw = Some v" "isRecord v" "snapshot_readable parse_date userId v"
            "snapshot_fresh parse_date now (str_of (jget v ''completedAt''))" by blast
        with assms Inr raw have "res = Some v" "st' = st" by (simp_all add: readLessonResultSnapshot_def)
        with v show ?thesis by simp
      next
        case False
        with assms Inr raw have "(case removeItem st ?k of Inl e \<Rightarrow> Inl e | Inr t \<Rightarrow> Inr (None, t)) = Inr (res, st')"
          by (cases "json_parse raw") (simp_all add: readLessonResultSnapshot_def split: if_splits)
        from gone [OF this] show ?thesis by simp
      qed
    qed
  qed (use assms in \<open>simp add: readLessonResultSnapshot_def\<close>)
qed

section \<open>The celebration of the daily goal\<close>

text \<open>Snapshots claimed one after the other; the result pairs each claim with its key.\<close>

fun claim_all :: "storage \<Rightarrow> LessonResultSnapshot list \<Rightarrow> (jstr \<times> bool) list" where
  "claim_all st [] = []"
| "claim_all st (s # ss) =
     (case claimDailyGoalCelebration st s of
        Inl e \<Rightarrow> (dailyGoalCelebrationKey s, False) # claim_all st ss
      | Inr (granted, st') \<Rightarrow> (dailyGoalCelebrationKey s, granted) # claim_all st' ss)"

lemma claim_cases:
  assumes "claimDailyGoalCelebration st s = Inr (granted, st')"
  obtains (refused) "\<not> granted" "st' = st"
    | (granted) "granted" "dailyGoalJustReached s" "items st (dailyGoalCelebrationKey s) = None \<or> items st (dailyGoalCelebrationKey s) = Some []"
        "items st' = (items st)(dailyGoalCelebrationKey s \<mapsto> sn_lessonId s)"
  using assms store.put_view store.get_view
  by (auto simp: claimDailyGoalCelebration_def split: if_splits sum.splits)

lemma claimed_key_refused:
  assumes "items st k = Some v" "v \<noteq> []" "\<forall>s\<in>set ss. sn_lessonId s \<noteq> []"
  shows "(k, True) \<notin> set (claim_all st ss)"
  using assms
proof (induction ss arbitrary: st v)
  case (Cons s ss)
  show ?case
  proof (cases "claimDailyGoalCelebration st s")
    case (Inl e)
    with Cons show ?thesis by auto
  next
    case (Inr r)
    obtain granted st' where r: "r = (granted, st')" by (cases r)
    from Inr [unfolded r] show ?thesis
    proof (cases rule: claim_cases)
      case refused
      with Cons Inr r show ?thesis by auto
    next
      case granted
      with Cons.prems(1,2) have "k \<noteq> dailyGoalCelebrationKey s" by auto
      with granted Cons Inr r show ?thesis by auto
    qed
  qed
qed simp


section \<open>The next lesson and the continuation\<close>

interpretation ids_order: comparator "\<lambda>a b. num_cmp (jint a) (jint b)"
  by unfold_locales (auto simp: num_cmp_def split: if_splits)

lemma sort_ids: "js_sort num_cmp (map jint is) = map jint (js_sort (\<lambda>a b. num_cmp (jint a) (jint b)) is)"
proof -
  have i: "insort_cmp num_cmp (jint a) (map jint xs) = map jint (insort_cmp (\<lambda>a b. num_cmp (jint a) (jint b)) a xs)" for a xs
    by (induction xs) auto
  show ?thesis by (induction "is") (simp_all add: js_sort_def i)
qed

lemma sorted_ids: "sorted (js_sort (\<lambda>a b. num_cmp (jint a) (jint b)) is)"
  using ids_order.sorted_js_sort [of "is"]
  by (rule sorted_wrt_mono_rel [rotated]) (auto simp: num_cmp_def split: if_splits)

lemma sorted_ids_mset:
  "js_sort (\<lambda>a b. num_cmp (jint a) (jint b)) as = js_sort (\<lambda>a b. num_cmp (jint a) (jint b)) bs \<longleftrightarrow> mset as = mset bs"
proof
  assume "js_sort (\<lambda>a b. num_cmp (jint a) (jint b)) as = js_sort (\<lambda>a b. num_cmp (jint a) (jint b)) bs"
  from arg_cong [where f = mset, OF this] show "mset as = mset bs" by simp
next
  assume m: "mset as = mset bs"
  have s: "js_sort (\<lambda>a b. num_cmp (jint a) (jint b)) cs = sort cs" for cs
    by (rule properties_for_sort [symmetric]) (simp_all add: sorted_ids)
  show "js_sort (\<lambda>a b. num_cmp (jint a) (jint b)) as = js_sort (\<lambda>a b. num_cmp (jint a) (jint b)) bs"
    unfolding s by (rule properties_for_sort) (simp_all add: m [symmetric])
qed

lemma list_ex_zip_neq:
  "length xs = length ys \<Longrightarrow> list_ex (\<lambda>(a, b). \<not> jeq a b) (zip (map jint xs) (map jint ys)) \<longleftrightarrow> xs \<noteq> ys"
  by (induction xs ys rule: list_induct2) auto

text \<open>a candidate for the next lesson counts as a different one exactly when it has an id of its own and its items,
  counted with repetition and in any order, differ from those of the finished lesson.\<close>

theorem distinct_candidate_iff:
  "isDistinctLessonResultCandidate lessonId (map jint as) \<lparr>cd_id = c, cd_itemIds = map jint bs\<rparr>
     \<longleftrightarrow> c \<noteq> [] \<and> c \<noteq> lessonId \<and> mset as \<noteq> mset bs"
proof -
  let ?a = "js_sort (\<lambda>a b. num_cmp (jint a) (jint b)) as" and ?b = "js_sort (\<lambda>a b. num_cmp (jint a) (jint b)) bs"
  have d: "isDistinctLessonResultCandidate lessonId (map jint as) \<lparr>cd_id = c, cd_itemIds = map jint bs\<rparr> \<longleftrightarrow>
      c \<noteq> [] \<and> c \<noteq> lessonId \<and>
      (length as \<noteq> length bs \<or> list_ex (\<lambda>(a, b). \<not> jeq a b) (zip (map jint ?a) (map jint ?b)))"
    by (simp only: isDistinctLessonResultCandidate_def LessonResultCandidate.select_convs Let_def sort_ids length_map length_js_sort)
      simp
  show ?thesis
  proof (cases "length as = length bs")
    case True
    then have "length ?a = length ?b" by simp
    note e = list_ex_zip_neq [OF this]
    show ?thesis unfolding d e sorted_ids_mset using True by blast
  next
    case False
    then have "mset as \<noteq> mset bs" by (metis size_mset)
    with False show ?thesis unfolding d by simp
  qed
qed

text \<open>C21: a snapshot of a lesson in listening mode, which the type of the mode allows, never survives: reading it
  back finds it invalid and removes it.\<close>

theorem listening_snapshot_never_read:
  assumes "studyMode s = ModeListening" "clean (snapshot_json s)"
    and "writeLessonResultSnapshot st s = Inr st'" "\<not> get_denied st" "\<not> remove_denied st'"
  shows "\<exists>st''. readLessonResultSnapshot parse_date st' (sn_userId s) now = Inr (None, st'')
    \<and> items st'' (lessonResultStorageKey (sn_userId s)) = None"
proof -
  have "getItem st (lessonResultStorageKey (sn_userId s)) = Inr (items st (lessonResultStorageKey (sn_userId s)))"
    using assms(4) by (simp add: getItem_def)
  then have "getItem st' (lessonResultStorageKey (sn_userId s)) = Inr (Some (json_stringify (snapshot_json s)))"
    using assms(3) jslot.load_saved [OF assms(2)] by (auto simp: writeLessonResultSnapshot_def)
  moreover have "\<not> snapshot_readable parse_date (sn_userId s) (snapshot_json s)"
    using assms(1) by (simp add: snapshot_readable_def Let_def isStoredAnswerMode_def)
  ultimately show ?thesis
    using json_text_nonempty [OF assms(2)] json.dec_enc [OF assms(2)] assms(5)
    by (simp add: readLessonResultSnapshot_def removeItem_def)
qed

section \<open>Examples\<close>

definition sample_result_input :: BuildLessonResultSnapshotInput where
  "sample_result_input = \<lparr>bi_userId = u ''u1'', bi_lessonId = u ''l1'', bi_source = u ''daily'', bi_studyMode = ModeRecall,
     bi_sessionKind = Some KindReview, bi_lessonSize = u ''15'', bi_topic = Some (u '' Travel ''), bi_completedAt = None,
     bi_itemIds = [4, 9, 4], judgements = [(u ''4'', \<lparr>jd_mode = ModeRecall, jd_correct = Some True\<rparr>)],
     ratings = [(u ''4'', RateKnown)], bi_skipped = 1, bi_dueNow = 0, bi_nextDueAt = Some (u ''2026-01-02T00:00:00Z''),
     bi_dailyGoal = 20, bi_reviewsBefore = Some 18, bi_reviewsAfter = Some 21, bi_objectiveReviewsToday = Some 5,
     bi_objectiveSuccessfulToday = Some 4, bi_currentStreak = None, bi_syncPending = False\<rparr>"

definition sample_snapshot :: LessonResultSnapshot where
  "sample_snapshot = buildLessonResultSnapshot (\<lambda>d. 0) (u ''2026-01-01T00:00:00Z'') sample_result_input"

lemma sample_input_ok: "build_input_ok sample_result_input (u ''2026-01-01T00:00:00Z'')"
  by (simp add: sample_result_input_def build_input_ok_def or_default_def safe_opt_def)

lemma sample_fresh: "snapshot_fresh (\<lambda>d. 0) 1000 (completedAt sample_snapshot)"
  by (simp add: snapshot_fresh_def LESSON_RESULT_MAX_AGE_MS_def)

lemma sample_written:
  "\<exists>st'. writeLessonResultSnapshot empty_storage sample_snapshot = Inr st' \<and> \<not> get_denied st' \<and> \<not> remove_denied st'"
  by (simp add: writeLessonResultSnapshot_def setItem_def empty_storage_def)


lemma read_snapshot_is_valid_or_removed_witness:
  "\<exists>res st'. readLessonResultSnapshot (\<lambda>d. 0) empty_storage (u ''u1'') 1000 = Inr (res, st') \<and> res = None
     \<and> items st' (lessonResultStorageKey (u ''u1'')) \<noteq> Some (u ''x'')"
proof -
  have r: "readLessonResultSnapshot (\<lambda>d. 0) empty_storage (u ''u1'') 1000 = Inr (None, empty_storage)"
    by (simp add: readLessonResultSnapshot_def getItem_def empty_storage_def)
  from read_snapshot_is_valid_or_removed [OF r] r show ?thesis by auto
qed


lemma listening_snapshot_never_read_witness:
  "\<exists>st' st''. writeLessonResultSnapshot empty_storage (sample_snapshot\<lparr>studyMode := ModeListening\<rparr>) = Inr st'
     \<and> readLessonResultSnapshot (\<lambda>d. 0) st' (u ''u1'') 1000 = Inr (None, st'')"
proof -
  let ?s = "sample_snapshot\<lparr>studyMode := ModeListening\<rparr>"
  have user: "sn_userId ?s = u ''u1''"
    by (simp add: sample_snapshot_def buildLessonResultSnapshot_def sample_result_input_def Let_def)
  have c: "clean (snapshot_json sample_snapshot)"
    unfolding sample_snapshot_def by (rule snapshot_ok_clean [OF built_snapshot_ok [OF sample_input_ok]])
  have m: "clean (mode_json m)" for m by (cases m) simp_all
  have "clean (snapshot_json ?s)" using c m by (simp add: snapshot_json_def)
  moreover obtain st' where st': "writeLessonResultSnapshot empty_storage ?s = Inr st'" "\<not> remove_denied st'"
    by (simp add: writeLessonResultSnapshot_def setItem_def empty_storage_def)
  moreover have "\<not> get_denied empty_storage" by (simp add: empty_storage_def)
  ultimately obtain st'' where "readLessonResultSnapshot (\<lambda>d. 0) st' (sn_userId ?s) 1000 = Inr (None, st'')"
    using listening_snapshot_never_read [of ?s empty_storage st' "\<lambda>d. 0" 1000] by auto
  with st' user show ?thesis by auto
qed

end
