(* ===== verification/Recorder.thy ===== *)
theory Recorder
  imports Js_Prelude
begin

text \<open>
  \<open>src/frontend/lib/pronunciation-recorder.ts\<close>: the recorder object as a state machine.  The
  browser's side of it (microphone streams that still run, object URLs that are still
  registered, promises that were settled) is part of the state, so that ownership can be stated.
  A call to the browser ends in one of the outcomes of the datatypes below; a \<open>MediaRecorder\<close>
  is known by the lifecycle token it was started with.  Exceptions of \<open>track.stop\<close>,
  \<open>MediaRecorder.stop\<close> during cleanup and \<open>revokeObjectURL\<close> are swallowed by the code and leave
  no trace here.  Listeners do not call back into the recorder.
\<close>

section \<open>Data\<close>

datatype PronunciationRecorderState = Unsupported | Idle | Requesting | Recording | Stopping | Recorded | Denied | Failed
datatype RecorderErrorCode = PermissionDenied | RecordingFailed | UnsupportedCode

text \<open>Object URLs and streams are numbered.\<close>

record PronunciationRecording =
  pr_url :: nat
  pr_mimeType :: jstr
  pr_size :: nat
  pr_durationMs :: jnum

record PronunciationRecorderSnapshot =
  sn_state :: PronunciationRecorderState
  sn_recording :: "PronunciationRecording option"
  sn_errorCode :: "RecorderErrorCode option"

definition PRONUNCIATION_RECORDER_MAX_DURATION_MS :: jnum where
  "PRONUNCIATION_RECORDER_MAX_DURATION_MS = 30000"

definition RECORDING_MIME_TYPES :: "jstr list" where
  "RECORDING_MIME_TYPES = [u ''audio/webm;codecs=opus'', u ''audio/webm'', u ''audio/mp4'', u ''audio/ogg;codecs=opus'']"

text \<open>Which capabilities the environment has; the probe of a type may throw (\<open>None\<close>).\<close>

record RecorderDependencies =
  dep_getUserMedia :: bool
  dep_createRecorder :: bool
  dep_isMimeTypeSupported :: "(jstr \<Rightarrow> bool option) option"
  dep_createObjectURL :: bool
  dep_revokeObjectURL :: bool

datatype media_error = DOMException jstr | OtherError

definition isPermissionDenied :: "media_error \<Rightarrow> bool" where
  "isPermissionDenied e =
     (case e of DOMException name \<Rightarrow> name = u ''NotAllowedError'' \<or> name = u ''SecurityError'' | OtherError \<Rightarrow> False)"

definition selectRecordingMimeType :: "(jstr \<Rightarrow> bool option) option \<Rightarrow> jstr option" where
  "selectRecordingMimeType probe =
     (case probe of None \<Rightarrow> None
      | Some isMimeTypeSupported \<Rightarrow> find (\<lambda>m. isMimeTypeSupported m = Some True) RECORDING_MIME_TYPES)"

text \<open>
  The fields of the class.  \<open>recorder\<close> holds the token and the type its handlers were created
  with; \<open>pending\<close> is the running permission request with the token and the type it will use
  (\<open>permissionRequestPending\<close>).
\<close>

record PronunciationRecorder =
  dependencies :: RecorderDependencies
  maxDurationMs :: jnum
  listeners :: "nat list"
  snapshot :: PronunciationRecorderSnapshot
  stream :: "nat option"
  recorder :: "(nat \<times> jstr) option"
  chunks :: "nat list"
  startedAt :: jnum
  timeout :: bool
  recordingURL :: "nat option"
  lifecycle :: nat
  pending :: "(nat \<times> jstr) option"
  disposed :: bool
  stopPromise :: "nat option"
  resolveStop :: "nat option"

record recorder_page = PronunciationRecorder +
  page_streams :: "nat list"
  page_urls :: "nat list"
  page_next :: nat
  page_promises :: nat
  page_settled :: "(nat \<times> PronunciationRecorderSnapshot) list"
  page_heard :: "(nat \<times> PronunciationRecorderSnapshot) list"

definition constructor :: "jnum option \<Rightarrow> RecorderDependencies \<Rightarrow> recorder_page" where
  "constructor maxDuration deps =
     (let supported = dep_getUserMedia deps \<and> dep_createRecorder deps \<and> dep_isMimeTypeSupported deps \<noteq> None
            \<and> dep_createObjectURL deps \<and> dep_revokeObjectURL deps in
      \<lparr>dependencies = deps,
       maxDurationMs = jmax 1000 (jmin PRONUNCIATION_RECORDER_MAX_DURATION_MS
         (case maxDuration of None \<Rightarrow> PRONUNCIATION_RECORDER_MAX_DURATION_MS | Some m \<Rightarrow> m)),
       listeners = [],
       snapshot = \<lparr>sn_state = (if supported then Idle else Unsupported), sn_recording = None,
         sn_errorCode = (if supported then None else Some UnsupportedCode)\<rparr>,
       stream = None, recorder = None, chunks = [], startedAt = 0, timeout = False, recordingURL = None,
       lifecycle = 0, pending = None, disposed = False, stopPromise = None, resolveStop = None,
       page_streams = [], page_urls = [], page_next = 0, page_promises = 0, page_settled = [], page_heard = []\<rparr>)"

section \<open>The private steps\<close>

definition publish :: "PronunciationRecorderSnapshot \<Rightarrow> recorder_page \<Rightarrow> recorder_page" where
  "publish sn s = s\<lparr>snapshot := sn, page_heard := page_heard s @ map (\<lambda>l. (l, sn)) (listeners s)\<rparr>"

definition publishError :: "recorder_page \<Rightarrow> recorder_page" where
  "publishError s =
     publish \<lparr>sn_state = Failed, sn_recording = sn_recording (snapshot s), sn_errorCode = Some RecordingFailed\<rparr> s"

definition stopMediaStream :: "nat option \<Rightarrow> recorder_page \<Rightarrow> recorder_page" where
  "stopMediaStream str s = (case str of None \<Rightarrow> s | Some i \<Rightarrow> s\<lparr>page_streams := removeAll i (page_streams s)\<rparr>)"

definition detachRecorder :: "recorder_page \<Rightarrow> recorder_page" where
  "detachRecorder s = s\<lparr>recorder := None\<rparr>"

definition cancelTimeout :: "recorder_page \<Rightarrow> recorder_page" where
  "cancelTimeout s = s\<lparr>timeout := False\<rparr>"

definition revokeRecordingURL :: "recorder_page \<Rightarrow> recorder_page" where
  "revokeRecordingURL s =
     (case recordingURL s of None \<Rightarrow> s
      | Some url \<Rightarrow> s\<lparr>recordingURL := None, page_urls := removeAll url (page_urls s)\<rparr>)"

definition resolvePendingStop :: "PronunciationRecorderSnapshot \<Rightarrow> recorder_page \<Rightarrow> recorder_page" where
  "resolvePendingStop sn s =
     s\<lparr>resolveStop := None, stopPromise := None,
       page_settled := (case resolveStop s of None \<Rightarrow> page_settled s | Some p \<Rightarrow> page_settled s @ [(p, sn)])\<rparr>"

definition failActiveRecording :: "recorder_page \<Rightarrow> recorder_page" where
  "failActiveRecording s =
     (let s = detachRecorder (cancelTimeout (s\<lparr>lifecycle := lifecycle s + 1\<rparr>));
          s = (stopMediaStream (stream s) s)\<lparr>stream := None, chunks := []\<rparr>;
          s = publishError s in
      resolvePendingStop (snapshot s) s)"

text \<open>\<open>now\<close> is the clock, \<open>url_ok\<close> says whether \<open>createObjectURL\<close> returns.\<close>

definition finishRecording :: "jstr \<Rightarrow> int \<Rightarrow> bool \<Rightarrow> recorder_page \<Rightarrow> recorder_page" where
  "finishRecording mimeType now url_ok s =
     (let durationMs = jmax 0 (jmin (maxDurationMs s) (jint now - startedAt s));
          blob_size = sum_list (chunks s);
          s = cancelTimeout s;
          s = (detachRecorder ((stopMediaStream (stream s) s)\<lparr>stream := None\<rparr>))\<lparr>chunks := []\<rparr> in
      if blob_size = 0 then (let s = publishError s in resolvePendingStop (snapshot s) s)
      else if \<not> url_ok then (let s = publishError s in resolvePendingStop (snapshot s) s)
      else
        let url = page_next s;
            s = s\<lparr>recordingURL := Some url, page_urls := url # page_urls s, page_next := url + 1\<rparr>;
            s = publish \<lparr>sn_state = Recorded,
              sn_recording = Some \<lparr>pr_url = url, pr_mimeType = mimeType, pr_size = blob_size, pr_durationMs = durationMs\<rparr>,
              sn_errorCode = None\<rparr> s in
        resolvePendingStop (snapshot s) s)"

section \<open>The public operations\<close>

definition subscribe :: "nat \<Rightarrow> recorder_page \<Rightarrow> recorder_page" where
  "subscribe l s = s\<lparr>listeners := List.insert l (listeners s)\<rparr>"

definition unsubscribe :: "nat \<Rightarrow> recorder_page \<Rightarrow> recorder_page" where
  "unsubscribe l s = s\<lparr>listeners := removeAll l (listeners s)\<rparr>"

text \<open>\<open>startRecording\<close> up to its \<open>await\<close>, and from there with the outcome of the request.\<close>

definition startRecording :: "recorder_page \<Rightarrow> recorder_page" where
  "startRecording s =
     (if disposed s then publishError s
      else if sn_state (snapshot s) = Unsupported then s
      else if pending s \<noteq> None \<or> recorder s \<noteq> None then s
      else case selectRecordingMimeType (dep_isMimeTypeSupported (dependencies s)) of
        None \<Rightarrow> publish \<lparr>sn_state = Unsupported, sn_recording = None, sn_errorCode = Some UnsupportedCode\<rparr> s
      | Some mimeType \<Rightarrow>
          let token = lifecycle s + 1 in
          publish \<lparr>sn_state = Requesting, sn_recording = sn_recording (snapshot s), sn_errorCode = None\<rparr>
            (s\<lparr>lifecycle := token, pending := Some (token, mimeType)\<rparr>))"

datatype recorder_outcome = NotCreated | NotStarted | StartedRecorder
datatype media_outcome = MediaRejected media_error | MediaGranted recorder_outcome

definition begin_recorder :: "nat \<Rightarrow> nat \<Rightarrow> jstr \<Rightarrow> int \<Rightarrow> recorder_page \<Rightarrow> recorder_page" where
  "begin_recorder i token mimeType now s =
     (revokeRecordingURL s)\<lparr>stream := Some i, recorder := Some (token, mimeType), chunks := [], startedAt := jint now\<rparr>"

definition media_settled :: "media_outcome \<Rightarrow> int \<Rightarrow> recorder_page \<Rightarrow> recorder_page" where
  "media_settled outcome now s =
     (case pending s of None \<Rightarrow> s
      | Some (token, mimeType) \<Rightarrow>
          let s = s\<lparr>pending := None\<rparr> in
          (case outcome of
             MediaRejected e \<Rightarrow>
               if token \<noteq> lifecycle s \<or> disposed s then s
               else if isPermissionDenied e then
                 publish \<lparr>sn_state = Denied, sn_recording = sn_recording (snapshot s), sn_errorCode = Some PermissionDenied\<rparr> s
               else publishError s
           | MediaGranted r \<Rightarrow>
               let i = page_next s;
                   s = s\<lparr>page_streams := i # page_streams s, page_next := i + 1\<rparr> in
               if token \<noteq> lifecycle s \<or> disposed s then stopMediaStream (Some i) s
               else case r of
                 NotCreated \<Rightarrow> publishError (stopMediaStream (Some i) s)
               | NotStarted \<Rightarrow> failActiveRecording (begin_recorder i token mimeType now s)
               | StartedRecorder \<Rightarrow>
                   (publish \<lparr>sn_state = Recording, sn_recording = None, sn_errorCode = None\<rparr>
                     (begin_recorder i token mimeType now s))\<lparr>timeout := True\<rparr>))"

text \<open>The handlers of the recorder with the given token; detached or stale ones do nothing.\<close>

definition active_recorder :: "nat \<Rightarrow> recorder_page \<Rightarrow> bool" where
  "active_recorder token s \<longleftrightarrow> token = lifecycle s \<and> (\<exists>m. recorder s = Some (token, m))"

definition ondataavailable :: "nat \<Rightarrow> nat \<Rightarrow> recorder_page \<Rightarrow> recorder_page" where
  "ondataavailable token data_size s =
     (if \<not> active_recorder token s \<or> data_size = 0 then s else s\<lparr>chunks := chunks s @ [data_size]\<rparr>)"

definition recorder_onerror :: "nat \<Rightarrow> recorder_page \<Rightarrow> recorder_page" where
  "recorder_onerror token s = (if \<not> active_recorder token s then s else failActiveRecording s)"

definition recorder_onstop :: "nat \<Rightarrow> int \<Rightarrow> bool \<Rightarrow> recorder_page \<Rightarrow> recorder_page" where
  "recorder_onstop token now url_ok s =
     (if \<not> active_recorder token s then s else finishRecording (snd (the (recorder s))) now url_ok s)"

text \<open>\<open>stop_ok\<close> says whether \<open>MediaRecorder.stop\<close> returns.\<close>

definition stopRecording :: "bool \<Rightarrow> recorder_page \<Rightarrow> recorder_page" where
  "stopRecording stop_ok s =
     (if recorder s = None \<or> sn_state (snapshot s) \<noteq> Recording then s
      else if stopPromise s \<noteq> None then s
      else
        let s = publish \<lparr>sn_state = Stopping, sn_recording = None, sn_errorCode = None\<rparr> s;
            p = page_promises s;
            s = s\<lparr>page_promises := p + 1, resolveStop := Some p, stopPromise := Some p\<rparr> in
        if stop_ok then s else failActiveRecording s)"

definition cancel :: "recorder_page \<Rightarrow> recorder_page" where
  "cancel s =
     (let s = detachRecorder (cancelTimeout (s\<lparr>lifecycle := lifecycle s + 1\<rparr>));
          s = (stopMediaStream (stream s) s)\<lparr>stream := None, chunks := []\<rparr>;
          idle = \<lparr>sn_state = Idle, sn_recording = None, sn_errorCode = None\<rparr> in
      publish idle (revokeRecordingURL (resolvePendingStop idle s)))"

definition clearRecording :: "recorder_page \<Rightarrow> recorder_page" where
  "clearRecording s =
     (let s = revokeRecordingURL s in
      if sn_recording (snapshot s) \<noteq> None
      then publish \<lparr>sn_state = Idle, sn_recording = None, sn_errorCode = None\<rparr> s else s)"

definition dispose :: "recorder_page \<Rightarrow> recorder_page" where
  "dispose s = (if disposed s then s else (cancel s)\<lparr>disposed := True, listeners := []\<rparr>)"

section \<open>Histories\<close>

datatype recorder_event = Subscribe nat | Unsubscribe nat | Start | MediaSettled media_outcome int | DataAvailable nat nat
  | RecorderError nat | RecorderStop nat int bool | Stop bool | TimerFires bool | Cancel | Clear | Dispose

fun recorder_step :: "recorder_event \<Rightarrow> recorder_page \<Rightarrow> recorder_page" where
  "recorder_step (Subscribe l) s = subscribe l s"
| "recorder_step (Unsubscribe l) s = unsubscribe l s"
| "recorder_step Start s = startRecording s"
| "recorder_step (MediaSettled r now) s = media_settled r now s"
| "recorder_step (DataAvailable t n) s = ondataavailable t n s"
| "recorder_step (RecorderError t) s = recorder_onerror t s"
| "recorder_step (RecorderStop t now ok) s = recorder_onstop t now ok s"
| "recorder_step (Stop ok) s = stopRecording ok s"
| "recorder_step (TimerFires ok) s = (if timeout s then stopRecording ok s else s)"
| "recorder_step Cancel s = cancel s"
| "recorder_step Clear s = clearRecording s"
| "recorder_step Dispose s = dispose s"

definition recorder_after :: "jnum option \<Rightarrow> RecorderDependencies \<Rightarrow> recorder_event list \<Rightarrow> recorder_page" where
  "recorder_after maxDuration deps events = fold recorder_step events (constructor maxDuration deps)"


section \<open>Ownership\<close>

text \<open>
  What the fields of the object promise: the running streams and registered URLs are exactly
  those it still holds, a recorder is held exactly while recording or stopping, and a promise
  handed out is pending only while stopping.
\<close>

definition recording_ok :: "jnum \<Rightarrow> PronunciationRecording \<Rightarrow> bool" where
  "recording_ok limit r \<longleftrightarrow> 0 < pr_size r \<and> pr_mimeType r \<in> set RECORDING_MIME_TYPES \<and> 0 \<le> pr_durationMs r \<and> pr_durationMs r \<le> limit"

definition holds_ok :: "recorder_page \<Rightarrow> bool" where
  "holds_ok s \<longleftrightarrow> page_streams s = (case stream s of None \<Rightarrow> [] | Some i \<Rightarrow> [i])
     \<and> page_urls s = (case recordingURL s of None \<Rightarrow> [] | Some x \<Rightarrow> [x])
     \<and> (stream s = None \<longleftrightarrow> recorder s = None) \<and> (timeout s \<longleftrightarrow> recorder s \<noteq> None)"

definition phase_ok :: "recorder_page \<Rightarrow> bool" where
  "phase_ok s \<longleftrightarrow> (recorder s \<noteq> None \<longleftrightarrow> sn_state (snapshot s) \<in> {Recording, Stopping})
     \<and> (\<forall>t m. recorder s = Some (t, m) \<longrightarrow> t = lifecycle s \<and> m \<in> set RECORDING_MIME_TYPES \<and> pending s = None
          \<and> sn_recording (snapshot s) = None \<and> recordingURL s = None)
     \<and> (\<forall>t m. pending s = Some (t, m) \<longrightarrow> m \<in> set RECORDING_MIME_TYPES)
     \<and> (sn_state (snapshot s) = Requesting \<longrightarrow> (\<exists>m. pending s = Some (lifecycle s, m)))
     \<and> (pending s \<noteq> None \<longrightarrow> sn_state (snapshot s) \<noteq> Unsupported)
     \<and> (disposed s \<longrightarrow> recorder s = None \<and> recordingURL s = None \<and> sn_state (snapshot s) \<noteq> Requesting)"

definition media_ok :: "recorder_page \<Rightarrow> bool" where
  "media_ok s \<longleftrightarrow> (\<exists>limit. maxDurationMs s = Fin limit \<and> 0 \<le> limit) \<and> (\<exists>b. startedAt s = Fin b)
     \<and> (\<forall>r. sn_recording (snapshot s) = Some r \<longrightarrow> recording_ok (maxDurationMs s) r)
     \<and> (\<forall>x. recordingURL s = Some x \<longrightarrow> sn_state (snapshot s) = Unsupported \<or>
          (\<exists>r. sn_recording (snapshot s) = Some r \<and> pr_url r = x))"

text \<open>The promises handed out by \<open>stopRecording\<close>: settled once each, but for the one still open.\<close>

definition ledger_ok :: "(nat \<times> 'a) list \<Rightarrow> nat option \<Rightarrow> nat \<Rightarrow> bool" where
  "ledger_ok settled open_one n \<longleftrightarrow>
     distinct (map fst settled @ (case open_one of None \<Rightarrow> [] | Some p \<Rightarrow> [p]))
     \<and> set (map fst settled) \<union> set_option open_one = {0..<n}"

definition promises_ok :: "recorder_page \<Rightarrow> bool" where
  "promises_ok s \<longleftrightarrow> resolveStop s = stopPromise s \<and> (stopPromise s \<noteq> None \<longleftrightarrow> sn_state (snapshot s) = Stopping)
     \<and> ledger_ok (page_settled s) (stopPromise s) (page_promises s)"

definition recorder_ok :: "recorder_page \<Rightarrow> bool" where
  "recorder_ok s \<longleftrightarrow> holds_ok s \<and> phase_ok s \<and> media_ok s \<and> promises_ok s"

lemma ledger_empty: "ledger_ok [] None 0"
  by (simp add: ledger_ok_def)

lemma ledger_resolve:
  "ledger_ok settled p n \<Longrightarrow> ledger_ok (settled @ (case p of None \<Rightarrow> [] | Some q \<Rightarrow> [(q, sn)])) None n"
  by (cases p) (simp_all add: ledger_ok_def)

lemma ledger_issue: "ledger_ok settled None n \<Longrightarrow> ledger_ok settled (Some n) (Suc n)"
  by (auto simp: ledger_ok_def)

text \<open>The steps without a case distinction over the whole state.\<close>

lemma stop_stream_eq:
  "stopMediaStream str s = s\<lparr>page_streams := filter (\<lambda>i. Some i \<noteq> str) (page_streams s)\<rparr>"
  by (cases str) (simp_all add: stopMediaStream_def removeAll_filter_not_eq eq_commute)

lemma revoke_eq:
  "revokeRecordingURL s = s\<lparr>recordingURL := None, page_urls := filter (\<lambda>x. Some x \<noteq> recordingURL s) (page_urls s)\<rparr>"
proof (cases "recordingURL s")
  case (Some x)
  have "(\<lambda>y. Some y \<noteq> recordingURL s) = (\<lambda>y. x \<noteq> y)" using Some by auto
  then show ?thesis by (simp add: revokeRecordingURL_def removeAll_filter_not_eq Some)
qed (simp add: revokeRecordingURL_def)

lemma resolve_eq:
  "resolvePendingStop sn s = s\<lparr>resolveStop := None, stopPromise := None,
     page_settled := page_settled s @ (case resolveStop s of None \<Rightarrow> [] | Some p \<Rightarrow> [(p, sn)])\<rparr>"
  by (cases "resolveStop s") (simp_all add: resolvePendingStop_def)

lemmas recorder_steps = stop_stream_eq revoke_eq resolve_eq publish_def publishError_def detachRecorder_def cancelTimeout_def Let_def

lemma holds_streams: "holds_ok s \<Longrightarrow> filter (\<lambda>i. Some i \<noteq> stream s) (page_streams s) = []"
  by (simp add: holds_ok_def split: option.splits)

lemma holds_urls: "holds_ok s \<Longrightarrow> filter (\<lambda>x. Some x \<noteq> recordingURL s) (page_urls s) = []"
  by (simp add: holds_ok_def split: option.splits)

lemma selected_type: "selectRecordingMimeType p = Some m \<Longrightarrow> m \<in> set RECORDING_MIME_TYPES"
  by (auto simp: selectRecordingMimeType_def find_Some_iff split: option.splits)

text \<open>Giving up what is held and publishing one of the two snapshots without a new recording.\<close>

definition given_up :: "recorder_page \<Rightarrow> recorder_page \<Rightarrow> bool" where
  "given_up s s' \<longleftrightarrow> stream s' = None \<and> recorder s' = None \<and> timeout s' = False \<and> page_streams s' = []
     \<and> maxDurationMs s' = maxDurationMs s \<and> (\<exists>b. startedAt s' = Fin b)
     \<and> sn_state (snapshot s') \<in> {Failed, Idle, Denied} \<and> stopPromise s' = None \<and> resolveStop s' = None
     \<and> ledger_ok (page_settled s') None (page_promises s')
     \<and> disposed s' = disposed s \<and> (pending s' = None \<or> pending s' = pending s)"

lemma given_up_ok:
  assumes "recorder_ok s" "given_up s s'"
    and "(recordingURL s' = recordingURL s \<and> page_urls s' = page_urls s \<and> sn_recording (snapshot s') = sn_recording (snapshot s)
            \<and> sn_state (snapshot s) \<noteq> Unsupported)
         \<or> (recordingURL s' = None \<and> page_urls s' = []
            \<and> (sn_recording (snapshot s') = sn_recording (snapshot s) \<or> sn_recording (snapshot s') = None))"
  shows "recorder_ok s'"
proof -
  have f: "stream s' = None" "recorder s' = None" "\<not> timeout s'" "page_streams s' = []" "maxDurationMs s' = maxDurationMs s"
    "\<exists>b. startedAt s' = Fin b" "stopPromise s' = None" "resolveStop s' = None"
    "ledger_ok (page_settled s') None (page_promises s')" "disposed s' = disposed s" "pending s' = None \<or> pending s' = pending s"
    "sn_state (snapshot s') \<in> {Failed, Idle, Denied}"
    using assms(2) by (simp_all add: given_up_def)
  have s: "page_urls s = (case recordingURL s of None \<Rightarrow> [] | Some x \<Rightarrow> [x])" "disposed s \<Longrightarrow> recordingURL s = None"
    "\<And>t m. pending s = Some (t, m) \<Longrightarrow> m \<in> set RECORDING_MIME_TYPES"
    "\<exists>limit. maxDurationMs s = Fin limit \<and> 0 \<le> limit"
    "\<And>r. sn_recording (snapshot s) = Some r \<Longrightarrow> recording_ok (maxDurationMs s) r"
    "\<And>x. recordingURL s = Some x \<Longrightarrow> sn_state (snapshot s) = Unsupported \<or> (\<exists>r. sn_recording (snapshot s) = Some r \<and> pr_url r = x)"
    using assms(1) by (simp_all add: recorder_ok_def holds_ok_def phase_ok_def media_ok_def)
  have ids: "sn_state (snapshot s') \<notin> {Recording, Stopping, Requesting, Unsupported}" using f(12) by auto
  have u: "page_urls s' = (case recordingURL s' of None \<Rightarrow> [] | Some x \<Rightarrow> [x])" using assms(3) s(1) by auto
  have "holds_ok s'" using f(1-4) u by (simp add: holds_ok_def)
  moreover have "phase_ok s'"
  proof -
    have "m \<in> set RECORDING_MIME_TYPES" if "pending s' = Some (t, m)" for t m using f(11) s(3) [of t m] that by (metis option.distinct(1))
    moreover have "disposed s' \<longrightarrow> recordingURL s' = None" using f(10) s(2) assms(3) by auto
    ultimately show ?thesis using f(2) ids by (simp add: phase_ok_def)
  qed
  moreover have "media_ok s'" using f(5,6) s(4,5,6) assms(3) by (auto simp: media_ok_def)
  moreover have "promises_ok s'" using f(7,8,9) ids by (simp add: promises_ok_def)
  ultimately show ?thesis by (simp add: recorder_ok_def)
qed

lemma fail_given_up: "recorder_ok s \<Longrightarrow> given_up s (failActiveRecording s)"
  by (auto simp: given_up_def failActiveRecording_def recorder_steps holds_streams recorder_ok_def media_ok_def
      promises_ok_def intro!: ledger_resolve)

lemma fail_keeps:
  "recordingURL (failActiveRecording s) = recordingURL s" "page_urls (failActiveRecording s) = page_urls s"
  "sn_recording (snapshot (failActiveRecording s)) = sn_recording (snapshot s)"
  by (simp_all add: failActiveRecording_def recorder_steps)

lemma fail_ok: "recorder_ok s \<Longrightarrow> sn_state (snapshot s) \<noteq> Unsupported \<Longrightarrow> recorder_ok (failActiveRecording s)"
  by (rule given_up_ok [OF _ fail_given_up]) (simp_all add: fail_keeps)

lemma cancel_given_up: "recorder_ok s \<Longrightarrow> given_up s (cancel s)"
  by (auto simp: given_up_def cancel_def recorder_steps holds_streams recorder_ok_def media_ok_def
      promises_ok_def intro!: ledger_resolve)

lemma cancel_ok: "recorder_ok s \<Longrightarrow> recorder_ok (cancel s)"
  by (rule given_up_ok [OF _ cancel_given_up]) (simp_all add: cancel_def recorder_steps holds_urls recorder_ok_def)


lemma finish_ok:
  assumes "recorder_ok s" "recorder s = Some (token, m)"
  shows "recorder_ok (finishRecording m now url_ok s)"
proof -
  have st: "sn_state (snapshot s) \<in> {Recording, Stopping}" and m: "m \<in> set RECORDING_MIME_TYPES"
    and u: "recordingURL s = None" and "sn_recording (snapshot s) = None" and d: "\<not> disposed s" and p: "pending s = None"
    using assms by (auto simp: recorder_ok_def phase_ok_def)
  from assms obtain limit b where lim: "maxDurationMs s = Fin limit" "0 \<le> limit" and b: "startedAt s = Fin b"
    by (auto simp: recorder_ok_def media_ok_def)
  have led: "ledger_ok (page_settled s) (stopPromise s) (page_promises s)" "resolveStop s = stopPromise s"
    using assms(1) by (simp_all add: recorder_ok_def promises_ok_def)
  have h: "holds_ok s" using assms(1) by (simp add: recorder_ok_def)
  show ?thesis
  proof (cases "sum_list (chunks s) = 0 \<or> \<not> url_ok")
    case True
    define r where "r = (stopMediaStream (stream s) (cancelTimeout s))\<lparr>stream := None, recorder := None, chunks := []\<rparr>"
    have e: "finishRecording m now url_ok s = resolvePendingStop (snapshot (publishError r)) (publishError r)"
      using True unfolding r_def finishRecording_def Let_def detachRecorder_def cancelTimeout_def stop_stream_eq by auto
    have "given_up s (finishRecording m now url_ok s)"
      using h led b by (simp add: e r_def given_up_def recorder_steps holds_streams ledger_resolve)
    then show ?thesis
      by (rule given_up_ok [OF assms(1)]) (use st in \<open>auto simp: e r_def recorder_steps\<close>)
  next
    case False
    have pu: "page_urls s = []" using h u by (simp add: holds_ok_def)
    define n where "n = sum_list (chunks s)"
    have n: "n \<noteq> 0" "url_ok" using False by (simp_all add: n_def)
    let ?s' = "finishRecording m now url_ok s"
    have f: "snapshot ?s' = \<lparr>sn_state = Recorded,
          sn_recording = Some \<lparr>pr_url = page_next s, pr_mimeType = m, pr_size = n,
            pr_durationMs = jmax 0 (jmin (maxDurationMs s) (jint now - startedAt s))\<rparr>, sn_errorCode = None\<rparr>"
      "recordingURL ?s' = Some (page_next s)" "page_urls ?s' = [page_next s]" "page_streams ?s' = []" "stream ?s' = None"
      "recorder ?s' = None" "\<not> timeout ?s'" "disposed ?s' = disposed s" "pending ?s' = pending s" "maxDurationMs ?s' = maxDurationMs s"
      "startedAt ?s' = startedAt s" "stopPromise ?s' = None" "resolveStop ?s' = None"
      "ledger_ok (page_settled ?s') None (page_promises ?s')"
      unfolding finishRecording_def Let_def n_def [symmetric]
      using n pu holds_streams [OF h] led by (simp_all add: recorder_steps ledger_resolve)
    have r: "recording_ok (maxDurationMs s) \<lparr>pr_url = page_next s, pr_mimeType = m, pr_size = n,
        pr_durationMs = jmax 0 (jmin (maxDurationMs s) (jint now - startedAt s))\<rparr>"
      using n m lim b by (auto simp: recording_ok_def)
    have "holds_ok ?s'" using f by (simp add: holds_ok_def)
    moreover have "phase_ok ?s'" using f d p by (simp add: phase_ok_def)
    moreover have "media_ok ?s'" using f r lim b by (simp add: media_ok_def)
    moreover have "promises_ok ?s'" using f by (simp add: promises_ok_def)
    ultimately show ?thesis by (simp add: recorder_ok_def)
  qed
qed

text \<open>A snapshot that says the request failed, or that a new one begins, over the same recording.\<close>

lemma publish_waiting_ok:
  assumes "recorder_ok s" "recorder s = None" "sn_state (snapshot s) \<noteq> Unsupported"
    and "sn_state sn \<in> {Denied, Failed} \<or> (sn_state sn = Requesting \<and> \<not> disposed s \<and> (\<exists>m. pending s = Some (lifecycle s, m)))"
    and "sn_recording sn = sn_recording (snapshot s)"
  shows "recorder_ok (publish sn s)"
proof -
  have h: "holds_ok s" "phase_ok s" "media_ok s" "promises_ok s" using assms(1) by (simp_all add: recorder_ok_def)
  have p: "snapshot (publish sn s) = sn" "stream (publish sn s) = stream s" by (simp_all add: publish_def)
  have "stopPromise s = None" using h(2,4) assms(2) by (auto simp: phase_ok_def promises_ok_def)
  then have "promises_ok (publish sn s)" using h(4) assms(4) by (auto simp: promises_ok_def publish_def)
  moreover have "phase_ok (publish sn s)" using h(2) assms(2,4) by (auto simp: phase_ok_def publish_def)
  moreover have "media_ok (publish sn s)" using h(3) assms(3,5) by (simp add: media_ok_def publish_def)
  moreover have "holds_ok (publish sn s)" using h(1) by (simp add: holds_ok_def publish_def)
  ultimately show ?thesis by (simp add: recorder_ok_def)
qed


lemma keeps_ok:
  assumes "recorder_ok s"
  shows "recorder_ok (subscribe l s)" "recorder_ok (unsubscribe l s)" "recorder_ok (ondataavailable t n s)"
  using assms
  by (simp_all add: recorder_ok_def holds_ok_def phase_ok_def media_ok_def promises_ok_def subscribe_def unsubscribe_def
      ondataavailable_def)

lemma start_ok:
  assumes "recorder_ok s"
  shows "recorder_ok (startRecording s)"
proof -
  have dis: "recorder s = None" if "disposed s" using assms that by (simp add: recorder_ok_def phase_ok_def)
  show ?thesis
  proof (cases "disposed s")
    case True
    have u: "recordingURL s = None" using assms True by (simp add: recorder_ok_def phase_ok_def)
    have l: "ledger_ok (page_settled s) None (page_promises s)" "stopPromise s = None" "resolveStop s = None"
      using assms dis [OF True] by (auto simp: recorder_ok_def promises_ok_def phase_ok_def)
    have h: "holds_ok s" "\<exists>b. startedAt s = Fin b" using assms by (auto simp: recorder_ok_def media_ok_def)
    have "given_up s (startRecording s)"
      using h dis [OF True] l by (simp add: startRecording_def given_up_def recorder_steps True holds_ok_def)
    then show ?thesis
      by (rule given_up_ok [OF assms]) (use h u in \<open>simp add: startRecording_def True recorder_steps holds_ok_def\<close>)
  next
    case False
    consider "sn_state (snapshot s) = Unsupported \<or> pending s \<noteq> None \<or> recorder s \<noteq> None"
      | "sn_state (snapshot s) \<noteq> Unsupported" "pending s = None" "recorder s = None"
      by blast
    then show ?thesis
    proof cases
      case 1
      then have "startRecording s = s" using False by (auto simp: startRecording_def)
      with assms show ?thesis by simp
    next
      case 2
      show ?thesis
      proof (cases "selectRecordingMimeType (dep_isMimeTypeSupported (dependencies s))")
        case None
        with 2 False have e: "startRecording s =
            publish \<lparr>sn_state = Unsupported, sn_recording = None, sn_errorCode = Some UnsupportedCode\<rparr> s"
          by (simp add: startRecording_def)
        show ?thesis
          using assms 2 unfolding e
          by (auto simp: recorder_ok_def holds_ok_def phase_ok_def media_ok_def promises_ok_def publish_def)
      next
        case (Some m)
        let ?s = "s\<lparr>lifecycle := lifecycle s + 1, pending := Some (lifecycle s + 1, m)\<rparr>"
        have e: "startRecording s =
            publish \<lparr>sn_state = Requesting, sn_recording = sn_recording (snapshot s), sn_errorCode = None\<rparr> ?s"
          using 2 False Some by (simp add: startRecording_def Let_def)
        have "recorder_ok ?s"
          using assms 2 selected_type [OF Some]
          by (auto simp: recorder_ok_def holds_ok_def phase_ok_def media_ok_def promises_ok_def)
        then show ?thesis unfolding e by (rule publish_waiting_ok) (use 2 False in simp_all)
      qed
    qed
  qed
qed

lemma settle_ok:
  assumes "recorder_ok s"
  shows "recorder_ok (media_settled outcome now s)"
proof (cases "pending s")
  case None
  with assms show ?thesis by (simp add: media_settled_def)
next
  case (Some tm)
  then obtain token m where p: "pending s = Some (token, m)" by (cases tm) auto
  have rec: "recorder s = None" and m: "m \<in> set RECORDING_MIME_TYPES"
    using assms p by (auto simp: recorder_ok_def phase_ok_def)
  have h: "holds_ok s" "phase_ok s" "media_ok s" "promises_ok s" using assms by (simp_all add: recorder_ok_def)
  have none: "stream s = None" "page_streams s = []" "\<not> timeout s" using h(1) rec by (auto simp: holds_ok_def)
  have st: "sn_state (snapshot s) \<notin> {Recording, Stopping, Unsupported}" using h(2) rec p by (auto simp: phase_ok_def)
  have led: "stopPromise s = None" "resolveStop s = None" "ledger_ok (page_settled s) None (page_promises s)"
    using h(4) st by (auto simp: promises_ok_def)
  obtain b where b: "startedAt s = Fin b" using h(3) by (auto simp: media_ok_def)
  show ?thesis
  proof (cases "token \<noteq> lifecycle s \<or> disposed s")
    case True
    have idle: "sn_state (snapshot s) \<noteq> Requesting" using True h(2) p by (auto simp: phase_ok_def)
    have e: "media_settled outcome now s =
        s\<lparr>pending := None, page_next := page_next s + (case outcome of MediaRejected e \<Rightarrow> 0 | MediaGranted r \<Rightarrow> 1)\<rparr>"
      using True none(2) by (simp add: media_settled_def p Let_def stop_stream_eq split: media_outcome.split)
    show ?thesis
      using h idle rec led unfolding e by (simp add: recorder_ok_def holds_ok_def phase_ok_def media_ok_def promises_ok_def)
  next
    case False
    then have live: "token = lifecycle s" "\<not> disposed s" by auto
    have failed: "given_up s (media_settled outcome now s)
        \<and> recordingURL (media_settled outcome now s) = recordingURL s \<and> page_urls (media_settled outcome now s) = page_urls s
        \<and> sn_recording (snapshot (media_settled outcome now s)) = sn_recording (snapshot s)"
      if "(\<exists>e. outcome = MediaRejected e) \<or> outcome = MediaGranted NotCreated"
      using that none rec led b live
      by (auto simp: given_up_def media_settled_def p recorder_steps split: if_splits)
    show ?thesis
    proof (cases outcome)
      case (MediaRejected e)
      then show ?thesis using failed st by (intro given_up_ok [OF assms]) auto
    next
      case (MediaGranted r)
      let ?b = "begin_recorder (page_next s) token m now (s\<lparr>pending := None, page_streams := [page_next s], page_next := page_next s + 1\<rparr>)"
      show ?thesis
      proof (cases r)
        case NotCreated
        then show ?thesis using failed MediaGranted st by (intro given_up_ok [OF assms]) auto
      next
        case NotStarted
        have e: "media_settled outcome now s = failActiveRecording ?b"
          using NotStarted MediaGranted live none(2) by (simp add: media_settled_def p Let_def)
        have "given_up s (failActiveRecording ?b)"
          using led none by (simp add: given_up_def failActiveRecording_def begin_recorder_def recorder_steps)
        then show ?thesis unfolding e
          by (rule given_up_ok [OF assms])
            (simp add: failActiveRecording_def begin_recorder_def recorder_steps holds_urls [OF h(1)])
      next
        case StartedRecorder
        have e: "media_settled outcome now s =
            (publish \<lparr>sn_state = Recording, sn_recording = None, sn_errorCode = None\<rparr> ?b)\<lparr>timeout := True\<rparr>"
          using StartedRecorder MediaGranted live none(2) by (simp add: media_settled_def p Let_def)
        show ?thesis
          using h led live m holds_urls [OF h(1)] unfolding e
          by (simp add: recorder_ok_def holds_ok_def phase_ok_def media_ok_def promises_ok_def publish_def begin_recorder_def revoke_eq)
      qed
    qed
  qed
qed

lemma stop_ok:
  assumes "recorder_ok s"
  shows "recorder_ok (stopRecording ok s)"
proof (cases "recorder s = None \<or> sn_state (snapshot s) \<noteq> Recording \<or> stopPromise s \<noteq> None")
  case True
  then have "stopRecording ok s = s" by (auto simp: stopRecording_def)
  with assms show ?thesis by simp
next
  case False
  let ?s = "(publish \<lparr>sn_state = Stopping, sn_recording = None, sn_errorCode = None\<rparr> s)
    \<lparr>page_promises := page_promises s + 1, resolveStop := Some (page_promises s), stopPromise := Some (page_promises s)\<rparr>"
  have e: "stopRecording ok s = (if ok then ?s else failActiveRecording ?s)"
    using False by (auto simp: stopRecording_def Let_def publish_def)
  have h: "holds_ok s" "phase_ok s" "media_ok s" "promises_ok s" using assms by (simp_all add: recorder_ok_def)
  have "ledger_ok (page_settled s) None (page_promises s)" using h(4) False by (auto simp: promises_ok_def)
  then have "promises_ok ?s" by (simp add: promises_ok_def publish_def ledger_issue)
  moreover have "phase_ok ?s" using h(2) False by (auto simp: phase_ok_def publish_def)
  moreover have "media_ok ?s" using h(2,3) False by (auto simp: media_ok_def phase_ok_def publish_def)
  moreover have "holds_ok ?s" using h(1) by (simp add: holds_ok_def publish_def)
  ultimately have "recorder_ok ?s" by (simp add: recorder_ok_def)
  then show ?thesis unfolding e by (simp add: fail_ok publish_def)
qed

lemma clear_ok:
  assumes "recorder_ok s"
  shows "recorder_ok (clearRecording s)"
proof (cases "sn_recording (snapshot s)")
  case None
  have h: "holds_ok s" "phase_ok s" "media_ok s" "promises_ok s" using assms by (simp_all add: recorder_ok_def)
  have "clearRecording s = revokeRecordingURL s" using None by (simp add: clearRecording_def Let_def revoke_eq)
  then show ?thesis
    using h holds_urls [OF h(1)]
    by (simp add: recorder_ok_def holds_ok_def phase_ok_def media_ok_def promises_ok_def revoke_eq)
next
  case (Some r)
  have h: "holds_ok s" "phase_ok s" "media_ok s" "promises_ok s" using assms by (simp_all add: recorder_ok_def)
  have rec: "recorder s = None" using h(2) Some by (cases "recorder s") (auto simp: phase_ok_def)
  have st: "sn_state (snapshot s) \<noteq> Stopping" using h(2) rec by (auto simp: phase_ok_def)
  have e: "clearRecording s = publish \<lparr>sn_state = Idle, sn_recording = None, sn_errorCode = None\<rparr> (revokeRecordingURL s)"
    using Some by (simp add: clearRecording_def Let_def revoke_eq)
  have "stopPromise s = None" "resolveStop s = None" using h(4) st by (auto simp: promises_ok_def)
  then have "given_up s (clearRecording s)"
    using h rec unfolding e by (auto simp: given_up_def recorder_steps holds_ok_def promises_ok_def media_ok_def)
  then show ?thesis
    by (rule given_up_ok [OF assms]) (simp add: e recorder_steps holds_urls [OF h(1)])
qed

lemma dispose_ok: "recorder_ok s \<Longrightarrow> recorder_ok (dispose s)"
proof (cases "disposed s")
  case False
  assume s: "recorder_ok s"
  have c: "recorder_ok (cancel s)" using cancel_ok [OF s] .
  have "recorder (cancel s) = None" "recordingURL (cancel s) = None" "sn_state (snapshot (cancel s)) = Idle"
    "ledger_ok (page_settled (cancel s)) None (page_promises (cancel s))"
    using cancel_given_up [OF s] by (simp_all add: cancel_def recorder_steps given_up_def)
  with c False show ?thesis
    by (simp add: dispose_def recorder_ok_def holds_ok_def phase_ok_def media_ok_def promises_ok_def)
qed (simp add: dispose_def)

lemma handlers_ok:
  assumes "recorder_ok s"
  shows "recorder_ok (recorder_onerror t s)" "recorder_ok (recorder_onstop t now ok s)"
proof -
  have "sn_state (snapshot s) \<noteq> Unsupported" if "recorder s = Some x" for x
    using assms that by (auto simp: recorder_ok_def phase_ok_def)
  then show "recorder_ok (recorder_onerror t s)"
    using assms fail_ok [OF assms] by (auto simp: recorder_onerror_def active_recorder_def)
  show "recorder_ok (recorder_onstop t now ok s)"
    using assms finish_ok [OF assms] by (auto simp: recorder_onstop_def active_recorder_def)
qed

lemma recorder_step_ok: "recorder_ok s \<Longrightarrow> recorder_ok (recorder_step e s)"
  by (cases e) (simp_all add: keeps_ok start_ok settle_ok handlers_ok stop_ok cancel_ok clear_ok dispose_ok)

lemma constructor_ok:
  assumes "maxDuration \<noteq> Some NaN"
  shows "recorder_ok (constructor maxDuration deps)"
proof -
  have "\<exists>limit. jmax 1000 (jmin 30000 m) = Fin limit \<and> 0 \<le> limit" if "m \<noteq> NaN" for m
    using that by (cases m) (auto simp: jmax_def jmin_def)
  then show ?thesis
    using assms
    by (auto simp: constructor_def Let_def recorder_ok_def holds_ok_def phase_ok_def media_ok_def promises_ok_def
        ledger_empty PRONUNCIATION_RECORDER_MAX_DURATION_MS_def split: option.split)
qed

lemma recorder_fold_ok: "recorder_ok s \<Longrightarrow> recorder_ok (fold recorder_step es s)"
  by (induction es arbitrary: s) (simp_all add: recorder_step_ok)

lemma recorder_always_ok: "maxDuration \<noteq> Some NaN \<Longrightarrow> recorder_ok (recorder_after maxDuration deps es)"
  by (simp add: recorder_after_def recorder_fold_ok constructor_ok)


text \<open>C28: whatever the order of user actions, browser events and outcomes, the recorder owns exactly the microphone
  stream and the object URL it refers to: a stream runs only while recording or stopping, none runs and no URL is
  registered after dispose, a displayed URL is registered unless a restart failed, and the page never waits for
  a permission request that is not running.\<close>

theorem recorder_leaks_nothing:
  assumes "maxDuration \<noteq> Some NaN" and s: "s = recorder_after maxDuration deps es"
  shows "page_streams s = (case stream s of None \<Rightarrow> [] | Some i \<Rightarrow> [i])
    \<and> page_urls s = (case recordingURL s of None \<Rightarrow> [] | Some x \<Rightarrow> [x])
    \<and> (page_streams s \<noteq> [] \<longleftrightarrow> sn_state (snapshot s) \<in> {Recording, Stopping})
    \<and> (disposed s \<longrightarrow> page_streams s = [] \<and> page_urls s = [])
    \<and> (sn_state (snapshot s) = Requesting \<longrightarrow> (\<exists>m. pending s = Some (lifecycle s, m)))"
proof -
  have "recorder_ok s" unfolding s using assms(1) by (rule recorder_always_ok)
  then have h: "holds_ok s" "phase_ok s" by (simp_all add: recorder_ok_def)
  have "page_streams s \<noteq> [] \<longleftrightarrow> recorder s \<noteq> None" using h(1) by (cases "stream s") (auto simp: holds_ok_def)
  then show ?thesis using h by (auto simp: holds_ok_def phase_ok_def)
qed

text \<open>C29: what is shown as recorded is a playable recording: not empty, of one of the offered types, no longer than the
  limit, and (while the recorder holds a URL) under the URL that is registered.\<close>

theorem recording_is_playable:
  assumes "maxDuration \<noteq> Some NaN" and s: "s = recorder_after maxDuration deps es"
    and "sn_recording (snapshot s) = Some r"
  shows "0 < pr_size r \<and> pr_mimeType r \<in> set RECORDING_MIME_TYPES \<and> 0 \<le> pr_durationMs r
    \<and> pr_durationMs r \<le> maxDurationMs s \<and> (recordingURL s \<noteq> None \<and> sn_state (snapshot s) \<noteq> Unsupported \<longrightarrow> pr_url r \<in> set (page_urls s))"
proof -
  have "recorder_ok s" unfolding s using assms(1) by (rule recorder_always_ok)
  then have h: "holds_ok s" "media_ok s" by (simp_all add: recorder_ok_def)
  then show ?thesis using assms(3) by (auto simp: holds_ok_def media_ok_def recording_ok_def)
qed

text \<open>every promise of stopRecording is settled once and not more: all those handed out are settled except the one
  of the stop in progress, and a cancellation, an error or the stop event of that recorder settles it.\<close>

theorem stop_promises_settled:
  assumes "maxDuration \<noteq> Some NaN" and s: "s = recorder_after maxDuration deps es"
  shows "distinct (map fst (page_settled s))
    \<and> set (map fst (page_settled s)) = {0..<page_promises s} - set_option (stopPromise s)
    \<and> (stopPromise s = None \<longleftrightarrow> sn_state (snapshot s) \<noteq> Stopping)
    \<and> (\<forall>e\<in>{Cancel, RecorderError (lifecycle s), RecorderStop (lifecycle s) now ok}.
         sn_state (snapshot s) = Stopping \<longrightarrow> stopPromise (recorder_step e s) = None)"
proof -
  have ok: "recorder_ok s" unfolding s using assms(1) by (rule recorder_always_ok)
  then have p: "promises_ok s" "phase_ok s" by (simp_all add: recorder_ok_def)
  have act: "active_recorder (lifecycle s) s" if "sn_state (snapshot s) = Stopping"
    using that p(2) by (fastforce simp: active_recorder_def phase_ok_def)
  have settled: "stopPromise (recorder_step e s) = None"
    if "e \<in> {Cancel, RecorderError (lifecycle s), RecorderStop (lifecycle s) now ok}" "sn_state (snapshot s) = Stopping" for e
    using that(1) act [OF that(2)]
    by (auto simp: cancel_def recorder_onerror_def recorder_onstop_def failActiveRecording_def finishRecording_def recorder_steps)
  have "distinct (map fst (page_settled s))"
    "set (map fst (page_settled s)) = {0..<page_promises s} - set_option (stopPromise s)"
    using p(1) by (cases "stopPromise s"; force simp: promises_ok_def ledger_ok_def)+
  with settled p(1) show ?thesis by (auto simp: promises_ok_def)
qed

definition full_support :: RecorderDependencies where
  "full_support = \<lparr>dep_getUserMedia = True, dep_createRecorder = True, dep_isMimeTypeSupported = Some (\<lambda>m. Some True),
     dep_createObjectURL = True, dep_revokeObjectURL = True\<rparr>"

text \<open>A take, and a second one whose recorder does not start.\<close>

definition one_take :: "recorder_event list" where
  "one_take = [Start, MediaSettled (MediaGranted StartedRecorder) 1000, DataAvailable 1 7, Stop True, RecorderStop 1 3000 True]"

lemmas run_simps = recorder_after_def constructor_def full_support_def one_take_def startRecording_def
  selectRecordingMimeType_def RECORDING_MIME_TYPES_def PRONUNCIATION_RECORDER_MAX_DURATION_MS_def media_settled_def
  begin_recorder_def ondataavailable_def active_recorder_def stopRecording_def recorder_onstop_def finishRecording_def
  recorder_steps

lemma after_one_take:
  "snapshot (recorder_after None full_support one_take) =
     \<lparr>sn_state = Recorded, sn_recording = Some \<lparr>pr_url = 1, pr_mimeType = u ''audio/webm;codecs=opus'', pr_size = 7, pr_durationMs = 2000\<rparr>,
      sn_errorCode = None\<rparr>"
  by (simp add: run_simps)

lemma recorder_leaks_nothing_witness:
  "page_streams (recorder_after None full_support one_take) = (case stream (recorder_after None full_support one_take) of None \<Rightarrow> [] | Some i \<Rightarrow> [i])"
  using recorder_leaks_nothing [of None "recorder_after None full_support one_take"] by blast

lemma recording_is_playable_witness:
  "\<exists>r. sn_recording (snapshot (recorder_after None full_support one_take)) = Some r \<and> pr_size r = 7
     \<and> pr_mimeType r \<in> set RECORDING_MIME_TYPES"
  using recording_is_playable [OF _ refl, of None full_support one_take] after_one_take by simp

lemma stopping_take: "sn_state (snapshot (recorder_after None full_support (take 4 one_take))) = Stopping"
  by (simp add: run_simps)

lemma stop_promises_settled_witness:
  "stopPromise (recorder_step Cancel (recorder_after None full_support (take 4 one_take))) = None"
  using stop_promises_settled [of None _ full_support "take 4 one_take", OF _ refl] stopping_take by blast

text \<open>when a second take fails to start, the snapshot still shows the first recording although its URL has been
  revoked: the player gets a dead URL.\<close>

theorem failed_restart_shows_revoked_url:
  "let s = recorder_after None full_support (one_take @ [Start, MediaSettled (MediaGranted NotStarted) 4000]) in
   sn_state (snapshot s) = Failed \<and> map_option pr_url (sn_recording (snapshot s)) = Some 1 \<and> page_urls s = []"
  by (simp add: run_simps failActiveRecording_def)

end
