(* ===== verification/Scenarios.thy ===== *)
theory Scenarios
  imports Js_Storage Js_Uri
begin

text \<open>
  \<open>src/frontend/lib/scenarios.ts\<close>: slugs and paths of scenarios, the validators of the server's
  payloads with the typed values they admit, the idempotent identity of a submission, the
  request built from a form, and the drafts kept in storage.  The parser of dates and the
  locale's lower case are arguments.
\<close>

section \<open>Data\<close>

datatype ScenarioType = Incident | Troubleshooting | ArchitectureReview | DataPipeline | ReleaseType | StatusUpdate
datatype ScenarioStepKind = Production | FactHypothesis | Revision | FinalMessage
datatype ScenarioAttemptStatus = ActiveAttempt | PausedAttempt | CompletedAttempt | DiscardedAttempt

record ScenarioStep =
  st_position :: jnum
  st_kind :: ScenarioStepKind
  st_title :: jstr
  st_prompt :: jstr
  st_productionOutcome :: jstr
  st_vocabulary :: "jstr list"
  st_reviewTerm :: jstr
  st_requiresFactHypothesis :: bool
  st_minResponseCharacters :: jnum

record Scenario =
  sc_slug :: jstr
  sc_type :: ScenarioType
  sc_title :: jstr
  sc_summary :: jstr
  sc_userRole :: jstr
  sc_workplaceGoal :: jstr
  sc_completionCriterion :: jstr
  sc_constraints :: "jstr list"
  sc_requiresFactHypothesis :: bool
  sc_estimatedMinutes :: jnum
  sc_version :: jnum
  sc_stepCount :: jnum
  sc_steps :: "ScenarioStep list option"

record ScenarioAttempt =
  at_id :: jstr
  at_scenario :: Scenario
  at_currentPosition :: jnum
  at_status :: ScenarioAttemptStatus
  at_version :: jnum
  at_completedPositions :: "jnum list"
  at_currentStep :: "ScenarioStep option"
  at_startedAt :: jstr
  at_updatedAt :: jstr
  at_completedAt :: "jstr option"

record ScenarioDraftFields =
  df_response :: jstr
  df_facts :: jstr
  df_hypotheses :: jstr

record ScenarioIdentity =
  id_userId :: jstr
  id_attemptId :: jstr
  id_position :: jnum

record ScenarioDraft =
  dr_identity :: ScenarioIdentity
  dr_fields :: ScenarioDraftFields
  dr_updatedAt :: jstr

record ScenarioSubmissionIdentity =
  si_fingerprint :: jstr
  si_submissionId :: jstr

record SubmitScenarioStepRequest =
  sq_submissionId :: jstr
  sq_attemptVersion :: jnum
  sq_response :: jstr
  sq_facts :: "jstr list option"
  sq_hypotheses :: "jstr list option"
  sq_timezoneOffsetMinutes :: jnum

section \<open>Patterns\<close>

text \<open>\<open>SCENARIO_SLUG_PATTERN\<close>: groups of lower-case letters and digits, separated by single dashes.\<close>

definition slug_char :: "nat \<Rightarrow> bool" where
  "slug_char c \<longleftrightarrow> is_digit c \<or> 97 \<le> c \<and> c \<le> 122"

definition isScenarioSlug :: "jstr \<Rightarrow> bool" where
  "isScenarioSlug value \<longleftrightarrow> (\<forall>part\<in>set (split_on 45 value). part \<noteq> [] \<and> (\<forall>c\<in>set part. slug_char c))"

definition hex_char :: "nat \<Rightarrow> bool" where
  "hex_char c \<longleftrightarrow> is_digit c \<or> 97 \<le> c \<and> c \<le> 102 \<or> 65 \<le> c \<and> c \<le> 70"

definition hex_part :: "nat \<Rightarrow> jstr \<Rightarrow> bool" where
  "hex_part n s \<longleftrightarrow> length s = n \<and> (\<forall>c\<in>set s. hex_char c)"

text \<open>\<open>UUID_PATTERN\<close>, which ignores case: the version digit is 1 to 8, the variant 8, 9, a or b.\<close>

definition is_uuid :: "jstr \<Rightarrow> bool" where
  "is_uuid value =
     (case split_on 45 value of
        [a, b, c, d, e] \<Rightarrow> hex_part 8 a \<and> hex_part 4 b \<and> hex_part 4 c \<and> hex_part 4 d \<and> hex_part 12 e
          \<and> 49 \<le> hd c \<and> hd c \<le> 56 \<and> hd d \<in> {56, 57, 97, 98, 65, 66}
      | _ \<Rightarrow> False)"

section \<open>Validators\<close>

definition one_of :: "string list \<Rightarrow> jval \<Rightarrow> bool" where
  "one_of ls v \<longleftrightarrow> (\<exists>l\<in>set ls. v = JStr (u l))"

definition sc_nonEmptyString :: "jval \<Rightarrow> bool" where
  "sc_nonEmptyString v \<longleftrightarrow> is_string v \<and> length (trim (str_of v)) > 0"

definition isNonNegativeInteger :: "jval \<Rightarrow> bool" where
  "isNonNegativeInteger v \<longleftrightarrow> v_isInteger v \<and> num_of v \<ge> 0"

definition isPositiveInteger :: "jval \<Rightarrow> bool" where
  "isPositiveInteger v \<longleftrightarrow> v_isInteger v \<and> num_of v > 0"

definition isTimestamp :: "(jstr \<Rightarrow> jnum) \<Rightarrow> jval \<Rightarrow> bool" where
  "isTimestamp parse_date v \<longleftrightarrow> is_string v \<and> isFinite (parse_date (str_of v))"

definition isStringArray :: "jval \<Rightarrow> bool" where
  "isStringArray v \<longleftrightarrow> is_array v \<and> list_all is_string (arr_of v)"

definition isUniqueNonNegativeIntegerArray :: "jval \<Rightarrow> bool" where
  "isUniqueNonNegativeIntegerArray v \<longleftrightarrow>
     is_array v \<and> list_all isNonNegativeInteger (arr_of v) \<and> distinct (arr_of v)"

definition isScenarioStepPayload :: "jval \<Rightarrow> bool" where
  "isScenarioStepPayload v \<longleftrightarrow>
     isRecord v
     \<and> isNonNegativeInteger (jget v ''position'')
     \<and> one_of [''production'', ''fact-hypothesis'', ''revision'', ''final-message''] (jget v ''kind'')
     \<and> sc_nonEmptyString (jget v ''title'')
     \<and> sc_nonEmptyString (jget v ''prompt'')
     \<and> sc_nonEmptyString (jget v ''productionOutcome'')
     \<and> isStringArray (jget v ''vocabulary'')
     \<and> isRecord (jget v ''reviewTarget'')
     \<and> sc_nonEmptyString (jget (jget v ''reviewTarget'') ''term'')
     \<and> is_boolean (jget v ''requiresFactHypothesis'')
     \<and> isPositiveInteger (jget v ''minResponseCharacters'')"

definition isScenarioPayload :: "jval \<Rightarrow> bool" where
  "isScenarioPayload v \<longleftrightarrow>
     isRecord v
     \<and> isScenarioSlug (if is_string (jget v ''slug'') then str_of (jget v ''slug'') else [])
     \<and> one_of [''incident'', ''troubleshooting'', ''architecture-review'', ''data-pipeline'', ''release'', ''status-update'']
          (jget v ''type'')
     \<and> sc_nonEmptyString (jget v ''title'')
     \<and> sc_nonEmptyString (jget v ''summary'')
     \<and> sc_nonEmptyString (jget v ''userRole'')
     \<and> sc_nonEmptyString (jget v ''workplaceGoal'')
     \<and> sc_nonEmptyString (jget v ''completionCriterion'')
     \<and> isStringArray (jget v ''constraints'')
     \<and> is_boolean (jget v ''requiresFactHypothesis'')
     \<and> isPositiveInteger (jget v ''estimatedMinutes'')
     \<and> isPositiveInteger (jget v ''version'')
     \<and> isPositiveInteger (jget v ''stepCount'')
     \<and> (jget v ''steps'' = JUndef
        \<or> is_array (jget v ''steps'')
          \<and> JNum (jnat (length (arr_of (jget v ''steps'')))) = jget v ''stepCount''
          \<and> list_all isScenarioStepPayload (arr_of (jget v ''steps'')))"

definition isScenarioDetailPayload :: "jval \<Rightarrow> bool" where
  "isScenarioDetailPayload v \<longleftrightarrow>
     isScenarioPayload v \<and> is_array (jget v ''steps'')
     \<and> JNum (jnat (length (arr_of (jget v ''steps'')))) = jget v ''stepCount''"

definition isScenarioStepSubmissionPayload :: "(jstr \<Rightarrow> jnum) \<Rightarrow> jval \<Rightarrow> bool" where
  "isScenarioStepSubmissionPayload parse_date v \<longleftrightarrow>
     isRecord v
     \<and> isNonNegativeInteger (jget v ''position'')
     \<and> is_string (jget v ''submissionId'')
     \<and> is_uuid (str_of (jget v ''submissionId''))
     \<and> sc_nonEmptyString (jget v ''response'')
     \<and> isStringArray (jget v ''facts'')
     \<and> isStringArray (jget v ''hypotheses'')
     \<and> isPositiveInteger (jget v ''reviewEventId'')
     \<and> isTimestamp parse_date (jget v ''acceptedAt'')"

definition isScenarioAttemptPayload :: "(jstr \<Rightarrow> jnum) \<Rightarrow> jval \<Rightarrow> bool" where
  "isScenarioAttemptPayload parse_date v \<longleftrightarrow>
     isRecord v
     \<and> is_string (jget v ''id'')
     \<and> is_uuid (str_of (jget v ''id''))
     \<and> isScenarioPayload (jget v ''scenario'')
     \<and> isNonNegativeInteger (jget v ''currentPosition'')
     \<and> one_of [''active'', ''paused'', ''completed'', ''discarded''] (jget v ''status'')
     \<and> isPositiveInteger (jget v ''version'')
     \<and> isUniqueNonNegativeIntegerArray (jget v ''completedPositions'')
     \<and> (jget v ''currentStep'' = JUndef \<or> isScenarioStepPayload (jget v ''currentStep''))
     \<and> isTimestamp parse_date (jget v ''startedAt'')
     \<and> isTimestamp parse_date (jget v ''updatedAt'')
     \<and> (jget v ''completedAt'' = JUndef \<or> isTimestamp parse_date (jget v ''completedAt''))
     \<and> (jget v ''lastSubmission'' = JUndef \<or> isScenarioStepSubmissionPayload parse_date (jget v ''lastSubmission''))
     \<and> (if is_lit (jget v ''status'') ''completed'' then isTimestamp parse_date (jget v ''completedAt'') else True)
     \<and> (if is_lit (jget v ''status'') ''active'' \<or> is_lit (jget v ''status'') ''paused''
        then isScenarioStepPayload (jget v ''currentStep'') else True)"

definition isStartScenarioAttemptResponse :: "(jstr \<Rightarrow> jnum) \<Rightarrow> jval \<Rightarrow> bool" where
  "isStartScenarioAttemptResponse parse_date v \<longleftrightarrow>
     isRecord v \<and> isScenarioAttemptPayload parse_date (jget v ''attempt'') \<and> is_boolean (jget v ''resumed'')"

definition rating_literal :: "jval \<Rightarrow> bool" where
  "rating_literal v \<longleftrightarrow> one_of [''again'', ''almost'', ''known''] v"

definition isScenarioReviewResultPayload :: "(jstr \<Rightarrow> jnum) \<Rightarrow> jval \<Rightarrow> bool" where
  "isScenarioReviewResultPayload parse_date v \<longleftrightarrow>
     isRecord v
     \<and> isPositiveInteger (jget v ''wordId'')
     \<and> sc_nonEmptyString (jget v ''status'')
     \<and> v_isFinite (jget v ''easiness'')
     \<and> isNonNegativeInteger (jget v ''intervalDays'')
     \<and> isNonNegativeInteger (jget v ''repetitions'')
     \<and> isTimestamp parse_date (jget v ''dueAt'')
     \<and> isTimestamp parse_date (jget v ''lastReviewedAt'')
     \<and> rating_literal (jget v ''requestedRating'')
     \<and> rating_literal (jget v ''effectiveRating'')
     \<and> (jget v ''correct'' = JUndef \<or> is_boolean (jget v ''correct''))
     \<and> is_lit (jget v ''judgementSource'') ''server''
     \<and> (is_lit (jget v ''judgementReason'') ''scenario_target_present'' \<or> is_lit (jget v ''judgementReason'') ''scenario_target_missing'')
     \<and> (jget v ''matchedAnswer'' = JUndef \<or> is_string (jget v ''matchedAnswer''))
     \<and> isPositiveInteger (jget v ''reviewEventId'')
     \<and> is_boolean (jget v ''suggestionAvailable'')"

definition isSubmitScenarioStepResponse :: "(jstr \<Rightarrow> jnum) \<Rightarrow> jval \<Rightarrow> bool" where
  "isSubmitScenarioStepResponse parse_date v \<longleftrightarrow>
     isRecord v \<and> isScenarioAttemptPayload parse_date (jget v ''attempt'')
     \<and> isScenarioReviewResultPayload parse_date (jget v ''review'') \<and> is_boolean (jget v ''idempotentReplay'')"

section \<open>Paths and labels\<close>

definition scenarioPath :: "jstr \<Rightarrow> js_exn + jstr" where
  "scenarioPath slug =
     (if \<not> isScenarioSlug slug then Inl (ErrorMessage ''Invalid scenario slug'') else Inr (u ''/scenarios/'' @ slug))"

text \<open>The pattern takes one segment without slash, question mark or hash, and one optional trailing slash.\<close>

definition scenario_segment :: "jstr \<Rightarrow> jstr option" where
  "scenario_segment pathname =
     (if take 11 pathname \<noteq> u ''/scenarios/'' then None
      else
        let rest = drop 11 pathname; seg = (if rest \<noteq> [] \<and> last rest = 47 then butlast rest else rest) in
        if seg \<noteq> [] \<and> (\<forall>c\<in>set seg. c \<noteq> 47 \<and> c \<noteq> 63 \<and> c \<noteq> 35) then Some seg else None)"

definition scenarioSlugFromPath :: "jstr \<Rightarrow> jstr option" where
  "scenarioSlugFromPath pathname =
     (case scenario_segment pathname of None \<Rightarrow> None
      | Some seg \<Rightarrow>
          (case decodeURIComponent seg of Inl e \<Rightarrow> None
           | Inr slug \<Rightarrow> if isScenarioSlug slug then Some slug else None))"

definition scenarioTypeLabel :: "ScenarioType \<Rightarrow> jstr" where
  "scenarioTypeLabel t =
     (case t of Incident \<Rightarrow> u ''Incident update'' | Troubleshooting \<Rightarrow> u ''Troubleshooting''
      | ArchitectureReview \<Rightarrow> u ''Architecture review'' | DataPipeline \<Rightarrow> u ''Data pipeline''
      | ReleaseType \<Rightarrow> u ''Release decision'' | StatusUpdate \<Rightarrow> u ''Status update'')"

definition scenarioStepKindLabel :: "ScenarioStepKind \<Rightarrow> jstr" where
  "scenarioStepKindLabel k =
     (case k of FactHypothesis \<Rightarrow> [1060, 1072, 1082, 1090, 1099, 32, 1080, 32, 1075, 1080, 1087, 1086, 1090, 1077, 1079, 1099] | Revision \<Rightarrow> [1059, 1090, 1086, 1095, 1085, 1077, 1085, 1080, 1077]
      | FinalMessage \<Rightarrow> [1048, 1090, 1086, 1075, 1086, 1074, 1086, 1077, 32, 1089, 1086, 1086, 1073, 1097, 1077, 1085, 1080, 1077] | Production \<Rightarrow> [1056, 1072, 1073, 1086, 1095, 1080, 1081, 32, 1086, 1090, 1074, 1077, 1090])"

section \<open>Submissions\<close>

text \<open>\<open>replace(/\r\n?/g, "\n")\<close>.\<close>

fun unix_from :: "bool \<Rightarrow> jstr \<Rightarrow> jstr" where
  "unix_from after_cr [] = []"
| "unix_from after_cr (c # s) =
     (if c = 13 then 10 # unix_from True s
      else if c = 10 \<and> after_cr then unix_from False s
      else c # unix_from False s)"

definition unix_lines :: "jstr \<Rightarrow> jstr" where "unix_lines s = unix_from False s"

fun unseen_items :: "(jstr \<Rightarrow> jstr) \<Rightarrow> jstr list \<Rightarrow> jstr list \<Rightarrow> jstr list" where
  "unseen_items lower seen [] = []"
| "unseen_items lower seen (line # lines) =
     (let item = trim line; identity = lower item in
      if item = [] \<or> identity \<in> set seen then unseen_items lower seen lines
      else item # unseen_items lower (identity # seen) lines)"

definition normalizeScenarioList :: "(jstr \<Rightarrow> jstr) \<Rightarrow> jstr \<Rightarrow> jstr list" where
  "normalizeScenarioList lower value = unseen_items lower [] (split_on 10 (unix_lines value))"

definition normalizeScenarioResponse :: "jstr \<Rightarrow> jstr" where
  "normalizeScenarioResponse value = trim (unix_lines value)"

definition fingerprint_value :: "jstr \<Rightarrow> jstr list \<Rightarrow> jstr list \<Rightarrow> jval" where
  "fingerprint_value response facts hypotheses =
     JObj [(u ''response'', JStr response), (u ''facts'', JArr (map JStr facts)), (u ''hypotheses'', JArr (map JStr hypotheses))]"

definition scenarioSubmissionFingerprint :: "(jstr \<Rightarrow> jstr) \<Rightarrow> ScenarioDraftFields \<Rightarrow> jstr" where
  "scenarioSubmissionFingerprint lower draft_fields =
     json_stringify (fingerprint_value (normalizeScenarioResponse (df_response draft_fields))
       (normalizeScenarioList lower (df_facts draft_fields)) (normalizeScenarioList lower (df_hypotheses draft_fields)))"

text \<open>\<open>new_id\<close> is what \<open>createSubmissionId\<close> returns, if it is called.\<close>

definition resolveScenarioSubmissionIdentity ::
  "(jstr \<Rightarrow> jstr) \<Rightarrow> ScenarioSubmissionIdentity option \<Rightarrow> ScenarioDraftFields \<Rightarrow> jstr \<Rightarrow> js_exn + ScenarioSubmissionIdentity" where
  "resolveScenarioSubmissionIdentity lower current draft_fields new_id =
     (let fingerprint = scenarioSubmissionFingerprint lower draft_fields;
          fresh = (if \<not> is_uuid new_id then Inl (ErrorMessage ''Submission id must be a UUID'')
                   else Inr \<lparr>si_fingerprint = fingerprint, si_submissionId = new_id\<rparr>) in
      case current of
        Some c \<Rightarrow> if si_fingerprint c = fingerprint then Inr c else fresh
      | None \<Rightarrow> fresh)"

definition buildSubmitScenarioStepRequest ::
  "(jstr \<Rightarrow> jstr) \<Rightarrow> jnum \<Rightarrow> jstr \<Rightarrow> ScenarioDraftFields \<Rightarrow> bool \<Rightarrow> jnum \<Rightarrow> js_exn + SubmitScenarioStepRequest" where
  "buildSubmitScenarioStepRequest lower attemptVersion submissionId draft_fields requiresFactHypothesis timezoneOffsetMinutes =
     (if \<not> isPositiveInteger (JNum attemptVersion) then Inl (ErrorMessage ''Attempt version must be positive'')
      else if \<not> is_uuid submissionId then Inl (ErrorMessage ''Submission id must be a UUID'')
      else
        let response = normalizeScenarioResponse (df_response draft_fields) in
        if response = [] then Inl (ErrorMessage ''Scenario response is empty'')
        else
          let facts = normalizeScenarioList lower (df_facts draft_fields);
              hypotheses = normalizeScenarioList lower (df_hypotheses draft_fields) in
          Inr \<lparr>sq_submissionId = submissionId, sq_attemptVersion = attemptVersion, sq_response = response,
            sq_facts = (if requiresFactHypothesis then Some facts else None),
            sq_hypotheses = (if requiresFactHypothesis then Some hypotheses else None),
            sq_timezoneOffsetMinutes = jround timezoneOffsetMinutes\<rparr>)"

section \<open>Drafts\<close>

definition scenarioDraftStorageKey :: "ScenarioIdentity \<Rightarrow> js_exn + jstr" where
  "scenarioDraftStorageKey ident =
     (if id_userId ident = [] \<or> \<not> is_uuid (id_attemptId ident) \<or> \<not> isNonNegativeInteger (JNum (id_position ident))
      then Inl (ErrorMessage ''Invalid Scenario draft identity'')
      else Inr (u ''lexigo:scenario-draft:v1:'' @ id_userId ident @ u '':'' @ id_attemptId ident @ u '':'' @ num_str (id_position ident)))"

definition draft_json :: "ScenarioDraft \<Rightarrow> jval" where
  "draft_json d = JObj [
     (u ''version'', JNum 1), (u ''userId'', JStr (id_userId (dr_identity d))),
     (u ''attemptId'', JStr (id_attemptId (dr_identity d))), (u ''position'', JNum (id_position (dr_identity d))),
     (u ''response'', JStr (df_response (dr_fields d))), (u ''facts'', JStr (df_facts (dr_fields d))),
     (u ''hypotheses'', JStr (df_hypotheses (dr_fields d))), (u ''updatedAt'', JStr (dr_updatedAt d))]"

definition serializeScenarioDraft :: "ScenarioDraft \<Rightarrow> jstr" where
  "serializeScenarioDraft draft = json_stringify (draft_json draft)"

text \<open>The properties of a draft, read from an accepted value.\<close>

definition draft_of :: "jval \<Rightarrow> ScenarioDraft" where
  "draft_of v = \<lparr>
     dr_identity = \<lparr>id_userId = str_of (jget v ''userId''), id_attemptId = str_of (jget v ''attemptId''),
       id_position = num_of (jget v ''position'')\<rparr>,
     dr_fields = \<lparr>df_response = str_of (jget v ''response''), df_facts = str_of (jget v ''facts''),
       df_hypotheses = str_of (jget v ''hypotheses'')\<rparr>,
     dr_updatedAt = str_of (jget v ''updatedAt'')\<rparr>"

definition parseScenarioDraft :: "(jstr \<Rightarrow> jnum) \<Rightarrow> jstr option \<Rightarrow> ScenarioIdentity \<Rightarrow> ScenarioDraft option" where
  "parseScenarioDraft parse_date raw expected =
     (case raw of None \<Rightarrow> None
      | Some text \<Rightarrow>
          if text = [] then None
          else (case json_parse text of None \<Rightarrow> None
            | Some v \<Rightarrow>
                if \<not> isRecord v then None
                else if jget v ''version'' \<noteq> JNum 1
                  \<or> jget v ''userId'' \<noteq> JStr (id_userId expected)
                  \<or> jget v ''attemptId'' \<noteq> JStr (id_attemptId expected)
                  \<or> jget v ''position'' \<noteq> JNum (id_position expected)
                  \<or> \<not> is_string (jget v ''response'')
                  \<or> \<not> is_string (jget v ''facts'')
                  \<or> \<not> is_string (jget v ''hypotheses'')
                  \<or> \<not> isTimestamp parse_date (jget v ''updatedAt'') then None
                else Some (draft_of v)))"

definition createScenarioDraft :: "ScenarioIdentity \<Rightarrow> ScenarioDraftFields \<Rightarrow> jstr \<Rightarrow> ScenarioDraft" where
  "createScenarioDraft ident draft_fields updatedAt = \<lparr>dr_identity = ident, dr_fields = draft_fields, dr_updatedAt = updatedAt\<rparr>"

section \<open>The typed values of accepted payloads\<close>

definition strings_of :: "jval \<Rightarrow> jstr list" where "strings_of v = map str_of (arr_of v)"

definition type_of :: "jval \<Rightarrow> ScenarioType" where
  "type_of v = (if is_lit v ''incident'' then Incident else if is_lit v ''troubleshooting'' then Troubleshooting
     else if is_lit v ''architecture-review'' then ArchitectureReview else if is_lit v ''data-pipeline'' then DataPipeline
     else if is_lit v ''release'' then ReleaseType else StatusUpdate)"

definition kind_of :: "jval \<Rightarrow> ScenarioStepKind" where
  "kind_of v = (if is_lit v ''fact-hypothesis'' then FactHypothesis else if is_lit v ''revision'' then Revision
     else if is_lit v ''final-message'' then FinalMessage else Production)"

definition attempt_status_of :: "jval \<Rightarrow> ScenarioAttemptStatus" where
  "attempt_status_of v = (if is_lit v ''active'' then ActiveAttempt else if is_lit v ''paused'' then PausedAttempt
     else if is_lit v ''completed'' then CompletedAttempt else DiscardedAttempt)"

definition step_of :: "jval \<Rightarrow> ScenarioStep" where
  "step_of v = \<lparr>st_position = num_of (jget v ''position''), st_kind = kind_of (jget v ''kind''),
     st_title = str_of (jget v ''title''), st_prompt = str_of (jget v ''prompt''),
     st_productionOutcome = str_of (jget v ''productionOutcome''), st_vocabulary = strings_of (jget v ''vocabulary''),
     st_reviewTerm = str_of (jget (jget v ''reviewTarget'') ''term''),
     st_requiresFactHypothesis = (jget v ''requiresFactHypothesis'' = JBool True),
     st_minResponseCharacters = num_of (jget v ''minResponseCharacters'')\<rparr>"

definition scenario_of :: "jval \<Rightarrow> Scenario" where
  "scenario_of v = \<lparr>sc_slug = str_of (jget v ''slug''), sc_type = type_of (jget v ''type''), sc_title = str_of (jget v ''title''),
     sc_summary = str_of (jget v ''summary''), sc_userRole = str_of (jget v ''userRole''),
     sc_workplaceGoal = str_of (jget v ''workplaceGoal''), sc_completionCriterion = str_of (jget v ''completionCriterion''),
     sc_constraints = strings_of (jget v ''constraints''),
     sc_requiresFactHypothesis = (jget v ''requiresFactHypothesis'' = JBool True),
     sc_estimatedMinutes = num_of (jget v ''estimatedMinutes''), sc_version = num_of (jget v ''version''),
     sc_stepCount = num_of (jget v ''stepCount''),
     sc_steps = (if jget v ''steps'' = JUndef then None else Some (map step_of (arr_of (jget v ''steps''))))\<rparr>"

definition attempt_of :: "jval \<Rightarrow> ScenarioAttempt" where
  "attempt_of v = \<lparr>at_id = str_of (jget v ''id''), at_scenario = scenario_of (jget v ''scenario''),
     at_currentPosition = num_of (jget v ''currentPosition''), at_status = attempt_status_of (jget v ''status''),
     at_version = num_of (jget v ''version''), at_completedPositions = map num_of (arr_of (jget v ''completedPositions'')),
     at_currentStep = (if jget v ''currentStep'' = JUndef then None else Some (step_of (jget v ''currentStep''))),
     at_startedAt = str_of (jget v ''startedAt''), at_updatedAt = str_of (jget v ''updatedAt''),
     at_completedAt = (if jget v ''completedAt'' = JUndef then None else Some (str_of (jget v ''completedAt'')))\<rparr>"


section \<open>What the validators guarantee\<close>

definition step_ok :: "ScenarioStep \<Rightarrow> bool" where
  "step_ok s \<longleftrightarrow> isInteger (st_position s) \<and> 0 \<le> st_position s \<and> trim (st_title s) \<noteq> [] \<and> trim (st_prompt s) \<noteq> []
     \<and> trim (st_productionOutcome s) \<noteq> [] \<and> trim (st_reviewTerm s) \<noteq> []
     \<and> isInteger (st_minResponseCharacters s) \<and> 0 < st_minResponseCharacters s"

definition scenario_ok :: "Scenario \<Rightarrow> bool" where
  "scenario_ok s \<longleftrightarrow> isScenarioSlug (sc_slug s) \<and> isInteger (sc_version s) \<and> 0 < sc_version s \<and> 0 < sc_stepCount s
     \<and> (\<forall>steps. sc_steps s = Some steps \<longrightarrow> sc_stepCount s = jnat (length steps) \<and> list_all step_ok steps)"

definition attempt_ok :: "(jstr \<Rightarrow> jnum) \<Rightarrow> ScenarioAttempt \<Rightarrow> bool" where
  "attempt_ok parse_date a \<longleftrightarrow>
     is_uuid (at_id a) \<and> scenario_ok (at_scenario a)
     \<and> isInteger (at_currentPosition a) \<and> 0 \<le> at_currentPosition a \<and> isInteger (at_version a) \<and> 0 < at_version a
     \<and> distinct (at_completedPositions a) \<and> list_all (\<lambda>p. isInteger p \<and> 0 \<le> p) (at_completedPositions a)
     \<and> isFinite (parse_date (at_startedAt a)) \<and> isFinite (parse_date (at_updatedAt a))
     \<and> (\<forall>s. at_currentStep a = Some s \<longrightarrow> step_ok s)
     \<and> (at_status a \<in> {ActiveAttempt, PausedAttempt} \<longrightarrow> at_currentStep a \<noteq> None)
     \<and> (at_status a = CompletedAttempt \<longrightarrow> (\<exists>t. at_completedAt a = Some t \<and> isFinite (parse_date t)))"

lemma one_of_simps [simp]: "one_of [] v \<longleftrightarrow> False" "one_of (l # ls) v \<longleftrightarrow> is_lit v l \<or> one_of ls v"
  by (auto simp: one_of_def is_lit_def)

lemma integer_check:
  "isNonNegativeInteger v \<longleftrightarrow> (\<exists>n. v = JNum n \<and> isInteger n \<and> 0 \<le> n)"
  "isPositiveInteger v \<longleftrightarrow> (\<exists>n. v = JNum n \<and> isInteger n \<and> 0 < n)"
  by (auto simp: isNonNegativeInteger_def isPositiveInteger_def v_class_iff)

lemma step_accepted: "isScenarioStepPayload v \<Longrightarrow> step_ok (step_of v)"
  by (auto simp: isScenarioStepPayload_def step_ok_def step_of_def integer_check sc_nonEmptyString_def)

lemma scenario_accepted:
  assumes "isScenarioPayload v"
  shows "scenario_ok (scenario_of v)"
proof -
  have v: "isScenarioSlug (if is_string (jget v ''slug'') then str_of (jget v ''slug'') else [])"
    "isPositiveInteger (jget v ''version'')" "isPositiveInteger (jget v ''stepCount'')"
    "jget v ''steps'' = JUndef \<or> is_array (jget v ''steps'')
          \<and> JNum (jnat (length (arr_of (jget v ''steps'')))) = jget v ''stepCount''
          \<and> list_all isScenarioStepPayload (arr_of (jget v ''steps''))"
    using assms by (simp_all add: isScenarioPayload_def)
  have slug: "isScenarioSlug (sc_slug (scenario_of v))"
    using v(1) by (simp add: scenario_of_def str_of_def is_string_def split: if_splits jval.splits)
  have "sc_stepCount (scenario_of v) = jnat (length steps) \<and> list_all step_ok steps" if "sc_steps (scenario_of v) = Some steps" for steps
  proof -
    from that have st: "jget v ''steps'' \<noteq> JUndef" "steps = map step_of (arr_of (jget v ''steps''))"
      by (simp_all add: scenario_of_def split: if_splits)
    with v(4) have a: "JNum (jnat (length steps)) = jget v ''stepCount''" "list_all isScenarioStepPayload (arr_of (jget v ''steps''))"
      by simp_all
    from a(2) st(2) step_accepted have "list_all step_ok steps" by (auto simp: list_all_iff)
    moreover have "sc_stepCount (scenario_of v) = num_of (jget v ''stepCount'')" by (simp add: scenario_of_def)
    ultimately show ?thesis by (simp flip: a(1))
  qed
  with slug v(2,3) show ?thesis by (auto simp: scenario_ok_def scenario_of_def integer_check)
qed

lemma positions_accepted:
  assumes "isUniqueNonNegativeIntegerArray v"
  shows "distinct (map num_of (arr_of v)) \<and> list_all (\<lambda>p. isInteger p \<and> 0 \<le> p) (map num_of (arr_of v))"
proof -
  have el: "\<forall>x\<in>set (arr_of v). \<exists>n. x = JNum n \<and> isInteger n \<and> 0 \<le> n" and d: "distinct (arr_of v)"
    using assms by (auto simp: isUniqueNonNegativeIntegerArray_def list_all_iff integer_check)
  have "inj_on num_of (set (arr_of v))"
  proof (rule inj_onI)
    fix x y assume xy: "x \<in> set (arr_of v)" "y \<in> set (arr_of v)" "num_of x = num_of y"
    obtain a b where "x = JNum a" "y = JNum b" using el xy(1,2) by blast
    with xy(3) show "x = y" by simp
  qed
  with d el show ?thesis by (fastforce simp: distinct_map list_all_iff)
qed

lemma status_cases:
  assumes "one_of [''active'', ''paused'', ''completed'', ''discarded''] v"
  shows "attempt_status_of v = ActiveAttempt \<longleftrightarrow> is_lit v ''active''" "attempt_status_of v = PausedAttempt \<longleftrightarrow> is_lit v ''paused''"
    "attempt_status_of v = CompletedAttempt \<longleftrightarrow> is_lit v ''completed''"
  using assms by (auto simp: attempt_status_of_def is_lit_def)

text \<open>an attempt payload the client accepts is a well-formed attempt: identifiers, positions, versions and dates are of
  their type, the steps agree with their count, the completed positions are distinct, an active or paused attempt
  has a current step, and a completed one the time of its completion.\<close>

theorem accepted_attempt_is_well_typed:
  assumes "isScenarioAttemptPayload parse_date v"
  shows "attempt_ok parse_date (attempt_of v)"
proof -
  have v: "is_uuid (str_of (jget v ''id''))" "isScenarioPayload (jget v ''scenario'')"
    "isNonNegativeInteger (jget v ''currentPosition'')"
    "one_of [''active'', ''paused'', ''completed'', ''discarded''] (jget v ''status'')"
    "isPositiveInteger (jget v ''version'')" "isUniqueNonNegativeIntegerArray (jget v ''completedPositions'')"
    "jget v ''currentStep'' = JUndef \<or> isScenarioStepPayload (jget v ''currentStep'')"
    "isTimestamp parse_date (jget v ''startedAt'')" "isTimestamp parse_date (jget v ''updatedAt'')"
    "is_lit (jget v ''status'') ''completed'' \<Longrightarrow> isTimestamp parse_date (jget v ''completedAt'')"
    "is_lit (jget v ''status'') ''active'' \<or> is_lit (jget v ''status'') ''paused'' \<Longrightarrow> isScenarioStepPayload (jget v ''currentStep'')"
    using assms unfolding isScenarioAttemptPayload_def by (simp_all split: if_splits)
  have cur: "at_currentStep (attempt_of v) \<noteq> None" if "at_status (attempt_of v) \<in> {ActiveAttempt, PausedAttempt}"
    using that v(11) status_cases [OF v(4)] by (auto simp: attempt_of_def isScenarioStepPayload_def)
  have fin: "\<exists>t. at_completedAt (attempt_of v) = Some t \<and> isFinite (parse_date t)" if "at_status (attempt_of v) = CompletedAttempt"
    using that v(10) status_cases [OF v(4)] by (auto simp: attempt_of_def isTimestamp_def)
  have step: "step_ok s" if "at_currentStep (attempt_of v) = Some s" for s
    using that v(7) by (auto simp: attempt_of_def intro: step_accepted split: if_splits)
  show ?thesis
    unfolding attempt_ok_def using cur fin step positions_accepted [OF v(6)] scenario_accepted [OF v(2)] v(1,3,5,8,9)
    by (auto simp: attempt_of_def integer_check isTimestamp_def)
qed

definition sample_uuid :: jstr where "sample_uuid = u ''01234567-89ab-4def-8123-456789abcdef''"

definition sample_attempt :: jval where
  "sample_attempt = JObj [(u ''id'', JStr sample_uuid),
     (u ''scenario'', JObj [(u ''slug'', JStr (u ''db-outage'')), (u ''type'', JStr (u ''incident'')), (u ''title'', JStr (u ''T'')),
        (u ''summary'', JStr (u ''S'')), (u ''userRole'', JStr (u ''R'')), (u ''workplaceGoal'', JStr (u ''G'')),
        (u ''completionCriterion'', JStr (u ''C'')), (u ''constraints'', JArr []), (u ''requiresFactHypothesis'', JBool False),
        (u ''estimatedMinutes'', JNum 5), (u ''version'', JNum 1), (u ''stepCount'', JNum 2)]),
     (u ''currentPosition'', JNum 2), (u ''status'', JStr (u ''completed'')), (u ''version'', JNum 3),
     (u ''completedPositions'', JArr [JNum 0, JNum 1]), (u ''startedAt'', JStr (u ''2026'')), (u ''updatedAt'', JStr (u ''2026'')),
     (u ''completedAt'', JStr (u ''2026''))]"

lemma sample_uuid_ok: "is_uuid sample_uuid"
  by (simp add: is_uuid_def sample_uuid_def u_def hex_part_def hex_char_def is_digit_def)

lemma accepted_attempt_is_well_typed_witness: "attempt_ok (\<lambda>d. 0) (attempt_of sample_attempt)"
proof (rule accepted_attempt_is_well_typed)
  have "isScenarioSlug (u ''db-outage'')" by (simp add: isScenarioSlug_def u_def slug_char_def is_digit_def)
  moreover have "trim (u [c]) = u [c]" if "c \<in> {CHR ''T'', CHR ''S'', CHR ''R'', CHR ''G'', CHR ''C''}" for c
    using that by (auto simp: trim_def u_def js_ws_def)
  ultimately show "isScenarioAttemptPayload (\<lambda>d. 0) sample_attempt"
    using sample_uuid_ok
    by (simp add: isScenarioAttemptPayload_def sample_attempt_def isScenarioPayload_def isUniqueNonNegativeIntegerArray_def
        isNonNegativeInteger_def isPositiveInteger_def isTimestamp_def isStringArray_def sc_nonEmptyString_def)
qed


section \<open>Submissions keep their identity\<close>

lemma unix_lines_set: "set (unix_lines s) \<subseteq> insert 10 (set s)"
proof -
  have "set (unix_from b s) \<subseteq> insert 10 (set s)" for b by (induction s arbitrary: b) (auto split: if_splits)
  then show ?thesis by (simp add: unix_lines_def)
qed

lemma units_ok_sub: "units_ok s \<Longrightarrow> set t \<subseteq> insert 10 (set s) \<Longrightarrow> units_ok t"
  by (auto simp: units_ok_def)

lemma unseen_items_from: "x \<in> set (unseen_items lower seen lines) \<Longrightarrow> \<exists>line\<in>set lines. x = trim line"
  by (induction lower seen lines rule: unseen_items.induct) (auto simp: Let_def split: if_splits)

lemma list_units_ok:
  assumes "units_ok s" "x \<in> set (normalizeScenarioList lower s)"
  shows "units_ok x"
proof -
  from assms(2) obtain line where l: "line \<in> set (split_on 10 (unix_lines s))" "x = trim line"
    unfolding normalizeScenarioList_def by (blast dest: unseen_items_from)
  then have "set x \<subseteq> insert 10 (set s)" using set_trim split_on_parts unix_lines_set by blast
  with assms(1) show ?thesis by (rule units_ok_sub)
qed

lemma response_units_ok: "units_ok s \<Longrightarrow> units_ok (normalizeScenarioResponse s)"
  unfolding normalizeScenarioResponse_def using units_ok_sub unix_lines_set units_ok_trim by blast

definition fields_ok :: "ScenarioDraftFields \<Rightarrow> bool" where
  "fields_ok f \<longleftrightarrow> units_ok (df_response f) \<and> units_ok (df_facts f) \<and> units_ok (df_hypotheses f)"

lemma fingerprint_clean:
  "fields_ok f \<Longrightarrow> clean (fingerprint_value (normalizeScenarioResponse (df_response f))
     (normalizeScenarioList lower (df_facts f)) (normalizeScenarioList lower (df_hypotheses f)))"
  by (auto simp: fingerprint_value_def fields_ok_def list_all_iff response_units_ok list_units_ok)

lemma fingerprint_inject:
  assumes "fields_ok f" "fields_ok g"
  shows "scenarioSubmissionFingerprint lower f = scenarioSubmissionFingerprint lower g \<longleftrightarrow>
    normalizeScenarioResponse (df_response f) = normalizeScenarioResponse (df_response g)
    \<and> normalizeScenarioList lower (df_facts f) = normalizeScenarioList lower (df_facts g)
    \<and> normalizeScenarioList lower (df_hypotheses f) = normalizeScenarioList lower (df_hypotheses g)"
proof -
  have inj: "map JStr xs = map JStr ys \<longleftrightarrow> xs = ys" for xs ys by (auto simp: inj_map_eq_map inj_def)
  show ?thesis
    unfolding scenarioSubmissionFingerprint_def json.enc_inject [OF fingerprint_clean [OF assms(1)] fingerprint_clean [OF assms(2)]]
    by (simp add: fingerprint_value_def inj)
qed

text \<open>a submission identifier stands for one content: a later call keeps the identifier exactly when the normalised
  answer, facts and hypotheses are the same, and as long as it is kept, the request built from the form is the same
  request, so a retry is idempotent.\<close>

theorem submission_id_stands_for_content:
  assumes "fields_ok first" "fields_ok second"
    and "resolveScenarioSubmissionIdentity lower None first id1 = Inr a"
    and "resolveScenarioSubmissionIdentity lower (Some a) second id2 = Inr b" "id2 \<noteq> id1"
  shows "(si_submissionId b = si_submissionId a \<longleftrightarrow>
      normalizeScenarioResponse (df_response second) = normalizeScenarioResponse (df_response first)
      \<and> normalizeScenarioList lower (df_facts second) = normalizeScenarioList lower (df_facts first)
      \<and> normalizeScenarioList lower (df_hypotheses second) = normalizeScenarioList lower (df_hypotheses first))
    \<and> (si_submissionId b = si_submissionId a \<longrightarrow>
         buildSubmitScenarioStepRequest lower version (si_submissionId b) second facts_too offset
         = buildSubmitScenarioStepRequest lower version (si_submissionId a) first facts_too offset)"
proof -
  have a: "si_fingerprint a = scenarioSubmissionFingerprint lower first" "si_submissionId a = id1"
    using assms(3) by (auto simp: resolveScenarioSubmissionIdentity_def Let_def split: if_splits)
  have "si_submissionId b = si_submissionId a \<longleftrightarrow> scenarioSubmissionFingerprint lower first = scenarioSubmissionFingerprint lower second"
    using assms(4,5) a by (auto simp: resolveScenarioSubmissionIdentity_def Let_def split: if_splits)
  then have iff: "si_submissionId b = si_submissionId a \<longleftrightarrow>
      normalizeScenarioResponse (df_response second) = normalizeScenarioResponse (df_response first)
      \<and> normalizeScenarioList lower (df_facts second) = normalizeScenarioList lower (df_facts first)
      \<and> normalizeScenarioList lower (df_hypotheses second) = normalizeScenarioList lower (df_hypotheses first)"
    unfolding fingerprint_inject [OF assms(1,2)] by metis
  have "buildSubmitScenarioStepRequest lower version i second facts_too offset
      = buildSubmitScenarioStepRequest lower version i first facts_too offset"
    if "normalizeScenarioResponse (df_response second) = normalizeScenarioResponse (df_response first)"
      "normalizeScenarioList lower (df_facts second) = normalizeScenarioList lower (df_facts first)"
      "normalizeScenarioList lower (df_hypotheses second) = normalizeScenarioList lower (df_hypotheses first)" for i
    unfolding buildSubmitScenarioStepRequest_def Let_def that by (rule refl)
  with iff show ?thesis by metis
qed

definition sample_fields :: ScenarioDraftFields where
  "sample_fields = \<lparr>df_response = u ''We roll back.'', df_facts = [], df_hypotheses = []\<rparr>"

lemma sample_fields_ok: "fields_ok sample_fields" "fields_ok (sample_fields\<lparr>df_response := u '' We roll back.'' @ [13, 10]\<rparr>)"
  by (simp_all add: fields_ok_def sample_fields_def)

lemma submission_id_stands_for_content_witness:
  "buildSubmitScenarioStepRequest id 1 sample_uuid (sample_fields\<lparr>df_response := u '' We roll back.'' @ [13, 10]\<rparr>) True 0
     = buildSubmitScenarioStepRequest id 1 sample_uuid sample_fields True 0"
proof -
  let ?g = "sample_fields\<lparr>df_response := u '' We roll back.'' @ [13, 10]\<rparr>"
  have n: "normalizeScenarioResponse (df_response ?g) = normalizeScenarioResponse (df_response sample_fields)"
    by (simp add: normalizeScenarioResponse_def unix_lines_def sample_fields_def u_def trim_def js_ws_def)
  have f: "scenarioSubmissionFingerprint id ?g = scenarioSubmissionFingerprint id sample_fields"
    using fingerprint_inject [OF sample_fields_ok(2,1), of id] n by (simp add: sample_fields_def)
  let ?a = "\<lparr>si_fingerprint = scenarioSubmissionFingerprint id sample_fields, si_submissionId = sample_uuid\<rparr>"
  have "resolveScenarioSubmissionIdentity id None sample_fields sample_uuid = Inr ?a"
    "resolveScenarioSubmissionIdentity id (Some ?a) ?g [] = Inr ?a" "[] \<noteq> sample_uuid"
    using f sample_uuid_ok by (simp_all add: resolveScenarioSubmissionIdentity_def Let_def sample_uuid_def)
  from submission_id_stands_for_content [OF sample_fields_ok this] show ?thesis by simp
qed

section \<open>Drafts come back to their own form\<close>

definition identity_ok :: "ScenarioIdentity \<Rightarrow> bool" where
  "identity_ok i \<longleftrightarrow> units_ok (id_userId i) \<and> units_ok (id_attemptId i) \<and> num_clean (id_position i)"

lemma draft_json_props [simp]:
  "jget (draft_json d) ''version'' = JNum 1" "jget (draft_json d) ''userId'' = JStr (id_userId (dr_identity d))"
  "jget (draft_json d) ''attemptId'' = JStr (id_attemptId (dr_identity d))"
  "jget (draft_json d) ''position'' = JNum (id_position (dr_identity d))"
  "jget (draft_json d) ''response'' = JStr (df_response (dr_fields d))" "jget (draft_json d) ''facts'' = JStr (df_facts (dr_fields d))"
  "jget (draft_json d) ''hypotheses'' = JStr (df_hypotheses (dr_fields d))"
  "jget (draft_json d) ''updatedAt'' = JStr (dr_updatedAt d)" "isRecord (draft_json d)"
  by (simp_all add: draft_json_def)

lemma draft_clean:
  "identity_ok (dr_identity d) \<Longrightarrow> fields_ok (dr_fields d) \<Longrightarrow> units_ok (dr_updatedAt d) \<Longrightarrow> clean (draft_json d)"
  by (simp add: draft_json_def identity_ok_def fields_ok_def num_clean_def)

lemma draft_of_json: "draft_of (draft_json d) = d"
  by (simp add: draft_of_def)

lemma key_parts:
  assumes "is_uuid x"
  shows "58 \<notin> set x"
proof -
  have "x = join [45] (split_on 45 x)" by (simp add: join_split_on)
  moreover have "58 \<notin> set part" if "part \<in> set (split_on 45 x)" for part
    using assms that unfolding is_uuid_def by (auto simp: hex_part_def hex_char_def is_digit_def split: list.splits)
  moreover have "58 \<notin> set (join [45] parts)" if "\<forall>p\<in>set parts. 58 \<notin> set p" for parts
    using that by (induction parts rule: induct_list012) auto
  ultimately show ?thesis by metis
qed

text \<open>C34: a stored draft is read back unchanged by the form it belongs to and by no other, and two forms never share a
  storage key, also when a user identifier contains the separator.\<close>

theorem draft_returns_to_its_form:
  assumes "identity_ok owner" "fields_ok content" "units_ok t" "isFinite (parse_date t)"
    and "scenarioDraftStorageKey owner = Inr k" "scenarioDraftStorageKey reader = Inr k'"
  shows "parseScenarioDraft parse_date (Some (serializeScenarioDraft (createScenarioDraft owner content t))) reader
      = (if reader = owner then Some (createScenarioDraft owner content t) else None)
    \<and> (k = k' \<longleftrightarrow> reader = owner)"
proof -
  let ?d = "createScenarioDraft owner content t"
  have d: "dr_identity ?d = owner" "dr_fields ?d = content" "dr_updatedAt ?d = t" by (simp_all add: createScenarioDraft_def)
  have c: "clean (draft_json ?d)" using assms(1-3) by (simp add: draft_clean d)
  have same: "reader = owner \<longleftrightarrow> id_userId owner = id_userId reader \<and> id_attemptId owner = id_attemptId reader
      \<and> id_position owner = id_position reader" by (cases owner; cases reader) auto
  have p: "parseScenarioDraft parse_date (Some (serializeScenarioDraft ?d)) reader
      = (if reader = owner then Some ?d else None)"
    using assms(4) json_text_nonempty [OF c] json.dec_enc [OF c]
    by (simp add: parseScenarioDraft_def serializeScenarioDraft_def draft_of_json d same isTimestamp_def)
  have pos: "\<exists>n. id_position i = jnat n" if "scenarioDraftStorageKey i = Inr x" for i x
  proof -
    from that obtain n where "id_position i = jint n" "0 \<le> n"
      by (auto simp: scenarioDraftStorageKey_def integer_check isInteger_iff split: if_splits)
    then have "id_position i = jnat (nat n)" by simp
    then show ?thesis by blast
  qed
  obtain m n where mn: "id_position owner = jnat m" "id_position reader = jnat n" using pos assms(5,6) by blast
  have u: "is_uuid (id_attemptId owner)" "is_uuid (id_attemptId reader)"
    and k: "k = u ''lexigo:scenario-draft:v1:'' @ (id_userId owner @ 58 # (id_attemptId owner @ 58 # nat_str m))"
      "k' = u ''lexigo:scenario-draft:v1:'' @ (id_userId reader @ 58 # (id_attemptId reader @ 58 # nat_str n))"
    using assms(5,6) mn by (auto simp: scenarioDraftStorageKey_def u_def split: if_splits)
  have "k = k' \<longleftrightarrow> (id_userId owner @ 58 # id_attemptId owner) @ 58 # nat_str m = (id_userId reader @ 58 # id_attemptId reader) @ 58 # nat_str n"
    by (simp add: k)
  also have "\<dots> \<longleftrightarrow> id_userId owner @ 58 # id_attemptId owner = id_userId reader @ 58 # id_attemptId reader \<and> m = n"
    using num_str_no_colon by (subst append_sep_unique) (auto simp: num_str_nat)
  also have "\<dots> \<longleftrightarrow> reader = owner"
    using key_parts [OF u(1)] key_parts [OF u(2)] mn by (subst append_sep_unique) (auto simp: same)
  finally show ?thesis using p by blast
qed

definition sample_identity :: ScenarioIdentity where
  "sample_identity = \<lparr>id_userId = u ''a:b'', id_attemptId = sample_uuid, id_position = 2\<rparr>"

lemma draft_returns_to_its_form_witness:
  "parseScenarioDraft (\<lambda>d. 0) (Some (serializeScenarioDraft (createScenarioDraft sample_identity sample_fields (u ''2026''))))
     sample_identity = Some (createScenarioDraft sample_identity sample_fields (u ''2026''))"
proof -
  have i: "identity_ok sample_identity"
    by (simp add: identity_ok_def sample_identity_def sample_uuid_def num_clean_def)
  have k: "scenarioDraftStorageKey sample_identity =
      Inr (u ''lexigo:scenario-draft:v1:'' @ u ''a:b'' @ u '':'' @ sample_uuid @ u '':'' @ num_str 2)"
    using sample_uuid_ok by (simp add: scenarioDraftStorageKey_def sample_identity_def isNonNegativeInteger_def)
  from draft_returns_to_its_form [OF i sample_fields_ok(1) _ _ k k, of "u ''2026''" "\<lambda>d. 0"] show ?thesis by simp
qed

end
