(* ===== verification/Navigation.thy ===== *)
theory Navigation
  imports Scenarios
begin

text \<open>
  \<open>src/frontend/lib/navigation.ts\<close>: the navigation target of the application, its address in the
  URL, and the copy kept in storage.  A target that is passed to a function expecting an
  \<open>unknown\<close> value is the object \<open>nav_value\<close>.
\<close>

section \<open>Data\<close>

datatype AppView = HomeView | LearnView | PhrasesView | LibraryView | ProgressView | ProfileView | OnboardingView | LessonView | ScenarioView
datatype CatalogStatus = StatusNew | StatusLearning | StatusReview | StatusMastered
datatype CatalogSort = SortDefault | SortAZ | SortZA
datatype NavigationSource = SourceMixed | SourceNoun | SourceVerb | SourceAdjective | SourcePhrases | SourceDailyLife
  | SourceTravel | SourceDataEngineering | SourceBackend | SourceAcademic

record NavigationTarget =
  nt_view :: AppView
  nt_source :: "NavigationSource option"
  nt_topic :: "jstr option"
  nt_status :: "CatalogStatus option"
  nt_query :: "jstr option"
  nt_sort :: "CatalogSort option"
  nt_page :: "jnum option"
  nt_detail :: "jstr option"

fun view_text :: "AppView \<Rightarrow> jstr" where
  "view_text HomeView = u ''home''" | "view_text LearnView = u ''learn''" | "view_text PhrasesView = u ''phrases''"
| "view_text LibraryView = u ''library''" | "view_text ProgressView = u ''progress''" | "view_text ProfileView = u ''profile''"
| "view_text OnboardingView = u ''onboarding''" | "view_text LessonView = u ''lesson''" | "view_text ScenarioView = u ''scenario''"

fun catalog_status_text :: "CatalogStatus \<Rightarrow> jstr" where
  "catalog_status_text StatusNew = u ''new''" | "catalog_status_text StatusLearning = u ''learning''"
| "catalog_status_text StatusReview = u ''review''" | "catalog_status_text StatusMastered = u ''mastered''"

fun sort_text :: "CatalogSort \<Rightarrow> jstr" where
  "sort_text SortDefault = u ''default''" | "sort_text SortAZ = u ''az''" | "sort_text SortZA = u ''za''"

fun source_text :: "NavigationSource \<Rightarrow> jstr" where
  "source_text SourceMixed = u ''mixed''" | "source_text SourceNoun = u ''noun''" | "source_text SourceVerb = u ''verb''"
| "source_text SourceAdjective = u ''adjective''" | "source_text SourcePhrases = u ''phrases''"
| "source_text SourceDailyLife = u ''daily-life''" | "source_text SourceTravel = u ''travel''"
| "source_text SourceDataEngineering = u ''data-engineering''" | "source_text SourceBackend = u ''backend''"
| "source_text SourceAcademic = u ''academic-technical-english''"

definition VIEWS :: "AppView list" where
  "VIEWS = [HomeView, LearnView, PhrasesView, LibraryView, ProgressView, ProfileView, OnboardingView, LessonView, ScenarioView]"

definition RESTORABLE_VIEWS :: "AppView list" where
  "RESTORABLE_VIEWS = [HomeView, LearnView, PhrasesView, LibraryView, ProgressView]"

definition SOURCES :: "NavigationSource list" where
  "SOURCES = [SourceMixed, SourceNoun, SourceVerb, SourceAdjective, SourcePhrases, SourceDailyLife, SourceTravel,
     SourceDataEngineering, SourceBackend, SourceAcademic]"

definition CATALOG_STATUSES :: "CatalogStatus list" where
  "CATALOG_STATUSES = [StatusNew, StatusLearning, StatusReview, StatusMastered]"

definition CATALOG_SORTS :: "CatalogSort list" where "CATALOG_SORTS = [SortDefault, SortAZ, SortZA]"

definition MAX_ROUTE_VALUE_LENGTH :: nat where "MAX_ROUTE_VALUE_LENGTH = 120"
definition NAVIGATION_STORAGE_VERSION :: jnum where "NAVIGATION_STORAGE_VERSION = 2"
definition NAVIGATION_STORAGE_KEY :: jstr where "NAVIGATION_STORAGE_KEY = u ''lexigo.navigation.v2''"
definition LEGACY_NAVIGATION_STORAGE_KEY :: jstr where "LEGACY_NAVIGATION_STORAGE_KEY = u ''lexigo.navigation.v1''"

fun PRIMARY_PATHS :: "AppView \<Rightarrow> jstr option" where
  "PRIMARY_PATHS HomeView = Some (u ''/'')" | "PRIMARY_PATHS LearnView = Some (u ''/learn'')"
| "PRIMARY_PATHS PhrasesView = Some (u ''/phrases'')" | "PRIMARY_PATHS LibraryView = Some (u ''/dictionary'')"
| "PRIMARY_PATHS ProgressView = Some (u ''/progress'')" | "PRIMARY_PATHS ProfileView = Some (u ''/profile'')"
| "PRIMARY_PATHS OnboardingView = Some (u ''/onboarding'')" | "PRIMARY_PATHS v = None"

definition PRIMARY_NAVIGATION :: "(AppView \<times> jstr \<times> jstr) list" where
  "PRIMARY_NAVIGATION =
     [(HomeView, [1043, 1083, 1072, 1074, 1085, 1072, 1103], [1043, 1083, 1072, 1074, 1085, 1072, 1103]), (LearnView, [1054, 1073, 1091, 1095, 1077, 1085, 1080, 1077], [1059, 1095, 1080, 1090, 1100]),
      (LibraryView, [1057, 1083, 1086, 1074, 1072, 1088, 1100], [1057, 1083, 1086, 1074, 1072, 1088, 1100]), (ProgressView, [1055, 1088, 1086, 1075, 1088, 1077, 1089, 1089], [1055, 1088, 1086, 1075, 1088, 1077, 1089, 1089])]"

definition only_view :: "AppView \<Rightarrow> NavigationTarget" where
  "only_view v = \<lparr>nt_view = v, nt_source = None, nt_topic = None, nt_status = None, nt_query = None, nt_sort = None,
     nt_page = None, nt_detail = None\<rparr>"

text \<open>The member of a set of literals with the given text.\<close>

definition literal :: "('a \<Rightarrow> jstr) \<Rightarrow> 'a list \<Rightarrow> jstr \<Rightarrow> 'a option" where
  "literal text_of vs s = find (\<lambda>v. text_of v = s) vs"

definition literal_value :: "('a \<Rightarrow> jstr) \<Rightarrow> 'a list \<Rightarrow> jval \<Rightarrow> 'a option" where
  "literal_value text_of vs v = (if is_string v then literal text_of vs (str_of v) else None)"

section \<open>Normal form\<close>

definition normalizedText :: "jval \<Rightarrow> jstr option" where
  "normalizedText v =
     (if \<not> is_string v then None
      else let normalized = trim (str_of v) in
        if normalized \<noteq> [] \<and> length normalized \<le> MAX_ROUTE_VALUE_LENGTH then Some normalized else None)"

definition all_digits :: "jstr \<Rightarrow> bool" where
  "all_digits s \<longleftrightarrow> s \<noteq> [] \<and> (\<forall>c\<in>set s. is_digit c)"

definition normalizedPage :: "jval \<Rightarrow> jnum option" where
  "normalizedPage v =
     (if v_isInteger v \<and> num_of v > 0 then Some (num_of v)
      else if is_string v \<and> all_digits (str_of v) then
        (let parsed = jnat (digits_val (str_of v)) in if isSafeInteger parsed \<and> parsed > 0 then Some parsed else None)
      else None)"

definition normalizeNavigation :: "jval \<Rightarrow> NavigationTarget option" where
  "normalizeNavigation v =
     (if \<not> isRecord v then None
      else
        let source = literal_value source_text SOURCES (jget v ''source'');
            status = literal_value catalog_status_text CATALOG_STATUSES (jget v ''status'');
            sort = literal_value sort_text CATALOG_SORTS (jget v ''sort'');
            page = normalizedPage (jget v ''page'');
            topic = normalizedText (jget v ''topic'');
            query = normalizedText (jget v ''query'');
            detail = normalizedText (jget v ''detail'') in
        (case literal_value view_text VIEWS (jget v ''view'') of
           None \<Rightarrow> None
         | Some view \<Rightarrow>
             if jget v ''source'' \<noteq> JUndef \<and> source = None then None
             else if jget v ''status'' \<noteq> JUndef \<and> status = None then None
             else if jget v ''sort'' \<noteq> JUndef \<and> sort = None then None
             else if jget v ''page'' \<noteq> JUndef \<and> page = None then None
             else if jget v ''topic'' \<noteq> JUndef \<and> topic = None \<or> jget v ''query'' \<noteq> JUndef \<and> query = None
               \<or> jget v ''detail'' \<noteq> JUndef \<and> detail = None then None
             else Some \<lparr>nt_view = view, nt_source = source, nt_topic = topic, nt_status = status, nt_query = query,
               nt_sort = sort, nt_page = (case page of Some p \<Rightarrow> if p > 1 then Some p else None | None \<Rightarrow> None),
               nt_detail = detail\<rparr>))"

definition nav_value :: "NavigationTarget \<Rightarrow> jval" where
  "nav_value t = JObj ([(u ''view'', JStr (view_text (nt_view t)))]
     @ opt_prop ''source'' (JStr \<circ> source_text) (nt_source t)
     @ opt_prop ''topic'' JStr (nt_topic t)
     @ opt_prop ''status'' (JStr \<circ> catalog_status_text) (nt_status t)
     @ opt_prop ''query'' JStr (nt_query t)
     @ opt_prop ''sort'' (JStr \<circ> sort_text) (nt_sort t)
     @ opt_prop ''page'' JNum (nt_page t)
     @ opt_prop ''detail'' JStr (nt_detail t)
     @ [])"

definition parse_json_or_null :: "jstr option \<Rightarrow> jval" where
  "parse_json_or_null raw =
     (case raw of None \<Rightarrow> JNull | Some s \<Rightarrow> if s = [] then JNull else (case json_parse s of Some v \<Rightarrow> v | None \<Rightarrow> JNull))"

definition isRestorableNavigation :: "NavigationTarget \<Rightarrow> bool" where
  "isRestorableNavigation t \<longleftrightarrow> nt_view t \<in> set RESTORABLE_VIEWS"

definition restorableTarget :: "jval \<Rightarrow> NavigationTarget option" where
  "restorableTarget candidate =
     (case normalizeNavigation candidate of
        Some t \<Rightarrow> if isRestorableNavigation t then Some t else None | None \<Rightarrow> None)"

section \<open>Paths\<close>

definition strip_slashes :: "jstr \<Rightarrow> jstr" where
  "strip_slashes s = rev (dropWhile (\<lambda>c. c = 47) (rev s))"

definition normalizePathname :: "jstr \<Rightarrow> jstr" where
  "normalizePathname value =
     (let pathname = (if trim value \<noteq> [] then trim value else u ''/'') in
      if pathname = u ''/'' then pathname
      else if strip_slashes pathname \<noteq> [] then strip_slashes pathname else u ''/'')"

definition safeDecodePathSegment :: "jstr \<Rightarrow> jstr" where
  "safeDecodePathSegment value = (case decodeURIComponent value of Inr s \<Rightarrow> s | Inl e \<Rightarrow> [])"

definition encodedPathSegment :: "jstr \<Rightarrow> js_exn + jstr" where
  "encodedPathSegment value =
     (case normalizedText (JStr value) of Some normalized \<Rightarrow> encodeURIComponent normalized | None \<Rightarrow> Inr [])"

text \<open>The one segment after a prefix, for the patterns \<open>^PREFIX([^/]+)$\<close>.\<close>

definition segment_after :: "string \<Rightarrow> jstr \<Rightarrow> jstr option" where
  "segment_after lead s =
     (let n = length lead; rest = drop n s in
      if take n s = u lead \<and> rest \<noteq> [] \<and> 47 \<notin> set rest then Some rest else None)"

definition word_number :: "jstr \<Rightarrow> bool" where
  "word_number s \<longleftrightarrow> all_digits s \<and> hd s \<noteq> 48"

definition pathnameTarget :: "jstr \<Rightarrow> NavigationTarget" where
  "pathnameTarget pathname =
     (let normalized = normalizePathname pathname;
          detail_of = (\<lambda>seg. normalizedText (JStr (safeDecodePathSegment seg))) in
      if normalized = u ''/'' then only_view HomeView
      else if normalized = u ''/learn'' then only_view LearnView
      else if normalized = u ''/phrases'' then only_view PhrasesView
      else if normalized = u ''/dictionary'' then only_view LibraryView
      else if normalized = u ''/progress'' then only_view ProgressView
      else if normalized = u ''/profile'' then only_view ProfileView
      else if normalized = u ''/onboarding'' then only_view OnboardingView
      else if normalized = u ''/scenarios'' then only_view ScenarioView
      else (case segment_after ''/phrases/'' normalized of
          Some seg \<Rightarrow> (only_view PhrasesView)\<lparr>nt_detail := detail_of seg\<rparr>
        | None \<Rightarrow>
      (case segment_after ''/words/'' normalized of
          Some seg \<Rightarrow> if word_number seg then (only_view LibraryView)\<lparr>nt_detail := Some seg\<rparr> else only_view HomeView
        | None \<Rightarrow>
      (case segment_after ''/lesson/'' normalized of
          Some seg \<Rightarrow> (only_view LessonView)\<lparr>nt_detail := detail_of seg\<rparr>
        | None \<Rightarrow>
      (case segment_after ''/scenarios/'' normalized of
          Some seg \<Rightarrow>
            (case detail_of seg of
               Some d \<Rightarrow> if isScenarioSlug d then (only_view ScenarioView)\<lparr>nt_detail := Some d\<rparr> else only_view HomeView
             | None \<Rightarrow> only_view HomeView)
        | None \<Rightarrow> only_view HomeView)))))"

section \<open>The address of a target\<close>

definition coalesce :: "'a option \<Rightarrow> 'a option \<Rightarrow> 'a option" where
  "coalesce a b = (case a of Some x \<Rightarrow> Some x | None \<Rightarrow> b)"

definition parseNavigation :: "jstr \<Rightarrow> jstr \<Rightarrow> NavigationTarget" where
  "parseNavigation search pathname =
     (let params = params_parse (if search \<noteq> [] \<and> hd search = 63 then tl search else search);
          fromPath = pathnameTarget pathname;
          text_param = (\<lambda>k. Option.bind (params_get params (u k)) (\<lambda>s. normalizedText (JStr s)));
          page = coalesce (Option.bind (params_get params (u ''page'')) (\<lambda>s. normalizedPage (JStr s))) (nt_page fromPath) in
      \<lparr>nt_view = (case Option.bind (params_get params (u ''view'')) (literal view_text VIEWS) of Some v \<Rightarrow> v | None \<Rightarrow> nt_view fromPath),
       nt_source = coalesce (Option.bind (params_get params (u ''source'')) (literal source_text SOURCES)) (nt_source fromPath),
       nt_topic = coalesce (text_param ''topic'') (nt_topic fromPath),
       nt_status = coalesce (Option.bind (params_get params (u ''status'')) (literal catalog_status_text CATALOG_STATUSES)) (nt_status fromPath),
       nt_query = coalesce (text_param ''query'') (nt_query fromPath),
       nt_sort = coalesce (Option.bind (params_get params (u ''sort'')) (literal sort_text CATALOG_SORTS)) (nt_sort fromPath),
       nt_page = (case page of Some p \<Rightarrow> if p > 1 then Some p else None | None \<Rightarrow> None),
       nt_detail = coalesce (text_param ''detail'') (nt_detail fromPath)\<rparr>)"

text \<open>\<open>location\<close> is its path and its search.\<close>

definition parseNavigationLocation :: "jstr \<times> jstr \<Rightarrow> NavigationTarget" where
  "parseNavigationLocation location = parseNavigation (snd location) (fst location)"

definition normalized_target :: "NavigationTarget \<Rightarrow> NavigationTarget" where
  "normalized_target t = (case normalizeNavigation (nav_value t) of Some n \<Rightarrow> n | None \<Rightarrow> only_view HomeView)"

definition under :: "string \<Rightarrow> js_exn + jstr \<Rightarrow> js_exn + jstr" where
  "under lead r = (case r of Inr s \<Rightarrow> Inr (u lead @ s) | Inl e \<Rightarrow> Inl e)"

definition routePath :: "NavigationTarget \<Rightarrow> js_exn + jstr" where
  "routePath target =
     (let normalized = normalized_target target in
      if nt_view normalized = LessonView then
        under ''/lesson/'' (encodedPathSegment (case nt_detail normalized of Some d \<Rightarrow> d | None \<Rightarrow> u ''active''))
      else if nt_view normalized = ScenarioView then
        (case nt_detail normalized of
           Some d \<Rightarrow> if isScenarioSlug d then under ''/scenarios/'' (encodedPathSegment d) else Inr (u ''/scenarios'')
         | None \<Rightarrow> Inr (u ''/scenarios''))
      else (case (nt_view normalized, nt_detail normalized) of
          (LibraryView, Some d) \<Rightarrow> if all_digits d then Inr (u ''/words/'' @ d) else Inr (u ''/dictionary'')
        | (PhrasesView, Some d) \<Rightarrow> under ''/phrases/'' (encodedPathSegment d)
        | (v, d) \<Rightarrow> Inr (case PRIMARY_PATHS v of Some p \<Rightarrow> p | None \<Rightarrow> [])))"

definition set_param :: "string \<Rightarrow> ('a \<Rightarrow> jstr) \<Rightarrow> 'a option \<Rightarrow> params \<Rightarrow> params" where
  "set_param k f x ps = (case x of Some y \<Rightarrow> params_set ps (u k) (f y) | None \<Rightarrow> ps)"

definition navigation_params :: "NavigationTarget \<Rightarrow> params" where
  "navigation_params n =
     (let ps = set_param ''source'' source_text (nt_source n) [];
          ps = set_param ''topic'' id (nt_topic n) ps;
          ps = set_param ''status'' catalog_status_text (nt_status n) ps;
          ps = set_param ''query'' id (nt_query n) ps;
          ps = set_param ''sort'' sort_text (if nt_sort n = Some SortDefault then None else nt_sort n) ps in
      set_param ''page'' num_str (case nt_page n of Some p \<Rightarrow> if p > 1 then Some p else None | None \<Rightarrow> None) ps)"

definition navigationURL :: "NavigationTarget \<Rightarrow> js_exn + jstr" where
  "navigationURL target =
     (let normalized = normalized_target target; query = params_text (navigation_params normalized) in
      case routePath normalized of
        Inl e \<Rightarrow> Inl e
      | Inr pathname \<Rightarrow> Inr (if query \<noteq> [] then pathname @ 63 # query else pathname))"

definition canonicalURLFromLegacySearch :: "jstr \<Rightarrow> js_exn + jstr option" where
  "canonicalURLFromLegacySearch search =
     (if \<not> params_has (params_parse (if search \<noteq> [] \<and> hd search = 63 then tl search else search)) (u ''view'') then Inr None
      else (case navigationURL (parseNavigation search (u ''/'')) of Inl e \<Rightarrow> Inl e | Inr url \<Rightarrow> Inr (Some url)))"

definition isCanonicalRoutePath :: "jstr \<Rightarrow> bool" where
  "isCanonicalRoutePath pathname \<longleftrightarrow>
     (let normalized = normalizePathname pathname in
      normalized = u ''/'' \<or> normalized = u ''/scenarios''
      \<or> Some normalized \<in> PRIMARY_PATHS ` set VIEWS
      \<or> segment_after ''/phrases/'' normalized \<noteq> None
      \<or> (case segment_after ''/words/'' normalized of Some seg \<Rightarrow> word_number seg | None \<Rightarrow> False)
      \<or> normalized = u ''/lesson/active''
      \<or> (case segment_after ''/scenarios/'' normalized of Some seg \<Rightarrow> isScenarioSlug (safeDecodePathSegment seg) | None \<Rightarrow> False))"

section \<open>The stored copy\<close>

definition serializeStoredNavigation :: "NavigationTarget \<Rightarrow> js_exn + jstr" where
  "serializeStoredNavigation t =
     (if \<not> isRestorableNavigation t then Inl TypeError
      else Inr (json_stringify (JObj [(u ''version'', JNum NAVIGATION_STORAGE_VERSION), (u ''target'', nav_value t)])))"

definition parseStoredNavigation :: "jstr option \<Rightarrow> NavigationTarget option" where
  "parseStoredNavigation raw =
     (let v = parse_json_or_null raw in
      if \<not> isRecord v \<or> jget v ''version'' \<noteq> JNum NAVIGATION_STORAGE_VERSION then None
      else restorableTarget (jget v ''target''))"

definition parseLegacyStoredNavigation :: "jstr option \<Rightarrow> NavigationTarget option" where
  "parseLegacyStoredNavigation raw = restorableTarget (parse_json_or_null raw)"

text \<open>The second half of reading: the legacy entry is moved.  An exception ends it with nothing read.\<close>

definition read_legacy :: "storage \<Rightarrow> NavigationTarget option \<times> storage" where
  "read_legacy st =
     (case getItem st LEGACY_NAVIGATION_STORAGE_KEY of
        Inl e \<Rightarrow> (None, st)
      | Inr None \<Rightarrow> (None, st)
      | Inr (Some legacyRaw) \<Rightarrow>
          (case removeItem st LEGACY_NAVIGATION_STORAGE_KEY of
             Inl e \<Rightarrow> (None, st)
           | Inr st \<Rightarrow>
               (case parseLegacyStoredNavigation (Some legacyRaw) of
                  None \<Rightarrow> (None, st)
                | Some legacy \<Rightarrow>
                    (case serializeStoredNavigation legacy of
                       Inl e \<Rightarrow> (None, st)
                     | Inr text \<Rightarrow>
                         (case setItem st NAVIGATION_STORAGE_KEY text of Inl e \<Rightarrow> (None, st) | Inr st \<Rightarrow> (Some legacy, st))))))"

definition readPersistedNavigation :: "storage \<Rightarrow> NavigationTarget option \<times> storage" where
  "readPersistedNavigation st =
     (case getItem st NAVIGATION_STORAGE_KEY of
        Inl e \<Rightarrow> (None, st)
      | Inr None \<Rightarrow> read_legacy st
      | Inr (Some currentRaw) \<Rightarrow>
          (case parseStoredNavigation (Some currentRaw) of
             Some current \<Rightarrow> (Some current, st)
           | None \<Rightarrow>
               (case removeItem st NAVIGATION_STORAGE_KEY of Inl e \<Rightarrow> (None, st) | Inr st \<Rightarrow> read_legacy st)))"

definition writePersistedNavigation :: "storage \<Rightarrow> NavigationTarget \<Rightarrow> storage" where
  "writePersistedNavigation st t =
     (if \<not> isRestorableNavigation t then
        (case removeItem st NAVIGATION_STORAGE_KEY of Inl e \<Rightarrow> st | Inr st \<Rightarrow> st)
      else (case serializeStoredNavigation t of
          Inl e \<Rightarrow> st
        | Inr text \<Rightarrow>
            (case setItem st NAVIGATION_STORAGE_KEY text of
               Inl e \<Rightarrow> st
             | Inr st \<Rightarrow> (case removeItem st LEGACY_NAVIGATION_STORAGE_KEY of Inl e \<Rightarrow> st | Inr st \<Rightarrow> st))))"

definition viewTitle :: "AppView \<Rightarrow> jstr" where
  "viewTitle v =
     (case v of LearnView \<Rightarrow> [1054, 1073, 1091, 1095, 1077, 1085, 1080, 1077] | PhrasesView \<Rightarrow> [1058, 1077, 1093, 1085, 1080, 1095, 1077, 1089, 1082, 1080, 1077, 32, 1092, 1088, 1072, 1079, 1099] | LibraryView \<Rightarrow> [1057, 1083, 1086, 1074, 1072, 1088, 1100]
      | ProgressView \<Rightarrow> [1055, 1088, 1086, 1075, 1088, 1077, 1089, 1089] | ProfileView \<Rightarrow> [1055, 1088, 1086, 1092, 1080, 1083, 1100] | OnboardingView \<Rightarrow> [1055, 1077, 1088, 1074, 1080, 1095, 1085, 1072, 1103, 32, 1085, 1072, 1089, 1090, 1088, 1086, 1081, 1082, 1072]
      | LessonView \<Rightarrow> [1059, 1088, 1086, 1082] | ScenarioView \<Rightarrow> [1057, 1094, 1077, 1085, 1072, 1088, 1080, 1081] | HomeView \<Rightarrow> [1043, 1083, 1072, 1074, 1085, 1072, 1103])"


section \<open>A target is read back from its address\<close>

lemma literal_inj:
  assumes "inj text_of" "v \<in> set vs"
  shows "literal text_of vs (text_of v) = Some v"
proof -
  have "literal text_of vs (text_of v) \<noteq> None" using assms(2) by (auto simp: literal_def find_None_iff)
  then obtain w where "literal text_of vs (text_of v) = Some w" "text_of w = text_of v"
    by (auto simp: literal_def find_Some_iff)
  with assms(1) show ?thesis by (auto dest: injD)
qed

lemma text_inj: "inj view_text" "inj source_text" "inj catalog_status_text" "inj sort_text"
  by (auto intro!: injI elim!: view_text.elims source_text.elims catalog_status_text.elims sort_text.elims)

lemma every_view: "v \<in> set VIEWS" by (cases v) (simp_all add: VIEWS_def)
lemma every_source: "s \<in> set SOURCES" by (cases s) (simp_all add: SOURCES_def)
lemma every_status: "c \<in> set CATALOG_STATUSES" by (cases c) (simp_all add: CATALOG_STATUSES_def)
lemma every_sort: "o' \<in> set CATALOG_SORTS" by (cases o') (simp_all add: CATALOG_SORTS_def)
lemmas all_literals = every_view every_source every_status every_sort

lemma literals [simp]:
  "literal view_text VIEWS (view_text v) = Some v" "literal source_text SOURCES (source_text s) = Some s"
  "literal catalog_status_text CATALOG_STATUSES (catalog_status_text c) = Some c"
  "literal sort_text CATALOG_SORTS (sort_text o') = Some o'"
  by (rule literal_inj, rule text_inj, rule all_literals)+

text \<open>The text fields of a normal target.\<close>

definition route_value :: "jstr \<Rightarrow> bool" where
  "route_value s \<longleftrightarrow> s \<noteq> [] \<and> trim s = s \<and> length s \<le> 120"

definition normal_target :: "NavigationTarget \<Rightarrow> bool" where
  "normal_target t \<longleftrightarrow>
     (\<forall>s. nt_topic t = Some s \<longrightarrow> route_value s) \<and> (\<forall>s. nt_query t = Some s \<longrightarrow> route_value s)
     \<and> (\<forall>s. nt_detail t = Some s \<longrightarrow> route_value s)
     \<and> (\<forall>p. nt_page t = Some p \<longrightarrow> isInteger p \<and> 1 < p)"

lemma normalizedText_value [simp]: "route_value s \<Longrightarrow> normalizedText (JStr s) = Some s"
  by (simp add: normalizedText_def route_value_def MAX_ROUTE_VALUE_LENGTH_def)

lemma normalizedText_ok: "normalizedText v = Some s \<Longrightarrow> route_value s"
  by (auto simp: normalizedText_def route_value_def MAX_ROUTE_VALUE_LENGTH_def Let_def split: if_splits)

lemma jget_opt_end: "jget (JObj (opt_prop k' f x)) k = (if k' = k \<and> x \<noteq> None then f (the x) else JUndef)"
  by (auto simp: opt_prop_def split: option.splits)

lemma nav_value_props [simp]:
  "isRecord (nav_value t)" "jget (nav_value t) ''view'' = JStr (view_text (nt_view t))"
  "jget (nav_value t) ''source'' = (case nt_source t of Some x \<Rightarrow> JStr (source_text x) | None \<Rightarrow> JUndef)"
  "jget (nav_value t) ''topic'' = (case nt_topic t of Some x \<Rightarrow> JStr x | None \<Rightarrow> JUndef)"
  "jget (nav_value t) ''status'' = (case nt_status t of Some x \<Rightarrow> JStr (catalog_status_text x) | None \<Rightarrow> JUndef)"
  "jget (nav_value t) ''query'' = (case nt_query t of Some x \<Rightarrow> JStr x | None \<Rightarrow> JUndef)"
  "jget (nav_value t) ''sort'' = (case nt_sort t of Some x \<Rightarrow> JStr (sort_text x) | None \<Rightarrow> JUndef)"
  "jget (nav_value t) ''page'' = (case nt_page t of Some x \<Rightarrow> JNum x | None \<Rightarrow> JUndef)"
  "jget (nav_value t) ''detail'' = (case nt_detail t of Some x \<Rightarrow> JStr x | None \<Rightarrow> JUndef)"
  by (simp_all add: nav_value_def jget_opt_end split: option.split)

lemma not_string_undef [simp]: "literal_value f vs JUndef = None" "normalizedText JUndef = None" "normalizedPage JUndef = None"
  by (simp_all add: literal_value_def normalizedText_def normalizedPage_def)

lemma normalize_normal:
  assumes "normal_target t"
  shows "normalizeNavigation (nav_value t) = Some t"
proof -
  have lit: "literal_value view_text VIEWS (JStr (view_text (nt_view t))) = Some (nt_view t)"
    "literal_value source_text SOURCES (case nt_source t of Some x \<Rightarrow> JStr (source_text x) | None \<Rightarrow> JUndef) = nt_source t"
    "literal_value catalog_status_text CATALOG_STATUSES (case nt_status t of Some x \<Rightarrow> JStr (catalog_status_text x) | None \<Rightarrow> JUndef) = nt_status t"
    "literal_value sort_text CATALOG_SORTS (case nt_sort t of Some x \<Rightarrow> JStr (sort_text x) | None \<Rightarrow> JUndef) = nt_sort t"
    by (simp_all add: literal_value_def split: option.split)
  have texts: "normalizedText (case nt_topic t of Some x \<Rightarrow> JStr x | None \<Rightarrow> JUndef) = nt_topic t"
    "normalizedText (case nt_query t of Some x \<Rightarrow> JStr x | None \<Rightarrow> JUndef) = nt_query t"
    "normalizedText (case nt_detail t of Some x \<Rightarrow> JStr x | None \<Rightarrow> JUndef) = nt_detail t"
    using assms by (auto simp: normal_target_def split: option.split)
  have gt: "0 < p" if "(1 :: jnum) < p" for p using that by (cases p) auto
  have pg: "normalizedPage (case nt_page t of Some x \<Rightarrow> JNum x | None \<Rightarrow> JUndef) = nt_page t"
    using assms gt by (auto simp: normal_target_def normalizedPage_def split: option.split)
  have page: "(case nt_page t of Some p \<Rightarrow> if p > 1 then Some p else None | None \<Rightarrow> None) = nt_page t"
    using assms by (auto simp: normal_target_def split: option.split)
  show ?thesis
    unfolding normalizeNavigation_def nav_value_props Let_def lit texts pg page
    by (simp split: option.split)
qed

lemma normalizedPage_ok: "normalizedPage v = Some p \<Longrightarrow> isInteger p"
  by (auto simp: normalizedPage_def v_class_iff Let_def split: if_splits)

lemma guard_some: "(if a then None else r) = Some t \<longleftrightarrow> \<not> a \<and> r = Some t" by simp

lemma normalized_normal:
  assumes "normalizeNavigation v = Some t"
  shows "normal_target t"
proof -
  obtain view where view: "literal_value view_text VIEWS (jget v ''view'') = Some view"
    using assms by (cases "literal_value view_text VIEWS (jget v ''view'')") (simp_all add: normalizeNavigation_def Let_def split: if_splits)
  have "\<lparr>nt_view = view, nt_source = literal_value source_text SOURCES (jget v ''source''),
      nt_topic = normalizedText (jget v ''topic''),
      nt_status = literal_value catalog_status_text CATALOG_STATUSES (jget v ''status''),
      nt_query = normalizedText (jget v ''query''), nt_sort = literal_value sort_text CATALOG_SORTS (jget v ''sort''),
      nt_page = (case normalizedPage (jget v ''page'') of Some p \<Rightarrow> if p > 1 then Some p else None | None \<Rightarrow> None),
      nt_detail = normalizedText (jget v ''detail'')\<rparr> = t"
    using assms unfolding normalizeNavigation_def Let_def view option.case guard_some option.inject
    by (simp only: simp_thms split: if_splits)
  from this [symmetric] have "nt_topic t = normalizedText (jget v ''topic'')" "nt_query t = normalizedText (jget v ''query'')"
    "nt_detail t = normalizedText (jget v ''detail'')"
    "nt_page t = (case normalizedPage (jget v ''page'') of Some p \<Rightarrow> if p > 1 then Some p else None | None \<Rightarrow> None)"
    by (simp_all only: NavigationTarget.simps)
  then show ?thesis
    unfolding normal_target_def by (auto dest: normalizedText_ok normalizedPage_ok split: option.splits if_splits)
qed

text \<open>The query string carries the fields that are not part of the path.\<close>

lemma params_set_in: "kv \<in> set (params_set ps k v) \<Longrightarrow> kv = (k, v) \<or> kv \<in> set ps"
  by (induction ps) (auto simp: params_delete_def split: if_splits)

lemma get_set_param [simp]:
  "params_get (set_param k f x ps) k' = (if k' = u k \<and> x \<noteq> None then Some (f (the x)) else params_get ps k')"
  by (auto simp: set_param_def params_get_set split: option.splits)

abbreviation wf_params :: "params \<Rightarrow> bool" where "wf_params ps \<equiv> \<forall>(k, v)\<in>set ps. wf16 k \<and> wf16 v"

lemma wf_set_param:
  "wf_params ps \<Longrightarrow> ascii (u k) \<Longrightarrow> (\<And>y. x = Some y \<Longrightarrow> wf16 (f y)) \<Longrightarrow> wf_params (set_param k f x ps)"
  by (auto simp: set_param_def wf16_ascii split: option.splits dest!: params_set_in)

lemma ascii_literals: "ascii (source_text s)" "ascii (catalog_status_text c)" "ascii (sort_text o')"
proof -
  show "ascii (source_text s)" by (cases s) (simp_all add: ascii_def u_def)
  show "ascii (catalog_status_text c)" by (cases c) (simp_all add: ascii_def u_def)
  show "ascii (sort_text o')" by (cases o') (simp_all add: ascii_def u_def)
qed

lemmas wf_literals = ascii_literals [THEN wf16_ascii]

text \<open>Targets whose text survives the URL encoding and whose page is a safe integer.\<close>

definition encodable :: "NavigationTarget \<Rightarrow> bool" where
  "encodable t \<longleftrightarrow> (\<forall>s. nt_topic t = Some s \<or> nt_query t = Some s \<or> nt_detail t = Some s \<longrightarrow> wf16 s)
     \<and> (\<forall>p. nt_page t = Some p \<longrightarrow> isSafeInteger p)"

lemma page_text:
  assumes "isSafeInteger p" "1 < p"
  shows "wf16 (num_str p)" "normalizedPage (JStr (num_str p)) = Some p"
proof -
  obtain r where r: "p = Fin r" "is_int r" "\<bar>r\<bar> \<le> 9007199254740991" using assms(1) by (cases p) (auto simp: isSafeInteger_def)
  with assms(2) obtain i where i: "r = of_int i" "1 < i" by (auto simp: is_int_iff)
  define n where "n = nat i"
  have p: "p = jnat n" and n: "1 < n" using r i by (auto simp: n_def)
  have safe: "isSafeInteger (jnat n)" using assms(1) p by simp
  have d: "\<forall>c\<in>set (nat_str n). is_digit c" by (blast intro: nat_str_digits)
  show "wf16 (num_str p)" using d by (intro wf16_ascii) (fastforce simp: p ascii_def is_digit_def)
  show "normalizedPage (JStr (num_str p)) = Some p"
    using d n safe by (simp add: p normalizedPage_def all_digits_def Let_def digits_val_nat_str)
qed

lemma wf_navigation_params:
  assumes "normal_target t" "encodable t"
  shows "wf_params (navigation_params t)"
  unfolding navigation_params_def Let_def
  using assms by (intro wf_set_param)
    (auto simp: wf_literals ascii_def u_def encodable_def normal_target_def intro: page_text(1) split: option.splits if_splits)

lemma params_of_text: "wf_params ps \<Longrightarrow> params_parse (params_text ps) = ps"
  using query.dec_enc [of ps] by simp

lemma search_params:
  assumes "wf_params ps"
  shows "params_parse (let s = (if params_text ps = [] then [] else 63 # params_text ps) in
    if s \<noteq> [] \<and> hd s = 63 then tl s else s) = ps"
  using params_of_text [OF assms] by (cases "params_text ps = []") simp_all

text \<open>A path of one encoded segment after a fixed prefix.\<close>

definition seg_ok :: "jstr \<Rightarrow> bool" where
  "seg_ok seg \<longleftrightarrow> seg \<noteq> [] \<and> (\<forall>c\<in>set seg. encoded_char c)"

lemma encoded_char_facts: "encoded_char c \<Longrightarrow> c \<noteq> 47 \<and> c \<noteq> 63 \<and> \<not> js_ws c"
  by (auto simp: encoded_char_def is_alnum_def js_ws_def)

lemma strip_slashes_id: "last s \<noteq> 47 \<Longrightarrow> strip_slashes s = s"
  by (cases s rule: rev_cases) (simp_all add: strip_slashes_def)

lemma segment_path:
  assumes "seg_ok seg" "lead \<noteq> []" "hd (u lead) = 47"
  shows "normalizePathname (u lead @ seg) = u lead @ seg"
proof -
  have l: "encoded_char (last seg)" "seg \<noteq> []" using assms(1) by (auto simp: seg_ok_def)
  have "trimmed (u lead @ seg)"
    using assms l encoded_char_facts [OF l(1)] by (auto simp: trimmed_def hd_append js_ws_def)
  then have t: "trim (u lead @ seg) = u lead @ seg" by (rule trim_trimmed_id)
  have "strip_slashes (u lead @ seg) = u lead @ seg"
    using l encoded_char_facts [OF l(1)] by (intro strip_slashes_id) simp
  then show ?thesis using l by (simp add: normalizePathname_def t Let_def)
qed

lemma segment_facts: "seg_ok seg \<Longrightarrow> 47 \<notin> set seg \<and> 63 \<notin> set seg \<and> seg \<noteq> []"
  using encoded_char_facts unfolding seg_ok_def by blast

lemma path_of_segment:
  assumes "seg_ok seg"
  defines "d \<equiv> normalizedText (JStr (safeDecodePathSegment seg))"
  shows "pathnameTarget (u ''/phrases/'' @ seg) = (only_view PhrasesView)\<lparr>nt_detail := d\<rparr>"
    "pathnameTarget (u ''/lesson/'' @ seg) = (only_view LessonView)\<lparr>nt_detail := d\<rparr>"
    "pathnameTarget (u ''/words/'' @ seg)
       = (if word_number seg then (only_view LibraryView)\<lparr>nt_detail := Some seg\<rparr> else only_view HomeView)"
    "pathnameTarget (u ''/scenarios/'' @ seg)
       = (case d of Some x \<Rightarrow> if isScenarioSlug x then (only_view ScenarioView)\<lparr>nt_detail := Some x\<rparr> else only_view HomeView
          | None \<Rightarrow> only_view HomeView)"
proof -
  have f: "seg \<noteq> []" "47 \<notin> set seg" using segment_facts [OF assms(1)] by auto
  have n: "normalizePathname (u ''/phrases/'' @ seg) = u ''/phrases/'' @ seg"
    "normalizePathname (u ''/lesson/'' @ seg) = u ''/lesson/'' @ seg"
    "normalizePathname (u ''/words/'' @ seg) = u ''/words/'' @ seg"
    "normalizePathname (u ''/scenarios/'' @ seg) = u ''/scenarios/'' @ seg"
    by (rule segment_path [OF assms(1)], simp, simp add: u_def)+
  have seg: "segment_after l (u l @ seg) = Some seg" for l
    using f by (simp add: segment_after_def Let_def)
  show "pathnameTarget (u ''/phrases/'' @ seg) = (only_view PhrasesView)\<lparr>nt_detail := d\<rparr>"
    unfolding pathnameTarget_def n Let_def d_def seg by (simp add: u_def)
  have o1: "segment_after ''/phrases/'' (u ''/lesson/'' @ seg) = None" "segment_after ''/words/'' (u ''/lesson/'' @ seg) = None"
    "segment_after ''/phrases/'' (u ''/words/'' @ seg) = None" "segment_after ''/phrases/'' (u ''/scenarios/'' @ seg) = None"
    "segment_after ''/words/'' (u ''/scenarios/'' @ seg) = None" "segment_after ''/lesson/'' (u ''/scenarios/'' @ seg) = None"
    unfolding segment_after_def Let_def by (simp_all add: u_def)
  show "pathnameTarget (u ''/lesson/'' @ seg) = (only_view LessonView)\<lparr>nt_detail := d\<rparr>"
    unfolding pathnameTarget_def n Let_def d_def seg o1 by (simp add: u_def)
  show "pathnameTarget (u ''/words/'' @ seg)
       = (if word_number seg then (only_view LibraryView)\<lparr>nt_detail := Some seg\<rparr> else only_view HomeView)"
    unfolding pathnameTarget_def n Let_def seg o1 by (simp add: u_def)
  show "pathnameTarget (u ''/scenarios/'' @ seg)
       = (case d of Some x \<Rightarrow> if isScenarioSlug x then (only_view ScenarioView)\<lparr>nt_detail := Some x\<rparr> else only_view HomeView
          | None \<Rightarrow> only_view HomeView)"
    unfolding pathnameTarget_def n Let_def d_def seg o1 by (simp add: u_def)
qed

lemma encoded_segment:
  assumes "route_value d" "wf16 d"
  shows "\<exists>seg. encodedPathSegment d = Inr seg \<and> seg_ok seg \<and> normalizedText (JStr (safeDecodePathSegment seg)) = Some d"
proof -
  obtain seg where seg: "encodeURIComponent d = Inr seg" "decodeURIComponent seg = Inr d" "\<forall>c\<in>set seg. encoded_char c"
    using encode_decode [OF assms(2)] by blast
  have "decodeURIComponent [] = Inr []" by (simp add: decodeURIComponent_def strict_utf8_def)
  with seg assms(1) have "seg \<noteq> []" by (auto simp: route_value_def)
  with seg assms(1) show ?thesis by (auto simp: encodedPathSegment_def seg_ok_def safeDecodePathSegment_def)
qed

lemma plain_paths:
  "pathnameTarget (u ''/'') = only_view HomeView" "pathnameTarget (u ''/learn'') = only_view LearnView"
  "pathnameTarget (u ''/phrases'') = only_view PhrasesView" "pathnameTarget (u ''/dictionary'') = only_view LibraryView"
  "pathnameTarget (u ''/progress'') = only_view ProgressView" "pathnameTarget (u ''/profile'') = only_view ProfileView"
  "pathnameTarget (u ''/onboarding'') = only_view OnboardingView" "pathnameTarget (u ''/scenarios'') = only_view ScenarioView"
  by (simp_all add: pathnameTarget_def normalizePathname_def strip_slashes_def trim_def js_ws_def Let_def u_def)

text \<open>What an address keeps of a target: the path decides the view and the detail.\<close>

definition path_part :: "NavigationTarget \<Rightarrow> AppView \<times> jstr option" where
  "path_part t =
     (case (nt_view t, nt_detail t) of
        (LessonView, d) \<Rightarrow> (LessonView, Some (case d of Some x \<Rightarrow> x | None \<Rightarrow> u ''active''))
      | (ScenarioView, Some d) \<Rightarrow> (ScenarioView, if isScenarioSlug d then Some d else None)
      | (PhrasesView, d) \<Rightarrow> (PhrasesView, d)
      | (LibraryView, Some d) \<Rightarrow>
          if \<not> all_digits d then (LibraryView, None)
          else if word_number d then (LibraryView, Some d) else (HomeView, None)
      | (v, d) \<Rightarrow> (v, None))"

definition canonical_target :: "NavigationTarget \<Rightarrow> NavigationTarget" where
  "canonical_target t = t\<lparr>nt_view := fst (path_part t), nt_detail := snd (path_part t),
     nt_sort := (if nt_sort t = Some SortDefault then None else nt_sort t)\<rparr>"

lemma digits_segment: "all_digits d \<Longrightarrow> seg_ok d"
  by (auto simp: all_digits_def seg_ok_def encoded_char_def is_alnum_def is_digit_def)

lemma active_route: "route_value (u ''active'')" "wf16 (u ''active'')"
  by (simp_all add: route_value_def trim_def u_def js_ws_def wf16_ascii ascii_def)

lemma routePath_read_back:
  assumes "normal_target t" "encodable t"
  shows "\<exists>p. routePath t = Inr p \<and> 63 \<notin> set p
    \<and> pathnameTarget p = (only_view (fst (path_part t)))\<lparr>nt_detail := snd (path_part t)\<rparr>"
proof -
  have n: "normalized_target t = t" using normalize_normal [OF assms(1)] by (simp add: normalized_target_def)
  have seg: "\<exists>seg. encodedPathSegment d = Inr seg \<and> seg_ok seg \<and> normalizedText (JStr (safeDecodePathSegment seg)) = Some d"
    if "nt_detail t = Some d \<or> d = u ''active''" for d
    using that assms active_route by (intro encoded_segment) (auto simp: normal_target_def encodable_def)
  have plain: "(only_view v)\<lparr>nt_detail := None\<rparr> = only_view v" for v by (simp add: only_view_def)
  consider (lesson) "nt_view t = LessonView" | (scenario) "nt_view t = ScenarioView" | (phrases) "nt_view t = PhrasesView"
    | (library) "nt_view t = LibraryView" | (other) "nt_view t \<in> {HomeView, LearnView, ProgressView, ProfileView, OnboardingView}"
    by (cases "nt_view t") auto
  then show ?thesis
  proof cases
    case lesson
    define d where "d = (case nt_detail t of Some d \<Rightarrow> d | None \<Rightarrow> u ''active'')"
    have "nt_detail t = Some d \<or> d = u ''active''" by (simp add: d_def split: option.split)
    from seg [OF this] obtain s where "encodedPathSegment d = Inr s" "seg_ok s" "normalizedText (JStr (safeDecodePathSegment s)) = Some d"
      by blast
    then show ?thesis using lesson segment_facts [of s]
      by (simp add: routePath_def n under_def path_of_segment path_part_def d_def [symmetric]) (simp add: u_def)
  next
    case scenario
    show ?thesis
    proof (cases "nt_detail t")
      case None
      with scenario show ?thesis by (simp add: routePath_def n path_part_def plain_paths plain) (simp add: u_def)
    next
      case (Some d)
      obtain s where "encodedPathSegment d = Inr s" "seg_ok s" "normalizedText (JStr (safeDecodePathSegment s)) = Some d"
        using seg [of d] Some by auto
      then show ?thesis using scenario Some segment_facts [of s]
        by (simp add: routePath_def n under_def path_of_segment path_part_def plain_paths plain) (simp add: u_def)
    qed
  next
    case phrases
    show ?thesis
    proof (cases "nt_detail t")
      case None
      with phrases show ?thesis by (simp add: routePath_def n path_part_def plain_paths plain) (simp add: u_def)
    next
      case (Some d)
      obtain s where "encodedPathSegment d = Inr s" "seg_ok s" "normalizedText (JStr (safeDecodePathSegment s)) = Some d"
        using seg [of d] Some by auto
      then show ?thesis using phrases Some segment_facts [of s]
        by (simp add: routePath_def n under_def path_of_segment path_part_def) (simp add: u_def)
    qed
  next
    case library
    show ?thesis
    proof (cases "nt_detail t")
      case None
      with library show ?thesis by (simp add: routePath_def n path_part_def plain_paths plain) (simp add: u_def)
    next
      case (Some d)
      show ?thesis
      proof (cases "all_digits d")
        case True
        then show ?thesis using library Some segment_facts [OF digits_segment [OF True]]
          by (simp add: routePath_def n path_of_segment digits_segment path_part_def plain) (simp add: u_def)
      next
        case False
        then show ?thesis using library Some
          by (simp add: routePath_def n plain_paths path_part_def plain) (simp add: u_def)
      qed
    qed
  next
    case other
    then show ?thesis
      by (elim insertE emptyE; simp add: routePath_def n plain_paths path_part_def plain; simp add: u_def)
  qed
qed

lemma get_navigation_param [simp]:
  "params_get (navigation_params t) (u ''page'')
     = map_option num_str (case nt_page t of Some p \<Rightarrow> if p > 1 then Some p else None | None \<Rightarrow> None)"
  "params_get (navigation_params t) (u ''sort'')
     = map_option sort_text (if nt_sort t = Some SortDefault then None else nt_sort t)"
  "params_get (navigation_params t) (u ''query'') = nt_query t"
  "params_get (navigation_params t) (u ''status'') = map_option catalog_status_text (nt_status t)"
  "params_get (navigation_params t) (u ''topic'') = nt_topic t"
  "params_get (navigation_params t) (u ''source'') = map_option source_text (nt_source t)"
  "params_get (navigation_params t) (u ''view'') = None" "params_get (navigation_params t) (u ''detail'') = None"
  unfolding navigation_params_def Let_def
  by (simp_all split: option.split) (auto simp: params_get_def)

definition query_part :: "NavigationTarget \<Rightarrow> jstr" where
  "query_part t = (if params_text (navigation_params t) = [] then [] else 63 # params_text (navigation_params t))"

lemma address_reads_back:
  assumes "normal_target t" "encodable t" "routePath t = Inr p"
  shows "navigationURL t = Inr (p @ query_part t)" "63 \<notin> set p" "parseNavigation (query_part t) p = canonical_target t"
proof -
  have n: "normalized_target t = t" using normalize_normal [OF assms(1)] by (simp add: normalized_target_def)
  have p: "63 \<notin> set p" "pathnameTarget p = (only_view (fst (path_part t)))\<lparr>nt_detail := snd (path_part t)\<rparr>"
    using routePath_read_back [OF assms(1,2)] assms(3) by auto
  show "navigationURL t = Inr (p @ query_part t)" by (simp add: navigationURL_def n assms(3) query_part_def Let_def)
  show "63 \<notin> set p" by (rule p(1))
  have ps: "params_parse (if query_part t \<noteq> [] \<and> hd (query_part t) = 63 then tl (query_part t) else query_part t) = navigation_params t"
    using params_of_text [OF wf_navigation_params [OF assms(1,2)]]
    by (cases "params_text (navigation_params t) = []") (simp_all add: query_part_def)
  have texts: "Option.bind (nt_topic t) (\<lambda>s. normalizedText (JStr s)) = nt_topic t"
    "Option.bind (nt_query t) (\<lambda>s. normalizedText (JStr s)) = nt_query t"
    using assms(1) by (auto simp: normal_target_def split: Option.bind_split)
  have gt: "(case nt_page t of Some p \<Rightarrow> if p > 1 then Some p else None | None \<Rightarrow> None) = nt_page t"
    using assms(1) by (auto simp: normal_target_def split: option.split)
  have page: "Option.bind (map_option num_str (nt_page t)) (\<lambda>s. normalizedPage (JStr s)) = nt_page t"
    using assms by (auto simp: normal_target_def encodable_def page_text split: Option.bind_split)
  have lits: "Option.bind (map_option sort_text x) (literal sort_text CATALOG_SORTS) = x"
    "Option.bind (map_option source_text y) (literal source_text SOURCES) = y"
    "Option.bind (map_option catalog_status_text z) (literal catalog_status_text CATALOG_STATUSES) = z" for x y z
    by (cases x, simp, simp) (cases y, simp, simp, cases z, simp, simp)
  have co: "coalesce x None = x" "coalesce None y = y" for x :: "'x option" and y :: "'y option"
    by (simp_all add: coalesce_def split: option.split)
  show "parseNavigation (query_part t) p = canonical_target t"
    unfolding parseNavigation_def Let_def ps get_navigation_param p(2) texts gt page lits
    by (rule NavigationTarget.equality) (simp_all add: co canonical_target_def only_view_def gt)
qed

text \<open>C35: The address of a target leads back to it: parsing the path and the query of its URL gives the
  same view, filters, page and detail, up to what an address does not keep (the canonical target).\<close>

theorem navigation_url_roundtrip:
  assumes "normal_target t" "encodable t"
  shows "\<exists>p q. navigationURL t = Inr (p @ q) \<and> 63 \<notin> set p \<and> (q = [] \<or> hd q = 63)
    \<and> parseNavigation q p = canonical_target t"
proof -
  obtain p where "routePath t = Inr p" using routePath_read_back [OF assms] by blast
  note a = address_reads_back [OF assms this]
  have "query_part t = [] \<or> hd (query_part t) = 63" by (simp add: query_part_def)
  with a show ?thesis by blast
qed

definition sample_target :: NavigationTarget where
  "sample_target = (only_view PhrasesView)\<lparr>nt_topic := Some (u ''a b''), nt_page := Some (Fin 2), nt_sort := Some SortDefault,
     nt_detail := Some (u ''x/y'')\<rparr>"

lemma sample_target_ok: "normal_target sample_target" "encodable sample_target"
proof -
  have "route_value (u ''a b'')" "route_value (u ''x/y'')" by (simp_all add: route_value_def trim_def u_def js_ws_def)
  then show "normal_target sample_target" by (simp add: sample_target_def only_view_def normal_target_def)
  have "wf16 (u ''a b'')" "wf16 (u ''x/y'')" by (simp_all add: wf16_ascii ascii_def u_def)
  then show "encodable sample_target" by (auto simp: sample_target_def only_view_def encodable_def)
qed

theorem navigation_url_roundtrip_witness:
  "\<exists>p q. navigationURL sample_target = Inr (p @ q) \<and> parseNavigation q p
     = (only_view PhrasesView)\<lparr>nt_topic := Some (u ''a b''), nt_page := Some (Fin 2), nt_detail := Some (u ''x/y'')\<rparr>"
proof -
  have "canonical_target sample_target
      = (only_view PhrasesView)\<lparr>nt_topic := Some (u ''a b''), nt_page := Some (Fin 2), nt_detail := Some (u ''x/y'')\<rparr>"
    by (simp add: canonical_target_def path_part_def sample_target_def only_view_def)
  then show ?thesis using navigation_url_roundtrip [OF sample_target_ok] by auto
qed

section \<open>The stored target\<close>

lemma restorable_ok: "restorableTarget v = Some t \<Longrightarrow> normal_target t \<and> isRestorableNavigation t"
  by (auto simp: restorableTarget_def dest: normalized_normal split: option.splits if_splits)

lemma read_legacy_ok: "read_legacy st = (Some t, st') \<Longrightarrow> normal_target t \<and> isRestorableNavigation t"
  by (auto simp: read_legacy_def parseLegacyStoredNavigation_def dest: restorable_ok split: option.splits sum.splits)

lemma read_ok: "readPersistedNavigation st = (Some t, st') \<Longrightarrow> normal_target t \<and> isRestorableNavigation t"
  by (auto simp: readPersistedNavigation_def parseStoredNavigation_def Let_def
      dest: restorable_ok read_legacy_ok split: option.splits sum.splits if_splits)

lemma stored_text_parses:
  assumes "normal_target t" "isRestorableNavigation t" "clean (nav_value t)"
  shows "\<exists>s. serializeStoredNavigation t = Inr s \<and> parseStoredNavigation (Some s) = Some t"
proof -
  define v where "v = JObj [(u ''version'', JNum NAVIGATION_STORAGE_VERSION), (u ''target'', nav_value t)]"
  have c: "clean v"
    using assms(3) by (simp add: v_def NAVIGATION_STORAGE_VERSION_def num_clean_def)
  have "parse_json_or_null (Some (json_stringify v)) = v"
    using json.dec_enc [OF c] json_text_nonempty [OF c] by (simp add: parse_json_or_null_def)
  then have "parseStoredNavigation (Some (json_stringify v)) = restorableTarget (nav_value t)"
    by (simp add: parseStoredNavigation_def Let_def v_def)
  then show ?thesis
    using assms normalize_normal [OF assms(1)] by (simp add: serializeStoredNavigation_def restorableTarget_def v_def)
qed

text \<open>Storing a restorable target and reading it gives that target and leaves the storage as it was written;
  whatever the storage holds, what is read is a normal target of a restorable view.\<close>

theorem stored_navigation:
  "(normal_target t \<and> isRestorableNavigation t \<and> clean (nav_value t)
     \<and> \<not> get_denied st \<and> \<not> set_denied st \<longrightarrow>
      readPersistedNavigation (writePersistedNavigation st t) = (Some t, writePersistedNavigation st t))
   \<and> (readPersistedNavigation any = (Some r, after) \<longrightarrow> normal_target r \<and> isRestorableNavigation r)"
proof (intro conjI impI)
  assume a: "normal_target t \<and> isRestorableNavigation t \<and> clean (nav_value t) \<and> \<not> get_denied st \<and> \<not> set_denied st"
  then obtain s where s: "serializeStoredNavigation t = Inr s" "parseStoredNavigation (Some s) = Some t"
    using stored_text_parses [of t] by blast
  let ?w = "writePersistedNavigation st t"
  have "getItem ?w NAVIGATION_STORAGE_KEY = Inr (Some s)"
    using a s(1) by (auto simp: writePersistedNavigation_def getItem_def setItem_def removeItem_def
        NAVIGATION_STORAGE_KEY_def LEGACY_NAVIGATION_STORAGE_KEY_def)
  then show "readPersistedNavigation ?w = (Some t, ?w)" by (simp add: readPersistedNavigation_def s(2))
next
  assume "readPersistedNavigation any = (Some r, after)"
  then show "normal_target r" "isRestorableNavigation r" using read_ok by blast+
qed

lemma stored_navigation_witness:
  "readPersistedNavigation (writePersistedNavigation empty_storage (only_view LearnView))
     = (Some (only_view LearnView), writePersistedNavigation empty_storage (only_view LearnView))"
proof -
  have "normal_target (only_view LearnView)" by (simp add: normal_target_def only_view_def)
  moreover have "isRestorableNavigation (only_view LearnView)"
    by (simp add: isRestorableNavigation_def only_view_def RESTORABLE_VIEWS_def)
  moreover have "clean (nav_value (only_view LearnView))" by (simp add: nav_value_def only_view_def opt_prop_def)
  ultimately show ?thesis
    using stored_navigation [of "only_view LearnView" empty_storage empty_storage "only_view LearnView" empty_storage]
    by (simp add: empty_storage_def)
qed

text \<open>
  A word number with a leading zero: \<open>routePath\<close> writes it into the path (it asks for digits only), which
  \<open>pathnameTarget\<close> does not accept (it asks for a first digit other than zero), so the address leads to the home view.
\<close>

lemma leading_zero_leads_home:
  "canonical_target ((only_view LibraryView)\<lparr>nt_detail := Some (u ''007'')\<rparr>) = only_view HomeView"
  by (simp add: canonical_target_def path_part_def only_view_def all_digits_def word_number_def is_digit_def u_def)

end
