(* ===== verification/Nav_History.thy ===== *)
theory Nav_History
  imports Navigation Request_Failure
begin

text \<open>
  \<open>src/frontend/lib/navigation-history.ts\<close>, \<open>navigation-tabs.ts\<close>, \<open>route-tab-snapshots.ts\<close>,
  \<open>navigation-scroll-snapshot.ts\<close> and \<open>navigation-scroll-restoration.ts\<close>: the state of a history entry, the target
  and scroll position remembered for each tab, and the timers that write and restore scroll positions.  What the
  window holds is the argument \<open>nav_window\<close>, \<open>None\<close> on the server.
\<close>

section \<open>History entries\<close>

definition NAVIGATION_HISTORY_VERSION :: jnum where "NAVIGATION_HISTORY_VERSION = 1"

record NavigationScrollPosition =
  sp_x :: jnum
  sp_y :: jnum

datatype RouteGraphHistoryOwner = DictionaryGraph | HomeGraph | LearnGraph | ProductGraph

fun graph_text :: "RouteGraphHistoryOwner \<Rightarrow> jstr" where
  "graph_text DictionaryGraph = u ''dictionary''" | "graph_text HomeGraph = u ''home''"
| "graph_text LearnGraph = u ''learn''" | "graph_text ProductGraph = u ''product''"

record NavigationHistoryState =
  hs_target :: NavigationTarget
  hs_scroll :: NavigationScrollPosition
  hs_routeGraph :: "RouteGraphHistoryOwner option"

record nav_window =
  nw_historyState :: jval
  nw_pathname :: jstr

definition scroll_value :: "NavigationScrollPosition \<Rightarrow> jval" where
  "scroll_value p = JObj [(u ''x'', JNum (sp_x p)), (u ''y'', JNum (sp_y p))]"

definition history_value :: "NavigationHistoryState \<Rightarrow> jval" where
  "history_value s = JObj ([(u ''lexigo'', JBool True), (u ''version'', JNum NAVIGATION_HISTORY_VERSION),
     (u ''target'', nav_value (hs_target s)), (u ''scroll'', scroll_value (hs_scroll s))]
     @ opt_prop ''lexigoRouteGraph'' (JStr \<circ> graph_text) (hs_routeGraph s))"

definition routeGraphOwner :: "jval \<Rightarrow> RouteGraphHistoryOwner option" where
  "routeGraphOwner v =
     (if \<not> isRecord v then None
      else if is_lit (jget v ''lexigoRouteGraph'') ''dictionary'' then Some DictionaryGraph
      else if is_lit (jget v ''lexigoRouteGraph'') ''home'' then Some HomeGraph
      else if is_lit (jget v ''lexigoRouteGraph'') ''learn'' then Some LearnGraph
      else if is_lit (jget v ''lexigoRouteGraph'') ''product'' then Some ProductGraph else None)"

definition currentRouteGraphOwner :: "nav_window option \<Rightarrow> RouteGraphHistoryOwner option" where
  "currentRouteGraphOwner w = (case w of None \<Rightarrow> None | Some w \<Rightarrow> routeGraphOwner (nw_historyState w))"

definition browserPathname :: "nav_window option \<Rightarrow> jstr" where
  "browserPathname w = (case w of None \<Rightarrow> u ''/'' | Some w \<Rightarrow> nw_pathname w)"

definition hs_safeCoordinate :: "jval \<Rightarrow> jnum" where
  "hs_safeCoordinate v = (if v_isFinite v \<and> num_of v \<ge> 0 then num_of v else 0)"

definition set_string_param :: "jval \<Rightarrow> string \<Rightarrow> params \<Rightarrow> params" where
  "set_string_param v k ps = (if is_string (jget v k) then params_set ps (u k) (str_of (jget v k)) else ps)"

definition unknown_params :: "jval \<Rightarrow> params" where
  "unknown_params v =
     (let ps = params_set [] (u ''view'') (str_of (jget v ''view''));
          ps = fold (set_string_param v) [''source'', ''topic'', ''status'', ''query'', ''sort'', ''detail''] ps in
      case jget v ''page'' of JNum n \<Rightarrow> params_set ps (u ''page'') (num_str n) | _ \<Rightarrow> ps)"

definition normalizeUnknownTarget :: "nav_window option \<Rightarrow> jval \<Rightarrow> NavigationTarget option" where
  "normalizeUnknownTarget w v =
     (if \<not> isRecord v \<or> \<not> is_string (jget v ''view'') then None
      else
        let normalized = parseNavigation (63 # params_text (unknown_params v)) (browserPathname w) in
        if JStr (view_text (nt_view normalized)) \<noteq> jget v ''view'' then None
        else if list_ex (\<lambda>k. jget v k \<noteq> JUndef \<and> jget (nav_value normalized) k \<noteq> jget v k)
          [''source'', ''topic'', ''status'', ''query'', ''sort'', ''detail'', ''page''] then None
        else Some normalized)"

definition baseNavigationHistoryState :: "NavigationTarget \<Rightarrow> jval \<Rightarrow> jval \<Rightarrow> NavigationHistoryState" where
  "baseNavigationHistoryState target x y =
     \<lparr>hs_target = target, hs_scroll = \<lparr>sp_x = hs_safeCoordinate x, sp_y = hs_safeCoordinate y\<rparr>, hs_routeGraph = None\<rparr>"

definition currentLocationTarget :: "nav_window option \<Rightarrow> jstr \<Rightarrow> NavigationTarget option" where
  "currentLocationTarget w search = (case w of None \<Rightarrow> None | Some w \<Rightarrow> Some (parseNavigation search (nw_pathname w)))"

definition matchesCurrentCanonicalRoute :: "NavigationTarget \<Rightarrow> NavigationTarget option \<Rightarrow> js_exn + bool" where
  "matchesCurrentCanonicalRoute target canonical =
     (case canonical of
        None \<Rightarrow> Inr True
      | Some c \<Rightarrow>
          (case routePath target of
             Inl e \<Rightarrow> Inl e
           | Inr p \<Rightarrow> (case routePath c of Inl e \<Rightarrow> Inl e | Inr q \<Rightarrow> Inr (p = q))))"

definition createNavigationHistoryState ::
  "nav_window option \<Rightarrow> NavigationTarget \<Rightarrow> NavigationScrollPosition \<Rightarrow> NavigationHistoryState" where
  "createNavigationHistoryState w target scroll =
     (baseNavigationHistoryState target (JNum (sp_x scroll)) (JNum (sp_y scroll)))\<lparr>hs_routeGraph := currentRouteGraphOwner w\<rparr>"

definition readNavigationHistoryState :: "nav_window option \<Rightarrow> jval \<Rightarrow> NavigationHistoryState option" where
  "readNavigationHistoryState w v =
     (if \<not> isRecord v \<or> jget v ''lexigo'' \<noteq> JBool True \<or> jget v ''version'' \<noteq> JNum NAVIGATION_HISTORY_VERSION
         \<or> \<not> isRecord (jget v ''scroll'') then None
      else (case normalizeUnknownTarget w (jget v ''target'') of
          None \<Rightarrow> None
        | Some target \<Rightarrow>
            Some ((baseNavigationHistoryState target (jget (jget v ''scroll'') ''x'') (jget (jget v ''scroll'') ''y''))
              \<lparr>hs_routeGraph := routeGraphOwner v\<rparr>)))"

text \<open>Evaluated in turn: the entry's own target, then the legacy form, each only while it belongs to the current path.\<close>

definition legacy_target :: "nav_window option \<Rightarrow> jval \<Rightarrow> NavigationTarget option \<Rightarrow> js_exn + NavigationTarget option" where
  "legacy_target w v canonical =
     (if isRecord v \<and> jget v ''lexigo'' = JBool True then
        (case normalizeUnknownTarget w v of
           None \<Rightarrow> Inr None
         | Some legacy \<Rightarrow>
             (case matchesCurrentCanonicalRoute legacy canonical of
                Inl e \<Rightarrow> Inl e | Inr b \<Rightarrow> Inr (if b then Some legacy else None)))
      else Inr None)"

definition navigationTargetFromHistory :: "nav_window option \<Rightarrow> jval \<Rightarrow> jstr \<Rightarrow> js_exn + NavigationTarget" where
  "navigationTargetFromHistory w v search =
     (let canonical = currentLocationTarget w search;
          fallback = (case canonical of Some c \<Rightarrow> c | None \<Rightarrow> parseNavigation search (browserPathname w));
          legacy = (case legacy_target w v canonical of
              Inl e \<Rightarrow> Inl e | Inr (Some t) \<Rightarrow> Inr t | Inr None \<Rightarrow> Inr fallback) in
      case readNavigationHistoryState w v of
        None \<Rightarrow> legacy
      | Some current \<Rightarrow>
          (case matchesCurrentCanonicalRoute (hs_target current) canonical of
             Inl e \<Rightarrow> Inl e
           | Inr b \<Rightarrow> if b then Inr (hs_target current) else legacy))"

definition navigationScrollFromHistory :: "nav_window option \<Rightarrow> jval \<Rightarrow> NavigationScrollPosition" where
  "navigationScrollFromHistory w v =
     (case readNavigationHistoryState w v of Some s \<Rightarrow> hs_scroll s | None \<Rightarrow> \<lparr>sp_x = 0, sp_y = 0\<rparr>)"

definition navigationIdentity :: "NavigationTarget \<Rightarrow> js_exn + jstr" where
  "navigationIdentity target = navigationURL target"

definition navigationScrollBehavior :: "'source \<Rightarrow> jstr" where
  "navigationScrollBehavior source = u ''auto''"

section \<open>Tabs\<close>

definition PRIMARY_VIEWS :: "AppView list" where "PRIMARY_VIEWS = [HomeView, LearnView, LibraryView, ProgressView]"

record NavigationTabSnapshot =
  ts_target :: NavigationTarget
  ts_scroll :: NavigationScrollPosition

type_synonym NavigationTabSnapshots = "AppView \<rightharpoonup> NavigationTabSnapshot"

definition tab_coordinate :: "jnum \<Rightarrow> jnum" where
  "tab_coordinate v = (if isFinite v \<and> v \<ge> 0 then v else 0)"

definition copyScroll :: "NavigationScrollPosition \<Rightarrow> NavigationScrollPosition" where
  "copyScroll p = \<lparr>sp_x = tab_coordinate (sp_x p), sp_y = tab_coordinate (sp_y p)\<rparr>"

definition nonempty_text :: "jstr option \<Rightarrow> jstr option" where
  "nonempty_text s = (if s = Some [] then None else s)"

definition copyTarget :: "NavigationTarget \<Rightarrow> NavigationTarget" where
  "copyTarget t = t\<lparr>nt_topic := nonempty_text (nt_topic t), nt_query := nonempty_text (nt_query t),
     nt_page := (if nt_page t = Some 0 \<or> nt_page t = Some NaN then None else nt_page t), nt_detail := nonempty_text (nt_detail t)\<rparr>"

definition isPrimaryNavigationView :: "AppView \<Rightarrow> bool" where
  "isPrimaryNavigationView v \<longleftrightarrow> v \<in> set PRIMARY_VIEWS"

definition navigationTabView :: "AppView \<Rightarrow> AppView option" where
  "navigationTabView v = (if v = PhrasesView then Some LibraryView else if v \<in> set PRIMARY_VIEWS then Some v else None)"

definition rememberNavigationTabSnapshot ::
  "NavigationTabSnapshots \<Rightarrow> NavigationTarget \<Rightarrow> NavigationScrollPosition \<Rightarrow> NavigationTabSnapshots" where
  "rememberNavigationTabSnapshot snapshots target scroll =
     (case navigationTabView (nt_view target) of
        None \<Rightarrow> snapshots
      | Some view \<Rightarrow> snapshots(view \<mapsto> \<lparr>ts_target = copyTarget target, ts_scroll = copyScroll scroll\<rparr>))"

definition navigationTabDestination :: "NavigationTabSnapshots \<Rightarrow> AppView \<Rightarrow> NavigationTabSnapshot" where
  "navigationTabDestination snapshots view =
     (case snapshots view of
        None \<Rightarrow> \<lparr>ts_target = only_view view, ts_scroll = \<lparr>sp_x = 0, sp_y = 0\<rparr>\<rparr>
      | Some saved \<Rightarrow> \<lparr>ts_target = copyTarget (ts_target saved), ts_scroll = copyScroll (ts_scroll saved)\<rparr>)"

definition createNavigationTabStore :: "NavigationTabSnapshots \<Rightarrow> NavigationTabSnapshots" where
  "createNavigationTabStore initial =
     fold (\<lambda>view snapshots. case initial view of
         Some saved \<Rightarrow> rememberNavigationTabSnapshot snapshots (ts_target saved) (ts_scroll saved) | None \<Rightarrow> snapshots)
       PRIMARY_VIEWS Map.empty"

section \<open>Route tabs\<close>

text \<open>The memory table is the module's; \<open>None\<close> stands for a session storage that is missing or denied.\<close>

record route_tabs =
  memorySnapshots :: "AppView \<rightharpoonup> NavigationTabSnapshot"
  rt_storage :: "storage option"

definition routeView :: "NavigationTarget \<Rightarrow> AppView option" where
  "routeView target = navigationTabView (nt_view target)"

definition rt_storageKey :: "AppView \<Rightarrow> jstr" where
  "rt_storageKey view = u ''lexigo.route-tab.v1.'' @ view_text view"

definition decodeSnapshot :: "nav_window option \<Rightarrow> jstr option \<Rightarrow> AppView \<Rightarrow> NavigationTabSnapshot option" where
  "decodeSnapshot w raw expectedView =
     (if raw = None \<or> raw = Some [] then None
      else (case json_parse (the raw) of
          None \<Rightarrow> None
        | Some v \<Rightarrow>
            (case readNavigationHistoryState w v of
               None \<Rightarrow> None
             | Some state \<Rightarrow>
                 if routeView (hs_target state) \<noteq> Some expectedView then None
                 else Some \<lparr>ts_target = hs_target state, ts_scroll = hs_scroll state\<rparr>)))"

definition rememberRouteTab :: "nav_window option \<Rightarrow> NavigationTarget \<Rightarrow> NavigationScrollPosition \<Rightarrow> route_tabs \<Rightarrow> route_tabs" where
  "rememberRouteTab w target scroll s =
     (case routeView target of
        None \<Rightarrow> s
      | Some view \<Rightarrow>
          let state = createNavigationHistoryState w target scroll;
              s = s\<lparr>memorySnapshots := (memorySnapshots s)(view \<mapsto> \<lparr>ts_target = hs_target state, ts_scroll = hs_scroll state\<rparr>)\<rparr> in
          (case rt_storage s of
             None \<Rightarrow> s
           | Some st \<Rightarrow>
               (case setItem st (rt_storageKey view) (json_stringify (history_value state)) of
                  Inr st' \<Rightarrow> s\<lparr>rt_storage := Some st'\<rparr> | Inl e \<Rightarrow> s)))"

definition routeTabDestination :: "nav_window option \<Rightarrow> AppView \<Rightarrow> route_tabs \<Rightarrow> NavigationTabSnapshot \<times> route_tabs" where
  "routeTabDestination w view s =
     (let absent = \<lparr>ts_target = only_view view, ts_scroll = \<lparr>sp_x = 0, sp_y = 0\<rparr>\<rparr> in
      case memorySnapshots s view of
        Some snapshot \<Rightarrow> (snapshot, s)
      | None \<Rightarrow>
          (case rt_storage s of
             None \<Rightarrow> (absent, s)
           | Some st \<Rightarrow>
               let raw = (case getItem st (rt_storageKey view) of Inr r \<Rightarrow> r | Inl e \<Rightarrow> None) in
               (case decodeSnapshot w raw view of
                  Some stored \<Rightarrow> (stored, s\<lparr>memorySnapshots := (memorySnapshots s)(view \<mapsto> stored)\<rparr>)
                | None \<Rightarrow>
                    (absent, if raw \<noteq> None
                       then s\<lparr>rt_storage := Some (case removeItem st (rt_storageKey view) of Inr st' \<Rightarrow> st' | Inl e \<Rightarrow> st)\<rparr>
                       else s))))"

text \<open>Clearing stops at the first entry that cannot be removed.\<close>

fun remove_tabs :: "AppView list \<Rightarrow> storage \<Rightarrow> storage" where
  "remove_tabs [] st = st"
| "remove_tabs (v # vs) st = (case removeItem st (rt_storageKey v) of Inr st' \<Rightarrow> remove_tabs vs st' | Inl e \<Rightarrow> st)"

definition clearRouteTabSnapshots :: "route_tabs \<Rightarrow> route_tabs" where
  "clearRouteTabSnapshots s =
     s\<lparr>memorySnapshots := Map.empty, rt_storage := map_option (remove_tabs PRIMARY_VIEWS) (rt_storage s)\<rparr>"

section \<open>Scroll snapshots\<close>

text \<open>The scheduler: its variables, the timers that are set, the next timer id, and how often it committed.\<close>

record scroll_scheduler =
  ss_timerID :: "nat option"
  ss_pending :: bool
  ss_timers :: "nat list"
  ss_next :: nat
  ss_commits :: nat

definition createScrollSnapshotScheduler :: "jnum \<Rightarrow> js_exn + scroll_scheduler" where
  "createScrollSnapshotScheduler delayMilliseconds =
     (if \<not> isFinite delayMilliseconds \<or> delayMilliseconds < 0 then Inl RangeError
      else Inr \<lparr>ss_timerID = None, ss_pending = False, ss_timers = [], ss_next = 0, ss_commits = 0\<rparr>)"

definition clearTimer :: "scroll_scheduler \<Rightarrow> scroll_scheduler" where
  "clearTimer s = (case ss_timerID s of None \<Rightarrow> s | Some t \<Rightarrow> s\<lparr>ss_timers := removeAll t (ss_timers s), ss_timerID := None\<rparr>)"

definition scroll_flush :: "scroll_scheduler \<Rightarrow> scroll_scheduler" where
  "scroll_flush s =
     (let s = clearTimer s in if \<not> ss_pending s then s else s\<lparr>ss_pending := False, ss_commits := ss_commits s + 1\<rparr>)"

definition scroll_schedule :: "scroll_scheduler \<Rightarrow> scroll_scheduler" where
  "scroll_schedule s =
     (let s = clearTimer (s\<lparr>ss_pending := True\<rparr>) in
      s\<lparr>ss_timerID := Some (ss_next s), ss_timers := ss_next s # ss_timers s, ss_next := ss_next s + 1\<rparr>)"

definition scroll_cancel :: "scroll_scheduler \<Rightarrow> scroll_scheduler" where
  "scroll_cancel s = (clearTimer s)\<lparr>ss_pending := False\<rparr>"

text \<open>A set timer fires once; its callback is \<open>flush\<close>.\<close>

definition timer_fires :: "nat \<Rightarrow> scroll_scheduler \<Rightarrow> scroll_scheduler" where
  "timer_fires t s = (if t \<in> set (ss_timers s) then scroll_flush (s\<lparr>ss_timers := removeAll t (ss_timers s)\<rparr>) else s)"

section \<open>Restoring a scroll position\<close>

definition finiteCoordinate :: "jnum \<Rightarrow> js_exn + jnum" where
  "finiteCoordinate v = (if isFinite v then Inr (jmax 0 v) else Inl RangeError)"

definition snapshotKey :: "jstr \<Rightarrow> js_exn + jstr" where
  "snapshotKey identity = (if trim identity = [] then Inl RangeError else Inr (u ''lexigo:navigation-scroll:'' @ identity))"

definition positionReached :: "NavigationScrollPosition \<Rightarrow> NavigationScrollPosition \<Rightarrow> jnum \<Rightarrow> bool" where
  "positionReached current target tolerancePixels \<longleftrightarrow>
     jabs (sp_x current - sp_x target) \<le> tolerancePixels \<and> jabs (sp_y current - sp_y target) \<le> tolerancePixels"

definition finite_position :: "NavigationScrollPosition \<Rightarrow> js_exn + NavigationScrollPosition" where
  "finite_position p =
     (case finiteCoordinate (sp_x p) of
        Inl e \<Rightarrow> Inl e
      | Inr x \<Rightarrow> (case finiteCoordinate (sp_y p) of Inl e \<Rightarrow> Inl e | Inr y \<Rightarrow> Inr \<lparr>sp_x = x, sp_y = y\<rparr>))"

definition writeNavigationScrollSnapshot :: "storage \<Rightarrow> jstr \<Rightarrow> NavigationScrollPosition \<Rightarrow> js_exn + bool \<times> storage" where
  "writeNavigationScrollSnapshot st identity position =
     (case snapshotKey identity of
        Inl e \<Rightarrow> Inl e
      | Inr key \<Rightarrow>
          (case finite_position position of
             Inl e \<Rightarrow> Inl e
           | Inr normalized \<Rightarrow>
               (case setItem st key (json_stringify (scroll_value normalized)) of
                  Inr st' \<Rightarrow> Inr (True, st') | Inl e \<Rightarrow> Inr (False, st))))"

definition scroll_of :: "jval \<Rightarrow> NavigationScrollPosition option" where
  "scroll_of v =
     (if \<not> truthy v \<or> \<not> v_isFinite (jget v ''x'') \<or> \<not> v_isFinite (jget v ''y'')
         \<or> num_of (jget v ''x'') < 0 \<or> num_of (jget v ''y'') < 0 then None
      else Some \<lparr>sp_x = num_of (jget v ''x''), sp_y = num_of (jget v ''y'')\<rparr>)"

definition readNavigationScrollSnapshot :: "storage \<Rightarrow> jstr \<Rightarrow> js_exn + NavigationScrollPosition option" where
  "readNavigationScrollSnapshot st identity =
     (case snapshotKey identity of
        Inl e \<Rightarrow> Inl e
      | Inr key \<Rightarrow>
          (case getItem st key of
             Inl e \<Rightarrow> Inr None
           | Inr serialized \<Rightarrow>
               if serialized = None \<or> serialized = Some [] then Inr None
               else Inr (case json_parse (the serialized) of Some v \<Rightarrow> scroll_of v | None \<Rightarrow> None)))"

definition removeNavigationScrollSnapshot :: "storage \<Rightarrow> jstr \<Rightarrow> js_exn + bool \<times> storage" where
  "removeNavigationScrollSnapshot st identity =
     (case snapshotKey identity of
        Inl e \<Rightarrow> Inl e
      | Inr key \<Rightarrow> (case removeItem st key of Inr st' \<Rightarrow> Inr (True, st') | Inl e \<Rightarrow> Inr (False, st)))"

record NavigationScrollRestorationResult =
  sr_restored :: bool
  sr_attempts :: nat

text \<open>A restoration: its variables, the target, the limits, and the results reported.\<close>

record restoration =
  ra_frame :: bool
  ra_attempts :: nat
  ra_cancelled :: bool
  ra_target :: NavigationScrollPosition
  ra_maxFrames :: nat
  ra_tolerance :: jnum
  ra_settled :: "NavigationScrollRestorationResult list"

definition scheduleNavigationScrollRestoration ::
  "NavigationScrollPosition \<Rightarrow> jnum option \<Rightarrow> jnum option \<Rightarrow> js_exn + restoration" where
  "scheduleNavigationScrollRestoration target opt_maxFrames opt_tolerance =
     (let maxFrames = (case opt_maxFrames of Some n \<Rightarrow> n | None \<Rightarrow> 300);
          tolerancePixels = (case opt_tolerance of Some t \<Rightarrow> t | None \<Rightarrow> 1) in
      if \<not> isInteger maxFrames \<or> maxFrames < 1 then Inl RangeError
      else if \<not> isFinite tolerancePixels \<or> tolerancePixels < 0 then Inl RangeError
      else (case finite_position target of
          Inl e \<Rightarrow> Inl e
        | Inr normalizedTarget \<Rightarrow>
            Inr \<lparr>ra_frame = True, ra_attempts = 0, ra_cancelled = False, ra_target = normalizedTarget,
              ra_maxFrames = (case maxFrames of Fin r \<Rightarrow> nat \<lfloor>r\<rfloor> | _ \<Rightarrow> 0), ra_tolerance = tolerancePixels, ra_settled = []\<rparr>))"

text \<open>A requested frame runs \<open>restore\<close>; \<open>reached\<close> is the position read back after writing.\<close>

definition restore_frame :: "NavigationScrollPosition \<Rightarrow> restoration \<Rightarrow> restoration" where
  "restore_frame reached s =
     (if \<not> ra_frame s then s
      else
        let s = s\<lparr>ra_frame := False\<rparr> in
        if ra_cancelled s then s
        else
          let s = s\<lparr>ra_attempts := ra_attempts s + 1\<rparr>; restored = positionReached reached (ra_target s) (ra_tolerance s) in
          if restored \<or> ra_attempts s \<ge> ra_maxFrames s
          then s\<lparr>ra_settled := ra_settled s @ [\<lparr>sr_restored = restored, sr_attempts = ra_attempts s\<rparr>]\<rparr>
          else s\<lparr>ra_frame := True\<rparr>)"

definition cancel_restoration :: "restoration \<Rightarrow> restoration" where
  "cancel_restoration s = s\<lparr>ra_cancelled := True, ra_frame := False\<rparr>"

section \<open>A history entry is read back\<close>

lemma path_fields:
  "nt_source (pathnameTarget p) = None" "nt_topic (pathnameTarget p) = None" "nt_status (pathnameTarget p) = None"
  "nt_query (pathnameTarget p) = None" "nt_sort (pathnameTarget p) = None" "nt_page (pathnameTarget p) = None"
  by (simp_all add: pathnameTarget_def Let_def only_view_def split: option.split)

lemma unknown_nav_value:
  "unknown_params (nav_value t) =
     (let ps = params_set [] (u ''view'') (view_text (nt_view t));
          ps = set_param ''source'' source_text (nt_source t) ps; ps = set_param ''topic'' id (nt_topic t) ps;
          ps = set_param ''status'' catalog_status_text (nt_status t) ps; ps = set_param ''query'' id (nt_query t) ps;
          ps = set_param ''sort'' sort_text (nt_sort t) ps; ps = set_param ''detail'' id (nt_detail t) ps in
      set_param ''page'' num_str (nt_page t) ps)"
proof -
  have k: "set_string_param (nav_value t) ''source'' ps = set_param ''source'' source_text (nt_source t) ps"
    "set_string_param (nav_value t) ''topic'' ps = set_param ''topic'' id (nt_topic t) ps"
    "set_string_param (nav_value t) ''status'' ps = set_param ''status'' catalog_status_text (nt_status t) ps"
    "set_string_param (nav_value t) ''query'' ps = set_param ''query'' id (nt_query t) ps"
    "set_string_param (nav_value t) ''sort'' ps = set_param ''sort'' sort_text (nt_sort t) ps"
    "set_string_param (nav_value t) ''detail'' ps = set_param ''detail'' id (nt_detail t) ps" for ps
    by (simp_all add: set_string_param_def set_param_def is_string_def str_of_def split: option.split)
  have p: "(case jget (nav_value t) ''page'' of JNum n \<Rightarrow> params_set ps (u ''page'') (num_str n) | _ \<Rightarrow> ps)
      = set_param ''page'' num_str (nt_page t) ps" for ps
    by (simp add: set_param_def split: option.split)
  show ?thesis
    unfolding unknown_params_def Let_def p by (simp add: k str_of_def)
qed

lemma view_literal_wf: "wf16 (view_text v)"
proof -
  have "ascii (view_text v)" by (cases v) (simp_all add: ascii_def u_def)
  then show ?thesis by (rule wf16_ascii)
qed

lemma unknown_params_wf:
  assumes "normal_target t" "encodable t"
  shows "wf_params (unknown_params (nav_value t))"
proof -
  have "wf_params (params_set [] (u ''view'') (view_text (nt_view t)))"
    using view_literal_wf by (simp add: wf16_ascii ascii_def u_def)
  then show ?thesis
    unfolding unknown_nav_value Let_def using assms
    by (intro wf_set_param)
      (auto simp: wf_literals ascii_def u_def encodable_def normal_target_def intro: page_text(1) split: option.splits if_splits)
qed

lemma get_unknown_param [simp]:
  "params_get (unknown_params (nav_value t)) (u ''view'') = Some (view_text (nt_view t))"
  "params_get (unknown_params (nav_value t)) (u ''source'') = map_option source_text (nt_source t)"
  "params_get (unknown_params (nav_value t)) (u ''topic'') = nt_topic t"
  "params_get (unknown_params (nav_value t)) (u ''status'') = map_option catalog_status_text (nt_status t)"
  "params_get (unknown_params (nav_value t)) (u ''query'') = nt_query t"
  "params_get (unknown_params (nav_value t)) (u ''sort'') = map_option sort_text (nt_sort t)"
  "params_get (unknown_params (nav_value t)) (u ''detail'') = nt_detail t"
  "params_get (unknown_params (nav_value t)) (u ''page'') = map_option num_str (nt_page t)"
  unfolding unknown_nav_value Let_def get_set_param by (auto simp: params_get_def)

text \<open>The target with the detail of the current path when it has none of its own.\<close>

definition with_path_detail :: "nav_window option \<Rightarrow> NavigationTarget \<Rightarrow> NavigationTarget" where
  "with_path_detail w t = t\<lparr>nt_detail := coalesce (nt_detail t) (nt_detail (pathnameTarget (browserPathname w)))\<rparr>"

lemma coalesce_None [simp]: "coalesce x None = x" "coalesce None y = y" "coalesce (Some z) y = Some z"
  by (simp_all add: coalesce_def split: option.split)

lemma unknown_target_parsed:
  assumes "normal_target t" "encodable t"
  shows "parseNavigation (63 # params_text (unknown_params (nav_value t))) (browserPathname w) = with_path_detail w t"
proof -
  have ps: "params_parse (if 63 # params_text (unknown_params (nav_value t)) \<noteq> [] \<and> hd (63 # params_text (unknown_params (nav_value t))) = 63
      then tl (63 # params_text (unknown_params (nav_value t))) else 63 # params_text (unknown_params (nav_value t)))
      = unknown_params (nav_value t)"
    using params_of_text [OF unknown_params_wf [OF assms]] by simp
  have texts: "Option.bind (nt_topic t) (\<lambda>s. normalizedText (JStr s)) = nt_topic t"
    "Option.bind (nt_query t) (\<lambda>s. normalizedText (JStr s)) = nt_query t"
    "Option.bind (nt_detail t) (\<lambda>s. normalizedText (JStr s)) = nt_detail t"
    using assms(1) by (auto simp: normal_target_def split: Option.bind_split)
  have gt: "(case nt_page t of Some p \<Rightarrow> if p > 1 then Some p else None | None \<Rightarrow> None) = nt_page t"
    using assms(1) by (auto simp: normal_target_def split: option.split)
  have page: "Option.bind (map_option num_str (nt_page t)) (\<lambda>s. normalizedPage (JStr s)) = nt_page t"
    using assms by (auto simp: normal_target_def encodable_def page_text split: Option.bind_split)
  have lits: "Option.bind (map_option sort_text x) (literal sort_text CATALOG_SORTS) = x"
    "Option.bind (map_option source_text y) (literal source_text SOURCES) = y"
    "Option.bind (map_option catalog_status_text z) (literal catalog_status_text CATALOG_STATUSES) = z" for x y z
    by (cases x, simp, simp) (cases y, simp, simp, cases z, simp, simp)
  show ?thesis
    unfolding parseNavigation_def Let_def ps get_unknown_param texts page lits path_fields coalesce_None gt
    by (rule NavigationTarget.equality) (simp_all add: with_path_detail_def)
qed

lemma unknown_target_read:
  assumes "normal_target t" "encodable t"
  shows "normalizeUnknownTarget w (nav_value t) = Some (with_path_detail w t)"
proof -
  let ?keys = "[''source'', ''topic'', ''status'', ''query'', ''sort'', ''detail'', ''page'']"
  have same: "\<forall>k\<in>set ?keys. jget (nav_value t) k \<noteq> JUndef \<longrightarrow> jget (nav_value (with_path_detail w t)) k = jget (nav_value t) k"
    by (simp add: with_path_detail_def split: option.split)
  then have differ: "\<not> list_ex (\<lambda>k. jget (nav_value t) k \<noteq> JUndef \<and> jget (nav_value (with_path_detail w t)) k \<noteq> jget (nav_value t) k) ?keys"
    unfolding list_ex_iff by blast
  have view: "nt_view (with_path_detail w t) = nt_view t" by (simp add: with_path_detail_def)
  show ?thesis
    unfolding normalizeUnknownTarget_def Let_def unknown_target_parsed [OF assms] if_not_P [OF differ]
    by (simp add: is_string_def view)
qed

text \<open>A history entry of a normal target is read back with its owner and its scroll position made safe.  Its target
  comes back as it was, except that a target without a detail takes the detail of the path the browser shows.\<close>

lemma history_entry_read_back:
  assumes "normal_target (hs_target s)" "encodable (hs_target s)"
  shows "readNavigationHistoryState w (history_value s)
    = Some \<lparr>hs_target = with_path_detail w (hs_target s), hs_scroll = copyScroll (hs_scroll s), hs_routeGraph = hs_routeGraph s\<rparr>"
proof -
  have v: "isRecord (history_value s)" "jget (history_value s) ''lexigo'' = JBool True"
    "jget (history_value s) ''version'' = JNum NAVIGATION_HISTORY_VERSION" "jget (history_value s) ''target'' = nav_value (hs_target s)"
    "jget (history_value s) ''scroll'' = scroll_value (hs_scroll s)"
    "jget (history_value s) ''lexigoRouteGraph'' = (case hs_routeGraph s of Some g \<Rightarrow> JStr (graph_text g) | None \<Rightarrow> JUndef)"
    by (simp_all add: history_value_def jget_opt_end split: option.split)
  have owner: "routeGraphOwner (history_value s) = hs_routeGraph s"
    by (cases "hs_routeGraph s"; (cases "the (hs_routeGraph s)")?) (simp_all add: routeGraphOwner_def v is_lit_def)
  have scroll: "isRecord (scroll_value q)" "hs_safeCoordinate (jget (scroll_value q) ''x'') = tab_coordinate (sp_x q)"
    "hs_safeCoordinate (jget (scroll_value q) ''y'') = tab_coordinate (sp_y q)" for q
    by (simp_all add: scroll_value_def hs_safeCoordinate_def tab_coordinate_def v_isFinite_def num_of_def)
  show ?thesis
    unfolding readNavigationHistoryState_def v owner unknown_target_read [OF assms] option.case scroll baseNavigationHistoryState_def
    by (simp add: copyScroll_def v(1) scroll(1))
qed

lemma history_clean:
  assumes "clean (nav_value t)" "num_clean (tab_coordinate (sp_x p))" "num_clean (tab_coordinate (sp_y p))"
  shows "clean (history_value (createNavigationHistoryState w t p))"
proof -
  have "units_ok (graph_text g)" for g by (cases g) simp_all
  moreover have "hs_safeCoordinate (JNum n) = tab_coordinate n" for n
    by (simp add: hs_safeCoordinate_def tab_coordinate_def v_isFinite_def num_of_def)
  moreover have "num_clean NAVIGATION_HISTORY_VERSION" by (simp add: NAVIGATION_HISTORY_VERSION_def num_clean_def)
  ultimately show ?thesis using assms
    by (simp add: history_value_def createNavigationHistoryState_def baseNavigationHistoryState_def scroll_value_def
        opt_prop_def split: option.split)
qed

text \<open>C37: What a tab remembers is what it opens with: in the same document exactly, and after a reload, from the session
  storage, with the scroll position made safe and the same target, which however takes the detail of the path the
  browser shows when it has none of its own.\<close>

theorem tab_reopens_where_it_was:
  assumes "normal_target t" "encodable t" "clean (nav_value t)"
    "num_clean (tab_coordinate (sp_x p))" "num_clean (tab_coordinate (sp_y p))"
    "routeView t = Some view" "rt_storage s = Some st" "\<not> set_denied st" "\<not> get_denied st"
  shows "fst (routeTabDestination w' view (rememberRouteTab w t p s)) = \<lparr>ts_target = t, ts_scroll = copyScroll p\<rparr>
    \<and> fst (routeTabDestination w' view ((rememberRouteTab w t p s)\<lparr>memorySnapshots := Map.empty\<rparr>))
      = \<lparr>ts_target = with_path_detail w' t, ts_scroll = copyScroll p\<rparr>"
proof -
  let ?h = "createNavigationHistoryState w t p"
  have h: "hs_target ?h = t" "hs_scroll ?h = copyScroll p"
    by (simp_all add: createNavigationHistoryState_def baseNavigationHistoryState_def copyScroll_def tab_coordinate_def
        hs_safeCoordinate_def v_isFinite_def num_of_def)
  define st' where "st' = st\<lparr>items := (items st)(rt_storageKey view \<mapsto> json_stringify (history_value ?h))\<rparr>"
  have r: "rememberRouteTab w t p s = s\<lparr>memorySnapshots := (memorySnapshots s)(view \<mapsto> \<lparr>ts_target = t, ts_scroll = copyScroll p\<rparr>),
      rt_storage := Some st'\<rparr>"
    using assms(6-8) h by (simp add: rememberRouteTab_def Let_def setItem_def st'_def)
  have c: "clean (history_value ?h)" by (rule history_clean [OF assms(3-5)])
  have safe: "tab_coordinate (tab_coordinate n) = tab_coordinate n" for n by (simp add: tab_coordinate_def)
  have v: "routeView (with_path_detail w' t) = Some view" using assms(6) by (simp add: routeView_def with_path_detail_def)
  have read: "readNavigationHistoryState w' (history_value ?h) =
      Some \<lparr>hs_target = with_path_detail w' t, hs_scroll = copyScroll p, hs_routeGraph = hs_routeGraph ?h\<rparr>"
    using history_entry_read_back [of ?h w'] assms(1,2) h safe by (simp add: copyScroll_def)
  have "decodeSnapshot w' (Some (json_stringify (history_value ?h))) view
      = Some \<lparr>ts_target = with_path_detail w' t, ts_scroll = copyScroll p\<rparr>"
    using json.dec_enc [OF c] json_text_nonempty [OF c] read v by (simp add: decodeSnapshot_def)
  then show ?thesis
    unfolding r using assms(9) by (simp add: routeTabDestination_def Let_def getItem_def st'_def)
qed

text \<open>After a reload on the page of word 12 the dictionary tab, left without a detail, opens on that word.\<close>

definition word_window :: nav_window where
  "word_window = \<lparr>nw_historyState = JNull, nw_pathname = u ''/words/12''\<rparr>"

lemma tab_reopens_where_it_was_witness:
  "let tab = rememberRouteTab None (only_view LibraryView) \<lparr>sp_x = 0, sp_y = 40\<rparr> \<lparr>memorySnapshots = Map.empty, rt_storage = Some empty_storage\<rparr> in
    ts_target (fst (routeTabDestination (Some word_window) LibraryView (tab\<lparr>memorySnapshots := Map.empty\<rparr>)))
      = (only_view LibraryView)\<lparr>nt_detail := Some (u ''12'')\<rparr>"
proof -
  have "normal_target (only_view LibraryView)" "encodable (only_view LibraryView)" "clean (nav_value (only_view LibraryView))"
    "routeView (only_view LibraryView) = Some LibraryView"
    by (simp_all add: normal_target_def encodable_def only_view_def nav_value_def opt_prop_def routeView_def navigationTabView_def PRIMARY_VIEWS_def)
  moreover have "seg_ok (u ''12'')" "word_number (u ''12'')"
    by (simp_all add: seg_ok_def word_number_def all_digits_def encoded_char_def is_alnum_def is_digit_def u_def)
  then have "pathnameTarget (u ''/words/'' @ u ''12'') = (only_view LibraryView)\<lparr>nt_detail := Some (u ''12'')\<rparr>"
    by (simp add: path_of_segment)
  then have "with_path_detail (Some word_window) (only_view LibraryView) = (only_view LibraryView)\<lparr>nt_detail := Some (u ''12'')\<rparr>"
    by (simp add: with_path_detail_def word_window_def browserPathname_def u_def) (simp add: only_view_def coalesce_def)
  ultimately show ?thesis
    using tab_reopens_where_it_was [of "only_view LibraryView" "\<lparr>sp_x = 0, sp_y = 40\<rparr>" LibraryView
        "\<lparr>memorySnapshots = Map.empty, rt_storage = Some empty_storage\<rparr>" empty_storage "Some word_window" None]
    by (simp add: tab_coordinate_def num_clean_def empty_storage_def Let_def)
qed

section \<open>The scroll timers\<close>

datatype scroll_op = Schedule | FlushNow | CancelSnapshot | TimerFires nat

fun scroll_step :: "scroll_op \<Rightarrow> scroll_scheduler \<Rightarrow> scroll_scheduler" where
  "scroll_step Schedule s = scroll_schedule s"
| "scroll_step FlushNow s = scroll_flush s"
| "scroll_step CancelSnapshot s = scroll_cancel s"
| "scroll_step (TimerFires t) s = timer_fires t s"

definition scheduler_ok :: "scroll_scheduler \<Rightarrow> bool" where
  "scheduler_ok s \<longleftrightarrow> (ss_pending s \<longleftrightarrow> ss_timerID s \<noteq> None)
     \<and> ss_timers s = (case ss_timerID s of Some t \<Rightarrow> [t] | None \<Rightarrow> []) \<and> (\<forall>t\<in>set (ss_timers s). t < ss_next s)"

lemma scroll_step_ok: "scheduler_ok s \<Longrightarrow> scheduler_ok (scroll_step x s)"
  by (cases x; cases "ss_timerID s")
    (auto simp: scheduler_ok_def scroll_schedule_def scroll_flush_def scroll_cancel_def timer_fires_def clearTimer_def Let_def)

lemma commits_grow: "scheduler_ok s \<Longrightarrow> ss_commits (scroll_step x s) =
    (if ss_pending s \<and> (x = FlushNow \<or> (\<exists>t. x = TimerFires t \<and> ss_timerID s = Some t)) then ss_commits s + 1 else ss_commits s)"
  by (cases x; cases "ss_timerID s")
    (auto simp: scheduler_ok_def scroll_schedule_def scroll_flush_def scroll_cancel_def timer_fires_def clearTimer_def Let_def)

definition scheduled :: "scroll_op list \<Rightarrow> nat" where "scheduled ops = length (filter (\<lambda>x. x = Schedule) ops)"

lemma pending_step: "scheduler_ok s \<Longrightarrow> ss_pending (scroll_step x s) \<Longrightarrow> ss_pending s \<or> x = Schedule"
  by (cases x) (auto simp: scroll_flush_def scroll_cancel_def timer_fires_def clearTimer_def Let_def split: option.splits if_splits)

text \<open>Through any use of the scroll scheduler at most one timer is set, and one is set exactly while a snapshot is pending;
  the timer's firing commits the pending snapshot once and leaves nothing set; and there are never more commits than
  calls of schedule.\<close>

theorem scroll_writes_coalesce:
  assumes "createScrollSnapshotScheduler delay = Inr start" "s = fold scroll_step ops start"
  shows "(ss_pending s \<longrightarrow> (\<exists>t. ss_timers s = [t] \<and> ss_commits (timer_fires t s) = ss_commits s + 1
        \<and> \<not> ss_pending (timer_fires t s) \<and> ss_timers (timer_fires t s) = []))
    \<and> (\<not> ss_pending s \<longrightarrow> ss_timers s = []) \<and> ss_commits s \<le> scheduled ops"
proof -
  have inv: "scheduler_ok (fold scroll_step ops s0) \<and>
      ss_commits (fold scroll_step ops s0) + (if ss_pending (fold scroll_step ops s0) then 1 else 0)
        \<le> ss_commits s0 + (if ss_pending s0 then 1 else 0) + scheduled ops" if "scheduler_ok s0" for s0
    using that
  proof (induction ops rule: rev_induct)
    case (snoc x ops)
    let ?s = "fold scroll_step ops s0"
    have ok: "scheduler_ok ?s" and le: "ss_commits ?s + (if ss_pending ?s then 1 else 0)
        \<le> ss_commits s0 + (if ss_pending s0 then 1 else 0) + scheduled ops" using snoc by blast+
    have gone: "\<not> ss_pending (scroll_step x ?s)" if "ss_commits (scroll_step x ?s) \<noteq> ss_commits ?s"
      using that ok by (cases x; cases "ss_timerID ?s")
        (auto simp: scroll_flush_def timer_fires_def scroll_schedule_def scroll_cancel_def clearTimer_def Let_def scheduler_ok_def split: if_splits)
    have "ss_commits (scroll_step x ?s) + (if ss_pending (scroll_step x ?s) then 1 else 0)
        \<le> ss_commits ?s + (if ss_pending ?s then 1 else 0) + (if x = Schedule then 1 else 0)"
      using gone commits_grow [OF ok, of x] pending_step [OF ok, of x] by (auto split: if_splits)
    moreover have "scheduled (ops @ [x]) = scheduled ops + (if x = Schedule then 1 else 0)" by (simp add: scheduled_def)
    moreover have e: "fold scroll_step (ops @ [x]) s0 = scroll_step x ?s" by simp
    ultimately show ?case unfolding e using le scroll_step_ok [OF ok, of x] by (intro conjI; linarith?)
  qed (simp add: scheduled_def)
  have start: "scheduler_ok start" "ss_commits start = 0" "\<not> ss_pending start"
    using assms(1) by (auto simp: createScrollSnapshotScheduler_def scheduler_ok_def split: if_splits)
  have ok: "scheduler_ok s" and le: "ss_commits s \<le> scheduled ops" using inv [OF start(1)] start assms(2) by auto
  show ?thesis
  proof (intro conjI impI)
    assume "ss_pending s"
    with ok obtain t where t: "ss_timerID s = Some t" "ss_timers s = [t]" by (auto simp: scheduler_ok_def)
    with \<open>ss_pending s\<close> show "\<exists>t. ss_timers s = [t] \<and> ss_commits (timer_fires t s) = ss_commits s + 1
        \<and> \<not> ss_pending (timer_fires t s) \<and> ss_timers (timer_fires t s) = []"
      by (simp add: timer_fires_def scroll_flush_def clearTimer_def Let_def)
  next
    assume "\<not> ss_pending s"
    with ok show "ss_timers s = []" by (auto simp: scheduler_ok_def)
  qed (rule le)
qed

lemma scroll_writes_coalesce_witness:
  "\<exists>start. createScrollSnapshotScheduler 300 = Inr start
    \<and> ss_commits (fold scroll_step [Schedule, Schedule, Schedule, TimerFires 2] start) \<le> scheduled [Schedule, Schedule, Schedule, TimerFires 2]"
proof -
  obtain start where "createScrollSnapshotScheduler 300 = Inr start" by (simp add: createScrollSnapshotScheduler_def)
  with scroll_writes_coalesce [OF this refl] show ?thesis by blast
qed

section \<open>The restoration ends\<close>

text \<open>A frame with the position it finds, or a cancellation.\<close>

datatype frame_op = FrameRuns NavigationScrollPosition | CancelRestoration

fun frame_step :: "frame_op \<Rightarrow> restoration \<Rightarrow> restoration" where
  "frame_step (FrameRuns p) s = restore_frame p s"
| "frame_step CancelRestoration s = cancel_restoration s"

definition restoration_ok :: "restoration \<Rightarrow> bool" where
  "restoration_ok s \<longleftrightarrow> 0 < ra_maxFrames s \<and>
     (if ra_frame s then ra_settled s = [] \<and> \<not> ra_cancelled s \<and> ra_attempts s < ra_maxFrames s
      else (\<exists>r. ra_settled s = [r] \<and> sr_attempts r = ra_attempts s \<and> ra_attempts s \<le> ra_maxFrames s
              \<and> (\<not> sr_restored r \<longrightarrow> ra_attempts s = ra_maxFrames s))
        \<or> ra_settled s = [] \<and> ra_cancelled s)"

lemma frame_step_ok: "restoration_ok s \<Longrightarrow> restoration_ok (frame_step x s)"
  by (cases x) (auto simp: restoration_ok_def restore_frame_def cancel_restoration_def Let_def split: if_splits)

lemma frame_keeps [simp]:
  "ra_maxFrames (frame_step x s) = ra_maxFrames s" "ra_target (frame_step x s) = ra_target s"
  by (cases x; simp add: restore_frame_def cancel_restoration_def Let_def)+

text \<open>C38: A scroll restoration reports at most one result; without a cancellation it reports exactly one, no later than after
  the limit of frames, and a failure only at the limit; after a cancellation no further frame does anything.\<close>

theorem restoration_settles:
  assumes "scheduleNavigationScrollRestoration target maxFrames tolerance = Inr start" "s = fold frame_step ops start"
  shows "length (ra_settled s) \<le> 1
    \<and> (\<forall>r\<in>set (ra_settled s). sr_attempts r \<le> ra_maxFrames start \<and> (\<not> sr_restored r \<longrightarrow> sr_attempts r = ra_maxFrames start))
    \<and> (CancelRestoration \<notin> set ops \<and> ra_maxFrames start \<le> length ops \<longrightarrow> length (ra_settled s) = 1)
    \<and> (ra_cancelled s \<longrightarrow> frame_step (FrameRuns p) s = s)"
proof -
  have keep: "ra_maxFrames (fold frame_step ops s0) = ra_maxFrames s0" for s0 by (induction ops arbitrary: s0) simp_all
  have inv: "restoration_ok (fold frame_step ops s0)" if "restoration_ok s0" for s0
    using that by (induction ops arbitrary: s0) (simp_all add: frame_step_ok)
  have start: "restoration_ok start" "ra_attempts start = 0" "ra_frame start"
  proof -
    obtain n where "(case maxFrames of Some n \<Rightarrow> n | None \<Rightarrow> 300) = n" by simp
    then show "restoration_ok start" "ra_attempts start = 0" "ra_frame start"
      using assms(1) by (cases n; auto simp: scheduleNavigationScrollRestoration_def Let_def restoration_ok_def is_int_iff
          split: if_splits sum.splits)+
  qed
  have progress: "\<not> ra_frame (fold frame_step ops s0) \<or> ra_attempts (fold frame_step ops s0) = ra_attempts s0 + length ops"
    if "restoration_ok s0" "ra_frame s0" "CancelRestoration \<notin> set ops" for s0
    using that
  proof (induction ops rule: rev_induct)
    case (snoc x ops)
    then obtain p where "x = FrameRuns p" by (cases x) auto
    with snoc show ?case by (auto simp: restore_frame_def Let_def)
  qed simp
  have ok: "restoration_ok s" using inv [OF start(1)] assms(2) by simp
  have m: "ra_maxFrames s = ra_maxFrames start" using keep assms(2) by simp
  show ?thesis
  proof (intro conjI impI)
    show "length (ra_settled s) \<le> 1" using ok by (auto simp: restoration_ok_def split: if_splits)
    show "\<forall>r\<in>set (ra_settled s). sr_attempts r \<le> ra_maxFrames start \<and> (\<not> sr_restored r \<longrightarrow> sr_attempts r = ra_maxFrames start)"
      using ok m by (auto simp: restoration_ok_def split: if_splits)
  next
    assume a: "CancelRestoration \<notin> set ops \<and> ra_maxFrames start \<le> length ops"
    have "\<not> ra_cancelled (fold frame_step ops s0)" if "\<not> ra_cancelled s0" "CancelRestoration \<notin> set ops" for s0
      using that
    proof (induction ops arbitrary: s0)
      case (Cons x ops)
      then obtain p where "x = FrameRuns p" by (cases x) auto
      with Cons show ?case by (simp add: restore_frame_def Let_def)
    qed simp
    moreover have "\<not> ra_cancelled start" using start by (simp add: restoration_ok_def)
    ultimately have "\<not> ra_cancelled s" using a assms(2) by simp
    moreover have "\<not> ra_frame s" using progress [OF start(1,3)] a ok m start(2) assms(2) by (auto simp: restoration_ok_def)
    ultimately show "length (ra_settled s) = 1" using ok by (auto simp: restoration_ok_def)
  next
    assume "ra_cancelled s"
    with ok show "frame_step (FrameRuns p) s = s" by (auto simp: restoration_ok_def restore_frame_def split: if_splits)
  qed
qed

lemma restoration_settles_witness:
  "\<exists>start. scheduleNavigationScrollRestoration \<lparr>sp_x = 0, sp_y = 50\<rparr> (Some 2) None = Inr start
    \<and> length (ra_settled (fold frame_step [FrameRuns \<lparr>sp_x = 0, sp_y = 0\<rparr>, FrameRuns \<lparr>sp_x = 0, sp_y = 10\<rparr>] start)) = 1"
proof -
  obtain start where s: "scheduleNavigationScrollRestoration \<lparr>sp_x = 0, sp_y = 50\<rparr> (Some 2) None = Inr start" "ra_maxFrames start = 2"
    by (simp add: scheduleNavigationScrollRestoration_def finite_position_def finiteCoordinate_def)
  from restoration_settles [OF s(1) refl, of "[FrameRuns \<lparr>sp_x = 0, sp_y = 0\<rparr>, FrameRuns \<lparr>sp_x = 0, sp_y = 10\<rparr>]"] s
  show ?thesis by auto
qed

end
