(* ===== verification/Js_Date.thy ===== *)
theory Js_Date
  imports Js_Uri
begin

text \<open>
  Numbers written as text (\<open>Number(value)\<close>, \<open>padStart\<close>) and the proleptic Gregorian calendar of
  \<open>Date.UTC\<close> and \<open>Date.prototype.toISOString\<close>.  An instant is a whole number of milliseconds; it is
  in the range of valid dates.
\<close>

section \<open>\<open>Number\<close> of a value\<close>

definition dec_value :: "jstr \<Rightarrow> jstr \<Rightarrow> int \<Rightarrow> rat" where
  "dec_value whole fs e =
     (let m = of_nat (digits_val (whole @ fs)); k = e - int (length fs) in
      if 0 \<le> k then m * 10 ^ nat k else m / 10 ^ nat (- k))"

text \<open>An unsigned decimal literal, with an optional fraction and exponent.\<close>

definition exponent :: "jstr \<Rightarrow> int option" where
  "exponent s =
     (case s of
        [] \<Rightarrow> Some 0
      | c # r \<Rightarrow>
          if c \<noteq> 101 \<and> c \<noteq> 69 then None
          else (let neg = (r \<noteq> [] \<and> hd r = 45); t = (if r \<noteq> [] \<and> (hd r = 45 \<or> hd r = 43) then tl r else r) in
            if t = [] \<or> \<not> (\<forall>d\<in>set t. is_digit d) then None
            else Some (if neg then - int (digits_val t) else int (digits_val t))))"

definition unsigned_decimal :: "jstr \<Rightarrow> jnum" where
  "unsigned_decimal s =
     (if s = u ''Infinity'' then PInf
      else
        let whole = takeWhile is_digit s; r = dropWhile is_digit s;
            dot = (r \<noteq> [] \<and> hd r = 46);
            fs = (if dot then takeWhile is_digit (tl r) else []);
            e = (if dot then dropWhile is_digit (tl r) else r) in
        if whole = [] \<and> fs = [] then NaN
        else (case exponent e of Some k \<Rightarrow> Fin (dec_value whole fs k) | None \<Rightarrow> NaN))"

definition radix_value :: "nat \<Rightarrow> jstr \<Rightarrow> jnum" where
  "radix_value b s =
     (let ds = map hex_val s in
      if s = [] \<or> \<not> (\<forall>d\<in>set ds. d \<noteq> None \<and> the d < b) then NaN
      else jnat (foldl (\<lambda>a d. b * a + the d) 0 ds))"

definition string_to_number :: "jstr \<Rightarrow> jnum" where
  "string_to_number s =
     (let t = trim s in
      if t = [] then 0
      else if length t > 2 \<and> t ! 0 = 48 \<and> t ! 1 \<in> {120, 88} then radix_value 16 (drop 2 t)
      else if length t > 2 \<and> t ! 0 = 48 \<and> t ! 1 \<in> {111, 79} then radix_value 8 (drop 2 t)
      else if length t > 2 \<and> t ! 0 = 48 \<and> t ! 1 \<in> {98, 66} then radix_value 2 (drop 2 t)
      else if hd t = 45 then - unsigned_decimal (tl t)
      else if hd t = 43 then unsigned_decimal (tl t)
      else unsigned_decimal t)"

text \<open>The text of a value, as \<open>String\<close> and the joining of an array write it.\<close>

fun value_text :: "jval \<Rightarrow> jstr" and elements_text :: "jval list \<Rightarrow> jstr list" where
  "value_text JUndef = u ''undefined''"
| "value_text JNull = u ''null''"
| "value_text (JBool b) = u (if b then ''true'' else ''false'')"
| "value_text (JNum n) = num_str n"
| "value_text (JStr s) = s"
| "value_text (JArr xs) = join [44] (elements_text xs)"
| "value_text (JObj kvs) = u ''[object Object]''"
| "elements_text [] = []"
| "elements_text (x # xs) = (if x = JUndef \<or> x = JNull then [] else value_text x) # elements_text xs"

definition to_number :: "jval \<Rightarrow> jnum" where
  "to_number v =
     (case v of
        JNum n \<Rightarrow> n | JUndef \<Rightarrow> NaN | JNull \<Rightarrow> 0 | JBool b \<Rightarrow> (if b then 1 else 0)
      | JStr s \<Rightarrow> string_to_number s
      | _ \<Rightarrow> string_to_number (value_text v))"

definition padStart :: "nat \<Rightarrow> nat \<Rightarrow> jstr \<Rightarrow> jstr" where
  "padStart n c s = replicate (n - length s) c @ s"

abbreviation pad :: "nat \<Rightarrow> int \<Rightarrow> jstr" where "pad n x \<equiv> padStart n 48 (nat_str (nat x))"

section \<open>The calendar\<close>

definition days_from_civil :: "int \<Rightarrow> int \<Rightarrow> int \<Rightarrow> int" where
  "days_from_civil y m d =
     (let y = (if m \<le> 2 then y - 1 else y); era = y div 400; yoe = y mod 400;
          doy = (153 * ((m + 9) mod 12) + 2) div 5 + d - 1 in
      era * 146097 + (yoe * 365 + yoe div 4 - yoe div 100 + doy) - 719468)"

definition civil_from_days :: "int \<Rightarrow> int \<times> int \<times> int" where
  "civil_from_days z =
     (let era = (z + 719468) div 146097; doe = (z + 719468) mod 146097;
          yoe = (doe - doe div 1460 + doe div 36524 - doe div 146096) div 365;
          doy = doe - (365 * yoe + yoe div 4 - yoe div 100); mp = (5 * doy + 2) div 153;
          m = (if mp < 10 then mp + 3 else mp - 9); y = yoe + era * 400 in
      (if m \<le> 2 then y + 1 else y, m, doy - (153 * mp + 2) div 5 + 1))"

definition day_ms :: int where "day_ms = 86400000"

text \<open>\<open>Date.UTC\<close>: months count from zero, and the years 0 to 99 stand for 1900 to 1999.\<close>

definition date_utc :: "int \<Rightarrow> int \<Rightarrow> int \<Rightarrow> int \<Rightarrow> int \<Rightarrow> int \<Rightarrow> int" where
  "date_utc y mo d h mi s =
     (let y = (if 0 \<le> y \<and> y \<le> 99 then 1900 + y else y);
          day = days_from_civil (y + mo div 12) (mo mod 12 + 1) 1 + d - 1 in
      (((day * 24 + h) * 60 + mi) * 60 + s) * 1000)"

definition toISOString :: "int \<Rightarrow> jstr" where
  "toISOString t =
     (let (y, m, d) = civil_from_days (t div day_ms); r = t mod day_ms in
      (if 0 \<le> y \<and> y \<le> 9999 then pad 4 y else (if y < 0 then 45 else 43) # pad 6 \<bar>y\<bar>)
        @ [45] @ pad 2 m @ [45] @ pad 2 d @ [84] @ pad 2 (r div 3600000) @ [58] @ pad 2 (r div 60000 mod 60)
        @ [58] @ pad 2 (r div 1000 mod 60) @ [46] @ pad 3 (r mod 1000) @ [90])"

section \<open>The remainder\<close>

text \<open>The remainder \<open>a % b\<close>, with the sign of \<open>a\<close>.\<close>

fun jrem :: "jnum \<Rightarrow> jnum \<Rightarrow> jnum" where
  "jrem (Fin a) (Fin b) = (if b = 0 then NaN else Fin (a - b * (if a / b < 0 then of_int \<lceil>a / b\<rceil> else of_int \<lfloor>a / b\<rfloor>)))"
| "jrem (Fin a) PInf = Fin a"
| "jrem (Fin a) NInf = Fin a"
| "jrem x y = NaN"

lemma jrem_nat: "0 < m \<Longrightarrow> jrem (jnat n) (jnat m) = jnat (n mod m)"
proof -
  assume m: "0 < m"
  have "\<lfloor>(of_nat n :: rat) / of_nat m\<rfloor> = int (n div m)" by (simp add: floor_divide_of_nat_eq)
  moreover have "\<not> (of_nat n :: rat) / of_nat m < 0" by (simp add: not_less)
  moreover have "(of_nat n :: rat) - of_nat m * of_nat (n div m) = of_nat (n mod m)"
    by (metis add_diff_cancel_left' mult_div_mod_eq of_nat_add of_nat_mult)
  ultimately show ?thesis using m by simp
qed

end
