(* ===== verification/Calendar.thy ===== *)
theory Calendar
  imports Js_Date Js_Storage
begin

text \<open>
  \<open>src/frontend/lib/calendar-reminder.ts\<close> and \<open>calendar-reminder-storage.ts\<close>: the reminder settings, the
  next occurrence, the links and the iCalendar file with its time zone block, and the stored copy.  An
  instant is a whole number of milliseconds.  What \<open>Intl\<close> knows of time zones and what the host's local
  time is are arguments (\<open>intl\<close>, \<open>local_clock\<close>); a formatter made by \<open>dateFormatter\<close> depends only on the
  zone, so its memo table is not part of the state, while the table of time zone lines is.
\<close>

section \<open>Settings\<close>

datatype CalendarWeekday = MO | TU | WE | TH | FR | SA | SU
datatype CalendarRecurrence = Daily | Weekdays | Custom

record weekday_entry =
  wd_code :: CalendarWeekday
  wd_label :: jstr
  wd_longLabel :: jstr
  wd_day :: nat

definition CALENDAR_WEEKDAYS :: "weekday_entry list" where
  "CALENDAR_WEEKDAYS =
     [\<lparr>wd_code = MO, wd_label = [1055, 1085], wd_longLabel = [1055, 1086, 1085, 1077, 1076, 1077, 1083, 1100, 1085, 1080, 1082], wd_day = 1\<rparr>,
      \<lparr>wd_code = TU, wd_label = [1042, 1090], wd_longLabel = [1042, 1090, 1086, 1088, 1085, 1080, 1082], wd_day = 2\<rparr>,
      \<lparr>wd_code = WE, wd_label = [1057, 1088], wd_longLabel = [1057, 1088, 1077, 1076, 1072], wd_day = 3\<rparr>,
      \<lparr>wd_code = TH, wd_label = [1063, 1090], wd_longLabel = [1063, 1077, 1090, 1074, 1077, 1088, 1075], wd_day = 4\<rparr>,
      \<lparr>wd_code = FR, wd_label = [1055, 1090], wd_longLabel = [1055, 1103, 1090, 1085, 1080, 1094, 1072], wd_day = 5\<rparr>,
      \<lparr>wd_code = SA, wd_label = [1057, 1073], wd_longLabel = [1057, 1091, 1073, 1073, 1086, 1090, 1072], wd_day = 6\<rparr>,
      \<lparr>wd_code = SU, wd_label = [1042, 1089], wd_longLabel = [1042, 1086, 1089, 1082, 1088, 1077, 1089, 1077, 1085, 1100, 1077], wd_day = 0\<rparr>]"

fun weekday_text :: "CalendarWeekday \<Rightarrow> jstr" where
  "weekday_text MO = u ''MO''" | "weekday_text TU = u ''TU''" | "weekday_text WE = u ''WE''"
| "weekday_text TH = u ''TH''" | "weekday_text FR = u ''FR''" | "weekday_text SA = u ''SA''"
| "weekday_text SU = u ''SU''"

fun recurrence_text :: "CalendarRecurrence \<Rightarrow> jstr" where
  "recurrence_text Daily = u ''daily''" | "recurrence_text Weekdays = u ''weekdays''"
| "recurrence_text Custom = u ''custom''"

record CalendarReminderSettings =
  cr_time :: jstr
  cr_durationMinutes :: jnum
  cr_reminderMinutes :: jnum
  cr_recurrence :: CalendarRecurrence
  cr_weekdays :: "CalendarWeekday list"

definition WEEKDAY_CODES :: "CalendarWeekday list" where
  "WEEKDAY_CODES = map wd_code CALENDAR_WEEKDAYS"

definition WORKDAYS :: "CalendarWeekday list" where
  "WORKDAYS = [MO, TU, WE, TH, FR]"

definition DEFAULT_CALENDAR_REMINDER :: CalendarReminderSettings where
  "DEFAULT_CALENDAR_REMINDER = \<lparr>cr_time = u ''19:00'', cr_durationMinutes = 20, cr_reminderMinutes = 10,
     cr_recurrence = Daily, cr_weekdays = WEEKDAY_CODES\<rparr>"

definition recordFrom :: "jval \<Rightarrow> jval" where
  "recordFrom v = (case v of JObj kvs \<Rightarrow> v | JArr xs \<Rightarrow> v | _ \<Rightarrow> JObj [])"

definition boundedInteger :: "jval \<Rightarrow> jnum \<Rightarrow> jnum \<Rightarrow> jnum \<Rightarrow> jnum" where
  "boundedInteger v fallback minimum maximum =
     (let parsed = to_number v in
      if \<not> isFinite parsed then fallback else jmin maximum (jmax minimum (jround parsed)))"

definition time_pattern :: "jstr \<Rightarrow> bool" where
  "time_pattern s \<longleftrightarrow>
     (case s of
        [a, b, c, d, e] \<Rightarrow>
          (a \<in> {48, 49} \<and> is_digit b \<or> a = 50 \<and> 48 \<le> b \<and> b \<le> 51) \<and> c = 58 \<and> 48 \<le> d \<and> d \<le> 53 \<and> is_digit e
      | _ \<Rightarrow> False)"

definition normalizeTime :: "jval \<Rightarrow> jstr" where
  "normalizeTime v =
     (if \<not> is_string v \<or> \<not> time_pattern (str_of v) then cr_time DEFAULT_CALENDAR_REMINDER else str_of v)"

definition normalizeRecurrence :: "jval \<Rightarrow> CalendarRecurrence" where
  "normalizeRecurrence v =
     (if is_lit v ''weekdays'' then Weekdays else if is_lit v ''custom'' then Custom
      else if is_lit v ''daily'' then Daily else cr_recurrence DEFAULT_CALENDAR_REMINDER)"

definition weekday_of :: "jval \<Rightarrow> CalendarWeekday option" where
  "weekday_of v = (if is_string v then find (\<lambda>w. weekday_text w = str_of v) WEEKDAY_CODES else None)"

definition normalizeWeekdays :: "jval \<Rightarrow> CalendarWeekday list" where
  "normalizeWeekdays v =
     (if \<not> is_array v then cr_weekdays DEFAULT_CALENDAR_REMINDER
      else let selected = remdups (List.map_filter weekday_of (arr_of v)) in
        filter (\<lambda>w. w \<in> set selected) (map wd_code CALENDAR_WEEKDAYS))"

definition normalizeCalendarReminderSettings :: "jval \<Rightarrow> CalendarReminderSettings" where
  "normalizeCalendarReminderSettings v =
     (let source = recordFrom v;
          recurrence = normalizeRecurrence (jget source ''recurrence'');
          normalizedWeekdays = normalizeWeekdays (jget source ''weekdays'') in
      \<lparr>cr_time = normalizeTime (jget source ''time''),
       cr_durationMinutes = boundedInteger (jget source ''durationMinutes'')
         (cr_durationMinutes DEFAULT_CALENDAR_REMINDER) 5 180,
       cr_reminderMinutes = boundedInteger (jget source ''reminderMinutes'')
         (cr_reminderMinutes DEFAULT_CALENDAR_REMINDER) 0 1440,
       cr_recurrence = recurrence,
       cr_weekdays = (if recurrence = Custom \<and> normalizedWeekdays = [] then WORKDAYS else normalizedWeekdays)\<rparr>)"

text \<open>Settings as the object they are, for the functions that normalise their argument again.\<close>

definition settings_value :: "CalendarReminderSettings \<Rightarrow> jval" where
  "settings_value s = JObj [(u ''time'', JStr (cr_time s)), (u ''durationMinutes'', JNum (cr_durationMinutes s)),
     (u ''reminderMinutes'', JNum (cr_reminderMinutes s)), (u ''recurrence'', JStr (recurrence_text (cr_recurrence s))),
     (u ''weekdays'', JArr (map (JStr \<circ> weekday_text) (cr_weekdays s)))]"

abbreviation normalized_settings :: "CalendarReminderSettings \<Rightarrow> CalendarReminderSettings" where
  "normalized_settings s \<equiv> normalizeCalendarReminderSettings (settings_value s)"

definition effectiveCalendarWeekdays :: "CalendarReminderSettings \<Rightarrow> CalendarWeekday list" where
  "effectiveCalendarWeekdays s =
     (if cr_recurrence s = Daily then map wd_code CALENDAR_WEEKDAYS
      else if cr_recurrence s = Weekdays then WORKDAYS
      else if cr_weekdays s \<noteq> [] then cr_weekdays s else WORKDAYS)"

section \<open>The next occurrence\<close>

text \<open>The host's local time: the fields of an instant, and the instant with changed fields.\<close>

record local_clock =
  getDate :: "int \<Rightarrow> int"
  getDay :: "int \<Rightarrow> nat"
  setDate :: "int \<Rightarrow> int \<Rightarrow> int"
  setHours :: "int \<Rightarrow> int \<Rightarrow> int \<Rightarrow> int"

definition weekdayCode :: "local_clock \<Rightarrow> int \<Rightarrow> CalendarWeekday" where
  "weekdayCode c t = (case find (\<lambda>w. wd_day w = getDay c t) CALENDAR_WEEKDAYS of Some w \<Rightarrow> wd_code w | None \<Rightarrow> MO)"

definition hour_minute :: "jstr \<Rightarrow> int \<times> int" where
  "hour_minute s = (case split_on 58 s of h # m # _ \<Rightarrow> (int (digits_val h), int (digits_val m)) | _ \<Rightarrow> (0, 0))"

definition candidate_at :: "local_clock \<Rightarrow> jstr \<Rightarrow> int \<Rightarrow> nat \<Rightarrow> int" where
  "candidate_at c time from offset =
     (let (hour, minute) = hour_minute time in setHours c (setDate c from (getDate c from + int offset)) hour minute)"

definition nextCalendarOccurrence :: "local_clock \<Rightarrow> CalendarReminderSettings \<Rightarrow> int \<Rightarrow> int" where
  "nextCalendarOccurrence c v from =
     (let settings = normalized_settings v; allowedDays = effectiveCalendarWeekdays settings in
      case find (\<lambda>offset. candidate_at c (cr_time settings) from offset > from
          \<and> weekdayCode c (candidate_at c (cr_time settings) from offset) \<in> set allowedDays) [0..<15] of
        Some offset \<Rightarrow> candidate_at c (cr_time settings) from offset
      | None \<Rightarrow> candidate_at c (cr_time settings) from 1)"

section \<open>Texts\<close>

definition buildCalendarRecurrenceRule :: "CalendarReminderSettings \<Rightarrow> jstr" where
  "buildCalendarRecurrenceRule v =
     (let settings = normalized_settings v in
      if cr_recurrence settings = Daily then u ''FREQ=DAILY''
      else u ''FREQ=WEEKLY;WKST=MO;BYDAY='' @ join [44] (map weekday_text (effectiveCalendarWeekdays settings)))"

definition describeCalendarSchedule :: "CalendarReminderSettings \<Rightarrow> jstr" where
  "describeCalendarSchedule v =
     (let settings = normalized_settings v in
      if cr_recurrence settings = Daily then [1050, 1072, 1078, 1076, 1099, 1081, 32, 1076, 1077, 1085, 1100, 32, 1074, 32] @ cr_time settings
      else if cr_recurrence settings = Weekdays then [1055, 1086, 32, 1073, 1091, 1076, 1085, 1103, 1084, 32, 1074, 32] @ cr_time settings
      else join (u '', '') (filter (\<lambda>l. l \<noteq> []) (List.map_filter
          (\<lambda>w. map_option wd_label (find (\<lambda>e. wd_code e = w) CALENDAR_WEEKDAYS)) (effectiveCalendarWeekdays settings)))
        @ [32, 1074, 32] @ cr_time settings)"

text \<open>What \<open>Intl.DateTimeFormat\<close> offers: whether it accepts a zone, and the parts of an instant there.\<close>

record intl =
  zone_known :: "jstr \<Rightarrow> bool"
  formatToParts :: "jstr \<Rightarrow> int \<Rightarrow> (jstr \<times> jstr) list"

definition normalizeCalendarTimeZone :: "intl \<Rightarrow> jstr option \<Rightarrow> jstr" where
  "normalizeCalendarTimeZone i v =
     (case map_option trim v of
        None \<Rightarrow> u ''UTC''
      | Some candidate \<Rightarrow>
          if candidate = [] \<or> length candidate > 100 then u ''UTC''
          else if zone_known i candidate then candidate else u ''UTC'')"

record DateParts =
  dp_year :: jstr
  dp_month :: jstr
  dp_day :: jstr
  dp_hour :: jstr
  dp_minute :: jstr
  dp_second :: jstr

definition part_of :: "(jstr \<times> jstr) list \<Rightarrow> string \<Rightarrow> jstr" where
  "part_of parts k = (case map_of (rev (filter (\<lambda>p. fst p \<noteq> u ''literal'') parts)) (u k) of
     Some s \<Rightarrow> s | None \<Rightarrow> u ''undefined'')"

definition dateParts :: "intl \<Rightarrow> int \<Rightarrow> jstr \<Rightarrow> DateParts" where
  "dateParts i date timeZone =
     (let parts = formatToParts i timeZone date in
      \<lparr>dp_year = part_of parts ''year'', dp_month = part_of parts ''month'', dp_day = part_of parts ''day'',
       dp_hour = part_of parts ''hour'', dp_minute = part_of parts ''minute'', dp_second = part_of parts ''second''\<rparr>)"

definition calendarDate :: "intl \<Rightarrow> int \<Rightarrow> jstr \<Rightarrow> jstr" where
  "calendarDate i date timeZone =
     (let p = dateParts i date timeZone in
      dp_year p @ dp_month p @ dp_day p @ [84] @ dp_hour p @ dp_minute p @ dp_second p)"

text \<open>Dashes and colons go, and a final fraction of three digits.\<close>

definition utcCalendarDate :: "int \<Rightarrow> jstr" where
  "utcCalendarDate date =
     (let s = filter (\<lambda>c. c \<noteq> 45 \<and> c \<noteq> 58) (toISOString date); n = length s - 5; e = drop n s in
      if length s \<ge> 5 \<and> hd e = 46 \<and> (\<forall>c\<in>set (take 3 (tl e)). is_digit c) \<and> last e = 90 then take n s @ [90] else s)"

definition CALENDAR_EVENT_TITLE :: jstr where "CALENDAR_EVENT_TITLE = [76, 101, 120, 105, 71, 111, 32, 8212, 32, 1087, 1086, 1074, 1090, 1086, 1088, 1077, 1085, 1080, 1077, 32, 1072, 1085, 1075, 1083, 1080, 1081, 1089, 1082, 1086, 1075, 1086]"
definition CALENDAR_EVENT_DESCRIPTION :: jstr where
  "CALENDAR_EVENT_DESCRIPTION = [1054, 1090, 1082, 1088, 1086, 1081, 1090, 1077, 32, 76, 101, 120, 105, 71, 111, 32, 1080, 32, 1074, 1099, 1087, 1086, 1083, 1085, 1080, 1090, 1077, 32, 1076, 1085, 1077, 1074, 1085, 1091, 1102, 32, 1094, 1077, 1083, 1100, 32, 1087, 1086, 32, 1072, 1085, 1075, 1083, 1080, 1081, 1089, 1082, 1086, 1084, 1091, 46]"

definition eventDescription :: "jstr option \<Rightarrow> jstr" where
  "eventDescription appURL =
     (case map_option trim appURL of
        Some normalizedURL \<Rightarrow> if normalizedURL \<noteq> [] then CALENDAR_EVENT_DESCRIPTION @ 10 # normalizedURL else CALENDAR_EVENT_DESCRIPTION
      | None \<Rightarrow> CALENDAR_EVENT_DESCRIPTION)"

record CalendarEventOptions =
  co_start :: int
  co_timeZone :: "jstr option"
  co_appURL :: "jstr option"
  co_generatedAt :: "int option"

text \<open>The end of an event; the duration is a whole number of minutes once normalised.\<close>

definition event_end :: "CalendarReminderSettings \<Rightarrow> int \<Rightarrow> int" where
  "event_end settings start =
     start + (case cr_durationMinutes settings of Fin r \<Rightarrow> \<lfloor>r * 60000\<rfloor> | _ \<Rightarrow> 0)"

definition buildGoogleCalendarURL :: "intl \<Rightarrow> CalendarReminderSettings \<Rightarrow> CalendarEventOptions \<Rightarrow> jstr" where
  "buildGoogleCalendarURL i v options =
     (let settings = normalized_settings v;
          timeZone = normalizeCalendarTimeZone i (co_timeZone options) in
      u ''https://calendar.google.com/calendar/render?'' @ params_text
        [(u ''action'', u ''TEMPLATE''), (u ''text'', CALENDAR_EVENT_TITLE),
         (u ''dates'', calendarDate i (co_start options) timeZone @ [47]
            @ calendarDate i (event_end settings (co_start options)) timeZone),
         (u ''details'', eventDescription (co_appURL options)),
         (u ''recur'', u ''RRULE:'' @ buildCalendarRecurrenceRule settings),
         (u ''ctz'', timeZone), (u ''trp'', u ''false'')])"

section \<open>Lines of the file\<close>

definition escape_unit :: "nat \<Rightarrow> jstr \<Rightarrow> jstr" where
  "escape_unit c s = concat (map (\<lambda>x. if x = c then [92, c] else [x]) s)"

text \<open>A line feed, with the carriage return before it.\<close>

fun escape_newlines :: "jstr \<Rightarrow> jstr" where
  "escape_newlines [] = []"
| "escape_newlines (c # s) =
     (if c = 10 then 92 # 110 # escape_newlines s
      else if c = 13 \<and> s \<noteq> [] \<and> hd s = 10 then escape_newlines s
      else c # escape_newlines s)"

definition escapeICalendarText :: "jstr \<Rightarrow> jstr" where
  "escapeICalendarText s = escape_unit 44 (escape_unit 59 (escape_newlines (escape_unit 92 s)))"

text \<open>The loop over the characters of a line: the finished lines, the current one and its bytes.\<close>

fun fold_chars :: "jstr list \<Rightarrow> jstr list \<Rightarrow> jstr \<Rightarrow> nat \<Rightarrow> jstr list" where
  "fold_chars folded [] current currentBytes = folded @ [current]"
| "fold_chars folded (character # rest) current currentBytes =
     (let characterBytes = length (utf8_bytes character); limit = (if folded = [] then 75 else 74) in
      if current \<noteq> [] \<and> currentBytes + characterBytes > limit
      then fold_chars (folded @ [current]) rest (32 # character) (1 + characterBytes)
      else fold_chars folded rest (current @ character) (currentBytes + characterBytes))"

definition foldICalendarLine :: "jstr \<Rightarrow> jstr list" where
  "foldICalendarLine line = fold_chars [] (chars_of line) [] 0"

section \<open>The time zone block\<close>

definition TRANSITION_SCAN_STEP_MS :: int where "TRANSITION_SCAN_STEP_MS = 7 * 24 * 60 * 60 * 1000"
definition TIME_ZONE_YEARS_AHEAD :: int where "TIME_ZONE_YEARS_AHEAD = 10"
definition TIME_ZONE_LINES_CACHE_LIMIT :: nat where "TIME_ZONE_LINES_CACHE_LIMIT = 32"

definition truncated :: "rat \<Rightarrow> int" where "truncated r = (if 0 \<le> r then \<lfloor>r\<rfloor> else \<lceil>r\<rceil>)"

definition timeZoneOffsetMinutes :: "intl \<Rightarrow> int \<Rightarrow> jstr \<Rightarrow> jnum" where
  "timeZoneOffsetMinutes i date timeZone =
     (let p = dateParts i date timeZone; exactTimestamp = date div 1000 * 1000 in
      case (string_to_number (dp_year p), string_to_number (dp_month p), string_to_number (dp_day p),
            string_to_number (dp_hour p), string_to_number (dp_minute p), string_to_number (dp_second p)) of
        (Fin y, Fin mo, Fin d, Fin h, Fin mi, Fin s) \<Rightarrow>
          (let localTimestamp = date_utc (truncated y) (truncated (mo - 1)) (truncated d) (truncated h) (truncated mi) (truncated s) in
           jround (Fin (of_int (localTimestamp - exactTimestamp) / 60000)))
      | _ \<Rightarrow> NaN)"

record TimeZoneTransition =
  tr_at :: int
  tr_offsetFrom :: jnum
  tr_offsetTo :: jnum

text \<open>The bisection to the minute; \<open>offset\<close> is \<open>timeZoneOffsetMinutes\<close> in the zone.\<close>

function transition_minute :: "(int \<Rightarrow> jnum) \<Rightarrow> jnum \<Rightarrow> int \<Rightarrow> int \<Rightarrow> int" where
  "transition_minute offset offsetFrom lower upper =
     (if upper - lower > 60000 then
        (let midpoint = (lower + upper) div 120000 * 60000 in
         if midpoint \<le> lower then upper
         else if jeq (offset midpoint) offsetFrom then transition_minute offset offsetFrom midpoint upper
         else transition_minute offset offsetFrom lower midpoint)
      else upper)"
  by pat_completeness auto
termination
proof (relation "measure (\<lambda>(offset, offsetFrom, lower, upper). nat (upper - lower))", simp)
  fix offset :: "int \<Rightarrow> jnum" and offsetFrom and lower upper x :: int
  assume a: "upper - lower > 60000" "x = (lower + upper) div 120000 * 60000" "\<not> x \<le> lower"
  then show "((offset, offsetFrom, x, upper), offset, offsetFrom, lower, upper)
      \<in> measure (\<lambda>(offset, offsetFrom, lower, upper). nat (upper - lower))"
    by simp
next
  fix offset :: "int \<Rightarrow> jnum" and offsetFrom and lower upper x :: int
  assume a: "upper - lower > 60000" "x = (lower + upper) div 120000 * 60000" "\<not> x \<le> lower"
  have "x < upper" using a by linarith
  with a show "((offset, offsetFrom, lower, x), offset, offsetFrom, lower, upper)
      \<in> measure (\<lambda>(offset, offsetFrom, lower, upper). nat (upper - lower))"
    by simp
qed

declare transition_minute.simps [simp del]

definition findTimeZoneTransition :: "(int \<Rightarrow> jnum) \<Rightarrow> int \<Rightarrow> int \<Rightarrow> jnum \<Rightarrow> TimeZoneTransition" where
  "findTimeZoneTransition offset lowerBound upperBound offsetFrom =
     (let found = transition_minute offset offsetFrom (lowerBound div 60000 * 60000) (- (- upperBound div 60000) * 60000) in
      \<lparr>tr_at = found, tr_offsetFrom = offsetFrom, tr_offsetTo = offset found\<rparr>)"

lemma transition_minute_above:
  "lower < upper \<Longrightarrow> lower mod 60000 = 0 \<Longrightarrow> t < lower + 60000 \<Longrightarrow> t < upper \<Longrightarrow> t < transition_minute offset offsetFrom lower upper"
proof (induction offset offsetFrom lower upper rule: transition_minute.induct)
  case (1 offset offsetFrom lower upper)
  define x where "x = (lower + upper) div 120000 * 60000"
  show ?case
  proof (cases "upper - lower > 60000 \<and> \<not> x \<le> lower")
    case True
    then have x: "lower + 60000 \<le> x" "x < upper" "x mod 60000 = 0" using "1.prems"(2) by (auto simp: x_def)
    show ?thesis
    proof (cases "jeq (offset x) offsetFrom")
      case eq: True
      have "t < transition_minute offset offsetFrom x upper"
        by (rule "1.IH"(1) [of x]) (use True x eq "1.prems" in \<open>auto simp: x_def\<close>)
      with True eq show ?thesis by (subst transition_minute.simps) (simp add: Let_def x_def)
    next
      case ne: False
      have "t < transition_minute offset offsetFrom lower x"
        by (rule "1.IH"(2) [of x]) (use True x ne "1.prems" in \<open>auto simp: x_def\<close>)
      with True ne show ?thesis by (subst transition_minute.simps) (simp add: Let_def x_def)
    qed
  next
    case False
    then show ?thesis using "1.prems" by (subst transition_minute.simps) (auto simp: Let_def x_def)
  qed
qed

lemma transition_later: "t < t' \<Longrightarrow> t < tr_at (findTimeZoneTransition offset t t' offsetFrom)"
  unfolding findTimeZoneTransition_def Let_def TimeZoneTransition.simps
  by (rule transition_minute_above) (linarith | simp)+

function transitions_from :: "(int \<Rightarrow> jnum) \<Rightarrow> int \<Rightarrow> int \<Rightarrow> jnum \<Rightarrow> TimeZoneTransition list" where
  "transitions_from offset rangeEnd cursor currentOffset =
     (if cursor < rangeEnd then
        (let next = min rangeEnd (cursor + TRANSITION_SCAN_STEP_MS); nextOffset = offset next in
         if \<not> jeq nextOffset currentOffset then
           (let transition = findTimeZoneTransition offset cursor next currentOffset in
            transition # transitions_from offset rangeEnd (tr_at transition) (tr_offsetTo transition))
         else transitions_from offset rangeEnd next currentOffset)
      else [])"
  by pat_completeness auto
termination
proof (relation "measure (\<lambda>(offset, rangeEnd, cursor, currentOffset). nat (rangeEnd - cursor))", simp)
  fix offset :: "int \<Rightarrow> jnum" and rangeEnd cursor x :: int and currentOffset y :: jnum and tr :: TimeZoneTransition
  assume a: "cursor < rangeEnd" "x = min rangeEnd (cursor + TRANSITION_SCAN_STEP_MS)"
    "tr = findTimeZoneTransition offset cursor x currentOffset"
  have "cursor < x" using a by (simp add: TRANSITION_SCAN_STEP_MS_def)
  then have "cursor < tr_at tr" unfolding a(3) by (rule transition_later)
  with a(1) show "((offset, rangeEnd, tr_at tr, tr_offsetTo tr), offset, rangeEnd, cursor, currentOffset)
      \<in> measure (\<lambda>(offset, rangeEnd, cursor, currentOffset). nat (rangeEnd - cursor))" by simp
next
  fix offset :: "int \<Rightarrow> jnum" and rangeEnd cursor x :: int and currentOffset y :: jnum
  assume "cursor < rangeEnd" "x = min rangeEnd (cursor + TRANSITION_SCAN_STEP_MS)"
  then show "((offset, rangeEnd, x, currentOffset), offset, rangeEnd, cursor, currentOffset)
      \<in> measure (\<lambda>(offset, rangeEnd, cursor, currentOffset). nat (rangeEnd - cursor))"
    by (simp add: TRANSITION_SCAN_STEP_MS_def)
qed

declare transitions_from.simps [simp del]

definition timeZoneTransitions :: "intl \<Rightarrow> jstr \<Rightarrow> int \<Rightarrow> int \<Rightarrow> TimeZoneTransition list" where
  "timeZoneTransitions i timeZone rangeStart rangeEnd =
     (let offset = (\<lambda>t. timeZoneOffsetMinutes i t timeZone) in
      transitions_from offset rangeEnd rangeStart (offset rangeStart))"


definition iCalendarOffset :: "jnum \<Rightarrow> jstr" where
  "iCalendarOffset minutes =
     (let sign = (if minutes < 0 then [45] else [43]); absolute = jabs minutes in
      sign @ padStart 2 48 (num_str (jfloor (jdiv absolute 60))) @ padStart 2 48 (num_str (jrem absolute 60)))"

text \<open>A shift by \<open>NaN\<close> minutes is an invalid date, which has no text.\<close>

definition localTransitionDate :: "int \<Rightarrow> jnum \<Rightarrow> js_exn + jstr" where
  "localTransitionDate date offsetFrom =
     (case offsetFrom of
        Fin r \<Rightarrow>
          (let s = utcCalendarDate (truncated (of_int date + r * 60000)) in
           Inr (if s \<noteq> [] \<and> last s = 90 then butlast s else s))
      | _ \<Rightarrow> Inl RangeError)"

definition observanceLines :: "string \<Rightarrow> int \<Rightarrow> jnum \<Rightarrow> jnum \<Rightarrow> js_exn + jstr list" where
  "observanceLines kind date offsetFrom offsetTo =
     (case localTransitionDate date offsetFrom of
        Inl e \<Rightarrow> Inl e
      | Inr start \<Rightarrow> Inr [u ''BEGIN:'' @ u kind, u ''DTSTART:'' @ start, u ''TZOFFSETFROM:'' @ iCalendarOffset offsetFrom,
          u ''TZOFFSETTO:'' @ iCalendarOffset offsetTo, u ''END:'' @ u kind])"

fun transition_lines :: "TimeZoneTransition list \<Rightarrow> js_exn + jstr list" where
  "transition_lines [] = Inr []"
| "transition_lines (t # ts) =
     (case observanceLines (if tr_offsetTo t > tr_offsetFrom t then ''DAYLIGHT'' else ''STANDARD'')
        (tr_at t) (tr_offsetFrom t) (tr_offsetTo t) of
        Inl e \<Rightarrow> Inl e
      | Inr ls \<Rightarrow> (case transition_lines ts of Inl e \<Rightarrow> Inl e | Inr rest \<Rightarrow> Inr (ls @ rest)))"

text \<open>The table of lines already made, oldest first.\<close>

type_synonym lines_cache = "(jstr \<times> jstr list) list"

definition start_year :: "intl \<Rightarrow> jstr \<Rightarrow> int \<Rightarrow> jnum" where
  "start_year i timeZone eventStart = string_to_number (dp_year (dateParts i eventStart timeZone))"

definition time_zone_lines :: "intl \<Rightarrow> jstr \<Rightarrow> jnum \<Rightarrow> js_exn + jstr list" where
  "time_zone_lines i timeZone startYear =
     (case startYear of
        Fin y \<Rightarrow>
          (let rangeStart = date_utc (truncated (y - 1)) 0 1 0 0 0;
               rangeEnd = date_utc (truncated (y + of_int TIME_ZONE_YEARS_AHEAD + 1)) 0 1 0 0 0;
               initialOffset = timeZoneOffsetMinutes i rangeStart timeZone;
               transitions = timeZoneTransitions i timeZone rangeStart rangeEnd;
               initialKind = (case transitions of
                   t # _ \<Rightarrow> if tr_offsetTo t < tr_offsetFrom t then ''DAYLIGHT'' else ''STANDARD''
                 | [] \<Rightarrow> ''STANDARD'') in
           case observanceLines initialKind rangeStart initialOffset initialOffset of
             Inl e \<Rightarrow> Inl e
           | Inr initial \<Rightarrow>
               (case transition_lines transitions of
                  Inl e \<Rightarrow> Inl e
                | Inr rest \<Rightarrow> Inr ([u ''BEGIN:VTIMEZONE'', u ''TZID:'' @ timeZone, u ''X-LIC-LOCATION:'' @ timeZone]
                    @ initial @ rest @ [u ''END:VTIMEZONE''])))
      | _ \<Rightarrow> Inl RangeError)"

definition buildTimeZoneLines :: "intl \<Rightarrow> jstr \<Rightarrow> int \<Rightarrow> lines_cache \<Rightarrow> (js_exn + jstr list) \<times> lines_cache" where
  "buildTimeZoneLines i timeZone eventStart cache =
     (if timeZone = u ''UTC'' then (Inr [], cache)
      else
        let startYear = start_year i timeZone eventStart; cacheKey = timeZone @ 58 # num_str startYear in
        (case map_of cache cacheKey of
           Some cached \<Rightarrow> (Inr cached, cache)
         | None \<Rightarrow>
             (case time_zone_lines i timeZone startYear of
                Inl e \<Rightarrow> (Inl e, cache)
              | Inr ls \<Rightarrow>
                  (Inr ls, (if length cache \<ge> TIME_ZONE_LINES_CACHE_LIMIT then tl cache else cache) @ [(cacheKey, ls)]))))"

section \<open>The file\<close>

fun replace_first :: "nat \<Rightarrow> jstr \<Rightarrow> jstr" where
  "replace_first c [] = []"
| "replace_first c (x # s) = (if x = c then s else x # replace_first c s)"

definition event_lines :: "intl \<Rightarrow> CalendarReminderSettings \<Rightarrow> CalendarEventOptions \<Rightarrow> jstr \<Rightarrow> int \<Rightarrow> jstr list" where
  "event_lines i settings options timeZone generatedAt =
     (let start = co_start options; end_at = event_end settings start in
      [u ''BEGIN:VEVENT'',
       u ''UID:'' @ u ''lexigo-'' @ num_str (jint start) @ [45] @ replace_first 58 (cr_time settings) @ u ''@lexigo.app'',
       u ''DTSTAMP:'' @ utcCalendarDate generatedAt]
      @ (if timeZone = u ''UTC''
         then [u ''DTSTART:'' @ utcCalendarDate start, u ''DTEND:'' @ utcCalendarDate end_at]
         else [u ''DTSTART;TZID='' @ timeZone @ [58] @ calendarDate i start timeZone,
               u ''DTEND;TZID='' @ timeZone @ [58] @ calendarDate i end_at timeZone])
      @ [u ''RRULE:'' @ buildCalendarRecurrenceRule settings,
         u ''SUMMARY:'' @ escapeICalendarText CALENDAR_EVENT_TITLE,
         u ''DESCRIPTION:'' @ escapeICalendarText (eventDescription (co_appURL options)),
         u ''SEQUENCE:0'', u ''STATUS:CONFIRMED'', u ''TRANSP:OPAQUE'', u ''BEGIN:VALARM'',
         u ''TRIGGER:'' @ (if cr_reminderMinutes settings = 0 then u ''PT0M''
           else u ''-PT'' @ num_str (cr_reminderMinutes settings) @ u ''M''),
         u ''ACTION:DISPLAY'',
         u ''DESCRIPTION:'' @ escapeICalendarText [1055, 1086, 1088, 1072, 32, 1087, 1086, 1074, 1090, 1086, 1088, 1080, 1090, 1100, 32, 1072, 1085, 1075, 1083, 1080, 1081, 1089, 1082, 1080, 1081, 32, 1074, 32, 76, 101, 120, 105, 71, 111],
         u ''END:VALARM'', u ''END:VEVENT'', u ''END:VCALENDAR''])"

definition calendar_text :: "jstr list \<Rightarrow> jstr" where
  "calendar_text ls = join [13, 10] (concat (map foldICalendarLine ls)) @ [13, 10]"

definition buildCalendarICS ::
  "intl \<Rightarrow> int \<Rightarrow> CalendarReminderSettings \<Rightarrow> CalendarEventOptions \<Rightarrow> lines_cache \<Rightarrow> (js_exn + jstr) \<times> lines_cache" where
  "buildCalendarICS i now v options cache =
     (let settings = normalized_settings v;
          timeZone = normalizeCalendarTimeZone i (co_timeZone options);
          generatedAt = (case co_generatedAt options of Some t \<Rightarrow> t | None \<Rightarrow> now) in
      case buildTimeZoneLines i timeZone (co_start options) cache of
        (Inl e, cache) \<Rightarrow> (Inl e, cache)
      | (Inr zone, cache) \<Rightarrow>
          (let all_lines = [u ''BEGIN:VCALENDAR'', u ''VERSION:2.0'', u ''PRODID:-//LexiGo//Study Reminder//RU'',
               u ''CALSCALE:GREGORIAN'', u ''METHOD:PUBLISH'', u ''X-WR-TIMEZONE:'' @ timeZone]
               @ zone @ event_lines i settings options timeZone generatedAt in
           (Inr (calendar_text all_lines), cache)))"

section \<open>The stored settings\<close>

definition CALENDAR_REMINDER_STORAGE_KEY :: jstr where
  "CALENDAR_REMINDER_STORAGE_KEY = u ''lexigo.calendar.reminder.v1''"

definition defaultCalendarReminderSettings :: CalendarReminderSettings where
  "defaultCalendarReminderSettings = DEFAULT_CALENDAR_REMINDER"

text \<open>\<open>None\<close> stands for the server, where there is no window.\<close>

definition readCalendarReminderSettings :: "storage option \<Rightarrow> CalendarReminderSettings \<times> storage option" where
  "readCalendarReminderSettings window =
     (case window of
        None \<Rightarrow> (defaultCalendarReminderSettings, None)
      | Some st \<Rightarrow>
          let clean_up = (defaultCalendarReminderSettings,
                Some (case removeItem st CALENDAR_REMINDER_STORAGE_KEY of Inr st \<Rightarrow> st | Inl e \<Rightarrow> st)) in
          (case getItem st CALENDAR_REMINDER_STORAGE_KEY of
             Inl e \<Rightarrow> clean_up
           | Inr raw \<Rightarrow>
               if raw = None \<or> raw = Some [] then (defaultCalendarReminderSettings, Some st)
               else (case json_parse (the raw) of
                   Some v \<Rightarrow> (normalizeCalendarReminderSettings v, Some st)
                 | None \<Rightarrow> clean_up)))"

text \<open>Storing also announces the settings to the listeners of the page.\<close>

record CalendarReminderPersistenceResult =
  cp_settings :: CalendarReminderSettings
  cp_persisted :: bool

definition persistCalendarReminderSettings ::
  "storage option \<Rightarrow> CalendarReminderSettings \<Rightarrow> CalendarReminderPersistenceResult \<times> storage option \<times> CalendarReminderSettings option" where
  "persistCalendarReminderSettings window v =
     (let settings = normalized_settings v in
      case window of
        None \<Rightarrow> (\<lparr>cp_settings = settings, cp_persisted = False\<rparr>, None, None)
      | Some st \<Rightarrow>
          (case setItem st CALENDAR_REMINDER_STORAGE_KEY (json_stringify (settings_value settings)) of
             Inr st' \<Rightarrow> (\<lparr>cp_settings = settings, cp_persisted = True\<rparr>, Some st', Some settings)
           | Inl e \<Rightarrow> (\<lparr>cp_settings = settings, cp_persisted = False\<rparr>, Some st, Some settings)))"

text \<open>What a listener is given: for an update event its detail, for a storage event what is stored.\<close>

datatype reminder_event = Updated jval | Stored "jstr option"

definition listener_settings :: "storage option \<Rightarrow> reminder_event \<Rightarrow> CalendarReminderSettings option \<times> storage option" where
  "listener_settings window ev =
     (case ev of
        Updated detail \<Rightarrow>
          if truthy detail then (Some (normalizeCalendarReminderSettings detail), window)
          else apfst Some (readCalendarReminderSettings window)
      | Stored changed \<Rightarrow>
          if changed = Some CALENDAR_REMINDER_STORAGE_KEY \<or> changed = None
          then apfst Some (readCalendarReminderSettings window)
          else (None, window))"

section \<open>Folded lines\<close>

lemma utf8_bytes_apart: "apart a b \<Longrightarrow> utf8_bytes (a @ b) = utf8_bytes a @ utf8_bytes b"
  by (simp add: utf8_bytes_def chars_of_apart)

lemma utf8_of_length: "length (utf8_of p) \<le> 4"
  by (simp add: utf8_of_def)

lemma char_bytes: "ch \<in> set (chars_of s) \<Longrightarrow> length (utf8_bytes ch) \<le> 4"
  using utf8_of_length [of "point_or_fffd ch"] char_alone [of ch s] by (simp add: utf8_bytes_def)

text \<open>Unfolding drops the space that starts every line but the first.\<close>

definition unfold_lines :: "jstr list \<Rightarrow> jstr" where
  "unfold_lines ls = concat (hd ls # map tl (tl ls))"

lemma fold_chars_ok:
  assumes "successively apart chs" "\<forall>ch\<in>set chs. ch \<noteq> [] \<and> length (utf8_bytes ch) \<le> 4"
    "chs \<noteq> [] \<Longrightarrow> apart current (hd chs)" "b = length (utf8_bytes current)" "b \<le> 75" "current = [] \<Longrightarrow> b = 0"
  shows "\<exists>ls. fold_chars folded chs current b = folded @ ls \<and> ls \<noteq> [] \<and> (\<forall>l\<in>set ls. length (utf8_bytes l) \<le> 75)
    \<and> unfold_lines ls = current @ concat chs \<and> (current \<noteq> [] \<longrightarrow> hd ls \<noteq> [] \<and> hd (hd ls) = hd current)
    \<and> (\<forall>l\<in>set (tl ls). l \<noteq> [] \<and> hd l = 32)"
  using assms
proof (induction chs arbitrary: folded current b)
  case Nil
  then show ?case by (simp add: unfold_lines_def)
next
  case (Cons ch chs)
  let ?cb = "length (utf8_bytes ch)"
  let ?limit = "if folded = [] then 75 else 74 :: nat"
  have ch: "ch \<noteq> []" "?cb \<le> 4" "successively apart chs" "\<forall>ch\<in>set chs. ch \<noteq> [] \<and> length (utf8_bytes ch) \<le> 4"
    using Cons.prems(1,2) by (auto simp: successively_Cons)
  have after: "chs \<noteq> [] \<Longrightarrow> apart ch (hd chs)" using Cons.prems(1) by (simp add: successively_Cons)
  have app: "apart current ch" using Cons.prems(3) by simp
  show ?case
  proof (cases "current \<noteq> [] \<and> b + ?cb > ?limit")
    case True
    have sp: "apart [32] ch" by (simp add: apart_def is_high_def)
    have bytes: "utf8_bytes (32 # ch) = 32 # utf8_bytes ch"
      using utf8_bytes_apart [OF sp] by (simp add: utf8_bytes_def point_or_fffd_def utf8_of_def is_surrogate_def is_high_def is_low_def)
    have "apart (32 # ch) (hd chs)" if "chs \<noteq> []" using after [OF that] ch(1) by (simp add: apart_def)
    from Cons.IH [OF ch(3,4) this, of "1 + ?cb" "folded @ [current]"]
    obtain ls where ls: "fold_chars (folded @ [current]) chs (32 # ch) (1 + ?cb) = (folded @ [current]) @ ls" "ls \<noteq> []"
      "\<forall>l\<in>set ls. length (utf8_bytes l) \<le> 75" "unfold_lines ls = (32 # ch) @ concat chs" "hd ls \<noteq> []" "hd (hd ls) = 32"
      "\<forall>l\<in>set (tl ls). l \<noteq> [] \<and> hd l = 32"
      using ch(2) bytes by auto
    have "concat (map tl ls) = ch @ concat chs"
      using ls(2,4,5) by (cases ls; cases "hd ls") (auto simp: unfold_lines_def)
    then have "unfold_lines (current # ls) = current @ ch @ concat chs" by (simp add: unfold_lines_def)
    moreover have "\<forall>l\<in>set ls. l \<noteq> [] \<and> hd l = 32" using ls by (cases ls) auto
    ultimately show ?thesis using True ls Cons.prems(4,5)
      by (intro exI [of _ "current # ls"]) (simp add: Let_def)
  next
    case False
    have bytes: "utf8_bytes (current @ ch) = utf8_bytes current @ utf8_bytes ch" by (rule utf8_bytes_apart [OF app])
    have small: "b + ?cb \<le> 75" using False ch(2) Cons.prems(6) by (auto split: if_splits)
    have "apart (current @ ch) (hd chs)" if "chs \<noteq> []" using after [OF that] ch(1) by (simp add: apart_def)
    from Cons.IH [OF ch(3,4) this, of "b + ?cb" folded]
    obtain ls where ls: "fold_chars folded chs (current @ ch) (b + ?cb) = folded @ ls" "ls \<noteq> []"
      "\<forall>l\<in>set ls. length (utf8_bytes l) \<le> 75" "unfold_lines ls = (current @ ch) @ concat chs"
      "hd ls \<noteq> []" "hd (hd ls) = hd (current @ ch)" "\<forall>l\<in>set (tl ls). l \<noteq> [] \<and> hd l = 32"
      using bytes small Cons.prems(4) ch(1) by auto
    with False show ?thesis by (intro exI [of _ ls]) (auto simp: Let_def)
  qed
qed

lemma folded_line:
  "unfold_lines (foldICalendarLine line) = line" "\<forall>l\<in>set (foldICalendarLine line). length (utf8_bytes l) \<le> 75"
  "foldICalendarLine line \<noteq> []" "\<forall>l\<in>set (tl (foldICalendarLine line)). l \<noteq> [] \<and> hd l = 32"
  using fold_chars_ok [OF chars_apart, of line "[]" 0 "[]"] char_alone [of _ line] char_bytes [of _ line]
  by (auto simp: foldICalendarLine_def apart_def utf8_bytes_def)

lemma join_lines: "ls \<noteq> [] \<Longrightarrow> join sep ls @ sep = concat (map (\<lambda>l. l @ sep) ls)"
  by (induction sep ls rule: join.induct) auto

text \<open>The file is made of lines of at most 75 bytes, each ended by carriage return and line feed; folding loses
  nothing: without the space that starts every continuation the parts of a line are the line.\<close>

theorem calendar_file_is_folded:
  "(case buildCalendarICS i now v options cache of
      (Inl e, after) \<Rightarrow> True
    | (Inr text_file, after) \<Rightarrow>
        (\<exists>ls. text_file = concat (map (\<lambda>l. l @ [13, 10]) ls) \<and> (\<forall>l\<in>set ls. length (utf8_bytes l) \<le> 75)))
   \<and> unfold_lines (foldICalendarLine line) = line
   \<and> (\<forall>l\<in>set (tl (foldICalendarLine line)). l \<noteq> [] \<and> hd l = 32)"
proof -
  have lines_ok: "\<exists>ls'. calendar_text ls = concat (map (\<lambda>l. l @ [13, 10]) ls')
      \<and> (\<forall>l\<in>set ls'. length (utf8_bytes l) \<le> 75)" if "ls \<noteq> []" for ls
  proof -
    have "concat (map foldICalendarLine ls) \<noteq> []" using that folded_line(3) by (cases ls) auto
    from join_lines [OF this] show ?thesis unfolding calendar_text_def using folded_line(2) by (auto intro!: exI [of _ "concat (map foldICalendarLine ls)"])
  qed
  show ?thesis
    using folded_line(1,4) by (auto simp: buildCalendarICS_def Let_def intro!: lines_ok split: sum.split prod.split)
qed

section \<open>Time zone transitions\<close>

lemma transition_minute_spec:
  assumes "lower mod 60000 = 0" "upper mod 60000 = 0" "lower < upper"
    "jeq (offset lower) offsetFrom" "\<not> jeq (offset upper) offsetFrom"
  defines "m \<equiv> transition_minute offset offsetFrom lower upper"
  shows "lower < m \<and> m \<le> upper \<and> m mod 60000 = 0 \<and> jeq (offset (m - 60000)) offsetFrom \<and> \<not> jeq (offset m) offsetFrom"
  using assms(1-5) unfolding m_def
proof (induction offset offsetFrom lower upper rule: transition_minute.induct)
  case (1 offset offsetFrom lower upper)
  define x where "x = (lower + upper) div 120000 * 60000"
  show ?case
  proof (cases "upper - lower > 60000")
    case True
    obtain a b where ab: "lower = 60000 * a" "upper = 60000 * b" using "1.prems"(1,2) by (auto simp: mod_eq_0_iff_dvd dvd_def)
    have "1 < b - a" using True unfolding ab by linarith
    then have "2 \<le> b - a" by simp
    then have "120000 \<le> upper - lower" unfolding ab by linarith
    then have x: "lower < x" "x < upper" "x mod 60000 = 0" unfolding x_def using "1.prems"(1) by (linarith | simp)+
    show ?thesis
    proof (cases "jeq (offset x) offsetFrom")
      case eq: True
      have "transition_minute offset offsetFrom lower upper = transition_minute offset offsetFrom x upper"
        using True x eq by (subst transition_minute.simps) (simp add: Let_def x_def)
      moreover have "x < transition_minute offset offsetFrom x upper \<and> transition_minute offset offsetFrom x upper \<le> upper
          \<and> transition_minute offset offsetFrom x upper mod 60000 = 0
          \<and> jeq (offset (transition_minute offset offsetFrom x upper - 60000)) offsetFrom
          \<and> \<not> jeq (offset (transition_minute offset offsetFrom x upper)) offsetFrom"
        by (rule "1.IH"(1) [OF True x_def]) (use x eq "1.prems" in auto)
      ultimately show ?thesis using x by auto
    next
      case ne: False
      have "transition_minute offset offsetFrom lower upper = transition_minute offset offsetFrom lower x"
        using True x ne by (subst transition_minute.simps) (simp add: Let_def x_def)
      moreover have "lower < transition_minute offset offsetFrom lower x \<and> transition_minute offset offsetFrom lower x \<le> x
          \<and> transition_minute offset offsetFrom lower x mod 60000 = 0
          \<and> jeq (offset (transition_minute offset offsetFrom lower x - 60000)) offsetFrom
          \<and> \<not> jeq (offset (transition_minute offset offsetFrom lower x)) offsetFrom"
        by (rule "1.IH"(2) [OF True x_def]) (use x ne "1.prems" in auto)
      ultimately show ?thesis using x by auto
    qed
  next
    case False
    obtain a b where ab: "lower = 60000 * a" "upper = 60000 * b" using "1.prems"(1,2) by (auto simp: mod_eq_0_iff_dvd dvd_def)
    have "b - a < 2" "0 < b - a" using False "1.prems"(3) unfolding ab by linarith+
    then have "b = a + 1" by simp
    then have "upper = lower + 60000" unfolding ab by simp
    moreover from False have "transition_minute offset offsetFrom lower upper = upper"
      by (subst transition_minute.simps) simp
    ultimately show ?thesis using "1.prems" by simp
  qed
qed

definition transition_ok :: "(int \<Rightarrow> jnum) \<Rightarrow> TimeZoneTransition \<Rightarrow> bool" where
  "transition_ok offset t \<longleftrightarrow> offset (tr_at t - 60000) = tr_offsetFrom t \<and> offset (tr_at t) = tr_offsetTo t
     \<and> tr_offsetTo t \<noteq> tr_offsetFrom t"

lemma found_transition:
  assumes "t mod 60000 = 0" "t' mod 60000 = 0" "t < t'" "\<forall>x. offset x \<noteq> NaN" "offset t' \<noteq> offset t"
  defines "r \<equiv> findTimeZoneTransition offset t t' (offset t)"
  shows "t < tr_at r \<and> tr_at r \<le> t' \<and> tr_at r mod 60000 = 0 \<and> tr_offsetFrom r = offset t \<and> tr_offsetTo r = offset (tr_at r)
    \<and> transition_ok offset r"
proof -
  have a: "t div 60000 * 60000 = t" "- (- t' div 60000) * 60000 = t'"
  proof -
    show "t div 60000 * 60000 = t" using assms(1) by (simp add: mod_eq_0_iff_dvd)
    obtain k where k: "t' = 60000 * k" using assms(2) by (auto simp: mod_eq_0_iff_dvd dvd_def)
    have "- t' div 60000 = - k" unfolding k by (subst mult_minus_right [symmetric]) simp
    then show "- (- t' div 60000) * 60000 = t'" by (simp add: k)
  qed
  have "jeq (offset t) (offset t)" "\<not> jeq (offset t') (offset t)" using assms(4,5) by (auto simp: jeq_def)
  from transition_minute_spec [OF assms(1-3) this] show ?thesis
    unfolding r_def findTimeZoneTransition_def Let_def a by (auto simp: transition_ok_def jeq_def)
qed

lemma transitions_chain:
  assumes "\<forall>x. offset x \<noteq> NaN" "rangeEnd mod 60000 = 0" "cursor mod 60000 = 0" "cursor \<le> rangeEnd"
  defines "ts \<equiv> transitions_from offset rangeEnd cursor (offset cursor)"
  shows "sorted_wrt (<) (map tr_at ts) \<and> (\<forall>t\<in>set ts. cursor < tr_at t \<and> tr_at t \<le> rangeEnd \<and> transition_ok offset t)
    \<and> map tr_offsetFrom ts @ [offset rangeEnd] = offset cursor # map tr_offsetTo ts"
proof -
  have "sorted_wrt (<) (map tr_at ts) \<and> (\<forall>t\<in>set ts. cursor < tr_at t \<and> tr_at t \<le> rangeEnd \<and> transition_ok offset t)
      \<and> map tr_offsetFrom ts @ [offset rangeEnd] = offset cursor # map tr_offsetTo ts"
    if "current = offset cursor" "ts = transitions_from offset rangeEnd cursor current" for current ts
    using assms(1-4) that
  proof (induction offset rangeEnd cursor current arbitrary: ts rule: transitions_from.induct)
    case (1 offset rangeEnd cursor current)
    define x where "x = min rangeEnd (cursor + TRANSITION_SCAN_STEP_MS)"
    define tr where "tr = findTimeZoneTransition offset cursor x current"
    show ?case
    proof (cases "cursor < rangeEnd")
      case False
      with "1.prems" have "ts = []" "cursor = rangeEnd" by (simp_all add: transitions_from.simps)
      with "1.prems" show ?thesis by simp
    next
      case lt: True
      have x: "cursor < x" "x \<le> rangeEnd" "x mod 60000 = 0"
        using lt "1.prems"(2,3) by (auto simp: x_def TRANSITION_SCAN_STEP_MS_def min_def mod_add_left_eq [symmetric])
      show ?thesis
      proof (cases "offset x = offset cursor")
        case True
        then have nj: "\<not> \<not> jeq (offset x) current" using "1.prems" by (simp add: jeq_def)
        with lt have "ts = transitions_from offset rangeEnd x current"
          using "1.prems"(6) by (simp add: transitions_from.simps [of _ _ cursor] Let_def x_def)
        from "1.IH"(2) [OF lt x_def refl nj "1.prems"(1,2) x(3) x(2) _ this] True "1.prems"(5) x(1)
        show ?thesis by fastforce
      next
        case False
        then have nj: "\<not> jeq (offset x) current" using "1.prems" by (simp add: jeq_def)
        have f: "cursor < tr_at tr \<and> tr_at tr \<le> x \<and> tr_at tr mod 60000 = 0 \<and> tr_offsetFrom tr = offset cursor
            \<and> tr_offsetTo tr = offset (tr_at tr) \<and> transition_ok offset tr"
          unfolding tr_def "1.prems"(5) by (rule found_transition) (use "1.prems" x False in auto)
        define rest where "rest = transitions_from offset rangeEnd (tr_at tr) (tr_offsetTo tr)"
        have ts: "ts = tr # rest"
          using "1.prems"(6) lt nj by (simp add: transitions_from.simps [of _ _ cursor] Let_def x_def tr_def rest_def)
        have "sorted_wrt (<) (map tr_at rest) \<and> (\<forall>t\<in>set rest. tr_at tr < tr_at t \<and> tr_at t \<le> rangeEnd \<and> transition_ok offset t)
            \<and> map tr_offsetFrom rest @ [offset rangeEnd] = offset (tr_at tr) # map tr_offsetTo rest"
          by (rule "1.IH"(1) [OF lt x_def refl nj tr_def "1.prems"(1,2) _ _ _ rest_def]) (use f x in auto)
        then show ?thesis unfolding ts using f x by auto
      qed
    qed
  qed
  then show ?thesis unfolding ts_def by blast
qed

text \<open>What \<open>formatToParts\<close> is documented to answer with for the numeric fields the code asks for: decimal digits.\<close>

definition digit_text :: "jstr \<Rightarrow> bool" where "digit_text s \<longleftrightarrow> s \<noteq> [] \<and> (\<forall>c\<in>set s. is_digit c)"

definition numeric_parts :: "intl \<Rightarrow> jstr \<Rightarrow> bool" where
  "numeric_parts i zone \<longleftrightarrow> (\<forall>t. let p = dateParts i t zone in digit_text (dp_year p) \<and> digit_text (dp_month p)
     \<and> digit_text (dp_day p) \<and> digit_text (dp_hour p) \<and> digit_text (dp_minute p) \<and> digit_text (dp_second p))"

lemma digit_number: "digit_text s \<Longrightarrow> string_to_number s = jnat (digits_val s)"
proof -
  assume a: "digit_text s"
  then have d: "\<forall>c\<in>set s. is_digit c" "s \<noteq> []" by (auto simp: digit_text_def)
  have nows: "is_digit c \<Longrightarrow> \<not> js_ws c" for c by (auto simp: is_digit_def js_ws_def)
  have t: "trim s = s" by (rule trim_trimmed_id) (use d nows in \<open>auto simp: trimmed_def\<close>)
  have second: "2 < length s \<Longrightarrow> is_digit (s ! Suc 0)" using d(1) nth_mem [of "Suc 0" s] by auto
  have n1: "\<not> (length s > 2 \<and> s ! 0 = 48 \<and> s ! 1 \<in> {120, 88})" "\<not> (length s > 2 \<and> s ! 0 = 48 \<and> s ! 1 \<in> {111, 79})"
    "\<not> (length s > 2 \<and> s ! 0 = 48 \<and> s ! 1 \<in> {98, 66})"
    using second by (auto simp: is_digit_def)
  have h: "is_digit (hd s)" using d by simp
  have inf: "s \<noteq> u ''Infinity''" using h by (auto simp: u_def is_digit_def)
  have tw: "takeWhile is_digit s = s" "dropWhile is_digit s = []" using d(1) by auto
  have "unsigned_decimal s = jnat (digits_val s)"
    using inf d(2) by (simp add: unsigned_decimal_def tw Let_def exponent_def dec_value_def)
  then show ?thesis using t n1 h d(2) unfolding string_to_number_def Let_def t by (auto simp: is_digit_def)
qed

text \<open>The listed transitions are the minutes at which the scan sees the zone's offset change, in order, each linked
  to the next: they lead from the offset at the start of the range to the offset at its end.\<close>

theorem transitions_link_offsets:
  assumes "numeric_parts i zone" "rangeStart mod 60000 = 0" "rangeEnd mod 60000 = 0" "rangeStart \<le> rangeEnd"
  defines "offset \<equiv> \<lambda>t. timeZoneOffsetMinutes i t zone"
  shows "let ts = timeZoneTransitions i zone rangeStart rangeEnd in
    sorted_wrt (<) (map tr_at ts)
    \<and> (\<forall>t\<in>set ts. rangeStart < tr_at t \<and> tr_at t \<le> rangeEnd \<and> offset (tr_at t - 60000) = tr_offsetFrom t
         \<and> offset (tr_at t) = tr_offsetTo t \<and> tr_offsetTo t \<noteq> tr_offsetFrom t)
    \<and> map tr_offsetFrom ts @ [offset rangeEnd] = offset rangeStart # map tr_offsetTo ts"
proof -
  have "\<forall>t. offset t \<noteq> NaN"
    using assms(1) by (auto simp: offset_def timeZoneOffsetMinutes_def numeric_parts_def Let_def digit_number)
  from transitions_chain [OF this assms(3,2,4)] show ?thesis
    by (simp add: timeZoneTransitions_def Let_def offset_def transition_ok_def)
qed

text \<open>Universal time, as a concrete \<open>intl\<close>.\<close>

definition utc_intl :: intl where
  "utc_intl = \<lparr>zone_known = (\<lambda>z. True),
     formatToParts = (\<lambda>z t. let (y, m, d) = civil_from_days (t div day_ms); r = t mod day_ms in
       [(u ''day'', nat_str (nat d)), (u ''literal'', [47]), (u ''month'', nat_str (nat m)), (u ''literal'', [47]),
        (u ''year'', nat_str (nat y)), (u ''hour'', nat_str (nat (r div 3600000))),
        (u ''minute'', nat_str (nat (r div 60000 mod 60))), (u ''second'', nat_str (nat (r div 1000 mod 60)))])\<rparr>"

lemma utc_parts:
  assumes "civil_from_days (t div day_ms) = (y, m, d)"
  shows "dateParts utc_intl t z =
     \<lparr>dp_year = nat_str (nat y), dp_month = nat_str (nat m), dp_day = nat_str (nat d),
      dp_hour = nat_str (nat (t mod day_ms div 3600000)), dp_minute = nat_str (nat (t mod day_ms div 60000 mod 60)),
      dp_second = nat_str (nat (t mod day_ms div 1000 mod 60))\<rparr>"
proof -
  have "formatToParts utc_intl z t =
      [(u ''day'', nat_str (nat d)), (u ''literal'', [47]), (u ''month'', nat_str (nat m)), (u ''literal'', [47]),
        (u ''year'', nat_str (nat y)), (u ''hour'', nat_str (nat (t mod day_ms div 3600000))),
        (u ''minute'', nat_str (nat (t mod day_ms div 60000 mod 60))), (u ''second'', nat_str (nat (t mod day_ms div 1000 mod 60)))]"
    using assms by (simp add: utc_intl_def Let_def)
  then show ?thesis by (auto simp: dateParts_def Let_def part_of_def)
qed

lemma nat_str_digit_text: "digit_text (nat_str n)" using nat_str_digits by (auto simp: digit_text_def)

lemma utc_numeric: "numeric_parts utc_intl z"
proof -
  have "\<exists>a b c d e f. dateParts utc_intl t z = \<lparr>dp_year = nat_str a, dp_month = nat_str b, dp_day = nat_str c,
      dp_hour = nat_str d, dp_minute = nat_str e, dp_second = nat_str f\<rparr>" for t
    using utc_parts [of t] by (metis prod_cases3)
  then show ?thesis unfolding numeric_parts_def Let_def using nat_str_digit_text by (metis DateParts.select_convs)
qed

text \<open>A zone whose clocks go forward by an hour, one minute into 1970.\<close>

definition jump_intl :: intl where
  "jump_intl = utc_intl\<lparr>formatToParts := (\<lambda>z t. formatToParts utc_intl z (if t < 60000 then t else t + 3600000))\<rparr>"

lemma jump_parts: "dateParts jump_intl t z = dateParts utc_intl (if t < 60000 then t else t + 3600000) z"
  by (simp add: dateParts_def jump_intl_def)

lemma jump_numeric: "numeric_parts jump_intl z"
  using utc_numeric [of z] by (simp add: numeric_parts_def jump_parts Let_def)

lemma nat_str_number: "string_to_number (nat_str n) = jnat n"
  using digit_number [OF nat_str_digit_text] by simp

lemma jump_offsets: "timeZoneOffsetMinutes jump_intl 0 z = 0" "timeZoneOffsetMinutes jump_intl 120000 z = 60"
proof -
  have "civil_from_days 0 = (1970, 1, 1)" by code_simp
  then have c: "civil_from_days (0 div day_ms) = (1970, 1, 1)" "civil_from_days ((120000 + 3600000) div day_ms) = (1970, 1, 1)"
    by (simp_all add: day_ms_def)
  note utc_parts [OF c(1)] utc_parts [OF c(2)]
  then have p: "dateParts jump_intl 0 z = \<lparr>dp_year = nat_str 1970, dp_month = nat_str 1, dp_day = nat_str 1,
      dp_hour = nat_str 0, dp_minute = nat_str 0, dp_second = nat_str 0\<rparr>"
    "dateParts jump_intl 120000 z = \<lparr>dp_year = nat_str 1970, dp_month = nat_str 1, dp_day = nat_str 1,
      dp_hour = nat_str 1, dp_minute = nat_str 2, dp_second = nat_str 0\<rparr>"
    by (simp_all add: jump_parts day_ms_def)
  show "timeZoneOffsetMinutes jump_intl 0 z = 0" "timeZoneOffsetMinutes jump_intl 120000 z = 60"
    by (simp_all add: timeZoneOffsetMinutes_def Let_def p nat_str_number nat_str_number [of 0, simplified] truncated_def date_utc_def days_from_civil_def floor_eq_iff)
qed

lemma transitions_link_offsets_witness:
  "let ts = timeZoneTransitions jump_intl (u ''Test/Zone'') 0 120000 in
    ts \<noteq> [] \<and> tr_offsetFrom (hd ts) = 0 \<and> tr_offsetTo (last ts) = 60"
proof -
  define ts where "ts = timeZoneTransitions jump_intl (u ''Test/Zone'') 0 120000"
  have "map tr_offsetFrom ts @ [60] = 0 # map tr_offsetTo ts"
    using transitions_link_offsets [OF jump_numeric, of 0 120000 "u ''Test/Zone''"] by (simp add: Let_def ts_def jump_offsets)
  then have "ts \<noteq> []" "hd (map tr_offsetFrom ts @ [60]) = 0" "last (map tr_offsetFrom ts @ [60]) = last (0 # map tr_offsetTo ts)"
    by auto
  then show ?thesis unfolding Let_def ts_def [symmetric] by (auto simp: last_map hd_append hd_map)
qed

lemma calendar_file_is_folded_witness:
  "\<exists>file_text after. buildCalendarICS utc_intl 0 DEFAULT_CALENDAR_REMINDER
       \<lparr>co_start = 0, co_timeZone = None, co_appURL = None, co_generatedAt = None\<rparr> [] = (Inr file_text, after)
     \<and> (\<exists>ls. file_text = concat (map (\<lambda>l. l @ [13, 10]) ls) \<and> (\<forall>l\<in>set ls. length (utf8_bytes l) \<le> 75))"
proof -
  let ?o = "\<lparr>co_start = 0, co_timeZone = None, co_appURL = None, co_generatedAt = None\<rparr>"
  obtain f after where "buildCalendarICS utc_intl 0 DEFAULT_CALENDAR_REMINDER ?o [] = (Inr f, after)"
    by (simp add: buildCalendarICS_def Let_def normalizeCalendarTimeZone_def buildTimeZoneLines_def)
  then show ?thesis using calendar_file_is_folded [of utc_intl 0 DEFAULT_CALENDAR_REMINDER ?o "[]" "[]"] by simp
qed

section \<open>The table of time zone lines\<close>

definition cache_after :: "intl \<Rightarrow> (jstr \<times> int) list \<Rightarrow> lines_cache" where
  "cache_after i calls = fold (\<lambda>(zone, start) cache. snd (buildTimeZoneLines i zone start cache)) calls []"

definition cache_ok :: "intl \<Rightarrow> lines_cache \<Rightarrow> bool" where
  "cache_ok i cache \<longleftrightarrow> length cache \<le> TIME_ZONE_LINES_CACHE_LIMIT
     \<and> (\<forall>(key, ls)\<in>set cache. \<exists>zone n. key = zone @ 58 # num_str (jnat n) \<and> time_zone_lines i zone (jnat n) = Inr ls)"

lemma start_year_nat: "numeric_parts i zone \<Longrightarrow> \<exists>n. start_year i zone t = jnat n"
  by (auto simp: numeric_parts_def start_year_def Let_def digit_number)

lemma cached_lines:
  assumes "cache_ok i cache" "map_of cache (zone @ 58 # num_str (jnat n)) = Some ls"
  shows "time_zone_lines i zone (jnat n) = Inr ls"
proof -
  from map_of_SomeD [OF assms(2)] assms(1) obtain zone' n'
    where z: "zone @ 58 # num_str (jnat n) = zone' @ 58 # num_str (jnat n')" "time_zone_lines i zone' (jnat n') = Inr ls"
    unfolding cache_ok_def by fastforce
  then have "zone = zone'" "num_str (jnat n) = num_str (jnat n')" using num_str_no_colon by (simp_all add: append_sep_unique)
  with z(2) show ?thesis by simp
qed

lemma build_cases:
  assumes "cache_ok i cache" "numeric_parts i zone"
  shows "fst (buildTimeZoneLines i zone start cache)
      = (if zone = u ''UTC'' then Inr [] else time_zone_lines i zone (start_year i zone start))
    \<and> cache_ok i (snd (buildTimeZoneLines i zone start cache))"
proof -
  obtain n where n: "start_year i zone start = jnat n" using start_year_nat [OF assms(2)] by blast
  show ?thesis
  proof (cases "zone = u ''UTC'' \<or> map_of cache (zone @ 58 # num_str (jnat n)) \<noteq> None")
    case True
    with assms(1) show ?thesis
      by (auto simp: buildTimeZoneLines_def Let_def n cached_lines [OF assms(1)] simp del: num_str.simps num_str_nat)
  next
    case False
    show ?thesis
    proof (cases "time_zone_lines i zone (jnat n)")
      case (Inl e)
      with False assms(1) show ?thesis by (simp add: buildTimeZoneLines_def Let_def n del: num_str.simps)
    next
      case (Inr ls)
      define kept where "kept = (if length cache \<ge> TIME_ZONE_LINES_CACHE_LIMIT then tl cache else cache)"
      have k: "set kept \<subseteq> set cache" "length kept < TIME_ZONE_LINES_CACHE_LIMIT"
        using assms(1) by (auto simp: kept_def cache_ok_def TIME_ZONE_LINES_CACHE_LIMIT_def dest: list.set_sel(2) [rotated])
      have "cache_ok i (kept @ [(zone @ 58 # num_str (jnat n), ls)])"
        using assms(1) k Inr unfolding cache_ok_def by (fastforce simp del: num_str.simps num_str_nat)
      with False Inr show ?thesis by (simp add: buildTimeZoneLines_def Let_def n kept_def [symmetric] del: num_str.simps)
    qed
  qed
qed

text \<open>The table of time zone lines is transparent and bounded: after any calls a build answers what it would answer
  with an empty table, and at most 32 entries are kept.\<close>

theorem zone_lines_cache_transparent:
  assumes "\<forall>zone. numeric_parts i zone"
  shows "fst (buildTimeZoneLines i zone start (cache_after i calls)) = fst (buildTimeZoneLines i zone start [])
    \<and> length (cache_after i calls) \<le> 32"
proof -
  have "cache_ok i (fold (\<lambda>(zone, start) cache. snd (buildTimeZoneLines i zone start cache)) calls cache)"
    if "cache_ok i cache" for cache
    using that by (induction calls arbitrary: cache) (use assms build_cases in \<open>auto split: prod.split\<close>)
  moreover have "cache_ok i []" by (simp add: cache_ok_def)
  ultimately have c: "cache_ok i (cache_after i calls)" "cache_ok i []" unfolding cache_after_def by blast+
  show ?thesis
    using build_cases [OF c(1), of zone start] build_cases [OF c(2), of zone start] assms c(1)
    by (simp add: cache_ok_def TIME_ZONE_LINES_CACHE_LIMIT_def)
qed

lemma zone_lines_cache_transparent_witness:
  "fst (buildTimeZoneLines utc_intl (u ''Europe/Moscow'') 0 (cache_after utc_intl [(u ''Europe/Moscow'', 5), (u ''UTC'', 0)]))
     = fst (buildTimeZoneLines utc_intl (u ''Europe/Moscow'') 0 [])"
  using zone_lines_cache_transparent [of utc_intl "u ''Europe/Moscow''" 0 "[(u ''Europe/Moscow'', 5), (u ''UTC'', 0)]"] utc_numeric
  by blast

section \<open>Normal settings\<close>

definition normal_settings :: "CalendarReminderSettings \<Rightarrow> bool" where
  "normal_settings s \<longleftrightarrow> time_pattern (cr_time s)
     \<and> (\<exists>d. cr_durationMinutes s = jint d \<and> 5 \<le> d \<and> d \<le> 180) \<and> (\<exists>r. cr_reminderMinutes s = jint r \<and> 0 \<le> r \<and> r \<le> 1440)
     \<and> cr_weekdays s = filter (\<lambda>w. w \<in> set (cr_weekdays s)) WEEKDAY_CODES
     \<and> (cr_recurrence s = Custom \<longrightarrow> cr_weekdays s \<noteq> [])"

lemma bounded_whole:
  assumes "isInteger fallback" "fallback = jint f" "lo \<le> f" "f \<le> hi"
  shows "\<exists>n. boundedInteger v fallback (jint lo) (jint hi) = jint n \<and> lo \<le> n \<and> n \<le> hi"
proof (cases "to_number v")
  case (Fin r)
  define n where "n = min hi (max lo \<lfloor>r + 1/2\<rfloor>)"
  have "boundedInteger v fallback (jint lo) (jint hi) = jint n"
    by (simp add: boundedInteger_def Let_def Fin n_def of_int_min of_int_max)
  then show ?thesis using assms by (intro exI [of _ n]) (simp add: n_def)
qed (use assms in \<open>auto simp: boundedInteger_def Let_def\<close>)

lemma bounded_id: "boundedInteger (JNum (jint n)) fallback (jint lo) (jint hi) = jint (min hi (max lo n))"
proof -
  have "\<lfloor>of_int n + 1/2 :: rat\<rfloor> = n" by linarith
  then show ?thesis by (simp add: boundedInteger_def to_number_def Let_def of_int_min of_int_max)
qed

lemma filter_codes: "filter (\<lambda>w. w \<in> set (filter P WEEKDAY_CODES)) WEEKDAY_CODES = filter P WEEKDAY_CODES"
  by (rule filter_cong) auto

lemma workdays_filtered: "WORKDAYS = filter (\<lambda>w. w \<in> set WORKDAYS) WEEKDAY_CODES"
  by (simp add: WORKDAYS_def WEEKDAY_CODES_def CALENDAR_WEEKDAYS_def)

lemma normalized_weekdays: "normalizeWeekdays v = filter (\<lambda>w. w \<in> set (normalizeWeekdays v)) WEEKDAY_CODES"
  unfolding normalizeWeekdays_def Let_def WEEKDAY_CODES_def [symmetric]
  by (auto simp: DEFAULT_CALENDAR_REMINDER_def intro: filter_cong)

lemma normalized_ok: "normal_settings (normalizeCalendarReminderSettings v)"
proof -
  define w where "w = recordFrom v"
  have t: "time_pattern (normalizeTime (jget w ''time''))"
    by (simp add: normalizeTime_def DEFAULT_CALENDAR_REMINDER_def time_pattern_def u_def is_digit_def)
  have d: "\<exists>n. boundedInteger (jget w ''durationMinutes'') (cr_durationMinutes DEFAULT_CALENDAR_REMINDER) 5 180 = jint n \<and> 5 \<le> n \<and> n \<le> 180"
    using bounded_whole [of "jint 20" 20 5 180] by (simp add: DEFAULT_CALENDAR_REMINDER_def)
  have r: "\<exists>n. boundedInteger (jget w ''reminderMinutes'') (cr_reminderMinutes DEFAULT_CALENDAR_REMINDER) 0 1440 = jint n \<and> 0 \<le> n \<and> n \<le> 1440"
    using bounded_whole [of "jint 10" 10 0 1440] by (simp add: DEFAULT_CALENDAR_REMINDER_def)
  have nw: "WORKDAYS \<noteq> []" by (simp add: WORKDAYS_def)
  show ?thesis
    unfolding normal_settings_def normalizeCalendarReminderSettings_def Let_def w_def [symmetric] CalendarReminderSettings.simps
    using t d r normalized_weekdays [of "jget w ''weekdays''"] workdays_filtered nw by simp
qed

lemma weekday_of_text: "weekday_of (JStr (weekday_text w)) = Some w"
  by (cases w) (simp_all add: weekday_of_def WEEKDAY_CODES_def CALENDAR_WEEKDAYS_def)

lemma normalized_id:
  assumes "normal_settings s"
  shows "normalized_settings s = s"
proof -
  have sel: "List.map_filter weekday_of (map (JStr \<circ> weekday_text) ws) = ws" for ws
    by (induction ws) (simp_all add: List.map_filter_simps weekday_of_text)
  have wd: "normalizeWeekdays (JArr (map (JStr \<circ> weekday_text) (cr_weekdays s))) = cr_weekdays s"
    using assms sel [of "cr_weekdays s"]
    by (simp add: normalizeWeekdays_def Let_def WEEKDAY_CODES_def [symmetric] normal_settings_def)
  have rc: "normalizeRecurrence (JStr (recurrence_text (cr_recurrence s))) = cr_recurrence s"
    by (cases "cr_recurrence s") (simp_all add: normalizeRecurrence_def is_lit_def)
  obtain d r where dr: "cr_durationMinutes s = jint d" "5 \<le> d" "d \<le> 180" "cr_reminderMinutes s = jint r" "0 \<le> r" "r \<le> 1440"
    using assms by (auto simp: normal_settings_def)
  have b: "boundedInteger (JNum (cr_durationMinutes s)) f (Fin 5) (Fin 180) = cr_durationMinutes s"
    "boundedInteger (JNum (cr_reminderMinutes s)) f (Fin 0) (Fin 1440) = cr_reminderMinutes s" for f
    using bounded_id [of d f 5 180] bounded_id [of r f 0 1440] dr by simp_all
  have t: "normalizeTime (JStr (cr_time s)) = cr_time s" using assms by (simp add: normalizeTime_def normal_settings_def)
  have "recordFrom (settings_value s) = settings_value s" by (simp add: recordFrom_def settings_value_def)
  moreover have "\<not> (cr_recurrence s = Custom \<and> cr_weekdays s = [])" using assms by (auto simp: normal_settings_def)
  ultimately show ?thesis
    unfolding normalizeCalendarReminderSettings_def Let_def
    by (intro CalendarReminderSettings.equality) (auto simp: settings_value_def wd rc b t)
qed

lemma settings_clean:
  assumes "normal_settings s"
  shows "clean (settings_value s)"
proof -
  obtain d r where dr: "cr_durationMinutes s = jint d" "5 \<le> d" "d \<le> 180" "cr_reminderMinutes s = jint r" "0 \<le> r" "r \<le> 1440"
    using assms by (auto simp: normal_settings_def)
  have small: "\<bar>of_int d :: rat\<bar> < 10 ^ 21" "\<bar>of_int r :: rat\<bar> < 10 ^ 21" using dr by (auto simp: abs_if)
  have "units_ok (cr_time s)" using assms
    by (auto simp: normal_settings_def time_pattern_def units_ok_def is_digit_def split: list.splits)
  moreover have "list_all id (map clean (map (JStr \<circ> weekday_text) ws))" for ws
  proof (induction ws)
    case (Cons w ws)
    then show ?case by (cases w) simp_all
  qed simp
  moreover have "units_ok (recurrence_text (cr_recurrence s))" by (cases "cr_recurrence s") simp_all
  ultimately show ?thesis using small by (simp add: settings_value_def num_clean_def dr)
qed

text \<open>Whatever settings are asked for, what is persisted is in normal form (a time of day, whole minutes within their
  bounds, weekdays in calendar order), stays as it is when normalised again, and is read back from the storage.\<close>

theorem settings_persist_normalized:
  fixes settings :: CalendarReminderSettings
  assumes "\<not> get_denied st" "\<not> set_denied st"
  defines "saved \<equiv> persistCalendarReminderSettings (Some st) settings"
  shows "cp_persisted (fst saved) \<and> normal_settings (cp_settings (fst saved))
    \<and> normalized_settings (cp_settings (fst saved)) = cp_settings (fst saved)
    \<and> snd (snd saved) = Some (cp_settings (fst saved))
    \<and> fst (readCalendarReminderSettings (fst (snd saved))) = cp_settings (fst saved)"
proof -
  define n where "n = normalized_settings settings"
  have ok: "normal_settings n" unfolding n_def by (rule normalized_ok)
  define st' where "st' = st\<lparr>items := (items st)(CALENDAR_REMINDER_STORAGE_KEY \<mapsto> json_stringify (settings_value n))\<rparr>"
  have saved: "saved = (\<lparr>cp_settings = n, cp_persisted = True\<rparr>, Some st', Some n)"
    using assms(2) by (simp add: saved_def persistCalendarReminderSettings_def Let_def n_def st'_def setItem_def)
  have "fst (readCalendarReminderSettings (Some st')) = n"
    using assms(1) json.dec_enc [OF settings_clean [OF ok]] json_text_nonempty [OF settings_clean [OF ok]] normalized_id [OF ok]
    by (simp add: readCalendarReminderSettings_def Let_def st'_def getItem_def)
  then show ?thesis using ok normalized_id [OF ok] by (simp add: saved)
qed

lemma settings_persist_normalized_witness:
  "cp_persisted (fst (persistCalendarReminderSettings (Some empty_storage) DEFAULT_CALENDAR_REMINDER))"
  using settings_persist_normalized [of empty_storage DEFAULT_CALENDAR_REMINDER] by (simp add: empty_storage_def)

section \<open>The next occurrence is the first allowed one\<close>

definition qualifies :: "local_clock \<Rightarrow> CalendarReminderSettings \<Rightarrow> int \<Rightarrow> nat \<Rightarrow> bool" where
  "qualifies c v from k \<longleftrightarrow>
     (let settings = normalized_settings v; t = candidate_at c (cr_time settings) from k in
      from < t \<and> weekdayCode c t \<in> set (effectiveCalendarWeekdays settings))"

text \<open>What local time is relied on for: the same time of day on a later date is later, and weekdays follow each other.\<close>

definition days_advance :: "local_clock \<Rightarrow> jstr \<Rightarrow> int \<Rightarrow> bool" where
  "days_advance c time from \<longleftrightarrow>
     (\<forall>k. (0 < k \<longrightarrow> from < candidate_at c time from k)
        \<and> getDay c (candidate_at c time from k) = (getDay c (candidate_at c time from 0) + k) mod 7)"

lemma effective_day: "\<exists>d < 7. \<exists>w. w \<in> set (effectiveCalendarWeekdays s)
    \<and> (\<forall>c t. getDay c t = d \<longrightarrow> weekdayCode c t = w)"
proof -
  have "effectiveCalendarWeekdays s \<noteq> []" by (simp add: effectiveCalendarWeekdays_def WORKDAYS_def CALENDAR_WEEKDAYS_def)
  then obtain w where w: "w \<in> set (effectiveCalendarWeekdays s)" using hd_in_set by blast
  have code: "getDay c t = d \<Longrightarrow> weekdayCode c t = (case find (\<lambda>w. wd_day w = d) CALENDAR_WEEKDAYS of Some w \<Rightarrow> wd_code w | None \<Rightarrow> MO)" for c t d
    by (simp add: weekdayCode_def)
  define n where "n = (case w of MO \<Rightarrow> 1 | TU \<Rightarrow> 2 | WE \<Rightarrow> 3 | TH \<Rightarrow> 4 | FR \<Rightarrow> 5 | SA \<Rightarrow> 6 | SU \<Rightarrow> (0::nat))"
  have "n < 7" "(case find (\<lambda>w. wd_day w = n) CALENDAR_WEEKDAYS of Some w \<Rightarrow> wd_code w | None \<Rightarrow> MO) = w"
    by (cases w; simp add: n_def CALENDAR_WEEKDAYS_def)+
  with code have "\<exists>d < 7. \<forall>c t. getDay c t = d \<longrightarrow> weekdayCode c t = w" by metis
  with w show ?thesis by blast
qed

lemma some_day_qualifies:
  assumes "days_advance c (cr_time (normalized_settings v)) from"
  shows "\<exists>k. 0 < k \<and> k \<le> 7 \<and> qualifies c v from k"
proof -
  let ?s = "normalized_settings v"
  let ?at = "candidate_at c (cr_time ?s) from"
  obtain d w where d: "d < 7" "w \<in> set (effectiveCalendarWeekdays ?s)" "\<forall>c t. getDay c t = d \<longrightarrow> weekdayCode c t = w"
    using effective_day by blast
  have "getDay c (?at 0) = getDay c (?at 0) mod 7" using assms unfolding days_advance_def by (metis add.right_neutral)
  then have g: "getDay c (?at 0) < 7" by (metis mod_less_divisor zero_less_numeral)
  obtain k where k: "0 < k" "k \<le> 7" "(getDay c (?at 0) + k) mod 7 = d"
  proof (cases "getDay c (?at 0) < d")
    case True
    then have "getDay c (?at 0) + (d - getDay c (?at 0)) = d" by simp
    then have "(getDay c (?at 0) + (d - getDay c (?at 0))) mod 7 = d" using d(1) by (simp only: mod_less)
    moreover have "0 < d - getDay c (?at 0)" "d - getDay c (?at 0) \<le> 7" using True d(1) by linarith+
    ultimately show ?thesis by (intro that)
  next
    case False
    then have "getDay c (?at 0) + (d + 7 - getDay c (?at 0)) = d + 7" using g by simp
    then have "(getDay c (?at 0) + (d + 7 - getDay c (?at 0))) mod 7 = d" using d(1) by (simp only: mod_add_self2 mod_less)
    moreover have "0 < d + 7 - getDay c (?at 0)" "d + 7 - getDay c (?at 0) \<le> 7" using False g by linarith+
    ultimately show ?thesis by (intro that)
  qed
  have "getDay c (?at k) = (getDay c (?at 0) + k) mod 7" "from < ?at k" using assms k(1) unfolding days_advance_def by blast+
  then have "weekdayCode c (?at k) = w" "from < ?at k" using d(3) unfolding k(3) by blast+
  then have "qualifies c v from k" using d(2) by (simp add: qualifies_def Let_def)
  with k(1,2) show ?thesis by blast
qed

text \<open>The next occurrence lies in the future, at most a week of days ahead, on a weekday of the schedule, and no earlier
  day offers one; the fallback after the search is never used.\<close>

theorem next_occurrence_is_first:
  assumes "days_advance c (cr_time (normalized_settings v)) from"
  shows "\<exists>k \<le> 7. nextCalendarOccurrence c v from = candidate_at c (cr_time (normalized_settings v)) from k
    \<and> qualifies c v from k \<and> (\<forall>j < k. \<not> qualifies c v from j)"
proof -
  obtain m where m: "m \<le> 7" "qualifies c v from m" using some_day_qualifies [OF assms] by blast
  define k where "k = (LEAST k. qualifies c v from k)"
  have k: "qualifies c v from k" "k \<le> m" "\<forall>j < k. \<not> qualifies c v from j"
    using m(2) unfolding k_def by (auto intro: LeastI Least_le dest: not_less_Least)
  have "find (\<lambda>j. qualifies c v from j) [0..<15] = Some k"
    unfolding find_Some_iff using k m(1) by (intro exI [of _ k]) auto
  then have "nextCalendarOccurrence c v from = candidate_at c (cr_time (normalized_settings v)) from k"
    by (simp add: nextCalendarOccurrence_def Let_def qualifies_def)
  with k m(1) show ?thesis by (intro exI [of _ k]) auto
qed

text \<open>A clock of universal time; the day of the month only matters through the difference the code adds.\<close>

definition utc_clock :: local_clock where
  "utc_clock = \<lparr>getDate = (\<lambda>t. case civil_from_days (t div day_ms) of (y, m, d) \<Rightarrow> d),
     getDay = (\<lambda>t. nat ((t div day_ms + 4) mod 7)),
     setDate = (\<lambda>t d. t + (d - (case civil_from_days (t div day_ms) of (y, m, d0) \<Rightarrow> d0)) * day_ms),
     setHours = (\<lambda>t h m. t div day_ms * day_ms + h * 3600000 + m * 60000)\<rparr>"

lemma utc_days_advance: "days_advance utc_clock (u ''19:00'') from"
proof -
  have hm: "hour_minute (u ''19:00'') = (19, 0)" by (simp add: hour_minute_def u_def digits_val_def)
  have at_k: "candidate_at utc_clock (u ''19:00'') from k = (from div day_ms + int k) * day_ms + 68400000" for k
    by (simp add: candidate_at_def hm utc_clock_def day_ms_def split: prod.split)
  have day: "candidate_at utc_clock (u ''19:00'') from k div day_ms = from div day_ms + int k" for k
    unfolding at_k by (simp add: day_ms_def)
  have "from < (from div day_ms + int k) * day_ms + 68400000" if "0 < k" for k
  proof -
    have "from div day_ms + 1 \<le> from div day_ms + int k" using that by simp
    then have "(from div day_ms + 1) * day_ms \<le> (from div day_ms + int k) * day_ms" by (simp add: day_ms_def)
    moreover have "from < (from div day_ms + 1) * day_ms"
      using div_mult_mod_eq [of "from" day_ms] pos_mod_bound [of day_ms "from"] by (simp add: day_ms_def distrib_right)
    ultimately show ?thesis by linarith
  qed
  moreover have "nat ((from div day_ms + int k + 4) mod 7) = (nat ((from div day_ms + 4) mod 7) + k) mod 7" for k
  proof -
    define a where "a = from div day_ms"
    have "int ((nat ((a + 4) mod 7) + k) mod 7) = ((a + 4) mod 7 + int k) mod 7" by (simp add: zmod_int)
    also have "\<dots> = (a + 4 + int k) mod 7" by (rule mod_add_left_eq)
    also have "a + 4 + int k = a + int k + 4" by simp
    finally show ?thesis unfolding a_def [symmetric] by linarith
  qed
  moreover have "getDay utc_clock (candidate_at utc_clock (u ''19:00'') from k) = nat ((from div day_ms + int k + 4) mod 7)" for k
    using day [of k] by (simp add: utc_clock_def)
  ultimately show ?thesis unfolding days_advance_def at_k [symmetric] by simp
qed

lemma next_occurrence_is_first_witness:
  "\<exists>k \<le> 7. nextCalendarOccurrence utc_clock DEFAULT_CALENDAR_REMINDER 0 = int k * day_ms + 68400000
    \<and> qualifies utc_clock DEFAULT_CALENDAR_REMINDER 0 k"
proof -
  have "normalized_settings DEFAULT_CALENDAR_REMINDER = DEFAULT_CALENDAR_REMINDER"
  proof (rule normalized_id)
    have "\<exists>d. (20 :: jnum) = jint d \<and> 5 \<le> d \<and> d \<le> 180" "\<exists>r. (10 :: jnum) = jint r \<and> 0 \<le> r \<and> r \<le> 1440"
      by (rule exI [of _ 20], simp) (rule exI [of _ 10], simp)
    then show "normal_settings DEFAULT_CALENDAR_REMINDER"
      by (simp add: normal_settings_def DEFAULT_CALENDAR_REMINDER_def time_pattern_def u_def is_digit_def)
  qed
  then have t: "cr_time (normalized_settings DEFAULT_CALENDAR_REMINDER) = u ''19:00''"
    by (simp add: DEFAULT_CALENDAR_REMINDER_def)
  have "candidate_at utc_clock (u ''19:00'') 0 k = int k * day_ms + 68400000" for k
    by (simp add: candidate_at_def hour_minute_def digits_val_def u_def utc_clock_def day_ms_def split: prod.split)
  then show ?thesis using next_occurrence_is_first [of utc_clock DEFAULT_CALENDAR_REMINDER 0] utc_days_advance [of 0] unfolding t by auto
qed

end
