(* ===== verification/Build_Update.thy ===== *)
theory Build_Update
  imports Js_Date Navigation Request_Failure
begin

text \<open>
  \<open>src/frontend/lib/service-worker-update.ts\<close> and \<open>build-version-guard.ts\<close>: build identifiers, the state kept
  over an update of the service worker, and the guard that runs before the application starts.  The guard is the
  script \<open>createBuildVersionGuardScript\<close> returns; it is modelled by what it does to the storages, the caches and
  the address.  \<open>new_URL\<close> is the browser's URL parser.
\<close>

section \<open>Build identifiers\<close>

definition build_char :: "nat \<Rightarrow> bool" where
  "build_char c \<longleftrightarrow> is_alnum c \<or> c \<in> {45, 46, 95}"

text \<open>Every run of other characters becomes one dash; \<open>open_run\<close> says that the run has its dash.\<close>

fun dash_runs :: "bool \<Rightarrow> jstr \<Rightarrow> jstr" where
  "dash_runs open_run [] = []"
| "dash_runs open_run (c # s) =
     (if build_char c then c # dash_runs False s
      else if open_run then dash_runs True s else 45 # dash_runs True s)"

definition strip_dashes :: "jstr \<Rightarrow> jstr" where
  "strip_dashes s = rev (dropWhile (\<lambda>c. c = 45) (rev (dropWhile (\<lambda>c. c = 45) s)))"

definition normalizeBuildID :: "jstr option \<Rightarrow> jstr" where
  "normalizeBuildID v =
     (let normalized = (case v of Some s \<Rightarrow> strip_dashes (dash_runs False (trim s)) | None \<Rightarrow> []) in
      if take 80 normalized = [] then u ''local'' else take 80 normalized)"

definition serviceWorkerScriptURL :: "jstr \<Rightarrow> js_exn + jstr" where
  "serviceWorkerScriptURL buildID =
     (case encodeURIComponent (normalizeBuildID (Some buildID)) of
        Inr s \<Rightarrow> Inr (u ''/sw.js?build='' @ s) | Inl e \<Rightarrow> Inl e)"

text \<open>\<open>build_param\<close> is the build parameter of the script's URL, \<open>None\<close> when the URL is malformed.\<close>

definition serviceWorkerBuildFromURL :: "(jstr \<Rightarrow> jstr option option) \<Rightarrow> jstr option \<Rightarrow> jstr option" where
  "serviceWorkerBuildFromURL build_param scriptURL =
     (if scriptURL = None \<or> scriptURL = Some [] then None
      else (case build_param (the scriptURL) of Some p \<Rightarrow> Some (normalizeBuildID p) | None \<Rightarrow> None))"

section \<open>Routes and errors\<close>

definition isLessonRoute :: "jstr \<Rightarrow> jstr \<Rightarrow> bool" where
  "isLessonRoute search pathname \<longleftrightarrow>
     segment_after ''/lesson/'' (if pathname \<noteq> [] \<and> last pathname = 47 then butlast pathname else pathname) \<noteq> None
     \<or> params_get (params_parse search) (u ''view'') = Some (u ''lesson'')"

datatype thrown_value = ThrownError jstr jstr | ThrownValue jval

definition fold_case :: "jstr \<Rightarrow> jstr" where
  "fold_case s = map (\<lambda>c. if 65 \<le> c \<and> c \<le> 90 then c + 32 else c) s"

definition occurs :: "string \<Rightarrow> jstr \<Rightarrow> bool" where
  "occurs p s \<longleftrightarrow> list_ex (\<lambda>i. starts_with (fold_case (drop i s)) (fold_case (u p))) [0..<Suc (length s)]"

text \<open>The alternative with a gap: a chunk name without spaces.\<close>

definition chunk_failed :: "jstr \<Rightarrow> bool" where
  "chunk_failed s \<longleftrightarrow>
     list_ex (\<lambda>i. let t = fold_case (drop i s); n = length ''loading chunk ''; r = drop n t in
         starts_with t (u ''loading chunk '') \<and> takeWhile (\<lambda>c. c \<noteq> 32) r \<noteq> []
         \<and> starts_with (dropWhile (\<lambda>c. c \<noteq> 32) r) (u '' failed''))
       [0..<Suc (length s)]"

definition text_or_empty :: "jval \<Rightarrow> jstr" where
  "text_or_empty v = (if v = JUndef \<or> v = JNull then [] else value_text v)"

definition isVersionMismatchError :: "thrown_value \<Rightarrow> bool" where
  "isVersionMismatchError v =
     (let candidate = (case v of
          ThrownError error_name message \<Rightarrow> error_name @ u '': '' @ message
        | ThrownValue (JStr s) \<Rightarrow> s
        | ThrownValue w \<Rightarrow>
            if isRecord w then text_or_empty (jget w ''name'') @ u '': '' @ text_or_empty (jget w ''message'') else []) in
      occurs ''ChunkLoadError'' candidate \<or> chunk_failed candidate
      \<or> occurs ''Failed to fetch dynamically imported module'' candidate
      \<or> occurs ''Importing a module script failed'' candidate
      \<or> occurs ''CSS_CHUNK_LOAD_FAILED'' candidate \<or> occurs ''Unable to preload CSS'' candidate)"

section \<open>Cleaning up\<close>

definition LEXIGO_RUNTIME_CACHE_PREFIX :: jstr where "LEXIGO_RUNTIME_CACHE_PREFIX = u ''lexigo-shell-''"

text \<open>A settled promise: fulfilled with a value, or rejected.\<close>

type_synonym 'a settled = "'a option"

record RuntimeCleanupResult =
  rc_unregisteredWorkers :: nat
  rc_deletedCaches :: "jstr list"

text \<open>The cache storage: the answer of \<open>keys\<close> and of \<open>delete\<close> for a name.\<close>

record cache_storage =
  cache_keys :: "jstr list settled"
  cache_delete :: "jstr \<Rightarrow> bool settled"

definition clearLexigoRuntimeState :: "bool settled list \<Rightarrow> cache_storage option \<Rightarrow> RuntimeCleanupResult" where
  "clearLexigoRuntimeState unregisterResults cacheStorage =
     (let unregistered = length (filter (\<lambda>r. r = Some True) unregisterResults) in
      case cacheStorage of
        None \<Rightarrow> \<lparr>rc_unregisteredWorkers = unregistered, rc_deletedCaches = []\<rparr>
      | Some cs \<Rightarrow>
          (case cache_keys cs of
             None \<Rightarrow> \<lparr>rc_unregisteredWorkers = unregistered, rc_deletedCaches = []\<rparr>
           | Some cacheNames \<Rightarrow>
               \<lparr>rc_unregisteredWorkers = unregistered,
                rc_deletedCaches = filter (\<lambda>name. cache_delete cs name = Some True)
                  (filter (\<lambda>name. starts_with name LEXIGO_RUNTIME_CACHE_PREFIX) cacheNames)\<rparr>))"

section \<open>The recovery snapshot\<close>

definition SERVICE_WORKER_RECOVERY_KEY :: jstr where "SERVICE_WORKER_RECOVERY_KEY = u ''lexigo.service-worker.recovery.v1''"
definition SERVICE_WORKER_DEFERRED_KEY :: jstr where "SERVICE_WORKER_DEFERRED_KEY = u ''lexigo.service-worker.deferred.v1''"

datatype ServiceWorkerRecoveryReason = WorkerUpdate | VersionMismatch

fun reason_text :: "ServiceWorkerRecoveryReason \<Rightarrow> jstr" where
  "reason_text WorkerUpdate = u ''service-worker-update''" | "reason_text VersionMismatch = u ''version-mismatch''"

record ServiceWorkerRecoverySnapshot =
  sw_reason :: ServiceWorkerRecoveryReason
  sw_requestedAt :: jstr
  sw_fromBuild :: jstr
  sw_href :: jstr
  sw_resumeHref :: jstr
  sw_lessonActive :: bool

definition createServiceWorkerRecoverySnapshot ::
  "int \<Rightarrow> ServiceWorkerRecoveryReason \<Rightarrow> jstr \<Rightarrow> jstr \<Rightarrow> bool \<Rightarrow> int option \<Rightarrow> ServiceWorkerRecoverySnapshot" where
  "createServiceWorkerRecoverySnapshot now reason buildID href lessonActive requestedAt =
     \<lparr>sw_reason = reason, sw_requestedAt = toISOString (case requestedAt of Some t \<Rightarrow> t | None \<Rightarrow> now),
      sw_fromBuild = normalizeBuildID (Some buildID), sw_href = href,
      sw_resumeHref = (if lessonActive then u ''/lesson/active'' else href), sw_lessonActive = lessonActive\<rparr>"

definition recovery_value :: "ServiceWorkerRecoverySnapshot \<Rightarrow> jval" where
  "recovery_value s = JObj [(u ''version'', JNum 1), (u ''reason'', JStr (reason_text (sw_reason s))),
     (u ''requestedAt'', JStr (sw_requestedAt s)), (u ''fromBuild'', JStr (sw_fromBuild s)), (u ''href'', JStr (sw_href s)),
     (u ''resumeHref'', JStr (sw_resumeHref s)), (u ''lessonActive'', JBool (sw_lessonActive s))]"

definition writeServiceWorkerRecovery :: "storage \<Rightarrow> ServiceWorkerRecoverySnapshot \<Rightarrow> bool \<times> storage" where
  "writeServiceWorkerRecovery st s =
     (case setItem st SERVICE_WORKER_RECOVERY_KEY (json_stringify (recovery_value s)) of
        Inr st' \<Rightarrow> (True, st') | Inl e \<Rightarrow> (False, st))"

definition parseServiceWorkerRecovery :: "(jstr \<Rightarrow> jnum) \<Rightarrow> jstr option \<Rightarrow> ServiceWorkerRecoverySnapshot option" where
  "parseServiceWorkerRecovery parse_date raw =
     (if raw = None \<or> raw = Some [] then None
      else (case json_parse (the raw) of
          None \<Rightarrow> None
        | Some v \<Rightarrow>
            if \<not> isRecord v \<or> jget v ''version'' \<noteq> JNum 1 then None
            else if \<not> is_lit (jget v ''reason'') ''service-worker-update'' \<and> \<not> is_lit (jget v ''reason'') ''version-mismatch'' then None
            else if \<not> is_string (jget v ''requestedAt'') \<or> parse_date (str_of (jget v ''requestedAt'')) = NaN then None
            else if \<not> is_string (jget v ''fromBuild'') \<or> \<not> is_string (jget v ''href'') \<or> \<not> is_string (jget v ''resumeHref'') then None
            else if \<not> is_boolean (jget v ''lessonActive'') then None
            else Some \<lparr>sw_reason = (if is_lit (jget v ''reason'') ''service-worker-update'' then WorkerUpdate else VersionMismatch),
              sw_requestedAt = str_of (jget v ''requestedAt''), sw_fromBuild = normalizeBuildID (Some (str_of (jget v ''fromBuild''))),
              sw_href = str_of (jget v ''href''), sw_resumeHref = str_of (jget v ''resumeHref''),
              sw_lessonActive = (jget v ''lessonActive'' = JBool True)\<rparr>))"

definition consumeServiceWorkerRecovery :: "(jstr \<Rightarrow> jnum) \<Rightarrow> storage \<Rightarrow> ServiceWorkerRecoverySnapshot option \<times> storage" where
  "consumeServiceWorkerRecovery parse_date st =
     (case getItem st SERVICE_WORKER_RECOVERY_KEY of
        Inl e \<Rightarrow> (None, st)
      | Inr raw \<Rightarrow>
          (case removeItem st SERVICE_WORKER_RECOVERY_KEY of
             Inl e \<Rightarrow> (None, st) | Inr st \<Rightarrow> (parseServiceWorkerRecovery parse_date raw, st)))"

definition writeDeferredServiceWorkerBuild :: "storage \<Rightarrow> jstr \<Rightarrow> bool \<times> storage" where
  "writeDeferredServiceWorkerBuild st buildID =
     (case setItem st SERVICE_WORKER_DEFERRED_KEY (normalizeBuildID (Some buildID)) of
        Inr st' \<Rightarrow> (True, st') | Inl e \<Rightarrow> (False, st))"

definition readDeferredServiceWorkerBuild :: "storage \<Rightarrow> jstr option" where
  "readDeferredServiceWorkerBuild st =
     (case getItem st SERVICE_WORKER_DEFERRED_KEY of
        Inl e \<Rightarrow> None
      | Inr v \<Rightarrow> if v = None \<or> v = Some [] then None else Some (normalizeBuildID v))"

definition clearDeferredServiceWorkerBuild :: "storage \<Rightarrow> storage" where
  "clearDeferredServiceWorkerBuild st = (case removeItem st SERVICE_WORKER_DEFERRED_KEY of Inr st' \<Rightarrow> st' | Inl e \<Rightarrow> st)"

section \<open>The guard\<close>

definition BUILD_MARKER_STORAGE_KEY :: jstr where "BUILD_MARKER_STORAGE_KEY = u ''lexigo.build-marker.v1''"
definition BUILD_RECOVERY_STORAGE_KEY :: jstr where "BUILD_RECOVERY_STORAGE_KEY = u ''lexigo.build-recovery.v1''"
definition BUILD_CACHE_BUSTER_QUERY :: jstr where "BUILD_CACHE_BUSTER_QUERY = u ''__lexigo_build''"
definition BUILD_RECOVERY_OFFLINE_PATH :: jstr where "BUILD_RECOVERY_OFFLINE_PATH = u ''/offline.html''"

text \<open>An address; the search is empty or starts with a question mark, and its parameters are those of the text.\<close>

record page_url =
  pu_origin :: jstr
  pu_pathname :: jstr
  pu_search :: jstr
  pu_hash :: jstr

definition pu_href :: "page_url \<Rightarrow> jstr" where
  "pu_href l = pu_origin l @ pu_pathname l @ pu_search l @ pu_hash l"

definition pu_params :: "page_url \<Rightarrow> params" where "pu_params l = params_parse (pu_search l)"

definition with_params :: "page_url \<Rightarrow> params \<Rightarrow> page_url" where
  "with_params l ps = l\<lparr>pu_search := (if ps = [] then [] else 63 # params_text ps)\<rparr>"

definition without_buster :: "page_url \<Rightarrow> page_url" where
  "without_buster l = with_params l (params_delete (pu_params l) BUILD_CACHE_BUSTER_QUERY)"

definition readStorage :: "storage \<Rightarrow> jstr \<Rightarrow> jstr option" where
  "readStorage st k = (case getItem st k of Inr v \<Rightarrow> v | Inl e \<Rightarrow> None)"

definition writeStorage :: "storage \<Rightarrow> jstr \<Rightarrow> jstr \<Rightarrow> storage" where
  "writeStorage st k v = (case setItem st k v of Inr st' \<Rightarrow> st' | Inl e \<Rightarrow> st)"

definition removeStorage :: "storage \<Rightarrow> jstr \<Rightarrow> storage" where
  "removeStorage st k = (case removeItem st k of Inr st' \<Rightarrow> st' | Inl e \<Rightarrow> st)"

text \<open>
  The page as the guard finds it: a controlling worker has a script URL; \<open>gp_unregisters\<close> says for every registered
  worker whether it can be unregistered in time, and \<open>gp_deletes\<close> which caches can be deleted.
\<close>

record page =
  gp_local :: storage
  gp_session :: storage
  gp_location :: page_url
  gp_controller :: "jstr option"
  gp_caches :: "jstr list"
  gp_deletes :: "jstr \<Rightarrow> bool"
  gp_unregisters :: "bool list"

datatype guard_outcome = Started page | Recovery page jstr | Reload page page_url

definition normalizeBuild :: "jstr \<Rightarrow> jstr" where "normalizeBuild s = normalizeBuildID (Some s)"

definition build_of_param :: "jstr option \<Rightarrow> jstr option" where
  "build_of_param raw = (if raw = None \<or> raw = Some [] then None else Some (normalizeBuild (the raw)))"

definition valid_recovery :: "jval \<Rightarrow> bool" where
  "valid_recovery v \<longleftrightarrow> truthy v \<and> jget v ''version'' = JNum 1 \<and> is_string (jget v ''targetBuild'') \<and> is_string (jget v ''originalHref'')"

text \<open>The stored recovery's original address, and the storage after unreadable text is removed.\<close>

definition read_recovery :: "storage \<Rightarrow> jstr option \<times> storage" where
  "read_recovery st =
     (let raw = readStorage st BUILD_RECOVERY_STORAGE_KEY in
      if raw = None \<or> raw = Some [] then (None, st)
      else (case json_parse (the raw) of
          None \<Rightarrow> (None, removeStorage st BUILD_RECOVERY_STORAGE_KEY)
        | Some v \<Rightarrow> (if valid_recovery v then Some (str_of (jget v ''originalHref'')) else None, st)))"

definition completeCurrentBuild :: "jstr \<Rightarrow> page \<Rightarrow> page" where
  "completeCurrentBuild currentBuild p =
     p\<lparr>gp_local := writeStorage (gp_local p) BUILD_MARKER_STORAGE_KEY currentBuild,
       gp_session := removeStorage (gp_session p) BUILD_RECOVERY_STORAGE_KEY,
       gp_location := (if params_has (pu_params (gp_location p)) BUILD_CACHE_BUSTER_QUERY
         then without_buster (gp_location p) else gp_location p)\<rparr>"

definition redirectToStaticRecovery :: "(jstr \<Rightarrow> page_url option) \<Rightarrow> jstr option \<Rightarrow> page \<Rightarrow> jstr" where
  "redirectToStaticRecovery new_URL recovery p =
     (let origin = pu_origin (gp_location p);
          target = (if recovery \<noteq> None \<and> recovery \<noteq> Some [] then the recovery else pu_href (gp_location p));
          returnHref = (case new_URL target of Some l \<Rightarrow> pu_href (without_buster l) | None \<Rightarrow> origin @ u ''/'') in
      origin @ BUILD_RECOVERY_OFFLINE_PATH @ 63 # params_text [(u ''reason'', u ''stale-build''), (u ''return'', returnHref)])"

definition controller_build :: "(jstr \<Rightarrow> jstr option option) \<Rightarrow> jstr option \<Rightarrow> jstr option" where
  "controller_build build_param scriptURL =
     (if scriptURL = None \<or> scriptURL = Some [] then None
      else (case build_param (the scriptURL) of
          None \<Rightarrow> None
        | Some raw \<Rightarrow> Some (case build_of_param raw of Some b \<Rightarrow> b | None \<Rightarrow> u ''legacy-service-worker'')))"

definition cleanupRuntime :: "page \<Rightarrow> page" where
  "cleanupRuntime p = p\<lparr>gp_unregisters := filter Not (gp_unregisters p),
     gp_caches := filter (\<lambda>name. \<not> (starts_with name LEXIGO_RUNTIME_CACHE_PREFIX \<and> gp_deletes p name)) (gp_caches p)\<rparr>"

definition build_guard ::
  "(jstr \<Rightarrow> page_url option) \<Rightarrow> (jstr \<Rightarrow> jstr option option) \<Rightarrow> int \<Rightarrow> jstr \<Rightarrow> page \<Rightarrow> guard_outcome" where
  "build_guard new_URL build_param now buildID p0 =
     (let currentBuild = normalizeBuildID (Some buildID);
          (recovery, session) = read_recovery (gp_session p0);
          p = p0\<lparr>gp_session := session\<rparr> in
      case build_of_param (params_get (pu_params (gp_location p)) BUILD_CACHE_BUSTER_QUERY) of
        Some requestedBuild \<Rightarrow>
          if requestedBuild = currentBuild then Started (completeCurrentBuild currentBuild p)
          else Recovery p (redirectToStaticRecovery new_URL recovery p)
      | None \<Rightarrow>
          (let markerBuild = build_of_param (readStorage (gp_local p) BUILD_MARKER_STORAGE_KEY);
               controllerBuild = controller_build build_param (gp_controller p);
               markerMismatch = (markerBuild \<noteq> None \<and> markerBuild \<noteq> Some currentBuild);
               controllerMismatch = (controllerBuild \<noteq> None \<and> controllerBuild \<noteq> Some currentBuild) in
           if \<not> markerMismatch \<and> \<not> controllerMismatch then Started (completeCurrentBuild currentBuild p)
           else
             let originalURL = without_buster (gp_location p);
                 record_text = json_stringify (JObj [(u ''version'', JNum 1), (u ''targetBuild'', JStr currentBuild),
                   (u ''originalHref'', JStr (pu_href originalURL)), (u ''requestedAt'', JStr (toISOString now))]);
                 p = p\<lparr>gp_session := writeStorage (gp_session p) BUILD_RECOVERY_STORAGE_KEY record_text\<rparr> in
             Reload (cleanupRuntime p)
               (with_params originalURL (params_set (pu_params originalURL) BUILD_CACHE_BUSTER_QUERY currentBuild))))"

section \<open>The guard reloads a page at most once\<close>

lemma build_id_nonempty: "normalizeBuildID v \<noteq> []"
  by (simp add: normalizeBuildID_def Let_def)

lemma normalizeBuild_nonempty [simp]: "normalizeBuild s \<noteq> []"
  by (simp add: normalizeBuild_def build_id_nonempty)

lemma dash_runs_chars: "c \<in> set (dash_runs b s) \<Longrightarrow> build_char c"
  by (induction b s rule: dash_runs.induct) (auto simp: build_char_def split: if_splits)

lemma build_id_chars: "c \<in> set (normalizeBuildID v) \<Longrightarrow> build_char c"
proof -
  have st: "c \<in> set (strip_dashes s) \<Longrightarrow> c \<in> set s" for s
    by (auto simp: strip_dashes_def dest!: set_dropWhileD)
  assume "c \<in> set (normalizeBuildID v)"
  then show ?thesis
    by (auto simp: normalizeBuildID_def Let_def build_char_def is_alnum_def u_def
        dest!: in_set_takeD st dash_runs_chars split: if_splits option.splits)
qed

lemma build_id_wf: "wf16 (normalizeBuildID v)"
  using build_id_chars [of _ v] by (fastforce intro: wf16_ascii simp: ascii_def build_char_def is_alnum_def)

lemma params_text_Nil [simp]: "params_text ps = [] \<longleftrightarrow> ps = []"
proof
  assume "params_text ps = []"
  then show "ps = []" by (cases ps rule: list.exhaust; cases "tl ps") (auto simp: params_text_def)
qed (simp add: params_text_def)

lemma params_text_empty [simp]: "params_text [] = []"
  by simp

lemma form_enc_no_question: "wf16 k \<Longrightarrow> 63 \<notin> set (form_enc k)"
  using form_byte_no_question utf8_bytes_small [of k] unfolding form_enc_def by fastforce

lemma params_question: "params_parse (63 # params_text ps) = params_parse (params_text ps)" if "\<forall>(k, v)\<in>set ps. wf16 k \<and> wf16 v"
proof (cases "ps = []")
  case True
  then show ?thesis by (simp add: params_parse_def params_text_def)
next
  case False
  obtain k v qs where ps: "ps = (k, v) # qs" using False by (cases ps) auto
  have "hd (params_text ps) \<noteq> 63" using form_enc_no_question [of k] that ps
    by (cases qs; cases "form_enc k") (auto simp: params_text_def)
  then show ?thesis using False by (cases "params_text ps") (simp_all add: params_parse_def Let_def)
qed

lemma params_of_with:
  assumes "\<forall>(k, v)\<in>set ps. wf16 k \<and> wf16 v"
  shows "pu_params (with_params l ps) = ps"
  using params_question [OF assms] params_of_text [OF assms]
  by (cases "ps = []") (simp_all add: pu_params_def with_params_def)

lemma params_wf: "\<forall>(k, v)\<in>set (pu_params l). wf16 k \<and> wf16 v"
  unfolding pu_params_def by (auto dest: params_parse_wf)

lemma without_buster_params: "pu_params (without_buster l) = params_delete (pu_params l) BUILD_CACHE_BUSTER_QUERY"
  unfolding without_buster_def
  by (rule params_of_with) (use params_wf [of l] in \<open>auto simp: params_delete_def\<close>)

lemma without_buster_same:
  "params_delete (pu_params l) BUILD_CACHE_BUSTER_QUERY = pu_params l \<Longrightarrow> without_buster (without_buster l) = without_buster l"
  by (simp add: without_buster_def params_of_with params_wf) (simp add: with_params_def)

definition busted :: "page_url \<Rightarrow> jstr \<Rightarrow> page_url" where
  "busted l b = with_params l (params_set (pu_params l) BUILD_CACHE_BUSTER_QUERY b)"

lemma busted_params:
  assumes "wf16 b"
  shows "pu_params (busted l b) = params_set (pu_params l) BUILD_CACHE_BUSTER_QUERY b"
proof -
  have "wf16 BUILD_CACHE_BUSTER_QUERY" by (simp add: BUILD_CACHE_BUSTER_QUERY_def wf16_ascii ascii_def u_def)
  then show ?thesis
    unfolding busted_def using assms params_wf [of l] by (intro params_of_with) (auto dest!: params_set_in)
qed

lemma delete_set: "params_delete (params_set ps k v) k = params_delete ps k"
  by (induction ps) (auto simp: params_delete_def)

lemma delete_delete: "params_delete (params_delete ps k) k = params_delete ps k"
  by (simp add: params_delete_def)

lemma without_busted:
  assumes "wf16 b"
  shows "without_buster (busted (without_buster l) b) = without_buster l"
  unfolding without_buster_def [of "busted (without_buster l) b"] busted_params [OF assms] delete_set
    without_buster_params delete_delete
  by (simp add: busted_def without_buster_def with_params_def)

lemma busted_requested:
  assumes "wf16 b" "b \<noteq> []"
  shows "build_of_param (params_get (pu_params (busted l b)) BUILD_CACHE_BUSTER_QUERY) = Some (normalizeBuild b)"
    "params_has (pu_params (busted l b)) BUILD_CACHE_BUSTER_QUERY"
proof -
  have g: "params_get (pu_params (busted l b)) BUILD_CACHE_BUSTER_QUERY = Some b"
    by (simp add: busted_params [OF assms(1)] params_get_set)
  then show "build_of_param (params_get (pu_params (busted l b)) BUILD_CACHE_BUSTER_QUERY) = Some (normalizeBuild b)"
    using assms(2) by (simp add: build_of_param_def)
  show "params_has (pu_params (busted l b)) BUILD_CACHE_BUSTER_QUERY"
    using g by (force simp: params_has_def params_get_def dest: map_of_SomeD)
qed

lemma reload_location:
  assumes "build_guard new_URL build_param now buildID p = Reload p' l'"
  shows "l' = busted (without_buster (gp_location p)) (normalizeBuildID (Some buildID))"
  using assms by (auto simp: build_guard_def busted_def Let_def split: prod.splits option.splits if_splits)

text \<open>C36: The guard never reloads twice: whatever build answers the reloaded address, and whatever the storages hold then,
  the page starts or goes to the static recovery page.  It starts, at its original address, when the requested
  build answers and its identifier is stable.\<close>

theorem guard_reloads_once:
  assumes "build_guard new_URL build_param now buildID p = Reload p' l'" "gp_location q = l'"
  shows "(\<forall>p'' l''. build_guard new_URL build_param later otherID q \<noteq> Reload p'' l'')
    \<and> (normalizeBuildID (Some otherID) = normalizeBuildID (Some buildID)
       \<and> normalizeBuild (normalizeBuildID (Some buildID)) = normalizeBuildID (Some buildID) \<longrightarrow>
       (\<exists>q'. build_guard new_URL build_param later otherID q = Started q' \<and> gp_location q' = without_buster (gp_location p)))"
proof -
  let ?b = "normalizeBuildID (Some buildID)"
  have l: "gp_location q = busted (without_buster (gp_location p)) ?b" using reload_location [OF assms(1)] assms(2) by simp
  have r: "build_of_param (params_get (pu_params (gp_location q)) BUILD_CACHE_BUSTER_QUERY) = Some (normalizeBuild ?b)"
    "params_has (pu_params (gp_location q)) BUILD_CACHE_BUSTER_QUERY"
    unfolding l by (rule busted_requested [OF build_id_wf build_id_nonempty])+
  obtain recovery session where rs: "read_recovery (gp_session q) = (recovery, session)" by (cases "read_recovery (gp_session q)")
  have g: "build_guard new_URL build_param later otherID q =
      (if normalizeBuild ?b = normalizeBuildID (Some otherID)
       then Started (completeCurrentBuild (normalizeBuildID (Some otherID)) (q\<lparr>gp_session := session\<rparr>))
       else Recovery (q\<lparr>gp_session := session\<rparr>) (redirectToStaticRecovery new_URL recovery (q\<lparr>gp_session := session\<rparr>)))"
    by (simp add: build_guard_def rs r Let_def)
  have "gp_location (completeCurrentBuild b (q\<lparr>gp_session := session\<rparr>)) = without_buster (gp_location p)" for b
    using r(2) by (simp add: completeCurrentBuild_def) (simp add: l without_busted build_id_wf)
  with g show ?thesis by simp
qed


section \<open>Concrete builds\<close>

lemma build_char_facts: "build_char c \<Longrightarrow> \<not> js_ws c"
  by (auto simp: build_char_def is_alnum_def js_ws_def)

lemma normalize_clean:
  assumes "\<forall>c\<in>set s. build_char c" "s \<noteq> []" "hd s \<noteq> 45"
  shows "normalizeBuildID (Some s) = take 80 (rev (dropWhile (\<lambda>c. c = 45) (rev s)))"
proof -
  have "trimmed s" using assms build_char_facts by (simp add: trimmed_def)
  then have t: "trim s = s" by (rule trim_trimmed_id)
  have d: "dash_runs b s = s" if "\<forall>c\<in>set s. build_char c" for b s
    using that by (induction s arbitrary: b) auto
  have h: "dropWhile (\<lambda>c. c = 45) s = s" using assms(2,3) by (cases s) auto
  have "rev (dropWhile (\<lambda>c. c = 45) (rev s)) \<noteq> []"
  proof -
    have "hd s \<in> set (rev s)" using assms(2) by simp
    with assms(3) have "dropWhile (\<lambda>c. c = 45) (rev s) \<noteq> []"
      unfolding dropWhile_eq_Nil_conv by blast
    then show ?thesis by simp
  qed
  then show ?thesis by (auto simp: normalizeBuildID_def Let_def t d [OF assms(1)] strip_dashes_def h)
qed

lemma stable_build:
  assumes "\<forall>c\<in>set s. build_char c" "s \<noteq> []" "hd s \<noteq> 45" "last s \<noteq> 45" "length s \<le> 80"
  shows "normalizeBuildID (Some s) = s"
proof -
  have "dropWhile (\<lambda>c. c = 45) (rev s) = rev s" using assms(2,4) by (cases s rule: rev_cases) auto
  then show ?thesis using normalize_clean [OF assms(1-3)] assms(5) by simp
qed

definition page_with_marker :: "jstr \<Rightarrow> page" where
  "page_with_marker marker =
     \<lparr>gp_local = empty_storage\<lparr>items := [BUILD_MARKER_STORAGE_KEY \<mapsto> marker]\<rparr>, gp_session = empty_storage,
      gp_location = \<lparr>pu_origin = u ''https://lexigo.app'', pu_pathname = u ''/learn'', pu_search = [], pu_hash = []\<rparr>,
      gp_controller = None, gp_caches = [u ''lexigo-shell-old''], gp_deletes = (\<lambda>n. True), gp_unregisters = []\<rparr>"

lemma marker_page:
  "readStorage (gp_local (page_with_marker m)) BUILD_MARKER_STORAGE_KEY = Some m"
  "pu_params (gp_location (page_with_marker m)) = []"
  by (simp_all add: page_with_marker_def readStorage_def getItem_def empty_storage_def pu_params_def params_parse_def utf8_bytes_def)

lemma guard_reloads_once_witness:
  "\<exists>p' l'. build_guard (\<lambda>s. None) (\<lambda>s. None) 0 (u ''v2'') (page_with_marker (u ''v1'')) = Reload p' l'
    \<and> (\<exists>q'. build_guard (\<lambda>s. None) (\<lambda>s. None) 5 (u ''v2'') (p'\<lparr>gp_location := l'\<rparr>) = Started q')"
proof -
  have v: "normalizeBuildID (Some (u ''v1'')) = u ''v1''" "normalizeBuildID (Some (u ''v2'')) = u ''v2''"
    by (rule stable_build; simp add: u_def build_char_def is_alnum_def)+
  have "read_recovery (gp_session (page_with_marker (u ''v1''))) = (None, empty_storage)"
    by (simp add: read_recovery_def page_with_marker_def readStorage_def getItem_def empty_storage_def Let_def)
  then obtain p' l' where r: "build_guard (\<lambda>s. None) (\<lambda>s. None) 0 (u ''v2'') (page_with_marker (u ''v1'')) = Reload p' l'"
    using v by (simp add: build_guard_def marker_page params_get_def Let_def build_of_param_def normalizeBuild_def)
  from guard_reloads_once [OF r, of "p'\<lparr>gp_location := l'\<rparr>" 5 "u ''v2''"] v
  have "\<exists>q'. build_guard (\<lambda>s. None) (\<lambda>s. None) 5 (u ''v2'') (p'\<lparr>gp_location := l'\<rparr>) = Started q'"
    by (auto simp: normalizeBuild_def)
  with r show ?thesis by blast
qed

definition long_build :: jstr where "long_build = replicate 79 97 @ [45, 98]"

lemma long_build_unstable:
  "normalizeBuildID (Some long_build) = replicate 79 97 @ [45]"
  "normalizeBuild (replicate 79 97 @ [45]) = replicate 79 97"
proof -
  have c: "build_char 97" "build_char 45" "build_char 98" by (simp_all add: build_char_def is_alnum_def)
  have "normalizeBuildID (Some long_build) = take 80 long_build"
    using c by (subst normalize_clean) (simp_all add: long_build_def)
  then show "normalizeBuildID (Some long_build) = replicate 79 97 @ [45]" by (simp add: long_build_def)
  have dw: "dropWhile (\<lambda>c. c = 45) (replicate 79 (97::nat)) = replicate 79 97" by (simp add: numeral_eq_Suc)
  have "normalizeBuildID (Some (replicate 79 97 @ [45])) = take 80 (replicate 79 97)"
    using c dw by (subst normalize_clean) simp_all
  then show "normalizeBuild (replicate 79 97 @ [45]) = replicate 79 97" by (simp add: normalizeBuild_def)
qed


end
