(* ===== verification/Rum.thy ===== *)
theory Rum
  imports Build_Update
begin

text \<open>
  \<open>src/frontend/lib/performance-rum.ts\<close>: samples of performance metrics are normalised, collected into reports of
  one context and sent in batches, unless the visitor opted out or the session is not sampled.  What the browser
  answers when an operation runs is the argument \<open>rum_env\<close>; metric names inherited from \<open>Object.prototype\<close> are not
  names of metrics here.
\<close>

section \<open>Data\<close>

datatype RumMetricName = CLS | LCP | INP | FCP | TTFB | NEXT_HYDRATION | NEXT_ROUTE_CHANGE | NEXT_RENDER
  | LONG_TASK_COUNT | LONG_TASK_TOTAL | LONG_TASK_MAX | OBSERVER_CALLBACK_TOTAL | OBSERVER_CALLBACK_MAX
  | ACTION_START_LESSON | ACTION_REVIEW_ANSWER
datatype RumRating = GoodRating | NeedsImprovement | PoorRating | UnknownRating
datatype RumNavigationType = NavNavigate | NavReload | NavBackForward | NavBackForwardCache | NavPrerender | NavRestore | NavUnknown
datatype DeviceClass = Mobile | Tablet | Desktop
datatype BrowserFamily = Chromium | Webkit | Firefox | OtherBrowser
datatype DisplayMode = BrowserMode | Standalone | Fullscreen | MinimalUi | UnknownMode

fun metric_text :: "RumMetricName \<Rightarrow> jstr" where
  "metric_text CLS = u ''CLS''" | "metric_text LCP = u ''LCP''" | "metric_text INP = u ''INP''"
| "metric_text FCP = u ''FCP''" | "metric_text TTFB = u ''TTFB''" | "metric_text NEXT_HYDRATION = u ''NEXT_HYDRATION''"
| "metric_text NEXT_ROUTE_CHANGE = u ''NEXT_ROUTE_CHANGE''" | "metric_text NEXT_RENDER = u ''NEXT_RENDER''"
| "metric_text LONG_TASK_COUNT = u ''LONG_TASK_COUNT''" | "metric_text LONG_TASK_TOTAL = u ''LONG_TASK_TOTAL''"
| "metric_text LONG_TASK_MAX = u ''LONG_TASK_MAX''" | "metric_text OBSERVER_CALLBACK_TOTAL = u ''OBSERVER_CALLBACK_TOTAL''"
| "metric_text OBSERVER_CALLBACK_MAX = u ''OBSERVER_CALLBACK_MAX''"
| "metric_text ACTION_START_LESSON = u ''ACTION_START_LESSON''" | "metric_text ACTION_REVIEW_ANSWER = u ''ACTION_REVIEW_ANSWER''"

fun rum_rating_text :: "RumRating \<Rightarrow> jstr" where
  "rum_rating_text GoodRating = u ''good''" | "rum_rating_text NeedsImprovement = u ''needs-improvement''"
| "rum_rating_text PoorRating = u ''poor''" | "rum_rating_text UnknownRating = u ''unknown''"

fun navigation_text :: "RumNavigationType \<Rightarrow> jstr" where
  "navigation_text NavNavigate = u ''navigate''" | "navigation_text NavReload = u ''reload''"
| "navigation_text NavBackForward = u ''back-forward''" | "navigation_text NavBackForwardCache = u ''back-forward-cache''"
| "navigation_text NavPrerender = u ''prerender''" | "navigation_text NavRestore = u ''restore''"
| "navigation_text NavUnknown = u ''unknown''"

fun device_text :: "DeviceClass \<Rightarrow> jstr" where
  "device_text Mobile = u ''mobile''" | "device_text Tablet = u ''tablet''" | "device_text Desktop = u ''desktop''"

fun browser_text :: "BrowserFamily \<Rightarrow> jstr" where
  "browser_text Chromium = u ''chromium''" | "browser_text Webkit = u ''webkit''" | "browser_text Firefox = u ''firefox''"
| "browser_text OtherBrowser = u ''other''"

fun display_text :: "DisplayMode \<Rightarrow> jstr" where
  "display_text BrowserMode = u ''browser''" | "display_text Standalone = u ''standalone''"
| "display_text Fullscreen = u ''fullscreen''" | "display_text MinimalUi = u ''minimal-ui''"
| "display_text UnknownMode = u ''unknown''"

record WebVitalMetricLike =
  wv_name :: jstr
  wv_value :: jnum
  wv_rating :: "jstr option"
  wv_navigationType :: "jstr option"

record RumSample =
  rs_name :: RumMetricName
  rs_value :: jnum
  rs_rating :: RumRating
  rs_navigationType :: RumNavigationType

record RumContext =
  rx_appVersion :: jstr
  rx_route :: jstr
  rx_deviceClass :: DeviceClass
  rx_browserFamily :: BrowserFamily
  rx_displayMode :: DisplayMode

record RumReport =
  rr_context :: RumContext
  rr_samples :: "RumSample list"

definition context_props :: "RumContext \<Rightarrow> (jstr \<times> jval) list" where
  "context_props c = [(u ''appVersion'', JStr (rx_appVersion c)), (u ''route'', JStr (rx_route c)),
     (u ''deviceClass'', JStr (device_text (rx_deviceClass c))), (u ''browserFamily'', JStr (browser_text (rx_browserFamily c))),
     (u ''displayMode'', JStr (display_text (rx_displayMode c)))]"

definition context_value :: "RumContext \<Rightarrow> jval" where "context_value c = JObj (context_props c)"

definition sample_value :: "RumSample \<Rightarrow> jval" where
  "sample_value s = JObj [(u ''name'', JStr (metric_text (rs_name s))), (u ''value'', JNum (rs_value s)),
     (u ''rating'', JStr (rum_rating_text (rs_rating s))), (u ''navigationType'', JStr (navigation_text (rs_navigationType s)))]"

definition report_body :: "RumReport \<Rightarrow> jstr" where
  "report_body r = json_stringify (JObj (context_props (rr_context r) @ [(u ''samples'', JArr (map sample_value (rr_samples r)))]))"

definition SESSION_SAMPLE_KEY :: jstr where "SESSION_SAMPLE_KEY = u ''lexigo:rum-sampled:v1''"
definition MAX_BATCH_SIZE :: nat where "MAX_BATCH_SIZE = 16"
definition FLUSH_DELAY_MS :: nat where "FLUSH_DELAY_MS = 5000"

definition KNOWN_ROUTES :: "jstr list" where
  "KNOWN_ROUTES = map u [''/'', ''/learn'', ''/dictionary'', ''/phrases'', ''/progress'', ''/profile'', ''/privacy'', ''/terms'', ''/legal'']"

definition METRIC_NAMES :: "(jstr \<times> RumMetricName) list" where
  "METRIC_NAMES = [(u ''CLS'', CLS), (u ''LCP'', LCP), (u ''INP'', INP), (u ''FCP'', FCP), (u ''TTFB'', TTFB),
     (u ''Next.js-hydration'', NEXT_HYDRATION), (u ''Next.js-route-change-to-render'', NEXT_ROUTE_CHANGE),
     (u ''Next.js-render'', NEXT_RENDER)]"

section \<open>Normal forms\<close>

definition normalizePerformanceRoute :: "jstr \<Rightarrow> jstr" where
  "normalizePerformanceRoute pathname =
     (let s = strip_slashes (takeWhile (\<lambda>c. c \<noteq> 63 \<and> c \<noteq> 35) pathname); normalized = (if s = [] then u ''/'' else s) in
      if normalized \<in> set KNOWN_ROUTES then normalized
      else if normalized = u ''/lesson'' \<or> starts_with normalized (u ''/lesson/'') then u ''/lesson''
      else if normalized = u ''/word'' \<or> starts_with normalized (u ''/word/'') then u ''/word''
      else if normalized = u ''/phrase'' \<or> starts_with normalized (u ''/phrase/'') then u ''/phrase''
      else u ''/not-found'')"

definition classifyDevice :: "jnum \<Rightarrow> DeviceClass" where
  "classifyDevice viewportWidth =
     (if viewportWidth < 600 then Mobile else if viewportWidth < 1100 then Tablet else Desktop)"

text \<open>\<open>lower\<close> is \<open>String.prototype.toLowerCase\<close>.\<close>

definition has_text :: "jstr \<Rightarrow> string \<Rightarrow> bool" where
  "has_text s p \<longleftrightarrow> list_ex (\<lambda>i. starts_with (drop i s) (u p)) [0..<Suc (length s)]"

definition classifyBrowser :: "(jstr \<Rightarrow> jstr) \<Rightarrow> jstr \<Rightarrow> BrowserFamily" where
  "classifyBrowser lower userAgent =
     (let normalized = lower userAgent in
      if has_text normalized ''firefox'' \<or> has_text normalized ''fxios'' then Firefox
      else
        let iosWebKit = has_text normalized ''iphone'' \<or> has_text normalized ''ipad'' \<or> has_text normalized ''ipod'' in
        if has_text normalized ''applewebkit''
           \<and> (iosWebKit \<or> \<not> has_text normalized ''chrome'' \<and> \<not> has_text normalized ''chromium'' \<and> \<not> has_text normalized ''edg/'')
        then Webkit
        else if has_text normalized ''chrome'' \<or> has_text normalized ''chromium'' \<or> has_text normalized ''edg/''
          \<or> has_text normalized ''crios'' then Chromium
        else OtherBrowser)"

definition normalizeNavigationType :: "jstr option \<Rightarrow> RumNavigationType" where
  "normalizeNavigationType v =
     (case map_option (map (\<lambda>c. if c = 95 then 45 else c)) v of
        None \<Rightarrow> NavUnknown
      | Some normalized \<Rightarrow>
          (case find (\<lambda>n. navigation_text n = normalized)
             [NavNavigate, NavReload, NavBackForward, NavBackForwardCache, NavPrerender, NavRestore] of
             Some n \<Rightarrow> n | None \<Rightarrow> NavUnknown))"

fun metric_thresholds :: "RumMetricName \<Rightarrow> (jnum \<times> jnum) option" where
  "metric_thresholds CLS = Some (Fin (1 / 10), Fin (1 / 4))"
| "metric_thresholds LCP = Some (2500, 4000)"
| "metric_thresholds INP = Some (200, 500)"
| "metric_thresholds FCP = Some (1800, 3000)"
| "metric_thresholds TTFB = Some (800, 1800)"
| "metric_thresholds m = None"

definition normalizeRating :: "jstr option \<Rightarrow> RumMetricName \<Rightarrow> jnum \<Rightarrow> RumRating" where
  "normalizeRating v metric metricValue =
     (if v = Some (u ''good'') then GoodRating
      else if v = Some (u ''needs-improvement'') then NeedsImprovement
      else if v = Some (u ''poor'') then PoorRating
      else (case metric_thresholds metric of
          None \<Rightarrow> UnknownRating
        | Some (low, high) \<Rightarrow>
            if metricValue \<le> low then GoodRating else if metricValue \<le> high then NeedsImprovement else PoorRating))"

definition mapWebVitalMetric :: "WebVitalMetricLike \<Rightarrow> RumSample option" where
  "mapWebVitalMetric metric =
     (case map_of METRIC_NAMES (wv_name metric) of
        None \<Rightarrow> None
      | Some metric_name \<Rightarrow>
          if \<not> isFinite (wv_value metric) \<or> wv_value metric < 0 then None
          else Some \<lparr>rs_name = metric_name, rs_value = wv_value metric,
            rs_rating = normalizeRating (wv_rating metric) metric_name (wv_value metric),
            rs_navigationType = normalizeNavigationType (wv_navigationType metric)\<rparr>)"

definition sanitizeBuildID :: "jstr option \<Rightarrow> jstr" where
  "sanitizeBuildID v =
     (let normalized = (case v of Some s \<Rightarrow> take 80 (strip_dashes (dash_runs False s)) | None \<Rightarrow> []) in
      if normalized = [] then u ''local'' else normalized)"

definition roundMetricValue :: "jnum \<Rightarrow> jnum" where
  "roundMetricValue v = jdiv (jround (v * 1000)) 1000"

definition isPrivacyOptOutValue :: "(jstr \<Rightarrow> jstr) \<Rightarrow> jstr option \<Rightarrow> bool" where
  "isPrivacyOptOutValue lower v \<longleftrightarrow> v = Some (u ''1'') \<or> map_option lower v = Some (u ''yes'')"

text \<open>\<open>Number.parseFloat\<close>: the longest decimal literal at the start.\<close>

definition parseFloat :: "jstr \<Rightarrow> jnum" where
  "parseFloat s =
     (let t = dropWhile js_ws s; neg = (t \<noteq> [] \<and> hd t = 45); r = (if t \<noteq> [] \<and> (hd t = 45 \<or> hd t = 43) then tl t else t);
          sign = (\<lambda>n. if neg then - n else n); n_inf = length ''Infinity'' in
      if take n_inf r = u ''Infinity'' then sign PInf
      else
        let whole = takeWhile is_digit r; a = dropWhile is_digit r; dot = (a \<noteq> [] \<and> hd a = 46);
            fs = (if dot then takeWhile is_digit (tl a) else []); e = (if dot then dropWhile is_digit (tl a) else a);
            e_digits = (if e \<noteq> [] \<and> (hd e = 101 \<or> hd e = 69)
              then (let x = tl e; y = (if x \<noteq> [] \<and> (hd x = 45 \<or> hd x = 43) then tl x else x) in
                take (1 + (length x - length y) + length (takeWhile is_digit y)) e) else []) in
        if whole = [] \<and> fs = [] then NaN
        else sign (Fin (dec_value whole fs (case exponent e_digits of Some k \<Rightarrow> k | None \<Rightarrow> 0))))"

section \<open>Collection\<close>

text \<open>What the browser answers: which globals exist, the privacy signals, the configured rate, and the page.\<close>

record rum_env =
  re_window :: bool
  re_navigator :: bool
  re_document :: bool
  re_fetch :: bool
  re_matchMedia :: bool
  re_performance :: bool
  re_lower :: "jstr \<Rightarrow> jstr"
  re_globalPrivacyControl :: bool
  re_doNotTrack :: "jstr option"
  re_msDoNotTrack :: "jstr option"
  re_windowDoNotTrack :: "jstr option"
  re_sampleRate :: "jstr option"
  re_production :: bool
  re_random :: jnum
  re_pathname :: jstr
  re_build :: "jstr option"
  re_innerWidth :: jnum
  re_userAgent :: jstr
  re_standalone :: bool
  re_fullscreen :: bool
  re_minimalUi :: bool
  re_navigationEntry :: "jstr option"

text \<open>The module's variables, the session storage, and the requests that were sent.\<close>

record rum_state =
  activeReport :: "RumReport option"
  flushTimer :: bool
  samplingDecision :: "bool option"
  ru_session :: storage
  ru_sent :: "jstr list"

definition opted_out :: "rum_env \<Rightarrow> bool" where
  "opted_out e \<longleftrightarrow> re_globalPrivacyControl e \<or> isPrivacyOptOutValue (re_lower e) (re_doNotTrack e)
     \<or> isPrivacyOptOutValue (re_lower e) (re_msDoNotTrack e) \<or> isPrivacyOptOutValue (re_lower e) (re_windowDoNotTrack e)"

definition sample_rate :: "rum_env \<Rightarrow> jnum" where
  "sample_rate e =
     (let configured = parseFloat (case re_sampleRate e of Some s \<Rightarrow> s | None \<Rightarrow> []);
          fallback = (if re_production e then Fin (1 / 10) else 1) in
      if isFinite configured then jmin 1 (jmax 0 configured) else fallback)"

definition isCollectionEnabled :: "rum_env \<Rightarrow> rum_state \<Rightarrow> bool \<times> rum_state" where
  "isCollectionEnabled e s =
     (if \<not> re_window e \<or> \<not> re_navigator e then (False, s)
      else if opted_out e then (False, s)
      else (case samplingDecision s of
          Some b \<Rightarrow> (b, s)
        | None \<Rightarrow>
            let drawn = re_random e < sample_rate e in
            (case getItem (ru_session s) SESSION_SAMPLE_KEY of
               Inl x \<Rightarrow> (drawn, s\<lparr>samplingDecision := Some drawn\<rparr>)
             | Inr stored \<Rightarrow>
                 if stored = Some (u ''1'') \<or> stored = Some (u ''0'')
                 then (stored = Some (u ''1''), s\<lparr>samplingDecision := Some (stored = Some (u ''1''))\<rparr>)
                 else (case setItem (ru_session s) SESSION_SAMPLE_KEY (if drawn then u ''1'' else u ''0'') of
                     Inr st \<Rightarrow> (drawn, s\<lparr>samplingDecision := Some drawn, ru_session := st\<rparr>)
                   | Inl x \<Rightarrow> (drawn, s\<lparr>samplingDecision := Some drawn\<rparr>)))))"

definition flushPerformanceQueue :: "rum_env \<Rightarrow> rum_state \<Rightarrow> rum_state" where
  "flushPerformanceQueue e s =
     (let cleared = s\<lparr>flushTimer := False, activeReport := None\<rparr> in
      case activeReport s of
        None \<Rightarrow> cleared
      | Some report \<Rightarrow>
          if rr_samples report = [] \<or> \<not> re_navigator e then cleared
          else if re_fetch e then cleared\<lparr>ru_sent := ru_sent s @ [report_body report]\<rparr> else cleared)"

definition scheduleFlush :: "rum_env \<Rightarrow> rum_state \<Rightarrow> rum_state" where
  "scheduleFlush e s = (if flushTimer s \<or> \<not> re_window e then s else s\<lparr>flushTimer := True\<rparr>)"

definition enqueueSample :: "rum_env \<Rightarrow> RumSample \<Rightarrow> RumContext \<Rightarrow> rum_state \<Rightarrow> rum_state" where
  "enqueueSample e sample ctx s0 =
     (case isCollectionEnabled e s0 of
        (False, s) \<Rightarrow> s
      | (True, s) \<Rightarrow>
          let contextKey = json_stringify (context_value ctx);
              s = (case activeReport s of
                  Some r \<Rightarrow> if json_stringify (context_value (rr_context r)) \<noteq> contextKey then flushPerformanceQueue e s else s
                | None \<Rightarrow> s);
              report = (case activeReport s of Some r \<Rightarrow> r | None \<Rightarrow> \<lparr>rr_context = ctx, rr_samples = []\<rparr>);
              report = report\<lparr>rr_samples := rr_samples report @ [sample\<lparr>rs_value := roundMetricValue (rs_value sample)\<rparr>]\<rparr>;
              s = s\<lparr>activeReport := Some report\<rparr> in
          if length (rr_samples report) \<ge> MAX_BATCH_SIZE then flushPerformanceQueue e s else scheduleFlush e s)"

definition currentDisplayMode :: "rum_env \<Rightarrow> DisplayMode" where
  "currentDisplayMode e =
     (if \<not> re_window e \<or> \<not> re_matchMedia e then UnknownMode
      else if re_standalone e then Standalone else if re_fullscreen e then Fullscreen
      else if re_minimalUi e then MinimalUi else BrowserMode)"

definition createContext :: "rum_env \<Rightarrow> jstr option \<Rightarrow> RumContext" where
  "createContext e route =
     \<lparr>rx_appVersion = (if re_document e then sanitizeBuildID (re_build e) else u ''local''),
      rx_route = normalizePerformanceRoute (case route of Some r \<Rightarrow> r | None \<Rightarrow> if re_window e then re_pathname e else u ''/not-found''),
      rx_deviceClass = classifyDevice (if re_window e then re_innerWidth e else 1200),
      rx_browserFamily = classifyBrowser (re_lower e) (if re_navigator e then re_userAgent e else []),
      rx_displayMode = currentDisplayMode e\<rparr>"

definition currentNavigationType :: "rum_env \<Rightarrow> RumNavigationType" where
  "currentNavigationType e =
     (if \<not> re_performance e then NavUnknown else normalizeNavigationType (re_navigationEntry e))"

definition reportWebVitalMetric :: "rum_env \<Rightarrow> WebVitalMetricLike \<Rightarrow> jstr option \<Rightarrow> rum_state \<Rightarrow> rum_state" where
  "reportWebVitalMetric e metric route s =
     (case mapWebVitalMetric metric of Some sample \<Rightarrow> enqueueSample e sample (createContext e route) s | None \<Rightarrow> s)"

text \<open>The totals of a long task observer over the callbacks: the durations of the entries and of the callback itself.\<close>

record task_totals =
  tt_count :: jnum
  tt_total :: jnum
  tt_max :: jnum
  tt_callbackTotal :: jnum
  tt_callbackMax :: jnum

definition no_tasks :: task_totals where
  "no_tasks = \<lparr>tt_count = 0, tt_total = 0, tt_max = 0, tt_callbackTotal = 0, tt_callbackMax = 0\<rparr>"

definition observe_entries :: "jnum list \<times> jnum \<Rightarrow> task_totals \<Rightarrow> task_totals" where
  "observe_entries cb t =
     (let t = fold (\<lambda>d t. t\<lparr>tt_count := tt_count t + 1, tt_total := tt_total t + d, tt_max := jmax (tt_max t) d\<rparr>) (fst cb) t in
      t\<lparr>tt_callbackTotal := tt_callbackTotal t + snd cb, tt_callbackMax := jmax (tt_callbackMax t) (snd cb)\<rparr>)"

text \<open>The function \<open>startLongTaskMonitoring\<close> returns, after the callbacks in between.\<close>

definition stop_monitoring :: "rum_env \<Rightarrow> jstr \<Rightarrow> (jnum list \<times> jnum) list \<Rightarrow> rum_state \<Rightarrow> rum_state" where
  "stop_monitoring e capturedRoute callbacks s =
     (let t = fold observe_entries callbacks no_tasks in
      if tt_count t = 0 then s
      else
        let navigationType = currentNavigationType e; ctx = createContext e (Some capturedRoute);
            sample = (\<lambda>metric v. enqueueSample e
              \<lparr>rs_name = metric, rs_value = v, rs_rating = UnknownRating, rs_navigationType = navigationType\<rparr> ctx);
            s = sample LONG_TASK_COUNT (tt_count t) s;
            s = sample LONG_TASK_TOTAL (tt_total t) s;
            s = sample LONG_TASK_MAX (tt_max t) s;
            s = sample OBSERVER_CALLBACK_TOTAL (tt_callbackTotal t) s;
            s = sample OBSERVER_CALLBACK_MAX (tt_callbackMax t) s in
        flushPerformanceQueue e s)"

text \<open>Whether monitoring starts, and the route it captures; the observer must support long tasks.\<close>

definition startLongTaskMonitoring :: "rum_env \<Rightarrow> bool \<Rightarrow> jstr \<Rightarrow> rum_state \<Rightarrow> jstr option \<times> rum_state" where
  "startLongTaskMonitoring e longtask_supported route s0 =
     (case isCollectionEnabled e s0 of
        (False, s) \<Rightarrow> (None, s)
      | (True, s) \<Rightarrow> (if longtask_supported then Some (normalizePerformanceRoute route) else None, s))"

text \<open>A click inside a rating button or on the submit button of the lesson setup.\<close>

definition action_metric :: "bool \<Rightarrow> bool \<Rightarrow> RumMetricName option" where
  "action_metric in_rating in_setup_submit =
     (if in_rating then Some ACTION_REVIEW_ANSWER else if in_setup_submit then Some ACTION_START_LESSON else None)"

definition action_measured :: "rum_env \<Rightarrow> RumMetricName \<Rightarrow> jnum \<Rightarrow> rum_state \<Rightarrow> rum_state" where
  "action_measured e metric elapsed s =
     enqueueSample e \<lparr>rs_name = metric, rs_value = elapsed, rs_rating = UnknownRating,
       rs_navigationType = currentNavigationType e\<rparr> (createContext e None) s"

definition resetPerformanceRUMForTests :: "rum_state \<Rightarrow> rum_state" where
  "resetPerformanceRUMForTests s = s\<lparr>activeReport := None, flushTimer := False, samplingDecision := None\<rparr>"

section \<open>Every accepted sample is sent once, in a batch of its own context\<close>

datatype rum_op = Enqueue rum_env RumSample RumContext | Flush rum_env

fun run_op :: "rum_op \<Rightarrow> rum_state \<Rightarrow> rum_state" where
  "run_op (Enqueue e sample ctx) s = enqueueSample e sample ctx s"
| "run_op (Flush e) s = flushPerformanceQueue e s"

datatype rum_event = MetricReported rum_env WebVitalMetricLike "jstr option"
  | MonitoringStopped rum_env jstr "(jnum list \<times> jnum) list"
  | ActionMeasured rum_env RumMetricName jnum | FlushRequested rum_env

fun rum_step :: "rum_event \<Rightarrow> rum_state \<Rightarrow> rum_state" where
  "rum_step (MetricReported e metric route) s = reportWebVitalMetric e metric route s"
| "rum_step (MonitoringStopped e route callbacks) s = stop_monitoring e route callbacks s"
| "rum_step (ActionMeasured e metric elapsed) s = action_measured e metric elapsed s"
| "rum_step (FlushRequested e) s = flushPerformanceQueue e s"

text \<open>The samples an event offers, in order, and whether it ends with a flush.\<close>

fun rum_ops :: "rum_event \<Rightarrow> rum_op list" where
  "rum_ops (MetricReported e metric route) =
     (case mapWebVitalMetric metric of Some sample \<Rightarrow> [Enqueue e sample (createContext e route)] | None \<Rightarrow> [])"
| "rum_ops (MonitoringStopped e route callbacks) =
     (let t = fold observe_entries callbacks no_tasks in
      if tt_count t = 0 then []
      else map (\<lambda>(metric, v). Enqueue e \<lparr>rs_name = metric, rs_value = v, rs_rating = UnknownRating,
             rs_navigationType = currentNavigationType e\<rparr> (createContext e (Some route)))
           [(LONG_TASK_COUNT, tt_count t), (LONG_TASK_TOTAL, tt_total t), (LONG_TASK_MAX, tt_max t),
            (OBSERVER_CALLBACK_TOTAL, tt_callbackTotal t), (OBSERVER_CALLBACK_MAX, tt_callbackMax t)] @ [Flush e])"
| "rum_ops (ActionMeasured e metric elapsed) =
     [Enqueue e \<lparr>rs_name = metric, rs_value = elapsed, rs_rating = UnknownRating, rs_navigationType = currentNavigationType e\<rparr>
        (createContext e None)]"
| "rum_ops (FlushRequested e) = [Flush e]"

lemma rum_step_ops: "rum_step ev s = fold run_op (rum_ops ev) s"
  by (cases ev) (auto simp: reportWebVitalMetric_def stop_monitoring_def action_measured_def Let_def split: option.split)

text \<open>What collection accepts: the sample with its rounded value and its context.\<close>

fun accepted_op :: "rum_op \<Rightarrow> rum_state \<Rightarrow> (RumContext \<times> RumSample) list" where
  "accepted_op (Enqueue e sample ctx) s =
     (if fst (isCollectionEnabled e s) then [(ctx, sample\<lparr>rs_value := roundMetricValue (rs_value sample)\<rparr>)] else [])"
| "accepted_op (Flush e) s = []"

fun accepted :: "rum_op list \<Rightarrow> rum_state \<Rightarrow> (RumContext \<times> RumSample) list" where
  "accepted [] s = []"
| "accepted (x # xs) s = accepted_op x s @ accepted xs (run_op x s)"

fun op_ok :: "rum_op \<Rightarrow> bool" where
  "op_ok (Enqueue e sample ctx) \<longleftrightarrow> re_window e \<and> re_navigator e \<and> re_fetch e \<and> clean (context_value ctx)"
| "op_ok (Flush e) \<longleftrightarrow> re_navigator e \<and> re_fetch e"

definition tagged :: "RumReport list \<Rightarrow> (RumContext \<times> RumSample) list" where
  "tagged rs = concat (map (\<lambda>r. map (\<lambda>s. (rr_context r, s)) (rr_samples r)) rs)"

definition waiting :: "rum_state \<Rightarrow> RumReport list" where
  "waiting s = (case activeReport s of Some r \<Rightarrow> [r] | None \<Rightarrow> [])"

definition delivered :: "rum_state \<Rightarrow> (RumContext \<times> RumSample) list \<Rightarrow> bool" where
  "delivered s taken \<longleftrightarrow>
     (\<exists>reports. ru_sent s = map report_body reports \<and> (\<forall>r\<in>set reports. rr_samples r \<noteq> [] \<and> length (rr_samples r) \<le> 16)
        \<and> (\<forall>r\<in>set (waiting s). rr_samples r \<noteq> [] \<and> length (rr_samples r) < 16 \<and> clean (context_value (rr_context r)) \<and> flushTimer s)
        \<and> tagged (reports @ waiting s) = taken)"

lemma texts_inject:
  "device_text a = device_text b \<longleftrightarrow> a = b" "browser_text c = browser_text d \<longleftrightarrow> c = d" "display_text x = display_text y \<longleftrightarrow> x = y"
proof -
  show "device_text a = device_text b \<longleftrightarrow> a = b" by (cases a; cases b) simp_all
  show "browser_text c = browser_text d \<longleftrightarrow> c = d" by (cases c; cases d) simp_all
  show "display_text x = display_text y \<longleftrightarrow> x = y" by (cases x; cases y) simp_all
qed

lemma same_context:
  assumes "clean (context_value a)" "clean (context_value b)"
    "json_stringify (context_value a) = json_stringify (context_value b)"
  shows "a = b"
proof -
  have "context_value a = context_value b"
    using json.dec_enc [OF assms(1)] json.dec_enc [OF assms(2)] assms(3) by (metis option.inject)
  then have "context_props a = context_props b" by (simp only: context_value_def jval.inject)
  then have "rx_appVersion a = rx_appVersion b \<and> rx_route a = rx_route b \<and> rx_deviceClass a = rx_deviceClass b
      \<and> rx_browserFamily a = rx_browserFamily b \<and> rx_displayMode a = rx_displayMode b"
    unfolding context_props_def list.inject prod.inject jval.inject texts_inject by blast
  then show ?thesis by (intro RumContext.equality) simp_all
qed

lemma enabled_keeps:
  "activeReport (snd (isCollectionEnabled e s)) = activeReport s" "flushTimer (snd (isCollectionEnabled e s)) = flushTimer s"
  "ru_sent (snd (isCollectionEnabled e s)) = ru_sent s"
  by (auto simp: isCollectionEnabled_def Let_def split: option.split sum.split)

lemma flush_delivered:
  assumes "delivered s taken" "re_navigator e" "re_fetch e"
  shows "delivered (flushPerformanceQueue e s) taken \<and> activeReport (flushPerformanceQueue e s) = None"
proof -
  obtain reports where r: "ru_sent s = map report_body reports" "\<forall>r\<in>set reports. rr_samples r \<noteq> [] \<and> length (rr_samples r) \<le> 16"
    "\<forall>r\<in>set (waiting s). rr_samples r \<noteq> [] \<and> length (rr_samples r) < 16 \<and> clean (context_value (rr_context r)) \<and> flushTimer s"
    "tagged (reports @ waiting s) = taken"
    using assms(1) by (auto simp: delivered_def)
  show ?thesis
    unfolding delivered_def
    using r assms(2,3)
    by (intro conjI exI [of _ "reports @ waiting s"])
      (auto simp: flushPerformanceQueue_def Let_def waiting_def split: option.splits)
qed

lemma add_delivered:
  fixes x :: RumSample
  assumes "delivered s taken" "clean (context_value ctx)" "re_window e" "re_navigator e" "re_fetch e"
    "\<And>r. activeReport s = Some r \<Longrightarrow> rr_context r = ctx"
  defines "report \<equiv> (case activeReport s of Some r \<Rightarrow> r | None \<Rightarrow> \<lparr>rr_context = ctx, rr_samples = []\<rparr>)"
  defines "report' \<equiv> report\<lparr>rr_samples := rr_samples report @ [x]\<rparr>"
  shows "delivered (if length (rr_samples report') \<ge> MAX_BATCH_SIZE then flushPerformanceQueue e (s\<lparr>activeReport := Some report'\<rparr>)
      else scheduleFlush e (s\<lparr>activeReport := Some report'\<rparr>)) (taken @ [(ctx, x)])"
proof -
  obtain reports where r: "ru_sent s = map report_body reports" "\<forall>r\<in>set reports. rr_samples r \<noteq> [] \<and> length (rr_samples r) \<le> 16"
    "\<forall>r\<in>set (waiting s). rr_samples r \<noteq> [] \<and> length (rr_samples r) < 16 \<and> clean (context_value (rr_context r)) \<and> flushTimer s"
    "tagged (reports @ waiting s) = taken"
    using assms(1) by (auto simp: delivered_def)
  have c: "rr_context report' = ctx" using assms(6) by (simp add: report'_def report_def split: option.split)
  have len: "length (rr_samples report') \<le> 16" "rr_samples report' \<noteq> []"
    using r(3) by (auto simp: report'_def report_def waiting_def split: option.splits)
  have tag: "tagged (reports @ [report']) = taken @ [(ctx, x)]"
  proof (cases "activeReport s")
    case None
    then show ?thesis using r(4) by (simp add: tagged_def waiting_def report'_def report_def)
  next
    case (Some a)
    then have "rr_context a = ctx" by (rule assms(6))
    with Some show ?thesis using r(4) [symmetric] by (simp add: tagged_def waiting_def report'_def report_def)
  qed
  show ?thesis
  proof (cases "length (rr_samples report') \<ge> MAX_BATCH_SIZE")
    case True
    then show ?thesis using r(1,2) len tag assms(4,5)
      unfolding delivered_def
      by (intro exI [of _ "reports @ [report']"]) (simp add: flushPerformanceQueue_def Let_def waiting_def)
  next
    case False
    then show ?thesis using r(1,2) len tag assms(2,3) c
      unfolding delivered_def
      by (intro exI [of _ reports]) (simp add: scheduleFlush_def waiting_def MAX_BATCH_SIZE_def)
  qed
qed

lemma op_delivered:
  assumes "delivered s taken" "op_ok x"
  shows "delivered (run_op x s) (taken @ accepted_op x s)"
proof (cases x)
  case (Flush e)
  with assms flush_delivered show ?thesis by simp
next
  case (Enqueue e sample ctx)
  obtain b s1 where en: "isCollectionEnabled e s = (b, s1)" by (cases "isCollectionEnabled e s")
  then have keep: "activeReport s1 = activeReport s" "flushTimer s1 = flushTimer s" "ru_sent s1 = ru_sent s"
    using enabled_keeps [of e s] by simp_all
  then have d1: "delivered s1 taken" using assms(1) by (simp add: delivered_def waiting_def)
  have ok: "re_window e" "re_navigator e" "re_fetch e" "clean (context_value ctx)" using assms(2) Enqueue by simp_all
  show ?thesis
  proof (cases b)
    case False
    with en d1 Enqueue show ?thesis by (simp add: enqueueSample_def)
  next
    case True
    define s2 where "s2 = (case activeReport s1 of
        Some r \<Rightarrow> if json_stringify (context_value (rr_context r)) \<noteq> json_stringify (context_value ctx) then flushPerformanceQueue e s1 else s1
      | None \<Rightarrow> s1)"
    have d2: "delivered s2 taken" using d1 flush_delivered [OF d1 ok(2,3)] by (simp add: s2_def split: option.split)
    have same: "rr_context r = ctx" if "activeReport s2 = Some r" for r
    proof -
      have "activeReport s1 = Some r" "json_stringify (context_value (rr_context r)) = json_stringify (context_value ctx)"
        using that flush_delivered [OF d1 ok(2,3)] by (auto simp: s2_def split: option.splits if_splits)
      moreover from this d1 have "clean (context_value (rr_context r))" by (auto simp: delivered_def waiting_def)
      ultimately show ?thesis using same_context ok(4) by blast
    qed
    define report where "report = (case activeReport s2 of Some r \<Rightarrow> r | None \<Rightarrow> \<lparr>rr_context = ctx, rr_samples = []\<rparr>)"
    define report' where "report' = report\<lparr>rr_samples := rr_samples report @ [sample\<lparr>rs_value := roundMetricValue (rs_value sample)\<rparr>]\<rparr>"
    have eq: "enqueueSample e sample ctx s = (if length (rr_samples report') \<ge> MAX_BATCH_SIZE
        then flushPerformanceQueue e (s2\<lparr>activeReport := Some report'\<rparr>) else scheduleFlush e (s2\<lparr>activeReport := Some report'\<rparr>))"
      unfolding enqueueSample_def en Let_def by (simp only: True prod.case bool.case s2_def report_def report'_def)
    have acc: "accepted_op (Enqueue e sample ctx) s = [(ctx, sample\<lparr>rs_value := roundMetricValue (rs_value sample)\<rparr>)]" using en True Enqueue by simp
    show ?thesis
      unfolding Enqueue acc run_op.simps eq report'_def report_def by (rule add_delivered [OF d2 ok(4,1-3) same])
  qed
qed

lemma ops_delivered:
  "delivered s taken \<Longrightarrow> list_all op_ok xs \<Longrightarrow> delivered (fold run_op xs s) (taken @ accepted xs s)"
proof (induction xs arbitrary: s taken)
  case (Cons x xs)
  from Cons.IH [OF op_delivered [OF Cons.prems(1)]] Cons.prems(2) show ?case by simp
qed simp

lemma known_route: "\<exists>r. normalizePerformanceRoute p = u r"
proof -
  have "x \<in> set KNOWN_ROUTES \<Longrightarrow> \<exists>r. x = u r" for x by (auto simp: KNOWN_ROUTES_def)
  then show ?thesis by (auto simp: normalizePerformanceRoute_def Let_def)
qed

lemma context_clean: "clean (context_value (createContext e route))"
proof -
  have st: "c \<in> set (strip_dashes s) \<Longrightarrow> c \<in> set s" for c s
    by (auto simp: strip_dashes_def dest!: set_dropWhileD)
  have "c \<in> set (sanitizeBuildID v) \<Longrightarrow> build_char c" for c v
    by (auto simp: sanitizeBuildID_def Let_def build_char_def is_alnum_def u_def
        dest!: in_set_takeD st dash_runs_chars split: if_splits option.splits)
  then have b: "units_ok (sanitizeBuildID v)" for v
    by (fastforce simp: units_ok_def build_char_def is_alnum_def)
  have r: "units_ok (normalizePerformanceRoute p)" for p using known_route [of p] by auto
  have d: "units_ok (device_text d)" for d by (cases d) simp_all
  have f: "units_ok (browser_text f)" for f by (cases f) simp_all
  have m: "units_ok (display_text m)" for m by (cases m) simp_all
  show ?thesis using b r d f m by (simp add: context_value_def context_props_def createContext_def)
qed

fun event_env :: "rum_event \<Rightarrow> rum_env" where
  "event_env (MetricReported e metric route) = e" | "event_env (MonitoringStopped e route callbacks) = e"
| "event_env (ActionMeasured e metric elapsed) = e" | "event_env (FlushRequested e) = e"

text \<open>In every history of a browser page the samples that collection accepted are, in order, those of the reports sent
  and of the waiting report: none is lost, doubled or sent with another context; every report sent has between one
  and sixteen samples, and a waiting report always has a flush scheduled.\<close>

theorem samples_delivered_once:
  assumes "\<forall>ev\<in>set events. re_window (event_env ev) \<and> re_navigator (event_env ev) \<and> re_fetch (event_env ev)"
    "activeReport start = None" "ru_sent start = []"
  shows "delivered (fold rum_step events start) (accepted (concat (map rum_ops events)) start)"
proof -
  have "list_all op_ok (rum_ops ev)" if "ev \<in> set events" for ev
    using assms(1) that context_clean by (cases ev) (auto simp: Let_def split: option.split)
  then have ok: "list_all op_ok (concat (map rum_ops events))" by (auto simp: list_all_iff)
  have "fold rum_step events s = fold run_op (concat (map rum_ops events)) s" for s
    by (induction events arbitrary: s) (simp_all add: rum_step_ops)
  moreover have "delivered start []" using assms(2,3) by (simp add: delivered_def waiting_def tagged_def)
  ultimately show ?thesis using ops_delivered [OF _ ok, of start "[]"] by simp
qed

definition sample_env :: rum_env where
  "sample_env = \<lparr>re_window = True, re_navigator = True, re_document = True, re_fetch = True, re_matchMedia = True,
     re_performance = True, re_lower = id, re_globalPrivacyControl = False, re_doNotTrack = None, re_msDoNotTrack = None,
     re_windowDoNotTrack = None, re_sampleRate = None, re_production = False, re_random = 0, re_pathname = u ''/learn'',
     re_build = Some (u ''v1''), re_innerWidth = 800, re_userAgent = u ''firefox'', re_standalone = False, re_fullscreen = False,
     re_minimalUi = False, re_navigationEntry = Some (u ''reload'')\<rparr>"

definition fresh_rum :: rum_state where
  "fresh_rum = \<lparr>activeReport = None, flushTimer = False, samplingDecision = Some True, ru_session = empty_storage, ru_sent = []\<rparr>"

definition sample_metric :: WebVitalMetricLike where
  "sample_metric = \<lparr>wv_name = u ''LCP'', wv_value = 1200, wv_rating = None, wv_navigationType = None\<rparr>"

text \<open>One metric is accepted, and after the timer it has been sent in one report.\<close>

lemma samples_delivered_once_witness:
  "let events = [MetricReported sample_env sample_metric None, FlushRequested sample_env] in
    length (accepted (concat (map rum_ops events)) fresh_rum) = 1 \<and> length (ru_sent (fold rum_step events fresh_rum)) = 1"
proof -
  let ?events = "[MetricReported sample_env sample_metric None, FlushRequested sample_env]"
  have m: "mapWebVitalMetric sample_metric
      = Some \<lparr>rs_name = LCP, rs_value = 1200, rs_rating = GoodRating, rs_navigationType = NavUnknown\<rparr>"
    by (simp add: mapWebVitalMetric_def sample_metric_def METRIC_NAMES_def normalizeRating_def normalizeNavigationType_def)
  have en: "fst (isCollectionEnabled sample_env fresh_rum)"
    by (simp add: isCollectionEnabled_def sample_env_def opted_out_def isPrivacyOptOutValue_def fresh_rum_def)
  have acc: "length (accepted (concat (map rum_ops ?events)) fresh_rum) = 1" using m en by simp
  have "delivered (fold rum_step ?events fresh_rum) (accepted (concat (map rum_ops ?events)) fresh_rum)"
    by (rule samples_delivered_once) (simp_all add: sample_env_def fresh_rum_def)
  moreover have "waiting (fold rum_step ?events fresh_rum) = []"
    by (simp add: waiting_def flushPerformanceQueue_def Let_def split: option.split)
  ultimately obtain reports where r: "ru_sent (fold rum_step ?events fresh_rum) = map report_body reports"
    "\<forall>r\<in>set reports. rr_samples r \<noteq> []" "length (tagged reports) = 1"
    using acc by (auto simp: delivered_def)
  have "length rs \<le> length (tagged rs)" if "\<forall>r\<in>set rs. rr_samples r \<noteq> []" for rs
    using that
  proof (induction rs)
    case (Cons r rs)
    then show ?case by (cases "rr_samples r") (auto simp: tagged_def)
  qed simp
  with r have "length reports \<le> 1" by fastforce
  moreover have "reports \<noteq> []" using r(3) by (auto simp: tagged_def)
  ultimately have "length reports = 1" by (cases reports) auto
  with acc r(1) show ?thesis by (simp add: Let_def)
qed

end
