(* ===== verification/Account_Resources.thy ===== *)
theory Account_Resources
  imports Progress Request_Failure Scenarios
begin

text \<open>
  \<open>src/frontend/lib/account-resources.ts\<close>: the status of a loaded resource and the guards that decide whether a
  decoded response is a learning item, a page of items, an active lesson or a progress summary.  \<open>date_parse\<close> is
  \<open>Date.parse\<close>.  The types the guards stand for are written as values of a small type language, so that what an
  accepted value looks like can be stated.
\<close>

section \<open>Status\<close>

datatype ResourcePhase = IdlePhase | LoadingPhase | ReadyPhase | ErrorPhase

record ResourceStatus =
  ar_phase :: ResourcePhase
  ar_problem :: "RequestProblem option"

definition idleResourceStatus :: ResourceStatus where
  "idleResourceStatus = \<lparr>ar_phase = IdlePhase, ar_problem = None\<rparr>"
definition loadingResourceStatus :: ResourceStatus where
  "loadingResourceStatus = \<lparr>ar_phase = LoadingPhase, ar_problem = None\<rparr>"
definition readyResourceStatus :: ResourceStatus where
  "readyResourceStatus = \<lparr>ar_phase = ReadyPhase, ar_problem = None\<rparr>"
definition failedResourceStatus :: "thrown \<Rightarrow> jstr \<Rightarrow> ResourceStatus" where
  "failedResourceStatus err resource = \<lparr>ar_phase = ErrorPhase, ar_problem = Some (describeRequestFailure err resource)\<rparr>"

section \<open>Literals\<close>

definition LESSON_SOURCES :: "string list" where
  "LESSON_SOURCES = [''mixed'', ''noun'', ''verb'', ''adjective'', ''phrases'', ''daily-life'', ''travel'',
     ''data-engineering'', ''backend'', ''academic-technical-english'']"
definition STUDY_MODES :: "string list" where "STUDY_MODES = [''study'', ''recall'', ''choice'']"
definition LESSON_SESSION_KINDS :: "string list" where
  "LESSON_SESSION_KINDS = [''study'', ''review'', ''remediation'']"
definition LESSON_SELECTION_REASONS :: "string list" where
  "LESSON_SELECTION_REASONS = [''recent_failure'', ''due'', ''overdue'', ''relearning_due'', ''repeated_again'',
     ''repeated_almost'', ''weak_topic'', ''new'', ''scheduled'', ''manual'']"
definition SCENARIO_TYPES :: "string list" where
  "SCENARIO_TYPES = [''incident'', ''troubleshooting'', ''architecture-review'', ''data-pipeline'', ''release'',
     ''status-update'']"
definition SCENARIO_RECOMMENDATION_REASONS :: "string list" where
  "SCENARIO_RECOMMENDATION_REASONS = [''resume_in_progress'', ''first_uncompleted'', ''least_recently_completed'']"
definition SCENARIO_RECOMMENDATION_ACTIONS :: "string list" where
  "SCENARIO_RECOMMENDATION_ACTIONS = [''start'', ''resume'']"

section \<open>Guards\<close>

definition isNonNegativeNumber :: "jval \<Rightarrow> bool" where
  "isNonNegativeNumber v \<longleftrightarrow> v_isFinite v \<and> num_of v \<ge> 0"

definition ar_isNonNegativeInteger :: "jval \<Rightarrow> bool" where
  "ar_isNonNegativeInteger v \<longleftrightarrow> v_isInteger v \<and> isNonNegativeNumber v"

definition ar_isPositiveInteger :: "jval \<Rightarrow> bool" where
  "ar_isPositiveInteger v \<longleftrightarrow> v_isInteger v \<and> v_isFinite v \<and> num_of v > 0"

definition ar_isNonEmptyString :: "jval \<Rightarrow> bool" where
  "ar_isNonEmptyString v \<longleftrightarrow> is_string v \<and> length (trim (str_of v)) > 0"

definition isOptionalString :: "jval \<Rightarrow> bool" where
  "isOptionalString v \<longleftrightarrow> v = JUndef \<or> is_string v"

definition isOptionalStringArray :: "jval \<Rightarrow> bool" where
  "isOptionalStringArray v \<longleftrightarrow> v = JUndef \<or> (is_array v \<and> list_all is_string (arr_of v))"

definition ar_isTimestamp :: "(jstr \<Rightarrow> jnum) \<Rightarrow> jval \<Rightarrow> bool" where
  "ar_isTimestamp date_parse v \<longleftrightarrow> is_string v \<and> isFinite (date_parse (str_of v))"

definition isLearningItemPayload :: "jval \<Rightarrow> bool" where
  "isLearningItemPayload v \<longleftrightarrow>
     isRecord v
     \<and> v_isInteger (jget v ''id'')
     \<and> (is_lit (jget v ''kind'') ''word'' \<or> is_lit (jget v ''kind'') ''phrase'')
     \<and> is_string (jget v ''lemma'')
     \<and> is_string (jget v ''translation'')
     \<and> is_string (jget v ''phonetic'')
     \<and> is_string (jget v ''partOfSpeech'')
     \<and> is_string (jget v ''topic'')
     \<and> isOptionalStringArray (jget v ''aliases'')
     \<and> isOptionalStringArray (jget v ''acceptedAnswers'')
     \<and> is_array (jget v ''examples'')
     \<and> list_all is_string (arr_of (jget v ''examples''))
     \<and> is_string (jget v ''note'')
     \<and> is_string (jget v ''status'')
     \<and> isOptionalString (jget v ''slug'')
     \<and> isOptionalString (jget v ''cloze'')
     \<and> isOptionalString (jget v ''clozeAnswer'')
     \<and> isOptionalString (jget v ''reviewedAt'')"

definition optional_ok :: "(jval \<Rightarrow> bool) \<Rightarrow> jval \<Rightarrow> bool" where
  "optional_ok p v \<longleftrightarrow> v = JUndef \<or> p v"

definition isItemsResponsePayload :: "jval \<Rightarrow> bool" where
  "isItemsResponsePayload v \<longleftrightarrow>
     isRecord v \<and> is_array (jget v ''items'') \<and> list_all isLearningItemPayload (arr_of (jget v ''items''))
     \<and> isNonNegativeNumber (jget v ''count'')
     \<and> list_all (\<lambda>k. optional_ok isNonNegativeNumber (jget v k)) [''total'', ''totalPages'']
     \<and> list_all (\<lambda>k. optional_ok (\<lambda>e. v_isFinite e \<and> num_of e > 0) (jget v k)) [''page'', ''pageSize'']
     \<and> list_all (\<lambda>k. optional_ok is_boolean (jget v k)) [''hasPrevious'', ''hasNext'']"

definition lesson_item_ok :: "jval \<Rightarrow> bool" where
  "lesson_item_ok item \<longleftrightarrow>
     isLearningItemPayload item \<and> isRecord item \<and> isNonNegativeNumber (jget item ''position'')
     \<and> optional_ok (one_of LESSON_SELECTION_REASONS) (jget item ''reason'')"

definition isActiveLessonPayload :: "(jstr \<Rightarrow> jnum) \<Rightarrow> jval \<Rightarrow> bool" where
  "isActiveLessonPayload date_parse v \<longleftrightarrow>
     isRecord v
     \<and> is_string (jget v ''id'')
     \<and> one_of LESSON_SOURCES (jget v ''source'')
     \<and> one_of STUDY_MODES (jget v ''studyMode'')
     \<and> optional_ok (\<lambda>k. is_string k \<and> one_of LESSON_SESSION_KINDS k) (jget v ''sessionKind'')
     \<and> is_string (jget v ''lessonSize'')
     \<and> isNonNegativeNumber (jget v ''currentIndex'')
     \<and> isNonNegativeNumber (jget v ''version'')
     \<and> is_lit (jget v ''status'') ''active''
     \<and> is_array (jget v ''items'')
     \<and> list_all lesson_item_ok (arr_of (jget v ''items''))
     \<and> ar_isTimestamp date_parse (jget v ''createdAt'')
     \<and> ar_isTimestamp date_parse (jget v ''updatedAt'')"

section \<open>Progress\<close>

definition REQUIRED_PROGRESS_FIELDS :: "string list" where
  "REQUIRED_PROGRESS_FIELDS = [''dueNow'', ''dueWords'', ''duePhrases'', ''totalWords'', ''totalPhrases'', ''newWords'',
     ''learningWords'', ''reviewWords'', ''masteredWords'', ''masteredPhrases'', ''reviewsToday'', ''successfulToday'',
     ''reviewsTotal'', ''dailyGoal'', ''currentStreak'', ''longestStreak'', ''retainedItemsWeek'', ''retainedWordsWeek'',
     ''retainedPhrasesWeek'']"

definition MODE_PROGRESS_FIELDS :: "string list" where
  "MODE_PROGRESS_FIELDS = [''attemptsToday'', ''successfulToday'', ''attemptsTotal'', ''successfulTotal'']"

definition isModeProgress :: "jval \<Rightarrow> bool" where
  "isModeProgress v \<longleftrightarrow> isRecord v \<and> list_all (\<lambda>k. isNonNegativeNumber (jget v k)) MODE_PROGRESS_FIELDS"

definition isProgressModes :: "jval \<Rightarrow> bool" where
  "isProgressModes v \<longleftrightarrow>
     isRecord v \<and> isModeProgress (jget v ''study'') \<and> isModeProgress (jget v ''recall'')
     \<and> isModeProgress (jget v ''choice'') \<and> isModeProgress (jget v ''legacy'')"

definition isPercentage :: "jval \<Rightarrow> bool" where
  "isPercentage v \<longleftrightarrow> v_isInteger v \<and> isNonNegativeNumber v \<and> num_of v \<le> 100"

text \<open>Four, two and two digits between dashes, that \<open>Date.parse\<close> accepts as a day.\<close>

definition date_only_text :: "jstr \<Rightarrow> bool" where
  "date_only_text s \<longleftrightarrow> length s = 10 \<and> s ! 4 = 45 \<and> s ! 7 = 45
     \<and> list_all (\<lambda>i. is_digit (s ! i)) [0, 1, 2, 3, 5, 6, 8, 9]"

definition isDateOnly :: "(jstr \<Rightarrow> jnum) \<Rightarrow> jval \<Rightarrow> bool" where
  "isDateOnly date_parse v \<longleftrightarrow> is_string v \<and> date_only_text (str_of v)
     \<and> isFinite (date_parse (str_of v @ u ''T00:00:00Z''))"

definition isDailyRecallEvidence :: "(jstr \<Rightarrow> jnum) \<Rightarrow> jval \<Rightarrow> bool" where
  "isDailyRecallEvidence date_parse v \<longleftrightarrow>
     isRecord v \<and> isDateOnly date_parse (jget v ''date'') \<and> isNonNegativeNumber (jget v ''attempts'')
     \<and> isNonNegativeNumber (jget v ''successful'') \<and> isPercentage (jget v ''rate'')"

definition isTopicEvidence :: "jval \<Rightarrow> bool" where
  "isTopicEvidence v \<longleftrightarrow>
     isRecord v \<and> is_string (jget v ''topic'') \<and> isNonNegativeNumber (jget v ''attempts'')
     \<and> isNonNegativeNumber (jget v ''successful'') \<and> isNonNegativeNumber (jget v ''errors'')
     \<and> isPercentage (jget v ''rate'')"

definition isPartOfSpeechEvidence :: "jval \<Rightarrow> bool" where
  "isPartOfSpeechEvidence v \<longleftrightarrow>
     isRecord v \<and> is_string (jget v ''partOfSpeech'') \<and> length (trim (str_of (jget v ''partOfSpeech''))) > 0
     \<and> isNonNegativeNumber (jget v ''attempts'') \<and> isNonNegativeNumber (jget v ''successful'')
     \<and> isNonNegativeNumber (jget v ''errors'') \<and> isPercentage (jget v ''rate'')"

definition isWeeklyProgressEvidence :: "(jstr \<Rightarrow> jnum) \<Rightarrow> jval \<Rightarrow> bool" where
  "isWeeklyProgressEvidence date_parse v \<longleftrightarrow>
     isRecord v
     \<and> isDateOnly date_parse (jget v ''weekStart'')
     \<and> isDateOnly date_parse (jget v ''weekEnd'')
     \<and> isNonNegativeNumber (jget v ''recallAttempts'')
     \<and> isNonNegativeNumber (jget v ''recallSuccessful'')
     \<and> isPercentage (jget v ''recallRate'')
     \<and> isNonNegativeNumber (jget v ''previousRecallAttempts'')
     \<and> isNonNegativeNumber (jget v ''previousRecallSuccessful'')
     \<and> isPercentage (jget v ''previousRecallRate'')
     \<and> isNonNegativeNumber (jget v ''choiceAttempts'')
     \<and> isNonNegativeNumber (jget v ''choiceSuccessful'')
     \<and> isPercentage (jget v ''choiceRate'')
     \<and> isNonNegativeNumber (jget v ''reviews'')
     \<and> isNonNegativeNumber (jget v ''lessons'')
     \<and> isNonNegativeNumber (jget v ''activeMinutes'')
     \<and> is_array (jget v ''trend'')
     \<and> length (arr_of (jget v ''trend'')) = 7
     \<and> list_all (isDailyRecallEvidence date_parse) (arr_of (jget v ''trend''))
     \<and> is_array (jget v ''weakTopics'')
     \<and> length (arr_of (jget v ''weakTopics'')) \<le> 3
     \<and> list_all isTopicEvidence (arr_of (jget v ''weakTopics''))
     \<and> optional_ok (\<lambda>w. is_array w \<and> length (arr_of w) \<le> 3 \<and> list_all isPartOfSpeechEvidence (arr_of w))
         (jget v ''weakPartsOfSpeech'')
     \<and> optional_ok isTopicEvidence (jget v ''strongTopic'')"

definition isProcessRetentionEvidence :: "jval \<Rightarrow> bool" where
  "isProcessRetentionEvidence v \<longleftrightarrow>
     isRecord v \<and> isNonNegativeNumber (jget v ''attempts'') \<and> isNonNegativeNumber (jget v ''successful'')
     \<and> num_of (jget v ''successful'') \<le> num_of (jget v ''attempts'') \<and> isPercentage (jget v ''rate'')"

definition isLearningProcessEvidence :: "(jstr \<Rightarrow> jnum) \<Rightarrow> jval \<Rightarrow> bool" where
  "isLearningProcessEvidence date_parse v \<longleftrightarrow>
     isRecord v
     \<and> isDateOnly date_parse (jget v ''weekStart'')
     \<and> isDateOnly date_parse (jget v ''weekEnd'')
     \<and> isNonNegativeNumber (jget v ''newLearned'')
     \<and> isNonNegativeNumber (jget v ''dueReviewed'')
     \<and> isNonNegativeNumber (jget v ''remediationReviewed'')
     \<and> isNonNegativeNumber (jget v ''reviewBacklog'')
     \<and> isNonNegativeNumber (jget v ''lapses'')
     \<and> isProcessRetentionEvidence (jget v ''retention'')"

definition isScenarioRecommendation :: "(jstr \<Rightarrow> jnum) \<Rightarrow> jval \<Rightarrow> bool" where
  "isScenarioRecommendation date_parse v \<longleftrightarrow>
     (if \<not> isRecord v
         \<or> \<not> ar_isNonEmptyString (jget v ''slug'')
         \<or> \<not> one_of SCENARIO_TYPES (jget v ''type'')
         \<or> \<not> ar_isNonEmptyString (jget v ''title'')
         \<or> \<not> ar_isPositiveInteger (jget v ''estimatedMinutes'')
         \<or> \<not> one_of SCENARIO_RECOMMENDATION_REASONS (jget v ''reason'')
         \<or> \<not> one_of SCENARIO_RECOMMENDATION_ACTIONS (jget v ''action'')
         \<or> \<not> ar_isNonNegativeInteger (jget v ''completedCount'')
         \<or> (jget v ''lastCompletedAt'' \<noteq> JUndef \<and> \<not> ar_isTimestamp date_parse (jget v ''lastCompletedAt''))
      then False
      else if is_lit (jget v ''reason'') ''resume_in_progress'' then is_lit (jget v ''action'') ''resume''
      else if \<not> is_lit (jget v ''action'') ''start'' then False
      else if is_lit (jget v ''reason'') ''first_uncompleted''
      then jget v ''completedCount'' = JNum 0 \<and> jget v ''lastCompletedAt'' = JUndef
      else is_lit (jget v ''reason'') ''least_recently_completed'' \<and> num_of (jget v ''completedCount'') > 0
        \<and> ar_isTimestamp date_parse (jget v ''lastCompletedAt''))"

definition isScenarioProgressEvidence :: "(jstr \<Rightarrow> jnum) \<Rightarrow> jval \<Rightarrow> bool" where
  "isScenarioProgressEvidence date_parse v \<longleftrightarrow>
     isRecord v
     \<and> ar_isNonNegativeInteger (jget v ''completedThisWeek'')
     \<and> ar_isNonNegativeInteger (jget v ''completedTotal'')
     \<and> num_of (jget v ''completedThisWeek'') \<le> num_of (jget v ''completedTotal'')
     \<and> optional_ok (isScenarioRecommendation date_parse) (jget v ''recommendation'')"

definition isProgressSummaryPayload :: "(jstr \<Rightarrow> jnum) \<Rightarrow> jval \<Rightarrow> bool" where
  "isProgressSummaryPayload date_parse v \<longleftrightarrow>
     isRecord v
     \<and> list_all (\<lambda>k. isNonNegativeNumber (jget v k)) REQUIRED_PROGRESS_FIELDS
     \<and> \<not> num_of (jget v ''dailyGoal'') \<le> 0
     \<and> optional_ok isNonNegativeNumber (jget v ''objectiveReviewsToday'')
     \<and> optional_ok isNonNegativeNumber (jget v ''objectiveSuccessfulToday'')
     \<and> optional_ok (ar_isTimestamp date_parse) (jget v ''nextDueAt'')
     \<and> optional_ok isNonNegativeNumber (jget v ''eventSchemaVersion'')
     \<and> optional_ok isProgressModes (jget v ''modes'')
     \<and> optional_ok (isWeeklyProgressEvidence date_parse) (jget v ''weekly'')
     \<and> optional_ok (isLearningProcessEvidence date_parse) (jget v ''processes'')
     \<and> optional_ok (isScenarioProgressEvidence date_parse) (jget v ''scenarios'')"

section \<open>Types\<close>

text \<open>A property of an object type is a name, whether it is optional, and the type of its value.\<close>

datatype js_type = NumT | StrT | BoolT | LitT "string list" | ArrT js_type | ObjT "(string \<times> bool \<times> js_type) list"

fun has_type :: "js_type \<Rightarrow> jval \<Rightarrow> bool" and has_fields :: "(string \<times> bool \<times> js_type) list \<Rightarrow> jval \<Rightarrow> bool" where
  "has_type NumT v = (case v of JNum n \<Rightarrow> True | _ \<Rightarrow> False)"
| "has_type StrT v = is_string v"
| "has_type BoolT v = is_boolean v"
| "has_type (LitT ls) v = one_of ls v"
| "has_type (ArrT t) v = (is_array v \<and> list_all (has_type t) (arr_of v))"
| "has_type (ObjT fs) v = (isRecord v \<and> has_fields fs v)"
| "has_fields [] v = True"
| "has_fields ((k, optional, t) # fs) v =
     (((optional \<and> jget v k = JUndef) \<or> has_type t (jget v k)) \<and> has_fields fs v)"

definition api_item_fields :: "(string \<times> bool \<times> js_type) list" where
  "api_item_fields = [(''id'', False, NumT), (''kind'', True, LitT [''word'', ''phrase'']), (''slug'', True, StrT),
     (''lemma'', False, StrT), (''translation'', False, StrT), (''phonetic'', False, StrT),
     (''partOfSpeech'', False, StrT), (''topic'', False, StrT), (''aliases'', True, ArrT StrT),
     (''acceptedAnswers'', True, ArrT StrT), (''examples'', False, ArrT StrT), (''note'', False, StrT),
     (''cloze'', True, StrT), (''clozeAnswer'', True, StrT), (''status'', False, StrT)]"

definition APIItem :: js_type where "APIItem = ObjT api_item_fields"

definition ItemsResponse :: js_type where
  "ItemsResponse = ObjT [(''items'', False, ArrT APIItem), (''count'', False, NumT), (''total'', True, NumT),
     (''page'', True, NumT), (''pageSize'', True, NumT), (''totalPages'', True, NumT),
     (''hasPrevious'', True, BoolT), (''hasNext'', True, BoolT)]"

definition ReviewRating_type :: js_type where "ReviewRating_type = LitT [''again'', ''almost'', ''known'']"

definition LessonItemResponse :: js_type where
  "LessonItemResponse = ObjT (api_item_fields @ [(''position'', False, NumT), (''rating'', True, ReviewRating_type),
     (''reviewedAt'', True, StrT)])"

definition LessonSessionResponse :: js_type where
  "LessonSessionResponse = ObjT [(''id'', False, StrT),
     (''source'', False, LitT [''mixed'', ''noun'', ''verb'', ''adjective'', ''daily-life'', ''travel'',
        ''data-engineering'', ''backend'', ''academic-technical-english'', ''phrases'']),
     (''studyMode'', False, LitT [''study'', ''recall'', ''choice'', ''listening'']),
     (''sessionKind'', True, LitT [''study'', ''review'', ''remediation'']), (''lessonSize'', False, StrT),
     (''currentIndex'', False, NumT), (''version'', False, NumT),
     (''status'', False, LitT [''active'', ''completed'', ''discarded'']), (''items'', False, ArrT LessonItemResponse),
     (''createdAt'', False, StrT), (''updatedAt'', False, StrT)]"

definition ModeProgress_type :: js_type where
  "ModeProgress_type = ObjT [(''attemptsToday'', False, NumT), (''successfulToday'', False, NumT),
     (''attemptsTotal'', False, NumT), (''successfulTotal'', False, NumT)]"

definition ProgressModes_type :: js_type where
  "ProgressModes_type = ObjT [(''study'', False, ModeProgress_type), (''recall'', False, ModeProgress_type),
     (''choice'', False, ModeProgress_type), (''listening'', True, ModeProgress_type), (''legacy'', False, ModeProgress_type)]"

definition DailyRecallEvidence_type :: js_type where
  "DailyRecallEvidence_type = ObjT [(''date'', False, StrT), (''attempts'', False, NumT), (''successful'', False, NumT),
     (''rate'', False, NumT)]"

definition TopicEvidence_type :: js_type where
  "TopicEvidence_type = ObjT [(''topic'', False, StrT), (''attempts'', False, NumT), (''successful'', False, NumT),
     (''errors'', False, NumT), (''rate'', False, NumT)]"

definition PartOfSpeechEvidence_type :: js_type where
  "PartOfSpeechEvidence_type = ObjT [(''partOfSpeech'', False, StrT), (''attempts'', False, NumT),
     (''successful'', False, NumT), (''errors'', False, NumT), (''rate'', False, NumT)]"

definition WeeklyProgressEvidence_type :: js_type where
  "WeeklyProgressEvidence_type = ObjT [(''weekStart'', False, StrT), (''weekEnd'', False, StrT),
     (''recallAttempts'', False, NumT), (''recallSuccessful'', False, NumT), (''recallRate'', False, NumT),
     (''previousRecallAttempts'', False, NumT), (''previousRecallSuccessful'', False, NumT),
     (''previousRecallRate'', False, NumT), (''choiceAttempts'', False, NumT), (''choiceSuccessful'', False, NumT),
     (''choiceRate'', False, NumT), (''reviews'', False, NumT), (''lessons'', False, NumT),
     (''activeMinutes'', False, NumT), (''trend'', False, ArrT DailyRecallEvidence_type),
     (''weakTopics'', False, ArrT TopicEvidence_type), (''weakPartsOfSpeech'', False, ArrT PartOfSpeechEvidence_type),
     (''strongTopic'', True, TopicEvidence_type)]"

definition ProcessRetentionEvidence_type :: js_type where
  "ProcessRetentionEvidence_type = ObjT [(''attempts'', False, NumT), (''successful'', False, NumT), (''rate'', False, NumT)]"

definition LearningProcessEvidence_type :: js_type where
  "LearningProcessEvidence_type = ObjT [(''weekStart'', False, StrT), (''weekEnd'', False, StrT),
     (''newLearned'', False, NumT), (''dueReviewed'', False, NumT), (''remediationReviewed'', False, NumT),
     (''reviewBacklog'', False, NumT), (''lapses'', False, NumT), (''retention'', False, ProcessRetentionEvidence_type)]"

definition ScenarioRecommendation_type :: js_type where
  "ScenarioRecommendation_type = ObjT [(''slug'', False, StrT),
     (''type'', False, LitT [''incident'', ''troubleshooting'', ''architecture-review'', ''data-pipeline'', ''release'',
        ''status-update'']), (''title'', False, StrT), (''estimatedMinutes'', False, NumT),
     (''reason'', False, LitT [''resume_in_progress'', ''first_uncompleted'', ''least_recently_completed'']),
     (''action'', False, LitT [''start'', ''resume'']), (''completedCount'', False, NumT), (''lastCompletedAt'', True, StrT)]"

definition ScenarioProgressEvidence_type :: js_type where
  "ScenarioProgressEvidence_type = ObjT [(''completedThisWeek'', False, NumT), (''completedTotal'', False, NumT),
     (''recommendation'', True, ScenarioRecommendation_type)]"

definition ProgressSummary_type :: js_type where
  "ProgressSummary_type = ObjT [(''dueNow'', False, NumT), (''dueWords'', False, NumT), (''duePhrases'', False, NumT),
     (''totalWords'', False, NumT), (''totalPhrases'', False, NumT), (''newWords'', False, NumT),
     (''learningWords'', False, NumT), (''reviewWords'', False, NumT), (''masteredWords'', False, NumT),
     (''masteredPhrases'', False, NumT), (''reviewsToday'', False, NumT), (''successfulToday'', False, NumT),
     (''objectiveReviewsToday'', True, NumT), (''objectiveSuccessfulToday'', True, NumT), (''reviewsTotal'', False, NumT),
     (''dailyGoal'', False, NumT), (''currentStreak'', False, NumT), (''longestStreak'', False, NumT),
     (''retainedItemsWeek'', False, NumT), (''retainedWordsWeek'', False, NumT), (''retainedPhrasesWeek'', False, NumT),
     (''eventSchemaVersion'', True, NumT), (''modes'', True, ProgressModes_type),
     (''weekly'', True, WeeklyProgressEvidence_type), (''processes'', True, LearningProcessEvidence_type),
     (''scenarios'', True, ScenarioProgressEvidence_type), (''nextDueAt'', True, StrT)]"

section \<open>Accepted values have their types\<close>

lemma number_typed: "v_isFinite v \<Longrightarrow> has_type NumT v" "v_isInteger v \<Longrightarrow> has_type NumT v"
  by (cases v; simp add: v_isFinite_def v_isInteger_def)+

lemma counter_typed: "isNonNegativeNumber v \<Longrightarrow> has_type NumT v" "isPercentage v \<Longrightarrow> has_type NumT v"
  "ar_isNonNegativeInteger v \<Longrightarrow> has_type NumT v" "ar_isPositiveInteger v \<Longrightarrow> has_type NumT v"
  using number_typed by (auto simp: isNonNegativeNumber_def isPercentage_def ar_isNonNegativeInteger_def ar_isPositiveInteger_def)

lemma string_typed: "ar_isNonEmptyString v \<Longrightarrow> is_string v"
  by (simp add: ar_isNonEmptyString_def)

lemma dated: "isDateOnly dp v \<Longrightarrow> is_string v" "ar_isTimestamp dp v \<Longrightarrow> is_string v"
  by (simp_all add: isDateOnly_def ar_isTimestamp_def)

lemmas typed = number_typed counter_typed string_typed

lemma all_typed: "(\<And>x. p x \<Longrightarrow> has_type t x) \<Longrightarrow> list_all p xs \<Longrightarrow> list_all (has_type t) xs"
  by (auto simp: list_all_iff)

lemma has_fields_append [simp]: "has_fields (fs @ gs) v \<longleftrightarrow> has_fields fs v \<and> has_fields gs v"
  by (induction fs) auto

declare has_type.simps(1) [simp del]

lemma item_typed:
  assumes "isLearningItemPayload v"
  shows "isRecord v" "has_fields api_item_fields v" "isOptionalString (jget v ''reviewedAt'')"
proof -
  note a = assms [unfolded isLearningItemPayload_def isOptionalString_def isOptionalStringArray_def]
  show "isRecord v" "isOptionalString (jget v ''reviewedAt'')" using a by (simp_all add: isOptionalString_def)
  have s: "has_type StrT = is_string" by (rule ext) simp
  from a show "has_fields api_item_fields v"
    by (simp add: api_item_fields_def typed s)
qed

lemma item_is_APIItem: "isLearningItemPayload v \<Longrightarrow> has_type APIItem v"
  using item_typed by (simp add: APIItem_def)

lemma items_typed: "isItemsResponsePayload v \<Longrightarrow> has_type ItemsResponse v"
  using all_typed [OF item_is_APIItem]
  by (auto simp: isItemsResponsePayload_def ItemsResponse_def optional_ok_def typed)

definition ratings_typed :: "jval \<Rightarrow> bool" where
  "ratings_typed v \<longleftrightarrow> list_all (\<lambda>item. optional_ok (has_type ReviewRating_type) (jget item ''rating'')) (arr_of (jget v ''items''))"

lemma lesson_item_typed:
  "lesson_item_ok v \<Longrightarrow> has_type LessonItemResponse v \<longleftrightarrow> optional_ok (has_type ReviewRating_type) (jget v ''rating'')"
  using item_typed [of v]
  by (auto simp: lesson_item_ok_def LessonItemResponse_def optional_ok_def isOptionalString_def typed)

lemma lesson_typed:
  assumes "isActiveLessonPayload dp v"
  shows "has_type LessonSessionResponse v \<longleftrightarrow> ratings_typed v"
proof -
  have items: "list_all (has_type LessonItemResponse) (arr_of (jget v ''items'')) \<longleftrightarrow> ratings_typed v"
    using assms lesson_item_typed by (auto simp: isActiveLessonPayload_def ratings_typed_def list_all_iff)
  show ?thesis
    using assms unfolding isActiveLessonPayload_def
    by (simp add: LessonSessionResponse_def items typed dated [of dp] LESSON_SOURCES_def STUDY_MODES_def LESSON_SESSION_KINDS_def optional_ok_def)
      (auto simp: dated [of dp])
qed

lemma mode_typed: "isModeProgress v \<Longrightarrow> has_type ModeProgress_type v"
  by (simp add: isModeProgress_def MODE_PROGRESS_FIELDS_def ModeProgress_type_def typed)

lemma modes_typed:
  "isProgressModes v \<Longrightarrow> has_type ProgressModes_type v \<longleftrightarrow> optional_ok (has_type ModeProgress_type) (jget v ''listening'')"
  by (simp add: isProgressModes_def ProgressModes_type_def mode_typed optional_ok_def)

lemma daily_typed: "isDailyRecallEvidence dp v \<Longrightarrow> has_type DailyRecallEvidence_type v"
  by (simp add: isDailyRecallEvidence_def DailyRecallEvidence_type_def typed dated [of dp])

lemma topic_typed: "isTopicEvidence v \<Longrightarrow> has_type TopicEvidence_type v"
  by (simp add: isTopicEvidence_def TopicEvidence_type_def typed)

lemma part_typed: "isPartOfSpeechEvidence v \<Longrightarrow> has_type PartOfSpeechEvidence_type v"
  by (simp add: isPartOfSpeechEvidence_def PartOfSpeechEvidence_type_def typed)

lemma weekly_typed:
  assumes "isWeeklyProgressEvidence dp v"
  shows "has_type WeeklyProgressEvidence_type v \<longleftrightarrow> jget v ''weakPartsOfSpeech'' \<noteq> JUndef"
  using assms all_typed [OF daily_typed] all_typed [OF topic_typed] all_typed [OF part_typed]
  unfolding isWeeklyProgressEvidence_def
  by (auto simp: WeeklyProgressEvidence_type_def optional_ok_def typed dated [of dp] topic_typed)

lemma processes_typed: "isLearningProcessEvidence dp v \<Longrightarrow> has_type LearningProcessEvidence_type v"
  by (simp add: isLearningProcessEvidence_def LearningProcessEvidence_type_def isProcessRetentionEvidence_def
      ProcessRetentionEvidence_type_def typed dated [of dp])

lemma recommendation_typed: "isScenarioRecommendation dp v \<Longrightarrow> has_type ScenarioRecommendation_type v"
  unfolding isScenarioRecommendation_def
  by (auto simp: ScenarioRecommendation_type_def typed dated [of dp] SCENARIO_TYPES_def SCENARIO_RECOMMENDATION_REASONS_def
      SCENARIO_RECOMMENDATION_ACTIONS_def split: if_splits)

lemma scenarios_typed: "isScenarioProgressEvidence dp v \<Longrightarrow> has_type ScenarioProgressEvidence_type v"
  by (auto simp: isScenarioProgressEvidence_def ScenarioProgressEvidence_type_def optional_ok_def typed recommendation_typed)

lemma optional_cong: "optional_ok p v \<Longrightarrow> (p v \<Longrightarrow> q v = r v) \<Longrightarrow> optional_ok q v \<longleftrightarrow> optional_ok r v"
  by (auto simp: optional_ok_def)

lemma optional_mono: "optional_ok p v \<Longrightarrow> (p v \<Longrightarrow> q v) \<Longrightarrow> optional_ok q v"
  by (auto simp: optional_ok_def)

lemma field_cases:
  "has_fields ((k, True, t) # fs) v \<longleftrightarrow> optional_ok (has_type t) (jget v k) \<and> has_fields fs v"
  "has_fields ((k, False, t) # fs) v \<longleftrightarrow> has_type t (jget v k) \<and> has_fields fs v"
  by (simp_all add: optional_ok_def)

lemma summary_typed:
  assumes "isProgressSummaryPayload dp v"
  shows "has_type ProgressSummary_type v \<longleftrightarrow>
    optional_ok (\<lambda>m. optional_ok (has_type ModeProgress_type) (jget m ''listening'')) (jget v ''modes'')
    \<and> optional_ok (\<lambda>w. jget w ''weakPartsOfSpeech'' \<noteq> JUndef) (jget v ''weekly'')"
proof -
  note a = assms [unfolded isProgressSummaryPayload_def]
  have parts: "optional_ok (has_type ProgressModes_type) (jget v ''modes'') \<longleftrightarrow>
      optional_ok (\<lambda>m. optional_ok (has_type ModeProgress_type) (jget m ''listening'')) (jget v ''modes'')"
    "optional_ok (has_type WeeklyProgressEvidence_type) (jget v ''weekly'') \<longleftrightarrow>
      optional_ok (\<lambda>w. jget w ''weakPartsOfSpeech'' \<noteq> JUndef) (jget v ''weekly'')"
    "optional_ok (has_type LearningProcessEvidence_type) (jget v ''processes'')"
    "optional_ok (has_type ScenarioProgressEvidence_type) (jget v ''scenarios'')"
    by (rule optional_cong [of isProgressModes], use a in blast, rule modes_typed, assumption)
      (rule optional_cong [of "isWeeklyProgressEvidence dp"], use a in blast, rule weekly_typed, assumption,
       rule optional_mono [of "isLearningProcessEvidence dp"], use a in blast, rule processes_typed, assumption,
       rule optional_mono [of "isScenarioProgressEvidence dp"], use a in blast, rule scenarios_typed, assumption)
  have number: "optional_ok isNonNegativeNumber x \<Longrightarrow> optional_ok (has_type NumT) x" for x
    using optional_mono [of isNonNegativeNumber x "has_type NumT"] counter_typed(1) by blast
  have numbers: "optional_ok (has_type NumT) (jget v ''objectiveReviewsToday'')"
    "optional_ok (has_type NumT) (jget v ''objectiveSuccessfulToday'')"
    "optional_ok (has_type NumT) (jget v ''eventSchemaVersion'')" "optional_ok (has_type StrT) (jget v ''nextDueAt'')"
    using a by (blast intro: number)+ (use a in \<open>auto simp: optional_ok_def dated [of dp]\<close>)
  have required: "k \<in> set REQUIRED_PROGRESS_FIELDS \<Longrightarrow> has_type NumT (jget v k)" for k
    using a by (auto simp: list_all_iff typed)
  show ?thesis
    using a numbers parts(3,4) unfolding parts(1,2) [symmetric]
    by (simp add: ProgressSummary_type_def field_cases required REQUIRED_PROGRESS_FIELDS_def del: has_fields.simps(2))
qed


text \<open>A lesson in listening mode has the declared type and is not accepted.\<close>

lemma listening_lesson_rejected:
  "is_lit (jget v ''studyMode'') ''listening'' \<Longrightarrow> \<not> isActiveLessonPayload dp v"
  by (cases "jget v ''studyMode''") (auto simp: isActiveLessonPayload_def STUDY_MODES_def is_lit_def u_eq_iff)

definition number_props :: "string list \<Rightarrow> (jstr \<times> jval) list" where
  "number_props ks = map (\<lambda>k. (u k, JNum 1)) ks"

definition sample_mode :: jval where "sample_mode = JObj (number_props MODE_PROGRESS_FIELDS)"

definition sample_summary :: jval where
  "sample_summary = JObj (number_props REQUIRED_PROGRESS_FIELDS @ [(u ''modes'', JObj [(u ''study'', sample_mode),
     (u ''recall'', sample_mode), (u ''choice'', sample_mode), (u ''legacy'', sample_mode), (u ''listening'', JNull)])])"

lemma number_props_get: "k \<in> set ks \<Longrightarrow> map_of (number_props ks @ kvs) (u k) = Some (JNum 1)"
  by (induction ks) (auto simp: number_props_def)

lemma sample_mode_accepted: "isModeProgress sample_mode"
  using number_props_get [where kvs = "[]"]
  by (simp add: isModeProgress_def sample_mode_def list_all_iff isNonNegativeNumber_def jget.simps)

lemma sample_summary_other: "k \<notin> set REQUIRED_PROGRESS_FIELDS \<Longrightarrow> k \<noteq> ''modes'' \<Longrightarrow> jget sample_summary k = JUndef"
proof -
  assume a: "k \<notin> set REQUIRED_PROGRESS_FIELDS" "k \<noteq> ''modes''"
  have "map_of (number_props ks) (u k) = None" if "k \<notin> set ks" for ks
    using that by (induction ks) (auto simp: number_props_def)
  with a show ?thesis by (simp add: sample_summary_def map_add_def jget.simps u_eq_iff)
qed


end
