(* ===== verification/Journey.thy ===== *)
theory Journey
  imports Rum Learning
begin

text \<open>
  \<open>src/frontend/lib/product-journey.ts\<close> with \<open>lesson-composition-handoff.ts\<close> and \<open>lesson-resume-intent.ts\<close>: the
  intent that waits for the next route change, the short history of routes in session storage and the report of a
  step, the note a mixed lesson leaves for its result, and the one-time intent to resume a lesson.  The browser is the
  environment of \<open>Rum\<close>, whose sampling decision the reports share.
\<close>

section \<open>Routes and intents\<close>

datatype ProductJourneyRoute = RootRoute | LearnRoute | DictionaryRoute | PhrasesRoute | ProgressRoute | ProfileRoute
  | LessonRoute | WordRoute | PhraseRoute

fun route_text :: "ProductJourneyRoute \<Rightarrow> jstr" where
  "route_text RootRoute = u ''/''" | "route_text LearnRoute = u ''/learn''" | "route_text DictionaryRoute = u ''/dictionary''"
| "route_text PhrasesRoute = u ''/phrases''" | "route_text ProgressRoute = u ''/progress''"
| "route_text ProfileRoute = u ''/profile''" | "route_text LessonRoute = u ''/lesson''" | "route_text WordRoute = u ''/word''"
| "route_text PhraseRoute = u ''/phrase''"

datatype ProductJourneyIntent = PrimaryNavigation | HomeNextAction | HomeConfigureLesson | HomeFindMaterial | CatalogSwitch
  | CatalogOpenDetail | CatalogConfigureLesson | LessonStart | LessonExit | Authentication | BrowserHistory | InAppNavigation

fun intent_text :: "ProductJourneyIntent \<Rightarrow> jstr" where
  "intent_text PrimaryNavigation = u ''primary_navigation''" | "intent_text HomeNextAction = u ''home_next_action''"
| "intent_text HomeConfigureLesson = u ''home_configure_lesson''" | "intent_text HomeFindMaterial = u ''home_find_material''"
| "intent_text CatalogSwitch = u ''catalog_switch''" | "intent_text CatalogOpenDetail = u ''catalog_open_detail''"
| "intent_text CatalogConfigureLesson = u ''catalog_configure_lesson''" | "intent_text LessonStart = u ''lesson_start''"
| "intent_text LessonExit = u ''lesson_exit''" | "intent_text Authentication = u ''authentication''"
| "intent_text BrowserHistory = u ''browser_history''" | "intent_text InAppNavigation = u ''in_app_navigation''"

definition HISTORY_KEY :: jstr where "HISTORY_KEY = u ''lexigo.product-journey.routes.v1''"
definition MAX_HISTORY_LENGTH :: nat where "MAX_HISTORY_LENGTH = 3"
definition ROUTES :: "ProductJourneyRoute list" where
  "ROUTES = [RootRoute, LearnRoute, DictionaryRoute, PhrasesRoute, ProgressRoute, ProfileRoute, LessonRoute, WordRoute, PhraseRoute]"

text \<open>A detail counts when it is not the empty text.\<close>

definition productJourneyRoute :: "NavigationTarget \<Rightarrow> ProductJourneyRoute" where
  "productJourneyRoute target =
     (let detail = (nt_detail target \<noteq> None \<and> nt_detail target \<noteq> Some []) in
      if nt_view target = LessonView then LessonRoute
      else if nt_view target = LibraryView \<and> detail then WordRoute
      else if nt_view target = PhrasesView \<and> detail then PhraseRoute
      else if nt_view target = LearnView then LearnRoute
      else if nt_view target = LibraryView then DictionaryRoute
      else if nt_view target = PhrasesView then PhrasesRoute
      else if nt_view target = ProgressView then ProgressRoute
      else if nt_view target = ProfileView then ProfileRoute
      else RootRoute)"

section \<open>The history\<close>

text \<open>\<open>slice(-n)\<close>.\<close>

definition last_n :: "nat \<Rightarrow> 'a list \<Rightarrow> 'a list" where "last_n n xs = drop (length xs - n) xs"

definition nextProductJourneyHistory ::
  "ProductJourneyRoute list \<Rightarrow> ProductJourneyRoute \<Rightarrow> ProductJourneyRoute \<Rightarrow> ProductJourneyRoute list \<times> bool" where
  "nextProductJourneyHistory history fromRoute toRoute =
     (let withOrigin = (if history \<noteq> [] \<and> last history = fromRoute then history else history @ [fromRoute]);
          backtrack = (length withOrigin \<ge> 2 \<and> last withOrigin = fromRoute
            \<and> withOrigin ! (length withOrigin - 2) = toRoute) in
      (last_n MAX_HISTORY_LENGTH (withOrigin @ [toRoute]), backtrack))"

definition route_of :: "jval \<Rightarrow> ProductJourneyRoute option" where
  "route_of v = find (\<lambda>r. v = JStr (route_text r)) ROUTES"

definition readHistory :: "storage \<Rightarrow> ProductJourneyRoute list" where
  "readHistory st =
     (case getItem st HISTORY_KEY of
        Inl e \<Rightarrow> []
      | Inr stored \<Rightarrow>
          (case json_parse (case stored of Some s \<Rightarrow> s | None \<Rightarrow> u ''[]'') of
             Some (JArr xs) \<Rightarrow> last_n MAX_HISTORY_LENGTH (List.map_filter route_of xs)
           | _ \<Rightarrow> []))"

definition history_json :: "ProductJourneyRoute list \<Rightarrow> jval" where
  "history_json h = JArr (map (\<lambda>r. JStr (route_text r)) h)"

definition writeHistory :: "ProductJourneyRoute list \<Rightarrow> storage \<Rightarrow> storage" where
  "writeHistory history st =
     (case setItem st HISTORY_KEY (json_stringify (history_json (last_n MAX_HISTORY_LENGTH history))) of
        Inr st' \<Rightarrow> st' | Inl e \<Rightarrow> st)"

section \<open>The note of a mixed lesson\<close>

text \<open>\<open>ho_cleanup\<close> holds the generations of the microtasks that are queued.\<close>

record handoff =
  learnHandoffActive :: bool
  trackedKinds :: "ItemKind list"
  resolvedNotice :: jstr
  resolutionGeneration :: nat
  ho_cleanup :: "nat list"

definition fresh_handoff :: handoff where
  "fresh_handoff = \<lparr>learnHandoffActive = False, trackedKinds = [], resolvedNotice = [], resolutionGeneration = 0, ho_cleanup = []\<rparr>"

definition markLearnLessonHandoff :: "handoff \<Rightarrow> handoff" where
  "markLearnLessonHandoff h =
     h\<lparr>resolutionGeneration := resolutionGeneration h + 1, learnHandoffActive := True, trackedKinds := [], resolvedNotice := []\<rparr>"

definition trackLearnHandoffItem :: "ItemKind \<Rightarrow> handoff \<Rightarrow> handoff" where
  "trackLearnHandoffItem kind h =
     (if \<not> learnHandoffActive h then h else h\<lparr>trackedKinds := List.insert kind (trackedKinds h)\<rparr>)"

definition retainNoticeForStrictRender :: "jstr \<Rightarrow> handoff \<Rightarrow> jstr \<times> handoff" where
  "retainNoticeForStrictRender notice h =
     (let generation = resolutionGeneration h + 1 in
      (notice, h\<lparr>resolvedNotice := notice, resolutionGeneration := generation, ho_cleanup := ho_cleanup h @ [generation]\<rparr>))"

definition handoff_microtask :: "nat \<Rightarrow> handoff \<Rightarrow> handoff" where
  "handoff_microtask generation h =
     (if resolutionGeneration h = generation \<and> \<not> learnHandoffActive h then h\<lparr>resolvedNotice := []\<rparr> else h)"

definition words_ended_notice :: jstr where "words_ended_notice = [1057, 1083, 1086, 1074, 1072, 32, 1076, 1083, 1103, 32, 1101, 1090, 1086, 1075, 1086, 32, 1088, 1077, 1078, 1080, 1084, 1072, 32, 1079, 1072, 1082, 1086, 1085, 1095, 1080, 1083, 1080, 1089, 1100, 46, 32, 1057, 1084, 1077, 1096, 1072, 1085, 1085, 1072, 1103, 32, 1087, 1088, 1072, 1082, 1090, 1080, 1082, 1072, 32, 1087, 1088, 1086, 1076, 1086, 1083, 1078, 1080, 1090, 1089, 1103, 32, 1076, 1086, 1089, 1090, 1091, 1087, 1085, 1099, 1084, 1080, 32, 1092, 1088, 1072, 1079, 1072, 1084, 1080, 46]"
definition phrases_ended_notice :: jstr where "phrases_ended_notice = [1060, 1088, 1072, 1079, 1099, 32, 1076, 1083, 1103, 32, 1101, 1090, 1086, 1075, 1086, 32, 1088, 1077, 1078, 1080, 1084, 1072, 32, 1079, 1072, 1082, 1086, 1085, 1095, 1080, 1083, 1080, 1089, 1100, 46, 32, 1057, 1084, 1077, 1096, 1072, 1085, 1085, 1072, 1103, 32, 1087, 1088, 1072, 1082, 1090, 1080, 1082, 1072, 32, 1087, 1088, 1086, 1076, 1086, 1083, 1078, 1080, 1090, 1089, 1103, 32, 1076, 1086, 1089, 1090, 1091, 1087, 1085, 1099, 1084, 1080, 32, 1089, 1083, 1086, 1074, 1072, 1084, 1080, 46]"

definition consumeLearnHandoffFallbackNotice :: "jstr \<Rightarrow> handoff \<Rightarrow> jstr \<times> handoff" where
  "consumeLearnHandoffFallbackNotice source h =
     (if resolvedNotice h \<noteq> [] then (resolvedNotice h, h)
      else if \<not> learnHandoffActive h then ([], h)
      else
        let h = h\<lparr>learnHandoffActive := False\<rparr> in
        if source \<noteq> u ''mixed'' then ([], h)
        else if length (trackedKinds h) = 1 \<and> PhraseItem \<in> set (trackedKinds h)
        then retainNoticeForStrictRender words_ended_notice h
        else if length (trackedKinds h) = 1 \<and> WordItem \<in> set (trackedKinds h)
        then retainNoticeForStrictRender phrases_ended_notice h
        else ([], h))"

section \<open>Reports\<close>

record journey =
  jn_rum :: rum_state
  queuedIntent :: "ProductJourneyIntent option"
  jn_handoff :: handoff
  jn_sent :: "jstr list"

definition queueProductJourneyIntent :: "rum_env \<Rightarrow> ProductJourneyIntent \<Rightarrow> journey \<Rightarrow> journey" where
  "queueProductJourneyIntent e intent j =
     (let j = (if intent = LessonStart \<and> re_window e \<and> re_pathname e = u ''/learn''
               then j\<lparr>jn_handoff := markLearnLessonHandoff (jn_handoff j)\<rparr> else j) in
      j\<lparr>queuedIntent := Some intent\<rparr>)"

definition consumeProductJourneyIntent :: "journey \<Rightarrow> ProductJourneyIntent option \<times> journey" where
  "consumeProductJourneyIntent j = (queuedIntent j, j\<lparr>queuedIntent := None\<rparr>)"

definition pj_currentDisplayMode :: "rum_env \<Rightarrow> DisplayMode" where
  "pj_currentDisplayMode e =
     (if re_standalone e then Standalone else if re_fullscreen e then Fullscreen
      else if re_minimalUi e then MinimalUi else BrowserMode)"

definition pj_sanitizeBuildID :: "jstr option \<Rightarrow> jstr" where
  "pj_sanitizeBuildID v =
     (let normalized = (case v of Some s \<Rightarrow> take 80 (strip_dashes (dash_runs False s)) | None \<Rightarrow> []) in
      if normalized = [] then u ''local'' else normalized)"

definition journey_event ::
  "rum_env \<Rightarrow> ProductJourneyRoute \<Rightarrow> ProductJourneyRoute \<Rightarrow> ProductJourneyIntent \<Rightarrow> bool \<Rightarrow> jval" where
  "journey_event e fromRoute toRoute intent backtrack =
     JObj [(u ''appVersion'', JStr (pj_sanitizeBuildID (re_build e))),
           (u ''fromRoute'', JStr (route_text fromRoute)), (u ''toRoute'', JStr (route_text toRoute)),
           (u ''intent'', JStr (intent_text intent)), (u ''backtrack'', JBool backtrack),
           (u ''deviceClass'', JStr (device_text (classifyDevice (re_innerWidth e)))),
           (u ''browserFamily'', JStr (browser_text (classifyBrowser (re_lower e) (re_userAgent e)))),
           (u ''displayMode'', JStr (display_text (pj_currentDisplayMode e)))]"

definition reportProductJourney :: "rum_env \<Rightarrow> NavigationTarget \<Rightarrow> NavigationTarget \<Rightarrow> ProductJourneyIntent \<Rightarrow> journey \<Rightarrow> journey" where
  "reportProductJourney e fromTarget toTarget intent j =
     (let fromRoute = productJourneyRoute fromTarget; toRoute = productJourneyRoute toTarget in
      if fromRoute = toRoute then j
      else (case isCollectionEnabled e (jn_rum j) of
          (False, r) \<Rightarrow> j\<lparr>jn_rum := r\<rparr>
        | (True, r) \<Rightarrow>
            (case nextProductJourneyHistory (readHistory (ru_session r)) fromRoute toRoute of
               (history, backtrack) \<Rightarrow>
                 let j = j\<lparr>jn_rum := r\<lparr>ru_session := writeHistory history (ru_session r)\<rparr>\<rparr> in
                 if \<not> re_fetch e then j
                 else j\<lparr>jn_sent := jn_sent j @ [json_stringify (journey_event e fromRoute toRoute intent backtrack)]\<rparr>)))"

section \<open>Resuming a lesson\<close>

definition ACTIVE_LESSON_PATH :: jstr where "ACTIVE_LESSON_PATH = u ''/lesson/active''"
definition LESSON_RESUME_QUERY_PARAMETER :: jstr where "LESSON_RESUME_QUERY_PARAMETER = u ''resume''"
definition LESSON_RESUME_QUERY_VALUE :: jstr where "LESSON_RESUME_QUERY_VALUE = u ''1''"

definition lessonResumeURL :: jstr where
  "lessonResumeURL = ACTIVE_LESSON_PATH @ [63] @ LESSON_RESUME_QUERY_PARAMETER @ [61] @ LESSON_RESUME_QUERY_VALUE"

text \<open>The address is its pathname, search and hash; the answer holds the address that replaces it.\<close>

definition consumeLessonResumeIntent :: "jstr \<Rightarrow> jstr \<Rightarrow> jstr \<Rightarrow> bool \<times> jstr option" where
  "consumeLessonResumeIntent pathname search hash_part =
     (if pathname \<noteq> ACTIVE_LESSON_PATH then (False, None)
      else
        let parameters = params_parse search in
        if params_get parameters LESSON_RESUME_QUERY_PARAMETER \<noteq> Some LESSON_RESUME_QUERY_VALUE then (False, None)
        else
          let query = params_text (params_delete parameters LESSON_RESUME_QUERY_PARAMETER) in
          (True, Some (ACTIVE_LESSON_PATH @ (if query \<noteq> [] then 63 # query else []) @ hash_part)))"

section \<open>The history is the recent path\<close>

fun journey_run :: "rum_env \<Rightarrow> ProductJourneyIntent \<Rightarrow> NavigationTarget list \<Rightarrow> journey \<Rightarrow> journey" where
  "journey_run e intent (t # t' # ts) j = journey_run e intent (t' # ts) (reportProductJourney e t t' intent j)"
| "journey_run e intent ts j = j"

text \<open>The events a path should send: a step goes back when it returns to the route before the current one.\<close>

fun path_events :: "rum_env \<Rightarrow> ProductJourneyIntent \<Rightarrow> ProductJourneyRoute option \<Rightarrow> ProductJourneyRoute list \<Rightarrow> jstr list" where
  "path_events e intent before (r # r' # rs) =
     json_stringify (journey_event e r r' intent (before = Some r')) # path_events e intent (Some r) (r' # rs)"
| "path_events e intent before rs = []"

definition collecting :: "rum_env \<Rightarrow> journey \<Rightarrow> bool" where
  "collecting e j \<longleftrightarrow> re_window e \<and> re_navigator e \<and> re_fetch e \<and> \<not> opted_out e
     \<and> samplingDecision (jn_rum j) = Some True
     \<and> \<not> get_denied (ru_session (jn_rum j)) \<and> \<not> set_denied (ru_session (jn_rum j))"

lemma route_of_text: "route_of (JStr (route_text r)) = Some r"
  by (cases r) (simp_all add: route_of_def ROUTES_def u_eq_iff)

lemma journey_clean: "clean (history_json h)"
proof -
  have "clean (JStr (route_text r))" for r by (cases r) (simp_all add: clean_def)
  then show ?thesis by (induction h) (auto simp: history_json_def clean_def)
qed

lemma read_written:
  assumes "\<not> get_denied st" "\<not> set_denied st"
  shows "readHistory (writeHistory h st) = last_n MAX_HISTORY_LENGTH h"
proof -
  define l where "l = last_n MAX_HISTORY_LENGTH h"
  have "length l \<le> MAX_HISTORY_LENGTH" by (simp add: l_def last_n_def)
  then have l: "last_n MAX_HISTORY_LENGTH l = l" by (simp add: last_n_def)
  have m: "List.map_filter route_of (map (\<lambda>r. JStr (route_text r)) l) = l"
    by (induction l) (simp_all add: List.map_filter_simps route_of_text)
  have "json_parse (json_stringify (history_json l)) = Some (history_json l)" by (rule json.dec_enc) (rule journey_clean)
  then show ?thesis using assms m l
    by (simp add: readHistory_def writeHistory_def getItem_def setItem_def l_def [symmetric] history_json_def)
qed

text \<open>What the history holds after a path: its last three routes, or nothing before the first step.\<close>

definition history_of :: "ProductJourneyRoute list \<Rightarrow> ProductJourneyRoute list \<Rightarrow> bool" where
  "history_of h path \<longleftrightarrow> h = last_n MAX_HISTORY_LENGTH path \<or> (h = [] \<and> length path = 1)"

lemma next_history:
  assumes "history_of h (path @ [r])"
  shows "nextProductJourneyHistory h r r' = (last_n MAX_HISTORY_LENGTH (path @ [r, r']), path \<noteq> [] \<and> last path = r')"
proof (cases path rule: rev_cases)
  case Nil
  then have "h = [] \<or> h = [r]" using assms by (auto simp: history_of_def last_n_def MAX_HISTORY_LENGTH_def)
  then show ?thesis using Nil by (auto simp: nextProductJourneyHistory_def last_n_def MAX_HISTORY_LENGTH_def)
next
  case (snoc p q)
  have h: "h = last_n MAX_HISTORY_LENGTH (p @ [q, r])" using assms snoc by (simp add: history_of_def)
  show ?thesis
  proof (cases p rule: rev_cases)
    case Nil
    then show ?thesis using h snoc by (simp add: nextProductJourneyHistory_def last_n_def MAX_HISTORY_LENGTH_def)
  next
    case (snoc p' x)
    then show ?thesis using h \<open>path = p @ [q]\<close>
      by (simp add: nextProductJourneyHistory_def last_n_def MAX_HISTORY_LENGTH_def)
  qed
qed

lemma report_step:
  fixes intent :: ProductJourneyIntent
  assumes "collecting e j" "history_of (readHistory (ru_session (jn_rum j))) (path @ [productJourneyRoute t])"
    "productJourneyRoute t \<noteq> productJourneyRoute t'"
  defines "j' \<equiv> reportProductJourney e t t' intent j"
  shows "collecting e j'" "readHistory (ru_session (jn_rum j')) = last_n MAX_HISTORY_LENGTH (path @ [productJourneyRoute t, productJourneyRoute t'])"
    "jn_sent j' = jn_sent j @ [json_stringify (journey_event e (productJourneyRoute t) (productJourneyRoute t') intent
       (path \<noteq> [] \<and> last path = productJourneyRoute t'))]"
proof -
  let ?st = "ru_session (jn_rum j)"
  have on: "isCollectionEnabled e (jn_rum j) = (True, jn_rum j)"
    using assms(1) by (simp add: collecting_def isCollectionEnabled_def)
  have d: "\<not> get_denied ?st" "\<not> set_denied ?st" using assms(1) by (simp_all add: collecting_def)
  have w: "get_denied (writeHistory h ?st) = get_denied ?st" "set_denied (writeHistory h ?st) = set_denied ?st" for h
    using d by (simp_all add: writeHistory_def setItem_def)
  have f: "re_fetch e" using assms(1) by (simp add: collecting_def)
  have l: "last_n MAX_HISTORY_LENGTH (last_n MAX_HISTORY_LENGTH xs) = last_n MAX_HISTORY_LENGTH xs" for xs :: "ProductJourneyRoute list"
    by (simp add: last_n_def)
  note step = j'_def reportProductJourney_def Let_def on next_history [OF assms(2)] assms(3) f
  show "collecting e j'" using assms(1) by (simp add: step collecting_def w)
  show "readHistory (ru_session (jn_rum j')) = last_n MAX_HISTORY_LENGTH (path @ [productJourneyRoute t, productJourneyRoute t'])"
    by (simp add: step read_written d l)
  show "jn_sent j' = jn_sent j @ [json_stringify (journey_event e (productJourneyRoute t) (productJourneyRoute t') intent
       (path \<noteq> [] \<and> last path = productJourneyRoute t'))]"
    by (simp add: step)
qed

lemma journey_run_from:
  assumes "collecting e j" "history_of (readHistory (ru_session (jn_rum j))) (path @ [productJourneyRoute t])"
    "successively (\<noteq>) (map productJourneyRoute (t # ts))"
  shows "jn_sent (journey_run e intent (t # ts) j)
      = jn_sent j @ path_events e intent (if path = [] then None else Some (last path)) (map productJourneyRoute (t # ts))
    \<and> history_of (readHistory (ru_session (jn_rum (journey_run e intent (t # ts) j)))) (path @ map productJourneyRoute (t # ts))"
  using assms
proof (induction ts arbitrary: t j path)
  case Nil
  then show ?case by simp
next
  case (Cons t' ts)
  have ne: "productJourneyRoute t \<noteq> productJourneyRoute t'" "successively (\<noteq>) (map productJourneyRoute (t' # ts))"
    using Cons.prems(3) by simp_all
  note s = report_step [OF Cons.prems(1,2) ne(1), of intent]
  have "history_of (readHistory (ru_session (jn_rum (reportProductJourney e t t' intent j)))) ((path @ [productJourneyRoute t]) @ [productJourneyRoute t'])"
    by (simp add: history_of_def s(2))
  from Cons.IH [OF s(1) this ne(2)] show ?case by (auto simp: s(3))
qed

text \<open>C40: Along a path of pages, each step sends one report, which says that the learner goes back exactly if the page
  is the one before the current one; the history that is kept is the last three pages of the path.\<close>

theorem journey_history_is_recent_path:
  fixes intent :: ProductJourneyIntent
  assumes "collecting e j" "readHistory (ru_session (jn_rum j)) = []"
    "successively (\<noteq>) (map productJourneyRoute (t # t' # ts))"
  defines "routes \<equiv> map productJourneyRoute (t # t' # ts)" and "after \<equiv> journey_run e intent (t # t' # ts) j"
  shows "jn_sent after = jn_sent j @ path_events e intent None routes
    \<and> readHistory (ru_session (jn_rum after)) = drop (length routes - 3) routes"
proof -
  have "history_of (readHistory (ru_session (jn_rum j))) ([] @ [productJourneyRoute t])" using assms(2) by (simp add: history_of_def)
  from journey_run_from [OF assms(1) this assms(3), of intent] show ?thesis
    by (auto simp: history_of_def last_n_def MAX_HISTORY_LENGTH_def routes_def after_def)
qed

definition walker :: rum_env where "walker = sample_env\<lparr>re_fetch := True\<rparr>"
definition first_page :: journey where
  "first_page = \<lparr>jn_rum = fresh_rum\<lparr>samplingDecision := Some True\<rparr>, queuedIntent = None, jn_handoff = fresh_handoff, jn_sent = []\<rparr>"

lemma journey_history_is_recent_path_witness:
  "readHistory (ru_session (jn_rum (journey_run walker InAppNavigation
     [only_view HomeView, only_view LearnView, only_view HomeView, only_view ProfileView] first_page)))
   = [LearnRoute, RootRoute, ProfileRoute]"
proof -
  have "collecting walker first_page"
    by (simp add: collecting_def walker_def first_page_def sample_env_def fresh_rum_def opted_out_def isPrivacyOptOutValue_def
        empty_storage_def)
  moreover have "readHistory (ru_session (jn_rum first_page)) = []"
    by (simp add: first_page_def fresh_rum_def readHistory_def getItem_def empty_storage_def) code_simp
  ultimately show ?thesis
    using journey_history_is_recent_path [of walker first_page "only_view HomeView" "only_view LearnView"
        "[only_view HomeView, only_view ProfileView]" InAppNavigation]
    by (simp add: productJourneyRoute_def only_view_def)
qed

end
