(* ===== verification/Active_Lesson.thy ===== *)
theory Active_Lesson
  imports Account_Resources Lesson_Flow Lesson_Result Auth_Session Journey "HOL-Library.AList"
begin

text \<open>
  \<open>src/frontend/components/lexigo-active-lesson-app.tsx\<close>: the controller of the lesson screen.  The state is what the
  component keeps in React state and in refs, the session storage, and what it has sent.  A handler that awaits an
  answer is split there: its first half leaves a pending operation with the values it captured from its render, its
  second half runs when the answer comes.  Every handler sees the state of the last render.  Answers have the type
  their guard or their declaration gives them; the focus of the document and the listener that warns before the page
  is left are not part of the state.
\<close>

section \<open>Data\<close>

record lesson_item =
  ai_id :: jnum
  ai_kind :: "ItemKind option"
  ai_slug :: "jstr option"
  ai_lemma :: jstr
  ai_translation :: jstr
  ai_phonetic :: jstr
  ai_partOfSpeech :: jstr
  ai_topic :: jstr
  ai_aliases :: "jstr list option"
  ai_acceptedAnswers :: "jstr list option"
  ai_examples :: "jstr list"
  ai_note :: jstr
  ai_cloze :: "jstr option"
  ai_clozeAnswer :: "jstr option"
  ai_status :: jstr
  ai_reason :: "LessonSelectionReason option"
  ai_position :: jnum
  ai_rating :: "ReviewRating option"
  ai_reviewedAt :: "jstr option"

record lesson_session =
  lz_id :: jstr
  lz_source :: jstr
  lz_studyMode :: AnswerMode
  lz_sessionKind :: "LessonResultSessionKind option"
  lz_lessonSize :: jstr
  lz_currentIndex :: jnum
  lz_version :: jnum
  lz_items :: "lesson_item list"
  lz_createdAt :: jstr
  lz_updatedAt :: jstr

record LessonReviewResponse =
  vr_wordId :: jnum
  vr_requestedRating :: ReviewRating
  vr_effectiveRating :: ReviewRating
  vr_correct :: "bool option"
  vr_judgementReason :: jstr
  vr_matchedAnswer :: "jstr option"
  vr_reviewEventId :: jnum
  vr_suggestionAvailable :: bool
  vr_lessonId :: jstr
  vr_lessonCurrentIndex :: jnum
  vr_lessonVersion :: jnum
  vr_lastReviewedAt :: jstr
  vr_lessonCompleted :: bool
  vr_lessonReviewedItems :: jnum
  vr_lessonSkippedItems :: jnum
  vr_lessonTotalItems :: jnum

datatype RouteGraphHint = HomeHint | LearnHint | ProductHint

definition SOURCE_LABELS :: "(jstr \<times> jstr) list" where
  "SOURCE_LABELS =
     [(u ''mixed'', [1057, 1084, 1077, 1096, 1072, 1085, 1085, 1072, 1103, 32, 1087, 1088, 1072, 1082, 1090, 1080, 1082, 1072]), (u ''noun'', [1057, 1091, 1097, 1077, 1089, 1090, 1074, 1080, 1090, 1077, 1083, 1100, 1085, 1099, 1077]), (u ''verb'', [1043, 1083, 1072, 1075, 1086, 1083, 1099]),
      (u ''adjective'', [1055, 1088, 1080, 1083, 1072, 1075, 1072, 1090, 1077, 1083, 1100, 1085, 1099, 1077]), (u ''daily-life'', [1041, 1099, 1090, 1086, 1074, 1086, 1081, 32, 1072, 1085, 1075, 1083, 1080, 1081, 1089, 1082, 1080, 1081]),
      (u ''travel'', [1044, 1083, 1103, 32, 1087, 1091, 1090, 1077, 1096, 1077, 1089, 1090, 1074, 1080, 1081]), (u ''data-engineering'', [1048, 1085, 1078, 1077, 1085, 1077, 1088, 1080, 1103, 32, 1076, 1072, 1085, 1085, 1099, 1093]),
      (u ''backend'', [66, 97, 99, 107, 101, 110, 100, 45, 1088, 1072, 1079, 1088, 1072, 1073, 1086, 1090, 1082, 1072]), (u ''academic-technical-english'', u ''Academic Technical English''),
      (u ''phrases'', [1058, 1077, 1093, 1085, 1080, 1095, 1077, 1089, 1082, 1080, 1077, 32, 1092, 1088, 1072, 1079, 1099])]"

definition sourceLabel :: "jstr \<Rightarrow> jstr" where
  "sourceLabel source = (case map_of SOURCE_LABELS source of Some l \<Rightarrow> l | None \<Rightarrow> source)"

definition routeGraphHint :: "NavigationTarget \<Rightarrow> RouteGraphHint" where
  "routeGraphHint target =
     (if nt_view target = HomeView then HomeHint else if nt_view target = LearnView then LearnHint else ProductHint)"

fun kind_text :: "ItemKind \<Rightarrow> jstr" where
  "kind_text WordItem = u ''word''" | "kind_text PhraseItem = u ''phrase''"

definition toLearningItem :: "(jstr \<Rightarrow> jstr) \<Rightarrow> lesson_item \<Rightarrow> LearningItem" where
  "toLearningItem lower item =
     (let kind = (if ai_kind item = Some PhraseItem \<or> lower (ai_partOfSpeech item) = u ''phrase'' then PhraseItem else WordItem) in
      \<lparr>it_id = kind_text kind @ [45] @ num_str (ai_id item), it_wordId = Some (ai_id item), it_kind = kind,
       it_slug = ai_slug item, it_prompt = ai_lemma item, it_answer = ai_translation item,
       it_phonetic = ai_phonetic item, it_partOfSpeech = ai_partOfSpeech item,
       it_section = (if kind = PhraseItem then PhraseSection else PartSection (normalizePartOfSpeech lower (ai_partOfSpeech item))),
       it_topic = ai_topic item, it_aliases = ai_aliases item, it_acceptedAnswers = ai_acceptedAnswers item,
       it_examples = ai_examples item, it_note = ai_note item, it_status = ai_status item,
       it_selectionReason = ai_reason item, it_cloze = ai_cloze item, it_clozeAnswer = ai_clozeAnswer item\<rparr>)"

definition lessonSizeFromAPI :: "jstr \<Rightarrow> LessonSize" where
  "lessonSizeFromAPI v =
     (if v = u ''all'' then SizeAll
      else if string_to_number v = 15 then Size 15 else if string_to_number v = 50 then Size 50
      else if string_to_number v = 60 then Size 60 else Size 30)"

fun size_text :: "LessonSize \<Rightarrow> jstr" where
  "size_text SizeAll = u ''all''" | "size_text (Size n) = nat_str n"

fun mode_text :: "AnswerMode \<Rightarrow> jstr" where
  "mode_text ModeStudy = u ''study''" | "mode_text ModeRecall = u ''recall''" | "mode_text ModeChoice = u ''choice''"
| "mode_text ModeListening = u ''listening''"

fun al_rating_text :: "ReviewRating \<Rightarrow> jstr" where
  "al_rating_text RateAgain = u ''again''" | "al_rating_text RateAlmost = u ''almost''" | "al_rating_text RateKnown = u ''known''"

datatype SelectedAction = SelNextLesson | SelDueReview | SelHome | SelProgress | SelStay

fun selected_text :: "SelectedAction \<Rightarrow> jstr" where
  "selected_text SelNextLesson = u ''next_lesson''" | "selected_text SelDueReview = u ''due_review''"
| "selected_text SelHome = u ''home''" | "selected_text SelProgress = u ''progress''" | "selected_text SelStay = u ''stay''"

fun recommended_text :: "LessonResultRecommendedAction \<Rightarrow> jstr" where
  "recommended_text RecNextLesson = u ''next_lesson''" | "recommended_text RecDueReview = u ''due_review''"
| "recommended_text RecHome = u ''home''" | "recommended_text RecNone = u ''none''"

section \<open>The state\<close>

datatype SuggestionStatus = SuggestIdle | SuggestSubmitting | SuggestSubmitted | SuggestError

text \<open>What \<open>rateCurrent\<close> captured from its render.\<close>

record review_flight =
  fl_item :: LearningItem
  fl_rating :: ReviewRating
  fl_lesson :: lesson_session
  fl_ratings :: "(jstr \<times> ReviewRating) list"
  fl_mode :: AnswerMode
  fl_topic :: jstr

text \<open>The operations that wait for an answer; a load that was started by the effect can be aborted.\<close>

datatype pending =
    LoadTimer | ProgressLoad bool | LessonLoad bool | Resync jstr | Resume | Review review_flight
  | ReviewProgress review_flight LessonReviewResponse Session "(jstr \<times> LessonResultJudgement) list" "ProgressSummary option"
  | ReviewResync | Suggestion | Start LessonResultSnapshot | ResultAction | Preview LessonResultSnapshot

record lesson_app =
  al_session :: Session
  al_activeLesson :: "lesson_session option"
  al_activeLessonStatus :: ResourceStatus
  al_progress :: "ProgressSummary option"
  al_progressStatus :: ResourceStatus
  al_items :: "LearningItem list"
  al_currentIndex :: jnum
  al_studyMode :: AnswerMode
  al_lessonTopic :: jstr
  al_revealed :: bool
  al_selectedAnswer :: jstr
  al_typedAnswer :: jstr
  al_ratings :: "(jstr \<times> ReviewRating) list"
  al_lessonStarted :: bool
  al_lessonComplete :: bool
  al_serverLessonCompleted :: bool
  al_serverNextIndex :: "jnum option"
  al_lessonResult :: "LessonResultSnapshot option"
  al_continuation :: LessonResultContinuation
  al_celebrate :: bool
  al_busy :: bool
  al_reviewing :: bool
  al_reviewFeedback :: "LessonReviewResponse option"
  al_suggestionStatus :: SuggestionStatus
  al_suggestionError :: jstr
  al_actionError :: jstr
  al_lessonQueueNotice :: jstr
  al_cardStartedAt :: jnum
  al_reviewInFlight :: bool
  al_createInFlight :: bool
  al_judgements :: "(jstr \<times> LessonResultJudgement) list"
  al_progressBefore :: "jnum option"
  al_latestProgress :: "ProgressSummary option"
  al_storage :: storage
  al_pending :: "pending list"
  al_requests :: "(jstr \<times> jval option) list"
  al_navigations :: "(NavigationTarget \<times> ProductJourneyIntent \<times> bool) list"
  al_intents :: "ProductJourneyIntent list"
  al_adopted :: "Session list"

text \<open>What the browser answers; \<open>av_message\<close> is the text of a \<open>DOMException\<close>.\<close>

record lesson_env =
  av_lower :: "jstr \<Rightarrow> jstr"
  av_is_LN :: "jstr \<Rightarrow> bool"
  av_parse_date :: "jstr \<Rightarrow> jnum"
  av_message :: jstr
  av_offset :: jnum

fun thrown_message :: "lesson_env \<Rightarrow> jstr \<Rightarrow> thrown \<Rightarrow> jstr" where
  "thrown_message e fallback (Failure f) = rf_message f"
| "thrown_message e fallback AbortException = av_message e"
| "thrown_message e fallback (TypeException m) = m"
| "thrown_message e fallback (ErrorException m) = m"
| "thrown_message e fallback OtherThrown = fallback"

definition has_status :: "nat \<Rightarrow> thrown \<Rightarrow> bool" where
  "has_status n x = (case x of Failure f \<Rightarrow> jeq (rf_status f) (jnat n) | _ \<Rightarrow> False)"

definition has_code :: "string \<Rightarrow> thrown \<Rightarrow> bool" where
  "has_code c x = (case x of Failure f \<Rightarrow> rf_code f = u c | _ \<Rightarrow> False)"

text \<open>\<open>xs[n]\<close>, \<open>None\<close> where JavaScript answers \<open>undefined\<close>.\<close>

definition item_at :: "'a list \<Rightarrow> jnum \<Rightarrow> 'a option" where
  "item_at xs n =
     (if isInteger n \<and> 0 \<le> n \<and> n < jnat (length xs) then (case n of Fin r \<Rightarrow> Some (xs ! nat \<lfloor>r\<rfloor>) | _ \<Rightarrow> None) else None)"

definition start_request :: "pending \<Rightarrow> jstr \<Rightarrow> jval option \<Rightarrow> lesson_app \<Rightarrow> lesson_app" where
  "start_request p path body s = s\<lparr>al_pending := al_pending s @ [p], al_requests := al_requests s @ [(path, body)]\<rparr>"

definition initial_target_topic :: "NavigationTarget \<Rightarrow> jstr" where
  "initial_target_topic t = (case nt_topic t of Some x \<Rightarrow> x | None \<Rightarrow> [])"

definition fresh_lesson_app :: "Session \<Rightarrow> NavigationTarget \<Rightarrow> storage \<Rightarrow> lesson_app" where
  "fresh_lesson_app session target st =
     \<lparr>al_session = session, al_activeLesson = None, al_activeLessonStatus = loadingResourceStatus, al_progress = None,
      al_progressStatus = loadingResourceStatus, al_items = [], al_currentIndex = 0, al_studyMode = ModeRecall,
      al_lessonTopic = initial_target_topic target, al_revealed = False, al_selectedAnswer = [], al_typedAnswer = [],
      al_ratings = [], al_lessonStarted = False, al_lessonComplete = False, al_serverLessonCompleted = False,
      al_serverNextIndex = None, al_lessonResult = None, al_continuation = Checking, al_celebrate = False,
      al_busy = False, al_reviewing = False, al_reviewFeedback = None, al_suggestionStatus = SuggestIdle,
      al_suggestionError = [], al_actionError = [], al_lessonQueueNotice = [], al_cardStartedAt = 0,
      al_reviewInFlight = False, al_createInFlight = False, al_judgements = [], al_progressBefore = None,
      al_latestProgress = None, al_storage = st, al_pending = [LoadTimer], al_requests = [], al_navigations = [],
      al_intents = [], al_adopted = []\<rparr>"

section \<open>Loading\<close>

definition adoptSession :: "Session \<Rightarrow> lesson_app \<Rightarrow> lesson_app" where
  "adoptSession next_session s =
     (if accessToken (ss_tokens (al_session s)) \<noteq> accessToken (ss_tokens next_session)
      then s\<lparr>al_adopted := al_adopted s @ [next_session]\<rparr> else s)"

definition navigate :: "NavigationTarget \<Rightarrow> ProductJourneyIntent \<Rightarrow> bool \<Rightarrow> lesson_app \<Rightarrow> lesson_app" where
  "navigate target intent replace s =
     s\<lparr>al_intents := al_intents s @ [intent], al_navigations := al_navigations s @ [(target, intent, replace)]\<rparr>"

definition progress_request :: "lesson_env \<Rightarrow> jstr" where
  "progress_request e = u ''/api/v1/progress?timezoneOffsetMinutes='' @ num_str (av_offset e)"

definition loadProgress_begin :: "lesson_env \<Rightarrow> pending \<Rightarrow> lesson_app \<Rightarrow> lesson_app" where
  "loadProgress_begin e p s =
     start_request p (progress_request e) None (s\<lparr>al_progressStatus := loadingResourceStatus\<rparr>)"

definition loadProgress_done :: "thrown + Session \<times> ProgressSummary \<Rightarrow> lesson_app \<Rightarrow> lesson_app" where
  "loadProgress_done answer s =
     (case answer of
        Inr (active, p) \<Rightarrow>
          (adoptSession active s)\<lparr>al_latestProgress := Some p, al_progress := Some p, al_progressStatus := readyResourceStatus\<rparr>
      | Inl x \<Rightarrow> s\<lparr>al_progressStatus := failedResourceStatus x ([1087, 1088, 1086, 1075, 1088, 1077, 1089, 1089])\<rparr>)"

definition al_active_path :: jstr where "al_active_path = u ''/api/v1/lessons/active''"

definition loadActiveLesson_begin :: "bool \<Rightarrow> lesson_app \<Rightarrow> lesson_app" where
  "loadActiveLesson_begin signal s =
     start_request (LessonLoad signal) al_active_path None (s\<lparr>al_activeLessonStatus := loadingResourceStatus\<rparr>)"

definition loadActiveLesson_done :: "thrown + Session \<times> lesson_session \<Rightarrow> lesson_app \<Rightarrow> lesson_app" where
  "loadActiveLesson_done answer s =
     (case answer of
        Inr (active, l) \<Rightarrow> (adoptSession active s)\<lparr>al_activeLesson := Some l, al_activeLessonStatus := readyResourceStatus\<rparr>
      | Inl x \<Rightarrow>
          if has_status 404 x then s\<lparr>al_activeLesson := None, al_activeLessonStatus := readyResourceStatus\<rparr>
          else s\<lparr>al_activeLessonStatus := failedResourceStatus x ([1085, 1077, 1079, 1072, 1074, 1077, 1088, 1096, 1105, 1085, 1085, 1099, 1081, 32, 1091, 1088, 1086, 1082])\<rparr>)"

text \<open>The effect of a session: its timer starts both loads; its cleanup aborts the loads that carry its signal.\<close>

definition load_timer :: "lesson_env \<Rightarrow> lesson_app \<Rightarrow> lesson_app" where
  "load_timer e s = loadActiveLesson_begin True (loadProgress_begin e (ProgressLoad True) s)"

definition session_changed :: "Session \<Rightarrow> lesson_app \<Rightarrow> lesson_app" where
  "session_changed session s =
     s\<lparr>al_session := session,
       al_pending := filter (\<lambda>p. p \<notin> {LoadTimer, ProgressLoad True, LessonLoad True}) (al_pending s) @ [LoadTimer]\<rparr>"

definition card_timer :: "jnum \<Rightarrow> lesson_app \<Rightarrow> lesson_app" where
  "card_timer now s = (if \<not> al_lessonStarted s then s else s\<lparr>al_cardStartedAt := now\<rparr>)"

section \<open>Applying a lesson\<close>

definition resetCardState :: "AnswerMode \<Rightarrow> bool \<Rightarrow> lesson_app \<Rightarrow> lesson_app" where
  "resetCardState mode rated s =
     s\<lparr>al_revealed := rated \<or> mode = ModeStudy, al_selectedAnswer := [], al_typedAnswer := [],
       al_reviewFeedback := None, al_suggestionStatus := SuggestIdle, al_suggestionError := []\<rparr>"

definition clearLessonState :: "lesson_app \<Rightarrow> lesson_app" where
  "clearLessonState s =
     s\<lparr>al_items := [], al_currentIndex := 0, al_revealed := False, al_selectedAnswer := [], al_typedAnswer := [],
       al_ratings := [], al_lessonStarted := False, al_lessonComplete := False, al_serverLessonCompleted := False,
       al_serverNextIndex := None, al_lessonResult := None, al_continuation := Checking, al_celebrate := False,
       al_reviewFeedback := None, al_suggestionStatus := SuggestIdle, al_suggestionError := [], al_judgements := [],
       al_progressBefore := None, al_reviewInFlight := False, al_actionError := [], al_lessonQueueNotice := []\<rparr>"

text \<open>The ratings and judgements that a server lesson brings, by item, in the order of the items.\<close>

definition restored_ratings :: "(jstr \<Rightarrow> jstr) \<Rightarrow> lesson_item list \<Rightarrow> (jstr \<times> ReviewRating) list" where
  "restored_ratings lower xs =
     fold (\<lambda>item rs. case ai_rating item of Some r \<Rightarrow> AList.update (it_id (toLearningItem lower item)) r rs | None \<Rightarrow> rs) xs []"

definition restored_judgements ::
  "(jstr \<Rightarrow> jstr) \<Rightarrow> AnswerMode \<Rightarrow> lesson_item list \<Rightarrow> (jstr \<times> LessonResultJudgement) list" where
  "restored_judgements lower mode xs =
     fold (\<lambda>item js. case ai_rating item of
       Some r \<Rightarrow> AList.update (it_id (toLearningItem lower item)) \<lparr>jd_mode = mode, jd_correct = None\<rparr> js | None \<Rightarrow> js) xs []"

definition position_error :: jstr where
  "position_error = [1057, 1077, 1088, 1074, 1077, 1088, 32, 1074, 1077, 1088, 1085, 1091, 1083, 32, 1085, 1077, 1082, 1086, 1088, 1088, 1077, 1082, 1090, 1085, 1091, 1102, 32, 1087, 1086, 1079, 1080, 1094, 1080, 1102, 32, 1091, 1088, 1086, 1082, 1072, 46, 32, 1054, 1073, 1085, 1086, 1074, 1080, 1090, 1077, 32, 1089, 1090, 1088, 1072, 1085, 1080, 1094, 1091, 32, 1080, 1083, 1080, 32, 1085, 1072, 1095, 1085, 1080, 1090, 1077, 32, 1085, 1086, 1074, 1099, 1081, 32, 1073, 1083, 1086, 1082, 46]"

definition clear_stored_result :: "lesson_app \<Rightarrow> lesson_app" where
  "clear_stored_result s =
     (case clearLessonResultSnapshot (al_storage s) (us_id (ss_user (al_session s))) of
        Inr st \<Rightarrow> s\<lparr>al_storage := st\<rparr> | Inl x \<Rightarrow> s)"

definition lesson_index :: "(jstr \<Rightarrow> jstr) \<Rightarrow> lesson_session \<Rightarrow> jnum option" where
  "lesson_index lower l =
     (let lessonItems = map (toLearningItem lower) (lz_items l); rs = restored_ratings lower (lz_items l);
          reviewed = (case item_at lessonItems (lz_currentIndex l) of Some c \<Rightarrow> map_of rs (it_id c) \<noteq> None | None \<Rightarrow> False) in
      resolveActiveLessonIndex (lz_currentIndex l) (jnat (length lessonItems)) reviewed)"

definition applyLesson :: "(jstr \<Rightarrow> jstr) \<Rightarrow> lesson_session \<Rightarrow> lesson_app \<Rightarrow> bool \<times> lesson_app" where
  "applyLesson lower l s =
     (let lessonItems = map (toLearningItem lower) (lz_items l); rs = restored_ratings lower (lz_items l) in
      case (if \<not> isInteger (lz_version l) \<or> lz_version l \<le> 0 then None else lesson_index lower l) of
        None \<Rightarrow> (False, (clearLessonState (s\<lparr>al_activeLesson := None\<rparr>))\<lparr>al_actionError := position_error\<rparr>)
      | Some safeIndex \<Rightarrow>
          let s = (clear_stored_result s)\<lparr>al_lessonResult := None, al_continuation := Checking, al_celebrate := False,
                al_judgements := restored_judgements lower (lz_studyMode l) (lz_items l),
                al_progressBefore := map_option reviewsToday (al_latestProgress s),
                al_activeLesson := Some l, al_studyMode := lz_studyMode l, al_items := lessonItems, al_ratings := rs,
                al_currentIndex := safeIndex\<rparr>;
              rated = (case item_at lessonItems safeIndex of Some c \<Rightarrow> map_of rs (it_id c) \<noteq> None | None \<Rightarrow> False);
              s = resetCardState (lz_studyMode l) rated s in
          (True, s\<lparr>al_lessonComplete := lessonItems = [], al_serverLessonCompleted := False, al_serverNextIndex := None,
                   al_lessonStarted := True\<rparr>))"

definition resynchronize_begin :: "pending \<Rightarrow> lesson_app \<Rightarrow> lesson_app" where
  "resynchronize_begin p s = start_request p al_active_path None s"

definition resynchronize_done :: "lesson_env \<Rightarrow> jstr \<Rightarrow> thrown + Session \<times> lesson_session \<Rightarrow> lesson_app \<Rightarrow> lesson_app" where
  "resynchronize_done e message answer s =
     (case answer of
        Inr (active, l) \<Rightarrow>
          (case applyLesson (av_lower e) l (adoptSession active s) of
             (True, s) \<Rightarrow> s\<lparr>al_actionError := message\<rparr>
           | (False, s) \<Rightarrow> navigate (only_view LearnView) InAppNavigation False s)
      | Inl x \<Rightarrow>
          if has_status 404 x then navigate (only_view LearnView) InAppNavigation False (clearLessonState (s\<lparr>al_activeLesson := None\<rparr>))
          else s\<lparr>al_actionError := thrown_message e ([1053, 1077, 32, 1091, 1076, 1072, 1083, 1086, 1089, 1100, 32, 1089, 1080, 1085, 1093, 1088, 1086, 1085, 1080, 1079, 1080, 1088, 1086, 1074, 1072, 1090, 1100, 32, 1091, 1088, 1086, 1082]) x\<rparr>)"

definition resumeLesson_begin :: "lesson_app \<Rightarrow> lesson_app" where
  "resumeLesson_begin s = start_request Resume al_active_path None (s\<lparr>al_busy := True, al_actionError := []\<rparr>)"

definition resumeLesson_done :: "lesson_env \<Rightarrow> thrown + Session \<times> lesson_session \<Rightarrow> lesson_app \<Rightarrow> lesson_app" where
  "resumeLesson_done e answer s =
     (case answer of
        Inr (active, l) \<Rightarrow>
          (case applyLesson (av_lower e) l (adoptSession active s) of
             (True, s) \<Rightarrow> s | (False, s) \<Rightarrow> navigate (only_view LearnView) InAppNavigation False s)
      | Inl x \<Rightarrow>
          if has_status 404 x
          then s\<lparr>al_activeLesson := None, al_activeLessonStatus := readyResourceStatus,
                 al_actionError := [1053, 1077, 1079, 1072, 1074, 1077, 1088, 1096, 1105, 1085, 1085, 1099, 1081, 32, 1091, 1088, 1086, 1082, 32, 1086, 1090, 1089, 1091, 1090, 1089, 1090, 1074, 1091, 1077, 1090, 46, 32, 1053, 1072, 1095, 1085, 1080, 1090, 1077, 32, 1085, 1086, 1074, 1099, 1081, 32, 1073, 1083, 1086, 1082, 46]\<rparr>
          else s\<lparr>al_actionError := thrown_message e ([1053, 1077, 32, 1091, 1076, 1072, 1083, 1086, 1089, 1100, 32, 1087, 1088, 1086, 1076, 1086, 1083, 1078, 1080, 1090, 1100, 32, 1091, 1088, 1086, 1082]) x\<rparr>)\<lparr>al_busy := False\<rparr>"

section \<open>The stored result and what follows it\<close>

definition mode_of_json :: "jval \<Rightarrow> AnswerMode" where
  "mode_of_json v = (if is_lit v ''study'' then ModeStudy else if is_lit v ''choice'' then ModeChoice else ModeRecall)"

definition kind_of_json :: "jval \<Rightarrow> LessonResultSessionKind option" where
  "kind_of_json v =
     (if is_lit v ''study'' then Some KindStudy else if is_lit v ''review'' then Some KindReview
      else if is_lit v ''remediation'' then Some KindRemediation else None)"

definition objective_of_json :: "jval \<Rightarrow> LessonResultObjectiveEvidence" where
  "objective_of_json v = \<lparr>oe_attempted = num_of (jget v ''attempted''), oe_correct = num_of (jget v ''correct''),
     oe_unavailable = num_of (jget v ''unavailable'')\<rparr>"

definition opt_num :: "jval \<Rightarrow> jnum option" where "opt_num v = (case v of JNum n \<Rightarrow> Some n | _ \<Rightarrow> None)"

text \<open>A readable stored snapshot as a value of its type.\<close>

definition snapshot_of_json :: "jval \<Rightarrow> LessonResultSnapshot" where
  "snapshot_of_json v =
     \<lparr>sn_version = num_of (jget v ''version''), sn_userId = str_of (jget v ''userId''), sn_lessonId = str_of (jget v ''lessonId''),
      sn_source = str_of (jget v ''source''), studyMode = mode_of_json (jget v ''studyMode''),
      sessionKind = kind_of_json (jget v ''sessionKind''), lessonSize = str_of (jget v ''lessonSize''),
      sn_topic = str_of (jget v ''topic''), completedAt = str_of (jget v ''completedAt''),
      itemIds = map num_of (arr_of (jget v ''itemIds'')), itemCount = num_of (jget v ''itemCount''),
      evidence = \<lparr>ev_recall = objective_of_json (jget (jget v ''evidence'') ''recall''),
        ev_recognition = objective_of_json (jget (jget v ''evidence'') ''recognition''),
        ev_reviewed = num_of (jget (jget (jget v ''evidence'') ''activity'') ''reviewed''),
        ev_total = num_of (jget (jget (jget v ''evidence'') ''activity'') ''total'')\<rparr>,
      confidence = \<lparr>cf_known = num_of (jget (jget v ''confidence'') ''known''),
        cf_almost = num_of (jget (jget v ''confidence'') ''almost''), cf_again = num_of (jget (jget v ''confidence'') ''again'')\<rparr>,
      skipped = num_of (jget v ''skipped''), sn_dueNow = num_of (jget v ''dueNow''),
      sn_nextDueAt = (case jget v ''nextDueAt'' of JStr t \<Rightarrow> Some t | _ \<Rightarrow> None), dailyGoal = num_of (jget v ''dailyGoal''),
      reviewsBefore = opt_num (jget v ''reviewsBefore''), reviewsAfter = opt_num (jget v ''reviewsAfter''),
      objectiveReviewsToday = opt_num (jget v ''objectiveReviewsToday''),
      objectiveSuccessfulToday = opt_num (jget v ''objectiveSuccessfulToday''),
      currentStreak = opt_num (jget v ''currentStreak''), dailyGoalReached = jget v ''dailyGoalReached'' = JBool True,
      dailyGoalJustReached = jget v ''dailyGoalJustReached'' = JBool True, syncPending = jget v ''syncPending'' = JBool True\<rparr>"

text \<open>The effect with its microtask, which runs before any other event.\<close>

definition restore_effect :: "lesson_env \<Rightarrow> jnum \<Rightarrow> lesson_app \<Rightarrow> lesson_app" where
  "restore_effect e now s =
     (if al_lessonStarted s \<or> al_activeLesson s \<noteq> None \<or> ar_phase (al_activeLessonStatus s) \<noteq> ReadyPhase then s
      else (case readLessonResultSnapshot (av_parse_date e) (al_storage s) (us_id (ss_user (al_session s))) now of
          Inl x \<Rightarrow> s
        | Inr (None, st) \<Rightarrow> s\<lparr>al_storage := st\<rparr>
        | Inr (Some v, st) \<Rightarrow>
            let restored = snapshot_of_json v in
            s\<lparr>al_storage := st, al_studyMode := studyMode restored, al_lessonTopic := sn_topic restored,
              al_lessonResult := Some restored,
              al_continuation := resolveLessonResultContinuation restored None None None, al_celebrate := False,
              al_lessonStarted := True, al_lessonComplete := True, al_serverLessonCompleted := True,
              al_serverNextIndex := None, al_actionError := []\<rparr>))"

definition lesson_body :: "jstr \<Rightarrow> AnswerMode \<Rightarrow> LessonResultSessionKind option \<Rightarrow> jstr \<Rightarrow> jstr \<Rightarrow> jval" where
  "lesson_body source mode kind block topic =
     JObj ([(u ''source'', JStr source), (u ''studyMode'', JStr (mode_text mode))] @ opt_prop ''sessionKind'' kind_json kind
       @ [(u ''lessonSize'', JStr block)] @ (if topic \<noteq> [] then [(u ''topic'', JStr topic)] else []))"

definition continuation_effect :: "lesson_app \<Rightarrow> lesson_app" where
  "continuation_effect s =
     (case al_lessonResult s of
        None \<Rightarrow> s
      | Some r \<Rightarrow>
          if \<not> al_lessonComplete s then s
          else (case resolveLessonResultContinuation r None None None of
              Checking \<Rightarrow>
                start_request (Preview r) (u ''/api/v1/lessons/preview'')
                  (Some (lesson_body (sn_source r) (studyMode r) (sessionKind r) (lessonSize r) (sn_topic r))) s
            | immediate \<Rightarrow> s\<lparr>al_continuation := immediate\<rparr>))"

text \<open>The preview answers the total of the next block; it is cancelled when the result it is for is gone.\<close>

definition preview_done :: "LessonResultSnapshot \<Rightarrow> thrown + Session \<times> jnum \<Rightarrow> lesson_app \<Rightarrow> lesson_app" where
  "preview_done r answer s =
     (if al_lessonResult s \<noteq> Some r \<or> \<not> al_lessonComplete s then s
      else (case answer of
          Inr (active, preview_total) \<Rightarrow>
            (adoptSession active s)\<lparr>al_continuation := resolveLessonResultContinuation r (Some preview_total)
               (Some (sourceLabel (sn_source r))) (Some (jmax 1 (jround (jdiv preview_total 2))))\<rparr>
        | Inl x \<Rightarrow> s\<lparr>al_continuation := resolveLessonResultContinuation r (Some 0) None None\<rparr>))"

section \<open>The card\<close>

definition currentItem :: "lesson_app \<Rightarrow> LearningItem option" where
  "currentItem s = item_at (al_items s) (al_currentIndex s)"

definition currentRating :: "lesson_app \<Rightarrow> ReviewRating option" where
  "currentRating s = (case currentItem s of Some c \<Rightarrow> map_of (al_ratings s) (it_id c) | None \<Rightarrow> None)"

definition expectedAnswer :: "lesson_app \<Rightarrow> jstr" where
  "expectedAnswer s = (case currentItem s of Some c \<Rightarrow> exerciseAnswer c | None \<Rightarrow> [])"

definition submittedAnswer :: "lesson_app \<Rightarrow> jstr" where
  "submittedAnswer s = (if al_selectedAnswer s \<noteq> [] then al_selectedAnswer s else al_typedAnswer s)"

definition literalMatch :: "lesson_env \<Rightarrow> lesson_app \<Rightarrow> bool" where
  "literalMatch e s =
     (case currentItem s of
        Some c \<Rightarrow> trim (submittedAnswer s) \<noteq> [] \<and> aj_correct (judgeLearningAnswer (av_lower e) (av_is_LN e) c (submittedAnswer s))
      | None \<Rightarrow> False)"

definition answerOptions :: "lesson_app \<Rightarrow> jstr list" where
  "answerOptions s = (case currentItem s of Some c \<Rightarrow> buildAnswerOptions c (al_items s) 4 | None \<Rightarrow> [])"

definition advance_of :: "lesson_app \<Rightarrow> LessonAdvanceDecision" where
  "advance_of s =
     decideLessonAdvance \<lparr>currentIndex = al_currentIndex s, li_itemCount = jnat (length (al_items s)),
       reviewPersisted = currentRating s \<noteq> None, reviewSaving = al_reviewing s,
       serverCompleted = al_serverLessonCompleted s, serverNextIndex = al_serverNextIndex s\<rparr>"

definition resync_message :: jstr where "resync_message = [1059, 1088, 1086, 1082, 32, 1089, 1080, 1085, 1093, 1088, 1086, 1085, 1080, 1079, 1080, 1088, 1086, 1074, 1072, 1085, 32, 1089, 32, 1089, 1077, 1088, 1074, 1077, 1088, 1086, 1084, 46]"
definition changed_message :: jstr where
  "changed_message = [1059, 1088, 1086, 1082, 32, 1080, 1079, 1084, 1077, 1085, 1105, 1085, 32, 1085, 1072, 32, 1076, 1088, 1091, 1075, 1086, 1084, 32, 1091, 1089, 1090, 1088, 1086, 1081, 1089, 1090, 1074, 1077, 46, 32, 1055, 1086, 1082, 1072, 1079, 1072, 1085, 1072, 32, 1072, 1082, 1090, 1091, 1072, 1083, 1100, 1085, 1072, 1103, 32, 1082, 1072, 1088, 1090, 1086, 1095, 1082, 1072, 46]"

definition invalid_position_message :: jstr where
  "invalid_position_message = [1057, 1077, 1088, 1074, 1077, 1088, 32, 1074, 1077, 1088, 1085, 1091, 1083, 32, 1085, 1077, 1076, 1086, 1087, 1091, 1089, 1090, 1080, 1084, 1091, 1102, 32, 1087, 1086, 1079, 1080, 1094, 1080, 1102, 32, 1091, 1088, 1086, 1082, 1072, 46, 32, 1042, 1099, 1087, 1086, 1083, 1085, 1077, 1085, 1072, 32, 1087, 1086, 1074, 1090, 1086, 1088, 1085, 1072, 1103, 32, 1089, 1080, 1085, 1093, 1088, 1086, 1085, 1080, 1079, 1072, 1094, 1080, 1103, 46]"

definition moveToServerIndex :: "jnum \<Rightarrow> lesson_app \<Rightarrow> lesson_app" where
  "moveToServerIndex index s =
     (case item_at (al_items s) index of
        None \<Rightarrow> resynchronize_begin (Resync resync_message)
          (s\<lparr>al_actionError := invalid_position_message\<rparr>)
      | Some target \<Rightarrow>
          resetCardState (al_studyMode s) (map_of (al_ratings s) (it_id target) \<noteq> None)
            (s\<lparr>al_currentIndex := index, al_serverNextIndex := None\<rparr>))"

definition nextItem :: "lesson_app \<Rightarrow> lesson_app" where
  "nextItem s =
     (case advance_of s of
        Blocked label reason \<Rightarrow>
          s\<lparr>al_actionError := (if reason = CompletionNotConfirmed
             then [1057, 1077, 1088, 1074, 1077, 1088, 32, 1077, 1097, 1105, 32, 1085, 1077, 32, 1087, 1086, 1076, 1090, 1074, 1077, 1088, 1076, 1080, 1083, 32, 1079, 1072, 1074, 1077, 1088, 1096, 1077, 1085, 1080, 1077, 32, 1091, 1088, 1086, 1082, 1072, 46, 32, 1055, 1086, 1074, 1090, 1086, 1088, 1080, 1090, 1077, 32, 1087, 1086, 1087, 1099, 1090, 1082, 1091, 46]
             else [1057, 1085, 1072, 1095, 1072, 1083, 1072, 32, 1089, 1086, 1093, 1088, 1072, 1085, 1080, 1090, 1077, 32, 1086, 1094, 1077, 1085, 1082, 1091, 32, 1090, 1077, 1082, 1091, 1097, 1077, 1081, 32, 1082, 1072, 1088, 1090, 1086, 1095, 1082, 1080, 46])\<rparr>
      | Results label \<Rightarrow> s\<lparr>al_actionError := [], al_lessonComplete := True\<rparr>
      | Next label index \<Rightarrow> moveToServerIndex index (s\<lparr>al_actionError := []\<rparr>))"

section \<open>Rating\<close>

definition review_body :: "lesson_env \<Rightarrow> jnum \<Rightarrow> ReviewRating \<Rightarrow> lesson_session \<Rightarrow> lesson_app \<Rightarrow> jval" where
  "review_body e submittedAt rating l s =
     JObj ([(u ''lessonVersion'', JNum (lz_version l)), (u ''rating'', JStr (al_rating_text rating)),
            (u ''responseMs'', JNum (jmax 0 (jround (submittedAt - al_cardStartedAt s)))),
            (u ''answerMode'', JStr (mode_text (al_studyMode s))),
            (u ''answerRevealed'', JBool (al_revealed s \<or> al_studyMode s = ModeStudy))]
       @ (if al_studyMode s = ModeStudy then [] else [(u ''submittedAnswer'', JStr (submittedAnswer s))])
       @ [(u ''timezoneOffsetMinutes'', JNum (av_offset e))])"

definition review_path :: "jstr \<Rightarrow> jnum \<Rightarrow> jstr" where
  "review_path lessonId wordId = u ''/api/v1/lessons/'' @ lessonId @ u ''/words/'' @ num_str wordId @ u ''/review''"

definition rateCurrent :: "lesson_env \<Rightarrow> ReviewRating \<Rightarrow> jnum \<Rightarrow> lesson_app \<Rightarrow> lesson_app" where
  "rateCurrent e rating submittedAt s =
     (case (currentItem s, al_activeLesson s) of
        (Some item, Some l) \<Rightarrow>
          (case it_wordId item of
             None \<Rightarrow> s
           | Some wordId \<Rightarrow>
               if currentRating s \<noteq> None \<or> al_reviewInFlight s then s
               else start_request
                 (Review \<lparr>fl_item = item, fl_rating = rating, fl_lesson = l, fl_ratings = al_ratings s,
                    fl_mode = al_studyMode s, fl_topic = al_lessonTopic s\<rparr>)
                 (review_path (lz_id l) wordId) (Some (review_body e submittedAt rating l s))
                 (s\<lparr>al_reviewInFlight := True, al_reviewing := True, al_actionError := [], al_reviewFeedback := None,
                    al_suggestionStatus := SuggestIdle, al_suggestionError := []\<rparr>))
      | _ \<Rightarrow> s)"

text \<open>The \<open>finally\<close> of the handler.\<close>

definition rate_finally :: "lesson_app \<Rightarrow> lesson_app" where
  "rate_finally s = s\<lparr>al_reviewInFlight := False, al_reviewing := False\<rparr>"

definition reviewed_lesson :: "review_flight \<Rightarrow> LessonReviewResponse \<Rightarrow> lesson_session \<Rightarrow> lesson_session" where
  "reviewed_lesson f d l =
     l\<lparr>lz_currentIndex := vr_lessonCurrentIndex d, lz_version := vr_lessonVersion d,
       lz_items := map (\<lambda>i. if Some (ai_id i) = it_wordId (fl_item f)
         then i\<lparr>ai_rating := Some (fl_rating f), ai_reviewedAt := Some (vr_lastReviewedAt d)\<rparr> else i) (lz_items l)\<rparr>"

definition rate_answered :: "lesson_env \<Rightarrow> review_flight \<Rightarrow> thrown + Session \<times> LessonReviewResponse \<Rightarrow> lesson_app \<Rightarrow> lesson_app" where
  "rate_answered e f answer s =
     (case answer of
        Inr (active, d) \<Rightarrow>
          let key = it_id (fl_item f);
              nextRatings = AList.update key (fl_rating f) (fl_ratings f);
              nextJudgements = AList.update key \<lparr>jd_mode = fl_mode f, jd_correct = vr_correct d\<rparr> (al_judgements s);
              s = (adoptSession active (s\<lparr>al_judgements := nextJudgements\<rparr>))\<lparr>al_ratings := nextRatings,
                al_reviewFeedback := Some d, al_serverLessonCompleted := vr_lessonCompleted d,
                al_serverNextIndex := (if vr_lessonCompleted d then None else Some (vr_lessonCurrentIndex d)),
                al_activeLesson := (if vr_lessonCompleted d then None else map_option (reviewed_lesson f d) (al_activeLesson s))\<rparr> in
          loadProgress_begin e (ReviewProgress (f\<lparr>fl_ratings := nextRatings\<rparr>) d active nextJudgements (al_latestProgress s)) s
      | Inl x \<Rightarrow>
          if has_status 409 x \<or> has_code ''lesson_item_not_found'' x \<or> has_code ''active_lesson_not_found'' x
          then resynchronize_begin ReviewResync s
          else rate_finally (s\<lparr>al_actionError := thrown_message e ([1053, 1077, 32, 1091, 1076, 1072, 1083, 1086, 1089, 1100, 32, 1089, 1086, 1093, 1088, 1072, 1085, 1080, 1090, 1100, 32, 1088, 1077, 1079, 1091, 1083, 1100, 1090, 1072, 1090]) x\<rparr>))"

definition result_input ::
  "review_flight \<Rightarrow> LessonReviewResponse \<Rightarrow> Session \<Rightarrow> (jstr \<times> LessonResultJudgement) list \<Rightarrow> ProgressSummary option
    \<Rightarrow> jnum option \<Rightarrow> bool \<Rightarrow> BuildLessonResultSnapshotInput" where
  "result_input f d active js progress before pending_sync =
     \<lparr>bi_userId = us_id (ss_user active), bi_lessonId = lz_id (fl_lesson f), bi_source = lz_source (fl_lesson f),
      bi_studyMode = lz_studyMode (fl_lesson f), bi_sessionKind = lz_sessionKind (fl_lesson f),
      bi_lessonSize = lz_lessonSize (fl_lesson f), bi_topic = Some (fl_topic f), bi_completedAt = None,
      bi_itemIds = map ai_id (lz_items (fl_lesson f)), judgements = js, ratings = fl_ratings f,
      bi_skipped = vr_lessonSkippedItems d,
      bi_dueNow = (case progress of Some p \<Rightarrow> pg_dueNow p | None \<Rightarrow> 0),
      bi_nextDueAt = Option.bind progress pg_nextDueAt,
      bi_dailyGoal = (case progress of Some p \<Rightarrow> pg_dailyGoal p | None \<Rightarrow> 0),
      bi_reviewsBefore = before, bi_reviewsAfter = map_option reviewsToday progress,
      bi_objectiveReviewsToday = Option.bind progress pg_objectiveReviewsToday,
      bi_objectiveSuccessfulToday = Option.bind progress pg_objectiveSuccessfulToday,
      bi_currentStreak = map_option pg_currentStreak progress, bi_syncPending = pending_sync\<rparr>"

definition store_result :: "LessonResultSnapshot \<Rightarrow> storage \<Rightarrow> bool \<times> storage" where
  "store_result r st =
     (case writeLessonResultSnapshot st r of
        Inl x \<Rightarrow> (False, st)
      | Inr st \<Rightarrow> (case claimDailyGoalCelebration st r of Inl x \<Rightarrow> (False, st) | Inr (c, st) \<Rightarrow> (c, st)))"

definition stale_progress_message :: jstr where
  "stale_progress_message = [1054, 1094, 1077, 1085, 1082, 1072, 32, 1089, 1086, 1093, 1088, 1072, 1085, 1077, 1085, 1072, 44, 32, 1085, 1086, 32, 1089, 1090, 1072, 1090, 1080, 1089, 1090, 1080, 1082, 1072, 32, 1086, 1073, 1085, 1086, 1074, 1080, 1090, 1089, 1103, 32, 1087, 1086, 1089, 1083, 1077, 32, 1089, 1083, 1077, 1076, 1091, 1102, 1097, 1077, 1081, 32, 1089, 1080, 1085, 1093, 1088, 1086, 1085, 1080, 1079, 1072, 1094, 1080, 1080, 46]"

text \<open>\<open>now\<close> is the moment as \<open>toISOString\<close> writes it.\<close>

definition rate_progress ::
  "lesson_env \<Rightarrow> jstr \<Rightarrow> review_flight \<Rightarrow> LessonReviewResponse \<Rightarrow> Session \<Rightarrow> (jstr \<times> LessonResultJudgement) list
    \<Rightarrow> ProgressSummary option \<Rightarrow> thrown + Session \<times> ProgressSummary \<Rightarrow> lesson_app \<Rightarrow> lesson_app" where
  "rate_progress e now f d active js latest answer s =
     (let s = loadProgress_done answer s;
          (completionProgress, pending_sync, s) = (case answer of
             Inr (a, p) \<Rightarrow> (Some p, False, s)
           | Inl x \<Rightarrow> (latest, True, s\<lparr>al_actionError := stale_progress_message\<rparr>)) in
      rate_finally
        (if \<not> vr_lessonCompleted d then s
         else
           let r = buildLessonResultSnapshot (av_parse_date e) now
                 (result_input f d active js completionProgress (al_progressBefore s) pending_sync);
               (celebrate, st) = store_result r (al_storage s) in
           s\<lparr>al_storage := st, al_lessonResult := Some r,
             al_continuation := resolveLessonResultContinuation r None None None, al_celebrate := celebrate\<rparr>))"

definition rate_resynced :: "lesson_env \<Rightarrow> thrown + Session \<times> lesson_session \<Rightarrow> lesson_app \<Rightarrow> lesson_app" where
  "rate_resynced e answer s = rate_finally (resynchronize_done e changed_message answer s)"

section \<open>Suggestions and the next lesson\<close>

definition submitAnswerSuggestion :: "lesson_app \<Rightarrow> lesson_app" where
  "submitAnswerSuggestion s =
     (case (currentItem s, al_reviewFeedback s) of
        (Some item, Some feedback) \<Rightarrow>
          (case it_wordId item of
             None \<Rightarrow> s
           | Some wordId \<Rightarrow>
               if trim (submittedAnswer s) = [] \<or> \<not> vr_suggestionAvailable feedback \<or> vr_reviewEventId feedback \<le> 0 then s
               else start_request Suggestion (u ''/api/v1/words/'' @ num_str wordId @ u ''/answer-suggestions'')
                 (Some (JObj [(u ''reviewEventId'', JNum (vr_reviewEventId feedback)),
                    (u ''exerciseKind'', JStr (if it_kind item = PhraseItem then u ''cloze'' else u ''translation'')),
                    (u ''submittedAnswer'', JStr (trim (submittedAnswer s)))]))
                 (s\<lparr>al_suggestionStatus := SuggestSubmitting, al_suggestionError := []\<rparr>))
      | _ \<Rightarrow> s)"

definition suggestion_done :: "lesson_env \<Rightarrow> thrown + Session \<Rightarrow> lesson_app \<Rightarrow> lesson_app" where
  "suggestion_done e answer s =
     (case answer of
        Inr active \<Rightarrow> (adoptSession active s)\<lparr>al_suggestionStatus := SuggestSubmitted\<rparr>
      | Inl x \<Rightarrow> s\<lparr>al_suggestionStatus := SuggestError,
          al_suggestionError := thrown_message e ([1053, 1077, 32, 1091, 1076, 1072, 1083, 1086, 1089, 1100, 32, 1086, 1090, 1087, 1088, 1072, 1074, 1080, 1090, 1100, 32, 1074, 1072, 1088, 1080, 1072, 1085, 1090, 32, 1085, 1072, 32, 1087, 1088, 1086, 1074, 1077, 1088, 1082, 1091]) x\<rparr>)"

definition startLesson ::
  "jstr \<Rightarrow> LessonSize \<Rightarrow> AnswerMode \<Rightarrow> jstr \<Rightarrow> LessonResultSnapshot \<Rightarrow> LessonResultSessionKind option \<Rightarrow> lesson_app \<Rightarrow> lesson_app" where
  "startLesson source block mode topic previous kind s =
     (if al_createInFlight s then s
      else start_request (Start previous) (u ''/api/v1/lessons'')
        (Some (lesson_body source mode kind (size_text block) topic))
        (s\<lparr>al_createInFlight := True, al_busy := True, al_actionError := [],
           al_progressBefore := map_option reviewsToday (al_latestProgress s)\<rparr>))"

definition same_lesson_message :: jstr where
  "same_lesson_message = [1057, 1083, 1077, 1076, 1091, 1102, 1097, 1080, 1081, 32, 1091, 1088, 1086, 1082, 32, 1089, 1086, 1074, 1087, 1072, 1083, 32, 1089, 32, 1079, 1072, 1074, 1077, 1088, 1096, 1105, 1085, 1085, 1099, 1084, 32, 1073, 1083, 1086, 1082, 1086, 1084, 46, 32, 1054, 1073, 1085, 1086, 1074, 1080, 1090, 1077, 32, 1086, 1095, 1077, 1088, 1077, 1076, 1100, 32, 1080, 32, 1087, 1086, 1074, 1090, 1086, 1088, 1080, 1090, 1077, 32, 1087, 1086, 1087, 1099, 1090, 1082, 1091, 46]"

definition startLesson_done :: "lesson_env \<Rightarrow> LessonResultSnapshot \<Rightarrow> thrown + Session \<times> lesson_session \<Rightarrow> lesson_app \<Rightarrow> lesson_app" where
  "startLesson_done e previous answer s =
     (case answer of
        Inr (active, l) \<Rightarrow>
          if \<not> isDistinctLessonResultCandidate (sn_lessonId previous) (itemIds previous)
               \<lparr>cd_id = lz_id l, cd_itemIds = map ai_id (lz_items l)\<rparr>
          then s\<lparr>al_actionError := same_lesson_message\<rparr>
          else (case applyLesson (av_lower e) l (adoptSession active s) of
              (True, s) \<Rightarrow> s\<lparr>al_intents := al_intents s @ [LessonStart]\<rparr> | (False, s) \<Rightarrow> s)
      | Inl x \<Rightarrow> s\<lparr>al_actionError := thrown_message e ([1053, 1077, 32, 1091, 1076, 1072, 1083, 1086, 1089, 1100, 32, 1089, 1092, 1086, 1088, 1084, 1080, 1088, 1086, 1074, 1072, 1090, 1100, 32, 1091, 1095, 1077, 1073, 1085, 1099, 1081, 32, 1073, 1083, 1086, 1082]) x\<rparr>)
     \<lparr>al_createInFlight := False, al_busy := False\<rparr>"

definition recordLessonResultAction :: "SelectedAction \<Rightarrow> lesson_app \<Rightarrow> lesson_app" where
  "recordLessonResultAction selected s =
     (case al_lessonResult s of
        None \<Rightarrow> s
      | Some r \<Rightarrow> start_request ResultAction (u ''/api/v1/lessons/'' @ sn_lessonId r @ u ''/result-action'')
          (Some (JObj [(u ''recommendedAction'', JStr (recommended_text (lessonResultRecommendedAction (al_continuation s)))),
             (u ''selectedAction'', JStr (selected_text selected))])) s)"

definition result_action_done :: "thrown + Session \<Rightarrow> lesson_app \<Rightarrow> lesson_app" where
  "result_action_done answer s = (case answer of Inr active \<Rightarrow> adoptSession active s | Inl x \<Rightarrow> s)"

definition leaveLesson :: "NavigationTarget \<Rightarrow> ProductJourneyIntent \<Rightarrow> lesson_app \<Rightarrow> lesson_app" where
  "leaveLesson target intent s = navigate target intent (intent = LessonExit) (clearLessonState s)"

definition startNextLessonFromResult :: "lesson_app \<Rightarrow> lesson_app" where
  "startNextLessonFromResult s =
     (case al_lessonResult s of
        None \<Rightarrow> s
      | Some r \<Rightarrow>
          startLesson (if map_of SOURCE_LABELS (sn_source r) \<noteq> None then sn_source r else u ''mixed'')
            (lessonSizeFromAPI (lessonSize r)) (studyMode r) (sn_topic r) r (sessionKind r)
            (recordLessonResultAction SelNextLesson s))"

definition startDueReviewFromResult :: "lesson_app \<Rightarrow> lesson_app" where
  "startDueReviewFromResult s =
     (case al_lessonResult s of
        None \<Rightarrow> s
      | Some r \<Rightarrow> startLesson (u ''mixed'') (Size 15) ModeRecall [] r (Some KindReview) (recordLessonResultAction SelDueReview s))"

section \<open>What is shown\<close>

datatype lesson_screen = LoadingScreen | ErrorScreen RequestProblem | SavedScreen lesson_session | NoLessonScreen
  | ResultScreen LessonResultSnapshot | ResultMissing | CardMissing | CardScreen LearningItem jnum LessonAdvanceDecision

definition renderLesson :: "lesson_app \<Rightarrow> lesson_screen" where
  "renderLesson s =
     (if \<not> al_lessonStarted s then
        (if ar_phase (al_activeLessonStatus s) \<in> {IdlePhase, LoadingPhase} then LoadingScreen
         else (case (ar_phase (al_activeLessonStatus s), ar_problem (al_activeLessonStatus s)) of
             (ErrorPhase, Some p) \<Rightarrow> ErrorScreen p
           | _ \<Rightarrow> (case al_activeLesson s of Some l \<Rightarrow> SavedScreen l | None \<Rightarrow> NoLessonScreen)))
      else if al_lessonComplete s then (case al_lessonResult s of Some r \<Rightarrow> ResultScreen r | None \<Rightarrow> ResultMissing)
      else (case currentItem s of
          None \<Rightarrow> CardMissing
        | Some item \<Rightarrow>
            CardScreen item
              (jmin 100 (jmax 0 (jround (jdiv (al_currentIndex s + 1) (jnat (length (al_items s))) * 100))))
              (advance_of s)))"

text \<open>What the card hands back.\<close>

definition reveal :: "lesson_app \<Rightarrow> lesson_app" where "reveal s = s\<lparr>al_revealed := True\<rparr>"
definition choose_answer :: "jstr \<Rightarrow> lesson_app \<Rightarrow> lesson_app" where
  "choose_answer a s = s\<lparr>al_selectedAnswer := a, al_revealed := True\<rparr>"
definition type_answer :: "jstr \<Rightarrow> lesson_app \<Rightarrow> lesson_app" where "type_answer a s = s\<lparr>al_typedAnswer := a\<rparr>"
definition stay_on_result :: "lesson_app \<Rightarrow> lesson_app" where
  "stay_on_result s = (recordLessonResultAction SelStay s)
     \<lparr>al_lessonQueueNotice := [1056, 1077, 1079, 1091, 1083, 1100, 1090, 1072, 1090, 32, 1089, 1086, 1093, 1088, 1072, 1085, 1105, 1085, 32, 1080, 32, 1086, 1089, 1090, 1072, 1085, 1077, 1090, 1089, 1103, 32, 1076, 1086, 1089, 1090, 1091, 1087, 1077, 1085, 32, 1085, 1072, 32, 1101, 1090, 1086, 1084, 32, 1101, 1082, 1088, 1072, 1085, 1077, 46]\<rparr>"
definition home_from_result :: "lesson_app \<Rightarrow> lesson_app" where
  "home_from_result s = leaveLesson (only_view HomeView) InAppNavigation (recordLessonResultAction SelHome s)"
definition progress_from_result :: "lesson_app \<Rightarrow> lesson_app" where
  "progress_from_result s = leaveLesson (only_view ProgressView) InAppNavigation (recordLessonResultAction SelProgress s)"

end
