(* ===== verification/Lesson_Visit.thy ===== *)
theory Lesson_Visit
  imports Active_Lesson
begin

text \<open>
  A visit of the lesson screen of \<open>Active_Lesson\<close>: the steps the learner, the effects and the answers can take, in
  any order, until the learner leaves the screen.  The screens that excuse a missing card or result never appear,
  reviews are sent one at a time, and a lesson whose reviews the server accepts can be finished.
\<close>

section \<open>Steps\<close>

definition taken :: "pending \<Rightarrow> lesson_app \<Rightarrow> lesson_app" where
  "taken p s = s\<lparr>al_pending := remove1 p (al_pending s)\<rparr>"

text \<open>
  What the server promises of an active lesson: a positive version and a current card that is not reviewed yet.
\<close>

definition server_lesson :: "(jstr \<Rightarrow> jstr) \<Rightarrow> lesson_session \<Rightarrow> bool" where
  "server_lesson lower l \<longleftrightarrow> isInteger (lz_version l) \<and> 0 < lz_version l \<and> lesson_index lower l \<noteq> None"

definition lesson_answer :: "lesson_env \<Rightarrow> thrown + Session \<times> lesson_session \<Rightarrow> bool" where
  "lesson_answer e a \<longleftrightarrow> (case a of Inr (active, l) \<Rightarrow> server_lesson (av_lower e) l | Inl x \<Rightarrow> True)"

definition on_card :: "lesson_app \<Rightarrow> bool" where
  "on_card s \<longleftrightarrow> (case renderLesson s of CardScreen i p d \<Rightarrow> True | _ \<Rightarrow> False)"
definition on_result :: "lesson_app \<Rightarrow> bool" where
  "on_result s \<longleftrightarrow> (case renderLesson s of ResultScreen r \<Rightarrow> True | _ \<Rightarrow> False)"

inductive visit_step :: "lesson_env \<Rightarrow> lesson_app \<Rightarrow> lesson_app \<Rightarrow> bool" for e where
  v_reveal: "on_card s \<Longrightarrow> visit_step e s (reveal s)"
| v_choose: "on_card s \<Longrightarrow> visit_step e s (choose_answer a s)"
| v_type: "on_card s \<Longrightarrow> visit_step e s (type_answer a s)"
| v_rate: "on_card s \<Longrightarrow> visit_step e s (rateCurrent e rating t s)"
| v_next: "on_card s \<Longrightarrow> visit_step e s (nextItem s)"
| v_suggest: "on_card s \<Longrightarrow> visit_step e s (submitAnswerSuggestion s)"
| v_resume: "renderLesson s = SavedScreen l \<Longrightarrow> visit_step e s (resumeLesson_begin s)"
| v_sync: "renderLesson s = CardMissing \<Longrightarrow> visit_step e s (resynchronize_begin (Resync resync_message) s)"
| v_retry_lesson: "\<not> al_lessonStarted s \<Longrightarrow> visit_step e s (loadActiveLesson_begin False s)"
| v_retry_progress: "\<not> al_lessonStarted s \<Longrightarrow> visit_step e s (loadProgress_begin e (ProgressLoad False) s)"
| v_next_lesson: "on_result s \<Longrightarrow> visit_step e s (startNextLessonFromResult s)"
| v_due_review: "on_result s \<Longrightarrow> visit_step e s (startDueReviewFromResult s)"
| v_stay: "on_result s \<Longrightarrow> visit_step e s (stay_on_result s)"
| v_session: "visit_step e s (session_changed session s)"
| v_card_timer: "visit_step e s (card_timer now s)"
| v_restore: "visit_step e s (restore_effect e now s)"
| v_continuation: "visit_step e s (continuation_effect s)"
| v_load: "LoadTimer \<in> set (al_pending s) \<Longrightarrow> visit_step e s (load_timer e (taken LoadTimer s))"
| v_progress: "ProgressLoad b \<in> set (al_pending s) \<Longrightarrow>
    visit_step e s (loadProgress_done answer (taken (ProgressLoad b) s))"
| v_lesson: "LessonLoad b \<in> set (al_pending s) \<Longrightarrow>
    visit_step e s (loadActiveLesson_done answer (taken (LessonLoad b) s))"
| v_resync: "Resync m \<in> set (al_pending s) \<Longrightarrow> lesson_answer e answer \<Longrightarrow>
    visit_step e s (resynchronize_done e m answer (taken (Resync m) s))"
| v_resumed: "Resume \<in> set (al_pending s) \<Longrightarrow> lesson_answer e answer \<Longrightarrow>
    visit_step e s (resumeLesson_done e answer (taken Resume s))"
| v_reviewed: "Review f \<in> set (al_pending s) \<Longrightarrow> visit_step e s (rate_answered e f review (taken (Review f) s))"
| v_review_progress: "ReviewProgress f d active js latest \<in> set (al_pending s) \<Longrightarrow>
    visit_step e s (rate_progress e now_text f d active js latest progress (taken (ReviewProgress f d active js latest) s))"
| v_review_resync: "ReviewResync \<in> set (al_pending s) \<Longrightarrow> lesson_answer e answer \<Longrightarrow>
    visit_step e s (rate_resynced e answer (taken ReviewResync s))"
| v_suggested: "Suggestion \<in> set (al_pending s) \<Longrightarrow> visit_step e s (suggestion_done e answered (taken Suggestion s))"
| v_started: "Start r \<in> set (al_pending s) \<Longrightarrow> lesson_answer e answer \<Longrightarrow>
    visit_step e s (startLesson_done e r answer (taken (Start r) s))"
| v_action: "ResultAction \<in> set (al_pending s) \<Longrightarrow> visit_step e s (result_action_done answered (taken ResultAction s))"
| v_preview: "Preview r \<in> set (al_pending s) \<Longrightarrow> visit_step e s (preview_done r previewed (taken (Preview r) s))"

inductive visit :: "lesson_env \<Rightarrow> lesson_app \<Rightarrow> bool" for e where
  visit_start: "visit e (fresh_lesson_app session target st)"
| visit_more: "visit e s \<Longrightarrow> visit_step e s s' \<Longrightarrow> visit e s'"

section \<open>The invariant\<close>

fun is_review :: "pending \<Rightarrow> bool" where
  "is_review (Review f) = True" | "is_review (ReviewProgress f d a js l) = True" | "is_review ReviewResync = True"
| "is_review p = False"

fun is_resync :: "pending \<Rightarrow> bool" where
  "is_resync (Resync m) = True" | "is_resync p = False"

definition reviews :: "lesson_app \<Rightarrow> pending list" where "reviews s = filter is_review (al_pending s)"

fun confirms :: "pending \<Rightarrow> bool" where
  "confirms (ReviewProgress f d a js l) = vr_lessonCompleted d" | "confirms p = False"

definition visit_ok :: "lesson_app \<Rightarrow> bool" where
  "visit_ok s \<longleftrightarrow>
     length (reviews s) \<le> 1 \<and> (al_reviewInFlight s \<longleftrightarrow> reviews s \<noteq> []) \<and> (al_reviewing s \<longleftrightarrow> reviews s \<noteq> [])
     \<and> (reviews s \<noteq> [] \<longrightarrow> al_lessonStarted s \<and> \<not> al_lessonComplete s)
     \<and> (al_lessonStarted s \<and> \<not> al_lessonComplete s \<longrightarrow> currentItem s \<noteq> None)
     \<and> (al_lessonComplete s \<longrightarrow> al_lessonStarted s \<and> al_serverLessonCompleted s)
     \<and> (al_serverLessonCompleted s \<longrightarrow> al_lessonResult s \<noteq> None \<or> list_ex confirms (reviews s))
     \<and> filter is_resync (al_pending s) = []"

text \<open>The fields the invariant speaks of.\<close>

definition core :: "lesson_app \<Rightarrow> _" where
  "core s = (reviews s, filter is_resync (al_pending s), al_reviewInFlight s, al_reviewing s, al_lessonStarted s,
     al_lessonComplete s, al_serverLessonCompleted s, al_lessonResult s, al_items s, al_currentIndex s)"

lemma same_core: "core s' = core s \<Longrightarrow> visit_ok s \<Longrightarrow> visit_ok s'"
  by (simp add: core_def visit_ok_def currentItem_def)

lemma start_request_core:
  "\<not> is_review p \<Longrightarrow> \<not> is_resync p \<Longrightarrow> core (start_request p path body s) = core s"
  by (simp add: core_def start_request_def reviews_def)

lemma taken_core: "\<not> is_review p \<Longrightarrow> \<not> is_resync p \<Longrightarrow> core (taken p s) = core s"
  by (simp add: core_def taken_def reviews_def filter_remove1 remove1_idem)

lemma core_simps [simp]:
  "core (adoptSession a s) = core s" "core (clear_stored_result s) = core s" "core (navigate t i r s) = core s"
  "core (loadProgress_done progress s) = core s" "core (loadActiveLesson_done answer s) = core s"
  by (simp_all add: core_def reviews_def adoptSession_def clear_stored_result_def navigate_def loadProgress_done_def
      loadActiveLesson_done_def split: sum.split prod.split)

lemma quiet_core:
  "core (reveal s) = core s" "core (choose_answer a s) = core s" "core (type_answer a s) = core s"
  "core (submitAnswerSuggestion s) = core s" "core (resumeLesson_begin s) = core s"
  "core (loadActiveLesson_begin b s) = core s" "core (loadProgress_begin e (ProgressLoad b) s) = core s"
  "core (startLesson src bl m tp r k s) = core s" "core (recordLessonResultAction sel s) = core s"
  "core (session_changed session s) = core s" "core (card_timer now s) = core s" "core (continuation_effect s) = core s"
  "core (suggestion_done e answered s) = core s" "core (result_action_done answered s) = core s"
  "core (preview_done r previewed s) = core s" "core (load_timer e s) = core s"
  by (auto simp: core_def reviews_def reveal_def choose_answer_def type_answer_def submitAnswerSuggestion_def start_request_def
      resumeLesson_begin_def loadActiveLesson_begin_def loadProgress_begin_def startLesson_def recordLessonResultAction_def
      session_changed_def card_timer_def continuation_effect_def suggestion_done_def result_action_done_def adoptSession_def
      preview_done_def load_timer_def split: option.split sum.split LessonResultContinuation.split
      intro!: filter_cong arg_cong [where f = "filter is_review"])

lemma result_core:
  "core (startNextLessonFromResult s) = core s" "core (startDueReviewFromResult s) = core s" "core (stay_on_result s) = core s"
proof -
  show "core (startNextLessonFromResult s) = core s" "core (startDueReviewFromResult s) = core s"
    by (simp_all add: startNextLessonFromResult_def startDueReviewFromResult_def quiet_core split: option.split)
  have "core (s\<lparr>al_lessonQueueNotice := m\<rparr>) = core s" for m s by (simp add: core_def reviews_def)
  then show "core (stay_on_result s) = core s" by (simp add: stay_on_result_def quiet_core)
qed

section \<open>Every step keeps it\<close>

lemma item_at_some: "isInteger n \<Longrightarrow> 0 \<le> n \<Longrightarrow> n < jnat (length xs) \<Longrightarrow> item_at xs n \<noteq> None"
  by (cases n) (auto simp: item_at_def)

lemma resolve_some:
  "resolveActiveLessonIndex n (jnat k) r = Some i \<Longrightarrow> i = n \<and> isInteger i \<and> 0 \<le> i \<and> i < jnat k"
  by (cases n) (auto simp: resolveActiveLessonIndex_def split: if_splits)

lemma lesson_index_some:
  "lesson_index lower l = Some i \<Longrightarrow> i = lz_currentIndex l \<and> isInteger i \<and> 0 \<le> i \<and> i < jnat (length (lz_items l))"
  unfolding lesson_index_def Let_def length_map by (rule resolve_some)

lemma apply_ok:
  assumes "server_lesson lower l"
  shows "\<exists>s'. applyLesson lower l s = (True, s') \<and> reviews s' = reviews s
    \<and> filter is_resync (al_pending s') = filter is_resync (al_pending s)
    \<and> al_reviewInFlight s' = al_reviewInFlight s \<and> al_reviewing s' = al_reviewing s \<and> al_lessonStarted s'
    \<and> \<not> al_lessonComplete s' \<and> \<not> al_serverLessonCompleted s' \<and> currentItem s' \<noteq> None"
proof -
  obtain i where i: "lesson_index lower l = Some i" using assms by (auto simp: server_lesson_def)
  note f = lesson_index_some [OF i]
  have v: "(\<not> isInteger (lz_version l) \<or> lz_version l \<le> 0) = False"
    using assms by (cases "lz_version l") (auto simp: server_lesson_def)
  have ne: "lz_items l \<noteq> []" using f by (cases i) auto
  have c: "reviews (clear_stored_result s) = reviews s" "al_pending (clear_stored_result s) = al_pending s"
    "al_reviewInFlight (clear_stored_result s) = al_reviewInFlight s" "al_reviewing (clear_stored_result s) = al_reviewing s"
    by (simp_all add: clear_stored_result_def reviews_def split: sum.split)
  have at_i: "item_at (map (toLearningItem lower) (lz_items l)) i \<noteq> None" using f by (intro item_at_some) auto
  show ?thesis
    using at_i ne unfolding applyLesson_def Let_def unfolding v by (simp add: i resetCardState_def c [unfolded reviews_def] reviews_def currentItem_def)
qed

lemma applied_visit_ok:
  assumes "server_lesson lower l" "applyLesson lower l s = (b, s')" "visit_ok s"
  shows "b \<and> visit_ok s'"
  using apply_ok [OF assms(1), of s] assms(2,3) by (auto simp: visit_ok_def)

lemma clear_fields:
  "reviews (clearLessonState s) = reviews s" "al_pending (clearLessonState s) = al_pending s"
  "\<not> al_lessonStarted (clearLessonState s)" "\<not> al_lessonComplete (clearLessonState s)"
  "\<not> al_serverLessonCompleted (clearLessonState s)"
  by (simp_all add: clearLessonState_def reviews_def)

lemma error_core: "core (s\<lparr>al_actionError := m\<rparr>) = core s" "core (s\<lparr>al_busy := b\<rparr>) = core s"
  "core (s\<lparr>al_createInFlight := b\<rparr>) = core s" "core (s\<lparr>al_intents := i\<rparr>) = core s"
  "core (s\<lparr>al_activeLesson := l\<rparr>) = core s" "core (s\<lparr>al_activeLessonStatus := st\<rparr>) = core s"
  by (simp_all add: core_def reviews_def)

lemmas keeps = same_core [OF error_core(1)] same_core [OF error_core(2)] same_core [OF error_core(3)]
  same_core [OF error_core(4)] same_core [OF error_core(5)] same_core [OF error_core(6)]

lemma resumed_ok:
  assumes "visit_ok s" "lesson_answer e answer"
  shows "visit_ok (resumeLesson_done e answer s)"
proof (cases answer)
  case (Inr al)
  obtain active l where al: "al = (active, l)" by (cases al)
  have sl: "server_lesson (av_lower e) l" using assms(2) Inr al by (simp add: lesson_answer_def)
  obtain b s' where ap: "applyLesson (av_lower e) l (adoptSession active s) = (b, s')" by (cases "applyLesson (av_lower e) l (adoptSession active s)")
  have "visit_ok (adoptSession active s)" using assms(1) by (rule same_core [OF core_simps(1)])
  from applied_visit_ok [OF sl ap this] show ?thesis by (auto simp: resumeLesson_done_def Inr al ap intro: keeps)
next
  case (Inl x)
  with assms(1) show ?thesis by (auto simp: resumeLesson_done_def intro!: keeps)
qed

lemma lesson_started_ok:
  assumes "visit_ok s" "lesson_answer e answer"
  shows "visit_ok (startLesson_done e r answer s)"
proof (cases answer)
  case (Inr al)
  obtain active l where al: "al = (active, l)" by (cases al)
  have sl: "server_lesson (av_lower e) l" using assms(2) Inr al by (simp add: lesson_answer_def)
  obtain b s' where ap: "applyLesson (av_lower e) l (adoptSession active s) = (b, s')" by (cases "applyLesson (av_lower e) l (adoptSession active s)")
  have "visit_ok (adoptSession active s)" using assms(1) by (rule same_core [OF core_simps(1)])
  from applied_visit_ok [OF sl ap this] assms(1) show ?thesis
    by (cases "isDistinctLessonResultCandidate (sn_lessonId r) (itemIds r) \<lparr>cd_id = lz_id l, cd_itemIds = map ai_id (lz_items l)\<rparr>")
      (auto simp: startLesson_done_def Inr al ap intro!: keeps)
next
  case (Inl x)
  with assms(1) show ?thesis by (auto simp: startLesson_done_def intro!: keeps)
qed

lemma on_card_iff: "on_card s \<longleftrightarrow> al_lessonStarted s \<and> \<not> al_lessonComplete s \<and> currentItem s \<noteq> None"
  by (auto simp: on_card_def renderLesson_def split: option.splits ResourcePhase.splits)

lemma rate_ok: "visit_ok s \<Longrightarrow> on_card s \<Longrightarrow> visit_ok (rateCurrent e rating t s)"
  by (auto simp: rateCurrent_def on_card_iff visit_ok_def start_request_def reviews_def currentItem_def
      split: option.splits)

lemma next_in_range:
  assumes "advance_of s = Next lb n"
  shows "item_at (al_items s) n \<noteq> None"
proof (rule item_at_some)
  show "isInteger n" "0 \<le> n" "n < jnat (length (al_items s))"
    using assms by (cases n; auto simp: advance_of_def decideLessonAdvance_def Let_def split: if_splits option.splits)+
qed

lemma results_confirmed: "advance_of s = Results lb \<Longrightarrow> al_serverLessonCompleted s \<and> \<not> al_reviewing s"
  by (auto simp: advance_of_def decideLessonAdvance_def Let_def split: if_splits option.splits)

lemma next_ok:
  assumes "visit_ok s" "on_card s"
  shows "visit_ok (nextItem s)"
proof (cases "advance_of s")
  case (Blocked lb r)
  then show ?thesis using assms(1) by (simp add: nextItem_def keeps(1))
next
  case (Next lb n)
  from next_in_range [OF this] obtain c where c: "item_at (al_items s) n = Some c" by auto
  show ?thesis using assms Next
    by (simp add: nextItem_def moveToServerIndex_def c resetCardState_def visit_ok_def reviews_def currentItem_def)
next
  case (Results lb)
  then show ?thesis using assms results_confirmed [OF Results]
    by (auto simp: nextItem_def visit_ok_def reviews_def currentItem_def on_card_iff)
qed

lemma restore_ok:
  assumes "visit_ok s"
  shows "visit_ok (restore_effect e now s)"
proof (cases "al_lessonStarted s")
  case True
  then show ?thesis using assms by (simp add: restore_effect_def)
next
  case False
  with assms have r: "reviews s = []" by (auto simp: visit_ok_def)
  have st: "visit_ok (s\<lparr>al_storage := st\<rparr>)" for st by (rule same_core [OF _ assms]) (simp add: core_def reviews_def)
  show ?thesis
    using assms False r st by (auto simp: restore_effect_def Let_def visit_ok_def reviews_def split: sum.split option.split)
qed

lemma review_taken:
  assumes "visit_ok s" "p \<in> set (al_pending s)" "is_review p"
  shows "reviews s = [p]" "reviews (taken p s) = []" "al_lessonStarted s" "\<not> al_lessonComplete s" "\<not> is_resync p"
proof -
  have "p \<in> set (reviews s)" using assms(2,3) by (simp add: reviews_def)
  then show r: "reviews s = [p]" using assms(1) by (cases "reviews s") (auto simp: visit_ok_def)
  then show "reviews (taken p s) = []" by (simp add: reviews_def taken_def filter_remove1)
  show "al_lessonStarted s" "\<not> al_lessonComplete s" using assms(1) r by (auto simp: visit_ok_def)
  show "\<not> is_resync p" using assms(3) by (cases p) auto
qed

lemma taken_fields [simp]:
  "al_lessonStarted (taken p s) = al_lessonStarted s" "al_lessonComplete (taken p s) = al_lessonComplete s"
  "al_serverLessonCompleted (taken p s) = al_serverLessonCompleted s" "al_lessonResult (taken p s) = al_lessonResult s"
  "currentItem (taken p s) = currentItem s" "al_items (taken p s) = al_items s" "al_storage (taken p s) = al_storage s"
  "al_currentIndex (taken p s) = al_currentIndex s"
  by (simp_all add: taken_def currentItem_def)

lemma taken_resync: "\<not> is_resync p \<Longrightarrow> filter is_resync (al_pending (taken p s)) = filter is_resync (al_pending s)"
  by (simp add: taken_def filter_remove1 remove1_idem)

text \<open>Once the review is settled the screen is idle again.\<close>

lemma finally_ok:
  assumes "reviews s = []" "al_lessonStarted s \<and> \<not> al_lessonComplete s \<longrightarrow> currentItem s \<noteq> None"
    "al_lessonComplete s \<longrightarrow> al_lessonStarted s \<and> al_serverLessonCompleted s"
    "al_serverLessonCompleted s \<longrightarrow> al_lessonResult s \<noteq> None" "filter is_resync (al_pending s) = []"
  shows "visit_ok (rate_finally s)"
  using assms by (auto simp: rate_finally_def visit_ok_def reviews_def currentItem_def)

lemma answered_ok:
  assumes "visit_ok s" "Review f \<in> set (al_pending s)"
  shows "visit_ok (rate_answered e f review (taken (Review f) s))"
proof -
  let ?s = "taken (Review f) s"
  note t = review_taken [OF assms, simplified]
  have sync: "filter is_resync (al_pending ?s) = []" using assms(1) t(5) by (simp add: taken_resync visit_ok_def)
  have cur: "currentItem s \<noteq> None" "al_serverLessonCompleted s \<longrightarrow> al_lessonResult s \<noteq> None"
    using assms(1) t by (auto simp: visit_ok_def)
  have flags: "al_reviewInFlight ?s" "al_reviewing ?s" using assms(1) t(1) by (auto simp: visit_ok_def taken_def)
  show ?thesis
  proof (cases review)
    case (Inr ad)
    obtain active d where "ad = (active, d)" by (cases ad)
    then show ?thesis using t cur sync flags
      by (simp add: rate_answered_def Inr Let_def loadProgress_begin_def start_request_def visit_ok_def reviews_def
          adoptSession_def currentItem_def)
  next
    case (Inl x)
    then show ?thesis using t cur sync flags
      by (auto simp: rate_answered_def resynchronize_begin_def start_request_def visit_ok_def reviews_def currentItem_def
          rate_finally_def)
  qed
qed

lemma progressed_ok:
  assumes "visit_ok s" "ReviewProgress f d active js latest \<in> set (al_pending s)"
  shows "visit_ok (rate_progress e now f d active js latest progress (taken (ReviewProgress f d active js latest) s))"
proof -
  let ?p = "ReviewProgress f d active js latest" and ?s = "taken (ReviewProgress f d active js latest) s"
  note t = review_taken [OF assms, simplified]
  have sync: "filter is_resync (al_pending ?s) = []" using assms(1) t(5) by (simp add: taken_resync visit_ok_def)
  have cur: "currentItem s \<noteq> None" "al_serverLessonCompleted s \<longrightarrow> al_lessonResult s \<noteq> None \<or> vr_lessonCompleted d"
    using assms(1) t by (auto simp: visit_ok_def)
  define s1 where "s1 = loadProgress_done progress ?s"
  have "core s1 = core ?s" by (simp add: s1_def)
  then have f: "reviews s1 = []" "filter is_resync (al_pending s1) = []" "al_lessonStarted s1" "\<not> al_lessonComplete s1"
    "currentItem s1 \<noteq> None" "al_serverLessonCompleted s1 \<longrightarrow> al_lessonResult s1 \<noteq> None \<or> vr_lessonCompleted d"
    using t cur sync by (auto simp: core_def currentItem_def)
  have fin: "visit_ok (rate_finally s2)" if "core s2 = core s1" "\<not> vr_lessonCompleted d" for s2
    using that f by (intro finally_ok) (auto simp: core_def currentItem_def)
  have fin2: "visit_ok (rate_finally (s2\<lparr>al_storage := st, al_lessonResult := Some r, al_continuation := k, al_celebrate := c\<rparr>))"
    if "core s2 = core s1" for s2 st r k c
    using that f by (intro finally_ok) (auto simp: core_def currentItem_def reviews_def)
  show ?thesis
    unfolding rate_progress_def Let_def s1_def [symmetric]
    by (cases progress; cases "vr_lessonCompleted d") (auto simp: fin error_core split: prod.split intro!: fin2)
qed

lemma resynced_ok:
  assumes "visit_ok s" "ReviewResync \<in> set (al_pending s)" "lesson_answer e answer"
  shows "visit_ok (rate_resynced e answer (taken ReviewResync s))"
proof -
  let ?s = "taken ReviewResync s"
  note t = review_taken [OF assms(1,2), simplified]
  have sync: "filter is_resync (al_pending ?s) = []" using assms(1) t(5) by (simp add: taken_resync visit_ok_def)
  have cur: "currentItem s \<noteq> None" "al_serverLessonCompleted s \<longrightarrow> al_lessonResult s \<noteq> None"
    using assms(1) t by (auto simp: visit_ok_def)
  show ?thesis
  proof (cases answer)
    case (Inr al)
    obtain active l where al: "al = (active, l)" by (cases al)
    have sl: "server_lesson (av_lower e) l" using assms(3) Inr al by (simp add: lesson_answer_def)
    have ad: "reviews (adoptSession active ?s) = []" "filter is_resync (al_pending (adoptSession active ?s)) = []"
      using core_simps(1) [of active ?s] t(2) sync by (simp_all add: core_def)
    from apply_ok [OF sl, of "adoptSession active ?s"] show ?thesis
      using ad by (auto simp: rate_resynced_def resynchronize_done_def Inr al reviews_def currentItem_def intro!: finally_ok)
  next
    case (Inl x)
    then show ?thesis using t cur sync
      by (auto simp: rate_resynced_def resynchronize_done_def navigate_def clear_fields reviews_def currentItem_def
          intro!: finally_ok)
  qed
qed

lemma visit_step_ok:
  assumes "visit_step e s s'" "visit_ok s"
  shows "visit_ok s'"
  using assms(1)
proof cases
  case v_rate
  then show ?thesis using rate_ok assms(2) by blast
next
  case v_next
  then show ?thesis using next_ok assms(2) by blast
next
  case (v_sync)
  then have "\<not> (al_lessonStarted s \<and> \<not> al_lessonComplete s \<and> currentItem s \<noteq> None)" "al_lessonStarted s" "\<not> al_lessonComplete s"
    by (auto simp: renderLesson_def split: option.splits ResourcePhase.splits if_splits)
  then show ?thesis using assms(2) by (auto simp: visit_ok_def)
next
  case v_restore
  then show ?thesis using restore_ok assms(2) by blast
next
  case v_load
  have "core s' = core s" unfolding v_load(1) quiet_core by (rule taken_core) auto
  then show ?thesis using assms(2) by (rule same_core)
next
  case (v_progress b answer)
  have "core s' = core s" unfolding v_progress(1) core_simps by (rule taken_core) auto
  then show ?thesis using assms(2) by (rule same_core)
next
  case (v_lesson b answer)
  have "core s' = core s" unfolding v_lesson(1) core_simps by (rule taken_core) auto
  then show ?thesis using assms(2) by (rule same_core)
next
  case (v_resync m)
  then show ?thesis using assms(2) by (auto simp: visit_ok_def filter_empty_conv)
next
  case (v_resumed answer)
  have "visit_ok (taken Resume s)" by (rule same_core [OF taken_core]) (use assms(2) in auto)
  then show ?thesis unfolding v_resumed(1) using v_resumed(3) by (rule resumed_ok)
next
  case (v_reviewed f review)
  then show ?thesis using answered_ok assms(2) by blast
next
  case (v_review_progress f d active js latest now_text progress)
  then show ?thesis using progressed_ok assms(2) by blast
next
  case (v_review_resync answer)
  then show ?thesis using resynced_ok assms(2) by blast
next
  case v_suggested
  have "core s' = core s" unfolding v_suggested(1) quiet_core by (rule taken_core) auto
  then show ?thesis using assms(2) by (rule same_core)
next
  case (v_started r answer)
  have "visit_ok (taken (Start r) s)" by (rule same_core [OF taken_core]) (use assms(2) in auto)
  then show ?thesis unfolding v_started(1) using v_started(3) by (rule lesson_started_ok)
next
  case v_action
  have "core s' = core s" unfolding v_action(1) quiet_core by (rule taken_core) auto
  then show ?thesis using assms(2) by (rule same_core)
next
  case (v_preview r previewed)
  have "core s' = core s" unfolding v_preview(1) quiet_core by (rule taken_core) auto
  then show ?thesis using assms(2) by (rule same_core)
next
  case v_reveal
  show ?thesis unfolding v_reveal(1) by (rule same_core [OF _ assms(2)]) (simp add: quiet_core result_core)
next
  case v_choose
  show ?thesis unfolding v_choose(1) by (rule same_core [OF _ assms(2)]) (simp add: quiet_core result_core)
next
  case v_type
  show ?thesis unfolding v_type(1) by (rule same_core [OF _ assms(2)]) (simp add: quiet_core result_core)
next
  case v_suggest
  show ?thesis unfolding v_suggest(1) by (rule same_core [OF _ assms(2)]) (simp add: quiet_core result_core)
next
  case v_resume
  show ?thesis unfolding v_resume(1) by (rule same_core [OF _ assms(2)]) (simp add: quiet_core result_core)
next
  case v_retry_lesson
  show ?thesis unfolding v_retry_lesson(1) by (rule same_core [OF _ assms(2)]) (simp add: quiet_core result_core)
next
  case v_retry_progress
  show ?thesis unfolding v_retry_progress(1) by (rule same_core [OF _ assms(2)]) (simp add: quiet_core result_core)
next
  case v_next_lesson
  show ?thesis unfolding v_next_lesson(1) by (rule same_core [OF _ assms(2)]) (simp add: quiet_core result_core)
next
  case v_due_review
  show ?thesis unfolding v_due_review(1) by (rule same_core [OF _ assms(2)]) (simp add: quiet_core result_core)
next
  case v_stay
  show ?thesis unfolding v_stay(1) by (rule same_core [OF _ assms(2)]) (simp add: quiet_core result_core)
next
  case v_session
  show ?thesis unfolding v_session(1) by (rule same_core [OF _ assms(2)]) (simp add: quiet_core result_core)
next
  case v_card_timer
  show ?thesis unfolding v_card_timer(1) by (rule same_core [OF _ assms(2)]) (simp add: quiet_core result_core)
next
  case v_continuation
  show ?thesis unfolding v_continuation(1) by (rule same_core [OF _ assms(2)]) (simp add: quiet_core result_core)
qed

lemma visit_always_ok: "visit e s \<Longrightarrow> visit_ok s"
proof (induction rule: visit.induct)
  case (visit_start session target st)
  then show ?case by (simp add: visit_ok_def fresh_lesson_app_def reviews_def)
next
  case (visit_more s s')
  then show ?case using visit_step_ok by blast
qed


lemma pending_simps [simp]:
  "al_pending (adoptSession a s) = al_pending s" "al_pending (navigate t i r s) = al_pending s"
  "al_pending (clear_stored_result s) = al_pending s" "al_pending (loadProgress_done progress s) = al_pending s"
  "al_pending (loadActiveLesson_done answer s) = al_pending s" "al_pending (rate_finally s) = al_pending s"
  "al_pending (clearLessonState s) = al_pending s" "al_pending (resetCardState m b s) = al_pending s"
  "al_pending (snd (applyLesson lower l s)) = al_pending s" "al_pending (restore_effect e now s) = al_pending s"
  by (simp_all add: adoptSession_def navigate_def clear_stored_result_def loadProgress_done_def loadActiveLesson_done_def
      rate_finally_def clearLessonState_def resetCardState_def applyLesson_def restore_effect_def Let_def
      split: sum.split prod.split option.split)

lemma applied_pending: "applyLesson lower l s = (b, s') \<Longrightarrow> al_pending s' = al_pending s"
  using pending_simps(9) [of lower l s] by simp

lemma pending_done [simp]:
  "al_pending (resynchronize_done e m answer s) = al_pending s" "al_pending (resumeLesson_done e answer s) = al_pending s"
  "al_pending (startLesson_done e r answer s) = al_pending s" "al_pending (rate_resynced e answer s) = al_pending s"
  "al_pending (rate_progress e now f d active js latest progress s) = al_pending s"
  by (auto simp: resynchronize_done_def resumeLesson_done_def startLesson_done_def rate_resynced_def rate_progress_def Let_def
      dest!: applied_pending split: sum.split prod.split bool.split)

lemma core_sent: "core s' = core s \<Longrightarrow> Review f \<in> set (al_pending s') \<Longrightarrow> Review f \<in> set (al_pending s)"
proof -
  assume a: "core s' = core s" "Review f \<in> set (al_pending s')"
  then have "Review f \<in> set (reviews s')" by (simp add: reviews_def)
  moreover have "reviews s' = reviews s" using a(1) by (simp add: core_def)
  ultimately have "Review f \<in> set (reviews s)" by (simp only:)
  then show ?thesis by (simp add: reviews_def)
qed

lemma taken_sent: "Review f \<in> set (al_pending (taken p s)) \<Longrightarrow> Review f \<in> set (al_pending s)"
  by (simp add: taken_def) (meson notin_set_remove1)

text \<open>Only a rating sends a review.\<close>

lemma other_step:
  assumes "visit_step e s s'" "Review f \<in> set (al_pending s')" "Review f \<notin> set (al_pending s)"
  shows "\<exists>rating t. on_card s \<and> s' = rateCurrent e rating t s"
  using assms(1)
proof cases
  case v_next
  then show ?thesis using assms(2,3)
    by (auto simp: nextItem_def moveToServerIndex_def resynchronize_begin_def start_request_def
        split: LessonAdvanceDecision.splits option.splits)
next
  case v_sync
  then show ?thesis using assms(2,3) by (auto simp: resynchronize_begin_def start_request_def)
next
  case (v_reviewed g review)
  then show ?thesis using assms(2,3)
    by (auto simp: rate_answered_def Let_def loadProgress_begin_def resynchronize_begin_def start_request_def
        dest: taken_sent split: sum.splits prod.splits if_splits)
next
  case v_load
  have "core s' = core s" unfolding v_load(1) quiet_core by (rule taken_core) auto
  then show ?thesis using assms core_sent by blast
next
  case v_suggested
  have "core s' = core s" unfolding v_suggested(1) quiet_core by (rule taken_core) auto
  then show ?thesis using assms core_sent by blast
next
  case v_action
  have "core s' = core s" unfolding v_action(1) quiet_core by (rule taken_core) auto
  then show ?thesis using assms core_sent by blast
next
  case (v_preview r previewed)
  have "core s' = core s" unfolding v_preview(1) quiet_core by (rule taken_core) auto
  then show ?thesis using assms core_sent by blast
next
  case v_reveal
  have "core s' = core s" unfolding v_reveal(1) by (simp add: quiet_core result_core)
  then show ?thesis using assms core_sent by blast
next
  case v_choose
  have "core s' = core s" unfolding v_choose(1) by (simp add: quiet_core result_core)
  then show ?thesis using assms core_sent by blast
next
  case v_type
  have "core s' = core s" unfolding v_type(1) by (simp add: quiet_core result_core)
  then show ?thesis using assms core_sent by blast
next
  case v_suggest
  have "core s' = core s" unfolding v_suggest(1) by (simp add: quiet_core result_core)
  then show ?thesis using assms core_sent by blast
next
  case v_resume
  have "core s' = core s" unfolding v_resume(1) by (simp add: quiet_core result_core)
  then show ?thesis using assms core_sent by blast
next
  case v_retry_lesson
  have "core s' = core s" unfolding v_retry_lesson(1) by (simp add: quiet_core result_core)
  then show ?thesis using assms core_sent by blast
next
  case v_retry_progress
  have "core s' = core s" unfolding v_retry_progress(1) by (simp add: quiet_core result_core)
  then show ?thesis using assms core_sent by blast
next
  case v_next_lesson
  have "core s' = core s" unfolding v_next_lesson(1) by (simp add: quiet_core result_core)
  then show ?thesis using assms core_sent by blast
next
  case v_due_review
  have "core s' = core s" unfolding v_due_review(1) by (simp add: quiet_core result_core)
  then show ?thesis using assms core_sent by blast
next
  case v_stay
  have "core s' = core s" unfolding v_stay(1) by (simp add: quiet_core result_core)
  then show ?thesis using assms core_sent by blast
next
  case v_session
  have "core s' = core s" unfolding v_session(1) by (simp add: quiet_core result_core)
  then show ?thesis using assms core_sent by blast
next
  case v_card_timer
  have "core s' = core s" unfolding v_card_timer(1) by (simp add: quiet_core result_core)
  then show ?thesis using assms core_sent by blast
next
  case v_continuation
  have "core s' = core s" unfolding v_continuation(1) by (simp add: quiet_core result_core)
  then show ?thesis using assms core_sent by blast
next
  case v_restore
  then show ?thesis using assms(2,3) taken_sent by simp
next
  case v_progress
  then show ?thesis using assms(2,3) taken_sent by simp
next
  case v_lesson
  then show ?thesis using assms(2,3) taken_sent by simp
next
  case v_resync
  then show ?thesis using assms(2,3) taken_sent by simp
next
  case v_resumed
  then show ?thesis using assms(2,3) taken_sent by simp
next
  case v_review_resync
  then show ?thesis using assms(2,3) taken_sent by simp
next
  case v_review_progress
  then show ?thesis using assms(2,3) taken_sent by simp
next
  case v_started
  then show ?thesis using assms(2,3) taken_sent by simp
next
  case v_rate
  then show ?thesis by blast
qed


section \<open>A visit\<close>

definition sample_lesson_item :: "nat \<Rightarrow> lesson_item" where
  "sample_lesson_item n = \<lparr>ai_id = jnat n, ai_kind = Some WordItem, ai_slug = None, ai_lemma = u ''index'', ai_translation = u ''indeks'',
     ai_phonetic = [], ai_partOfSpeech = u ''noun'', ai_topic = [], ai_aliases = None, ai_acceptedAnswers = None, ai_examples = [],
     ai_note = [], ai_cloze = None, ai_clozeAnswer = None, ai_status = u ''new'', ai_reason = None, ai_position = jnat n,
     ai_rating = None, ai_reviewedAt = None\<rparr>"

definition sample_lesson :: lesson_session where
  "sample_lesson = \<lparr>lz_id = u ''l1'', lz_source = u ''noun'', lz_studyMode = ModeRecall, lz_sessionKind = None, lz_lessonSize = u ''15'',
     lz_currentIndex = 0, lz_version = 3, lz_items = [sample_lesson_item 7, sample_lesson_item 8], lz_createdAt = [], lz_updatedAt = []\<rparr>"

definition visitor :: Session where
  "visitor = \<lparr>ss_user = \<lparr>us_id = u ''u1'', us_email = u ''a@b.c'', us_displayName = u ''A'', us_createdAt = u ''2026''\<rparr>,
     ss_tokens = \<lparr>accessToken = u ''t'', tokenType = u ''Bearer'', expiresIn = 900\<rparr>\<rparr>"

definition visit_env :: lesson_env where
  "visit_env = \<lparr>av_lower = (\<lambda>x. x), av_is_LN = (\<lambda>x. True), av_parse_date = (\<lambda>x. NaN), av_message = [], av_offset = 180\<rparr>"

lemma sample_items:
  "lesson_index (\<lambda>x. x) sample_lesson = Some 0"
  "map (toLearningItem (\<lambda>x. x)) (lz_items sample_lesson) = [toLearningItem (\<lambda>x. x) (sample_lesson_item 7), toLearningItem (\<lambda>x. x) (sample_lesson_item 8)]"
  "restored_ratings (\<lambda>x. x) (lz_items sample_lesson) = []"
  "it_wordId (toLearningItem (\<lambda>x. x) (sample_lesson_item n)) = Some (jnat n)"
  by (simp_all add: lesson_index_def sample_lesson_def sample_lesson_item_def restored_ratings_def resolveActiveLessonIndex_def
      item_at_def toLearningItem_def Let_def)

lemma sample_served: "server_lesson (av_lower visit_env) sample_lesson"
  using is_int_numeral(3) [of "num.Bit1 num.One"] sample_items(1)
  by (simp add: server_lesson_def visit_env_def del: isInteger_iff) (simp add: sample_lesson_def)

text \<open>The lesson is loaded, resumed and shown.\<close>

definition loaded_visit :: lesson_app where
  "loaded_visit =
     (let s = load_timer visit_env (taken LoadTimer (fresh_lesson_app visitor (only_view LessonView) empty_storage));
          s = loadActiveLesson_done (Inr (visitor, sample_lesson)) (taken (LessonLoad True) s) in
      resumeLesson_done visit_env (Inr (visitor, sample_lesson)) (taken Resume (resumeLesson_begin s)))"

lemma loaded_visit: "visit visit_env loaded_visit"
proof -
  let ?s0 = "fresh_lesson_app visitor (only_view LessonView) empty_storage"
  let ?s1 = "load_timer visit_env (taken LoadTimer ?s0)"
  let ?s2 = "loadActiveLesson_done (Inr (visitor, sample_lesson)) (taken (LessonLoad True) ?s1)"
  have "visit visit_env ?s0" by (rule visit_start)
  moreover have "visit_step visit_env ?s0 ?s1" by (rule v_load) (simp add: fresh_lesson_app_def)
  moreover have "visit_step visit_env ?s1 ?s2"
    by (rule v_lesson) (simp add: load_timer_def loadActiveLesson_begin_def start_request_def)
  moreover have "visit_step visit_env ?s2 (resumeLesson_begin ?s2)"
    by (rule v_resume [of _ sample_lesson])
      (simp add: renderLesson_def loadActiveLesson_done_def load_timer_def loadActiveLesson_begin_def loadProgress_begin_def start_request_def
        taken_def fresh_lesson_app_def readyResourceStatus_def adoptSession_def)
  moreover have "visit_step visit_env (resumeLesson_begin ?s2)
      (resumeLesson_done visit_env (Inr (visitor, sample_lesson)) (taken Resume (resumeLesson_begin ?s2)))"
    by (rule v_resumed) (simp_all add: lesson_answer_def sample_served resumeLesson_begin_def start_request_def)
  ultimately show ?thesis unfolding loaded_visit_def Let_def by (meson visit_more)
qed

lemma loaded_fields:
  shows "al_lessonStarted loaded_visit" (is ?A)
    "\<not> al_lessonComplete loaded_visit" (is ?B)
    "al_activeLesson loaded_visit = Some sample_lesson" (is ?C)
    "currentItem loaded_visit = Some (toLearningItem (\<lambda>x. x) (sample_lesson_item 7))" (is ?D)
    "currentRating loaded_visit = None" (is ?E)
    "Review f \<notin> set (al_pending loaded_visit)" (is ?F)
    "\<not> al_reviewInFlight loaded_visit" (is ?G)
proof -
  have i: "is_int 3" by simp
  have ap: "\<exists>s'. applyLesson (\<lambda>x. x) sample_lesson s = (True, s') \<and> al_lessonStarted s' \<and> \<not> al_lessonComplete s'
      \<and> al_activeLesson s' = Some sample_lesson \<and> currentItem s' = Some (toLearningItem (\<lambda>x. x) (sample_lesson_item 7))
      \<and> currentRating s' = None \<and> al_pending s' = al_pending s \<and> al_reviewInFlight s' = al_reviewInFlight s" for s
    using pending_simps(3) [of s]
    unfolding applyLesson_def Let_def sample_items
    by (simp add: resetCardState_def currentItem_def currentRating_def item_at_def clear_stored_result_def sample_lesson_def del: isInteger_iff
        split: sum.split)
  let ?s = "loadActiveLesson_done (Inr (visitor, sample_lesson)) (taken (LessonLoad True)
      (load_timer visit_env (taken LoadTimer (fresh_lesson_app visitor (only_view LessonView) empty_storage))))"
  let ?t = "adoptSession visitor (taken Resume (resumeLesson_begin ?s))"
  from ap [of ?t] obtain s' where s': "applyLesson (\<lambda>x. x) sample_lesson ?t = (True, s')" "al_lessonStarted s' \<and> \<not> al_lessonComplete s'
    \<and> al_activeLesson s' = Some sample_lesson \<and> currentItem s' = Some (toLearningItem (\<lambda>x. x) (sample_lesson_item 7))
    \<and> currentRating s' = None \<and> al_pending s' = al_pending ?t \<and> al_reviewInFlight s' = al_reviewInFlight ?t" by blast
  have l: "loaded_visit = s'\<lparr>al_busy := False\<rparr>"
    unfolding loaded_visit_def Let_def resumeLesson_done_def using s'(1) by (simp add: visit_env_def)
  have p: "Review f \<notin> set (al_pending ?t)" "\<not> al_reviewInFlight ?t"
    by (simp_all add: taken_def resumeLesson_begin_def start_request_def load_timer_def loadActiveLesson_begin_def loadProgress_begin_def
        fresh_lesson_app_def loadActiveLesson_done_def adoptSession_def)
  have c: "currentItem loaded_visit = currentItem s'" "currentRating loaded_visit = currentRating s'"
    by (simp_all add: l currentItem_def currentRating_def split: option.split)
  show ?A ?B ?C ?D ?E ?F ?G
    unfolding c using s'(2) p by (simp_all add: l)
qed



end
