(* ===== verification/Lesson_Turns.thy ===== *)
theory Lesson_Turns
  imports Lesson_Visit
begin

text \<open>
  The dialogue of the lesson screen with the server, card by card: a lesson whose reviews are accepted reaches its result.
\<close>

section \<open>A lesson can be finished\<close>

text \<open>One card: its rating, what the server answers to the review and to the load of the progress, and the next card.\<close>

record turn =
  tn_rating :: ReviewRating
  tn_at :: jnum
  tn_session :: Session
  tn_review :: LessonReviewResponse
  tn_now :: jstr
  tn_progress :: "thrown + Session \<times> ProgressSummary"

definition answer_review :: "lesson_env \<Rightarrow> turn \<Rightarrow> lesson_app \<Rightarrow> lesson_app" where
  "answer_review e a s =
     (case reviews s of
        [Review f] \<Rightarrow> rate_answered e f (Inr (tn_session a, tn_review a)) (taken (Review f) s) | _ \<Rightarrow> s)"

definition answer_progress :: "lesson_env \<Rightarrow> turn \<Rightarrow> lesson_app \<Rightarrow> lesson_app" where
  "answer_progress e a s =
     (case reviews s of
        [ReviewProgress f d active js latest] \<Rightarrow>
          rate_progress e (tn_now a) f d active js latest (tn_progress a) (taken (ReviewProgress f d active js latest) s)
      | _ \<Rightarrow> s)"

definition card_turn :: "lesson_env \<Rightarrow> turn \<Rightarrow> lesson_app \<Rightarrow> lesson_app" where
  "card_turn e a s = nextItem (answer_progress e a (answer_review e a (rateCurrent e (tn_rating a) (tn_at a) s)))"

text \<open>The server answers the review of card \<open>i\<close> of \<open>n\<close> with the next position, and completes the lesson at the last.\<close>

fun server_reviews :: "nat \<Rightarrow> nat \<Rightarrow> turn list \<Rightarrow> bool" where
  "server_reviews i n [] \<longleftrightarrow> i = n"
| "server_reviews i n (a # as) \<longleftrightarrow>
     i < n \<and> vr_lessonCurrentIndex (tn_review a) = jnat (Suc i) \<and> vr_lessonCompleted (tn_review a) = (Suc i = n)
     \<and> server_reviews (Suc i) n as"

definition at_card :: "jstr \<Rightarrow> nat \<Rightarrow> nat \<Rightarrow> lesson_app \<Rightarrow> bool" where
  "at_card lesson n i s \<longleftrightarrow>
     al_lessonStarted s \<and> \<not> al_lessonComplete s \<and> \<not> al_reviewInFlight s \<and> \<not> al_reviewing s \<and> reviews s = []
     \<and> al_currentIndex s = jnat i \<and> i < n \<and> length (al_items s) = n \<and> distinct (map it_id (al_items s))
     \<and> (\<forall>c\<in>set (al_items s). it_wordId c \<noteq> None) \<and> (\<exists>l. al_activeLesson s = Some l \<and> lz_id l = lesson)
     \<and> (\<forall>j. i \<le> j \<and> j < n \<longrightarrow> map_of (al_ratings s) (it_id (al_items s ! j)) = None)"

lemma item_at_nat: "item_at xs (jnat i) = (if i < length xs then Some (xs ! i) else None)"
  by (auto simp: item_at_def)

lemma progress_done_fields [simp]:
  fixes e :: lesson_env and s :: lesson_app
  defines "s' \<equiv> \<lambda>answer. loadProgress_done answer s"
  shows "al_lessonStarted (s' a) = al_lessonStarted s" "al_lessonComplete (s' a) = al_lessonComplete s"
    "al_currentIndex (s' a) = al_currentIndex s" "al_items (s' a) = al_items s" "al_ratings (s' a) = al_ratings s"
    "al_serverLessonCompleted (s' a) = al_serverLessonCompleted s" "al_serverNextIndex (s' a) = al_serverNextIndex s"
    "al_activeLesson (s' a) = al_activeLesson s"
  by (cases a; simp add: s'_def loadProgress_done_def adoptSession_def split: prod.split)+

lemma rate_progress_form:
  "\<exists>msg st r k c. rate_progress e now f d active js latest a s = rate_finally
      (if \<not> vr_lessonCompleted d then (loadProgress_done a s)\<lparr>al_actionError := msg\<rparr>
       else (loadProgress_done a s)\<lparr>al_actionError := msg, al_storage := st, al_lessonResult := Some r,
              al_continuation := k, al_celebrate := c\<rparr>)
    \<and> sn_lessonId r = lz_id (fl_lesson f) \<and> sn_userId r = us_id (ss_user active)
    \<and> syncPending r = (case a of Inl x \<Rightarrow> True | Inr p \<Rightarrow> False)" (is "\<exists>msg st r k c. ?P msg st r k c")
proof -
  define cp where "cp = (case a of Inl x \<Rightarrow> latest | Inr p \<Rightarrow> Some (snd p))"
  define b where "b = (case a of Inl x \<Rightarrow> True | Inr p \<Rightarrow> False)"
  define r where "r = buildLessonResultSnapshot (av_parse_date e) now
      (result_input f d active js cp (al_progressBefore (loadProgress_done a s)) b)"
  obtain c st where st: "store_result r (al_storage (loadProgress_done a s)) = (c, st)" by (cases "store_result r (al_storage (loadProgress_done a s))")
  have r: "sn_lessonId r = lz_id (fl_lesson f)" "sn_userId r = us_id (ss_user active)" "syncPending r = b"
    by (simp_all add: r_def result_input_def buildLessonResultSnapshot_def Let_def)
  show ?thesis
  proof (cases a)
    case (Inr p)
    then have "?P (al_actionError (loadProgress_done a s)) st r (resolveLessonResultContinuation r None None None) c"
      using r st by (cases p) (simp add: rate_progress_def Let_def cp_def b_def r_def)
    then show ?thesis by blast
  next
    case (Inl x)
    have "?P stale_progress_message st r (resolveLessonResultContinuation r None None None) c"
      using r st by (simp add: rate_progress_def Let_def cp_def b_def r_def Inl)
    then show ?thesis by blast
  qed
qed

lemma turn_step:
  fixes e :: lesson_env and a :: turn and s :: lesson_app
  assumes "at_card lesson n i s" "vr_lessonCurrentIndex (tn_review a) = jnat (Suc i)"
    "vr_lessonCompleted (tn_review a) = (Suc i = n)"
  defines "s' \<equiv> answer_progress e a (answer_review e a (rateCurrent e (tn_rating a) (tn_at a) s))"
  shows "al_lessonStarted s' \<and> \<not> al_lessonComplete s' \<and> \<not> al_reviewInFlight s' \<and> \<not> al_reviewing s' \<and> reviews s' = []
    \<and> al_currentIndex s' = jnat i \<and> al_items s' = al_items s
    \<and> al_ratings s' = AList.update (it_id (al_items s ! i)) (tn_rating a) (al_ratings s)
    \<and> al_serverLessonCompleted s' = (Suc i = n) \<and> (Suc i < n \<longrightarrow> al_serverNextIndex s' = Some (jnat (Suc i)))
    \<and> (Suc i < n \<longrightarrow> (\<exists>l. al_activeLesson s' = Some l \<and> lz_id l = lesson))
    \<and> (Suc i = n \<longrightarrow> (\<exists>r. al_lessonResult s' = Some r \<and> sn_lessonId r = lesson \<and> sn_userId r = us_id (ss_user (tn_session a))
         \<and> syncPending r = (case tn_progress a of Inl x \<Rightarrow> True | Inr p \<Rightarrow> False)))"
proof -
  obtain l where l: "al_activeLesson s = Some l" "lz_id l = lesson" using assms(1) by (auto simp: at_card_def)
  have c: "currentItem s = Some (al_items s ! i)" using assms(1) by (simp add: at_card_def currentItem_def item_at_nat)
  have "i < length (al_items s)" "\<forall>c\<in>set (al_items s). it_wordId c \<noteq> None" using assms(1) by (simp_all add: at_card_def)
  then obtain w where w: "it_wordId (al_items s ! i) = Some w" using nth_mem by blast
  have nr: "currentRating s = None" using assms(1) c by (simp add: at_card_def currentRating_def)
  define f where "f = \<lparr>fl_item = al_items s ! i, fl_rating = tn_rating a, fl_lesson = l, fl_ratings = al_ratings s,
                    fl_mode = al_studyMode s, fl_topic = al_lessonTopic s\<rparr>"
  define s1 where "s1 = rateCurrent e (tn_rating a) (tn_at a) s"
  have r1: "reviews s1 = [Review f]"
    using assms(1) by (simp add: s1_def rateCurrent_def c l w nr start_request_def reviews_def at_card_def f_def)
  have s1: "al_lessonStarted s1" "\<not> al_lessonComplete s1" "al_currentIndex s1 = jnat i" "al_items s1 = al_items s"
      "al_activeLesson s1 = Some l"
    using assms(1) by (simp_all add: s1_def rateCurrent_def c l w nr start_request_def at_card_def)
  define s2 where "s2 = answer_review e a s1"
  obtain js lat where r2: "reviews s2 = [ReviewProgress (f\<lparr>fl_ratings := AList.update (it_id (al_items s ! i)) (tn_rating a) (al_ratings s)\<rparr>) (tn_review a) (tn_session a) js lat]"
    using r1 by (simp add: s2_def answer_review_def rate_answered_def Let_def loadProgress_begin_def start_request_def
        adoptSession_def reviews_def taken_def filter_remove1 f_def)
  have s2: "al_lessonStarted s2" "\<not> al_lessonComplete s2" "al_currentIndex s2 = jnat i" "al_items s2 = al_items s"
      "al_ratings s2 = AList.update (it_id (al_items s ! i)) (tn_rating a) (al_ratings s)"
      "al_serverLessonCompleted s2 = (Suc i = n)" "Suc i < n \<longrightarrow> al_serverNextIndex s2 = Some (jnat (Suc i))"
      "Suc i < n \<longrightarrow> (\<exists>l'. al_activeLesson s2 = Some l' \<and> lz_id l' = lz_id l)"
    using s1 r1 assms(2,3) by (simp_all add: s2_def answer_review_def rate_answered_def Let_def loadProgress_begin_def start_request_def
        adoptSession_def taken_def f_def reviewed_lesson_def)
  have s': "s' = answer_progress e a s2" by (simp add: s'_def s2_def s1_def)
  define g where "g = f\<lparr>fl_ratings := AList.update (it_id (al_items s ! i)) (tn_rating a) (al_ratings s)\<rparr>"
  have g: "lz_id (fl_lesson g) = lesson" "reviews s2 = [ReviewProgress g (tn_review a) (tn_session a) js lat]"
    using r2 l(2) by (simp_all add: g_def f_def)
  define s3 where "s3 = taken (ReviewProgress g (tn_review a) (tn_session a) js lat) s2"
  have s'': "s' = rate_progress e (tn_now a) g (tn_review a) (tn_session a) js lat (tn_progress a) s3"
    using s' g(2) by (simp add: answer_progress_def s3_def)
  have s3: "reviews s3 = []" "al_ratings s3 = al_ratings s2" "al_serverNextIndex s3 = al_serverNextIndex s2"
      "al_activeLesson s3 = al_activeLesson s2" "al_lessonStarted s3 = al_lessonStarted s2" "al_lessonComplete s3 = al_lessonComplete s2"
      "al_currentIndex s3 = al_currentIndex s2" "al_items s3 = al_items s2" "al_serverLessonCompleted s3 = al_serverLessonCompleted s2"
    using g(2) by (simp_all add: s3_def reviews_def taken_def filter_remove1)
  from rate_progress_form [of e "tn_now a" g "tn_review a" "tn_session a" js lat "tn_progress a" s3]
  obtain msg st r k c where "s' = rate_finally
      (if \<not> vr_lessonCompleted (tn_review a) then (loadProgress_done (tn_progress a) s3)\<lparr>al_actionError := msg\<rparr>
       else (loadProgress_done (tn_progress a) s3)\<lparr>al_actionError := msg, al_storage := st, al_lessonResult := Some r,
              al_continuation := k, al_celebrate := c\<rparr>)"
    "sn_lessonId r = lesson" "sn_userId r = us_id (ss_user (tn_session a))"
    "syncPending r = (case tn_progress a of Inl x \<Rightarrow> True | Inr p \<Rightarrow> False)"
    unfolding s'' [symmetric] g(1) by blast
  then show ?thesis using s2 s3 assms(3) l(2)
    by (cases "Suc i = n") (simp_all add: rate_finally_def reviews_def)
qed


lemma advance_next:
  assumes "al_currentIndex s = jnat i" "Suc i < length (al_items s)" "currentRating s \<noteq> None" "\<not> al_reviewing s"
    "al_serverNextIndex s = Some (jnat (Suc i))"
  shows "\<exists>l. advance_of s = Next l (jnat (Suc i))"
proof -
  have "(jnat i \<ge> jmax 0 (jnat (length (al_items s)) - 1)) = False" using assms(2) by (auto simp: max_def)
  moreover have "(\<not> isInteger (jnat (Suc i)) \<or> \<not> jeq (jnat (Suc i)) (jnat i + 1) \<or> jnat (Suc i) < 0
      \<or> jnat (Suc i) \<ge> jnat (length (al_items s))) = False"
    using assms(2) is_int_of_int(2) [of "Suc i"] by (simp add: jeq_def add.commute)
  ultimately show ?thesis using assms
    unfolding advance_of_def decideLessonAdvance_def Let_def by (simp del: isInteger_iff)
qed

lemma advance_results:
  assumes "al_currentIndex s = jnat i" "Suc i = length (al_items s)" "currentRating s \<noteq> None" "\<not> al_reviewing s"
    "al_serverLessonCompleted s"
  shows "\<exists>l. advance_of s = Results l"
proof -
  have "(jnat i \<ge> jmax 0 (jnat (length (al_items s)) - 1)) = True" using assms(2) [symmetric] by (auto simp: max_def)
  then show ?thesis using assms
    unfolding advance_of_def decideLessonAdvance_def Let_def by simp
qed

text \<open>A turn leads to the next card, and from the last card to the result.\<close>

lemma turn_goes_on:
  assumes "at_card lesson n i s" "vr_lessonCurrentIndex (tn_review a) = jnat (Suc i)"
    "vr_lessonCompleted (tn_review a) = (Suc i = n)"
  shows "if Suc i < n then at_card lesson n (Suc i) (card_turn e a s)
    else \<exists>r. renderLesson (card_turn e a s) = ResultScreen r \<and> sn_lessonId r = lesson
      \<and> sn_userId r = us_id (ss_user (tn_session a))
      \<and> syncPending r = (case tn_progress a of Inl x \<Rightarrow> True | Inr p \<Rightarrow> False)"
proof -
  define s' where "s' = answer_progress e a (answer_review e a (rateCurrent e (tn_rating a) (tn_at a) s))"
  note t = turn_step [OF assms, of e, folded s'_def]
  have g: "i < n" "length (al_items s) = n" "distinct (map it_id (al_items s))" using assms(1) by (simp_all add: at_card_def)
  have rated: "currentRating s' \<noteq> None"
    using t g(1,2) by (simp add: currentRating_def currentItem_def item_at_nat AList.update_conv')
  show ?thesis
  proof (cases "Suc i < n")
    case True
    then obtain lb where a: "advance_of s' = Next lb (jnat (Suc i))"
      using advance_next [of s' i] t g rated by auto
    have it: "item_at (al_items s') (jnat (Suc i)) = Some (al_items s ! Suc i)" using item_at_nat [of "al_items s'" "Suc i"] t g True by simp
    have other: "it_id (al_items s ! j) \<noteq> it_id (al_items s ! i)" if "Suc i \<le> j" "j < n" for j
      using nth_eq_iff_index_eq [OF g(3), of j i] that g by simp
    have "card_turn e a s = resetCardState (al_studyMode s') (map_of (al_ratings s') (it_id (al_items s ! Suc i)) \<noteq> None)
        (s'\<lparr>al_actionError := [], al_currentIndex := jnat (Suc i), al_serverNextIndex := None\<rparr>)"
      unfolding card_turn_def s'_def [symmetric] nextItem_def a using it by (simp add: moveToServerIndex_def)
    then show ?thesis
      using t g True assms(1) other by (simp add: at_card_def resetCardState_def reviews_def AList.update_conv')
  next
    case False
    then obtain lb where a: "advance_of s' = Results lb" using advance_results [of s' i] t g rated by auto
    have "card_turn e a s = s'\<lparr>al_actionError := [], al_lessonComplete := True\<rparr>"
      unfolding card_turn_def s'_def [symmetric] nextItem_def a by simp
    then show ?thesis using t g False by (auto simp: renderLesson_def)
  qed
qed

fun card_turns :: "lesson_env \<Rightarrow> turn list \<Rightarrow> lesson_app \<Rightarrow> lesson_app" where
  "card_turns e [] s = s" | "card_turns e (a # as) s = card_turns e as (card_turn e a s)"

lemma turns_finish:
  assumes "at_card lesson n i s" "server_reviews i n as"
  shows "\<exists>r. renderLesson (card_turns e as s) = ResultScreen r \<and> sn_lessonId r = lesson
    \<and> sn_userId r = us_id (ss_user (tn_session (last as)))
    \<and> syncPending r = (case tn_progress (last as) of Inl x \<Rightarrow> True | Inr p \<Rightarrow> False)"
  using assms
proof (induction as arbitrary: i s)
  case Nil
  then show ?case by (simp add: at_card_def)
next
  case (Cons a as)
  have a: "vr_lessonCurrentIndex (tn_review a) = jnat (Suc i)" "vr_lessonCompleted (tn_review a) = (Suc i = n)"
    "server_reviews (Suc i) n as" "i < n"
    using Cons.prems(2) by simp_all
  note t = turn_goes_on [OF Cons.prems(1) a(1,2), of e]
  show ?case
  proof (cases "Suc i < n")
    case True
    then have "as \<noteq> []" using a(3) by auto
    then show ?thesis using Cons.IH [OF _ a(3), of "card_turn e a s"] t True by simp
  next
    case False
    then have "as = []" using a(3) by (cases as) auto
    then show ?thesis using t False by simp
  qed
qed

text \<open>A lesson that is applied stands at its first card without a rating.\<close>

lemma restored_none:
  assumes "\<And>x. x \<in> set xs \<Longrightarrow> it_id (toLearningItem lower x) = k \<Longrightarrow> ai_rating x = None" "map_of rs k = None"
  shows "map_of (fold (\<lambda>item rs. case ai_rating item of Some r \<Rightarrow> AList.update (it_id (toLearningItem lower item)) r rs | None \<Rightarrow> rs) xs rs) k = None"
  using assms
proof (induction xs arbitrary: rs)
  case (Cons x xs)
  have "map_of (case ai_rating x of Some r \<Rightarrow> AList.update (it_id (toLearningItem lower x)) r rs | None \<Rightarrow> rs) k = None"
    using Cons.prems(1) [of x] Cons.prems(2) by (auto simp: AList.update_conv' split: option.split)
  then show ?case using Cons.IH Cons.prems(1) by simp
qed simp

lemma applied_at_card:
  assumes "lz_currentIndex l = jnat i" "i < length (lz_items l)" "isInteger (lz_version l)" "0 < lz_version l"
    "distinct (map (it_id \<circ> toLearningItem lower) (lz_items l))" "\<forall>j. i \<le> j \<and> j < length (lz_items l) \<longrightarrow> ai_rating (lz_items l ! j) = None"
    "\<not> al_reviewInFlight s" "\<not> al_reviewing s" "reviews s = []"
  shows "at_card (lz_id l) (length (lz_items l)) i (snd (applyLesson lower l s))"
proof -
  let ?items = "map (toLearningItem lower) (lz_items l)" and ?rs = "restored_ratings lower (lz_items l)"
  have none: "map_of ?rs (it_id (?items ! j)) = None" if "i \<le> j" "j < length (lz_items l)" for j
    unfolding restored_ratings_def
  proof (rule restored_none)
    fix x assume x: "x \<in> set (lz_items l)" "it_id (toLearningItem lower x) = it_id (?items ! j)"
    then obtain k where k: "k < length (lz_items l)" "x = lz_items l ! k" by (auto simp: in_set_conv_nth)
    then have "k = j" using nth_eq_iff_index_eq [OF assms(5), of k j] x(2) that by simp
    then show "ai_rating x = None" using assms(6) that k by simp
  qed simp
  have ix: "lesson_index lower l = Some (jnat i)"
    using assms(2) none [of i] by (auto simp: lesson_index_def Let_def assms(1) item_at_nat resolveActiveLessonIndex_def)
  have v: "(\<not> isInteger (lz_version l) \<or> lz_version l \<le> 0) = False"
    using assms(3,4) by (cases "lz_version l") auto
  have c: "reviews (clear_stored_result s) = reviews s" "al_pending (clear_stored_result s) = al_pending s"
    "al_reviewInFlight (clear_stored_result s) = al_reviewInFlight s" "al_reviewing (clear_stored_result s) = al_reviewing s"
    by (simp_all add: clear_stored_result_def reviews_def split: sum.split)
  show ?thesis
    using assms(2,5,7,8,9) none unfolding applyLesson_def Let_def unfolding v
    by (auto simp: ix resetCardState_def c [unfolded reviews_def] reviews_def at_card_def item_at_nat toLearningItem_def Let_def)
qed

text \<open>C5: A lesson can be finished: when the server resumes a lesson at its first unrated card and accepts each review
  with the position of the next card and completion at the last, then rating each of the remaining cards and asking for
  the next one ends at the result of this lesson, whatever the ratings are and whether the progress loads or not; a
  progress that did not load leaves the result marked as not synchronised.\<close>

theorem lesson_can_be_finished:
  assumes "visit e s0" "\<not> al_reviewInFlight s0"
    and "lz_currentIndex l = jnat i" "i < length (lz_items l)" "isInteger (lz_version l)" "0 < lz_version l"
    and "distinct (map (it_id \<circ> toLearningItem (av_lower e)) (lz_items l))"
    and "\<forall>j. i \<le> j \<and> j < length (lz_items l) \<longrightarrow> ai_rating (lz_items l ! j) = None"
    and "server_reviews i (length (lz_items l)) as"
  shows "\<exists>r. renderLesson (card_turns e as (resumeLesson_done e (Inr (active, l)) s0)) = ResultScreen r
    \<and> sn_lessonId r = lz_id l \<and> sn_userId r = us_id (ss_user (tn_session (last as)))
    \<and> syncPending r = (case tn_progress (last as) of Inl x \<Rightarrow> True | Inr p \<Rightarrow> False)"
proof -
  have ok: "visit_ok s0" using assms(1) by (rule visit_always_ok)
  have idle: "\<not> al_reviewInFlight (adoptSession active s0)" "\<not> al_reviewing (adoptSession active s0)" "reviews (adoptSession active s0) = []"
    using ok assms(2) by (auto simp: visit_ok_def adoptSession_def reviews_def)
  note a = applied_at_card [OF assms(3-8) idle]
  obtain b s1 where ap: "applyLesson (av_lower e) l (adoptSession active s0) = (b, s1)"
    by (cases "applyLesson (av_lower e) l (adoptSession active s0)")
  have "b"
    using a ap by (auto simp: applyLesson_def at_card_def Let_def clearLessonState_def split: option.split_asm if_split_asm)
  then have "resumeLesson_done e (Inr (active, l)) s0 = s1\<lparr>al_busy := False\<rparr>" by (simp add: resumeLesson_done_def ap)
  then have "at_card (lz_id l) (length (lz_items l)) i (resumeLesson_done e (Inr (active, l)) s0)"
    using a ap by (simp add: at_card_def reviews_def)
  from turns_finish [OF this assms(9)] show ?thesis .
qed

definition sample_answer :: "nat \<Rightarrow> bool \<Rightarrow> LessonReviewResponse" where
  "sample_answer i last_card = \<lparr>vr_wordId = jnat (6 + i), vr_requestedRating = RateKnown, vr_effectiveRating = RateKnown, vr_correct = Some True,
     vr_judgementReason = [], vr_matchedAnswer = None, vr_reviewEventId = jnat i, vr_suggestionAvailable = False,
     vr_lessonId = u ''l1'', vr_lessonCurrentIndex = jnat i, vr_lessonVersion = jnat (3 + i), vr_lastReviewedAt = [],
     vr_lessonCompleted = last_card, vr_lessonReviewedItems = jnat i, vr_lessonSkippedItems = 0, vr_lessonTotalItems = 2\<rparr>"

definition sample_turn :: "nat \<Rightarrow> bool \<Rightarrow> turn" where
  "sample_turn i last_card = \<lparr>tn_rating = RateAlmost, tn_at = 500, tn_session = visitor, tn_review = sample_answer i last_card,
     tn_now = u ''2026-01-01T00:00:00.000Z'', tn_progress = Inl OtherThrown\<rparr>"

text \<open>Two cards, and the progress never loads.\<close>

lemma lesson_can_be_finished_witness:
  "\<exists>r. renderLesson (card_turns visit_env [sample_turn 1 False, sample_turn 2 True]
        (resumeLesson_done visit_env (Inr (visitor, sample_lesson)) (fresh_lesson_app visitor (only_view LessonView) empty_storage)))
      = ResultScreen r \<and> sn_lessonId r = u ''l1'' \<and> syncPending r"
proof -
  let ?items = "lz_items sample_lesson"
  have n: "length ?items = 2" "lz_id sample_lesson = u ''l1''" by (simp_all add: sample_lesson_def)
  have "distinct (map (it_id \<circ> toLearningItem (av_lower visit_env)) ?items)"
    by (simp add: sample_lesson_def sample_lesson_item_def toLearningItem_def Let_def visit_env_def)
  moreover have "ai_rating (?items ! j) = None" if "j < length ?items" for j
    using that by (simp add: sample_lesson_def sample_lesson_item_def nth_Cons split: nat.split)
  moreover have "server_reviews 0 (length ?items) [sample_turn 1 False, sample_turn 2 True]"
    by (simp add: n sample_turn_def sample_answer_def)
  moreover have "isInteger (lz_version sample_lesson)" "lz_currentIndex sample_lesson = jnat 0" "0 < lz_version sample_lesson"
    by (simp_all add: sample_lesson_def del: isInteger_iff)
  ultimately have "\<exists>r. renderLesson (card_turns visit_env [sample_turn 1 False, sample_turn 2 True]
        (resumeLesson_done visit_env (Inr (visitor, sample_lesson)) (fresh_lesson_app visitor (only_view LessonView) empty_storage)))
      = ResultScreen r \<and> sn_lessonId r = lz_id sample_lesson
      \<and> sn_userId r = us_id (ss_user (tn_session (last [sample_turn 1 False, sample_turn 2 True])))
      \<and> syncPending r = (case tn_progress (last [sample_turn 1 False, sample_turn 2 True]) of Inl x \<Rightarrow> True | Inr p \<Rightarrow> False)"
    by (intro lesson_can_be_finished [where i = 0] visit_start) (simp_all add: n fresh_lesson_app_def del: isInteger_iff card_turns.simps)
  then show ?thesis by (auto simp: n sample_turn_def)
qed

end
