(* ===== verification/Scenario_App.thy ===== *)
theory Scenario_App
  imports Scenarios Account_Resources Auth_Session Navigation "HOL-Library.Word"
begin

text \<open>
  \<open>src/frontend/components/lexigo-scenario-app.tsx\<close>: the controller of a work scenario.  The state is what the component
  keeps in React state and refs, the session storage with the drafts, and what it has sent.  A handler that awaits an
  answer is split there: its first half leaves a pending operation with the values of its render, its second half runs
  when the answer comes.  The effects run after a handler whose result changes one of their dependencies.  Identifiers of
  attempts are UUIDs and slugs are lower-case words, which their guards check, so \<open>encodeURIComponent\<close> leaves them as
  they are.
\<close>

unbundle bit_operations_syntax

section \<open>Data\<close>

datatype ExitIntent = CloseExit | HistoryExit

record SubmitScenarioStepResponse =
  sr_attempt :: ScenarioAttempt
  sr_judgementReason :: jstr
  sr_idempotentReplay :: bool

record AcceptedFeedback =
  fb_step :: ScenarioStep
  fb_fields :: ScenarioDraftFields
  fb_result :: SubmitScenarioStepResponse

definition EMPTY_DRAFT :: ScenarioDraftFields where
  "EMPTY_DRAFT = \<lparr>df_response = [], df_facts = [], df_hypotheses = []\<rparr>"

text \<open>What a handler captures from its render.\<close>

record scenario_flight =
  sf_session :: Session
  sf_attempt :: ScenarioAttempt
  sf_owner :: jstr
  sf_draft :: ScenarioDraftFields

datatype resync_cause = AfterResume | AfterPause | AfterSubmit | OnRequest

datatype scenario_pending = ScLoadTimer | ScLoad Session | ScStart Session | ScResume scenario_flight
  | ScPause scenario_flight bool | ScSubmit scenario_flight ScenarioStep | ScResync scenario_flight resync_cause

datatype history_call = ReplaceBase jstr | PushGuard jstr | GoForward
datatype router_call = RouterReplace NavigationTarget | RouterPush NavigationTarget

record scenario_app =
  sa_slug :: "jstr option"
  sa_session :: Session
  sa_scenario :: "Scenario option"
  sa_scenarioStatus :: ResourceStatus
  sa_attempt :: "ScenarioAttempt option"
  sa_draft :: ScenarioDraftFields
  sa_draftOwner :: jstr
  sa_submissionIdentity :: "ScenarioSubmissionIdentity option"
  sa_feedback :: "AcceptedFeedback option"
  sa_busy :: bool
  sa_actionError :: jstr
  sa_statusMessage :: jstr
  sa_exitIntent :: "ExitIntent option"
  sa_startedAt :: jnum
  sa_allowNavigation :: bool
  sa_guard :: "jstr option"
  sa_storage :: storage
  sa_pending :: "scenario_pending list"
  sa_requests :: "(jstr \<times> jval option) list"
  sa_history :: "history_call list"
  sa_router :: "router_call list"
  sa_adopted :: "Session list"

record scenario_env =
  se_lower :: "jstr \<Rightarrow> jstr"
  se_parse_date :: "jstr \<Rightarrow> jnum"
  se_offset :: jnum

definition fresh_scenario_app :: "jstr \<Rightarrow> Session \<Rightarrow> storage \<Rightarrow> scenario_app" where
  "fresh_scenario_app pathname session st =
     \<lparr>sa_slug = scenarioSlugFromPath pathname, sa_session = session, sa_scenario = None,
      sa_scenarioStatus = loadingResourceStatus, sa_attempt = None, sa_draft = EMPTY_DRAFT, sa_draftOwner = [],
      sa_submissionIdentity = None, sa_feedback = None, sa_busy = False, sa_actionError = [], sa_statusMessage = [],
      sa_exitIntent = None, sa_startedAt = 0, sa_allowNavigation = False, sa_guard = None, sa_storage = st,
      sa_pending = [ScLoadTimer], sa_requests = [], sa_history = [], sa_router = [], sa_adopted = []\<rparr>"

section \<open>Submission identifiers\<close>

text \<open>\<open>toString(16).padStart(2, "0")\<close> of a byte.\<close>

definition byte_digit :: "nat \<Rightarrow> nat" where "byte_digit n = (if n < 10 then 48 + n else 87 + n)"
definition hex_byte :: "8 word \<Rightarrow> jstr" where
  "hex_byte b = [byte_digit (unat b div 16), byte_digit (unat b mod 16)]"

text \<open>\<open>random\<close> is what \<open>crypto.randomUUID\<close> returns, if the browser has it, and \<open>bytes\<close> the 16 random bytes.\<close>

definition createSubmissionID :: "jstr option \<Rightarrow> 8 word list \<Rightarrow> jstr" where
  "createSubmissionID random raw =
     (case random of
        Some uuid \<Rightarrow> uuid
      | None \<Rightarrow>
          let b = raw[6 := (raw ! 6 AND 0x0f) OR 0x40];
              b = b[8 := (b ! 8 AND 0x3f) OR 0x80];
              hex = map hex_byte b;
              part = (\<lambda>i j. concat (take (j - i) (drop i hex))) in
          part 0 4 @ [45] @ part 4 6 @ [45] @ part 6 8 @ [45] @ part 8 10 @ [45] @ concat (drop 10 hex))"

section \<open>Drafts\<close>

definition draftIdentity :: "Session \<Rightarrow> ScenarioAttempt \<Rightarrow> ScenarioIdentity" where
  "draftIdentity session a =
     \<lparr>id_userId = us_id (ss_user session), id_attemptId = at_id a, id_position = at_currentPosition a\<rparr>"

definition attemptDraftOwner :: "ScenarioAttempt \<Rightarrow> jstr" where
  "attemptDraftOwner a =
     (if at_currentStep a \<noteq> None then at_id a @ [58] @ num_str (at_currentPosition a) else [])"

definition safeReadDraft :: "(jstr \<Rightarrow> jnum) \<Rightarrow> Session \<Rightarrow> ScenarioAttempt \<Rightarrow> storage \<Rightarrow> ScenarioDraftFields" where
  "safeReadDraft parse_date session a st =
     (case scenarioDraftStorageKey (draftIdentity session a) of
        Inl x \<Rightarrow> EMPTY_DRAFT
      | Inr k \<Rightarrow> (case getItem st k of
            Inl x \<Rightarrow> EMPTY_DRAFT
          | Inr raw \<Rightarrow> (case parseScenarioDraft parse_date raw (draftIdentity session a) of
                Some stored \<Rightarrow> dr_fields stored | None \<Rightarrow> EMPTY_DRAFT)))"

definition safeWriteDraft :: "jstr \<Rightarrow> Session \<Rightarrow> ScenarioAttempt \<Rightarrow> ScenarioDraftFields \<Rightarrow> storage \<Rightarrow> storage" where
  "safeWriteDraft stamp session a draft_fields st =
     (case scenarioDraftStorageKey (draftIdentity session a) of
        Inl x \<Rightarrow> st
      | Inr k \<Rightarrow> (case setItem st k (serializeScenarioDraft (createScenarioDraft (draftIdentity session a) draft_fields stamp)) of
            Inl x \<Rightarrow> st | Inr st \<Rightarrow> st))"

definition safeDeleteDraft :: "Session \<Rightarrow> jstr \<Rightarrow> jnum \<Rightarrow> storage \<Rightarrow> storage" where
  "safeDeleteDraft session attemptId position st =
     (case scenarioDraftStorageKey \<lparr>id_userId = us_id (ss_user session), id_attemptId = attemptId, id_position = position\<rparr> of
        Inl x \<Rightarrow> st
      | Inr k \<Rightarrow> (case removeItem st k of Inl x \<Rightarrow> st | Inr st \<Rightarrow> st))"

definition hasFactHypothesisOverlap :: "(jstr \<Rightarrow> jstr) \<Rightarrow> ScenarioDraftFields \<Rightarrow> bool" where
  "hasFactHypothesisOverlap lower draft_fields =
     (let facts = set (map lower (normalizeScenarioList lower (df_facts draft_fields))) in
      \<exists>v\<in>set (normalizeScenarioList lower (df_hypotheses draft_fields)). lower v \<in> facts)"

definition progressValue :: "ScenarioAttempt option \<Rightarrow> Scenario \<Rightarrow> jnum" where
  "progressValue attempt scenario =
     (case attempt of
        None \<Rightarrow> 0
      | Some a \<Rightarrow> if at_status a = CompletedAttempt then sc_stepCount scenario
          else jmin (sc_stepCount scenario) (jnat (length (at_completedPositions a))))"

definition actionProblem :: "thrown \<Rightarrow> jstr \<Rightarrow> jstr" where
  "actionProblem err resource =
     (let p = describeRequestFailure err resource in
      if pb_correlationId p \<noteq> [] then pb_message p @ [32, 1050, 1086, 1076, 32, 1086, 1073, 1088, 1072, 1097, 1077, 1085, 1080, 1103, 58, 32] @ pb_correlationId p @ u ''.'' else pb_message p)"

section \<open>Effects\<close>

text \<open>What the effects depend on.\<close>

definition draft_deps ::
  "scenario_app \<Rightarrow> ScenarioAttempt option \<times> ScenarioDraftFields \<times> jstr \<times> AcceptedFeedback option \<times> Session" where
  "draft_deps s = (sa_attempt s, sa_draft s, sa_draftOwner s, sa_feedback s, sa_session s)"

definition draft_effect :: "jstr \<Rightarrow> scenario_app \<Rightarrow> scenario_app" where
  "draft_effect stamp s =
     (case sa_attempt s of
        None \<Rightarrow> s
      | Some a \<Rightarrow>
          if at_currentStep a = None \<or> sa_feedback s \<noteq> None \<or> attemptDraftOwner a \<noteq> sa_draftOwner s then s
          else s\<lparr>sa_storage := safeWriteDraft stamp (sa_session s) a (sa_draft s) (sa_storage s)\<rparr>)"

definition guarded :: "scenario_app \<Rightarrow> bool" where
  "guarded s = (case sa_attempt s of None \<Rightarrow> False | Some a \<Rightarrow> at_status a = ActiveAttempt \<and> sa_feedback s = None)"

definition guard_effect :: "scenario_app \<Rightarrow> scenario_app" where
  "guard_effect s =
     (case sa_attempt s of
        None \<Rightarrow> s
      | Some a \<Rightarrow>
          if \<not> guarded s \<or> sa_guard s = Some (at_id a) then s
          else s\<lparr>sa_guard := Some (at_id a), sa_history := sa_history s @ [ReplaceBase (at_id a), PushGuard (at_id a)]\<rparr>)"

text \<open>The handler \<open>f\<close>, and the effects its result calls for.\<close>

definition commit :: "jstr \<Rightarrow> (scenario_app \<Rightarrow> scenario_app) \<Rightarrow> scenario_app \<Rightarrow> scenario_app" where
  "commit stamp f s =
     (let t = f s;
          t = (if draft_deps t \<noteq> draft_deps s then draft_effect stamp t else t) in
      if sa_attempt t \<noteq> sa_attempt s \<or> sa_feedback t \<noteq> sa_feedback s then guard_effect t else t)"

text \<open>The listener of \<open>popstate\<close>: while the attempt is guarded, the browser is sent forward to the guard again;
  otherwise it stays on the entry below the guard.\<close>

definition browser_back :: "scenario_app \<Rightarrow> scenario_app" where
  "browser_back s =
     (if guarded s \<and> \<not> sa_allowNavigation s
      then s\<lparr>sa_history := sa_history s @ [GoForward], sa_exitIntent := Some HistoryExit\<rparr>
      else s\<lparr>sa_guard := None\<rparr>)"

section \<open>Attempts\<close>

definition sa_adoptSession :: "Session \<Rightarrow> Session \<Rightarrow> scenario_app \<Rightarrow> scenario_app" where
  "sa_adoptSession captured next_session s =
     (if accessToken (ss_tokens captured) \<noteq> accessToken (ss_tokens next_session)
      then s\<lparr>sa_adopted := sa_adopted s @ [next_session]\<rparr> else s)"

text \<open>\<open>owner\<close> is the \<open>draftOwner\<close> of the render the callback comes from.\<close>

definition adoptAttempt ::
  "scenario_env \<Rightarrow> jnum \<Rightarrow> Session \<Rightarrow> jstr \<Rightarrow> ScenarioAttempt \<Rightarrow> bool \<Rightarrow> scenario_app \<Rightarrow> scenario_app" where
  "adoptAttempt e now session owner nextAttempt preserveOwnedDraft s =
     (let nextOwner = attemptDraftOwner nextAttempt; s = s\<lparr>sa_attempt := Some nextAttempt\<rparr> in
      if at_currentStep nextAttempt = None
      then s\<lparr>sa_draft := EMPTY_DRAFT, sa_draftOwner := [], sa_submissionIdentity := None, sa_startedAt := 0\<rparr>
      else if preserveOwnedDraft \<and> nextOwner = owner then s
      else s\<lparr>sa_draft := safeReadDraft (se_parse_date e) session nextAttempt (sa_storage s), sa_draftOwner := nextOwner,
             sa_submissionIdentity := None, sa_startedAt := now\<rparr>)"

definition sa_send :: "scenario_pending \<Rightarrow> jstr \<Rightarrow> jval option \<Rightarrow> scenario_app \<Rightarrow> scenario_app" where
  "sa_send p path body s = s\<lparr>sa_pending := sa_pending s @ [p], sa_requests := sa_requests s @ [(path, body)]\<rparr>"

definition flight_of :: "ScenarioAttempt \<Rightarrow> scenario_app \<Rightarrow> scenario_flight" where
  "flight_of a s = \<lparr>sf_session = sa_session s, sf_attempt = a, sf_owner = sa_draftOwner s, sf_draft = sa_draft s\<rparr>"

definition attempt_path :: "jstr \<Rightarrow> jstr" where "attempt_path attemptId = u ''/api/v1/scenario-attempts/'' @ attemptId"
definition scenario_path :: "jstr \<Rightarrow> jstr" where "scenario_path slug = u ''/api/v1/scenarios/'' @ slug"

definition version_body :: "ScenarioAttempt \<Rightarrow> jval" where
  "version_body a = JObj [(u ''attemptVersion'', JNum (at_version a))]"

definition loadScenario_begin :: "scenario_app \<Rightarrow> scenario_app" where
  "loadScenario_begin s =
     (case sa_slug s of
        None \<Rightarrow> s\<lparr>sa_scenario := None, sa_scenarioStatus :=
          failedResourceStatus (ErrorException [1053, 1077, 1082, 1086, 1088, 1088, 1077, 1082, 1090, 1085, 1099, 1081, 32, 1072, 1076, 1088, 1077, 1089, 32, 1089, 1094, 1077, 1085, 1072, 1088, 1080, 1103]) [1089, 1094, 1077, 1085, 1072, 1088, 1080, 1081]\<rparr>
      | Some slug \<Rightarrow>
          sa_send (ScLoad (sa_session s)) (scenario_path slug) None (s\<lparr>sa_scenarioStatus := loadingResourceStatus\<rparr>))"

definition loadScenario_done :: "Session \<Rightarrow> thrown + Session \<times> Scenario \<Rightarrow> scenario_app \<Rightarrow> scenario_app" where
  "loadScenario_done session answer s =
     (case answer of
        Inr (active, scenario) \<Rightarrow>
          (sa_adoptSession session active s)\<lparr>sa_scenario := Some scenario, sa_scenarioStatus := readyResourceStatus\<rparr>
      | Inl x \<Rightarrow> s\<lparr>sa_scenario := None, sa_scenarioStatus := failedResourceStatus x [1089, 1094, 1077, 1085, 1072, 1088, 1080, 1081]\<rparr>)"

text \<open>A new session aborts the load of the old one and starts its own.\<close>

definition scenario_session_changed :: "Session \<Rightarrow> scenario_app \<Rightarrow> scenario_app" where
  "scenario_session_changed session s =
     s\<lparr>sa_session := session,
       sa_pending := filter (\<lambda>p. case p of ScLoadTimer \<Rightarrow> False | ScLoad x \<Rightarrow> False | _ \<Rightarrow> True) (sa_pending s) @ [ScLoadTimer]\<rparr>"

definition resyncAttempt_begin :: "scenario_flight \<Rightarrow> resync_cause \<Rightarrow> scenario_app \<Rightarrow> scenario_app" where
  "resyncAttempt_begin f cause s = sa_send (ScResync f cause) (attempt_path (at_id (sf_attempt f))) None s"

definition has_http_status :: "nat \<Rightarrow> thrown \<Rightarrow> bool" where
  "has_http_status n x = (case x of Failure f \<Rightarrow> jeq (rf_status f) (jnat n) | _ \<Rightarrow> False)"

text \<open>What the handler that asked for the synchronisation does after it, and its \<open>finally\<close>.\<close>

fun after_resync :: "resync_cause \<Rightarrow> scenario_app \<Rightarrow> scenario_app" where
  "after_resync AfterResume s = s\<lparr>sa_actionError :=
     [1057, 1094, 1077, 1085, 1072, 1088, 1080, 1081, 32, 1080, 1079, 1084, 1077, 1085, 1080, 1083, 1089, 1103, 32, 1085, 1072, 32, 1076, 1088, 1091, 1075, 1086, 1084, 32, 1091, 1089, 1090, 1088, 1086, 1081, 1089, 1090, 1074, 1077, 46, 32, 1055, 1088, 1086, 1074, 1077, 1088, 1100, 1090, 1077, 32, 1089, 1080, 1085, 1093, 1088, 1086, 1085, 1080, 1079, 1080, 1088, 1086, 1074, 1072, 1085, 1085, 1099, 1081, 32, 1096, 1072, 1075, 32, 1080, 32, 1087, 1086, 1074, 1090, 1086, 1088, 1080, 1090, 1077, 32, 1076, 1077, 1081, 1089, 1090, 1074, 1080, 1077, 46], sa_busy := False\<rparr>"
| "after_resync AfterPause s = s\<lparr>sa_actionError :=
     [1042, 1077, 1088, 1089, 1080, 1103, 32, 1087, 1086, 1087, 1099, 1090, 1082, 1080, 32, 1080, 1079, 1084, 1077, 1085, 1080, 1083, 1072, 1089, 1100, 46, 32, 1063, 1077, 1088, 1085, 1086, 1074, 1080, 1082, 32, 1089, 1086, 1093, 1088, 1072, 1085, 1105, 1085, 32, 1083, 1086, 1082, 1072, 1083, 1100, 1085, 1086, 59, 32, 1087, 1088, 1086, 1074, 1077, 1088, 1100, 1090, 1077, 32, 1089, 1080, 1085, 1093, 1088, 1086, 1085, 1080, 1079, 1080, 1088, 1086, 1074, 1072, 1085, 1085, 1099, 1081, 32, 1096, 1072, 1075, 46], sa_busy := False\<rparr>"
| "after_resync AfterSubmit s = s\<lparr>sa_actionError :=
     [1064, 1072, 1075, 32, 1091, 1078, 1077, 32, 1080, 1079, 1084, 1077, 1085, 1080, 1083, 1089, 1103, 32, 1085, 1072, 32, 1076, 1088, 1091, 1075, 1086, 1084, 32, 1091, 1089, 1090, 1088, 1086, 1081, 1089, 1090, 1074, 1077, 46, 32, 1042, 1072, 1096, 32, 1090, 1077, 1082, 1089, 1090, 32, 1080, 32, 115, 117, 98, 109, 105, 115, 115, 105, 111, 110, 32, 105, 100, 32, 1089, 1086, 1093, 1088, 1072, 1085, 1077, 1085, 1099, 59, 32, 1087, 1088, 1086, 1074, 1077, 1088, 1100, 1090, 1077, 32, 1089, 1086, 1089, 1090, 1086, 1103, 1085, 1080, 1077, 32, 1087, 1077, 1088, 1077, 1076, 32, 1087, 1086, 1074, 1090, 1086, 1088, 1086, 1084, 46],
     sa_statusMessage := [], sa_busy := False\<rparr>"
| "after_resync OnRequest s = s"

definition resyncAttempt_done ::
  "scenario_env \<Rightarrow> jnum \<Rightarrow> scenario_flight \<Rightarrow> resync_cause \<Rightarrow> thrown + Session \<times> ScenarioAttempt \<Rightarrow> scenario_app \<Rightarrow> scenario_app" where
  "resyncAttempt_done e now f cause answer s =
     after_resync cause
       (case answer of
          Inr (active, a) \<Rightarrow>
            (adoptAttempt e now (sf_session f) (sf_owner f) a True (sa_adoptSession (sf_session f) active s))
              \<lparr>sa_statusMessage := [1057, 1086, 1089, 1090, 1086, 1103, 1085, 1080, 1077, 32, 1089, 1094, 1077, 1085, 1072, 1088, 1080, 1103, 32, 1089, 1080, 1085, 1093, 1088, 1086, 1085, 1080, 1079, 1080, 1088, 1086, 1074, 1072, 1085, 1086, 32, 1089, 32, 1089, 1077, 1088, 1074, 1077, 1088, 1086, 1084, 46]\<rparr>
        | Inl x \<Rightarrow> s\<lparr>sa_actionError := actionProblem x [1089, 1086, 1089, 1090, 1086, 1103, 1085, 1080, 1077, 32, 1089, 1094, 1077, 1085, 1072, 1088, 1080, 1103]\<rparr>)"

definition startAttempt :: "scenario_app \<Rightarrow> scenario_app" where
  "startAttempt s =
     (case sa_slug s of
        None \<Rightarrow> s
      | Some slug \<Rightarrow>
          sa_send (ScStart (sa_session s)) (scenario_path slug @ u ''/attempts'') (Some (JObj []))
            (s\<lparr>sa_busy := True, sa_actionError := [], sa_statusMessage := []\<rparr>))"

definition startAttempt_done ::
  "scenario_env \<Rightarrow> jnum \<Rightarrow> Session \<Rightarrow> thrown + Session \<times> ScenarioAttempt \<times> bool \<Rightarrow> scenario_app \<Rightarrow> scenario_app" where
  "startAttempt_done e now session answer s =
     (case answer of
        Inr (active, a, resumed) \<Rightarrow>
          (adoptAttempt e now session [] a False (sa_adoptSession session active s))
            \<lparr>sa_feedback := None,
             sa_statusMessage := (if resumed then [1057, 1086, 1093, 1088, 1072, 1085, 1105, 1085, 1085, 1072, 1103, 32, 1087, 1086, 1087, 1099, 1090, 1082, 1072, 32, 1074, 1086, 1089, 1089, 1090, 1072, 1085, 1086, 1074, 1083, 1077, 1085, 1072, 46] else [1057, 1094, 1077, 1085, 1072, 1088, 1080, 1081, 32, 1085, 1072, 1095, 1072, 1090, 46])\<rparr>
      | Inl x \<Rightarrow> s\<lparr>sa_actionError := actionProblem x [1079, 1072, 1087, 1091, 1089, 1082, 32, 1089, 1094, 1077, 1085, 1072, 1088, 1080, 1103]\<rparr>)\<lparr>sa_busy := False\<rparr>"

definition resumeAttempt :: "scenario_app \<Rightarrow> scenario_app" where
  "resumeAttempt s =
     (case sa_attempt s of
        None \<Rightarrow> s
      | Some a \<Rightarrow>
          sa_send (ScResume (flight_of a s)) (attempt_path (at_id a) @ u ''/resume'') (Some (version_body a))
            (s\<lparr>sa_busy := True, sa_actionError := []\<rparr>))"

definition resumeAttempt_done ::
  "scenario_env \<Rightarrow> jnum \<Rightarrow> scenario_flight \<Rightarrow> thrown + Session \<times> ScenarioAttempt \<Rightarrow> scenario_app \<Rightarrow> scenario_app" where
  "resumeAttempt_done e now f answer s =
     (case answer of
        Inr (active, a) \<Rightarrow>
          (adoptAttempt e now (sf_session f) (sf_owner f) a True (sa_adoptSession (sf_session f) active s))
            \<lparr>sa_statusMessage := [1057, 1094, 1077, 1085, 1072, 1088, 1080, 1081, 32, 1087, 1088, 1086, 1076, 1086, 1083, 1078, 1077, 1085, 32, 1089, 32, 1089, 1086, 1093, 1088, 1072, 1085, 1105, 1085, 1085, 1086, 1075, 1086, 32, 1096, 1072, 1075, 1072, 46], sa_busy := False\<rparr>
      | Inl x \<Rightarrow>
          if has_http_status 409 x then resyncAttempt_begin f AfterResume s
          else s\<lparr>sa_actionError := actionProblem x [1074, 1086, 1079, 1086, 1073, 1085, 1086, 1074, 1083, 1077, 1085, 1080, 1077, 32, 1089, 1094, 1077, 1085, 1072, 1088, 1080, 1103], sa_busy := False\<rparr>)"

definition leave_by_replace :: "scenario_app \<Rightarrow> scenario_app" where
  "leave_by_replace s = s\<lparr>sa_allowNavigation := True, sa_router := sa_router s @ [RouterReplace (only_view LearnView)]\<rparr>"

definition pauseAttempt :: "jstr \<Rightarrow> bool \<Rightarrow> scenario_app \<Rightarrow> scenario_app" where
  "pauseAttempt stamp navigateAfterPause s =
     (case sa_attempt s of
        None \<Rightarrow> s
      | Some a \<Rightarrow>
          let s = (if at_currentStep a \<noteq> None
                   then s\<lparr>sa_storage := safeWriteDraft stamp (sa_session s) a (sa_draft s) (sa_storage s)\<rparr> else s) in
          if at_status a \<noteq> ActiveAttempt then (if navigateAfterPause then leave_by_replace s else s)
          else sa_send (ScPause (flight_of a s) navigateAfterPause) (attempt_path (at_id a) @ u ''/pause'') (Some (version_body a))
                 (s\<lparr>sa_busy := True, sa_actionError := []\<rparr>))"

definition pauseAttempt_done ::
  "scenario_env \<Rightarrow> jnum \<Rightarrow> scenario_flight \<Rightarrow> bool \<Rightarrow> thrown + Session \<times> ScenarioAttempt \<Rightarrow> scenario_app \<Rightarrow> scenario_app" where
  "pauseAttempt_done e now f navigateAfterPause answer s =
     (case answer of
        Inr (active, a) \<Rightarrow>
          let s = (adoptAttempt e now (sf_session f) (sf_owner f) a True (sa_adoptSession (sf_session f) active s))
                \<lparr>sa_statusMessage := [1063, 1077, 1088, 1085, 1086, 1074, 1080, 1082, 32, 1089, 1086, 1093, 1088, 1072, 1085, 1105, 1085, 44, 32, 1087, 1086, 1087, 1099, 1090, 1082, 1072, 32, 1087, 1086, 1089, 1090, 1072, 1074, 1083, 1077, 1085, 1072, 32, 1085, 1072, 32, 1087, 1072, 1091, 1079, 1091, 46], sa_exitIntent := None\<rparr> in
          (if navigateAfterPause then leave_by_replace s else s)\<lparr>sa_busy := False\<rparr>
      | Inl x \<Rightarrow>
          if has_http_status 409 x then resyncAttempt_begin f AfterPause s
          else s\<lparr>sa_actionError := actionProblem x [1089, 1086, 1093, 1088, 1072, 1085, 1077, 1085, 1080, 1077, 32, 1089, 1094, 1077, 1085, 1072, 1088, 1080, 1103], sa_busy := False\<rparr>)"

section \<open>Submitting\<close>

definition validationMessage :: "scenario_env \<Rightarrow> scenario_app \<Rightarrow> jstr" where
  "validationMessage e s =
     (case Option.bind (sa_attempt s) at_currentStep of
        None \<Rightarrow> []
      | Some step \<Rightarrow>
          let response = trim (df_response (sa_draft s)) in
          if sa_feedback s \<noteq> None \<or> map_option at_status (sa_attempt s) \<noteq> Some ActiveAttempt then []
          else if jnat (length response) < st_minResponseCharacters step
          then [1044, 1086, 1073, 1072, 1074, 1100, 1090, 1077, 32, 1077, 1097, 1105, 32] @ num_str (st_minResponseCharacters step - jnat (length response)) @ [32, 1089, 1080, 1084, 1074, 46]
          else if \<not> st_requiresFactHypothesis step then []
          else if normalizeScenarioList (se_lower e) (df_facts (sa_draft s)) = [] then [1044, 1086, 1073, 1072, 1074, 1100, 1090, 1077, 32, 1093, 1086, 1090, 1103, 32, 1073, 1099, 32, 1086, 1076, 1080, 1085, 32, 1087, 1086, 1076, 1090, 1074, 1077, 1088, 1078, 1076, 1105, 1085, 1085, 1099, 1081, 32, 1092, 1072, 1082, 1090, 46]
          else if normalizeScenarioList (se_lower e) (df_hypotheses (sa_draft s)) = [] then [1044, 1086, 1073, 1072, 1074, 1100, 1090, 1077, 32, 1093, 1086, 1090, 1103, 32, 1073, 1099, 32, 1086, 1076, 1085, 1091, 32, 1075, 1080, 1087, 1086, 1090, 1077, 1079, 1091, 46]
          else if hasFactHypothesisOverlap (se_lower e) (sa_draft s)
          then [1054, 1076, 1080, 1085, 1072, 1082, 1086, 1074, 1099, 1081, 32, 1087, 1091, 1085, 1082, 1090, 32, 1085, 1077, 32, 1084, 1086, 1078, 1077, 1090, 32, 1073, 1099, 1090, 1100, 32, 1086, 1076, 1085, 1086, 1074, 1088, 1077, 1084, 1077, 1085, 1085, 1086, 32, 1092, 1072, 1082, 1090, 1086, 1084, 32, 1080, 32, 1075, 1080, 1087, 1086, 1090, 1077, 1079, 1086, 1081, 46]
          else [])"

definition submit_json :: "SubmitScenarioStepRequest \<Rightarrow> jval" where
  "submit_json r =
     JObj ([(u ''submissionId'', JStr (sq_submissionId r)), (u ''attemptVersion'', JNum (sq_attemptVersion r)),
            (u ''response'', JStr (sq_response r))]
       @ (case sq_facts r of Some xs \<Rightarrow> [(u ''facts'', JArr (map JStr xs))] | None \<Rightarrow> [])
       @ (case sq_hypotheses r of Some xs \<Rightarrow> [(u ''hypotheses'', JArr (map JStr xs))] | None \<Rightarrow> [])
       @ [(u ''review'', JObj [(u ''timezoneOffsetMinutes'', JNum (sq_timezoneOffsetMinutes r))])])"

definition submit_path :: "ScenarioAttempt \<Rightarrow> ScenarioStep \<Rightarrow> jstr" where
  "submit_path a step = attempt_path (at_id a) @ u ''/steps/'' @ num_str (st_position step)"

definition submit_failed :: "thrown \<Rightarrow> scenario_app \<Rightarrow> scenario_app" where
  "submit_failed x s = s\<lparr>sa_actionError :=
     actionProblem x [1086, 1090, 1087, 1088, 1072, 1074, 1082, 1091, 32, 1086, 1090, 1074, 1077, 1090, 1072] @ [32, 1058, 1077, 1082, 1089, 1090, 32, 1080, 32, 115, 117, 98, 109, 105, 115, 115, 105, 111, 110, 32, 105, 100, 32, 1089, 1086, 1093, 1088, 1072, 1085, 1077, 1085, 1099, 32, 1076, 1083, 1103, 32, 1073, 1077, 1079, 1086, 1087, 1072, 1089, 1085, 1086, 1075, 1086, 32, 1087, 1086, 1074, 1090, 1086, 1088, 1072, 46],
     sa_statusMessage := [], sa_busy := False\<rparr>"

definition error_text :: "js_exn \<Rightarrow> jstr" where "error_text x = (case x of ErrorMessage m \<Rightarrow> u m | _ \<Rightarrow> [])"

text \<open>\<open>new_id\<close> is what \<open>createSubmissionID\<close> returns, if it is called.\<close>

definition submitStep :: "scenario_env \<Rightarrow> jstr \<Rightarrow> jstr \<Rightarrow> scenario_app \<Rightarrow> scenario_app" where
  "submitStep e stamp new_id s =
     (case (sa_attempt s, Option.bind (sa_attempt s) at_currentStep) of
        (Some a, Some step) \<Rightarrow>
          if validationMessage e s \<noteq> [] then s
          else (case resolveScenarioSubmissionIdentity (se_lower e) (sa_submissionIdentity s) (sa_draft s) new_id of
              Inl x \<Rightarrow> s
            | Inr ident \<Rightarrow>
                let s = s\<lparr>sa_submissionIdentity := Some ident,
                      sa_storage := safeWriteDraft stamp (sa_session s) a (sa_draft s) (sa_storage s), sa_busy := True,
                      sa_actionError := [],
                      sa_statusMessage := [1054, 1090, 1087, 1088, 1072, 1074, 1083, 1103, 1077, 1084, 32, 1086, 1090, 1074, 1077, 1090, 32, 1080, 32, 1087, 1086, 1083, 1091, 1095, 1072, 1077, 1084, 32, 1086, 1073, 1098, 1077, 1082, 1090, 1080, 1074, 1085, 1099, 1081, 32, 1103, 1079, 1099, 1082, 1086, 1074, 1086, 1081, 32, 1089, 1080, 1075, 1085, 1072, 1083, 8230]\<rparr> in
                (case buildSubmitScenarioStepRequest (se_lower e) (at_version a) (si_submissionId ident) (sa_draft s)
                        (st_requiresFactHypothesis step) (se_offset e) of
                   Inl x \<Rightarrow> submit_failed (ErrorException (error_text x)) s
                 | Inr request \<Rightarrow> sa_send (ScSubmit (flight_of a s) step) (submit_path a step) (Some (submit_json request)) s))
      | _ \<Rightarrow> s)"

definition submitStep_done ::
  "scenario_flight \<Rightarrow> ScenarioStep \<Rightarrow> thrown + Session \<times> SubmitScenarioStepResponse \<Rightarrow> scenario_app \<Rightarrow> scenario_app" where
  "submitStep_done f step answer s =
     (case answer of
        Inr (active, r) \<Rightarrow>
          (sa_adoptSession (sf_session f) active s)
            \<lparr>sa_storage := safeDeleteDraft (sf_session f) (at_id (sf_attempt f)) (st_position step) (sa_storage s),
             sa_attempt := Some (sr_attempt r),
             sa_feedback := Some \<lparr>fb_step = step, fb_fields = sf_draft f, fb_result = r\<rparr>,
             sa_statusMessage := (if sr_idempotentReplay r
               then [1057, 1077, 1088, 1074, 1077, 1088, 32, 1087, 1086, 1076, 1090, 1074, 1077, 1088, 1076, 1080, 1083, 32, 1088, 1072, 1085, 1077, 1077, 32, 1087, 1088, 1080, 1085, 1103, 1090, 1091, 1102, 32, 1086, 1090, 1087, 1088, 1072, 1074, 1082, 1091, 32, 1073, 1077, 1079, 32, 1087, 1086, 1074, 1090, 1086, 1088, 1085, 1086, 1075, 1086, 32, 114, 101, 118, 105, 101, 119, 32, 101, 118, 101, 110, 116, 46]
               else [1054, 1090, 1074, 1077, 1090, 32, 1087, 1088, 1080, 1085, 1103, 1090, 59, 32, 1086, 1073, 1098, 1077, 1082, 1090, 1080, 1074, 1085, 1099, 1081, 32, 1103, 1079, 1099, 1082, 1086, 1074, 1086, 1081, 32, 1089, 1080, 1075, 1085, 1072, 1083, 32, 1089, 1086, 1093, 1088, 1072, 1085, 1105, 1085, 46]),
             sa_busy := False\<rparr>
      | Inl x \<Rightarrow> if has_http_status 409 x then resyncAttempt_begin f AfterSubmit s else submit_failed x s)"

definition continueAfterFeedback :: "scenario_env \<Rightarrow> jnum \<Rightarrow> scenario_app \<Rightarrow> scenario_app" where
  "continueAfterFeedback e now s =
     (case sa_attempt s of
        None \<Rightarrow> s | Some a \<Rightarrow> adoptAttempt e now (sa_session s) (sa_draftOwner s) a False s)
     \<lparr>sa_feedback := None, sa_actionError := [],
      sa_statusMessage := (if map_option at_status (sa_attempt s) = Some CompletedAttempt
        then [1057, 1094, 1077, 1085, 1072, 1088, 1080, 1081, 32, 1079, 1072, 1074, 1077, 1088, 1096, 1105, 1085, 46] else [1054, 1090, 1082, 1088, 1099, 1090, 32, 1089, 1083, 1077, 1076, 1091, 1102, 1097, 1080, 1081, 32, 1096, 1072, 1075, 46])\<rparr>"

definition leaveCompleted :: "scenario_app \<Rightarrow> scenario_app" where
  "leaveCompleted s = s\<lparr>sa_allowNavigation := True, sa_router := sa_router s @ [RouterPush (only_view LearnView)]\<rparr>"

definition openProgress :: "scenario_app \<Rightarrow> scenario_app" where
  "openProgress s = s\<lparr>sa_allowNavigation := True, sa_router := sa_router s @ [RouterPush (only_view ProgressView)]\<rparr>"

section \<open>What is shown\<close>

datatype field_name = ResponseField | FactsField | HypothesesField

fun edit_field :: "field_name \<Rightarrow> jstr \<Rightarrow> scenario_app \<Rightarrow> scenario_app" where
  "edit_field ResponseField v s = s\<lparr>sa_draft := (sa_draft s)\<lparr>df_response := v\<rparr>\<rparr>"
| "edit_field FactsField v s = s\<lparr>sa_draft := (sa_draft s)\<lparr>df_facts := v\<rparr>\<rparr>"
| "edit_field HypothesesField v s = s\<lparr>sa_draft := (sa_draft s)\<lparr>df_hypotheses := v\<rparr>\<rparr>"

datatype scenario_screen = LoadingScenario | ScenarioUnavailable "RequestProblem option"
  | EntryScreen Scenario | CompletedScreen Scenario ScenarioAttempt
  | FeedbackScreen ScenarioStep ScenarioDraftFields bool | PausedScreen ScenarioStep ScenarioDraftFields
  | WorkScreen ScenarioStep ScenarioDraftFields jstr | StepMissing

definition renderScenario :: "scenario_env \<Rightarrow> scenario_app \<Rightarrow> scenario_screen" where
  "renderScenario e s =
     (if ar_phase (sa_scenarioStatus s) \<in> {LoadingPhase, IdlePhase} then LoadingScenario
      else (case sa_scenario s of
          None \<Rightarrow> ScenarioUnavailable (ar_problem (sa_scenarioStatus s))
        | Some scenario \<Rightarrow>
            (case sa_attempt s of
               None \<Rightarrow> EntryScreen scenario
             | Some a \<Rightarrow>
                 (case sa_feedback s of
                    Some fb \<Rightarrow> FeedbackScreen (fb_step fb) (fb_fields fb)
                      (sr_judgementReason (fb_result fb) = u ''scenario_target_present'')
                  | None \<Rightarrow>
                      if at_status a = CompletedAttempt then CompletedScreen scenario a
                      else (case (case at_currentStep a of Some step \<Rightarrow> Some step
                                  | None \<Rightarrow> (case sc_steps scenario of Some (step # steps) \<Rightarrow> Some step | _ \<Rightarrow> None)) of
                          None \<Rightarrow> StepMissing
                        | Some step \<Rightarrow>
                            if at_status a = PausedAttempt then PausedScreen step (sa_draft s)
                            else WorkScreen step (sa_draft s) (validationMessage e s))))))"

text \<open>The controls above the screen: leaving an active attempt asks first.\<close>

definition close_scenario :: "scenario_app \<Rightarrow> scenario_app" where
  "close_scenario s =
     (if map_option at_status (sa_attempt s) = Some ActiveAttempt then s\<lparr>sa_exitIntent := Some CloseExit\<rparr> else leaveCompleted s)"

definition keep_working :: "scenario_app \<Rightarrow> scenario_app" where
  "keep_working s = (if \<not> sa_busy s then s\<lparr>sa_exitIntent := None\<rparr> else s)"

definition scenario_percentage :: "ScenarioAttempt option \<Rightarrow> Scenario \<Rightarrow> jnum" where
  "scenario_percentage attempt scenario = jround (jdiv (progressValue attempt scenario) (sc_stepCount scenario) * 100)"

section \<open>The fallback identifier\<close>

text \<open>Without \<open>crypto.randomUUID\<close> the identifier built from sixteen random bytes is one that
  \<open>createScenarioSubmission\<close> accepts: version 4, RFC variant.\<close>

lemma byte_digit_hex: "n < 16 \<Longrightarrow> hex_char (byte_digit n)"
  by (auto simp: byte_digit_def hex_char_def is_digit_def)

lemma byte_hex: "length (hex_byte b) = 2 \<and> (\<forall>c\<in>set (hex_byte b). hex_char c)"
proof -
  have "unat b < 256" using unsigned_less [where ?'a = nat and w = b] by simp
  then have "unat b div 16 < 16" "unat b mod 16 < 16" by auto
  then show ?thesis by (simp add: hex_byte_def byte_digit_hex)
qed

lemma masked_digit:
  fixes b :: "8 word"
  shows "unat ((b AND 0x0f) OR 0x40) div 16 = 4" "unat ((b AND 0x3f) OR 0x80) div 16 \<in> {8, 9, 10, 11}"
proof -
  have d: "unat w div 16 = unat (drop_bit 4 w)" for w :: "8 word"
    by (simp add: drop_bit_eq_div unat_div_distrib)
  have "drop_bit 4 ((b AND 0x0f) OR 0x40) = 4" by (simp add: drop_bit_and drop_bit_or)
  then show "unat ((b AND 0x0f) OR 0x40) div 16 = 4" by (simp add: d)
  have e: "drop_bit 4 ((b AND 0x3f) OR 0x80) = (drop_bit 4 b AND 3) OR 8" by (simp add: drop_bit_and drop_bit_or)
  define n where "n = unat (drop_bit 4 b AND 3)"
  have "drop_bit 4 b AND 3 = take_bit 2 (drop_bit 4 b)" by (simp add: take_bit_eq_mask mask_eq_exp_minus_1)
  then have "n < 4" by (simp add: n_def unsigned_take_bit_eq take_bit_nat_less_exp [of 2, simplified])
  moreover have "unat ((drop_bit 4 b AND 3) OR 8) = n OR 8" by (simp add: n_def unsigned_or_eq)
  moreover have "n OR 8 \<in> {8, 9, 10, 11}" if "n < 4"
  proof -
    have "n = 0 \<or> n = 1 \<or> n = 2 \<or> n = 3" using that by linarith
    then show ?thesis by (elim disjE) simp_all
  qed
  ultimately show "unat ((b AND 0x3f) OR 0x80) div 16 \<in> {8, 9, 10, 11}" by (simp add: d e)
qed

lemma fallback_id_is_uuid:
  assumes "length raw = 16"
  shows "is_uuid (createSubmissionID None raw)"
proof -
  obtain b0 b1 b2 b3 b4 b5 b6 b7 b8 b9 b10 b11 b12 b13 b14 b15 where
    raw: "raw = [b0, b1, b2, b3, b4, b5, b6, b7, b8, b9, b10, b11, b12, b13, b14, b15]"
    using assms by (auto simp: eval_nat_numeral length_Suc_conv)
  let ?v = "(b6 AND 0x0f) OR 0x40" and ?w = "(b8 AND 0x3f) OR 0x80"
  have part: "hex_part (2 * length bs) (concat (map hex_byte bs))" for bs
    using byte_hex by (induction bs) (auto simp: hex_part_def)
  let ?ps = "[concat (map hex_byte [b0, b1, b2, b3]), concat (map hex_byte [b4, b5]), concat (map hex_byte [?v, b7]),
    concat (map hex_byte [?w, b9]), concat (map hex_byte [b10, b11, b12, b13, b14, b15])]"
  have j: "createSubmissionID None raw = join [45] ?ps" by (simp add: createSubmissionID_def raw Let_def)
  have "\<not> hex_char 45" by (simp add: hex_char_def is_digit_def)
  then have "\<forall>p\<in>set ?ps. 45 \<notin> set p" using byte_hex by fastforce
  then have s: "split_on 45 (createSubmissionID None raw) = ?ps" unfolding j by (intro split_on_join) auto
  have "hd (hex_byte ?v) = 52" using masked_digit(1) [of b6] by (simp add: hex_byte_def byte_digit_def)
  moreover have "hd (hex_byte ?w) \<in> {56, 57, 97, 98}" using masked_digit(2) [of b8] by (auto simp: hex_byte_def byte_digit_def)
  moreover have "hex_byte b \<noteq> []" for b by (simp add: hex_byte_def)
  ultimately show ?thesis
    using part [of "[b0, b1, b2, b3]"] part [of "[b4, b5]"] part [of "[?v, b7]"] part [of "[?w, b9]"] part [of "[b10, b11, b12, b13, b14, b15]"]
    unfolding is_uuid_def s by auto
qed
end
