(* ===== verification/Scenario_Visit.thy ===== *)
theory Scenario_Visit
  imports Scenario_App
begin

text \<open>
  A visit of the scenario screen of \<open>Scenario_App\<close>: the steps that the learner, the browser and the answers can take,
  in any order.  What is typed survives a reload, one submission identifier stands for one answer to one step, and the
  answer that was accepted is offered again as the draft of the next step when the feedback is left by the dialog.
\<close>

section \<open>Steps\<close>

definition sc_taken :: "scenario_pending \<Rightarrow> scenario_app \<Rightarrow> scenario_app" where
  "sc_taken p s = s\<lparr>sa_pending := remove1 p (sa_pending s)\<rparr>"

definition at_work :: "scenario_env \<Rightarrow> scenario_app \<Rightarrow> jstr \<Rightarrow> bool" where
  "at_work e s msg \<longleftrightarrow> (\<exists>step d. renderScenario e s = WorkScreen step d msg) \<and> \<not> sa_busy s \<and> sa_exitIntent s = None"

definition shown :: "scenario_env \<Rightarrow> scenario_app \<Rightarrow> bool" where
  "shown e s \<longleftrightarrow> renderScenario e s \<noteq> LoadingScenario \<and> (\<forall>p. renderScenario e s \<noteq> ScenarioUnavailable p)"

text \<open>
  What the server promises: \<open>steps\<close> are the steps of an attempt; an attempt has a UUID, and its current step is the one
  at its position, which an attempt that is not over has; a scenario is sent with its steps.
\<close>

definition attempt_served :: "(jstr \<Rightarrow> jnum \<Rightarrow> ScenarioStep) \<Rightarrow> ScenarioAttempt \<Rightarrow> bool" where
  "attempt_served steps a \<longleftrightarrow>
     is_uuid (at_id a) \<and> (\<exists>n. at_currentPosition a = jnat n \<and> n < 1000000000000000000000)
     \<and> (\<forall>step. at_currentStep a = Some step \<longrightarrow>
          step = steps (at_id a) (at_currentPosition a) \<and> st_position step = at_currentPosition a)
     \<and> (at_status a \<in> {ActiveAttempt, PausedAttempt} \<longrightarrow> at_currentStep a \<noteq> None)"

definition submission_ids :: "scenario_app \<Rightarrow> jval set" where
  "submission_ids s = {jget body ''submissionId'' |body. \<exists>path. (path, Some body) \<in> set (sa_requests s)}"

definition same_user :: "Session \<Rightarrow> Session \<Rightarrow> bool" where
  "same_user x y \<longleftrightarrow> us_id (ss_user x) = us_id (ss_user y)"

definition stamp_ok :: "scenario_env \<Rightarrow> jstr \<Rightarrow> bool" where
  "stamp_ok e stamp \<longleftrightarrow> units_ok stamp \<and> isFinite (se_parse_date e stamp)"

inductive sc_step :: "(jstr \<Rightarrow> jnum \<Rightarrow> ScenarioStep) \<Rightarrow> scenario_env \<Rightarrow> scenario_app \<Rightarrow> scenario_app \<Rightarrow> bool" for steps e where
  s_edit: "at_work e s msg \<Longrightarrow> stamp_ok e stamp \<Longrightarrow> sc_step steps e s (commit stamp (edit_field fld v) s)"
| s_start: "renderScenario e s = EntryScreen sc \<Longrightarrow> \<not> sa_busy s \<Longrightarrow> stamp_ok e stamp \<Longrightarrow> sc_step steps e s (commit stamp startAttempt s)"
| s_submit: "at_work e s [] \<Longrightarrow> stamp_ok e stamp \<Longrightarrow> JStr new_id \<notin> submission_ids s \<Longrightarrow> fields_ok (sa_draft s) \<Longrightarrow>
    sc_step steps e s (commit stamp (submitStep e stamp new_id) s)"
| s_save: "at_work e s msg \<Longrightarrow> stamp_ok e stamp \<Longrightarrow> sc_step steps e s (commit stamp (pauseAttempt stamp False) s)"
| s_resume: "renderScenario e s = PausedScreen step d \<Longrightarrow> \<not> sa_busy s \<Longrightarrow> sa_exitIntent s = None \<Longrightarrow> stamp_ok e stamp \<Longrightarrow>
    sc_step steps e s (commit stamp resumeAttempt s)"
| s_continue: "renderScenario e s = FeedbackScreen step d found \<Longrightarrow> sa_exitIntent s = None \<Longrightarrow> stamp_ok e stamp \<Longrightarrow>
    sc_step steps e s (commit stamp (continueAfterFeedback e now) s)"
| s_close: "shown e s \<Longrightarrow> stamp_ok e stamp \<Longrightarrow> sc_step steps e s (commit stamp close_scenario s)"
| s_keep: "sa_exitIntent s \<noteq> None \<Longrightarrow> stamp_ok e stamp \<Longrightarrow> sc_step steps e s (commit stamp keep_working s)"
| s_leave: "shown e s \<Longrightarrow> sa_exitIntent s \<noteq> None \<Longrightarrow> \<not> sa_busy s \<Longrightarrow> stamp_ok e stamp \<Longrightarrow>
    sc_step steps e s (commit stamp (pauseAttempt stamp True) s)"
| s_back: "stamp_ok e stamp \<Longrightarrow> sc_step steps e s (commit stamp browser_back s)"
| s_retry: "renderScenario e s = ScenarioUnavailable p \<Longrightarrow> stamp_ok e stamp \<Longrightarrow> sc_step steps e s (commit stamp loadScenario_begin s)"
| s_sync: "renderScenario e s = StepMissing \<Longrightarrow> sa_attempt s = Some a \<Longrightarrow> stamp_ok e stamp \<Longrightarrow>
    sc_step steps e s (commit stamp (resyncAttempt_begin (flight_of a s) OnRequest) s)"
| s_session: "same_user session (sa_session s) \<Longrightarrow> stamp_ok e stamp \<Longrightarrow>
    sc_step steps e s (commit stamp (scenario_session_changed session) s)"
| s_timer: "ScLoadTimer \<in> set (sa_pending s) \<Longrightarrow> stamp_ok e stamp \<Longrightarrow>
    sc_step steps e s (commit stamp (loadScenario_begin \<circ> sc_taken ScLoadTimer) s)"
| s_loaded: "ScLoad session \<in> set (sa_pending s) \<Longrightarrow> stamp_ok e stamp \<Longrightarrow>
    (\<forall>active sc. answer = Inr (active, sc) \<longrightarrow> (\<exists>x xs. sc_steps sc = Some (x # xs))) \<Longrightarrow>
    sc_step steps e s (commit stamp (loadScenario_done session answer \<circ> sc_taken (ScLoad session)) s)"
| s_started: "ScStart session \<in> set (sa_pending s) \<Longrightarrow> stamp_ok e stamp \<Longrightarrow>
    (\<forall>active a r. answer = Inr (active, a, r) \<longrightarrow> attempt_served steps a) \<Longrightarrow>
    sc_step steps e s (commit stamp (startAttempt_done e now session answer \<circ> sc_taken (ScStart session)) s)"
| s_resumed: "ScResume f \<in> set (sa_pending s) \<Longrightarrow> stamp_ok e stamp \<Longrightarrow>
    (\<forall>active a. answer = Inr (active, a) \<longrightarrow> attempt_served steps a) \<Longrightarrow>
    sc_step steps e s (commit stamp (resumeAttempt_done e now f answer \<circ> sc_taken (ScResume f)) s)"
| s_paused: "ScPause f b \<in> set (sa_pending s) \<Longrightarrow> stamp_ok e stamp \<Longrightarrow>
    (\<forall>active a. answer = Inr (active, a) \<longrightarrow> attempt_served steps a) \<Longrightarrow>
    sc_step steps e s (commit stamp (pauseAttempt_done e now f b answer \<circ> sc_taken (ScPause f b)) s)"
| s_synced: "ScResync f cause \<in> set (sa_pending s) \<Longrightarrow> stamp_ok e stamp \<Longrightarrow>
    (\<forall>active a. answer = Inr (active, a) \<longrightarrow> attempt_served steps a) \<Longrightarrow>
    sc_step steps e s (commit stamp (resyncAttempt_done e now f cause answer \<circ> sc_taken (ScResync f cause)) s)"
| s_submitted: "ScSubmit f step \<in> set (sa_pending s) \<Longrightarrow> stamp_ok e stamp \<Longrightarrow>
    (\<forall>active r. answer = Inr (active, r) \<longrightarrow> attempt_served steps (sr_attempt r)) \<Longrightarrow>
    sc_step steps e s (commit stamp (submitStep_done f step answer \<circ> sc_taken (ScSubmit f step)) s)"

definition writable :: "storage \<Rightarrow> bool" where
  "writable st \<longleftrightarrow> \<not> get_denied st \<and> \<not> set_denied st \<and> \<not> remove_denied st"

inductive sc_visit :: "(jstr \<Rightarrow> jnum \<Rightarrow> ScenarioStep) \<Rightarrow> scenario_env \<Rightarrow> scenario_app \<Rightarrow> bool" for steps e where
  sc_start: "us_id (ss_user session) \<noteq> [] \<Longrightarrow> units_ok (us_id (ss_user session)) \<Longrightarrow> writable st \<Longrightarrow>
    sc_visit steps e (fresh_scenario_app pathname session st)"
| sc_more: "sc_visit steps e s \<Longrightarrow> sc_step steps e s s' \<Longrightarrow> sc_visit steps e s'"

section \<open>The invariant\<close>

fun is_action :: "scenario_pending \<Rightarrow> bool" where
  "is_action ScLoadTimer = False" | "is_action (ScLoad x) = False" | "is_action p = True"

definition actions :: "scenario_app \<Rightarrow> scenario_pending list" where "actions s = filter is_action (sa_pending s)"

fun flight_in :: "scenario_pending \<Rightarrow> scenario_flight option" where
  "flight_in (ScResume f) = Some f" | "flight_in (ScPause f b) = Some f" | "flight_in (ScSubmit f step) = Some f"
| "flight_in (ScResync f c) = Some f" | "flight_in p = None"

text \<open>At most one action is under way, for the attempt, the owner and the draft that are shown.\<close>

definition action_ok :: "scenario_app \<Rightarrow> scenario_pending \<Rightarrow> bool" where
  "action_ok s p \<longleftrightarrow>
     (case flight_in p of
        Some f \<Rightarrow> sa_attempt s = Some (sf_attempt f) \<and> sf_owner f = sa_draftOwner s \<and> sf_draft f = sa_draft s
          \<and> same_user (sf_session f) (sa_session s)
      | None \<Rightarrow> (\<exists>session. p = ScStart session \<and> same_user session (sa_session s)) \<and> sa_attempt s = None)
     \<and> (\<forall>f cause. p = ScResync f cause \<longrightarrow> cause \<noteq> OnRequest)
     \<and> (\<forall>f step. p = ScSubmit f step \<longrightarrow> at_currentStep (sf_attempt f) = Some step \<and> sa_feedback s = None)"

definition editing :: "scenario_app \<Rightarrow> ScenarioAttempt option" where
  "editing s = (case sa_attempt s of
     Some a \<Rightarrow> if at_currentStep a \<noteq> None \<and> sa_feedback s = None then Some a else None | None \<Rightarrow> None)"

definition quiet_ok :: "(jstr \<Rightarrow> jnum \<Rightarrow> ScenarioStep) \<Rightarrow> scenario_app \<Rightarrow> bool" where
  "quiet_ok steps s \<longleftrightarrow>
     length (actions s) \<le> 1 \<and> (\<forall>p\<in>set (actions s). action_ok s p) \<and> (sa_busy s \<longleftrightarrow> actions s \<noteq> [])
     \<and> (sa_busy s \<and> sa_feedback s \<noteq> None \<longrightarrow> sa_exitIntent s \<noteq> None)
     \<and> (\<forall>a. sa_attempt s = Some a \<longrightarrow> attempt_served steps a) \<and> (sa_attempt s = None \<longrightarrow> sa_feedback s = None)
     \<and> (\<forall>a. editing s = Some a \<longrightarrow> attemptDraftOwner a = sa_draftOwner s)
     \<and> (\<forall>sc. sa_scenario s = Some sc \<longrightarrow> (\<exists>x xs. sc_steps sc = Some (x # xs)))
     \<and> us_id (ss_user (sa_session s)) \<noteq> [] \<and> units_ok (us_id (ss_user (sa_session s)))
     \<and> writable (sa_storage s)"

definition draft_stored :: "scenario_env \<Rightarrow> scenario_app \<Rightarrow> bool" where
  "draft_stored e s \<longleftrightarrow> (\<forall>a. editing s = Some a \<and> fields_ok (sa_draft s) \<longrightarrow>
     safeReadDraft (se_parse_date e) (sa_session s) a (sa_storage s) = sa_draft s)"


section \<open>Drafts are read back\<close>

lemma draft_reads_back:
  assumes "identity_ok owner" "fields_ok content" "units_ok t" "isFinite (parse_date t)"
  shows "parseScenarioDraft parse_date (Some (serializeScenarioDraft (createScenarioDraft owner content t))) owner
      = Some (createScenarioDraft owner content t)"
proof -
  let ?d = "createScenarioDraft owner content t"
  have d: "dr_identity ?d = owner" "dr_fields ?d = content" "dr_updatedAt ?d = t" by (simp_all add: createScenarioDraft_def)
  have c: "clean (draft_json ?d)" using assms(1-3) by (simp add: draft_clean d)
  show ?thesis
    using assms(4) json_text_nonempty [OF c] json.dec_enc [OF c]
    by (simp add: parseScenarioDraft_def serializeScenarioDraft_def draft_of_json d isTimestamp_def)
qed

lemma uuid_units: "is_uuid x \<Longrightarrow> units_ok x"
proof -
  assume a: "is_uuid x"
  have hex: "\<forall>part\<in>set (split_on 45 x). \<forall>c\<in>set part. hex_char c"
    using a unfolding is_uuid_def by (auto simp: hex_part_def split: list.splits)
  have joined: "set (join [45] parts) \<subseteq> insert 45 (\<Union> (set ` set parts))" for parts :: "nat list list"
    by (induction parts rule: induct_list012) auto
  have "x = join [45] (split_on 45 x)" by (simp add: join_split_on)
  with joined [of "split_on 45 x"] have "set x \<subseteq> insert 45 (\<Union> (set ` set (split_on 45 x)))" by simp
  then have "\<forall>c\<in>set x. c = 45 \<or> hex_char c" using hex by blast
  then show ?thesis by (auto simp: units_ok_def hex_char_def is_digit_def)
qed

lemma read_write:
  assumes "writable st" "us_id (ss_user session) \<noteq> []" "units_ok (us_id (ss_user session))" "attempt_served steps a" "fields_ok d" "stamp_ok e stamp"
  shows "safeReadDraft (se_parse_date e) session a (safeWriteDraft stamp session a d st) = d"
proof -
  obtain n where n: "at_currentPosition a = jnat n" "n < 1000000000000000000000" "is_uuid (at_id a)" using assms(4) by (auto simp: attempt_served_def)
  have i: "identity_ok (draftIdentity session a)"
    using assms(3) n uuid_units by (simp add: identity_ok_def draftIdentity_def num_clean_def)
  obtain k where k: "scenarioDraftStorageKey (draftIdentity session a) = Inr k"
    using assms(2) n by (simp add: scenarioDraftStorageKey_def draftIdentity_def isNonNegativeInteger_def)
  show ?thesis
    using assms(1) draft_reads_back [OF i assms(5), of stamp "se_parse_date e"] assms(6)
    by (simp add: safeReadDraft_def safeWriteDraft_def k getItem_def setItem_def writable_def stamp_ok_def createScenarioDraft_def)
qed

lemma write_writable [simp]: "writable (safeWriteDraft stamp session a d st) \<longleftrightarrow> writable st"
  by (auto simp: safeWriteDraft_def setItem_def writable_def split: sum.split)

lemma delete_writable [simp]: "writable (safeDeleteDraft session i n st) \<longleftrightarrow> writable st"
  by (auto simp: safeDeleteDraft_def removeItem_def writable_def split: sum.split)

lemma read_user: "same_user x y \<Longrightarrow> safeReadDraft pd x a st = safeReadDraft pd y a st"
proof -
  assume "same_user x y"
  then have "draftIdentity x a = draftIdentity y a" by (simp add: draftIdentity_def same_user_def)
  then show ?thesis by (simp only: safeReadDraft_def)
qed

section \<open>What the effects change\<close>

lemma editing_none: "editing q = None \<longleftrightarrow> (\<forall>a. sa_attempt q = Some a \<longrightarrow> at_currentStep a = None \<or> sa_feedback q \<noteq> None)"
  by (cases "sa_attempt q") (simp_all add: editing_def)

lemma editing_some: "editing q = Some a \<longleftrightarrow> sa_attempt q = Some a \<and> at_currentStep a \<noteq> None \<and> sa_feedback q = None"
  by (cases "sa_attempt q") (simp_all add: editing_def, blast)

lemma draft_effect_idle: "editing q = None \<Longrightarrow> draft_effect stamp q = q"
  unfolding editing_none draft_effect_def
  by (cases "sa_attempt q") (simp_all only: option.case if_True disj_assoc [symmetric] simp_thms)

lemma draft_effect_editing:
  "editing q = Some a \<Longrightarrow> draft_effect stamp q = q\<lparr>sa_storage := (if attemptDraftOwner a = sa_draftOwner q
     then safeWriteDraft stamp (sa_session q) a (sa_draft q) (sa_storage q) else sa_storage q)\<rparr>"
  unfolding editing_some draft_effect_def
  by (cases "at_currentStep a"; cases "attemptDraftOwner a = sa_draftOwner q") simp_all

lemma guard_effect_form: "guard_effect t = t\<lparr>sa_guard := sa_guard (guard_effect t), sa_history := sa_history (guard_effect t)\<rparr>"
  by (cases "sa_attempt t") (simp_all add: guard_effect_def)

lemma commit_form:
  "\<exists>st g h. commit stamp f s = (f s)\<lparr>sa_storage := st, sa_guard := g, sa_history := h\<rparr>
    \<and> (st = sa_storage (f s) \<or> (\<exists>a. editing (f s) = Some a \<and> st = safeWriteDraft stamp (sa_session (f s)) a (sa_draft (f s)) (sa_storage (f s))))
    \<and> (draft_deps (f s) = draft_deps s \<longrightarrow> st = sa_storage (f s))
    \<and> (draft_deps (f s) \<noteq> draft_deps s \<longrightarrow> (\<forall>a. editing (f s) = Some a \<and> attemptDraftOwner a = sa_draftOwner (f s)
         \<longrightarrow> st = safeWriteDraft stamp (sa_session (f s)) a (sa_draft (f s)) (sa_storage (f s))))"
proof -
  define t where "t = (if draft_deps (f s) \<noteq> draft_deps s then draft_effect stamp (f s) else f s)"
  have t: "\<exists>st. t = (f s)\<lparr>sa_storage := st\<rparr>
    \<and> (st = sa_storage (f s) \<or> (\<exists>a. editing (f s) = Some a \<and> st = safeWriteDraft stamp (sa_session (f s)) a (sa_draft (f s)) (sa_storage (f s))))
    \<and> (draft_deps (f s) = draft_deps s \<longrightarrow> st = sa_storage (f s))
    \<and> (draft_deps (f s) \<noteq> draft_deps s \<longrightarrow> (\<forall>a. editing (f s) = Some a \<and> attemptDraftOwner a = sa_draftOwner (f s)
         \<longrightarrow> st = safeWriteDraft stamp (sa_session (f s)) a (sa_draft (f s)) (sa_storage (f s))))"
  proof (cases "draft_deps (f s) = draft_deps s")
    case True
    then show ?thesis by (intro exI [of _ "sa_storage (f s)"]) (simp add: t_def)
  next
    case False
    show ?thesis
    proof (cases "editing (f s)")
      case None
      then have "t = f s" by (simp add: t_def draft_effect_idle)
      then show ?thesis using None False by (intro exI [of _ "sa_storage (f s)"]) simp
    next
      case (Some a)
      define st where "st = (if attemptDraftOwner a = sa_draftOwner (f s)
          then safeWriteDraft stamp (sa_session (f s)) a (sa_draft (f s)) (sa_storage (f s)) else sa_storage (f s))"
      have "t = (f s)\<lparr>sa_storage := st\<rparr>"
        using False unfolding t_def st_def draft_effect_editing [OF Some] by (simp only: if_True not_False_eq_True)
      then show ?thesis using Some False by (intro exI [of _ st]) (simp add: st_def)
    qed
  qed
  have g: "\<exists>g h. (if b then guard_effect t else t) = t\<lparr>sa_guard := g, sa_history := h\<rparr>" for b
  proof (cases b)
    case True
    then show ?thesis using guard_effect_form [of t] by (simp only: if_True) blast
  next
    case False
    have "t\<lparr>sa_guard := sa_guard t, sa_history := sa_history t\<rparr> = t" by simp
    then show ?thesis using False by (simp only: if_False) metis
  qed
  have c: "commit stamp f s = (if sa_attempt t \<noteq> sa_attempt s \<or> sa_feedback t \<noteq> sa_feedback s then guard_effect t else t)"
    by (simp add: commit_def Let_def t_def)
  from t obtain st where st: "t = (f s)\<lparr>sa_storage := st\<rparr>"
    "(st = sa_storage (f s) \<or> (\<exists>a. editing (f s) = Some a \<and> st = safeWriteDraft stamp (sa_session (f s)) a (sa_draft (f s)) (sa_storage (f s))))
    \<and> (draft_deps (f s) = draft_deps s \<longrightarrow> st = sa_storage (f s))
    \<and> (draft_deps (f s) \<noteq> draft_deps s \<longrightarrow> (\<forall>a. editing (f s) = Some a \<and> attemptDraftOwner a = sa_draftOwner (f s)
         \<longrightarrow> st = safeWriteDraft stamp (sa_session (f s)) a (sa_draft (f s)) (sa_storage (f s))))" by blast
  from g [of "sa_attempt t \<noteq> sa_attempt s \<or> sa_feedback t \<noteq> sa_feedback s"] obtain x h where
    "commit stamp f s = t\<lparr>sa_guard := x, sa_history := h\<rparr>" unfolding c by blast
  with st show ?thesis by blast
qed

lemma commit_no_edit:
  assumes "editing (f s) = None"
  shows "\<exists>g h. commit stamp f s = (f s)\<lparr>sa_guard := g, sa_history := h\<rparr>"
proof -
  from commit_form [of stamp f s] assms obtain g h where
    "commit stamp f s = (f s)\<lparr>sa_storage := sa_storage (f s), sa_guard := g, sa_history := h\<rparr>" by auto
  then show ?thesis by auto
qed

lemma commit_quiet:
  assumes "quiet_ok steps (f s)"
  shows "quiet_ok steps (commit stamp f s)"
proof -
  obtain st g h where c: "commit stamp f s = (f s)\<lparr>sa_storage := st, sa_guard := g, sa_history := h\<rparr>"
    and st: "st = sa_storage (f s) \<or> (\<exists>a. editing (f s) = Some a \<and> st = safeWriteDraft stamp (sa_session (f s)) a (sa_draft (f s)) (sa_storage (f s)))"
    using commit_form [of stamp f s] by blast
  have "writable st \<longleftrightarrow> writable (sa_storage (f s))" using st by auto
  then show ?thesis using assms unfolding c by (simp add: quiet_ok_def actions_def action_ok_def editing_def cong: option.case_cong)
qed

lemma commit_stored:
  assumes ok: "quiet_ok steps (f s)" and stamp: "stamp_ok e stamp"
    and same: "draft_deps (f s) = draft_deps s \<Longrightarrow> draft_stored e (f s)"
  shows "draft_stored e (commit stamp f s)"
proof -
  obtain st g h where c: "commit stamp f s = (f s)\<lparr>sa_storage := st, sa_guard := g, sa_history := h\<rparr>"
    and st: "draft_deps (f s) = draft_deps s \<longrightarrow> st = sa_storage (f s)"
      "draft_deps (f s) \<noteq> draft_deps s \<longrightarrow> (\<forall>a. editing (f s) = Some a \<and> attemptDraftOwner a = sa_draftOwner (f s)
         \<longrightarrow> st = safeWriteDraft stamp (sa_session (f s)) a (sa_draft (f s)) (sa_storage (f s)))"
    using commit_form [of stamp f s] by blast
  have ed: "editing (commit stamp f s) = editing (f s)" by (simp add: c editing_def cong: option.case_cong)
  show ?thesis
  proof (cases "draft_deps (f s) = draft_deps s")
    case True
    then show ?thesis using same st(1) unfolding draft_stored_def ed by (simp add: c)
  next
    case False
    show ?thesis
      unfolding draft_stored_def ed
    proof (intro allI impI, elim conjE)
      fix a assume a: "editing (f s) = Some a" "fields_ok (sa_draft (commit stamp f s))"
      then have "attempt_served steps a" "attemptDraftOwner a = sa_draftOwner (f s)"
        using ok by (auto simp: quiet_ok_def editing_def split: option.splits if_splits)
      then show "safeReadDraft (se_parse_date e) (sa_session (commit stamp f s)) a (sa_storage (commit stamp f s)) = sa_draft (commit stamp f s)"
        using st(2) False a ok stamp read_write [of "sa_storage (f s)" "sa_session (f s)" steps a "sa_draft (f s)" e stamp]
        by (simp add: c quiet_ok_def)
    qed
  qed
qed


section \<open>Every step keeps the invariant\<close>

lemma adopt_fields [simp]:
  "sa_pending (adoptAttempt e now x owner a pr s) = sa_pending s" "sa_busy (adoptAttempt e now x owner a pr s) = sa_busy s"
  "sa_exitIntent (adoptAttempt e now x owner a pr s) = sa_exitIntent s" "sa_feedback (adoptAttempt e now x owner a pr s) = sa_feedback s"
  "sa_session (adoptAttempt e now x owner a pr s) = sa_session s" "sa_storage (adoptAttempt e now x owner a pr s) = sa_storage s"
  "sa_scenario (adoptAttempt e now x owner a pr s) = sa_scenario s" "sa_attempt (adoptAttempt e now x owner a pr s) = Some a"
  "sa_requests (adoptAttempt e now x owner a pr s) = sa_requests s"
  "sa_scenarioStatus (adoptAttempt e now x owner a pr s) = sa_scenarioStatus s"
  by (simp_all add: adoptAttempt_def Let_def)

lemma adopt_owner:
  "at_currentStep a \<noteq> None \<Longrightarrow> (pr \<and> attemptDraftOwner a = owner \<Longrightarrow> owner = sa_draftOwner s) \<Longrightarrow>
    sa_draftOwner (adoptAttempt e now x owner a pr s) = attemptDraftOwner a"
  by (auto simp: adoptAttempt_def Let_def)

lemma adoptSession_fields [simp]:
  "sa_pending (sa_adoptSession c x s) = sa_pending s" "sa_busy (sa_adoptSession c x s) = sa_busy s"
  "sa_exitIntent (sa_adoptSession c x s) = sa_exitIntent s" "sa_feedback (sa_adoptSession c x s) = sa_feedback s"
  "sa_session (sa_adoptSession c x s) = sa_session s" "sa_storage (sa_adoptSession c x s) = sa_storage s"
  "sa_scenario (sa_adoptSession c x s) = sa_scenario s" "sa_attempt (sa_adoptSession c x s) = sa_attempt s"
  "sa_requests (sa_adoptSession c x s) = sa_requests s" "sa_draft (sa_adoptSession c x s) = sa_draft s"
  "sa_draftOwner (sa_adoptSession c x s) = sa_draftOwner s" "sa_submissionIdentity (sa_adoptSession c x s) = sa_submissionIdentity s"
  by (simp_all add: sa_adoptSession_def)

lemma sc_taken_fields [simp]:
  "sa_busy (sc_taken p s) = sa_busy s" "sa_exitIntent (sc_taken p s) = sa_exitIntent s" "sa_feedback (sc_taken p s) = sa_feedback s"
  "sa_session (sc_taken p s) = sa_session s" "sa_storage (sc_taken p s) = sa_storage s" "sa_scenario (sc_taken p s) = sa_scenario s"
  "sa_attempt (sc_taken p s) = sa_attempt s" "sa_requests (sc_taken p s) = sa_requests s" "sa_draft (sc_taken p s) = sa_draft s"
  "sa_draftOwner (sc_taken p s) = sa_draftOwner s" "sa_submissionIdentity (sc_taken p s) = sa_submissionIdentity s"
  "sa_scenarioStatus (sc_taken p s) = sa_scenarioStatus s" "editing (sc_taken p s) = editing s" "sa_slug (sc_taken p s) = sa_slug s" "draft_deps (sc_taken p s) = draft_deps s"
  by (simp_all add: sc_taken_def editing_def draft_deps_def cong: option.case_cong)

lemma action_taken:
  assumes "quiet_ok steps s" "p \<in> set (sa_pending s)" "is_action p"
  shows "actions (sc_taken p s) = []" "action_ok s p" "sa_busy s"
proof -
  have "p \<in> set (actions s)" using assms(2,3) by (simp add: actions_def)
  then have r: "actions s = [p]" using assms(1) by (cases "actions s") (auto simp: quiet_ok_def)
  then show "actions (sc_taken p s) = []" by (simp add: actions_def sc_taken_def filter_remove1)
  show "action_ok s p" "sa_busy s" using assms(1) r by (auto simp: quiet_ok_def)
qed

text \<open>The parts of the invariant that do not speak of the actions.\<close>

definition served_ok :: "(jstr \<Rightarrow> jnum \<Rightarrow> ScenarioStep) \<Rightarrow> scenario_app \<Rightarrow> bool" where
  "served_ok steps s \<longleftrightarrow>
     (\<forall>a. sa_attempt s = Some a \<longrightarrow> attempt_served steps a) \<and> (sa_attempt s = None \<longrightarrow> sa_feedback s = None)
     \<and> (\<forall>a. editing s = Some a \<longrightarrow> attemptDraftOwner a = sa_draftOwner s)
     \<and> (\<forall>sc. sa_scenario s = Some sc \<longrightarrow> (\<exists>x xs. sc_steps sc = Some (x # xs)))
     \<and> us_id (ss_user (sa_session s)) \<noteq> [] \<and> units_ok (us_id (ss_user (sa_session s)))
     \<and> writable (sa_storage s)"

lemma quiet_iff:
  "quiet_ok steps s \<longleftrightarrow> length (actions s) \<le> 1 \<and> (\<forall>p\<in>set (actions s). action_ok s p) \<and> (sa_busy s \<longleftrightarrow> actions s \<noteq> [])
     \<and> (sa_busy s \<and> sa_feedback s \<noteq> None \<longrightarrow> sa_exitIntent s \<noteq> None) \<and> served_ok steps s"
  by (simp only: quiet_ok_def served_ok_def)

lemma quiet_idle: "actions s = [] \<Longrightarrow> \<not> sa_busy s \<Longrightarrow> served_ok steps s \<Longrightarrow> quiet_ok steps s"
  by (simp add: quiet_iff)

lemma quiet_acting:
  "actions s = [p] \<Longrightarrow> action_ok s p \<Longrightarrow> sa_busy s \<Longrightarrow> (sa_feedback s \<noteq> None \<Longrightarrow> sa_exitIntent s \<noteq> None) \<Longrightarrow> served_ok steps s \<Longrightarrow> quiet_ok steps s"
  by (simp add: quiet_iff)

lemma quiet_not_busy: "quiet_ok steps s \<Longrightarrow> \<not> sa_busy s \<Longrightarrow> actions s = [] \<and> served_ok steps s"
  by (simp add: quiet_iff)

lemma same_served:
  "sa_attempt t = sa_attempt s \<Longrightarrow> sa_feedback t = sa_feedback s \<Longrightarrow> sa_draftOwner t = sa_draftOwner s \<Longrightarrow>
    sa_scenario t = sa_scenario s \<Longrightarrow> sa_session t = sa_session s \<Longrightarrow> writable (sa_storage t) = writable (sa_storage s) \<Longrightarrow>
    served_ok steps s \<Longrightarrow> served_ok steps t"
  unfolding served_ok_def editing_some by simp

text \<open>An attempt that is adopted.\<close>

lemma adopted_served:
  assumes "served_ok steps s" "attempt_served steps a" "owner = sa_draftOwner s \<or> \<not> pr"
  shows "served_ok steps (adoptAttempt e now x owner a pr s)"
proof -
  have "attemptDraftOwner b = sa_draftOwner (adoptAttempt e now x owner a pr s)" if "editing (adoptAttempt e now x owner a pr s) = Some b" for b
  proof -
    from that have b: "b = a" "at_currentStep a \<noteq> None" by (simp_all add: editing_some)
    have "sa_draftOwner (adoptAttempt e now x owner a pr s) = attemptDraftOwner a"
      using assms(3) by (intro adopt_owner b(2)) auto
    then show ?thesis using b by simp
  qed
  then show ?thesis using assms(1,2) by (simp add: served_ok_def)
qed

lemma work_screen:
  "renderScenario e s = WorkScreen step d msg \<Longrightarrow>
     \<exists>a. sa_attempt s = Some a \<and> sa_feedback s = None \<and> at_status a \<noteq> PausedAttempt \<and> at_status a \<noteq> CompletedAttempt
       \<and> msg = validationMessage e s \<and> d = sa_draft s"
  by (auto simp: renderScenario_def split: option.splits if_splits list.splits)

lemma other_screens:
  "renderScenario e s = EntryScreen sc \<Longrightarrow> sa_attempt s = None"
  "renderScenario e s = PausedScreen step d \<Longrightarrow> \<exists>a. sa_attempt s = Some a \<and> sa_feedback s = None \<and> at_status a = PausedAttempt"
  "renderScenario e s = FeedbackScreen step d b \<Longrightarrow> \<exists>a fb. sa_attempt s = Some a \<and> sa_feedback s = Some fb \<and> step = fb_step fb \<and> d = fb_fields fb"
  by (auto simp: renderScenario_def split: option.splits if_splits list.splits)

lemma step_never_missing: "served_ok steps s \<Longrightarrow> renderScenario e s \<noteq> StepMissing"
  by (auto simp: renderScenario_def served_ok_def split: option.splits if_splits list.splits)

lemma edit_quiet: "quiet_ok steps s \<Longrightarrow> \<not> sa_busy s \<Longrightarrow> quiet_ok steps (edit_field fld v s)"
  using quiet_not_busy [of steps s]
  by (cases fld) (auto intro!: quiet_idle same_served [of _ s] simp: actions_def)

lemma start_quiet:
  assumes "quiet_ok steps s" "\<not> sa_busy s" "sa_attempt s = None"
  shows "quiet_ok steps (startAttempt s)"
proof (cases "sa_slug s")
  case None
  then show ?thesis using assms(1) by (simp add: startAttempt_def)
next
  case (Some slug)
  have q: "actions s = []" "served_ok steps s" using quiet_not_busy [OF assms(1,2)] by auto
  show ?thesis
  proof (rule quiet_acting)
    show "actions (startAttempt s) = [ScStart (sa_session s)]" using q(1) by (simp add: startAttempt_def Some sa_send_def actions_def)
    show "action_ok (startAttempt s) (ScStart (sa_session s))"
      using assms(3) by (simp add: startAttempt_def Some sa_send_def action_ok_def same_user_def)
    show "sa_busy (startAttempt s)" by (simp add: startAttempt_def Some sa_send_def)
    show "sa_feedback (startAttempt s) \<noteq> None \<Longrightarrow> sa_exitIntent (startAttempt s) \<noteq> None"
      using q(2) assms(3) by (simp add: startAttempt_def Some sa_send_def served_ok_def)
    show "served_ok steps (startAttempt s)" by (rule same_served [OF _ _ _ _ _ _ q(2)]) (simp_all add: startAttempt_def Some sa_send_def)
  qed
qed

text \<open>A handler that sends an action of the attempt.\<close>

lemma sent_quiet:
  assumes "quiet_ok steps s" "\<not> sa_busy s" "sa_attempt s = Some a" "sa_feedback s = None \<or> sa_exitIntent s \<noteq> None"
    and "sa_pending t = sa_pending s @ [p]" "sa_busy t" "is_action p" "flight_in p = Some (flight_of a s)"
    and "\<forall>f c. p \<noteq> ScResync f c" "\<forall>f step. p = ScSubmit f step \<longrightarrow> at_currentStep a = Some step \<and> sa_feedback s = None"
    and "sa_attempt t = sa_attempt s" "sa_feedback t = sa_feedback s" "sa_draftOwner t = sa_draftOwner s" "sa_draft t = sa_draft s"
      "sa_scenario t = sa_scenario s" "sa_session t = sa_session s" "writable (sa_storage t) = writable (sa_storage s)"
      "sa_exitIntent t = sa_exitIntent s"
  shows "quiet_ok steps t"
proof -
  have q: "actions s = []" "served_ok steps s" using quiet_not_busy [OF assms(1,2)] by auto
  show ?thesis
  proof (rule quiet_acting)
    show "actions t = [p]" using q(1) assms(5,7) by (simp add: actions_def)
    show "action_ok t p" using assms(3,8-14,16) by (cases p) (auto simp: action_ok_def flight_of_def same_user_def)
    show "sa_busy t" by (rule assms(6))
    show "sa_feedback t \<noteq> None \<Longrightarrow> sa_exitIntent t \<noteq> None" using assms(4,12,18) by auto
    show "served_ok steps t" by (rule same_served [OF assms(11-13,15-17) q(2)])
  qed
qed

lemma resume_quiet:
  assumes "quiet_ok steps s" "\<not> sa_busy s" "sa_attempt s = Some a" "sa_feedback s = None"
  shows "quiet_ok steps (resumeAttempt s)"
  using assms(4) by (intro sent_quiet [OF assms(1-3), where p = "ScResume (flight_of a s)"]) (simp_all add: resumeAttempt_def assms(3) sa_send_def)

lemma pause_quiet:
  assumes "quiet_ok steps s" "\<not> sa_busy s" "sa_feedback s = None \<or> sa_exitIntent s \<noteq> None"
  shows "quiet_ok steps (pauseAttempt stamp b s)"
proof (cases "sa_attempt s")
  case None
  then show ?thesis using assms(1) by (simp add: pauseAttempt_def)
next
  case (Some a)
  have q: "actions s = []" "served_ok steps s" using quiet_not_busy [OF assms(1,2)] by auto
  show ?thesis
  proof (cases "at_status a = ActiveAttempt")
    case True
    show ?thesis
      using assms(3) by (intro sent_quiet [OF assms(1,2) Some, where p = "ScPause (flight_of a s) b"])
        (simp_all add: pauseAttempt_def Some True sa_send_def Let_def flight_of_def)
  next
    case False
    show ?thesis
      using assms(2) q(1)
      by (intro quiet_idle same_served [OF _ _ _ _ _ _ q(2)])
        (simp_all add: pauseAttempt_def Some False Let_def leave_by_replace_def actions_def)
  qed
qed


lemma submit_quiet:
  assumes "quiet_ok steps s" "\<not> sa_busy s" "sa_feedback s = None"
  shows "quiet_ok steps (submitStep e stamp i s)"
proof (cases "Option.bind (sa_attempt s) at_currentStep")
  case None
  then show ?thesis using assms(1) by (simp add: submitStep_def split: option.split)
next
  case (Some step)
  then obtain a where a: "sa_attempt s = Some a" "at_currentStep a = Some step" by (cases "sa_attempt s") auto
  have q: "actions s = []" "served_ok steps s" using quiet_not_busy [OF assms(1,2)] by auto
  show ?thesis
  proof (cases "validationMessage e s = []")
    case False
    then show ?thesis using assms(1) a by (simp add: submitStep_def)
  next
    case valid: True
    show ?thesis
    proof (cases "resolveScenarioSubmissionIdentity (se_lower e) (sa_submissionIdentity s) (sa_draft s) i")
      case (Inl x)
      then show ?thesis using assms(1) a valid by (simp add: submitStep_def)
    next
      case id: (Inr ident)
      show ?thesis
      proof (cases "buildSubmitScenarioStepRequest (se_lower e) (at_version a) (si_submissionId ident) (sa_draft s)
          (st_requiresFactHypothesis step) (se_offset e)")
        case (Inl x)
        show ?thesis
          using q(1) by (intro quiet_idle same_served [OF _ _ _ _ _ _ q(2)])
            (simp_all add: submitStep_def a valid id Inl Let_def submit_failed_def actions_def)
      next
        case (Inr request)
        show ?thesis
          using assms(3) a(2)
          by (intro sent_quiet [OF assms(1,2) a(1), where p = "ScSubmit (flight_of a s) step"])
            (simp_all add: submitStep_def a valid id Inr Let_def sa_send_def flight_of_def)
      qed
    qed
  qed
qed

lemma continue_quiet:
  assumes "quiet_ok steps s" "sa_feedback s \<noteq> None" "sa_exitIntent s = None"
  shows "quiet_ok steps (continueAfterFeedback e now s)"
proof -
  have idle: "\<not> sa_busy s" using assms by (auto simp: quiet_iff)
  have q: "actions s = []" "served_ok steps s" using quiet_not_busy [OF assms(1) idle] by auto
  obtain a where a: "sa_attempt s = Some a" "attempt_served steps a" using q(2) assms(2) by (cases "sa_attempt s") (auto simp: served_ok_def)
  have f: "sa_draftOwner (continueAfterFeedback e now s) = sa_draftOwner (adoptAttempt e now (sa_session s) (sa_draftOwner s) a False s)"
    by (simp add: continueAfterFeedback_def a)
  have "served_ok steps (continueAfterFeedback e now s)"
    using q(2) a adopt_owner [of a False "sa_draftOwner s" s e now "sa_session s"] unfolding served_ok_def editing_some f
    by (auto simp: continueAfterFeedback_def a(1))
  then show ?thesis using q(1) idle
    by (intro quiet_idle) (simp_all add: continueAfterFeedback_def a actions_def)
qed

text \<open>What neither the actions nor the attempt depend on.\<close>

lemma action_same:
  "action_ok s p \<Longrightarrow> sa_attempt t = sa_attempt s \<Longrightarrow> sa_feedback t = sa_feedback s \<Longrightarrow> sa_draftOwner t = sa_draftOwner s \<Longrightarrow>
    sa_draft t = sa_draft s \<Longrightarrow> same_user (sa_session s) (sa_session t) \<Longrightarrow> action_ok t p"
  by (cases p) (auto simp: action_ok_def same_user_def)

lemma quiet_same:
  assumes "quiet_ok steps s" "actions t = actions s" "sa_attempt t = sa_attempt s" "sa_feedback t = sa_feedback s"
    "sa_draftOwner t = sa_draftOwner s" "sa_draft t = sa_draft s" "same_user (sa_session s) (sa_session t)" "sa_busy t = sa_busy s"
    "writable (sa_storage t) = writable (sa_storage s)" "sa_busy s \<and> sa_exitIntent t = None \<longrightarrow> sa_exitIntent s = None"
    "sa_scenario t = sa_scenario s \<or> (\<forall>sc. sa_scenario t = Some sc \<longrightarrow> (\<exists>x xs. sc_steps sc = Some (x # xs)))"
  shows "quiet_ok steps t"
  using assms action_same [of s _ t] unfolding quiet_iff served_ok_def editing_some by (auto simp: same_user_def)

lemma small_quiet:
  assumes "quiet_ok steps s"
  shows "quiet_ok steps (close_scenario s)" "quiet_ok steps (keep_working s)" "quiet_ok steps (browser_back s)"
    "quiet_ok steps (loadScenario_begin s)" "same_user session (sa_session s) \<Longrightarrow> quiet_ok steps (scenario_session_changed session s)"
proof -
  note keep = quiet_same [OF assms]
  show "quiet_ok steps (close_scenario s)" by (rule keep) (auto simp: close_scenario_def leaveCompleted_def actions_def same_user_def)
  show "quiet_ok steps (keep_working s)" by (rule keep) (auto simp: keep_working_def actions_def same_user_def)
  show "quiet_ok steps (browser_back s)" by (rule keep) (auto simp: browser_back_def actions_def same_user_def)
  show "quiet_ok steps (loadScenario_begin s)"
    by (rule keep) (auto simp: loadScenario_begin_def sa_send_def actions_def same_user_def split: option.split)
  show "quiet_ok steps (scenario_session_changed session s)" if "same_user session (sa_session s)"
  proof (rule keep)
    have "(is_action p \<and> (case p of ScLoadTimer \<Rightarrow> False | ScLoad x \<Rightarrow> False | _ \<Rightarrow> True)) = is_action p" for p by (cases p) simp_all
    then show "actions (scenario_session_changed session s) = actions s" by (simp add: scenario_session_changed_def actions_def conj_commute)
  qed (use that in \<open>simp_all add: scenario_session_changed_def same_user_def\<close>)
qed

lemma load_taken_quiet:
  assumes "quiet_ok steps s" "\<not> is_action p"
  shows "quiet_ok steps (sc_taken p s)"
  by (rule quiet_same [OF assms(1)])
    (use assms(2) in \<open>simp_all add: actions_def sc_taken_def filter_remove1 remove1_idem same_user_def\<close>)

lemma loaded_quiet:
  assumes "quiet_ok steps s" "\<forall>active sc. answer = Inr (active, sc) \<longrightarrow> (\<exists>x xs. sc_steps sc = Some (x # xs))"
  shows "quiet_ok steps (loadScenario_done session answer s)"
  by (rule quiet_same [OF assms(1)])
    (use assms(2) in \<open>auto simp: loadScenario_done_def actions_def same_user_def split: sum.split\<close>)

text \<open>An answer to the action that is under way.\<close>

lemma adopting_quiet:
  assumes "actions s = []" "served_ok steps s" "attempt_served steps a" "owner = sa_draftOwner s \<or> \<not> pr"
    and "sa_pending t = sa_pending s" "\<not> sa_busy t" "sa_attempt t = Some a"
      "sa_draftOwner t = sa_draftOwner (adoptAttempt e now x owner a pr s)" "sa_feedback t = sa_feedback s \<or> \<not> pr"
      "sa_scenario t = sa_scenario s" "sa_session t = sa_session s" "sa_storage t = sa_storage s"
  shows "quiet_ok steps t"
proof (rule quiet_idle)
  show "actions t = []" using assms(1,5) by (simp add: actions_def)
  have own: "at_currentStep a \<noteq> None \<Longrightarrow> attemptDraftOwner a = sa_draftOwner t"
    unfolding assms(8) using assms(4) by (intro adopt_owner [symmetric]) auto
  show "served_ok steps t"
    using assms(2,3,7,9-12) own unfolding served_ok_def editing_some by auto
qed (rule assms(6))

lemma started_quiet:
  assumes "quiet_ok steps s" "ScStart session \<in> set (sa_pending s)"
    and "\<forall>active a r. answer = Inr (active, a, r) \<longrightarrow> attempt_served steps a"
  shows "quiet_ok steps (startAttempt_done e now session answer (sc_taken (ScStart session) s))"
proof -
  let ?s = "sc_taken (ScStart session) s"
  note t = action_taken [OF assms(1,2), simplified]
  have sv: "served_ok steps ?s" using assms(1) unfolding quiet_iff served_ok_def by simp
  show ?thesis
  proof (cases answer)
    case (Inl x)
    show ?thesis using t(1) by (intro quiet_idle same_served [OF _ _ _ _ _ _ sv]) (simp_all add: startAttempt_done_def Inl actions_def)
  next
    case (Inr p)
    obtain active a r where p: "p = (active, a, r)" by (cases p)
    show ?thesis
      using assms(3) Inr p t(1) sv
      by (intro adopting_quiet [where s = "sa_adoptSession session active ?s" and owner = "[]" and pr = False and a = a
            and e = e and now = now and x = session])
        (auto simp: startAttempt_done_def actions_def elim!: same_served [rotated 6])
  qed
qed

lemma resync_quiet:
  assumes "quiet_ok steps s" "p \<in> set (sa_pending s)" "is_action p" "flight_in p = Some f" "cause \<noteq> OnRequest"
    and "t = resyncAttempt_begin f cause (sc_taken p s)"
  shows "quiet_ok steps t"
proof -
  note t = action_taken [OF assms(1-3)]
  have sv: "served_ok steps (sc_taken p s)" using assms(1) unfolding quiet_iff served_ok_def by simp
  show ?thesis
  proof (rule quiet_acting)
    show "actions t = [ScResync f cause]" using t(1) by (simp add: assms(6) resyncAttempt_begin_def sa_send_def actions_def)
    show "action_ok t (ScResync f cause)"
      using t(2) assms(4,5) by (simp add: assms(6) action_ok_def resyncAttempt_begin_def sa_send_def)
    show "sa_busy t" using t(3) by (simp add: assms(6) resyncAttempt_begin_def sa_send_def)
    show "sa_feedback t \<noteq> None \<Longrightarrow> sa_exitIntent t \<noteq> None"
      using assms(1) t(3) by (simp add: assms(6) resyncAttempt_begin_def sa_send_def quiet_iff)
    show "served_ok steps t" by (rule same_served [OF _ _ _ _ _ _ sv]) (simp_all add: assms(6) resyncAttempt_begin_def sa_send_def)
  qed
qed


lemma resumed_quiet:
  assumes "quiet_ok steps s" "ScResume f \<in> set (sa_pending s)" "\<forall>active a. answer = Inr (active, a) \<longrightarrow> attempt_served steps a"
  shows "quiet_ok steps (resumeAttempt_done e now f answer (sc_taken (ScResume f) s))"
proof -
  let ?s = "sc_taken (ScResume f) s"
  note t = action_taken [OF assms(1,2), simplified]
  have sv: "served_ok steps ?s" using assms(1) unfolding quiet_iff served_ok_def by simp
  have own: "sf_owner f = sa_draftOwner s" using t(2) by (simp add: action_ok_def)
  show ?thesis
  proof (cases answer)
    case (Inl x)
    show ?thesis
    proof (cases "has_http_status 409 x")
      case True
      then show ?thesis
        by (intro resync_quiet [OF assms(1,2), where f = f and cause = AfterResume]) (simp_all add: resumeAttempt_done_def Inl)
    next
      case False
      then show ?thesis using t(1)
        by (intro quiet_idle same_served [OF _ _ _ _ _ _ sv]) (simp_all add: resumeAttempt_done_def Inl actions_def)
    qed
  next
    case (Inr p)
    obtain active a where p: "p = (active, a)" by (cases p)
    show ?thesis
      using assms(3) Inr p t(1) sv own
      by (intro adopting_quiet [where s = "sa_adoptSession (sf_session f) active ?s" and owner = "sf_owner f" and pr = True and a = a
            and e = e and now = now and x = "sf_session f"])
        (auto simp: resumeAttempt_done_def actions_def elim!: same_served [rotated 6])
  qed
qed

lemma paused_quiet:
  assumes "quiet_ok steps s" "ScPause f b \<in> set (sa_pending s)" "\<forall>active a. answer = Inr (active, a) \<longrightarrow> attempt_served steps a"
  shows "quiet_ok steps (pauseAttempt_done e now f b answer (sc_taken (ScPause f b) s))"
proof -
  let ?s = "sc_taken (ScPause f b) s"
  note t = action_taken [OF assms(1,2), simplified]
  have sv: "served_ok steps ?s" using assms(1) unfolding quiet_iff served_ok_def by simp
  have own: "sf_owner f = sa_draftOwner s" using t(2) by (simp add: action_ok_def)
  show ?thesis
  proof (cases answer)
    case (Inl x)
    show ?thesis
    proof (cases "has_http_status 409 x")
      case True
      then show ?thesis
        by (intro resync_quiet [OF assms(1,2), where f = f and cause = AfterPause]) (simp_all add: pauseAttempt_done_def Inl)
    next
      case False
      then show ?thesis using t(1)
        by (intro quiet_idle same_served [OF _ _ _ _ _ _ sv]) (simp_all add: pauseAttempt_done_def Inl actions_def)
    qed
  next
    case (Inr p)
    obtain active a where p: "p = (active, a)" by (cases p)
    show ?thesis
      using assms(3) Inr p t(1) sv own
      by (intro adopting_quiet [where s = "sa_adoptSession (sf_session f) active ?s" and owner = "sf_owner f" and pr = True and a = a
            and e = e and now = now and x = "sf_session f"])
        (auto simp: pauseAttempt_done_def actions_def Let_def leave_by_replace_def elim!: same_served [rotated 6])
  qed
qed

lemma synced_quiet:
  assumes "quiet_ok steps s" "ScResync f c \<in> set (sa_pending s)" "\<forall>active a. answer = Inr (active, a) \<longrightarrow> attempt_served steps a"
  shows "quiet_ok steps (resyncAttempt_done e now f c answer (sc_taken (ScResync f c) s))"
proof -
  let ?s = "sc_taken (ScResync f c) s"
  note t = action_taken [OF assms(1,2), simplified]
  have sv: "served_ok steps ?s" using assms(1) unfolding quiet_iff served_ok_def by simp
  have own: "sf_owner f = sa_draftOwner s" "c \<noteq> OnRequest" using t(2) by (simp_all add: action_ok_def)
  show ?thesis
  proof (cases answer)
    case (Inl x)
    show ?thesis using t(1) own(2)
      by (cases c) (auto intro!: quiet_idle same_served [OF _ _ _ _ _ _ sv] simp: resyncAttempt_done_def Inl actions_def)
  next
    case (Inr p)
    obtain active a where p: "p = (active, a)" by (cases p)
    show ?thesis
      using assms(3) Inr p t(1) sv own
      by (intro adopting_quiet [where s = "sa_adoptSession (sf_session f) active ?s" and owner = "sf_owner f" and pr = True and a = a
            and e = e and now = now and x = "sf_session f"]; cases c)
        (auto simp: resyncAttempt_done_def actions_def elim!: same_served [rotated 6])
  qed
qed

lemma submitted_quiet:
  assumes "quiet_ok steps s" "ScSubmit f step \<in> set (sa_pending s)"
    and "\<forall>active r. answer = Inr (active, r) \<longrightarrow> attempt_served steps (sr_attempt r)"
  shows "quiet_ok steps (submitStep_done f step answer (sc_taken (ScSubmit f step) s))"
proof -
  let ?s = "sc_taken (ScSubmit f step) s"
  note t = action_taken [OF assms(1,2), simplified]
  have sv: "served_ok steps ?s" using assms(1) unfolding quiet_iff served_ok_def by simp
  show ?thesis
  proof (cases answer)
    case (Inl x)
    show ?thesis
    proof (cases "has_http_status 409 x")
      case True
      then show ?thesis
        by (intro resync_quiet [OF assms(1,2), where f = f and cause = AfterSubmit]) (simp_all add: submitStep_done_def Inl)
    next
      case False
      then show ?thesis using t(1)
        by (intro quiet_idle same_served [OF _ _ _ _ _ _ sv]) (simp_all add: submitStep_done_def Inl actions_def submit_failed_def)
    qed
  next
    case (Inr p)
    obtain active r where p: "p = (active, r)" by (cases p)
    have "served_ok steps (submitStep_done f step answer ?s)"
      using sv assms(3) Inr p unfolding served_ok_def editing_some by (simp add: submitStep_done_def)
    then show ?thesis using t(1) by (intro quiet_idle) (simp_all add: submitStep_done_def Inr p actions_def)
  qed
qed


section \<open>Drafts stay stored\<close>

lemma same_stored:
  "draft_stored e s \<Longrightarrow> draft_deps t = draft_deps s \<Longrightarrow> sa_storage t = sa_storage s \<Longrightarrow> draft_stored e t"
  unfolding draft_stored_def editing_some by (simp add: draft_deps_def)

lemma written_stored:
  assumes "served_ok steps s" "stamp_ok e stamp" "draft_deps t = draft_deps s" "sa_attempt s = Some a"
    and "sa_storage t = safeWriteDraft stamp (sa_session s) a (sa_draft s) (sa_storage s)"
  shows "draft_stored e t"
  using assms read_write [of "sa_storage s" "sa_session s" steps a "sa_draft s" e stamp]
  unfolding draft_stored_def editing_some served_ok_def by (auto simp: draft_deps_def)

lemma pause_stored:
  assumes "served_ok steps s" "stamp_ok e stamp" "draft_stored e s"
  shows "draft_stored e (pauseAttempt stamp b s)"
proof (cases "sa_attempt s")
  case None
  then show ?thesis using assms(3) by (simp add: pauseAttempt_def)
next
  case (Some a)
  show ?thesis
  proof (cases "at_currentStep a")
    case None
    then show ?thesis using Some unfolding draft_stored_def editing_some
      by (auto simp: pauseAttempt_def Let_def sa_send_def leave_by_replace_def)
  next
    case step: (Some step)
    show ?thesis
      by (rule written_stored [OF assms(1,2) _ Some])
        (simp_all add: pauseAttempt_def Some step Let_def sa_send_def leave_by_replace_def draft_deps_def)
  qed
qed

lemma submit_stored:
  assumes "served_ok steps s" "stamp_ok e stamp" "draft_stored e s"
  shows "draft_stored e (submitStep e stamp i s)"
proof (cases "Option.bind (sa_attempt s) at_currentStep")
  case None
  then show ?thesis using assms(3) by (simp add: submitStep_def split: option.split)
next
  case (Some step)
  then obtain a where a: "sa_attempt s = Some a" "at_currentStep a = Some step" by (cases "sa_attempt s") auto
  show ?thesis
  proof (cases "validationMessage e s = [] \<and> (\<exists>ident. resolveScenarioSubmissionIdentity (se_lower e) (sa_submissionIdentity s) (sa_draft s) i = Inr ident)")
    case False
    then have "submitStep e stamp i s = s" using a by (auto simp: submitStep_def split: sum.split)
    then show ?thesis using assms(3) by simp
  next
    case True
    then obtain ident where v: "validationMessage e s = []"
        "resolveScenarioSubmissionIdentity (se_lower e) (sa_submissionIdentity s) (sa_draft s) i = Inr ident" by blast
    show ?thesis
      by (rule written_stored [OF assms(1,2) _ a(1)])
        (simp_all add: submitStep_def a v Let_def sa_send_def submit_failed_def draft_deps_def split: sum.split)
  qed
qed

lemma submitted_stored:
  "draft_stored e s \<Longrightarrow> draft_stored e (submitStep_done f step answer (sc_taken p s))"
proof (cases answer)
  case (Inr q)
  then show ?thesis unfolding draft_stored_def editing_some by (cases q) (simp add: submitStep_done_def)
next
  case (Inl x)
  assume "draft_stored e s"
  then show ?thesis
    by (rule same_stored) (simp_all add: submitStep_done_def Inl resyncAttempt_begin_def sa_send_def submit_failed_def draft_deps_def)
qed

lemma answer_storage [simp]:
  "sa_storage (startAttempt_done e now x a1 s) = sa_storage s" "sa_storage (resumeAttempt_done e now f a2 s) = sa_storage s"
  "sa_storage (pauseAttempt_done e now f b a2 s) = sa_storage s" "sa_storage (resyncAttempt_done e now f c a2 s) = sa_storage s"
  "sa_storage (loadScenario_done x a3 s) = sa_storage s"
  by (cases c; auto simp: startAttempt_done_def resumeAttempt_done_def pauseAttempt_done_def resyncAttempt_done_def loadScenario_done_def
      resyncAttempt_begin_def sa_send_def leave_by_replace_def Let_def split: sum.split)+

lemma begin_storage [simp]:
  "sa_storage (startAttempt s) = sa_storage s" "sa_storage (resumeAttempt s) = sa_storage s" "sa_storage (edit_field fld v s) = sa_storage s"
  "sa_storage (continueAfterFeedback e now s) = sa_storage s" "sa_storage (close_scenario s) = sa_storage s"
  "sa_storage (keep_working s) = sa_storage s" "sa_storage (browser_back s) = sa_storage s" "sa_storage (loadScenario_begin s) = sa_storage s"
  "sa_storage (resyncAttempt_begin f c s) = sa_storage s" "sa_storage (scenario_session_changed x s) = sa_storage s"
  by (cases fld; simp add: startAttempt_def resumeAttempt_def continueAfterFeedback_def close_scenario_def leaveCompleted_def keep_working_def
      browser_back_def loadScenario_begin_def resyncAttempt_begin_def scenario_session_changed_def sa_send_def split: option.split)+

lemma committed:
  assumes "quiet_ok steps (f s)" "stamp_ok e stamp" "draft_stored e s"
    and "draft_deps (f s) = draft_deps s \<Longrightarrow> draft_stored e s \<Longrightarrow> draft_stored e (f s)"
  shows "quiet_ok steps (commit stamp f s) \<and> draft_stored e (commit stamp f s)"
  using commit_quiet [of steps f s stamp, OF assms(1)] commit_stored [of steps f s e stamp, OF assms(1,2)] assms(3,4) by blast

lemma sc_step_ok:
  assumes "sc_step steps e s s'" "quiet_ok steps s" "draft_stored e s"
  shows "quiet_ok steps s' \<and> draft_stored e s'"
proof -
  have sv: "served_ok steps s" using assms(2) by (simp add: quiet_iff)
  from assms(1) show ?thesis
  proof cases
    case (s_edit msg stamp fld v)
    then have "\<not> sa_busy s" by (simp add: at_work_def)
    from edit_quiet [OF assms(2) this] show ?thesis
      unfolding s_edit(1) by (intro committed s_edit assms(3)) (auto intro: same_stored)
  next
    case (s_start sc stamp)
    from start_quiet [OF assms(2) s_start(3) other_screens(1) [OF s_start(2)]] show ?thesis
      unfolding s_start(1) by (intro committed s_start assms(3)) (auto intro: same_stored)
  next
    case (s_submit stamp i)
    from s_submit(2) have "\<not> sa_busy s" "sa_feedback s = None" by (auto simp: at_work_def dest!: work_screen)
    from submit_quiet [OF assms(2) this] show ?thesis
      unfolding s_submit(1) by (intro committed s_submit assms(3)) (auto intro: submit_stored [OF sv s_submit(3)])
  next
    case (s_save msg stamp)
    from s_save(2) have "\<not> sa_busy s" "sa_feedback s = None" by (auto simp: at_work_def dest!: work_screen)
    with pause_quiet [OF assms(2)] show ?thesis
      unfolding s_save(1) by (intro committed s_save assms(3)) (auto intro: pause_stored [OF sv s_save(3)])
  next
    case (s_resume step d stamp)
    from other_screens(2) [OF s_resume(2)] obtain a where a: "sa_attempt s = Some a" "sa_feedback s = None" by blast
    from resume_quiet [OF assms(2) s_resume(3) a] show ?thesis
      unfolding s_resume(1) by (intro committed s_resume assms(3)) (auto intro: same_stored)
  next
    case (s_continue step d found stamp now)
    from other_screens(3) [OF s_continue(2)] have "sa_feedback s \<noteq> None" by auto
    from continue_quiet [OF assms(2) this s_continue(3)] show ?thesis
      unfolding s_continue(1) by (intro committed s_continue assms(3)) (auto intro: same_stored)
  next
    case (s_close stamp)
    show ?thesis unfolding s_close(1) by (intro committed small_quiet s_close assms(2,3)) (auto intro: same_stored)
  next
    case (s_keep stamp)
    show ?thesis unfolding s_keep(1) by (intro committed small_quiet s_keep assms(2,3)) (auto intro: same_stored)
  next
    case (s_leave stamp)
    from pause_quiet [OF assms(2) s_leave(4)] s_leave(3) show ?thesis
      unfolding s_leave(1) by (intro committed s_leave assms(3)) (auto intro: pause_stored [OF sv s_leave(5)])
  next
    case (s_back stamp)
    show ?thesis unfolding s_back(1) by (intro committed small_quiet s_back assms(2,3)) (auto intro: same_stored)
  next
    case (s_retry p stamp)
    show ?thesis unfolding s_retry(1) by (intro committed small_quiet s_retry assms(2,3)) (auto intro: same_stored)
  next
    case (s_sync a stamp)
    then show ?thesis using step_never_missing [OF sv] by blast
  next
    case (s_session session stamp)
    show ?thesis unfolding s_session(1) by (intro committed small_quiet s_session assms(2,3)) (auto intro: same_stored)
  next
    case (s_timer stamp)
    have "quiet_ok steps (sc_taken ScLoadTimer s)" by (rule load_taken_quiet [OF assms(2)]) simp
    from small_quiet(4) [OF this] show ?thesis
      unfolding s_timer(1) by (intro committed s_timer assms(3)) (auto intro: same_stored)
  next
    case (s_loaded session stamp answer)
    have "quiet_ok steps (sc_taken (ScLoad session) s)" by (rule load_taken_quiet [OF assms(2)]) simp
    from loaded_quiet [OF this s_loaded(4)] show ?thesis
      unfolding s_loaded(1) by (intro committed s_loaded assms(3)) (auto intro: same_stored)
  next
    case (s_started session stamp answer now)
    from started_quiet [OF assms(2) s_started(2,4)] show ?thesis
      unfolding s_started(1) by (intro committed s_started assms(3)) (auto intro: same_stored)
  next
    case (s_resumed f stamp answer now)
    from resumed_quiet [OF assms(2) s_resumed(2,4)] show ?thesis
      unfolding s_resumed(1) by (intro committed s_resumed assms(3)) (auto intro: same_stored)
  next
    case (s_paused f b stamp answer now)
    from paused_quiet [OF assms(2) s_paused(2,4)] show ?thesis
      unfolding s_paused(1) by (intro committed s_paused assms(3)) (auto intro: same_stored)
  next
    case (s_synced f c stamp answer now)
    from synced_quiet [OF assms(2) s_synced(2,4)] show ?thesis
      unfolding s_synced(1) by (intro committed s_synced assms(3)) (auto intro: same_stored)
  next
    case (s_submitted f step stamp answer)
    from submitted_quiet [OF assms(2) s_submitted(2,4)] show ?thesis
      unfolding s_submitted(1) by (intro committed s_submitted assms(3)) (auto intro: submitted_stored)
  qed
qed

lemma sc_visit_ok: "sc_visit steps e s \<Longrightarrow> quiet_ok steps s \<and> draft_stored e s"
proof (induction rule: sc_visit.induct)
  case (sc_start session st pathname)
  then show ?case by (simp add: quiet_ok_def draft_stored_def fresh_scenario_app_def actions_def editing_def)
next
  case (sc_more s s')
  then show ?case using sc_step_ok by blast
qed

text \<open>C6: What is typed survives a reload: at any moment of a visit, however the answers come, the text of the step that
  is edited is what a new visit of the same attempt starts with, when the browser lets the page use its storage.\<close>

theorem draft_survives_reload:
  assumes "sc_visit steps e s" "sa_attempt s = Some a" "at_currentStep a \<noteq> None" "sa_feedback s = None" "fields_ok (sa_draft s)"
    and "same_user session (sa_session s)"
  shows "sa_draft (startAttempt_done e now session (Inr (active, a, True)) (fresh_scenario_app pathname session (sa_storage s))) = sa_draft s"
proof -
  have "editing s = Some a" using assms(2-4) by (simp add: editing_some)
  then have "safeReadDraft (se_parse_date e) (sa_session s) a (sa_storage s) = sa_draft s"
    using sc_visit_ok [OF assms(1)] assms(5) by (simp add: draft_stored_def)
  then show ?thesis
    using assms(3) read_user [OF assms(6)]
    by (cases "at_currentStep a") (simp_all add: startAttempt_done_def adoptAttempt_def Let_def sa_adoptSession_def fresh_scenario_app_def)
qed


section \<open>Submission identifiers\<close>

text \<open>The request is the answer \<open>d\<close> with that fingerprint to the step of that owner.\<close>

definition names_answer ::
  "(jstr \<Rightarrow> jnum \<Rightarrow> ScenarioStep) \<Rightarrow> scenario_env \<Rightarrow> jstr \<Rightarrow> jval \<Rightarrow> jstr \<Rightarrow> jstr \<times> jstr \<Rightarrow> bool" where
  "names_answer steps e path body i mark \<longleftrightarrow>
     (\<exists>a step d r. attempt_served steps a \<and> at_currentStep a = Some step \<and> path = submit_path a step \<and> fields_ok d
        \<and> buildSubmitScenarioStepRequest (se_lower e) (at_version a) i d (st_requiresFactHypothesis step) (se_offset e) = Inr r
        \<and> body = submit_json r \<and> mark = (attemptDraftOwner a, scenarioSubmissionFingerprint (se_lower e) d))"

definition ids_ok :: "(jstr \<Rightarrow> jnum \<Rightarrow> ScenarioStep) \<Rightarrow> scenario_env \<Rightarrow> scenario_app \<Rightarrow> bool" where
  "ids_ok steps e s \<longleftrightarrow> (\<exists>marks.
     (\<forall>path body i. (path, Some body) \<in> set (sa_requests s) \<and> jget body ''submissionId'' = JStr i \<longrightarrow> names_answer steps e path body i (marks i))
     \<and> (\<forall>k. sa_submissionIdentity s = Some k \<longrightarrow> marks (si_submissionId k) = (sa_draftOwner s, si_fingerprint k)))"

text \<open>A handler that neither submits nor takes the identity to another draft.\<close>

definition ids_same :: "scenario_app \<Rightarrow> scenario_app \<Rightarrow> bool" where
  "ids_same s t \<longleftrightarrow>
     (\<forall>path body i. (path, Some body) \<in> set (sa_requests t) \<and> jget body ''submissionId'' = JStr i \<longrightarrow> (path, Some body) \<in> set (sa_requests s))
     \<and> (sa_submissionIdentity t = None \<or> sa_submissionIdentity t = sa_submissionIdentity s \<and> sa_draftOwner t = sa_draftOwner s)"

lemma ids_refl: "ids_same s s"
  by (simp add: ids_same_def)

lemma ids_same_ok: "ids_ok steps e s \<Longrightarrow> ids_same s t \<Longrightarrow> ids_ok steps e t"
  unfolding ids_ok_def ids_same_def by (metis option.distinct(1))

lemma ids_commit: "ids_same s (f s) \<Longrightarrow> ids_same s (commit stamp f s)"
  using commit_form [of stamp f s] by (auto simp: ids_same_def)

lemma version_body_no_id [simp]: "jget (version_body a) ''submissionId'' = JUndef"
  by (simp add: version_body_def)

lemma adopt_same: "ids_same s t \<Longrightarrow> sa_draftOwner t' = sa_draftOwner (adoptAttempt e now x owner a pr t) \<Longrightarrow>
    sa_submissionIdentity t' = sa_submissionIdentity (adoptAttempt e now x owner a pr t) \<Longrightarrow> sa_requests t' = sa_requests t \<Longrightarrow> ids_same s t'"
  by (auto simp: ids_same_def adoptAttempt_def Let_def split: if_splits)

lemma taken_same: "ids_same s (sc_taken p s)"
  by (simp add: ids_same_def)

lemma begins_same:
  "ids_same s (startAttempt s)" "ids_same s (resumeAttempt s)" "ids_same s (edit_field fld v s)" "ids_same s (pauseAttempt stamp b s)"
  "ids_same s (close_scenario s)" "ids_same s (keep_working s)" "ids_same s (browser_back s)"
  "ids_same s (scenario_session_changed x s)"
  by (cases fld; auto simp: ids_same_def startAttempt_def resumeAttempt_def pauseAttempt_def close_scenario_def leaveCompleted_def keep_working_def
      browser_back_def scenario_session_changed_def sa_send_def leave_by_replace_def Let_def split: option.split)+

lemma later_same:
  "ids_same s t \<Longrightarrow> ids_same s (loadScenario_begin t)" "ids_same s t \<Longrightarrow> ids_same s (resyncAttempt_begin f c t)"
  "ids_same s t \<Longrightarrow> ids_same s (loadScenario_done x a3 t)" "ids_same s t \<Longrightarrow> ids_same s (submitStep_done f step a4 t)"
  by (auto simp: ids_same_def loadScenario_begin_def resyncAttempt_begin_def sa_send_def loadScenario_done_def submitStep_done_def submit_failed_def
      split: option.split sum.split)

lemma adopting_same:
  assumes "ids_same s t"
  shows "ids_same s (startAttempt_done e now x a1 t)" "ids_same s (resumeAttempt_done e now f a2 t)"
    "ids_same s (pauseAttempt_done e now f b a2 t)" "ids_same s (resyncAttempt_done e now f c a2 t)"
proof -
  have keep: "ids_same s t'" if "sa_requests t' = sa_requests t" "sa_submissionIdentity t' = sa_submissionIdentity t" "sa_draftOwner t' = sa_draftOwner t" for t'
    using assms that by (simp add: ids_same_def)
  have ad: "ids_same s (sa_adoptSession c x t)" for c x by (rule keep) simp_all
  have sync: "ids_same s (resyncAttempt_begin f c t)" for f c using assms by (rule later_same)
  show "ids_same s (startAttempt_done e now x a1 t)"
  proof (cases a1)
    case (Inr p)
    obtain active a r where "p = (active, a, r)" by (cases p)
    then show ?thesis using Inr
      by (intro adopt_same [where t = "sa_adoptSession x active t", OF ad, where e = e and now = now and x = x and owner = "[]" and a = a and pr = False])
        (simp_all add: startAttempt_done_def)
  qed (auto simp: startAttempt_done_def intro!: keep)
  show "ids_same s (resumeAttempt_done e now f a2 t)"
  proof (cases a2)
    case (Inr p)
    obtain active a where "p = (active, a)" by (cases p)
    then show ?thesis using Inr
      by (intro adopt_same [where t = "sa_adoptSession (sf_session f) active t", OF ad, where e = e and now = now and x = "sf_session f"
            and owner = "sf_owner f" and a = a and pr = True])
        (simp_all add: resumeAttempt_done_def)
  qed (auto simp: resumeAttempt_done_def intro!: keep sync)
  show "ids_same s (pauseAttempt_done e now f b a2 t)"
  proof (cases a2)
    case (Inr p)
    obtain active a where "p = (active, a)" by (cases p)
    then show ?thesis using Inr
      by (intro adopt_same [where t = "sa_adoptSession (sf_session f) active t", OF ad, where e = e and now = now and x = "sf_session f"
            and owner = "sf_owner f" and a = a and pr = True])
        (simp_all add: pauseAttempt_done_def Let_def leave_by_replace_def)
  qed (auto simp: pauseAttempt_done_def intro!: keep sync)
  show "ids_same s (resyncAttempt_done e now f c a2 t)"
  proof (cases a2)
    case (Inr p)
    obtain active a where "p = (active, a)" by (cases p)
    then show ?thesis using Inr
      by (intro adopt_same [where t = "sa_adoptSession (sf_session f) active t", OF ad, where e = e and now = now and x = "sf_session f"
            and owner = "sf_owner f" and a = a and pr = True]; cases c)
        (simp_all add: resyncAttempt_done_def)
  next
    case (Inl x)
    then show ?thesis by (cases c) (auto simp: resyncAttempt_done_def intro!: keep)
  qed
qed

lemma continue_same: "ids_same s (continueAfterFeedback e now s)"
proof (cases "sa_attempt s")
  case None
  then show ?thesis by (simp add: continueAfterFeedback_def ids_same_def)
next
  case (Some a)
  show ?thesis
    by (rule adopt_same [where t = s and e = e and now = now and x = "sa_session s" and owner = "sa_draftOwner s" and a = a and pr = False])
      (simp_all add: continueAfterFeedback_def Some ids_same_def)
qed


lemma resolved_identity:
  assumes "resolveScenarioSubmissionIdentity lower k d i = Inr ident"
  shows "si_fingerprint ident = scenarioSubmissionFingerprint lower d \<and> (k = Some ident \<or> si_submissionId ident = i)"
  using assms by (cases k) (auto simp: resolveScenarioSubmissionIdentity_def Let_def split: if_splits)

lemma built_id: "buildSubmitScenarioStepRequest lower n i d b t = Inr r \<Longrightarrow> jget (submit_json r) ''submissionId'' = JStr i"
  by (auto simp: buildSubmitScenarioStepRequest_def Let_def submit_json_def split: if_splits)

lemma submit_ids:
  assumes ok: "ids_ok steps e s" "served_ok steps s" and fresh: "JStr i \<notin> submission_ids s"
    and d: "fields_ok (sa_draft s)" "sa_feedback s = None"
  shows "ids_ok steps e (submitStep e stamp i s)"
proof (cases "\<exists>a step ident. sa_attempt s = Some a \<and> at_currentStep a = Some step \<and> validationMessage e s = []
    \<and> resolveScenarioSubmissionIdentity (se_lower e) (sa_submissionIdentity s) (sa_draft s) i = Inr ident")
  case False
  then have "submitStep e stamp i s = s"
    by (cases "sa_attempt s") (auto simp: submitStep_def split: option.split sum.split)
  then show ?thesis using ok(1) by simp
next
  case True
  then obtain a step ident where a: "sa_attempt s = Some a" "at_currentStep a = Some step" "validationMessage e s = []"
    "resolveScenarioSubmissionIdentity (se_lower e) (sa_submissionIdentity s) (sa_draft s) i = Inr ident" by blast
  note id = resolved_identity [OF a(4)]
  let ?t = "submitStep e stamp i s" and ?j = "si_submissionId ident"
  let ?mark = "(sa_draftOwner s, si_fingerprint ident)"
  have own: "attemptDraftOwner a = sa_draftOwner s" "attempt_served steps a" using ok(2) a d(2) by (auto simp: served_ok_def editing_some)
  from ok(1) obtain marks where m: "\<And>path body i. (path, Some body) \<in> set (sa_requests s) \<Longrightarrow> jget body ''submissionId'' = JStr i \<Longrightarrow> names_answer steps e path body i (marks i)"
    "\<And>k. sa_submissionIdentity s = Some k \<Longrightarrow> marks (si_submissionId k) = (sa_draftOwner s, si_fingerprint k)"
    unfolding ids_ok_def by blast
  have marked: "marks ?j = ?mark" if "(path, Some body) \<in> set (sa_requests s)" "jget body ''submissionId'' = JStr ?j" for path body
  proof (cases "sa_submissionIdentity s = Some ident")
    case True
    then show ?thesis by (rule m(2))
  next
    case False
    then show ?thesis using id fresh that by (auto simp: submission_ids_def)
  qed
  have st: "sa_submissionIdentity ?t = Some ident" "sa_draftOwner ?t = sa_draftOwner s"
    by (auto simp: submitStep_def a Let_def sa_send_def submit_failed_def split: sum.split)
  have rq: "(path, Some body) \<in> set (sa_requests s) \<or> jget body ''submissionId'' = JStr ?j \<and> names_answer steps e path body ?j ?mark"
    if "(path, Some body) \<in> set (sa_requests ?t)" for path body
  proof (cases "buildSubmitScenarioStepRequest (se_lower e) (at_version a) ?j (sa_draft s) (st_requiresFactHypothesis step) (se_offset e)")
    case (Inl x)
    then show ?thesis using that by (simp add: submitStep_def a Let_def submit_failed_def)
  next
    case (Inr r)
    have "sa_requests ?t = sa_requests s @ [(submit_path a step, Some (submit_json r))]"
      by (simp add: submitStep_def a Inr Let_def sa_send_def)
    then show ?thesis using that built_id [OF Inr] own a d(1) Inr id
      by (auto simp: names_answer_def intro!: exI [of _ a] exI [of _ step] exI [of _ "sa_draft s"] exI [of _ r])
  qed
  show ?thesis
    unfolding ids_ok_def
  proof (intro exI [of _ "marks(?j := ?mark)"] conjI allI impI)
    fix path body k assume "(path, Some body) \<in> set (sa_requests ?t) \<and> jget body ''submissionId'' = JStr k"
    then have r: "(path, Some body) \<in> set (sa_requests ?t)" "jget body ''submissionId'' = JStr k" by simp_all
    show "names_answer steps e path body k ((marks(?j := ?mark)) k)"
    proof (cases "(path, Some body) \<in> set (sa_requests s)")
      case True
      then show ?thesis using m(1) [OF True r(2)] marked r(2) by auto
    next
      case False
      then show ?thesis using rq [OF r(1)] r(2) by auto
    qed
  next
    fix k assume "sa_submissionIdentity ?t = Some k"
    then show "(marks(?j := ?mark)) (si_submissionId k) = (sa_draftOwner ?t, si_fingerprint k)" using st by simp
  qed
qed

lemma sc_step_ids:
  assumes "sc_step steps e s s'" "quiet_ok steps s" "ids_ok steps e s"
  shows "ids_ok steps e s'"
proof -
  have sv: "served_ok steps s" using assms(2) by (simp add: quiet_iff)
  have eff: "ids_ok steps e (commit stamp f s)" if "ids_ok steps e (f s)" for f stamp
  proof -
    have "ids_same (f s) (commit stamp f s)" using commit_form [of stamp f s] by (auto simp: ids_same_def)
    then show ?thesis using that by (rule ids_same_ok [rotated])
  qed
  have keep: "ids_ok steps e (commit stamp f s)" if "ids_same s (f s)" for f stamp
    using ids_same_ok [OF assms(3) that] by (rule eff)
  from assms(1) show ?thesis
  proof cases
    case (s_submit stamp i)
    from s_submit(2) have "sa_feedback s = None" by (auto simp: at_work_def dest!: work_screen)
    from submit_ids [OF assms(3) sv s_submit(4,5) this] show ?thesis unfolding s_submit(1) by (rule eff)
  qed (auto intro!: keep begins_same later_same adopting_same continue_same taken_same ids_refl)
qed

lemma sc_visit_ids: "sc_visit steps e s \<Longrightarrow> ids_ok steps e s"
proof (induction rule: sc_visit.induct)
  case (sc_start session st pathname)
  then show ?case by (simp add: ids_ok_def fresh_scenario_app_def)
next
  case (sc_more s s')
  then show ?case using sc_step_ids sc_visit_ok by blast
qed

lemma same_mark_same_step:
  assumes "attempt_served steps a" "attempt_served steps b" "at_currentStep a = Some x" "at_currentStep b = Some y"
    and "attemptDraftOwner a = attemptDraftOwner b"
  shows "at_id a = at_id b \<and> x = y"
proof -
  obtain m n where mn: "at_currentPosition a = jnat m" "at_currentPosition b = jnat n" using assms(1,2) by (auto simp: attempt_served_def)
  have "at_id a @ 58 # nat_str m = at_id b @ 58 # nat_str n" using assms(3-5) mn by (simp add: attemptDraftOwner_def)
  then have "at_id a = at_id b \<and> nat_str m = nat_str n" using num_str_no_colon num_str_nat by (subst (asm) append_sep_unique) auto
  then show ?thesis using assms(1-4) mn by (auto simp: attempt_served_def)
qed

text \<open>C7: A submission identifier stands for one answer to one step: two submissions of a visit that carry the same
  identifier go to the same step of the same attempt and have the same normalised text, facts and hypotheses, so that the
  server may answer a repeated one from its record; only the version of the attempt may differ.\<close>

theorem submission_id_names_one_answer:
  assumes "sc_visit steps e s" "(path, Some body) \<in> set (sa_requests s)" "(path', Some body') \<in> set (sa_requests s)"
    and "jget body ''submissionId'' = JStr i" "jget body' ''submissionId'' = JStr i"
  shows "path = path' \<and> (\<forall>key \<in> {''response'', ''facts'', ''hypotheses'', ''review''}. jget body key = jget body' key)"
proof -
  obtain marks where m: "names_answer steps e path body i (marks i)" "names_answer steps e path' body' i (marks i)"
    using sc_visit_ids [OF assms(1)] assms(2-5) unfolding ids_ok_def by blast
  obtain a x d r where a: "attempt_served steps a" "at_currentStep a = Some x" "path = submit_path a x" "fields_ok d" "body = submit_json r"
    "buildSubmitScenarioStepRequest (se_lower e) (at_version a) i d (st_requiresFactHypothesis x) (se_offset e) = Inr r"
    "marks i = (attemptDraftOwner a, scenarioSubmissionFingerprint (se_lower e) d)" using m(1) unfolding names_answer_def by blast
  obtain b y g q where b: "attempt_served steps b" "at_currentStep b = Some y" "path' = submit_path b y" "fields_ok g" "body' = submit_json q"
    "buildSubmitScenarioStepRequest (se_lower e) (at_version b) i g (st_requiresFactHypothesis y) (se_offset e) = Inr q"
    "marks i = (attemptDraftOwner b, scenarioSubmissionFingerprint (se_lower e) g)" using m(2) unfolding names_answer_def by blast
  have s: "at_id a = at_id b \<and> x = y" using a b by (intro same_mark_same_step) auto
  have n: "normalizeScenarioResponse (df_response d) = normalizeScenarioResponse (df_response g)"
    "normalizeScenarioList (se_lower e) (df_facts d) = normalizeScenarioList (se_lower e) (df_facts g)"
    "normalizeScenarioList (se_lower e) (df_hypotheses d) = normalizeScenarioList (se_lower e) (df_hypotheses g)"
    using fingerprint_inject [OF a(4) b(4), of "se_lower e"] a(7) b(7) by simp_all
  have rq: "sq_response r = sq_response q" "sq_facts r = sq_facts q" "sq_hypotheses r = sq_hypotheses q"
    "sq_timezoneOffsetMinutes r = sq_timezoneOffsetMinutes q"
    using a(6) b(6) n s by (auto simp: buildSubmitScenarioStepRequest_def Let_def split: if_splits)
  then show ?thesis using s unfolding a(3,5) b(3,5)
    by (auto simp: submit_path_def submit_json_def split: option.split)
qed

text \<open>C8: When an answer was accepted and its feedback is left by the dialog that offers to save the draft, the text of
  the accepted answer is stored as the draft of the next step and is what a new visit of the attempt starts that step with.\<close>

theorem accepted_answer_becomes_next_draft:
  fixes s :: scenario_app and f :: scenario_flight and r :: SubmitScenarioStepResponse and active :: Session and stamp :: jstr
  assumes "sc_visit steps e s" "ScSubmit f step \<in> set (sa_pending s)" "at_status (sr_attempt r) = ActiveAttempt"
    and "attempt_served steps (sr_attempt r)" "fields_ok (sf_draft f)" "stamp_ok e stamp" "same_user session (sa_session s)"
  defines "accepted \<equiv> commit stamp (submitStep_done f step (Inr (active, r)) \<circ> sc_taken (ScSubmit f step)) s"
  defines "left \<equiv> commit stamp (pauseAttempt stamp True) (commit stamp close_scenario accepted)"
  shows "sa_draft (startAttempt_done e now session (Inr (active, sr_attempt r, True)) (fresh_scenario_app pathname session (sa_storage left)))
    = fb_fields (the (sa_feedback accepted))"
proof -
  have q: "quiet_ok steps s" using sc_visit_ok [OF assms(1)] by simp
  have ok: "action_ok s (ScSubmit f step)" by (rule action_taken [OF q assms(2)]) simp
  have dr: "sf_draft f = sa_draft s" using ok by (simp add: action_ok_def)
  have sv: "served_ok steps s" using q by (simp add: quiet_iff)
  obtain x where x: "at_currentStep (sr_attempt r) = Some x" using assms(3,4) by (auto simp: attempt_served_def)
  have "editing ((submitStep_done f step (Inr (active, r)) \<circ> sc_taken (ScSubmit f step)) s) = None"
    by (simp add: editing_none submitStep_done_def)
  from commit_no_edit [of "submitStep_done f step (Inr (active, r)) \<circ> sc_taken (ScSubmit f step)" s stamp, OF this]
  obtain g h where A: "accepted = (submitStep_done f step (Inr (active, r)) (sc_taken (ScSubmit f step) s))\<lparr>sa_guard := g, sa_history := h\<rparr>"
    unfolding accepted_def comp_def by blast
  have fa: "sa_attempt accepted = Some (sr_attempt r)" "sa_feedback accepted = Some \<lparr>fb_step = step, fb_fields = sf_draft f, fb_result = r\<rparr>"
    "sa_draft accepted = sf_draft f" "sa_session accepted = sa_session s" "writable (sa_storage accepted)"
    using dr sv by (simp_all add: A submitStep_done_def served_ok_def)
  have "editing (close_scenario accepted) = None" using fa assms(3) by (simp add: editing_none close_scenario_def)
  from commit_no_edit [of close_scenario accepted stamp, OF this] obtain g2 h2 where
    C: "commit stamp close_scenario accepted = (close_scenario accepted)\<lparr>sa_guard := g2, sa_history := h2\<rparr>" by blast
  define c where "c = commit stamp close_scenario accepted"
  have fc: "sa_attempt c = Some (sr_attempt r)" "sa_feedback c \<noteq> None" "sa_draft c = sf_draft f" "sa_session c = sa_session s" "writable (sa_storage c)"
    using fa assms(3) by (simp_all add: c_def C close_scenario_def)
  have "editing (pauseAttempt stamp True c) = None"
    using fc(1,2) assms(3) by (simp add: editing_none pauseAttempt_def Let_def sa_send_def)
  from commit_no_edit [of "pauseAttempt stamp True" c stamp, OF this] obtain g3 h3 where
    L: "left = (pauseAttempt stamp True c)\<lparr>sa_guard := g3, sa_history := h3\<rparr>" unfolding left_def c_def by blast
  have "sa_storage left = safeWriteDraft stamp (sa_session s) (sr_attempt r) (sf_draft f) (sa_storage c)"
    using fc assms(3) x by (simp add: L pauseAttempt_def Let_def sa_send_def)
  then have "safeReadDraft (se_parse_date e) (sa_session s) (sr_attempt r) (sa_storage left) = sf_draft f"
    using sv by (simp add: read_write [OF fc(5) _ _ assms(4,5,6)] served_ok_def)
  then show ?thesis
    using x fa(2) read_user [OF assms(7)]
    by (simp add: startAttempt_done_def adoptAttempt_def Let_def sa_adoptSession_def fresh_scenario_app_def)
qed


section \<open>A visit\<close>

lemma commit_fields [simp]:
  "sa_slug (commit stamp f s) = sa_slug (f s)" "sa_session (commit stamp f s) = sa_session (f s)"
  "sa_scenario (commit stamp f s) = sa_scenario (f s)" "sa_scenarioStatus (commit stamp f s) = sa_scenarioStatus (f s)"
  "sa_attempt (commit stamp f s) = sa_attempt (f s)" "sa_draft (commit stamp f s) = sa_draft (f s)"
  "sa_draftOwner (commit stamp f s) = sa_draftOwner (f s)" "sa_submissionIdentity (commit stamp f s) = sa_submissionIdentity (f s)"
  "sa_feedback (commit stamp f s) = sa_feedback (f s)" "sa_busy (commit stamp f s) = sa_busy (f s)"
  "sa_exitIntent (commit stamp f s) = sa_exitIntent (f s)" "sa_pending (commit stamp f s) = sa_pending (f s)"
  "sa_requests (commit stamp f s) = sa_requests (f s)"
  using commit_form [of stamp f s] by auto

definition sample_step :: ScenarioStep where
  "sample_step = \<lparr>st_position = 0, st_kind = Production, st_title = u ''T'', st_prompt = u ''P'', st_productionOutcome = u ''O'',
     st_vocabulary = [], st_reviewTerm = u ''rollback'', st_requiresFactHypothesis = False, st_minResponseCharacters = 2\<rparr>"

definition sample_scenario :: Scenario where
  "sample_scenario = \<lparr>sc_slug = u ''o'', sc_type = Incident, sc_title = u ''T'', sc_summary = u ''S'', sc_userRole = u ''R'',
     sc_workplaceGoal = u ''G'', sc_completionCriterion = u ''C'', sc_constraints = [], sc_requiresFactHypothesis = False,
     sc_estimatedMinutes = 5, sc_version = 1, sc_stepCount = 2, sc_steps = Some [sample_step, sample_step\<lparr>st_position := 1\<rparr>]\<rparr>"

definition attempt_at :: "nat \<Rightarrow> ScenarioAttempt" where
  "attempt_at n = \<lparr>at_id = sample_uuid, at_scenario = sample_scenario, at_currentPosition = jnat n, at_status = ActiveAttempt, at_version = 1,
     at_completedPositions = [], at_currentStep = Some (sample_step\<lparr>st_position := jnat n\<rparr>), at_startedAt = u ''2026'',
     at_updatedAt = u ''2026'', at_completedAt = None\<rparr>"

definition sample_steps :: "jstr \<Rightarrow> jnum \<Rightarrow> ScenarioStep" where "sample_steps i n = sample_step\<lparr>st_position := n\<rparr>"

definition learner :: Session where
  "learner = \<lparr>ss_user = \<lparr>us_id = u ''u1'', us_email = u ''a@b.c'', us_displayName = u ''A'', us_createdAt = u ''2026''\<rparr>,
     ss_tokens = \<lparr>accessToken = u ''t'', tokenType = u ''Bearer'', expiresIn = 900\<rparr>\<rparr>"

definition browser :: scenario_env where
  "browser = \<lparr>se_lower = (\<lambda>x. x), se_parse_date = (\<lambda>x. 0), se_offset = 180\<rparr>"

definition opened :: scenario_app where
  "opened = commit [] (loadScenario_done learner (Inr (learner, sample_scenario)) \<circ> sc_taken (ScLoad learner))
     (commit [] (loadScenario_begin \<circ> sc_taken ScLoadTimer) (fresh_scenario_app (u ''/scenarios/o'') learner empty_storage))"

definition writing :: scenario_app where
  "writing = commit [] (edit_field ResponseField (u ''We roll back.''))
     (commit [] (startAttempt_done browser 0 learner (Inr (learner, attempt_at 0, False)) \<circ> sc_taken (ScStart learner))
        (commit [] startAttempt opened))"

definition sent :: scenario_app where "sent = commit [] (submitStep browser [] sample_uuid) writing"

lemma sample_slug: "scenarioSlugFromPath (u ''/scenarios/o'') = Some (u ''o'')"
  by (simp add: scenarioSlugFromPath_def scenario_segment_def u_def decodeURIComponent_def strict_utf8_def isScenarioSlug_def
      slug_char_def is_digit_def)

lemma scenario_served: "attempt_served sample_steps (attempt_at n)" if "n < 1000"
  using that sample_uuid_ok by (simp add: attempt_served_def attempt_at_def sample_steps_def)

lemma stamped: "stamp_ok browser []"
  by (simp add: stamp_ok_def browser_def)

lemma opened_visit: "sc_visit sample_steps browser opened"
proof -
  let ?s0 = "fresh_scenario_app (u ''/scenarios/o'') learner empty_storage"
  let ?s1 = "commit [] (loadScenario_begin \<circ> sc_taken ScLoadTimer) ?s0"
  have "sc_visit sample_steps browser ?s0"
    by (rule sc_visit.sc_start) (simp_all add: learner_def writable_def empty_storage_def)
  moreover have "sc_step sample_steps browser ?s0 ?s1" by (rule s_timer) (simp_all add: fresh_scenario_app_def stamped)
  moreover have "sc_step sample_steps browser ?s1 opened"
    unfolding opened_def by (rule s_loaded)
      (simp_all add: stamped loadScenario_begin_def sa_send_def sample_slug fresh_scenario_app_def sample_scenario_def)
  ultimately show ?thesis by (meson sc_visit.sc_more)
qed

lemma opened_fields:
  "sa_attempt opened = None" "sa_busy opened = False" "sa_exitIntent opened = None" "sa_feedback opened = None" "sa_slug opened = Some (u ''o'')"
  "sa_scenario opened = Some sample_scenario" "ar_phase (sa_scenarioStatus opened) = ReadyPhase" "sa_session opened = learner"
  "sa_requests opened = [(scenario_path (u ''o''), None)]" "sa_submissionIdentity opened = None" "sa_pending opened = []"
  by (simp_all add: opened_def loadScenario_done_def loadScenario_begin_def sa_send_def sample_slug fresh_scenario_app_def
      readyResourceStatus_def sa_adoptSession_def sc_taken_def)

lemma opened_storage: "sa_storage opened = empty_storage"
proof -
  have none: "sa_storage (commit [] f s) = sa_storage (f s)" if "sa_attempt (f s) = None" for f s
    using commit_form [of "[]" f s] that by (auto simp: editing_def)
  show ?thesis unfolding opened_def
    by (simp add: none loadScenario_done_def loadScenario_begin_def sa_send_def sample_slug fresh_scenario_app_def sa_adoptSession_def)
qed

lemma no_stored_draft: "safeReadDraft (\<lambda>x. Fin 0) learner (attempt_at 0) empty_storage = EMPTY_DRAFT"
  using sample_uuid_ok
  by (simp add: safeReadDraft_def scenarioDraftStorageKey_def draftIdentity_def attempt_at_def learner_def getItem_def empty_storage_def
      parseScenarioDraft_def isNonNegativeInteger_def)

lemma start_storage: "sa_storage (commit [] startAttempt opened) = empty_storage"
proof -
  have "sa_attempt (startAttempt opened) = None" by (simp add: startAttempt_def opened_fields sa_send_def)
  then have "sa_storage (commit [] startAttempt opened) = sa_storage (startAttempt opened)"
    using commit_form [of "[]" startAttempt opened] by (auto simp: editing_def)
  then show ?thesis by (simp add: opened_storage)
qed

lemma attempt_at_step [simp]: "at_currentStep (attempt_at n) = Some (sample_step\<lparr>st_position := jnat n\<rparr>)"
  by (simp add: attempt_at_def)

lemma writing_fields:
  "sa_attempt writing = Some (attempt_at 0)" "sa_busy writing = False" "sa_exitIntent writing = None" "sa_feedback writing = None"
  "sa_scenario writing = Some sample_scenario" "ar_phase (sa_scenarioStatus writing) = ReadyPhase" "sa_session writing = learner"
  "sa_draft writing = \<lparr>df_response = u ''We roll back.'', df_facts = [], df_hypotheses = []\<rparr>" "sa_submissionIdentity writing = None"
  by (simp_all add: writing_def startAttempt_done_def startAttempt_def opened_fields sa_send_def adoptAttempt_def Let_def start_storage
      no_stored_draft EMPTY_DRAFT_def sa_adoptSession_def browser_def)


lemma writing_visit: "sc_visit sample_steps browser writing"
proof -
  let ?s1 = "commit [] startAttempt opened"
  let ?s2 = "commit [] (startAttempt_done browser 0 learner (Inr (learner, attempt_at 0, False)) \<circ> sc_taken (ScStart learner)) ?s1"
  have "sc_step sample_steps browser opened ?s1"
    by (rule s_start [of _ _ sample_scenario]) (simp_all add: opened_fields stamped renderScenario_def)
  moreover have "sc_step sample_steps browser ?s1 ?s2"
    by (rule s_started) (simp_all add: opened_fields stamped startAttempt_def sa_send_def scenario_served)
  moreover have "at_work browser ?s2 (validationMessage browser ?s2)"
    by (simp add: at_work_def renderScenario_def startAttempt_done_def startAttempt_def opened_fields sa_send_def sa_adoptSession_def)
      (simp add: attempt_at_def)
  then have "sc_step sample_steps browser ?s2 writing" unfolding writing_def by (rule s_edit) (rule stamped)
  ultimately show ?thesis using opened_visit by (meson sc_visit.sc_more)
qed

lemma draft_survives_reload_witness:
  "sa_draft (startAttempt_done browser 7 learner (Inr (learner, attempt_at 0, True))
      (fresh_scenario_app (u ''/scenarios/o'') learner (sa_storage writing)))
    = \<lparr>df_response = u ''We roll back.'', df_facts = [], df_hypotheses = []\<rparr>"
proof -
  have "fields_ok (sa_draft writing)" by (simp add: writing_fields fields_ok_def)
  moreover have "same_user learner (sa_session writing)" by (simp add: writing_fields same_user_def)
  ultimately show ?thesis
    using draft_survives_reload [OF writing_visit writing_fields(1) _ writing_fields(4), where session = learner and now = 7 and active = learner
        and pathname = "u ''/scenarios/o''"]
    by (simp add: writing_fields)
qed

lemma sent_fields:
  "\<exists>r. sa_requests sent = sa_requests writing @ [(submit_path (attempt_at 0) (sample_step\<lparr>st_position := jnat 0\<rparr>), Some (submit_json r))]
    \<and> sq_submissionId r = sample_uuid"
  "ScSubmit (flight_of (attempt_at 0) writing) (sample_step\<lparr>st_position := jnat 0\<rparr>) \<in> set (sa_pending sent)"
proof -
  have v: "validationMessage browser writing = []"
    by (simp add: validationMessage_def writing_fields) (simp add: attempt_at_def sample_step_def u_def trim_def js_ws_def)
  define ident where "ident = \<lparr>si_fingerprint = scenarioSubmissionFingerprint (se_lower browser) (sa_draft writing), si_submissionId = sample_uuid\<rparr>"
  have id: "resolveScenarioSubmissionIdentity (se_lower browser) None (sa_draft writing) sample_uuid = Inr ident"
    using sample_uuid_ok by (simp add: resolveScenarioSubmissionIdentity_def Let_def ident_def)
  have "normalizeScenarioResponse (u ''We roll back.'') \<noteq> []"
    by (simp add: normalizeScenarioResponse_def unix_lines_def u_def trim_def js_ws_def)
  then obtain r where b: "buildSubmitScenarioStepRequest (se_lower browser) (at_version (attempt_at 0)) sample_uuid (sa_draft writing)
      (st_requiresFactHypothesis (sample_step\<lparr>st_position := jnat 0\<rparr>)) (se_offset browser) = Inr r" "sq_submissionId r = sample_uuid"
    using sample_uuid_ok
    by (simp add: buildSubmitScenarioStepRequest_def Let_def writing_fields isPositiveInteger_def) (simp add: attempt_at_def)
  show "\<exists>r. sa_requests sent = sa_requests writing @ [(submit_path (attempt_at 0) (sample_step\<lparr>st_position := jnat 0\<rparr>), Some (submit_json r))]
    \<and> sq_submissionId r = sample_uuid"
    using b by (intro exI [of _ r]) (simp add: sent_def submitStep_def writing_fields(1,9) v id Let_def ident_def sa_send_def)
  show "ScSubmit (flight_of (attempt_at 0) writing) (sample_step\<lparr>st_position := jnat 0\<rparr>) \<in> set (sa_pending sent)"
    using b by (simp add: sent_def submitStep_def writing_fields(1,9) v id Let_def ident_def sa_send_def flight_of_def)
qed

lemma sent_visit: "sc_visit sample_steps browser sent"
proof -
  have "at_work browser writing []"
    using writing_fields
    by (simp add: at_work_def renderScenario_def validationMessage_def)
      (simp add: attempt_at_def sample_step_def u_def trim_def js_ws_def)
  moreover have "JStr sample_uuid \<notin> submission_ids writing"
    by (auto simp: submission_ids_def writing_def startAttempt_done_def startAttempt_def opened_fields sa_send_def sa_adoptSession_def)
  ultimately have "sc_step sample_steps browser writing sent"
    unfolding sent_def by (intro s_submit) (simp_all add: stamped writing_fields fields_ok_def)
  then show ?thesis using writing_visit by (meson sc_visit.sc_more)
qed

lemma submission_id_names_one_answer_witness:
  "\<exists>path body. (path, Some body) \<in> set (sa_requests sent) \<and> jget body ''submissionId'' = JStr sample_uuid
    \<and> (\<forall>path' body'. (path', Some body') \<in> set (sa_requests sent) \<and> jget body' ''submissionId'' = JStr sample_uuid
         \<longrightarrow> path' = path \<and> jget body' ''response'' = jget body ''response'')"
proof -
  from sent_fields(1) obtain r where q: "sa_requests sent = sa_requests writing @ [(submit_path (attempt_at 0) (sample_step\<lparr>st_position := jnat 0\<rparr>), Some (submit_json r))]"
    "sq_submissionId r = sample_uuid" by blast
  then have r: "(submit_path (attempt_at 0) (sample_step\<lparr>st_position := jnat 0\<rparr>), Some (submit_json r)) \<in> set (sa_requests sent)"
    "sq_submissionId r = sample_uuid" by simp_all
  then have i: "jget (submit_json r) ''submissionId'' = JStr sample_uuid" by (simp add: submit_json_def)
  show ?thesis
    using submission_id_names_one_answer [OF sent_visit _ r(1) _ i] r(1) i by blast
qed

lemma accepted_answer_becomes_next_draft_witness:
  "\<exists>accepted. sa_attempt accepted = Some (attempt_at 1) \<and> (\<exists>fb. sa_feedback accepted = Some fb \<and> df_response (fb_fields fb) = u ''We roll back.'')
    \<and> df_response (sa_draft (startAttempt_done browser 7 learner (Inr (learner, attempt_at 1, True)) (fresh_scenario_app (u ''/scenarios/o'') learner
        (sa_storage (commit [] (pauseAttempt [] True) (commit [] close_scenario accepted)))))) = u ''We roll back.''"
proof -
  let ?f = "flight_of (attempt_at 0) writing" and ?step = "sample_step\<lparr>st_position := jnat 0\<rparr>"
  let ?r = "\<lparr>sr_attempt = attempt_at 1, sr_judgementReason = [], sr_idempotentReplay = False\<rparr>"
  let ?a = "commit [] (submitStep_done ?f ?step (Inr (learner, ?r)) \<circ> sc_taken (ScSubmit ?f ?step)) sent"
  have d: "sf_draft ?f = sa_draft writing" by (simp add: flight_of_def)
  have u: "same_user learner (sa_session sent)"
    by (simp add: sent_def submitStep_def writing_fields Let_def sa_send_def submit_failed_def same_user_def split: option.split sum.split)
  have st: "at_status (sr_attempt ?r) = ActiveAttempt" "attempt_served sample_steps (sr_attempt ?r)" "fields_ok (sf_draft ?f)"
    using scenario_served [of 1] by (simp_all add: d writing_fields fields_ok_def) (simp add: attempt_at_def)
  have "sa_draft (startAttempt_done browser 7 learner (Inr (learner, attempt_at 1, True)) (fresh_scenario_app (u ''/scenarios/o'') learner
        (sa_storage (commit [] (pauseAttempt [] True) (commit [] close_scenario ?a))))) = fb_fields (the (sa_feedback ?a))"
    using accepted_answer_becomes_next_draft [OF sent_visit sent_fields(2) st stamped u, where active = learner and now = 7 and pathname = "u ''/scenarios/o''"] by simp
  moreover have "sa_attempt ?a = Some (attempt_at 1)" "\<exists>fb. sa_feedback ?a = Some fb \<and> df_response (fb_fields fb) = u ''We roll back.''"
    by (simp_all add: submitStep_done_def d writing_fields)
  ultimately show ?thesis by (intro exI [of _ ?a]) (auto simp: submitStep_done_def d writing_fields)
qed

end
