(* ===== verification/Catalog.thy ===== *)
theory Catalog
  imports Js_Date Navigation Account_Resources
begin

text \<open>
  The pure modules of the catalog: \<open>src/frontend/lib/catalog-page.ts\<close>, \<open>catalog-sort.ts\<close>, \<open>catalog-metadata.ts\<close>,
  \<open>lesson-composition.ts\<close>, \<open>interface-copy.ts\<close>, \<open>phrase-navigation.ts\<close> and \<open>dictionary-navigation.ts\<close>.  How a number
  is written for the Russian locale (\<open>toLocaleString\<close>), the lower case and the collation are parameters.
\<close>

section \<open>Pages\<close>

text \<open>\<open>slice(a, b)\<close> of an array: both ends are made whole, counted from the end when negative, and kept in range.\<close>

fun slice_index :: "nat \<Rightarrow> jnum \<Rightarrow> nat" where
  "slice_index n (Fin r) =
     (let k = (if r < 0 then \<lceil>r\<rceil> else \<lfloor>r\<rfloor>) in if k < 0 then nat (int n + k) else min n (nat k))"
| "slice_index n PInf = n"
| "slice_index n NInf = 0"
| "slice_index n NaN = 0"

definition js_slice :: "jnum \<Rightarrow> jnum \<Rightarrow> 'a list \<Rightarrow> 'a list" where
  "js_slice a b xs = (let i = slice_index (length xs) a; j = slice_index (length xs) b in take (j - i) (drop i xs))"

definition CATALOG_PAGE_SIZE :: jnum where "CATALOG_PAGE_SIZE = 48"

record CatalogPageInfo =
  pi_total :: jnum
  pi_page :: jnum
  pi_pageSize :: jnum
  pi_totalPages :: jnum
  pi_hasPrevious :: bool
  pi_hasNext :: bool

record 'a PaginatedCatalog =
  pc_items :: "'a list"
  pc_info :: CatalogPageInfo

definition positiveInteger :: "jval \<Rightarrow> jnum \<Rightarrow> jnum" where
  "positiveInteger v fallback = (if v_isInteger v \<and> num_of v > 0 then num_of v else fallback)"

definition catalogPageInfo :: "jval \<Rightarrow> jnum \<Rightarrow> CatalogPageInfo" where
  "catalogPageInfo payload fallbackPageSize =
     (let pageSize = positiveInteger (jget payload ''pageSize'') fallbackPageSize;
          tot = (if v_isInteger (jget payload ''total'') \<and> num_of (jget payload ''total'') \<ge> 0 then num_of (jget payload ''total'')
                 else num_of (jget payload ''count''));
          totalPages = (if v_isInteger (jget payload ''totalPages'') \<and> num_of (jget payload ''totalPages'') \<ge> 0
                        then num_of (jget payload ''totalPages'')
                        else if jeq tot 0 then 0 else jceil (jdiv tot pageSize));
          page = (if jeq totalPages 0 then 1 else jmin (positiveInteger (jget payload ''page'') 1) totalPages) in
      \<lparr>pi_total = tot, pi_page = page, pi_pageSize = pageSize, pi_totalPages = totalPages,
       pi_hasPrevious = (case jget payload ''hasPrevious'' of JBool b \<Rightarrow> b | _ \<Rightarrow> page > 1),
       pi_hasNext = (case jget payload ''hasNext'' of JBool b \<Rightarrow> b | _ \<Rightarrow> totalPages > 0 \<and> page < totalPages)\<rparr>)"

definition paginateCatalogEntries :: "'a list \<Rightarrow> jnum \<Rightarrow> jnum \<Rightarrow> 'a PaginatedCatalog" where
  "paginateCatalogEntries xs requestedPage pageSize =
     (let tot = jnat (length xs);
          totalPages = (if jeq tot 0 then 0 else jceil (jdiv tot pageSize));
          page = (if jeq totalPages 0 then 1 else jmin (jmax 1 requestedPage) totalPages);
          start = (page - 1) * pageSize in
      \<lparr>pc_items = js_slice start (start + pageSize) xs,
       pc_info = \<lparr>pi_total = tot, pi_page = page, pi_pageSize = pageSize, pi_totalPages = totalPages,
         pi_hasPrevious = page > 1, pi_hasNext = totalPages > 0 \<and> page < totalPages\<rparr>\<rparr>)"

definition catalogRangeText :: "(jnum \<Rightarrow> jstr) \<Rightarrow> CatalogPageInfo \<Rightarrow> jstr" where
  "catalogRangeText ru page_info =
     (if jeq (pi_total page_info) 0 then [1056, 1077, 1079, 1091, 1083, 1100, 1090, 1072, 1090, 1099, 32, 1085, 1077, 32, 1085, 1072, 1081, 1076, 1077, 1085, 1099]
      else
        let start = (pi_page page_info - 1) * pi_pageSize page_info + 1;
            last_one = jmin (pi_total page_info) (start + pi_pageSize page_info - 1) in
        [1055, 1086, 1082, 1072, 1079, 1072, 1085, 1086, 32] @ ru start @ [8211] @ ru last_one @ [32, 1080, 1079, 32] @ ru (pi_total page_info))"

section \<open>Sorting\<close>

text \<open>\<open>collate\<close> is \<open>localeCompare\<close> with the options of the code.\<close>

definition entry_order :: "(jstr \<Rightarrow> jstr \<Rightarrow> int) \<Rightarrow> ('a \<Rightarrow> jstr) \<Rightarrow> ('a \<Rightarrow> int) \<Rightarrow> CatalogSort \<Rightarrow> 'a \<Rightarrow> 'a \<Rightarrow> int" where
  "entry_order collate getLabel getOriginalIndex mode left right =
     (let originalOrder = getOriginalIndex left - getOriginalIndex right in
      if mode = SortDefault then originalOrder
      else
        let comparison = collate (getLabel left) (getLabel right);
            directed = (if mode = SortAZ then comparison else - comparison) in
        if directed \<noteq> 0 then directed else originalOrder)"

definition sortCatalogEntries ::
  "(jstr \<Rightarrow> jstr \<Rightarrow> int) \<Rightarrow> 'a list \<Rightarrow> ('a \<Rightarrow> jstr) \<Rightarrow> ('a \<Rightarrow> int) \<Rightarrow> CatalogSort \<Rightarrow> 'a list" where
  "sortCatalogEntries collate xs getLabel getOriginalIndex mode =
     js_sort (entry_order collate getLabel getOriginalIndex mode) xs"

section \<open>Counts in words\<close>

definition russianCount :: "(jnum \<Rightarrow> jstr) \<Rightarrow> jnum \<Rightarrow> jstr \<times> jstr \<times> jstr \<Rightarrow> jstr" where
  "russianCount ru v forms =
     (let absolute = jrem (jabs v) 100;
          final = jrem absolute 10;
          form = (if absolute > 10 \<and> absolute < 20 then snd (snd forms)
                  else if jeq final 1 then fst forms
                  else if final \<ge> 2 \<and> final \<le> 4 then fst (snd forms) else snd (snd forms)) in
      ru v @ [32] @ form)"

definition russianPlural :: "jnum \<Rightarrow> jstr \<Rightarrow> jstr \<Rightarrow> jstr \<Rightarrow> jstr" where
  "russianPlural v one few many =
     (let mod100 = jrem v 100; mod10 = jrem v 10 in
      if mod100 \<ge> 11 \<and> mod100 \<le> 14 then many
      else if jeq mod10 1 then one
      else if mod10 \<ge> 2 \<and> mod10 \<le> 4 then few
      else many)"

section \<open>Metadata of the catalog\<close>

datatype CatalogMetadataStatus = MetadataLoading | MetadataReady | MetadataError

text \<open>The property of \<open>sources\<close> that counts a source.\<close>

fun source_key :: "NavigationSource \<Rightarrow> string" where
  "source_key SourceDailyLife = ''dailyLife''"
| "source_key SourceDataEngineering = ''dataEngineering''"
| "source_key SourceAcademic = ''academicTechnicalEnglish''"
| "source_key SourceMixed = ''mixed''" | "source_key SourceNoun = ''noun''" | "source_key SourceVerb = ''verb''"
| "source_key SourceAdjective = ''adjective''" | "source_key SourcePhrases = ''phrases''"
| "source_key SourceTravel = ''travel''" | "source_key SourceBackend = ''backend''"

definition catalogSourceCount :: "jval \<Rightarrow> NavigationSource \<Rightarrow> jnum" where
  "catalogSourceCount metadata source = num_of (jget (jget metadata ''sources'') (source_key source))"

definition catalogCountText ::
  "(jnum \<Rightarrow> jstr) \<Rightarrow> jval option \<Rightarrow> CatalogMetadataStatus \<Rightarrow> NavigationSource \<Rightarrow> jstr \<times> jstr \<times> jstr \<Rightarrow> jstr" where
  "catalogCountText ru metadata status source forms =
     (if status = MetadataLoading then [1047, 1072, 1075, 1088, 1091, 1079, 1082, 1072, 8230]
      else (case metadata of
          None \<Rightarrow> [1050, 1086, 1083, 1080, 1095, 1077, 1089, 1090, 1074, 1086, 32, 1085, 1077, 1076, 1086, 1089, 1090, 1091, 1087, 1085, 1086]
        | Some m \<Rightarrow> if status = MetadataError then [1050, 1086, 1083, 1080, 1095, 1077, 1089, 1090, 1074, 1086, 32, 1085, 1077, 1076, 1086, 1089, 1090, 1091, 1087, 1085, 1086]
            else russianCount ru (catalogSourceCount m source) forms))"

definition catalogSummaryText :: "(jnum \<Rightarrow> jstr) \<Rightarrow> jval option \<Rightarrow> CatalogMetadataStatus \<Rightarrow> jstr" where
  "catalogSummaryText ru metadata status =
     (let unavailable = [1053, 1077, 32, 1091, 1076, 1072, 1083, 1086, 1089, 1100, 32, 1079, 1072, 1075, 1088, 1091, 1079, 1080, 1090, 1100, 32, 1089, 1086, 1089, 1090, 1072, 1074, 32, 1082, 1072, 1090, 1072, 1083, 1086, 1075, 1072, 46, 32, 1055, 1086, 1074, 1090, 1086, 1088, 1080, 1090, 1077, 32, 1087, 1086, 1087, 1099, 1090, 1082, 1091, 32, 1087, 1086, 1079, 1078, 1077, 46] in
      if status = MetadataLoading then [1047, 1072, 1075, 1088, 1091, 1078, 1072, 1077, 1084, 32, 1072, 1082, 1090, 1091, 1072, 1083, 1100, 1085, 1099, 1081, 32, 1089, 1086, 1089, 1090, 1072, 1074, 32, 1082, 1072, 1090, 1072, 1083, 1086, 1075, 1072, 8230]
      else (case metadata of
          None \<Rightarrow> unavailable
        | Some m \<Rightarrow> if status = MetadataError then unavailable
            else russianCount ru (num_of (jget (jget m ''totals'') ''words'')) ([1089, 1083, 1086, 1074, 1086], [1089, 1083, 1086, 1074, 1072], [1089, 1083, 1086, 1074])
              @ [32, 1080, 32] @ russianCount ru (num_of (jget (jget m ''totals'') ''phrases''))
                  ([1090, 1077, 1093, 1085, 1080, 1095, 1077, 1089, 1082, 1072, 1103, 32, 1092, 1088, 1072, 1079, 1072], [1090, 1077, 1093, 1085, 1080, 1095, 1077, 1089, 1082, 1080, 1077, 32, 1092, 1088, 1072, 1079, 1099], [1090, 1077, 1093, 1085, 1080, 1095, 1077, 1089, 1082, 1080, 1093, 32, 1092, 1088, 1072, 1079])
              @ [32, 1089, 32, 1086, 1073, 1097, 1077, 1081, 32, 1089, 1080, 1089, 1090, 1077, 1084, 1086, 1081, 32, 1087, 1086, 1074, 1090, 1086, 1088, 1077, 1085, 1080, 1081, 46]))"

definition cm_isNonNegativeInteger :: "jval \<Rightarrow> bool" where
  "cm_isNonNegativeInteger v \<longleftrightarrow> v_isInteger v \<and> num_of v \<ge> 0"

definition METADATA_SOURCE_KEYS :: "string list" where
  "METADATA_SOURCE_KEYS = [''mixed'', ''noun'', ''verb'', ''adjective'', ''phrases'', ''dailyLife'', ''travel'',
     ''dataEngineering'', ''backend'', ''academicTechnicalEnglish'']"

definition topic_entry_ok :: "jval \<Rightarrow> bool" where
  "topic_entry_ok e \<longleftrightarrow> isRecord e \<and> is_string (jget e ''topic'') \<and> cm_isNonNegativeInteger (jget e ''count'')
     \<and> (jget e ''words'' = JUndef \<or> cm_isNonNegativeInteger (jget e ''words''))
     \<and> (jget e ''phrases'' = JUndef \<or> cm_isNonNegativeInteger (jget e ''phrases''))"

definition isCatalogMetadataPayload :: "(jstr \<Rightarrow> jnum) \<Rightarrow> jval \<Rightarrow> bool" where
  "isCatalogMetadataPayload parse_date v \<longleftrightarrow>
     isRecord v \<and> is_string (jget v ''catalogVersion'') \<and> isFinite (parse_date (value_text (jget v ''updatedAt'')))
     \<and> isRecord (jget v ''totals'') \<and> isRecord (jget v ''sources'') \<and> is_array (jget v ''topics'')
     \<and> list_all (\<lambda>k. cm_isNonNegativeInteger (jget (jget v ''totals'') k)) [''items'', ''words'', ''phrases'']
     \<and> list_all (\<lambda>k. cm_isNonNegativeInteger (jget (jget v ''sources'') k)) METADATA_SOURCE_KEYS
     \<and> list_all topic_entry_ok (arr_of (jget v ''topics''))"

section \<open>The composition of a lesson\<close>

datatype LessonCompositionFallback = WordsOnly | PhrasesOnly | EmptyLesson

record LessonComposition =
  lc_total :: jnum
  lc_words :: jnum
  lc_phrases :: jnum
  lc_due :: jnum
  lc_new :: jnum
  lc_scheduled :: jnum
  lc_availableWords :: jnum
  lc_availablePhrases :: jnum
  lc_fallback :: "LessonCompositionFallback option"

definition lessonCompositionDescription :: "LessonComposition \<Rightarrow> jstr" where
  "lessonCompositionDescription c =
     num_str (lc_total c) @ [32] @ russianPlural (lc_total c) [1101, 1083, 1077, 1084, 1077, 1085, 1090] [1101, 1083, 1077, 1084, 1077, 1085, 1090, 1072] [1101, 1083, 1077, 1084, 1077, 1085, 1090, 1086, 1074] @ [32, 183, 32]
     @ num_str (lc_words c) @ [32] @ russianPlural (lc_words c) [1089, 1083, 1086, 1074, 1086] [1089, 1083, 1086, 1074, 1072] [1089, 1083, 1086, 1074] @ [32, 183, 32]
     @ num_str (lc_phrases c) @ [32] @ russianPlural (lc_phrases c) [1092, 1088, 1072, 1079, 1072] [1092, 1088, 1072, 1079, 1099] [1092, 1088, 1072, 1079]"

fun lessonCompositionFallbackMessage :: "LessonCompositionFallback option \<Rightarrow> jstr" where
  "lessonCompositionFallbackMessage (Some WordsOnly) = [1060, 1088, 1072, 1079, 32, 1076, 1083, 1103, 32, 1074, 1099, 1073, 1088, 1072, 1085, 1085, 1086, 1075, 1086, 32, 1088, 1077, 1078, 1080, 1084, 1072, 32, 1089, 1077, 1081, 1095, 1072, 1089, 32, 1085, 1077, 1090, 46, 32, 1059, 1088, 1086, 1082, 32, 1087, 1088, 1086, 1076, 1086, 1083, 1078, 1080, 1090, 1089, 1103, 32, 1076, 1086, 1089, 1090, 1091, 1087, 1085, 1099, 1084, 1080, 32, 1089, 1083, 1086, 1074, 1072, 1084, 1080, 46]"
| "lessonCompositionFallbackMessage (Some PhrasesOnly) = [1057, 1083, 1086, 1074, 32, 1076, 1083, 1103, 32, 1074, 1099, 1073, 1088, 1072, 1085, 1085, 1086, 1075, 1086, 32, 1088, 1077, 1078, 1080, 1084, 1072, 32, 1089, 1077, 1081, 1095, 1072, 1089, 32, 1085, 1077, 1090, 46, 32, 1059, 1088, 1086, 1082, 32, 1087, 1088, 1086, 1076, 1086, 1083, 1078, 1080, 1090, 1089, 1103, 32, 1076, 1086, 1089, 1090, 1091, 1087, 1085, 1099, 1084, 1080, 32, 1092, 1088, 1072, 1079, 1072, 1084, 1080, 46]"
| "lessonCompositionFallbackMessage (Some EmptyLesson) = [1044, 1083, 1103, 32, 1074, 1099, 1073, 1088, 1072, 1085, 1085, 1086, 1075, 1086, 32, 1088, 1077, 1078, 1080, 1084, 1072, 32, 1087, 1086, 1082, 1072, 32, 1085, 1077, 1090, 32, 1076, 1086, 1089, 1090, 1091, 1087, 1085, 1099, 1093, 32, 1101, 1083, 1077, 1084, 1077, 1085, 1090, 1086, 1074, 46]"
| "lessonCompositionFallbackMessage None = []"

section \<open>Labels\<close>

datatype LearningTerm = RecallTerm | DueTerm | RetainedTerm | ClozeTerm | ChunkTerm

fun learningTermLabel :: "LearningTerm \<Rightarrow> jstr" where
  "learningTermLabel RecallTerm = [1042, 1089, 1087, 1086, 1084, 1085, 1080, 1090, 1100, 32, 1089, 1072, 1084, 1086, 1089, 1090, 1086, 1103, 1090, 1077, 1083, 1100, 1085, 1086]"
| "learningTermLabel DueTerm = [1043, 1086, 1090, 1086, 1074, 1086, 32, 1082, 32, 1087, 1086, 1074, 1090, 1086, 1088, 1077, 1085, 1080, 1102]"
| "learningTermLabel RetainedTerm = [1047, 1072, 1082, 1088, 1077, 1087, 1083, 1077, 1085, 1086]"
| "learningTermLabel ClozeTerm = [1042, 1086, 1089, 1089, 1090, 1072, 1085, 1086, 1074, 1080, 1090, 1100, 32, 1087, 1088, 1086, 1087, 1091, 1089, 1082]"
| "learningTermLabel ChunkTerm = [1043, 1086, 1090, 1086, 1074, 1072, 1103, 32, 1092, 1088, 1072, 1079, 1072]"

definition lessonPriorityDescription :: "LessonComposition \<Rightarrow> jstr" where
  "lessonPriorityDescription c =
     learningTermLabel DueTerm @ [58, 32] @ num_str (lc_due c) @ [32, 183, 32] @ [1053, 1086, 1074, 1099, 1093, 58, 32] @ num_str (lc_new c)
     @ (if lc_scheduled c > 0 then [32, 183, 32] @ [1047, 1072, 1087, 1083, 1072, 1085, 1080, 1088, 1086, 1074, 1072, 1085, 1086, 58, 32] @ num_str (lc_scheduled c) else [])"

text \<open>
  A table is an object literal: reading a key it does not have finds the members that every object inherits.  What is
  read is then a function or the prototype, not a text.
\<close>

datatype 'a looked_up = Own 'a | Inherited jstr | NotThere

definition OBJECT_MEMBERS :: "string list" where
  "OBJECT_MEMBERS = [''constructor'', ''__proto__'', ''hasOwnProperty'', ''isPrototypeOf'', ''propertyIsEnumerable'',
     ''toLocaleString'', ''toString'', ''valueOf'', ''__defineGetter__'', ''__defineSetter__'', ''__lookupGetter__'', ''__lookupSetter__'']"

definition table_get :: "(jstr \<times> 'a) list \<Rightarrow> jstr \<Rightarrow> 'a looked_up" where
  "table_get table key =
     (case map_of table key of
        Some v \<Rightarrow> Own v
      | None \<Rightarrow> if key \<in> u ` set OBJECT_MEMBERS then Inherited key else NotThere)"

text \<open>\<open>table[key] ?? fallback\<close>.\<close>

definition table_or :: "(jstr \<times> 'a) list \<Rightarrow> jstr \<Rightarrow> 'a \<Rightarrow> 'a looked_up" where
  "table_or table key fallback = (case table_get table key of NotThere \<Rightarrow> Own fallback | r \<Rightarrow> r)"

definition LESSON_SOURCE_LABELS :: "(jstr \<times> jstr) list" where
  "LESSON_SOURCE_LABELS = [(u ''mixed'', [1057, 1084, 1077, 1096, 1072, 1085, 1085, 1072, 1103, 32, 1087, 1088, 1072, 1082, 1090, 1080, 1082, 1072]), (u ''noun'', [1057, 1091, 1097, 1077, 1089, 1090, 1074, 1080, 1090, 1077, 1083, 1100, 1085, 1099, 1077]), (u ''verb'', [1043, 1083, 1072, 1075, 1086, 1083, 1099]),
     (u ''adjective'', [1055, 1088, 1080, 1083, 1072, 1075, 1072, 1090, 1077, 1083, 1100, 1085, 1099, 1077]), (u ''phrases'', [1058, 1077, 1093, 1085, 1080, 1095, 1077, 1089, 1082, 1080, 1077, 32, 1092, 1088, 1072, 1079, 1099]), (u ''daily-life'', [1041, 1099, 1090, 1086, 1074, 1086, 1081, 32, 1072, 1085, 1075, 1083, 1080, 1081, 1089, 1082, 1080, 1081]),
     (u ''travel'', [1044, 1083, 1103, 32, 1087, 1091, 1090, 1077, 1096, 1077, 1089, 1090, 1074, 1080, 1081]), (u ''data-engineering'', [1048, 1085, 1078, 1077, 1085, 1077, 1088, 1080, 1103, 32, 1076, 1072, 1085, 1085, 1099, 1093]), (u ''backend'', [66, 97, 99, 107, 101, 110, 100, 45, 1088, 1072, 1079, 1088, 1072, 1073, 1086, 1090, 1082, 1072]),
     (u ''academic-technical-english'', [65, 99, 97, 100, 101, 109, 105, 99, 32, 84, 101, 99, 104, 110, 105, 99, 97, 108, 32, 69, 110, 103, 108, 105, 115, 104])]"

definition TOPIC_LABELS :: "(jstr \<times> jstr) list" where
  "TOPIC_LABELS = [(u ''academic-technical-english'', [1058, 1077, 1093, 1085, 1080, 1095, 1077, 1089, 1082, 1080, 1081, 32, 1072, 1085, 1075, 1083, 1080, 1081, 1089, 1082, 1080, 1081]), (u ''daily life'', [1055, 1086, 1074, 1089, 1077, 1076, 1085, 1077, 1074, 1085, 1072, 1103, 32, 1078, 1080, 1079, 1085, 1100]),
     (u ''travel'', [1055, 1091, 1090, 1077, 1096, 1077, 1089, 1090, 1074, 1080, 1103]), (u ''data engineering'', [1048, 1085, 1078, 1077, 1085, 1077, 1088, 1080, 1103, 32, 1076, 1072, 1085, 1085, 1099, 1093]), (u ''backend development'', [66, 97, 99, 107, 101, 110, 100, 45, 1088, 1072, 1079, 1088, 1072, 1073, 1086, 1090, 1082, 1072]),
     (u ''backend terminology'', [66, 97, 99, 107, 101, 110, 100, 45, 1090, 1077, 1088, 1084, 1080, 1085, 1086, 1083, 1086, 1075, 1080, 1103]), (u ''incident'', [1048, 1085, 1094, 1080, 1076, 1077, 1085, 1090, 1099]), (u ''incidents'', [1048, 1085, 1094, 1080, 1076, 1077, 1085, 1090, 1099]),
     (u ''incident updates'', [1054, 1073, 1085, 1086, 1074, 1083, 1077, 1085, 1080, 1103, 32, 1087, 1086, 32, 1080, 1085, 1094, 1080, 1076, 1077, 1085, 1090, 1072, 1084]), (u ''troubleshooting'', [1044, 1080, 1072, 1075, 1085, 1086, 1089, 1090, 1080, 1082, 1072, 32, 1087, 1088, 1086, 1073, 1083, 1077, 1084]),
     (u ''architecture'', [1040, 1088, 1093, 1080, 1090, 1077, 1082, 1090, 1091, 1088, 1072]), (u ''architecture trade-offs'', [1040, 1088, 1093, 1080, 1090, 1077, 1082, 1090, 1091, 1088, 1085, 1099, 1077, 32, 1082, 1086, 1084, 1087, 1088, 1086, 1084, 1080, 1089, 1089, 1099]),
     (u ''performance'', [1055, 1088, 1086, 1080, 1079, 1074, 1086, 1076, 1080, 1090, 1077, 1083, 1100, 1085, 1086, 1089, 1090, 1100]), (u ''delivery'', [1055, 1083, 1072, 1085, 1080, 1088, 1086, 1074, 1072, 1085, 1080, 1077, 32, 1088, 1072, 1073, 1086, 1090]), (u ''release'', [1056, 1077, 1083, 1080, 1079, 1099]),
     (u ''operations'', [1069, 1082, 1089, 1087, 1083, 1091, 1072, 1090, 1072, 1094, 1080, 1103]), (u ''communication'', [1056, 1072, 1073, 1086, 1095, 1077, 1077, 32, 1086, 1073, 1097, 1077, 1085, 1080, 1077]), (u ''meetings'', [1042, 1089, 1090, 1088, 1077, 1095, 1080]),
     (u ''code review'', [1056, 1077, 1074, 1100, 1102, 32, 1082, 1086, 1076, 1072]), (u ''databases'', [1041, 1072, 1079, 1099, 32, 1076, 1072, 1085, 1085, 1099, 1093]), (u ''storage'', [1061, 1088, 1072, 1085, 1077, 1085, 1080, 1077, 32, 1076, 1072, 1085, 1085, 1099, 1093]),
     (u ''api'', [65, 80, 73]), (u ''apis'', [65, 80, 73]), (u ''security'', [1041, 1077, 1079, 1086, 1087, 1072, 1089, 1085, 1086, 1089, 1090, 1100])]"

definition PART_OF_SPEECH_LABELS :: "(jstr \<times> jstr) list" where
  "PART_OF_SPEECH_LABELS = [(u ''noun'', [1089, 1091, 1097, 1077, 1089, 1090, 1074, 1080, 1090, 1077, 1083, 1100, 1085, 1086, 1077]), (u ''n'', [1089, 1091, 1097, 1077, 1089, 1090, 1074, 1080, 1090, 1077, 1083, 1100, 1085, 1086, 1077]), (u ''verb'', [1075, 1083, 1072, 1075, 1086, 1083]),
     (u ''v'', [1075, 1083, 1072, 1075, 1086, 1083]), (u ''adjective'', [1087, 1088, 1080, 1083, 1072, 1075, 1072, 1090, 1077, 1083, 1100, 1085, 1086, 1077]), (u ''adj'', [1087, 1088, 1080, 1083, 1072, 1075, 1072, 1090, 1077, 1083, 1100, 1085, 1086, 1077]), (u ''adverb'', [1085, 1072, 1088, 1077, 1095, 1080, 1077]),
     (u ''preposition'', [1087, 1088, 1077, 1076, 1083, 1086, 1075]), (u ''phrase'', [1092, 1088, 1072, 1079, 1072]), (u ''word'', [1089, 1083, 1086, 1074, 1086])]"

definition STATUS_LABELS :: "(jstr \<times> jstr) list" where
  "STATUS_LABELS = [(u ''new'', [1053, 1086, 1074, 1086, 1077]), (u ''learning'', [1048, 1079, 1091, 1095, 1072, 1077, 1090, 1089, 1103]), (u ''review'', [1053, 1072, 32, 1087, 1086, 1074, 1090, 1086, 1088, 1077, 1085, 1080, 1080]),
     (u ''mastered'', [1054, 1089, 1074, 1086, 1077, 1085, 1086]), (u ''phrase'', [1060, 1088, 1072, 1079, 1072])]"

definition normalizedKey :: "(jstr \<Rightarrow> jstr) \<Rightarrow> jstr \<Rightarrow> jstr" where
  "normalizedKey lower_en v = lower_en (trim v)"

definition label_in :: "(jstr \<Rightarrow> jstr) \<Rightarrow> (jstr \<times> jstr) list \<Rightarrow> jstr \<Rightarrow> jstr \<Rightarrow> jstr looked_up" where
  "label_in lower_en table empty_label v =
     (let trimmed_text = trim v in
      if trimmed_text = [] then Own empty_label else table_or table (normalizedKey lower_en trimmed_text) trimmed_text)"

definition lessonSourceLabel :: "(jstr \<Rightarrow> jstr) \<Rightarrow> jstr \<Rightarrow> jstr looked_up" where
  "lessonSourceLabel lower_en = label_in lower_en LESSON_SOURCE_LABELS [1056, 1072, 1079, 1076, 1077, 1083, 32, 1085, 1077, 32, 1091, 1082, 1072, 1079, 1072, 1085]"
definition topicLabel :: "(jstr \<Rightarrow> jstr) \<Rightarrow> jstr \<Rightarrow> jstr looked_up" where
  "topicLabel lower_en = label_in lower_en TOPIC_LABELS [1058, 1077, 1084, 1072, 32, 1085, 1077, 32, 1091, 1082, 1072, 1079, 1072, 1085, 1072]"
definition partOfSpeechLabel :: "(jstr \<Rightarrow> jstr) \<Rightarrow> jstr \<Rightarrow> jstr looked_up" where
  "partOfSpeechLabel lower_en = label_in lower_en PART_OF_SPEECH_LABELS [1095, 1072, 1089, 1090, 1100, 32, 1088, 1077, 1095, 1080, 32, 1085, 1077, 32, 1091, 1082, 1072, 1079, 1072, 1085, 1072]"
definition catalogStatusLabel :: "(jstr \<Rightarrow> jstr) \<Rightarrow> jstr \<Rightarrow> jstr looked_up" where
  "catalogStatusLabel lower_en = label_in lower_en STATUS_LABELS [1057, 1090, 1072, 1090, 1091, 1089, 32, 1085, 1077, 32, 1091, 1082, 1072, 1079, 1072, 1085]"

section \<open>Filters of the phrase catalog\<close>

record PhraseCatalogFilters =
  pf_topic :: jstr
  pf_query :: jstr
  pf_sort :: CatalogSort
  pf_page :: jnum

definition all_topics :: jstr where "all_topics = u ''all''"

definition phraseCatalogFilters :: "NavigationTarget \<Rightarrow> PhraseCatalogFilters" where
  "phraseCatalogFilters t =
     (let topic = trim (case nt_topic t of Some x \<Rightarrow> x | None \<Rightarrow> []); query = trim (case nt_query t of Some x \<Rightarrow> x | None \<Rightarrow> []) in
      \<lparr>pf_topic = (if topic \<noteq> [] then topic else all_topics),
       pf_query = query,
       pf_sort = (case nt_sort t of Some s \<Rightarrow> s | None \<Rightarrow> SortDefault),
       pf_page = (case nt_page t of Some p \<Rightarrow> if isSafeInteger p \<and> p > 1 then p else 1 | None \<Rightarrow> 1)\<rparr>)"

definition phraseCatalogTarget :: "PhraseCatalogFilters \<Rightarrow> jstr option \<Rightarrow> NavigationTarget" where
  "phraseCatalogTarget f detail =
     (let normalizedTopic = trim (pf_topic f); normalizedQuery = trim (pf_query f);
          normalizedDetail = (case detail of Some d \<Rightarrow> trim d | None \<Rightarrow> []) in
      (only_view PhrasesView)
        \<lparr>nt_topic := (if normalizedTopic \<noteq> [] \<and> normalizedTopic \<noteq> all_topics then Some normalizedTopic else None),
         nt_query := (if normalizedQuery \<noteq> [] then Some normalizedQuery else None),
         nt_sort := (if pf_sort f \<noteq> SortDefault then Some (pf_sort f) else None),
         nt_page := (if pf_page f > 1 then Some (pf_page f) else None),
         nt_detail := (if normalizedDetail \<noteq> [] then Some normalizedDetail else None)\<rparr>)"

section \<open>Sections of the dictionary\<close>

definition COLLECTION_SOURCES :: "NavigationSource list" where
  "COLLECTION_SOURCES = [SourceDailyLife, SourceTravel, SourceDataEngineering, SourceBackend]"

definition LABEL_TARGETS :: "(jstr \<times> NavigationTarget) list" where
  "LABEL_TARGETS = [([1074, 1089, 1077, 32, 1089, 1083, 1086, 1074, 1072], (only_view LearnView)\<lparr>nt_source := Some SourceMixed\<rparr>),
     ([1089, 1091, 1097, 1077, 1089, 1090, 1074, 1080, 1090, 1077, 1083, 1100, 1085, 1099, 1077], (only_view LearnView)\<lparr>nt_source := Some SourceNoun\<rparr>),
     ([1075, 1083, 1072, 1075, 1086, 1083, 1099], (only_view LearnView)\<lparr>nt_source := Some SourceVerb\<rparr>),
     ([1087, 1088, 1080, 1083, 1072, 1075, 1072, 1090, 1077, 1083, 1100, 1085, 1099, 1077], (only_view LearnView)\<lparr>nt_source := Some SourceAdjective\<rparr>),
     ([1090, 1077, 1093, 1085, 1080, 1095, 1077, 1089, 1082, 1080, 1077, 32, 1092, 1088, 1072, 1079, 1099], only_view PhrasesView)]"

text \<open>\<open>replace\<close> of every run of white space by one space.\<close>

fun squeeze_ws :: "jstr \<Rightarrow> jstr" where
  "squeeze_ws [] = []"
| "squeeze_ws [c] = [if js_ws c then 32 else c]"
| "squeeze_ws (c # d # s) = (if js_ws c \<and> js_ws d then squeeze_ws (d # s) else (if js_ws c then 32 else c) # squeeze_ws (d # s))"

definition normalizeLabel :: "(jstr \<Rightarrow> jstr) \<Rightarrow> jstr option \<Rightarrow> jstr" where
  "normalizeLabel lower_ru v = (case v of Some x \<Rightarrow> squeeze_ws (lower_ru (trim x)) | None \<Rightarrow> [])"

definition dictionaryNavigationTarget ::
  "(jstr \<Rightarrow> jstr) \<Rightarrow> jstr option \<Rightarrow> jstr option \<Rightarrow> NavigationTarget looked_up" where
  "dictionaryNavigationTarget lower_ru label collectionSource =
     (case Option.bind (map_option trim collectionSource) (literal source_text COLLECTION_SOURCES) of
        Some source \<Rightarrow> Own ((only_view LearnView)\<lparr>nt_source := Some source\<rparr>)
      | None \<Rightarrow> table_get LABEL_TARGETS (normalizeLabel lower_ru label))"

text \<open>A function or the prototype has no view, so the address of what is inherited is that of the home page.\<close>

definition dictionaryNavigationURL :: "(jstr \<Rightarrow> jstr) \<Rightarrow> jstr option \<Rightarrow> jstr option \<Rightarrow> js_exn + jstr option" where
  "dictionaryNavigationURL lower_ru label collectionSource =
     (case dictionaryNavigationTarget lower_ru label collectionSource of
        Own t \<Rightarrow> (case navigationURL t of Inl e \<Rightarrow> Inl e | Inr url \<Rightarrow> Inr (Some url))
      | Inherited k \<Rightarrow> Inr (Some (u ''/''))
      | NotThere \<Rightarrow> Inr None)"

section \<open>Pages: lemmas\<close>

lemma slice_index_nat [simp]: "slice_index n (jnat k) = min n k"
  by (simp add: Let_def)

lemma js_slice_nat: "js_slice (jnat a) (jnat b) xs = take (b - a) (drop a xs)"
proof (cases "a \<le> length xs")
  case True
  then show ?thesis
    by (cases "b \<le> length xs") (simp_all add: js_slice_def Let_def min_def)
next
  case False
  then show ?thesis by (simp add: js_slice_def Let_def)
qed

text \<open>How many pages of \<open>s\<close> entries hold \<open>n\<close> entries.\<close>

definition page_count :: "nat \<Rightarrow> nat \<Rightarrow> nat" where "page_count n s = (n + s - 1) div s"

lemma ceil_pages: "0 < s \<Longrightarrow> jceil (jdiv (jnat n) (jnat s)) = jnat (page_count n s)"
proof -
  assume s: "0 < s"
  have "\<lceil>(of_nat n :: rat) / of_nat s\<rceil> = int (page_count n s)"
  proof (rule ceiling_unique)
    have "(n + s - 1) div s * s + (n + s - 1) mod s = n + s - 1" by (rule div_mult_mod_eq)
    moreover have "(n + s - 1) mod s < s" using s by simp
    ultimately have "n \<le> page_count n s * s \<and> page_count n s * s \<le> n + s - 1" unfolding page_count_def using s by linarith
    then have "n \<le> page_count n s * s" "page_count n s * s < n + s" using s by auto
    then have le: "(of_nat n :: rat) \<le> of_nat (page_count n s) * of_nat s" "of_nat (page_count n s) * of_nat s < (of_nat n :: rat) + of_nat s"
      by (simp_all only: of_nat_mult [symmetric] of_nat_add [symmetric] of_nat_le_iff of_nat_less_iff)
    show "of_int (int (page_count n s)) - 1 < (of_nat n :: rat) / of_nat s"
      using s le(2) by (simp add: field_simps)
    show "(of_nat n :: rat) / of_nat s \<le> of_int (int (page_count n s))"
      using s le(1) by (simp add: field_simps)
  qed
  with s show ?thesis by simp
qed

lemma page_count_0 [simp]: "0 < s \<Longrightarrow> page_count n s = 0 \<longleftrightarrow> n = 0"
  by (auto simp: page_count_def div_eq_0_iff)

definition clamp_page :: "int \<Rightarrow> nat \<Rightarrow> nat" where "clamp_page z p = (if p = 0 then 1 else nat (min (max 1 z) (int p)))"

lemma paginate_closed:
  assumes s: "0 < s"
  shows "paginateCatalogEntries xs (jint z) (jnat s) =
    (let p = page_count (length xs) s; k = clamp_page z p in
     \<lparr>pc_items = take s (drop ((k - 1) * s) xs),
      pc_info = \<lparr>pi_total = jnat (length xs), pi_page = jnat k, pi_pageSize = jnat s, pi_totalPages = jnat p,
        pi_hasPrevious = 1 < k, pi_hasNext = k < p\<rparr>\<rparr>)"
proof -
  define p where "p = page_count (length xs) s"
  define k where "k = clamp_page z p"
  have k1: "1 \<le> k" by (cases "p = 0") (simp_all add: k_def clamp_page_def le_nat_iff)
  have tp: "(if jeq (jnat (length xs)) 0 then 0 else jceil (jdiv (jnat (length xs)) (jnat s))) = jnat p"
    using s by (simp only: ceil_pages [OF s]) (auto simp: p_def page_count_def)
  have pg: "(if jeq (jnat p) 0 then 1 else jmin (jmax 1 (jint z)) (jnat p)) = jnat k"
  proof (cases "p = 0")
    case False
    have "jmax 1 (jint z) = jint (max 1 z)" by simp
    moreover have "jmin (jint a) (jnat p) = jint (min a (int p))" for a
      by (simp add: min_def)
    ultimately show ?thesis using False by (simp add: k_def clamp_page_def)
  qed (simp add: k_def clamp_page_def)
  have st: "(jnat k - 1) * jnat s = jnat ((k - 1) * s)" using k1 by (simp add: of_nat_diff)
  have sl: "js_slice (jnat ((k - 1) * s)) (jnat ((k - 1) * s) + jnat s) xs = take s (drop ((k - 1) * s) xs)"
    using js_slice_nat [of "(k - 1) * s" "(k - 1) * s + s" xs] by simp
  have "(0 < jnat p \<and> jnat k < jnat p) = (k < p)" "(1 < jnat k) = (1 < k)" using k1 by auto
  then show ?thesis
    unfolding paginateCatalogEntries_def Let_def tp pg st sl by (simp add: p_def [symmetric] k_def [symmetric])
qed

lemma concat_pages: "concat (map (\<lambda>k. take s (drop (k * s) xs)) [0..<p]) = take (p * s) xs"
proof (induction p)
  case (Suc p)
  have "Suc p * s = p * s + s" by simp
  with Suc show ?case by (simp only: take_add) simp
qed simp

lemma pages_joined:
  assumes "0 < s"
  shows "concat (map (\<lambda>k. pc_items (paginateCatalogEntries xs (jnat (Suc k)) (jnat s))) [0..<page_count (length xs) s]) = xs"
proof -
  let ?p = "page_count (length xs) s"
  have "pc_items (paginateCatalogEntries xs (jnat (Suc k)) (jnat s)) = take s (drop (k * s) xs)" if "k < ?p" for k
  proof -
    have "clamp_page (int (Suc k)) ?p = Suc k" using that by (simp add: clamp_page_def)
    then show ?thesis using paginate_closed [OF assms, of xs "int (Suc k)"] by (simp add: Let_def)
  qed
  then have "map (\<lambda>k. pc_items (paginateCatalogEntries xs (jnat (Suc k)) (jnat s))) [0..<?p] = map (\<lambda>k. take s (drop (k * s) xs)) [0..<?p]"
    by (intro map_cong) auto
  moreover have "length xs \<le> ?p * s"
  proof -
    have "?p * s + (length xs + s - 1) mod s = length xs + s - 1" unfolding page_count_def by (rule div_mult_mod_eq)
    moreover have "(length xs + s - 1) mod s < s" using assms by simp
    ultimately show ?thesis by linarith
  qed
  ultimately show ?thesis using concat_pages [of s xs ?p] by (simp only:) simp
qed

text \<open>C18: The pages of a catalog are a partition of its entries: joined in their order they are the catalog, each
  holds at most the size of a page, says its own number and whether there is a page before and after it; any
  other requested page is the nearest one of them.\<close>

theorem pages_partition_catalog:
  assumes "0 < s"
  shows "\<exists>p. concat (map (\<lambda>k. pc_items (paginateCatalogEntries xs (jnat (Suc k)) (jnat s))) [0..<p]) = xs
    \<and> (\<forall>k<p. let page = paginateCatalogEntries xs (jnat (Suc k)) (jnat s) in
          pc_items page \<noteq> [] \<and> length (pc_items page) \<le> s \<and> pi_page (pc_info page) = jnat (Suc k)
          \<and> (pi_hasPrevious (pc_info page) \<longleftrightarrow> k \<noteq> 0) \<and> (pi_hasNext (pc_info page) \<longleftrightarrow> Suc k \<noteq> p))
    \<and> (\<forall>z. paginateCatalogEntries xs (jint z) (jnat s) = paginateCatalogEntries xs (jnat (clamp_page z p)) (jnat s)
          \<and> pi_totalPages (pc_info (paginateCatalogEntries xs (jint z) (jnat s))) = jnat p)"
proof (intro exI [of _ "page_count (length xs) s"] conjI allI impI)
  let ?p = "page_count (length xs) s"
  have at: "paginateCatalogEntries xs (jnat j) (jnat s) = paginateCatalogEntries xs (jint (int j)) (jnat s)" for j by simp
  have c: "clamp_page (int (Suc k)) ?p = Suc k" if "k < ?p" for k using that by (simp add: clamp_page_def)
  have len: "k < ?p \<Longrightarrow> k * s < length xs" for k
  proof -
    have m: "?p * s + (length xs + s - 1) mod s = length xs + s - 1" unfolding page_count_def by (rule div_mult_mod_eq)
    moreover have "(length xs + s - 1) mod s < s" using assms by simp
    assume "k < ?p"
    then have "Suc k * s \<le> ?p * s" by (intro mult_right_mono) auto
    with m assms show "k * s < length xs" by simp
  qed
  show "concat (map (\<lambda>k. pc_items (paginateCatalogEntries xs (jnat (Suc k)) (jnat s))) [0..<?p]) = xs"
    by (rule pages_joined [OF assms])
  fix k
  assume k: "k < ?p"
  show "let page = paginateCatalogEntries xs (jnat (Suc k)) (jnat s) in
      pc_items page \<noteq> [] \<and> length (pc_items page) \<le> s \<and> pi_page (pc_info page) = jnat (Suc k)
      \<and> (pi_hasPrevious (pc_info page) \<longleftrightarrow> k \<noteq> 0) \<and> (pi_hasNext (pc_info page) \<longleftrightarrow> Suc k \<noteq> ?p)"
    unfolding at paginate_closed [OF assms] Let_def c [OF k] using k len [OF k] assms by auto
next
  fix z
  let ?p = "page_count (length xs) s"
  have "clamp_page (int (clamp_page z ?p)) ?p = clamp_page z ?p" by (auto simp: clamp_page_def)
  then show "paginateCatalogEntries xs (jint z) (jnat s) = paginateCatalogEntries xs (jnat (clamp_page z ?p)) (jnat s)"
    using paginate_closed [OF assms, of xs "int (clamp_page z ?p)"] paginate_closed [OF assms, of xs z] by simp
  show "pi_totalPages (pc_info (paginateCatalogEntries xs (jint z) (jnat s))) = jnat ?p"
    by (simp add: paginate_closed [OF assms] Let_def)
qed

lemma pages_partition_catalog_witness:
  "\<exists>p. concat (map (\<lambda>k. pc_items (paginateCatalogEntries (u ''abcde'') (jnat (Suc k)) (jnat 2))) [0..<p]) = u ''abcde''"
  using pages_partition_catalog [of 2 "u ''abcde''"] by auto

text \<open>The numbers of a page read back from an answer that carries them are these numbers.\<close>

definition page_info_value :: "CatalogPageInfo \<Rightarrow> jval" where
  "page_info_value i = JObj [(u ''count'', JNum (pi_total i)), (u ''total'', JNum (pi_total i)), (u ''page'', JNum (pi_page i)),
     (u ''pageSize'', JNum (pi_pageSize i)), (u ''totalPages'', JNum (pi_totalPages i)),
     (u ''hasPrevious'', JBool (pi_hasPrevious i)), (u ''hasNext'', JBool (pi_hasNext i))]"

lemma page_info_read_back:
  assumes "0 < s"
  shows "catalogPageInfo (page_info_value (pc_info (paginateCatalogEntries xs (jint z) (jnat s)))) fallback
    = pc_info (paginateCatalogEntries xs (jint z) (jnat s))"
  using assms unfolding paginate_closed [OF assms] Let_def
  by (auto simp: catalogPageInfo_def page_info_value_def positiveInteger_def v_isInteger_def num_of_def Let_def clamp_page_def)

section \<open>Sorting: lemmas\<close>

text \<open>What the language says of \<open>localeCompare\<close>: its sign is that of a total preorder.\<close>

definition collation :: "(jstr \<Rightarrow> jstr \<Rightarrow> int) \<Rightarrow> bool" where
  "collation collate \<longleftrightarrow> (\<forall>a b. collate a b \<le> 0 \<longleftrightarrow> 0 \<le> collate b a)
     \<and> (\<forall>a b c. collate a b \<le> 0 \<longrightarrow> collate b c \<le> 0 \<longrightarrow> collate a c \<le> 0)"

lemma collation_steps:
  assumes "collation collate"
  shows "collate a b \<le> 0 \<longleftrightarrow> 0 \<le> collate b a" "collate a b \<le> 0 \<Longrightarrow> collate b c \<le> 0 \<Longrightarrow> collate a c \<le> 0"
    "collate a b < 0 \<Longrightarrow> collate b c \<le> 0 \<Longrightarrow> collate a c < 0" "collate a b \<le> 0 \<Longrightarrow> collate b c < 0 \<Longrightarrow> collate a c < 0"
proof -
  show s: "collate a b \<le> 0 \<longleftrightarrow> 0 \<le> collate b a" for a b using assms by (simp add: collation_def)
  show t: "collate a b \<le> 0 \<Longrightarrow> collate b c \<le> 0 \<Longrightarrow> collate a c \<le> 0" for a b c using assms unfolding collation_def by blast
  show "collate a b < 0 \<Longrightarrow> collate b c \<le> 0 \<Longrightarrow> collate a c < 0"
    using s [of a c] s [of b a] s [of c a] s [of a b] t [of b c a] t [of c a b] by linarith
  show "collate a b \<le> 0 \<Longrightarrow> collate b c < 0 \<Longrightarrow> collate a c < 0"
    using s [of a c] s [of c b] s [of c a] s [of b c] t [of c a b] t [of a b c] by linarith
qed

lemma entry_order_le:
  "entry_order collate l f mode x y \<le> 0 \<longleftrightarrow>
     (case mode of SortDefault \<Rightarrow> f x \<le> f y
      | SortAZ \<Rightarrow> collate (l x) (l y) < 0 \<or> collate (l x) (l y) = 0 \<and> f x \<le> f y
      | SortZA \<Rightarrow> collate (l x) (l y) > 0 \<or> collate (l x) (l y) = 0 \<and> f x \<le> f y)"
  by (cases mode) (auto simp: entry_order_def Let_def)

lemma entry_order_comparator:
  assumes "collation collate"
  shows "comparator (entry_order collate l f mode)"
proof
  note s = collation_steps [OF assms]
  show "entry_order collate l f mode x y \<le> 0 \<or> entry_order collate l f mode y x \<le> 0" for x y
    using s(1) [of "l x" "l y"] s(1) [of "l y" "l x"] unfolding entry_order_le by (cases mode; simp) linarith+
  show "entry_order collate l f mode x z \<le> 0"
    if a: "entry_order collate l f mode x y \<le> 0" "entry_order collate l f mode y z \<le> 0" for x y z
  proof -
    have zero: "collate a b = 0 \<Longrightarrow> collate b c = 0 \<Longrightarrow> collate a c = 0" for a b c
      using s(2) [of a b c] s(2) [of c b a] s(1) [of b a] s(1) [of c b] s(1) [of c a] by simp
    have pos: "collate a b > 0 \<longleftrightarrow> collate b a < 0" "collate a b = 0 \<longleftrightarrow> collate b a = 0" for a b
      using s(1) [of a b] s(1) [of b a] by linarith+
    have lt: "collate a b < 0 \<Longrightarrow> collate b c < 0 \<or> collate b c = 0 \<Longrightarrow> collate a c < 0"
      "collate a b = 0 \<Longrightarrow> collate b c < 0 \<Longrightarrow> collate a c < 0" for a b c
      using s(3) [of a b c] s(4) [of a b c] by auto
    have gt: "collate a b > 0 \<Longrightarrow> collate b c > 0 \<or> collate b c = 0 \<Longrightarrow> collate a c > 0"
      "collate a b = 0 \<Longrightarrow> collate b c > 0 \<Longrightarrow> collate a c > 0" for a b c
      using lt(1) [of c b a] lt(2) [of c b a] lt(1) [of c b a] pos by blast+
    show ?thesis
      using a lt [of "l x" "l y" "l z"] gt [of "l x" "l y" "l z"] zero [of "l x" "l y" "l z"] unfolding entry_order_le
      by (cases mode) auto
  qed
qed

lemma sorted_wrt_unique:
  "sorted_wrt R xs \<Longrightarrow> sorted_wrt R ys \<Longrightarrow> mset xs = mset ys \<Longrightarrow>
     (\<And>x y. x \<in> set xs \<Longrightarrow> y \<in> set xs \<Longrightarrow> R x y \<Longrightarrow> R y x \<Longrightarrow> x = y) \<Longrightarrow> xs = ys"
proof (induction xs arbitrary: ys)
  case (Cons x xs)
  obtain y ys' where ys: "ys = y # ys'" using Cons.prems(3) by (cases ys) auto
  have set: "set ys = set (x # xs)" using Cons.prems(3) by (metis set_mset_mset)
  have "x = y"
  proof (rule ccontr)
    assume ne: "x \<noteq> y"
    with set ys have "y \<in> set xs" "x \<in> set ys'" by auto
    with Cons.prems(1,2) ys have "R x y" "R y x" by auto
    with Cons.prems(4) [of x y] \<open>y \<in> set xs\<close> ne show False by simp
  qed
  moreover have "xs = ys'"
    using Cons.prems ys \<open>x = y\<close> by (intro Cons.IH) auto
  ultimately show ?case using ys by simp
qed simp

lemma sort_facts:
  assumes "collation collate" and "inj_on f (set xs)"
  shows "mset (sortCatalogEntries collate xs l f mode) = mset xs"
    and "sorted_wrt (\<lambda>x y. case mode of SortDefault \<Rightarrow> f x \<le> f y
      | SortAZ \<Rightarrow> collate (l x) (l y) < 0 \<or> collate (l x) (l y) = 0 \<and> f x \<le> f y
      | SortZA \<Rightarrow> collate (l x) (l y) > 0 \<or> collate (l x) (l y) = 0 \<and> f x \<le> f y) (sortCatalogEntries collate xs l f mode)"
    and "sortCatalogEntries collate (sortCatalogEntries collate xs l f other) l f mode = sortCatalogEntries collate xs l f mode"
proof -
  note c = entry_order_comparator [OF assms(1), of l f]
  let ?R = "\<lambda>m x y. entry_order collate l f m x y \<le> 0"
  have sorted: "sorted_wrt (?R m) (sortCatalogEntries collate ys l f m)" for ys m
    unfolding sortCatalogEntries_def by (rule comparator.sorted_js_sort [OF c])
  show "mset (sortCatalogEntries collate xs l f mode) = mset xs" by (simp add: sortCatalogEntries_def)
  show "sorted_wrt (\<lambda>x y. case mode of SortDefault \<Rightarrow> f x \<le> f y
      | SortAZ \<Rightarrow> collate (l x) (l y) < 0 \<or> collate (l x) (l y) = 0 \<and> f x \<le> f y
      | SortZA \<Rightarrow> collate (l x) (l y) > 0 \<or> collate (l x) (l y) = 0 \<and> f x \<le> f y) (sortCatalogEntries collate xs l f mode)"
    using sorted [of mode xs] unfolding entry_order_le .
  have anti: "x = y" if "x \<in> set xs" "y \<in> set xs" "?R mode x y" "?R mode y x" for x y
  proof -
    have "f x = f y"
      using that(3,4) collation_steps(1) [OF assms(1), of "l x" "l y"] collation_steps(1) [OF assms(1), of "l y" "l x"]
      unfolding entry_order_le by (cases mode) auto
    with that(1,2) assms(2) show ?thesis by (auto dest: inj_onD)
  qed
  show "sortCatalogEntries collate (sortCatalogEntries collate xs l f other) l f mode = sortCatalogEntries collate xs l f mode"
  proof (rule sorted_wrt_unique [OF sorted sorted])
    show "x = y" if "x \<in> set (sortCatalogEntries collate (sortCatalogEntries collate xs l f other) l f mode)"
        "y \<in> set (sortCatalogEntries collate (sortCatalogEntries collate xs l f other) l f mode)" "?R mode x y" "?R mode y x" for x y
      using that anti by (simp add: sortCatalogEntries_def)
  qed (simp add: sortCatalogEntries_def)
qed

text \<open>C19: Sorting the catalog keeps its entries, orders them by the label in the direction asked for with equal labels in
  their original order, and depends only on which entries there are: sorting what another order left gives the
  same list, so choosing the default order brings the original catalog back.\<close>

theorem catalog_sort_canonical:
  assumes "collation collate" and "inj_on f (set xs)"
  shows "mset (sortCatalogEntries collate xs l f mode) = mset xs
    \<and> sorted_wrt (\<lambda>x y. case mode of SortDefault \<Rightarrow> f x \<le> f y
      | SortAZ \<Rightarrow> collate (l x) (l y) < 0 \<or> collate (l x) (l y) = 0 \<and> f x \<le> f y
      | SortZA \<Rightarrow> collate (l x) (l y) > 0 \<or> collate (l x) (l y) = 0 \<and> f x \<le> f y) (sortCatalogEntries collate xs l f mode)
    \<and> sortCatalogEntries collate (sortCatalogEntries collate xs l f other) l f mode = sortCatalogEntries collate xs l f mode"
  by (intro conjI sort_facts [OF assms])

lemma catalog_sort_canonical_witness:
  "sortCatalogEntries (\<lambda>a b. int (length a) - int (length b))
     (sortCatalogEntries (\<lambda>a b. int (length a) - int (length b)) [(u ''bb'', 0), (u ''a'', 1)] fst snd SortAZ) fst snd SortDefault
   = [(u ''bb'', 0), (u ''a'', 1)]"
proof -
  have c: "collation (\<lambda>a b. int (length a) - int (length b))" by (auto simp: collation_def)
  have "inj_on snd (set [(u ''bb'', 0 :: int), (u ''a'', 1)])" by simp
  from catalog_sort_canonical [OF c this, of fst SortDefault SortAZ]
  have "sortCatalogEntries (\<lambda>a b. int (length a) - int (length b))
     (sortCatalogEntries (\<lambda>a b. int (length a) - int (length b)) [(u ''bb'', 0), (u ''a'', 1)] fst snd SortAZ) fst snd SortDefault
   = sortCatalogEntries (\<lambda>a b. int (length a) - int (length b)) [(u ''bb'', 0), (u ''a'', 1)] fst snd SortDefault" by (elim conjE)
  then show ?thesis by (simp add: sortCatalogEntries_def js_sort_def entry_order_def)
qed

section \<open>The forms of a count\<close>

text \<open>The two modules choose the form of a count by different tests that agree.\<close>

lemma russian_forms_agree: "russianCount ru (jnat n) (one, few, many) = ru (jnat n) @ [32] @ russianPlural (jnat n) one few many"
proof -
  have r: "jrem (jnat n) 100 = jnat (n mod 100)" "jrem (jnat n) 10 = jnat (n mod 10)" "jrem (jnat (n mod 100)) 10 = jnat (n mod 10)"
    using jrem_nat [of 100 n] jrem_nat [of 10 n] jrem_nat [of 10 "n mod 100"] by (simp_all add: mod_mod_cancel)
  define k where "k = n mod 100"
  have k: "k < 100" "n mod 10 = k mod 10" by (simp_all add: k_def mod_mod_cancel)
  have r4: "jrem (jnat k) 10 = jnat (k mod 10)" using jrem_nat [of 10 k] by simp
  have teen: "k mod 10 = k - 10" if "10 < k" "k < 20"
    using that le_mod_geq [of 10 k] by simp
  have a: "jabs (jnat n) = jnat n" by simp
  show ?thesis
    unfolding russianCount_def russianPlural_def a Let_def r k_def [symmetric] k(2) r4 fst_conv snd_conv
    by (cases "10 < k \<and> k < 20") (use teen in auto)
qed

section \<open>Filters and addresses\<close>

lemma only_view_fields [simp]:
  "nt_view (only_view v) = v" "nt_source (only_view v) = None" "nt_topic (only_view v) = None" "nt_status (only_view v) = None"
  "nt_query (only_view v) = None" "nt_sort (only_view v) = None" "nt_page (only_view v) = None" "nt_detail (only_view v) = None"
  by (simp_all add: only_view_def)

definition normal_filters :: "PhraseCatalogFilters \<Rightarrow> PhraseCatalogFilters" where
  "normal_filters f = \<lparr>pf_topic = (if trim (pf_topic f) = [] then all_topics else trim (pf_topic f)), pf_query = trim (pf_query f),
     pf_sort = pf_sort f, pf_page = (if isSafeInteger (pf_page f) \<and> pf_page f > 1 then pf_page f else 1)\<rparr>"

lemma filters_of_target: "phraseCatalogFilters (phraseCatalogTarget f d) = normal_filters f"
  by (auto simp: phraseCatalogFilters_def phraseCatalogTarget_def normal_filters_def Let_def all_topics_def)

lemma normal_filters_idem: "normal_filters (normal_filters f) = normal_filters f"
  by (simp add: normal_filters_def all_topics_def) (auto simp: trim_def u_def js_ws_def)

section \<open>Labels\<close>

text \<open>A label is a text, unless the key is the name of a member every object inherits.\<close>

lemma label_text:
  "normalizedKey lower_en (trim v) \<notin> u ` set OBJECT_MEMBERS \<Longrightarrow> \<exists>t. label_in lower_en table empty_label v = Own t"
  by (auto simp: label_in_def table_or_def table_get_def Let_def split: option.splits)

lemma inherited_label:
  assumes "lower_en (u ''constructor'') = u ''constructor''"
  shows "topicLabel lower_en (u ''constructor'') = Inherited (u ''constructor'')"
proof -
  have t: "trim (u ''constructor'') = u ''constructor''" by (simp add: trim_def u_def js_ws_def)
  have "map_of TOPIC_LABELS (u ''constructor'') = None" by (simp add: TOPIC_LABELS_def)
  then show ?thesis using t assms
    by (simp add: topicLabel_def label_in_def normalizedKey_def table_or_def table_get_def OBJECT_MEMBERS_def Let_def)
qed

section \<open>The type of the metadata\<close>

definition CatalogMetadata_type :: js_type where
  "CatalogMetadata_type = ObjT [(''catalogVersion'', False, StrT), (''updatedAt'', False, StrT),
     (''totals'', False, ObjT (map (\<lambda>k. (k, False, NumT)) [''items'', ''words'', ''phrases''])),
     (''sources'', False, ObjT (map (\<lambda>k. (k, False, NumT)) METADATA_SOURCE_KEYS)),
     (''topics'', False, ArrT (ObjT [(''topic'', False, StrT), (''count'', False, NumT), (''words'', True, NumT), (''phrases'', True, NumT)]))]"

lemma count_typed: "cm_isNonNegativeInteger v \<Longrightarrow> has_type NumT v"
  by (simp add: cm_isNonNegativeInteger_def number_typed)

lemma has_number_fields: "has_fields (map (\<lambda>k. (k, False, NumT)) ks) v \<longleftrightarrow> list_all (\<lambda>k. has_type NumT (jget v k)) ks"
  by (induction ks) auto

lemma topic_entry_typed:
  "topic_entry_ok e \<Longrightarrow> has_type (ObjT [(''topic'', False, StrT), (''count'', False, NumT), (''words'', True, NumT), (''phrases'', True, NumT)]) e"
  by (auto simp: topic_entry_ok_def count_typed)

text \<open>Accepted metadata has the declared type but for the date, which may be any value whose text is a date.\<close>

lemma metadata_typed:
  assumes "isCatalogMetadataPayload dp v"
  shows "has_type CatalogMetadata_type v \<longleftrightarrow> is_string (jget v ''updatedAt'')"
proof -
  have ks: "list_all (\<lambda>k. cm_isNonNegativeInteger (jget o' k)) ks \<Longrightarrow> list_all (\<lambda>k. has_type NumT (jget o' k)) ks" for o' ks
    by (auto simp: list_all_iff count_typed)
  show ?thesis
    using assms ks [of "jget v ''totals''" "[''items'', ''words'', ''phrases'']"] ks [of "jget v ''sources''" METADATA_SOURCE_KEYS]
      all_typed [OF topic_entry_typed, where xs = "arr_of (jget v ''topics'')"]
    unfolding isCatalogMetadataPayload_def CatalogMetadata_type_def has_type.simps has_fields.simps has_number_fields by blast
qed

lemma counts_are_counts:
  "isCatalogMetadataPayload dp m \<Longrightarrow> \<exists>n. catalogSourceCount m source = jnat n"
proof -
  assume a: "isCatalogMetadataPayload dp m"
  have "source_key source \<in> set METADATA_SOURCE_KEYS" by (cases source) (simp_all add: METADATA_SOURCE_KEYS_def)
  with a have "cm_isNonNegativeInteger (jget (jget m ''sources'') (source_key source))"
    by (auto simp: isCatalogMetadataPayload_def list_all_iff)
  then obtain x where x: "catalogSourceCount m source = x" "isInteger x" "0 \<le> x"
    by (auto simp: cm_isNonNegativeInteger_def catalogSourceCount_def v_isInteger_def num_of_def simp del: isInteger_iff split: jval.splits)
  then obtain z where "x = jint z" using isInteger_iff by blast
  with x have "catalogSourceCount m source = jint z" "0 \<le> z" by auto
  then show ?thesis by (intro exI [of _ "nat z"]) simp
qed


end
