(* ===== verification/Auth_Forms.thy ===== *)
theory Auth_Forms
  imports Catalog Learning
begin

text \<open>
  \<open>src/frontend/lib/auth-form.ts\<close> and \<open>auth-return.ts\<close>: what the forms of the sign-in page check and how they present
  a failed request, and the address that leads through the sign-in page back to where the learner was.  The parser of
  URLs is a parameter: \<open>standard_url\<close> says what it does with an address of plain characters.
\<close>

section \<open>The forms\<close>

datatype AuthMode = LoginMode | RegisterMode | ForgotMode | ResetMode
datatype AuthField = DisplayNameField | EmailField | PasswordField | ConfirmationField | TokenField
type_synonym AuthFieldErrors = "AuthField \<rightharpoonup> jstr"

record AuthValues =
  av_displayName :: jstr
  av_email :: jstr
  av_password :: jstr
  av_passwordConfirmation :: jstr
  av_token :: jstr

datatype requirement_id = LengthRequirement | ByteLengthRequirement | ControlRequirement

record PasswordRequirement =
  pr_id :: requirement_id
  pr_label :: jstr
  pr_met :: bool

text \<open>\<open>[^\s@]+\<close>\<close>

definition address_part :: "jstr \<Rightarrow> bool" where
  "address_part w \<longleftrightarrow> w \<noteq> [] \<and> (\<forall>c\<in>set w. \<not> js_ws c \<and> c \<noteq> 64)"

definition EMAIL_PATTERN :: "jstr \<Rightarrow> bool" where
  "EMAIL_PATTERN s \<longleftrightarrow>
     list_ex (\<lambda>i. s ! i = 64 \<and> address_part (take i s)
       \<and> (let r = drop (Suc i) s in
          list_ex (\<lambda>j. r ! j = 46 \<and> address_part (take j r) \<and> address_part (drop (Suc j) r)) [0..<length r])) [0..<length s]"

definition CONTROL_CHARACTER_PATTERN :: "jstr \<Rightarrow> bool" where
  "CONTROL_CHARACTER_PATTERN s \<longleftrightarrow> (\<exists>c\<in>set s. c < 32 \<or> 127 \<le> c \<and> c \<le> 159)"

definition unicodeLength :: "jstr \<Rightarrow> nat" where "unicodeLength v = length (chars_of v)"
definition byteLength :: "jstr \<Rightarrow> nat" where "byteLength v = length (utf8_bytes v)"

definition passwordRequirements :: "jstr \<Rightarrow> PasswordRequirement list" where
  "passwordRequirements v =
     [\<lparr>pr_id = LengthRequirement, pr_label = [1053, 1077, 32, 1084, 1077, 1085, 1077, 1077, 32, 49, 48, 32, 1089, 1080, 1084, 1074, 1086, 1083, 1086, 1074], pr_met = unicodeLength v \<ge> 10\<rparr>,
      \<lparr>pr_id = ByteLengthRequirement, pr_label = [1053, 1077, 32, 1073, 1086, 1083, 1077, 1077, 32, 55, 50, 32, 1073, 1072, 1081, 1090], pr_met = byteLength v \<le> 72\<rparr>,
      \<lparr>pr_id = ControlRequirement, pr_label = [1041, 1077, 1079, 32, 1091, 1087, 1088, 1072, 1074, 1083, 1103, 1102, 1097, 1080, 1093, 32, 1089, 1080, 1084, 1074, 1086, 1083, 1086, 1074], pr_met = \<not> CONTROL_CHARACTER_PATTERN v\<rparr>]"

definition email_error :: "jstr \<Rightarrow> jstr option" where
  "email_error email =
     (if email = [] then Some [1042, 1074, 1077, 1076, 1080, 1090, 1077, 32, 101, 109, 97, 105, 108, 46]
      else if \<not> EMAIL_PATTERN email then Some [1042, 1074, 1077, 1076, 1080, 1090, 1077, 32, 1082, 1086, 1088, 1088, 1077, 1082, 1090, 1085, 1099, 1081, 32, 101, 109, 97, 105, 108, 46] else None)"

definition name_error :: "jstr \<Rightarrow> jstr option" where
  "name_error name =
     (if name = [] then Some [1042, 1074, 1077, 1076, 1080, 1090, 1077, 32, 1080, 1084, 1103, 46]
      else if unicodeLength name < 2 then Some [1048, 1084, 1103, 32, 1076, 1086, 1083, 1078, 1085, 1086, 32, 1089, 1086, 1076, 1077, 1088, 1078, 1072, 1090, 1100, 32, 1084, 1080, 1085, 1080, 1084, 1091, 1084, 32, 50, 32, 1089, 1080, 1084, 1074, 1086, 1083, 1072, 46]
      else if unicodeLength name > 80 then Some [1048, 1084, 1103, 32, 1076, 1086, 1083, 1078, 1085, 1086, 32, 1089, 1086, 1076, 1077, 1088, 1078, 1072, 1090, 1100, 32, 1085, 1077, 32, 1073, 1086, 1083, 1077, 1077, 32, 56, 48, 32, 1089, 1080, 1084, 1074, 1086, 1083, 1086, 1074, 46]
      else if CONTROL_CHARACTER_PATTERN name then Some [1048, 1084, 1103, 32, 1089, 1086, 1076, 1077, 1088, 1078, 1080, 1090, 32, 1085, 1077, 1076, 1086, 1087, 1091, 1089, 1090, 1080, 1084, 1099, 1077, 32, 1089, 1080, 1084, 1074, 1086, 1083, 1099, 46] else None)"

definition password_error :: "AuthMode \<Rightarrow> jstr \<Rightarrow> jstr option" where
  "password_error mode password =
     (if password = [] then Some (if mode = LoginMode then [1042, 1074, 1077, 1076, 1080, 1090, 1077, 32, 1087, 1072, 1088, 1086, 1083, 1100, 46] else [1057, 1086, 1079, 1076, 1072, 1081, 1090, 1077, 32, 1087, 1072, 1088, 1086, 1083, 1100, 46])
      else if mode \<noteq> LoginMode then
        map_option (\<lambda>r. pr_label r @ [46]) (find (\<lambda>r. \<not> pr_met r) (passwordRequirements password))
      else None)"

definition confirmation_error :: "AuthValues \<Rightarrow> jstr option" where
  "confirmation_error v =
     (if av_passwordConfirmation v = [] then Some [1055, 1086, 1074, 1090, 1086, 1088, 1080, 1090, 1077, 32, 1087, 1072, 1088, 1086, 1083, 1100, 46]
      else if av_passwordConfirmation v \<noteq> av_password v then Some [1055, 1072, 1088, 1086, 1083, 1080, 32, 1085, 1077, 32, 1089, 1086, 1074, 1087, 1072, 1076, 1072, 1102, 1090, 46] else None)"

definition validateAuthValues :: "AuthMode \<Rightarrow> AuthValues \<Rightarrow> AuthFieldErrors" where
  "validateAuthValues mode v =
     (let errors = Map.empty(EmailField := (if mode \<noteq> ResetMode then email_error (trim (av_email v)) else None)) in
      if mode = ForgotMode then errors
      else
        let errors = (if mode = RegisterMode then errors(DisplayNameField := name_error (trim (av_displayName v))) else errors);
            errors = errors(PasswordField := password_error mode (av_password v));
            errors = (if mode = RegisterMode \<or> mode = ResetMode then errors(ConfirmationField := confirmation_error v) else errors) in
        if mode = ResetMode \<and> trim (av_token v) = []
        then errors(TokenField \<mapsto> [1057, 1089, 1099, 1083, 1082, 1072, 32, 1074, 1086, 1089, 1089, 1090, 1072, 1085, 1086, 1074, 1083, 1077, 1085, 1080, 1103, 32, 1085, 1077, 1087, 1086, 1083, 1085, 1072, 1103, 46, 32, 1047, 1072, 1087, 1088, 1086, 1089, 1080, 1090, 1077, 32, 1085, 1086, 1074, 1091, 1102, 46]) else errors)"

section \<open>Failed requests\<close>

record AuthFailurePresentation =
  ap_fieldErrors :: "AuthField \<rightharpoonup> jstr looked_up"
  ap_formError :: "jstr looked_up"

definition FIELD_MESSAGES :: "(jstr \<times> jstr) list" where
  "FIELD_MESSAGES = [(u ''email_invalid'', [1042, 1074, 1077, 1076, 1080, 1090, 1077, 32, 1082, 1086, 1088, 1088, 1077, 1082, 1090, 1085, 1099, 1081, 32, 101, 109, 97, 105, 108, 46]), (u ''email_taken'', [1040, 1082, 1082, 1072, 1091, 1085, 1090, 32, 1089, 32, 1090, 1072, 1082, 1080, 1084, 32, 101, 109, 97, 105, 108, 32, 1091, 1078, 1077, 32, 1089, 1091, 1097, 1077, 1089, 1090, 1074, 1091, 1077, 1090, 46]),
     (u ''display_name_required'', [1042, 1074, 1077, 1076, 1080, 1090, 1077, 32, 1080, 1084, 1103, 46]), (u ''display_name_too_short'', [1048, 1084, 1103, 32, 1076, 1086, 1083, 1078, 1085, 1086, 32, 1089, 1086, 1076, 1077, 1088, 1078, 1072, 1090, 1100, 32, 1084, 1080, 1085, 1080, 1084, 1091, 1084, 32, 50, 32, 1089, 1080, 1084, 1074, 1086, 1083, 1072, 46]),
     (u ''display_name_too_long'', [1048, 1084, 1103, 32, 1076, 1086, 1083, 1078, 1085, 1086, 32, 1089, 1086, 1076, 1077, 1088, 1078, 1072, 1090, 1100, 32, 1085, 1077, 32, 1073, 1086, 1083, 1077, 1077, 32, 56, 48, 32, 1089, 1080, 1084, 1074, 1086, 1083, 1086, 1074, 46]), (u ''display_name_invalid'', [1048, 1084, 1103, 32, 1089, 1086, 1076, 1077, 1088, 1078, 1080, 1090, 32, 1085, 1077, 1076, 1086, 1087, 1091, 1089, 1090, 1080, 1084, 1099, 1077, 32, 1089, 1080, 1084, 1074, 1086, 1083, 1099, 46]),
     (u ''password_too_short'', [1055, 1072, 1088, 1086, 1083, 1100, 32, 1076, 1086, 1083, 1078, 1077, 1085, 32, 1089, 1086, 1076, 1077, 1088, 1078, 1072, 1090, 1100, 32, 1084, 1080, 1085, 1080, 1084, 1091, 1084, 32, 49, 48, 32, 1089, 1080, 1084, 1074, 1086, 1083, 1086, 1074, 46]), (u ''password_too_long'', [1055, 1072, 1088, 1086, 1083, 1100, 32, 1087, 1088, 1077, 1074, 1099, 1096, 1072, 1077, 1090, 32, 1086, 1075, 1088, 1072, 1085, 1080, 1095, 1077, 1085, 1080, 1077, 32, 55, 50, 32, 1073, 1072, 1081, 1090, 1072, 46]),
     (u ''password_invalid'', [1055, 1072, 1088, 1086, 1083, 1100, 32, 1089, 1086, 1076, 1077, 1088, 1078, 1080, 1090, 32, 1085, 1077, 1076, 1086, 1087, 1091, 1089, 1090, 1080, 1084, 1099, 1077, 32, 1091, 1087, 1088, 1072, 1074, 1083, 1103, 1102, 1097, 1080, 1077, 32, 1089, 1080, 1084, 1074, 1086, 1083, 1099, 46]),
     (u ''password_reset_invalid'', [1057, 1089, 1099, 1083, 1082, 1072, 32, 1074, 1086, 1089, 1089, 1090, 1072, 1085, 1086, 1074, 1083, 1077, 1085, 1080, 1103, 32, 1085, 1077, 1076, 1077, 1081, 1089, 1090, 1074, 1080, 1090, 1077, 1083, 1100, 1085, 1072, 32, 1080, 1083, 1080, 32, 1091, 1078, 1077, 32, 1080, 1089, 1087, 1086, 1083, 1100, 1079, 1086, 1074, 1072, 1085, 1072, 46])]"

definition FORM_MESSAGES :: "(jstr \<times> jstr) list" where
  "FORM_MESSAGES = [(u ''invalid_credentials'', [1053, 1077, 1074, 1077, 1088, 1085, 1099, 1081, 32, 101, 109, 97, 105, 108, 32, 1080, 1083, 1080, 32, 1087, 1072, 1088, 1086, 1083, 1100, 46]), (u ''rate_limited'', [1057, 1083, 1080, 1096, 1082, 1086, 1084, 32, 1084, 1085, 1086, 1075, 1086, 32, 1087, 1086, 1087, 1099, 1090, 1086, 1082, 46, 32, 1055, 1086, 1074, 1090, 1086, 1088, 1080, 1090, 1077, 32, 1095, 1077, 1088, 1077, 1079, 32, 1084, 1080, 1085, 1091, 1090, 1091, 46]),
     (u ''password_reset_unavailable'', [1042, 1086, 1089, 1089, 1090, 1072, 1085, 1086, 1074, 1083, 1077, 1085, 1080, 1077, 32, 1087, 1072, 1088, 1086, 1083, 1103, 32, 1074, 1088, 1077, 1084, 1077, 1085, 1085, 1086, 32, 1085, 1077, 1076, 1086, 1089, 1090, 1091, 1087, 1085, 1086, 46]),
     (u ''invalid_request'', [1053, 1077, 32, 1091, 1076, 1072, 1083, 1086, 1089, 1100, 32, 1086, 1073, 1088, 1072, 1073, 1086, 1090, 1072, 1090, 1100, 32, 1076, 1072, 1085, 1085, 1099, 1077, 32, 1092, 1086, 1088, 1084, 1099, 46, 32, 1055, 1088, 1086, 1074, 1077, 1088, 1100, 1090, 1077, 32, 1087, 1086, 1083, 1103, 32, 1080, 32, 1087, 1086, 1074, 1090, 1086, 1088, 1080, 1090, 1077, 46]),
     (u ''internal_error'', [1057, 1077, 1088, 1074, 1080, 1089, 32, 1074, 1088, 1077, 1084, 1077, 1085, 1085, 1086, 32, 1085, 1077, 1076, 1086, 1089, 1090, 1091, 1087, 1077, 1085, 46, 32, 1055, 1086, 1074, 1090, 1086, 1088, 1080, 1090, 1077, 32, 1087, 1086, 1079, 1078, 1077, 46])]"

definition field_named :: "jstr \<Rightarrow> AuthField option" where
  "field_named s = map_of [(u ''displayName'', DisplayNameField), (u ''email'', EmailField), (u ''password'', PasswordField),
     (u ''passwordConfirmation'', ConfirmationField), (u ''token'', TokenField)] s"

definition fieldFromFailure :: "RequestFailure \<Rightarrow> AuthField option" where
  "fieldFromFailure f =
     (case field_named (rf_field f) of
        Some x \<Rightarrow> Some x
      | None \<Rightarrow>
          if has_prefix (rf_code f) (u ''display_name_'') then Some DisplayNameField
          else if has_prefix (rf_code f) (u ''email_'') then Some EmailField
          else if has_prefix (rf_code f) (u ''password_'') \<and> rf_code f \<noteq> u ''password_reset_invalid'' then Some PasswordField
          else if rf_code f = u ''password_reset_invalid'' then Some TokenField
          else None)"

definition presentAuthFailure :: "thrown \<Rightarrow> AuthFailurePresentation" where
  "presentAuthFailure x =
     (let form = (\<lambda>m. \<lparr>ap_fieldErrors = Map.empty, ap_formError = m\<rparr>) in
      case x of
        Failure f \<Rightarrow>
          (case (fieldFromFailure f, table_get FIELD_MESSAGES (rf_code f)) of
             (Some field, Own m) \<Rightarrow> \<lparr>ap_fieldErrors = [field \<mapsto> Own m], ap_formError = Own []\<rparr>
           | (Some field, Inherited k) \<Rightarrow> \<lparr>ap_fieldErrors = [field \<mapsto> Inherited k], ap_formError = Own []\<rparr>
           | _ \<Rightarrow>
               if rf_kind f = Offline then form (Own [1053, 1077, 1090, 32, 1087, 1086, 1076, 1082, 1083, 1102, 1095, 1077, 1085, 1080, 1103, 32, 1082, 32, 1089, 1077, 1090, 1080, 46, 32, 1055, 1088, 1086, 1074, 1077, 1088, 1100, 1090, 1077, 32, 1089, 1086, 1077, 1076, 1080, 1085, 1077, 1085, 1080, 1077, 32, 1080, 32, 1087, 1086, 1074, 1090, 1086, 1088, 1080, 1090, 1077, 46])
               else if rf_kind f = Timeout then form (Own [1057, 1077, 1088, 1074, 1077, 1088, 32, 1086, 1090, 1074, 1077, 1095, 1072, 1077, 1090, 32, 1089, 1083, 1080, 1096, 1082, 1086, 1084, 32, 1076, 1086, 1083, 1075, 1086, 46, 32, 1055, 1086, 1074, 1090, 1086, 1088, 1080, 1090, 1077, 32, 1079, 1072, 1087, 1088, 1086, 1089, 46])
               else form (table_or FORM_MESSAGES (rf_code f) [1053, 1077, 32, 1091, 1076, 1072, 1083, 1086, 1089, 1100, 32, 1074, 1099, 1087, 1086, 1083, 1085, 1080, 1090, 1100, 32, 1079, 1072, 1087, 1088, 1086, 1089, 46, 32, 1055, 1086, 1074, 1090, 1086, 1088, 1080, 1090, 1077, 32, 1087, 1086, 1079, 1078, 1077, 46]))
      | _ \<Rightarrow> form (Own [1053, 1077, 32, 1091, 1076, 1072, 1083, 1086, 1089, 1100, 32, 1074, 1099, 1087, 1086, 1083, 1085, 1080, 1090, 1100, 32, 1079, 1072, 1087, 1088, 1086, 1089, 46, 32, 1055, 1088, 1086, 1074, 1077, 1088, 1100, 1090, 1077, 32, 1089, 1086, 1077, 1076, 1080, 1085, 1077, 1085, 1080, 1077, 32, 1080, 32, 1087, 1086, 1074, 1090, 1086, 1088, 1080, 1090, 1077, 46]))"

definition isAcceptedResponse :: "jval \<Rightarrow> bool" where
  "isAcceptedResponse v \<longleftrightarrow> isRecord v \<and> jget v ''accepted'' = JBool True"

section \<open>The way back\<close>

definition RETURN_PARAMETER :: jstr where "RETURN_PARAMETER = u ''return_to''"
definition RETURN_BASE :: jstr where "RETURN_BASE = u ''https://lexigo.invalid''"
definition AUTHENTICATION_RETURN_VIEWS :: "AppView list" where
  "AUTHENTICATION_RETURN_VIEWS = [LibraryView, PhrasesView, OnboardingView]"

definition authenticationURL :: "NavigationTarget \<Rightarrow> js_exn + jstr" where
  "authenticationURL returnTarget =
     (case navigationURL returnTarget of
        Inl e \<Rightarrow> Inl e | Inr url \<Rightarrow> Inr (u ''/profile?'' @ params_text [(RETURN_PARAMETER, url)]))"

text \<open>\<open>parse_url raw\<close> is the origin, the path and the search of \<open>new URL(raw, RETURN_BASE)\<close>, if it does not throw.\<close>

definition catalogAuthenticationReturn :: "(jstr \<Rightarrow> (jstr \<times> jstr \<times> jstr) option) \<Rightarrow> jstr \<Rightarrow> NavigationTarget option" where
  "catalogAuthenticationReturn parse_url search =
     (case params_get (params_parse (if search \<noteq> [] \<and> hd search = 63 then tl search else search)) RETURN_PARAMETER of
        None \<Rightarrow> None
      | Some raw \<Rightarrow>
          if raw = [] \<or> \<not> has_prefix raw (u ''/'') \<or> has_prefix raw (u ''//'') then None
          else (case parse_url raw of
              None \<Rightarrow> None
            | Some (orig, path, query) \<Rightarrow>
                if orig \<noteq> RETURN_BASE \<or> \<not> isCanonicalRoutePath path then None
                else
                  let target = parseNavigation query path in
                  if nt_view target \<notin> set AUTHENTICATION_RETURN_VIEWS then None else Some target))"

section \<open>Forms: lemmas\<close>

lemma EMAIL_PATTERN_iff:
  "EMAIL_PATTERN s \<longleftrightarrow> (\<exists>a b c. s = a @ 64 # b @ 46 # c \<and> address_part a \<and> address_part b \<and> address_part c)"
proof
  assume "EMAIL_PATTERN s"
  then obtain i where i0: "i \<in> set [0..<length s]" and i1: "s ! i = 64" "address_part (take i s)"
    "list_ex (\<lambda>j. drop (Suc i) s ! j = 46 \<and> address_part (take j (drop (Suc i) s)) \<and> address_part (drop (Suc j) (drop (Suc i) s)))
       [0..<length (drop (Suc i) s)]"
    unfolding EMAIL_PATTERN_def Let_def list_ex_iff [where xs = "[0..<length s]"] by blast
  have "i < length s" using i0 by simp
  note i = this i1
  define r where "r = drop (Suc i) s"
  obtain j where j0: "j \<in> set [0..<length r]" and j1: "r ! j = 46" "address_part (take j r)" "address_part (drop (Suc j) r)"
    using i(4) unfolding r_def [symmetric] list_ex_iff by blast
  have "j < length r" using j0 by simp
  note j = this j1
  have "s = take i s @ 64 # r" using i(1,2) by (simp add: r_def id_take_nth_drop [symmetric] flip: i(2))
  moreover have "r = take j r @ 46 # drop (Suc j) r" using j(1,2) by (simp add: id_take_nth_drop [symmetric] flip: j(2))
  ultimately show "\<exists>a b c. s = a @ 64 # b @ 46 # c \<and> address_part a \<and> address_part b \<and> address_part c"
    using i(3) j(3,4) by metis
next
  assume "\<exists>a b c. s = a @ 64 # b @ 46 # c \<and> address_part a \<and> address_part b \<and> address_part c"
  then obtain a b c where s: "s = a @ 64 # b @ 46 # c" and p: "address_part a" "address_part b" "address_part c" by blast
  have r: "drop (Suc (length a)) s = b @ 46 # c" by (simp add: s)
  have "list_ex (\<lambda>j. (b @ 46 # c) ! j = 46 \<and> address_part (take j (b @ 46 # c)) \<and> address_part (drop (Suc j) (b @ 46 # c)))
      [0..<length (b @ 46 # c)]"
    unfolding list_ex_iff using p by (intro bexI [of _ "length b"]) (auto simp: nth_append)
  then show "EMAIL_PATTERN s"
    unfolding EMAIL_PATTERN_def Let_def list_ex_iff [where xs = "[0..<length s]"] using p
    by (intro bexI [of _ "length a"]) (auto simp: s nth_append)
qed

text \<open>An accepted address has one \<open>@\<close> and no white space.\<close>

lemma accepted_email: "EMAIL_PATTERN s \<Longrightarrow> count_list s 64 = 1 \<and> (\<forall>c\<in>set s. \<not> js_ws c)"
proof -
  assume "EMAIL_PATTERN s"
  then obtain a b c where s: "s = a @ 64 # b @ 46 # c" and p: "address_part a" "address_part b" "address_part c"
    using EMAIL_PATTERN_iff by blast
  have z: "count_list w 64 = 0" if "address_part w" for w
    using that by (simp add: address_part_def count_list_0_iff) blast
  have "count_list s 64 = 1" using z [OF p(1)] z [OF p(2)] z [OF p(3)] by (simp add: s)
  moreover have "\<not> js_ws 64" "\<not> js_ws 46" by (simp_all add: js_ws_def)
  then have "\<forall>c\<in>set s. \<not> js_ws c" using p by (auto simp: s address_part_def)
  ultimately show ?thesis by blast
qed

text \<open>A form without errors holds what the server asks of a new account.\<close>

lemma registration_accepted:
  assumes "validateAuthValues RegisterMode v = Map.empty"
  shows "EMAIL_PATTERN (trim (av_email v)) \<and> unicodeLength (trim (av_displayName v)) \<in> {2..80}
    \<and> 10 \<le> unicodeLength (av_password v) \<and> byteLength (av_password v) \<le> 72
    \<and> \<not> CONTROL_CHARACTER_PATTERN (av_password v) \<and> \<not> CONTROL_CHARACTER_PATTERN (trim (av_displayName v))
    \<and> av_passwordConfirmation v = av_password v"
proof -
  have f: "validateAuthValues RegisterMode v EmailField = email_error (trim (av_email v))"
    "validateAuthValues RegisterMode v DisplayNameField = name_error (trim (av_displayName v))"
    "validateAuthValues RegisterMode v PasswordField = password_error RegisterMode (av_password v)"
    "validateAuthValues RegisterMode v ConfirmationField = confirmation_error v"
    by (simp_all add: validateAuthValues_def Let_def)
  have "EMAIL_PATTERN (trim (av_email v))"
    using f(1) unfolding assms email_error_def by (simp split: if_splits)
  moreover have "unicodeLength (trim (av_displayName v)) \<in> {2..80}" "\<not> CONTROL_CHARACTER_PATTERN (trim (av_displayName v))"
    using f(2) unfolding assms name_error_def by (simp_all split: if_splits)
  moreover have "find (\<lambda>r. \<not> pr_met r) (passwordRequirements (av_password v)) = None"
    using f(3) unfolding assms password_error_def by (simp split: if_splits)
  then have "10 \<le> unicodeLength (av_password v)" "byteLength (av_password v) \<le> 72" "\<not> CONTROL_CHARACTER_PATTERN (av_password v)"
    unfolding passwordRequirements_def by (simp_all split: if_splits)
  moreover have "av_passwordConfirmation v = av_password v"
    using f(4) unfolding assms confirmation_error_def by (simp split: if_splits)
  ultimately show ?thesis by blast
qed

text \<open>A failure is shown once: beside one field, or above the form.\<close>

lemma failure_shown_once:
  "(\<exists>field m. ap_fieldErrors (presentAuthFailure x) = [field \<mapsto> m] \<and> m \<noteq> Own [] \<and> ap_formError (presentAuthFailure x) = Own [])
   \<or> ap_fieldErrors (presentAuthFailure x) = Map.empty \<and> ap_formError (presentAuthFailure x) \<noteq> Own []"
proof -
  have t: "table_get FIELD_MESSAGES k \<noteq> Own []" for k
    by (auto simp: table_get_def FIELD_MESSAGES_def split: option.splits if_splits)
  have o': "table_or FORM_MESSAGES k [1053, 1077, 32, 1091, 1076, 1072, 1083, 1086, 1089, 1100, 32, 1074, 1099, 1087, 1086, 1083, 1085, 1080, 1090, 1100, 32, 1079, 1072, 1087, 1088, 1086, 1089, 46, 32, 1055, 1086, 1074, 1090, 1086, 1088, 1080, 1090, 1077, 32, 1087, 1086, 1079, 1078, 1077, 46] \<noteq> Own []" for k
    by (auto simp: table_or_def table_get_def FORM_MESSAGES_def split: option.splits if_splits)
  show ?thesis
  proof (cases x)
    case (Failure f)
    then show ?thesis using t [of "rf_code f"] o' [of "rf_code f"]
      by (cases "fieldFromFailure f"; cases "table_get FIELD_MESSAGES (rf_code f)") (auto simp: presentAuthFailure_def Let_def)
  qed (simp_all add: presentAuthFailure_def Let_def)
qed

section \<open>The way back: lemmas\<close>

definition DOT_SEGMENTS :: "jstr list" where
  "DOT_SEGMENTS = map u [''.'', ''..'', ''%2e'', ''%2E'', ''.%2e'', ''.%2E'', ''%2e.'', ''%2E.'', ''%2e%2e'', ''%2e%2E'', ''%2E%2e'', ''%2E%2E'']"

definition form_char :: "nat \<Rightarrow> bool" where "form_char c \<longleftrightarrow> is_alnum c \<or> c \<in> {37, 38, 42, 43, 45, 46, 61, 95}"

definition plain_path :: "jstr \<Rightarrow> bool" where
  "plain_path p \<longleftrightarrow> has_prefix p (u ''/'') \<and> \<not> has_prefix p (u ''//'') \<and> (\<forall>c\<in>set p. encoded_char c \<or> c = 47)
     \<and> (\<forall>seg\<in>set (split_on 47 p). seg \<notin> set DOT_SEGMENTS)"

definition plain_query :: "jstr \<Rightarrow> bool" where
  "plain_query q \<longleftrightarrow> q = [] \<or> (\<exists>r. q = 63 # r \<and> r \<noteq> [] \<and> (\<forall>c\<in>set r. form_char c))"

text \<open>What the URL standard says of an address whose characters are not changed by the parser and whose path has no
  dot segment.\<close>

definition standard_url :: "(jstr \<Rightarrow> (jstr \<times> jstr \<times> jstr) option) \<Rightarrow> bool" where
  "standard_url parse_url \<longleftrightarrow> (\<forall>p q. plain_path p \<longrightarrow> plain_query q \<longrightarrow> parse_url (p @ q) = Some (RETURN_BASE, p, q))"

lemma dot_decodes: "seg \<in> set DOT_SEGMENTS \<Longrightarrow> decodeURIComponent seg \<in> {Inr (u ''.''), Inr (u ''..'')}"
  by (auto simp: DOT_SEGMENTS_def u_def decodeURIComponent_def strict_utf8_def Js_Uri.hex_val_def utf16_of_def)

lemma plain_segment:
  assumes "seg_ok seg" "seg \<notin> set DOT_SEGMENTS" "lead \<in> {''/phrases/'', ''/words/''}"
  shows "plain_path (u lead @ seg)"
proof -
  have s: "47 \<notin> set seg" using segment_facts [OF assms(1)] by blast
  have "\<forall>c\<in>set seg. encoded_char c" using assms(1) by (simp add: seg_ok_def)
  moreover have "u ''/phrases/'' @ seg = [] @ 47 # (u ''phrases'' @ 47 # seg)" "u ''/words/'' @ seg = [] @ 47 # (u ''words'' @ 47 # seg)"
    by (simp_all add: u_def)
  moreover have "47 \<notin> set (u ''phrases'')" "47 \<notin> set (u ''words'')" by (simp_all add: u_def)
  ultimately show ?thesis
    using assms(2,3) s
    by (auto simp: plain_path_def has_prefix_def split_on_append split_on_no_sep DOT_SEGMENTS_def simp del: append_Nil)
      (auto simp: u_def encoded_char_def is_alnum_def)
qed

lemma plain_pages: "plain_path (u ''/dictionary'')" "plain_path (u ''/phrases'')" "plain_path (u ''/onboarding'')"
  by (simp_all add: plain_path_def has_prefix_def u_def encoded_char_def is_alnum_def DOT_SEGMENTS_def)

lemma canonical_pages:
  "isCanonicalRoutePath (u ''/dictionary'')" "isCanonicalRoutePath (u ''/phrases'')" "isCanonicalRoutePath (u ''/onboarding'')"
proof -
  have n: "normalizePathname (u ''/dictionary'') = u ''/dictionary''" "normalizePathname (u ''/phrases'') = u ''/phrases''"
    "normalizePathname (u ''/onboarding'') = u ''/onboarding''"
    by (simp_all add: normalizePathname_def strip_slashes_def trim_def js_ws_def Let_def u_def)
  have "PRIMARY_PATHS LibraryView \<in> PRIMARY_PATHS ` set VIEWS" "PRIMARY_PATHS PhrasesView \<in> PRIMARY_PATHS ` set VIEWS"
    "PRIMARY_PATHS OnboardingView \<in> PRIMARY_PATHS ` set VIEWS"
    by (simp_all add: VIEWS_def)
  then show "isCanonicalRoutePath (u ''/dictionary'')" "isCanonicalRoutePath (u ''/phrases'')" "isCanonicalRoutePath (u ''/onboarding'')"
    unfolding isCanonicalRoutePath_def n Let_def PRIMARY_PATHS.simps by blast+
qed

lemma canonical_segment:
  assumes "seg_ok seg"
  shows "isCanonicalRoutePath (u ''/phrases/'' @ seg)" "isCanonicalRoutePath (u ''/words/'' @ seg) \<longleftrightarrow> word_number seg"
proof -
  have f: "seg \<noteq> []" "47 \<notin> set seg" using segment_facts [OF assms] by auto
  have n: "normalizePathname (u ''/phrases/'' @ seg) = u ''/phrases/'' @ seg" "normalizePathname (u ''/words/'' @ seg) = u ''/words/'' @ seg"
    by (rule segment_path [OF assms], simp, simp add: u_def)+
  have seg: "segment_after ''/phrases/'' (u ''/phrases/'' @ seg) = Some seg" "segment_after ''/words/'' (u ''/words/'' @ seg) = Some seg"
    "segment_after ''/phrases/'' (u ''/words/'' @ seg) = None" "segment_after ''/scenarios/'' (u ''/words/'' @ seg) = None"
    using f unfolding segment_after_def Let_def by (simp_all add: u_def)
  have "Some (u ''/words/'' @ seg) \<notin> PRIMARY_PATHS ` set VIEWS"
    by (simp add: VIEWS_def u_def)
  then show "isCanonicalRoutePath (u ''/phrases/'' @ seg)" "isCanonicalRoutePath (u ''/words/'' @ seg) \<longleftrightarrow> word_number seg"
    unfolding isCanonicalRoutePath_def n Let_def seg by (simp_all add: u_def)
qed

text \<open>The page an address leads to, for the views of the catalogs and the onboarding.\<close>

lemma returned_path:
  assumes "normal_target t" "encodable t" "nt_view t \<in> set AUTHENTICATION_RETURN_VIEWS"
    "nt_detail t \<noteq> Some (u ''.'')" "nt_detail t \<noteq> Some (u ''..'')"
  shows "\<exists>p. routePath t = Inr p \<and> plain_path p \<and> (isCanonicalRoutePath p \<longleftrightarrow> nt_view (canonical_target t) \<noteq> HomeView)"
proof -
  have n: "normalized_target t = t" using normalize_normal [OF assms(1)] by (simp add: normalized_target_def)
  have seg: "\<exists>seg. encodedPathSegment d = Inr seg \<and> seg_ok seg \<and> seg \<notin> set DOT_SEGMENTS" if "nt_detail t = Some d" for d
  proof -
    have d: "route_value d" "wf16 d" using assms(1,2) that by (auto simp: normal_target_def encodable_def)
    obtain seg where s: "encodedPathSegment d = Inr seg" "seg_ok seg" "normalizedText (JStr (safeDecodePathSegment seg)) = Some d"
      using encoded_segment [OF d] by blast
    have "seg \<notin> set DOT_SEGMENTS"
    proof
      assume "seg \<in> set DOT_SEGMENTS"
      from dot_decodes [OF this] s(3) have "d \<in> {u ''.'', u ''..''}"
        by (auto simp: safeDecodePathSegment_def normalizedText_def Let_def trim_def js_ws_def u_def split: if_splits)
      with that assms(4,5) show False by auto
    qed
    with s show ?thesis by blast
  qed
  have digits: "d \<notin> set DOT_SEGMENTS" if "all_digits d" for d
    using that by (auto simp: DOT_SEGMENTS_def all_digits_def is_digit_def u_def)
  consider "nt_view t = LibraryView" | "nt_view t = PhrasesView" | "nt_view t = OnboardingView"
    using assms(3) by (auto simp: AUTHENTICATION_RETURN_VIEWS_def)
  then show ?thesis
  proof cases
    case 1
    show ?thesis
    proof (cases "nt_detail t")
      case None
      with 1 show ?thesis
        using plain_pages canonical_pages by (simp add: routePath_def n canonical_target_def path_part_def)
    next
      case (Some d)
      with 1 show ?thesis
        using plain_pages canonical_pages plain_segment [OF digits_segment digits, of d "''/words/''"] canonical_segment(2) [OF digits_segment, of d]
        by (cases "all_digits d"; cases "word_number d") (simp_all add: routePath_def n canonical_target_def path_part_def)
    qed
  next
    case 2
    show ?thesis
    proof (cases "nt_detail t")
      case None
      with 2 show ?thesis
        using plain_pages canonical_pages by (simp add: routePath_def n canonical_target_def path_part_def)
    next
      case (Some d)
      obtain seg where "encodedPathSegment d = Inr seg" "seg_ok seg" "seg \<notin> set DOT_SEGMENTS" using seg [OF Some] by blast
      with 2 Some show ?thesis
        using plain_segment [of seg "''/phrases/''"] canonical_segment(1) [of seg]
        by (simp add: routePath_def n canonical_target_def path_part_def under_def)
    qed
  next
    case 3
    then show ?thesis
      using plain_pages canonical_pages by (simp add: routePath_def n canonical_target_def path_part_def)
  qed
qed

lemma form_enc_form_char: "wf16 s \<Longrightarrow> c \<in> set (form_enc s) \<Longrightarrow> form_char c"
  using utf8_bytes_small [of s] form_byte_set by (fastforce simp: form_enc_def form_char_def)

lemma params_text_chars: "wf_params ps \<Longrightarrow> c \<in> set (params_text ps) \<Longrightarrow> form_char c"
proof -
  assume w: "wf_params ps" and c: "c \<in> set (params_text ps)"
  have sub: "c \<in> set (join [38] es) \<Longrightarrow> c = 38 \<or> (\<exists>e\<in>set es. c \<in> set e)" for es
    by (induction es rule: induct_list012) auto
  from sub [OF c [unfolded params_text_def]] w form_enc_form_char show ?thesis
    by (fastforce simp: form_char_def)
qed

lemma query_part_plain: "normal_target t \<Longrightarrow> encodable t \<Longrightarrow> plain_query (query_part t)"
  using params_text_chars [OF wf_navigation_params] by (auto simp: plain_query_def query_part_def)

lemma plain_wf16: "plain_path p \<Longrightarrow> plain_query q \<Longrightarrow> wf16 (p @ q)"
proof -
  assume p: "plain_path p" and q: "plain_query q"
  have "encoded_char c \<Longrightarrow> c < 128" "form_char c \<Longrightarrow> c < 128" for c
    by (auto simp: encoded_char_def form_char_def is_alnum_def)
  then have "\<forall>c\<in>set p. c < 128" "\<forall>c\<in>set q. c < 128"
    using p q unfolding plain_path_def plain_query_def by fastforce+
  then show ?thesis by (intro wf16_ascii) (auto simp: ascii_def)
qed

text \<open>C20: The way through the sign-in page leads back: the address a page of the catalogs or the onboarding passes to the
  sign-in page is read there as that page, with its filters, its page and its detail (the canonical target); only
  an address that names no word of the dictionary gives nothing.  A detail of one or two dots is excluded, because the
  parser of URLs removes such a segment.\<close>

theorem sign_in_leads_back:
  assumes "normal_target t" "encodable t" "nt_view t \<in> set AUTHENTICATION_RETURN_VIEWS"
    and "nt_detail t \<noteq> Some (u ''.'')" "nt_detail t \<noteq> Some (u ''..'')" and "standard_url parse_url"
  shows "\<exists>search. authenticationURL t = Inr (u ''/profile'' @ search) \<and> hd search = 63
    \<and> catalogAuthenticationReturn parse_url search
        = (if nt_view (canonical_target t) = HomeView then None else Some (canonical_target t))"
proof -
  obtain p where p: "routePath t = Inr p" "plain_path p" "isCanonicalRoutePath p \<longleftrightarrow> nt_view (canonical_target t) \<noteq> HomeView"
    using returned_path [OF assms(1-5)] by blast
  define q where "q = query_part t"
  note a = address_reads_back [OF assms(1,2) p(1), folded q_def]
  have q: "plain_query q" unfolding q_def by (rule query_part_plain [OF assms(1,2)])
  define r where "r = params_text [(RETURN_PARAMETER, p @ q)]"
  have auth: "authenticationURL t = Inr (u ''/profile'' @ 63 # r)" by (simp add: authenticationURL_def a(1) r_def) (simp add: u_def)
  have "wf16 RETURN_PARAMETER" by (rule wf16_ascii) (simp add: RETURN_PARAMETER_def ascii_def u_def)
  then have "params_parse r = [(RETURN_PARAMETER, p @ q)]"
    unfolding r_def using plain_wf16 [OF p(2) q] by (intro params_of_text) simp
  moreover have "has_prefix (p @ q) (u ''/'')" "p @ q \<noteq> []" "\<not> has_prefix (p @ q) (u ''//'')"
    using p(2) q by (auto simp: plain_path_def plain_query_def has_prefix_def u_def take_Cons' split: if_splits) (cases p; auto)+
  moreover have "parse_url (p @ q) = Some (RETURN_BASE, p, q)" using assms(6) p(2) q by (simp add: standard_url_def)
  moreover have "nt_view (canonical_target t) \<in> {HomeView} \<union> set AUTHENTICATION_RETURN_VIEWS"
    using assms(3) by (auto simp: canonical_target_def path_part_def AUTHENTICATION_RETURN_VIEWS_def split: option.splits if_splits)
  moreover have "HomeView \<notin> set AUTHENTICATION_RETURN_VIEWS" by (simp add: AUTHENTICATION_RETURN_VIEWS_def)
  ultimately have "catalogAuthenticationReturn parse_url (63 # r)
      = (if nt_view (canonical_target t) = HomeView then None else Some (canonical_target t))"
    using p(3) a(3) by (auto simp: catalogAuthenticationReturn_def params_get_def Let_def)
  with auth show ?thesis by (intro exI [of _ "63 # r"]) simp
qed

definition split_address :: "jstr \<Rightarrow> (jstr \<times> jstr \<times> jstr) option" where
  "split_address raw = Some (RETURN_BASE, takeWhile (\<lambda>c. c \<noteq> 63) raw, dropWhile (\<lambda>c. c \<noteq> 63) raw)"

lemma split_address_standard: "standard_url split_address"
proof -
  have "63 \<notin> set p" if "plain_path p" for p using that by (auto simp: plain_path_def encoded_char_def is_alnum_def)
  then have t: "takeWhile (\<lambda>c. c \<noteq> 63) (p @ q) = p @ takeWhile (\<lambda>c. c \<noteq> 63) q" "dropWhile (\<lambda>c. c \<noteq> 63) (p @ q) = dropWhile (\<lambda>c. c \<noteq> 63) q"
    if "plain_path p" for p q using that by (auto intro!: takeWhile_append2 dropWhile_append2)
  show ?thesis unfolding standard_url_def split_address_def using t by (auto simp: plain_query_def)
qed

lemma sign_in_leads_back_witness:
  "\<exists>search. authenticationURL sample_target = Inr (u ''/profile'' @ search)
    \<and> catalogAuthenticationReturn split_address search
        = Some ((only_view PhrasesView)\<lparr>nt_topic := Some (u ''a b''), nt_page := Some (Fin 2), nt_detail := Some (u ''x/y'')\<rparr>)"
proof -
  have "canonical_target sample_target
      = (only_view PhrasesView)\<lparr>nt_topic := Some (u ''a b''), nt_page := Some (Fin 2), nt_detail := Some (u ''x/y'')\<rparr>"
    by (simp add: canonical_target_def path_part_def sample_target_def only_view_def)
  moreover have "nt_view sample_target \<in> set AUTHENTICATION_RETURN_VIEWS" "nt_detail sample_target \<noteq> Some (u ''.'')"
    "nt_detail sample_target \<noteq> Some (u ''..'')"
    by (simp_all add: sample_target_def only_view_def AUTHENTICATION_RETURN_VIEWS_def)
  ultimately show ?thesis
    using sign_in_leads_back [OF sample_target_ok _ _ _ split_address_standard] by (auto simp: only_view_def)
qed

end
