(* ===== verification/Phrase_Data.thy ===== *)
theory Phrase_Data
  imports Learning
begin

text \<open>
  The phrases that are built into the client: \<open>src/frontend/lib/technical-phrases.ts\<close> and the four tables joined by
  \<open>expanded-phrases.ts\<close>.  A text is its UTF-16 code units; runs of ASCII are written as text.
\<close>

section \<open>The technical phrases\<close>

text \<open>One entry of the table: identifier, prompt, answer, topic, example, note and cloze; the other properties are
  the same in every entry.\<close>

definition phrase_item :: "jstr \<Rightarrow> jstr \<Rightarrow> jstr \<Rightarrow> jstr \<Rightarrow> jstr \<Rightarrow> jstr \<Rightarrow> jstr \<Rightarrow> jstr option \<Rightarrow> LearningItem" where
  "phrase_item ident prompt answer topic example note cloze clozeAnswer =
     \<lparr>it_id = ident, it_wordId = None, it_kind = PhraseItem, it_slug = None, it_prompt = prompt, it_answer = answer,
      it_phonetic = [], it_partOfSpeech = u ''phrase'', it_section = PhraseSection, it_topic = topic, it_aliases = None,
      it_acceptedAnswers = None, it_examples = [example], it_note = note, it_status = u ''phrase'',
      it_selectionReason = None, it_cloze = Some cloze, it_clozeAnswer = clozeAnswer\<rparr>"

definition TECHNICAL_PHRASES :: "LearningItem list" where
  "TECHNICAL_PHRASES =
    [phrase_item (u ''phrase-root-cause'') (u ''We need to identify the root cause.'')
       ([1053, 1072, 1084, 32, 1085, 1091, 1078, 1085, 1086, 32, 1086, 1087, 1088, 1077, 1076, 1077, 1083, 1080, 1090, 1100, 32, 1087, 1077, 1088, 1074, 1086, 1087, 1088, 1080, 1095, 1080, 1085, 1091, 46])
       (u ''Incidents'') (u ''Before applying another workaround, we need to identify the root cause.'')
       (u ''root cause '' @ [8212, 32, 1087, 1077, 1088, 1074, 1086, 1087, 1088, 1080, 1095, 1080, 1085, 1072, 44, 32, 1072, 32, 1085, 1077, 32, 1087, 1088, 1086, 1089, 1090, 1086, 32, 1085, 1072, 1073, 1083, 1102, 1076, 1072, 1077, 1084, 1099, 1081, 32, 1089, 1080, 1084, 1087, 1090, 1086, 1084])
       (u ''We need to identify the _____ cause.'') None,
     phrase_item (u ''phrase-reproducible'') (u ''The issue is reproducible in production.'')
       ([1055, 1088, 1086, 1073, 1083, 1077, 1084, 1072, 32, 1074, 1086, 1089, 1087, 1088, 1086, 1080, 1079, 1074, 1086, 1076, 1080, 1090, 1089, 1103, 32, 1074, 32] @ u ''production.'')
       (u ''Incidents'') (u ''The issue is reproducible in production but not in staging.'')
       (u ''reproducible '' @ [8212, 32, 1089, 1090, 1072, 1073, 1080, 1083, 1100, 1085, 1086, 32, 1074, 1086, 1089, 1087, 1088, 1086, 1080, 1079, 1074, 1086, 1076, 1080, 1084, 1099, 1081])
       (u ''The issue is _____ in production.'') None,
     phrase_item (u ''phrase-degraded'') (u ''The service is currently degraded.'')
       ([1057, 1077, 1088, 1074, 1080, 1089, 32, 1089, 1077, 1081, 1095, 1072, 1089, 32, 1088, 1072, 1073, 1086, 1090, 1072, 1077, 1090, 32, 1089, 32, 1091, 1093, 1091, 1076, 1096, 1077, 1085, 1085, 1099, 1084, 32, 1082, 1072, 1095, 1077, 1089, 1090, 1074, 1086, 1084, 46])
       (u ''Incidents'') (u ''The service is currently degraded, but requests are still being processed.'')
       (u ''degraded '' @ [1085, 1077, 32, 1086, 1073, 1103, 1079, 1072, 1090, 1077, 1083, 1100, 1085, 1086, 32, 1086, 1079, 1085, 1072, 1095, 1072, 1077, 1090, 32, 1087, 1086, 1083, 1085, 1099, 1081, 32] @ u ''outage'')
       (u ''The service is currently _____.'') None,
     phrase_item (u ''phrase-no-confirmed-root-cause'') (u ''There is no confirmed root cause yet.'')
       ([1055, 1086, 1076, 1090, 1074, 1077, 1088, 1078, 1076, 1105, 1085, 1085, 1086, 1081, 32, 1087, 1077, 1088, 1074, 1086, 1087, 1088, 1080, 1095, 1080, 1085, 1099, 32, 1087, 1086, 1082, 1072, 32, 1085, 1077, 1090, 46])
       (u ''Incidents'') (u ''The incident is resolved, but there is no confirmed root cause yet.'')
       ([1055, 1086, 1076, 1093, 1086, 1076, 1080, 1090, 32, 1076, 1083, 1103, 32, 1072, 1082, 1082, 1091, 1088, 1072, 1090, 1085, 1086, 1075, 1086, 32, 1089, 1090, 1072, 1090, 1091, 1089, 1072, 32, 1073, 1077, 1079, 32, 1087, 1088, 1077, 1078, 1076, 1077, 1074, 1088, 1077, 1084, 1077, 1085, 1085, 1099, 1093, 32, 1074, 1099, 1074, 1086, 1076, 1086, 1074, 46])
       (u ''There is no _____ root cause yet.'') None,
     phrase_item (u ''phrase-share-logs'') (u ''Could you share the relevant logs?'')
       ([1052, 1086, 1078, 1077, 1096, 1100, 32, 1087, 1088, 1080, 1089, 1083, 1072, 1090, 1100, 32, 1086, 1090, 1085, 1086, 1089, 1103, 1097, 1080, 1077, 1089, 1103, 32, 1082, 32, 1087, 1088, 1086, 1073, 1083, 1077, 1084, 1077, 32, 1083, 1086, 1075, 1080, 63])
       (u ''Troubleshooting'') (u ''Could you share the relevant logs and the exact timestamp?'')
       (u ''relevant logs '' @ [1079, 1074, 1091, 1095, 1080, 1090, 32, 1090, 1086, 1095, 1085, 1077, 1077, 44, 32, 1095, 1077, 1084, 32, 1087, 1088, 1086, 1089, 1090, 1086, 32] @ u ''logs'')
       (u ''Could you share the _____ logs?'') None,
     phrase_item (u ''phrase-walk-through'') (u ''Let's walk through the data flow.'')
       ([1044, 1072, 1074, 1072, 1081, 1090, 1077, 32, 1087, 1086, 1096, 1072, 1075, 1086, 1074, 1086, 32, 1088, 1072, 1079, 1073, 1077, 1088, 1105, 1084, 32, 1087, 1086, 1090, 1086, 1082, 32, 1076, 1072, 1085, 1085, 1099, 1093, 46])
       (u ''Architecture'') (u ''Let's walk through the data flow from NiFi to Greenplum.'')
       (u ''walk through '' @ [8212, 32, 1087, 1086, 1089, 1083, 1077, 1076, 1086, 1074, 1072, 1090, 1077, 1083, 1100, 1085, 1086, 32, 1088, 1072, 1079, 1086, 1073, 1088, 1072, 1090, 1100])
       (u ''Let's _____ through the data flow.'') None,
     phrase_item (u ''phrase-backward-compatible'') (u ''This change is backward-compatible.'')
       ([1069, 1090, 1086, 32, 1080, 1079, 1084, 1077, 1085, 1077, 1085, 1080, 1077, 32, 1086, 1073, 1088, 1072, 1090, 1085, 1086, 32, 1089, 1086, 1074, 1084, 1077, 1089, 1090, 1080, 1084, 1086, 46])
       (u ''Architecture'') (u ''The schema change is backward-compatible with the current consumers.'')
       (u ''backward-compatible '' @ [8212, 32, 1089, 1086, 1074, 1084, 1077, 1089, 1090, 1080, 1084, 1099, 1081, 32, 1089, 32, 1087, 1088, 1077, 1076, 1099, 1076, 1091, 1097, 1080, 1084, 1080, 32, 1074, 1077, 1088, 1089, 1080, 1103, 1084, 1080])
       (u ''This change is _____-compatible.'') None,
     phrase_item (u ''phrase-database-migration'') (u ''This change requires a database migration.'')
       ([1069, 1090, 1086, 32, 1080, 1079, 1084, 1077, 1085, 1077, 1085, 1080, 1077, 32, 1090, 1088, 1077, 1073, 1091, 1077, 1090, 32, 1084, 1080, 1075, 1088, 1072, 1094, 1080, 1080, 32, 1073, 1072, 1079, 1099, 32, 1076, 1072, 1085, 1085, 1099, 1093, 46])
       (u ''Architecture'') (u ''This change requires a database migration before the new API can start.'')
       (u ''requires '' @ [8212, 32, 1090, 1088, 1077, 1073, 1091, 1077, 1090, 44, 32] @ u ''prerequisite '' @ [8212, 32, 1087, 1088, 1077, 1076, 1074, 1072, 1088, 1080, 1090, 1077, 1083, 1100, 1085, 1086, 1077, 32, 1091, 1089, 1083, 1086, 1074, 1080, 1077])
       (u ''This change requires a database _____.'') None,
     phrase_item (u ''phrase-idempotent'') (u ''The job is idempotent.'')
       ([1047, 1072, 1076, 1072, 1095, 1072, 32, 1080, 1076, 1077, 1084, 1087, 1086, 1090, 1077, 1085, 1090, 1085, 1072, 46])
       (u ''Data Engineering'') (u ''The job is idempotent, so it can be safely retried.'')
       (u ''idempotent '' @ [8212, 32, 1087, 1086, 1074, 1090, 1086, 1088, 1085, 1099, 1081, 32, 1079, 1072, 1087, 1091, 1089, 1082, 32, 1085, 1077, 32, 1084, 1077, 1085, 1103, 1077, 1090, 32, 1088, 1077, 1079, 1091, 1083, 1100, 1090, 1072, 1090, 32, 1089, 1074, 1077, 1088, 1093, 32, 1087, 1077, 1088, 1074, 1086, 1075, 1086, 32, 1087, 1088, 1080, 1084, 1077, 1085, 1077, 1085, 1080, 1103])
       (u ''The job is _____.'') None,
     phrase_item (u ''phrase-stale-data'') (u ''The data is stale.'')
       ([1044, 1072, 1085, 1085, 1099, 1077, 32, 1091, 1089, 1090, 1072, 1088, 1077, 1083, 1080, 46])
       (u ''Data Engineering'') (u ''The dashboard is available, but the data is stale.'')
       (u ''stale data '' @ [8212, 32, 1076, 1072, 1085, 1085, 1099, 1077, 44, 32, 1082, 1086, 1090, 1086, 1088, 1099, 1077, 32, 1085, 1077, 32, 1086, 1073, 1085, 1086, 1074, 1080, 1083, 1080, 1089, 1100, 32, 1074, 1086, 1074, 1088, 1077, 1084, 1103])
       (u ''The data is _____.'') None,
     phrase_item (u ''phrase-incomplete-data'') (u ''The dataset is incomplete.'')
       ([1053, 1072, 1073, 1086, 1088, 32, 1076, 1072, 1085, 1085, 1099, 1093, 32, 1085, 1077, 1087, 1086, 1083, 1085, 1099, 1081, 46])
       (u ''Data Engineering'') (u ''The dataset is incomplete because one source system has not finished loading.'')
       (u ''dataset '' @ [8212, 32, 1085, 1072, 1073, 1086, 1088, 32, 1076, 1072, 1085, 1085, 1099, 1093, 59, 32] @ u ''incomplete '' @ [8212, 32, 1085, 1077, 1087, 1086, 1083, 1085, 1099, 1081])
       (u ''The dataset is _____.'') None,
     phrase_item (u ''phrase-resource-intensive'') (u ''The query is resource-intensive.'')
       ([1047, 1072, 1087, 1088, 1086, 1089, 32, 1087, 1086, 1090, 1088, 1077, 1073, 1083, 1103, 1077, 1090, 32, 1084, 1085, 1086, 1075, 1086, 32, 1088, 1077, 1089, 1091, 1088, 1089, 1086, 1074, 46])
       (u ''Data Engineering'') (u ''The query is resource-intensive and should not run during peak hours.'')
       (u ''resource-intensive '' @ [8212, 32, 1090, 1088, 1077, 1073, 1091, 1102, 1097, 1080, 1081, 32, 1079, 1085, 1072, 1095, 1080, 1090, 1077, 1083, 1100, 1085, 1099, 1093, 32] @ u ''CPU, memory '' @ [1080, 1083, 1080, 32] @ u ''I/O'')
       (u ''The query is resource-_____.'') None,
     phrase_item (u ''phrase-timeout'') (u ''The pipeline failed due to a timeout.'')
       ([1055, 1072, 1081, 1087, 1083, 1072, 1081, 1085, 32, 1079, 1072, 1074, 1077, 1088, 1096, 1080, 1083, 1089, 1103, 32, 1086, 1096, 1080, 1073, 1082, 1086, 1081, 32, 1080, 1079, 45, 1079, 1072, 32, 1090, 1072, 1081, 1084, 1072, 1091, 1090, 1072, 46])
       (u ''Data Engineering'') (u ''The pipeline failed due to a timeout while reading from the source API.'')
       (u ''failed due to '' @ [8212, 32, 1079, 1072, 1074, 1077, 1088, 1096, 1080, 1083, 1089, 1103, 32, 1086, 1096, 1080, 1073, 1082, 1086, 1081, 32, 1080, 1079, 45, 1079, 1072])
       (u ''The pipeline failed due to a _____.'') None,
     phrase_item (u ''phrase-data-flow-bottleneck'') (u ''This stage is the main bottleneck.'')
       ([1069, 1090, 1086, 1090, 32, 1101, 1090, 1072, 1087, 32, 1103, 1074, 1083, 1103, 1077, 1090, 1089, 1103, 32, 1086, 1089, 1085, 1086, 1074, 1085, 1099, 1084, 32, 1091, 1079, 1082, 1080, 1084, 32, 1084, 1077, 1089, 1090, 1086, 1084, 46])
       (u ''Performance'') (u ''The database write stage is the main bottleneck in the data flow.'')
       (u ''bottleneck '' @ [8212, 32, 1091, 1079, 1082, 1086, 1077, 32, 1084, 1077, 1089, 1090, 1086, 44, 32, 1086, 1075, 1088, 1072, 1085, 1080, 1095, 1080, 1074, 1072, 1102, 1097, 1077, 1077, 32, 1087, 1088, 1086, 1087, 1091, 1089, 1082, 1085, 1091, 1102, 32, 1089, 1087, 1086, 1089, 1086, 1073, 1085, 1086, 1089, 1090, 1100])
       (u ''This stage is the main _____.'') None,
     phrase_item (u ''phrase-under-load'') (u ''We should test this under load.'')
       ([1053, 1072, 1084, 32, 1089, 1083, 1077, 1076, 1091, 1077, 1090, 32, 1087, 1088, 1086, 1074, 1077, 1088, 1080, 1090, 1100, 32, 1101, 1090, 1086, 32, 1087, 1086, 1076, 32, 1085, 1072, 1075, 1088, 1091, 1079, 1082, 1086, 1081, 46])
       (u ''Performance'') (u ''We should test this under load before enabling it in production.'')
       (u ''under load '' @ [8212, 32, 1074, 32, 1091, 1089, 1083, 1086, 1074, 1080, 1103, 1093, 32, 1085, 1072, 1075, 1088, 1091, 1079, 1082, 1080])
       (u ''We should test this under _____.'') None,
     phrase_item (u ''phrase-acceptance-criteria'') (u ''Let's align on the acceptance criteria.'')
       ([1044, 1072, 1074, 1072, 1081, 1090, 1077, 32, 1089, 1086, 1075, 1083, 1072, 1089, 1091, 1077, 1084, 32, 1082, 1088, 1080, 1090, 1077, 1088, 1080, 1080, 32, 1087, 1088, 1080, 1105, 1084, 1082, 1080, 46])
       (u ''Delivery'') (u ''Before implementation, let's align on the acceptance criteria.'')
       (u ''align on '' @ [8212, 32, 1089, 1086, 1075, 1083, 1072, 1089, 1086, 1074, 1072, 1090, 1100, 32, 1086, 1073, 1097, 1077, 1077, 32, 1087, 1086, 1085, 1080, 1084, 1072, 1085, 1080, 1077])
       (u ''Let's align on the acceptance _____.'') None,
     phrase_item (u ''phrase-out-of-scope'') (u ''This is out of scope for this iteration.'')
       ([1069, 1090, 1086, 32, 1085, 1077, 32, 1074, 1093, 1086, 1076, 1080, 1090, 32, 1074, 32, 1086, 1073, 1098, 1105, 1084, 32, 1090, 1077, 1082, 1091, 1097, 1077, 1081, 32, 1080, 1090, 1077, 1088, 1072, 1094, 1080, 1080, 46])
       (u ''Delivery'') (u ''Advanced analytics is out of scope for this iteration.'')
       (u ''out of scope '' @ [8212, 32, 1074, 1085, 1077, 32, 1089, 1086, 1075, 1083, 1072, 1089, 1086, 1074, 1072, 1085, 1085, 1086, 1075, 1086, 32, 1086, 1073, 1098, 1105, 1084, 1072, 32, 1088, 1072, 1073, 1086, 1090])
       (u ''This is out of _____ for this iteration.'') None,
     phrase_item (u ''phrase-next-steps'') (u ''What are the next steps?'')
       ([1050, 1072, 1082, 1086, 1074, 1099, 32, 1089, 1083, 1077, 1076, 1091, 1102, 1097, 1080, 1077, 32, 1096, 1072, 1075, 1080, 63])
       (u ''Delivery'') (u ''We have agreed on the design. What are the next steps?'')
       ([1050, 1086, 1088, 1086, 1090, 1082, 1072, 1103, 32, 1085, 1077, 1081, 1090, 1088, 1072, 1083, 1100, 1085, 1072, 1103, 32, 1092, 1088, 1072, 1079, 1072, 32, 1076, 1083, 1103, 32, 1079, 1072, 1074, 1077, 1088, 1096, 1077, 1085, 1080, 1103, 32, 1086, 1073, 1089, 1091, 1078, 1076, 1077, 1085, 1080, 1103, 46])
       (u ''What are the next _____?'') None,
     phrase_item (u ''phrase-eta'') (u ''Do we have an ETA for the fix?'')
       ([1045, 1089, 1090, 1100, 32, 1083, 1080, 32, 1086, 1078, 1080, 1076, 1072, 1077, 1084, 1099, 1081, 32, 1089, 1088, 1086, 1082, 32, 1080, 1089, 1087, 1088, 1072, 1074, 1083, 1077, 1085, 1080, 1103, 63])
       (u ''Delivery'') (u ''Do we have an ETA for the fix and the rollout plan?'')
       (u ''ETA '' @ [8212, 32] @ u ''estimated time of arrival; '' @ [1074, 32, 1088, 1072, 1073, 1086, 1090, 1077, 32, 1086, 1079, 1085, 1072, 1095, 1072, 1077, 1090, 32, 1086, 1078, 1080, 1076, 1072, 1077, 1084, 1099, 1081, 32, 1089, 1088, 1086, 1082])
       (u ''Do we have an _____ for the fix?'') None,
     phrase_item (u ''phrase-deployed-staging'') (u ''The fix has been deployed to staging.'')
       ([1048, 1089, 1087, 1088, 1072, 1074, 1083, 1077, 1085, 1080, 1077, 32, 1088, 1072, 1079, 1074, 1105, 1088, 1085, 1091, 1090, 1086, 32, 1085, 1072, 32] @ u ''staging.'')
       (u ''Release'') (u ''The fix has been deployed to staging and is ready for verification.'')
       (u ''has been deployed '' @ [8212, 32, 1091, 1078, 1077, 32, 1088, 1072, 1079, 1074, 1105, 1088, 1085, 1091, 1090, 1086, 44, 32, 1088, 1077, 1079, 1091, 1083, 1100, 1090, 1072, 1090, 32, 1072, 1082, 1090, 1091, 1072, 1083, 1077, 1085, 32, 1089, 1077, 1081, 1095, 1072, 1089])
       (u ''The fix has been _____ to staging.'') None,
     phrase_item (u ''phrase-roll-back'') (u ''We need to roll back the release.'')
       ([1053, 1072, 1084, 32, 1085, 1091, 1078, 1085, 1086, 32, 1086, 1090, 1082, 1072, 1090, 1080, 1090, 1100, 32, 1088, 1077, 1083, 1080, 1079, 46])
       (u ''Release'') (u ''The error rate is increasing, so we need to roll back the release.'')
       (u ''roll back '' @ [8212, 32, 1086, 1090, 1082, 1072, 1090, 1080, 1090, 1100, 32, 1080, 1079, 1084, 1077, 1085, 1077, 1085, 1080, 1077, 32, 1080, 1083, 1080, 32, 1088, 1077, 1083, 1080, 1079])
       (u ''We need to roll _____ the release.'') None,
     phrase_item (u ''phrase-monitoring-alerting'') (u ''We should add monitoring and alerting.'')
       ([1053, 1072, 1084, 32, 1089, 1083, 1077, 1076, 1091, 1077, 1090, 32, 1076, 1086, 1073, 1072, 1074, 1080, 1090, 1100, 32, 1084, 1086, 1085, 1080, 1090, 1086, 1088, 1080, 1085, 1075, 32, 1080, 32, 1086, 1087, 1086, 1074, 1077, 1097, 1077, 1085, 1080, 1103, 46])
       (u ''Operations'') (u ''We should add monitoring and alerting before the production rollout.'')
       (u ''monitoring '' @ [1085, 1072, 1073, 1083, 1102, 1076, 1072, 1077, 1090, 32, 1089, 1086, 1089, 1090, 1086, 1103, 1085, 1080, 1077, 44, 32] @ u ''alerting '' @ [1091, 1074, 1077, 1076, 1086, 1084, 1083, 1103, 1077, 1090, 32, 1086, 1073, 32, 1086, 1090, 1082, 1083, 1086, 1085, 1077, 1085, 1080, 1103, 1093])
       (u ''We should add monitoring and _____.'') None,
     phrase_item (u ''phrase-clarify'') (u ''Could you clarify what you mean by that?'')
       ([1052, 1086, 1078, 1077, 1096, 1100, 32, 1091, 1090, 1086, 1095, 1085, 1080, 1090, 1100, 44, 32, 1095, 1090, 1086, 32, 1090, 1099, 32, 1080, 1084, 1077, 1077, 1096, 1100, 32, 1074, 32, 1074, 1080, 1076, 1091, 63])
       (u ''Communication'') (u ''Could you clarify what you mean by a complete reload?'')
       ([1053, 1077, 1081, 1090, 1088, 1072, 1083, 1100, 1085, 1099, 1081, 32, 1089, 1087, 1086, 1089, 1086, 1073, 32, 1079, 1072, 1087, 1088, 1086, 1089, 1080, 1090, 1100, 32, 1091, 1090, 1086, 1095, 1085, 1077, 1085, 1080, 1077, 32, 1073, 1077, 1079, 32, 1082, 1086, 1085, 1092, 1088, 1086, 1085, 1090, 1072, 1094, 1080, 1080, 46])
       (u ''Could you _____ what you mean by that?'') None,
     phrase_item (u ''phrase-correct-me'') (u ''Please correct me if I'm wrong.'')
       ([1055, 1086, 1087, 1088, 1072, 1074, 1100, 1090, 1077, 32, 1084, 1077, 1085, 1103, 44, 32, 1077, 1089, 1083, 1080, 32, 1103, 32, 1086, 1096, 1080, 1073, 1072, 1102, 1089, 1100, 46])
       (u ''Communication'') (u ''Please correct me if I'm wrong, but the consumer retries indefinitely.'')
       ([1048, 1089, 1087, 1086, 1083, 1100, 1079, 1091, 1077, 1090, 1089, 1103, 32, 1087, 1077, 1088, 1077, 1076, 32, 1086, 1089, 1090, 1086, 1088, 1086, 1078, 1085, 1086, 1081, 32, 1092, 1086, 1088, 1084, 1091, 1083, 1080, 1088, 1086, 1074, 1082, 1086, 1081, 32, 1087, 1088, 1077, 1076, 1087, 1086, 1083, 1086, 1078, 1077, 1085, 1080, 1103, 46])
       (u ''Please _____ me if I'm wrong.'') None]"

section \<open>The expanded phrases\<close>

type_synonym PhraseTuple = "jstr \<times> jstr \<times> jstr \<times> jstr \<times> jstr \<times> jstr \<times> jstr"

text \<open>The function each table is mapped with; the tables differ in the topic.\<close>

fun expanded_phrase :: "jstr \<Rightarrow> PhraseTuple \<Rightarrow> LearningItem" where
  "expanded_phrase topic (ident, prompt, answer, example, note, cloze, clozeAnswer) =
     phrase_item ident prompt answer topic example note cloze (Some clozeAnswer)"

definition DAILY_LIFE_TUPLES :: "PhraseTuple list" where
  "DAILY_LIFE_TUPLES =
    [(u ''phrase-could-you-help-me-with-this'',
      u ''Could you help me with this?'',
      [1053, 1077, 32, 1084, 1086, 1075, 1083, 1080, 32, 1073, 1099, 32, 1074, 1099, 32, 1087, 1086, 1084, 1086, 1095, 1100, 32, 1084, 1085, 1077, 32, 1089, 32, 1101, 1090, 1080, 1084, 63],
      u ''Could you help me with this form?'',
      [1042, 1077, 1078, 1083, 1080, 1074, 1072, 1103, 32, 1091, 1085, 1080, 1074, 1077, 1088, 1089, 1072, 1083, 1100, 1085, 1072, 1103, 32, 1087, 1088, 1086, 1089, 1100, 1073, 1072, 32, 1086, 32, 1087, 1086, 1084, 1086, 1097, 1080, 46],
      u ''Could you _____ me with this?'',
      u ''help''),
     (u ''phrase-where-can-i-find-the-nearest-supermarket'',
      u ''Where can I find the nearest supermarket?'',
      [1043, 1076, 1077, 32, 1103, 32, 1084, 1086, 1075, 1091, 32, 1085, 1072, 1081, 1090, 1080, 32, 1073, 1083, 1080, 1078, 1072, 1081, 1096, 1080, 1081, 32, 1089, 1091, 1087, 1077, 1088, 1084, 1072, 1088, 1082, 1077, 1090, 63],
      u ''Where can I find the nearest supermarket that is open now?'',
      u ''nearest '' @ [8212, 32, 1073, 1083, 1080, 1078, 1072, 1081, 1096, 1080, 1081, 46],
      u ''Where can I find the nearest _____?'',
      u ''supermarket''),
     (u ''phrase-im-looking-for-the-household-section'',
      u ''I'm looking for the household section.'',
      [1071, 32, 1080, 1097, 1091, 32, 1086, 1090, 1076, 1077, 1083, 32, 1090, 1086, 1074, 1072, 1088, 1086, 1074, 32, 1076, 1083, 1103, 32, 1076, 1086, 1084, 1072, 46],
      u ''I'm looking for the household section and cleaning supplies.'',
      u ''I'm looking for '' @ [8212, 32, 1085, 1077, 1081, 1090, 1088, 1072, 1083, 1100, 1085, 1099, 1081, 32, 1089, 1087, 1086, 1089, 1086, 1073, 32, 1089, 1082, 1072, 1079, 1072, 1090, 1100, 44, 32, 1095, 1090, 1086, 32, 1074, 1099, 32, 1080, 1097, 1077, 1090, 1077, 46],
      u ''I'm _____ for the household section.'',
      u ''looking''),
     (u ''phrase-could-i-get-a-refund-for-this-item'',
      u ''Could I get a refund for this item?'',
      [1052, 1086, 1075, 1091, 32, 1103, 32, 1087, 1086, 1083, 1091, 1095, 1080, 1090, 1100, 32, 1074, 1086, 1079, 1074, 1088, 1072, 1090, 32, 1076, 1077, 1085, 1077, 1075, 32, 1079, 1072, 32, 1101, 1090, 1086, 1090, 32, 1090, 1086, 1074, 1072, 1088, 63],
      u ''Could I get a refund for this item if I have the receipt?'',
      u ''get a refund '' @ [8212, 32, 1087, 1086, 1083, 1091, 1095, 1080, 1090, 1100, 32, 1074, 1086, 1079, 1074, 1088, 1072, 1090, 32, 1076, 1077, 1085, 1077, 1075, 46],
      u ''Could I get a _____ for this item?'',
      u ''refund''),
     (u ''phrase-the-heating-is-not-working'',
      u ''The heating is not working.'',
      [1054, 1090, 1086, 1087, 1083, 1077, 1085, 1080, 1077, 32, 1085, 1077, 32, 1088, 1072, 1073, 1086, 1090, 1072, 1077, 1090, 46],
      u ''The heating is not working in the bedroom.'',
      [1055, 1086, 1076, 1093, 1086, 1076, 1080, 1090, 32, 1076, 1083, 1103, 32, 1089, 1086, 1086, 1073, 1097, 1077, 1085, 1080, 1103, 32, 1086, 32, 1073, 1099, 1090, 1086, 1074, 1086, 1081, 32, 1085, 1077, 1080, 1089, 1087, 1088, 1072, 1074, 1085, 1086, 1089, 1090, 1080, 46],
      u ''The _____ is not working.'',
      u ''heating''),
     (u ''phrase-i-need-to-make-a-doctor-s-appointment'',
      u ''I need to make a doctor's appointment.'',
      [1052, 1085, 1077, 32, 1085, 1091, 1078, 1085, 1086, 32, 1079, 1072, 1087, 1080, 1089, 1072, 1090, 1100, 1089, 1103, 32, 1082, 32, 1074, 1088, 1072, 1095, 1091, 46],
      u ''I need to make a doctor's appointment for tomorrow morning.'',
      u ''make an appointment '' @ [8212, 32, 1079, 1072, 1087, 1080, 1089, 1072, 1090, 1100, 1089, 1103, 32, 1085, 1072, 32, 1082, 1086, 1085, 1082, 1088, 1077, 1090, 1085, 1086, 1077, 32, 1074, 1088, 1077, 1084, 1103, 46],
      u ''I need to make a doctor's _____.'',
      u ''appointment''),
     (u ''phrase-is-there-a-pharmacy-nearby'',
      u ''Is there a pharmacy nearby?'',
      [1055, 1086, 1073, 1083, 1080, 1079, 1086, 1089, 1090, 1080, 32, 1077, 1089, 1090, 1100, 32, 1072, 1087, 1090, 1077, 1082, 1072, 63],
      u ''Is there a pharmacy nearby that is open at night?'',
      u ''nearby '' @ [8212, 32, 1087, 1086, 1073, 1083, 1080, 1079, 1086, 1089, 1090, 1080, 46],
      u ''Is there a _____ nearby?'',
      u ''pharmacy''),
     (u ''phrase-can-i-pay-by-card'',
      u ''Can I pay by card?'',
      [1052, 1086, 1078, 1085, 1086, 32, 1086, 1087, 1083, 1072, 1090, 1080, 1090, 1100, 32, 1082, 1072, 1088, 1090, 1086, 1081, 63],
      u ''Can I pay by card or do you only accept cash?'',
      [1050, 1086, 1088, 1086, 1090, 1082, 1072, 1103, 32, 1095, 1072, 1089, 1090, 1086, 1090, 1085, 1072, 1103, 32, 1092, 1088, 1072, 1079, 1072, 32, 1087, 1088, 1080, 32, 1086, 1087, 1083, 1072, 1090, 1077, 46],
      u ''Can I pay by _____?'',
      u ''card''),
     (u ''phrase-could-you-repeat-that-more-slowly'',
      u ''Could you repeat that more slowly?'',
      [1053, 1077, 32, 1084, 1086, 1075, 1083, 1080, 32, 1073, 1099, 32, 1074, 1099, 32, 1087, 1086, 1074, 1090, 1086, 1088, 1080, 1090, 1100, 32, 1101, 1090, 1086, 32, 1084, 1077, 1076, 1083, 1077, 1085, 1085, 1077, 1077, 63],
      u ''Could you repeat that more slowly, please?'',
      [1055, 1086, 1083, 1077, 1079, 1085, 1086, 44, 32, 1082, 1086, 1075, 1076, 1072, 32, 1072, 1085, 1075, 1083, 1080, 1081, 1089, 1082, 1091, 1102, 32, 1088, 1077, 1095, 1100, 32, 1090, 1088, 1091, 1076, 1085, 1086, 32, 1088, 1072, 1079, 1086, 1073, 1088, 1072, 1090, 1100, 46],
      u ''Could you repeat that more _____?'',
      u ''slowly''),
     (u ''phrase-im-running-late'',
      u ''I'm running late.'',
      [1071, 32, 1086, 1087, 1072, 1079, 1076, 1099, 1074, 1072, 1102, 46],
      u ''I'm running late, but I'll be there soon.'',
      u ''running late '' @ [8212, 32, 1086, 1087, 1072, 1079, 1076, 1099, 1074, 1072, 1090, 1100, 32, 1086, 1090, 1085, 1086, 1089, 1080, 1090, 1077, 1083, 1100, 1085, 1086, 32, 1087, 1083, 1072, 1085, 1072, 46],
      u ''I'm running _____.'',
      u ''late''),
     (u ''phrase-i-ll-be-there-in-ten-minutes'',
      u ''I'll be there in ten minutes.'',
      [1071, 32, 1073, 1091, 1076, 1091, 32, 1090, 1072, 1084, 32, 1095, 1077, 1088, 1077, 1079, 32, 1076, 1077, 1089, 1103, 1090, 1100, 32, 1084, 1080, 1085, 1091, 1090, 46],
      u ''I'll be there in ten minutes, so please wait for me.'',
      u ''in ten minutes '' @ [8212, 32, 1095, 1077, 1088, 1077, 1079, 32, 1076, 1077, 1089, 1103, 1090, 1100, 32, 1084, 1080, 1085, 1091, 1090, 46],
      u ''I'll be there in ten _____.'',
      u ''minutes''),
     (u ''phrase-could-you-write-it-down'',
      u ''Could you write it down?'',
      [1053, 1077, 32, 1084, 1086, 1075, 1083, 1080, 32, 1073, 1099, 32, 1074, 1099, 32, 1101, 1090, 1086, 32, 1079, 1072, 1087, 1080, 1089, 1072, 1090, 1100, 63],
      u ''Could you write the address down for me?'',
      u ''write down '' @ [8212, 32, 1079, 1072, 1087, 1080, 1089, 1072, 1090, 1100, 32, 1080, 1085, 1092, 1086, 1088, 1084, 1072, 1094, 1080, 1102, 46],
      u ''Could you write it _____?'',
      u ''down''),
     (u ''phrase-i-dont-feel-well'',
      u ''I don't feel well.'',
      [1071, 32, 1087, 1083, 1086, 1093, 1086, 32, 1089, 1077, 1073, 1103, 32, 1095, 1091, 1074, 1089, 1090, 1074, 1091, 1102, 46],
      u ''I don't feel well and I have a temperature.'',
      [1041, 1072, 1079, 1086, 1074, 1072, 1103, 32, 1092, 1088, 1072, 1079, 1072, 32, 1076, 1083, 1103, 32, 1086, 1087, 1080, 1089, 1072, 1085, 1080, 1103, 32, 1087, 1083, 1086, 1093, 1086, 1075, 1086, 32, 1089, 1072, 1084, 1086, 1095, 1091, 1074, 1089, 1090, 1074, 1080, 1103, 46],
      u ''I don't feel _____.'',
      u ''well''),
     (u ''phrase-where-is-the-nearest-restroom'',
      u ''Where is the nearest restroom?'',
      [1043, 1076, 1077, 32, 1073, 1083, 1080, 1078, 1072, 1081, 1096, 1080, 1081, 32, 1090, 1091, 1072, 1083, 1077, 1090, 63],
      u ''Excuse me, where is the nearest restroom?'',
      u ''restroom '' @ [8212, 32, 1095, 1072, 1089, 1090, 1099, 1081, 32, 1072, 1084, 1077, 1088, 1080, 1082, 1072, 1085, 1089, 1082, 1080, 1081, 32, 1074, 1072, 1088, 1080, 1072, 1085, 1090, 46],
      u ''Where is the nearest _____?'',
      u ''restroom''),
     (u ''phrase-the-tap-is-leaking'',
      u ''The tap is leaking.'',
      [1050, 1088, 1072, 1085, 32, 1087, 1088, 1086, 1090, 1077, 1082, 1072, 1077, 1090, 46],
      u ''The tap is leaking and the water will not stop.'',
      u ''leaking '' @ [8212, 32, 1087, 1088, 1086, 1090, 1077, 1082, 1072, 1102, 1097, 1080, 1081, 46],
      u ''The tap is _____.'',
      u ''leaking''),
     (u ''phrase-the-power-is-out'',
      u ''The power is out.'',
      [1069, 1083, 1077, 1082, 1090, 1088, 1080, 1095, 1077, 1089, 1090, 1074, 1086, 32, 1086, 1090, 1082, 1083, 1102, 1095, 1077, 1085, 1086, 46],
      u ''The power is out in the whole building.'',
      u ''the power is out '' @ [8212, 32, 1085, 1077, 1090, 32, 1101, 1083, 1077, 1082, 1090, 1088, 1080, 1095, 1077, 1089, 1090, 1074, 1072, 46],
      u ''The power is _____.'',
      u ''out''),
     (u ''phrase-please-leave-the-package-at-the-door'',
      u ''Please leave the package at the door.'',
      [1055, 1086, 1078, 1072, 1083, 1091, 1081, 1089, 1090, 1072, 44, 32, 1086, 1089, 1090, 1072, 1074, 1100, 1090, 1077, 32, 1087, 1086, 1089, 1099, 1083, 1082, 1091, 32, 1091, 32, 1076, 1074, 1077, 1088, 1080, 46],
      u ''Please leave the package at the door if no one answers.'',
      [1048, 1085, 1089, 1090, 1088, 1091, 1082, 1094, 1080, 1103, 32, 1076, 1083, 1103, 32, 1082, 1091, 1088, 1100, 1077, 1088, 1072, 46],
      u ''Please leave the package at the _____.'',
      u ''door''),
     (u ''phrase-could-you-send-me-the-address'',
      u ''Could you send me the address?'',
      [1052, 1086, 1078, 1077, 1096, 1100, 32, 1087, 1088, 1080, 1089, 1083, 1072, 1090, 1100, 32, 1084, 1085, 1077, 32, 1072, 1076, 1088, 1077, 1089, 63],
      u ''Could you send me the address and the entrance code?'',
      u ''send me '' @ [8212, 32, 1087, 1088, 1080, 1089, 1083, 1072, 1090, 1100, 32, 1084, 1085, 1077, 46],
      u ''Could you send me the _____?'',
      u ''address''),
     (u ''phrase-i-need-to-pick-up-my-order'',
      u ''I need to pick up my order.'',
      [1052, 1085, 1077, 32, 1085, 1091, 1078, 1085, 1086, 32, 1079, 1072, 1073, 1088, 1072, 1090, 1100, 32, 1084, 1086, 1081, 32, 1079, 1072, 1082, 1072, 1079, 46],
      u ''I need to pick up my order before the store closes.'',
      u ''pick up '' @ [8212, 32, 1079, 1072, 1073, 1088, 1072, 1090, 1100, 32, 1075, 1086, 1090, 1086, 1074, 1099, 1081, 32, 1079, 1072, 1082, 1072, 1079, 46],
      u ''I need to pick _____ my order.'',
      u ''up''),
     (u ''phrase-do-you-have-this-in-another-size'',
      u ''Do you have this in another size?'',
      [1059, 32, 1074, 1072, 1089, 32, 1077, 1089, 1090, 1100, 32, 1101, 1090, 1086, 32, 1074, 32, 1076, 1088, 1091, 1075, 1086, 1084, 32, 1088, 1072, 1079, 1084, 1077, 1088, 1077, 63],
      u ''Do you have this jacket in another size?'',
      [1063, 1072, 1089, 1090, 1086, 1090, 1085, 1072, 1103, 32, 1092, 1088, 1072, 1079, 1072, 32, 1074, 32, 1084, 1072, 1075, 1072, 1079, 1080, 1085, 1077, 32, 1086, 1076, 1077, 1078, 1076, 1099, 46],
      u ''Do you have this in another _____?'',
      u ''size''),
     (u ''phrase-im-just-looking-thank-you'',
      u ''I'm just looking, thank you.'',
      [1071, 32, 1087, 1088, 1086, 1089, 1090, 1086, 32, 1089, 1084, 1086, 1090, 1088, 1102, 44, 32, 1089, 1087, 1072, 1089, 1080, 1073, 1086, 46],
      u ''I'm just looking, thank you. I'll ask if I need help.'',
      [1042, 1077, 1078, 1083, 1080, 1074, 1099, 1081, 32, 1086, 1090, 1074, 1077, 1090, 32, 1082, 1086, 1085, 1089, 1091, 1083, 1100, 1090, 1072, 1085, 1090, 1091, 46],
      u ''I'm just _____, thank you.'',
      u ''looking''),
     (u ''phrase-could-you-call-a-taxi-for-me'',
      u ''Could you call a taxi for me?'',
      [1053, 1077, 32, 1084, 1086, 1075, 1083, 1080, 32, 1073, 1099, 32, 1074, 1099, 32, 1074, 1099, 1079, 1074, 1072, 1090, 1100, 32, 1084, 1085, 1077, 32, 1090, 1072, 1082, 1089, 1080, 63],
      u ''Could you call a taxi for me and tell the driver the address?'',
      u ''call a taxi '' @ [8212, 32, 1074, 1099, 1079, 1074, 1072, 1090, 1100, 32, 1090, 1072, 1082, 1089, 1080, 46],
      u ''Could you call a _____ for me?'',
      u ''taxi''),
     (u ''phrase-how-much-does-it-cost'',
      u ''How much does it cost?'',
      [1057, 1082, 1086, 1083, 1100, 1082, 1086, 32, 1101, 1090, 1086, 32, 1089, 1090, 1086, 1080, 1090, 63],
      u ''How much does it cost with delivery?'',
      [1059, 1085, 1080, 1074, 1077, 1088, 1089, 1072, 1083, 1100, 1085, 1099, 1081, 32, 1074, 1086, 1087, 1088, 1086, 1089, 32, 1086, 32, 1094, 1077, 1085, 1077, 46],
      u ''How much does it _____?'',
      u ''cost''),
     (u ''phrase-is-service-included'',
      u ''Is service included?'',
      [1054, 1073, 1089, 1083, 1091, 1078, 1080, 1074, 1072, 1085, 1080, 1077, 32, 1074, 1082, 1083, 1102, 1095, 1077, 1085, 1086, 63],
      u ''Is service included in the total price?'',
      [1042, 1086, 1087, 1088, 1086, 1089, 32, 1086, 32, 1089, 1077, 1088, 1074, 1080, 1089, 1085, 1086, 1084, 32, 1089, 1073, 1086, 1088, 1077, 32, 1080, 1083, 1080, 32, 1095, 1072, 1077, 1074, 1099, 1093, 46],
      u ''Is _____ included?'',
      u ''service''),
     (u ''phrase-could-we-split-the-bill'',
      u ''Could we split the bill?'',
      [1052, 1099, 32, 1084, 1086, 1078, 1077, 1084, 32, 1088, 1072, 1079, 1076, 1077, 1083, 1080, 1090, 1100, 32, 1089, 1095, 1105, 1090, 63],
      u ''Could we split the bill between three people?'',
      u ''split the bill '' @ [8212, 32, 1088, 1072, 1079, 1076, 1077, 1083, 1080, 1090, 1100, 32, 1089, 1095, 1105, 1090, 46],
      u ''Could we split the _____?'',
      u ''bill'')]"

definition DAILY_LIFE_PHRASES :: "LearningItem list" where
  "DAILY_LIFE_PHRASES = map (expanded_phrase (u ''Daily Life'')) DAILY_LIFE_TUPLES"

definition TRAVEL_TUPLES :: "PhraseTuple list" where
  "TRAVEL_TUPLES =
    [(u ''phrase-where-is-the-check-in-desk'',
      u ''Where is the check-in desk?'',
      [1043, 1076, 1077, 32, 1089, 1090, 1086, 1081, 1082, 1072, 32, 1088, 1077, 1075, 1080, 1089, 1090, 1088, 1072, 1094, 1080, 1080, 63],
      u ''Where is the check-in desk for this airline?'',
      u ''check-in desk '' @ [8212, 32, 1089, 1090, 1086, 1081, 1082, 1072, 32, 1088, 1077, 1075, 1080, 1089, 1090, 1088, 1072, 1094, 1080, 1080, 46],
      u ''Where is the check-in _____?'',
      u ''desk''),
     (u ''phrase-id-like-an-aisle-seat'',
      u ''I'd like an aisle seat.'',
      [1071, 32, 1093, 1086, 1090, 1077, 1083, 32, 1073, 1099, 32, 1084, 1077, 1089, 1090, 1086, 32, 1091, 32, 1087, 1088, 1086, 1093, 1086, 1076, 1072, 46],
      u ''I'd like an aisle seat if one is available.'',
      u ''I'd like '' @ [8212, 32, 1074, 1077, 1078, 1083, 1080, 1074, 1072, 1103, 32, 1092, 1086, 1088, 1084, 1072, 32, 1079, 1072, 1087, 1088, 1086, 1089, 1072, 46],
      u ''I'd like an _____ seat.'',
      u ''aisle''),
     (u ''phrase-how-many-bags-can-i-check-in'',
      u ''How many bags can I check in?'',
      [1057, 1082, 1086, 1083, 1100, 1082, 1086, 32, 1089, 1091, 1084, 1086, 1082, 32, 1103, 32, 1084, 1086, 1075, 1091, 32, 1089, 1076, 1072, 1090, 1100, 32, 1074, 32, 1073, 1072, 1075, 1072, 1078, 63],
      u ''How many bags can I check in without an extra fee?'',
      u ''check in a bag '' @ [8212, 32, 1089, 1076, 1072, 1090, 1100, 32, 1073, 1072, 1075, 1072, 1078, 46],
      u ''How many bags can I check _____?'',
      u ''in''),
     (u ''phrase-my-luggage-has-not-arrived'',
      u ''My luggage has not arrived.'',
      [1052, 1086, 1081, 32, 1073, 1072, 1075, 1072, 1078, 32, 1085, 1077, 32, 1087, 1088, 1080, 1073, 1099, 1083, 46],
      u ''My luggage has not arrived on the carousel.'',
      [1060, 1088, 1072, 1079, 1072, 32, 1076, 1083, 1103, 32, 1086, 1073, 1088, 1072, 1097, 1077, 1085, 1080, 1103, 32, 1074, 32, 1089, 1083, 1091, 1078, 1073, 1091, 32, 1088, 1086, 1079, 1099, 1089, 1082, 1072, 32, 1073, 1072, 1075, 1072, 1078, 1072, 46],
      u ''My luggage has not _____.'',
      u ''arrived''),
     (u ''phrase-is-this-the-line-for-passport-control'',
      u ''Is this the line for passport control?'',
      [1069, 1090, 1086, 32, 1086, 1095, 1077, 1088, 1077, 1076, 1100, 32, 1085, 1072, 32, 1087, 1072, 1089, 1087, 1086, 1088, 1090, 1085, 1099, 1081, 32, 1082, 1086, 1085, 1090, 1088, 1086, 1083, 1100, 63],
      u ''Is this the line for passport control or for security?'',
      u ''line '' @ [8212, 32, 1086, 1095, 1077, 1088, 1077, 1076, 1100, 32, 1074, 32, 1072, 1084, 1077, 1088, 1080, 1082, 1072, 1085, 1089, 1082, 1086, 1084, 32, 1072, 1085, 1075, 1083, 1080, 1081, 1089, 1082, 1086, 1084, 46],
      u ''Is this the line for passport _____?'',
      u ''control''),
     (u ''phrase-how-long-is-the-delay'',
      u ''How long is the delay?'',
      [1053, 1072, 1089, 1082, 1086, 1083, 1100, 1082, 1086, 32, 1076, 1086, 1083, 1075, 1072, 1103, 32, 1079, 1072, 1076, 1077, 1088, 1078, 1082, 1072, 63],
      u ''How long is the delay and what is the new departure time?'',
      [1042, 1086, 1087, 1088, 1086, 1089, 32, 1087, 1088, 1080, 32, 1079, 1072, 1076, 1077, 1088, 1078, 1082, 1077, 32, 1090, 1088, 1072, 1085, 1089, 1087, 1086, 1088, 1090, 1072, 46],
      u ''How long is the _____?'',
      u ''delay''),
     (u ''phrase-which-platform-does-the-train-leave-from'',
      u ''Which platform does the train leave from?'',
      [1057, 32, 1082, 1072, 1082, 1086, 1081, 32, 1087, 1083, 1072, 1090, 1092, 1086, 1088, 1084, 1099, 32, 1086, 1090, 1087, 1088, 1072, 1074, 1083, 1103, 1077, 1090, 1089, 1103, 32, 1087, 1086, 1077, 1079, 1076, 63],
      u ''Which platform does the train leave from today?'',
      u ''leave from '' @ [8212, 32, 1086, 1090, 1087, 1088, 1072, 1074, 1083, 1103, 1090, 1100, 1089, 1103, 32, 1089, 46],
      u ''Which platform does the train leave _____?'',
      u ''from''),
     (u ''phrase-does-this-bus-go-to-the-city-center'',
      u ''Does this bus go to the city center?'',
      [1069, 1090, 1086, 1090, 32, 1072, 1074, 1090, 1086, 1073, 1091, 1089, 32, 1080, 1076, 1105, 1090, 32, 1074, 32, 1094, 1077, 1085, 1090, 1088, 32, 1075, 1086, 1088, 1086, 1076, 1072, 63],
      u ''Does this bus go to the city center or the airport?'',
      [1063, 1072, 1089, 1090, 1086, 1090, 1085, 1099, 1081, 32, 1074, 1086, 1087, 1088, 1086, 1089, 32, 1086, 32, 1084, 1072, 1088, 1096, 1088, 1091, 1090, 1077, 46],
      u ''Does this bus go to the city _____?'',
      u ''center''),
     (u ''phrase-id-like-to-book-a-room-for-two-nights'',
      u ''I'd like to book a room for two nights.'',
      [1071, 32, 1093, 1086, 1090, 1077, 1083, 32, 1073, 1099, 32, 1079, 1072, 1073, 1088, 1086, 1085, 1080, 1088, 1086, 1074, 1072, 1090, 1100, 32, 1085, 1086, 1084, 1077, 1088, 32, 1085, 1072, 32, 1076, 1074, 1077, 32, 1085, 1086, 1095, 1080, 46],
      u ''I'd like to book a room for two nights from Friday.'',
      u ''book a room '' @ [8212, 32, 1079, 1072, 1073, 1088, 1086, 1085, 1080, 1088, 1086, 1074, 1072, 1090, 1100, 32, 1085, 1086, 1084, 1077, 1088, 46],
      u ''I'd like to book a room for two _____.'',
      u ''nights''),
     (u ''phrase-i-have-a-reservation-under-my-name'',
      u ''I have a reservation under my name.'',
      [1059, 32, 1084, 1077, 1085, 1103, 32, 1073, 1088, 1086, 1085, 1080, 1088, 1086, 1074, 1072, 1085, 1080, 1077, 32, 1085, 1072, 32, 1084, 1086, 1105, 32, 1080, 1084, 1103, 46],
      u ''I have a reservation under my name for three nights.'',
      u ''under my name '' @ [8212, 32, 1085, 1072, 32, 1084, 1086, 1105, 32, 1080, 1084, 1103, 46],
      u ''I have a reservation under my _____.'',
      u ''name''),
     (u ''phrase-could-i-check-in-early'',
      u ''Could I check in early?'',
      [1052, 1086, 1078, 1085, 1086, 32, 1079, 1072, 1089, 1077, 1083, 1080, 1090, 1100, 1089, 1103, 32, 1088, 1072, 1085, 1100, 1096, 1077, 63],
      u ''Could I check in early if the room is ready?'',
      u ''early check-in '' @ [8212, 32, 1088, 1072, 1085, 1085, 1077, 1077, 32, 1079, 1072, 1089, 1077, 1083, 1077, 1085, 1080, 1077, 46],
      u ''Could I check in _____?'',
      u ''early''),
     (u ''phrase-what-time-is-check-out'',
      u ''What time is check-out?'',
      [1042, 1086, 32, 1089, 1082, 1086, 1083, 1100, 1082, 1086, 32, 1074, 1099, 1077, 1079, 1076, 32, 1080, 1079, 32, 1086, 1090, 1077, 1083, 1103, 63],
      u ''What time is check-out on Sunday?'',
      u ''check-out '' @ [8212, 32, 1086, 1092, 1086, 1088, 1084, 1083, 1077, 1085, 1080, 1077, 32, 1074, 1099, 1077, 1079, 1076, 1072, 46],
      u ''What time is check-_____?'',
      u ''out''),
     (u ''phrase-is-breakfast-included'',
      u ''Is breakfast included?'',
      [1047, 1072, 1074, 1090, 1088, 1072, 1082, 32, 1074, 1082, 1083, 1102, 1095, 1105, 1085, 63],
      u ''Is breakfast included in the room rate?'',
      u ''included '' @ [8212, 32, 1074, 1082, 1083, 1102, 1095, 1105, 1085, 32, 1074, 32, 1089, 1090, 1086, 1080, 1084, 1086, 1089, 1090, 1100, 46],
      u ''Is _____ included?'',
      u ''breakfast''),
     (u ''phrase-could-you-recommend-a-local-restaurant'',
      u ''Could you recommend a local restaurant?'',
      [1053, 1077, 32, 1084, 1086, 1075, 1083, 1080, 32, 1073, 1099, 32, 1074, 1099, 32, 1087, 1086, 1088, 1077, 1082, 1086, 1084, 1077, 1085, 1076, 1086, 1074, 1072, 1090, 1100, 32, 1084, 1077, 1089, 1090, 1085, 1099, 1081, 32, 1088, 1077, 1089, 1090, 1086, 1088, 1072, 1085, 63],
      u ''Could you recommend a local restaurant that is not too expensive?'',
      u ''recommend '' @ [8212, 32, 1088, 1077, 1082, 1086, 1084, 1077, 1085, 1076, 1086, 1074, 1072, 1090, 1100, 46],
      u ''Could you recommend a local _____?'',
      u ''restaurant''),
     (u ''phrase-how-do-i-get-to-the-old-town'',
      u ''How do I get to the old town?'',
      [1050, 1072, 1082, 32, 1076, 1086, 1073, 1088, 1072, 1090, 1100, 1089, 1103, 32, 1076, 1086, 32, 1089, 1090, 1072, 1088, 1086, 1075, 1086, 32, 1075, 1086, 1088, 1086, 1076, 1072, 63],
      u ''How do I get to the old town by public transport?'',
      u ''How do I get to '' @ [8212, 32, 1082, 1072, 1082, 32, 1076, 1086, 1073, 1088, 1072, 1090, 1100, 1089, 1103, 32, 1076, 1086, 46],
      u ''How do I get to the old _____?'',
      u ''town''),
     (u ''phrase-could-you-show-me-on-the-map'',
      u ''Could you show me on the map?'',
      [1053, 1077, 32, 1084, 1086, 1075, 1083, 1080, 32, 1073, 1099, 32, 1074, 1099, 32, 1087, 1086, 1082, 1072, 1079, 1072, 1090, 1100, 32, 1084, 1085, 1077, 32, 1085, 1072, 32, 1082, 1072, 1088, 1090, 1077, 63],
      u ''Could you show me the station on the map?'',
      [1055, 1086, 1083, 1077, 1079, 1085, 1086, 32, 1087, 1088, 1080, 32, 1091, 1090, 1086, 1095, 1085, 1077, 1085, 1080, 1080, 32, 1084, 1072, 1088, 1096, 1088, 1091, 1090, 1072, 46],
      u ''Could you show me on the _____?'',
      u ''map''),
     (u ''phrase-is-it-within-walking-distance'',
      u ''Is it within walking distance?'',
      [1044, 1086, 32, 1101, 1090, 1086, 1075, 1086, 32, 1084, 1086, 1078, 1085, 1086, 32, 1076, 1086, 1081, 1090, 1080, 32, 1087, 1077, 1096, 1082, 1086, 1084, 63],
      u ''Is the hotel within walking distance of the center?'',
      u ''within walking distance '' @ [8212, 32, 1074, 32, 1087, 1077, 1096, 1077, 1081, 32, 1076, 1086, 1089, 1090, 1091, 1087, 1085, 1086, 1089, 1090, 1080, 46],
      u ''Is it within walking _____?'',
      u ''distance''),
     (u ''phrase-id-like-a-round-trip-ticket'',
      u ''I'd like a round-trip ticket.'',
      [1071, 32, 1093, 1086, 1090, 1077, 1083, 32, 1073, 1099, 32, 1073, 1080, 1083, 1077, 1090, 32, 1090, 1091, 1076, 1072, 32, 1080, 32, 1086, 1073, 1088, 1072, 1090, 1085, 1086, 46],
      u ''I'd like a round-trip ticket for tomorrow.'',
      u ''round-trip ticket '' @ [8212, 32, 1073, 1080, 1083, 1077, 1090, 32, 1090, 1091, 1076, 1072, 32, 1080, 32, 1086, 1073, 1088, 1072, 1090, 1085, 1086, 46],
      u ''I'd like a round-trip _____.'',
      u ''ticket''),
     (u ''phrase-can-i-change-my-booking'',
      u ''Can I change my booking?'',
      [1052, 1086, 1075, 1091, 32, 1103, 32, 1080, 1079, 1084, 1077, 1085, 1080, 1090, 1100, 32, 1073, 1088, 1086, 1085, 1080, 1088, 1086, 1074, 1072, 1085, 1080, 1077, 63],
      u ''Can I change my booking to a later flight?'',
      u ''change a booking '' @ [8212, 32, 1080, 1079, 1084, 1077, 1085, 1080, 1090, 1100, 32, 1073, 1088, 1086, 1085, 1080, 1088, 1086, 1074, 1072, 1085, 1080, 1077, 46],
      u ''Can I change my _____?'',
      u ''booking''),
     (u ''phrase-what-is-the-cancellation-fee'',
      u ''What is the cancellation fee?'',
      [1050, 1072, 1082, 1086, 1074, 1072, 32, 1082, 1086, 1084, 1080, 1089, 1089, 1080, 1103, 32, 1079, 1072, 32, 1086, 1090, 1084, 1077, 1085, 1091, 63],
      u ''What is the cancellation fee for this ticket?'',
      u ''fee '' @ [8212, 32, 1089, 1073, 1086, 1088, 32, 1080, 1083, 1080, 32, 1082, 1086, 1084, 1080, 1089, 1089, 1080, 1103, 46],
      u ''What is the cancellation _____?'',
      u ''fee''),
     (u ''phrase-where-can-i-exchange-money'',
      u ''Where can I exchange money?'',
      [1043, 1076, 1077, 32, 1103, 32, 1084, 1086, 1075, 1091, 32, 1086, 1073, 1084, 1077, 1085, 1103, 1090, 1100, 32, 1076, 1077, 1085, 1100, 1075, 1080, 63],
      u ''Where can I exchange money at a reasonable rate?'',
      u ''exchange money '' @ [8212, 32, 1086, 1073, 1084, 1077, 1085, 1103, 1090, 1100, 32, 1074, 1072, 1083, 1102, 1090, 1091, 46],
      u ''Where can I exchange _____?'',
      u ''money''),
     (u ''phrase-do-i-need-to-validate-the-ticket'',
      u ''Do I need to validate the ticket?'',
      [1052, 1085, 1077, 32, 1085, 1091, 1078, 1085, 1086, 32, 1087, 1088, 1086, 1082, 1086, 1084, 1087, 1086, 1089, 1090, 1080, 1088, 1086, 1074, 1072, 1090, 1100, 32, 1073, 1080, 1083, 1077, 1090, 63],
      u ''Do I need to validate the ticket before boarding?'',
      u ''validate a ticket '' @ [8212, 32, 1072, 1082, 1090, 1080, 1074, 1080, 1088, 1086, 1074, 1072, 1090, 1100, 32, 1080, 1083, 1080, 32, 1087, 1088, 1086, 1082, 1086, 1084, 1087, 1086, 1089, 1090, 1080, 1088, 1086, 1074, 1072, 1090, 1100, 32, 1073, 1080, 1083, 1077, 1090, 46],
      u ''Do I need to _____ the ticket?'',
      u ''validate''),
     (u ''phrase-could-you-take-a-photo-of-me'',
      u ''Could you take a photo of me?'',
      [1053, 1077, 32, 1084, 1086, 1075, 1083, 1080, 32, 1073, 1099, 32, 1074, 1099, 32, 1084, 1077, 1085, 1103, 32, 1089, 1092, 1086, 1090, 1086, 1075, 1088, 1072, 1092, 1080, 1088, 1086, 1074, 1072, 1090, 1100, 63],
      u ''Could you take a photo of me with the building behind me?'',
      u ''take a photo '' @ [8212, 32, 1089, 1092, 1086, 1090, 1086, 1075, 1088, 1072, 1092, 1080, 1088, 1086, 1074, 1072, 1090, 1100, 46],
      u ''Could you take a _____ of me?'',
      u ''photo''),
     (u ''phrase-is-this-area-safe-at-night'',
      u ''Is this area safe at night?'',
      [1069, 1090, 1086, 1090, 32, 1088, 1072, 1081, 1086, 1085, 32, 1073, 1077, 1079, 1086, 1087, 1072, 1089, 1077, 1085, 32, 1085, 1086, 1095, 1100, 1102, 63],
      u ''Is this area safe at night for someone walking alone?'',
      [1055, 1088, 1072, 1082, 1090, 1080, 1095, 1085, 1099, 1081, 32, 1074, 1086, 1087, 1088, 1086, 1089, 32, 1086, 32, 1073, 1077, 1079, 1086, 1087, 1072, 1089, 1085, 1086, 1089, 1090, 1080, 46],
      u ''Is this area safe at _____?'',
      u ''night''),
     (u ''phrase-i-need-help-contacting-my-embassy'',
      u ''I need help contacting my embassy.'',
      [1052, 1085, 1077, 32, 1085, 1091, 1078, 1085, 1072, 32, 1087, 1086, 1084, 1086, 1097, 1100, 44, 32, 1095, 1090, 1086, 1073, 1099, 32, 1089, 1074, 1103, 1079, 1072, 1090, 1100, 1089, 1103, 32, 1089, 32, 1087, 1086, 1089, 1086, 1083, 1100, 1089, 1090, 1074, 1086, 1084, 46],
      u ''I need help contacting my embassy because my passport was stolen.'',
      [1060, 1088, 1072, 1079, 1072, 32, 1076, 1083, 1103, 32, 1101, 1082, 1089, 1090, 1088, 1077, 1085, 1085, 1086, 1081, 32, 1089, 1080, 1090, 1091, 1072, 1094, 1080, 1080, 32, 1079, 1072, 32, 1075, 1088, 1072, 1085, 1080, 1094, 1077, 1081, 46],
      u ''I need help contacting my _____.'',
      u ''embassy'')]"

definition TRAVEL_PHRASES :: "LearningItem list" where
  "TRAVEL_PHRASES = map (expanded_phrase (u ''Travel'')) TRAVEL_TUPLES"

definition DATA_ENGINEERING_TUPLES :: "PhraseTuple list" where
  "DATA_ENGINEERING_TUPLES =
    [(u ''phrase-the-pipeline-is-running-behind-schedule'',
      u ''The pipeline is running behind schedule.'',
      [1055, 1072, 1081, 1087, 1083, 1072, 1081, 1085, 32, 1086, 1090, 1089, 1090, 1072, 1105, 1090, 32, 1086, 1090, 32, 1088, 1072, 1089, 1087, 1080, 1089, 1072, 1085, 1080, 1103, 46],
      u ''The pipeline is running behind schedule because the source is slow.'',
      u ''behind schedule '' @ [8212, 32, 1089, 32, 1086, 1090, 1089, 1090, 1072, 1074, 1072, 1085, 1080, 1077, 1084, 32, 1086, 1090, 32, 1087, 1083, 1072, 1085, 1072, 46],
      u ''The pipeline is running behind _____.'',
      u ''schedule''),
     (u ''phrase-the-source-system-is-unavailable'',
      u ''The source system is unavailable.'',
      [1057, 1080, 1089, 1090, 1077, 1084, 1072, 45, 1080, 1089, 1090, 1086, 1095, 1085, 1080, 1082, 32, 1085, 1077, 1076, 1086, 1089, 1090, 1091, 1087, 1085, 1072, 46],
      u ''The source system is unavailable, so ingestion has stopped.'',
      [1053, 1077, 1081, 1090, 1088, 1072, 1083, 1100, 1085, 1086, 1077, 32, 1086, 1087, 1080, 1089, 1072, 1085, 1080, 1077, 32, 1085, 1077, 1076, 1086, 1089, 1090, 1091, 1087, 1085, 1086, 1089, 1090, 1080, 32, 1080, 1089, 1090, 1086, 1095, 1085, 1080, 1082, 1072, 46],
      u ''The source system is _____.'',
      u ''unavailable''),
     (u ''phrase-the-schema-has-changed-upstream'',
      u ''The schema has changed upstream.'',
      [1057, 1093, 1077, 1084, 1072, 32, 1080, 1079, 1084, 1077, 1085, 1080, 1083, 1072, 1089, 1100, 32, 1074, 32, 1074, 1099, 1096, 1077, 1089, 1090, 1086, 1103, 1097, 1077, 1081, 32, 1089, 1080, 1089, 1090, 1077, 1084, 1077, 46],
      u ''The schema has changed upstream without prior notice.'',
      u ''upstream '' @ [8212, 32, 1074, 1099, 1096, 1077, 32, 1087, 1086, 32, 1087, 1086, 1090, 1086, 1082, 1091, 32, 1076, 1072, 1085, 1085, 1099, 1093, 46],
      u ''The schema has changed _____.'',
      u ''upstream''),
     (u ''phrase-we-need-to-backfill-the-missing-partition'',
      u ''We need to backfill the missing partition.'',
      [1053, 1072, 1084, 32, 1085, 1091, 1078, 1085, 1086, 32, 1076, 1086, 1079, 1072, 1075, 1088, 1091, 1079, 1080, 1090, 1100, 32, 1086, 1090, 1089, 1091, 1090, 1089, 1090, 1074, 1091, 1102, 1097, 1091, 1102, 32, 1087, 1072, 1088, 1090, 1080, 1094, 1080, 1102, 46],
      u ''We need to backfill the missing partition for yesterday.'',
      u ''backfill '' @ [8212, 32, 1076, 1086, 1079, 1072, 1075, 1088, 1091, 1079, 1080, 1090, 1100, 32, 1080, 1089, 1090, 1086, 1088, 1080, 1095, 1077, 1089, 1082, 1080, 1081, 32, 1087, 1077, 1088, 1080, 1086, 1076, 46],
      u ''We need to backfill the missing _____.'',
      u ''partition''),
     (u ''phrase-the-job-can-be-safely-retried'',
      u ''The job can be safely retried.'',
      [1047, 1072, 1076, 1072, 1095, 1091, 32, 1084, 1086, 1078, 1085, 1086, 32, 1073, 1077, 1079, 1086, 1087, 1072, 1089, 1085, 1086, 32, 1087, 1077, 1088, 1077, 1079, 1072, 1087, 1091, 1089, 1090, 1080, 1090, 1100, 46],
      u ''The job can be safely retried because it is idempotent.'',
      u ''safely retried '' @ [8212, 32, 1073, 1077, 1079, 1086, 1087, 1072, 1089, 1085, 1086, 32, 1087, 1086, 1074, 1090, 1086, 1088, 1085, 1086, 32, 1079, 1072, 1087, 1091, 1097, 1077, 1085, 46],
      u ''The job can be safely _____.'',
      u ''retried''),
     (u ''phrase-the-consumer-lag-is-increasing'',
      u ''The consumer lag is increasing.'',
      [1054, 1090, 1089, 1090, 1072, 1074, 1072, 1085, 1080, 1077, 32, 1087, 1086, 1090, 1088, 1077, 1073, 1080, 1090, 1077, 1083, 1103, 32, 1088, 1072, 1089, 1090, 1105, 1090, 46],
      u ''The consumer lag is increasing during peak traffic.'',
      [1060, 1088, 1072, 1079, 1072, 32, 1076, 1083, 1103, 32, 1084, 1086, 1085, 1080, 1090, 1086, 1088, 1080, 1085, 1075, 1072, 32] @ u ''Kafka-'' @ [1087, 1086, 1090, 1088, 1077, 1073, 1080, 1090, 1077, 1083, 1103, 46],
      u ''The consumer lag is _____.'',
      u ''increasing''),
     (u ''phrase-the-data-arrived-later-than-expected'',
      u ''The data arrived later than expected.'',
      [1044, 1072, 1085, 1085, 1099, 1077, 32, 1087, 1088, 1080, 1096, 1083, 1080, 32, 1087, 1086, 1079, 1078, 1077, 32, 1086, 1078, 1080, 1076, 1072, 1077, 1084, 1086, 1075, 1086, 46],
      u ''The data arrived later than expected and missed the processing window.'',
      u ''later than expected '' @ [8212, 32, 1087, 1086, 1079, 1078, 1077, 32, 1086, 1078, 1080, 1076, 1072, 1077, 1084, 1086, 1075, 1086, 46],
      u ''The data arrived later than _____.'',
      u ''expected''),
     (u ''phrase-this-table-is-partitioned-by-date'',
      u ''This table is partitioned by date.'',
      [1069, 1090, 1072, 32, 1090, 1072, 1073, 1083, 1080, 1094, 1072, 32, 1087, 1072, 1088, 1090, 1080, 1094, 1080, 1086, 1085, 1080, 1088, 1086, 1074, 1072, 1085, 1072, 32, 1087, 1086, 32, 1076, 1072, 1090, 1077, 46],
      u ''This table is partitioned by date and distributed by store identifier.'',
      u ''partitioned by '' @ [8212, 32, 1088, 1072, 1079, 1073, 1080, 1090, 1072, 32, 1085, 1072, 32, 1088, 1072, 1079, 1076, 1077, 1083, 1099, 32, 1087, 1086, 32, 1087, 1086, 1083, 1102, 46],
      u ''This table is partitioned by _____.'',
      u ''date''),
     (u ''phrase-the-query-is-scanning-too-much-data'',
      u ''The query is scanning too much data.'',
      [1047, 1072, 1087, 1088, 1086, 1089, 32, 1089, 1082, 1072, 1085, 1080, 1088, 1091, 1077, 1090, 32, 1089, 1083, 1080, 1096, 1082, 1086, 1084, 32, 1084, 1085, 1086, 1075, 1086, 32, 1076, 1072, 1085, 1085, 1099, 1093, 46],
      u ''The query is scanning too much data because partition pruning is not applied.'',
      u ''scanning data '' @ [8212, 32, 1095, 1080, 1090, 1072, 1090, 1100, 32, 1076, 1072, 1085, 1085, 1099, 1077, 32, 1087, 1088, 1080, 32, 1074, 1099, 1087, 1086, 1083, 1085, 1077, 1085, 1080, 1080, 32, 1079, 1072, 1087, 1088, 1086, 1089, 1072, 46],
      u ''The query is scanning too much _____.'',
      u ''data''),
     (u ''phrase-we-should-add-a-data-quality-check'',
      u ''We should add a data quality check.'',
      [1053, 1072, 1084, 32, 1089, 1083, 1077, 1076, 1091, 1077, 1090, 32, 1076, 1086, 1073, 1072, 1074, 1080, 1090, 1100, 32, 1087, 1088, 1086, 1074, 1077, 1088, 1082, 1091, 32, 1082, 1072, 1095, 1077, 1089, 1090, 1074, 1072, 32, 1076, 1072, 1085, 1085, 1099, 1093, 46],
      u ''We should add a data quality check for null identifiers.'',
      [1060, 1088, 1072, 1079, 1072, 32, 1076, 1083, 1103, 32, 1086, 1073, 1089, 1091, 1078, 1076, 1077, 1085, 1080, 1103, 32, 1082, 1086, 1085, 1090, 1088, 1086, 1083, 1103, 32, 1076, 1072, 1085, 1085, 1099, 1093, 46],
      u ''We should add a data quality _____.'',
      u ''check''),
     (u ''phrase-the-record-count-does-not-match'',
      u ''The record count does not match.'',
      [1050, 1086, 1083, 1080, 1095, 1077, 1089, 1090, 1074, 1086, 32, 1079, 1072, 1087, 1080, 1089, 1077, 1081, 32, 1085, 1077, 32, 1089, 1086, 1074, 1087, 1072, 1076, 1072, 1077, 1090, 46],
      u ''The record count does not match between the source and target.'',
      u ''does not match '' @ [8212, 32, 1085, 1077, 32, 1089, 1086, 1074, 1087, 1072, 1076, 1072, 1077, 1090, 46],
      u ''The record count does not _____.'',
      u ''match''),
     (u ''phrase-the-load-completed-with-partial-data'',
      u ''The load completed with partial data.'',
      [1047, 1072, 1075, 1088, 1091, 1079, 1082, 1072, 32, 1079, 1072, 1074, 1077, 1088, 1096, 1080, 1083, 1072, 1089, 1100, 32, 1089, 32, 1085, 1077, 1087, 1086, 1083, 1085, 1099, 1084, 1080, 32, 1076, 1072, 1085, 1085, 1099, 1084, 1080, 46],
      u ''The load completed with partial data from one region.'',
      u ''partial data '' @ [8212, 32, 1085, 1077, 1087, 1086, 1083, 1085, 1099, 1081, 32, 1085, 1072, 1073, 1086, 1088, 32, 1076, 1072, 1085, 1085, 1099, 1093, 46],
      u ''The load completed with partial _____.'',
      u ''data''),
     (u ''phrase-the-downstream-task-is-blocked'',
      u ''The downstream task is blocked.'',
      [1053, 1080, 1078, 1077, 1089, 1090, 1086, 1103, 1097, 1072, 1103, 32, 1079, 1072, 1076, 1072, 1095, 1072, 32, 1079, 1072, 1073, 1083, 1086, 1082, 1080, 1088, 1086, 1074, 1072, 1085, 1072, 46],
      u ''The downstream task is blocked by a failed dependency.'',
      u ''downstream '' @ [8212, 32, 1085, 1080, 1078, 1077, 32, 1087, 1086, 32, 1094, 1077, 1087, 1086, 1095, 1082, 1077, 46],
      u ''The downstream task is _____.'',
      u ''blocked''),
     (u ''phrase-we-need-to-preserve-historical-changes'',
      u ''We need to preserve historical changes.'',
      [1053, 1072, 1084, 32, 1085, 1091, 1078, 1085, 1086, 32, 1089, 1086, 1093, 1088, 1072, 1085, 1080, 1090, 1100, 32, 1080, 1089, 1090, 1086, 1088, 1080, 1095, 1077, 1089, 1082, 1080, 1077, 32, 1080, 1079, 1084, 1077, 1085, 1077, 1085, 1080, 1103, 46],
      u ''We need to preserve historical changes in the customer dimension.'',
      u ''preserve history '' @ [8212, 32, 1089, 1086, 1093, 1088, 1072, 1085, 1103, 1090, 1100, 32, 1080, 1089, 1090, 1086, 1088, 1080, 1102, 46],
      u ''We need to preserve historical _____.'',
      u ''changes''),
     (u ''phrase-this-transformation-is-not-idempotent'',
      u ''This transformation is not idempotent.'',
      [1069, 1090, 1086, 32, 1087, 1088, 1077, 1086, 1073, 1088, 1072, 1079, 1086, 1074, 1072, 1085, 1080, 1077, 32, 1085, 1077, 32, 1080, 1076, 1077, 1084, 1087, 1086, 1090, 1077, 1085, 1090, 1085, 1086, 46],
      u ''This transformation is not idempotent and duplicates rows on retry.'',
      [1050, 1088, 1080, 1090, 1080, 1095, 1085, 1086, 1077, 32, 1089, 1074, 1086, 1081, 1089, 1090, 1074, 1086, 32, 1076, 1083, 1103, 32, 1073, 1077, 1079, 1086, 1087, 1072, 1089, 1085, 1099, 1093, 32, 1087, 1086, 1074, 1090, 1086, 1088, 1085, 1099, 1093, 32, 1079, 1072, 1087, 1091, 1089, 1082, 1086, 1074, 46],
      u ''This transformation is not _____.'',
      u ''idempotent''),
     (u ''phrase-the-watermark-was-not-updated'',
      u ''The watermark was not updated.'',
      [1042, 1086, 1076, 1103, 1085, 1086, 1081, 32, 1079, 1085, 1072, 1082, 32, 1085, 1077, 32, 1086, 1073, 1085, 1086, 1074, 1080, 1083, 1089, 1103, 46],
      u ''The watermark was not updated after the failed transaction.'',
      [1060, 1088, 1072, 1079, 1072, 32, 1076, 1083, 1103, 32, 1076, 1080, 1072, 1075, 1085, 1086, 1089, 1090, 1080, 1082, 1080, 32, 1080, 1085, 1082, 1088, 1077, 1084, 1077, 1085, 1090, 1072, 1083, 1100, 1085, 1086, 1081, 32, 1079, 1072, 1075, 1088, 1091, 1079, 1082, 1080, 46],
      u ''The watermark was not _____.'',
      u ''updated''),
     (u ''phrase-the-checkpoint-is-no-longer-valid'',
      u ''The checkpoint is no longer valid.'',
      [1050, 1086, 1085, 1090, 1088, 1086, 1083, 1100, 1085, 1072, 1103, 32, 1090, 1086, 1095, 1082, 1072, 32, 1073, 1086, 1083, 1100, 1096, 1077, 32, 1085, 1077, 1076, 1077, 1081, 1089, 1090, 1074, 1080, 1090, 1077, 1083, 1100, 1085, 1072, 46],
      u ''The checkpoint is no longer valid after the topic was recreated.'',
      u ''no longer valid '' @ [8212, 32, 1073, 1086, 1083, 1100, 1096, 1077, 32, 1085, 1077, 1076, 1077, 1081, 1089, 1090, 1074, 1080, 1090, 1077, 1083, 1077, 1085, 46],
      u ''The checkpoint is no longer _____.'',
      u ''valid''),
     (u ''phrase-the-dataset-contains-duplicate-records'',
      u ''The dataset contains duplicate records.'',
      [1053, 1072, 1073, 1086, 1088, 32, 1076, 1072, 1085, 1085, 1099, 1093, 32, 1089, 1086, 1076, 1077, 1088, 1078, 1080, 1090, 32, 1076, 1091, 1073, 1083, 1080, 1088, 1091, 1102, 1097, 1080, 1077, 1089, 1103, 32, 1079, 1072, 1087, 1080, 1089, 1080, 46],
      u ''The dataset contains duplicate records with the same business key.'',
      u ''duplicate records '' @ [8212, 32, 1087, 1086, 1074, 1090, 1086, 1088, 1103, 1102, 1097, 1080, 1077, 1089, 1103, 32, 1079, 1072, 1087, 1080, 1089, 1080, 46],
      u ''The dataset contains duplicate _____.'',
      u ''records''),
     (u ''phrase-the-event-timestamp-is-in-utc'',
      u ''The event timestamp is in UTC.'',
      [1042, 1088, 1077, 1084, 1077, 1085, 1085, 1072, 1103, 32, 1084, 1077, 1090, 1082, 1072, 32, 1089, 1086, 1073, 1099, 1090, 1080, 1103, 32, 1091, 1082, 1072, 1079, 1072, 1085, 1072, 32, 1074, 32] @ u ''UTC.'',
      u ''The event timestamp is in UTC and must be converted for the report.'',
      u ''UTC '' @ [1074, 1072, 1078, 1085, 1086, 32, 1103, 1074, 1085, 1086, 32, 1091, 1082, 1072, 1079, 1099, 1074, 1072, 1090, 1100, 32, 1087, 1088, 1080, 32, 1088, 1072, 1073, 1086, 1090, 1077, 32, 1089, 1086, 32, 1074, 1088, 1077, 1084, 1077, 1085, 1077, 1084, 46],
      u ''The event timestamp is in _____.'',
      u ''UTC''),
     (u ''phrase-the-retention-period-is-seven-days'',
      u ''The retention period is seven days.'',
      [1055, 1077, 1088, 1080, 1086, 1076, 32, 1093, 1088, 1072, 1085, 1077, 1085, 1080, 1103, 32, 1089, 1086, 1089, 1090, 1072, 1074, 1083, 1103, 1077, 1090, 32, 1089, 1077, 1084, 1100, 32, 1076, 1085, 1077, 1081, 46],
      u ''The retention period is seven days for this topic.'',
      u ''retention period '' @ [8212, 32, 1089, 1088, 1086, 1082, 32, 1093, 1088, 1072, 1085, 1077, 1085, 1080, 1103, 46],
      u ''The retention period is seven _____.'',
      u ''days''),
     (u ''phrase-the-topic-has-twelve-partitions'',
      u ''The topic has twelve partitions.'',
      [1042, 32, 1090, 1086, 1087, 1080, 1082, 1077, 32, 1076, 1074, 1077, 1085, 1072, 1076, 1094, 1072, 1090, 1100, 32, 1087, 1072, 1088, 1090, 1080, 1094, 1080, 1081, 46],
      u ''The topic has twelve partitions and three replicas.'',
      [1041, 1072, 1079, 1086, 1074, 1072, 1103, 32, 1092, 1088, 1072, 1079, 1072, 32, 1086, 32, 1082, 1086, 1085, 1092, 1080, 1075, 1091, 1088, 1072, 1094, 1080, 1080, 32] @ u ''Kafka-'' @ [1090, 1086, 1087, 1080, 1082, 1072, 46],
      u ''The topic has twelve _____.'',
      u ''partitions''),
     (u ''phrase-the-batch-size-is-too-large'',
      u ''The batch size is too large.'',
      [1056, 1072, 1079, 1084, 1077, 1088, 32, 1087, 1072, 1082, 1077, 1090, 1072, 32, 1089, 1083, 1080, 1096, 1082, 1086, 1084, 32, 1073, 1086, 1083, 1100, 1096, 1086, 1081, 46],
      u ''The batch size is too large for the current memory limit.'',
      u ''batch size '' @ [8212, 32, 1088, 1072, 1079, 1084, 1077, 1088, 32, 1086, 1073, 1088, 1072, 1073, 1072, 1090, 1099, 1074, 1072, 1077, 1084, 1086, 1081, 32, 1087, 1086, 1088, 1094, 1080, 1080, 46],
      u ''The batch size is too _____.'',
      u ''large''),
     (u ''phrase-the-data-contract-is-backward-compatible'',
      u ''The data contract is backward-compatible.'',
      [1050, 1086, 1085, 1090, 1088, 1072, 1082, 1090, 32, 1076, 1072, 1085, 1085, 1099, 1093, 32, 1086, 1073, 1088, 1072, 1090, 1085, 1086, 32, 1089, 1086, 1074, 1084, 1077, 1089, 1090, 1080, 1084, 46],
      u ''The data contract is backward-compatible with current consumers.'',
      [1060, 1088, 1072, 1079, 1072, 32, 1076, 1083, 1103, 32, 1086, 1073, 1089, 1091, 1078, 1076, 1077, 1085, 1080, 1103, 32, 1089, 1086, 1074, 1084, 1077, 1089, 1090, 1080, 1084, 1086, 1089, 1090, 1080, 32, 1089, 1093, 1077, 1084, 46],
      u ''The data contract is backward-_____.'',
      u ''compatible''),
     (u ''phrase-the-materialized-view-needs-a-refresh'',
      u ''The materialized view needs a refresh.'',
      [1052, 1072, 1090, 1077, 1088, 1080, 1072, 1083, 1080, 1079, 1086, 1074, 1072, 1085, 1085, 1086, 1077, 32, 1087, 1088, 1077, 1076, 1089, 1090, 1072, 1074, 1083, 1077, 1085, 1080, 1077, 32, 1085, 1091, 1078, 1085, 1086, 32, 1086, 1073, 1085, 1086, 1074, 1080, 1090, 1100, 46],
      u ''The materialized view needs a refresh after the load finishes.'',
      u ''refresh '' @ [8212, 32, 1086, 1073, 1085, 1086, 1074, 1083, 1077, 1085, 1080, 1077, 32, 1089, 1086, 1093, 1088, 1072, 1085, 1105, 1085, 1085, 1086, 1075, 1086, 32, 1088, 1077, 1079, 1091, 1083, 1100, 1090, 1072, 1090, 1072, 46],
      u ''The materialized view needs a _____.'',
      u ''refresh''),
     (u ''phrase-lets-compare-the-source-and-target-counts'',
      u ''Let's compare the source and target counts.'',
      [1044, 1072, 1074, 1072, 1081, 1090, 1077, 32, 1089, 1088, 1072, 1074, 1085, 1080, 1084, 32, 1082, 1086, 1083, 1080, 1095, 1077, 1089, 1090, 1074, 1086, 32, 1079, 1072, 1087, 1080, 1089, 1077, 1081, 32, 1074, 32, 1080, 1089, 1090, 1086, 1095, 1085, 1080, 1082, 1077, 32, 1080, 32, 1087, 1088, 1080, 1105, 1084, 1085, 1080, 1082, 1077, 46],
      u ''Let's compare the source and target counts before publishing the table.'',
      [1055, 1088, 1072, 1082, 1090, 1080, 1095, 1085, 1072, 1103, 32, 1092, 1086, 1088, 1084, 1091, 1083, 1080, 1088, 1086, 1074, 1082, 1072, 32, 1076, 1083, 1103, 32, 1089, 1074, 1077, 1088, 1082, 1080, 32, 1079, 1072, 1075, 1088, 1091, 1079, 1082, 1080, 46],
      u ''Let's compare the source and target _____.'',
      u ''counts'')]"

definition DATA_ENGINEERING_PHRASES :: "LearningItem list" where
  "DATA_ENGINEERING_PHRASES = map (expanded_phrase (u ''Data Engineering'')) DATA_ENGINEERING_TUPLES"

definition BACKEND_TUPLES :: "PhraseTuple list" where
  "BACKEND_TUPLES =
    [(u ''phrase-the-endpoint-returns-a-404-response'',
      u ''The endpoint returns a 404 response.'',
      [1069, 1085, 1076, 1087, 1086, 1080, 1085, 1090, 32, 1074, 1086, 1079, 1074, 1088, 1072, 1097, 1072, 1077, 1090, 32, 1086, 1090, 1074, 1077, 1090, 32] @ u ''404.'',
      u ''The endpoint returns a 404 response when the resource is missing.'',
      [1057, 1090, 1072, 1085, 1076, 1072, 1088, 1090, 1085, 1072, 1103, 32, 1092, 1086, 1088, 1084, 1091, 1083, 1080, 1088, 1086, 1074, 1082, 1072, 32, 1087, 1086, 1074, 1077, 1076, 1077, 1085, 1080, 1103, 32] @ u ''API.'',
      u ''The endpoint returns a 404 _____.'',
      u ''response''),
     (u ''phrase-the-request-payload-is-invalid'',
      u ''The request payload is invalid.'',
      [1055, 1086, 1083, 1077, 1079, 1085, 1072, 1103, 32, 1085, 1072, 1075, 1088, 1091, 1079, 1082, 1072, 32, 1079, 1072, 1087, 1088, 1086, 1089, 1072, 32, 1085, 1077, 1082, 1086, 1088, 1088, 1077, 1082, 1090, 1085, 1072, 46],
      u ''The request payload is invalid because a required field is missing.'',
      u ''payload '' @ [8212, 32, 1076, 1072, 1085, 1085, 1099, 1077, 32, 1079, 1072, 1087, 1088, 1086, 1089, 1072, 46],
      u ''The request payload is _____.'',
      u ''invalid''),
     (u ''phrase-the-token-has-expired'',
      u ''The token has expired.'',
      [1057, 1088, 1086, 1082, 32, 1076, 1077, 1081, 1089, 1090, 1074, 1080, 1103, 32, 1090, 1086, 1082, 1077, 1085, 1072, 32, 1080, 1089, 1090, 1105, 1082, 46],
      u ''The token has expired and must be refreshed.'',
      u ''expired '' @ [8212, 32, 1080, 1089, 1090, 1105, 1082, 1096, 1080, 1081, 46],
      u ''The token has _____.'',
      u ''expired''),
     (u ''phrase-the-user-does-not-have-permission'',
      u ''The user does not have permission.'',
      [1059, 32, 1087, 1086, 1083, 1100, 1079, 1086, 1074, 1072, 1090, 1077, 1083, 1103, 32, 1085, 1077, 1090, 32, 1088, 1072, 1079, 1088, 1077, 1096, 1077, 1085, 1080, 1103, 46],
      u ''The user does not have permission to delete this resource.'',
      [1060, 1088, 1072, 1079, 1072, 32, 1076, 1083, 1103, 32, 1086, 1096, 1080, 1073, 1082, 1080, 32, 1072, 1074, 1090, 1086, 1088, 1080, 1079, 1072, 1094, 1080, 1080, 46],
      u ''The user does not have _____.'',
      u ''permission''),
     (u ''phrase-the-transaction-was-rolled-back'',
      u ''The transaction was rolled back.'',
      [1058, 1088, 1072, 1085, 1079, 1072, 1082, 1094, 1080, 1103, 32, 1073, 1099, 1083, 1072, 32, 1086, 1090, 1084, 1077, 1085, 1077, 1085, 1072, 46],
      u ''The transaction was rolled back after the insert failed.'',
      u ''roll back '' @ [8212, 32, 1086, 1090, 1082, 1072, 1090, 1080, 1090, 1100, 32, 1080, 1079, 1084, 1077, 1085, 1077, 1085, 1080, 1103, 46],
      u ''The transaction was rolled _____.'',
      u ''back''),
     (u ''phrase-the-connection-pool-is-exhausted'',
      u ''The connection pool is exhausted.'',
      [1055, 1091, 1083, 32, 1089, 1086, 1077, 1076, 1080, 1085, 1077, 1085, 1080, 1081, 32, 1080, 1089, 1095, 1077, 1088, 1087, 1072, 1085, 46],
      u ''The connection pool is exhausted during traffic spikes.'',
      u ''exhausted '' @ [8212, 32, 1074, 1089, 1077, 32, 1076, 1086, 1089, 1090, 1091, 1087, 1085, 1099, 1077, 32, 1088, 1077, 1089, 1091, 1088, 1089, 1099, 32, 1079, 1072, 1085, 1103, 1090, 1099, 46],
      u ''The connection pool is _____.'',
      u ''exhausted''),
     (u ''phrase-the-cache-entry-is-stale'',
      u ''The cache entry is stale.'',
      [1047, 1072, 1087, 1080, 1089, 1100, 32, 1074, 32, 1082, 1101, 1096, 1077, 32, 1091, 1089, 1090, 1072, 1088, 1077, 1083, 1072, 46],
      u ''The cache entry is stale and should be invalidated.'',
      u ''stale cache entry '' @ [8212, 32, 1091, 1089, 1090, 1072, 1088, 1077, 1074, 1096, 1077, 1077, 32, 1079, 1085, 1072, 1095, 1077, 1085, 1080, 1077, 46],
      u ''The cache entry is _____.'',
      u ''stale''),
     (u ''phrase-the-request-timed-out'',
      u ''The request timed out.'',
      [1042, 1088, 1077, 1084, 1103, 32, 1086, 1078, 1080, 1076, 1072, 1085, 1080, 1103, 32, 1079, 1072, 1087, 1088, 1086, 1089, 1072, 32, 1080, 1089, 1090, 1077, 1082, 1083, 1086, 46],
      u ''The request timed out while waiting for the upstream service.'',
      u ''timed out '' @ [8212, 32, 1079, 1072, 1074, 1077, 1088, 1096, 1080, 1083, 1089, 1103, 32, 1087, 1086, 32, 1090, 1072, 1081, 1084, 1072, 1091, 1090, 1091, 46],
      u ''The request timed _____.'',
      u ''out''),
     (u ''phrase-the-service-failed-to-start'',
      u ''The service failed to start.'',
      [1057, 1077, 1088, 1074, 1080, 1089, 32, 1085, 1077, 32, 1089, 1084, 1086, 1075, 32, 1079, 1072, 1087, 1091, 1089, 1090, 1080, 1090, 1100, 1089, 1103, 46],
      u ''The service failed to start because the configuration is invalid.'',
      u ''failed to start '' @ [8212, 32, 1085, 1077, 32, 1089, 1084, 1086, 1075, 32, 1079, 1072, 1087, 1091, 1089, 1090, 1080, 1090, 1100, 1089, 1103, 46],
      u ''The service failed to _____.'',
      u ''start''),
     (u ''phrase-the-health-check-is-failing'',
      u ''The health check is failing.'',
      [1055, 1088, 1086, 1074, 1077, 1088, 1082, 1072, 32, 1089, 1086, 1089, 1090, 1086, 1103, 1085, 1080, 1103, 32, 1079, 1072, 1074, 1077, 1088, 1096, 1072, 1077, 1090, 1089, 1103, 32, 1086, 1096, 1080, 1073, 1082, 1086, 1081, 46],
      u ''The health check is failing because the database is unavailable.'',
      [1060, 1088, 1072, 1079, 1072, 32, 1076, 1083, 1103, 32, 1076, 1080, 1072, 1075, 1085, 1086, 1089, 1090, 1080, 1082, 1080, 32, 1075, 1086, 1090, 1086, 1074, 1085, 1086, 1089, 1090, 1080, 32, 1089, 1077, 1088, 1074, 1080, 1089, 1072, 46],
      u ''The health check is _____.'',
      u ''failing''),
     (u ''phrase-we-need-to-add-input-validation'',
      u ''We need to add input validation.'',
      [1053, 1072, 1084, 32, 1085, 1091, 1078, 1085, 1086, 32, 1076, 1086, 1073, 1072, 1074, 1080, 1090, 1100, 32, 1074, 1072, 1083, 1080, 1076, 1072, 1094, 1080, 1102, 32, 1074, 1093, 1086, 1076, 1085, 1099, 1093, 32, 1076, 1072, 1085, 1085, 1099, 1093, 46],
      u ''We need to add input validation before calling the service layer.'',
      u ''input validation '' @ [8212, 32, 1087, 1088, 1086, 1074, 1077, 1088, 1082, 1072, 32, 1074, 1093, 1086, 1076, 1085, 1099, 1093, 32, 1076, 1072, 1085, 1085, 1099, 1093, 46],
      u ''We need to add input _____.'',
      u ''validation''),
     (u ''phrase-this-operation-must-be-idempotent'',
      u ''This operation must be idempotent.'',
      [1069, 1090, 1072, 32, 1086, 1087, 1077, 1088, 1072, 1094, 1080, 1103, 32, 1076, 1086, 1083, 1078, 1085, 1072, 32, 1073, 1099, 1090, 1100, 32, 1080, 1076, 1077, 1084, 1087, 1086, 1090, 1077, 1085, 1090, 1085, 1086, 1081, 46],
      u ''This operation must be idempotent because clients may retry it.'',
      [1058, 1088, 1077, 1073, 1086, 1074, 1072, 1085, 1080, 1077, 32, 1082, 32, 1073, 1077, 1079, 1086, 1087, 1072, 1089, 1085, 1086, 32, 1087, 1086, 1074, 1090, 1086, 1088, 1103, 1077, 1084, 1086, 1081, 32, 1086, 1087, 1077, 1088, 1072, 1094, 1080, 1080, 46],
      u ''This operation must be _____.'',
      u ''idempotent''),
     (u ''phrase-the-retry-should-use-exponential-backoff'',
      u ''The retry should use exponential backoff.'',
      [1055, 1086, 1074, 1090, 1086, 1088, 1085, 1072, 1103, 32, 1087, 1086, 1087, 1099, 1090, 1082, 1072, 32, 1076, 1086, 1083, 1078, 1085, 1072, 32, 1080, 1089, 1087, 1086, 1083, 1100, 1079, 1086, 1074, 1072, 1090, 1100, 32, 1101, 1082, 1089, 1087, 1086, 1085, 1077, 1085, 1094, 1080, 1072, 1083, 1100, 1085, 1091, 1102, 32, 1079, 1072, 1076, 1077, 1088, 1078, 1082, 1091, 46],
      u ''The retry should use exponential backoff with jitter.'',
      [1057, 1090, 1072, 1085, 1076, 1072, 1088, 1090, 1085, 1072, 1103, 32, 1089, 1090, 1088, 1072, 1090, 1077, 1075, 1080, 1103, 32, 1087, 1086, 1074, 1090, 1086, 1088, 1085, 1099, 1093, 32, 1087, 1086, 1087, 1099, 1090, 1086, 1082, 46],
      u ''The retry should use exponential _____.'',
      u ''backoff''),
     (u ''phrase-the-feature-flag-is-disabled'',
      u ''The feature flag is disabled.'',
      [1060, 1083, 1072, 1075, 32, 1092, 1091, 1085, 1082, 1094, 1080, 1086, 1085, 1072, 1083, 1100, 1085, 1086, 1089, 1090, 1080, 32, 1086, 1090, 1082, 1083, 1102, 1095, 1105, 1085, 46],
      u ''The feature flag is disabled in production.'',
      u ''disabled '' @ [8212, 32, 1086, 1090, 1082, 1083, 1102, 1095, 1105, 1085, 46],
      u ''The feature flag is _____.'',
      u ''disabled''),
     (u ''phrase-the-api-is-rate-limited'',
      u ''The API is rate-limited.'',
      u ''API '' @ [1086, 1075, 1088, 1072, 1085, 1080, 1095, 1077, 1085, 32, 1087, 1086, 32, 1095, 1072, 1089, 1090, 1086, 1090, 1077, 32, 1079, 1072, 1087, 1088, 1086, 1089, 1086, 1074, 46],
      u ''The API is rate-limited per client identifier.'',
      u ''rate-limited '' @ [8212, 32, 1086, 1075, 1088, 1072, 1085, 1080, 1095, 1077, 1085, 1085, 1099, 1081, 32, 1087, 1086, 32, 1095, 1080, 1089, 1083, 1091, 32, 1079, 1072, 1087, 1088, 1086, 1089, 1086, 1074, 46],
      u ''The API is rate-_____.'',
      u ''limited''),
     (u ''phrase-the-database-query-needs-an-index'',
      u ''The database query needs an index.'',
      [1047, 1072, 1087, 1088, 1086, 1089, 1091, 32, 1082, 32, 1073, 1072, 1079, 1077, 32, 1076, 1072, 1085, 1085, 1099, 1093, 32, 1085, 1091, 1078, 1077, 1085, 32, 1080, 1085, 1076, 1077, 1082, 1089, 46],
      u ''The database query needs an index on the filtering columns.'',
      [1060, 1088, 1072, 1079, 1072, 32, 1076, 1083, 1103, 32, 1086, 1073, 1089, 1091, 1078, 1076, 1077, 1085, 1080, 1103, 32, 1086, 1087, 1090, 1080, 1084, 1080, 1079, 1072, 1094, 1080, 1080, 32] @ u ''SQL.'',
      u ''The database query needs an _____.'',
      u ''index''),
     (u ''phrase-the-lock-caused-a-deadlock'',
      u ''The lock caused a deadlock.'',
      [1041, 1083, 1086, 1082, 1080, 1088, 1086, 1074, 1082, 1072, 32, 1074, 1099, 1079, 1074, 1072, 1083, 1072, 32, 1074, 1079, 1072, 1080, 1084, 1085, 1091, 1102, 32, 1073, 1083, 1086, 1082, 1080, 1088, 1086, 1074, 1082, 1091, 46],
      u ''The lock caused a deadlock between two transactions.'',
      u ''deadlock '' @ [8212, 32, 1074, 1079, 1072, 1080, 1084, 1085, 1072, 1103, 32, 1073, 1083, 1086, 1082, 1080, 1088, 1086, 1074, 1082, 1072, 46],
      u ''The lock caused a _____.'',
      u ''deadlock''),
     (u ''phrase-there-is-a-race-condition-here'',
      u ''There is a race condition here.'',
      [1047, 1076, 1077, 1089, 1100, 32, 1077, 1089, 1090, 1100, 32, 1089, 1086, 1089, 1090, 1086, 1103, 1085, 1080, 1077, 32, 1075, 1086, 1085, 1082, 1080, 46],
      u ''There is a race condition here when two workers update the cache.'',
      [1060, 1088, 1072, 1079, 1072, 32, 1076, 1083, 1103, 32] @ u ''code review '' @ [1082, 1086, 1085, 1082, 1091, 1088, 1077, 1085, 1090, 1085, 1086, 1075, 1086, 32, 1082, 1086, 1076, 1072, 46],
      u ''There is a race condition _____.'',
      u ''here''),
     (u ''phrase-the-worker-is-leaking-memory'',
      u ''The worker is leaking memory.'',
      [1042, 1086, 1088, 1082, 1077, 1088, 32, 1076, 1086, 1087, 1091, 1089, 1082, 1072, 1077, 1090, 32, 1091, 1090, 1077, 1095, 1082, 1091, 32, 1087, 1072, 1084, 1103, 1090, 1080, 46],
      u ''The worker is leaking memory after every completed job.'',
      u ''leaking memory '' @ [8212, 32, 1087, 1086, 1089, 1090, 1077, 1087, 1077, 1085, 1085, 1086, 32, 1090, 1077, 1088, 1103, 1090, 1100, 32, 1076, 1086, 1089, 1090, 1091, 1087, 1085, 1091, 1102, 32, 1087, 1072, 1084, 1103, 1090, 1100, 46],
      u ''The worker is leaking _____.'',
      u ''memory''),
     (u ''phrase-the-response-should-include-pagination-metadata'',
      u ''The response should include pagination metadata.'',
      [1054, 1090, 1074, 1077, 1090, 32, 1076, 1086, 1083, 1078, 1077, 1085, 32, 1074, 1082, 1083, 1102, 1095, 1072, 1090, 1100, 32, 1084, 1077, 1090, 1072, 1076, 1072, 1085, 1085, 1099, 1077, 32, 1087, 1072, 1075, 1080, 1085, 1072, 1094, 1080, 1080, 46],
      u ''The response should include pagination metadata and the next cursor.'',
      [1058, 1088, 1077, 1073, 1086, 1074, 1072, 1085, 1080, 1077, 32, 1082, 32] @ u ''API '' @ [1089, 1086, 32, 1089, 1087, 1080, 1089, 1082, 1072, 1084, 1080, 46],
      u ''The response should include pagination _____.'',
      u ''metadata''),
     (u ''phrase-the-service-must-shut-down-gracefully'',
      u ''The service must shut down gracefully.'',
      [1057, 1077, 1088, 1074, 1080, 1089, 32, 1076, 1086, 1083, 1078, 1077, 1085, 32, 1079, 1072, 1074, 1077, 1088, 1096, 1072, 1090, 1100, 1089, 1103, 32, 1082, 1086, 1088, 1088, 1077, 1082, 1090, 1085, 1086, 46],
      u ''The service must shut down gracefully without dropping active requests.'',
      u ''gracefully '' @ [8212, 32, 1082, 1086, 1088, 1088, 1077, 1082, 1090, 1085, 1086, 44, 32, 1089, 32, 1079, 1072, 1074, 1077, 1088, 1096, 1077, 1085, 1080, 1077, 1084, 32, 1090, 1077, 1082, 1091, 1097, 1077, 1081, 32, 1088, 1072, 1073, 1086, 1090, 1099, 46],
      u ''The service must shut down _____.'',
      u ''gracefully''),
     (u ''phrase-the-secret-must-not-be-logged'',
      u ''The secret must not be logged.'',
      [1057, 1077, 1082, 1088, 1077, 1090, 32, 1085, 1077, 1083, 1100, 1079, 1103, 32, 1079, 1072, 1087, 1080, 1089, 1099, 1074, 1072, 1090, 1100, 32, 1074, 32, 1083, 1086, 1075, 46],
      u ''The secret must not be logged even at debug level.'',
      [1050, 1088, 1080, 1090, 1080, 1095, 1085, 1086, 1077, 32, 1087, 1088, 1072, 1074, 1080, 1083, 1086, 32, 1073, 1077, 1079, 1086, 1087, 1072, 1089, 1085, 1086, 1089, 1090, 1080, 46],
      u ''The secret must not be _____.'',
      u ''logged''),
     (u ''phrase-the-configuration-is-loaded-from-the-environment'',
      u ''The configuration is loaded from the environment.'',
      [1050, 1086, 1085, 1092, 1080, 1075, 1091, 1088, 1072, 1094, 1080, 1103, 32, 1079, 1072, 1075, 1088, 1091, 1078, 1072, 1077, 1090, 1089, 1103, 32, 1080, 1079, 32, 1086, 1082, 1088, 1091, 1078, 1077, 1085, 1080, 1103, 46],
      u ''The configuration is loaded from the environment at startup.'',
      u ''from the environment '' @ [8212, 32, 1080, 1079, 32, 1087, 1077, 1088, 1077, 1084, 1077, 1085, 1085, 1099, 1093, 32, 1086, 1082, 1088, 1091, 1078, 1077, 1085, 1080, 1103, 46],
      u ''The configuration is loaded from the _____.'',
      u ''environment''),
     (u ''phrase-the-gateway-forwards-the-request'',
      u ''The gateway forwards the request.'',
      [1064, 1083, 1102, 1079, 32, 1087, 1077, 1088, 1077, 1085, 1072, 1087, 1088, 1072, 1074, 1083, 1103, 1077, 1090, 32, 1079, 1072, 1087, 1088, 1086, 1089, 46],
      u ''The gateway forwards the request to a healthy service instance.'',
      u ''forward a request '' @ [8212, 32, 1087, 1077, 1088, 1077, 1076, 1072, 1090, 1100, 32, 1079, 1072, 1087, 1088, 1086, 1089, 32, 1076, 1072, 1083, 1100, 1096, 1077, 46],
      u ''The gateway forwards the _____.'',
      u ''request''),
     (u ''phrase-lets-add-an-integration-test-for-this-case'',
      u ''Let's add an integration test for this case.'',
      [1044, 1072, 1074, 1072, 1081, 1090, 1077, 32, 1076, 1086, 1073, 1072, 1074, 1080, 1084, 32, 1080, 1085, 1090, 1077, 1075, 1088, 1072, 1094, 1080, 1086, 1085, 1085, 1099, 1081, 32, 1090, 1077, 1089, 1090, 32, 1076, 1083, 1103, 32, 1101, 1090, 1086, 1075, 1086, 32, 1089, 1083, 1091, 1095, 1072, 1103, 46],
      u ''Let's add an integration test for this case before merging the change.'',
      [1063, 1072, 1089, 1090, 1086, 1090, 1085, 1072, 1103, 32, 1092, 1088, 1072, 1079, 1072, 32, 1087, 1088, 1080, 32, 1086, 1073, 1089, 1091, 1078, 1076, 1077, 1085, 1080, 1080, 32, 1082, 1072, 1095, 1077, 1089, 1090, 1074, 1072, 32, 1088, 1077, 1072, 1083, 1080, 1079, 1072, 1094, 1080, 1080, 46],
      u ''Let's add an integration test for this _____.'',
      u ''case'')]"

definition BACKEND_PHRASES :: "LearningItem list" where
  "BACKEND_PHRASES = map (expanded_phrase (u ''Backend Development'')) BACKEND_TUPLES"

definition EXPANDED_PHRASES :: "LearningItem list" where
  "EXPANDED_PHRASES = DAILY_LIFE_PHRASES @ TRAVEL_PHRASES @ DATA_ENGINEERING_PHRASES @ BACKEND_PHRASES"

text \<open>\<open>extendTechnicalPhraseCatalog\<close>: the entries whose identifier is not there yet are added, in their order.\<close>

definition extendTechnicalPhraseCatalog :: "LearningItem list \<Rightarrow> LearningItem list \<Rightarrow> LearningItem list" where
  "extendTechnicalPhraseCatalog technical expanded =
     foldl (\<lambda>items phrase. if it_id phrase \<in> it_id ` set items then items else items @ [phrase]) technical expanded"

section \<open>The exercises of the phrases\<close>

text \<open>The blank of the phrase has an answer, and the answer put into the blank is the prompt.\<close>

definition cloze_fits :: "LearningItem \<Rightarrow> bool" where
  "cloze_fits p \<longleftrightarrow> (case it_cloze p of None \<Rightarrow> False
     | Some c \<Rightarrow> exerciseAnswer p \<noteq> [] \<and> 95 \<notin> set (exerciseAnswer p) \<and> before_blank c @ exerciseAnswer p @ after_blank c = it_prompt p)"

lemmas cloze_eval = cloze_fits_def exerciseAnswer_def has_cloze_def inferClozeAnswer_def before_blank_def after_blank_def
  first_nonempty_def has_prefix_def has_suffix_def trim_def js_ws_def u_def

lemmas tables = DAILY_LIFE_PHRASES_def DAILY_LIFE_TUPLES_def TRAVEL_PHRASES_def TRAVEL_TUPLES_def
  DATA_ENGINEERING_PHRASES_def DATA_ENGINEERING_TUPLES_def BACKEND_PHRASES_def BACKEND_TUPLES_def
  TECHNICAL_PHRASES_def list.map expanded_phrase.simps phrase_item_def

lemma technical_fit: "list_all cloze_fits TECHNICAL_PHRASES"
  unfolding tables
  by (simp only: list.pred_inject cloze_fits_def exerciseAnswer_def has_cloze_def LearningItem.select_convs) (simp add: cloze_eval)

lemma daily_life_fit: "list_all cloze_fits DAILY_LIFE_PHRASES"
  unfolding tables
  by (simp only: list.pred_inject cloze_fits_def exerciseAnswer_def has_cloze_def LearningItem.select_convs) (simp add: cloze_eval)

lemma travel_fit: "list_all cloze_fits TRAVEL_PHRASES"
  unfolding tables
  by (simp only: list.pred_inject cloze_fits_def exerciseAnswer_def has_cloze_def LearningItem.select_convs) (simp add: cloze_eval)

lemma data_engineering_fit: "list_all cloze_fits DATA_ENGINEERING_PHRASES"
  unfolding tables
  by (simp only: list.pred_inject cloze_fits_def exerciseAnswer_def has_cloze_def LearningItem.select_convs) (simp add: cloze_eval)

lemma backend_fit: "list_all cloze_fits BACKEND_PHRASES"
  unfolding tables
  by (simp only: list.pred_inject cloze_fits_def exerciseAnswer_def has_cloze_def LearningItem.select_convs) (simp add: cloze_eval)

text \<open>Every identifier is \<open>phrase-\<close> and a slug of lower-case letters, digits and dashes.\<close>

definition slug_unit :: "nat \<Rightarrow> bool" where "slug_unit c \<longleftrightarrow> 97 \<le> c \<and> c \<le> 122 \<or> 48 \<le> c \<and> c \<le> 57 \<or> c = 45"

definition identified :: "LearningItem \<Rightarrow> bool" where
  "identified p \<longleftrightarrow> take 7 (it_id p) = u ''phrase-'' \<and> drop 7 (it_id p) \<noteq> [] \<and> list_all slug_unit (take 20 (drop 7 (it_id p)))"

lemma technical_identified: "list_all identified TECHNICAL_PHRASES"
  unfolding tables
  by (simp only: list.pred_inject identified_def LearningItem.select_convs) (simp add: slug_unit_def u_def)

lemma daily_life_identified: "list_all identified DAILY_LIFE_PHRASES"
  unfolding tables
  by (simp only: list.pred_inject identified_def LearningItem.select_convs) (simp add: slug_unit_def u_def)

lemma travel_identified: "list_all identified TRAVEL_PHRASES"
  unfolding tables
  by (simp only: list.pred_inject identified_def LearningItem.select_convs) (simp add: slug_unit_def u_def)

lemma data_engineering_identified: "list_all identified DATA_ENGINEERING_PHRASES"
  unfolding tables
  by (simp only: list.pred_inject identified_def LearningItem.select_convs) (simp add: slug_unit_def u_def)

lemma backend_identified: "list_all identified BACKEND_PHRASES"
  unfolding tables
  by (simp only: list.pred_inject identified_def LearningItem.select_convs) (simp add: slug_unit_def u_def)

definition builtin_phrases :: "LearningItem list" where "builtin_phrases = TECHNICAL_PHRASES @ EXPANDED_PHRASES"

lemma builtin_fit: "list_all cloze_fits builtin_phrases"
  by (simp add: builtin_phrases_def EXPANDED_PHRASES_def technical_fit daily_life_fit travel_fit data_engineering_fit backend_fit)

lemma builtin_identified: "list_all identified builtin_phrases"
  by (simp add: builtin_phrases_def EXPANDED_PHRASES_def technical_identified daily_life_identified travel_identified
      data_engineering_identified backend_identified)

text \<open>The identifiers differ, as a number computed from each shows.\<close>

definition id_number :: "LearningItem \<Rightarrow> nat" where "id_number p = foldl (\<lambda>a c. 2 * a + c) 0 (take 20 (drop 7 (it_id p)))"

lemma builtin_ids: "distinct (map it_id builtin_phrases)"
proof -
  have "distinct (map id_number builtin_phrases)"
    unfolding builtin_phrases_def EXPANDED_PHRASES_def tables
    by (simp only: append.simps list.map id_number_def LearningItem.select_convs) (simp add: u_def)
  moreover have "map id_number builtin_phrases = map (\<lambda>i. foldl (\<lambda>a c. 2 * a + c) 0 (take 20 (drop 7 i))) (map it_id builtin_phrases)"
    by (simp add: id_number_def)
  ultimately show ?thesis by (simp only: distinct_map)
qed

lemma builtin_phrase_kind: "p \<in> set builtin_phrases \<Longrightarrow> it_kind p = PhraseItem"
proof -
  have "list_all (\<lambda>p. it_kind p = PhraseItem) builtin_phrases"
    unfolding builtin_phrases_def EXPANDED_PHRASES_def tables
    by (simp only: append.simps list.pred_inject LearningItem.select_convs simp_thms)
  then show "p \<in> set builtin_phrases \<Longrightarrow> it_kind p = PhraseItem" by (simp add: list_all_iff)
qed

end
