(* ===== verification/Route_Shell.thy ===== *)
theory Route_Shell
  imports Nav_History Journey Auth_Forms
begin

text \<open>
  What the components of the route islands share, \<open>src/frontend/components/lexigo-phrases-app.tsx\<close> and
  \<open>src/frontend/components/lexigo-dictionary-app.tsx\<close>: the target that is shown, the entry of the browser's history, the
  scroll position that is still to be restored, and the handlers that change them.  A component extends the record by
  its own state.
\<close>

section \<open>State\<close>

datatype entry_call = ReplaceEntry jval jstr | PushEntry jval jstr

type_synonym pending_scroll = "jstr \<times> NavigationScrollPosition"

record route_shell =
  rs_navigation :: NavigationTarget
  rs_render :: nat
  rs_ref :: NavigationTarget
  rs_pendingScroll :: "pending_scroll option"
  rs_local :: storage
  rs_sessionStorage :: storage
  rs_entry :: jval
  rs_url :: jstr
  rs_history :: "entry_call list"
  rs_router :: "jstr list"
  rs_journey :: journey

text \<open>\<open>rs_render\<close> counts the targets the navigation was set to: each is a new object, so the filters are computed anew
  and the effect that depends on them runs, even when the target is the same.\<close>

definition at_window :: "'a route_shell_scheme \<Rightarrow> nav_window" where
  "at_window s = \<lparr>nw_historyState = rs_entry s, nw_pathname = takeWhile (\<lambda>c. c \<noteq> 63) (rs_url s)\<rparr>"

definition at_search :: "'a route_shell_scheme \<Rightarrow> jstr" where "at_search s = dropWhile (\<lambda>c. c \<noteq> 63) (rs_url s)"

definition zero_scroll :: NavigationScrollPosition where "zero_scroll = \<lparr>sp_x = 0, sp_y = 0\<rparr>"

definition is_zero :: "NavigationScrollPosition \<Rightarrow> bool" where "is_zero p \<longleftrightarrow> jeq (sp_x p) 0 \<and> jeq (sp_y p) 0"

definition initial_scroll :: "jval \<Rightarrow> jstr \<Rightarrow> storage \<Rightarrow> NavigationTarget \<Rightarrow> js_exn + pending_scroll option" where
  "initial_scroll entry url st target =
     (case navigationIdentity target of
        Inl x \<Rightarrow> Inl x
      | Inr identity \<Rightarrow>
          let historyScroll = navigationScrollFromHistory
                (Some \<lparr>nw_historyState = entry, nw_pathname = takeWhile (\<lambda>c. c \<noteq> 63) url\<rparr>) entry in
          (case readNavigationScrollSnapshot st identity of
             Inl x \<Rightarrow> Inl x
           | Inr fallbackScroll \<Rightarrow>
               let scroll = (if is_zero historyScroll then (case fallbackScroll of Some p \<Rightarrow> p | None \<Rightarrow> historyScroll) else historyScroll) in
               Inr (if is_zero scroll then None else Some (identity, scroll))))"

section \<open>Navigation\<close>

definition replace_entry :: "NavigationHistoryState \<Rightarrow> jstr \<Rightarrow> 'a route_shell_scheme \<Rightarrow> 'a route_shell_scheme" where
  "replace_entry state url s =
     s\<lparr>rs_entry := history_value state, rs_url := url, rs_history := rs_history s @ [ReplaceEntry (history_value state) url]\<rparr>"

definition push_entry :: "NavigationHistoryState \<Rightarrow> jstr \<Rightarrow> 'a route_shell_scheme \<Rightarrow> 'a route_shell_scheme" where
  "push_entry state url s =
     s\<lparr>rs_entry := history_value state, rs_url := url, rs_history := rs_history s @ [PushEntry (history_value state) url]\<rparr>"

definition persistCurrentEntry :: "NavigationScrollPosition \<Rightarrow> 'a route_shell_scheme \<Rightarrow> 'a route_shell_scheme" where
  "persistCurrentEntry here s = replace_entry (createNavigationHistoryState (Some (at_window s)) (rs_ref s) here) (rs_url s) s"

text \<open>The part of a handler before what throws has happened; \<open>here\<close> is the scroll position of the window.\<close>

definition leave_page :: "NavigationScrollPosition \<Rightarrow> jstr \<Rightarrow> 'a route_shell_scheme \<Rightarrow> 'a route_shell_scheme" where
  "leave_page here url s =
     (case navigationIdentity (rs_ref s) of
        Inl x \<Rightarrow> s
      | Inr identity \<Rightarrow>
          (case writeNavigationScrollSnapshot (rs_sessionStorage s) identity here of
             Inl x \<Rightarrow> s
           | Inr (done_ok, st) \<Rightarrow> s\<lparr>rs_sessionStorage := st, rs_router := rs_router s @ [url]\<rparr>))"

definition set_navigation :: "NavigationTarget \<Rightarrow> NavigationScrollPosition \<Rightarrow> 'a route_shell_scheme \<Rightarrow> 'a route_shell_scheme" where
  "set_navigation target scroll s =
     (let s = s\<lparr>rs_ref := target\<rparr> in
      case navigationIdentity target of
        Inl x \<Rightarrow> s
      | Inr identity \<Rightarrow>
          s\<lparr>rs_pendingScroll := Some (identity, scroll), rs_navigation := target, rs_render := Suc (rs_render s),
            rs_local := writePersistedNavigation (rs_local s) target\<rparr>)"

definition go_to ::
  "rum_env \<Rightarrow> AppView \<Rightarrow> NavigationScrollPosition \<Rightarrow> NavigationTarget \<Rightarrow> bool \<Rightarrow> NavigationScrollPosition \<Rightarrow> ProductJourneyIntent \<Rightarrow> 'a route_shell_scheme \<Rightarrow> 'a route_shell_scheme" where
  "go_to e own here target replace scroll intent s =
     (let s = s\<lparr>rs_journey := reportProductJourney e (rs_ref s) target intent (rs_journey s)\<rparr>;
          s = persistCurrentEntry here s in
      case navigationURL target of
        Inl x \<Rightarrow> s
      | Inr url \<Rightarrow>
          if nt_view target \<noteq> own then leave_page here url s
          else
            let state = createNavigationHistoryState (Some (at_window s)) target scroll in
            set_navigation target scroll (if replace then replace_entry state url s else push_entry state url s))"

text \<open>The browser has gone to the entry \<open>entry\<close> at \<open>url\<close>.\<close>

definition syncNavigation :: "jval \<Rightarrow> jstr \<Rightarrow> 'a route_shell_scheme \<Rightarrow> 'a route_shell_scheme" where
  "syncNavigation entry url s =
     (let s = s\<lparr>rs_entry := entry, rs_url := url\<rparr> in
      case navigationTargetFromHistory (Some (at_window s)) entry (at_search s) of
        Inl x \<Rightarrow> s
      | Inr next_target \<Rightarrow> set_navigation next_target (navigationScrollFromHistory (Some (at_window s)) entry) s)"

definition requireAuthentication :: "rum_env \<Rightarrow> NavigationScrollPosition \<Rightarrow> 'a route_shell_scheme \<Rightarrow> 'a route_shell_scheme" where
  "requireAuthentication e here s =
     (let s = s\<lparr>rs_journey := reportProductJourney e (rs_ref s) (only_view ProfileView) Authentication (rs_journey s)\<rparr>;
          s = persistCurrentEntry here s in
      case navigationIdentity (rs_ref s) of
        Inl x \<Rightarrow> s
      | Inr identity \<Rightarrow>
          (case writeNavigationScrollSnapshot (rs_sessionStorage s) identity here of
             Inl x \<Rightarrow> s
           | Inr (done_ok, st) \<Rightarrow>
               let s = s\<lparr>rs_sessionStorage := st\<rparr> in
               (case authenticationURL (rs_ref s) of Inl x \<Rightarrow> s | Inr url \<Rightarrow> s\<lparr>rs_router := rs_router s @ [url]\<rparr>)))"

text \<open>The end of a restoration of the scroll position \<open>p\<close>.\<close>

definition restoration_ended :: "pending_scroll \<Rightarrow> bool \<Rightarrow> 'a route_shell_scheme \<Rightarrow> 'a route_shell_scheme" where
  "restoration_ended p restored s =
     (let s = (if restored then
            (case removeNavigationScrollSnapshot (rs_sessionStorage s) (fst p) of
               Inl x \<Rightarrow> s | Inr (done_ok, st) \<Rightarrow> s\<lparr>rs_sessionStorage := st\<rparr>) else s) in
      if rs_pendingScroll s = Some p then s\<lparr>rs_pendingScroll := None\<rparr> else s)"

text \<open>The effect of a new target.\<close>

definition navigation_effect :: "'a route_shell_scheme \<Rightarrow> 'a route_shell_scheme" where
  "navigation_effect s = s\<lparr>rs_ref := rs_navigation s, rs_local := writePersistedNavigation (rs_local s) (rs_navigation s)\<rparr>"

end
