(* ===== verification/Phrases.thy ===== *)
theory Phrases
  imports Auth_Forms Auth_Session Nav_History Journey
begin

text \<open>
  \<open>src/frontend/lib/phrases.ts\<close> and the part of \<open>src/frontend/components/lexigo-phrases-app.tsx\<close> that keeps no state: the guards
  of the phrase payloads, the slug of a phrase, the catalog a guest sees and the list of topics.
\<close>

section \<open>Phrases\<close>

definition ph_count :: "jval \<Rightarrow> bool" where "ph_count v \<longleftrightarrow> v_isInteger v \<and> num_of v \<ge> 0"
definition ph_positive :: "jval \<Rightarrow> bool" where "ph_positive v \<longleftrightarrow> v_isInteger v \<and> num_of v > 0"
definition ph_text :: "jval \<Rightarrow> bool" where "ph_text v \<longleftrightarrow> is_string v \<and> length (trim (str_of v)) > 0"
definition ph_optional_text :: "jval \<Rightarrow> bool" where "ph_optional_text v \<longleftrightarrow> v = JUndef \<or> is_string v"
definition ph_optional_texts :: "jval \<Rightarrow> bool" where
  "ph_optional_texts v \<longleftrightarrow> v = JUndef \<or> is_array v \<and> list_all is_string (arr_of v)"

definition isPhraseItemPayload :: "jval \<Rightarrow> bool" where
  "isPhraseItemPayload v \<longleftrightarrow>
     isRecord v \<and> ph_positive (jget v ''id'') \<and> is_lit (jget v ''kind'') ''phrase''
     \<and> ph_text (jget v ''slug'') \<and> length (str_of (jget v ''slug'')) \<le> 120 \<and> 47 \<notin> set (str_of (jget v ''slug''))
     \<and> ph_text (jget v ''lemma'') \<and> ph_text (jget v ''translation'') \<and> is_string (jget v ''phonetic'')
     \<and> is_string (jget v ''partOfSpeech'') \<and> ph_text (jget v ''topic'')
     \<and> ph_optional_texts (jget v ''aliases'') \<and> ph_optional_texts (jget v ''acceptedAnswers'')
     \<and> is_array (jget v ''examples'') \<and> list_all is_string (arr_of (jget v ''examples''))
     \<and> is_string (jget v ''note'') \<and> is_string (jget v ''status'')
     \<and> ph_optional_text (jget v ''cloze'') \<and> ph_optional_text (jget v ''clozeAnswer'')"

definition isPhraseItemsResponsePayload :: "jval \<Rightarrow> bool" where
  "isPhraseItemsResponsePayload v \<longleftrightarrow>
     isRecord v \<and> is_array (jget v ''items'') \<and> list_all isPhraseItemPayload (arr_of (jget v ''items'')) \<and> ph_count (jget v ''count'')
     \<and> list_all (\<lambda>k. jget v k = JUndef \<or> ph_count (jget v k)) [''total'', ''totalPages'']
     \<and> list_all (\<lambda>k. jget v k = JUndef \<or> ph_positive (jget v k)) [''page'', ''pageSize'']
     \<and> list_all (\<lambda>k. jget v k = JUndef \<or> is_boolean (jget v k)) [''hasPrevious'', ''hasNext'']"

definition optional_text_of :: "jval \<Rightarrow> jstr option" where
  "optional_text_of v = (if v = JUndef then None else Some (str_of v))"
definition optional_texts_of :: "jval \<Rightarrow> jstr list option" where
  "optional_texts_of v = (if v = JUndef then None else Some (map str_of (arr_of v)))"

definition bad_phrase :: thrown where "bad_phrase = TypeException [1053, 1077, 1082, 1086, 1088, 1088, 1077, 1082, 1090, 1085, 1099, 1081, 32, 112, 97, 121, 108, 111, 97, 100, 32, 1092, 1088, 1072, 1079, 1099]"

definition phraseFromAPI :: "jval \<Rightarrow> thrown + LearningItem" where
  "phraseFromAPI v =
     (if \<not> isPhraseItemPayload v then Inl bad_phrase
      else Inr \<lparr>it_id = u ''phrase-'' @ num_str (num_of (jget v ''id'')), it_wordId = Some (num_of (jget v ''id'')),
        it_kind = PhraseItem, it_slug = Some (str_of (jget v ''slug'')), it_prompt = str_of (jget v ''lemma''),
        it_answer = str_of (jget v ''translation''), it_phonetic = str_of (jget v ''phonetic''),
        it_partOfSpeech = str_of (jget v ''partOfSpeech''), it_section = PhraseSection, it_topic = str_of (jget v ''topic''),
        it_aliases = optional_texts_of (jget v ''aliases''), it_acceptedAnswers = optional_texts_of (jget v ''acceptedAnswers''),
        it_examples = map str_of (arr_of (jget v ''examples'')), it_note = str_of (jget v ''note''),
        it_status = str_of (jget v ''status''), it_selectionReason = None,
        it_cloze = optional_text_of (jget v ''cloze''), it_clozeAnswer = optional_text_of (jget v ''clozeAnswer'')\<rparr>)"

fun phrases_from :: "jval list \<Rightarrow> thrown + LearningItem list" where
  "phrases_from [] = Inr []"
| "phrases_from (v # vs) =
     (case phraseFromAPI v of
        Inl x \<Rightarrow> Inl x
      | Inr i \<Rightarrow> (case phrases_from vs of Inl x \<Rightarrow> Inl x | Inr xs \<Rightarrow> Inr (i # xs)))"

definition phraseSlug :: "LearningItem \<Rightarrow> jstr" where
  "phraseSlug item =
     (let explicit = (case it_slug item of Some s \<Rightarrow> trim s | None \<Rightarrow> []) in
      if explicit \<noteq> [] then explicit
      else if has_prefix (it_id item) (u ''phrase-'') then drop 7 (it_id item) else it_id item)"

definition phraseTopicLabel :: "(jstr \<Rightarrow> jstr) \<Rightarrow> jstr \<Rightarrow> jstr looked_up" where
  "phraseTopicLabel lower_en topic = topicLabel lower_en topic"

definition phraseStatusLabel :: "(jstr \<Rightarrow> jstr) \<Rightarrow> jstr \<Rightarrow> jstr looked_up" where
  "phraseStatusLabel lower_en status = catalogStatusLabel lower_en (if status \<noteq> [] then status else u ''new'')"

section \<open>The catalog of a guest\<close>

record phrases_env =
  pe_lower_ru :: "jstr \<Rightarrow> jstr"
  pe_collate_en :: "jstr \<Rightarrow> jstr \<Rightarrow> int"
  pe_collate_ru :: "jstr \<Rightarrow> jstr \<Rightarrow> int"
  pe_builtin :: "LearningItem list"
  pe_rum :: rum_env
  pe_offset :: jnum

definition guestPhrase :: "nat \<Rightarrow> LearningItem \<Rightarrow> LearningItem" where
  "guestPhrase index item =
     item\<lparr>it_kind := PhraseItem, it_slug := Some (phraseSlug item),
       it_wordId := Some (case it_wordId item of Some n \<Rightarrow> n | None \<Rightarrow> 900000 + jnat index)\<rparr>"

text \<open>\<open>pe_builtin\<close> are the built-in phrases, the technical ones and then the expanded ones.\<close>

definition GUEST_PHRASES :: "phrases_env \<Rightarrow> LearningItem list" where
  "GUEST_PHRASES e = (let phrases = filter (\<lambda>i. it_kind i = PhraseItem) (pe_builtin e) in
     map (\<lambda>(n, i). guestPhrase n i) (zip [0..<length phrases] phrases))"

text \<open>The value of the last entry of a \<open>Map\<close> with this key.\<close>

definition index_by_id :: "LearningItem list \<Rightarrow> LearningItem \<Rightarrow> int" where
  "index_by_id phrases item =
     (case map_of (rev (zip (map it_id phrases) [0..<length phrases])) (it_id item) of
        Some n \<Rightarrow> int n | None \<Rightarrow> 9007199254740991)"

definition guest_matches :: "phrases_env \<Rightarrow> PhraseCatalogFilters \<Rightarrow> LearningItem \<Rightarrow> bool" where
  "guest_matches e f item \<longleftrightarrow>
     (let query = pe_lower_ru e (pf_query f) in
      (pf_topic f = all_topics \<or> it_topic item = pf_topic f)
      \<and> (query = [] \<or> list_ex (\<lambda>v. has_substring (pe_lower_ru e v) query)
            ([it_prompt item, it_answer item, it_topic item] @ it_examples item)))"

definition guestCatalog :: "phrases_env \<Rightarrow> PhraseCatalogFilters \<Rightarrow> LearningItem PaginatedCatalog" where
  "guestCatalog e f =
     (let phrases = GUEST_PHRASES e;
          ordered = sortCatalogEntries (pe_collate_en e) (filter (guest_matches e f) phrases) it_prompt (index_by_id phrases) (pf_sort f) in
      paginateCatalogEntries ordered (pf_page f) CATALOG_PAGE_SIZE)"

definition guest_phrase :: "phrases_env \<Rightarrow> jstr \<Rightarrow> LearningItem option" where
  "guest_phrase e slug = find (\<lambda>i. it_slug i = Some slug \<or> it_id i = slug) (GUEST_PHRASES e)"

definition phraseTopics :: "phrases_env \<Rightarrow> jval option \<Rightarrow> LearningItem list \<Rightarrow> jstr \<Rightarrow> jstr list" where
  "phraseTopics e metadata shown_items selected =
     (let counted = (case metadata of
            None \<Rightarrow> []
          | Some m \<Rightarrow> map (\<lambda>t. trim (str_of (jget t ''topic'')))
              (filter (\<lambda>t. (case jget t ''phrases'' of JNum n \<Rightarrow> n > 0 | _ \<Rightarrow> False) \<and> trim (str_of (jget t ''topic'')) \<noteq> [])
                (arr_of (jget m ''topics''))));
          listed = filter (\<lambda>t. t \<noteq> []) (map (\<lambda>i. trim (it_topic i)) shown_items) in
      js_sort (pe_collate_ru e) (distinct_first (counted @ listed @ (if selected \<noteq> all_topics then [selected] else []))))"

end
