(* ===== verification/Phrases_App.thy ===== *)
theory Phrases_App
  imports Phrases Route_Shell
begin

text \<open>
  The controller of the phrase catalog, \<open>src/frontend/components/lexigo-phrases-app.tsx\<close>: the state is what the component
  keeps, the storages, the entry of the browser's history and what was sent.  A load is split where it awaits its
  answer.  A load that was started by an effect belongs to the effect's abort controller: when the effect is cleaned
  up, its timer and its load are gone, since an aborted load does nothing any more.  A load that the learner retries has
  no controller.  Every handler sees the state of the last render.  The scroll position of the window is an argument
  of the handlers that read it; focus, the listener of the scroll events and its timer (\<open>Nav_History\<close>) are left out.
\<close>

section \<open>State\<close>

definition EMPTY_PAGE_INFO :: CatalogPageInfo where
  "EMPTY_PAGE_INFO = \<lparr>pi_total = 0, pi_page = 1, pi_pageSize = CATALOG_PAGE_SIZE, pi_totalPages = 0, pi_hasPrevious = False,
     pi_hasNext = False\<rparr>"

text \<open>The loads, with the session and what they were asked for; the timers of the three effects that start them.\<close>

datatype phrases_load = MetadataLoad | ProgressLoad Session | CatalogLoad Session PhraseCatalogFilters | DetailLoad Session jstr
datatype phrases_timer = OverviewTimer "Session option" | CatalogTimer "Session option" PhraseCatalogFilters
  | DetailTimer "Session option" jstr

record phrases_app = route_shell +
  pa_session :: "Session option"
  pa_searchInput :: jstr
  pa_committedQuery :: jstr
  pa_items :: "LearningItem list"
  pa_pageInfo :: CatalogPageInfo
  pa_catalogStatus :: ResourceStatus
  pa_metadata :: "jval option"
  pa_duePhrases :: "jnum option"
  pa_detail :: "LearningItem option"
  pa_detailStatus :: ResourceStatus
  pa_timers :: "phrases_timer list"
  pa_flights :: "(phrases_load \<times> bool) list"
  pa_requests :: "jstr list"
  pa_adopted :: "Session list"

definition pa_filters :: "phrases_app \<Rightarrow> PhraseCatalogFilters" where "pa_filters s = phraseCatalogFilters (rs_navigation s)"

definition target_slug :: "NavigationTarget \<Rightarrow> jstr" where
  "target_slug t = (case nt_detail t of Some d \<Rightarrow> trim d | None \<Rightarrow> [])"

definition detailSlug :: "phrases_app \<Rightarrow> jstr" where "detailSlug s = target_slug (rs_navigation s)"

section \<open>The first render\<close>

definition first_render :: "Session option \<Rightarrow> jval \<Rightarrow> jstr \<Rightarrow> storage \<Rightarrow> storage \<Rightarrow> journey \<Rightarrow> js_exn + phrases_app" where
  "first_render session entry url local st j =
     (let target = parseNavigationLocation (takeWhile (\<lambda>c. c \<noteq> 63) url, dropWhile (\<lambda>c. c \<noteq> 63) url) in
      case initial_scroll entry url st target of
        Inl x \<Rightarrow> Inl x
      | Inr p \<Rightarrow> Inr
         \<lparr>rs_navigation = target, rs_render = 0, rs_ref = target, rs_pendingScroll = p, rs_local = local, rs_sessionStorage = st,
          rs_entry = entry, rs_url = url, rs_history = [], rs_router = [], rs_journey = j, pa_session = session,
          pa_searchInput = pf_query (phraseCatalogFilters target), pa_committedQuery = pf_query (phraseCatalogFilters target),
          pa_items = [], pa_pageInfo = EMPTY_PAGE_INFO, pa_catalogStatus = loadingResourceStatus, pa_metadata = None,
          pa_duePhrases = None, pa_detail = None, pa_detailStatus = loadingResourceStatus, pa_timers = [], pa_flights = [],
          pa_requests = [], pa_adopted = []\<rparr>)"

section \<open>Effects\<close>

fun overview_load :: "phrases_load \<Rightarrow> bool" where
  "overview_load MetadataLoad = True" | "overview_load (ProgressLoad x) = True" | "overview_load l = False"
fun catalog_load :: "phrases_load \<Rightarrow> bool" where
  "catalog_load (CatalogLoad x f) = True" | "catalog_load l = False"
fun detail_load :: "phrases_load \<Rightarrow> bool" where
  "detail_load (DetailLoad x slug) = True" | "detail_load l = False"
fun overview_timer :: "phrases_timer \<Rightarrow> bool" where
  "overview_timer (OverviewTimer x) = True" | "overview_timer t = False"
fun catalog_timer :: "phrases_timer \<Rightarrow> bool" where
  "catalog_timer (CatalogTimer x f) = True" | "catalog_timer t = False"
fun detail_timer :: "phrases_timer \<Rightarrow> bool" where
  "detail_timer (DetailTimer x slug) = True" | "detail_timer t = False"

text \<open>The cleanup of an effect clears its timer and aborts the loads that carry its signal.\<close>

definition clean_up :: "(phrases_timer \<Rightarrow> bool) \<Rightarrow> (phrases_load \<Rightarrow> bool) \<Rightarrow> phrases_app \<Rightarrow> phrases_app" where
  "clean_up own_timer own_load s =
     s\<lparr>pa_timers := filter (\<lambda>t. \<not> own_timer t) (pa_timers s),
       pa_flights := filter (\<lambda>(l, signal). \<not> (signal \<and> own_load l)) (pa_flights s)\<rparr>"

definition add_timer :: "phrases_timer \<Rightarrow> phrases_app \<Rightarrow> phrases_app" where
  "add_timer t s = s\<lparr>pa_timers := pa_timers s @ [t]\<rparr>"

definition overview_effect :: "phrases_app \<Rightarrow> phrases_app" where
  "overview_effect s =
     (let s = clean_up overview_timer overview_load s in
      if detailSlug s \<noteq> [] then s else add_timer (OverviewTimer (pa_session s)) s)"

definition catalog_effect :: "phrases_app \<Rightarrow> phrases_app" where
  "catalog_effect s =
     (let s = clean_up catalog_timer catalog_load s in
      if detailSlug s \<noteq> [] then s else add_timer (CatalogTimer (pa_session s) (pa_filters s)) s)"

definition detail_effect :: "phrases_app \<Rightarrow> phrases_app" where
  "detail_effect s =
     (let s = clean_up detail_timer detail_load s in
      if detailSlug s = [] then s else add_timer (DetailTimer (pa_session s) (detailSlug s)) s)"

definition query_effect :: "phrases_app \<Rightarrow> phrases_app" where
  "query_effect s =
     (let query = pf_query (pa_filters s); previousCommitted = pa_committedQuery s; s = s\<lparr>pa_committedQuery := query\<rparr> in
      if pa_searchInput s = previousCommitted then s\<lparr>pa_searchInput := query\<rparr> else s)"

text \<open>The effects a render calls for: \<open>before\<close> is the state that was rendered last, if there was a render.\<close>

definition run_effects :: "phrases_app option \<Rightarrow> phrases_app \<Rightarrow> phrases_app" where
  "run_effects before s =
     (let changed = (\<lambda>f. (case before of None \<Rightarrow> True | Some b \<Rightarrow> f b));
          navigated = changed (\<lambda>b. rs_render b \<noteq> rs_render s);
          slug_changed = changed (\<lambda>b. detailSlug b \<noteq> detailSlug s);
          session_changed = changed (\<lambda>b. pa_session b \<noteq> pa_session s);
          s = (if changed (\<lambda>b. pf_query (pa_filters b) \<noteq> pf_query (pa_filters s)) then query_effect s else s);
          s = (if navigated then navigation_effect s else s);
          s = (if slug_changed \<or> session_changed then overview_effect s else s);
          s = (if navigated \<or> slug_changed \<or> session_changed then catalog_effect s else s) in
      if slug_changed \<or> session_changed then detail_effect s else s)"

definition handled :: "(phrases_app \<Rightarrow> phrases_app) \<Rightarrow> phrases_app \<Rightarrow> phrases_app" where
  "handled f s = run_effects (Some s) (f s)"

section \<open>Loads\<close>

definition pa_adoptSession :: "Session \<Rightarrow> Session \<Rightarrow> phrases_app \<Rightarrow> phrases_app" where
  "pa_adoptSession captured next_session s =
     (if accessToken (ss_tokens captured) \<noteq> accessToken (ss_tokens next_session)
      then s\<lparr>pa_adopted := pa_adopted s @ [next_session]\<rparr> else s)"

definition pa_send :: "phrases_load \<Rightarrow> bool \<Rightarrow> jstr \<Rightarrow> phrases_app \<Rightarrow> phrases_app" where
  "pa_send l signal path s = s\<lparr>pa_flights := pa_flights s @ [(l, signal)], pa_requests := pa_requests s @ [path]\<rparr>"

definition loadMetadata :: "phrases_app \<Rightarrow> phrases_app" where
  "loadMetadata s = pa_send MetadataLoad True (u ''/api/v1/catalog/metadata'') s"

definition loadProgress :: "phrases_env \<Rightarrow> Session option \<Rightarrow> phrases_app \<Rightarrow> phrases_app" where
  "loadProgress e session s =
     (case session of
        None \<Rightarrow> s\<lparr>pa_duePhrases := None\<rparr>
      | Some x \<Rightarrow> pa_send (ProgressLoad x) True (u ''/api/v1/progress?timezoneOffsetMinutes='' @ num_str (pe_offset e)) s)"

definition catalog_params :: "PhraseCatalogFilters \<Rightarrow> params" where
  "catalog_params f =
     (let ps = [(u ''kind'', u ''phrase''), (u ''source'', u ''phrases''), (u ''page'', num_str (pf_page f)),
            (u ''limit'', num_str CATALOG_PAGE_SIZE), (u ''sort'', sort_text (pf_sort f))];
          ps = (if pf_topic f \<noteq> all_topics then params_set ps (u ''topic'') (pf_topic f) else ps) in
      if pf_query f \<noteq> [] then params_set ps (u ''query'') (pf_query f) else ps)"

definition show_catalog :: "LearningItem list \<Rightarrow> CatalogPageInfo \<Rightarrow> phrases_app \<Rightarrow> phrases_app" where
  "show_catalog xs page_info s = s\<lparr>pa_items := xs, pa_pageInfo := page_info, pa_catalogStatus := readyResourceStatus\<rparr>"

definition catalog_failed :: "thrown \<Rightarrow> phrases_app \<Rightarrow> phrases_app" where
  "catalog_failed x s = s\<lparr>pa_items := [], pa_pageInfo := EMPTY_PAGE_INFO,
     pa_catalogStatus := failedResourceStatus x [1082, 1072, 1090, 1072, 1083, 1086, 1075, 32, 1092, 1088, 1072, 1079]\<rparr>"

definition loadCatalog :: "phrases_env \<Rightarrow> Session option \<Rightarrow> PhraseCatalogFilters \<Rightarrow> bool \<Rightarrow> phrases_app \<Rightarrow> phrases_app" where
  "loadCatalog e session f signal s =
     (let s = s\<lparr>pa_catalogStatus := loadingResourceStatus\<rparr> in
      case session of
        None \<Rightarrow> show_catalog (pc_items (guestCatalog e f)) (pc_info (guestCatalog e f)) s
      | Some x \<Rightarrow> pa_send (CatalogLoad x f) signal (u ''/api/v1/words?'' @ params_text (catalog_params f)) s)"

definition show_detail :: "LearningItem \<Rightarrow> phrases_app \<Rightarrow> phrases_app" where
  "show_detail item s = s\<lparr>pa_detail := Some item, pa_detailStatus := readyResourceStatus\<rparr>"

definition detail_failed :: "thrown \<Rightarrow> phrases_app \<Rightarrow> phrases_app" where
  "detail_failed x s = s\<lparr>pa_detail := None, pa_detailStatus := failedResourceStatus x [1082, 1072, 1088, 1090, 1086, 1095, 1082, 1091, 32, 1092, 1088, 1072, 1079, 1099]\<rparr>"

definition uri_malformed :: thrown where "uri_malformed = ErrorException (u ''URI malformed'')"

definition loadDetail :: "phrases_env \<Rightarrow> Session option \<Rightarrow> jstr \<Rightarrow> bool \<Rightarrow> phrases_app \<Rightarrow> phrases_app" where
  "loadDetail e session slug signal s =
     (let s = s\<lparr>pa_detailStatus := loadingResourceStatus, pa_detail := None\<rparr> in
      case session of
        None \<Rightarrow>
          (case guest_phrase e slug of
             None \<Rightarrow> detail_failed (ErrorException [1060, 1088, 1072, 1079, 1072, 32, 1085, 1077, 1076, 1086, 1089, 1090, 1091, 1087, 1085, 1072, 32, 1074, 32, 1076, 1077, 1084, 1086, 45, 1082, 1072, 1090, 1072, 1083, 1086, 1075, 1077]) s
           | Some item \<Rightarrow> show_detail item s)
      | Some x \<Rightarrow>
          (case encodeURIComponent slug of
             Inl y \<Rightarrow> detail_failed uri_malformed s
           | Inr seg \<Rightarrow> pa_send (DetailLoad x slug) signal (u ''/api/v1/phrases/'' @ seg) s))"

text \<open>A timer of an effect fires.\<close>

fun timer_fired :: "phrases_env \<Rightarrow> phrases_timer \<Rightarrow> phrases_app \<Rightarrow> phrases_app" where
  "timer_fired e (OverviewTimer session) s = loadProgress e session (loadMetadata s)"
| "timer_fired e (CatalogTimer session f) s = loadCatalog e session f True s"
| "timer_fired e (DetailTimer session slug) s = loadDetail e session slug True s"

text \<open>An answer arrives: the session that is active then and the payload, or what was thrown.\<close>

fun answered :: "phrases_load \<Rightarrow> thrown + Session \<times> jval \<Rightarrow> phrases_app \<Rightarrow> phrases_app" where
  "answered MetadataLoad (Inr (active, v)) s = s\<lparr>pa_metadata := Some v\<rparr>"
| "answered MetadataLoad (Inl x) s = s\<lparr>pa_metadata := None\<rparr>"
| "answered (ProgressLoad session) (Inr (active, v)) s =
     (pa_adoptSession session active s)\<lparr>pa_duePhrases := Some (num_of (jget v ''duePhrases''))\<rparr>"
| "answered (ProgressLoad session) (Inl x) s = s\<lparr>pa_duePhrases := None\<rparr>"
| "answered (CatalogLoad session f) (Inr (active, v)) s =
     (let s = pa_adoptSession session active s in
      case phrases_from (arr_of (jget v ''items'')) of
        Inl x \<Rightarrow> catalog_failed x s
      | Inr xs \<Rightarrow> show_catalog xs (catalogPageInfo v CATALOG_PAGE_SIZE) s)"
| "answered (CatalogLoad session f) (Inl x) s = catalog_failed x s"
| "answered (DetailLoad session slug) (Inr (active, v)) s =
     (let s = pa_adoptSession session active s in
      case phraseFromAPI v of Inl x \<Rightarrow> detail_failed x s | Inr item \<Rightarrow> show_detail item s)"
| "answered (DetailLoad session slug) (Inl x) s = detail_failed x s"

section \<open>Handlers\<close>

definition updateFilters ::
  "phrases_env \<Rightarrow> NavigationScrollPosition \<Rightarrow> (PhraseCatalogFilters \<Rightarrow> PhraseCatalogFilters) \<Rightarrow> phrases_app \<Rightarrow> phrases_app" where
  "updateFilters e here changes s =
     go_to (pe_rum e) PhrasesView here (phraseCatalogTarget (changes (phraseCatalogFilters (rs_ref s))) None) False zero_scroll InAppNavigation s"

definition type_search :: "jstr \<Rightarrow> phrases_app \<Rightarrow> phrases_app" where "type_search v s = s\<lparr>pa_searchInput := v\<rparr>"

definition submit_search :: "phrases_env \<Rightarrow> NavigationScrollPosition \<Rightarrow> phrases_app \<Rightarrow> phrases_app" where
  "submit_search e here s = updateFilters e here (\<lambda>f. f\<lparr>pf_query := trim (pa_searchInput s), pf_page := 1\<rparr>) s"

definition clear_search :: "phrases_env \<Rightarrow> NavigationScrollPosition \<Rightarrow> phrases_app \<Rightarrow> phrases_app" where
  "clear_search e here s = updateFilters e here (\<lambda>f. f\<lparr>pf_query := [], pf_page := 1\<rparr>) (s\<lparr>pa_searchInput := []\<rparr>)"

definition choose_topic :: "phrases_env \<Rightarrow> NavigationScrollPosition \<Rightarrow> jstr \<Rightarrow> phrases_app \<Rightarrow> phrases_app" where
  "choose_topic e here topic s = updateFilters e here (\<lambda>f. f\<lparr>pf_topic := topic, pf_page := 1\<rparr>) s"

definition choose_sort :: "phrases_env \<Rightarrow> NavigationScrollPosition \<Rightarrow> CatalogSort \<Rightarrow> phrases_app \<Rightarrow> phrases_app" where
  "choose_sort e here order s = updateFilters e here (\<lambda>f. f\<lparr>pf_sort := order, pf_page := 1\<rparr>) s"

definition choose_page :: "phrases_env \<Rightarrow> NavigationScrollPosition \<Rightarrow> jnum \<Rightarrow> phrases_app \<Rightarrow> phrases_app" where
  "choose_page e here page s = updateFilters e here (\<lambda>f. f\<lparr>pf_page := page\<rparr>) s"

definition reset_catalog :: "phrases_env \<Rightarrow> NavigationScrollPosition \<Rightarrow> phrases_app \<Rightarrow> phrases_app" where
  "reset_catalog e here s =
     go_to (pe_rum e) PhrasesView here (phraseCatalogTarget \<lparr>pf_topic = all_topics, pf_query = [], pf_sort = SortDefault, pf_page = 1\<rparr> None) False
       zero_scroll InAppNavigation (s\<lparr>pa_searchInput := []\<rparr>)"

definition retry_catalog :: "phrases_env \<Rightarrow> phrases_app \<Rightarrow> phrases_app" where
  "retry_catalog e s = loadCatalog e (pa_session s) (pa_filters s) False s"

definition retry_detail :: "phrases_env \<Rightarrow> phrases_app \<Rightarrow> phrases_app" where
  "retry_detail e s = loadDetail e (pa_session s) (detailSlug s) False s"

definition open_phrase :: "phrases_env \<Rightarrow> NavigationScrollPosition \<Rightarrow> jstr \<Rightarrow> phrases_app \<Rightarrow> phrases_app" where
  "open_phrase e here slug s =
     go_to (pe_rum e) PhrasesView here (phraseCatalogTarget (pa_filters s) (Some slug)) False zero_scroll InAppNavigation s"

definition navigationWithoutDetail :: "NavigationTarget \<Rightarrow> NavigationTarget" where
  "navigationWithoutDetail t = t\<lparr>nt_detail := None\<rparr>"

definition back_to_catalog :: "phrases_env \<Rightarrow> NavigationScrollPosition \<Rightarrow> phrases_app \<Rightarrow> phrases_app" where
  "back_to_catalog e here s = go_to (pe_rum e) PhrasesView here (navigationWithoutDetail (rs_ref s)) True zero_scroll InAppNavigation s"

definition lesson_topic :: "phrases_app \<Rightarrow> jstr" where
  "lesson_topic s =
     (case pa_detail s of
        Some item \<Rightarrow> if it_topic item \<noteq> [] then it_topic item
          else if pf_topic (pa_filters s) \<noteq> all_topics then pf_topic (pa_filters s) else []
      | None \<Rightarrow> if pf_topic (pa_filters s) \<noteq> all_topics then pf_topic (pa_filters s) else [])"

definition configureLesson :: "phrases_env \<Rightarrow> NavigationScrollPosition \<Rightarrow> phrases_app \<Rightarrow> phrases_app" where
  "configureLesson e here s =
     (if pa_session s = None then requireAuthentication (pe_rum e) here s
      else
        let topic = lesson_topic s in
        go_to (pe_rum e) PhrasesView here ((only_view LearnView)\<lparr>nt_source := Some SourcePhrases, nt_topic := (if topic \<noteq> [] then Some topic else None)\<rparr>)
          False zero_scroll LessonStart s)"

definition switch_to_words :: "phrases_env \<Rightarrow> NavigationScrollPosition \<Rightarrow> phrases_app \<Rightarrow> phrases_app" where
  "switch_to_words e here s = go_to (pe_rum e) PhrasesView here (only_view LibraryView) False zero_scroll InAppNavigation s"

definition session_given :: "Session option \<Rightarrow> phrases_app \<Rightarrow> phrases_app" where "session_given x s = s\<lparr>pa_session := x\<rparr>"

text \<open>What is on the screen: the card of a phrase or a page of the catalog.\<close>

datatype phrases_screen = PhraseScreen "LearningItem option" ResourceStatus
  | CatalogScreen "jnum option" PhraseCatalogFilters jstr "LearningItem list" CatalogPageInfo "jstr list" ResourceStatus

definition renderPhrases :: "phrases_env \<Rightarrow> phrases_app \<Rightarrow> phrases_screen" where
  "renderPhrases e s =
     (if detailSlug s \<noteq> [] then PhraseScreen (pa_detail s) (pa_detailStatus s)
      else CatalogScreen (pa_duePhrases s) (pa_filters s) (pa_searchInput s) (pa_items s) (pa_pageInfo s)
        (phraseTopics e (pa_metadata s) (pa_items s) (pf_topic (pa_filters s))) (pa_catalogStatus s))"

end
