(* ===== verification/Phrases_Visit.thy ===== *)
theory Phrases_Visit
  imports Phrases_App
begin

text \<open>
  A visit of the phrase catalog of \<open>Phrases_App\<close>: the steps of the learner, the browser, the timers and the answers, in
  any order.  Without the retry buttons the screen always shows what belongs to its address; a load that is retried
  can overwrite it.
\<close>

section \<open>Steps\<close>

text \<open>What the server answers to the loads of a visit, as long as its content does not change.\<close>

record phrases_server =
  ps_catalog :: "PhraseCatalogFilters \<Rightarrow> jval"
  ps_detail :: "jstr \<Rightarrow> jval"

fun answer_ok :: "phrases_server \<Rightarrow> phrases_load \<Rightarrow> thrown + Session \<times> jval \<Rightarrow> bool" where
  "answer_ok srv (CatalogLoad x f) (Inr (active, v)) \<longleftrightarrow> v = ps_catalog srv f \<and> isPhraseItemsResponsePayload v"
| "answer_ok srv (DetailLoad x slug) (Inr (active, v)) \<longleftrightarrow> v = ps_detail srv slug \<and> isPhraseItemPayload v"
| "answer_ok srv l r \<longleftrightarrow> True"

definition can_retry :: "ResourceStatus \<Rightarrow> bool" where
  "can_retry st \<longleftrightarrow> ar_phase st = ErrorPhase \<and> (case ar_problem st of Some p \<Rightarrow> pb_retryable p | None \<Rightarrow> False)"

definition timer_gone :: "phrases_timer \<Rightarrow> phrases_app \<Rightarrow> phrases_app" where
  "timer_gone t s = s\<lparr>pa_timers := filter (\<lambda>x. x \<noteq> t) (pa_timers s)\<rparr>"

definition flight_gone :: "phrases_load \<times> bool \<Rightarrow> phrases_app \<Rightarrow> phrases_app" where
  "flight_gone l s = s\<lparr>pa_flights := remove1 l (pa_flights s)\<rparr>"

inductive ph_step :: "bool \<Rightarrow> phrases_server \<Rightarrow> phrases_env \<Rightarrow> phrases_app \<Rightarrow> phrases_app \<Rightarrow> bool" for retries srv e where
  p_type: "detailSlug s = [] \<Longrightarrow> ph_step retries srv e s (handled (type_search v) s)"
| p_submit: "detailSlug s = [] \<Longrightarrow> ph_step retries srv e s (handled (submit_search e here) s)"
| p_clear: "detailSlug s = [] \<Longrightarrow> ph_step retries srv e s (handled (clear_search e here) s)"
| p_topic: "detailSlug s = [] \<Longrightarrow> ph_step retries srv e s (handled (choose_topic e here topic) s)"
| p_sort: "detailSlug s = [] \<Longrightarrow> ph_step retries srv e s (handled (choose_sort e here order) s)"
| p_page: "detailSlug s = [] \<Longrightarrow> ph_step retries srv e s (handled (choose_page e here page) s)"
| p_reset: "detailSlug s = [] \<Longrightarrow> ph_step retries srv e s (handled (reset_catalog e here) s)"
| p_open: "detailSlug s = [] \<Longrightarrow> ph_step retries srv e s (handled (open_phrase e here slug) s)"
| p_words: "detailSlug s = [] \<Longrightarrow> ph_step retries srv e s (handled (switch_to_words e here) s)"
| p_back: "detailSlug s \<noteq> [] \<Longrightarrow> ph_step retries srv e s (handled (back_to_catalog e here) s)"
| p_lesson: "ph_step retries srv e s (handled (configureLesson e here) s)"
| p_sign_in: "pa_session s = None \<Longrightarrow> ph_step retries srv e s (handled (requireAuthentication (pe_rum e) here) s)"
| p_retry_catalog: "retries \<Longrightarrow> detailSlug s = [] \<Longrightarrow> can_retry (pa_catalogStatus s) \<Longrightarrow>
    ph_step retries srv e s (handled (retry_catalog e) s)"
| p_retry_detail: "retries \<Longrightarrow> detailSlug s \<noteq> [] \<Longrightarrow> can_retry (pa_detailStatus s) \<Longrightarrow>
    ph_step retries srv e s (handled (retry_detail e) s)"
| p_pop: "ph_step retries srv e s (handled (syncNavigation entry url) s)"
| p_session: "ph_step retries srv e s (handled (session_given x) s)"
| p_timer: "t \<in> set (pa_timers s) \<Longrightarrow> ph_step retries srv e s (handled (timer_fired e t \<circ> timer_gone t) s)"
| p_answer: "(l, signal) \<in> set (pa_flights s) \<Longrightarrow> answer_ok srv l r \<Longrightarrow>
    ph_step retries srv e s (handled (answered l r \<circ> flight_gone (l, signal)) s)"
| p_scrolled: "rs_pendingScroll s = Some p \<Longrightarrow> ph_step retries srv e s (handled (restoration_ended p restored) s)"

inductive ph_visit :: "bool \<Rightarrow> phrases_server \<Rightarrow> phrases_env \<Rightarrow> phrases_app \<Rightarrow> bool" for retries srv e where
  ph_start: "first_render session entry url local st j = Inr s \<Longrightarrow> ph_visit retries srv e (run_effects None s)"
| ph_more: "ph_visit retries srv e s \<Longrightarrow> ph_step retries srv e s s' \<Longrightarrow> ph_visit retries srv e s'"

section \<open>What belongs to the address\<close>

definition catalog_content :: "phrases_server \<Rightarrow> phrases_env \<Rightarrow> Session option \<Rightarrow> PhraseCatalogFilters \<Rightarrow> (LearningItem list \<times> CatalogPageInfo) option" where
  "catalog_content srv e session f =
     (case session of
        None \<Rightarrow> Some (pc_items (guestCatalog e f), pc_info (guestCatalog e f))
      | Some x \<Rightarrow> (case phrases_from (arr_of (jget (ps_catalog srv f) ''items'')) of
            Inl y \<Rightarrow> None | Inr xs \<Rightarrow> Some (xs, catalogPageInfo (ps_catalog srv f) CATALOG_PAGE_SIZE)))"

definition detail_content :: "phrases_server \<Rightarrow> phrases_env \<Rightarrow> Session option \<Rightarrow> jstr \<Rightarrow> LearningItem option" where
  "detail_content srv e session slug =
     (case session of
        None \<Rightarrow> guest_phrase e slug
      | Some x \<Rightarrow> (case phraseFromAPI (ps_detail srv slug) of Inl y \<Rightarrow> None | Inr item \<Rightarrow> Some item))"

definition catalog_pending :: "phrases_app \<Rightarrow> bool" where
  "catalog_pending s \<longleftrightarrow> (\<exists>x f. CatalogTimer x f \<in> set (pa_timers s)) \<or> (\<exists>x f b. (CatalogLoad x f, b) \<in> set (pa_flights s))"

definition detail_pending :: "phrases_app \<Rightarrow> bool" where
  "detail_pending s \<longleftrightarrow> (\<exists>x f. DetailTimer x f \<in> set (pa_timers s)) \<or> (\<exists>x f b. (DetailLoad x f, b) \<in> set (pa_flights s))"

text \<open>Every pending load is for what is shown; when none is pending, what is shown has been loaded.\<close>

definition catalog_ok :: "phrases_server \<Rightarrow> phrases_env \<Rightarrow> phrases_app \<Rightarrow> bool" where
  "catalog_ok srv e s \<longleftrightarrow>
     (\<forall>x f. CatalogTimer x f \<in> set (pa_timers s) \<longrightarrow> detailSlug s = [] \<and> x = pa_session s \<and> f = pa_filters s)
     \<and> (\<forall>x f b. (CatalogLoad x f, b) \<in> set (pa_flights s) \<longrightarrow> b \<and> detailSlug s = [] \<and> Some x = pa_session s \<and> f = pa_filters s)
     \<and> (detailSlug s = [] \<and> \<not> catalog_pending s \<longrightarrow>
          ar_phase (pa_catalogStatus s) = ErrorPhase \<or>
          pa_catalogStatus s = readyResourceStatus \<and> catalog_content srv e (pa_session s) (pa_filters s) = Some (pa_items s, pa_pageInfo s))"

definition detail_ok :: "phrases_server \<Rightarrow> phrases_env \<Rightarrow> phrases_app \<Rightarrow> bool" where
  "detail_ok srv e s \<longleftrightarrow>
     (\<forall>x slug. DetailTimer x slug \<in> set (pa_timers s) \<longrightarrow> slug \<noteq> [] \<and> x = pa_session s \<and> slug = detailSlug s)
     \<and> (\<forall>x slug b. (DetailLoad x slug, b) \<in> set (pa_flights s) \<longrightarrow> b \<and> slug \<noteq> [] \<and> Some x = pa_session s \<and> slug = detailSlug s)
     \<and> (detailSlug s \<noteq> [] \<and> \<not> detail_pending s \<longrightarrow>
          ar_phase (pa_detailStatus s) = ErrorPhase \<or>
          pa_detailStatus s = readyResourceStatus \<and> pa_detail s \<noteq> None \<and> pa_detail s = detail_content srv e (pa_session s) (detailSlug s))"

section \<open>Effects\<close>

definition same_content :: "phrases_app \<Rightarrow> phrases_app \<Rightarrow> bool" where
  "same_content s t \<longleftrightarrow> pa_items t = pa_items s \<and> pa_pageInfo t = pa_pageInfo s \<and> pa_catalogStatus t = pa_catalogStatus s
     \<and> pa_detail t = pa_detail s \<and> pa_detailStatus t = pa_detailStatus s"

definition same_place :: "phrases_app \<Rightarrow> phrases_app \<Rightarrow> bool" where
  "same_place s t \<longleftrightarrow> pa_session t = pa_session s \<and> rs_navigation t = rs_navigation s \<and> rs_render t = rs_render s"

definition same_work :: "phrases_app \<Rightarrow> phrases_app \<Rightarrow> bool" where
  "same_work s t \<longleftrightarrow>
     (\<forall>x f. CatalogTimer x f \<in> set (pa_timers t) \<longleftrightarrow> CatalogTimer x f \<in> set (pa_timers s))
     \<and> (\<forall>x slug. DetailTimer x slug \<in> set (pa_timers t) \<longleftrightarrow> DetailTimer x slug \<in> set (pa_timers s))
     \<and> (\<forall>y f b. (CatalogLoad y f, b) \<in> set (pa_flights t) \<longleftrightarrow> (CatalogLoad y f, b) \<in> set (pa_flights s))
     \<and> (\<forall>y slug b. (DetailLoad y slug, b) \<in> set (pa_flights t) \<longleftrightarrow> (DetailLoad y slug, b) \<in> set (pa_flights s))"

lemma place_slug: "same_place s t \<Longrightarrow> detailSlug t = detailSlug s \<and> pa_filters t = pa_filters s \<and> pa_session t = pa_session s"
  by (simp add: same_place_def detailSlug_def pa_filters_def)

lemma same_trans:
  "same_content s t \<Longrightarrow> same_content t r \<Longrightarrow> same_content s r" "same_place s t \<Longrightarrow> same_place t r \<Longrightarrow> same_place s r"
  "same_work s t \<Longrightarrow> same_work t r \<Longrightarrow> same_work s r"
  by (simp_all add: same_content_def same_place_def same_work_def)

lemma query_effect_same: "same_content s (query_effect s)" "same_place s (query_effect s)" "same_work s (query_effect s)"
  by (simp_all add: query_effect_def Let_def same_content_def same_place_def same_work_def)

lemma navigation_effect_same: "same_content s (navigation_effect s)" "same_place s (navigation_effect s)" "same_work s (navigation_effect s)"
  by (simp_all add: navigation_effect_def same_content_def same_place_def same_work_def)

lemma load_effect_same:
  "same_content s (overview_effect s)" "same_place s (overview_effect s)" "same_content s (catalog_effect s)" "same_place s (catalog_effect s)"
  "same_content s (detail_effect s)" "same_place s (detail_effect s)"
  by (simp_all add: overview_effect_def catalog_effect_def detail_effect_def clean_up_def add_timer_def Let_def same_content_def same_place_def)

lemma detailSlug_clean [simp]: "detailSlug (clean_up a b s) = detailSlug s" by (simp add: detailSlug_def clean_up_def)
lemma pa_filters_clean [simp]: "pa_filters (clean_up a b s) = pa_filters s" by (simp add: pa_filters_def clean_up_def)

text \<open>The work of one kind after each effect.\<close>

lemma overview_effect_work:
  "CatalogTimer x f \<in> set (pa_timers (overview_effect s)) \<longleftrightarrow> CatalogTimer x f \<in> set (pa_timers s)"
  "DetailTimer x slug \<in> set (pa_timers (overview_effect s)) \<longleftrightarrow> DetailTimer x slug \<in> set (pa_timers s)"
  "(CatalogLoad y f, b) \<in> set (pa_flights (overview_effect s)) \<longleftrightarrow> (CatalogLoad y f, b) \<in> set (pa_flights s)"
  "(DetailLoad y slug, b) \<in> set (pa_flights (overview_effect s)) \<longleftrightarrow> (DetailLoad y slug, b) \<in> set (pa_flights s)"
  by (simp_all add: overview_effect_def Let_def clean_up_def add_timer_def)

lemma catalog_effect_work:
  "CatalogTimer x f \<in> set (pa_timers (catalog_effect s)) \<longleftrightarrow> detailSlug s = [] \<and> x = pa_session s \<and> f = pa_filters s"
  "DetailTimer x slug \<in> set (pa_timers (catalog_effect s)) \<longleftrightarrow> DetailTimer x slug \<in> set (pa_timers s)"
  "(CatalogLoad y f, b) \<in> set (pa_flights (catalog_effect s)) \<longleftrightarrow> \<not> b \<and> (CatalogLoad y f, b) \<in> set (pa_flights s)"
  "(DetailLoad y slug, b) \<in> set (pa_flights (catalog_effect s)) \<longleftrightarrow> (DetailLoad y slug, b) \<in> set (pa_flights s)"
  by (auto simp: catalog_effect_def Let_def clean_up_def add_timer_def detailSlug_def pa_filters_def)

lemma detail_effect_work:
  "CatalogTimer x f \<in> set (pa_timers (detail_effect s)) \<longleftrightarrow> CatalogTimer x f \<in> set (pa_timers s)"
  "DetailTimer x slug \<in> set (pa_timers (detail_effect s)) \<longleftrightarrow> slug \<noteq> [] \<and> x = pa_session s \<and> slug = detailSlug s"
  "(CatalogLoad y f, b) \<in> set (pa_flights (detail_effect s)) \<longleftrightarrow> (CatalogLoad y f, b) \<in> set (pa_flights s)"
  "(DetailLoad y slug, b) \<in> set (pa_flights (detail_effect s)) \<longleftrightarrow> \<not> b \<and> (DetailLoad y slug, b) \<in> set (pa_flights s)"
  by (auto simp: detail_effect_def Let_def clean_up_def add_timer_def detailSlug_def)

text \<open>What a render asks of the effects, \<open>None\<close> being the first render.\<close>

definition moved_catalog :: "phrases_app option \<Rightarrow> phrases_app \<Rightarrow> bool" where
  "moved_catalog before s \<longleftrightarrow> (case before of None \<Rightarrow> True
     | Some b \<Rightarrow> rs_render b \<noteq> rs_render s \<or> detailSlug b \<noteq> detailSlug s \<or> pa_session b \<noteq> pa_session s)"

definition moved_detail :: "phrases_app option \<Rightarrow> phrases_app \<Rightarrow> bool" where
  "moved_detail before s \<longleftrightarrow> (case before of None \<Rightarrow> True | Some b \<Rightarrow> detailSlug b \<noteq> detailSlug s \<or> pa_session b \<noteq> pa_session s)"

lemma run_effects_parts:
  obtains s1 s2 where "same_content t s1" "same_place t s1" "same_work t s1" "s2 = (if moved_detail b t then overview_effect s1 else s1)"
    "run_effects b t = (let s3 = (if moved_catalog b t then catalog_effect s2 else s2) in if moved_detail b t then detail_effect s3 else s3)"
proof -
  define c1 where "c1 = (case b of None \<Rightarrow> True | Some b \<Rightarrow> pf_query (pa_filters b) \<noteq> pf_query (pa_filters t))"
  define c2 where "c2 = (case b of None \<Rightarrow> True | Some b \<Rightarrow> rs_render b \<noteq> rs_render t)"
  define r1 where "r1 = (if c1 then query_effect t else t)"
  define s1 where "s1 = (if c2 then navigation_effect r1 else r1)"
  have r1: "same_content t r1" "same_place t r1" "same_work t r1"
    using query_effect_same [of t] by (simp_all add: r1_def same_content_def same_place_def same_work_def)
  have s1: "same_content r1 s1" "same_place r1 s1" "same_work r1 s1"
    using navigation_effect_same [of r1] by (simp_all add: s1_def same_content_def same_place_def same_work_def)
  have md: "moved_detail b t \<longleftrightarrow> (case b of None \<Rightarrow> True | Some b \<Rightarrow> detailSlug b \<noteq> detailSlug t) \<or> (case b of None \<Rightarrow> True | Some b \<Rightarrow> pa_session b \<noteq> pa_session t)"
    by (cases b) (simp_all add: moved_detail_def)
  have mc: "moved_catalog b t \<longleftrightarrow> c2 \<or> (case b of None \<Rightarrow> True | Some b \<Rightarrow> detailSlug b \<noteq> detailSlug t) \<or> (case b of None \<Rightarrow> True | Some b \<Rightarrow> pa_session b \<noteq> pa_session t)"
    by (cases b) (simp_all add: moved_catalog_def c2_def)
  have "run_effects b t = (let s2 = (if moved_detail b t then overview_effect s1 else s1);
      s3 = (if moved_catalog b t then catalog_effect s2 else s2) in if moved_detail b t then detail_effect s3 else s3)"
    unfolding md mc run_effects_def Let_def by (simp only: c1_def [symmetric] c2_def [symmetric] r1_def [symmetric] s1_def [symmetric])
  then show thesis
    using that [of s1] same_trans(1) [OF r1(1) s1(1)] same_trans(2) [OF r1(2) s1(2)] same_trans(3) [OF r1(3) s1(3)]
    by (simp add: Let_def)
qed

lemma run_effects_content: "same_content t (run_effects b t)" "same_place t (run_effects b t)"
proof -
  obtain s1 s2 where r: "same_content t s1" "same_place t s1" "same_work t s1" "s2 = (if moved_detail b t then overview_effect s1 else s1)"
    "run_effects b t = (let s3 = (if moved_catalog b t then catalog_effect s2 else s2) in if moved_detail b t then detail_effect s3 else s3)"
    by (rule run_effects_parts)
  define s3 where "s3 = (if moved_catalog b t then catalog_effect s2 else s2)"
  have s2: "same_content s1 s2" "same_place s1 s2" using load_effect_same(1,2) [of s1] by (simp_all add: r(4) same_content_def same_place_def)
  have s3: "same_content s2 s3" "same_place s2 s3" using load_effect_same(3,4) [of s2] by (simp_all add: s3_def same_content_def same_place_def)
  have "run_effects b t = (if moved_detail b t then detail_effect s3 else s3)" by (simp add: r(5) s3_def)
  then have s4: "same_content s3 (run_effects b t)" "same_place s3 (run_effects b t)"
    using load_effect_same(5,6) [of s3] by (simp_all add: same_content_def same_place_def)
  show "same_content t (run_effects b t)" "same_place t (run_effects b t)"
    using same_trans(1) [OF same_trans(1) [OF same_trans(1) [OF r(1) s2(1)] s3(1)] s4(1)]
      same_trans(2) [OF same_trans(2) [OF same_trans(2) [OF r(2) s2(2)] s3(2)] s4(2)] by simp_all
qed

lemma run_effects_work:
  "CatalogTimer x f \<in> set (pa_timers (run_effects b t)) \<longleftrightarrow>
     (if moved_catalog b t then detailSlug t = [] \<and> x = pa_session t \<and> f = pa_filters t else CatalogTimer x f \<in> set (pa_timers t))"
  "(CatalogLoad y f, g) \<in> set (pa_flights (run_effects b t)) \<longleftrightarrow> (moved_catalog b t \<longrightarrow> \<not> g) \<and> (CatalogLoad y f, g) \<in> set (pa_flights t)"
  "DetailTimer x slug \<in> set (pa_timers (run_effects b t)) \<longleftrightarrow>
     (if moved_detail b t then slug \<noteq> [] \<and> x = pa_session t \<and> slug = detailSlug t else DetailTimer x slug \<in> set (pa_timers t))"
  "(DetailLoad y slug, g) \<in> set (pa_flights (run_effects b t)) \<longleftrightarrow> (moved_detail b t \<longrightarrow> \<not> g) \<and> (DetailLoad y slug, g) \<in> set (pa_flights t)"
proof -
  obtain s1 s2 where r: "same_content t s1" "same_place t s1" "same_work t s1" "s2 = (if moved_detail b t then overview_effect s1 else s1)"
    "run_effects b t = (let s3 = (if moved_catalog b t then catalog_effect s2 else s2) in if moved_detail b t then detail_effect s3 else s3)"
    by (rule run_effects_parts)
  define s3 where "s3 = (if moved_catalog b t then catalog_effect s2 else s2)"
  have s2: "same_place s1 s2" using load_effect_same(2) [of s1] by (simp add: r(4) same_place_def)
  have s3: "same_place s2 s3" using load_effect_same(4) [of s2] by (simp add: s3_def same_place_def)
  have p2: "detailSlug s2 = detailSlug t" "pa_filters s2 = pa_filters t" "pa_session s2 = pa_session t"
    using place_slug [OF same_trans(2) [OF r(2) s2]] by simp_all
  have p3: "detailSlug s3 = detailSlug t" "pa_session s3 = pa_session t"
    using place_slug [OF same_trans(2) [OF same_trans(2) [OF r(2) s2] s3]] by simp_all
  have w2: "CatalogTimer x f \<in> set (pa_timers s2) \<longleftrightarrow> CatalogTimer x f \<in> set (pa_timers t)"
    "DetailTimer x slug \<in> set (pa_timers s2) \<longleftrightarrow> DetailTimer x slug \<in> set (pa_timers t)"
    "(CatalogLoad y f, g) \<in> set (pa_flights s2) \<longleftrightarrow> (CatalogLoad y f, g) \<in> set (pa_flights t)"
    "(DetailLoad y slug, g) \<in> set (pa_flights s2) \<longleftrightarrow> (DetailLoad y slug, g) \<in> set (pa_flights t)"
    using r(3) by (simp_all add: same_work_def r(4) overview_effect_work)
  have w3: "CatalogTimer x f \<in> set (pa_timers s3) \<longleftrightarrow>
      (if moved_catalog b t then detailSlug t = [] \<and> x = pa_session t \<and> f = pa_filters t else CatalogTimer x f \<in> set (pa_timers t))"
    "(CatalogLoad y f, g) \<in> set (pa_flights s3) \<longleftrightarrow> (moved_catalog b t \<longrightarrow> \<not> g) \<and> (CatalogLoad y f, g) \<in> set (pa_flights t)"
    "DetailTimer x slug \<in> set (pa_timers s3) \<longleftrightarrow> DetailTimer x slug \<in> set (pa_timers t)"
    "(DetailLoad y slug, g) \<in> set (pa_flights s3) \<longleftrightarrow> (DetailLoad y slug, g) \<in> set (pa_flights t)"
    by (simp_all add: s3_def catalog_effect_work w2 p2)
  have end_eq: "run_effects b t = (if moved_detail b t then detail_effect s3 else s3)" by (simp add: r(5) s3_def)
  show "CatalogTimer x f \<in> set (pa_timers (run_effects b t)) \<longleftrightarrow>
      (if moved_catalog b t then detailSlug t = [] \<and> x = pa_session t \<and> f = pa_filters t else CatalogTimer x f \<in> set (pa_timers t))"
    by (simp add: end_eq detail_effect_work w3)
  show "(CatalogLoad y f, g) \<in> set (pa_flights (run_effects b t)) \<longleftrightarrow> (moved_catalog b t \<longrightarrow> \<not> g) \<and> (CatalogLoad y f, g) \<in> set (pa_flights t)"
    by (simp add: end_eq detail_effect_work w3)
  show "DetailTimer x slug \<in> set (pa_timers (run_effects b t)) \<longleftrightarrow>
      (if moved_detail b t then slug \<noteq> [] \<and> x = pa_session t \<and> slug = detailSlug t else DetailTimer x slug \<in> set (pa_timers t))"
    by (simp add: end_eq detail_effect_work w3 p3)
  show "(DetailLoad y slug, g) \<in> set (pa_flights (run_effects b t)) \<longleftrightarrow> (moved_detail b t \<longrightarrow> \<not> g) \<and> (DetailLoad y slug, g) \<in> set (pa_flights t)"
    by (simp add: end_eq detail_effect_work w3)
qed

text \<open>Effects of a render that moved are all that the invariant needs; a render that did not must keep it itself.\<close>

definition all_signed :: "phrases_app \<Rightarrow> bool" where
  "all_signed s \<longleftrightarrow> (\<forall>y f b. (CatalogLoad y f, b) \<in> set (pa_flights s) \<longrightarrow> b) \<and> (\<forall>y slug b. (DetailLoad y slug, b) \<in> set (pa_flights s) \<longrightarrow> b)"

lemma catalog_ok_cong:
  assumes "detailSlug t = detailSlug s" "pa_filters t = pa_filters s" "pa_session t = pa_session s"
    "pa_items t = pa_items s" "pa_pageInfo t = pa_pageInfo s" "pa_catalogStatus t = pa_catalogStatus s"
    "\<And>x f. CatalogTimer x f \<in> set (pa_timers t) \<longleftrightarrow> CatalogTimer x f \<in> set (pa_timers s)"
    "\<And>y f b. (CatalogLoad y f, b) \<in> set (pa_flights t) \<longleftrightarrow> (CatalogLoad y f, b) \<in> set (pa_flights s)"
  shows "catalog_ok srv e t = catalog_ok srv e s"
  unfolding catalog_ok_def catalog_pending_def assms by (rule refl)

lemma detail_ok_cong:
  assumes "detailSlug t = detailSlug s" "pa_session t = pa_session s" "pa_detail t = pa_detail s" "pa_detailStatus t = pa_detailStatus s"
    "\<And>x slug. DetailTimer x slug \<in> set (pa_timers t) \<longleftrightarrow> DetailTimer x slug \<in> set (pa_timers s)"
    "\<And>y slug b. (DetailLoad y slug, b) \<in> set (pa_flights t) \<longleftrightarrow> (DetailLoad y slug, b) \<in> set (pa_flights s)"
  shows "detail_ok srv e t = detail_ok srv e s"
  unfolding detail_ok_def detail_pending_def assms by (rule refl)

lemma effects_catalog_ok:
  assumes "moved_catalog b t \<Longrightarrow> all_signed t" "\<not> moved_catalog b t \<Longrightarrow> catalog_ok srv e t"
  shows "catalog_ok srv e (run_effects b t)"
proof -
  have p: "detailSlug (run_effects b t) = detailSlug t" "pa_filters (run_effects b t) = pa_filters t" "pa_session (run_effects b t) = pa_session t"
    using place_slug [OF run_effects_content(2)] by simp_all
  have c: "pa_items (run_effects b t) = pa_items t" "pa_pageInfo (run_effects b t) = pa_pageInfo t" "pa_catalogStatus (run_effects b t) = pa_catalogStatus t"
    using run_effects_content(1) [of t b] by (simp_all add: same_content_def)
  show ?thesis
  proof (cases "moved_catalog b t")
    case True
    have "\<not> ((CatalogLoad y f, g) \<in> set (pa_flights t) \<and> \<not> g)" for y f g using assms(1) [OF True] unfolding all_signed_def by blast
    then show ?thesis using True unfolding catalog_ok_def catalog_pending_def p c run_effects_work by auto
  next
    case False
    have "catalog_ok srv e (run_effects b t) = catalog_ok srv e t"
      by (rule catalog_ok_cong) (simp_all add: p c run_effects_work False)
    then show ?thesis using assms(2) [OF False] by simp
  qed
qed

lemma effects_detail_ok:
  assumes "moved_detail b t \<Longrightarrow> all_signed t" "\<not> moved_detail b t \<Longrightarrow> detail_ok srv e t"
  shows "detail_ok srv e (run_effects b t)"
proof -
  have p: "detailSlug (run_effects b t) = detailSlug t" "pa_session (run_effects b t) = pa_session t"
    using place_slug [OF run_effects_content(2)] by simp_all
  have c: "pa_detail (run_effects b t) = pa_detail t" "pa_detailStatus (run_effects b t) = pa_detailStatus t"
    using run_effects_content(1) [of t b] by (simp_all add: same_content_def)
  show ?thesis
  proof (cases "moved_detail b t")
    case True
    have "\<not> ((DetailLoad y f, g) \<in> set (pa_flights t) \<and> \<not> g)" for y f g using assms(1) [OF True] unfolding all_signed_def by blast
    then show ?thesis using True unfolding detail_ok_def detail_pending_def p c run_effects_work by auto
  next
    case False
    have "detail_ok srv e (run_effects b t) = detail_ok srv e t"
      by (rule detail_ok_cong) (simp_all add: p c run_effects_work False)
    then show ?thesis using assms(2) [OF False] by simp
  qed
qed

section \<open>Handlers\<close>

text \<open>A handler that leaves the content, the work and the place alone; one that may go to another place.\<close>

definition quiet_change :: "phrases_app \<Rightarrow> phrases_app \<Rightarrow> bool" where
  "quiet_change s t \<longleftrightarrow> same_content s t \<and> same_work s t \<and> same_place s t"

definition moves :: "phrases_app \<Rightarrow> phrases_app \<Rightarrow> bool" where
  "moves s t \<longleftrightarrow> same_content s t \<and> same_work s t \<and> (same_place s t \<or> rs_render t = Suc (rs_render s) \<or> pa_session t \<noteq> pa_session s)"

lemma quiet_intro:
  "pa_items t = pa_items s \<Longrightarrow> pa_pageInfo t = pa_pageInfo s \<Longrightarrow> pa_catalogStatus t = pa_catalogStatus s \<Longrightarrow> pa_detail t = pa_detail s \<Longrightarrow>
    pa_detailStatus t = pa_detailStatus s \<Longrightarrow> pa_timers t = pa_timers s \<Longrightarrow> pa_flights t = pa_flights s \<Longrightarrow>
    pa_session t = pa_session s \<Longrightarrow> rs_navigation t = rs_navigation s \<Longrightarrow> rs_render t = rs_render s \<Longrightarrow> quiet_change s t"
  by (simp add: quiet_change_def same_content_def same_work_def same_place_def)

lemma quiet_refl: "quiet_change s s" by (rule quiet_intro) simp_all

lemma quiet_trans: "quiet_change s t \<Longrightarrow> quiet_change t r \<Longrightarrow> quiet_change s r"
  unfolding quiet_change_def using same_trans by blast

lemma quiet_moves: "quiet_change s t \<Longrightarrow> moves s t" by (simp add: quiet_change_def moves_def)

lemma quiet_then_moves: "quiet_change s t \<Longrightarrow> moves t r \<Longrightarrow> moves s r"
  unfolding quiet_change_def moves_def using same_trans by (metis same_place_def)

lemma persist_quiet: "quiet_change s (persistCurrentEntry here s)"
  by (rule quiet_intro) (simp_all add: persistCurrentEntry_def replace_entry_def)

lemma leave_quiet: "quiet_change s (leave_page here url s)"
  by (rule quiet_intro) (simp_all add: leave_page_def split: sum.split prod.split)

lemma set_navigation_moves: "moves s (set_navigation target scroll s)"
proof (cases "navigationIdentity target")
  case (Inl x)
  then show ?thesis by (intro quiet_moves quiet_intro) (simp_all add: set_navigation_def Let_def)
next
  case (Inr i)
  then show ?thesis by (simp add: set_navigation_def Let_def moves_def same_content_def same_work_def)
qed

lemma go_to_moves: "moves s (go_to (pe_rum e) PhrasesView here target replace scroll intent s)"
proof -
  define s1 where "s1 = persistCurrentEntry here (s\<lparr>rs_journey := reportProductJourney (pe_rum e) (rs_ref s) target intent (rs_journey s)\<rparr>)"
  have q: "quiet_change s s1"
    unfolding s1_def by (rule quiet_trans [OF quiet_intro persist_quiet]) simp_all
  have g: "go_to (pe_rum e) PhrasesView here target replace scroll intent s = (case navigationURL target of Inl x \<Rightarrow> s1
      | Inr url \<Rightarrow> if nt_view target \<noteq> PhrasesView then leave_page here url s1
          else let state = createNavigationHistoryState (Some (at_window s1)) target scroll in
            set_navigation target scroll (if replace then replace_entry state url s1 else push_entry state url s1))"
    by (simp only: go_to_def Let_def s1_def)
  have h: "quiet_change s1 (replace_entry state url s1)" "quiet_change s1 (push_entry state url s1)" for state url
    by (rule quiet_intro; simp add: replace_entry_def push_entry_def)+
  show ?thesis
    unfolding g Let_def
    by (auto split: sum.split intro: quiet_moves q quiet_then_moves [OF q] leave_quiet quiet_then_moves [OF h(1)] quiet_then_moves [OF h(2)] set_navigation_moves)
qed

lemma handler_moves:
  "moves s (type_search v s)" "moves s (submit_search e here s)" "moves s (clear_search e here s)" "moves s (choose_topic e here topic s)"
  "moves s (choose_sort e here order s)" "moves s (choose_page e here page s)" "moves s (reset_catalog e here s)"
  "moves s (open_phrase e here slug s)" "moves s (switch_to_words e here s)" "moves s (back_to_catalog e here s)"
  "moves s (requireAuthentication (pe_rum e) here s)" "moves s (configureLesson e here s)" "moves s (syncNavigation entry url s)"
  "moves s (session_given x s)" "moves s (restoration_ended p restored s)"
proof -
  have t: "quiet_change s (s\<lparr>pa_searchInput := v\<rparr>)" for v by (rule quiet_intro) simp_all
  show "moves s (type_search v s)" unfolding type_search_def by (rule quiet_moves [OF t])
  show "moves s (submit_search e here s)" "moves s (choose_topic e here topic s)" "moves s (choose_sort e here order s)"
    "moves s (choose_page e here page s)" "moves s (open_phrase e here slug s)" "moves s (switch_to_words e here s)" "moves s (back_to_catalog e here s)"
    by (simp_all only: submit_search_def choose_topic_def choose_sort_def choose_page_def updateFilters_def open_phrase_def
        switch_to_words_def back_to_catalog_def go_to_moves)
  show "moves s (clear_search e here s)" "moves s (reset_catalog e here s)"
    unfolding clear_search_def reset_catalog_def updateFilters_def by (rule quiet_then_moves [OF t go_to_moves])+
  show a: "moves s (requireAuthentication (pe_rum e) here s)"
  proof -
    define s1 where "s1 = persistCurrentEntry here (s\<lparr>rs_journey := reportProductJourney (pe_rum e) (rs_ref s) (only_view ProfileView) Authentication (rs_journey s)\<rparr>)"
    have q: "quiet_change s s1" unfolding s1_def by (rule quiet_trans [OF quiet_intro persist_quiet]) simp_all
    have "quiet_change s1 (requireAuthentication (pe_rum e) here s)"
      unfolding requireAuthentication_def Let_def s1_def [symmetric] by (rule quiet_intro) (simp_all split: sum.split prod.split)
    with q show ?thesis by (intro quiet_moves) (rule quiet_trans)
  qed
  show "moves s (configureLesson e here s)" unfolding configureLesson_def Let_def using a by (cases "pa_session s = None") (simp_all only: if_True if_False go_to_moves simp_thms)
  show "moves s (syncNavigation entry url s)"
  proof -
    have q: "quiet_change s (s\<lparr>rs_entry := entry, rs_url := url\<rparr>)" by (rule quiet_intro) simp_all
    show ?thesis unfolding syncNavigation_def Let_def
      by (auto split: sum.split intro: quiet_moves q quiet_then_moves [OF q set_navigation_moves])
  qed
  show "moves s (session_given x s)"
    by (cases "x = pa_session s") (simp_all add: session_given_def moves_def same_content_def same_work_def same_place_def)
  show "moves s (restoration_ended p restored s)"
    by (intro quiet_moves quiet_intro) (simp_all add: restoration_ended_def Let_def split: sum.split prod.split)
qed

section \<open>The invariant\<close>

definition visit_ok :: "phrases_server \<Rightarrow> phrases_env \<Rightarrow> phrases_app \<Rightarrow> bool" where
  "visit_ok srv e s \<longleftrightarrow> catalog_ok srv e s \<and> detail_ok srv e s"

lemma visit_signed: "visit_ok srv e s \<Longrightarrow> all_signed s"
  unfolding visit_ok_def catalog_ok_def detail_ok_def all_signed_def by blast

lemma same_catalog_ok: "same_content s t \<Longrightarrow> same_work s t \<Longrightarrow> same_place s t \<Longrightarrow> catalog_ok srv e t = catalog_ok srv e s"
  by (rule catalog_ok_cong) (simp_all add: same_content_def same_work_def place_slug)

lemma same_detail_ok:
  "same_content s t \<Longrightarrow> same_work s t \<Longrightarrow> detailSlug t = detailSlug s \<Longrightarrow> pa_session t = pa_session s \<Longrightarrow> detail_ok srv e t = detail_ok srv e s"
  by (rule detail_ok_cong) (simp_all add: same_content_def same_work_def)

lemma move_ok:
  assumes "visit_ok srv e s" "moves s t"
  shows "visit_ok srv e (run_effects (Some s) t)"
proof -
  have m: "same_content s t" "same_work s t" "same_place s t \<or> rs_render t = Suc (rs_render s) \<or> pa_session t \<noteq> pa_session s"
    using assms(2) by (simp_all add: moves_def)
  have signed: "all_signed t" using visit_signed [OF assms(1)] m(2) by (simp add: all_signed_def same_work_def)
  have "catalog_ok srv e t" if "\<not> moved_catalog (Some s) t"
  proof -
    have "same_place s t" using that m(3) by (auto simp: moved_catalog_def)
    with m show ?thesis using assms(1) same_catalog_ok [of s t srv e] by (simp add: visit_ok_def)
  qed
  moreover have "detail_ok srv e t" if "\<not> moved_detail (Some s) t"
    using that m assms(1) same_detail_ok [of s t srv e] by (simp add: visit_ok_def moved_detail_def)
  ultimately show ?thesis unfolding visit_ok_def using signed by (blast intro: effects_catalog_ok effects_detail_ok)
qed

lemma stay_ok:
  assumes "visit_ok srv e t" "same_place s t"
  shows "visit_ok srv e (run_effects (Some s) t)"
proof -
  have "\<not> moved_catalog (Some s) t" "\<not> moved_detail (Some s) t"
    using assms(2) place_slug [OF assms(2)] by (simp_all add: moved_catalog_def moved_detail_def same_place_def)
  then show ?thesis using assms(1) unfolding visit_ok_def by (blast intro: effects_catalog_ok effects_detail_ok)
qed

text \<open>The first render starts the loads.\<close>

lemma ph_start_ok:
  assumes "first_render session entry url local st j = Inr s"
  shows "visit_ok srv e (run_effects None s)"
proof -
  have "pa_flights s = []" using assms by (auto simp: first_render_def Let_def split: sum.splits)
  then have "all_signed s" by (simp add: all_signed_def)
  then show ?thesis unfolding visit_ok_def by (intro conjI effects_catalog_ok effects_detail_ok) (simp_all add: moved_catalog_def moved_detail_def)
qed

lemma catalog_okI:
  assumes "\<And>x f. CatalogTimer x f \<in> set (pa_timers s) \<Longrightarrow> detailSlug s = [] \<and> x = pa_session s \<and> f = pa_filters s"
    and "\<And>x f b. (CatalogLoad x f, b) \<in> set (pa_flights s) \<Longrightarrow> b \<and> detailSlug s = [] \<and> Some x = pa_session s \<and> f = pa_filters s"
    and "detailSlug s = [] \<Longrightarrow> (\<And>x f b. (CatalogLoad x f, b) \<notin> set (pa_flights s)) \<Longrightarrow> ar_phase (pa_catalogStatus s) = ErrorPhase \<or>
          pa_catalogStatus s = readyResourceStatus \<and> catalog_content srv e (pa_session s) (pa_filters s) = Some (pa_items s, pa_pageInfo s)"
  shows "catalog_ok srv e s"
  using assms unfolding catalog_ok_def catalog_pending_def by blast

lemma detail_okI:
  assumes "\<And>x slug. DetailTimer x slug \<in> set (pa_timers s) \<Longrightarrow> slug \<noteq> [] \<and> x = pa_session s \<and> slug = detailSlug s"
    and "\<And>x slug b. (DetailLoad x slug, b) \<in> set (pa_flights s) \<Longrightarrow> b \<and> slug \<noteq> [] \<and> Some x = pa_session s \<and> slug = detailSlug s"
    and "(\<And>x slug b. (DetailLoad x slug, b) \<notin> set (pa_flights s)) \<Longrightarrow> ar_phase (pa_detailStatus s) = ErrorPhase \<or>
          pa_detailStatus s = readyResourceStatus \<and> pa_detail s \<noteq> None \<and> pa_detail s = detail_content srv e (pa_session s) (detailSlug s)"
  shows "detail_ok srv e s"
  using assms unfolding detail_ok_def detail_pending_def by blast

lemma catalog_okD:
  assumes "catalog_ok srv e s"
  shows "CatalogTimer x f \<in> set (pa_timers s) \<Longrightarrow> detailSlug s = [] \<and> x = pa_session s \<and> f = pa_filters s"
    "(CatalogLoad y f, b) \<in> set (pa_flights s) \<Longrightarrow> b \<and> detailSlug s = [] \<and> Some y = pa_session s \<and> f = pa_filters s"
  using assms unfolding catalog_ok_def by blast+

lemma detail_okD:
  assumes "detail_ok srv e s"
  shows "DetailTimer x slug \<in> set (pa_timers s) \<Longrightarrow> slug \<noteq> [] \<and> x = pa_session s \<and> slug = detailSlug s"
    "(DetailLoad y slug, b) \<in> set (pa_flights s) \<Longrightarrow> b \<and> slug \<noteq> [] \<and> Some y = pa_session s \<and> slug = detailSlug s"
  using assms unfolding detail_ok_def by blast+

text \<open>A timer fires.\<close>

lemma timer_gone_fields [simp]:
  "pa_items (timer_gone t s) = pa_items s" "pa_pageInfo (timer_gone t s) = pa_pageInfo s" "pa_catalogStatus (timer_gone t s) = pa_catalogStatus s"
  "pa_detail (timer_gone t s) = pa_detail s" "pa_detailStatus (timer_gone t s) = pa_detailStatus s" "pa_flights (timer_gone t s) = pa_flights s"
  "pa_session (timer_gone t s) = pa_session s" "rs_navigation (timer_gone t s) = rs_navigation s" "rs_render (timer_gone t s) = rs_render s"
  "detailSlug (timer_gone t s) = detailSlug s" "pa_filters (timer_gone t s) = pa_filters s"
  "set (pa_timers (timer_gone t s)) = set (pa_timers s) - {t}"
  by (auto simp: timer_gone_def detailSlug_def pa_filters_def)

lemma overview_timer_ok:
  assumes "visit_ok srv e s"
  shows "visit_ok srv e (timer_fired e (OverviewTimer x) (timer_gone (OverviewTimer x) s))" (is "visit_ok srv e ?t")
proof -
  have "same_content s ?t" "same_work s ?t" "same_place s ?t"
    by (cases x; simp add: same_content_def same_work_def same_place_def loadProgress_def loadMetadata_def pa_send_def)+
  then show ?thesis using assms same_catalog_ok [of s ?t srv e] same_detail_ok [of s ?t srv e] place_slug [of s ?t] by (simp add: visit_ok_def)
qed

lemma catalog_timer_ok:
  assumes "visit_ok srv e s" "CatalogTimer x f \<in> set (pa_timers s)"
  shows "visit_ok srv e (timer_fired e (CatalogTimer x f) (timer_gone (CatalogTimer x f) s))" (is "visit_ok srv e ?t")
proof -
  have ok: "detailSlug s = []" "x = pa_session s" "f = pa_filters s"
    using assms unfolding visit_ok_def catalog_ok_def by blast+
  have only: "y = pa_session s \<and> g = pa_filters s" if "CatalogTimer y g \<in> set (pa_timers s)" for y g
    using that assms(1) unfolding visit_ok_def catalog_ok_def by blast
  have flights: "b \<and> Some y = pa_session s \<and> g = pa_filters s" if "(CatalogLoad y g, b) \<in> set (pa_flights s)" for y g b
    using that assms(1) unfolding visit_ok_def catalog_ok_def by blast
  have place: "detailSlug ?t = detailSlug s" "pa_filters ?t = pa_filters s" "pa_session ?t = pa_session s"
    by (cases x; simp add: loadCatalog_def show_catalog_def pa_send_def Let_def detailSlug_def pa_filters_def)+
  have timers: "set (pa_timers ?t) = set (pa_timers s) - {CatalogTimer x f}"
    by (cases x) (simp_all add: loadCatalog_def show_catalog_def pa_send_def Let_def)
  have none: "CatalogTimer y g \<notin> set (pa_timers ?t)" for y g using only [of y g] ok timers by blast
  have d: "detail_ok srv e ?t = detail_ok srv e s"
    by (rule detail_ok_cong) (cases x; simp add: loadCatalog_def show_catalog_def pa_send_def Let_def detailSlug_def)+
  have "catalog_ok srv e ?t"
  proof (rule catalog_okI)
    show "CatalogTimer y g \<in> set (pa_timers ?t) \<Longrightarrow> detailSlug ?t = [] \<and> y = pa_session ?t \<and> g = pa_filters ?t" for y g
      using none by blast
    have fl: "(CatalogLoad y g, b) \<in> set (pa_flights ?t) \<Longrightarrow> (CatalogLoad y g, b) \<in> set (pa_flights s) \<or> b \<and> x = Some y \<and> g = f" for y g b
      by (cases x) (auto simp: loadCatalog_def show_catalog_def pa_send_def Let_def)
    show "(CatalogLoad y g, b) \<in> set (pa_flights ?t) \<Longrightarrow> b \<and> detailSlug ?t = [] \<and> Some y = pa_session ?t \<and> g = pa_filters ?t" for y g b
      using fl [of y g b] flights [of y g b] ok unfolding place by metis
    assume n: "\<And>y g b. (CatalogLoad y g, b) \<notin> set (pa_flights ?t)"
    have "x = None"
    proof (rule ccontr)
      assume "x \<noteq> None"
      then obtain z where "x = Some z" by blast
      then have "(CatalogLoad z f, True) \<in> set (pa_flights ?t)" by (simp add: loadCatalog_def pa_send_def Let_def)
      with n show False by blast
    qed
    then show "ar_phase (pa_catalogStatus ?t) = ErrorPhase \<or>
        pa_catalogStatus ?t = readyResourceStatus \<and> catalog_content srv e (pa_session ?t) (pa_filters ?t) = Some (pa_items ?t, pa_pageInfo ?t)"
      unfolding place using ok by (simp add: loadCatalog_def show_catalog_def Let_def catalog_content_def)
  qed
  then show ?thesis using d assms(1) by (simp add: visit_ok_def)
qed

lemma loadDetail_parts:
  "detailSlug (loadDetail e x slug g s) = detailSlug s" "pa_filters (loadDetail e x slug g s) = pa_filters s"
  "pa_session (loadDetail e x slug g s) = pa_session s" "pa_timers (loadDetail e x slug g s) = pa_timers s"
  "pa_items (loadDetail e x slug g s) = pa_items s" "pa_pageInfo (loadDetail e x slug g s) = pa_pageInfo s"
  "pa_catalogStatus (loadDetail e x slug g s) = pa_catalogStatus s" "rs_render (loadDetail e x slug g s) = rs_render s"
  "rs_navigation (loadDetail e x slug g s) = rs_navigation s"
  "(CatalogLoad y f, b) \<in> set (pa_flights (loadDetail e x slug g s)) \<longleftrightarrow> (CatalogLoad y f, b) \<in> set (pa_flights s)"
  by (simp_all add: loadDetail_def Let_def show_detail_def detail_failed_def pa_send_def detailSlug_def pa_filters_def split: option.split sum.split)

lemma detail_timer_ok:
  assumes "visit_ok srv e s" "DetailTimer x slug \<in> set (pa_timers s)"
  shows "visit_ok srv e (timer_fired e (DetailTimer x slug) (timer_gone (DetailTimer x slug) s))" (is "visit_ok srv e ?t")
proof -
  have ok: "slug \<noteq> []" "x = pa_session s" "slug = detailSlug s"
    using assms unfolding visit_ok_def detail_ok_def by blast+
  have only: "y = pa_session s \<and> g = detailSlug s" if "DetailTimer y g \<in> set (pa_timers s)" for y g
    using that assms(1) unfolding visit_ok_def detail_ok_def by blast
  have flights: "b \<and> g \<noteq> [] \<and> Some y = pa_session s \<and> g = detailSlug s" if "(DetailLoad y g, b) \<in> set (pa_flights s)" for y g b
    using that assms(1) unfolding visit_ok_def detail_ok_def by blast
  have none: "DetailTimer y g \<notin> set (pa_timers ?t)" for y g using only [of y g] ok by (simp add: loadDetail_parts)
  have c: "catalog_ok srv e ?t = catalog_ok srv e s"
    by (rule catalog_ok_cong) (simp_all add: loadDetail_parts)
  have place: "detailSlug ?t = detailSlug s" "pa_session ?t = pa_session s" by (simp_all add: loadDetail_parts)
  have "detail_ok srv e ?t"
  proof (rule detail_okI)
    show "DetailTimer y g \<in> set (pa_timers ?t) \<Longrightarrow> g \<noteq> [] \<and> y = pa_session ?t \<and> g = detailSlug ?t" for y g
      using none by blast
    have fl: "(DetailLoad y g, b) \<in> set (pa_flights ?t) \<Longrightarrow> (DetailLoad y g, b) \<in> set (pa_flights s) \<or> b \<and> x = Some y \<and> g = slug" for y g b
      by (auto simp: loadDetail_def show_detail_def detail_failed_def pa_send_def Let_def split: option.splits sum.splits)
    show "(DetailLoad y g, b) \<in> set (pa_flights ?t) \<Longrightarrow> b \<and> g \<noteq> [] \<and> Some y = pa_session ?t \<and> g = detailSlug ?t" for y g b
      using fl [of y g b] flights [of y g b] ok unfolding place by metis
    assume n: "\<And>y g b. (DetailLoad y g, b) \<notin> set (pa_flights ?t)"
    show "ar_phase (pa_detailStatus ?t) = ErrorPhase \<or> pa_detailStatus ?t = readyResourceStatus \<and> pa_detail ?t \<noteq> None
        \<and> pa_detail ?t = detail_content srv e (pa_session ?t) (detailSlug ?t)"
    proof (cases x)
      case None
      then show ?thesis unfolding place using ok
        by (simp add: loadDetail_def show_detail_def detail_failed_def Let_def detail_content_def failedResourceStatus_def split: option.split)
    next
      case (Some z)
      show ?thesis
      proof (cases "encodeURIComponent slug")
        case (Inl err)
        then show ?thesis by (simp add: Some loadDetail_def detail_failed_def Let_def failedResourceStatus_def)
      next
        case (Inr seg)
        then have "(DetailLoad z slug, True) \<in> set (pa_flights ?t)" by (simp add: Some loadDetail_def pa_send_def Let_def)
        with n show ?thesis by blast
      qed
    qed
  qed
  then show ?thesis using c assms(1) by (simp add: visit_ok_def)
qed

text \<open>An answer arrives.\<close>

lemma flight_gone_fields [simp]:
  "pa_items (flight_gone l s) = pa_items s" "pa_pageInfo (flight_gone l s) = pa_pageInfo s" "pa_catalogStatus (flight_gone l s) = pa_catalogStatus s"
  "pa_detail (flight_gone l s) = pa_detail s" "pa_detailStatus (flight_gone l s) = pa_detailStatus s" "pa_timers (flight_gone l s) = pa_timers s"
  "pa_session (flight_gone l s) = pa_session s" "rs_navigation (flight_gone l s) = rs_navigation s" "rs_render (flight_gone l s) = rs_render s"
  "detailSlug (flight_gone l s) = detailSlug s" "pa_filters (flight_gone l s) = pa_filters s" "pa_flights (flight_gone l s) = remove1 l (pa_flights s)"
  by (simp_all add: flight_gone_def detailSlug_def pa_filters_def)

text \<open>What an answer leaves alone, and what it shows.\<close>

lemma adopt_parts [simp]:
  "pa_items (pa_adoptSession c x s) = pa_items s" "pa_pageInfo (pa_adoptSession c x s) = pa_pageInfo s"
  "pa_catalogStatus (pa_adoptSession c x s) = pa_catalogStatus s" "pa_detail (pa_adoptSession c x s) = pa_detail s"
  "pa_detailStatus (pa_adoptSession c x s) = pa_detailStatus s" "pa_timers (pa_adoptSession c x s) = pa_timers s"
  "pa_session (pa_adoptSession c x s) = pa_session s" "rs_navigation (pa_adoptSession c x s) = rs_navigation s"
  "rs_render (pa_adoptSession c x s) = rs_render s" "pa_flights (pa_adoptSession c x s) = pa_flights s"
  by (simp_all add: pa_adoptSession_def)

lemmas answer_defs = show_catalog_def catalog_failed_def show_detail_def detail_failed_def failedResourceStatus_def

lemma answered_parts:
  "pa_timers (answered l r s) = pa_timers s" "pa_session (answered l r s) = pa_session s" "rs_navigation (answered l r s) = rs_navigation s"
  "rs_render (answered l r s) = rs_render s" "pa_flights (answered l r s) = pa_flights s"
  by (induction l r s rule: answered.induct) (simp_all add: answer_defs Let_def split: sum.split)

lemma answered_place: "detailSlug (answered l r s) = detailSlug s" "pa_filters (answered l r s) = pa_filters s"
  by (simp_all add: detailSlug_def pa_filters_def answered_parts)

lemma answered_other_catalog:
  "\<not> catalog_load l \<Longrightarrow> pa_items (answered l r s) = pa_items s \<and> pa_pageInfo (answered l r s) = pa_pageInfo s
    \<and> pa_catalogStatus (answered l r s) = pa_catalogStatus s"
  by (induction l r s rule: answered.induct) (simp_all add: answer_defs Let_def split: sum.split)

lemma answered_other_detail:
  "\<not> detail_load l \<Longrightarrow> pa_detail (answered l r s) = pa_detail s \<and> pa_detailStatus (answered l r s) = pa_detailStatus s"
  by (induction l r s rule: answered.induct) (simp_all add: answer_defs Let_def split: sum.split)

lemma answered_catalog:
  assumes "answer_ok srv (CatalogLoad x f) r"
  shows "ar_phase (pa_catalogStatus (answered (CatalogLoad x f) r s)) = ErrorPhase
    \<or> pa_catalogStatus (answered (CatalogLoad x f) r s) = readyResourceStatus
      \<and> catalog_content srv e (Some x) f = Some (pa_items (answered (CatalogLoad x f) r s), pa_pageInfo (answered (CatalogLoad x f) r s))"
proof (cases r)
  case (Inr p)
  then show ?thesis using assms by (cases p) (simp add: answer_defs Let_def catalog_content_def split: sum.split)
qed (simp add: answer_defs)

lemma answered_detail:
  assumes "answer_ok srv (DetailLoad x slug) r"
  shows "ar_phase (pa_detailStatus (answered (DetailLoad x slug) r s)) = ErrorPhase
    \<or> pa_detailStatus (answered (DetailLoad x slug) r s) = readyResourceStatus \<and> pa_detail (answered (DetailLoad x slug) r s) \<noteq> None
      \<and> pa_detail (answered (DetailLoad x slug) r s) = detail_content srv e (Some x) slug"
proof (cases r)
  case (Inr p)
  then show ?thesis using assms by (cases p) (simp add: answer_defs Let_def detail_content_def split: sum.split)
qed (simp add: answer_defs)

lemma gone_other: "l \<noteq> l' \<Longrightarrow> l' \<in> set (remove1 l xs) \<longleftrightarrow> l' \<in> set xs" by (induction xs) auto

lemma answer_catalog_ok:
  assumes "visit_ok srv e s" "(l, g) \<in> set (pa_flights s)" "answer_ok srv l r"
  shows "catalog_ok srv e (answered l r (flight_gone (l, g) s))" (is "catalog_ok srv e ?t")
proof (cases "catalog_load l")
  case False
  then have "(CatalogLoad y f, b) \<in> set (remove1 (l, g) (pa_flights s)) \<longleftrightarrow> (CatalogLoad y f, b) \<in> set (pa_flights s)" for y f b
    by (intro gone_other) auto
  then have "catalog_ok srv e ?t = catalog_ok srv e s"
    using answered_other_catalog [OF False] by (intro catalog_ok_cong) (simp_all add: answered_parts answered_place)
  then show ?thesis using assms(1) by (simp add: visit_ok_def)
next
  case True
  then obtain x f where l: "l = CatalogLoad x f" by (cases l) auto
  have inv: "detailSlug s = []" "Some x = pa_session s" "f = pa_filters s"
    using assms(1,2) l unfolding visit_ok_def catalog_ok_def by blast+
  have ok: "catalog_ok srv e s" using assms(1) by (simp add: visit_ok_def)
  have sub: "set (pa_flights ?t) \<subseteq> set (pa_flights s)" using set_remove1_subset by (simp add: answered_parts)
  have place: "detailSlug ?t = detailSlug s" "pa_filters ?t = pa_filters s" "pa_session ?t = pa_session s" "pa_timers ?t = pa_timers s"
    by (simp_all add: answered_place answered_parts)
  show ?thesis
  proof (rule catalog_okI)
    show "CatalogTimer y h \<in> set (pa_timers ?t) \<Longrightarrow> detailSlug ?t = [] \<and> y = pa_session ?t \<and> h = pa_filters ?t" for y h
      using catalog_okD(1) [OF ok] unfolding place by blast
    show "(CatalogLoad y h, b) \<in> set (pa_flights ?t) \<Longrightarrow> b \<and> detailSlug ?t = [] \<and> Some y = pa_session ?t \<and> h = pa_filters ?t" for y h b
      using catalog_okD(2) [OF ok] sub unfolding place by blast
    show "ar_phase (pa_catalogStatus ?t) = ErrorPhase \<or>
        pa_catalogStatus ?t = readyResourceStatus \<and> catalog_content srv e (pa_session ?t) (pa_filters ?t) = Some (pa_items ?t, pa_pageInfo ?t)"
      unfolding place unfolding inv(2,3) [symmetric] unfolding l by (rule answered_catalog) (rule assms(3) [unfolded l])
  qed
qed

lemma answer_detail_ok:
  assumes "visit_ok srv e s" "(l, g) \<in> set (pa_flights s)" "answer_ok srv l r"
  shows "detail_ok srv e (answered l r (flight_gone (l, g) s))" (is "detail_ok srv e ?t")
proof (cases "detail_load l")
  case False
  then have "(DetailLoad y f, b) \<in> set (remove1 (l, g) (pa_flights s)) \<longleftrightarrow> (DetailLoad y f, b) \<in> set (pa_flights s)" for y f b
    by (intro gone_other) auto
  then have "detail_ok srv e ?t = detail_ok srv e s"
    using answered_other_detail [OF False] by (intro detail_ok_cong) (simp_all add: answered_parts answered_place)
  then show ?thesis using assms(1) by (simp add: visit_ok_def)
next
  case True
  then obtain x slug where l: "l = DetailLoad x slug" by (cases l) auto
  have inv: "Some x = pa_session s" "slug = detailSlug s"
    using assms(1,2) l unfolding visit_ok_def detail_ok_def by blast+
  have ok: "detail_ok srv e s" using assms(1) by (simp add: visit_ok_def)
  have sub: "set (pa_flights ?t) \<subseteq> set (pa_flights s)" using set_remove1_subset by (simp add: answered_parts)
  have place: "detailSlug ?t = detailSlug s" "pa_session ?t = pa_session s" "pa_timers ?t = pa_timers s"
    by (simp_all add: answered_place answered_parts)
  show ?thesis
  proof (rule detail_okI)
    show "DetailTimer y h \<in> set (pa_timers ?t) \<Longrightarrow> h \<noteq> [] \<and> y = pa_session ?t \<and> h = detailSlug ?t" for y h
      using detail_okD(1) [OF ok] unfolding place by blast
    show "(DetailLoad y h, b) \<in> set (pa_flights ?t) \<Longrightarrow> b \<and> h \<noteq> [] \<and> Some y = pa_session ?t \<and> h = detailSlug ?t" for y h b
      using detail_okD(2) [OF ok] sub unfolding place by blast
    show "ar_phase (pa_detailStatus ?t) = ErrorPhase \<or> pa_detailStatus ?t = readyResourceStatus \<and> pa_detail ?t \<noteq> None
        \<and> pa_detail ?t = detail_content srv e (pa_session ?t) (detailSlug ?t)"
      unfolding place unfolding inv [symmetric] unfolding l by (rule answered_detail) (rule assms(3) [unfolded l])
  qed
qed

lemma answer_same_place: "same_place s (answered l r (flight_gone p s))"
  by (simp add: same_place_def answered_parts)

lemma timer_same_place: "same_place s (timer_fired e t (timer_gone t s))"
proof (cases t)
  case (OverviewTimer x)
  then show ?thesis by (cases x) (simp_all add: same_place_def loadProgress_def loadMetadata_def pa_send_def)
next
  case (CatalogTimer x f)
  then show ?thesis by (cases x) (simp_all add: same_place_def loadCatalog_def show_catalog_def pa_send_def Let_def)
next
  case (DetailTimer x slug)
  then show ?thesis by (simp add: same_place_def loadDetail_parts)
qed

lemma ph_step_ok:
  assumes "ph_step False srv e s s'" "visit_ok srv e s"
  shows "visit_ok srv e s'"
  using assms(1)
proof cases
  case (p_timer t)
  have "visit_ok srv e (timer_fired e t (timer_gone t s))"
    using overview_timer_ok catalog_timer_ok detail_timer_ok assms(2) p_timer(2) by (cases t) blast+
  then show ?thesis unfolding p_timer(1) handled_def comp_def by (rule stay_ok) (rule timer_same_place)
next
  case (p_answer l g r)
  have "visit_ok srv e (answered l r (flight_gone (l, g) s))"
    using answer_catalog_ok answer_detail_ok assms(2) p_answer(2,3) unfolding visit_ok_def by blast
  then show ?thesis unfolding p_answer(1) handled_def comp_def by (rule stay_ok) (rule answer_same_place)
qed (auto simp: handled_def intro: move_ok handler_moves assms(2))

lemma visit_keeps: "ph_visit False srv e s \<Longrightarrow> visit_ok srv e s"
  by (induction rule: ph_visit.induct) (blast intro: ph_start_ok ph_step_ok)+


section \<open>A load that is retried\<close>

lemma run_effects_stay: "same_place s t \<Longrightarrow> run_effects (Some s) t = t"
  using place_slug [of s t] by (simp add: run_effects_def same_place_def Let_def)

lemma handled_stay: "same_place s (f s) \<Longrightarrow> handled f s = f s"
  by (simp add: handled_def run_effects_stay)

text \<open>The timers and loads of the catalog, in their order.\<close>

definition catalog_timers :: "phrases_app \<Rightarrow> phrases_timer list" where "catalog_timers s = filter catalog_timer (pa_timers s)"
definition catalog_flights :: "phrases_app \<Rightarrow> (phrases_load \<times> bool) list" where
  "catalog_flights s = filter (\<lambda>(l, signal). catalog_load l) (pa_flights s)"

lemma catalog_pending_iff: "catalog_pending s \<longleftrightarrow> catalog_timers s \<noteq> [] \<or> catalog_flights s \<noteq> []"
proof -
  have timers: "filter catalog_timer ts \<noteq> [] \<longleftrightarrow> (\<exists>x f. CatalogTimer x f \<in> set ts)" for ts
  proof (induction ts)
    case (Cons t ts)
    then show ?case by (cases t) auto
  qed simp
  have flights: "filter (\<lambda>(l, signal). catalog_load l) ps \<noteq> [] \<longleftrightarrow> (\<exists>x f b. (CatalogLoad x f, b) \<in> set ps)" for ps
  proof (induction ps)
    case (Cons p ps)
    then show ?case by (cases p; cases "fst p") auto
  qed simp
  show ?thesis unfolding catalog_pending_def catalog_timers_def catalog_flights_def timers flights by (rule refl)
qed

lemma kind_excl [simp]:
  "catalog_timer t \<Longrightarrow> \<not> overview_timer t" "catalog_timer t \<Longrightarrow> \<not> detail_timer t"
  "catalog_load l \<Longrightarrow> \<not> overview_load l" "catalog_load l \<Longrightarrow> \<not> detail_load l"
  by (cases t; simp)+ (cases l; simp)+

lemma catalog_lists_effects:
  "catalog_timers (overview_effect s) = catalog_timers s" "catalog_flights (overview_effect s) = catalog_flights s"
  "catalog_timers (detail_effect s) = catalog_timers s" "catalog_flights (detail_effect s) = catalog_flights s"
  "catalog_timers (catalog_effect s) = (if detailSlug s = [] then [CatalogTimer (pa_session s) (pa_filters s)] else [])"
  "catalog_flights (catalog_effect s) = filter (\<lambda>(l, signal). \<not> signal) (catalog_flights s)"
  by (auto simp: catalog_timers_def catalog_flights_def overview_effect_def detail_effect_def catalog_effect_def Let_def
      clean_up_def add_timer_def pa_filters_def detailSlug_def case_prod_beta conj_commute intro!: filter_cong)

lemma catalog_lists_run:
  "catalog_timers (run_effects b t) = (if moved_catalog b t then (if detailSlug t = [] then [CatalogTimer (pa_session t) (pa_filters t)] else [])
     else catalog_timers t)"
  "catalog_flights (run_effects b t) = (if moved_catalog b t then filter (\<lambda>(l, signal). \<not> signal) (catalog_flights t) else catalog_flights t)"
proof -
  define r1 where "r1 = (if case b of None \<Rightarrow> True | Some b \<Rightarrow> pf_query (pa_filters b) \<noteq> pf_query (pa_filters t) then query_effect t else t)"
  define s1 where "s1 = (if case b of None \<Rightarrow> True | Some b \<Rightarrow> rs_render b \<noteq> rs_render t then navigation_effect r1 else r1)"
  have s1: "pa_timers s1 = pa_timers t" "pa_flights s1 = pa_flights t" "rs_navigation s1 = rs_navigation t" "pa_session s1 = pa_session t"
    by (simp_all add: s1_def r1_def navigation_effect_def query_effect_def Let_def)
  then have s1': "catalog_timers s1 = catalog_timers t" "catalog_flights s1 = catalog_flights t" "detailSlug s1 = detailSlug t" "pa_filters s1 = pa_filters t"
    by (simp_all add: catalog_timers_def catalog_flights_def detailSlug_def pa_filters_def)
  have md: "moved_detail b t \<longleftrightarrow> (case b of None \<Rightarrow> True | Some b \<Rightarrow> detailSlug b \<noteq> detailSlug t) \<or> (case b of None \<Rightarrow> True | Some b \<Rightarrow> pa_session b \<noteq> pa_session t)"
    by (cases b) (simp_all add: moved_detail_def)
  have mc: "moved_catalog b t \<longleftrightarrow> (case b of None \<Rightarrow> True | Some b \<Rightarrow> rs_render b \<noteq> rs_render t) \<or> (case b of None \<Rightarrow> True | Some b \<Rightarrow> detailSlug b \<noteq> detailSlug t) \<or> (case b of None \<Rightarrow> True | Some b \<Rightarrow> pa_session b \<noteq> pa_session t)"
    by (cases b) (simp_all add: moved_catalog_def)
  define s2 where "s2 = (if moved_detail b t then overview_effect s1 else s1)"
  have s2: "detailSlug s2 = detailSlug t" "pa_filters s2 = pa_filters t" "pa_session s2 = pa_session t"
    "catalog_timers s2 = catalog_timers t" "catalog_flights s2 = catalog_flights t"
    using place_slug [OF load_effect_same(2) [of s1]] s1 s1' by (simp_all add: s2_def catalog_lists_effects)
  have r: "run_effects b t = (let s3 = (if moved_catalog b t then catalog_effect s2 else s2) in if moved_detail b t then detail_effect s3 else s3)"
    unfolding md mc s2_def run_effects_def Let_def by (simp only: r1_def [symmetric] s1_def [symmetric])
  show "catalog_timers (run_effects b t) = (if moved_catalog b t then (if detailSlug t = [] then [CatalogTimer (pa_session t) (pa_filters t)] else [])
     else catalog_timers t)"
    "catalog_flights (run_effects b t) = (if moved_catalog b t then filter (\<lambda>(l, signal). \<not> signal) (catalog_flights t) else catalog_flights t)"
    unfolding r Let_def using s2 by (simp_all add: catalog_lists_effects)
qed

text \<open>A timer of the catalog fires, an answer to a load of the catalog arrives.\<close>

lemma catalog_timer_step:
  assumes "catalog_timers s = [CatalogTimer (Some x) f]" "t = handled (timer_fired e (CatalogTimer (Some x) f) \<circ> timer_gone (CatalogTimer (Some x) f)) s"
  shows "ph_step retries srv e s t" "same_place s t" "catalog_timers t = []" "catalog_flights t = catalog_flights s @ [(CatalogLoad x f, True)]"
proof -
  have m: "CatalogTimer (Some x) f \<in> set (pa_timers s)" 
  proof -
    have "CatalogTimer (Some x) f \<in> set (catalog_timers s)" by (simp add: assms(1))
    then show ?thesis by (simp add: catalog_timers_def)
  qed
  show "ph_step retries srv e s t" unfolding assms(2) by (rule p_timer [OF m])
  have h: "t = timer_fired e (CatalogTimer (Some x) f) (timer_gone (CatalogTimer (Some x) f) s)"
    unfolding assms(2) by (subst handled_stay) (simp_all only: comp_def timer_same_place)
  show "same_place s t" unfolding h by (rule timer_same_place)
  have "catalog_timers t = filter (\<lambda>y. y \<noteq> CatalogTimer (Some x) f) (catalog_timers s)"
    by (simp add: h loadCatalog_def pa_send_def Let_def catalog_timers_def timer_gone_def conj_commute)
  then show "catalog_timers t = []" by (simp add: assms(1))
  show "catalog_flights t = catalog_flights s @ [(CatalogLoad x f, True)]"
    by (simp add: h loadCatalog_def pa_send_def Let_def catalog_flights_def)
qed

lemma catalog_answer_step:
  assumes "(CatalogLoad x f, g) \<in> set (catalog_flights s)" "answer_ok srv (CatalogLoad x f) r"
    "t = handled (answered (CatalogLoad x f) r \<circ> flight_gone (CatalogLoad x f, g)) s"
  shows "ph_step retries srv e s t" "same_place s t" "catalog_timers t = catalog_timers s"
    "catalog_flights t = remove1 (CatalogLoad x f, g) (catalog_flights s)"
    "t = answered (CatalogLoad x f) r (flight_gone (CatalogLoad x f, g) s)"
proof -
  have m: "(CatalogLoad x f, g) \<in> set (pa_flights s)" using assms(1) by (simp add: catalog_flights_def)
  show "ph_step retries srv e s t" unfolding assms(3) by (rule p_answer [OF m assms(2)])
  show h: "t = answered (CatalogLoad x f) r (flight_gone (CatalogLoad x f, g) s)"
    unfolding assms(3) by (subst handled_stay) (simp_all only: comp_def answer_same_place)
  show "same_place s t" unfolding h by (rule answer_same_place)
  show "catalog_timers t = catalog_timers s" by (simp add: h catalog_timers_def answered_parts)
  show "catalog_flights t = remove1 (CatalogLoad x f, g) (catalog_flights s)"
    by (simp add: h catalog_flights_def answered_parts filter_remove1)
qed

text \<open>Items that passed the guard are read.\<close>

lemma phrases_read: "list_all isPhraseItemPayload vs \<Longrightarrow> \<exists>xs. phrases_from vs = Inr xs"
  by (induction vs) (auto simp: phraseFromAPI_def)

lemma content_read: "isPhraseItemsResponsePayload (ps_catalog srv f) \<Longrightarrow> \<exists>xs. phrases_from (arr_of (jget (ps_catalog srv f) ''items'')) = Inr xs"
  by (rule phrases_read) (simp add: isPhraseItemsResponsePayload_def)


definition topic_target :: "phrases_app \<Rightarrow> jstr \<Rightarrow> NavigationTarget" where
  "topic_target s topic = phraseCatalogTarget ((phraseCatalogFilters (rs_ref s))\<lparr>pf_topic := topic, pf_page := 1\<rparr>) None"

lemma target_url: "normal_target t \<Longrightarrow> encodable t \<Longrightarrow> \<exists>url. navigationURL t = Inr url"
  using routePath_read_back [of t] address_reads_back(1) [of t] by blast

lemma choose_topic_place:
  assumes "normal_target (topic_target s topic)" "encodable (topic_target s topic)"
  shows "rs_navigation (choose_topic e here topic s) = topic_target s topic" "rs_render (choose_topic e here topic s) = Suc (rs_render s)"
    "pa_session (choose_topic e here topic s) = pa_session s" "pa_timers (choose_topic e here topic s) = pa_timers s"
    "pa_flights (choose_topic e here topic s) = pa_flights s"
proof -
  obtain url where url: "navigationURL (topic_target s topic) = Inr url" using target_url [OF assms] by blast
  have v: "nt_view (topic_target s topic) = PhrasesView" by (simp add: topic_target_def phraseCatalogTarget_def Let_def)
  have "choose_topic e here topic s = go_to (pe_rum e) PhrasesView here (topic_target s topic) False zero_scroll InAppNavigation s"
    by (simp add: choose_topic_def updateFilters_def topic_target_def)
  then show "rs_navigation (choose_topic e here topic s) = topic_target s topic" "rs_render (choose_topic e here topic s) = Suc (rs_render s)"
    "pa_session (choose_topic e here topic s) = pa_session s" "pa_timers (choose_topic e here topic s) = pa_timers s"
    "pa_flights (choose_topic e here topic s) = pa_flights s"
    by (simp_all add: go_to_def Let_def v url set_navigation_def navigationIdentity_def push_entry_def persistCurrentEntry_def replace_entry_def)
qed

lemma topic_target_slug: "target_slug (topic_target s topic) = []"
  by (simp add: target_slug_def topic_target_def phraseCatalogTarget_def Let_def)

text \<open>What is on the way after the retry and the choice of another topic.\<close>

lemma retry_then_topic:
  assumes "pa_session s = Some x" "detailSlug s = []" "can_retry (pa_catalogStatus s)" "\<not> catalog_pending s"
    and "normal_target (topic_target s topic)" "encodable (topic_target s topic)"
  obtains s2 where "ph_visit True srv e s \<Longrightarrow> ph_visit True srv e s2" "pa_session s2 = Some x" "detailSlug s2 = []"
    "pa_filters s2 = phraseCatalogFilters (topic_target s topic)"
    "catalog_timers s2 = [CatalogTimer (Some x) (phraseCatalogFilters (topic_target s topic))]"
    "catalog_flights s2 = [(CatalogLoad x (pa_filters s), False)]"
proof -
  define here where "here = zero_scroll"
  define s1 where "s1 = handled (retry_catalog e) s"
  define s2 where "s2 = handled (choose_topic e here topic) s1"
  have s1: "s1 = retry_catalog e s"
    unfolding s1_def by (rule handled_stay) (simp add: retry_catalog_def loadCatalog_def pa_send_def Let_def assms(1) same_place_def)
  have c1: "catalog_timers s1 = []" "catalog_flights s1 = [(CatalogLoad x (pa_filters s), False)]"
    using assms(4) by (simp_all add: s1 retry_catalog_def loadCatalog_def pa_send_def Let_def assms(1) catalog_pending_iff
        catalog_timers_def catalog_flights_def)
  have p1: "pa_session s1 = Some x" "detailSlug s1 = []" "rs_ref s1 = rs_ref s"
    using assms(2) by (simp_all add: s1 retry_catalog_def loadCatalog_def pa_send_def Let_def assms(1) detailSlug_def)
  have t1: "topic_target s1 topic = topic_target s topic" by (simp add: topic_target_def p1(3))
  note n = choose_topic_place [of s1 topic e here, unfolded t1, OF assms(5,6)]
  have moved: "moved_catalog (Some s1) (choose_topic e here topic s1)" by (simp add: moved_catalog_def n)
  have place: "detailSlug s2 = []" "pa_filters s2 = phraseCatalogFilters (topic_target s topic)" "pa_session s2 = Some x"
    using place_slug [OF run_effects_content(2) [of "choose_topic e here topic s1" "Some s1"]] p1(1)
    by (simp_all add: s2_def handled_def n detailSlug_def pa_filters_def topic_target_slug)
  have lists: "catalog_timers s2 = [CatalogTimer (Some x) (phraseCatalogFilters (topic_target s topic))]"
    "catalog_flights s2 = [(CatalogLoad x (pa_filters s), False)]"
  proof -
    have a: "detailSlug (choose_topic e here topic s1) = []" "pa_filters (choose_topic e here topic s1) = phraseCatalogFilters (topic_target s topic)"
      by (simp_all add: n detailSlug_def pa_filters_def topic_target_slug)
    show "catalog_timers s2 = [CatalogTimer (Some x) (phraseCatalogFilters (topic_target s topic))]"
      unfolding s2_def handled_def catalog_lists_run using moved a n(3) p1(1) by simp
    have "catalog_flights (choose_topic e here topic s1) = catalog_flights s1" by (simp add: catalog_flights_def n(5))
    then show "catalog_flights s2 = [(CatalogLoad x (pa_filters s), False)]"
      unfolding s2_def handled_def catalog_lists_run using moved c1(2) by simp
  qed
  have v: "ph_visit True srv e s2" if "ph_visit True srv e s"
  proof -
    have "ph_visit True srv e s1" unfolding s1_def by (rule ph_more [OF that p_retry_catalog]) (simp_all add: assms(2,3))
    then show ?thesis unfolding s2_def by (rule ph_more) (rule p_topic [OF p1(2)])
  qed
  show thesis by (rule that [OF v place(3,1,2) lists])
qed

text \<open>C14: A load of the catalog that the learner retries is not tied to the filters: when its answer comes after the
  learner has chosen another topic and the page of that topic has been shown, it replaces that page, and the screen
  shows, as ready and with nothing pending, the page of the old filters under the new ones.\<close>

theorem late_retry_overwrites_catalog:
  assumes "ph_visit True srv e s" "pa_session s = Some x" "detailSlug s = []" "can_retry (pa_catalogStatus s)" "\<not> catalog_pending s"
    and "normal_target (topic_target s topic)" "encodable (topic_target s topic)"
    and "isPhraseItemsResponsePayload (ps_catalog srv (pa_filters s))"
    and "isPhraseItemsResponsePayload (ps_catalog srv (phraseCatalogFilters (topic_target s topic)))"
  shows "\<exists>s'. ph_visit True srv e s' \<and> \<not> catalog_pending s' \<and> pa_session s' = Some x \<and> detailSlug s' = [] \<and> pa_catalogStatus s' = readyResourceStatus
    \<and> pa_filters s' = phraseCatalogFilters (topic_target s topic)
    \<and> catalog_content srv e (Some x) (pa_filters s) = Some (pa_items s', pa_pageInfo s')"
proof -
  define f1 where "f1 = pa_filters s"
  define f2 where "f2 = phraseCatalogFilters (topic_target s topic)"
  obtain s2 where s2: "ph_visit True srv e s2" "pa_session s2 = Some x" "detailSlug s2 = []" "pa_filters s2 = f2"
    "catalog_timers s2 = [CatalogTimer (Some x) f2]" "catalog_flights s2 = [(CatalogLoad x f1, False)]"
    using retry_then_topic [OF assms(2-7), of srv e] assms(1) unfolding f1_def f2_def by blast
  define s3 where "s3 = handled (timer_fired e (CatalogTimer (Some x) f2) \<circ> timer_gone (CatalogTimer (Some x) f2)) s2"
  note r3 = catalog_timer_step [OF s2(5) s3_def]
  have f3: "catalog_flights s3 = [(CatalogLoad x f1, False), (CatalogLoad x f2, True)]" using r3(4) s2(6) by simp
  define s4 where "s4 = handled (answered (CatalogLoad x f2) (Inr (x, ps_catalog srv f2)) \<circ> flight_gone (CatalogLoad x f2, True)) s3"
  have a4: "(CatalogLoad x f2, True) \<in> set (catalog_flights s3)" "answer_ok srv (CatalogLoad x f2) (Inr (x, ps_catalog srv f2))"
    using f3 assms(9) by (simp_all add: f2_def)
  note r4 = catalog_answer_step [OF a4 s4_def]
  have f4: "catalog_flights s4 = [(CatalogLoad x f1, False)]" using r4(4) f3 by simp
  define s5 where "s5 = handled (answered (CatalogLoad x f1) (Inr (x, ps_catalog srv f1)) \<circ> flight_gone (CatalogLoad x f1, False)) s4"
  have a5: "(CatalogLoad x f1, False) \<in> set (catalog_flights s4)" "answer_ok srv (CatalogLoad x f1) (Inr (x, ps_catalog srv f1))"
    using f4 assms(8) by (simp_all add: f1_def)
  note r5 = catalog_answer_step [OF a5 s5_def]
  have visit: "ph_visit True srv e s5"
    using ph_more [OF ph_more [OF ph_more [OF s2(1) r3(1)] r4(1)] r5(1)] .
  have place: "detailSlug s5 = []" "pa_filters s5 = f2" "pa_session s5 = Some x"
    using place_slug [OF same_trans(2) [OF same_trans(2) [OF r3(2) r4(2)] r5(2)]] s2(2-4) by simp_all
  have quiet: "\<not> catalog_pending s5" using r3(3) r4(3) r5(3,4) f4 by (simp add: catalog_pending_iff)
  obtain xs where xs: "phrases_from (arr_of (jget (ps_catalog srv f1) ''items'')) = Inr xs"
    using content_read assms(8) unfolding f1_def by blast
  have "pa_catalogStatus s5 = readyResourceStatus" "catalog_content srv e (Some x) f1 = Some (pa_items s5, pa_pageInfo s5)"
    by (simp_all add: r5(5) xs show_catalog_def catalog_content_def Let_def)
  then show ?thesis using visit quiet place unfolding f1_def f2_def by blast
qed


text \<open>A visit that begins at the catalog and whose first load fails.\<close>

lemma phrases_address: "navigationURL (only_view PhrasesView) = Inr (u ''/phrases'')" "parseNavigation [] (u ''/phrases'') = only_view PhrasesView"
proof -
  have n: "normal_target (only_view PhrasesView)" "encodable (only_view PhrasesView)"
    by (simp_all add: only_view_def normal_target_def encodable_def)
  show url: "navigationURL (only_view PhrasesView) = Inr (u ''/phrases'')" by code_simp
  have q: "query_part (only_view PhrasesView) = []" by code_simp
  obtain p where p: "routePath (only_view PhrasesView) = Inr p" using routePath_read_back [OF n] by blast
  note r = address_reads_back [OF n p]
  have "p = u ''/phrases''" using r(1) url q by simp
  moreover have "canonical_target (only_view PhrasesView) = only_view PhrasesView"
    by (simp add: canonical_target_def path_part_def only_view_def)
  ultimately show "parseNavigation [] (u ''/phrases'') = only_view PhrasesView" using r(3) q by simp
qed

definition opened_catalog :: "Session option \<Rightarrow> phrases_app" where
  "opened_catalog session = (case first_render session JNull (u ''/phrases'') empty_storage empty_storage first_page of Inr s \<Rightarrow> s)"

lemma opened_catalog:
  "first_render session JNull (u ''/phrases'') empty_storage empty_storage first_page = Inr (opened_catalog session)"
  "pa_session (opened_catalog session) = session" "rs_navigation (opened_catalog session) = only_view PhrasesView"
  "rs_ref (opened_catalog session) = only_view PhrasesView" "pa_flights (opened_catalog session) = []"
proof -
  have w: "takeWhile (\<lambda>c. c \<noteq> 63) (u ''/phrases'') = u ''/phrases''" "dropWhile (\<lambda>c. c \<noteq> 63) (u ''/phrases'') = []" by (simp_all add: u_def)
  have "readNavigationScrollSnapshot empty_storage (u ''/phrases'') = Inr None"
    by (simp add: readNavigationScrollSnapshot_def snapshotKey_def trim_def js_ws_def u_def getItem_def empty_storage_def)
  then obtain p where p: "initial_scroll JNull (u ''/phrases'') empty_storage (only_view PhrasesView) = Inr p"
    by (simp add: initial_scroll_def navigationIdentity_def phrases_address(1) Let_def)
  show f: "first_render session JNull (u ''/phrases'') empty_storage empty_storage first_page = Inr (opened_catalog session)"
    unfolding opened_catalog_def first_render_def w Let_def parseNavigationLocation_def by (simp add: phrases_address(2) p)
  show "pa_session (opened_catalog session) = session" "rs_navigation (opened_catalog session) = only_view PhrasesView"
    "rs_ref (opened_catalog session) = only_view PhrasesView" "pa_flights (opened_catalog session) = []"
    using f [symmetric] unfolding first_render_def w Let_def parseNavigationLocation_def by (simp_all add: phrases_address(2) p)
qed


lemma run_effects_ref: "rs_ref (run_effects b t) = rs_ref t \<or> rs_ref (run_effects b t) = rs_navigation t"
proof -
  have e: "rs_ref (overview_effect q) = rs_ref q" "rs_ref (catalog_effect q) = rs_ref q" "rs_ref (detail_effect q) = rs_ref q" for q
    by (simp_all add: overview_effect_def catalog_effect_def detail_effect_def clean_up_def add_timer_def Let_def)
  show ?thesis
    unfolding run_effects_def Let_def if_distrib [of rs_ref] e by (simp add: query_effect_def navigation_effect_def Let_def)
qed

lemma opened_answered:
  assumes "answer_ok srv (CatalogLoad x (phraseCatalogFilters (only_view PhrasesView))) r"
  shows "\<exists>s q. ph_visit retries srv e s \<and> pa_session s = Some x \<and> rs_navigation s = only_view PhrasesView \<and> rs_ref s = only_view PhrasesView
    \<and> \<not> catalog_pending s \<and> s = answered (CatalogLoad x (phraseCatalogFilters (only_view PhrasesView))) r q"
proof -
  define f where "f = phraseCatalogFilters (only_view PhrasesView)"
  define s0 where "s0 = opened_catalog (Some x)"
  define s1 where "s1 = run_effects None s0"
  note o = opened_catalog [of "Some x", folded s0_def]
  have v1: "ph_visit retries srv e s1" unfolding s1_def by (rule ph_start [OF o(1)])
  have d0: "detailSlug s0 = []" "pa_filters s0 = f" by (simp_all add: detailSlug_def target_slug_def pa_filters_def o(3) f_def only_view_def)
  have l1: "catalog_timers s1 = [CatalogTimer (Some x) f]" "catalog_flights s1 = []"
    by (simp_all add: s1_def catalog_lists_run moved_catalog_def d0 o(2)) (simp add: catalog_flights_def o(5))
  have p1: "pa_session s1 = Some x" "rs_navigation s1 = only_view PhrasesView" "rs_ref s1 = only_view PhrasesView"
    using run_effects_content(2) [of s0 None] run_effects_ref [of None s0] o by (auto simp: s1_def same_place_def)
  define s2 where "s2 = handled (timer_fired e (CatalogTimer (Some x) f) \<circ> timer_gone (CatalogTimer (Some x) f)) s1"
  note r2 = catalog_timer_step [OF l1(1) s2_def]
  have ref2: "rs_ref s2 = rs_ref s1"
    unfolding s2_def by (subst handled_stay) (simp_all only: comp_def timer_same_place, simp add: loadCatalog_def pa_send_def Let_def timer_gone_def)
  define s3 where "s3 = handled (answered (CatalogLoad x f) r \<circ> flight_gone (CatalogLoad x f, True)) s2"
  have a: "(CatalogLoad x f, True) \<in> set (catalog_flights s2)" using r2(4) by simp
  note r3 = catalog_answer_step [OF a assms [folded f_def] s3_def]
  have ref3: "rs_ref s3 = rs_ref s2"
    unfolding r3(5) by (cases r) (auto simp: answer_defs Let_def flight_gone_def pa_adoptSession_def split: sum.split)
  have "ph_visit retries srv e s3" using ph_more [OF ph_more [OF v1 r2(1)] r3(1)] .
  moreover have "\<not> catalog_pending s3" using r3(3,4) r2(3,4) l1(2) by (simp add: catalog_pending_iff)
  moreover have "pa_session s3 = Some x" "rs_navigation s3 = only_view PhrasesView"
    using p1 r2(2) r3(2) by (simp_all add: same_place_def)
  ultimately show ?thesis using r3(5) p1(3) ref2 ref3 unfolding f_def by metis
qed

definition reader :: Session where
  "reader = \<lparr>ss_user = \<lparr>us_id = u ''u1'', us_email = u ''a@b.c'', us_displayName = u ''A'', us_createdAt = u ''2026''\<rparr>,
     ss_tokens = \<lparr>accessToken = u ''t'', tokenType = u ''Bearer'', expiresIn = 900\<rparr>\<rparr>"

definition counting_server :: phrases_server where
  "counting_server = \<lparr>ps_catalog = (\<lambda>f. JObj [(u ''items'', JArr []), (u ''count'', JNum (if pf_topic f = all_topics then 7 else 2))]),
     ps_detail = (\<lambda>slug. JNull)\<rparr>"

definition reading_env :: phrases_env where
  "reading_env = \<lparr>pe_lower_ru = id, pe_collate_en = (\<lambda>a b. int (length a) - int (length b)), pe_collate_ru = (\<lambda>a b. int (length a) - int (length b)),
     pe_builtin = [], pe_rum = sample_env, pe_offset = 0\<rparr>"

lemma counting_answers: "isPhraseItemsResponsePayload (ps_catalog counting_server f)"
  by (simp add: counting_server_def isPhraseItemsResponsePayload_def isRecord_def ph_count_def v_isInteger_def num_of_def)

lemma counting_content: "catalog_content counting_server e (Some x) f
    = Some ([], catalogPageInfo (JObj [(u ''items'', JArr []), (u ''count'', JNum (if pf_topic f = all_topics then 7 else 2))]) CATALOG_PAGE_SIZE)"
  by (simp add: catalog_content_def counting_server_def)


lemma late_retry_overwrites_catalog_witness:
  "\<exists>s. ph_visit True counting_server reading_env s \<and> \<not> catalog_pending s \<and> pa_catalogStatus s = readyResourceStatus
    \<and> catalog_content counting_server reading_env (pa_session s) (pa_filters s) \<noteq> Some (pa_items s, pa_pageInfo s)"
proof -
  let ?f = "phraseCatalogFilters (only_view PhrasesView)"
  let ?r = "Inl (Failure (newRequestFailure Offline [] no_options))"
  obtain s q where s: "ph_visit True counting_server reading_env s" "pa_session s = Some reader" "rs_navigation s = only_view PhrasesView"
    "rs_ref s = only_view PhrasesView" "\<not> catalog_pending s" "s = answered (CatalogLoad reader ?f) ?r q"
    using opened_answered [of counting_server reader ?r True reading_env] by auto
  have d: "detailSlug s = []" by (simp add: detailSlug_def target_slug_def s(3) only_view_def)
  have c: "can_retry (pa_catalogStatus s)"
    unfolding s(6) by (simp add: catalog_failed_def can_retry_def failedResourceStatus_def retry_describe) (simp add: newRequestFailure_def)
  have t: "topic_target s (u ''Travel'') = (only_view PhrasesView)\<lparr>nt_topic := Some (u ''Travel'')\<rparr>"
    by (simp add: topic_target_def phraseCatalogTarget_def phraseCatalogFilters_def s(4) only_view_def Let_def all_topics_def trim_def js_ws_def u_def)
  have "route_value (u ''Travel'')" by (simp add: route_value_def trim_def u_def js_ws_def)
  then have n: "normal_target (topic_target s (u ''Travel''))" by (simp add: t only_view_def normal_target_def)
  have en: "encodable (topic_target s (u ''Travel''))" by (simp only: t) (simp add: only_view_def encodable_def wf16_ascii ascii_def u_def)
  obtain s' where s': "ph_visit True counting_server reading_env s'" "\<not> catalog_pending s'" "pa_catalogStatus s' = readyResourceStatus"
    "pa_filters s' = phraseCatalogFilters (topic_target s (u ''Travel''))" "pa_session s' = Some reader"
    "catalog_content counting_server reading_env (Some reader) (pa_filters s) = Some (pa_items s', pa_pageInfo s')"
    using late_retry_overwrites_catalog [OF s(1,2) d c s(5) n en counting_answers counting_answers] by blast
  have "pf_topic (pa_filters s) = all_topics" by (simp add: pa_filters_def s(3) phraseCatalogFilters_def only_view_def)
  moreover have "pf_topic (pa_filters s') \<noteq> all_topics"
    unfolding s'(4) t by (simp add: phraseCatalogFilters_def only_view_def all_topics_def u_def trim_def js_ws_def)
  ultimately have "catalog_content counting_server reading_env (Some reader) (pa_filters s') \<noteq> catalog_content counting_server reading_env (Some reader) (pa_filters s)"
    by (simp add: counting_content catalogPageInfo_def v_isInteger_def num_of_def Let_def)
  then show ?thesis using s' by metis
qed

section \<open>The topic of a lesson\<close>

text \<open>C15: The card of a phrase is not forgotten when the learner goes back to the catalog: a lesson that is configured
  there takes the topic of the last opened phrase, whatever topic has been chosen in the catalog.\<close>

theorem lesson_takes_topic_of_closed_phrase:
  assumes "renderPhrases e s = PhraseScreen (Some item) readyResourceStatus" "it_topic item \<noteq> []" "pa_session s = Some x"
  shows "configureLesson e here (handled (choose_topic e there topic) (handled (back_to_catalog e there) s))
    = go_to (pe_rum e) PhrasesView here ((only_view LearnView)\<lparr>nt_source := Some SourcePhrases, nt_topic := Some (it_topic item)\<rparr>) False zero_scroll LessonStart
        (handled (choose_topic e there topic) (handled (back_to_catalog e there) s))"
proof -
  define s1 where "s1 = handled (back_to_catalog e there) s"
  define s2 where "s2 = handled (choose_topic e there topic) s1"
  have d: "pa_detail s = Some item" using assms(1) by (simp add: renderPhrases_def split: if_splits)
  have m: "same_content s (back_to_catalog e there s)" "same_content s1 (choose_topic e there topic s1)"
    using handler_moves(10) [of s e there] handler_moves(4) [of s1 e there topic] by (simp_all add: moves_def)
  have "pa_detail s1 = pa_detail s" "pa_detail s2 = pa_detail s1"
    using m same_content_def run_effects_content(1) by (simp_all add: s1_def s2_def handled_def same_content_def)
  moreover have "pa_session (back_to_catalog e there q) = pa_session q" "pa_session (choose_topic e there topic q) = pa_session q" for q
    by (simp_all add: back_to_catalog_def choose_topic_def updateFilters_def go_to_def Let_def persistCurrentEntry_def replace_entry_def
        push_entry_def leave_page_def set_navigation_def split: sum.split prod.split)
  then have "pa_session s2 = Some x"
    using assms(3) run_effects_content(2) by (simp add: s1_def s2_def handled_def same_place_def)
  ultimately show ?thesis
    unfolding s1_def [symmetric] s2_def [symmetric] using d assms(2) by (simp add: configureLesson_def lesson_topic_def Let_def)
qed


definition closed_phrase :: LearningItem where
  "closed_phrase = \<lparr>it_id = u ''phrase-1'', it_wordId = Some 1, it_kind = PhraseItem, it_slug = Some (u ''aisle''), it_prompt = u ''aisle'',
     it_answer = u ''x'', it_phonetic = [], it_partOfSpeech = u ''phrase'', it_section = PhraseSection, it_topic = u ''Travel'', it_aliases = None,
     it_acceptedAnswers = None, it_examples = [], it_note = [], it_status = u ''new'', it_selectionReason = None, it_cloze = None, it_clozeAnswer = None\<rparr>"

definition card_shown :: phrases_app where
  "card_shown = (opened_catalog (Some reader))\<lparr>rs_navigation := (only_view PhrasesView)\<lparr>nt_detail := Some (u ''aisle'')\<rparr>,
     pa_detail := Some closed_phrase, pa_detailStatus := readyResourceStatus\<rparr>"

lemma lesson_takes_topic_of_closed_phrase_witness:
  "let s = handled (choose_topic reading_env zero_scroll (u ''Backend'')) (handled (back_to_catalog reading_env zero_scroll) card_shown) in
    configureLesson reading_env zero_scroll s
      = go_to (pe_rum reading_env) PhrasesView zero_scroll ((only_view LearnView)\<lparr>nt_source := Some SourcePhrases, nt_topic := Some (u ''Travel'')\<rparr>) False zero_scroll LessonStart s"
proof -
  have "detailSlug card_shown \<noteq> []" by (simp add: card_shown_def detailSlug_def target_slug_def trim_def js_ws_def u_def)
  then have "renderPhrases reading_env card_shown = PhraseScreen (Some closed_phrase) readyResourceStatus"
    by (simp add: renderPhrases_def card_shown_def)
  moreover have "it_topic closed_phrase \<noteq> []" "it_topic closed_phrase = u ''Travel''" by (simp_all add: closed_phrase_def u_def)
  moreover have "pa_session card_shown = Some reader" by (simp add: card_shown_def opened_catalog)
  ultimately show ?thesis
    using lesson_takes_topic_of_closed_phrase [of reading_env card_shown closed_phrase reader zero_scroll zero_scroll "u ''Backend''"] by (simp add: Let_def)
qed

end
