(* ===== verification/Guest_Phrases.thy ===== *)
theory Guest_Phrases
  imports Phrases Phrase_Data
begin

text \<open>
  The catalog a guest sees over the phrases that are built in: \<open>Phrases\<close> joined with the tables of \<open>Phrase_Data\<close>.
\<close>

section \<open>Slugs\<close>

text \<open>A slug ends with a letter, a digit or a dash and is not itself an identifier.\<close>

definition linkable :: "LearningItem \<Rightarrow> bool" where
  "linkable p \<longleftrightarrow> slug_unit (last (it_id p)) \<and> take 7 (drop 7 (it_id p)) \<noteq> u ''phrase-''"

lemma builtin_linkable: "list_all linkable builtin_phrases"
  unfolding builtin_phrases_def EXPANDED_PHRASES_def tables
  by (simp only: append.simps list.pred_inject linkable_def LearningItem.select_convs) (simp add: slug_unit_def u_def)

lemma builtin_facts:
  assumes "p \<in> set builtin_phrases"
  shows "cloze_fits p" "identified p" "linkable p" "it_kind p = PhraseItem"
  using assms builtin_fit builtin_identified builtin_linkable builtin_phrase_kind by (auto simp: list_all_iff)

lemma builtin_slugless: "p \<in> set builtin_phrases \<Longrightarrow> it_slug p = None"
proof -
  have "list_all (\<lambda>p. it_slug p = None) builtin_phrases"
    unfolding builtin_phrases_def EXPANDED_PHRASES_def tables
    by (simp only: append.simps list.pred_inject LearningItem.select_convs simp_thms)
  then show "p \<in> set builtin_phrases \<Longrightarrow> it_slug p = None" by (simp add: list_all_iff)
qed

text \<open>The slug of a built-in phrase.\<close>

definition slug_of :: "LearningItem \<Rightarrow> jstr" where "slug_of p = drop 7 (it_id p)"

lemma slug_unit_not_ws: "slug_unit c \<Longrightarrow> \<not> js_ws c"
  by (auto simp: slug_unit_def js_ws_def)

lemma builtin_slug:
  assumes "p \<in> set builtin_phrases"
  shows "it_id p = u ''phrase-'' @ slug_of p" "slug_of p \<noteq> []" "phraseSlug p = slug_of p" "trim (slug_of p) = slug_of p"
    "take 7 (slug_of p) \<noteq> u ''phrase-''"
proof -
  note f = builtin_facts [OF assms]
  show i: "it_id p = u ''phrase-'' @ slug_of p"
    using f(2) append_take_drop_id [of 7 "it_id p"] by (simp add: identified_def slug_of_def)
  show n: "slug_of p \<noteq> []" using f(2) by (simp add: identified_def slug_of_def)
  have "has_prefix (it_id p) (u ''phrase-'')" by (subst i) (simp add: has_prefix_def)
  then show "phraseSlug p = slug_of p" using builtin_slugless [OF assms] by (simp add: phraseSlug_def slug_of_def)
  show "take 7 (slug_of p) \<noteq> u ''phrase-''" using f(3) by (simp add: linkable_def slug_of_def)
  have "slug_unit (hd (slug_of p))" using f(2) n by (cases "slug_of p") (simp_all add: identified_def slug_of_def)
  moreover have "slug_unit (last (slug_of p))" using f(3) n i by (metis last_appendR linkable_def)
  ultimately have "trimmed (slug_of p)" by (simp add: trimmed_def slug_unit_not_ws)
  then show "trim (slug_of p) = slug_of p" by (rule trim_trimmed_id)
qed

section \<open>The list of a guest\<close>

lemma guest_list:
  assumes "pe_builtin e = builtin_phrases"
  shows "GUEST_PHRASES e = map (\<lambda>(n, p). guestPhrase n p) (zip [0..<length builtin_phrases] builtin_phrases)"
proof -
  have "filter (\<lambda>i. it_kind i = PhraseItem) builtin_phrases = builtin_phrases" using builtin_phrase_kind by (simp add: filter_id_conv)
  with assms show ?thesis by (simp add: GUEST_PHRASES_def)
qed

lemma guest_ids: "pe_builtin e = builtin_phrases \<Longrightarrow> map it_id (GUEST_PHRASES e) = map it_id builtin_phrases"
proof -
  assume "pe_builtin e = builtin_phrases"
  then have "map it_id (GUEST_PHRASES e) = map (it_id \<circ> snd) (zip [0..<length builtin_phrases] builtin_phrases)"
    by (simp only: guest_list list.map_comp) (simp add: guestPhrase_def comp_def case_prod_unfold)
  also have "\<dots> = map it_id builtin_phrases" by (simp only: map_map [symmetric] map_snd_zip length_upt diff_zero)
  finally show ?thesis .
qed

lemma guest_member:
  assumes "pe_builtin e = builtin_phrases" "i \<in> set (GUEST_PHRASES e)"
  obtains n p where "p \<in> set builtin_phrases" "i = guestPhrase n p"
  using assms by (auto simp: guest_list dest!: set_zip_rightD intro: that)

lemma guest_item:
  assumes "p \<in> set builtin_phrases" "i = guestPhrase n p"
  shows "it_id i = u ''phrase-'' @ slug_of p" "it_slug i = Some (slug_of p)" "phraseSlug i = slug_of p" "cloze_fits i"
proof -
  show "it_id i = u ''phrase-'' @ slug_of p" "it_slug i = Some (slug_of p)"
    using builtin_slug [OF assms(1)] assms(2) by (simp_all add: guestPhrase_def)
  then show "phraseSlug i = slug_of p" using builtin_slug [OF assms(1)] by (simp add: phraseSlug_def)
  have same: "it_cloze i = it_cloze p" "exerciseAnswer i = exerciseAnswer p" "it_prompt i = it_prompt p"
    using builtin_phrase_kind [OF assms(1)] unfolding assms(2) guestPhrase_def exerciseAnswer_def has_cloze_def by simp_all
  show "cloze_fits i" using builtin_facts(1) [OF assms(1)] unfolding cloze_fits_def same .
qed

lemma guest_opens:
  assumes e: "pe_builtin e = builtin_phrases" and i: "i \<in> set (GUEST_PHRASES e)"
  shows "guest_phrase e (phraseSlug i) = Some i" "cloze_fits i" "phraseSlug i \<noteq> []" "trim (phraseSlug i) = phraseSlug i"
proof -
  obtain n p where p: "p \<in> set builtin_phrases" "i = guestPhrase n p" using guest_member [OF e i] by blast
  note f = guest_item [OF p] and b = builtin_slug [OF p(1)]
  show "cloze_fits i" "phraseSlug i \<noteq> []" "trim (phraseSlug i) = phraseSlug i" using f b by simp_all
  have only: "j = i" if j: "j \<in> set (GUEST_PHRASES e)" "it_slug j = Some (slug_of p) \<or> it_id j = slug_of p" for j
  proof -
    obtain m q where q: "q \<in> set builtin_phrases" "j = guestPhrase m q" using guest_member [OF e j(1)] by blast
    note g = guest_item [OF q]
    have "take 7 (it_id j) = u ''phrase-''" by (subst g(1)) (simp add: u_def)
    then have "it_id j \<noteq> slug_of p" using b(5) by auto
    then have "it_id j = it_id i" using j(2) g f by simp
    moreover have "inj_on it_id (set (GUEST_PHRASES e))" using guest_ids [OF e] builtin_ids by (metis distinct_map)
    ultimately show "j = i" using i j(1) by (simp add: inj_on_def)
  qed
  have "\<exists>j. guest_phrase e (slug_of p) = Some j"
  proof (rule ccontr)
    assume "\<nexists>j. guest_phrase e (slug_of p) = Some j"
    then have "guest_phrase e (slug_of p) = None" by simp
    with i f(2) show False by (auto simp: guest_phrase_def find_None_iff)
  qed
  then obtain j where j: "guest_phrase e (slug_of p) = Some j" by blast
  then have "j \<in> set (GUEST_PHRASES e)" "it_slug j = Some (slug_of p) \<or> it_id j = slug_of p"
    by (auto simp: guest_phrase_def find_Some_iff)
  with only j f(3) show "guest_phrase e (phraseSlug i) = Some i" by simp
qed

text \<open>The pages of the catalog, one after the other.\<close>

definition guest_pages :: "phrases_env \<Rightarrow> PhraseCatalogFilters \<Rightarrow> nat \<Rightarrow> LearningItem list" where
  "guest_pages e f n = concat (map (\<lambda>k. pc_items (guestCatalog e (f\<lparr>pf_page := jnat (Suc k)\<rparr>))) [0..<n])"

lemma guest_matches_page [simp]: "guest_matches e (f\<lparr>pf_page := n\<rparr>) = guest_matches e f"
  by (simp add: guest_matches_def fun_eq_iff)

lemma guest_pages_all:
  "\<exists>n. mset (guest_pages e f n) = mset (filter (guest_matches e f) (GUEST_PHRASES e))"
proof -
  define xs where "xs = sortCatalogEntries (pe_collate_en e) (filter (guest_matches e f) (GUEST_PHRASES e)) it_prompt (index_by_id (GUEST_PHRASES e)) (pf_sort f)"
  have at: "guestCatalog e (f\<lparr>pf_page := jnat (Suc k)\<rparr>) = paginateCatalogEntries xs (jnat (Suc k)) (jnat 48)" for k
    unfolding guestCatalog_def Let_def guest_matches_page PhraseCatalogFilters.simps xs_def CATALOG_PAGE_SIZE_def by simp
  have "guest_pages e f (page_count (length xs) 48) = xs" unfolding guest_pages_def at by (rule pages_joined) simp
  moreover have "mset xs = mset (filter (guest_matches e f) (GUEST_PHRASES e))" by (simp add: xs_def sortCatalogEntries_def)
  ultimately show ?thesis by metis
qed

text \<open>C16: Over the built-in phrases the pages of a guest's catalog together show every phrase that matches the filters
  exactly once; the address that a shown phrase links to opens that phrase, and its exercise has an answer that
  restores the phrase.\<close>

theorem guest_catalog_complete:
  assumes "pe_builtin e = builtin_phrases"
  shows "\<exists>n. mset (guest_pages e f n) = mset (filter (guest_matches e f) (GUEST_PHRASES e)) \<and> distinct (map it_id (guest_pages e f n))
    \<and> (\<forall>i\<in>set (guest_pages e f n).
         (case nt_detail (phraseCatalogTarget f (it_slug i)) of Some slug \<Rightarrow> guest_phrase e slug = Some i | None \<Rightarrow> False) \<and> cloze_fits i)"
proof -
  obtain n where n: "mset (guest_pages e f n) = mset (filter (guest_matches e f) (GUEST_PHRASES e))" using guest_pages_all by blast
  have "distinct (map it_id (filter (guest_matches e f) (GUEST_PHRASES e)))"
    using guest_ids [OF assms] builtin_ids by (simp add: distinct_map_filter)
  then have d: "distinct (map it_id (guest_pages e f n))" using n by (metis mset_eq_imp_distinct_iff mset_map)
  have "(case nt_detail (phraseCatalogTarget f (it_slug i)) of Some slug \<Rightarrow> guest_phrase e slug = Some i | None \<Rightarrow> False) \<and> cloze_fits i"
    if "i \<in> set (guest_pages e f n)" for i
  proof -
    have "i \<in> set (filter (guest_matches e f) (GUEST_PHRASES e))" using that n by (metis set_mset_mset)
    then have i: "i \<in> set (GUEST_PHRASES e)" by simp
    obtain m p where p: "p \<in> set builtin_phrases" "i = guestPhrase m p" using guest_member [OF assms i] by blast
    note o = guest_opens [OF assms i]
    have "it_slug i = Some (phraseSlug i)" using guest_item [OF p] by simp
    then show ?thesis using o by (simp add: phraseCatalogTarget_def Let_def)
  qed
  with n d show ?thesis by blast
qed

definition plain_env :: phrases_env where
  "plain_env = \<lparr>pe_lower_ru = id, pe_collate_en = (\<lambda>a b. int (length a) - int (length b)), pe_collate_ru = (\<lambda>a b. int (length a) - int (length b)),
     pe_builtin = builtin_phrases, pe_rum = sample_env, pe_offset = 0\<rparr>"

lemma guest_catalog_complete_witness:
  "\<exists>n. mset (guest_pages plain_env \<lparr>pf_topic = u ''Travel'', pf_query = [], pf_sort = SortAZ, pf_page = 1\<rparr> n)
     = mset (filter (guest_matches plain_env \<lparr>pf_topic = u ''Travel'', pf_query = [], pf_sort = SortAZ, pf_page = 1\<rparr>) (GUEST_PHRASES plain_env))"
  using guest_catalog_complete [of plain_env "\<lparr>pf_topic = u ''Travel'', pf_query = [], pf_sort = SortAZ, pf_page = 1\<rparr>"]
  by (simp add: plain_env_def) blast

end
