(* ===== verification/Dictionary.thy ===== *)
theory Dictionary
  imports Phrases
begin

text \<open>
  The words of the dictionary: \<open>src/frontend/lib/public-word-catalog.ts\<close>, \<open>src/frontend/lib/word-detail.ts\<close> and the
  functions without state of \<open>src/frontend/components/lexigo-dictionary-app.tsx\<close> and
  \<open>src/frontend/components/dictionary-catalog.tsx\<close>.  The lower case, the number format, the date parser and the date
  format are parameters.
\<close>

section \<open>The public words\<close>

definition jhas :: "jval \<Rightarrow> string \<Rightarrow> bool" where
  "jhas v k = (case v of JObj kvs \<Rightarrow> u k \<in> set (map fst kvs) | _ \<Rightarrow> False)"

definition pw_count :: "jval \<Rightarrow> bool" where "pw_count v \<longleftrightarrow> v_isInteger v \<and> num_of v \<ge> 0"
definition pw_positive :: "jval \<Rightarrow> bool" where "pw_positive v \<longleftrightarrow> v_isInteger v \<and> num_of v > 0"

definition isPublicWordPayload :: "jval \<Rightarrow> bool" where
  "isPublicWordPayload v \<longleftrightarrow>
     isRecord v \<and> pw_positive (jget v ''id'') \<and> is_lit (jget v ''kind'') ''word'' \<and> isOptionalString (jget v ''slug'')
     \<and> is_string (jget v ''lemma'') \<and> is_string (jget v ''translation'') \<and> is_string (jget v ''phonetic'')
     \<and> is_string (jget v ''partOfSpeech'') \<and> is_string (jget v ''topic'')
     \<and> isOptionalStringArray (jget v ''aliases'') \<and> isOptionalStringArray (jget v ''acceptedAnswers'')
     \<and> is_array (jget v ''examples'') \<and> list_all is_string (arr_of (jget v ''examples''))
     \<and> is_string (jget v ''note'') \<and> isOptionalString (jget v ''cloze'') \<and> isOptionalString (jget v ''clozeAnswer'')
     \<and> \<not> jhas v ''status'' \<and> \<not> jhas v ''easiness'' \<and> \<not> jhas v ''intervalDays''
     \<and> \<not> jhas v ''repetitions'' \<and> \<not> jhas v ''dueAt'' \<and> \<not> jhas v ''lastReviewedAt''"

definition isPublicWordPagePayload :: "jval \<Rightarrow> bool" where
  "isPublicWordPagePayload v \<longleftrightarrow>
     isRecord v \<and> is_array (jget v ''items'') \<and> list_all isPublicWordPayload (arr_of (jget v ''items''))
     \<and> pw_count (jget v ''count'') \<and> pw_count (jget v ''total'') \<and> pw_positive (jget v ''page'') \<and> pw_positive (jget v ''pageSize'')
     \<and> pw_count (jget v ''totalPages'') \<and> is_boolean (jget v ''hasPrevious'') \<and> is_boolean (jget v ''hasNext'')
     \<and> jeq (num_of (jget v ''count'')) (jnat (length (arr_of (jget v ''items''))))
     \<and> num_of (jget v ''count'') \<le> num_of (jget v ''pageSize'')
     \<and> jeq (num_of (jget v ''totalPages''))
         (if jeq (num_of (jget v ''total'')) 0 then 0 else jceil (jdiv (num_of (jget v ''total'')) (num_of (jget v ''pageSize''))))"

definition publicWordToLearningItem :: "(jstr \<Rightarrow> jstr) \<Rightarrow> jval \<Rightarrow> LearningItem" where
  "publicWordToLearningItem lower v =
     \<lparr>it_id = u ''word-'' @ num_str (num_of (jget v ''id'')), it_wordId = Some (num_of (jget v ''id'')), it_kind = WordItem,
      it_slug = optional_text_of (jget v ''slug''), it_prompt = str_of (jget v ''lemma''), it_answer = str_of (jget v ''translation''),
      it_phonetic = str_of (jget v ''phonetic''), it_partOfSpeech = str_of (jget v ''partOfSpeech''),
      it_section = PartSection (normalizePartOfSpeech lower (str_of (jget v ''partOfSpeech''))), it_topic = str_of (jget v ''topic''),
      it_aliases = optional_texts_of (jget v ''aliases''), it_acceptedAnswers = optional_texts_of (jget v ''acceptedAnswers''),
      it_examples = map str_of (arr_of (jget v ''examples'')), it_note = str_of (jget v ''note''), it_status = [],
      it_selectionReason = None, it_cloze = optional_text_of (jget v ''cloze''), it_clozeAnswer = optional_text_of (jget v ''clozeAnswer'')\<rparr>"

section \<open>A word with its schedule\<close>

text \<open>What a word has beside a learning item; \<open>None\<close> for a word of the public catalog.\<close>

record word_schedule =
  sch_easiness :: jnum
  sch_intervalDays :: jnum
  sch_repetitions :: jnum
  sch_dueAt :: jstr
  sch_lastReviewedAt :: "jstr option"

type_synonym dictionary_word = "LearningItem \<times> word_schedule option"

definition WORD_DETAIL_STATUSES :: "jstr list" where
  "WORD_DETAIL_STATUSES = [u ''new'', u ''learning'', u ''review'', u ''mastered'']"

definition hasSchedulerFields :: "(jstr \<Rightarrow> jnum) \<Rightarrow> jval \<Rightarrow> bool" where
  "hasSchedulerFields parse_date v \<longleftrightarrow>
     is_string (jget v ''status'') \<and> str_of (jget v ''status'') \<in> set WORD_DETAIL_STATUSES
     \<and> v_isFinite (jget v ''easiness'') \<and> num_of (jget v ''easiness'') > 0
     \<and> pw_count (jget v ''intervalDays'') \<and> pw_count (jget v ''repetitions'')
     \<and> is_string (jget v ''dueAt'') \<and> isFinite (parse_date (str_of (jget v ''dueAt'')))
     \<and> (jget v ''lastReviewedAt'' = JUndef
        \<or> is_string (jget v ''lastReviewedAt'') \<and> isFinite (parse_date (str_of (jget v ''lastReviewedAt''))))"

definition isWordDetailPayload :: "(jstr \<Rightarrow> jnum) \<Rightarrow> jval \<Rightarrow> bool" where
  "isWordDetailPayload parse_date v \<longleftrightarrow> isLearningItemPayload v \<and> isRecord v \<and> hasSchedulerFields parse_date v"

definition isWordDetailItem :: "(jstr \<Rightarrow> jnum) \<Rightarrow> dictionary_word \<Rightarrow> bool" where
  "isWordDetailItem parse_date w \<longleftrightarrow>
     (case snd w of
        None \<Rightarrow> False
      | Some s \<Rightarrow> it_status (fst w) \<in> set WORD_DETAIL_STATUSES \<and> isFinite (sch_easiness s) \<and> sch_easiness s > 0
          \<and> isInteger (sch_intervalDays s) \<and> sch_intervalDays s \<ge> 0 \<and> isInteger (sch_repetitions s) \<and> sch_repetitions s \<ge> 0
          \<and> isFinite (parse_date (sch_dueAt s))
          \<and> (case sch_lastReviewedAt s of None \<Rightarrow> True | Some t \<Rightarrow> isFinite (parse_date t)))"

datatype word_tone = ToneNew | ToneLearning | ToneReview | ToneMastered

record word_status =
  wst_label :: jstr
  wst_description :: jstr
  wst_tone :: word_tone
  wst_action :: jstr
  wst_recall :: bool

text \<open>\<open>wst_recall\<close> tells the study mode \<open>recall\<close> from \<open>study\<close>.\<close>

definition wordDetailStatus :: "jstr \<Rightarrow> word_status" where
  "wordDetailStatus status =
     (if status = u ''mastered'' then
        \<lparr>wst_label = [1043, 1086, 1090, 1086, 1074, 1086], wst_description = [1057, 1083, 1086, 1074, 1086, 32, 1079, 1072, 1082, 1088, 1077, 1087, 1083, 1077, 1085, 1086, 32, 1080, 32, 1086, 1089, 1090, 1072, 1105, 1090, 1089, 1103, 32, 1074, 32, 1080, 1085, 1090, 1077, 1088, 1074, 1072, 1083, 1100, 1085, 1086, 1084, 32, 1087, 1086, 1074, 1090, 1086, 1088, 1077, 1085, 1080, 1080, 46],
         wst_tone = ToneMastered, wst_action = [1055, 1086, 1074, 1090, 1086, 1088, 1080, 1090, 1100, 32, 1089, 1077, 1081, 1095, 1072, 1089], wst_recall = True\<rparr>
      else if status = u ''review'' then
        \<lparr>wst_label = [1050, 32, 1087, 1086, 1074, 1090, 1086, 1088, 1077, 1085, 1080, 1102], wst_description = [1057, 1088, 1086, 1082, 32, 1080, 1085, 1090, 1077, 1088, 1074, 1072, 1083, 1100, 1085, 1086, 1075, 1086, 32, 1087, 1086, 1074, 1090, 1086, 1088, 1077, 1085, 1080, 1103, 32, 1085, 1072, 1089, 1090, 1091, 1087, 1080, 1083, 46],
         wst_tone = ToneReview, wst_action = [1055, 1086, 1074, 1090, 1086, 1088, 1080, 1090, 1100, 32, 1089, 1077, 1081, 1095, 1072, 1089], wst_recall = True\<rparr>
      else if status = u ''learning'' then
        \<lparr>wst_label = [1042, 32, 1088, 1072, 1073, 1086, 1090, 1077], wst_description = [1057, 1083, 1086, 1074, 1086, 32, 1091, 1078, 1077, 32, 1091, 1095, 1072, 1089, 1090, 1074, 1091, 1077, 1090, 32, 1074, 32, 1091, 1095, 1077, 1073, 1085, 1086, 1084, 32, 1094, 1080, 1082, 1083, 1077, 46],
         wst_tone = ToneLearning, wst_action = [1055, 1088, 1072, 1082, 1090, 1080, 1082, 1086, 1074, 1072, 1090, 1100, 32, 1089, 1083, 1086, 1074, 1086], wst_recall = True\<rparr>
      else
        \<lparr>wst_label = [1053, 1086, 1074, 1086, 1077], wst_description = [1057, 1083, 1086, 1074, 1086, 32, 1077, 1097, 1105, 32, 1085, 1077, 32, 1087, 1088, 1086, 1093, 1086, 1076, 1080, 1083, 1086, 32, 1086, 1073, 1098, 1077, 1082, 1090, 1080, 1074, 1085, 1086, 1077, 32, 1087, 1086, 1074, 1090, 1086, 1088, 1077, 1085, 1080, 1077, 46],
         wst_tone = ToneNew, wst_action = [1044, 1086, 1073, 1072, 1074, 1080, 1090, 1100, 32, 1074, 32, 1087, 1088, 1072, 1082, 1090, 1080, 1082, 1091], wst_recall = False\<rparr>)"

definition formattedDate :: "(jstr \<Rightarrow> jnum) \<Rightarrow> (jnum \<Rightarrow> jstr) \<Rightarrow> jstr \<Rightarrow> jstr" where
  "formattedDate parse_date format_date v = (if \<not> isFinite (parse_date v) then [8212] else format_date (parse_date v))"

record word_schedule_text =
  wsc_due :: jstr
  wsc_interval :: jstr
  wsc_repetitions :: jstr
  wsc_lastReviewed :: jstr

definition wordDetailSchedule :: "(jstr \<Rightarrow> jnum) \<Rightarrow> (jnum \<Rightarrow> jstr) \<Rightarrow> (jnum \<Rightarrow> jstr) \<Rightarrow> word_schedule \<Rightarrow> word_schedule_text" where
  "wordDetailSchedule parse_date format_date ru s =
     \<lparr>wsc_due = formattedDate parse_date format_date (sch_dueAt s),
      wsc_interval = (if sch_intervalDays s > 0 then num_str (sch_intervalDays s) @ [32, 1076, 1085, 46] else [1087, 1077, 1088, 1074, 1086, 1077, 32, 1087, 1086, 1074, 1090, 1086, 1088, 1077, 1085, 1080, 1077]),
      wsc_repetitions = ru (sch_repetitions s),
      wsc_lastReviewed = (case sch_lastReviewedAt s of
          Some t \<Rightarrow> if t \<noteq> [] then formattedDate parse_date format_date t else [1077, 1097, 1105, 32, 1085, 1077, 32, 1073, 1099, 1083, 1086]
        | None \<Rightarrow> [1077, 1097, 1105, 32, 1085, 1077, 32, 1073, 1099, 1083, 1086])\<rparr>"

section \<open>The words of an account\<close>

text \<open>The payloads have passed \<open>isItemsResponsePayload\<close> or \<open>isWordDetailPayload\<close>.\<close>

definition dictionary_toLearningItem :: "(jstr \<Rightarrow> jstr) \<Rightarrow> jval \<Rightarrow> LearningItem" where
  "dictionary_toLearningItem lower v =
     (let phrase = is_lit (jget v ''kind'') ''phrase'' in
      \<lparr>it_id = (if phrase then u ''phrase-'' else u ''word-'') @ num_str (num_of (jget v ''id'')), it_wordId = Some (num_of (jget v ''id'')),
       it_kind = (if phrase then PhraseItem else WordItem),
       it_slug = optional_text_of (jget v ''slug''), it_prompt = str_of (jget v ''lemma''), it_answer = str_of (jget v ''translation''),
       it_phonetic = str_of (jget v ''phonetic''), it_partOfSpeech = str_of (jget v ''partOfSpeech''),
       it_section = (if phrase then PhraseSection else PartSection (normalizePartOfSpeech lower (str_of (jget v ''partOfSpeech'')))),
       it_topic = str_of (jget v ''topic''),
       it_aliases = optional_texts_of (jget v ''aliases''), it_acceptedAnswers = optional_texts_of (jget v ''acceptedAnswers''),
       it_examples = map str_of (arr_of (jget v ''examples'')), it_note = str_of (jget v ''note''), it_status = str_of (jget v ''status''),
       it_selectionReason = None, it_cloze = optional_text_of (jget v ''cloze''), it_clozeAnswer = optional_text_of (jget v ''clozeAnswer'')\<rparr>)"

definition toWordDetailItem :: "(jstr \<Rightarrow> jstr) \<Rightarrow> jval \<Rightarrow> dictionary_word" where
  "toWordDetailItem lower v =
     (dictionary_toLearningItem lower v, Some \<lparr>sch_easiness = num_of (jget v ''easiness''), sch_intervalDays = num_of (jget v ''intervalDays''),
        sch_repetitions = num_of (jget v ''repetitions''), sch_dueAt = str_of (jget v ''dueAt''),
        sch_lastReviewedAt = optional_text_of (jget v ''lastReviewedAt'')\<rparr>)"

section \<open>The filters of the dictionary\<close>

record DictionaryFilters =
  df_source :: NavigationSource
  df_topic :: jstr
  df_status :: "CatalogStatus option"
  df_query :: jstr
  df_sort :: CatalogSort
  df_page :: jnum

definition SOURCE_VALUES :: "NavigationSource list" where
  "SOURCE_VALUES = [SourceMixed, SourceNoun, SourceVerb, SourceAdjective, SourceDailyLife, SourceTravel, SourceDataEngineering,
     SourceBackend, SourceAcademic]"

definition dictionaryFilters :: "NavigationTarget \<Rightarrow> bool \<Rightarrow> DictionaryFilters" where
  "dictionaryFilters t authenticated =
     \<lparr>df_source = (case nt_source t of
          Some x \<Rightarrow> if x \<noteq> SourcePhrases \<and> x \<in> set SOURCE_VALUES then x else SourceMixed | None \<Rightarrow> SourceMixed),
      df_topic = (case nt_topic t of Some x \<Rightarrow> x | None \<Rightarrow> []), df_status = (if authenticated then nt_status t else None),
      df_query = (case nt_query t of Some q \<Rightarrow> q | None \<Rightarrow> []), df_sort = (case nt_sort t of Some x \<Rightarrow> x | None \<Rightarrow> SortDefault),
      df_page = (case nt_page t of Some p \<Rightarrow> p | None \<Rightarrow> 1)\<rparr>"

definition cleanTarget :: "DictionaryFilters \<Rightarrow> jstr option \<Rightarrow> NavigationTarget" where
  "cleanTarget f detail =
     (only_view LibraryView)
       \<lparr>nt_source := (if df_source f \<noteq> SourceMixed then Some (df_source f) else None),
        nt_topic := (if df_topic f \<noteq> [] then Some (df_topic f) else None),
        nt_status := df_status f,
        nt_query := (if df_query f \<noteq> [] then Some (df_query f) else None),
        nt_sort := (if df_sort f \<noteq> SortDefault then Some (df_sort f) else None),
        nt_page := (if df_page f > 1 then Some (df_page f) else None),
        nt_detail := (case detail of Some d \<Rightarrow> if d \<noteq> [] then Some d else None | None \<Rightarrow> None)\<rparr>"

definition wordCountLabel :: "(jnum \<Rightarrow> jstr) \<Rightarrow> jnum \<Rightarrow> jstr" where
  "wordCountLabel ru n =
     (let lastTwo = jrem n 100; final = jrem n 10;
          noun = (if lastTwo \<ge> 11 \<and> lastTwo \<le> 14 then [1089, 1083, 1086, 1074] else if jeq final 1 then [1089, 1083, 1086, 1074, 1086]
                  else if final \<ge> 2 \<and> final \<le> 4 then [1089, 1083, 1086, 1074, 1072] else [1089, 1083, 1086, 1074]) in
      ru n @ [32] @ noun)"

definition statusPresentation :: "(jstr \<Rightarrow> jstr) \<Rightarrow> jstr \<Rightarrow> jstr looked_up \<times> word_tone" where
  "statusPresentation lower_en status =
     (if status = u ''mastered'' then (Own [1043, 1086, 1090, 1086, 1074, 1086], ToneMastered)
      else if status = u ''review'' then (Own [1050, 32, 1087, 1086, 1074, 1090, 1086, 1088, 1077, 1085, 1080, 1102], ToneReview)
      else if status = u ''learning'' then (Own [1042, 32, 1088, 1072, 1073, 1086, 1090, 1077], ToneLearning)
      else (catalogStatusLabel lower_en status, ToneNew))"

definition activeFilterCount :: "DictionaryFilters \<Rightarrow> nat" where
  "activeFilterCount f =
     of_bool (df_source f \<noteq> SourceMixed) + of_bool (df_topic f \<noteq> []) + of_bool (df_status f \<noteq> None) + of_bool (df_query f \<noteq> [])
     + of_bool (df_sort f \<noteq> SortDefault)"

text \<open>The addresses of the requests for a page, of a guest and of an account.\<close>

definition page_params :: "DictionaryFilters \<Rightarrow> params" where
  "page_params f =
     (let ps = [(u ''page'', num_str (df_page f)), (u ''limit'', num_str CATALOG_PAGE_SIZE), (u ''sort'', sort_text (df_sort f))];
          ps = params_set ps (u ''source'') (source_text (df_source f));
          ps = (if df_topic f \<noteq> [] then params_set ps (u ''topic'') (df_topic f) else ps) in
      if df_query f \<noteq> [] then params_set ps (u ''query'') (df_query f) else ps)"

definition page_address :: "bool \<Rightarrow> DictionaryFilters \<Rightarrow> jstr" where
  "page_address authenticated f =
     (if \<not> authenticated then u ''/api/v1/catalog/words?'' @ params_text (page_params f)
      else
        let ps = params_set (page_params f) (u ''kind'') (u ''word'');
            ps = (case df_status f of Some x \<Rightarrow> params_set ps (u ''status'') (catalog_status_text x) | None \<Rightarrow> ps) in
        u ''/api/v1/words?'' @ params_text ps)"

definition detail_address :: "bool \<Rightarrow> jnum \<Rightarrow> jstr" where
  "detail_address authenticated wordID =
     (if authenticated then u ''/api/v1/words/'' else u ''/api/v1/catalog/words/'') @ num_str wordID"

definition related_address :: "LearningItem \<Rightarrow> jstr" where
  "related_address item =
     u ''/api/v1/words?'' @ params_text [(u ''kind'', u ''phrase''), (u ''page'', u ''1''), (u ''limit'', u ''3''), (u ''sort'', u ''default''),
       (u ''query'', it_prompt item)]"

definition practice_body :: "LearningItem \<Rightarrow> jval" where
  "practice_body item =
     JObj [(u ''source'', JStr (u ''mixed'')),
       (u ''studyMode'', JStr (if wst_recall (wordDetailStatus (it_status item)) then u ''recall'' else u ''study'')),
       (u ''lessonSize'', JStr (u ''15'')), (u ''topic'', JStr []),
       (u ''wordIds'', JArr [JNum (case it_wordId item of Some n \<Rightarrow> n | None \<Rightarrow> 0)])]"

end
