(* ===== verification/Home_App.thy ===== *)
theory Home_App
  imports Lesson_Result Journey Catalog Auth_Session
begin

text \<open>
  The home page of an account, \<open>src/frontend/components/lexigo-home-app.tsx\<close>: the state is what the component keeps and
  what was sent.  A load is split where it awaits its answer; the three requests for the previews are one load, which
  is answered by the first failure or by all three answers.  A load of the effect carries the signal of its
  controller and is gone when the effect is cleaned up; a load that the learner retries has no signal.  Every handler
  sees the state of the last render.  The event that asks for the product graph and the markup are left out.
\<close>

section \<open>Previews\<close>

definition HOME_AUTOMATIC_LESSON_SIZE :: jnum where "HOME_AUTOMATIC_LESSON_SIZE = 15"

fun home_mode :: "LessonResultSessionKind \<Rightarrow> jstr" where
  "home_mode KindReview = u ''recall''" | "home_mode KindRemediation = u ''recall''" | "home_mode KindStudy = u ''study''"

definition HOME_PROCESSES :: "LessonResultSessionKind list" where "HOME_PROCESSES = [KindReview, KindRemediation, KindStudy]"

fun session_kind_text :: "LessonResultSessionKind \<Rightarrow> string" where
  "session_kind_text KindStudy = ''study''" | "session_kind_text KindReview = ''review''" | "session_kind_text KindRemediation = ''remediation''"

definition home_count :: "jval \<Rightarrow> bool" where "home_count v \<longleftrightarrow> v_isInteger v \<and> num_of v \<ge> 0"

definition isHomeLessonPreviewPayload :: "LessonResultSessionKind \<Rightarrow> jval \<Rightarrow> bool" where
  "isHomeLessonPreviewPayload k v \<longleftrightarrow>
     isRecord v \<and> is_lit (jget v ''source'') ''mixed'' \<and> jget v ''studyMode'' = JStr (home_mode k)
     \<and> is_lit (jget v ''sessionKind'') (session_kind_text k) \<and> is_lit (jget v ''lessonSize'') ''15'' \<and> isRecord (jget v ''composition'')
     \<and> list_all (\<lambda>f. home_count (jget (jget v ''composition'') f))
         [''total'', ''words'', ''phrases'', ''due'', ''new'', ''scheduled'', ''availableWords'', ''availablePhrases'']"

definition processBacklog :: "jval option \<Rightarrow> jnum" where
  "processBacklog preview =
     (case preview of
        None \<Rightarrow> 0
      | Some p \<Rightarrow> num_of (jget (jget p ''composition'') ''availableWords'') + num_of (jget (jget p ''composition'') ''availablePhrases''))"

definition boundedAutomaticCount :: "jnum \<Rightarrow> jnum" where "boundedAutomaticCount backlog = jmin HOME_AUTOMATIC_LESSON_SIZE backlog"

fun processActionLabel :: "LessonResultSessionKind \<Rightarrow> jnum \<Rightarrow> jstr" where
  "processActionLabel KindReview backlog =
     (let n = boundedAutomaticCount backlog in
      if backlog > n then [1055, 1086, 1074, 1090, 1086, 1088, 1080, 1090, 1100, 32] @ num_str n @ [32, 1080, 1079, 32] @ num_str backlog else [1055, 1086, 1074, 1090, 1086, 1088, 1080, 1090, 1100, 32] @ num_str n)"
| "processActionLabel KindRemediation backlog =
     (let n = boundedAutomaticCount backlog in
      if backlog > n then [1056, 1072, 1079, 1086, 1073, 1088, 1072, 1090, 1100, 32] @ num_str n @ [32, 1080, 1079, 32] @ num_str backlog @ [32, 1089, 1083, 1072, 1073, 1099, 1093, 32, 1084, 1077, 1089, 1090]
      else [1056, 1072, 1079, 1086, 1073, 1088, 1072, 1090, 1100, 32] @ num_str n @ [32, 1089, 1083, 1072, 1073, 1099, 1093, 32, 1084, 1077, 1089, 1090])"
| "processActionLabel KindStudy backlog =
     (let n = boundedAutomaticCount backlog in
      if backlog > n then [1048, 1079, 1091, 1095, 1080, 1090, 1100, 32] @ num_str n @ [32, 1085, 1086, 1074, 1099, 1093, 32, 1080, 1079, 32] @ num_str backlog
      else [1048, 1079, 1091, 1095, 1080, 1090, 1100, 32] @ num_str n @ [32, 1085, 1086, 1074, 1099, 1093])"

section \<open>State\<close>

datatype home_load = HomeProgress Session | HomeLesson Session | HomePreviews Session | HomeStart Session LessonResultSessionKind

type_synonym home_previews = "LessonResultSessionKind \<Rightarrow> jval option"

definition EMPTY_PROCESS_PREVIEWS :: home_previews where "EMPTY_PROCESS_PREVIEWS = (\<lambda>k. None)"

record home_app =
  ha_session :: "Session option"
  ha_progress :: "jval option"
  ha_activeLesson :: "jval option"
  ha_previews :: home_previews
  ha_progressStatus :: ResourceStatus
  ha_activeLessonStatus :: ResourceStatus
  ha_processStatus :: ResourceStatus
  ha_busyProcess :: "LessonResultSessionKind option"
  ha_actionError :: jstr
  ha_timers :: "Session list"
  ha_flights :: "(home_load \<times> bool) list"
  ha_requests :: "(jstr \<times> jval option) list"
  ha_adopted :: "Session list"
  ha_journey :: journey
  ha_router :: "jstr list"

record home_env =
  he_offset :: jnum
  he_abort_message :: jstr
  he_rum :: rum_env

definition first_home :: "Session option \<Rightarrow> journey \<Rightarrow> home_app" where
  "first_home session j =
     (let status = (if session \<noteq> None then loadingResourceStatus else readyResourceStatus) in
      \<lparr>ha_session = session, ha_progress = None, ha_activeLesson = None, ha_previews = EMPTY_PROCESS_PREVIEWS,
       ha_progressStatus = status, ha_activeLessonStatus = status, ha_processStatus = status, ha_busyProcess = None,
       ha_actionError = [], ha_timers = [], ha_flights = [], ha_requests = [], ha_adopted = [], ha_journey = j, ha_router = []\<rparr>)"

section \<open>Loads\<close>

definition ha_adoptSession :: "Session \<Rightarrow> Session \<Rightarrow> home_app \<Rightarrow> home_app" where
  "ha_adoptSession captured next_session s =
     (if accessToken (ss_tokens captured) \<noteq> accessToken (ss_tokens next_session)
      then s\<lparr>ha_adopted := ha_adopted s @ [next_session]\<rparr> else s)"

definition ha_send :: "home_load \<Rightarrow> bool \<Rightarrow> (jstr \<times> jval option) list \<Rightarrow> home_app \<Rightarrow> home_app" where
  "ha_send l signal rs s = s\<lparr>ha_flights := ha_flights s @ [(l, signal)], ha_requests := ha_requests s @ rs\<rparr>"

definition home_loadProgress :: "home_env \<Rightarrow> Session \<Rightarrow> bool \<Rightarrow> home_app \<Rightarrow> home_app" where
  "home_loadProgress e x signal s =
     ha_send (HomeProgress x) signal [(u ''/api/v1/progress?timezoneOffsetMinutes='' @ num_str (he_offset e), None)]
       (s\<lparr>ha_progressStatus := loadingResourceStatus\<rparr>)"

text \<open>\<open>loadActiveLesson\<close> and \<open>loadLessonPlan\<close>, which awaits it first.\<close>

definition loadLessonPlan :: "Session \<Rightarrow> bool \<Rightarrow> home_app \<Rightarrow> home_app" where
  "loadLessonPlan x signal s =
     ha_send (HomeLesson x) signal [(u ''/api/v1/lessons/active'', None)] (s\<lparr>ha_activeLessonStatus := loadingResourceStatus\<rparr>)"

definition preview_body :: "LessonResultSessionKind \<Rightarrow> jval" where
  "preview_body k =
     JObj [(u ''source'', JStr (u ''mixed'')), (u ''studyMode'', JStr (home_mode k)), (u ''sessionKind'', JStr (u (session_kind_text k))),
       (u ''lessonSize'', JStr (u ''15''))]"

definition loadProcessPreviews :: "Session \<Rightarrow> bool \<Rightarrow> home_app \<Rightarrow> home_app" where
  "loadProcessPreviews x signal s =
     ha_send (HomePreviews x) signal (map (\<lambda>k. (u ''/api/v1/lessons/preview'', Some (preview_body k))) HOME_PROCESSES)
       (s\<lparr>ha_processStatus := loadingResourceStatus\<rparr>)"

text \<open>The rest of \<open>loadLessonPlan\<close> when there is a lesson or nothing is known.\<close>

definition no_previews :: "home_app \<Rightarrow> home_app" where
  "no_previews s = s\<lparr>ha_previews := EMPTY_PROCESS_PREVIEWS, ha_processStatus := readyResourceStatus\<rparr>"

definition is_missing :: "thrown \<Rightarrow> bool" where
  "is_missing x = (case x of Failure f \<Rightarrow> jeq (rf_status f) 404 | _ \<Rightarrow> False)"

definition lesson_answered :: "Session \<Rightarrow> bool \<Rightarrow> thrown + Session \<times> jval \<Rightarrow> home_app \<Rightarrow> home_app" where
  "lesson_answered x signal r s =
     (case r of
        Inr (active, v) \<Rightarrow>
          no_previews ((ha_adoptSession x active s)\<lparr>ha_activeLesson := Some v, ha_activeLessonStatus := readyResourceStatus\<rparr>)
      | Inl err \<Rightarrow>
          if is_missing err then loadProcessPreviews x signal (s\<lparr>ha_activeLesson := None, ha_activeLessonStatus := readyResourceStatus\<rparr>)
          else no_previews (s\<lparr>ha_activeLesson := None,
            ha_activeLessonStatus := failedResourceStatus err [1085, 1077, 1079, 1072, 1074, 1077, 1088, 1096, 1105, 1085, 1085, 1099, 1081, 32, 1091, 1088, 1086, 1082]\<rparr>))"

definition progress_answered :: "Session \<Rightarrow> thrown + Session \<times> jval \<Rightarrow> home_app \<Rightarrow> home_app" where
  "progress_answered x r s =
     (case r of
        Inr (active, v) \<Rightarrow> (ha_adoptSession x active s)\<lparr>ha_progress := Some v, ha_progressStatus := readyResourceStatus\<rparr>
      | Inl err \<Rightarrow> s\<lparr>ha_progress := None, ha_progressStatus := failedResourceStatus err [1087, 1088, 1086, 1075, 1088, 1077, 1089, 1089]\<rparr>)"

text \<open>All three answers: the session of the last one and the payload of each.\<close>

definition previews_answered :: "Session \<Rightarrow> thrown + Session \<times> (LessonResultSessionKind \<Rightarrow> jval) \<Rightarrow> home_app \<Rightarrow> home_app" where
  "previews_answered x r s =
     (case r of
        Inr (active, v) \<Rightarrow> (ha_adoptSession x active s)\<lparr>ha_previews := (\<lambda>k. Some (v k)), ha_processStatus := readyResourceStatus\<rparr>
      | Inl err \<Rightarrow> s\<lparr>ha_previews := EMPTY_PROCESS_PREVIEWS, ha_processStatus := failedResourceStatus err [1091, 1095, 1077, 1073, 1085, 1099, 1077, 32, 1087, 1088, 1086, 1094, 1077, 1089, 1089, 1099]\<rparr>)"

section \<open>The effect\<close>

fun start_load :: "home_load \<Rightarrow> bool" where
  "start_load (HomeStart x k) = True" | "start_load l = False"

definition home_effect :: "home_app \<Rightarrow> home_app" where
  "home_effect s =
     (let s = s\<lparr>ha_timers := [], ha_flights := filter (\<lambda>(l, signal). \<not> signal) (ha_flights s)\<rparr> in
      case ha_session s of None \<Rightarrow> s | Some x \<Rightarrow> s\<lparr>ha_timers := [x]\<rparr>)"

definition home_timer :: "home_env \<Rightarrow> Session \<Rightarrow> home_app \<Rightarrow> home_app" where
  "home_timer e x s = loadLessonPlan x True (home_loadProgress e x True (s\<lparr>ha_actionError := []\<rparr>))"

section \<open>What to do next\<close>

datatype home_step = ContinueLesson | WaitForLesson | CheckLesson | WaitForProcesses | CheckProcesses
  | StartProcess LessonResultSessionKind | ConfigureLesson

definition pending_phase :: "ResourceStatus \<Rightarrow> bool" where
  "pending_phase st \<longleftrightarrow> ar_phase st = IdlePhase \<or> ar_phase st = LoadingPhase"

definition backlog :: "home_app \<Rightarrow> LessonResultSessionKind \<Rightarrow> jnum" where "backlog s k = processBacklog (ha_previews s k)"

definition recommendedProcessKind :: "home_app \<Rightarrow> LessonResultSessionKind option" where
  "recommendedProcessKind s =
     (if backlog s KindReview > 0 then Some KindReview
      else if backlog s KindRemediation > 0 then Some KindRemediation
      else if backlog s KindStudy > 0 then Some KindStudy else None)"

definition nextAction :: "home_app \<Rightarrow> home_step" where
  "nextAction s =
     (if ha_activeLesson s \<noteq> None then ContinueLesson
      else if ha_session s \<noteq> None \<and> pending_phase (ha_activeLessonStatus s) then WaitForLesson
      else if ha_session s \<noteq> None \<and> ar_phase (ha_activeLessonStatus s) = ErrorPhase then CheckLesson
      else if ha_session s \<noteq> None \<and> pending_phase (ha_processStatus s) then WaitForProcesses
      else if ha_session s \<noteq> None \<and> ar_phase (ha_processStatus s) = ErrorPhase then CheckProcesses
      else case recommendedProcessKind s of Some k \<Rightarrow> StartProcess k | None \<Rightarrow> ConfigureLesson)"

definition secondaryProcesses :: "home_app \<Rightarrow> LessonResultSessionKind list" where
  "secondaryProcesses s =
     (if ha_activeLesson s = None \<and> \<not> (ha_session s \<noteq> None \<and> pending_phase (ha_activeLessonStatus s))
         \<and> ar_phase (ha_activeLessonStatus s) = ReadyPhase \<and> ar_phase (ha_processStatus s) = ReadyPhase
      then filter (\<lambda>k. Some k \<noteq> recommendedProcessKind s \<and> backlog s k > 0) HOME_PROCESSES else [])"

text \<open>The headline of the action.\<close>

definition home_title :: "home_app \<Rightarrow> jstr" where
  "home_title s =
     (case nextAction s of
        ContinueLesson \<Rightarrow> [1055, 1088, 1086, 1076, 1086, 1083, 1078, 1080, 1090, 1077, 32, 1089, 32, 1089, 1086, 1093, 1088, 1072, 1085, 1105, 1085, 1085, 1086, 1081, 32, 1087, 1086, 1079, 1080, 1094, 1080, 1080]
      | WaitForLesson \<Rightarrow> [1055, 1088, 1086, 1074, 1077, 1088, 1103, 1077, 1084, 32, 1091, 1095, 1077, 1073, 1085, 1091, 1102, 32, 1086, 1095, 1077, 1088, 1077, 1076, 1100]
      | CheckLesson \<Rightarrow> [1053, 1072, 1089, 1090, 1088, 1086, 1081, 1090, 1077, 32, 1091, 1088, 1086, 1082, 32, 1087, 1086, 1076, 32, 1090, 1077, 1082, 1091, 1097, 1091, 1102, 32, 1079, 1072, 1076, 1072, 1095, 1091]
      | WaitForProcesses \<Rightarrow> [1055, 1088, 1086, 1074, 1077, 1088, 1103, 1077, 1084, 32, 1091, 1095, 1077, 1073, 1085, 1099, 1077, 32, 1087, 1088, 1086, 1094, 1077, 1089, 1089, 1099]
      | CheckProcesses \<Rightarrow> [1053, 1077, 32, 1091, 1076, 1072, 1083, 1086, 1089, 1100, 32, 1087, 1088, 1086, 1074, 1077, 1088, 1080, 1090, 1100, 32, 1091, 1095, 1077, 1073, 1085, 1099, 1077, 32, 1087, 1088, 1086, 1094, 1077, 1089, 1089, 1099]
      | StartProcess KindReview \<Rightarrow> num_str (backlog s KindReview) @ [32]
          @ russianPlural (backlog s KindReview) [1101, 1083, 1077, 1084, 1077, 1085, 1090, 32, 1075, 1086, 1090, 1086, 1074] [1101, 1083, 1077, 1084, 1077, 1085, 1090, 1072, 32, 1075, 1086, 1090, 1086, 1074, 1099] [1101, 1083, 1077, 1084, 1077, 1085, 1090, 1086, 1074, 32, 1075, 1086, 1090, 1086, 1074, 1099] @ [32, 1082, 32, 1087, 1086, 1074, 1090, 1086, 1088, 1077, 1085, 1080, 1102]
      | StartProcess KindRemediation \<Rightarrow> num_str (backlog s KindRemediation) @ [32]
          @ russianPlural (backlog s KindRemediation) [1101, 1083, 1077, 1084, 1077, 1085, 1090, 32, 1090, 1088, 1077, 1073, 1091, 1077, 1090] [1101, 1083, 1077, 1084, 1077, 1085, 1090, 1072, 32, 1090, 1088, 1077, 1073, 1091, 1102, 1090] [1101, 1083, 1077, 1084, 1077, 1085, 1090, 1086, 1074, 32, 1090, 1088, 1077, 1073, 1091, 1102, 1090]
          @ [32, 1076, 1086, 1087, 1086, 1083, 1085, 1080, 1090, 1077, 1083, 1100, 1085, 1086, 1081, 32, 1087, 1088, 1072, 1082, 1090, 1080, 1082, 1080]
      | StartProcess KindStudy \<Rightarrow> num_str (backlog s KindStudy) @ [32]
          @ russianPlural (backlog s KindStudy) [1085, 1086, 1074, 1099, 1081, 32, 1101, 1083, 1077, 1084, 1077, 1085, 1090, 32, 1076, 1086, 1089, 1090, 1091, 1087, 1077, 1085] [1085, 1086, 1074, 1099, 1093, 32, 1101, 1083, 1077, 1084, 1077, 1085, 1090, 1072, 32, 1076, 1086, 1089, 1090, 1091, 1087, 1085, 1099] [1085, 1086, 1074, 1099, 1093, 32, 1101, 1083, 1077, 1084, 1077, 1085, 1090, 1086, 1074, 32, 1076, 1086, 1089, 1090, 1091, 1087, 1085, 1099]
          @ [32, 1076, 1083, 1103, 32, 1080, 1079, 1091, 1095, 1077, 1085, 1080, 1103]
      | ConfigureLesson \<Rightarrow> if ha_session s \<noteq> None then [1040, 1074, 1090, 1086, 1084, 1072, 1090, 1080, 1095, 1077, 1089, 1082, 1080, 1077, 32, 1086, 1095, 1077, 1088, 1077, 1076, 1080, 32, 1089, 1077, 1081, 1095, 1072, 1089, 32, 1087, 1091, 1089, 1090, 1099] else [1057, 1086, 1073, 1077, 1088, 1080, 1090, 1077, 32, 1087, 1077, 1088, 1074, 1099, 1081, 32, 1091, 1095, 1077, 1073, 1085, 1099, 1081, 32, 1073, 1083, 1086, 1082])"

definition home_label :: "home_app \<Rightarrow> jstr" where
  "home_label s =
     (case nextAction s of
        ContinueLesson \<Rightarrow> [1055, 1088, 1086, 1076, 1086, 1083, 1078, 1080, 1090, 1100, 32, 1091, 1088, 1086, 1082]
      | WaitForLesson \<Rightarrow> [1047, 1072, 1075, 1088, 1091, 1078, 1072, 1077, 1084, 8230]
      | CheckLesson \<Rightarrow> [1055, 1086, 1074, 1090, 1086, 1088, 1080, 1090, 1100, 32, 1087, 1088, 1086, 1074, 1077, 1088, 1082, 1091]
      | WaitForProcesses \<Rightarrow> [1047, 1072, 1075, 1088, 1091, 1078, 1072, 1077, 1084, 8230]
      | CheckProcesses \<Rightarrow> [1055, 1086, 1074, 1090, 1086, 1088, 1080, 1090, 1100, 32, 1087, 1088, 1086, 1074, 1077, 1088, 1082, 1091]
      | StartProcess k \<Rightarrow> processActionLabel k (backlog s k)
      | ConfigureLesson \<Rightarrow> [1053, 1072, 1089, 1090, 1088, 1086, 1080, 1090, 1100, 32, 1091, 1088, 1086, 1082])"

text \<open>The button of a process that is being prepared says so.\<close>

definition home_button :: "home_app \<Rightarrow> jstr \<times> bool" where
  "home_button s =
     (let kind = (case nextAction s of StartProcess k \<Rightarrow> Some k | _ \<Rightarrow> None);
          disabled = (ha_busyProcess s \<noteq> None \<or> nextAction s = WaitForLesson \<or> nextAction s = WaitForProcesses) in
      (if kind \<noteq> None \<and> ha_busyProcess s = kind then [1055, 1086, 1076, 1075, 1086, 1090, 1072, 1074, 1083, 1080, 1074, 1072, 1077, 1084, 32, 1091, 1088, 1086, 1082, 8230] else home_label s, disabled))"

section \<open>Handlers\<close>

definition home_navigate :: "home_env \<Rightarrow> NavigationTarget \<Rightarrow> ProductJourneyIntent \<Rightarrow> home_app \<Rightarrow> home_app" where
  "home_navigate e target intent s =
     (case navigationURL target of
        Inl x \<Rightarrow> s
      | Inr url \<Rightarrow> s\<lparr>ha_journey := queueProductJourneyIntent (he_rum e) intent (ha_journey s), ha_router := ha_router s @ [url]\<rparr>)"

definition openLesson :: "home_env \<Rightarrow> home_app \<Rightarrow> home_app" where
  "openLesson e s =
     s\<lparr>ha_journey := queueProductJourneyIntent (he_rum e) HomeNextAction (ha_journey s), ha_router := ha_router s @ [lessonResumeURL]\<rparr>"

definition home_startLesson :: "LessonResultSessionKind \<Rightarrow> home_app \<Rightarrow> home_app" where
  "home_startLesson k s =
     (case ha_session s of
        None \<Rightarrow> s
      | Some x \<Rightarrow>
          if ha_busyProcess s \<noteq> None then s
          else ha_send (HomeStart x k) False [(u ''/api/v1/lessons'', Some (preview_body k))]
            (s\<lparr>ha_busyProcess := Some k, ha_actionError := []\<rparr>))"

fun home_message :: "home_env \<Rightarrow> jstr \<Rightarrow> thrown \<Rightarrow> jstr" where
  "home_message e fallback (Failure f) = rf_message f"
| "home_message e fallback AbortException = he_abort_message e"
| "home_message e fallback (TypeException m) = m"
| "home_message e fallback (ErrorException m) = m"
| "home_message e fallback OtherThrown = fallback"

definition start_answered :: "home_env \<Rightarrow> Session \<Rightarrow> thrown + Session \<times> jval \<Rightarrow> home_app \<Rightarrow> home_app" where
  "start_answered e x r s =
     (case r of
        Inr (active, v) \<Rightarrow> openLesson e ((ha_adoptSession x active s)\<lparr>ha_activeLesson := Some v\<rparr>)
      | Inl err \<Rightarrow> s\<lparr>ha_actionError := home_message e [1053, 1077, 32, 1091, 1076, 1072, 1083, 1086, 1089, 1100, 32, 1089, 1092, 1086, 1088, 1084, 1080, 1088, 1086, 1074, 1072, 1090, 1100, 32, 1091, 1095, 1077, 1073, 1085, 1099, 1081, 32, 1073, 1083, 1086, 1082] err\<rparr>)\<lparr>ha_busyProcess := None\<rparr>"

definition press_next :: "home_env \<Rightarrow> home_app \<Rightarrow> home_app" where
  "press_next e s =
     (if snd (home_button s) then s
      else case nextAction s of
          ContinueLesson \<Rightarrow> openLesson e s
        | WaitForLesson \<Rightarrow> s
        | CheckLesson \<Rightarrow> (case ha_session s of Some x \<Rightarrow> loadLessonPlan x False s | None \<Rightarrow> s)
        | WaitForProcesses \<Rightarrow> s
        | CheckProcesses \<Rightarrow> (case ha_session s of Some x \<Rightarrow> loadProcessPreviews x False s | None \<Rightarrow> s)
        | StartProcess k \<Rightarrow> home_startLesson k s
        | ConfigureLesson \<Rightarrow> home_navigate e (only_view LearnView) HomeNextAction s)"

definition press_secondary :: "LessonResultSessionKind \<Rightarrow> home_app \<Rightarrow> home_app" where
  "press_secondary k s = (if k \<in> set (secondaryProcesses s) \<and> ha_busyProcess s = None then home_startLesson k s else s)"

text \<open>The notices over the page offer to repeat a load that failed in a way that may pass.\<close>

definition home_retryable :: "ResourceStatus \<Rightarrow> bool" where
  "home_retryable st \<longleftrightarrow> ar_phase st = ErrorPhase \<and> (case ar_problem st of Some p \<Rightarrow> pb_retryable p | None \<Rightarrow> False)"

definition retry_progress :: "home_env \<Rightarrow> home_app \<Rightarrow> home_app" where
  "retry_progress e s = (case ha_session s of Some x \<Rightarrow> if home_retryable (ha_progressStatus s) then home_loadProgress e x False s else s | None \<Rightarrow> s)"

definition retry_plan :: "home_app \<Rightarrow> home_app" where
  "retry_plan s = (case ha_session s of Some x \<Rightarrow> if home_retryable (ha_activeLessonStatus s) then loadLessonPlan x False s else s | None \<Rightarrow> s)"

definition retry_processes :: "home_app \<Rightarrow> home_app" where
  "retry_processes s =
     (case ha_session s of Some x \<Rightarrow> if home_retryable (ha_processStatus s) then loadProcessPreviews x False s else s | None \<Rightarrow> s)"

end
