(* ===== verification/Home_Visit.thy ===== *)
theory Home_Visit
  imports Home_App
begin

text \<open>
  A visit of the home page of \<open>Home_App\<close>: the learner, the timer, the answers and the session act in any order, and every
  load may be repeated.  The page offers to create a lesson only after the server has said that there is none, one lesson
  is created at a time, and the page never waits for a load that is not under way.
\<close>

section \<open>Steps\<close>

definition home_taken :: "home_load \<times> bool \<Rightarrow> home_app \<Rightarrow> home_app" where
  "home_taken l s = s\<lparr>ha_flights := remove1 l (ha_flights s)\<rparr>"

text \<open>The second part of a state of a visit remembers the answers to the question for the active lesson, the latest first:
  whether the server said that there is none.\<close>

inductive home_moves :: "home_env \<Rightarrow> home_app \<times> bool list \<Rightarrow> home_app \<times> bool list \<Rightarrow> bool" for e where
  h_next: "home_moves e (s, asked) (press_next e s, asked)"
| h_secondary: "home_moves e (s, asked) (press_secondary k s, asked)"
| h_navigate: "home_moves e (s, asked) (home_navigate e target intent s, asked)"
| h_retry_progress: "home_moves e (s, asked) (retry_progress e s, asked)"
| h_retry_plan: "home_moves e (s, asked) (retry_plan s, asked)"
| h_retry_processes: "home_moves e (s, asked) (retry_processes s, asked)"
| h_session: "home_moves e (s, asked) (home_effect (s\<lparr>ha_session := x\<rparr>), asked)"
| h_timer: "x \<in> set (ha_timers s) \<Longrightarrow> home_moves e (s, asked) (home_timer e x (s\<lparr>ha_timers := []\<rparr>), asked)"
| h_progress: "(HomeProgress x, g) \<in> set (ha_flights s) \<Longrightarrow>
    home_moves e (s, asked) (progress_answered x r (home_taken (HomeProgress x, g) s), asked)"
| h_lesson: "(HomeLesson x, g) \<in> set (ha_flights s) \<Longrightarrow>
    home_moves e (s, asked) (lesson_answered x g r (home_taken (HomeLesson x, g) s), (case r of Inl err \<Rightarrow> is_missing err | Inr v \<Rightarrow> False) # asked)"
| h_previews: "(HomePreviews x, g) \<in> set (ha_flights s) \<Longrightarrow> (\<forall>active v. r = Inr (active, v) \<longrightarrow> (\<forall>k. isHomeLessonPreviewPayload k (v k))) \<Longrightarrow>
    home_moves e (s, asked) (previews_answered x r (home_taken (HomePreviews x, g) s), asked)"
| h_start: "(HomeStart x k, g) \<in> set (ha_flights s) \<Longrightarrow>
    home_moves e (s, asked) (start_answered e x r (home_taken (HomeStart x k, g) s), asked)"

inductive home_visit :: "home_env \<Rightarrow> home_app \<times> bool list \<Rightarrow> bool" for e where
  h_begin: "home_visit e (home_effect (first_home session j), [])"
| h_more: "home_visit e p \<Longrightarrow> home_moves e p q \<Longrightarrow> home_visit e q"

section \<open>The invariant\<close>

definition lesson_pending :: "home_app \<Rightarrow> bool" where
  "lesson_pending s \<longleftrightarrow> ha_timers s \<noteq> [] \<or> (\<exists>x g. (HomeLesson x, g) \<in> set (ha_flights s))"

definition previews_pending :: "home_app \<Rightarrow> bool" where
  "previews_pending s \<longleftrightarrow> (\<exists>x g. (HomePreviews x, g) \<in> set (ha_flights s))"

definition starts :: "home_app \<Rightarrow> (home_load \<times> bool) list" where
  "starts s = filter (\<lambda>(l, g). start_load l) (ha_flights s)"

text \<open>What is known of the active lesson; what is waited for; which lesson is being created.\<close>

definition lesson_known :: "home_app \<Rightarrow> bool list \<Rightarrow> bool" where
  "lesson_known s asked \<longleftrightarrow>
     (ha_activeLesson s = None \<and> ar_phase (ha_activeLessonStatus s) = ReadyPhase \<and> asked \<noteq> [] \<longrightarrow> hd asked)
     \<and> (previews_pending s \<or> ha_previews s \<noteq> EMPTY_PROCESS_PREVIEWS \<or> ar_phase (ha_processStatus s) = ErrorPhase \<longrightarrow> asked \<noteq> [])"

definition waiting_ok :: "home_app \<Rightarrow> bool" where
  "waiting_ok s \<longleftrightarrow>
     (ha_session s \<noteq> None \<and> pending_phase (ha_activeLessonStatus s) \<longrightarrow> lesson_pending s)
     \<and> (ha_session s \<noteq> None \<and> pending_phase (ha_processStatus s) \<longrightarrow> lesson_pending s \<or> previews_pending s)"

definition start_ok_home :: "home_app \<Rightarrow> bool" where
  "start_ok_home s \<longleftrightarrow>
     (case ha_busyProcess s of None \<Rightarrow> starts s = [] | Some k \<Rightarrow> \<exists>x. starts s = [(HomeStart x k, False)])"

lemma status_phases [simp]:
  "ar_phase loadingResourceStatus = LoadingPhase" "ar_phase readyResourceStatus = ReadyPhase"
  "ar_phase (failedResourceStatus err n) = ErrorPhase" "pending_phase loadingResourceStatus" "\<not> pending_phase readyResourceStatus"
  "\<not> pending_phase (failedResourceStatus err n)"
  by (simp_all add: loadingResourceStatus_def readyResourceStatus_def failedResourceStatus_def pending_phase_def)

text \<open>The parts of the state the invariant speaks of, after each operation.\<close>

lemma pending_cong:
  "ha_timers t = ha_timers s \<Longrightarrow> ha_flights t = ha_flights s \<Longrightarrow> lesson_pending t = lesson_pending s \<and> previews_pending t = previews_pending s \<and> starts t = starts s"
  by (simp add: lesson_pending_def previews_pending_def starts_def)

lemma adopt_home [simp]:
  "ha_session (ha_adoptSession c x s) = ha_session s" "ha_activeLesson (ha_adoptSession c x s) = ha_activeLesson s"
  "ha_previews (ha_adoptSession c x s) = ha_previews s" "ha_activeLessonStatus (ha_adoptSession c x s) = ha_activeLessonStatus s"
  "ha_processStatus (ha_adoptSession c x s) = ha_processStatus s" "ha_busyProcess (ha_adoptSession c x s) = ha_busyProcess s"
  "ha_timers (ha_adoptSession c x s) = ha_timers s" "ha_flights (ha_adoptSession c x s) = ha_flights s"
  by (simp_all add: ha_adoptSession_def)

definition home_ok :: "home_app \<times> bool list \<Rightarrow> bool" where
  "home_ok p \<longleftrightarrow> lesson_known (fst p) (snd p) \<and> waiting_ok (fst p) \<and> start_ok_home (fst p)"

lemma home_ok_cong:
  assumes "ha_session t = ha_session s" "ha_activeLesson t = ha_activeLesson s" "ha_previews t = ha_previews s"
    "ha_activeLessonStatus t = ha_activeLessonStatus s" "ha_processStatus t = ha_processStatus s" "ha_busyProcess t = ha_busyProcess s"
    "lesson_pending t = lesson_pending s" "previews_pending t = previews_pending s" "starts t = starts s"
  shows "home_ok (t, asked) = home_ok (s, asked)"
  unfolding home_ok_def lesson_known_def waiting_ok_def start_ok_home_def fst_conv snd_conv assms by (rule refl)

lemma sent_pending:
  "lesson_pending (ha_send l g rs s) \<longleftrightarrow> lesson_pending s \<or> (\<exists>x. l = HomeLesson x)"
  "previews_pending (ha_send l g rs s) \<longleftrightarrow> previews_pending s \<or> (\<exists>x. l = HomePreviews x)"
  "starts (ha_send l g rs s) = starts s @ (if start_load l then [(l, g)] else [])"
  by (auto simp: lesson_pending_def previews_pending_def starts_def ha_send_def)

lemma taken_pending:
  "l \<noteq> HomeLesson x \<Longrightarrow> (HomeLesson x, h) \<in> set (ha_flights (home_taken (l, g) s)) \<longleftrightarrow> (HomeLesson x, h) \<in> set (ha_flights s)"
  "l \<noteq> HomePreviews x \<Longrightarrow> (HomePreviews x, h) \<in> set (ha_flights (home_taken (l, g) s)) \<longleftrightarrow> (HomePreviews x, h) \<in> set (ha_flights s)"
  "\<not> start_load l \<Longrightarrow> starts (home_taken (l, g) s) = starts s"
  "start_load l \<Longrightarrow> starts (home_taken (l, g) s) = remove1 (l, g) (starts s)"
proof -
  have r: "y \<noteq> z \<Longrightarrow> y \<in> set (remove1 z xs) \<longleftrightarrow> y \<in> set xs" for y z :: "home_load \<times> bool" and xs by (induction xs) auto
  show "l \<noteq> HomeLesson x \<Longrightarrow> (HomeLesson x, h) \<in> set (ha_flights (home_taken (l, g) s)) \<longleftrightarrow> (HomeLesson x, h) \<in> set (ha_flights s)"
    "l \<noteq> HomePreviews x \<Longrightarrow> (HomePreviews x, h) \<in> set (ha_flights (home_taken (l, g) s)) \<longleftrightarrow> (HomePreviews x, h) \<in> set (ha_flights s)"
    by (simp_all add: home_taken_def r)
  show "\<not> start_load l \<Longrightarrow> starts (home_taken (l, g) s) = starts s" "start_load l \<Longrightarrow> starts (home_taken (l, g) s) = remove1 (l, g) (starts s)"
    by (simp_all add: starts_def home_taken_def filter_remove1)
qed

lemma home_taken_fields [simp]:
  "ha_session (home_taken l s) = ha_session s" "ha_activeLesson (home_taken l s) = ha_activeLesson s" "ha_previews (home_taken l s) = ha_previews s"
  "ha_activeLessonStatus (home_taken l s) = ha_activeLessonStatus s" "ha_processStatus (home_taken l s) = ha_processStatus s"
  "ha_busyProcess (home_taken l s) = ha_busyProcess s" "ha_timers (home_taken l s) = ha_timers s"
  by (simp_all add: home_taken_def)

lemma home_okI:
  assumes "ha_activeLesson s = None \<Longrightarrow> ar_phase (ha_activeLessonStatus s) = ReadyPhase \<Longrightarrow> asked \<noteq> [] \<Longrightarrow> hd asked"
    and "previews_pending s \<or> ha_previews s \<noteq> EMPTY_PROCESS_PREVIEWS \<or> ar_phase (ha_processStatus s) = ErrorPhase \<Longrightarrow> asked \<noteq> []"
    and "ha_session s \<noteq> None \<Longrightarrow> pending_phase (ha_activeLessonStatus s) \<Longrightarrow> lesson_pending s"
    and "ha_session s \<noteq> None \<Longrightarrow> pending_phase (ha_processStatus s) \<Longrightarrow> lesson_pending s \<or> previews_pending s"
    and "start_ok_home s"
  shows "home_ok (s, asked)"
  using assms unfolding home_ok_def lesson_known_def waiting_ok_def by simp

lemma home_okD:
  assumes "home_ok (s, asked)"
  shows "ha_activeLesson s = None \<Longrightarrow> ar_phase (ha_activeLessonStatus s) = ReadyPhase \<Longrightarrow> asked \<noteq> [] \<Longrightarrow> hd asked"
    "previews_pending s \<or> ha_previews s \<noteq> EMPTY_PROCESS_PREVIEWS \<or> ar_phase (ha_processStatus s) = ErrorPhase \<Longrightarrow> asked \<noteq> []"
    "ha_session s \<noteq> None \<Longrightarrow> pending_phase (ha_activeLessonStatus s) \<Longrightarrow> lesson_pending s"
    "ha_session s \<noteq> None \<Longrightarrow> pending_phase (ha_processStatus s) \<Longrightarrow> lesson_pending s \<or> previews_pending s"
    "start_ok_home s"
  using assms unfolding home_ok_def lesson_known_def waiting_ok_def by simp_all

lemma home_sent_fields [simp]:
  "ha_session (ha_send l g rs s) = ha_session s" "ha_activeLesson (ha_send l g rs s) = ha_activeLesson s" "ha_previews (ha_send l g rs s) = ha_previews s"
  "ha_activeLessonStatus (ha_send l g rs s) = ha_activeLessonStatus s" "ha_processStatus (ha_send l g rs s) = ha_processStatus s"
  "ha_busyProcess (ha_send l g rs s) = ha_busyProcess s" "ha_timers (ha_send l g rs s) = ha_timers s"
  by (simp_all add: ha_send_def)

text \<open>Changes of other fields.\<close>

lemma pending_update [simp]:
  "lesson_pending (s\<lparr>ha_progressStatus := a\<rparr>) = lesson_pending s" "lesson_pending (s\<lparr>ha_activeLessonStatus := a\<rparr>) = lesson_pending s"
  "lesson_pending (s\<lparr>ha_processStatus := a\<rparr>) = lesson_pending s" "lesson_pending (s\<lparr>ha_previews := b\<rparr>) = lesson_pending s"
  "lesson_pending (s\<lparr>ha_activeLesson := c\<rparr>) = lesson_pending s" "lesson_pending (s\<lparr>ha_actionError := d\<rparr>) = lesson_pending s"
  "lesson_pending (s\<lparr>ha_busyProcess := k\<rparr>) = lesson_pending s" "lesson_pending (s\<lparr>ha_progress := c\<rparr>) = lesson_pending s"
  "previews_pending (s\<lparr>ha_progressStatus := a\<rparr>) = previews_pending s" "previews_pending (s\<lparr>ha_activeLessonStatus := a\<rparr>) = previews_pending s"
  "previews_pending (s\<lparr>ha_processStatus := a\<rparr>) = previews_pending s" "previews_pending (s\<lparr>ha_previews := b\<rparr>) = previews_pending s"
  "previews_pending (s\<lparr>ha_activeLesson := c\<rparr>) = previews_pending s" "previews_pending (s\<lparr>ha_actionError := d\<rparr>) = previews_pending s"
  "previews_pending (s\<lparr>ha_busyProcess := k\<rparr>) = previews_pending s" "previews_pending (s\<lparr>ha_progress := c\<rparr>) = previews_pending s"
  "starts (s\<lparr>ha_progressStatus := a\<rparr>) = starts s" "starts (s\<lparr>ha_activeLessonStatus := a\<rparr>) = starts s"
  "starts (s\<lparr>ha_processStatus := a\<rparr>) = starts s" "starts (s\<lparr>ha_previews := b\<rparr>) = starts s"
  "starts (s\<lparr>ha_activeLesson := c\<rparr>) = starts s" "starts (s\<lparr>ha_actionError := d\<rparr>) = starts s"
  "starts (s\<lparr>ha_busyProcess := k\<rparr>) = starts s" "starts (s\<lparr>ha_progress := c\<rparr>) = starts s"
  "lesson_pending (ha_adoptSession y z s) = lesson_pending s" "previews_pending (ha_adoptSession y z s) = previews_pending s"
  "starts (ha_adoptSession y z s) = starts s"
  by (simp_all add: lesson_pending_def previews_pending_def starts_def)

lemma start_ok_same: "ha_busyProcess t = ha_busyProcess s \<Longrightarrow> starts t = starts s \<Longrightarrow> start_ok_home t = start_ok_home s"
proof -
  assume "ha_busyProcess t = ha_busyProcess s" "starts t = starts s"
  then show ?thesis unfolding start_ok_home_def by (simp only:)
qed

lemma progress_sent_ok: "home_ok (s, asked) \<Longrightarrow> home_ok (home_loadProgress e x g s, asked)"
  by (subst home_ok_cong [of _ s]) (simp_all add: home_loadProgress_def sent_pending)

lemma plan_sent_ok: "home_ok (s, asked) \<Longrightarrow> home_ok (loadLessonPlan x g s, asked)"
  by (rule home_okI) (auto simp: loadLessonPlan_def sent_pending start_ok_home_def dest: home_okD split: option.split)

lemma previews_sent_ok: "home_ok (s, asked) \<Longrightarrow> asked \<noteq> [] \<Longrightarrow> home_ok (loadProcessPreviews x g s, asked)"
  by (rule home_okI) (auto simp: loadProcessPreviews_def sent_pending start_ok_home_def dest: home_okD split: option.split)

lemma start_sent_ok: "home_ok (s, asked) \<Longrightarrow> home_ok (home_startLesson k s, asked)"
proof (cases "ha_session s")
  case (Some x)
  assume ok: "home_ok (s, asked)"
  show ?thesis
  proof (cases "ha_busyProcess s")
    case None
    then have "starts s = []" using home_okD(5) [OF ok] by (simp add: start_ok_home_def)
    with ok None Some show ?thesis
      by (intro home_okI) (auto simp: home_startLesson_def sent_pending start_ok_home_def dest: home_okD)
  qed (use ok Some in \<open>simp add: home_startLesson_def\<close>)
qed (simp add: home_startLesson_def)

lemma navigate_ok: "home_ok (s, asked) \<Longrightarrow> home_ok (home_navigate e target intent s, asked)" "home_ok (s, asked) \<Longrightarrow> home_ok (openLesson e s, asked)"
  by (subst home_ok_cong [of _ s]; simp add: home_navigate_def openLesson_def lesson_pending_def previews_pending_def starts_def split: sum.split)+


text \<open>The effect, the timer and the answers.\<close>

lemma effect_ok:
  assumes "home_ok (s, asked)"
  shows "home_ok (home_effect (s\<lparr>ha_session := x\<rparr>), asked)"
proof -
  let ?t = "home_effect (s\<lparr>ha_session := x\<rparr>)"
  have f: "ha_activeLesson ?t = ha_activeLesson s" "ha_previews ?t = ha_previews s" "ha_activeLessonStatus ?t = ha_activeLessonStatus s"
    "ha_processStatus ?t = ha_processStatus s" "ha_busyProcess ?t = ha_busyProcess s" "ha_session ?t = x"
    "ha_flights ?t = filter (\<lambda>(l, signal). \<not> signal) (ha_flights s)"
    by (cases x; simp add: home_effect_def Let_def)+
  have waits: "x \<noteq> None \<Longrightarrow> lesson_pending ?t" by (auto simp: home_effect_def Let_def lesson_pending_def split: option.split)
  have pre: "previews_pending ?t \<Longrightarrow> previews_pending s" by (auto simp: previews_pending_def f(7))
  have "starts ?t = filter (\<lambda>(l, signal). \<not> signal) (starts s)" by (simp add: starts_def f(7) conj_commute case_prod_unfold)
  then have st: "start_ok_home ?t" using home_okD(5) [OF assms] by (auto simp: start_ok_home_def f(5) split: option.splits)
  show ?thesis using home_okD [OF assms] waits pre st by (intro home_okI) (auto simp: f)
qed

lemma timer_ok: "home_ok (s, asked) \<Longrightarrow> home_ok (home_timer e x (s\<lparr>ha_timers := []\<rparr>), asked)"
proof -
  assume ok: "home_ok (s, asked)"
  let ?t = "home_timer e x (s\<lparr>ha_timers := []\<rparr>)"
  have f: "ha_activeLesson ?t = ha_activeLesson s" "ha_previews ?t = ha_previews s" "ha_activeLessonStatus ?t = loadingResourceStatus"
    "ha_processStatus ?t = ha_processStatus s" "ha_busyProcess ?t = ha_busyProcess s" "lesson_pending ?t" "previews_pending ?t = previews_pending s"
    "starts ?t = starts s"
    by (simp_all add: home_timer_def loadLessonPlan_def home_loadProgress_def sent_pending) (simp_all add: previews_pending_def starts_def)
  show ?thesis using home_okD [OF ok] start_ok_same [OF f(5,8)] by (intro home_okI) (simp_all add: f)
qed

lemma progress_answer_ok: "home_ok (s, asked) \<Longrightarrow> home_ok (progress_answered x r (home_taken (HomeProgress x, g) s), asked)"
  by (subst home_ok_cong [of _ s])
    (auto simp: progress_answered_def lesson_pending_def previews_pending_def taken_pending starts_def home_taken_def filter_remove1 ha_adoptSession_def
      split: sum.split)

lemma lesson_answer_ok:
  assumes "home_ok (s, asked)"
  shows "home_ok (lesson_answered x g r (home_taken (HomeLesson x, g) s), (case r of Inl err \<Rightarrow> is_missing err | Inr v \<Rightarrow> False) # asked)"
proof -
  let ?s = "home_taken (HomeLesson x, g) s"
  have st: "start_ok_home ?s" using home_okD(5) [OF assms] start_ok_same [of ?s s] by (simp add: taken_pending)
  show ?thesis
  proof (cases r)
    case (Inr p)
    then obtain active v where r: "r = Inr (active, v)" by (cases p) simp
    have "start_ok_home (lesson_answered x g r ?s)"
      using st by (subst start_ok_same [of _ ?s]) (simp_all add: r lesson_answered_def no_previews_def)
    then show ?thesis unfolding r by (intro home_okI) (simp_all add: lesson_answered_def no_previews_def)
  next
    case (Inl err)
    show ?thesis
    proof (cases "is_missing err")
      case True
      have "start_ok_home (lesson_answered x g r ?s)"
        using st by (subst start_ok_same [of _ ?s]) (simp_all add: Inl True lesson_answered_def loadProcessPreviews_def sent_pending)
      then show ?thesis by (intro home_okI) (simp_all add: Inl True lesson_answered_def loadProcessPreviews_def sent_pending)
    next
      case False
      have "start_ok_home (lesson_answered x g r ?s)"
        using st by (subst start_ok_same [of _ ?s]) (simp_all add: Inl False lesson_answered_def no_previews_def)
      then show ?thesis by (intro home_okI) (simp_all add: Inl False lesson_answered_def no_previews_def)
    qed
  qed
qed

lemma previews_answer_ok:
  assumes "home_ok (s, asked)" "(HomePreviews x, g) \<in> set (ha_flights s)"
  shows "home_ok (previews_answered x r (home_taken (HomePreviews x, g) s), asked)"
proof -
  let ?s = "home_taken (HomePreviews x, g) s"
  let ?t = "previews_answered x r ?s"
  have asked: "asked \<noteq> []" using home_okD(2) [OF assms(1)] assms(2) by (auto simp: previews_pending_def)
  have f: "ha_session ?t = ha_session s" "ha_activeLesson ?t = ha_activeLesson s" "ha_activeLessonStatus ?t = ha_activeLessonStatus s"
    "ha_busyProcess ?t = ha_busyProcess s" "starts ?t = starts s" "\<not> pending_phase (ha_processStatus ?t)"
    by (simp_all add: previews_answered_def taken_pending split: sum.split prod.split)
  have l: "lesson_pending ?t = lesson_pending s"
    by (simp add: previews_answered_def lesson_pending_def taken_pending split: sum.split prod.split)
  show ?thesis using home_okD [OF assms(1)] asked start_ok_same [OF f(4,5)] by (intro home_okI) (simp_all add: f l)
qed

lemma start_answer_ok:
  assumes "home_ok (s, asked)" "(HomeStart x k, g) \<in> set (ha_flights s)"
  shows "home_ok (start_answered e x r (home_taken (HomeStart x k, g) s), asked)"
proof -
  let ?s = "home_taken (HomeStart x k, g) s"
  let ?t = "start_answered e x r ?s"
  have m: "(HomeStart x k, g) \<in> set (starts s)" using assms(2) by (simp add: starts_def)
  then have "starts s = [(HomeStart x k, g)]" using home_okD(5) [OF assms(1)] by (auto simp: start_ok_home_def split: option.splits)
  then have none: "starts ?s = []" by (simp add: taken_pending)
  have f: "ha_session ?t = ha_session s" "ha_activeLessonStatus ?t = ha_activeLessonStatus s" "ha_processStatus ?t = ha_processStatus s"
    "ha_previews ?t = ha_previews s" "ha_busyProcess ?t = None" "ha_activeLesson ?t = None \<Longrightarrow> ha_activeLesson s = None"
    "lesson_pending ?t = lesson_pending ?s" "previews_pending ?t = previews_pending ?s" "starts ?t = []"
    by (auto simp: start_answered_def openLesson_def lesson_pending_def previews_pending_def starts_def none [unfolded starts_def] ha_adoptSession_def
        split: sum.splits prod.splits)
  have p: "lesson_pending ?s = lesson_pending s" "previews_pending ?s = previews_pending s"
    by (simp_all add: lesson_pending_def previews_pending_def taken_pending)
  show ?thesis using home_okD [OF assms(1)] f(6) by (intro home_okI) (simp_all add: f(1-5,7-9) p start_ok_home_def)
qed


lemma move_home_ok: "home_moves e p q \<Longrightarrow> home_ok p \<Longrightarrow> home_ok q"
proof (induction rule: home_moves.induct)
  case (h_next s asked)
  have c: "asked \<noteq> []" if "nextAction s = CheckProcesses"
    using that home_okD(2) [OF h_next] by (auto simp: nextAction_def split: if_splits option.splits)
  show ?case
    using h_next c by (auto simp: press_next_def navigate_ok plan_sent_ok previews_sent_ok start_sent_ok split: home_step.split option.split)
next
  case (h_retry_processes s asked)
  have "asked \<noteq> []" if "home_retryable (ha_processStatus s)" using that home_okD(2) [OF h_retry_processes] by (simp add: home_retryable_def)
  then show ?case using h_retry_processes by (auto simp: retry_processes_def previews_sent_ok split: option.split)
qed (auto simp: press_secondary_def start_sent_ok navigate_ok retry_progress_def progress_sent_ok retry_plan_def plan_sent_ok
    intro: effect_ok timer_ok progress_answer_ok lesson_answer_ok previews_answer_ok start_answer_ok split: option.split)

lemma first_home_ok: "home_ok (home_effect (first_home session j), [])"
  by (rule home_okI) (cases session; simp add: home_effect_def first_home_def Let_def lesson_pending_def previews_pending_def starts_def start_ok_home_def EMPTY_PROCESS_PREVIEWS_def)+

lemma visit_home_ok: "home_visit e p \<Longrightarrow> home_ok p"
  by (induction rule: home_visit.induct) (blast intro: first_home_ok move_home_ok)+

text \<open>C17: In every visit of the home page, in whatever order the answers arrive and whatever is repeated: a process is
  offered only when the last answer of the server to the question for an active lesson was that there is none, its queue
  is not empty, and the main button offers no new material while there is something to repeat or to remedy; at most
  one lesson is being created, by the process that is busy; and when the button waits, a load is under way.\<close>

theorem home_offers_are_checked:
  assumes "home_visit e (s, asked)"
  shows "(ha_session s \<noteq> None \<and> nextAction s = StartProcess k \<or> k \<in> set (secondaryProcesses s) \<longrightarrow> asked \<noteq> [] \<and> hd asked \<and> backlog s k > 0)
    \<and> (nextAction s = StartProcess KindStudy \<longrightarrow> \<not> backlog s KindReview > 0 \<and> \<not> backlog s KindRemediation > 0)
    \<and> length (starts s) \<le> 1 \<and> (\<forall>x j g. (HomeStart x j, g) \<in> set (ha_flights s) \<longrightarrow> ha_busyProcess s = Some j \<and> snd (home_button s))
    \<and> (nextAction s = WaitForLesson \<or> nextAction s = WaitForProcesses \<longrightarrow> lesson_pending s \<or> previews_pending s)"
proof -
  note ok = home_okD [OF visit_home_ok [OF assms]]
  have empty: "\<not> backlog s j > 0" if "ha_previews s = EMPTY_PROCESS_PREVIEWS" for j
    using that by (simp add: backlog_def EMPTY_PROCESS_PREVIEWS_def processBacklog_def)
  have offered: "asked \<noteq> [] \<and> hd asked \<and> backlog s k > 0" if "ha_activeLesson s = None" "ar_phase (ha_activeLessonStatus s) = ReadyPhase" "backlog s k > 0"
    using that ok(1,2) empty by blast
  have next_kind: "recommendedProcessKind s = Some j \<and> ha_activeLesson s = None" if "nextAction s = StartProcess j" for j
    using that by (auto simp: nextAction_def split: if_splits option.splits)
  have rec: "backlog s j > 0 \<and> (j = KindStudy \<longrightarrow> \<not> backlog s KindReview > 0 \<and> \<not> backlog s KindRemediation > 0)"
    if "recommendedProcessKind s = Some j" for j
    using that by (auto simp: recommendedProcessKind_def split: if_splits)
  have ready: "ar_phase (ha_activeLessonStatus s) = ReadyPhase" if "ha_session s \<noteq> None" "nextAction s = StartProcess j" for j
    using that by (cases "ar_phase (ha_activeLessonStatus s)") (auto simp: nextAction_def pending_phase_def split: if_splits option.splits)
  have "asked \<noteq> [] \<and> hd asked \<and> backlog s k > 0" if "ha_session s \<noteq> None \<and> nextAction s = StartProcess k \<or> k \<in> set (secondaryProcesses s)"
    using that
  proof
    assume a: "ha_session s \<noteq> None \<and> nextAction s = StartProcess k"
    have "ha_activeLesson s = None" "recommendedProcessKind s = Some k" using next_kind [of k] a by simp_all
    moreover have "ar_phase (ha_activeLessonStatus s) = ReadyPhase" using ready [of k] a by simp
    ultimately show ?thesis using offered rec [of k] by simp
  next
    assume "k \<in> set (secondaryProcesses s)"
    then show ?thesis using offered by (auto simp: secondaryProcesses_def split: if_splits)
  qed
  moreover have "length (starts s) \<le> 1" using ok(5) by (auto simp: start_ok_home_def split: option.splits)
  moreover have "ha_busyProcess s = Some j \<and> snd (home_button s)" if "(HomeStart x j, g) \<in> set (ha_flights s)" for x j g
  proof -
    have "(HomeStart x j, g) \<in> set (starts s)" using that by (simp add: starts_def)
    then have "ha_busyProcess s = Some j" using ok(5) by (auto simp: start_ok_home_def split: option.splits)
    then show ?thesis by (simp add: home_button_def Let_def)
  qed
  moreover have "lesson_pending s \<or> previews_pending s" if "nextAction s = WaitForLesson \<or> nextAction s = WaitForProcesses"
    using that ok(3,4) by (auto simp: nextAction_def split: if_splits option.splits)
  moreover have "\<not> backlog s KindReview > 0 \<and> \<not> backlog s KindRemediation > 0" if "nextAction s = StartProcess KindStudy"
    using next_kind [OF that] rec [of KindStudy] by blast
  ultimately show ?thesis by blast
qed

text \<open>A visit in which the server has no active lesson and three items to remedy.\<close>

definition home_reader :: Session where
  "home_reader = \<lparr>ss_user = \<lparr>us_id = u ''u1'', us_email = u ''a@b.c'', us_displayName = u ''A'', us_createdAt = u ''2026''\<rparr>,
     ss_tokens = \<lparr>accessToken = u ''t'', tokenType = u ''Bearer'', expiresIn = 900\<rparr>\<rparr>"

definition preview_of :: "LessonResultSessionKind \<Rightarrow> nat \<Rightarrow> jval" where
  "preview_of k n = JObj [(u ''source'', JStr (u ''mixed'')), (u ''studyMode'', JStr (home_mode k)), (u ''sessionKind'', JStr (u (session_kind_text k))),
     (u ''lessonSize'', JStr (u ''15'')), (u ''composition'', JObj (map (\<lambda>f. (u f, JNum (if f = ''availableWords'' then jnat n else 0)))
        [''total'', ''words'', ''phrases'', ''due'', ''new'', ''scheduled'', ''availableWords'', ''availablePhrases'']))]"

definition home_example :: home_env where
  "home_example = \<lparr>he_offset = 0, he_abort_message = [], he_rum = sample_env\<rparr>"

lemma home_offers_are_checked_witness:
  "\<exists>s asked. home_visit home_example (s, asked) \<and> nextAction s = StartProcess KindRemediation \<and> asked = [True]
    \<and> backlog s KindRemediation > 0 \<and> \<not> backlog s KindReview > 0"
proof -
  let ?e = home_example
  define s0 where "s0 = home_effect (first_home (Some home_reader) first_page)"
  define s1 where "s1 = home_timer ?e home_reader (s0\<lparr>ha_timers := []\<rparr>)"
  define missing where "missing = Failure (newRequestFailure ClientFault [] (no_options\<lparr>fo_status := Some 404\<rparr>))"
  define s2 where "s2 = lesson_answered home_reader True (Inl missing) (home_taken (HomeLesson home_reader, True) s1)"
  define v where "v = (\<lambda>k. preview_of k (if k = KindRemediation then 3 else 0))"
  define s3 where "s3 = previews_answered home_reader (Inr (home_reader, v)) (home_taken (HomePreviews home_reader, True) s2)"
  have t: "home_reader \<in> set (ha_timers s0)" by (simp add: s0_def home_effect_def first_home_def Let_def)
  have f1: "(HomeLesson home_reader, True) \<in> set (ha_flights s1)" by (simp add: s1_def home_timer_def loadLessonPlan_def ha_send_def)
  have miss: "is_missing missing" by (simp add: is_missing_def missing_def newRequestFailure_def no_options_def)
  have f2: "(HomePreviews home_reader, True) \<in> set (ha_flights s2)"
    by (simp add: s2_def lesson_answered_def miss loadProcessPreviews_def ha_send_def)
  have p: "isHomeLessonPreviewPayload k (v k)" for k
    by (cases k) (simp_all add: v_def preview_of_def isHomeLessonPreviewPayload_def isRecord_def is_lit_def home_count_def v_isInteger_def num_of_def u_eq_iff)
  have "home_visit ?e (s1, [])" unfolding s1_def s0_def by (rule h_more [OF h_begin h_timer]) (rule t [unfolded s0_def])
  then have "home_visit ?e (s2, [True])"
    unfolding s2_def using h_more [OF _ h_lesson [OF f1, of ?e "[]" "Inl missing"]] miss by simp
  then have visit: "home_visit ?e (s3, [True])"
    unfolding s3_def by (rule h_more [OF _ h_previews [OF f2]]) (simp add: p)
  have s2: "ha_session s2 = Some home_reader" "ha_activeLesson s2 = None" "ha_activeLessonStatus s2 = readyResourceStatus"
    by (simp_all add: s2_def lesson_answered_def miss loadProcessPreviews_def s1_def home_timer_def loadLessonPlan_def home_loadProgress_def
        s0_def home_effect_def first_home_def Let_def)
  have b: "backlog s3 k = (if k = KindRemediation then 3 else 0)" for k
    by (simp add: s3_def previews_answered_def backlog_def processBacklog_def v_def preview_of_def num_of_def u_eq_iff)
  have s3: "ha_session s3 = Some home_reader" "ha_activeLesson s3 = None" "ha_activeLessonStatus s3 = readyResourceStatus" "ha_processStatus s3 = readyResourceStatus"
    by (simp_all add: s3_def previews_answered_def s2)
  have "recommendedProcessKind s3 = Some KindRemediation" by (simp add: recommendedProcessKind_def b)
  then have n: "nextAction s3 = StartProcess KindRemediation" by (simp add: nextAction_def s3)
  then show ?thesis using home_offers_are_checked [OF visit, of KindRemediation] visit s3(1) b by (intro exI [of _ s3] exI [of _ "[True]"]) simp
qed

end
