(* ===== verification/Spec2Isabelle.thy ===== *)
theory Spec2Isabelle
  imports
    Js_Storage Js_Uri Review_Outbox Review_Runtime Auth_Session Session_Bootstrap Request_Failure Feedback Learning Lesson_Flow Lesson_Result Progress Recorder Scenarios Navigation Nav_History Calendar Build_Update Rum Account_Resources Journey Active_Lesson Lesson_Visit Lesson_Turns Scenario_App Scenario_Visit Catalog Auth_Forms Phrase_Data Route_Shell Phrases Phrases_App Phrases_Visit Guest_Phrases Dictionary Home_App Home_Visit
begin

text \<open>
  LexiGo is a vocabulary trainer: a Next.js client (\<open>src/frontend\<close>) and a Go server.  The theories model the logic of
  the client.  The library modules of \<open>src/frontend/lib\<close> are translated function by function; of the components of
  \<open>src/frontend/components\<close> the home page, the lesson screen, the scenario screen, the phrase catalog and the review runtime are translated as state
  machines whose state is what the component keeps and whose steps are its handlers, its effects and the answers it
  receives.

  How the parts interact.  A page is opened with the session that \<open>session-bootstrap.ts\<close> restores and caches
  (Session_Bootstrap).  Its requests go through \<open>authorized-json.ts\<close> and \<open>auth-session.ts\<close> (Auth_Session), which refresh
  the token once, and through the client cache and the classification of failures of \<open>request-failure.ts\<close>
  (Request_Failure).  What the server answers is accepted by the guards of \<open>account-resources.ts\<close>, \<open>progress.ts\<close> and
  \<open>scenarios.ts\<close> (Account_Resources, Progress, Scenarios).  A lesson is chosen and judged by \<open>learning.ts\<close> (Learning),
  advanced by \<open>lesson-flow.ts\<close> (Lesson_Flow), run by the component \<open>lexigo-active-lesson-app.tsx\<close> (Active_Lesson,
  Lesson_Visit, Lesson_Turns) and ends in a snapshot of \<open>lesson-result.ts\<close> (Lesson_Result).  Its reviews pass
  \<open>review-outbox-runtime.tsx\<close> (Review_Runtime), which writes each one to the durable queue of \<open>review-outbox.ts\<close>
  (Review_Outbox) before it is sent.  A work scenario is run by \<open>lexigo-scenario-app.tsx\<close> (Scenario_App,
  Scenario_Visit) over the drafts and submissions of Scenarios.  Addresses, the history entries, the tabs and the scroll
  positions are \<open>navigation.ts\<close> and its neighbours (Navigation, Nav_History), the product journey \<open>product-journey.ts\<close>
  (Journey).  Around them stand the feedback queue (Feedback), the calendar reminder (Calendar), the pronunciation
  recorder (Recorder), the build guard (Build_Update) and the performance reports (Rum).  The dictionary and the phrase catalog
  share pages, orders, counts and labels (Catalog); the phrase catalog \<open>lexigo-phrases-app.tsx\<close> (Phrases, Phrases_App, Phrases_Visit)
  shows to a guest the phrases that are built in (Phrase_Data, Guest_Phrases).  The state of a page that has its own history
  entries is Route_Shell, which the phrase catalog extends; the words of the dictionary are Dictionary; the home page
  \<open>lexigo-home-app.tsx\<close> (Home_App, Home_Visit) asks for the active lesson and offers what to do next; the sign-in forms and the way back from
  them are Auth_Forms.

  The language (theories Js_*).  Js_Prelude has the values the code computes with: a string is its list of UTF-16 code
  units, a number an exact rational, an infinity or NaN, a JSON value a tree whose objects keep their keys in order;
  an exception is the left side of a sum.  Js_Json is JSON.stringify and JSON.parse with their round trip, Js_Storage
  the web storage whose operations may throw, Js_Idb an IndexedDB store, Js_Uri the percent encoding down to UTF-8
  bytes, Js_Date numbers as text and the Gregorian calendar.  Js_Storage and Js_Idb state what their clients
  rely on as locales, interpreted on these stores.  What the code takes from its environment is an argument of the
  definitions: the clock, the random bytes, the parser of dates, the lower case of Unicode, the time zone data, the
  answers of the network and of the permission prompts.

  What the lemmas show.
    Review_Outbox, Review_Runtime: a review is stored before it is sent, never overwritten, sent in the order of the queue,
      marked synced only after an answer that confirms it, and removed only after that.
    Active_Lesson, Lesson_Visit, Lesson_Turns: what is on the lesson screen in every visit, one review in flight at a time,
      and that a lesson whose reviews the server accepts reaches its result.
    Scenario_App, Scenario_Visit: the edited text is what a reload shows, a submission identity belongs to one answer, the
      fallback identifier is a UUID.
    Lesson_Flow, Lesson_Result, Learning, Progress: the decision to advance, the snapshot and its survival in the storage, the
      fair mix of items, the judgement of answers, the staleness of progress after a review.
    Request_Failure, Auth_Session, Session_Bootstrap: every response and exception has its class, a cached answer is the
      caller's own and fresh, refreshes are bounded, a cached session is the newest one.
    Navigation, Nav_History, Journey, Feedback, Calendar, Build_Update, Rum, Recorder, Scenarios, Account_Resources: round trips of
      addresses and drafts, the restoration of tabs and scroll positions, the path of the journey, the toast queue, the
      next occurrence of the reminder and its calendar file, at most one reload per build, the delivery of
      samples, the release of the microphone, the types of the accepted payloads.
    Catalog, Auth_Forms, Guest_Phrases: the pages partition a catalog, sorting is canonical, signing in leads back to the
      filters, a guest finds every built-in phrase, can open it and can solve its exercise.
    Phrases_Visit: what the phrase catalog shows belongs to its address in every visit without retries, and how a retried
      load or a closed card breaks that.

    Home_Visit: the home page offers to create a lesson only after the server has said that there is none, one at a time.

  Assumptions.  A handler sees the state of the last render, so two handlers never run between a change of the state and
  the render that follows it.  Values that passed a guard have the type the guard claims; a declared TypeScript type
  of an argument is the type of the model.  Where a property speaks of the server, its promise is a named predicate of
  the statement (server_lesson, server_reviews, attempt_served) and a witness runs a visit in which it holds.  Of the
  libraries that are parameters, collation states that the sign of localeCompare is that of a total preorder, and
  standard_url that the URL class reads a path of the site as it is written.

  Bounds and fuel.  The recursions are structural or have a measure; the searches that the code bounds (the days of
  the reminder, the retries of a restoration, the passes over the queue) carry the bound of the code.  The printer of
  numbers is total on the integers the code stores; positions of scenario steps are bounded where they are
  written into a key.

  Not modelled.  The markup of the presentation components, style sheets and focus handling; calls of browser services that keep no state here (speech, clipboard, service worker script); the tests; the
  server.  The route components besides those above and the compatibility application are not translated.
\<close>

end
